(* ===== verification/Prelude.thy ===== *)
theory Prelude imports Main begin

text \<open>
  Shared vocabulary of the development: the collections its proofs draw on, the result type for
  Python code that may raise, and the pieces of Python's text API the sources use (on ASCII
  text, one \<open>char\<close> per character).
\<close>

section \<open>Code that may raise\<close>

text \<open>\<open>Inl e\<close> is a raised exception, \<open>Inr a\<close> a returned value.\<close>

type_synonym ('e, 'a) outcome = "'e + 'a"

fun obind :: "'e + 'a \<Rightarrow> ('a \<Rightarrow> 'e + 'b) \<Rightarrow> 'e + 'b" where
  "obind (Inl e) f = Inl e"
| "obind (Inr a) f = f a"

lemma obind_Inr_iff [simp]: "obind m f = Inr b \<longleftrightarrow> (\<exists>a. m = Inr a \<and> f a = Inr b)"
  by (cases m) auto

lemma obind_Inl_iff: "obind m f = Inl e \<longleftrightarrow> m = Inl e \<or> (\<exists>a. m = Inr a \<and> f a = Inl e)"
  by (cases m) auto

definition raise_unless :: "bool \<Rightarrow> 'e \<Rightarrow> 'e + unit" where
  "raise_unless ok e = (if ok then Inr () else Inl e)"

lemma raise_unless_simps [simp]:
  "raise_unless True e = Inr ()" "raise_unless False e = Inl e"
  "raise_unless b e = Inr u \<longleftrightarrow> b"
  by (auto simp: raise_unless_def)

text \<open>Running a list of fallible checks in order stops at the first one that raises.\<close>

fun all_ok :: "('a \<Rightarrow> 'e + 'b) \<Rightarrow> 'a list \<Rightarrow> 'e + 'b list" where
  "all_ok f [] = Inr []"
| "all_ok f (x # xs) = obind (f x) (\<lambda>y. obind (all_ok f xs) (\<lambda>ys. Inr (y # ys)))"

lemma all_ok_length: "all_ok f xs = Inr ys \<Longrightarrow> length ys = length xs"
  by (induction xs arbitrary: ys) auto

lemma all_ok_nth: "all_ok f xs = Inr ys \<Longrightarrow> i < length xs \<Longrightarrow> f (xs ! i) = Inr (ys ! i)"
proof (induction xs arbitrary: ys i)
  case Nil
  then show ?case by simp
next
  case (Cons x xs)
  then show ?case by (cases i) auto
qed

lemma all_ok_member: "all_ok f xs = Inr ys \<Longrightarrow> y \<in> set ys \<Longrightarrow> \<exists>x \<in> set xs. f x = Inr y"
  by (induction xs arbitrary: ys) auto

section \<open>Text\<close>

text \<open>\<open>str.isspace\<close>, \<open>str.lower\<close>, \<open>str.upper\<close> and \<open>str.strip\<close> on ASCII characters.\<close>

definition code_of :: "char \<Rightarrow> nat" where
  "code_of c = of_char c"

definition is_space :: "char \<Rightarrow> bool" where
  "is_space c \<longleftrightarrow> (let n = code_of c in (9 \<le> n \<and> n \<le> 13) \<or> (28 \<le> n \<and> n \<le> 32))"

definition lower_char :: "char \<Rightarrow> char" where
  "lower_char c = (let n = code_of c in if 65 \<le> n \<and> n \<le> 90 then char_of (n + 32) else c)"

definition upper_char :: "char \<Rightarrow> char" where
  "upper_char c = (let n = code_of c in if 97 \<le> n \<and> n \<le> 122 then char_of (n - 32) else c)"

definition str_lower :: "string \<Rightarrow> string" where
  "str_lower s = map lower_char s"

definition str_upper :: "string \<Rightarrow> string" where
  "str_upper s = map upper_char s"

definition str_strip :: "string \<Rightarrow> string" where
  "str_strip s = rev (dropWhile is_space (rev (dropWhile is_space s)))"

definition is_alpha :: "char \<Rightarrow> bool" where
  "is_alpha c \<longleftrightarrow> (let n = code_of c in (65 \<le> n \<and> n \<le> 90) \<or> (97 \<le> n \<and> n \<le> 122))"

definition is_digit :: "char \<Rightarrow> bool" where
  "is_digit c \<longleftrightarrow> (let n = code_of c in 48 \<le> n \<and> n \<le> 57)"

definition is_lower_hex :: "char \<Rightarrow> bool" where
  "is_lower_hex c \<longleftrightarrow> is_digit c \<or> (let n = code_of c in 97 \<le> n \<and> n \<le> 102)"

lemma dropWhile_rev_id: "xs \<noteq> [] \<Longrightarrow> \<not> p (last xs) \<Longrightarrow> dropWhile p (rev xs) = rev xs"
  by (cases xs rule: rev_cases) auto

lemma str_strip_id:
  assumes "s \<noteq> []" "\<not> is_space (hd s)" "\<not> is_space (last s)"
  shows "str_strip s = s"
proof -
  have "dropWhile is_space s = s" using assms by (cases s) auto
  then show ?thesis using assms by (simp add: str_strip_def dropWhile_rev_id)
qed

lemma dropWhile_dropWhile_rev:
  "dropWhile p (rev (dropWhile p (rev (dropWhile p xs)))) = rev (dropWhile p (rev (dropWhile p xs)))"
proof (cases "dropWhile p xs")
  case Nil
  then show ?thesis by (simp del: dropWhile_eq_Nil_conv)
next
  case (Cons y ys)
  then have "\<not> p y" by (metis hd_dropWhile list.distinct(1) list.sel(1))
  then show ?thesis using Cons by (simp add: dropWhile_append)
qed

lemma str_strip_idem [simp]: "str_strip (str_strip s) = str_strip s"
  by (simp add: str_strip_def dropWhile_dropWhile_rev)

text \<open>\<open>str\<close> of an integer.\<close>

fun nat_digits :: "nat \<Rightarrow> string" where
  "nat_digits n = (if n < 10 then [char_of (48 + n)] else nat_digits (n div 10) @ [char_of (48 + n mod 10)])"

declare nat_digits.simps [simp del]

definition int_text :: "int \<Rightarrow> string" where
  "int_text i = (if i < 0 then CHR ''-'' # nat_digits (nat (- i)) else nat_digits (nat i))"

section \<open>Association lists in source order\<close>

text \<open>
  The sources iterate over literal dictionaries; their order decides which check reports first.
  A literal dictionary is an association list with distinct keys.
\<close>

lemma map_of_Some_in: "map_of xs k = Some v \<Longrightarrow> (k, v) \<in> set xs"
  by (rule map_of_SomeD)

lemma list_all_find_None: "find p xs = None \<longleftrightarrow> list_all (\<lambda>x. \<not> p x) xs"
  by (induction xs) auto

end
