(* ===== verification/PyFloat.thy ===== *)
theory PyFloat imports Prelude "HOL-Library.Log_Nat" begin

text \<open>
  Python floats: IEEE-754 binary64 with round-to-nearest, ties to even. A finite float is its
  exact rational value; the arithmetic operators round the exact rational result to 53
  significant bits (fewer below the least normal exponent) and overflow to an infinity, as
  CPython's C doubles do. The sign of zero is not recorded: no operation modelled here can
  observe it.
\<close>

section \<open>Rounding\<close>

text \<open>\<open>flog2 q\<close> is the binary exponent of a positive rational: \<open>2 powi flog2 q \<le> q < 2 powi (flog2 q + 1)\<close>.\<close>

definition flog2 :: "rat \<Rightarrow> int" where
  "flog2 q = (let (n, d) = quotient_of q; e = bitlen n - bitlen d
     in if 2 powi e \<le> q then e else e - 1)"

definition round_half_even :: "rat \<Rightarrow> int" where
  "round_half_even x = (let f = \<lfloor>x\<rfloor>; r = x - of_int f
     in if r < 1 / 2 then f else if r > 1 / 2 then f + 1 else if even f then f else f + 1)"

definition ulp_exp :: "rat \<Rightarrow> int" where
  "ulp_exp q = max (flog2 \<bar>q\<bar> - 52) (- 1074)"

definition frnd :: "rat \<Rightarrow> rat" where
  "frnd q = (if q = 0 then 0
     else let e = ulp_exp q in of_int (round_half_even (q / 2 powi e)) * 2 powi e)"

lemma flog2_bounds:
  assumes "0 < q"
  shows "2 powi (flog2 q) \<le> q" and "q < 2 powi (flog2 q + 1)"
proof -
  obtain n d where nd: "quotient_of q = (n, d)" by (cases "quotient_of q")
  have d: "0 < d" using nd by (rule quotient_of_denom_pos)
  have q: "q = of_int n / of_int d" using nd by (rule quotient_of_div)
  have n: "0 < n" using assms d q by (simp add: zero_less_divide_iff)
  let ?e = "bitlen n - bitlen d"
  have bl: "1 \<le> bitlen n" "1 \<le> bitlen d" using n d bitlen_bounds [OF n] bitlen_bounds [OF d]
    by (auto simp: int_one_le_iff_zero_less bitlen_def floorlog_def)
  have nb: "2 ^ nat (bitlen n - 1) \<le> n" "n < 2 ^ nat (bitlen n)" using bitlen_bounds [OF n] by auto
  have db: "2 ^ nat (bitlen d - 1) \<le> d" "d < 2 ^ nat (bitlen d)" using bitlen_bounds [OF d] by auto
  have pw: "\<And>k. 0 \<le> k \<Longrightarrow> (2::rat) powi k = of_int (2 ^ nat k)" by (simp add: power_int_def)
  have n1: "(2::rat) powi (bitlen n - 1) \<le> of_int n" "(of_int n :: rat) < 2 powi (bitlen n)"
    using nb bl by (simp_all add: pw del: of_int_power of_int_numeral flip: of_int_le_iff of_int_less_iff)
  have d1: "(2::rat) powi (bitlen d - 1) \<le> of_int d" "(of_int d :: rat) < 2 powi (bitlen d)"
    using db bl by (simp_all add: pw del: of_int_power of_int_numeral flip: of_int_le_iff of_int_less_iff)
  have dpos: "(0::rat) < of_int d" using d by simp
  have lo: "2 powi (?e - 1) \<le> q"
  proof -
    have "2 powi (?e - 1) * of_int d \<le> 2 powi (?e - 1) * (2::rat) powi (bitlen d)"
      using d1 by (intro mult_left_mono) auto
    also have "\<dots> = 2 powi (bitlen n - 1)" by (simp flip: power_int_add)
    also have "\<dots> \<le> of_int n" by (rule n1)
    finally show ?thesis using dpos by (simp add: q pos_le_divide_eq)
  qed
  have hi: "q < 2 powi (?e + 1)"
  proof -
    have "of_int n < (2::rat) powi (bitlen n)" by (rule n1)
    also have "\<dots> = 2 powi (?e + 1) * 2 powi (bitlen d - 1)" by (simp flip: power_int_add)
    also have "\<dots> \<le> 2 powi (?e + 1) * of_int d" using d1 by (intro mult_left_mono) auto
    finally show ?thesis using dpos by (simp add: q pos_divide_less_eq)
  qed
  show "2 powi (flog2 q) \<le> q" using lo by (simp add: flog2_def nd Let_def)
  show "q < 2 powi (flog2 q + 1)" using hi by (simp add: flog2_def nd Let_def)
qed

lemma flog2_unique:
  assumes "2 powi k \<le> q" "q < 2 powi (k + 1)"
  shows "flog2 q = k"
proof -
  have q: "0 < q" using assms(1) by (smt (verit) zero_less_power_int zero_less_numeral less_le_trans)
  have mono: "\<And>a b. (2::rat) powi a < 2 powi b \<Longrightarrow> a < b"
    by (metis linorder_not_less one_le_numeral power_int_increasing)
  have "(2::rat) powi (flog2 q) < 2 powi (k + 1)" using flog2_bounds(1) [OF q] assms(2) by (rule le_less_trans)
  moreover have "(2::rat) powi k < 2 powi (flog2 q + 1)" using assms(1) flog2_bounds(2) [OF q] by (rule le_less_trans)
  ultimately have "flog2 q < k + 1" "k < flog2 q + 1" by (auto dest: mono)
  then show ?thesis by simp
qed

lemma flog2_mono: "0 < p \<Longrightarrow> p \<le> q \<Longrightarrow> flog2 p \<le> flog2 q"
proof -
  assume p: "0 < p" and pq: "p \<le> q"
  have "(2::rat) powi (flog2 p) \<le> p" by (rule flog2_bounds [OF p])
  also have "p \<le> q" by (rule pq)
  also have "q < 2 powi (flog2 q + 1)" using p pq by (intro flog2_bounds) simp
  finally show ?thesis
    by (metis linorder_not_less one_le_numeral power_int_increasing add1_zle_eq less_imp_not_less zless_add1_eq order_less_le)
qed

lemma round_half_even_of_int [simp]: "round_half_even (of_int k) = k"
  by (simp add: round_half_even_def)

lemma round_half_even_mono: "x \<le> y \<Longrightarrow> round_half_even x \<le> round_half_even y"
proof -
  assume xy: "x \<le> y"
  have f: "\<lfloor>x\<rfloor> \<le> \<lfloor>y\<rfloor>" using xy by (rule floor_mono)
  show ?thesis
  proof (cases "\<lfloor>x\<rfloor> = \<lfloor>y\<rfloor>")
    case True
    then show ?thesis using xy by (auto simp: round_half_even_def Let_def)
  next
    case False
    then have "\<lfloor>x\<rfloor> + 1 \<le> \<lfloor>y\<rfloor>" using f by simp
    moreover have "round_half_even x \<le> \<lfloor>x\<rfloor> + 1" by (auto simp: round_half_even_def Let_def)
    moreover have "\<lfloor>y\<rfloor> \<le> round_half_even y" by (auto simp: round_half_even_def Let_def)
    ultimately show ?thesis by linarith
  qed
qed

lemma round_half_even_minus: "round_half_even (- x) = - round_half_even x"
proof (cases "x = of_int \<lfloor>x\<rfloor>")
  case True
  then have "- x = of_int (- \<lfloor>x\<rfloor>)" by simp
  then show ?thesis using True round_half_even_of_int by metis
next
  case False
  have fl: "\<lfloor>- x\<rfloor> = - \<lfloor>x\<rfloor> - 1"
    using False by (intro floor_unique) (simp_all, linarith+)
  show ?thesis by (auto simp: round_half_even_def fl Let_def)
qed

lemma frnd_0 [simp]: "frnd 0 = 0" by (simp add: frnd_def)

lemma frnd_minus: "frnd (- q) = - frnd q"
  by (simp add: frnd_def ulp_exp_def Let_def round_half_even_minus)


text \<open>Every multiple \<open>m * 2 powi e\<close> with at most 53 significant bits is a fixed point of rounding.\<close>

lemma frnd_grid_pos:
  assumes "- 1074 \<le> e" "0 < m" "m < 2 ^ 53"
  shows "frnd (of_int m * 2 powi e) = of_int m * 2 powi e"
proof -
  let ?q = "(of_int m * 2 powi e) :: rat"
  let ?u = "ulp_exp ?q"
  have q: "0 < ?q" using assms by simp
  have "(2::rat) powi (flog2 ?q) \<le> ?q" using flog2_bounds(1) [OF q] .
  also have "\<dots> < of_int (2 ^ 53) * 2 powi e"
    using assms(3) by (intro mult_strict_right_mono) (simp_all only: of_int_less_iff, simp)
  also have "\<dots> = 2 powi (e + 53)" by (simp add: power_int_add)
  finally have "(2::rat) powi (flog2 ?q) < 2 powi (e + 53)" .
  then have "flog2 ?q < e + 53"
    by (metis linorder_not_less one_le_numeral power_int_increasing)
  then have u: "?u \<le> e" using assms q by (simp add: ulp_exp_def)
  have "?q / 2 powi ?u = of_int m * 2 powi (e - ?u)" by (simp add: power_int_diff)
  also have "\<dots> = of_int (m * 2 ^ nat (e - ?u))" using u by (simp add: power_int_def)
  finally have *: "?q / 2 powi ?u = of_int (m * 2 ^ nat (e - ?u))" .
  have "frnd ?q = of_int (round_half_even (?q / 2 powi ?u)) * 2 powi ?u"
    using assms(2) by (simp add: frnd_def Let_def)
  also have "\<dots> = ?q / 2 powi ?u * 2 powi ?u" by (simp only: * round_half_even_of_int)
  also have "\<dots> = ?q" by simp
  finally show ?thesis .
qed

lemma frnd_grid:
  assumes "- 1074 \<le> e" "\<bar>m\<bar> \<le> 2 ^ 53"
  shows "frnd (of_int m * 2 powi e) = of_int m * 2 powi e"
proof -
  have pos: "frnd (of_int k * 2 powi e) = of_int k * 2 powi e" if k: "0 < k" "k \<le> 2 ^ 53" for k :: int
  proof (cases "k = 2 ^ 53")
    case True
    have "(of_int k * 2 powi e :: rat) = of_int (2 ^ 52) * 2 powi (e + 1)"
      by (simp add: True power_int_add)
    moreover have "frnd (of_int (2 ^ 52) * 2 powi (e + 1)) = of_int (2 ^ 52) * 2 powi (e + 1)"
      using assms by (intro frnd_grid_pos) simp_all
    ultimately show ?thesis by metis
  next
    case False
    then show ?thesis using assms k by (intro frnd_grid_pos) auto
  qed
  consider "m = 0" | "0 < m" | "m < 0" by linarith
  then show ?thesis
  proof cases
    case 3
    then have "frnd (of_int (- m) * 2 powi e) = of_int (- m) * 2 powi e" using assms by (intro pos) auto
    then show ?thesis using frnd_minus [of "of_int m * 2 powi e"] by simp
  qed (use assms pos in auto)
qed

lemma frnd_bracket:
  assumes "0 < q"
  shows "2 ^ 52 * 2 powi (ulp_exp q) \<le> frnd q \<or> ulp_exp q = - 1074"
    and "frnd q \<le> 2 ^ 53 * 2 powi (ulp_exp q)" and "0 \<le> frnd q"
proof -
  let ?u = "ulp_exp q"
  have fr: "frnd q = of_int (round_half_even (q / 2 powi ?u)) * 2 powi ?u"
    using assms by (simp add: frnd_def Let_def)
  have up: "q \<le> 2 ^ 53 * 2 powi ?u"
  proof -
    have "q < 2 powi (flog2 q + 1)" using assms by (rule flog2_bounds)
    also have "\<dots> \<le> 2 powi (?u + 53)" using assms by (intro power_int_increasing) (auto simp: ulp_exp_def)
    finally show ?thesis by (simp add: power_int_add mult.commute)
  qed
  have "round_half_even (q / 2 powi ?u) \<le> round_half_even (of_int (2 ^ 53))"
    using up by (intro round_half_even_mono) (simp add: pos_divide_le_eq)
  then have "(of_int (round_half_even (q / 2 powi ?u)) :: rat) \<le> 2 ^ 53"
    by (simp only: round_half_even_of_int flip: of_int_le_iff [where 'a = rat]) simp
  then show "frnd q \<le> 2 ^ 53 * 2 powi ?u" unfolding fr by (intro mult_right_mono) auto
  have "round_half_even (of_int 0) \<le> round_half_even (q / 2 powi ?u)"
    using assms by (intro round_half_even_mono) simp
  then show "0 \<le> frnd q" unfolding fr by (simp only: round_half_even_of_int) simp
  show "2 ^ 52 * 2 powi ?u \<le> frnd q \<or> ?u = - 1074"
  proof (cases "?u = - 1074")
    case False
    then have u: "?u = flog2 q - 52" using assms by (simp add: ulp_exp_def max_def split: if_splits)
    have "(2::rat) ^ 52 * 2 powi ?u = 2 powi (?u + 52)" by (simp add: power_int_add)
    also have "\<dots> = 2 powi (flog2 q)" by (simp add: u)
    also have "\<dots> \<le> q" using assms by (rule flog2_bounds)
    finally have "of_int (2 ^ 52) \<le> q / 2 powi ?u" by (simp add: pos_le_divide_eq)
    then have "round_half_even (of_int (2 ^ 52)) \<le> round_half_even (q / 2 powi ?u)"
      by (rule round_half_even_mono)
    then have "(2 ^ 52 :: rat) \<le> of_int (round_half_even (q / 2 powi ?u))"
      by (simp only: round_half_even_of_int flip: of_int_le_iff [where 'a = rat]) simp
    then show ?thesis unfolding fr by (intro disjI1 mult_right_mono) auto
  qed simp
qed

lemma frnd_mono_pos:
  assumes "0 < p" "p \<le> q"
  shows "frnd p \<le> frnd q"
proof -
  have q: "0 < q" using assms by simp
  have u: "ulp_exp p \<le> ulp_exp q" using assms q flog2_mono [OF assms] by (simp add: ulp_exp_def)
  show ?thesis
  proof (cases "ulp_exp p = ulp_exp q")
    case True
    have "round_half_even (p / 2 powi ulp_exp q) \<le> round_half_even (q / 2 powi ulp_exp q)"
      using assms by (intro round_half_even_mono divide_right_mono) auto
    then show ?thesis using assms q True by (simp add: frnd_def Let_def mult_right_mono)
  next
    case False
    then have lt: "ulp_exp p + 1 \<le> ulp_exp q" using u by simp
    then have nm: "ulp_exp q \<noteq> - 1074" by (simp add: ulp_exp_def)
    have "frnd p \<le> 2 ^ 53 * 2 powi (ulp_exp p)" using assms by (intro frnd_bracket) auto
    also have "\<dots> = 2 ^ 52 * (2 powi (ulp_exp p + 1) :: rat)" by (simp add: power_int_add)
    also have "\<dots> \<le> 2 ^ 52 * 2 powi (ulp_exp q)" using lt by (intro mult_left_mono power_int_increasing) auto
    also have "\<dots> \<le> frnd q" using frnd_bracket(1) [OF q] nm by simp
    finally show ?thesis .
  qed
qed

lemma frnd_nonneg: "0 \<le> q \<Longrightarrow> 0 \<le> frnd q"
  using frnd_bracket(3) [of q] by (cases "q = 0") auto

lemma frnd_mono: "p \<le> q \<Longrightarrow> frnd p \<le> frnd q"
proof -
  assume pq: "p \<le> q"
  consider "0 < p" | "p \<le> 0" "0 \<le> q" | "q < 0" using pq by linarith
  then show ?thesis
  proof cases
    case 1
    then show ?thesis using pq by (rule frnd_mono_pos)
  next
    case 2
    then have "0 \<le> - frnd p" "0 \<le> frnd q" using frnd_nonneg [of "- p"] frnd_nonneg by (auto simp: frnd_minus)
    then show ?thesis by simp
  next
    case 3
    then show ?thesis using frnd_mono_pos [of "- q" "- p"] pq by (simp add: frnd_minus)
  qed
qed

lemma frnd_idem [simp]: "frnd (frnd q) = frnd q"
proof -
  have pos: "frnd (frnd x) = frnd x" if x: "0 < x" for x
  proof -
    let ?u = "ulp_exp x" and ?m = "round_half_even (x / 2 powi (ulp_exp x))"
    have fr: "frnd x = of_int ?m * 2 powi ?u" using x by (simp add: frnd_def Let_def)
    have "of_int ?m * 2 powi ?u \<le> (2 ^ 53 * 2 powi ?u :: rat)" "0 \<le> (of_int ?m * 2 powi ?u :: rat)"
      using frnd_bracket(2,3) [OF x] by (simp_all only: fr)
    moreover have "(0::rat) < 2 powi ?u" by simp
    ultimately have "(of_int ?m :: rat) \<le> of_int (2 ^ 53)" "(0::rat) \<le> of_int ?m"
      by (simp, metis mult_le_cancel_right not_less mult_zero_left)
    then have "?m \<le> 2 ^ 53" "0 \<le> ?m" by (simp_all only: of_int_le_iff of_int_0_le_iff)
    then show ?thesis by (simp only: fr) (intro frnd_grid, auto simp: ulp_exp_def)
  qed
  consider "q = 0" | "0 < q" | "0 < - q" by linarith
  then show ?thesis
    by cases (use pos [of q] pos [of "- q"] in \<open>auto simp: frnd_minus\<close>)
qed

lemma frnd_of_int: "\<bar>k\<bar> \<le> 2 ^ 53 \<Longrightarrow> frnd (of_int k) = of_int k"
  using frnd_grid [of 0 k] by simp


section \<open>Values and operators\<close>

datatype pyfloat = Fin rat | PInf | NInf | NaN

text \<open>\<open>fl q\<close> is the double nearest to \<open>q\<close>, also the meaning of a decimal literal.\<close>

definition fl :: "rat \<Rightarrow> pyfloat" where
  "fl q = (let r = frnd q in if 2 ^ 1024 \<le> r then PInf else if r \<le> - (2 ^ 1024) then NInf else Fin r)"

text \<open>The values a Python float can have.\<close>

fun is_double :: "pyfloat \<Rightarrow> bool" where
  "is_double (Fin q) \<longleftrightarrow> frnd q = q \<and> \<bar>q\<bar> < 2 ^ 1024"
| "is_double _ \<longleftrightarrow> True"

fun isfinite :: "pyfloat \<Rightarrow> bool" where
  "isfinite (Fin q) \<longleftrightarrow> True"
| "isfinite _ \<longleftrightarrow> False"

fun fneg :: "pyfloat \<Rightarrow> pyfloat" where
  "fneg (Fin q) = Fin (- q)"
| "fneg PInf = NInf"
| "fneg NInf = PInf"
| "fneg NaN = NaN"

fun fabs :: "pyfloat \<Rightarrow> pyfloat" where
  "fabs (Fin q) = Fin \<bar>q\<bar>"
| "fabs PInf = PInf"
| "fabs NInf = PInf"
| "fabs NaN = NaN"

fun fadd :: "pyfloat \<Rightarrow> pyfloat \<Rightarrow> pyfloat" where
  "fadd (Fin a) (Fin b) = fl (a + b)"
| "fadd NaN _ = NaN"
| "fadd _ NaN = NaN"
| "fadd PInf NInf = NaN"
| "fadd NInf PInf = NaN"
| "fadd PInf _ = PInf"
| "fadd NInf _ = NInf"
| "fadd _ y = y"

definition fsub :: "pyfloat \<Rightarrow> pyfloat \<Rightarrow> pyfloat" where
  "fsub a b = fadd a (fneg b)"

definition finf_sign :: "rat \<Rightarrow> pyfloat" where
  "finf_sign q = (if q = 0 then NaN else if 0 < q then PInf else NInf)"

fun fmul :: "pyfloat \<Rightarrow> pyfloat \<Rightarrow> pyfloat" where
  "fmul (Fin a) (Fin b) = fl (a * b)"
| "fmul NaN _ = NaN"
| "fmul _ NaN = NaN"
| "fmul PInf PInf = PInf"
| "fmul NInf NInf = PInf"
| "fmul PInf NInf = NInf"
| "fmul NInf PInf = NInf"
| "fmul PInf (Fin b) = finf_sign b"
| "fmul NInf (Fin b) = finf_sign (- b)"
| "fmul (Fin a) PInf = finf_sign a"
| "fmul (Fin a) NInf = finf_sign (- a)"

text \<open>\<open>None\<close> is \<open>ZeroDivisionError\<close>.\<close>

fun fdiv :: "pyfloat \<Rightarrow> pyfloat \<Rightarrow> pyfloat option" where
  "fdiv (Fin a) (Fin b) = (if b = 0 then None else Some (fl (a / b)))"
| "fdiv NaN (Fin b) = (if b = 0 then None else Some NaN)"
| "fdiv PInf (Fin b) = (if b = 0 then None else Some (finf_sign b))"
| "fdiv NInf (Fin b) = (if b = 0 then None else Some (finf_sign (- b)))"
| "fdiv (Fin a) PInf = Some (Fin 0)"
| "fdiv (Fin a) NInf = Some (Fin 0)"
| "fdiv _ _ = Some NaN"

text \<open>Comparisons: any comparison with a NaN is false, \<open>!=\<close> excepted.\<close>

fun fless :: "pyfloat \<Rightarrow> pyfloat \<Rightarrow> bool" where
  "fless (Fin a) (Fin b) \<longleftrightarrow> a < b"
| "fless (Fin _) PInf \<longleftrightarrow> True"
| "fless NInf (Fin _) \<longleftrightarrow> True"
| "fless NInf PInf \<longleftrightarrow> True"
| "fless _ _ \<longleftrightarrow> False"

fun feq :: "pyfloat \<Rightarrow> pyfloat \<Rightarrow> bool" where
  "feq NaN _ \<longleftrightarrow> False"
| "feq _ NaN \<longleftrightarrow> False"
| "feq a b \<longleftrightarrow> a = b"

definition fle :: "pyfloat \<Rightarrow> pyfloat \<Rightarrow> bool" where
  "fle a b \<longleftrightarrow> fless a b \<or> feq a b"

text \<open>\<open>min(a, b)\<close> and \<open>max(a, b)\<close> keep the first argument unless the second compares strictly better.\<close>

definition fmin :: "pyfloat \<Rightarrow> pyfloat \<Rightarrow> pyfloat" where
  "fmin a b = (if fless b a then b else a)"

definition fmax :: "pyfloat \<Rightarrow> pyfloat \<Rightarrow> pyfloat" where
  "fmax a b = (if fless a b then b else a)"

section \<open>Laws of the operators\<close>

lemma two1024: "(2::rat) ^ 1024 = of_int (2 ^ 52) * 2 powi 972"
  by (simp add: power_int_def flip: power_add)

lemma is_double_fl [simp]: "is_double (fl q)"
  by (auto simp: fl_def Let_def abs_less_iff)

lemma fl_id: "frnd q = q \<Longrightarrow> \<bar>q\<bar> < 2 ^ 1024 \<Longrightarrow> fl q = Fin q"
  by (auto simp: fl_def Let_def abs_less_iff)

lemma fl_not_NaN [simp]: "fl q \<noteq> NaN"
  by (simp add: fl_def Let_def)

lemma fl_0 [simp]: "fl 0 = Fin 0"
  by (simp add: fl_id)

lemma is_double_0 [simp]: "is_double (Fin 0)"
  by simp

lemma is_double_ops [simp]:
  "is_double (fadd a b) \<longleftrightarrow> True" "is_double a \<Longrightarrow> is_double (fneg a)" "is_double a \<Longrightarrow> is_double (fabs a)"
  "is_double (fmul a b) \<longleftrightarrow> True" "is_double (fsub a b) \<longleftrightarrow> True"
proof -
  show 1: "is_double (fadd a b) \<longleftrightarrow> True" for a b by (cases "(a, b)" rule: fadd.cases) simp_all
  show "is_double a \<Longrightarrow> is_double (fneg a)" by (cases a) (simp_all add: frnd_minus)
  show "is_double a \<Longrightarrow> is_double (fabs a)" by (cases a) (auto simp: frnd_minus abs_if)
  show "is_double (fmul a b) \<longleftrightarrow> True"
    by (cases "(a, b)" rule: fmul.cases) (simp_all add: finf_sign_def)
  show "is_double (fsub a b) \<longleftrightarrow> True" by (simp add: fsub_def 1)
qed

lemma is_double_min_max [simp]:
  "is_double a \<Longrightarrow> is_double b \<Longrightarrow> is_double (fmin a b)"
  "is_double a \<Longrightarrow> is_double b \<Longrightarrow> is_double (fmax a b)"
  by (simp_all add: fmin_def fmax_def)

lemma fle_Fin [simp]: "fle (Fin a) (Fin b) \<longleftrightarrow> a \<le> b"
  by (auto simp: fle_def)

lemma fle_refl [simp]: "fle a a \<longleftrightarrow> a \<noteq> NaN"
  by (cases a) (auto simp: fle_def)

lemma fle_trans: "fle a b \<Longrightarrow> fle b c \<Longrightarrow> fle a c"
  by (cases a; cases b; cases c) (auto simp: fle_def)

lemma not_fless: "\<not> fless b a \<Longrightarrow> a \<noteq> NaN \<Longrightarrow> b \<noteq> NaN \<Longrightarrow> fle a b"
  by (cases a; cases b) (auto simp: fle_def)

lemma fless_fle: "fless a b \<Longrightarrow> fle a b"
  by (simp add: fle_def)

lemma fle_not_NaN: "fle a b \<Longrightarrow> a \<noteq> NaN \<and> b \<noteq> NaN"
  by (cases a; cases b) (auto simp: fle_def)

lemma isfinite_iff: "isfinite a \<longleftrightarrow> (\<exists>q. a = Fin q)"
  by (cases a) auto

lemma isfinite_not_NaN: "isfinite a \<Longrightarrow> a \<noteq> NaN"
  by auto

lemma fl_mono: "p \<le> q \<Longrightarrow> fle (fl p) (fl q)"
  using frnd_mono [of p q] by (auto simp: fl_def Let_def fle_def)

lemma fadd_mono:
  assumes "fle a b" "isfinite a" "isfinite b" "isfinite c"
  shows "fle (fadd a c) (fadd b c)"
  using assms by (auto simp: isfinite_iff intro!: fl_mono)

lemma fl_Fin_double: "is_double (Fin q) \<Longrightarrow> fl q = Fin q"
  by (simp add: fl_id)

text \<open>Adding a non-negative amount never goes below the start, subtracting one never above it.\<close>

lemma fadd_nonneg_ge:
  assumes "is_double (Fin p)" "fle (Fin 0) d" "d \<noteq> NaN"
  shows "fle (Fin p) (fadd (Fin p) d)"
proof (cases d)
  case (Fin q)
  then have "fle (fl p) (fl (p + q))" using assms by (intro fl_mono) simp
  then show ?thesis using Fin fl_Fin_double [OF assms(1)] by simp
qed (use assms in \<open>auto simp: fle_def\<close>)

lemma fsub_nonneg_le:
  assumes "is_double (Fin p)" "fle (Fin 0) d"
  shows "fle (fsub (Fin p) d) (Fin p)"
proof (cases d)
  case (Fin q)
  then have "fle (fl (p - q)) (fl p)" using assms by (intro fl_mono) simp
  then show ?thesis using Fin fl_Fin_double [OF assms(1)] by (simp add: fsub_def)
qed (use assms in \<open>auto simp: fsub_def fle_def\<close>)

lemma fmul_nonneg: "fle (Fin 0) a \<Longrightarrow> fle (Fin 0) b \<Longrightarrow> isfinite a \<Longrightarrow> isfinite b \<Longrightarrow> fle (Fin 0) (fmul a b)"
  using fl_mono [of 0] by (auto simp: isfinite_iff)

lemma fmin_le1: "a \<noteq> NaN \<Longrightarrow> b \<noteq> NaN \<Longrightarrow> fle (fmin a b) a"
  by (auto simp: fmin_def intro: fless_fle)

lemma fmin_le2: "a \<noteq> NaN \<Longrightarrow> b \<noteq> NaN \<Longrightarrow> fle (fmin a b) b"
  by (auto simp: fmin_def intro: not_fless)

lemma fmax_ge1: "a \<noteq> NaN \<Longrightarrow> b \<noteq> NaN \<Longrightarrow> fle a (fmax a b)"
  by (auto simp: fmax_def intro: fless_fle)

lemma fmin_cases: "fmin a b = a \<or> fmin a b = b"
  by (simp add: fmin_def)

lemma fmax_cases: "fmax a b = a \<or> fmax a b = b"
  by (simp add: fmax_def)

section \<open>Literals\<close>

text \<open>
  Kernel evaluation of a decimal literal: \<open>m / 2 ^ k\<close> is the double nearest to \<open>q\<close> when
  \<open>q * 2 ^ k\<close> has 53 bits before the binary point and is less than one half away from \<open>m\<close>.
\<close>

lemma le_mult_pow2: "0 \<le> x \<Longrightarrow> x \<le> x * 2 ^ k" for x :: rat
  using mult_left_mono [of 1 "2 ^ k" x] by simp

lemma round_half_even_near: "\<bar>of_int m - x\<bar> < 1 / 2 \<Longrightarrow> round_half_even x = m"
proof -
  assume a: "\<bar>of_int m - x\<bar> < 1 / 2"
  show ?thesis
  proof (cases "of_int m \<le> x")
    case True
    then have "\<lfloor>x\<rfloor> = m" unfolding floor_eq_iff using a by linarith
    then show ?thesis using a True by (simp add: round_half_even_def Let_def)
  next
    case False
    then have "\<lfloor>x\<rfloor> = m - 1" unfolding floor_eq_iff of_int_diff of_int_1 using a by linarith
    then show ?thesis using a False by (simp add: round_half_even_def Let_def)
  qed
qed

lemma fl_literal:
  assumes lo: "2 ^ 52 \<le> q * 2 ^ k" and hi: "q * 2 ^ k < 2 ^ 53" and k: "k \<le> 1074"
    and near: "\<bar>of_int m - q * 2 ^ k\<bar> < 1 / 2"
  shows "fl q = Fin (of_int m / 2 ^ k)"
proof -
  have q: "0 < q" using lo by (smt (verit) zero_less_mult_pos2 zero_less_power zero_less_numeral less_le_trans)
  have pk: "(2::rat) powi (- int k) = 1 / 2 ^ k" by (simp add: power_int_def inverse_eq_divide power_one_over)
  have "flog2 q = 52 - int k"
  proof (rule flog2_unique)
    have "(2::rat) powi (52 - int k) = 2 ^ 52 / 2 ^ k" by (simp add: power_int_diff)
    then show "2 powi (52 - int k) \<le> q" using lo by (simp add: pos_divide_le_eq)
    have "(2::rat) powi (52 - int k + 1) = 2 ^ 53 / 2 ^ k"
      by (simp add: power_int_diff power_int_add)
    then show "q < 2 powi (52 - int k + 1)" using hi by (simp add: pos_less_divide_eq)
  qed
  then have u: "ulp_exp q = - int k" using q k by (simp add: ulp_exp_def)
  have fr: "frnd q = of_int m / 2 ^ k"
    using q near by (simp add: frnd_def u pk Let_def round_half_even_near)
  have "of_int m / 2 ^ k \<le> (of_int m :: rat)" if "0 \<le> m"
    using that le_mult_pow2 [of "of_int m" k] by (simp add: pos_divide_le_eq)
  moreover have "q * 2 ^ k < 9007199254740992" "4503599627370496 \<le> q * 2 ^ k" using hi lo by simp_all
  then have m: "(of_int m :: rat) < 9007199254740993" "(0::rat) < of_int m" using near by linarith+
  ultimately have "0 \<le> frnd q" "frnd q < 9007199254740993" by (auto simp: fr)
  then show ?thesis using fr by (auto simp: fl_def Let_def)
qed

text \<open>Dyadic rationals of at most 53 bits are exact.\<close>

lemma fl_dyadic: "\<bar>m\<bar> \<le> 2 ^ 53 \<Longrightarrow> k \<le> 1074 \<Longrightarrow> fl (of_int m / 2 ^ k) = Fin (of_int m / 2 ^ k)"
proof -
  assume m: "\<bar>m\<bar> \<le> 2 ^ 53" and k: "k \<le> 1074"
  have "(of_int m / 2 ^ k :: rat) = of_int m * 2 powi (- int k)"
    by (simp add: power_int_def inverse_eq_divide power_one_over)
  then have fr: "frnd (of_int m / 2 ^ k) = of_int m / 2 ^ k" using m k frnd_grid [of "- int k" m] by simp
  have "\<bar>of_int m / 2 ^ k\<bar> \<le> \<bar>of_int m :: rat\<bar>" 
    using le_mult_pow2 [of "\<bar>of_int m\<bar>" k] by (simp add: abs_divide pos_divide_le_eq)
  also have "\<dots> \<le> of_int (2 ^ 53)" using m by (simp only: of_int_le_iff flip: of_int_abs)
  also have "\<dots> < (2::rat) ^ 1024" by simp
  finally show ?thesis using fr by (intro fl_id)
qed

lemma fl_numeral [simp]: "(numeral n :: int) \<le> 2 ^ 53 \<Longrightarrow> fl (numeral n) = Fin (numeral n)"
  using fl_dyadic [of "numeral n" 0] by simp

lemma fl_1 [simp]: "fl 1 = Fin 1"
  using fl_dyadic [of 1 0] by simp

lemma fl_half [simp]: "fl (1 / 2) = Fin (1 / 2)"
  using fl_dyadic [of 1 1] by simp

text \<open>The literals of the sources, in lowest terms.\<close>

lemma fl_lit_3_10 [simp]: "fl (3 / 10) = Fin (5404319552844595 / 18014398509481984)"
  using fl_literal [of "3 / 10" 54 5404319552844595] by simp

lemma fl_lit_2_5 [simp]: "fl (2 / 5) = Fin (3602879701896397 / 9007199254740992)"
  using fl_literal [of "2 / 5" 54 7205759403792794] by simp

lemma fl_lit_4_5 [simp]: "fl (4 / 5) = Fin (3602879701896397 / 4503599627370496)"
  using fl_literal [of "4 / 5" 53 7205759403792794] by simp

lemma fl_lit_1_5 [simp]: "fl (1 / 5) = Fin (3602879701896397 / 18014398509481984)"
  using fl_literal [of "1 / 5" 55 7205759403792794] by simp

lemma fl_lit_3_5 [simp]: "fl (3 / 5) = Fin (5404319552844595 / 9007199254740992)"
  using fl_literal [of "3 / 5" 53 5404319552844595] by simp

lemma fl_lit_1_20 [simp]: "fl (1 / 20) = Fin (3602879701896397 / 72057594037927936)"
  using fl_literal [of "1 / 20" 57 7205759403792794] by simp

lemma fl_lit_1_10 [simp]: "fl (1 / 10) = Fin (3602879701896397 / 36028797018963968)"
  using fl_literal [of "1 / 10" 56 7205759403792794] by simp

lemma fl_dyadic_3_2 [simp]: "fl (3 / 2) = Fin (3 / 2)"
  using fl_dyadic [of 3 1] by simp

lemma fl_dyadic_3_4 [simp]: "fl (3 / 4) = Fin (3 / 4)"
  using fl_dyadic [of 3 2] by simp

lemma fl_dyadic_1_4 [simp]: "fl (1 / 4) = Fin (1 / 4)"
  using fl_dyadic [of 1 2] by simp

lemma fl_dyadic_1_8 [simp]: "fl (1 / 8) = Fin (1 / 8)"
  using fl_dyadic [of 1 3] by simp

text \<open>Conversion of an integer; \<open>None\<close> is the \<open>OverflowError\<close> of \<open>float(10**400)\<close>.\<close>

definition float_of_int :: "int \<Rightarrow> pyfloat option" where
  "float_of_int k = (case fl (of_int k) of Fin q \<Rightarrow> Some (Fin q) | _ \<Rightarrow> None)"

lemma float_of_int_small: "\<bar>k\<bar> \<le> 2 ^ 53 \<Longrightarrow> float_of_int k = Some (Fin (of_int k))"
  using fl_dyadic [of k 0] by (simp add: float_of_int_def)

lemma float_of_int_double: "float_of_int k = Some f \<Longrightarrow> is_double f \<and> isfinite f"
  using is_double_fl [of "of_int k"] by (cases "fl (of_int k)") (auto simp: float_of_int_def)

end
