(* ===== verification/PyVal.thy ===== *)
theory PyVal imports PyFloat begin

text \<open>
  Dynamically typed Python values, as they come out of \<open>json.loads\<close> and message attributes, and
  the built-in conversions and comparisons the sources apply to them: \<open>int(s, 10)\<close>, \<open>float(x)\<close>,
  \<open>==\<close> across numeric types, \<open>isinstance\<close> tests, \<open>str.split\<close> and \<open>str.replace\<close>.
\<close>

datatype pyval =
    VNone
  | VBool bool
  | VInt int
  | VFloat pyfloat
  | VStr string
  | VList "pyval list"
  | VDict "(string \<times> pyval) list"

section \<open>Type tests and equality\<close>

text \<open>\<open>isinstance(v, int) and not isinstance(v, bool)\<close>\<close>

fun as_int :: "pyval \<Rightarrow> int option" where
  "as_int (VInt i) = Some i"
| "as_int _ = None"

fun as_bool :: "pyval \<Rightarrow> bool option" where
  "as_bool (VBool b) = Some b"
| "as_bool _ = None"

lemma as_int_Some [simp]: "as_int v = Some i \<longleftrightarrow> v = VInt i"
  by (cases v) auto

lemma as_bool_Some [simp]: "as_bool v = Some b \<longleftrightarrow> v = VBool b"
  by (cases v) auto

text \<open>\<open>v == n\<close> for an integer \<open>n\<close>: a bool is 0 or 1, a float compares by exact value.\<close>

fun eq_int :: "pyval \<Rightarrow> int \<Rightarrow> bool" where
  "eq_int (VInt i) n \<longleftrightarrow> i = n"
| "eq_int (VBool b) n \<longleftrightarrow> (if b then 1 else 0) = n"
| "eq_int (VFloat (Fin q)) n \<longleftrightarrow> q = of_int n"
| "eq_int _ n \<longleftrightarrow> False"

fun eq_str :: "pyval \<Rightarrow> string \<Rightarrow> bool" where
  "eq_str (VStr s) t \<longleftrightarrow> s = t"
| "eq_str _ t \<longleftrightarrow> False"

lemma eq_str_iff [simp]: "eq_str v t \<longleftrightarrow> v = VStr t"
  by (cases v) auto

section \<open>Numeric text\<close>

text \<open>
  A run of decimal digits in which single underscores may separate digits: its value, how many
  digits it has, and what is left.
\<close>

fun digits_run :: "string \<Rightarrow> nat \<Rightarrow> nat \<Rightarrow> nat \<times> nat \<times> string" where
  "digits_run [] v n = (v, n, [])"
| "digits_run (c # cs) v n =
     (if is_digit c then digits_run cs (10 * v + (code_of c - 48)) (Suc n)
      else if c = CHR ''_'' \<and> 0 < n \<and> cs \<noteq> [] \<and> is_digit (hd cs) then digits_run cs v n
      else (v, n, c # cs))"

fun split_sign :: "string \<Rightarrow> int \<times> string" where
  "split_sign [] = (1, [])"
| "split_sign (c # cs) =
     (if c = CHR ''-'' then (- 1, cs) else if c = CHR ''+'' then (1, cs) else (1, c # cs))"

text \<open>\<open>int(s, 10)\<close>; \<open>None\<close> is its \<open>ValueError\<close>, also raised for more than 4300 digits.\<close>

definition int_of_str :: "string \<Rightarrow> int option" where
  "int_of_str s = (let (sg, body) = split_sign (str_strip s); (v, n, rest) = digits_run body 0 0
     in if 0 < n \<and> n \<le> 4300 \<and> rest = [] then Some (sg * int v) else None)"

text \<open>The optional exponent of a decimal literal.\<close>

definition exponent_part :: "string \<Rightarrow> int option" where
  "exponent_part s = (case s of [] \<Rightarrow> Some 0
     | c # cs \<Rightarrow> if c = CHR ''e'' \<or> c = CHR ''E''
         then (let (sg, body) = split_sign cs; (v, n, rest) = digits_run body 0 0
               in if 0 < n \<and> rest = [] then Some (sg * int v) else None)
         else None)"

definition pow10 :: "int \<Rightarrow> rat" where
  "pow10 e = (if 0 \<le> e then 10 ^ nat e else 1 / 10 ^ nat (- e))"

definition decimal_of_str :: "string \<Rightarrow> rat option" where
  "decimal_of_str s =
     (let (v, n, r) = digits_run s 0 0;
          (w, k, r') = (case r of c # cs \<Rightarrow> if c = CHR ''.'' then digits_run cs v 0 else (v, 0, r)
                        | [] \<Rightarrow> (v, 0, r))
      in if n = 0 \<and> k = 0 then None
         else map_option (\<lambda>e. of_nat w * pow10 (e - int k)) (exponent_part r'))"

text \<open>\<open>float(s)\<close>; \<open>None\<close> is its \<open>ValueError\<close>.\<close>

definition float_of_str :: "string \<Rightarrow> pyfloat option" where
  "float_of_str s = (let (sg, body) = split_sign (str_strip s); name = str_lower body
     in if name = ''inf'' \<or> name = ''infinity'' then Some (if sg = 1 then PInf else NInf)
        else if name = ''nan'' then Some NaN
        else map_option (\<lambda>q. fl (of_int sg * q)) (decimal_of_str body))"

datatype conversion_error = TypeError | ValueError | OverflowError

text \<open>\<open>float(v)\<close>\<close>

fun to_float :: "pyval \<Rightarrow> conversion_error + pyfloat" where
  "to_float (VFloat f) = Inr f"
| "to_float (VBool b) = Inr (Fin (if b then 1 else 0))"
| "to_float (VInt i) = (case float_of_int i of Some f \<Rightarrow> Inr f | None \<Rightarrow> Inl OverflowError)"
| "to_float (VStr s) = (case float_of_str s of Some f \<Rightarrow> Inr f | None \<Rightarrow> Inl ValueError)"
| "to_float _ = Inl TypeError"

lemma float_of_str_double: "float_of_str s = Some f \<Longrightarrow> is_double f"
  by (auto simp: float_of_str_def Let_def split: prod.splits if_splits)

lemma fl_1_double: "is_double (Fin 1)"
  using is_double_fl [of 1] by simp

fun floats_ok :: "pyval \<Rightarrow> bool" where
  "floats_ok (VFloat f) \<longleftrightarrow> is_double f"
| "floats_ok _ \<longleftrightarrow> True"

lemma to_float_double: "to_float v = Inr f \<Longrightarrow> floats_ok v \<Longrightarrow> is_double f"
  using fl_1_double
  by (cases v) (auto dest: float_of_int_double float_of_str_double split: option.splits if_splits)

section \<open>\<open>str\<close>, truth values and defaults\<close>

text \<open>\<open>str(v)\<close> and the truth value of \<open>v\<close>.\<close>

fun py_str :: "(pyval \<Rightarrow> string) \<Rightarrow> pyval \<Rightarrow> string" where
  "py_str py_repr (VStr s) = s"
| "py_str py_repr VNone = ''None''"
| "py_str py_repr (VBool b) = (if b then ''True'' else ''False'')"
| "py_str py_repr v = py_repr v"

fun truthy :: "pyval \<Rightarrow> bool" where
  "truthy VNone \<longleftrightarrow> False"
| "truthy (VBool b) \<longleftrightarrow> b"
| "truthy (VInt i) \<longleftrightarrow> i \<noteq> 0"
| "truthy (VFloat f) \<longleftrightarrow> f \<noteq> Fin 0"
| "truthy (VStr s) \<longleftrightarrow> s \<noteq> []"
| "truthy (VList xs) \<longleftrightarrow> xs \<noteq> []"
| "truthy (VDict d) \<longleftrightarrow> d \<noteq> []"

definition get_or :: "(string \<times> pyval) list \<Rightarrow> string \<Rightarrow> pyval \<Rightarrow> pyval" where
  "get_or d k v = (case map_of d k of Some w \<Rightarrow> w | None \<Rightarrow> v)"

section \<open>\<open>math.isclose\<close> and \<open>math.pi\<close>\<close>

fun is_inf :: "pyfloat \<Rightarrow> bool" where
  "is_inf PInf \<longleftrightarrow> True"
| "is_inf NInf \<longleftrightarrow> True"
| "is_inf _ \<longleftrightarrow> False"

definition isclose :: "pyfloat \<Rightarrow> pyfloat \<Rightarrow> pyfloat \<Rightarrow> pyfloat \<Rightarrow> bool" where
  "isclose rel_tol abs_tol a b \<longleftrightarrow>
     feq a b \<or>
     (\<not> is_inf a \<and> \<not> is_inf b \<and>
      (let diff = fabs (fsub b a) in
        fle diff (fabs (fmul rel_tol b)) \<or> fle diff (fabs (fmul rel_tol a)) \<or> fle diff abs_tol))"

definition math_pi :: pyfloat where
  "math_pi = Fin (884279719003555 / 281474976710656)"

lemma isclose_refl [simp]: "isclose r t a a \<longleftrightarrow> a \<noteq> NaN"
  by (cases a) (auto simp: isclose_def fsub_def fle_def)

lemma isclose_zero_rel:
  assumes "isfinite a" "isfinite b" "isclose (Fin 0) t a b" "fle (Fin 0) t"
  shows "fle (fabs (fsub b a)) t"
proof -
  obtain p q where pq: "a = Fin p" "b = Fin q" using assms by (auto simp: isfinite_iff)
  have z: "fle d (Fin 0) \<Longrightarrow> fle d t" for d using assms(4) by (rule fle_trans [rotated])
  show ?thesis
  proof (cases "p = q")
    case True
    then show ?thesis using assms(4) pq by (simp add: fsub_def)
  next
    case False
    then show ?thesis using assms(3) pq z by (auto simp: isclose_def Let_def)
  qed
qed

section \<open>Splitting text\<close>

fun split_on :: "char \<Rightarrow> string \<Rightarrow> string list" where
  "split_on d [] = [[]]"
| "split_on d (c # cs) =
     (if c = d then [] # split_on d cs
      else case split_on d cs of [] \<Rightarrow> [[c]] | t # ts \<Rightarrow> (c # t) # ts)"

definition replace_char :: "char \<Rightarrow> char \<Rightarrow> string \<Rightarrow> string" where
  "replace_char a b s = map (\<lambda>c. if c = a then b else c) s"

lemma split_on_nonempty [simp]: "split_on d s \<noteq> []"
  by (induction s) (auto split: list.splits)

text \<open>\<open>re.fullmatch\<close> of a first-character class followed by a bounded run of another.\<close>

definition head_run :: "(char \<Rightarrow> bool) \<Rightarrow> (char \<Rightarrow> bool) \<Rightarrow> nat \<Rightarrow> nat \<Rightarrow> string \<Rightarrow> bool" where
  "head_run p q lo hi s \<longleftrightarrow>
     (case s of [] \<Rightarrow> False | c # cs \<Rightarrow> p c \<and> lo \<le> length cs \<and> length cs \<le> hi \<and> list_all q cs)"

definition is_alnum :: "char \<Rightarrow> bool" where
  "is_alnum c \<longleftrightarrow> is_alpha c \<or> is_digit c"

end
