(* ===== verification/GuardClaims.thy ===== *)
theory GuardClaims imports PyVal begin

text \<open>
  \<open>scripts/staged_nav2_motion_guard.py\<close>, first part: the constants of the staged profile, the
  launcher-derived runtime claims (\<open>validate_environment\<close>) and the dispatcher's goal claim
  (\<open>validate_goal_claim\<close>). A raised \<open>GuardError\<close> carries the message up to its interpolated
  values; any other exception that escapes is a value of its own.
\<close>

datatype guard_exc = GuardError string | UncaughtValueError | UncaughtOverflowError

section \<open>Constants\<close>

definition PROFILE :: string where "PROFILE = ''workstation-staged-nav2-corrected-v1''"
definition STAGE :: string where "STAGE = ''stage1''"
definition GUARD_ACK :: string where "GUARD_ACK = ''I_APPROVE_GO2_STAGED_NAV2_MOTION''"
definition NODE_NAME :: string where "NODE_NAME = ''go2_staged_nav2_motion_guard''"
definition EXPECTED_CONTROLLER_NODE :: string where "EXPECTED_CONTROLLER_NODE = ''/velocity_smoother''"
definition EXPECTED_CHASSIS_NODE :: string where "EXPECTED_CHASSIS_NODE = ''/go2_chassis_adapter''"
definition GOAL_CLAIM_SCHEMA :: string where
  "GOAL_CLAIM_SCHEMA = ''robonix-go2-staged-nav2-goal-claim-v1''"
definition EXPECTED_GOAL_DISPATCH_NODE :: string where
  "EXPECTED_GOAL_DISPATCH_NODE = ''/go2_staged_nav2_goal_dispatch''"
definition STAGE1_GOAL_SOURCE :: string where
  "STAGE1_GOAL_SOURCE = ''operator_reviewed_short_goal''"

text \<open>The regular expressions; each is used with \<open>fullmatch\<close> only.\<close>

definition word_dot_dash :: "char \<Rightarrow> bool" where
  "word_dot_dash c \<longleftrightarrow> is_alnum c \<or> c = CHR ''_'' \<or> c = CHR ''.'' \<or> c = CHR ''-''"

definition SESSION_RE :: "string \<Rightarrow> bool" where
  "SESSION_RE = head_run is_alnum word_dot_dash 7 63"

definition MAP_ID_RE :: "string \<Rightarrow> bool" where
  "MAP_ID_RE = head_run is_alnum word_dot_dash 7 63"

definition TARGET_ID_RE :: "string \<Rightarrow> bool" where
  "TARGET_ID_RE = head_run is_alnum (\<lambda>c. word_dot_dash c \<or> c = CHR '':'') 0 63"

definition SHA256_RE :: "string \<Rightarrow> bool" where
  "SHA256_RE s \<longleftrightarrow> length s = 64 \<and> list_all is_lower_hex s"

definition GOAL_UUID_RE :: "string \<Rightarrow> bool" where
  "GOAL_UUID_RE s \<longleftrightarrow> length s = 32 \<and> list_all is_lower_hex s"

section \<open>Claims\<close>

record expected_goal_claim =
  eg_session_id :: string
  eg_pair_id :: string
  eg_source :: string
  eg_target_id :: string
  eg_map_id :: string
  eg_generation :: int
  eg_x_m :: pyfloat
  eg_y_m :: pyfloat
  eg_yaw_rad :: pyfloat
  eg_start_x_m :: pyfloat
  eg_start_y_m :: pyfloat
  eg_evidence_sha256 :: string

record runtime_claims =
  rc_session_id :: string
  rc_stage :: string
  rc_allowed_modes :: "int list"
  rc_allowed_state_markers :: "int list"
  rc_expected_goal :: expected_goal_claim

record accepted_goal_claim =
  ac_goal_uuid :: string
  ac_expected :: expected_goal_claim

section \<open>validate_environment\<close>

text \<open>\<open>environ.get(key, default)\<close>\<close>

definition env_get :: "(string \<rightharpoonup> string) \<Rightarrow> string \<Rightarrow> string" where
  "env_get env key = (case env key of None \<Rightarrow> [] | Some v \<Rightarrow> v)"

definition exact_environment :: "(string \<times> string) list" where
  "exact_environment =
    [(''GO2_ALLOW_MOTION'', ''true''), (''GO2_MOTION_PROFILE'', PROFILE),
     (''GO2_STAGED_NAV2_STAGE'', STAGE), (''GO2_STAGED_NAV2_GUARD_ACK'', GUARD_ACK)]"

definition require :: "bool \<Rightarrow> string \<Rightarrow> guard_exc + unit" where
  "require ok msg = raise_unless ok (GuardError msg)"

definition goal_coordinate :: "(string \<rightharpoonup> string) \<Rightarrow> string \<Rightarrow> guard_exc + pyfloat" where
  "goal_coordinate env key =
     (case float_of_str (env_get env key) of
        None \<Rightarrow> Inl (GuardError (key @ '' must be finite''))
      | Some v \<Rightarrow> if isfinite v then Inr v else Inl (GuardError (key @ '' must be finite'')))"

text \<open>Tokens are non-empty runs of digits, so \<open>int(token, 10)\<close> fails only on more than 4300 digits.\<close>

definition token_value :: "string \<Rightarrow> guard_exc + int" where
  "token_value t = (case int_of_str t of Some i \<Rightarrow> Inr i | None \<Rightarrow> Inl UncaughtValueError)"

definition decimal_list ::
  "(string \<rightharpoonup> string) \<Rightarrow> string \<Rightarrow> int \<Rightarrow> int \<Rightarrow> bool \<Rightarrow> guard_exc + int list" where
  "decimal_list env key minimum maximum allow_empty =
     (case env key of
        None \<Rightarrow> Inl (GuardError (key @ '' is required''))
      | Some raw0 \<Rightarrow>
        let raw = str_strip raw0 in
        if raw = [] then
          (if allow_empty then Inr [] else Inl (GuardError (key @ '' must not be empty'')))
        else
          let tokens = map str_strip (split_on (CHR '','') (replace_char (CHR '';'') (CHR '','') raw)) in
          if list_ex (\<lambda>t. t = [] \<or> \<not> list_all is_digit t) tokens
          then Inl (GuardError (key @ '' must be a decimal integer list''))
          else obind (all_ok token_value tokens) (\<lambda>values.
            if list_ex (\<lambda>v. v < minimum \<or> v > maximum) values \<or> \<not> distinct values
            then Inl (GuardError (key @ '' entries must be unique and in range''))
            else Inr values))"

definition validate_environment :: "(string \<rightharpoonup> string) \<Rightarrow> guard_exc + runtime_claims" where
  "validate_environment env =
     obind (all_ok (\<lambda>(key, expected). require (env key = Some expected) (key @ '' must exactly equal''))
       exact_environment) (\<lambda>_.
     let session_id = env_get env ''GO2_STAGED_NAV2_SESSION_ID'' in
     obind (require (SESSION_RE session_id)
       ''GO2_STAGED_NAV2_SESSION_ID must be 8-64 safe ASCII characters'') (\<lambda>_.
     let pair_id = env_get env ''GO2_STAGED_NAV2_PAIR_ID'';
         source = env_get env ''GO2_STAGED_NAV2_GOAL_SOURCE'';
         target_id = env_get env ''GO2_STAGED_NAV2_TARGET_ID'';
         map_id = env_get env ''GO2_STAGED_NAV2_MAP_ID'';
         evidence_sha256 = env_get env ''GO2_STAGED_NAV2_GOAL_EVIDENCE_SHA256'' in
     obind (require (SESSION_RE pair_id)
       ''GO2_STAGED_NAV2_PAIR_ID must be 8-64 safe ASCII characters'') (\<lambda>_.
     obind (require (source = STAGE1_GOAL_SOURCE) ''GO2_STAGED_NAV2_GOAL_SOURCE must equal'') (\<lambda>_.
     obind (require (TARGET_ID_RE target_id)
       ''GO2_STAGED_NAV2_TARGET_ID must be a 1-64 character safe identifier'') (\<lambda>_.
     obind (require (MAP_ID_RE map_id)
       ''GO2_STAGED_NAV2_MAP_ID must be an 8-64 character safe identifier'') (\<lambda>_.
     obind (case int_of_str (env_get env ''GO2_STAGED_NAV2_MAP_GENERATION'') of
         None \<Rightarrow> Inl (GuardError ''GO2_STAGED_NAV2_MAP_GENERATION must be a positive integer'')
       | Some g \<Rightarrow> if g \<le> 0
           then Inl (GuardError ''GO2_STAGED_NAV2_MAP_GENERATION must be a positive integer'')
           else Inr g) (\<lambda>generation.
     obind (goal_coordinate env ''GO2_STAGED_NAV2_EXPECTED_GOAL_X'') (\<lambda>goal_x.
     obind (goal_coordinate env ''GO2_STAGED_NAV2_EXPECTED_GOAL_Y'') (\<lambda>goal_y.
     obind (goal_coordinate env ''GO2_STAGED_NAV2_EXPECTED_GOAL_YAW'') (\<lambda>goal_yaw.
     obind (goal_coordinate env ''GO2_STAGED_NAV2_EXPECTED_START_X'') (\<lambda>start_x.
     obind (goal_coordinate env ''GO2_STAGED_NAV2_EXPECTED_START_Y'') (\<lambda>start_y.
     obind (require (fle (fneg math_pi) goal_yaw \<and> fle goal_yaw math_pi)
       ''GO2_STAGED_NAV2_EXPECTED_GOAL_YAW must be within [-pi, pi]'') (\<lambda>_.
     obind (decimal_list env ''GO2_ALLOWED_MODES'' 0 254 False) (\<lambda>allowed_modes.
     obind (decimal_list env ''GO2_ALLOWED_STATE_MARKERS'' 1 4294967295 True) (\<lambda>markers.
     obind (require (SHA256_RE evidence_sha256)
       ''GO2_STAGED_NAV2_GOAL_EVIDENCE_SHA256 must be lowercase SHA-256'') (\<lambda>_.
     Inr \<lparr>rc_session_id = session_id, rc_stage = STAGE, rc_allowed_modes = allowed_modes,
          rc_allowed_state_markers = markers,
          rc_expected_goal = \<lparr>eg_session_id = session_id, eg_pair_id = pair_id, eg_source = source,
            eg_target_id = target_id, eg_map_id = map_id, eg_generation = generation,
            eg_x_m = goal_x, eg_y_m = goal_y, eg_yaw_rad = goal_yaw,
            eg_start_x_m = start_x, eg_start_y_m = start_y,
            eg_evidence_sha256 = evidence_sha256\<rparr>\<rparr>))))))))))))))))"

section \<open>validate_goal_claim\<close>

definition goal_claim_keys :: "string list" where
  "goal_claim_keys = [''schema'', ''session_id'', ''pair_id'', ''source'', ''target_id'', ''map_id'',
     ''generation'', ''pose'', ''goal_evidence_sha256'', ''goal_uuid'']"

text \<open>\<open>payload.get(key) == value\<close>; an absent key reads as \<open>None\<close>, which equals no string or integer.\<close>

definition dict_get :: "(string \<times> pyval) list \<Rightarrow> string \<Rightarrow> pyval" where
  "dict_get d k = (case map_of d k of Some v \<Rightarrow> v | None \<Rightarrow> VNone)"

definition matches_permit :: "(string \<times> pyval) list \<Rightarrow> expected_goal_claim \<Rightarrow> bool" where
  "matches_permit d ex \<longleftrightarrow>
     eq_str (dict_get d ''schema'') GOAL_CLAIM_SCHEMA \<and>
     eq_str (dict_get d ''session_id'') (eg_session_id ex) \<and>
     eq_str (dict_get d ''pair_id'') (eg_pair_id ex) \<and>
     eq_str (dict_get d ''source'') (eg_source ex) \<and>
     eq_str (dict_get d ''target_id'') (eg_target_id ex) \<and>
     eq_str (dict_get d ''map_id'') (eg_map_id ex) \<and>
     eq_int (dict_get d ''generation'') (eg_generation ex) \<and>
     eq_str (dict_get d ''goal_evidence_sha256'') (eg_evidence_sha256 ex)"

text \<open>\<open>float(pose[key])\<close> under \<open>except (TypeError, ValueError)\<close>: an \<open>OverflowError\<close> escapes.\<close>

definition pose_number :: "pyval \<Rightarrow> guard_exc + pyfloat" where
  "pose_number v = (case to_float v of
       Inr f \<Rightarrow> Inr f
     | Inl OverflowError \<Rightarrow> Inl UncaughtOverflowError
     | Inl _ \<Rightarrow> Inl (GuardError ''goal claim pose is not numeric''))"

definition pose_close :: "pyfloat \<Rightarrow> pyfloat \<Rightarrow> bool" where
  "pose_close actual wanted \<longleftrightarrow> isfinite actual \<and> isclose (Fin 0) (fl (1 / 10 ^ 9)) actual wanted"

definition check_claim_pose :: "(string \<times> pyval) list \<Rightarrow> expected_goal_claim \<Rightarrow> guard_exc + unit" where
  "check_claim_pose pose ex =
     obind (pose_number (dict_get pose ''x'')) (\<lambda>x.
     obind (pose_number (dict_get pose ''y'')) (\<lambda>y.
     obind (pose_number (dict_get pose ''yaw'')) (\<lambda>yaw.
     require (pose_close x (eg_x_m ex) \<and> pose_close y (eg_y_m ex) \<and> pose_close yaw (eg_yaw_rad ex))
       ''goal claim pose does not match permit-derived pose'')))"

definition check_claim_uuid :: "pyval \<Rightarrow> guard_exc + string" where
  "check_claim_uuid v = (case v of
       VStr u \<Rightarrow> if GOAL_UUID_RE u then Inr u
                 else Inl (GuardError ''goal claim UUID must be 16-byte lowercase hex'')
     | _ \<Rightarrow> Inl (GuardError ''goal claim UUID must be 16-byte lowercase hex''))"

text \<open>A JSON object is checked in source order: keys, pose keys, permit fields, pose, UUID.\<close>

definition check_claim_object ::
  "(string \<times> pyval) list \<Rightarrow> expected_goal_claim \<Rightarrow> guard_exc + accepted_goal_claim" where
  "check_claim_object d ex =
     obind (require (set (map fst d) = set goal_claim_keys)
       ''goal claim keys do not match the exact schema'') (\<lambda>_.
     obind (case dict_get d ''pose'' of
         VDict pose \<Rightarrow> if set (map fst pose) = {''x'', ''y'', ''yaw''} then Inr pose
           else Inl (GuardError ''goal claim pose keys do not match the exact schema'')
       | _ \<Rightarrow> Inl (GuardError ''goal claim pose keys do not match the exact schema'')) (\<lambda>pose.
     obind (require (matches_permit d ex) ''goal claim does not match permit-derived fields'') (\<lambda>_.
     obind (check_claim_pose pose ex) (\<lambda>_.
     obind (check_claim_uuid (dict_get d ''goal_uuid'')) (\<lambda>u.
     Inr \<lparr>ac_goal_uuid = u, ac_expected = ex\<rparr>)))))"

text \<open>
  Text is decoded first; \<open>loads\<close> is \<open>json.loads\<close>, \<open>None\<close> for its \<open>JSONDecodeError\<close>.
\<close>

definition decode_claim :: "(string \<Rightarrow> pyval option) \<Rightarrow> pyval \<Rightarrow> guard_exc + pyval" where
  "decode_claim loads payload = (case payload of
       VStr text \<Rightarrow> (case loads text of None \<Rightarrow> Inl (GuardError ''goal claim is not valid JSON'')
                     | Some v \<Rightarrow> Inr v)
     | v \<Rightarrow> Inr v)"

definition validate_goal_claim ::
  "(string \<Rightarrow> pyval option) \<Rightarrow> pyval \<Rightarrow> expected_goal_claim \<Rightarrow> guard_exc + accepted_goal_claim" where
  "validate_goal_claim loads payload0 ex =
     obind (decode_claim loads payload0) (\<lambda>payload.
     case payload of
       VDict d \<Rightarrow> check_claim_object d ex
     | _ \<Rightarrow> Inl (GuardError ''goal claim must be a JSON object''))"

section \<open>What an accepted claim is\<close>

lemma require_simps [simp]: "require True m = Inr ()" "require False m = Inl (GuardError m)"
  by (simp_all add: require_def)

lemma require_Inr [simp]: "require b m = Inr u \<longleftrightarrow> b"
  by (simp add: require_def)

lemma pose_number_Inr [simp]: "pose_number v = Inr f \<longleftrightarrow> to_float v = Inr f"
  by (auto simp: pose_number_def split: sum.splits conversion_error.splits)

lemma check_claim_uuid_Inr [simp]: "check_claim_uuid v = Inr u \<longleftrightarrow> v = VStr u \<and> GOAL_UUID_RE u"
  by (auto simp: check_claim_uuid_def split: pyval.splits)

lemma check_claim_object_Inr:
  "check_claim_object d ex = Inr c \<longleftrightarrow>
     set (map fst d) = set goal_claim_keys \<and> matches_permit d ex \<and>
     (\<exists>pose. dict_get d ''pose'' = VDict pose \<and> set (map fst pose) = {''x'', ''y'', ''yaw''} \<and>
        check_claim_pose pose ex = Inr ()) \<and>
     dict_get d ''goal_uuid'' = VStr (ac_goal_uuid c) \<and> GOAL_UUID_RE (ac_goal_uuid c) \<and>
     ac_expected c = ex"
proof -
  have "(case dict_get d ''pose'' of
         VDict pose \<Rightarrow> if set (map fst pose) = {''x'', ''y'', ''yaw''} then Inr pose
           else Inl (GuardError ''goal claim pose keys do not match the exact schema'')
       | _ \<Rightarrow> Inl (GuardError ''goal claim pose keys do not match the exact schema'')) = Inr p \<longleftrightarrow>
       dict_get d ''pose'' = VDict p \<and> set (map fst p) = {''x'', ''y'', ''yaw''}" for p
    by (cases "dict_get d ''pose''") auto
  then show ?thesis by (cases c) (auto simp: check_claim_object_def)
qed

lemma validate_goal_claim_Inr:
  "validate_goal_claim loads payload ex = Inr c \<longleftrightarrow>
     (\<exists>d. decode_claim loads payload = Inr (VDict d) \<and> check_claim_object d ex = Inr c)"
proof -
  have "(case p of VDict d \<Rightarrow> check_claim_object d ex
     | _ \<Rightarrow> Inl (GuardError ''goal claim must be a JSON object'')) = Inr c \<longleftrightarrow>
     (\<exists>d. p = VDict d \<and> check_claim_object d ex = Inr c)" for p
    by (cases p) auto
  then show ?thesis by (auto simp: validate_goal_claim_def)
qed

lemma validate_goal_claim_expected: "validate_goal_claim loads v ex = Inr c \<Longrightarrow> ac_expected c = ex"
  by (auto simp: validate_goal_claim_Inr check_claim_object_Inr)

lemma validate_goal_claim_uuid: "validate_goal_claim loads v ex = Inr c \<Longrightarrow> GOAL_UUID_RE (ac_goal_uuid c)"
  by (auto simp: validate_goal_claim_Inr check_claim_object_Inr)

end
