(* ===== verification/GuardPolicy.thy ===== *)
theory GuardPolicy imports GuardClaims begin

text \<open>
  \<open>scripts/staged_nav2_motion_guard.py\<close>, second part: the one-goal safety state machine
  \<open>StagedNav2Guard\<close>. The record \<open>guard\<close> has the object's attributes (leading underscores
  dropped); a method takes the object last and returns its outcome (a \<open>Decision\<close>, or the
  exception that escaped) with the object it leaves behind. \<open>hyp\<close> stands for \<open>math.hypot\<close> of the
  platform's C library; nothing is assumed about it.
\<close>

datatype phase = DISABLED | IDLE | PENDING_ARM | ARMED | COMPLETE | FAULT

type_synonym velocity = "pyfloat \<times> pyfloat \<times> pyfloat"

record stage_limits =
  max_linear_x_mps :: pyfloat
  max_linear_y_mps :: pyfloat
  max_angular_z_rps :: pyfloat
  max_linear_accel_mps2 :: pyfloat
  max_angular_accel_rps2 :: pyfloat
  max_distance_m :: pyfloat
  max_duration_s :: pyfloat
  command_timeout_s :: pyfloat
  arm_response_timeout_s :: pyfloat
  zero_preamble_s :: pyfloat
  chassis_ready_timeout_s :: pyfloat

definition LIMITS :: stage_limits where
  "LIMITS = \<lparr>max_linear_x_mps = fl (30 / 100), max_linear_y_mps = Fin 0,
     max_angular_z_rps = fl (40 / 100), max_linear_accel_mps2 = fl (30 / 100),
     max_angular_accel_rps2 = fl (80 / 100), max_distance_m = Fin 0, max_duration_s = Fin 0,
     command_timeout_s = fl (20 / 100), arm_response_timeout_s = Fin 1,
     zero_preamble_s = fl (60 / 100), chassis_ready_timeout_s = Fin 2\<rparr>"

definition FRESHNESS_LIMIT_S :: "(string \<times> pyfloat) list" where
  "FRESHNESS_LIMIT_S =
    [(''state'', Fin 1), (''odom'', Fin 1), (''tf'', Fin 1), (''scan'', fl (150 / 100)),
     (''localization'', fl (50 / 100)), (''goal_status'', fl (50 / 100)),
     (''goal_claim'', fl (75 / 100)), (''map'', fl (75 / 100)), (''map_lifecycle'', fl (75 / 100)),
     (''ownership'', fl (75 / 100)), (''chassis'', Fin 1)]"

definition SOURCE_STAMP_LIMIT_S :: "(string \<times> pyfloat) list" where
  "SOURCE_STAMP_LIMIT_S =
    [(''state'', fl (20 / 100)), (''odom'', fl (20 / 100)), (''scan'', fl (25 / 100)),
     (''localization'', fl (50 / 100))]"

definition MAX_SOURCE_FUTURE_S :: pyfloat where "MAX_SOURCE_FUTURE_S = fl (5 / 100)"
definition UNVERIFIED_GOAL_TIMEOUT_S :: pyfloat where "UNVERIFIED_GOAL_TIMEOUT_S = fl (50 / 100)"
definition MAX_START_POSITION_ERROR_M :: pyfloat where "MAX_START_POSITION_ERROR_M = fl (5 / 100)"

definition ACTIVE_STATUSES :: "string list" where "ACTIVE_STATUSES = [''accepted'', ''executing'']"
definition TERMINAL_SUCCESS_STATUSES :: "string list" where "TERMINAL_SUCCESS_STATUSES = [''succeeded'']"
definition TERMINAL_CANCEL_STATUSES :: "string list" where
  "TERMINAL_CANCEL_STATUSES = [''canceling'', ''canceled'']"
definition TERMINAL_FAILURE_STATUSES :: "string list" where
  "TERMINAL_FAILURE_STATUSES = [''aborted'', ''unknown'']"

record decision =
  d_command :: velocity
  request_arm :: bool
  request_disarm :: bool
  request_cancel :: bool
  reason :: string

definition zero_velocity :: velocity where "zero_velocity = (Fin 0, Fin 0, Fin 0)"

definition is_zero :: "decision \<Rightarrow> bool" where "is_zero d \<longleftrightarrow> d_command d = zero_velocity"

record guard =
  limits :: stage_limits
  expected_goal :: "expected_goal_claim option"
  allowed_modes :: "int list"
  allowed_state_markers :: "int list"
  phase :: phase
  session_spent :: bool
  goal_id :: string
  fault_reason :: string
  terminal_reason :: string
  witnesses :: "string \<Rightarrow> pyfloat option"
  ownership_valid :: bool
  map_lifecycle :: "(string \<times> int) option"
  locked_map_lifecycle :: "(string \<times> int) option"
  accepted_goal_claim :: "accepted_goal_claim option"
  goal_claim_seen :: bool
  unverified_goal_id :: string
  unverified_goal_at :: "pyfloat option"
  chassis_guard_state :: string
  daemon_armed :: bool
  odom_xy :: "(pyfloat \<times> pyfloat) option"
  localization_xy :: "(pyfloat \<times> pyfloat) option"
  localization_yaw :: "pyfloat option"
  last_distance_xy :: "(pyfloat \<times> pyfloat) option"
  distance_traveled_m :: pyfloat
  arm_requested_at :: "pyfloat option"
  arm_service_accepted :: bool
  armed_at :: "pyfloat option"
  last_command_at :: "pyfloat option"
  last_output_at :: "pyfloat option"
  last_output :: velocity

type_synonym effect = "(guard_exc + decision) \<times> guard"

section \<open>Construction\<close>

definition mode_ok :: "pyval \<Rightarrow> bool" where
  "mode_ok v \<longleftrightarrow> (case as_int v of Some i \<Rightarrow> 0 \<le> i \<and> i \<le> 254 | None \<Rightarrow> False)"

definition marker_ok :: "pyval \<Rightarrow> bool" where
  "marker_ok v \<longleftrightarrow> (case as_int v of Some i \<Rightarrow> 1 \<le> i \<and> i \<le> 4294967295 | None \<Rightarrow> False)"

definition StagedNav2Guard_init ::
  "bool \<Rightarrow> string \<Rightarrow> stage_limits \<Rightarrow> expected_goal_claim option \<Rightarrow> pyval list \<Rightarrow> pyval list
   \<Rightarrow> guard_exc + guard" where
  "StagedNav2Guard_init enabled stage lims goal modes markers =
     obind (require (stage = STAGE) ''unsupported staged Nav2 stage'') (\<lambda>_.
     obind (require (\<not> (enabled \<and> (goal = None \<or> modes = [])))
       ''enabled staged guard requires goal and audited mode claims'') (\<lambda>_.
     obind (require (list_all mode_ok modes) ''allowed modes must be uint8 values below 255'') (\<lambda>_.
     obind (require (list_all marker_ok markers) ''allowed state markers must be non-zero uint32 values'') (\<lambda>_.
     obind (require (distinct modes \<and> distinct markers) ''audited state claims must not contain duplicates'') (\<lambda>_.
     Inr \<lparr>limits = lims, expected_goal = goal,
       allowed_modes = List.map_filter as_int modes, allowed_state_markers = List.map_filter as_int markers,
       phase = (if enabled then IDLE else DISABLED), session_spent = False, goal_id = [],
       fault_reason = [], terminal_reason = [], witnesses = (\<lambda>_. None), ownership_valid = False,
       map_lifecycle = None, locked_map_lifecycle = None, accepted_goal_claim = None,
       goal_claim_seen = False, unverified_goal_id = [], unverified_goal_at = None,
       chassis_guard_state = ''UNKNOWN'', daemon_armed = False, odom_xy = None,
       localization_xy = None, localization_yaw = None, last_distance_xy = None,
       distance_traveled_m = Fin 0, arm_requested_at = None, arm_service_accepted = False,
       armed_at = None, last_command_at = None, last_output_at = None,
       last_output = zero_velocity\<rparr>)))))"

section \<open>Decisions\<close>

definition decide :: "string \<Rightarrow> velocity \<Rightarrow> bool \<Rightarrow> bool \<Rightarrow> bool \<Rightarrow> decision" where
  "decide r cmd arm disarm cancel = \<lparr>d_command = cmd, request_arm = arm, request_disarm = disarm,
     request_cancel = cancel, reason = r\<rparr>"

text \<open>\<open>self._decision(reason)\<close> with every keyword at its default.\<close>

definition plain :: "string \<Rightarrow> guard \<Rightarrow> effect" where
  "plain r g = (Inr (decide r zero_velocity False False False), g)"

definition trip :: "string \<Rightarrow> guard \<Rightarrow> effect" where
  "trip r g =
     (let g1 = (if phase g \<noteq> FAULT
                then g\<lparr>phase := FAULT, fault_reason := r, terminal_reason := r\<rparr> else g);
          g2 = g1\<lparr>session_spent := True, last_output := zero_velocity\<rparr>
      in (Inr (decide (if fault_reason g2 \<noteq> [] then fault_reason g2 else r) zero_velocity False True
                 (goal_id g2 \<noteq> [] \<or> unverified_goal_id g2 \<noteq> [])), g2))"

definition finish :: "string \<Rightarrow> bool \<Rightarrow> guard \<Rightarrow> effect" where
  "finish r cancel g =
     (Inr (decide r zero_velocity False True cancel),
      g\<lparr>phase := COMPLETE, terminal_reason := r, session_spent := True, last_output := zero_velocity\<rparr>)"

definition moving :: "guard \<Rightarrow> bool" where
  "moving g \<longleftrightarrow> phase g = PENDING_ARM \<or> phase g = ARMED"

text \<open>\<open>_finite_time\<close> raises before the object changes.\<close>

definition finite_time :: "pyfloat \<Rightarrow> bool" where
  "finite_time t \<longleftrightarrow> isfinite t \<and> \<not> fless t (Fin 0)"

definition at_time :: "pyfloat \<Rightarrow> guard \<Rightarrow> effect \<Rightarrow> effect" where
  "at_time now g k = (if finite_time now then k
     else (Inl (GuardError ''monotonic time must be a finite non-negative time''), g))"

text \<open>Calling another method and going on with its decision and the object it leaves.\<close>

definition andThen :: "effect \<Rightarrow> (decision \<Rightarrow> guard \<Rightarrow> effect) \<Rightarrow> effect" where
  "andThen m f = (case m of (Inl e, g) \<Rightarrow> (Inl e, g) | (Inr d, g) \<Rightarrow> f d g)"

definition set_witness :: "string \<Rightarrow> pyfloat option \<Rightarrow> guard \<Rightarrow> guard" where
  "set_witness name t g = g\<lparr>witnesses := (witnesses g)(name := t)\<rparr>"

section \<open>Observations\<close>

definition source_stamp_invalid :: "string \<Rightarrow> pyfloat \<Rightarrow> bool" where
  "source_stamp_invalid name age \<longleftrightarrow>
     \<not> isfinite age \<or> fless age (fneg MAX_SOURCE_FUTURE_S) \<or>
     (case map_of SOURCE_STAMP_LIMIT_S name of None \<Rightarrow> True | Some maximum \<Rightarrow> fless maximum age)"

definition observe :: "string \<Rightarrow> pyfloat \<Rightarrow> pyfloat option \<Rightarrow> guard \<Rightarrow> effect" where
  "observe name now source_age g =
     (if map_of FRESHNESS_LIMIT_S name = None
      then (Inl (GuardError (''unknown guard witness: '' @ name)), g)
      else at_time now g
        (if (case source_age of None \<Rightarrow> False | Some age \<Rightarrow> source_stamp_invalid name age)
         then (let g' = set_witness name None g in
               if name = ''scan'' \<or> name = ''localization'' then plain (name @ ''_delegated_to_nav2'') g'
               else if moving g' then trip (name @ ''_source_stamp_invalid'') g'
               else plain (name @ ''_source_stamp_invalid'') g')
         else plain (name @ ''_fresh'') (set_witness name (Some now) g)))"

definition observe_odom ::
  "(pyfloat \<Rightarrow> pyfloat \<Rightarrow> pyfloat) \<Rightarrow> pyfloat \<Rightarrow> pyfloat \<Rightarrow> pyfloat \<Rightarrow> pyfloat option \<Rightarrow> guard \<Rightarrow> effect" where
  "observe_odom hyp now x y source_age g =
     (if \<not> (isfinite x \<and> isfinite y) then trip ''odom_pose_non_finite'' g
      else andThen (observe ''odom'' now source_age g) (\<lambda>result g1.
        if phase g1 = FAULT then (Inr result, g1)
        else let g2 = g1\<lparr>odom_xy := Some (x, y)\<rparr> in
          (case last_distance_xy g2 of
             Some (lx, ly) \<Rightarrow>
               if phase g2 = ARMED then
                 (let step = hyp (fsub x lx) (fsub y ly);
                      total = fadd (distance_traveled_m g2) step;
                      g3 = g2\<lparr>last_distance_xy := Some (x, y), distance_traveled_m := total\<rparr>
                  in if \<not> isfinite step \<or> \<not> isfinite total \<or>
                        (fless (Fin 0) (max_distance_m (limits g3)) \<and>
                         fle (max_distance_m (limits g3)) total)
                     then trip ''stage_distance_limit'' g3 else (Inr result, g3))
               else (Inr result, g2)
           | None \<Rightarrow> (Inr result, g2))))"

definition observe_state :: "pyfloat \<Rightarrow> pyval \<Rightarrow> pyval \<Rightarrow> pyfloat option \<Rightarrow> guard \<Rightarrow> effect" where
  "observe_state now mode error_code source_age g =
     (if (case (as_int mode, as_int error_code) of
            (Some m, Some e) \<Rightarrow> m \<in> set (allowed_modes g) \<and> (e = 0 \<or> e \<in> set (allowed_state_markers g))
          | _ \<Rightarrow> False)
      then observe ''state'' now source_age g
      else (let g' = set_witness ''state'' None g in
            if moving g' then trip ''state_mode_or_marker_mismatch'' g'
            else plain ''state_mode_or_marker_mismatch'' g'))"

text \<open>\<open>float\<close> of every scan number; a \<open>TypeError\<close> or \<open>ValueError\<close> makes the scan all-NaN and empty.\<close>

definition scan_numbers :: "pyval list \<Rightarrow> pyval list \<Rightarrow> guard_exc + pyfloat list \<times> pyfloat list" where
  "scan_numbers numeric ranges =
     (case obind (all_ok to_float numeric) (\<lambda>ns. obind (all_ok to_float ranges) (\<lambda>rs. Inr (ns, rs))) of
        Inr p \<Rightarrow> Inr p
      | Inl OverflowError \<Rightarrow> Inl UncaughtOverflowError
      | Inl _ \<Rightarrow> Inr (replicate 5 NaN, []))"

definition scan_valid :: "string \<Rightarrow> pyfloat list \<Rightarrow> pyfloat list \<Rightarrow> bool" where
  "scan_valid frame_id ns rs \<longleftrightarrow>
     (case ns of [angle_min, angle_max, angle_increment, range_min, range_max] \<Rightarrow>
        str_strip frame_id \<noteq> [] \<and> list_all isfinite ns \<and> fless (Fin 0) angle_increment \<and>
        fless angle_min angle_max \<and> fle (Fin 0) range_min \<and> fless range_min range_max \<and> rs \<noteq> [] \<and>
        list_ex (\<lambda>v. isfinite v \<and> fle range_min v \<and> fle v range_max) rs
      | _ \<Rightarrow> False)"

definition observe_scan ::
  "pyfloat \<Rightarrow> string \<Rightarrow> pyval \<Rightarrow> pyval \<Rightarrow> pyval \<Rightarrow> pyval \<Rightarrow> pyval \<Rightarrow> pyval list \<Rightarrow> pyfloat option
   \<Rightarrow> guard \<Rightarrow> effect" where
  "observe_scan now frame_id angle_min angle_max angle_increment range_min range_max ranges source_age g =
     (case scan_numbers [angle_min, angle_max, angle_increment, range_min, range_max] ranges of
        Inl e \<Rightarrow> (Inl e, g)
      | Inr (ns, rs) \<Rightarrow>
          if scan_valid frame_id ns rs then observe ''scan'' now source_age g
          else plain ''scan_delegated_to_nav2'' (set_witness ''scan'' None g))"

definition start_position_matches :: "(pyfloat \<Rightarrow> pyfloat \<Rightarrow> pyfloat) \<Rightarrow> guard \<Rightarrow> bool" where
  "start_position_matches hyp g =
     (case (expected_goal g, localization_xy g) of
        (Some ex, Some (lx, ly)) \<Rightarrow>
          (let err = hyp (fsub lx (eg_start_x_m ex)) (fsub ly (eg_start_y_m ex))
           in isfinite err \<and> fle err MAX_START_POSITION_ERROR_M)
      | _ \<Rightarrow> False)"

definition observe_localization ::
  "(pyfloat \<Rightarrow> pyfloat \<Rightarrow> pyfloat) \<Rightarrow> pyfloat \<Rightarrow> string \<Rightarrow> pyfloat \<Rightarrow> pyfloat \<Rightarrow> pyfloat \<Rightarrow> pyfloat option
   \<Rightarrow> guard \<Rightarrow> effect" where
  "observe_localization hyp now frame_id x y yaw source_age g =
     (if frame_id = ''map'' \<and> isfinite x \<and> isfinite y \<and> isfinite yaw \<and>
         fle (fneg math_pi) yaw \<and> fle yaw math_pi
      then andThen
        (observe ''localization'' now source_age (g\<lparr>localization_xy := Some (x, y), localization_yaw := Some yaw\<rparr>))
        (\<lambda>result g1.
          if phase g1 = PENDING_ARM \<and> \<not> start_position_matches hyp g1
          then trip ''localization_left_permitted_start_before_arm'' g1 else (Inr result, g1))
      else plain ''localization_delegated_to_nav2'' (set_witness ''localization'' None g))"

definition observe_ownership ::
  "pyfloat \<Rightarrow> string list \<Rightarrow> string list \<Rightarrow> string list \<Rightarrow> int \<Rightarrow> guard \<Rightarrow> effect" where
  "observe_ownership now controller_publishers output_publishers chassis_subscribers canonical_publishers g =
     at_time now g
       (let valid = (controller_publishers = [EXPECTED_CONTROLLER_NODE] \<and>
                     output_publishers = [''/'' @ NODE_NAME] \<and>
                     chassis_subscribers = [EXPECTED_CHASSIS_NODE] \<and> canonical_publishers = 0);
            g1 = g\<lparr>ownership_valid := valid\<rparr>
        in if \<not> valid
           then (let g2 = set_witness ''ownership'' None g1 in
                 if moving g2 then trip ''command_ownership_mismatch'' g2
                 else plain ''command_ownership_mismatch'' g2)
           else plain ''command_ownership_fresh'' (set_witness ''ownership'' (Some now) g1))"

definition observe_map_lifecycle :: "pyfloat \<Rightarrow> string \<Rightarrow> string \<Rightarrow> pyval \<Rightarrow> guard \<Rightarrow> effect" where
  "observe_map_lifecycle now map_id0 mode0 generation g =
     at_time now g
       (let map_id = str_strip map_id0; mode = str_lower (str_strip mode0);
            reject = (\<lambda>r. let g' = set_witness ''map_lifecycle'' None g in
                          if moving g' then trip r g' else plain r g')
        in case (if map_id = [] \<or> mode \<noteq> ''localization'' then None else as_int generation) of
             None \<Rightarrow> reject ''map_lifecycle_invalid''
           | Some gen \<Rightarrow>
               if gen \<le> 0 then reject ''map_lifecycle_invalid''
               else if (case expected_goal g of None \<Rightarrow> False
                        | Some ex \<Rightarrow> (map_id, gen) \<noteq> (eg_map_id ex, eg_generation ex))
               then reject ''map_lifecycle_does_not_match_goal_permit''
               else if locked_map_lifecycle g \<noteq> None \<and> locked_map_lifecycle g \<noteq> Some (map_id, gen)
               then trip ''map_lifecycle_changed'' g
               else plain ''map_lifecycle_fresh''
                 (set_witness ''map_lifecycle'' (Some now) (g\<lparr>map_lifecycle := Some (map_id, gen)\<rparr>)))"

text \<open>The measured state of an accepted status sample drives the phase.\<close>

definition chassis_transition ::
  "(pyfloat \<Rightarrow> pyfloat \<Rightarrow> pyfloat) \<Rightarrow> pyfloat \<Rightarrow> string \<Rightarrow> bool \<Rightarrow> guard \<Rightarrow> effect" where
  "chassis_transition hyp now guard_state is_armed g =
     (if guard_state = ''FAULT'' then trip ''chassis_fault'' g
      else if phase g = ARMED then
        (if guard_state \<noteq> ''ARMED'' \<or> \<not> is_armed then trip ''chassis_left_armed_state'' g
         else plain ''chassis_status_fresh'' g)
      else if phase g = PENDING_ARM then
        (if arm_service_accepted g \<and>
            (case arm_requested_at g of None \<Rightarrow> False
             | Some t \<Rightarrow> fle (zero_preamble_s (limits g)) (fsub now t)) \<and>
            guard_state = ''ARMED'' \<and> is_armed
         then (if \<not> start_position_matches hyp g
               then trip ''chassis_armed_outside_permitted_start_position'' g
               else plain ''chassis_measured_armed_after_zero_hold''
                 (g\<lparr>phase := ARMED, armed_at := Some now, last_command_at := Some now,
                    last_output_at := Some now, last_output := zero_velocity\<rparr>))
         else if is_armed \<and> guard_state \<noteq> ''ARMED''
         then trip ''daemon_armed_without_chassis_armed'' g
         else plain ''chassis_status_fresh'' g)
      else plain ''chassis_status_fresh'' g)"

definition chassis_states :: "string list" where
  "chassis_states = [''DISARMED'', ''PREPARING'', ''ARMED'', ''FAULT'']"

definition observe_chassis_status ::
  "(pyfloat \<Rightarrow> pyfloat \<Rightarrow> pyfloat) \<Rightarrow> pyfloat \<Rightarrow> string \<Rightarrow> pyval \<Rightarrow> pyval \<Rightarrow> string \<Rightarrow> string
   \<Rightarrow> guard \<Rightarrow> effect" where
  "observe_chassis_status hyp now guard_state0 armed motion_configured motion_profile odom_source g =
     at_time now g
       (let guard_state = str_upper (str_strip guard_state0);
            profile_exact = (motion_configured = VBool True \<and> motion_profile = PROFILE \<and>
                             odom_source = ''external_verified'')
        in if guard_state \<in> set chassis_states \<and> as_bool armed \<noteq> None \<and> profile_exact
           then chassis_transition hyp now guard_state (armed = VBool True)
                  (set_witness ''chassis'' (Some now)
                    (g\<lparr>chassis_guard_state := guard_state, daemon_armed := (armed = VBool True)\<rparr>))
           else (let g' = set_witness ''chassis'' None g in
                 if moving g' then trip ''chassis_status_or_profile_invalid'' g'
                 else plain ''chassis_status_or_profile_invalid'' g'))"

section \<open>Freshness\<close>

text \<open>The loop of \<open>_stale_reason\<close> over the freshness table.\<close>

fun stale_loop :: "guard \<Rightarrow> pyfloat \<Rightarrow> (string \<times> pyfloat) list \<Rightarrow> string option" where
  "stale_loop g now [] =
     (if \<not> ownership_valid g then Some ''command_ownership_mismatch'' else None)"
| "stale_loop g now ((name, maximum) # rest) =
     (if name = ''goal_status'' \<or> name = ''goal_claim'' then stale_loop g now rest
      else if (name = ''scan'' \<or> name = ''localization'') \<and> moving g then stale_loop g now rest
      else case witnesses g name of
          None \<Rightarrow> Some (name @ ''_missing'')
        | Some observed \<Rightarrow>
            (let age = fsub now observed in
             if \<not> isfinite age \<or> fless age (Fin 0) \<or> fless maximum age then Some (name @ ''_stale'')
             else stale_loop g now rest))"

definition stale_reason :: "guard \<Rightarrow> pyfloat \<Rightarrow> string option" where
  "stale_reason g now = stale_loop g now FRESHNESS_LIMIT_S"

definition hold_zero_for_command_gap :: "pyfloat \<Rightarrow> guard \<Rightarrow> guard" where
  "hold_zero_for_command_gap now g =
     g\<lparr>last_command_at := None, last_output_at := Some now, last_output := zero_velocity\<rparr>"

section \<open>Goals\<close>

definition start_bound_goal_if_ready ::
  "(pyfloat \<Rightarrow> pyfloat \<Rightarrow> pyfloat) \<Rightarrow> pyfloat \<Rightarrow> guard \<Rightarrow> effect" where
  "start_bound_goal_if_ready hyp now g =
     at_time now g
       (if phase g \<noteq> IDLE \<or> goal_id g = [] then trip ''bound_goal_start_state_invalid'' g
        else case stale_reason g now of
            Some stale \<Rightarrow> plain (''goal_waiting_for_'' @ stale) g
          | None \<Rightarrow>
              if odom_xy g = None then trip ''goal_started_without_odom_pose'' g
              else if \<not> start_position_matches hyp g
              then trip ''goal_started_outside_permitted_start_position'' g
              else if map_lifecycle g = None then trip ''goal_started_without_map_lifecycle'' g
              else if chassis_guard_state g \<noteq> ''DISARMED'' \<or> daemon_armed g
              then trip ''goal_started_while_chassis_not_disarmed'' g
              else (Inr (decide ''goal_active_request_arm'' zero_velocity True False False),
                g\<lparr>session_spent := True, phase := PENDING_ARM, arm_requested_at := Some now,
                  arm_service_accepted := False, last_distance_xy := odom_xy g,
                  distance_traveled_m := Fin 0, locked_map_lifecycle := map_lifecycle g,
                  last_command_at := None, last_output_at := Some now, last_output := zero_velocity\<rparr>))"

definition begin_goal ::
  "(pyfloat \<Rightarrow> pyfloat \<Rightarrow> pyfloat) \<Rightarrow> string \<Rightarrow> pyfloat \<Rightarrow> guard \<Rightarrow> effect" where
  "begin_goal hyp goal now g =
     at_time now g
       (if phase g = DISABLED then (Inr (decide ''profile_disabled'' zero_velocity False True True), g)
        else if phase g = FAULT
        then (Inr (decide (if fault_reason g \<noteq> [] then fault_reason g else ''fault_latched'')
                zero_velocity False True True), g)
        else if phase g \<noteq> IDLE \<or> session_spent g then trip ''staged_session_is_one_goal_only'' g
        else if goal = [] \<or> length goal > 128 then trip ''goal_id_invalid'' g
        else
          let g1 = g\<lparr>goal_id := goal\<rparr> in
          case accepted_goal_claim g1 of
            None \<Rightarrow> trip ''goal_claim_missing'' g1
          | Some claim \<Rightarrow>
              if goal \<noteq> ac_goal_uuid claim then trip ''active_goal_not_bound_to_claim'' g1
              else start_bound_goal_if_ready hyp now
                     (g1\<lparr>unverified_goal_id := [], unverified_goal_at := None\<rparr>))"

definition observe_goal_claim ::
  "(pyfloat \<Rightarrow> pyfloat \<Rightarrow> pyfloat) \<Rightarrow> (string \<Rightarrow> pyval option) \<Rightarrow> pyfloat \<Rightarrow> pyval \<Rightarrow> string list
   \<Rightarrow> guard \<Rightarrow> effect" where
  "observe_goal_claim hyp loads now payload publisher_nodes g =
     at_time now g
       (if publisher_nodes \<noteq> [] \<and> publisher_nodes \<noteq> [EXPECTED_GOAL_DISPATCH_NODE]
        then trip ''goal_claim_owner_missing_or_ambiguous'' g
        else case expected_goal g of None \<Rightarrow> trip ''goal_permit_claims_missing'' g
          | Some ex \<Rightarrow>
              if goal_claim_seen g then trip ''second_goal_claim'' g
              else
                let g1 = g\<lparr>goal_claim_seen := True\<rparr> in
                (case validate_goal_claim loads payload ex of
                   Inl (GuardError _) \<Rightarrow> trip ''goal_claim_mismatch'' g1
                 | Inl e \<Rightarrow> (Inl e, g1)
                 | Inr claim \<Rightarrow>
                     let g2 = set_witness ''goal_claim'' (Some now) (g1\<lparr>accepted_goal_claim := Some claim\<rparr>) in
                     if unverified_goal_id g2 \<noteq> [] \<and> ac_goal_uuid claim \<noteq> unverified_goal_id g2
                     then trip ''goal_claim_uuid_mismatch'' g2
                     else if unverified_goal_id g2 \<noteq> [] then begin_goal hyp (ac_goal_uuid claim) now g2
                     else plain ''goal_claim_accepted'' g2))"

definition refresh_goal_claim :: "pyfloat \<Rightarrow> guard \<Rightarrow> effect" where
  "refresh_goal_claim now g =
     at_time now g
       (if accepted_goal_claim g = None then plain ''goal_claim_missing'' (set_witness ''goal_claim'' None g)
        else plain ''goal_claim_bound_static'' (set_witness ''goal_claim'' (Some now) g))"

definition statuses_in :: "string list \<Rightarrow> (string \<times> string) list \<Rightarrow> (string \<times> string) list" where
  "statuses_in names sts = filter (\<lambda>(goal, status). status \<in> set names) sts"

definition observe_goal_statuses ::
  "(pyfloat \<Rightarrow> pyfloat \<Rightarrow> pyfloat) \<Rightarrow> pyfloat \<Rightarrow> (string \<times> string) list \<Rightarrow> guard \<Rightarrow> effect" where
  "observe_goal_statuses hyp now statuses g0 =
     at_time now g0
       (let normalized = map (\<lambda>(goal, status). (goal, str_lower status)) statuses in
        andThen (observe ''goal_status'' now None g0) (\<lambda>_ g.
        let active = statuses_in ACTIVE_STATUSES normalized;
            canceling = statuses_in TERMINAL_CANCEL_STATUSES normalized in
        if length active > 1 then trip ''multiple_active_nav2_goals'' g
        else if goal_id g \<noteq> [] then
          (let current = map snd (filter (\<lambda>(goal, _). goal = goal_id g) normalized) in
           if length current \<noteq> 1 then trip ''bound_nav2_goal_status_missing_or_ambiguous'' g
           else if list_ex (\<lambda>s. s \<in> set TERMINAL_FAILURE_STATUSES) current then trip ''nav2_goal_failed'' g
           else if list_ex (\<lambda>s. s \<in> set TERMINAL_CANCEL_STATUSES) current
           then finish ''nav2_goal_canceled'' True g
           else if list_ex (\<lambda>s. s \<in> set TERMINAL_SUCCESS_STATUSES) current
           then finish ''nav2_goal_succeeded'' False g
           else if active \<noteq> [] \<and> fst (hd active) \<noteq> goal_id g then trip ''active_goal_identity_changed'' g
           else plain ''active_goal_status_fresh'' g)
        else if canceling \<noteq> [] then finish ''nav2_cancel_without_arm'' True g
        else if active \<noteq> [] then
          (let goal = fst (hd active) in
           if accepted_goal_claim g = None then
             (if unverified_goal_id g \<noteq> [] \<and> unverified_goal_id g \<noteq> goal
              then trip ''second_unverified_active_goal'' g
              else plain ''active_goal_waiting_for_exact_claim''
                (if unverified_goal_id g = []
                 then g\<lparr>unverified_goal_id := goal, unverified_goal_at := Some now\<rparr> else g))
           else begin_goal hyp goal now g)
        else plain ''no_active_goal'' g))"

section \<open>Arming, commands and the timer\<close>

definition confirm_arm ::
  "(pyfloat \<Rightarrow> pyfloat \<Rightarrow> pyfloat) \<Rightarrow> bool \<Rightarrow> pyfloat \<Rightarrow> guard \<Rightarrow> effect" where
  "confirm_arm hyp success now g =
     at_time now g
       (if phase g \<noteq> PENDING_ARM then trip ''unexpected_arm_response'' g
        else if \<not> success then trip ''chassis_arm_rejected'' g
        else case stale_reason g now of
            Some stale \<Rightarrow> trip (''arm_completed_with_'' @ stale) g
          | None \<Rightarrow>
              if \<not> start_position_matches hyp g
              then trip ''arm_completed_outside_permitted_start_position'' g
              else plain ''chassis_prepare_acknowledged_zero_hold'' (g\<lparr>arm_service_accepted := True\<rparr>))"

definition slew :: "pyfloat \<Rightarrow> pyfloat \<Rightarrow> pyfloat \<Rightarrow> pyfloat" where
  "slew target previous delta = fmin (fmax target (fsub previous delta)) (fadd previous delta)"

text \<open>A command after a gap longer than the timeout starts again from zero.\<close>

definition expire_command_gap :: "pyfloat \<Rightarrow> guard \<Rightarrow> guard" where
  "expire_command_gap now g =
     (case last_command_at g of None \<Rightarrow> g
      | Some t \<Rightarrow> if fless (command_timeout_s (limits g)) (fsub now t)
                  then hold_zero_for_command_gap now g else g)"

definition limited_output :: "pyfloat \<Rightarrow> pyfloat \<Rightarrow> pyfloat \<Rightarrow> guard \<Rightarrow> velocity" where
  "limited_output delta_s vx wz g =
     (slew vx (fst (last_output g)) (fmul (max_linear_accel_mps2 (limits g)) delta_s), Fin 0,
      slew wz (snd (snd (last_output g))) (fmul (max_angular_accel_rps2 (limits g)) delta_s))"

definition forward_output :: "pyfloat \<Rightarrow> pyfloat \<Rightarrow> pyfloat \<Rightarrow> guard \<Rightarrow> effect" where
  "forward_output now vx wz g =
     (case last_output_at g of None \<Rightarrow> trip ''output_clock_missing'' g
      | Some previous_at \<Rightarrow>
          let delta_s = fsub now previous_at in
          if \<not> isfinite delta_s \<or> fless delta_s (Fin 0) then trip ''output_clock_regressed'' g
          else
            let output = limited_output delta_s vx wz g in
            (Inr (decide ''command_forwarded'' output False False False),
             g\<lparr>last_command_at := Some now, last_output_at := Some now, last_output := output\<rparr>))"

definition command :: "pyfloat \<Rightarrow> pyfloat \<Rightarrow> pyfloat \<Rightarrow> pyfloat \<Rightarrow> guard \<Rightarrow> effect" where
  "command now vx vy wz g =
     at_time now g
       (if \<not> (isfinite vx \<and> isfinite vy \<and> isfinite wz) then trip ''command_non_finite'' g
        else if phase g \<noteq> ARMED
        then (Inr (decide ''command_while_not_armed'' zero_velocity False
                (phase g = FAULT \<or> phase g = COMPLETE) (phase g = FAULT)), g)
        else case stale_reason g now of Some stale \<Rightarrow> trip stale g
        | None \<Rightarrow>
          if fless vx (Fin 0) \<or> fless (max_linear_x_mps (limits g)) vx
          then trip ''linear_x_outside_stage_envelope'' g
          else if fless (max_linear_y_mps (limits g)) (fabs vy)
          then trip ''linear_y_outside_stage_envelope'' g
          else if fless (max_angular_z_rps (limits g)) (fabs wz)
          then trip ''angular_z_outside_stage_envelope'' g
          else if armed_at g = None then trip ''stage_duration_limit'' g
          else if (case last_command_at g of None \<Rightarrow> False
                   | Some t \<Rightarrow> \<not> isfinite (fsub now t) \<or> fless (fsub now t) (Fin 0))
          then trip ''command_clock_invalid'' g
          else forward_output now vx wz (expire_command_gap now g))"

definition tick :: "(pyfloat \<Rightarrow> pyfloat \<Rightarrow> pyfloat) \<Rightarrow> pyfloat \<Rightarrow> guard \<Rightarrow> effect" where
  "tick hyp now g =
     at_time now g
       (if phase g = FAULT
        then (Inr (decide (if fault_reason g \<noteq> [] then fault_reason g else ''fault_latched'') zero_velocity
                False True (goal_id g \<noteq> [] \<or> unverified_goal_id g \<noteq> [])), g)
        else if phase g = COMPLETE
        then (Inr (decide ''session_complete'' zero_velocity False True False), g)
        else if phase g = IDLE \<and> unverified_goal_id g \<noteq> [] then
          (if (case unverified_goal_at g of None \<Rightarrow> True
               | Some t \<Rightarrow> fless UNVERIFIED_GOAL_TIMEOUT_S (fsub now t))
           then trip ''active_goal_claim_timeout'' (g\<lparr>goal_id := unverified_goal_id g\<rparr>)
           else plain ''waiting_for_exact_goal_claim'' g)
        else if phase g = IDLE \<and> goal_id g \<noteq> [] then start_bound_goal_if_ready hyp now g
        else if phase g = PENDING_ARM then
          (case arm_requested_at g of None \<Rightarrow> trip ''chassis_arm_clock_missing'' g
           | Some t \<Rightarrow>
             let elapsed = fsub now t in
             if \<not> arm_service_accepted g \<and> fless (arm_response_timeout_s (limits g)) elapsed
             then trip ''chassis_arm_response_timeout'' g
             else if arm_service_accepted g \<and> fless (chassis_ready_timeout_s (limits g)) elapsed
             then trip ''chassis_measured_arm_timeout'' g
             else (case stale_reason g now of Some stale \<Rightarrow> trip stale g | None \<Rightarrow> plain ''pending_arm'' g))
        else if phase g = ARMED then
          (case stale_reason g now of Some stale \<Rightarrow> trip stale g
           | None \<Rightarrow>
             if armed_at g = None then trip ''stage_duration_limit'' g
             else case last_command_at g of
                 None \<Rightarrow> plain ''armed_waiting_for_controller_command'' (hold_zero_for_command_gap now g)
               | Some t \<Rightarrow>
                 let command_age = fsub now t in
                 if \<not> isfinite command_age \<or> fless command_age (Fin 0) then trip ''command_clock_invalid'' g
                 else if fless (command_timeout_s (limits g)) command_age
                 then plain ''command_timeout_zero_hold'' (hold_zero_for_command_gap now g)
                 else plain ''armed_healthy'' g)
        else plain ''idle_zero'' g)"

definition disconnect :: "string \<Rightarrow> guard \<Rightarrow> effect" where
  "disconnect r g = trip r g"

definition shutdown :: "guard \<Rightarrow> effect" where
  "shutdown g = trip ''shutdown'' g"

end
