(* ===== verification/Traces.thy ===== *)
theory Traces imports Prelude begin

text \<open>
  Runs of an object that handles one event at a time, and the interfaces a property of a whole
  run needs from a single step: an invariant every admissible step keeps, outputs that are safe
  under it, a latch that never opens again, and an output that can only be produced by closing a
  latch.
\<close>

fun run_events :: "('e \<Rightarrow> 's \<Rightarrow> 'o \<times> 's) \<Rightarrow> 'e list \<Rightarrow> 's \<Rightarrow> 'o list \<times> 's" where
  "run_events step [] s = ([], s)"
| "run_events step (e # es) s =
     (let (out, s') = step e s; (outs, t) = run_events step es s' in (out # outs, t))"

definition outputs :: "('e \<Rightarrow> 's \<Rightarrow> 'o \<times> 's) \<Rightarrow> 'e list \<Rightarrow> 's \<Rightarrow> 'o list" where
  "outputs step es s = fst (run_events step es s)"

definition final :: "('e \<Rightarrow> 's \<Rightarrow> 'o \<times> 's) \<Rightarrow> 'e list \<Rightarrow> 's \<Rightarrow> 's" where
  "final step es s = snd (run_events step es s)"

lemma outputs_simps [simp]:
  "outputs step [] s = []"
  "outputs step (e # es) s = fst (step e s) # outputs step es (snd (step e s))"
  by (simp_all add: outputs_def Let_def split: prod.split)

lemma final_simps [simp]:
  "final step [] s = s"
  "final step (e # es) s = final step es (snd (step e s))"
  by (simp_all add: final_def Let_def split: prod.split)

lemma final_append: "final step (es @ fs) s = final step fs (final step es s)"
  by (induction es arbitrary: s) simp_all

lemma outputs_append: "outputs step (es @ fs) s = outputs step es s @ outputs step fs (final step es s)"
  by (induction es arbitrary: s) simp_all

lemma length_outputs [simp]: "length (outputs step es s) = length es"
  by (induction es arbitrary: s) simp_all

text \<open>Every event is admissible in the state it meets.\<close>

fun admissible :: "('e \<Rightarrow> 's \<Rightarrow> 'o \<times> 's) \<Rightarrow> ('s \<Rightarrow> 'e \<Rightarrow> bool) \<Rightarrow> 'e list \<Rightarrow> 's \<Rightarrow> bool" where
  "admissible step ok [] s \<longleftrightarrow> True"
| "admissible step ok (e # es) s \<longleftrightarrow> ok s e \<and> admissible step ok es (snd (step e s))"

lemma admissible_const [simp]: "admissible step (\<lambda>_. p) es s \<longleftrightarrow> list_all p es"
  by (induction es arbitrary: s) simp_all

section \<open>An invariant kept by every step\<close>

locale invariant_system =
  fixes step :: "'e \<Rightarrow> 's \<Rightarrow> 'o \<times> 's" and ok :: "'s \<Rightarrow> 'e \<Rightarrow> bool" and inv :: "'s \<Rightarrow> bool"
  assumes inv_step: "inv s \<Longrightarrow> ok s e \<Longrightarrow> inv (snd (step e s))"
begin

lemma inv_final: "inv s \<Longrightarrow> admissible step ok es s \<Longrightarrow> inv (final step es s)"
  by (induction es arbitrary: s) (auto intro: inv_step)

end

section \<open>Outputs that are safe under the invariant\<close>

locale safe_system = invariant_system step ok inv
  for step :: "'e \<Rightarrow> 's \<Rightarrow> 'o \<times> 's" and ok :: "'s \<Rightarrow> 'e \<Rightarrow> bool" and inv :: "'s \<Rightarrow> bool" +
  fixes safe :: "'o \<Rightarrow> bool"
  assumes safe_step: "inv s \<Longrightarrow> ok s e \<Longrightarrow> safe (fst (step e s))"
begin

lemma safe_outputs: "inv s \<Longrightarrow> admissible step ok es s \<Longrightarrow> list_all safe (outputs step es s)"
  by (induction es arbitrary: s) (auto intro: inv_step safe_step)

end

section \<open>A latch\<close>

text \<open>Once \<open>latched\<close> holds it holds for ever, and from then on every output is \<open>quiet\<close>.\<close>

locale latch_system = invariant_system step ok inv
  for step :: "'e \<Rightarrow> 's \<Rightarrow> 'o \<times> 's" and ok :: "'s \<Rightarrow> 'e \<Rightarrow> bool" and inv :: "'s \<Rightarrow> bool" +
  fixes latched :: "'s \<Rightarrow> bool" and quiet :: "'o \<Rightarrow> bool"
  assumes latch_step: "inv s \<Longrightarrow> ok s e \<Longrightarrow> latched s \<Longrightarrow> latched (snd (step e s))"
    and quiet_step: "inv s \<Longrightarrow> ok s e \<Longrightarrow> latched s \<Longrightarrow> quiet (fst (step e s))"
begin

lemma latched_final: "inv s \<Longrightarrow> admissible step ok es s \<Longrightarrow> latched s \<Longrightarrow> latched (final step es s)"
  by (induction es arbitrary: s) (auto intro: latch_step inv_step)

lemma quiet_outputs:
  "inv s \<Longrightarrow> admissible step ok es s \<Longrightarrow> latched s \<Longrightarrow> list_all quiet (outputs step es s)"
  by (induction es arbitrary: s) (auto intro: latch_step quiet_step inv_step)

end

section \<open>An output at most once\<close>

text \<open>Producing a \<open>fires\<close> output needs the latch open and closes it.\<close>

locale one_shot_system = invariant_system step ok inv
  for step :: "'e \<Rightarrow> 's \<Rightarrow> 'o \<times> 's" and ok :: "'s \<Rightarrow> 'e \<Rightarrow> bool" and inv :: "'s \<Rightarrow> bool" +
  fixes spent :: "'s \<Rightarrow> bool" and fires :: "'o \<Rightarrow> bool"
  assumes spent_step: "inv s \<Longrightarrow> ok s e \<Longrightarrow> spent s \<Longrightarrow> spent (snd (step e s))"
    and fires_step: "inv s \<Longrightarrow> ok s e \<Longrightarrow> fires (fst (step e s)) \<Longrightarrow> \<not> spent s \<and> spent (snd (step e s))"
begin

lemma never_after_spent:
  "inv s \<Longrightarrow> admissible step ok es s \<Longrightarrow> spent s \<Longrightarrow> filter fires (outputs step es s) = []"
  by (induction es arbitrary: s) (auto intro: spent_step inv_step dest: fires_step)

lemma at_most_once:
  "inv s \<Longrightarrow> admissible step ok es s \<Longrightarrow> length (filter fires (outputs step es s)) \<le> 1"
proof (induction es arbitrary: s)
  case Nil
  then show ?case by simp
next
  case (Cons e es)
  have rest: "inv (snd (step e s))" "admissible step ok es (snd (step e s))"
    using Cons.prems inv_step by auto
  show ?case
  proof (cases "fires (fst (step e s))")
    case True
    then have "spent (snd (step e s))" using fires_step Cons.prems by simp
    then have "filter fires (outputs step es (snd (step e s))) = []" using never_after_spent rest by blast
    then show ?thesis using True by simp
  next
    case False
    then show ?thesis using Cons.IH rest by simp
  qed
qed

end

text \<open>A one-shot output is quiet once its latch is closed.\<close>

sublocale one_shot_system \<subseteq> latch_system step ok inv spent "\<lambda>out. \<not> fires out"
  by unfold_locales (auto intro: spent_step dest: fires_step)

end
