(* ===== verification/GuardInvariant.thy ===== *)
theory GuardInvariant imports GuardPolicy Traces begin

text \<open>
  What every method of \<open>StagedNav2Guard\<close> keeps: the session's phase bookkeeping, the binding of
  the goal, the claim and the map, and the velocity envelope of the last output. One event per
  public method; the interfaces of \<open>Traces\<close> are interpreted on \<open>guard_step\<close>.
\<close>

section \<open>Events\<close>

datatype guard_event =
    Observe string pyfloat "pyfloat option"
  | Odom pyfloat pyfloat pyfloat "pyfloat option"
  | State pyfloat pyval pyval "pyfloat option"
  | Scan pyfloat string pyval pyval pyval pyval pyval "pyval list" "pyfloat option"
  | Localization pyfloat string pyfloat pyfloat pyfloat "pyfloat option"
  | Ownership pyfloat "string list" "string list" "string list" int
  | MapLifecycle pyfloat string string pyval
  | ChassisStatus pyfloat string pyval pyval string string
  | GoalClaim pyfloat pyval "string list"
  | RefreshClaim pyfloat
  | BeginGoal string pyfloat
  | GoalStatuses pyfloat "(string \<times> string) list"
  | ConfirmArm bool pyfloat
  | Command pyfloat pyfloat pyfloat pyfloat
  | Tick pyfloat
  | Disconnect string
  | Shutdown

fun guard_step ::
  "(pyfloat \<Rightarrow> pyfloat \<Rightarrow> pyfloat) \<Rightarrow> (string \<Rightarrow> pyval option) \<Rightarrow> guard_event \<Rightarrow> guard \<Rightarrow> effect" where
  "guard_step hyp loads (Observe n t a) g = observe n t a g"
| "guard_step hyp loads (Odom t x y a) g = observe_odom hyp t x y a g"
| "guard_step hyp loads (State t m e a) g = observe_state t m e a g"
| "guard_step hyp loads (Scan t f a b c d e rs s) g = observe_scan t f a b c d e rs s g"
| "guard_step hyp loads (Localization t f x y w a) g = observe_localization hyp t f x y w a g"
| "guard_step hyp loads (Ownership t c p s n) g = observe_ownership t c p s n g"
| "guard_step hyp loads (MapLifecycle t m d n) g = observe_map_lifecycle t m d n g"
| "guard_step hyp loads (ChassisStatus t s a c p d) g = observe_chassis_status hyp t s a c p d g"
| "guard_step hyp loads (GoalClaim t v ps) g = observe_goal_claim hyp loads t v ps g"
| "guard_step hyp loads (RefreshClaim t) g = refresh_goal_claim t g"
| "guard_step hyp loads (BeginGoal i t) g = begin_goal hyp i t g"
| "guard_step hyp loads (GoalStatuses t sts) g = observe_goal_statuses hyp t sts g"
| "guard_step hyp loads (ConfirmArm b t) g = confirm_arm hyp b t g"
| "guard_step hyp loads (Command t x y z) g = command t x y z g"
| "guard_step hyp loads (Tick t) g = tick hyp t g"
| "guard_step hyp loads (Disconnect r) g = disconnect r g"
| "guard_step hyp loads Shutdown g = shutdown g"

text \<open>The numbers of a velocity command are doubles.\<close>

fun event_ok :: "guard_event \<Rightarrow> bool" where
  "event_ok (Command t x y z) \<longleftrightarrow> is_double x \<and> is_double z"
| "event_ok _ \<longleftrightarrow> True"

section \<open>The slew limiter\<close>

lemma slew_between:
  assumes p: "is_double (Fin p)" and d: "fle (Fin 0) d"
  obtains q where "slew (Fin t) (Fin p) d = Fin q" "min p t \<le> q" "q \<le> max p t"
    "is_double (Fin t) \<Longrightarrow> is_double (Fin q)"
proof -
  let ?a = "fsub (Fin p) d" and ?b = "fadd (Fin p) d"
  have a: "fle ?a (Fin p)" using p d by (rule fsub_nonneg_le)
  have b: "fle (Fin p) ?b" using p d fle_not_NaN [OF d] by (intro fadd_nonneg_ge) auto
  have dbl: "is_double ?a" "is_double ?b" by simp_all
  show ?thesis
  proof (cases "fless (Fin t) ?a")
    case True
    then obtain x where x: "?a = Fin x" "t < x" "x \<le> p"
      using a by (cases ?a) (auto simp: fle_def)
    have "\<not> fless ?b (Fin x)" using b x(3) by (cases ?b) (auto simp: fle_def)
    then have "slew (Fin t) (Fin p) d = Fin x" using x by (simp add: slew_def fmax_def fmin_def)
    then show ?thesis using that x dbl(1) by (metis min.coboundedI2 max.coboundedI1 less_imp_le)
  next
    case False
    then have s: "slew (Fin t) (Fin p) d = (if fless ?b (Fin t) then ?b else Fin t)"
      by (simp add: slew_def fmax_def fmin_def)
    show ?thesis
    proof (cases "fless ?b (Fin t)")
      case True
      then obtain y where y: "?b = Fin y" "y < t" "p \<le> y" using b by (cases ?b) (auto simp: fle_def)
      then show ?thesis using that [of y] s True dbl(2) by auto
    next
      case False
      then show ?thesis using that [of t] s by simp
    qed
  qed
qed

text \<open>One output differs from the one before by at most the allowed change, up to one rounding.\<close>

lemma slew_rate:
  assumes p: "is_double (Fin p)" and d: "fle (Fin 0) d"
  shows "fle (fsub (Fin p) d) (slew (Fin t) (Fin p) d)" and "fle (slew (Fin t) (Fin p) d) (fadd (Fin p) d)"
proof -
  let ?a = "fsub (Fin p) d" and ?b = "fadd (Fin p) d"
  have a: "fle ?a (Fin p)" using p d by (rule fsub_nonneg_le)
  have b: "fle (Fin p) ?b" using p d fle_not_NaN [OF d] by (intro fadd_nonneg_ge) auto
  have ab: "fle ?a ?b" using a b by (rule fle_trans)
  have nn: "?a \<noteq> NaN" "?b \<noteq> NaN" using fle_not_NaN [OF ab] by auto
  have m: "fmax (Fin t) ?a \<noteq> NaN" using nn by (simp add: fmax_def)
  show "fle (slew (Fin t) (Fin p) d) ?b" using nn m by (auto simp: slew_def intro: fmin_le2)
  have "fle ?a (fmax (Fin t) ?a)" using nn by (auto simp: fmax_def intro: not_fless)
  then show "fle ?a (slew (Fin t) (Fin p) d)" using ab by (auto simp: slew_def fmin_def)
qed

section \<open>The invariant\<close>

definition limits_ok :: "stage_limits \<Rightarrow> bool" where
  "limits_ok l \<longleftrightarrow>
     isfinite (max_linear_x_mps l) \<and> fle (Fin 0) (max_linear_x_mps l) \<and>
     isfinite (max_angular_z_rps l) \<and> fle (Fin 0) (max_angular_z_rps l) \<and>
     isfinite (max_linear_accel_mps2 l) \<and> fle (Fin 0) (max_linear_accel_mps2 l) \<and>
     isfinite (max_angular_accel_rps2 l) \<and> fle (Fin 0) (max_angular_accel_rps2 l)"

text \<open>The stage envelope of a velocity under given limits.\<close>

fun in_envelope :: "stage_limits \<Rightarrow> velocity \<Rightarrow> bool" where
  "in_envelope l (x, y, z) \<longleftrightarrow>
     is_double x \<and> isfinite x \<and> fle (Fin 0) x \<and> fle x (max_linear_x_mps l) \<and> y = Fin 0 \<and>
     is_double z \<and> isfinite z \<and> fle (fabs z) (max_angular_z_rps l)"

definition bound_goal :: "guard \<Rightarrow> bool" where
  "bound_goal g \<longleftrightarrow> (\<exists>c. accepted_goal_claim g = Some c \<and> goal_id g = ac_goal_uuid c)"

text \<open>What holds in every phase.\<close>

definition base_inv :: "guard \<Rightarrow> bool" where
  "base_inv g \<longleftrightarrow>
     limits_ok (limits g) \<and> in_envelope (limits g) (last_output g) \<and>
     (\<forall>c. accepted_goal_claim g = Some c \<longrightarrow>
        goal_claim_seen g \<and> expected_goal g = Some (ac_expected c)) \<and>
     (\<forall>p ex. map_lifecycle g = Some p \<longrightarrow> expected_goal g = Some ex \<longrightarrow>
        p = (eg_map_id ex, eg_generation ex))"

text \<open>What the phase says about the other attributes.\<close>

definition phase_inv :: "guard \<Rightarrow> bool" where
  "phase_inv g \<longleftrightarrow>
     (phase g \<noteq> DISABLED \<and> phase g \<noteq> IDLE \<longrightarrow> session_spent g) \<and>
     (phase g = IDLE \<and> goal_id g \<noteq> [] \<longrightarrow> bound_goal g) \<and>
     (moving g \<longrightarrow> bound_goal g \<and> goal_id g \<noteq> [] \<and>
        (\<exists>ex. expected_goal g = Some ex \<and>
              locked_map_lifecycle g = Some (eg_map_id ex, eg_generation ex))) \<and>
     (phase g = PENDING_ARM \<longrightarrow> arm_requested_at g \<noteq> None) \<and>
     (phase g = ARMED \<longrightarrow> arm_service_accepted g \<and> armed_at g \<noteq> None \<and> last_output_at g \<noteq> None) \<and>
     (phase g \<noteq> ARMED \<longrightarrow> last_output g = zero_velocity)"

definition guard_inv :: "guard \<Rightarrow> bool" where
  "guard_inv g \<longleftrightarrow> base_inv g \<and> phase_inv g"

lemma in_envelope_zero [simp]: "limits_ok l \<Longrightarrow> in_envelope l zero_velocity"
  by (simp add: limits_ok_def zero_velocity_def)

section \<open>Preservation\<close>

lemma trip_inv: "base_inv g \<Longrightarrow> guard_inv (snd (trip r g))"
  by (auto simp: trip_def guard_inv_def base_inv_def phase_inv_def moving_def Let_def)

lemma finish_inv: "base_inv g \<Longrightarrow> guard_inv (snd (finish r c g))"
  by (auto simp: finish_def guard_inv_def base_inv_def phase_inv_def moving_def)

lemma base_inv_witness [simp]: "base_inv (set_witness n t g) \<longleftrightarrow> base_inv g"
  by (simp add: set_witness_def base_inv_def)

lemma phase_inv_witness [simp]: "phase_inv (set_witness n t g) \<longleftrightarrow> phase_inv g"
  by (simp add: set_witness_def phase_inv_def moving_def bound_goal_def)

lemma guard_inv_witness [simp]: "guard_inv (set_witness n t g) \<longleftrightarrow> guard_inv g"
  by (simp add: guard_inv_def)

lemma guard_inv_base: "guard_inv g \<Longrightarrow> base_inv g"
  by (simp add: guard_inv_def)

lemma snd_plain [simp]: "snd (plain r g) = g"
  by (simp add: plain_def)

lemma at_time_inv: "guard_inv g \<Longrightarrow> (finite_time t \<Longrightarrow> guard_inv (snd k)) \<Longrightarrow> guard_inv (snd (at_time t g k))"
  by (simp add: at_time_def)

lemma andThen_inv:
  "guard_inv (snd m) \<Longrightarrow> (\<And>d g. m = (Inr d, g) \<Longrightarrow> guard_inv g \<Longrightarrow> guard_inv (snd (f d g))) \<Longrightarrow>
   guard_inv (snd (andThen m f))"
  by (cases m) (auto simp: andThen_def split: sum.splits)

lemmas inv_intros = trip_inv finish_inv at_time_inv andThen_inv guard_inv_base

lemma observe_inv: "guard_inv g \<Longrightarrow> guard_inv (snd (observe n t a g))"
  by (auto simp: observe_def Let_def intro!: inv_intros)

text \<open>Attributes the invariant does not mention.\<close>

lemma guard_inv_unrelated [simp]:
  "guard_inv (g\<lparr>odom_xy := a\<rparr>) \<longleftrightarrow> guard_inv g"
  "guard_inv (g\<lparr>localization_xy := a\<rparr>) \<longleftrightarrow> guard_inv g"
  "guard_inv (g\<lparr>localization_yaw := y\<rparr>) \<longleftrightarrow> guard_inv g"
  "guard_inv (g\<lparr>last_distance_xy := a\<rparr>) \<longleftrightarrow> guard_inv g"
  "guard_inv (g\<lparr>distance_traveled_m := d\<rparr>) \<longleftrightarrow> guard_inv g"
  "guard_inv (g\<lparr>ownership_valid := b\<rparr>) \<longleftrightarrow> guard_inv g"
  "guard_inv (g\<lparr>chassis_guard_state := s\<rparr>) \<longleftrightarrow> guard_inv g"
  "guard_inv (g\<lparr>daemon_armed := b\<rparr>) \<longleftrightarrow> guard_inv g"
  "guard_inv (g\<lparr>unverified_goal_id := s\<rparr>) \<longleftrightarrow> guard_inv g"
  "guard_inv (g\<lparr>unverified_goal_at := y\<rparr>) \<longleftrightarrow> guard_inv g"
  "guard_inv (g\<lparr>last_command_at := y\<rparr>) \<longleftrightarrow> guard_inv g"
  by (simp_all add: guard_inv_def base_inv_def phase_inv_def moving_def bound_goal_def)

lemma observe_odom_inv: "guard_inv g \<Longrightarrow> guard_inv (snd (observe_odom hyp t x y a g))"
  by (auto simp: observe_odom_def Let_def observe_inv split: option.splits intro!: inv_intros)

lemma observe_state_inv: "guard_inv g \<Longrightarrow> guard_inv (snd (observe_state t m e a g))"
  by (auto simp: observe_state_def Let_def observe_inv split: option.splits intro!: inv_intros)

lemma observe_scan_inv: "guard_inv g \<Longrightarrow> guard_inv (snd (observe_scan t f a b c d e rs s g))"
  by (auto simp: observe_scan_def observe_inv split: sum.splits)

lemma observe_localization_inv: "guard_inv g \<Longrightarrow> guard_inv (snd (observe_localization hyp t f x y w a g))"
  by (auto simp: observe_localization_def observe_inv intro!: inv_intros)

lemma observe_ownership_inv: "guard_inv g \<Longrightarrow> guard_inv (snd (observe_ownership t c p s n g))"
  by (auto simp: observe_ownership_def Let_def intro!: inv_intros)

lemma map_lifecycle_update_inv:
  assumes "guard_inv g" and "\<And>ex. expected_goal g = Some ex \<Longrightarrow> p = (eg_map_id ex, eg_generation ex)"
  shows "guard_inv (g\<lparr>map_lifecycle := Some p\<rparr>)"
  using assms by (auto simp: guard_inv_def base_inv_def phase_inv_def moving_def bound_goal_def)

lemma observe_map_lifecycle_inv: "guard_inv g \<Longrightarrow> guard_inv (snd (observe_map_lifecycle t m d n g))"
  by (auto simp: observe_map_lifecycle_def Let_def split: option.splits if_splits
      intro!: inv_intros map_lifecycle_update_inv)

lemma arm_inv:
  "guard_inv g \<Longrightarrow> phase g = PENDING_ARM \<Longrightarrow> arm_service_accepted g \<Longrightarrow>
   guard_inv (g\<lparr>phase := ARMED, armed_at := Some a, last_command_at := c, last_output_at := Some b,
      last_output := zero_velocity\<rparr>)"
  by (auto simp: guard_inv_def base_inv_def phase_inv_def moving_def bound_goal_def)

lemma chassis_transition_inv: "guard_inv g \<Longrightarrow> guard_inv (snd (chassis_transition hyp t s a g))"
  by (simp add: chassis_transition_def trip_inv guard_inv_base arm_inv)

lemma observe_chassis_status_inv: "guard_inv g \<Longrightarrow> guard_inv (snd (observe_chassis_status hyp t s a c p d g))"
  by (simp add: observe_chassis_status_def Let_def at_time_inv trip_inv guard_inv_base
      chassis_transition_inv)

lemma hold_zero_inv: "guard_inv g \<Longrightarrow> phase g = ARMED \<Longrightarrow> guard_inv (hold_zero_for_command_gap now g)"
  by (auto simp: hold_zero_for_command_gap_def guard_inv_def base_inv_def phase_inv_def moving_def
      bound_goal_def)

lemma start_inv:
  assumes "guard_inv g" "phase g = IDLE" "goal_id g \<noteq> []" "map_lifecycle g = Some p"
  shows "guard_inv (g\<lparr>session_spent := True, phase := PENDING_ARM, arm_requested_at := Some t,
    arm_service_accepted := False, last_distance_xy := d, distance_traveled_m := z,
    locked_map_lifecycle := Some p, last_command_at := None, last_output_at := Some t,
    last_output := zero_velocity\<rparr>)"
  using assms by (auto simp: guard_inv_def base_inv_def phase_inv_def moving_def bound_goal_def)

lemma start_bound_goal_inv: "guard_inv g \<Longrightarrow> guard_inv (snd (start_bound_goal_if_ready hyp t g))"
  by (auto simp: start_bound_goal_if_ready_def trip_inv guard_inv_base start_inv
      split: option.splits intro!: at_time_inv)

lemma bind_goal_inv:
  assumes "guard_inv g" "phase g = IDLE" "accepted_goal_claim g = Some c"
  shows "guard_inv (g\<lparr>goal_id := ac_goal_uuid c\<rparr>)"
  using assms by (auto simp: guard_inv_def base_inv_def phase_inv_def moving_def bound_goal_def)

lemma base_inv_goal_id [simp]: "base_inv (g\<lparr>goal_id := i\<rparr>) \<longleftrightarrow> base_inv g"
  by (simp add: base_inv_def)

lemma begin_goal_inv: "guard_inv g \<Longrightarrow> guard_inv (snd (begin_goal hyp i t g))"
  by (auto simp: begin_goal_def Let_def trip_inv guard_inv_base start_bound_goal_inv bind_goal_inv
      split: option.splits intro!: at_time_inv)

lemma refresh_goal_claim_inv: "guard_inv g \<Longrightarrow> guard_inv (snd (refresh_goal_claim t g))"
  by (simp add: refresh_goal_claim_def at_time_inv)

text \<open>An accepted claim cannot replace another: \<open>goal_claim_seen\<close> was still false.\<close>

lemma claim_seen_inv: "guard_inv g \<Longrightarrow> guard_inv (g\<lparr>goal_claim_seen := True\<rparr>)"
  by (auto simp: guard_inv_def base_inv_def phase_inv_def moving_def bound_goal_def)

lemma claim_accept_inv:
  assumes "guard_inv g" "\<not> goal_claim_seen g" "expected_goal g = Some (ac_expected c)"
  shows "guard_inv (g\<lparr>goal_claim_seen := True, accepted_goal_claim := Some c\<rparr>)"
proof -
  have none: "accepted_goal_claim g = None" using assms by (auto simp: guard_inv_def base_inv_def)
  then have "\<not> moving g" "phase g = IDLE \<longrightarrow> goal_id g = []"
    using assms(1) by (auto simp: guard_inv_def phase_inv_def bound_goal_def)
  then show ?thesis using assms
    by (auto simp: guard_inv_def base_inv_def phase_inv_def moving_def bound_goal_def)
qed

lemma observe_goal_claim_inv: "guard_inv g \<Longrightarrow> guard_inv (snd (observe_goal_claim hyp loads t v ps g))"
  by (simp add: observe_goal_claim_def Let_def at_time_inv trip_inv guard_inv_base begin_goal_inv
      claim_seen_inv claim_accept_inv validate_goal_claim_expected
      split: option.split sum.split guard_exc.split)

lemma finish_guard_inv: "guard_inv g \<Longrightarrow> guard_inv (snd (finish r c g))"
  by (simp add: finish_inv guard_inv_base)

lemma trip_guard_inv: "guard_inv g \<Longrightarrow> guard_inv (snd (trip r g))"
  by (simp add: trip_inv guard_inv_base)

lemma observe_goal_statuses_inv: "guard_inv g \<Longrightarrow> guard_inv (snd (observe_goal_statuses hyp t sts g))"
  by (simp add: observe_goal_statuses_def Let_def at_time_inv andThen_inv trip_guard_inv finish_guard_inv
      begin_goal_inv observe_inv)

lemma accept_arm_inv: "guard_inv g \<Longrightarrow> guard_inv (g\<lparr>arm_service_accepted := True\<rparr>)"
  by (auto simp: guard_inv_def base_inv_def phase_inv_def moving_def bound_goal_def)

lemma confirm_arm_inv: "guard_inv g \<Longrightarrow> guard_inv (snd (confirm_arm hyp b t g))"
  by (auto simp: confirm_arm_def trip_guard_inv accept_arm_inv split: option.splits intro!: at_time_inv)

lemma tick_inv: "guard_inv g \<Longrightarrow> guard_inv (snd (tick hyp t g))"
  by (simp add: tick_def Let_def at_time_inv trip_inv guard_inv_base start_bound_goal_inv hold_zero_inv
      split: option.split)

section \<open>Commands\<close>

lemma fle_max: "fle (Fin 0) m \<Longrightarrow> isfinite m \<Longrightarrow> \<exists>r. m = Fin r \<and> 0 \<le> r"
  by (auto simp: isfinite_iff)

lemma slew_in_envelope:
  assumes g: "in_envelope l (px, py, pz)" and l: "limits_ok l"
    and t: "isfinite dt" "fle (Fin 0) dt"
    and vx: "isfinite vx" "is_double vx" "\<not> fless vx (Fin 0)" "\<not> fless (max_linear_x_mps l) vx"
    and vz: "isfinite vz" "is_double vz" "\<not> fless (max_angular_z_rps l) (fabs vz)"
  shows "in_envelope l (slew vx px (fmul (max_linear_accel_mps2 l) dt), Fin 0,
           slew vz pz (fmul (max_angular_accel_rps2 l) dt))"
proof -
  obtain p q where pq: "px = Fin p" "pz = Fin q" using g by (auto simp: isfinite_iff)
  obtain a b where ab: "vx = Fin a" "vz = Fin b" using vx vz by (auto simp: isfinite_iff)
  obtain mx mz where m: "max_linear_x_mps l = Fin mx" "max_angular_z_rps l = Fin mz"
    using l by (auto simp: limits_ok_def isfinite_iff)
  have d: "fle (Fin 0) (fmul (max_linear_accel_mps2 l) dt)" "fle (Fin 0) (fmul (max_angular_accel_rps2 l) dt)"
    using l t by (auto simp: limits_ok_def intro!: fmul_nonneg)
  have dp: "is_double (Fin p)" "is_double (Fin q)" using g pq by auto
  have pos: "0 \<le> p" "p \<le> mx" "\<bar>q\<bar> \<le> mz" "0 \<le> a" "a \<le> mx" "\<bar>b\<bar> \<le> mz" using g pq m ab vx vz by auto
  obtain u where u: "slew vx px (fmul (max_linear_accel_mps2 l) dt) = Fin u" "min p a \<le> u" "u \<le> max p a" "is_double (Fin u)"
    using slew_between [OF dp(1) d(1), of a] ab pq vx by metis
  obtain v where v: "slew vz pz (fmul (max_angular_accel_rps2 l) dt) = Fin v" "min q b \<le> v" "v \<le> max q b" "is_double (Fin v)"
    using slew_between [OF dp(2) d(2), of b] ab pq vz by metis
  have "0 \<le> u" "u \<le> mx" using u(2,3) pos by linarith+
  moreover have "\<bar>v\<bar> \<le> mz" using v(2,3) pos by linarith
  ultimately show ?thesis using u v m by simp
qed

lemma forward_inv:
  "guard_inv g \<Longrightarrow> phase g = ARMED \<Longrightarrow> in_envelope (limits g) v \<Longrightarrow>
   guard_inv (g\<lparr>last_command_at := a, last_output_at := Some b, last_output := v\<rparr>)"
  by (auto simp: guard_inv_def base_inv_def phase_inv_def moving_def bound_goal_def)

lemma expire_inv: "guard_inv g \<Longrightarrow> phase g = ARMED \<Longrightarrow> guard_inv (expire_command_gap now g)"
  by (simp add: expire_command_gap_def hold_zero_inv split: option.split)

lemma expire_simps [simp]:
  "phase (expire_command_gap now g) = phase g" "limits (expire_command_gap now g) = limits g"
  "accepted_goal_claim (expire_command_gap now g) = accepted_goal_claim g"
  "goal_id (expire_command_gap now g) = goal_id g"
  "fault_reason (expire_command_gap now g) = fault_reason g"
  by (simp_all add: expire_command_gap_def hold_zero_for_command_gap_def split: option.split)

lemma limited_output_envelope:
  assumes "guard_inv g" "isfinite dt" "\<not> fless dt (Fin 0)"
    and "isfinite vx" "is_double vx" "\<not> fless vx (Fin 0)" "\<not> fless (max_linear_x_mps (limits g)) vx"
    and "isfinite wz" "is_double wz" "\<not> fless (max_angular_z_rps (limits g)) (fabs wz)"
  shows "in_envelope (limits g) (limited_output dt vx wz g)"
proof -
  obtain px py pz where o: "last_output g = (px, py, pz)" by (cases "last_output g")
  have "in_envelope (limits g) (px, py, pz)" "limits_ok (limits g)"
    using assms(1) o by (simp_all add: guard_inv_def base_inv_def del: in_envelope.simps)
  moreover have "fle (Fin 0) dt" using assms(2,3) by (auto simp: isfinite_iff)
  ultimately have "in_envelope (limits g) (slew vx px (fmul (max_linear_accel_mps2 (limits g)) dt), Fin 0,
      slew wz pz (fmul (max_angular_accel_rps2 (limits g)) dt))"
    using assms by (intro slew_in_envelope)
  then show ?thesis by (simp add: limited_output_def o del: in_envelope.simps)
qed

lemma forward_output_inv:
  assumes "guard_inv g" "phase g = ARMED"
    and "isfinite vx" "is_double vx" "\<not> fless vx (Fin 0)" "\<not> fless (max_linear_x_mps (limits g)) vx"
    and "isfinite wz" "is_double wz" "\<not> fless (max_angular_z_rps (limits g)) (fabs wz)"
  shows "guard_inv (snd (forward_output now vx wz g))"
  using assms
  by (simp add: forward_output_def Let_def trip_guard_inv forward_inv limited_output_envelope
      split: option.split)

lemma command_inv:
  assumes "guard_inv g" "is_double vx" "is_double wz"
  shows "guard_inv (snd (command now vx vy wz g))"
  using assms
  by (simp add: command_def at_time_inv trip_guard_inv forward_output_inv expire_inv split: option.split)

lemma guard_step_inv: "guard_inv g \<Longrightarrow> event_ok e \<Longrightarrow> guard_inv (snd (guard_step hyp loads e g))"
  by (cases e)
     (simp_all add: observe_inv observe_odom_inv observe_state_inv observe_scan_inv
       observe_localization_inv observe_ownership_inv observe_map_lifecycle_inv
       observe_chassis_status_inv observe_goal_claim_inv refresh_goal_claim_inv begin_goal_inv
       observe_goal_statuses_inv confirm_arm_inv command_inv tick_inv disconnect_def shutdown_def
       trip_guard_inv)

end
