(* ===== verification/GuardSafety.thy ===== *)
theory GuardSafety imports GuardInvariant begin

text \<open>
  The safety properties of the staged guard: which handler can produce motion, an arm request or
  a phase change, and the interpretations of the run interfaces on \<open>guard_step\<close>.
\<close>

section \<open>Phases\<close>

text \<open>The abstract machine: the only phase changes the profile allows.\<close>

inductive phase_move :: "phase \<Rightarrow> phase \<Rightarrow> bool" where
  stay: "phase_move p p"
| fault: "phase_move p FAULT"
| complete: "phase_move p COMPLETE"
| start: "phase_move IDLE PENDING_ARM"
| arm: "phase_move PENDING_ARM ARMED"

inductive_simps phase_move_iff: "phase_move p q"

inductive_cases phase_move_armed: "phase_move p ARMED"

lemma phase_move_terminal: "phase_move p q \<Longrightarrow> p = FAULT \<or> p = COMPLETE \<Longrightarrow> q = FAULT \<or> q = COMPLETE"
  by (auto simp: phase_move_iff)

lemma phase_move_not_idle: "phase_move p q \<Longrightarrow> p \<noteq> IDLE \<Longrightarrow> q \<noteq> IDLE"
  by (auto simp: phase_move_iff)

definition terminal :: "guard \<Rightarrow> bool" where
  "terminal g \<longleftrightarrow> phase g = FAULT \<or> phase g = COMPLETE"

section \<open>Handlers that only watch\<close>

text \<open>
  A calm effect carries zero velocity and no arm request, and either leaves the phase alone or
  ends the session asking the chassis to disarm.
\<close>

definition silent :: "guard_exc + decision \<Rightarrow> bool" where
  "silent out \<longleftrightarrow> (case out of Inl e \<Rightarrow> True | Inr d \<Rightarrow> is_zero d \<and> \<not> request_arm d)"

definition disarms :: "guard_exc + decision \<Rightarrow> bool" where
  "disarms out \<longleftrightarrow> (case out of Inl e \<Rightarrow> False | Inr d \<Rightarrow> request_disarm d)"

definition calm :: "guard \<Rightarrow> effect \<Rightarrow> bool" where
  "calm g m \<longleftrightarrow> silent (fst m) \<and> (phase (snd m) = phase g \<or> terminal (snd m) \<and> disarms (fst m))"

lemma silent_simps [simp]:
  "silent (Inl e)" "silent (Inr (decide r zero_velocity False b c))"
  "silent (Inr (decide r v a b c)) \<longleftrightarrow> v = zero_velocity \<and> \<not> a"
  by (auto simp: silent_def decide_def is_zero_def)

lemma disarms_simps [simp]:
  "\<not> disarms (Inl e)" "disarms (Inr (decide r v a b c)) \<longleftrightarrow> b"
  by (simp_all add: disarms_def decide_def)

lemma calm_pair:
  "calm g (out, h) \<longleftrightarrow>
     silent out \<and> (phase h = phase g \<or> (phase h = FAULT \<or> phase h = COMPLETE) \<and> disarms out)"
  by (simp add: calm_def terminal_def)

lemma calm_trip [simp]: "calm g (trip r h)"
  by (simp add: calm_def trip_def terminal_def Let_def)

lemma calm_finish [simp]: "calm g (finish r c h)"
  by (simp add: calm_def finish_def terminal_def)

lemma calm_plain: "phase h = phase g \<Longrightarrow> calm g (plain r h)"
  by (simp add: calm_def plain_def)

lemma calm_at_time: "(finite_time t \<Longrightarrow> calm g k) \<Longrightarrow> calm g (at_time t g k)"
  by (simp add: calm_def at_time_def)

lemma calm_andThen:
  "calm g m \<Longrightarrow> (\<And>d h. m = (Inr d, h) \<Longrightarrow> silent (Inr d) \<Longrightarrow>
     phase h = phase g \<or> terminal h \<and> disarms (Inr d) \<Longrightarrow> calm g (f d h)) \<Longrightarrow>
   calm g (andThen m f)"
  by (cases m) (auto simp: andThen_def calm_def split: sum.splits)

lemma phase_set_witness [simp]: "phase (set_witness n t g) = phase g"
  by (simp add: set_witness_def)

lemma moving_set_witness [simp]: "moving (set_witness n t g) = moving g"
  by (simp add: moving_def)

lemma calm_observe: "calm g (observe n t a g)"
  by (simp add: observe_def Let_def calm_plain calm_at_time calm_pair)

lemma observe_calm_phase: "phase h = phase g \<Longrightarrow> calm g (observe n t a h)"
  using calm_observe [of h n t a] by (simp add: calm_def)

lemma calm_observe_odom: "calm g (observe_odom hyp t x y a g)"
  by (auto simp: observe_odom_def Let_def calm_pair terminal_def intro!: calm_andThen calm_observe
      split: option.split)

lemma calm_observe_state: "calm g (observe_state t m e a g)"
  by (simp add: observe_state_def Let_def calm_observe calm_plain split: option.split)

lemma calm_observe_scan: "calm g (observe_scan t f a b c d e rs s g)"
  by (simp add: observe_scan_def calm_observe calm_plain calm_pair split: sum.split prod.split)

lemma calm_observe_localization: "calm g (observe_localization hyp t f x y w a g)"
  by (auto simp: observe_localization_def calm_plain calm_pair terminal_def intro!: calm_andThen observe_calm_phase)

lemma calm_observe_ownership: "calm g (observe_ownership t c p s n g)"
  by (simp add: observe_ownership_def Let_def calm_plain calm_at_time)

lemma calm_observe_map_lifecycle: "calm g (observe_map_lifecycle t m d n g)"
  by (simp add: observe_map_lifecycle_def Let_def calm_plain calm_at_time split: option.split)

lemma calm_refresh: "calm g (refresh_goal_claim t g)"
  by (simp add: refresh_goal_claim_def calm_plain calm_at_time)

lemma calm_confirm_arm: "calm g (confirm_arm hyp b t g)"
  by (simp add: confirm_arm_def calm_plain calm_at_time split: option.split)

section \<open>The three handlers that act\<close>

subsection \<open>Requesting the arm\<close>

definition fresh_at :: "guard \<Rightarrow> pyfloat \<Rightarrow> string \<Rightarrow> pyfloat \<Rightarrow> bool" where
  "fresh_at g now name maximum \<longleftrightarrow>
     (case witnesses g name of None \<Rightarrow> False
      | Some t \<Rightarrow> isfinite (fsub now t) \<and> \<not> fless (fsub now t) (Fin 0) \<and> \<not> fless maximum (fsub now t))"

text \<open>The witnesses no loop checks, and those delegated to Nav2 once arming has begun.\<close>

definition exempt :: "guard \<Rightarrow> string list" where
  "exempt g = [''goal_status'', ''goal_claim''] @ (if moving g then [''scan'', ''localization''] else [])"

lemma stale_loop_None:
  "stale_loop g now xs = None \<longleftrightarrow>
     ownership_valid g \<and> (\<forall>(n, m) \<in> set xs. n \<in> set (exempt g) \<or> fresh_at g now n m)"
proof (induction xs)
  case Nil
  then show ?case by simp
next
  case (Cons x xs)
  obtain n m where x: "x = (n, m)" by (cases x)
  show ?case
  proof (cases "n \<in> set (exempt g)")
    case True
    then have "stale_loop g now (x # xs) = stale_loop g now xs"
      by (cases "moving g") (auto simp: x exempt_def)
    then show ?thesis using True x Cons.IH by simp
  next
    case False
    then have "stale_loop g now (x # xs) = None \<longleftrightarrow> fresh_at g now n m \<and> stale_loop g now xs = None"
      by (cases "moving g"; cases "witnesses g n") (auto simp: x exempt_def fresh_at_def Let_def)
    then show ?thesis using False x Cons.IH by auto
  qed
qed

lemma stale_reason_None:
  "stale_reason g now = None \<longleftrightarrow>
     ownership_valid g \<and> (\<forall>(n, m) \<in> set FRESHNESS_LIMIT_S. n \<in> set (exempt g) \<or> fresh_at g now n m)"
  by (simp add: stale_reason_def stale_loop_None)

text \<open>What the guard must have seen at the moment it asks the chassis to arm.\<close>

definition arm_evidence :: "(pyfloat \<Rightarrow> pyfloat \<Rightarrow> pyfloat) \<Rightarrow> pyfloat \<Rightarrow> guard \<Rightarrow> bool" where
  "arm_evidence hyp now g \<longleftrightarrow>
     ownership_valid g \<and>
     (\<forall>(n, m) \<in> set FRESHNESS_LIMIT_S. n = ''goal_status'' \<or> n = ''goal_claim'' \<or> fresh_at g now n m) \<and>
     odom_xy g \<noteq> None \<and> start_position_matches hyp g \<and> chassis_guard_state g = ''DISARMED'' \<and>
     \<not> daemon_armed g"

definition starts :: "(pyfloat \<Rightarrow> pyfloat \<Rightarrow> pyfloat) \<Rightarrow> guard \<Rightarrow> effect \<Rightarrow> bool" where
  "starts hyp g m \<longleftrightarrow>
     phase g = IDLE \<and> phase (snd m) = PENDING_ARM \<and>
     fst m = Inr (decide ''goal_active_request_arm'' zero_velocity True False False) \<and>
     (\<exists>now. arm_requested_at (snd m) = Some now \<and> arm_evidence hyp now (snd m)) \<and>
     \<not> arm_service_accepted (snd m)"

lemma arm_evidence_iff:
  assumes "phase g = IDLE" "phase h = PENDING_ARM" "witnesses h = witnesses g"
    "ownership_valid h = ownership_valid g" "odom_xy h = odom_xy g" "localization_xy h = localization_xy g"
    "expected_goal h = expected_goal g" "chassis_guard_state h = chassis_guard_state g"
    "daemon_armed h = daemon_armed g"
  shows "arm_evidence hyp now h \<longleftrightarrow>
    stale_reason g now = None \<and> odom_xy g \<noteq> None \<and> start_position_matches hyp g \<and>
    chassis_guard_state g = ''DISARMED'' \<and> \<not> daemon_armed g"
  using assms
  by (auto simp: arm_evidence_def stale_reason_None exempt_def moving_def fresh_at_def
      start_position_matches_def)

lemma start_calm_or_starts:
  "phase h = phase g \<Longrightarrow>
   calm g (start_bound_goal_if_ready hyp t h) \<or> starts hyp g (start_bound_goal_if_ready hyp t h)"
  by (simp add: start_bound_goal_if_ready_def at_time_def starts_def calm_plain split: option.split)
     (auto simp: calm_pair arm_evidence_iff [of h])

lemma begin_calm_or_starts:
  "phase h = phase g \<Longrightarrow> calm g (begin_goal hyp i t h) \<or> starts hyp g (begin_goal hyp i t h)"
  using start_calm_or_starts [of _ g hyp t]
  by (simp add: begin_goal_def at_time_def Let_def calm_pair split: option.split)

lemma claim_calm_or_starts:
  "calm g (observe_goal_claim hyp loads t v ps g) \<or> starts hyp g (observe_goal_claim hyp loads t v ps g)"
  using begin_calm_or_starts [of _ g hyp _ t]
  by (simp add: observe_goal_claim_def at_time_def Let_def calm_plain calm_pair
      split: option.split sum.split guard_exc.split)

lemma observe_goal_status_result:
  "finite_time t \<Longrightarrow> observe ''goal_status'' t None g =
     (Inr (decide ''goal_status_fresh'' zero_velocity False False False), set_witness ''goal_status'' (Some t) g)"
  by (simp add: observe_def FRESHNESS_LIMIT_S_def at_time_def plain_def)

lemma statuses_calm_or_starts:
  "calm g (observe_goal_statuses hyp t sts g) \<or> starts hyp g (observe_goal_statuses hyp t sts g)"
  using begin_calm_or_starts [of "set_witness ''goal_status'' (Some t) g" g hyp _ t]
  by (simp add: observe_goal_statuses_def at_time_def Let_def andThen_def observe_goal_status_result calm_plain calm_pair)

lemma tick_calm_or_starts: "calm g (tick hyp t g) \<or> starts hyp g (tick hyp t g)"
  using start_calm_or_starts [of g g hyp t]
  by (simp add: tick_def at_time_def Let_def calm_plain calm_pair hold_zero_for_command_gap_def
      split: option.split)

subsection \<open>Becoming armed\<close>

definition arms :: "(pyfloat \<Rightarrow> pyfloat \<Rightarrow> pyfloat) \<Rightarrow> guard \<Rightarrow> effect \<Rightarrow> bool" where
  "arms hyp g m \<longleftrightarrow>
     phase g = PENDING_ARM \<and> phase (snd m) = ARMED \<and> silent (fst m) \<and>
     arm_service_accepted g \<and> start_position_matches hyp (snd m) \<and>
     chassis_guard_state (snd m) = ''ARMED'' \<and> daemon_armed (snd m) \<and>
     (\<exists>t now. arm_requested_at g = Some t \<and> armed_at (snd m) = Some now \<and>
        fle (zero_preamble_s (limits g)) (fsub now t)) \<and>
     last_output (snd m) = zero_velocity"

lemma chassis_calm_or_arms:
  "calm g (observe_chassis_status hyp t s a c p d g) \<or> arms hyp g (observe_chassis_status hyp t s a c p d g)"
  by (simp add: observe_chassis_status_def chassis_transition_def at_time_def Let_def calm_plain set_witness_def)
     (auto simp: calm_pair arms_def plain_def start_position_matches_def split: option.splits)

subsection \<open>Forwarding a command\<close>

definition forwards :: "guard_event \<Rightarrow> guard \<Rightarrow> effect \<Rightarrow> bool" where
  "forwards e g m \<longleftrightarrow>
     (\<exists>now vx vy wz t dt. e = Command now vx vy wz \<and>
        last_output_at (expire_command_gap now g) = Some t \<and> dt = fsub now t \<and> phase g = ARMED \<and> phase (snd m) = ARMED \<and>
        stale_reason g now = None \<and> isfinite vx \<and> isfinite wz \<and>
        \<not> fless vx (Fin 0) \<and> \<not> fless (max_linear_x_mps (limits g)) vx \<and>
        \<not> fless (max_angular_z_rps (limits g)) (fabs wz) \<and> isfinite dt \<and> \<not> fless dt (Fin 0) \<and>
        fst m = Inr (decide ''command_forwarded''
                       (limited_output dt vx wz (expire_command_gap now g)) False False False))"

lemma command_calm_or_forwards:
  "calm g (command t x y z g) \<or> forwards (Command t x y z) g (command t x y z g)"
  by (simp add: command_def forward_output_def at_time_def Let_def calm_plain split: option.split)
     (auto simp: calm_pair forwards_def)

section \<open>Every handler\<close>

lemma guard_step_cases:
  "calm g (guard_step hyp loads e g) \<or> starts hyp g (guard_step hyp loads e g) \<or>
   arms hyp g (guard_step hyp loads e g) \<or> forwards e g (guard_step hyp loads e g)"
proof (cases e)
  case (BeginGoal i t)
  then show ?thesis using begin_calm_or_starts [OF refl, of g hyp i t] by auto
next
  case (GoalClaim t v ps)
  then show ?thesis using claim_calm_or_starts [of g hyp loads t v ps] by auto
next
  case (GoalStatuses t sts)
  then show ?thesis using statuses_calm_or_starts [of g hyp t sts] by auto
next
  case (Tick t)
  then show ?thesis using tick_calm_or_starts [of g hyp t] by auto
next
  case (ChassisStatus t s a c p d)
  then show ?thesis using chassis_calm_or_arms [of g hyp t s a c p d] by auto
next
  case (Command t x y z)
  then show ?thesis using command_calm_or_forwards [of g t x y z] by auto
qed (simp_all add: calm_observe calm_observe_odom calm_observe_state calm_observe_scan
    calm_observe_localization calm_observe_ownership calm_observe_map_lifecycle calm_refresh
    calm_confirm_arm disconnect_def shutdown_def)

lemma guard_step_phase: "phase_move (phase g) (phase (snd (guard_step hyp loads e g)))"
  using guard_step_cases [of g hyp loads e]
  by (auto simp: calm_def starts_def arms_def forwards_def terminal_def phase_move_iff)

end
