(* ===== verification/GuardRuns.thy ===== *)
theory GuardRuns imports GuardSafety begin

text \<open>
  Whole sessions of the staged guard: what no method ever changes, and the interpretations of the
  run interfaces of \<open>Traces\<close> on \<open>guard_step\<close>.
\<close>

section \<open>What the handlers leave alone\<close>

text \<open>
  A view of the object that ignores every attribute the handlers write, the goal claim and its
  flag apart, is left unchanged by every event other than a goal claim.
\<close>

locale frozen_view =
  fixes f :: "guard \<Rightarrow> 'a"
  assumes updates [simp]:
    "f (g\<lparr>phase := p\<rparr>) = f g" "f (g\<lparr>fault_reason := r\<rparr>) = f g"
    "f (g\<lparr>terminal_reason := r\<rparr>) = f g" "f (g\<lparr>session_spent := b\<rparr>) = f g"
    "f (g\<lparr>last_output := v\<rparr>) = f g" "f (g\<lparr>witnesses := w\<rparr>) = f g"
    "f (g\<lparr>goal_id := i\<rparr>) = f g" "f (g\<lparr>ownership_valid := b\<rparr>) = f g"
    "f (g\<lparr>map_lifecycle := m\<rparr>) = f g" "f (g\<lparr>locked_map_lifecycle := m\<rparr>) = f g"
    "f (g\<lparr>unverified_goal_id := i\<rparr>) = f g" "f (g\<lparr>unverified_goal_at := t\<rparr>) = f g"
    "f (g\<lparr>chassis_guard_state := i\<rparr>) = f g" "f (g\<lparr>daemon_armed := b\<rparr>) = f g"
    "f (g\<lparr>odom_xy := xy\<rparr>) = f g" "f (g\<lparr>localization_xy := xy\<rparr>) = f g"
    "f (g\<lparr>localization_yaw := yaw\<rparr>) = f g" "f (g\<lparr>last_distance_xy := xy\<rparr>) = f g"
    "f (g\<lparr>distance_traveled_m := d\<rparr>) = f g" "f (g\<lparr>arm_requested_at := t\<rparr>) = f g"
    "f (g\<lparr>arm_service_accepted := b\<rparr>) = f g" "f (g\<lparr>armed_at := t\<rparr>) = f g"
    "f (g\<lparr>last_command_at := t\<rparr>) = f g" "f (g\<lparr>last_output_at := t\<rparr>) = f g"
begin

lemma core [simp]:
  "f (snd (trip r g)) = f g" "f (snd (finish r c g)) = f g" "f (snd (plain r g)) = f g"
  "f (set_witness n s g) = f g" "f (hold_zero_for_command_gap now g) = f g"
  by (simp_all add: trip_def finish_def plain_def set_witness_def hold_zero_for_command_gap_def Let_def)

lemma frozen_at_time: "f (snd k) = f g \<Longrightarrow> f (snd (at_time now g k)) = f g"
  by (simp add: at_time_def)

lemma frozen_andThen:
  "f (snd m) = f g \<Longrightarrow> (\<And>d h. f h = f g \<Longrightarrow> f (snd (k d h)) = f g) \<Longrightarrow> f (snd (andThen m k)) = f g"
  by (cases m) (simp add: andThen_def split: sum.split)

lemma frozen_observe [simp]: "f (snd (observe n now a g)) = f g"
  by (simp add: observe_def Let_def frozen_at_time)

lemma frozen_start [simp]: "f (snd (start_bound_goal_if_ready hyp now g)) = f g"
  by (simp add: start_bound_goal_if_ready_def frozen_at_time split: option.split)

lemma frozen_begin [simp]: "f (snd (begin_goal hyp goal now g)) = f g"
  by (simp add: begin_goal_def Let_def frozen_at_time split: option.split)

lemma frozen_step:
  assumes "\<And>now v ps. e \<noteq> GoalClaim now v ps"
  shows "f (snd (guard_step hyp loads e g)) = f g"
proof (cases e)
  case (Odom now x y a)
  then show ?thesis by (auto simp: observe_odom_def Let_def intro!: frozen_andThen split: option.split)
next
  case (Localization now fr x y w a)
  then show ?thesis by (auto simp: observe_localization_def intro!: frozen_andThen)
next
  case (GoalStatuses now sts)
  then show ?thesis
    by (auto simp: observe_goal_statuses_def Let_def intro!: frozen_at_time frozen_andThen)
next
  case (ChassisStatus now s a c p d)
  then show ?thesis
    by (simp add: observe_chassis_status_def chassis_transition_def Let_def frozen_at_time split: option.split)
next
  case (GoalClaim now v ps)
  then show ?thesis using assms by simp
next
  case (Command now x y z)
  then show ?thesis
    by (simp add: command_def forward_output_def expire_command_gap_def Let_def frozen_at_time split: option.split)
qed (simp_all add: observe_state_def observe_scan_def observe_ownership_def observe_map_lifecycle_def
      refresh_goal_claim_def confirm_arm_def tick_def disconnect_def shutdown_def Let_def frozen_at_time
      split: option.split sum.split prod.split)

end

text \<open>The configuration given at construction.\<close>

definition config :: "guard \<Rightarrow> stage_limits \<times> expected_goal_claim option \<times> int list \<times> int list" where
  "config g = (limits g, expected_goal g, allowed_modes g, allowed_state_markers g)"

text \<open>The accepted goal claim and the flag that one was seen.\<close>

definition claimed :: "guard \<Rightarrow> accepted_goal_claim option \<times> bool" where
  "claimed g = (accepted_goal_claim g, goal_claim_seen g)"

interpretation frozen_config: frozen_view config
  by unfold_locales (simp_all add: config_def)

interpretation frozen_claim: frozen_view claimed
  by unfold_locales (simp_all add: claimed_def)

lemma config_step: "config (snd (guard_step hyp loads e g)) = config g"
proof (cases e)
  case (GoalClaim now v ps)
  have *: "config (g\<lparr>accepted_goal_claim := c\<rparr>) = config g" "config (g\<lparr>goal_claim_seen := b\<rparr>) = config g"
    for g c b by (simp_all add: config_def)
  show ?thesis
    by (simp add: GoalClaim observe_goal_claim_def Let_def frozen_config.frozen_at_time *
        split: option.split sum.split guard_exc.split)
qed (rule frozen_config.frozen_step; simp)+

lemma claim_step:
  assumes "goal_claim_seen g"
  shows "claimed (snd (guard_step hyp loads e g)) = claimed g"
proof (cases e)
  case (GoalClaim now v ps)
  show ?thesis
    using assms by (simp add: GoalClaim observe_goal_claim_def frozen_claim.frozen_at_time split: option.split)
qed (rule frozen_claim.frozen_step; simp)+

section \<open>Runs of the guard\<close>

definition arm_requested :: "guard_exc + decision \<Rightarrow> bool" where
  "arm_requested out \<longleftrightarrow> (case out of Inl e \<Rightarrow> False | Inr d \<Rightarrow> request_arm d)"

definition commands_within :: "stage_limits \<Rightarrow> guard_exc + decision \<Rightarrow> bool" where
  "commands_within l out \<longleftrightarrow> (case out of Inl e \<Rightarrow> True | Inr d \<Rightarrow> in_envelope l (d_command d))"

lemma silent_within: "silent out \<Longrightarrow> limits_ok l \<Longrightarrow> commands_within l out"
  by (auto simp: silent_def commands_within_def is_zero_def split: sum.splits)

lemma silent_no_arm: "silent out \<Longrightarrow> \<not> arm_requested out"
  by (auto simp: silent_def arm_requested_def split: sum.splits)

lemma arm_requested_decide [simp]: "arm_requested (Inr (decide r v a b c)) \<longleftrightarrow> a"
  by (simp add: arm_requested_def decide_def)

lemma commands_within_decide [simp]:
  "commands_within l (Inr (decide r v a b c)) \<longleftrightarrow> in_envelope l v"
  by (simp add: commands_within_def decide_def)

lemma forward_within:
  assumes "guard_inv g" "event_ok e" "forwards e g m"
  shows "commands_within (limits g) (fst m)"
proof -
  obtain now vx vy wz dt where f: "e = Command now vx vy wz" "phase g = ARMED" "isfinite vx" "isfinite wz"
    "\<not> fless vx (Fin 0)" "\<not> fless (max_linear_x_mps (limits g)) vx"
    "\<not> fless (max_angular_z_rps (limits g)) (fabs wz)" "isfinite dt" "\<not> fless dt (Fin 0)"
    "fst m = Inr (decide ''command_forwarded'' (limited_output dt vx wz (expire_command_gap now g)) False False False)"
    using assms(3) by (auto simp: forwards_def)
  have "guard_inv (expire_command_gap now g)" using assms(1) f(2) by (rule expire_inv)
  then have "in_envelope (limits (expire_command_gap now g)) (limited_output dt vx wz (expire_command_gap now g))"
    using f assms(2) by (intro limited_output_envelope) simp_all
  then show ?thesis by (simp add: f del: in_envelope.simps)
qed

text \<open>The invariant of a session under one configuration.\<close>

definition session_inv :: "stage_limits \<times> expected_goal_claim option \<times> int list \<times> int list \<Rightarrow> guard \<Rightarrow> bool" where
  "session_inv c g \<longleftrightarrow> guard_inv g \<and> config g = c"

interpretation session: safe_system "guard_step hyp loads" "\<lambda>_. event_ok" "session_inv c" "commands_within (fst c)"
  for hyp loads c
proof unfold_locales
  fix g e
  assume inv: "session_inv c g" and ok: "event_ok e"
  then show "session_inv c (snd (guard_step hyp loads e g))"
    by (simp add: session_inv_def guard_step_inv config_step)
  have l: "limits_ok (fst c)" "limits g = fst c"
    using inv by (auto simp: session_inv_def guard_inv_def base_inv_def config_def)
  show "commands_within (fst c) (fst (guard_step hyp loads e g))"
    using guard_step_cases [of g hyp loads e] forward_within [of g e "guard_step hyp loads e g"] inv ok l
    by (auto simp: calm_def starts_def arms_def silent_within session_inv_def)
qed

text \<open>A session arms at most once: the request needs an idle guard and leaves it for good.\<close>

interpretation arming: one_shot_system "guard_step hyp loads" "\<lambda>_ _. True" "\<lambda>_. True"
    "\<lambda>g. phase g \<noteq> IDLE" arm_requested
  for hyp loads
proof unfold_locales
  fix g :: guard and e
  assume "phase g \<noteq> IDLE"
  then show "phase (snd (guard_step hyp loads e g)) \<noteq> IDLE"
    using guard_step_phase phase_move_not_idle by blast
next
  fix g :: guard and e
  assume a: "arm_requested (fst (guard_step hyp loads e g))"
  then show "\<not> phase g \<noteq> IDLE \<and> phase (snd (guard_step hyp loads e g)) \<noteq> IDLE"
    using guard_step_cases [of g hyp loads e]
    by (auto simp: calm_def starts_def arms_def forwards_def dest: silent_no_arm)
qed simp_all

text \<open>A finished session stays finished and silent.\<close>

interpretation ended: latch_system "guard_step hyp loads" "\<lambda>_ _. True" "\<lambda>_. True" terminal silent
  for hyp loads
proof unfold_locales
  fix g :: guard and e
  assume t: "terminal g"
  then show "terminal (snd (guard_step hyp loads e g))"
    using phase_move_terminal [OF guard_step_phase] by (auto simp: terminal_def)
  show "silent (fst (guard_step hyp loads e g))"
    using t guard_step_cases [of g hyp loads e]
    by (auto simp: calm_def starts_def arms_def forwards_def terminal_def)
qed

text \<open>The first claim stays the claim of the session.\<close>

interpretation bound: invariant_system "guard_step hyp loads" "\<lambda>_ _. True"
    "\<lambda>g. goal_claim_seen g \<and> claimed g = c"
  for hyp loads c
proof unfold_locales
  fix g :: guard and e
  assume a: "goal_claim_seen g \<and> claimed g = c"
  then have "claimed (snd (guard_step hyp loads e g)) = c" by (simp add: claim_step)
  with a show "goal_claim_seen (snd (guard_step hyp loads e g)) \<and> claimed (snd (guard_step hyp loads e g)) = c"
    by (auto simp: claimed_def)
qed

section \<open>The object \<open>__init__\<close> builds\<close>

lemma LIMITS_simps [simp]:
  "max_linear_x_mps LIMITS = fl (3 / 10)" "max_angular_z_rps LIMITS = fl (2 / 5)"
  "max_linear_accel_mps2 LIMITS = fl (3 / 10)" "max_angular_accel_rps2 LIMITS = fl (4 / 5)"
  "command_timeout_s LIMITS = fl (1 / 5)" "zero_preamble_s LIMITS = fl (3 / 5)"
  by (simp_all add: LIMITS_def)

lemma limits_ok_LIMITS: "limits_ok LIMITS"
  by (simp add: limits_ok_def fle_def)

lemma init_inv:
  assumes "StagedNav2Guard_init enabled stage lims goal modes markers = Inr g0" "limits_ok lims"
  shows "session_inv (lims, goal, List.map_filter as_int modes, List.map_filter as_int markers) g0"
  using assms
  by (auto simp: StagedNav2Guard_init_def session_inv_def guard_inv_def base_inv_def phase_inv_def
      config_def moving_def split: if_splits)

end
