(* ===== verification/GuardDemo.thy ===== *)
theory GuardDemo imports GuardRuns begin

text \<open>
  One complete session of the staged guard on concrete inputs, from construction to a forwarded
  non-zero command, evaluated event by event. The properties of the guard are instantiated on its
  states. \<open>hyp0\<close> and \<open>loads0\<close> stand in for \<open>math.hypot\<close> and \<open>json.loads\<close>, which the session
  only meets on coinciding positions and not at all.
\<close>

definition hyp0 :: "pyfloat \<Rightarrow> pyfloat \<Rightarrow> pyfloat" where "hyp0 x y = fmax (fabs x) (fabs y)"
definition loads0 :: "string \<Rightarrow> pyval option" where "loads0 s = None"

definition demo_goal :: expected_goal_claim where
  "demo_goal = \<lparr>eg_session_id = ''session-0001'', eg_pair_id = ''pair-0000001'',
     eg_source = STAGE1_GOAL_SOURCE, eg_target_id = ''dock'', eg_map_id = ''lab-map-01'',
     eg_generation = 1, eg_x_m = Fin 1, eg_y_m = Fin 0, eg_yaw_rad = Fin 0,
     eg_start_x_m = Fin 0, eg_start_y_m = Fin 0, eg_evidence_sha256 = ''aaaaaaaaaaaaaaaaaaaaaaaaaaaaaaaaaaaaaaaaaaaaaaaaaaaaaaaaaaaaaaaa''\<rparr>"

definition demo_uuid :: string where "demo_uuid = ''00000000000000000000000000000000''"

definition demo_payload :: pyval where
  "demo_payload = VDict [(''schema'', VStr GOAL_CLAIM_SCHEMA), (''session_id'', VStr ''session-0001''),
     (''pair_id'', VStr ''pair-0000001''), (''source'', VStr STAGE1_GOAL_SOURCE),
     (''target_id'', VStr ''dock''), (''map_id'', VStr ''lab-map-01''), (''generation'', VInt 1),
     (''pose'', VDict [(''x'', VFloat (Fin 1)), (''y'', VFloat (Fin 0)), (''yaw'', VFloat (Fin 0))]),
     (''goal_evidence_sha256'', VStr ''aaaaaaaaaaaaaaaaaaaaaaaaaaaaaaaaaaaaaaaaaaaaaaaaaaaaaaaaaaaaaaaa''), (''goal_uuid'', VStr demo_uuid)]"

definition demo_guard :: guard where
  "demo_guard = (case StagedNav2Guard_init True STAGE LIMITS (Some demo_goal) [VInt 1] [] of
     Inr g \<Rightarrow> g | Inl e \<Rightarrow> undefined)"

lemma demo_init: "StagedNav2Guard_init True STAGE LIMITS (Some demo_goal) [VInt 1] [] = Inr demo_guard"
  by (simp add: StagedNav2Guard_init_def demo_guard_def mode_ok_def marker_ok_def STAGE_def)

definition witnesses_at :: "pyfloat \<Rightarrow> guard_event list" where
  "witnesses_at t = [State t (VInt 1) (VInt 0) (Some (Fin 0)), Odom t (Fin 0) (Fin 0) (Some (Fin 0)),
    Observe ''tf'' t None,
    Scan t ''laser'' (VInt 0) (VInt 3) (VInt 1) (VInt 0) (VInt 10) [VInt 2] (Some (Fin 0)),
    Localization t ''map'' (Fin 0) (Fin 0) (Fin 0) (Some (Fin 0)),
    Observe ''map'' t None, MapLifecycle t ''lab-map-01'' ''localization'' (VInt 1),
    Ownership t [EXPECTED_CONTROLLER_NODE] [''/'' @ NODE_NAME] [EXPECTED_CHASSIS_NODE] 0]"

definition chassis_at :: "pyfloat \<Rightarrow> string \<Rightarrow> bool \<Rightarrow> guard_event" where
  "chassis_at t s b = ChassisStatus t s (VBool b) (VBool True) PROFILE ''external_verified''"


definition observed_events :: "guard_event list" where
  "observed_events = witnesses_at (Fin 1) @ [chassis_at (Fin 1) ''DISARMED'' False]"

definition claim_event :: guard_event where
  "claim_event = GoalClaim (Fin 1) demo_payload [EXPECTED_GOAL_DISPATCH_NODE]"

definition status_event :: guard_event where
  "status_event = GoalStatuses (Fin 1) [(demo_uuid, ''executing'')]"

definition confirm_event :: guard_event where "confirm_event = ConfirmArm True (Fin 1)"
definition armed_event :: guard_event where "armed_event = chassis_at (Fin (13 / 8)) ''ARMED'' True"

definition drive_event :: guard_event where
  "drive_event = Command (Fin (7 / 4)) (Fin (1 / 64)) (Fin 0) (Fin 0)"

definition demo_events :: "guard_event list" where
  "demo_events = observed_events @ [claim_event, status_event, confirm_event, armed_event, drive_event]"

lemmas op_defs = observe_def observe_odom_def observe_state_def observe_scan_def scan_numbers_def
  scan_valid_def
  observe_localization_def observe_ownership_def observe_map_lifecycle_def observe_chassis_status_def
  chassis_transition_def chassis_states_def start_bound_goal_if_ready_def begin_goal_def
  observe_goal_claim_def observe_goal_statuses_def confirm_arm_def
  command_def forward_output_def limited_output_def expire_command_gap_def hold_zero_for_command_gap_def
  tick_def at_time_def andThen_def plain_def trip_def finish_def finite_time_def set_witness_def moving_def
  source_stamp_invalid_def fsub_def start_position_matches_def stale_reason_def statuses_in_def decide_def
lemmas const_defs = FRESHNESS_LIMIT_S_def SOURCE_STAMP_LIMIT_S_def LIMITS_def MAX_SOURCE_FUTURE_S_def
  MAX_START_POSITION_ERROR_M_def UNVERIFIED_GOAL_TIMEOUT_S_def ACTIVE_STATUSES_def TERMINAL_CANCEL_STATUSES_def
  TERMINAL_FAILURE_STATUSES_def TERMINAL_SUCCESS_STATUSES_def zero_velocity_def math_pi_def

lemma guard0: "demo_guard = \<lparr>limits = LIMITS, expected_goal = Some demo_goal,
       allowed_modes = [1], allowed_state_markers = [],
       phase = IDLE, session_spent = False, goal_id = [],
       fault_reason = [], terminal_reason = [], witnesses = (\<lambda>_. None), ownership_valid = False,
       map_lifecycle = None, locked_map_lifecycle = None, accepted_goal_claim = None,
       goal_claim_seen = False, unverified_goal_id = [], unverified_goal_at = None,
       chassis_guard_state = ''UNKNOWN'', daemon_armed = False, odom_xy = None,
       localization_xy = None, localization_yaw = None, last_distance_xy = None,
       distance_traveled_m = Fin 0, arm_requested_at = None, arm_service_accepted = False,
       armed_at = None, last_command_at = None, last_output_at = None,
       last_output = zero_velocity\<rparr>"
  by (simp add: StagedNav2Guard_init_def demo_guard_def mode_ok_def marker_ok_def STAGE_def List.map_filter_simps)


lemmas text_defs = str_strip_def is_space_def code_of_def str_lower_def lower_char_def str_upper_def upper_char_def
  GOAL_UUID_RE_def is_lower_hex_def is_digit_def
  EXPECTED_CONTROLLER_NODE_def NODE_NAME_def EXPECTED_CHASSIS_NODE_def PROFILE_def EXPECTED_GOAL_DISPATCH_NODE_def
  GOAL_CLAIM_SCHEMA_def STAGE1_GOAL_SOURCE_def
lemmas claim_defs = validate_goal_claim_def decode_claim_def check_claim_object_def check_claim_pose_def check_claim_uuid_def
  pose_number_def pose_close_def matches_permit_def dict_get_def goal_claim_keys_def demo_payload_def demo_goal_def demo_uuid_def

lemma demo_goal_simps [simp]: "eg_map_id demo_goal = ''lab-map-01''" "eg_generation demo_goal = 1"
  "eg_start_x_m demo_goal = Fin 0" "eg_start_y_m demo_goal = Fin 0"
  by (simp_all add: demo_goal_def)


text \<open>The states the session goes through.\<close>

definition ready_guard :: guard where
  "ready_guard = demo_guard\<lparr>witnesses := [''state'' \<mapsto> Fin 1, ''odom'' \<mapsto> Fin 1, ''tf'' \<mapsto> Fin 1,
       ''scan'' \<mapsto> Fin 1, ''localization'' \<mapsto> Fin 1, ''map'' \<mapsto> Fin 1, ''map_lifecycle'' \<mapsto> Fin 1,
       ''ownership'' \<mapsto> Fin 1, ''chassis'' \<mapsto> Fin 1],
     ownership_valid := True, map_lifecycle := Some (''lab-map-01'', 1),
     chassis_guard_state := ''DISARMED'', odom_xy := Some (Fin 0, Fin 0),
     localization_xy := Some (Fin 0, Fin 0), localization_yaw := Some (Fin 0)\<rparr>"

definition claimed_guard :: guard where
  "claimed_guard = ready_guard\<lparr>witnesses := (witnesses ready_guard)(''goal_claim'' \<mapsto> Fin 1),
     accepted_goal_claim := Some \<lparr>ac_goal_uuid = demo_uuid, ac_expected = demo_goal\<rparr>,
     goal_claim_seen := True\<rparr>"

definition pending_guard :: guard where
  "pending_guard = claimed_guard\<lparr>witnesses := (witnesses claimed_guard)(''goal_status'' \<mapsto> Fin 1),
     session_spent := True, phase := PENDING_ARM, goal_id := demo_uuid, arm_requested_at := Some (Fin 1),
     last_distance_xy := Some (Fin 0, Fin 0), locked_map_lifecycle := Some (''lab-map-01'', 1),
     last_output_at := Some (Fin 1)\<rparr>"

definition accepted_guard :: guard where
  "accepted_guard = pending_guard\<lparr>arm_service_accepted := True\<rparr>"

definition armed_guard :: guard where
  "armed_guard = accepted_guard\<lparr>witnesses := (witnesses accepted_guard)(''chassis'' \<mapsto> Fin (13 / 8)),
     phase := ARMED, chassis_guard_state := ''ARMED'', daemon_armed := True,
     armed_at := Some (Fin (13 / 8)), last_command_at := Some (Fin (13 / 8)),
     last_output_at := Some (Fin (13 / 8))\<rparr>"

definition driving_guard :: guard where
  "driving_guard = armed_guard\<lparr>last_command_at := Some (Fin (7 / 4)),
     last_output_at := Some (Fin (7 / 4)), last_output := (Fin (1 / 64), Fin 0, Fin 0)\<rparr>"

lemmas guard_states = ready_guard_def claimed_guard_def pending_guard_def accepted_guard_def
  armed_guard_def driving_guard_def guard0

lemma hyp0_zero [simp]: "hyp0 (Fin 0) (Fin 0) = Fin 0"
  by (simp add: hyp0_def fmax_def)

lemma double_1_64 [simp]: "is_double (Fin (1 / 64))"
proof -
  have "fl (1 / 64) = Fin (1 / 64)" using fl_dyadic [of 1 6] by simp
  then show ?thesis using is_double_fl [of "1 / 64"] by metis
qed

lemma fl_5_8 [simp]: "fl (5 / 8) = Fin (5 / 8)"
  using fl_dyadic [of 5 3] by simp

lemma fl_x_step [simp]:
  "fl (5404319552844595 / 144115188075855872) = Fin (5404319552844595 / 144115188075855872)"
  using fl_dyadic [of 5404319552844595 57] by simp

lemma fl_z_step [simp]:
  "fl (3602879701896397 / 36028797018963968) = Fin (3602879701896397 / 36028797018963968)"
  using fl_dyadic [of 3602879701896397 55] by simp

lemma fl_x_step_neg [simp]:
  "fl (- (5404319552844595 / 144115188075855872)) = Fin (- (5404319552844595 / 144115188075855872))"
  using fl_dyadic [of "- 5404319552844595" 57] by simp

lemma fl_z_step_neg [simp]:
  "fl (- (3602879701896397 / 36028797018963968)) = Fin (- (3602879701896397 / 36028797018963968))"
  using fl_dyadic [of "- 3602879701896397" 55] by simp

lemma demo_claim_valid:
  "validate_goal_claim loads0 demo_payload demo_goal = Inr \<lparr>ac_goal_uuid = demo_uuid, ac_expected = demo_goal\<rparr>"
  by (simp add: claim_defs text_defs insert_commute)

lemma demo_observed: "final (guard_step hyp0 loads0) observed_events demo_guard = ready_guard"
  by (simp add: guard_states observed_events_def witnesses_at_def chassis_at_def op_defs const_defs Let_def
      float_of_int_def text_defs)

lemma demo_claimed: "guard_step hyp0 loads0 claim_event ready_guard =
  (Inr (decide ''goal_claim_accepted'' zero_velocity False False False), claimed_guard)"
  by (simp add: claim_event_def guard_states op_defs const_defs Let_def demo_claim_valid text_defs demo_uuid_def)

lemma demo_pending: "guard_step hyp0 loads0 status_event claimed_guard =
  (Inr (decide ''goal_active_request_arm'' zero_velocity True False False), pending_guard)"
  by (simp add: status_event_def guard_states op_defs const_defs Let_def text_defs demo_uuid_def)

lemma demo_accepted: "guard_step hyp0 loads0 confirm_event pending_guard =
  (Inr (decide ''chassis_prepare_acknowledged_zero_hold'' zero_velocity False False False), accepted_guard)"
  by (simp add: confirm_event_def guard_states op_defs const_defs Let_def)

lemma demo_armed: "guard_step hyp0 loads0 armed_event accepted_guard =
  (Inr (decide ''chassis_measured_armed_after_zero_hold'' zero_velocity False False False), armed_guard)"
  by (simp add: armed_event_def chassis_at_def guard_states op_defs const_defs Let_def text_defs)

lemma demo_driving: "guard_step hyp0 loads0 drive_event armed_guard =
  (Inr (decide ''command_forwarded'' (Fin (1 / 64), Fin 0, Fin 0) False False False), driving_guard)"
  by (simp add: drive_event_def guard_states op_defs const_defs Let_def slew_def fmax_def fmin_def)

lemmas demo_steps = demo_claimed demo_pending demo_accepted demo_armed demo_driving

lemma demo_final:
  "final (guard_step hyp0 loads0) (observed_events @ [claim_event]) demo_guard = claimed_guard"
  "final (guard_step hyp0 loads0)
     (observed_events @ [claim_event, status_event, confirm_event, armed_event]) demo_guard = armed_guard"
  "final (guard_step hyp0 loads0) demo_events demo_guard = driving_guard"
  by (simp_all add: demo_events_def final_append demo_observed demo_steps)

lemma demo_events_ok: "list_all event_ok demo_events"
  by (simp add: demo_events_def observed_events_def witnesses_at_def chassis_at_def claim_event_def
      status_event_def confirm_event_def armed_event_def drive_event_def del: is_double.simps)

end
