(* ===== verification/GuardProperties.thy ===== *)
theory GuardProperties imports GuardDemo begin

text \<open>
  The properties of the staged guard, each with an instance on the session of \<open>GuardDemo\<close>.
\<close>

section \<open>Lemmas of this theory\<close>

lemma reach_inv:
  assumes "StagedNav2Guard_init enabled stage LIMITS goal modes markers = Inr g0" "list_all event_ok es"
  shows "guard_inv (final (guard_step hyp loads) es g0)"
    and "limits (final (guard_step hyp loads) es g0) = LIMITS"
    and "expected_goal (final (guard_step hyp loads) es g0) = goal"
proof -
  have "session_inv (LIMITS, goal, List.map_filter as_int modes, List.map_filter as_int markers)
      (final (guard_step hyp loads) es g0)"
    using session.inv_final [OF init_inv [OF assms(1) limits_ok_LIMITS], of hyp loads es] assms(2) by simp
  then show "guard_inv (final (guard_step hyp loads) es g0)"
    and "limits (final (guard_step hyp loads) es g0) = LIMITS"
    and "expected_goal (final (guard_step hyp loads) es g0) = goal"
    by (simp_all add: session_inv_def config_def)
qed

lemma bound_when_moving:
  assumes "guard_inv g" "moving g"
  shows "\<exists>ex c. expected_goal g = Some ex \<and> accepted_goal_claim g = Some c \<and> ac_expected c = ex \<and>
    goal_id g = ac_goal_uuid c \<and> locked_map_lifecycle g = Some (eg_map_id ex, eg_generation ex) \<and>
    session_spent g"
  using assms
  by (auto simp: guard_inv_def base_inv_def phase_inv_def bound_goal_def moving_def)

lemma silent_decision: "silent (Inr d) \<longleftrightarrow> is_zero d \<and> \<not> request_arm d"
  by (simp add: silent_def)

lemma decide_sel [simp]:
  "d_command (decide r v a b c) = v" "request_arm (decide r v a b c) = a"
  "request_disarm (decide r v a b c) = b" "request_cancel (decide r v a b c) = c"
  "reason (decide r v a b c) = r"
  by (simp_all add: decide_def)

lemma guard_step_out:
  assumes "guard_step hyp loads e g = (Inr d, g')"
  shows "calm g (Inr d, g') \<or> starts hyp g (Inr d, g') \<or> arms hyp g (Inr d, g') \<or> forwards e g (Inr d, g')"
  using guard_step_cases [of g hyp loads e] assms by simp

section \<open>Motion\<close>

text \<open>
  C1. Every velocity the guard publishes in a session, whatever events it receives, lies in the
  stage envelope: forward speed between 0 and 0.30 m/s, no lateral speed, turn rate at most
  0.40 rad/s, all finite doubles.
\<close>

theorem guard_output_in_envelope:
  assumes "StagedNav2Guard_init enabled stage LIMITS goal modes markers = Inr g0"
    and "list_all event_ok es"
  shows "list_all (commands_within LIMITS) (outputs (guard_step hyp loads) es g0)"
  using session.safe_outputs [OF init_inv [OF assms(1) limits_ok_LIMITS], of hyp loads es] assms(2) by simp

theorem guard_output_in_envelope_witness:
  "list_all (commands_within LIMITS) (outputs (guard_step hyp0 loads0) demo_events demo_guard) \<and>
   final (guard_step hyp0 loads0) demo_events demo_guard = driving_guard \<and>
   last_output driving_guard = (Fin (1 / 64), Fin 0, Fin 0)"
  using guard_output_in_envelope [OF demo_init demo_events_ok] demo_final(3)
  by (simp add: driving_guard_def)

text \<open>
  C2. A non-zero velocity leaves the guard only as the answer to a finite controller command that
  arrives while the guard is armed and stays armed, with command ownership exact and every safety
  witness fresh at that instant; the scan and localization witnesses are the ones delegated to Nav2.
\<close>

theorem motion_needs_armed_and_fresh:
  assumes "guard_step hyp loads e g = (Inr d, g')" and "\<not> is_zero d"
  shows "\<exists>now vx vy wz. e = Command now vx vy wz \<and> isfinite vx \<and> isfinite wz \<and>
    phase g = ARMED \<and> phase g' = ARMED \<and> ownership_valid g \<and>
    (\<forall>(n, m) \<in> set FRESHNESS_LIMIT_S.
       n \<in> {''goal_status'', ''goal_claim'', ''scan'', ''localization''} \<or> fresh_at g now n m)"
proof -
  have "forwards e g (Inr d, g')"
    using guard_step_out [OF assms(1)] assms(2) by (auto simp: calm_def silent_decision starts_def arms_def is_zero_def)
  then obtain now vx vy wz where f: "e = Command now vx vy wz" "isfinite vx" "isfinite wz"
    "phase g = ARMED" "phase g' = ARMED" "stale_reason g now = None"
    by (auto simp: forwards_def)
  then show ?thesis by (auto simp: stale_reason_None exempt_def split: if_splits)
qed

theorem motion_needs_armed_and_fresh_witness:
  "\<exists>now vx vy wz. drive_event = Command now vx vy wz \<and> isfinite vx \<and> isfinite wz \<and>
    phase armed_guard = ARMED \<and> phase driving_guard = ARMED \<and> ownership_valid armed_guard \<and>
    (\<forall>(n, m) \<in> set FRESHNESS_LIMIT_S.
       n \<in> {''goal_status'', ''goal_claim'', ''scan'', ''localization''} \<or> fresh_at armed_guard now n m)"
  by (rule motion_needs_armed_and_fresh [OF demo_driving]) (simp add: is_zero_def zero_velocity_def)

text \<open>
  The freshness check of the guard is exact: it reports nothing precisely when ownership is
  valid and every witness of the table that is not exempt in the current phase was seen, not in
  the future and within its age limit.
\<close>

theorem stale_reason_complete:
  "stale_reason g now = None \<longleftrightarrow>
     ownership_valid g \<and>
     (\<forall>(n, m) \<in> set FRESHNESS_LIMIT_S.
        n = ''goal_status'' \<or> n = ''goal_claim'' \<or> (n = ''scan'' \<or> n = ''localization'') \<and> moving g \<or>
        fresh_at g now n m)"
  unfolding stale_reason_None exempt_def by (cases "moving g") auto

theorem stale_reason_complete_witness: "stale_reason claimed_guard (Fin 1) = None"
  unfolding stale_reason_complete
  by (simp add: guard_states FRESHNESS_LIMIT_S_def fresh_at_def fsub_def)

section \<open>Arming\<close>

text \<open>
  C5. Over any sequence of events a guard asks the chassis to arm at most once: one goal per
  session.
\<close>

theorem arm_requested_at_most_once:
  "length (filter arm_requested (outputs (guard_step hyp loads) es g)) \<le> 1"
  using arming.at_most_once [of hyp loads es g] by (simp add: list_all_iff)

text \<open>
  C6. When the guard asks the chassis to arm, it goes from idle to pending with zero velocity, all
  start evidence holds at that instant (ownership, every witness fresh, measured odometry, the
  permitted start position, the chassis measured disarmed), and the goal is bound: the permit's
  claim was accepted, the goal id is the claim's UUID, and the map is locked to the permit's.
\<close>

theorem arm_request_has_evidence:
  assumes "StagedNav2Guard_init enabled stage LIMITS goal modes markers = Inr g0"
    and "list_all event_ok es" and "event_ok e"
    and "guard_step hyp loads e (final (guard_step hyp loads) es g0) = (Inr d, g')" and "request_arm d"
  shows "\<exists>now c ex. phase (final (guard_step hyp loads) es g0) = IDLE \<and> phase g' = PENDING_ARM \<and>
    is_zero d \<and> arm_requested_at g' = Some now \<and> arm_evidence hyp now g' \<and>
    goal = Some ex \<and> accepted_goal_claim g' = Some c \<and> ac_expected c = ex \<and>
    goal_id g' = ac_goal_uuid c \<and> locked_map_lifecycle g' = Some (eg_map_id ex, eg_generation ex)"
proof -
  have all: "list_all event_ok (es @ [e])" using assms(2,3) by simp
  have g': "final (guard_step hyp loads) (es @ [e]) g0 = g'" using assms(4) by (simp add: final_append)
  have inv: "guard_inv g'" "expected_goal g' = goal" using reach_inv [OF assms(1) all] g' by auto
  have s: "starts hyp (final (guard_step hyp loads) es g0) (Inr d, g')"
    using guard_step_out [OF assms(4)] assms(5)
    by (auto simp: calm_def silent_decision starts_def arms_def forwards_def)
  then have "moving g'" by (simp add: starts_def moving_def)
  then show ?thesis using bound_when_moving [OF inv(1)] s inv(2) by (auto simp: starts_def is_zero_def)
qed

theorem arm_request_has_evidence_witness:
  "\<exists>now c ex. phase claimed_guard = IDLE \<and> phase pending_guard = PENDING_ARM \<and>
    is_zero (decide ''goal_active_request_arm'' zero_velocity True False False) \<and>
    arm_requested_at pending_guard = Some now \<and> arm_evidence hyp0 now pending_guard \<and>
    Some demo_goal = Some ex \<and> accepted_goal_claim pending_guard = Some c \<and> ac_expected c = ex \<and>
    goal_id pending_guard = ac_goal_uuid c \<and>
    locked_map_lifecycle pending_guard = Some (eg_map_id ex, eg_generation ex)"
  using arm_request_has_evidence [OF demo_init, of "observed_events @ [claim_event]" status_event hyp0 loads0
      "decide ''goal_active_request_arm'' zero_velocity True False False" pending_guard]
    demo_events_ok
  by (simp only: demo_final demo_pending) (simp add: demo_events_def)

text \<open>
  C27. The guard becomes armed only from the pending state, after the arm service accepted, at
  least the zero-hold preamble after the request, on a status sample that measures the chassis
  armed, at the permitted start position; it starts from zero velocity.
\<close>

theorem armed_only_after_zero_hold:
  assumes "guard_step hyp loads e g = (out, g')" and "phase g \<noteq> ARMED" and "phase g' = ARMED"
  shows "phase g = PENDING_ARM \<and> silent out \<and> arm_service_accepted g \<and>
    start_position_matches hyp g' \<and> chassis_guard_state g' = ''ARMED'' \<and> daemon_armed g' \<and>
    (\<exists>t now. arm_requested_at g = Some t \<and> armed_at g' = Some now \<and>
       fle (zero_preamble_s (limits g)) (fsub now t)) \<and> last_output g' = zero_velocity"
  using guard_step_cases [of g hyp loads e] assms
  by (auto simp: calm_def starts_def arms_def forwards_def terminal_def)

theorem armed_only_after_zero_hold_witness:
  "phase accepted_guard = PENDING_ARM \<and>
    silent (Inr (decide ''chassis_measured_armed_after_zero_hold'' zero_velocity False False False)) \<and>
    arm_service_accepted accepted_guard \<and>
    start_position_matches hyp0 armed_guard \<and> chassis_guard_state armed_guard = ''ARMED'' \<and>
    daemon_armed armed_guard \<and>
    (\<exists>t now. arm_requested_at accepted_guard = Some t \<and> armed_at armed_guard = Some now \<and>
       fle (zero_preamble_s (limits accepted_guard)) (fsub now t)) \<and>
    last_output armed_guard = zero_velocity"
  by (rule armed_only_after_zero_hold [OF demo_armed]) (simp_all add: guard_states)

section \<open>Phases\<close>

text \<open>
  C35. Each event moves the guard along the abstract phase machine only: idle to pending to armed,
  and from anywhere to fault or complete.
\<close>

theorem phase_refines_machine:
  "phase_move (phase g) (phase (snd (guard_step hyp loads e g)))"
  by (rule guard_step_phase)

text \<open>
  C36. A session that has ended (fault or complete) never leaves these phases, and from then on
  every decision is zero velocity without an arm request, for every further sequence of events.
\<close>

theorem ended_session_stays_silent:
  assumes "terminal g"
  shows "terminal (final (guard_step hyp loads) es g) \<and> list_all silent (outputs (guard_step hyp loads) es g)"
  using ended.latched_final [of hyp loads es g] ended.quiet_outputs [of hyp loads es g] assms
  by (simp add: list_all_iff)

theorem ended_session_stays_silent_witness:
  "terminal (final (guard_step hyp0 loads0) [drive_event, status_event] (driving_guard\<lparr>phase := FAULT\<rparr>)) \<and>
   list_all silent (outputs (guard_step hyp0 loads0) [drive_event, status_event] (driving_guard\<lparr>phase := FAULT\<rparr>))"
  by (rule ended_session_stays_silent) (simp add: terminal_def)

text \<open>
  The event that ends a session answers with zero velocity and a disarm request; it never
  ends on an exception.
\<close>

theorem ending_disarms:
  assumes "guard_step hyp loads e g = (out, g')" and "\<not> terminal g" and "terminal g'"
  shows "\<exists>d. out = Inr d \<and> is_zero d \<and> request_disarm d \<and> \<not> request_arm d"
  using guard_step_cases [of g hyp loads e] assms
  by (auto simp: calm_def starts_def arms_def forwards_def terminal_def silent_def disarms_def split: sum.splits)

theorem ending_disarms_witness:
  "\<exists>d. fst (guard_step hyp0 loads0 Shutdown driving_guard) = Inr d \<and> is_zero d \<and> request_disarm d \<and> \<not> request_arm d"
  by (rule ending_disarms [of hyp0 loads0 Shutdown driving_guard _ "snd (guard_step hyp0 loads0 Shutdown driving_guard)"])
     (simp_all add: shutdown_def trip_def terminal_def guard_states Let_def)

text \<open>
  C38. Whenever a session is pending or armed, after whatever events with readable values, it serves exactly
  the permitted goal: the accepted claim is the permit's, the tracked goal is the claim's UUID, the
  locked map and its generation are the permit's, and the session is spent.
\<close>

theorem moving_session_serves_permit:
  assumes "StagedNav2Guard_init enabled stage LIMITS goal modes markers = Inr g0"
    and "list_all event_ok es" and "moving (final (guard_step hyp loads) es g0)"
  shows "\<exists>ex c. goal = Some ex \<and>
    accepted_goal_claim (final (guard_step hyp loads) es g0) = Some c \<and> ac_expected c = ex \<and>
    goal_id (final (guard_step hyp loads) es g0) = ac_goal_uuid c \<and>
    locked_map_lifecycle (final (guard_step hyp loads) es g0) = Some (eg_map_id ex, eg_generation ex) \<and>
    session_spent (final (guard_step hyp loads) es g0)"
  using bound_when_moving [OF reach_inv(1) [OF assms(1,2)] assms(3)] reach_inv(3) [OF assms(1,2)] by auto

theorem moving_session_serves_permit_witness:
  "\<exists>ex c. Some demo_goal = Some ex \<and> accepted_goal_claim driving_guard = Some c \<and> ac_expected c = ex \<and>
    goal_id driving_guard = ac_goal_uuid c \<and>
    locked_map_lifecycle driving_guard = Some (eg_map_id ex, eg_generation ex) \<and> session_spent driving_guard"
proof -
  have "moving driving_guard" by (simp add: moving_def driving_guard_def armed_guard_def)
  then show ?thesis
    using moving_session_serves_permit [OF demo_init demo_events_ok, of hyp0 loads0] by (simp only: demo_final(3))
qed

text \<open>
  Once a goal claim was seen, no later event changes which claim is accepted, or accepts one.
\<close>

theorem goal_claim_is_final:
  assumes "goal_claim_seen g"
  shows "accepted_goal_claim (final (guard_step hyp loads) es g) = accepted_goal_claim g"
proof -
  have "claimed (final (guard_step hyp loads) es g) = claimed g"
    using bound.inv_final [of g "claimed g" hyp loads es] assms by (simp add: list_all_iff)
  then show ?thesis by (simp add: claimed_def)
qed

theorem goal_claim_is_final_witness:
  "accepted_goal_claim (final (guard_step hyp0 loads0) [claim_event, status_event] claimed_guard) =
     Some \<lparr>ac_goal_uuid = demo_uuid, ac_expected = demo_goal\<rparr>"
  using goal_claim_is_final [of claimed_guard hyp0 loads0 "[claim_event, status_event]"]
  by (simp add: claimed_guard_def)

section \<open>The command path\<close>

lemma fmul_zero: "isfinite a \<Longrightarrow> fmul a (Fin 0) = Fin 0"
  by (cases a) simp_all

lemma slew_no_time: "isfinite t \<Longrightarrow> slew t (Fin 0) (Fin 0) = Fin 0"
  by (cases t) (simp_all add: slew_def fsub_def fmax_def fmin_def)

text \<open>
  C37. A command that the guard forwards changes each component of the output by at most the
  acceleration limit times the time since the previous output (up to one floating-point rounding),
  starting from the previous output, or from zero when the command came after a gap longer than
  the command timeout.
\<close>

theorem forwarded_command_is_slew_limited:
  assumes "guard_inv g" and "guard_step hyp loads e g = (Inr d, g')" and "\<not> is_zero d"
  shows "\<exists>now vx vy wz t h px py pz x z. e = Command now vx vy wz \<and> h = expire_command_gap now g \<and>
    last_output h = (px, py, pz) \<and> last_output_at h = Some t \<and> d_command d = (x, Fin 0, z) \<and>
    fle (fsub px (fmul (max_linear_accel_mps2 (limits g)) (fsub now t))) x \<and>
    fle x (fadd px (fmul (max_linear_accel_mps2 (limits g)) (fsub now t))) \<and>
    fle (fsub pz (fmul (max_angular_accel_rps2 (limits g)) (fsub now t))) z \<and>
    fle z (fadd pz (fmul (max_angular_accel_rps2 (limits g)) (fsub now t)))"
proof -
  have "forwards e g (Inr d, g')"
    using guard_step_cases [of g hyp loads e] assms(2,3)
    by (auto simp: calm_def silent_def starts_def arms_def is_zero_def)
  then obtain now vx vy wz t where f: "e = Command now vx vy wz" "phase g = ARMED"
    "last_output_at (expire_command_gap now g) = Some t" "isfinite vx" "isfinite wz"
    "isfinite (fsub now t)" "\<not> fless (fsub now t) (Fin 0)"
    "d = decide ''command_forwarded'' (limited_output (fsub now t) vx wz (expire_command_gap now g)) False False False"
    by (auto simp: forwards_def)
  define h where "h = expire_command_gap now g"
  have inv: "guard_inv h" "limits h = limits g" using assms(1) f(2) by (simp_all add: h_def expire_inv)
  obtain px py pz where o: "last_output h = (px, py, pz)" by (cases "last_output h")
  have e: "in_envelope (limits h) (px, py, pz)" "limits_ok (limits g)"
    using inv o by (auto simp: guard_inv_def base_inv_def)
  then obtain p q where p: "px = Fin p" "is_double (Fin p)" "pz = Fin q" "is_double (Fin q)"
    by (cases px; cases pz) auto
  have dt: "fle (Fin 0) (fsub now t)" using f(6,7) by (auto simp: isfinite_iff)
  have a: "fle (Fin 0) (fmul (max_linear_accel_mps2 (limits g)) (fsub now t))"
    "fle (Fin 0) (fmul (max_angular_accel_rps2 (limits g)) (fsub now t))"
    using e(2) dt f(6) by (auto simp: limits_ok_def intro!: fmul_nonneg)
  obtain v w where vw: "vx = Fin v" "wz = Fin w" using f(4,5) by (auto simp: isfinite_iff)
  have "d_command d = (slew vx px (fmul (max_linear_accel_mps2 (limits g)) (fsub now t)), Fin 0,
      slew wz pz (fmul (max_angular_accel_rps2 (limits g)) (fsub now t)))"
    using f(8) o by (simp add: limited_output_def h_def [symmetric] inv(2))
  then show ?thesis
    using f(1,3) o slew_rate [OF p(2) a(1), of v] slew_rate [OF p(4) a(2), of w]
    unfolding h_def vw p(1,3) by blast
qed

lemma armed_guard_inv: "guard_inv armed_guard"
  using reach_inv [OF demo_init, of "observed_events @ [claim_event, status_event, confirm_event, armed_event]" hyp0 loads0]
    demo_events_ok
  by (simp only: demo_final) (simp add: demo_events_def)

theorem forwarded_command_is_slew_limited_witness:
  "\<exists>now vx vy wz t h px py pz x z. drive_event = Command now vx vy wz \<and>
    h = expire_command_gap now armed_guard \<and>
    last_output h = (px, py, pz) \<and> last_output_at h = Some t \<and>
    (Fin (1 / 64), Fin 0, Fin 0) = (x, Fin 0, z) \<and>
    fle (fsub px (fmul (max_linear_accel_mps2 (limits armed_guard)) (fsub now t))) x \<and>
    fle x (fadd px (fmul (max_linear_accel_mps2 (limits armed_guard)) (fsub now t))) \<and>
    fle (fsub pz (fmul (max_angular_accel_rps2 (limits armed_guard)) (fsub now t))) z \<and>
    fle z (fadd pz (fmul (max_angular_accel_rps2 (limits armed_guard)) (fsub now t)))"
  using forwarded_command_is_slew_limited [OF armed_guard_inv demo_driving]
  by (simp add: is_zero_def zero_velocity_def)

text \<open>
  A controller command that comes longer than the command timeout after the previous one never
  moves the robot: the output restarts from zero.
\<close>

theorem command_after_gap_is_zero:
  assumes "guard_inv g" and "guard_step hyp loads (Command now vx vy wz) g = (Inr d, g')"
    and "last_command_at g = Some t" and "fless (command_timeout_s (limits g)) (fsub now t)"
  shows "is_zero d"
proof (rule ccontr)
  assume "\<not> is_zero d"
  then have "forwards (Command now vx vy wz) g (Inr d, g')"
    using guard_step_cases [of g hyp loads "Command now vx vy wz"] assms(2)
    by (auto simp: calm_def silent_def starts_def arms_def is_zero_def)
  moreover have h: "expire_command_gap now g = hold_zero_for_command_gap now g"
    using assms(3,4) by (simp add: expire_command_gap_def)
  ultimately have f: "isfinite vx" "isfinite wz" "isfinite (fsub now now)"
    "d = decide ''command_forwarded'' (limited_output (fsub now now) vx wz (hold_zero_for_command_gap now g)) False False False"
    by (auto simp: forwards_def hold_zero_for_command_gap_def)
  have "limits_ok (limits g)" using assms(1) by (simp add: guard_inv_def base_inv_def)
  moreover have "fsub now now = Fin 0" using f(3) by (cases now) (simp_all add: fsub_def)
  ultimately have "d_command d = zero_velocity"
    using f by (simp add: limited_output_def hold_zero_for_command_gap_def zero_velocity_def limits_ok_def
        fmul_zero slew_no_time)
  then show False using \<open>\<not> is_zero d\<close> by (simp add: is_zero_def)
qed

theorem command_after_gap_is_zero_witness:
  "is_zero (decide ''command_forwarded'' zero_velocity False False False)"
proof -
  define g where "g = armed_guard\<lparr>last_command_at := Some (Fin (3 / 2))\<rparr>"
  have inv: "guard_inv g" using armed_guard_inv by (auto simp: g_def guard_inv_def base_inv_def phase_inv_def
      moving_def bound_goal_def)
  have gap: "fless (command_timeout_s (limits g)) (fsub (Fin (7 / 4)) (Fin (3 / 2)))"
    by (simp add: g_def guard_states fsub_def LIMITS_def)
  have step: "guard_step hyp0 loads0 (Command (Fin (7 / 4)) (Fin (1 / 64)) (Fin 0) (Fin 0)) g =
      (Inr (decide ''command_forwarded'' zero_velocity False False False),
       g\<lparr>last_command_at := Some (Fin (7 / 4)), last_output_at := Some (Fin (7 / 4)), last_output := zero_velocity\<rparr>)"
    by (simp add: g_def guard_states op_defs const_defs Let_def slew_def fmax_def fmin_def)
  show ?thesis by (rule command_after_gap_is_zero [OF inv step _ gap]) (simp add: g_def)
qed

text \<open>
  When the controller has been silent for longer than the command timeout, the next timer tick
  of an armed guard publishes zero velocity and resets its output to zero, whatever else it finds.
\<close>

theorem controller_silence_stops:
  assumes "phase g = ARMED" and "finite_time now"
    and "last_command_at g = Some t" and "fless (command_timeout_s (limits g)) (fsub now t)"
  shows "silent (fst (guard_step hyp loads (Tick now) g)) \<and>
    last_output (snd (guard_step hyp loads (Tick now) g)) = zero_velocity"
  using assms
  by (simp add: tick_def at_time_def trip_def plain_def hold_zero_for_command_gap_def Let_def split: option.split)

theorem controller_silence_stops_witness:
  "silent (fst (guard_step hyp0 loads0 (Tick (Fin 2)) driving_guard)) \<and>
   last_output (snd (guard_step hyp0 loads0 (Tick (Fin 2)) driving_guard)) = zero_velocity"
  by (rule controller_silence_stops [where t = "Fin (7 / 4)"])
    (simp_all add: guard_states finite_time_def fsub_def LIMITS_def)

text \<open>
  The pending state is bounded: once both arming deadlines have passed since the request, the
  next timer tick faults the session, asks to disarm and to cancel the goal.
\<close>

theorem pending_arm_is_bounded:
  assumes "guard_inv g" and "phase g = PENDING_ARM" and "finite_time now" and "arm_requested_at g = Some t"
    and "fless (arm_response_timeout_s (limits g)) (fsub now t)"
    and "fless (chassis_ready_timeout_s (limits g)) (fsub now t)"
  shows "\<exists>d. fst (guard_step hyp loads (Tick now) g) = Inr d \<and> is_zero d \<and> request_disarm d \<and>
    request_cancel d \<and> phase (snd (guard_step hyp loads (Tick now) g)) = FAULT"
proof -
  have "goal_id g \<noteq> []" using assms(1,2) by (auto simp: guard_inv_def phase_inv_def moving_def)
  then show ?thesis using assms(2-) by (simp add: tick_def at_time_def trip_def Let_def is_zero_def)
qed

theorem pending_arm_is_bounded_witness:
  "\<exists>d. fst (guard_step hyp0 loads0 (Tick (Fin 4)) pending_guard) = Inr d \<and> is_zero d \<and> request_disarm d \<and>
    request_cancel d \<and> phase (snd (guard_step hyp0 loads0 (Tick (Fin 4)) pending_guard)) = FAULT"
proof (rule pending_arm_is_bounded [where t = "Fin 1"])
  show "guard_inv pending_guard"
    using reach_inv [OF demo_init, of "observed_events @ [claim_event, status_event]" hyp0 loads0]
      demo_events_ok
    by (simp add: final_append demo_observed demo_steps demo_events_def)
qed (simp_all add: guard_states finite_time_def fsub_def LIMITS_def)


section \<open>Faults that do not hold\<close>

text \<open>
  The fault latch gives way to a goal status: a faulted guard whose goal is reported succeeded
  becomes complete, with the reason of a successful session.
\<close>

theorem fault_becomes_complete:
  assumes "phase g = FAULT" and "finite_time now" and "goal_id g \<noteq> []"
  shows "phase (snd (guard_step hyp loads (GoalStatuses now [(goal_id g, ''succeeded'')]) g)) = COMPLETE \<and>
    terminal_reason (snd (guard_step hyp loads (GoalStatuses now [(goal_id g, ''succeeded'')]) g)) =
      ''nav2_goal_succeeded''"
  using assms
  by (simp add: observe_goal_statuses_def at_time_def Let_def andThen_def observe_goal_status_result
      text_defs statuses_in_def ACTIVE_STATUSES_def TERMINAL_CANCEL_STATUSES_def
      TERMINAL_FAILURE_STATUSES_def TERMINAL_SUCCESS_STATUSES_def finish_def set_witness_def)

theorem fault_becomes_complete_witness:
  "\<exists>g. phase g = FAULT \<and> fault_reason g = ''shutdown'' \<and>
    phase (snd (guard_step hyp0 loads0 (GoalStatuses (Fin 2) [(goal_id g, ''succeeded'')]) g)) = COMPLETE"
proof -
  define g where "g = snd (guard_step hyp0 loads0 Shutdown driving_guard)"
  have "phase g = FAULT" "fault_reason g = ''shutdown''" "goal_id g \<noteq> []"
    by (simp_all add: g_def shutdown_def trip_def guard_states Let_def demo_uuid_def)
  then show ?thesis using fault_becomes_complete [of g "Fin 2" hyp0 loads0] by (auto simp: finite_time_def)
qed

text \<open>
  A goal claim that matches the permit but whose pose holds an integer too large for a double
  is not rejected: the conversion's exception escapes the handler, which has already spent the
  session's one claim.
\<close>

theorem huge_pose_integer_escapes:
  assumes "finite_time now" and "expected_goal g = Some ex" and "\<not> goal_claim_seen g"
    and "set (map fst d) = set goal_claim_keys" and "matches_permit d ex"
    and "dict_get d ''pose'' = VDict pose" and "set (map fst pose) = {''x'', ''y'', ''yaw''}"
    and "dict_get pose ''x'' = VInt n" and "float_of_int n = None"
  shows "guard_step hyp loads (GoalClaim now (VDict d) []) g =
    (Inl UncaughtOverflowError, g\<lparr>goal_claim_seen := True\<rparr>)"
  using assms
  by (simp add: observe_goal_claim_def at_time_def validate_goal_claim_def decode_claim_def
      check_claim_object_def check_claim_pose_def pose_number_def)

lemma float_of_int_overflow: "float_of_int (2 ^ 1024) = None"
proof -
  have "frnd (of_int (2 ^ 52) * 2 powi 972) = of_int (2 ^ 52) * 2 powi 972" by (rule frnd_grid) simp_all
  moreover have "of_int (2 ^ 52) * 2 powi 972 = (2 ^ 1024 :: rat)" by (simp flip: power_add)
  ultimately have "frnd (2 ^ 1024) = 2 ^ 1024" by metis
  then show ?thesis by (simp add: float_of_int_def fl_def)
qed

theorem huge_pose_integer_escapes_witness:
  "guard_step hyp0 loads0 (GoalClaim (Fin 1) (VDict [(''schema'', VStr GOAL_CLAIM_SCHEMA),
     (''session_id'', VStr ''session-0001''),
     (''pair_id'', VStr ''pair-0000001''), (''source'', VStr STAGE1_GOAL_SOURCE),
     (''target_id'', VStr ''dock''), (''map_id'', VStr ''lab-map-01''), (''generation'', VInt 1),
     (''pose'', VDict [(''x'', VInt (2 ^ 1024)), (''y'', VInt 0), (''yaw'', VInt 0)]),
     (''goal_evidence_sha256'', VStr (eg_evidence_sha256 demo_goal)), (''goal_uuid'', VStr demo_uuid)]) [])
     ready_guard = (Inl UncaughtOverflowError, ready_guard\<lparr>goal_claim_seen := True\<rparr>)"
  by (rule huge_pose_integer_escapes [where ex = demo_goal and n = "2 ^ 1024" and
        pose = "[(''x'', VInt (2 ^ 1024)), (''y'', VInt 0), (''yaw'', VInt 0)]"])
     (simp_all add: finite_time_def guard_states goal_claim_keys_def insert_commute matches_permit_def
        dict_get_def demo_goal_def float_of_int_overflow [simplified])
end
