(* ===== verification/ClaimProperties.thy ===== *)
theory ClaimProperties imports GuardDemo begin

text \<open>
  The properties of the staged guard's claims: what accepted environment claims and an accepted
  goal claim are, and that the guard can be built from the former.
\<close>

section \<open>The environment\<close>

lemma all_ok_in: "all_ok f xs = Inr ys \<Longrightarrow> x \<in> set xs \<Longrightarrow> \<exists>y. f x = Inr y"
  by (induction xs arbitrary: ys) auto

lemma goal_coordinate_Inr: "goal_coordinate env key = Inr v \<Longrightarrow> isfinite v \<and> is_double v"
  by (auto simp: goal_coordinate_def float_of_str_double split: option.splits if_splits)

lemma decimal_list_Inr:
  assumes "decimal_list env key lo hi allow = Inr vs"
  shows "distinct vs \<and> list_all (\<lambda>v. lo \<le> v \<and> v \<le> hi) vs \<and> (\<not> allow \<longrightarrow> vs \<noteq> [])"
proof (cases "env key")
  case None
  then show ?thesis using assms by (simp add: decimal_list_def)
next
  case (Some raw)
  show ?thesis
  proof (cases "str_strip raw = []")
    case True
    then show ?thesis using assms Some by (auto simp: decimal_list_def split: if_splits)
  next
    case False
    define tokens where "tokens = map str_strip (split_on (CHR '','') (replace_char (CHR '';'') (CHR '','') (str_strip raw)))"
    have ne: "tokens \<noteq> []" by (simp add: tokens_def)
    have "all_ok token_value tokens = Inr vs" "\<not> (list_ex (\<lambda>v. v < lo \<or> v > hi) vs \<or> \<not> distinct vs)"
      using assms Some False by (auto simp: decimal_list_def tokens_def Let_def split: if_splits)
    then show ?thesis using ne all_ok_length by (fastforce simp: list_all_iff list_ex_iff)
  qed
qed

lemma environment_lists:
  assumes "validate_environment env = Inr c"
  shows "rc_stage c = STAGE \<and> rc_allowed_modes c \<noteq> [] \<and> distinct (rc_allowed_modes c) \<and>
    list_all (\<lambda>v. 0 \<le> v \<and> v \<le> 254) (rc_allowed_modes c) \<and> distinct (rc_allowed_state_markers c) \<and>
    list_all (\<lambda>v. 1 \<le> v \<and> v \<le> 4294967295) (rc_allowed_state_markers c)"
  using assms by (auto simp: validate_environment_def Let_def dest!: decimal_list_Inr)

lemma map_filter_VInt [simp]: "List.map_filter as_int (map VInt xs) = xs"
  by (induction xs) (simp_all add: List.map_filter_simps)

text \<open>
  Claims the guard accepts from its environment are complete: the four profile variables have
  their exact values, identifiers and digests match their patterns, the map generation is
  positive, every coordinate is finite with the yaw in [-pi, pi], and the allowed modes are a
  non-empty duplicate-free list of values up to 254 (state markers: from 1 to 2^32-1).
\<close>

theorem accepted_environment_is_exact:
  assumes "validate_environment env = Inr c"
  shows "list_all (\<lambda>(key, expected). env key = Some expected) exact_environment \<and> rc_stage c = STAGE \<and>
    rc_session_id c = env_get env ''GO2_STAGED_NAV2_SESSION_ID'' \<and>
    eg_map_id (rc_expected_goal c) = env_get env ''GO2_STAGED_NAV2_MAP_ID'' \<and>
    int_of_str (env_get env ''GO2_STAGED_NAV2_MAP_GENERATION'') = Some (eg_generation (rc_expected_goal c)) \<and>
    SESSION_RE (rc_session_id c) \<and> eg_session_id (rc_expected_goal c) = rc_session_id c \<and>
    SESSION_RE (eg_pair_id (rc_expected_goal c)) \<and> eg_source (rc_expected_goal c) = STAGE1_GOAL_SOURCE \<and>
    TARGET_ID_RE (eg_target_id (rc_expected_goal c)) \<and> MAP_ID_RE (eg_map_id (rc_expected_goal c)) \<and>
    0 < eg_generation (rc_expected_goal c) \<and>
    list_all isfinite [eg_x_m (rc_expected_goal c), eg_y_m (rc_expected_goal c),
      eg_yaw_rad (rc_expected_goal c), eg_start_x_m (rc_expected_goal c), eg_start_y_m (rc_expected_goal c)] \<and>
    fle (fneg math_pi) (eg_yaw_rad (rc_expected_goal c)) \<and> fle (eg_yaw_rad (rc_expected_goal c)) math_pi \<and>
    rc_allowed_modes c \<noteq> [] \<and> distinct (rc_allowed_modes c) \<and>
    list_all (\<lambda>v. 0 \<le> v \<and> v \<le> 254) (rc_allowed_modes c) \<and> distinct (rc_allowed_state_markers c) \<and>
    list_all (\<lambda>v. 1 \<le> v \<and> v \<le> 4294967295) (rc_allowed_state_markers c) \<and>
    SHA256_RE (eg_evidence_sha256 (rc_expected_goal c))"
proof -
  have "list_all (\<lambda>(key, expected). env key = Some expected) exact_environment"
    if "all_ok (\<lambda>(key, expected). require (env key = Some expected) (key @ '' must exactly equal''))
       exact_environment = Inr us" for us
    using all_ok_in [OF that] by (fastforce simp: list_all_iff)
  then show ?thesis
    using assms environment_lists [OF assms]
    by (auto simp: validate_environment_def Let_def dest!: goal_coordinate_Inr
        split: option.splits if_splits)
qed

text \<open>
  Accepted environment claims always construct an enabled guard: \<open>__init__\<close> raises nothing on
  them and leaves an idle guard with exactly these modes, markers and permit.
\<close>

theorem accepted_environment_builds_guard:
  assumes "validate_environment env = Inr c"
  shows "\<exists>g. StagedNav2Guard_init True (rc_stage c) LIMITS (Some (rc_expected_goal c))
      (map VInt (rc_allowed_modes c)) (map VInt (rc_allowed_state_markers c)) = Inr g \<and>
    phase g = IDLE \<and> allowed_modes g = rc_allowed_modes c \<and>
    allowed_state_markers g = rc_allowed_state_markers c \<and> expected_goal g = Some (rc_expected_goal c)"
  using environment_lists [OF assms] unfolding StagedNav2Guard_init_def
  by (auto simp: mode_ok_def marker_ok_def distinct_map inj_on_def list_all_iff)

text \<open>An environment the launcher writes.\<close>

definition demo_environment :: "string \<rightharpoonup> string" where
  "demo_environment = map_of (exact_environment @
    [(''GO2_STAGED_NAV2_SESSION_ID'', ''session-0001''), (''GO2_STAGED_NAV2_PAIR_ID'', ''pair-0000001''),
     (''GO2_STAGED_NAV2_GOAL_SOURCE'', STAGE1_GOAL_SOURCE), (''GO2_STAGED_NAV2_TARGET_ID'', ''dock''),
     (''GO2_STAGED_NAV2_MAP_ID'', ''lab-map-01''), (''GO2_STAGED_NAV2_MAP_GENERATION'', ''1''),
     (''GO2_STAGED_NAV2_EXPECTED_GOAL_X'', ''1.0''), (''GO2_STAGED_NAV2_EXPECTED_GOAL_Y'', ''-0.5''),
     (''GO2_STAGED_NAV2_EXPECTED_GOAL_YAW'', ''3e0''), (''GO2_STAGED_NAV2_EXPECTED_START_X'', ''0''),
     (''GO2_STAGED_NAV2_EXPECTED_START_Y'', ''0''), (''GO2_ALLOWED_MODES'', ''1; 3''),
     (''GO2_ALLOWED_STATE_MARKERS'', []),
     (''GO2_STAGED_NAV2_GOAL_EVIDENCE_SHA256'', eg_evidence_sha256 demo_goal)])"

lemma demo_environment_accepted:
  "validate_environment demo_environment = Inr \<lparr>rc_session_id = ''session-0001'', rc_stage = STAGE,
     rc_allowed_modes = [1, 3], rc_allowed_state_markers = [],
     rc_expected_goal = demo_goal\<lparr>eg_y_m := Fin (- (1 / 2)), eg_yaw_rad := Fin 3\<rparr>\<rparr>"
proof -
  note [simp] = text_defs is_alnum_def is_alpha_def word_dot_dash_def head_run_def demo_goal_def
  have half: "fl (- (1 / 2)) = Fin (- (1 / 2))" using fl_dyadic [of "- 1" 1] by simp
  have "all_ok (\<lambda>(key, expected). require (demo_environment key = Some expected) (key @ '' must exactly equal''))
       exact_environment = Inr [(), (), (), ()]"
    by (simp add: exact_environment_def demo_environment_def)
  moreover have "goal_coordinate demo_environment ''GO2_STAGED_NAV2_EXPECTED_GOAL_X'' = Inr (Fin 1)"
    "goal_coordinate demo_environment ''GO2_STAGED_NAV2_EXPECTED_GOAL_Y'' = Inr (Fin (- (1 / 2)))"
    "goal_coordinate demo_environment ''GO2_STAGED_NAV2_EXPECTED_GOAL_YAW'' = Inr (Fin 3)"
    "goal_coordinate demo_environment ''GO2_STAGED_NAV2_EXPECTED_START_X'' = Inr (Fin 0)"
    "goal_coordinate demo_environment ''GO2_STAGED_NAV2_EXPECTED_START_Y'' = Inr (Fin 0)"
    by (simp_all add: goal_coordinate_def env_get_def demo_environment_def exact_environment_def
        float_of_str_def decimal_of_str_def exponent_part_def pow10_def half)
  moreover have "decimal_list demo_environment ''GO2_ALLOWED_MODES'' 0 254 False = Inr [1, 3]"
    "decimal_list demo_environment ''GO2_ALLOWED_STATE_MARKERS'' 1 4294967295 True = Inr []"
    by (simp_all add: decimal_list_def demo_environment_def exact_environment_def replace_char_def
        token_value_def int_of_str_def)
  ultimately show ?thesis
    by (simp add: validate_environment_def env_get_def demo_environment_def exact_environment_def
        SESSION_RE_def MAP_ID_RE_def TARGET_ID_RE_def SHA256_RE_def int_of_str_def math_pi_def Let_def)
qed

theorem accepted_environment_is_exact_witness:
  "\<exists>c. validate_environment demo_environment = Inr c \<and> rc_allowed_modes c \<noteq> [] \<and>
    0 < eg_generation (rc_expected_goal c) \<and> SHA256_RE (eg_evidence_sha256 (rc_expected_goal c))"
  using accepted_environment_is_exact [OF demo_environment_accepted] demo_environment_accepted by auto

theorem accepted_environment_builds_guard_witness:
  "\<exists>g. StagedNav2Guard_init True STAGE LIMITS
      (Some (demo_goal\<lparr>eg_y_m := Fin (- (1 / 2)), eg_yaw_rad := Fin 3\<rparr>)) [VInt 1, VInt 3] [] = Inr g \<and>
    phase g = IDLE \<and> allowed_modes g = [1, 3]"
  using accepted_environment_builds_guard [OF demo_environment_accepted] by auto

section \<open>The goal claim\<close>

lemma fl_tolerance_nonneg: "fle (Fin 0) (fl (1 / 10 ^ 9))"
  using fl_mono [of 0 "1 / 10 ^ 9"] by simp

text \<open>
  A goal claim the guard accepts has exactly the schema's keys, carries the permit's identity
  fields, a lowercase 32-digit UUID, and a pose each coordinate of which reads as a finite number
  within 1e-9 of the permit's.
\<close>

theorem accepted_goal_claim_matches_permit:
  assumes "validate_goal_claim loads payload ex = Inr c"
    and "isfinite (eg_x_m ex)" and "isfinite (eg_y_m ex)" and "isfinite (eg_yaw_rad ex)"
  shows "\<exists>d pose x y yaw. decode_claim loads payload = Inr (VDict d) \<and>
    set (map fst d) = set goal_claim_keys \<and> matches_permit d ex \<and>
    dict_get d ''pose'' = VDict pose \<and> set (map fst pose) = {''x'', ''y'', ''yaw''} \<and>
    to_float (dict_get pose ''x'') = Inr x \<and> to_float (dict_get pose ''y'') = Inr y \<and>
    to_float (dict_get pose ''yaw'') = Inr yaw \<and> isfinite x \<and> isfinite y \<and> isfinite yaw \<and>
    fle (fabs (fsub (eg_x_m ex) x)) (fl (1 / 10 ^ 9)) \<and> fle (fabs (fsub (eg_y_m ex) y)) (fl (1 / 10 ^ 9)) \<and>
    fle (fabs (fsub (eg_yaw_rad ex) yaw)) (fl (1 / 10 ^ 9)) \<and>
    dict_get d ''goal_uuid'' = VStr (ac_goal_uuid c) \<and> GOAL_UUID_RE (ac_goal_uuid c) \<and> ac_expected c = ex"
  using assms isclose_zero_rel [OF _ _ _ fl_tolerance_nonneg]
  by (auto simp: validate_goal_claim_Inr check_claim_object_Inr check_claim_pose_def pose_close_def)

theorem accepted_goal_claim_matches_permit_witness:
  "\<exists>d pose x y yaw. decode_claim loads0 demo_payload = Inr (VDict d) \<and>
    set (map fst d) = set goal_claim_keys \<and> matches_permit d demo_goal \<and>
    dict_get d ''pose'' = VDict pose \<and> set (map fst pose) = {''x'', ''y'', ''yaw''} \<and>
    to_float (dict_get pose ''x'') = Inr x \<and> to_float (dict_get pose ''y'') = Inr y \<and>
    to_float (dict_get pose ''yaw'') = Inr yaw \<and> isfinite x \<and> isfinite y \<and> isfinite yaw \<and>
    fle (fabs (fsub (eg_x_m demo_goal) x)) (fl (1 / 10 ^ 9)) \<and>
    fle (fabs (fsub (eg_y_m demo_goal) y)) (fl (1 / 10 ^ 9)) \<and>
    fle (fabs (fsub (eg_yaw_rad demo_goal) yaw)) (fl (1 / 10 ^ 9)) \<and>
    dict_get d ''goal_uuid'' = VStr demo_uuid \<and> GOAL_UUID_RE demo_uuid"
  using accepted_goal_claim_matches_permit [OF demo_claim_valid] by (simp add: demo_goal_def)

end
