(* ===== verification/GuardEvidence.thy ===== *)
theory GuardEvidence imports GuardClaims begin

text \<open>
  \<open>scripts/staged_nav2_motion_guard.py\<close>, third part: the evidence recorders of a session,
  \<open>OdomSnapshot\<close>, \<open>StageOdomMeasurement\<close> and \<open>PostStopStationarity\<close>. \<open>libm\<close> holds the platform's
  \<open>math\<close> functions.
\<close>

record libm =
  m_hypot :: "pyfloat \<Rightarrow> pyfloat \<Rightarrow> pyfloat"
  m_sin :: "pyfloat \<Rightarrow> pyfloat"
  m_cos :: "pyfloat \<Rightarrow> pyfloat"
  m_atan2 :: "pyfloat \<Rightarrow> pyfloat \<Rightarrow> pyfloat"

definition POST_STOP_OBSERVATION_S :: pyfloat where "POST_STOP_OBSERVATION_S = Fin 1"
definition POST_STOP_MIN_ODOM_SAMPLES :: int where "POST_STOP_MIN_ODOM_SAMPLES = 10"
definition POST_STOP_MAX_DRIFT_M :: pyfloat where "POST_STOP_MAX_DRIFT_M = fl (2 / 100)"
definition POST_STOP_MAX_LINEAR_MPS :: pyfloat where "POST_STOP_MAX_LINEAR_MPS = fl (3 / 100)"
definition POST_STOP_MAX_YAW_RPS :: pyfloat where "POST_STOP_MAX_YAW_RPS = fl (3 / 100)"

definition wrapped_angle :: "libm \<Rightarrow> pyfloat \<Rightarrow> pyfloat" where
  "wrapped_angle m v = m_atan2 m (m_sin m v) (m_cos m v)"

section \<open>Odometry samples\<close>

record odom_snapshot =
  os_monotonic_s :: pyfloat
  os_x_m :: pyfloat
  os_y_m :: pyfloat
  os_yaw_rad :: pyfloat
  os_linear_speed_mps :: pyfloat
  os_yaw_rate_rps :: pyfloat

definition snapshot_ok :: "odom_snapshot \<Rightarrow> bool" where
  "snapshot_ok s \<longleftrightarrow>
     list_all isfinite [os_monotonic_s s, os_x_m s, os_y_m s, os_yaw_rad s, os_linear_speed_mps s, os_yaw_rate_rps s] \<and>
     \<not> fless (os_monotonic_s s) (Fin 0) \<and>
     (fle (fneg math_pi) (os_yaw_rad s) \<and> fle (os_yaw_rad s) math_pi) \<and>
     \<not> fless (os_linear_speed_mps s) (Fin 0) \<and> \<not> fless (os_yaw_rate_rps s) (Fin 0)"

definition OdomSnapshot ::
  "pyfloat \<Rightarrow> pyfloat \<Rightarrow> pyfloat \<Rightarrow> pyfloat \<Rightarrow> pyfloat \<Rightarrow> pyfloat \<Rightarrow> guard_exc + odom_snapshot" where
  "OdomSnapshot t x y yaw lin rate =
     (let s = \<lparr>os_monotonic_s = t, os_x_m = x, os_y_m = y, os_yaw_rad = yaw,
               os_linear_speed_mps = lin, os_yaw_rate_rps = rate\<rparr>
      in if snapshot_ok s then Inr s else Inl (GuardError ''odometry evidence sample is invalid''))"

section \<open>The path of one stage\<close>

record stage_measurement =
  start_snapshot :: "odom_snapshot option"
  end_snapshot :: "odom_snapshot option"
  last_snapshot :: "odom_snapshot option"
  total_m :: pyfloat
  samples :: int
  frozen :: bool

definition StageOdomMeasurement_init :: stage_measurement where
  "StageOdomMeasurement_init = \<lparr>start_snapshot = None, end_snapshot = None, last_snapshot = None,
     total_m = Fin 0, samples = 0, frozen = False\<rparr>"

definition measurement_start :: "odom_snapshot \<Rightarrow> stage_measurement \<Rightarrow> (guard_exc + unit) \<times> stage_measurement" where
  "measurement_start s m =
     (if start_snapshot m \<noteq> None \<or> frozen m
      then (Inl (GuardError ''stage odometry measurement already started''), m)
      else (Inr (), m\<lparr>start_snapshot := Some s, end_snapshot := Some s, last_snapshot := Some s, samples := 1\<rparr>))"

definition measurement_observe ::
  "libm \<Rightarrow> odom_snapshot \<Rightarrow> stage_measurement \<Rightarrow> (guard_exc + unit) \<times> stage_measurement" where
  "measurement_observe lm s m =
     (if start_snapshot m = None \<or> frozen m then (Inr (), m)
      else case last_snapshot m of
          None \<Rightarrow> (Inl (GuardError ''stage odometry sample clock regressed''), m)
        | Some l \<Rightarrow>
            if fless (os_monotonic_s s) (os_monotonic_s l)
            then (Inl (GuardError ''stage odometry sample clock regressed''), m)
            else
              let step = m_hypot lm (fsub (os_x_m s) (os_x_m l)) (fsub (os_y_m s) (os_y_m l)) in
              if \<not> isfinite step then (Inl (GuardError ''stage odometry path is non-finite''), m)
              else
                let m1 = m\<lparr>total_m := fadd (total_m m) step\<rparr> in
                if \<not> isfinite (total_m m1)
                then (Inl (GuardError ''stage odometry total path is non-finite''), m1)
                else (Inr (), m1\<lparr>end_snapshot := Some s, last_snapshot := Some s, samples := samples m1 + 1\<rparr>))"

definition measurement_freeze :: "stage_measurement \<Rightarrow> stage_measurement" where
  "measurement_freeze m = m\<lparr>frozen := True\<rparr>"

definition pose_dict :: "odom_snapshot \<Rightarrow> pyval" where
  "pose_dict s = VDict [(''x'', VFloat (os_x_m s)), (''y'', VFloat (os_y_m s)), (''yaw'', VFloat (os_yaw_rad s))]"

definition forward_of :: "libm \<Rightarrow> pyfloat \<Rightarrow> pyfloat \<Rightarrow> pyfloat \<Rightarrow> pyfloat" where
  "forward_of lm dx dy yaw = fadd (fmul dx (m_cos lm yaw)) (fmul dy (m_sin lm yaw))"

definition lateral_of :: "libm \<Rightarrow> pyfloat \<Rightarrow> pyfloat \<Rightarrow> pyfloat \<Rightarrow> pyfloat" where
  "lateral_of lm dx dy yaw = fadd (fmul (fneg dx) (m_sin lm yaw)) (fmul dy (m_cos lm yaw))"

definition measurement_summary :: "libm \<Rightarrow> stage_measurement \<Rightarrow> guard_exc + pyval" where
  "measurement_summary lm m =
     (case (start_snapshot m, end_snapshot m) of
        (Some s, Some e) \<Rightarrow>
          if samples m < 1 then Inl (GuardError ''stage odometry measurement is incomplete'')
          else
            let dx = fsub (os_x_m e) (os_x_m s); dy = fsub (os_y_m e) (os_y_m s) in
            Inr (VDict [(''frame_id'', VStr ''odom''), (''start_pose'', pose_dict s), (''end_pose'', pose_dict e),
              (''forward_m'', VFloat (forward_of lm dx dy (os_yaw_rad s))), (''total_m'', VFloat (total_m m)),
              (''lateral_m'', VFloat (lateral_of lm dx dy (os_yaw_rad s))),
              (''yaw_change_rad'', VFloat (wrapped_angle lm (fsub (os_yaw_rad e) (os_yaw_rad s))))])
      | _ \<Rightarrow> Inl (GuardError ''stage odometry measurement is incomplete''))"

section \<open>Stationarity after the stop\<close>

record post_stop =
  ps_reference :: odom_snapshot
  started_monotonic_s :: pyfloat
  odom_samples :: int
  max_drift_m :: pyfloat
  max_linear_speed_mps :: pyfloat
  max_yaw_rate_rps :: pyfloat
  chassis_remained_disarmed :: bool

definition checked_time :: "pyfloat \<Rightarrow> string \<Rightarrow> guard_exc + pyfloat" where
  "checked_time t label = (if isfinite t \<and> \<not> fless t (Fin 0) then Inr t
     else Inl (GuardError (label @ '' must be a finite non-negative time'')))"

definition PostStopStationarity_init :: "odom_snapshot \<Rightarrow> pyfloat \<Rightarrow> guard_exc + post_stop" where
  "PostStopStationarity_init ref t =
     obind (checked_time t ''post-stop start time'') (\<lambda>t.
       Inr \<lparr>ps_reference = ref, started_monotonic_s = t, odom_samples = 0, max_drift_m = Fin 0,
            max_linear_speed_mps = Fin 0, max_yaw_rate_rps = Fin 0, chassis_remained_disarmed = True\<rparr>)"

definition drift_from :: "libm \<Rightarrow> odom_snapshot \<Rightarrow> odom_snapshot \<Rightarrow> pyfloat" where
  "drift_from lm ref s = m_hypot lm (fsub (os_x_m s) (os_x_m ref)) (fsub (os_y_m s) (os_y_m ref))"

definition post_stop_observe :: "libm \<Rightarrow> odom_snapshot \<Rightarrow> post_stop \<Rightarrow> post_stop" where
  "post_stop_observe lm s p =
     (if fless (os_monotonic_s s) (started_monotonic_s p) then p
      else p\<lparr>odom_samples := odom_samples p + 1,
             max_drift_m := fmax (max_drift_m p) (drift_from lm (ps_reference p) s),
             max_linear_speed_mps := fmax (max_linear_speed_mps p) (os_linear_speed_mps s),
             max_yaw_rate_rps := fmax (max_yaw_rate_rps p) (os_yaw_rate_rps s)\<rparr>)"

definition invalidate_chassis :: "post_stop \<Rightarrow> post_stop" where
  "invalidate_chassis p = p\<lparr>chassis_remained_disarmed := False\<rparr>"

text \<open>What reaches the recorder: an odometry sample, and a chassis report with its state and \<open>daemon_armed\<close> value.\<close>

datatype post_stop_event = OdomHeard odom_snapshot | ChassisHeard string "string option"

definition reports_disarmed :: "string \<Rightarrow> string option \<Rightarrow> bool" where
  "reports_disarmed state armed \<longleftrightarrow> str_upper (str_strip state) = ''DISARMED'' \<and> armed = Some ''false''"

fun post_stop_hear :: "libm \<Rightarrow> post_stop_event \<Rightarrow> post_stop \<Rightarrow> post_stop" where
  "post_stop_hear lm (OdomHeard s) p = post_stop_observe lm s p"
| "post_stop_hear lm (ChassisHeard state armed) p =
     (if reports_disarmed state armed then p else invalidate_chassis p)"

definition post_stop_passed :: "pyfloat \<Rightarrow> post_stop \<Rightarrow> bool" where
  "post_stop_passed observation p \<longleftrightarrow>
     fle POST_STOP_OBSERVATION_S observation \<and> POST_STOP_MIN_ODOM_SAMPLES \<le> odom_samples p \<and>
     fle (max_drift_m p) POST_STOP_MAX_DRIFT_M \<and> fle (max_linear_speed_mps p) POST_STOP_MAX_LINEAR_MPS \<and>
     fle (max_yaw_rate_rps p) POST_STOP_MAX_YAW_RPS \<and> chassis_remained_disarmed p"

definition post_stop_limits :: pyval where
  "post_stop_limits = VDict [(''max_drift_m'', VFloat POST_STOP_MAX_DRIFT_M),
     (''max_linear_speed_mps'', VFloat POST_STOP_MAX_LINEAR_MPS),
     (''max_yaw_rate_rps'', VFloat POST_STOP_MAX_YAW_RPS),
     (''min_odom_samples'', VInt POST_STOP_MIN_ODOM_SAMPLES)]"

definition post_stop_summary :: "pyfloat \<Rightarrow> post_stop \<Rightarrow> guard_exc + pyval" where
  "post_stop_summary finished p =
     obind (checked_time finished ''post-stop finish time'') (\<lambda>t.
       let observation = fsub t (started_monotonic_s p) in
       Inr (VDict [(''observation_s'', VFloat observation), (''odom_samples'', VInt (odom_samples p)),
         (''max_drift_m'', VFloat (max_drift_m p)),
         (''max_linear_speed_mps'', VFloat (max_linear_speed_mps p)),
         (''max_yaw_rate_rps'', VFloat (max_yaw_rate_rps p)), (''limits'', post_stop_limits),
         (''passed'', VBool (post_stop_passed observation p))]))"

section \<open>What the recorders measure\<close>

text \<open>The measurements of a run of samples; a sample that raises ends the run.\<close>

fun measure_all :: "libm \<Rightarrow> odom_snapshot list \<Rightarrow> stage_measurement \<Rightarrow> (guard_exc + unit) \<times> stage_measurement" where
  "measure_all lm [] m = (Inr (), m)"
| "measure_all lm (s # ss) m =
     (case measurement_observe lm s m of (Inl e, m') \<Rightarrow> (Inl e, m') | (Inr _, m') \<Rightarrow> measure_all lm ss m')"

text \<open>What \<open>math.hypot\<close> is documented to return: the Euclidean norm, never negative, NaN only on NaN.\<close>

definition hypot_ok :: "libm \<Rightarrow> bool" where
  "hypot_ok lm \<longleftrightarrow> (\<forall>x y. x \<noteq> NaN \<longrightarrow> y \<noteq> NaN \<longrightarrow> fle (Fin 0) (m_hypot lm x y))"

lemma snapshot_finite:
  "snapshot_ok s \<Longrightarrow> isfinite (os_x_m s)" "snapshot_ok s \<Longrightarrow> isfinite (os_y_m s)"
  "snapshot_ok s \<Longrightarrow> isfinite (os_linear_speed_mps s)" "snapshot_ok s \<Longrightarrow> isfinite (os_yaw_rate_rps s)"
  by (auto simp: snapshot_ok_def)

lemma fsub_finite_not_NaN: "isfinite a \<Longrightarrow> isfinite b \<Longrightarrow> fsub a b \<noteq> NaN"
  by (auto simp: isfinite_iff fsub_def fl_def Let_def split: if_splits)

lemma hypot_step:
  "hypot_ok lm \<Longrightarrow> snapshot_ok s \<Longrightarrow> snapshot_ok l \<Longrightarrow>
   fle (Fin 0) (m_hypot lm (fsub (os_x_m s) (os_x_m l)) (fsub (os_y_m s) (os_y_m l)))"
  by (simp add: hypot_ok_def fsub_finite_not_NaN snapshot_finite)

lemma measurement_frozen: "frozen m \<Longrightarrow> measurement_observe lm s m = (Inr (), m)"
  by (simp add: measurement_observe_def)

lemma measure_all_frozen: "frozen m \<Longrightarrow> measure_all lm ss m = (Inr (), m)"
  by (induction ss) (simp_all add: measurement_frozen)

definition measuring :: "stage_measurement \<Rightarrow> odom_snapshot \<Rightarrow> bool" where
  "measuring m l \<longleftrightarrow> start_snapshot m \<noteq> None \<and> \<not> frozen m \<and> last_snapshot m = Some l \<and> snapshot_ok l \<and>
     end_snapshot m = Some l \<and> is_double (total_m m) \<and> isfinite (total_m m) \<and>
     fle (Fin 0) (total_m m) \<and> 1 \<le> samples m"

lemma measuring_start:
  "snapshot_ok s \<Longrightarrow> measurement_start s StageOdomMeasurement_init = (Inr (), m) \<Longrightarrow> measuring m s"
  by (auto simp: measurement_start_def StageOdomMeasurement_init_def measuring_def)

lemma measuring_observe:
  assumes "hypot_ok lm" "measuring m l" "snapshot_ok s" "measurement_observe lm s m = (Inr (), m')"
  shows "measuring m' s \<and> fle (total_m m) (total_m m') \<and> start_snapshot m' = start_snapshot m \<and>
    samples m' = samples m + 1 \<and> \<not> fless (os_monotonic_s s) (os_monotonic_s l)"
proof -
  define st where "st = m_hypot lm (fsub (os_x_m s) (os_x_m l)) (fsub (os_y_m s) (os_y_m l))"
  have m: "measurement_observe lm s m =
    (if fless (os_monotonic_s s) (os_monotonic_s l)
     then (Inl (GuardError ''stage odometry sample clock regressed''), m)
     else if \<not> isfinite st then (Inl (GuardError ''stage odometry path is non-finite''), m)
     else let m1 = m\<lparr>total_m := fadd (total_m m) st\<rparr> in
       if \<not> isfinite (total_m m1) then (Inl (GuardError ''stage odometry total path is non-finite''), m1)
       else (Inr (), m1\<lparr>end_snapshot := Some s, last_snapshot := Some s, samples := samples m1 + 1\<rparr>))"
    using assms(2) by (auto simp: measurement_observe_def measuring_def st_def Let_def)
  have st: "fle (Fin 0) st" using assms hypot_step by (auto simp: st_def measuring_def)
  have t: "is_double (total_m m)" "fle (Fin 0) (total_m m)" using assms(2) by (auto simp: measuring_def)
  have ge: "fle (total_m m) (fadd (total_m m) st)" if "isfinite st"
    using fadd_nonneg_ge [OF _ st] t(1) that assms(2) by (auto simp: measuring_def isfinite_iff)
  then have "isfinite st \<Longrightarrow> fle (Fin 0) (fadd (total_m m) st)" using t(2) fle_trans by blast
  then show ?thesis using assms(2-4) ge m by (auto simp: measuring_def Let_def split: if_splits)
qed

lemma measure_all_run:
  assumes "hypot_ok lm"
  shows "measuring m l \<Longrightarrow> list_all snapshot_ok ss \<Longrightarrow> measure_all lm ss m = (Inr (), m') \<Longrightarrow>
    measuring m' (last (l # ss)) \<and> fle (total_m m) (total_m m') \<and> start_snapshot m' = start_snapshot m \<and>
    samples m' = samples m + int (length ss) \<and>
    successively (\<lambda>a b. \<not> fless (os_monotonic_s b) (os_monotonic_s a)) (l # ss)"
proof (induction ss arbitrary: m l)
  case Nil
  then show ?case by (auto simp: measuring_def isfinite_not_NaN)
next
  case (Cons s ss)
  obtain m1 where 1: "measurement_observe lm s m = (Inr (), m1)" and 2: "measure_all lm ss m1 = (Inr (), m')"
    using Cons.prems(3) by (auto split: prod.splits sum.splits)
  have s: "snapshot_ok s" "list_all snapshot_ok ss" using Cons.prems(2) by auto
  show ?case
    using measuring_observe [OF assms Cons.prems(1) s(1) 1] Cons.IH [OF _ s(2) 2, of s]
    by (auto intro: fle_trans)
qed

section \<open>What the stationarity test means\<close>

lemma fmax_le_iff: "a \<noteq> NaN \<Longrightarrow> b \<noteq> NaN \<Longrightarrow> fle (fmax a b) c \<longleftrightarrow> fle a c \<and> fle b c"
  using fle_trans fless_fle not_fless by (metis fmax_def)

lemma fmax_nonneg: "fle (Fin 0) a \<Longrightarrow> b \<noteq> NaN \<Longrightarrow> fle (Fin 0) (fmax a b)"
  using fle_trans [OF _ fmax_ge1] fle_not_NaN by blast

text \<open>A sample that counts, and one within the limits.\<close>

definition counted :: "post_stop \<Rightarrow> odom_snapshot \<Rightarrow> bool" where
  "counted p s \<longleftrightarrow> \<not> fless (os_monotonic_s s) (started_monotonic_s p)"

definition still :: "libm \<Rightarrow> post_stop \<Rightarrow> odom_snapshot \<Rightarrow> bool" where
  "still lm p s \<longleftrightarrow> fle (drift_from lm (ps_reference p) s) POST_STOP_MAX_DRIFT_M \<and>
     fle (os_linear_speed_mps s) POST_STOP_MAX_LINEAR_MPS \<and> fle (os_yaw_rate_rps s) POST_STOP_MAX_YAW_RPS"

definition maxima_ok :: "post_stop \<Rightarrow> bool" where
  "maxima_ok p \<longleftrightarrow> fle (Fin 0) (max_drift_m p) \<and> fle (Fin 0) (max_linear_speed_mps p) \<and>
     fle (Fin 0) (max_yaw_rate_rps p)"

lemma post_stop_observe_frame [simp]:
  "ps_reference (post_stop_observe lm s p) = ps_reference p"
  "started_monotonic_s (post_stop_observe lm s p) = started_monotonic_s p"
  "chassis_remained_disarmed (post_stop_observe lm s p) = chassis_remained_disarmed p"
  by (simp_all add: post_stop_observe_def)

lemma counted_observe [simp]: "counted (post_stop_observe lm s p) = counted p"
  by (simp add: counted_def fun_eq_iff)

lemma still_observe [simp]: "still lm (post_stop_observe lm s p) = still lm p"
  by (simp add: still_def fun_eq_iff)

definition within_limits :: "post_stop \<Rightarrow> bool" where
  "within_limits p \<longleftrightarrow> fle (max_drift_m p) POST_STOP_MAX_DRIFT_M \<and>
     fle (max_linear_speed_mps p) POST_STOP_MAX_LINEAR_MPS \<and> fle (max_yaw_rate_rps p) POST_STOP_MAX_YAW_RPS"

lemma post_stop_observe_step:
  assumes "hypot_ok lm" "snapshot_ok s" "snapshot_ok (ps_reference p)" "maxima_ok p"
  shows "maxima_ok (post_stop_observe lm s p) \<and>
    (within_limits (post_stop_observe lm s p) \<longleftrightarrow> within_limits p \<and> (counted p s \<longrightarrow> still lm p s)) \<and>
    odom_samples (post_stop_observe lm s p) = odom_samples p + (if counted p s then 1 else 0)"
proof -
  have "drift_from lm (ps_reference p) s \<noteq> NaN"
    using hypot_step [OF assms(1-3)] fle_not_NaN by (auto simp: drift_from_def)
  then show ?thesis
    using assms(2,4) snapshot_finite(3,4) [OF assms(2)]
    by (auto simp: post_stop_observe_def maxima_ok_def within_limits_def still_def counted_def
        fmax_le_iff fmax_nonneg isfinite_not_NaN dest: fle_not_NaN)
qed

text \<open>The events the recorder may count on, and the samples it counts.\<close>

fun sound_event :: "post_stop_event \<Rightarrow> bool" where
  "sound_event (OdomHeard s) = snapshot_ok s"
| "sound_event (ChassisHeard state armed) = True"

fun kept_disarmed :: "post_stop_event \<Rightarrow> bool" where
  "kept_disarmed (OdomHeard s) = True"
| "kept_disarmed (ChassisHeard state armed) = reports_disarmed state armed"

fun counted_samples :: "post_stop \<Rightarrow> post_stop_event list \<Rightarrow> odom_snapshot list" where
  "counted_samples p [] = []"
| "counted_samples p (OdomHeard s # es) = (if counted p s then s # counted_samples p es else counted_samples p es)"
| "counted_samples p (ChassisHeard state armed # es) = counted_samples p es"

lemma invalidate_frame [simp]:
  "ps_reference (invalidate_chassis p) = ps_reference p" "odom_samples (invalidate_chassis p) = odom_samples p"
  "started_monotonic_s (invalidate_chassis p) = started_monotonic_s p" "maxima_ok (invalidate_chassis p) = maxima_ok p"
  "within_limits (invalidate_chassis p) = within_limits p" "chassis_remained_disarmed (invalidate_chassis p) = False"
  "counted (invalidate_chassis p) = counted p" "still lm (invalidate_chassis p) = still lm p"
  by (simp_all add: invalidate_chassis_def maxima_ok_def within_limits_def counted_def still_def fun_eq_iff)

lemma counted_samples_cong: "counted p = counted q \<Longrightarrow> counted_samples p es = counted_samples q es"
  by (induction p es rule: counted_samples.induct) auto

lemma counted_samples_frame [simp]:
  "counted_samples (post_stop_observe lm s p) es = counted_samples p es" "counted_samples (invalidate_chassis p) es = counted_samples p es"
  by (rule counted_samples_cong; simp)+

lemma post_stop_hears:
  assumes "hypot_ok lm" "snapshot_ok (ps_reference p)" "maxima_ok p" "list_all sound_event es"
  shows "(within_limits (fold (post_stop_hear lm) es p) \<longleftrightarrow> within_limits p \<and> list_all (still lm p) (counted_samples p es)) \<and>
    odom_samples (fold (post_stop_hear lm) es p) = odom_samples p + int (length (counted_samples p es)) \<and>
    (chassis_remained_disarmed (fold (post_stop_hear lm) es p) \<longleftrightarrow> chassis_remained_disarmed p \<and> list_all kept_disarmed es) \<and>
    maxima_ok (fold (post_stop_hear lm) es p) \<and>
    started_monotonic_s (fold (post_stop_hear lm) es p) = started_monotonic_s p"
  using assms(2-4)
proof (induction es arbitrary: p)
  case (Cons e es)
  show ?case
  proof (cases e)
    case (OdomHeard s)
    then have s: "snapshot_ok s" "list_all sound_event es" using Cons.prems(3) by auto
    show ?thesis
      using post_stop_observe_step [OF assms(1) s(1) Cons.prems(1,2)] Cons.IH [of "post_stop_observe lm s p"] s(2) Cons.prems(1)
      by (auto simp: OdomHeard)
  next
    case (ChassisHeard state armed)
    then show ?thesis
      using Cons.IH [of p] Cons.IH [of "invalidate_chassis p"] Cons.prems by auto
  qed
qed simp

lemma post_stop_passed_iff:
  "post_stop_passed observation p \<longleftrightarrow>
     fle POST_STOP_OBSERVATION_S observation \<and> POST_STOP_MIN_ODOM_SAMPLES \<le> odom_samples p \<and>
     within_limits p \<and> chassis_remained_disarmed p"
  by (auto simp: post_stop_passed_def within_limits_def)

end
