(* ===== verification/StagedResult.thy ===== *)
theory StagedResult imports GuardEvidence begin

text \<open>
  \<open>packages/go2_chassis/go2_chassis/staged_nav2_result.py\<close>: the contracts of the action result and
  the measured result of one staged goal. Files are a parameter (what \<open>lstat\<close> and a read of the
  file give); \<open>now\<close> and \<open>now'\<close> are the two readings of \<open>time.time_ns\<close>. A JSON object is an
  association list with distinct keys.
\<close>

datatype result_exc = ResultError string | UncaughtOverflow

definition demand :: "bool \<Rightarrow> string \<Rightarrow> result_exc + unit" where
  "demand ok msg = raise_unless ok (ResultError msg)"

definition ACTION_RESULT_SCHEMA :: string where
  "ACTION_RESULT_SCHEMA = ''robonix-go2-staged-nav2-action-result-v1''"
definition MEASURED_RESULT_SCHEMA :: string where
  "MEASURED_RESULT_SCHEMA = ''robonix-go2-staged-nav2-measured-result-v1''"
definition NAV_ACTION :: string where "NAV_ACTION = ''/navigate_to_pose''"
definition SUCCEEDED_STATUS_CODE :: int where "SUCCEEDED_STATUS_CODE = 4"
definition MAX_DISTANCE_M :: pyfloat where "MAX_DISTANCE_M = fl (50 / 100)"

type_synonym json_object = "(string \<times> pyval) list"

definition has_keys :: "json_object \<Rightarrow> string list \<Rightarrow> bool" where
  "has_keys d ks \<longleftrightarrow> set (map fst d) = set ks"

text \<open>\<open>isinstance(payload, dict) and set(payload) == keys\<close>\<close>

definition object_with :: "string list \<Rightarrow> pyval \<Rightarrow> json_object option" where
  "object_with ks v = (case v of VDict d \<Rightarrow> if has_keys d ks then Some d else None | _ \<Rightarrow> None)"

section \<open>Private files\<close>

record file_entry =
  fe_regular :: bool
  fe_owned :: bool
  fe_mode :: nat
  fe_nlink :: nat
  fe_size :: nat
  fe_json :: "pyval option"
  fe_sha256 :: string

definition read_private_json :: "(string \<rightharpoonup> file_entry) \<Rightarrow> string \<Rightarrow> result_exc + json_object" where
  "read_private_json fs path =
     (case fs path of
        None \<Rightarrow> Inl (ResultError ''cannot inspect staged result'')
      | Some f \<Rightarrow>
          if \<not> fe_regular f \<or> \<not> fe_owned f \<or> fe_mode f \<noteq> 384 \<or> fe_nlink f \<noteq> 1 \<or> fe_size f = 0 \<or>
             fe_size f > 64 * 1024
          then Inl (ResultError ''staged result must be a private, single-link regular file'')
          else case fe_json f of
              None \<Rightarrow> Inl (ResultError ''staged result is not valid JSON'')
            | Some (VDict d) \<Rightarrow> Inr d
            | Some _ \<Rightarrow> Inl (ResultError ''staged result root must be an object''))"

section \<open>Scalar checks\<close>

definition finite_number :: "pyval \<Rightarrow> string \<Rightarrow> result_exc + pyfloat" where
  "finite_number v label =
     (case v of
        VInt i \<Rightarrow> (case float_of_int i of None \<Rightarrow> Inl UncaughtOverflow | Some f \<Rightarrow> Inr f)
      | VFloat f \<Rightarrow> if isfinite f then Inr f else Inl (ResultError (label @ '' must be a finite number''))
      | _ \<Rightarrow> Inl (ResultError (label @ '' must be a finite number'')))"

definition positive_time_range :: "int \<Rightarrow> json_object \<Rightarrow> result_exc + unit" where
  "positive_time_range now d =
     (case (as_int (dict_get d ''started_unix_ns''), as_int (dict_get d ''finished_unix_ns'')) of
        (Some s, Some f) \<Rightarrow> demand (\<not> (s \<le> 0 \<or> f < s \<or> f > now)) ''staged result timestamps are invalid''
      | _ \<Rightarrow> Inl (ResultError ''staged result timestamps are invalid''))"

section \<open>validate_action_result\<close>

definition action_result_keys :: "string list" where
  "action_result_keys = [''schema'', ''status'', ''session_id'', ''pair_id'', ''map_id'', ''map_generation'',
     ''target_id'', ''goal_uuid'', ''action'', ''goal_accepted'', ''action_status_code'',
     ''action_status_name'', ''cancel_requested'', ''cancel_confirmed'', ''started_unix_ns'',
     ''finished_unix_ns'', ''error'']"

definition exact_success ::
  "json_object \<Rightarrow> string \<Rightarrow> string \<Rightarrow> string \<Rightarrow> int \<Rightarrow> string \<Rightarrow> bool" where
  "exact_success d session_id pair_id map_id map_generation target_id \<longleftrightarrow>
     eq_str (dict_get d ''schema'') ACTION_RESULT_SCHEMA \<and> eq_str (dict_get d ''status'') ''PASS'' \<and>
     eq_str (dict_get d ''session_id'') session_id \<and> eq_str (dict_get d ''pair_id'') pair_id \<and>
     eq_str (dict_get d ''map_id'') map_id \<and> as_int (dict_get d ''map_generation'') = Some map_generation \<and>
     eq_str (dict_get d ''target_id'') target_id \<and> eq_str (dict_get d ''action'') NAV_ACTION \<and>
     eq_str (dict_get d ''action_status_name'') ''succeeded'' \<and> eq_str (dict_get d ''error'') [] \<and>
     dict_get d ''goal_accepted'' = VBool True \<and>
     as_int (dict_get d ''action_status_code'') = Some SUCCEEDED_STATUS_CODE \<and>
     dict_get d ''cancel_requested'' = VBool False \<and> dict_get d ''cancel_confirmed'' = VBool False"

definition validate_action_result ::
  "int \<Rightarrow> json_object \<Rightarrow> string \<Rightarrow> string \<Rightarrow> string \<Rightarrow> int \<Rightarrow> string \<Rightarrow> result_exc + string" where
  "validate_action_result now d session_id pair_id map_id map_generation target_id =
     obind (demand (has_keys d action_result_keys) ''action result keys do not match the exact schema'') (\<lambda>_.
     obind (demand (exact_success d session_id pair_id map_id map_generation target_id)
       ''action result is not an exact successful goal'') (\<lambda>_.
     case dict_get d ''goal_uuid'' of
       VStr u \<Rightarrow> if GOAL_UUID_RE u then obind (positive_time_range now d) (\<lambda>_. Inr u)
                 else Inl (ResultError ''action result goal UUID is malformed'')
     | _ \<Rightarrow> Inl (ResultError ''action result goal UUID is malformed'')))"

section \<open>validate_measured_result\<close>

type_synonym pose = "pyfloat \<times> pyfloat \<times> pyfloat"

definition read_pose :: "pyval \<Rightarrow> string \<Rightarrow> result_exc + pose" where
  "read_pose v label =
     (case object_with [''x'', ''y'', ''yaw''] v of
        None \<Rightarrow> Inl (ResultError (label @ '' pose keys do not match the exact schema''))
      | Some d \<Rightarrow>
          obind (finite_number (dict_get d ''x'') (label @ ''.x'')) (\<lambda>x.
          obind (finite_number (dict_get d ''y'') (label @ ''.y'')) (\<lambda>y.
          obind (finite_number (dict_get d ''yaw'') (label @ ''.yaw'')) (\<lambda>yaw.
          obind (demand (fle (fneg math_pi) yaw \<and> fle yaw math_pi) (label @ ''.yaw must be within [-pi, pi]'')) (\<lambda>_.
          Inr (x, y, yaw))))))"

definition measured_result_keys :: "string list" where
  "measured_result_keys = [''schema'', ''status'', ''session_id'', ''pair_id'', ''map'', ''target'', ''goal_uuid'',
     ''started_unix_ns'', ''finished_unix_ns'', ''action'', ''measurement'', ''stop_sequence'', ''checks'',
     ''failure_reason'']"

text \<open>Header, map and target claims against the environment (lines 265 to 312).\<close>

definition check_header :: "json_object \<Rightarrow> result_exc + unit" where
  "check_header d =
     obind (demand (has_keys d measured_result_keys) ''measured result keys do not match the exact schema'') (\<lambda>_.
     demand (eq_str (dict_get d ''schema'') MEASURED_RESULT_SCHEMA \<and> eq_str (dict_get d ''status'') ''PASS'' \<and>
       eq_str (dict_get d ''failure_reason'') []) ''measured result is not PASS'')"

definition map_claim_ok :: "pyval \<Rightarrow> string \<Rightarrow> int \<Rightarrow> bool" where
  "map_claim_ok v map_id generation \<longleftrightarrow>
     (case object_with [''id'', ''generation''] v of None \<Rightarrow> False
      | Some m \<Rightarrow> eq_str (dict_get m ''id'') map_id \<and> as_int (dict_get m ''generation'') = Some generation)"

definition environment_pose :: "(string \<rightharpoonup> string) \<Rightarrow> result_exc + pyfloat list" where
  "environment_pose env =
     obind (all_ok (\<lambda>key. case env key of None \<Rightarrow> Inl (ResultError ''expected target pose is malformed'')
         | Some s \<Rightarrow> (case float_of_str s of None \<Rightarrow> Inl (ResultError ''expected target pose is malformed'')
             | Some f \<Rightarrow> Inr f))
       [''GO2_STAGED_NAV2_EXPECTED_GOAL_X'', ''GO2_STAGED_NAV2_EXPECTED_GOAL_Y'',
        ''GO2_STAGED_NAV2_EXPECTED_GOAL_YAW'']) (\<lambda>vs.
     obind (demand (list_all isfinite vs) ''expected target pose is malformed'') (\<lambda>_. Inr vs))"

definition within_nano :: "pyfloat \<Rightarrow> pyfloat \<Rightarrow> bool" where
  "within_nano a b \<longleftrightarrow> isclose (Fin 0) (fl (1 / 10 ^ 9)) a b"

definition check_target :: "pyval \<Rightarrow> string \<Rightarrow> (string \<rightharpoonup> string) \<Rightarrow> result_exc + unit" where
  "check_target v target_id env =
     (case object_with [''id'', ''pose''] v of
        None \<Rightarrow> Inl (ResultError ''measured result target does not match'')
      | Some t \<Rightarrow>
          obind (demand (eq_str (dict_get t ''id'') target_id) ''measured result target does not match'') (\<lambda>_.
          obind (environment_pose env) (\<lambda>expected.
          obind (read_pose (dict_get t ''pose'') ''target'') (\<lambda>(x, y, yaw).
          demand (list_all2 within_nano [x, y, yaw] expected) ''measured result target pose does not match''))))"

text \<open>The binding to the action result file (lines 331 to 366).\<close>

definition action_binding_ok :: "pyval \<Rightarrow> string \<Rightarrow> string \<Rightarrow> bool" where
  "action_binding_ok v path digest \<longleftrightarrow>
     (case object_with [''result_file'', ''result_sha256'', ''goal_accepted'', ''status_code'', ''status_name''] v of
        None \<Rightarrow> False
      | Some a \<Rightarrow> eq_str (dict_get a ''result_file'') path \<and> eq_str (dict_get a ''result_sha256'') digest \<and>
          dict_get a ''goal_accepted'' = VBool True \<and>
          as_int (dict_get a ''status_code'') = Some SUCCEEDED_STATUS_CODE \<and>
          eq_str (dict_get a ''status_name'') ''succeeded'')"

text \<open>The measured path (lines 368 to 408).\<close>

record measured =
  me_forward :: pyfloat
  me_total :: pyfloat
  me_lateral :: pyfloat
  me_yaw_change :: pyfloat

definition measurement_keys :: "string list" where
  "measurement_keys = [''frame_id'', ''start_pose'', ''end_pose'', ''forward_m'', ''total_m'', ''lateral_m'',
     ''yaw_change_rad'']"

definition within_micro :: "pyfloat \<Rightarrow> pyfloat \<Rightarrow> string \<Rightarrow> result_exc + unit" where
  "within_micro actual expected label =
     demand (isclose (Fin 0) (fl (1 / 10 ^ 6)) actual expected)
       (''measured '' @ label @ '' does not match endpoint poses'')"

definition check_path :: "libm \<Rightarrow> pose \<Rightarrow> pose \<Rightarrow> measured \<Rightarrow> result_exc + unit" where
  "check_path lm start end m =
     (case (start, end) of ((sx, sy, syaw), (ex, ey, eyaw)) \<Rightarrow>
       let dx = fsub ex sx; dy = fsub ey sy in
       obind (within_micro (me_forward m) (forward_of lm dx dy syaw) ''forward'') (\<lambda>_.
       obind (within_micro (me_lateral m) (lateral_of lm dx dy syaw) ''lateral'') (\<lambda>_.
       obind (within_micro (me_yaw_change m) (wrapped_angle lm (fsub eyaw syaw)) ''yaw change'') (\<lambda>_.
       demand (\<not> (fless (me_total m) (fsub (m_hypot lm dx dy) (fl (1 / 10 ^ 6))) \<or>
                  \<not> (fle (Fin 0) (me_total m) \<and> fless (me_total m) MAX_DISTANCE_M)))
         ''measured total path is outside the stage envelope''))))"

definition check_measurement :: "libm \<Rightarrow> pyval \<Rightarrow> result_exc + measured" where
  "check_measurement lm v =
     (case object_with measurement_keys v of
        None \<Rightarrow> Inl (ResultError ''measured result measurement keys are incomplete'')
      | Some d \<Rightarrow>
          obind (demand (eq_str (dict_get d ''frame_id'') ''odom'') ''measured result frame must be odom'') (\<lambda>_.
          obind (read_pose (dict_get d ''start_pose'') ''measurement.start'') (\<lambda>start.
          obind (read_pose (dict_get d ''end_pose'') ''measurement.end'') (\<lambda>end.
          obind (finite_number (dict_get d ''forward_m'') ''measurement.forward_m'') (\<lambda>forward.
          obind (finite_number (dict_get d ''total_m'') ''measurement.total_m'') (\<lambda>total.
          obind (finite_number (dict_get d ''lateral_m'') ''measurement.lateral_m'') (\<lambda>lateral.
          obind (finite_number (dict_get d ''yaw_change_rad'') ''measurement.yaw_change_rad'') (\<lambda>yaw_change.
          let m = \<lparr>me_forward = forward, me_total = total, me_lateral = lateral, me_yaw_change = yaw_change\<rparr> in
          obind (check_path lm start end m) (\<lambda>_. Inr m)))))))))"

text \<open>The stop sequence (lines 410 to 486).\<close>

definition cancel_ok :: "pyval \<Rightarrow> bool" where
  "cancel_ok v \<longleftrightarrow>
     (case object_with [''required'', ''requested'', ''confirmed''] v of None \<Rightarrow> False
      | Some c \<Rightarrow> list_all (\<lambda>(k, w). as_bool w \<noteq> None) c \<and>
          (dict_get c ''required'' = VBool True \<longrightarrow>
             dict_get c ''requested'' = VBool True \<and> dict_get c ''confirmed'' = VBool True))"

definition zero_ok :: "pyval \<Rightarrow> bool" where
  "zero_ok v \<longleftrightarrow>
     (case object_with [''published_count'', ''confirmed_zero''] v of None \<Rightarrow> False
      | Some z \<Rightarrow> (case as_int (dict_get z ''published_count'') of None \<Rightarrow> False | Some n \<Rightarrow> \<not> n < 10) \<and>
          dict_get z ''confirmed_zero'' = VBool True)"

definition disarm_ok :: "pyval \<Rightarrow> bool" where
  "disarm_ok v \<longleftrightarrow>
     (case object_with [''requested'', ''service_success'', ''measured_disarmed''] v of None \<Rightarrow> False
      | Some d \<Rightarrow> list_all (\<lambda>(k, w). as_bool w \<noteq> None) d \<and> dict_get d ''requested'' = VBool True \<and>
          dict_get d ''service_success'' = VBool True \<and> dict_get d ''measured_disarmed'' = VBool True)"

text \<open>\<open>v == f\<close> for a float \<open>f\<close>: numbers compare by exact value.\<close>

fun eq_float :: "pyval \<Rightarrow> pyfloat \<Rightarrow> bool" where
  "eq_float (VFloat g) f \<longleftrightarrow> feq g f"
| "eq_float (VInt i) (Fin q) \<longleftrightarrow> of_int i = q"
| "eq_float (VBool b) (Fin q) \<longleftrightarrow> (if b then 1 else 0) = q"
| "eq_float _ _ \<longleftrightarrow> False"

definition limits_match :: "pyval \<Rightarrow> bool" where
  "limits_match v \<longleftrightarrow>
     (case object_with [''max_drift_m'', ''max_linear_speed_mps'', ''max_yaw_rate_rps'', ''min_odom_samples''] v of
        None \<Rightarrow> False
      | Some l \<Rightarrow> eq_float (dict_get l ''max_drift_m'') POST_STOP_MAX_DRIFT_M \<and>
          eq_float (dict_get l ''max_linear_speed_mps'') POST_STOP_MAX_LINEAR_MPS \<and>
          eq_float (dict_get l ''max_yaw_rate_rps'') POST_STOP_MAX_YAW_RPS \<and>
          eq_int (dict_get l ''min_odom_samples'') POST_STOP_MIN_ODOM_SAMPLES)"

definition post_stop_keys :: "string list" where
  "post_stop_keys = [''observation_s'', ''odom_samples'', ''max_drift_m'', ''max_linear_speed_mps'',
     ''max_yaw_rate_rps'', ''limits'', ''passed'']"

definition check_post_stop :: "pyval \<Rightarrow> result_exc + unit" where
  "check_post_stop v =
     (case object_with post_stop_keys v of
        None \<Rightarrow> Inl (ResultError ''post-stop evidence keys are incomplete'')
      | Some p \<Rightarrow>
          obind (demand (limits_match (dict_get p ''limits'')) ''post-stop limits do not match the staged contract'') (\<lambda>_.
          obind (finite_number (dict_get p ''observation_s'') ''post_stop.observation_s'') (\<lambda>observation.
          obind (finite_number (dict_get p ''max_drift_m'') ''post_stop.max_drift_m'') (\<lambda>drift.
          obind (finite_number (dict_get p ''max_linear_speed_mps'') ''post_stop.max_linear_speed_mps'') (\<lambda>linear.
          obind (finite_number (dict_get p ''max_yaw_rate_rps'') ''post_stop.max_yaw_rate_rps'') (\<lambda>yaw_rate.
          demand (\<not> (fless observation POST_STOP_OBSERVATION_S \<or>
              (case as_int (dict_get p ''odom_samples'') of None \<Rightarrow> True
               | Some n \<Rightarrow> n < POST_STOP_MIN_ODOM_SAMPLES) \<or>
              fless POST_STOP_MAX_DRIFT_M drift \<or> fless POST_STOP_MAX_LINEAR_MPS linear \<or>
              fless POST_STOP_MAX_YAW_RPS yaw_rate \<or> dict_get p ''passed'' \<noteq> VBool True))
            ''continuous post-stop stationary evidence failed''))))))"

definition check_stop :: "pyval \<Rightarrow> result_exc + unit" where
  "check_stop v =
     (case object_with [''cancel'', ''zero'', ''disarm'', ''post_stop''] v of
        None \<Rightarrow> Inl (ResultError ''measured stop sequence keys are incomplete'')
      | Some s \<Rightarrow>
          obind (demand (cancel_ok (dict_get s ''cancel'')) ''cancel evidence is incomplete'') (\<lambda>_.
          obind (demand (zero_ok (dict_get s ''zero'')) ''zero-command evidence is incomplete'') (\<lambda>_.
          obind (demand (disarm_ok (dict_get s ''disarm'')) ''disarm evidence is incomplete'') (\<lambda>_.
          check_post_stop (dict_get s ''post_stop'')))))"

definition check_names :: "string list" where
  "check_names = [''action_succeeded'', ''measurement_complete'', ''cancel_complete'', ''zero_complete'',
     ''disarm_complete'', ''post_stop_stationary'']"

definition checks_ok :: "pyval \<Rightarrow> bool" where
  "checks_ok v \<longleftrightarrow>
     (case object_with check_names v of None \<Rightarrow> False | Some c \<Rightarrow> list_all (\<lambda>(k, w). eq_str w ''pass'') c)"

definition validate_measured_result ::
  "libm \<Rightarrow> (string \<rightharpoonup> file_entry) \<Rightarrow> int \<Rightarrow> int \<Rightarrow> json_object \<Rightarrow> (string \<rightharpoonup> string) \<Rightarrow> string \<Rightarrow>
   result_exc + measured" where
  "validate_measured_result lm fs now now' d env action_path =
     obind (check_header d) (\<lambda>_.
     let session_id = env_get env ''GO2_STAGED_NAV2_SESSION_ID'';
         pair_id = env_get env ''GO2_STAGED_NAV2_PAIR_ID'';
         map_id = env_get env ''GO2_STAGED_NAV2_MAP_ID'';
         target_id = env_get env ''GO2_STAGED_NAV2_TARGET_ID'' in
     obind (case int_of_str (env_get env ''GO2_STAGED_NAV2_MAP_GENERATION'') of
         None \<Rightarrow> Inl (ResultError ''expected map generation is malformed'') | Some n \<Rightarrow> Inr n) (\<lambda>generation.
     obind (demand (eq_str (dict_get d ''session_id'') session_id \<and> eq_str (dict_get d ''pair_id'') pair_id)
       ''measured result session or pair does not match'') (\<lambda>_.
     obind (demand (map_claim_ok (dict_get d ''map'') map_id generation) ''measured result map does not match'') (\<lambda>_.
     obind (check_target (dict_get d ''target'') target_id env) (\<lambda>_.
     obind (read_private_json fs action_path) (\<lambda>action_payload.
     obind (validate_action_result now action_payload session_id pair_id map_id generation target_id) (\<lambda>goal_uuid.
     obind (demand (eq_str (dict_get d ''goal_uuid'') goal_uuid)
       ''measured result goal UUID does not match action result'') (\<lambda>_.
     obind (demand (action_binding_ok (dict_get d ''action'') action_path
         (case fs action_path of Some f \<Rightarrow> fe_sha256 f | None \<Rightarrow> []))
       ''measured result action binding does not match'') (\<lambda>_.
     obind (check_measurement lm (dict_get d ''measurement'')) (\<lambda>m.
     obind (check_stop (dict_get d ''stop_sequence'')) (\<lambda>_.
     obind (demand (checks_ok (dict_get d ''checks'')) ''measured result checks are incomplete or failed'') (\<lambda>_.
     obind (positive_time_range now' d) (\<lambda>_.
     Inr m)))))))))))))"

end
