(* ===== verification/EvidenceProperties.thy ===== *)
theory EvidenceProperties imports StagedResult begin

text \<open>
  The properties of the evidence recorders and of the result contracts, and that the two agree:
  what a recorder summarises is what the contract accepts.
\<close>

section \<open>The recorders\<close>

text \<open>
  The stage measurement accumulates a path: after a run of samples that raised nothing, the
  last sample is the end pose, the start pose is unchanged, every sample was counted, the clock
  never went back, and the total path length did not decrease and is finite and non-negative.
\<close>

theorem stage_measurement_accumulates:
  assumes "hypot_ok lm" and "snapshot_ok s0" and "list_all snapshot_ok ss"
    and "measurement_start s0 StageOdomMeasurement_init = (Inr (), m)" and "measure_all lm ss m = (Inr (), m')"
  shows "start_snapshot m' = Some s0 \<and> end_snapshot m' = Some (last (s0 # ss)) \<and>
    samples m' = 1 + int (length ss) \<and> isfinite (total_m m') \<and> fle (Fin 0) (total_m m') \<and>
    successively (\<lambda>a b. \<not> fless (os_monotonic_s b) (os_monotonic_s a)) (s0 # ss)"
proof -
  have m: "start_snapshot m = Some s0" "samples m = 1"
    using assms(4) by (auto simp: measurement_start_def StageOdomMeasurement_init_def)
  show ?thesis
    using measure_all_run [OF assms(1) measuring_start [OF assms(2,4)] assms(3,5)] m
    by (auto simp: measuring_def)
qed

text \<open>A hypotenuse and samples for the instances.\<close>

definition libm0 :: libm where
  "libm0 = \<lparr>m_hypot = (\<lambda>x y. fmax (fabs x) (fabs y)), m_sin = (\<lambda>x. Fin 0), m_cos = (\<lambda>x. Fin 1),
     m_atan2 = (\<lambda>y x. y)\<rparr>"

lemma libm0_hypot: "hypot_ok libm0"
proof -
  have nn: "x \<noteq> NaN \<Longrightarrow> fle (Fin 0) (fabs x)" for x by (cases x) (simp_all add: fle_def)
  have nan: "x \<noteq> NaN \<Longrightarrow> fabs x \<noteq> NaN" for x by (cases x) simp_all
  show ?thesis
    by (simp add: hypot_ok_def libm0_def fle_trans [OF nn fmax_ge1] nan)
qed

definition sample_at :: "pyfloat \<Rightarrow> pyfloat \<Rightarrow> odom_snapshot" where
  "sample_at t x = \<lparr>os_monotonic_s = t, os_x_m = x, os_y_m = Fin 0, os_yaw_rad = Fin 0,
     os_linear_speed_mps = Fin 0, os_yaw_rate_rps = Fin 0\<rparr>"


lemma sample_at_ok: "0 \<le> t \<Longrightarrow> snapshot_ok (sample_at (Fin t) (Fin x))"
  by (simp add: sample_at_def snapshot_ok_def math_pi_def)

theorem stage_measurement_accumulates_witness:
  "\<exists>m m'. measurement_start (sample_at (Fin 0) (Fin 0)) StageOdomMeasurement_init = (Inr (), m) \<and>
    measure_all libm0 [sample_at (Fin 1) (Fin 1), sample_at (Fin 2) (Fin 3)] m = (Inr (), m') \<and>
    samples m' = 3 \<and> total_m m' = Fin 3 \<and> end_snapshot m' = Some (sample_at (Fin 2) (Fin 3))"
proof -
  define m where "m = snd (measurement_start (sample_at (Fin 0) (Fin 0)) StageOdomMeasurement_init)"
  have 1: "measurement_start (sample_at (Fin 0) (Fin 0)) StageOdomMeasurement_init = (Inr (), m)"
    by (simp add: m_def measurement_start_def StageOdomMeasurement_init_def)
  define m' where "m' = snd (measure_all libm0 [sample_at (Fin 1) (Fin 1), sample_at (Fin 2) (Fin 3)] m)"
  have 2: "measure_all libm0 [sample_at (Fin 1) (Fin 1), sample_at (Fin 2) (Fin 3)] m = (Inr (), m')"
    and t: "total_m m' = Fin 3"
    by (simp_all add: m'_def m_def measurement_start_def StageOdomMeasurement_init_def measurement_observe_def
        sample_at_def libm0_def fsub_def fmax_def Let_def)
  have "list_all snapshot_ok [sample_at (Fin 1) (Fin 1), sample_at (Fin 2) (Fin 3)]" by (simp add: sample_at_ok)
  then show ?thesis
    using stage_measurement_accumulates [OF libm0_hypot sample_at_ok _ 1 2] 1 2 t by auto
qed

text \<open>
  Once frozen, the measurement no longer changes, whatever samples still arrive.
\<close>

theorem frozen_measurement_is_final:
  "measure_all lm ss (measurement_freeze m) = (Inr (), measurement_freeze m)"
  by (rule measure_all_frozen) (simp add: measurement_freeze_def)

section \<open>Recorder and contract agree\<close>

lemma demand_Inr [simp]: "demand b msg = Inr u \<longleftrightarrow> b"
  by (simp add: demand_def)

lemma finite_number_float [simp]: "finite_number (VFloat f) l = Inr g \<longleftrightarrow> isfinite f \<and> g = f"
  by (auto simp: finite_number_def)

lemma post_stop_limits_match [simp]: "limits_match post_stop_limits"
proof -
  have "feq (fl (2 / 100)) (fl (2 / 100))" "feq (fl (3 / 100)) (fl (3 / 100))"
    by (simp_all add: fl_def Let_def)
  then show ?thesis
    by (simp add: limits_match_def post_stop_limits_def object_with_def has_keys_def dict_get_def
        POST_STOP_MAX_DRIFT_M_def POST_STOP_MAX_LINEAR_MPS_def POST_STOP_MAX_YAW_RPS_def)
qed

lemma check_post_stop_summary:
  "check_post_stop (VDict [(''observation_s'', VFloat obs), (''odom_samples'', VInt n), (''max_drift_m'', VFloat a),
     (''max_linear_speed_mps'', VFloat b), (''max_yaw_rate_rps'', VFloat c), (''limits'', post_stop_limits),
     (''passed'', VBool ok)]) = Inr () \<longleftrightarrow>
   isfinite obs \<and> isfinite a \<and> isfinite b \<and> isfinite c \<and> \<not> fless obs POST_STOP_OBSERVATION_S \<and>
   POST_STOP_MIN_ODOM_SAMPLES \<le> n \<and> \<not> fless POST_STOP_MAX_DRIFT_M a \<and> \<not> fless POST_STOP_MAX_LINEAR_MPS b \<and>
   \<not> fless POST_STOP_MAX_YAW_RPS c \<and> ok"
  by (auto simp: check_post_stop_def object_with_def has_keys_def post_stop_keys_def dict_get_def)




lemma finite_fl_unit: "- 1 \<le> q \<Longrightarrow> q \<le> 1 \<Longrightarrow> isfinite (fl q)"
  using fl_mono [of q 1] fl_mono [of "- 1" q] fl_dyadic [of "- 1" 0]
  by (cases "fl q") (simp_all add: fle_def)






lemma read_pose_dict [simp]:
  "snapshot_ok s \<Longrightarrow> read_pose (pose_dict s) l = Inr (os_x_m s, os_y_m s, os_yaw_rad s)"
  by (simp add: read_pose_def pose_dict_def object_with_def has_keys_def dict_get_def snapshot_ok_def insert_commute)

text \<open>
  The path the recorder summarises passes the result contract exactly when its total length is
  below half a metre and not shorter than the displacement: the projections always match, and a
  stage that drove half a metre or more is never a PASS.
\<close>

theorem measurement_accepted_iff_short:
  assumes "start_snapshot m = Some s" and "end_snapshot m = Some e" and "snapshot_ok s" and "snapshot_ok e"
    and "measurement_summary lm m = Inr v" and "isfinite (total_m m)"
    and "isfinite (forward_of lm (fsub (os_x_m e) (os_x_m s)) (fsub (os_y_m e) (os_y_m s)) (os_yaw_rad s))"
    and "isfinite (lateral_of lm (fsub (os_x_m e) (os_x_m s)) (fsub (os_y_m e) (os_y_m s)) (os_yaw_rad s))"
    and "isfinite (wrapped_angle lm (fsub (os_yaw_rad e) (os_yaw_rad s)))"
  shows "(\<exists>r. check_measurement lm v = Inr r) \<longleftrightarrow>
    fle (Fin 0) (total_m m) \<and> fless (total_m m) MAX_DISTANCE_M \<and>
    \<not> fless (total_m m) (fsub (drift_from lm s e) (fl (1 / 10 ^ 6)))"
proof -
  have "v = VDict [(''frame_id'', VStr ''odom''), (''start_pose'', pose_dict s), (''end_pose'', pose_dict e),
      (''forward_m'', VFloat (forward_of lm (fsub (os_x_m e) (os_x_m s)) (fsub (os_y_m e) (os_y_m s)) (os_yaw_rad s))),
      (''total_m'', VFloat (total_m m)),
      (''lateral_m'', VFloat (lateral_of lm (fsub (os_x_m e) (os_x_m s)) (fsub (os_y_m e) (os_y_m s)) (os_yaw_rad s))),
      (''yaw_change_rad'', VFloat (wrapped_angle lm (fsub (os_yaw_rad e) (os_yaw_rad s))))]"
    using assms(1,2,5) by (simp add: measurement_summary_def Let_def split: if_splits)
  then show ?thesis
    using assms(3,4,6-9)
    by (auto simp: check_measurement_def object_with_def has_keys_def measurement_keys_def dict_get_def
        check_path_def within_micro_def Let_def isfinite_not_NaN drift_from_def)
qed

theorem measurement_accepted_iff_short_witness:
  "\<exists>m v. measurement_summary libm0 m = Inr v \<and> total_m m = Fin (3 / 4) \<and> (\<nexists>r. check_measurement libm0 v = Inr r)"
proof -
  define m where "m = \<lparr>start_snapshot = Some (sample_at (Fin 0) (Fin 0)), end_snapshot = Some (sample_at (Fin 1) (Fin (3 / 4))),
    last_snapshot = Some (sample_at (Fin 1) (Fin (3 / 4))), total_m = Fin (3 / 4), samples = 2, frozen = True\<rparr>"
  obtain v where v: "measurement_summary libm0 m = Inr v" by (simp add: measurement_summary_def m_def Let_def)
  have "(\<exists>r. check_measurement libm0 v = Inr r) \<longleftrightarrow>
    fle (Fin 0) (total_m m) \<and> fless (total_m m) MAX_DISTANCE_M \<and>
    \<not> fless (total_m m) (fsub (drift_from libm0 (sample_at (Fin 0) (Fin 0)) (sample_at (Fin 1) (Fin (3 / 4)))) (fl (1 / 10 ^ 6)))"
    by (rule measurement_accepted_iff_short [OF _ _ sample_at_ok sample_at_ok v])
       (simp_all add: m_def sample_at_def forward_of_def lateral_of_def wrapped_angle_def libm0_def fsub_def)
  moreover have "total_m m = Fin (3 / 4)" by (simp add: m_def)
  ultimately have "\<nexists>r. check_measurement libm0 v = Inr r" by (simp add: MAX_DISTANCE_M_def)
  with v \<open>total_m m = Fin (3 / 4)\<close> show ?thesis by blast
qed

section \<open>The measured result\<close>

lemma option_guard_iff: "(case x of None \<Rightarrow> Inl e | Some y \<Rightarrow> Inr y) = Inr z \<longleftrightarrow> x = Some z"
  by (cases x) auto

text \<open>
  A measured result that validates is backed by a private action result file whose digest and
  goal it names and which records an uncancelled success of this session's goal; its path stayed
  below half a metre, at least ten zero commands were published, the disarm was requested,
  acknowledged and measured, a required cancel was confirmed, and every check passed.
\<close>

theorem measured_result_is_backed:
  assumes "validate_measured_result lm fs now now' d env path = Inr r"
  shows "\<exists>f action u stop. fs path = Some f \<and> fe_regular f \<and> fe_owned f \<and> fe_mode f = 384 \<and> fe_nlink f = 1 \<and>
    fe_json f = Some (VDict action) \<and> action_binding_ok (dict_get d ''action'') path (fe_sha256 f) \<and>
    dict_get action ''goal_uuid'' = VStr u \<and> dict_get d ''goal_uuid'' = VStr u \<and> GOAL_UUID_RE u \<and>
    dict_get action ''session_id'' = VStr (env_get env ''GO2_STAGED_NAV2_SESSION_ID'') \<and>
    dict_get action ''cancel_requested'' = VBool False \<and>
    fle (Fin 0) (me_total r) \<and> fless (me_total r) MAX_DISTANCE_M \<and>
    dict_get d ''stop_sequence'' = VDict stop \<and> cancel_ok (dict_get stop ''cancel'') \<and>
    zero_ok (dict_get stop ''zero'') \<and> disarm_ok (dict_get stop ''disarm'') \<and>
    check_post_stop (dict_get stop ''post_stop'') = Inr () \<and> checks_ok (dict_get d ''checks'')"
proof -
  obtain action u where a: "read_private_json fs path = Inr action"
    "\<exists>n. validate_action_result now action (env_get env ''GO2_STAGED_NAV2_SESSION_ID'')
       (env_get env ''GO2_STAGED_NAV2_PAIR_ID'') (env_get env ''GO2_STAGED_NAV2_MAP_ID'') n
       (env_get env ''GO2_STAGED_NAV2_TARGET_ID'') = Inr u"
    "dict_get d ''goal_uuid'' = VStr u"
    "action_binding_ok (dict_get d ''action'') path (case fs path of Some f \<Rightarrow> fe_sha256 f | None \<Rightarrow> [])"
    "check_measurement lm (dict_get d ''measurement'') = Inr r"
    "check_stop (dict_get d ''stop_sequence'') = Inr ()" "checks_ok (dict_get d ''checks'')"
    using assms by (auto simp: validate_measured_result_def Let_def)
  obtain f where f: "fs path = Some f" "fe_regular f" "fe_owned f" "fe_mode f = 384" "fe_nlink f = 1"
    "fe_json f = Some (VDict action)"
    using a(1) by (auto simp: read_private_json_def split: option.splits if_splits pyval.splits)
  have u: "dict_get action ''goal_uuid'' = VStr u" "GOAL_UUID_RE u"
    "dict_get action ''session_id'' = VStr (env_get env ''GO2_STAGED_NAV2_SESSION_ID'')"
    "dict_get action ''cancel_requested'' = VBool False"
    using a(2) by (auto simp: validate_action_result_def exact_success_def split: pyval.splits if_splits)
  have t: "fle (Fin 0) (me_total r)" "fless (me_total r) MAX_DISTANCE_M"
    using a(5) by (auto simp: check_measurement_def check_path_def Let_def split: option.splits prod.splits)
  obtain stop where s: "dict_get d ''stop_sequence'' = VDict stop" "cancel_ok (dict_get stop ''cancel'')"
    "zero_ok (dict_get stop ''zero'')" "disarm_ok (dict_get stop ''disarm'')"
    "check_post_stop (dict_get stop ''post_stop'') = Inr ()"
    using a(6) by (auto simp: check_stop_def object_with_def split: option.splits pyval.splits if_splits)
  show ?thesis using a f u t s by auto
qed


text \<open>A complete measured result and its action result file.\<close>

definition result_environment :: "string \<rightharpoonup> string" where
  "result_environment = map_of [(''GO2_STAGED_NAV2_SESSION_ID'', ''session-0001''),
     (''GO2_STAGED_NAV2_PAIR_ID'', ''pair-0000001''), (''GO2_STAGED_NAV2_TARGET_ID'', ''dock''),
     (''GO2_STAGED_NAV2_MAP_ID'', ''lab-map-01''), (''GO2_STAGED_NAV2_MAP_GENERATION'', ''1''),
     (''GO2_STAGED_NAV2_EXPECTED_GOAL_X'', ''1''), (''GO2_STAGED_NAV2_EXPECTED_GOAL_Y'', ''0''),
     (''GO2_STAGED_NAV2_EXPECTED_GOAL_YAW'', ''0'')]"

definition result_uuid :: string where "result_uuid = ''0123456789abcdef0123456789abcdef''"

definition action_payload :: json_object where
  "action_payload = [(''schema'', VStr ACTION_RESULT_SCHEMA), (''status'', VStr ''PASS''),
     (''session_id'', VStr ''session-0001''), (''pair_id'', VStr ''pair-0000001''),
     (''map_id'', VStr ''lab-map-01''), (''map_generation'', VInt 1), (''target_id'', VStr ''dock''),
     (''goal_uuid'', VStr result_uuid), (''action'', VStr NAV_ACTION), (''goal_accepted'', VBool True),
     (''action_status_code'', VInt 4), (''action_status_name'', VStr ''succeeded''),
     (''cancel_requested'', VBool False), (''cancel_confirmed'', VBool False),
     (''started_unix_ns'', VInt 1), (''finished_unix_ns'', VInt 2), (''error'', VStr [])]"

definition result_files :: "string \<rightharpoonup> file_entry" where
  "result_files = [''/run/action.json'' \<mapsto> \<lparr>fe_regular = True, fe_owned = True, fe_mode = 384, fe_nlink = 1,
     fe_size = 900, fe_json = Some (VDict action_payload), fe_sha256 = ''digest''\<rparr>]"

definition stop_payload :: json_object where
  "stop_payload = [(''cancel'', VDict [(''required'', VBool False), (''requested'', VBool False), (''confirmed'', VBool False)]),
     (''zero'', VDict [(''published_count'', VInt 12), (''confirmed_zero'', VBool True)]),
     (''disarm'', VDict [(''requested'', VBool True), (''service_success'', VBool True), (''measured_disarmed'', VBool True)]),
     (''post_stop'', VDict [(''observation_s'', VFloat (Fin 2)), (''odom_samples'', VInt 12),
        (''max_drift_m'', VFloat (Fin 0)), (''max_linear_speed_mps'', VFloat (Fin 0)),
        (''max_yaw_rate_rps'', VFloat (Fin 0)), (''limits'', post_stop_limits), (''passed'', VBool True)])]"

definition measurement_payload :: json_object where
  "measurement_payload = [(''frame_id'', VStr ''odom''), (''start_pose'', pose_dict (sample_at (Fin 0) (Fin 0))),
     (''end_pose'', pose_dict (sample_at (Fin 1) (Fin (1 / 4)))), (''forward_m'', VFloat (Fin (1 / 4))),
     (''total_m'', VFloat (Fin (1 / 4))), (''lateral_m'', VFloat (Fin 0)), (''yaw_change_rad'', VFloat (Fin 0))]"

definition result_payload :: json_object where
  "result_payload = [(''schema'', VStr MEASURED_RESULT_SCHEMA), (''status'', VStr ''PASS''),
     (''session_id'', VStr ''session-0001''), (''pair_id'', VStr ''pair-0000001''),
     (''map'', VDict [(''id'', VStr ''lab-map-01''), (''generation'', VInt 1)]),
     (''target'', VDict [(''id'', VStr ''dock''), (''pose'', VDict [(''x'', VInt 1), (''y'', VInt 0), (''yaw'', VInt 0)])]),
     (''goal_uuid'', VStr result_uuid), (''started_unix_ns'', VInt 1), (''finished_unix_ns'', VInt 2),
     (''action'', VDict [(''result_file'', VStr ''/run/action.json''), (''result_sha256'', VStr ''digest''),
        (''goal_accepted'', VBool True), (''status_code'', VInt 4), (''status_name'', VStr ''succeeded'')]),
     (''measurement'', VDict measurement_payload), (''stop_sequence'', VDict stop_payload),
     (''checks'', VDict (map (\<lambda>k. (k, VStr ''pass'')) check_names)), (''failure_reason'', VStr [])]"

lemma result_checks:
  "check_header result_payload = Inr ()"
  "map_claim_ok (dict_get result_payload ''map'') ''lab-map-01'' 1"
  "checks_ok (dict_get result_payload ''checks'')"
  "positive_time_range 3 result_payload = Inr ()"
  "action_binding_ok (dict_get result_payload ''action'') ''/run/action.json'' ''digest''"
  by (simp_all add: check_header_def result_payload_def has_keys_def measured_result_keys_def dict_get_def
      map_claim_ok_def object_with_def checks_ok_def check_names_def positive_time_range_def
      action_binding_ok_def SUCCEEDED_STATUS_CODE_def insert_commute)

lemma result_target: "check_target (dict_get result_payload ''target'') ''dock'' result_environment = Inr ()"
  by (simp add: check_target_def result_payload_def dict_get_def object_with_def has_keys_def
      environment_pose_def result_environment_def float_of_str_def decimal_of_str_def exponent_part_def
      split_sign.simps str_strip_def is_space_def code_of_def is_digit_def str_lower_def lower_char_def pow10_def
      Let_def read_pose_def finite_number_def float_of_int_def math_pi_def within_nano_def insert_commute)

lemma result_action:
  "read_private_json result_files ''/run/action.json'' = Inr action_payload"
  "validate_action_result 3 action_payload ''session-0001'' ''pair-0000001'' ''lab-map-01'' 1 ''dock'' = Inr result_uuid"
  by (simp_all add: read_private_json_def result_files_def validate_action_result_def action_payload_def has_keys_def
      action_result_keys_def exact_success_def dict_get_def SUCCEEDED_STATUS_CODE_def positive_time_range_def
      result_uuid_def GOAL_UUID_RE_def is_lower_hex_def is_digit_def code_of_def Let_def insert_commute)


lemma sample_at_sel [simp]:
  "os_x_m (sample_at t x) = x" "os_y_m (sample_at t x) = Fin 0" "os_yaw_rad (sample_at t x) = Fin 0"
  by (simp_all add: sample_at_def)

lemma tolerance: "fle (Fin 0) (fl (1 / 10 ^ 6))" "isfinite (fl (1 / 10 ^ 6))"
  using fl_mono [of 0 "1 / 10 ^ 6"] finite_fl_unit [of "1 / 10 ^ 6"] by simp_all

lemma result_measurement:
  "check_measurement libm0 (dict_get result_payload ''measurement'') =
     Inr \<lparr>me_forward = Fin (1 / 4), me_total = Fin (1 / 4), me_lateral = Fin 0, me_yaw_change = Fin 0\<rparr>"
proof -
  have "\<not> fless (Fin (1 / 4)) (fsub (Fin (1 / 4)) (fl (1 / 10 ^ 6)))"
  proof -
    have "fle (fsub (Fin (1 / 4)) (fl (1 / 10 ^ 6))) (Fin (1 / 4))"
      using fsub_nonneg_le [of "1 / 4" "fl (1 / 10 ^ 6)"] is_double_fl [of "1 / 4"] tolerance(1) fl_dyadic_1_4 by metis
    then show ?thesis by (cases "fsub (Fin (1 / 4)) (fl (1 / 10 ^ 6))") (auto simp: fle_def)
  qed
  moreover have "fsub (Fin (1 / 4)) (Fin 0) = Fin (1 / 4)" "fsub (Fin 0) (Fin 0) = Fin 0"
    by (simp_all add: fsub_def)
  ultimately show ?thesis
    by (simp add: result_payload_def measurement_payload_def dict_get_def check_measurement_def object_with_def
        has_keys_def measurement_keys_def sample_at_ok check_path_def within_micro_def Let_def insert_commute
        forward_of_def lateral_of_def wrapped_angle_def libm0_def fmax_def MAX_DISTANCE_M_def
        demand_def)
qed

lemma post_stop_limits_nonneg:
  "\<not> fless POST_STOP_MAX_DRIFT_M (Fin 0)" "\<not> fless POST_STOP_MAX_LINEAR_MPS (Fin 0)"
  "\<not> fless POST_STOP_MAX_YAW_RPS (Fin 0)"
proof -
  have "fle (Fin 0) a \<Longrightarrow> \<not> fless a (Fin 0)" for a by (cases a) (auto simp: fle_def)
  then show "\<not> fless POST_STOP_MAX_DRIFT_M (Fin 0)" "\<not> fless POST_STOP_MAX_LINEAR_MPS (Fin 0)"
    "\<not> fless POST_STOP_MAX_YAW_RPS (Fin 0)"
    using fl_mono [of 0 "2 / 100"] fl_mono [of 0 "3 / 100"]
    by (simp_all add: POST_STOP_MAX_DRIFT_M_def POST_STOP_MAX_LINEAR_MPS_def POST_STOP_MAX_YAW_RPS_def)
qed

lemma result_stop: "check_stop (dict_get result_payload ''stop_sequence'') = Inr ()"
proof -
  have "check_post_stop (dict_get stop_payload ''post_stop'') = Inr ()"
    by (simp add: stop_payload_def dict_get_def check_post_stop_summary POST_STOP_OBSERVATION_S_def
        POST_STOP_MIN_ODOM_SAMPLES_def post_stop_limits_nonneg)
  moreover have "cancel_ok (dict_get stop_payload ''cancel'')" "zero_ok (dict_get stop_payload ''zero'')"
    "disarm_ok (dict_get stop_payload ''disarm'')" "has_keys stop_payload [''cancel'', ''zero'', ''disarm'', ''post_stop'']"
    by (auto simp: stop_payload_def dict_get_def cancel_ok_def zero_ok_def disarm_ok_def object_with_def has_keys_def)
  moreover have "dict_get result_payload ''stop_sequence'' = VDict stop_payload"
    by (simp add: result_payload_def dict_get_def)
  ultimately show ?thesis by (simp add: check_stop_def object_with_def demand_def)
qed

lemma result_valid:
  "validate_measured_result libm0 result_files 3 3 result_payload result_environment ''/run/action.json'' =
     Inr \<lparr>me_forward = Fin (1 / 4), me_total = Fin (1 / 4), me_lateral = Fin 0, me_yaw_change = Fin 0\<rparr>"
proof -
  have env: "env_get result_environment ''GO2_STAGED_NAV2_SESSION_ID'' = ''session-0001''"
    "env_get result_environment ''GO2_STAGED_NAV2_PAIR_ID'' = ''pair-0000001''"
    "env_get result_environment ''GO2_STAGED_NAV2_MAP_ID'' = ''lab-map-01''"
    "env_get result_environment ''GO2_STAGED_NAV2_TARGET_ID'' = ''dock''"
    "int_of_str (env_get result_environment ''GO2_STAGED_NAV2_MAP_GENERATION'') = Some 1"
    by (simp_all add: env_get_def result_environment_def int_of_str_def str_strip_def is_space_def code_of_def
        is_digit_def Let_def)
  have d: "dict_get result_payload ''session_id'' = VStr ''session-0001''"
    "dict_get result_payload ''pair_id'' = VStr ''pair-0000001''"
    "dict_get result_payload ''goal_uuid'' = VStr result_uuid"
    "(case result_files ''/run/action.json'' of Some f \<Rightarrow> fe_sha256 f | None \<Rightarrow> []) = ''digest''"
    by (simp_all add: result_payload_def dict_get_def result_files_def)
  show ?thesis
    by (simp add: validate_measured_result_def env d demand_def result_checks result_target result_action
        result_measurement result_stop)
qed

theorem measured_result_is_backed_witness:
  "\<exists>f action u. result_files ''/run/action.json'' = Some f \<and> fe_json f = Some (VDict action) \<and>
    dict_get action ''goal_uuid'' = VStr u \<and> dict_get result_payload ''goal_uuid'' = VStr u \<and>
    fless (Fin (1 / 4)) MAX_DISTANCE_M"
  using measured_result_is_backed [OF result_valid] by auto

end
