(* ===== verification/RunRegistry.thy ===== *)
theory RunRegistry imports Traces "HOL-Library.AList" begin

text \<open>
  \<open>packages/semantic_navigation/semantic_navigation/run_state.py\<close>: the registry that keeps semantic
  navigation runs bound to the map epoch they were admitted in. Each operation runs under the
  registry's lock and is one atomic function here. The dictionary of runs is an association list in
  insertion order.
\<close>

definition TERMINAL_STATES :: "string list" where
  "TERMINAL_STATES = [''SUCCEEDED'', ''CANCELED'', ''FAILED'']"

record run =
  semantic_run_id :: string
  nav_run_id :: string
  landmark_id :: string
  landmark_name :: string
  run_map_id :: string
  run_map_generation :: int
  lifecycle_revision :: nat
  run_state :: string
  navigation_detail :: string
  invalidated :: bool
  invalidation_detail :: string
  cancel_started :: bool
  cancel_detail :: string
  remote_state :: string
  remote_terminal :: bool

record registry =
  runs :: "(string \<times> run) list"
  latest_run_id :: string

datatype registry_exc = SingleFlightError run | RegistryValueError string | RegistryKeyError string

definition empty_registry :: registry where
  "empty_registry = \<lparr>runs = [], latest_run_id = []\<rparr>"

definition clear :: "registry \<Rightarrow> registry" where
  "clear r = r\<lparr>runs := [], latest_run_id := []\<rparr>"

text \<open>\<open>_require\<close>, and an update of the run it returns.\<close>

definition require_run :: "string \<Rightarrow> registry \<Rightarrow> registry_exc + run" where
  "require_run i r = (case map_of (runs r) i of
       None \<Rightarrow> Inl (RegistryKeyError ''unknown semantic navigation run_id'') | Some x \<Rightarrow> Inr x)"

definition set_run :: "string \<Rightarrow> run \<Rightarrow> registry \<Rightarrow> registry" where
  "set_run i x r = r\<lparr>runs := AList.update i x (runs r)\<rparr>"

definition busy_run :: "registry \<Rightarrow> run option" where
  "busy_run r = find (\<lambda>x. \<not> remote_terminal x) (map snd (runs r))"

definition new_run :: "string \<Rightarrow> string \<Rightarrow> string \<Rightarrow> string \<Rightarrow> int \<Rightarrow> nat \<Rightarrow> run" where
  "new_run i lid lname mid gen epoch =
     \<lparr>semantic_run_id = i, nav_run_id = [], landmark_id = lid, landmark_name = lname, run_map_id = mid,
      run_map_generation = gen, lifecycle_revision = epoch, run_state = ''STARTING'', navigation_detail = [],
      invalidated = False, invalidation_detail = [], cancel_started = False, cancel_detail = [],
      remote_state = [], remote_terminal = False\<rparr>"

text \<open>The run id is the caller's, or \<open>str(uuid.uuid4())\<close>; it comes as \<open>i\<close>.\<close>

definition reserve ::
  "string \<Rightarrow> string \<Rightarrow> string \<Rightarrow> int \<Rightarrow> nat \<Rightarrow> string \<Rightarrow> registry \<Rightarrow> (registry_exc + string) \<times> registry" where
  "reserve lid lname mid gen epoch i r =
     (case busy_run r of
        Some b \<Rightarrow> (Inl (SingleFlightError b), r)
      | None \<Rightarrow>
          if map_of (runs r) i \<noteq> None then (Inl (RegistryValueError ''duplicate semantic run_id''), r)
          else (Inr i, (set_run i (new_run i lid lname mid gen epoch) r)\<lparr>latest_run_id := i\<rparr>))"

definition attach_run :: "string \<Rightarrow> string \<Rightarrow> run \<Rightarrow> run" where
  "attach_run nav detail x =
     (let y = x\<lparr>nav_run_id := nav, navigation_detail := detail, remote_state := ''PENDING'',
                remote_terminal := False\<rparr>
      in if invalidated y then y\<lparr>cancel_started := True\<rparr> else y\<lparr>run_state := ''PENDING''\<rparr>)"

definition attach_navigation ::
  "string \<Rightarrow> string \<Rightarrow> string \<Rightarrow> registry \<Rightarrow> (registry_exc + run \<times> bool) \<times> registry" where
  "attach_navigation i nav detail r =
     (if nav = [] then (Inl (RegistryValueError ''nav_run_id is empty''), r)
      else case require_run i r of Inl e \<Rightarrow> (Inl e, r)
      | Inr x \<Rightarrow> (Inr (attach_run nav detail x, invalidated x),
                 (set_run i (attach_run nav detail x) r)\<lparr>latest_run_id := i\<rparr>))"

definition remove :: "string \<Rightarrow> registry \<Rightarrow> registry" where
  "remove i r = r\<lparr>runs := AList.delete i (runs r)\<rparr>"

text \<open>The condition \<open>wait_for_dispatches\<close> waits for.\<close>

definition all_dispatched :: "registry \<Rightarrow> bool" where
  "all_dispatched r \<longleftrightarrow> \<not> list_ex (\<lambda>x. nav_run_id x = []) (map snd (runs r))"

definition resolve_run :: "string \<Rightarrow> registry \<Rightarrow> registry_exc + string" where
  "resolve_run i r =
     (let resolved = (if str_strip i \<noteq> [] then str_strip i else latest_run_id r)
      in if resolved = [] then Inl (RegistryKeyError ''no semantic navigation run exists'')
         else if map_of (runs r) resolved = None then Inl (RegistryKeyError ''unknown semantic navigation run_id'')
         else Inr resolved)"

definition get_run :: "string \<Rightarrow> registry \<Rightarrow> registry_exc + run" where
  "get_run i r = require_run i r"

definition remote_update :: "string \<Rightarrow> string \<Rightarrow> run \<Rightarrow> run" where
  "remote_update state detail x =
     (let s = str_upper (str_strip state); remote = (if s = [] then ''FAILED'' else s)
      in if remote_terminal x then x
         else let y = x\<lparr>remote_state := remote, remote_terminal := (remote \<in> set TERMINAL_STATES),
                        navigation_detail := detail\<rparr>
              in if invalidated y then y else y\<lparr>run_state := remote\<rparr>)"

definition update_remote :: "string \<Rightarrow> string \<Rightarrow> string \<Rightarrow> registry \<Rightarrow> (registry_exc + run) \<times> registry" where
  "update_remote i state detail r =
     (case require_run i r of Inl e \<Rightarrow> (Inl e, r)
      | Inr x \<Rightarrow> (Inr (remote_update state detail x), set_run i (remote_update state detail x) r))"

definition invalidate_run :: "string \<Rightarrow> run \<Rightarrow> run" where
  "invalidate_run reason x =
     (if remote_terminal x then x
      else let y = x\<lparr>invalidated := True, invalidation_detail := reason, run_state := ''FAILED''\<rparr>
           in if nav_run_id y \<noteq> [] \<and> \<not> cancel_started y then y\<lparr>cancel_started := True\<rparr> else y)"

definition claims_cancel :: "run \<Rightarrow> bool" where
  "claims_cancel x \<longleftrightarrow> \<not> remote_terminal x \<and> nav_run_id x \<noteq> [] \<and> \<not> cancel_started x"

definition invalidate_nonterminal ::
  "string \<Rightarrow> registry \<Rightarrow> (string \<times> string \<times> string) list \<times> registry" where
  "invalidate_nonterminal reason r =
     (map (\<lambda>x. (semantic_run_id x, nav_run_id x, reason)) (filter claims_cancel (map snd (runs r))),
      r\<lparr>runs := map (\<lambda>(i, x). (i, invalidate_run reason x)) (runs r)\<rparr>)"

definition claim_cancel :: "string \<Rightarrow> registry \<Rightarrow> (registry_exc + (string \<times> string) option) \<times> registry" where
  "claim_cancel i r =
     (case require_run i r of Inl e \<Rightarrow> (Inl e, r)
      | Inr x \<Rightarrow>
          if nav_run_id x = [] \<or> cancel_started x then (Inr None, r)
          else (Inr (Some (nav_run_id x, invalidation_detail x)), set_run i (x\<lparr>cancel_started := True\<rparr>) r))"

definition cancel_result :: "string \<Rightarrow> bool option \<Rightarrow> run \<Rightarrow> run" where
  "cancel_result detail in_progress x =
     (let y = x\<lparr>cancel_detail := detail\<rparr>
      in case in_progress of None \<Rightarrow> y | Some b \<Rightarrow> y\<lparr>cancel_started := b\<rparr>)"

definition mark_cancel_result ::
  "string \<Rightarrow> string \<Rightarrow> bool option \<Rightarrow> registry \<Rightarrow> (registry_exc + run) \<times> registry" where
  "mark_cancel_result i detail in_progress r =
     (case require_run i r of Inl e \<Rightarrow> (Inl e, r)
      | Inr x \<Rightarrow> (Inr (cancel_result detail in_progress x), set_run i (cancel_result detail in_progress x) r))"

section \<open>Lookup\<close>

definition run_at :: "registry \<Rightarrow> string \<Rightarrow> run option" where
  "run_at r i = map_of (runs r) i"

lemma run_at_simps [simp]:
  "run_at (clear r) i = None" "run_at empty_registry i = None"
  "run_at (set_run j x r) i = (if i = j then Some x else run_at r i)"
  "run_at (remove j r) i = (if i = j then None else run_at r i)"
  "run_at (r\<lparr>latest_run_id := l\<rparr>) i = run_at r i"
  by (simp_all add: run_at_def clear_def empty_registry_def set_run_def remove_def update_conv' delete_conv')

lemma run_at_invalidate [simp]:
  "run_at (snd (invalidate_nonterminal reason r)) i = map_option (invalidate_run reason) (run_at r i)"
proof -
  have "map_of (map (\<lambda>(i, x). (i, f x)) xs) i = map_option f (map_of xs i)" for f :: "run \<Rightarrow> run" and xs
    by (induction xs) auto
  then show ?thesis by (simp add: run_at_def invalidate_nonterminal_def)
qed

lemma require_run_Inr [simp]: "require_run i r = Inr x \<longleftrightarrow> run_at r i = Some x"
  by (auto simp: require_run_def run_at_def split: option.splits)

lemma require_run_cases:
  "require_run i r = (case run_at r i of
     None \<Rightarrow> Inl (RegistryKeyError ''unknown semantic navigation run_id'') | Some x \<Rightarrow> Inr x)"
  by (simp add: require_run_def run_at_def)

section \<open>Well-formed registries\<close>

text \<open>Keys are distinct and name their run.\<close>

definition registry_ok :: "registry \<Rightarrow> bool" where
  "registry_ok r \<longleftrightarrow> distinct (map fst (runs r)) \<and> list_all (\<lambda>(i, x). semantic_run_id x = i) (runs r)"

lemma registry_ok_iff:
  "registry_ok r \<longleftrightarrow> distinct (map fst (runs r)) \<and> (\<forall>i x. run_at r i = Some x \<longrightarrow> semantic_run_id x = i)"
  by (auto simp: registry_ok_def run_at_def list_all_iff)

lemma registry_ok_set: "registry_ok r \<Longrightarrow> semantic_run_id x = i \<Longrightarrow> registry_ok (set_run i x r)"
  unfolding registry_ok_iff by (auto simp: set_run_def distinct_update run_at_def update_conv')

lemma registry_ok_latest [simp]: "registry_ok (r\<lparr>latest_run_id := l\<rparr>) \<longleftrightarrow> registry_ok r"
  by (simp add: registry_ok_def)

lemma registry_ok_clear [simp]: "registry_ok (r\<lparr>runs := []\<rparr>)"
  by (simp add: registry_ok_def)

lemma registry_ok_remove: "registry_ok r \<Longrightarrow> registry_ok (remove i r)"
  unfolding registry_ok_iff by (auto simp: remove_def distinct_delete run_at_def delete_conv')

lemma registry_ok_id: "registry_ok r \<Longrightarrow> run_at r i = Some x \<Longrightarrow> semantic_run_id x = i"
  by (simp add: registry_ok_iff)

lemma run_id_updates [simp]:
  "semantic_run_id (attach_run nav d x) = semantic_run_id x"
  "semantic_run_id (remote_update s d x) = semantic_run_id x"
  "semantic_run_id (invalidate_run d x) = semantic_run_id x"
  "semantic_run_id (cancel_result d b x) = semantic_run_id x"
  "semantic_run_id (new_run i lid lname mid gen ep) = i"
  by (simp_all add: attach_run_def remote_update_def invalidate_run_def cancel_result_def new_run_def Let_def
      split: option.split)

lemma in_runs_iff: "registry_ok r \<Longrightarrow> (i, x) \<in> set (runs r) \<longleftrightarrow> run_at r i = Some x"
  by (auto simp: registry_ok_def run_at_def)

lemma busy_None_iff: "registry_ok r \<Longrightarrow> busy_run r = None \<longleftrightarrow> (\<forall>i x. run_at r i = Some x \<longrightarrow> remote_terminal x)"
proof -
  assume ok: "registry_ok r"
  have "busy_run r = None \<longleftrightarrow> (\<forall>p \<in> set (runs r). remote_terminal (snd p))"
    by (auto simp: busy_run_def find_None_iff)
  then show ?thesis using in_runs_iff [OF ok] by (metis prod.collapse snd_conv)
qed


lemma registry_ok_invalidate: "registry_ok r \<Longrightarrow> registry_ok (snd (invalidate_nonterminal reason r))"
proof -
  assume ok: "registry_ok r"
  have "map fst (map (\<lambda>(i, x). (i, invalidate_run reason x)) xs) = map fst xs" for xs :: "(string \<times> run) list"
    by (induction xs) auto
  then show ?thesis
    using ok unfolding registry_ok_iff run_at_invalidate
    by (auto simp: invalidate_nonterminal_def simp del: map_map)
qed

lemma registry_ok_ops:
  assumes "registry_ok r"
  shows "registry_ok (snd (reserve a b c d e i r))" "registry_ok (snd (attach_navigation i nav det r))"
    "registry_ok (snd (update_remote i st det r))" "registry_ok (snd (claim_cancel i r))"
    "registry_ok (snd (mark_cancel_result i det p r))" "registry_ok (clear r)" "registry_ok (remove i r)"
  using assms registry_ok_id [OF assms]
  by (auto simp: reserve_def attach_navigation_def update_remote_def claim_cancel_def mark_cancel_result_def
      clear_def require_run_cases registry_ok_remove intro!: registry_ok_set split: option.splits)

section \<open>Single flight\<close>

text \<open>At most one run has no confirmed provider terminal.\<close>

definition single_flight :: "registry \<Rightarrow> bool" where
  "single_flight r \<longleftrightarrow> length (filter (\<lambda>x. \<not> remote_terminal x) (map snd (runs r))) \<le> 1"

definition at_most_one :: "('k \<rightharpoonup> 'v) \<Rightarrow> ('v \<Rightarrow> bool) \<Rightarrow> bool" where
  "at_most_one m P \<longleftrightarrow> (\<forall>i j x y. m i = Some x \<longrightarrow> m j = Some y \<longrightarrow> P x \<longrightarrow> P y \<longrightarrow> i = j)"

definition holders :: "('k \<rightharpoonup> 'v) \<Rightarrow> ('v \<Rightarrow> bool) \<Rightarrow> 'k set" where
  "holders m P = {i. \<exists>x. m i = Some x \<and> P x}"

lemma at_most_one_iff: "at_most_one m P \<longleftrightarrow> (\<forall>i \<in> holders m P. \<forall>j \<in> holders m P. i = j)"
  by (auto simp: at_most_one_def holders_def)

lemma holders_fresh: "m k = None \<Longrightarrow> holders (m(k \<mapsto> v)) P = (if P v then {k} else {}) \<union> holders m P"
  by (auto simp: holders_def)

lemma at_most_one_fresh:
  assumes "m k = None"
  shows "at_most_one (m(k \<mapsto> v)) P \<longleftrightarrow> (if P v then holders m P = {} else at_most_one m P)"
proof -
  have "k \<notin> holders m P" using assms by (simp add: holders_def)
  then show ?thesis by (auto simp: at_most_one_iff holders_fresh [where m = m, OF assms])
qed

lemma filter_le_one:
  assumes "distinct (map fst xs)"
  shows "length (filter P (map snd xs)) \<le> 1 \<longleftrightarrow> at_most_one (map_of xs) P"
  using assms
proof (induction xs)
  case Nil
  then show ?case by (simp add: at_most_one_def)
next
  case (Cons p xs)
  obtain k v where p: "p = (k, v)" by (cases p)
  have d: "distinct (map fst xs)" "map_of xs k = None" using Cons.prems by (auto simp: p map_of_eq_None_iff)
  have "filter (P \<circ> snd) xs = [] \<longleftrightarrow> holders (map_of xs) P = {}"
    using d(1) by (auto simp: filter_empty_conv holders_def)
  moreover have "map_of (p # xs) = (map_of xs)(k \<mapsto> v)" by (simp add: p)
  ultimately show ?case
    using Cons.IH [OF d(1)] at_most_one_fresh [where m = "map_of xs", OF d(2), of v P]
    by (simp add: p del: fun_upd_apply map_of.simps filter_map)
qed

lemma single_flight_iff:
  "registry_ok r \<Longrightarrow> single_flight r \<longleftrightarrow> at_most_one (run_at r) (\<lambda>x. \<not> remote_terminal x)"
  using filter_le_one [of "runs r" "\<lambda>x. \<not> remote_terminal x"]
  by (simp add: single_flight_def registry_ok_iff run_at_def [abs_def])

text \<open>An update keeps single flight when it does not revive a terminal run.\<close>

lemma single_flight_set:
  assumes "registry_ok r" "single_flight r" "run_at r i = Some x" "semantic_run_id y = i"
    and "remote_terminal x \<Longrightarrow> remote_terminal y"
  shows "single_flight (set_run i y r)"
  using assms(2-) single_flight_iff [OF assms(1)] single_flight_iff [OF registry_ok_set [OF assms(1,4)]]
  by (auto simp: at_most_one_def)

lemma single_flight_latest [simp]: "single_flight (r\<lparr>latest_run_id := l\<rparr>) \<longleftrightarrow> single_flight r"
  by (simp add: single_flight_def)


section \<open>What an update does to a run\<close>

lemma terminal_unchanged [simp]:
  "remote_terminal x \<Longrightarrow> remote_update s d x = x" "remote_terminal x \<Longrightarrow> invalidate_run d x = x"
  by (simp_all add: remote_update_def invalidate_run_def Let_def)

lemma remote_update_flags [simp]:
  "invalidated (remote_update s d x) = invalidated x" "cancel_started (remote_update s d x) = cancel_started x"
  "nav_run_id (remote_update s d x) = nav_run_id x"
  "invalidated x \<Longrightarrow> run_state (remote_update s d x) = run_state x"
  by (simp_all add: remote_update_def Let_def)

lemma remote_update_live: "\<not> remote_terminal (remote_update s d x) \<Longrightarrow> \<not> remote_terminal x"
  by auto

lemma invalidate_flags [simp]:
  "remote_terminal (invalidate_run d x) = remote_terminal x" "remote_state (invalidate_run d x) = remote_state x"
  "nav_run_id (invalidate_run d x) = nav_run_id x"
  "cancel_started (invalidate_run d x) \<longleftrightarrow> cancel_started x \<or> claims_cancel x"
  "invalidated (invalidate_run d x) \<longleftrightarrow> invalidated x \<or> \<not> remote_terminal x"
  "invalidated x \<Longrightarrow> run_state x = ''FAILED'' \<Longrightarrow> run_state (invalidate_run d x) = ''FAILED''"
  "\<not> remote_terminal x \<Longrightarrow> run_state (invalidate_run d x) = ''FAILED''"
  by (auto simp: invalidate_run_def claims_cancel_def Let_def)

lemma cancel_result_flags [simp]:
  "remote_terminal (cancel_result d b x) = remote_terminal x" "remote_state (cancel_result d b x) = remote_state x"
  "invalidated (cancel_result d b x) = invalidated x" "run_state (cancel_result d b x) = run_state x"
  "nav_run_id (cancel_result d b x) = nav_run_id x"
  "cancel_started (cancel_result d b x) = (case b of None \<Rightarrow> cancel_started x | Some c \<Rightarrow> c)"
  by (simp_all add: cancel_result_def Let_def split: option.split)

lemma attach_flags [simp]:
  "\<not> remote_terminal (attach_run nav d x)" "invalidated (attach_run nav d x) = invalidated x"
  "nav_run_id (attach_run nav d x) = nav" "cancel_started (attach_run nav d x) \<longleftrightarrow> cancel_started x \<or> invalidated x"
  "invalidated x \<Longrightarrow> run_state (attach_run nav d x) = run_state x"
  by (simp_all add: attach_run_def Let_def)

section \<open>Sequences of operations\<close>

datatype registry_op =
    Reserve string string string int nat string
  | Attach string string string
  | UpdateRemote string string string
  | Invalidate string
  | ClaimCancel string
  | MarkCancel string string "bool option"
  | RemoveRun string
  | ClearRuns

text \<open>What the caller learns: an exception, nothing, or the cancellations it now owns.\<close>

datatype registry_out = Raised registry_exc | Claimed "(string \<times> string) list" | Quiet

fun registry_step :: "registry_op \<Rightarrow> registry \<Rightarrow> registry_out \<times> registry" where
  "registry_step (Reserve lid lname mid gen epoch i) r =
     (case reserve lid lname mid gen epoch i r of (Inl e, r') \<Rightarrow> (Raised e, r') | (Inr _, r') \<Rightarrow> (Quiet, r'))"
| "registry_step (Attach i nav detail) r =
     (case attach_navigation i nav detail r of (Inl e, r') \<Rightarrow> (Raised e, r')
      | (Inr (x, must_cancel), r') \<Rightarrow> (Claimed (if must_cancel then [(i, nav)] else []), r'))"
| "registry_step (UpdateRemote i st detail) r =
     (case update_remote i st detail r of (Inl e, r') \<Rightarrow> (Raised e, r') | (Inr _, r') \<Rightarrow> (Quiet, r'))"
| "registry_step (Invalidate reason) r =
     (case invalidate_nonterminal reason r of (cs, r') \<Rightarrow> (Claimed (map (\<lambda>(i, nav, _). (i, nav)) cs), r'))"
| "registry_step (ClaimCancel i) r =
     (case claim_cancel i r of (Inl e, r') \<Rightarrow> (Raised e, r')
      | (Inr None, r') \<Rightarrow> (Quiet, r') | (Inr (Some (nav, _)), r') \<Rightarrow> (Claimed [(i, nav)], r'))"
| "registry_step (MarkCancel i detail b) r =
     (case mark_cancel_result i detail b r of (Inl e, r') \<Rightarrow> (Raised e, r') | (Inr _, r') \<Rightarrow> (Quiet, r'))"
| "registry_step (RemoveRun i) r = (Quiet, remove i r)"
| "registry_step ClearRuns r = (Quiet, clear r)"

definition after :: "registry_op \<Rightarrow> registry \<Rightarrow> registry" where
  "after e r = snd (registry_step e r)"

lemma after_ok: "registry_ok r \<Longrightarrow> registry_ok (after e r)"
  using registry_ok_ops [of r] registry_ok_invalidate [of r]
  by (cases e) (auto simp: after_def split: prod.splits sum.splits option.splits,
      (metis snd_conv)+)

text \<open>How one operation changes the run under one key.\<close>

lemma after_run_at:
  "run_at (after e r) i =
     (case e of
        Reserve lid lname mid gen epoch j \<Rightarrow>
          if j = i \<and> busy_run r = None \<and> run_at r i = None then Some (new_run i lid lname mid gen epoch) else run_at r i
      | Attach j nav detail \<Rightarrow> if j = i \<and> nav \<noteq> [] then map_option (attach_run nav detail) (run_at r i) else run_at r i
      | UpdateRemote j st detail \<Rightarrow> if j = i then map_option (remote_update st detail) (run_at r i) else run_at r i
      | Invalidate reason \<Rightarrow> map_option (invalidate_run reason) (run_at r i)
      | ClaimCancel j \<Rightarrow>
          if j = i then map_option (\<lambda>x. if nav_run_id x = [] then x else x\<lparr>cancel_started := True\<rparr>) (run_at r i) else run_at r i
      | MarkCancel j detail b \<Rightarrow> if j = i then map_option (cancel_result detail b) (run_at r i) else run_at r i
      | RemoveRun j \<Rightarrow> if j = i then None else run_at r i
      | ClearRuns \<Rightarrow> None)"
  by (cases e)
    (auto simp: after_def reserve_def attach_navigation_def update_remote_def claim_cancel_def
      mark_cancel_result_def require_run_cases run_at_def [symmetric] split: option.splits prod.splits,
      (metis run_at_invalidate snd_conv)+)


lemma require_attach:
  "after (Attach i nav detail) r = (if nav = [] \<or> run_at r i = None then r
     else (set_run i (attach_run nav detail (the (run_at r i))) r)\<lparr>latest_run_id := i\<rparr>)"
  by (auto simp: after_def attach_navigation_def require_run_cases split: option.splits)

section \<open>Single flight over sequences\<close>

text \<open>
  The one operation that can revive a run is \<open>attach_navigation\<close>, which resets the terminal flag:
  it must meet a run whose provider has reported nothing terminal.
\<close>

definition attach_fresh :: "registry \<Rightarrow> registry_op \<Rightarrow> bool" where
  "attach_fresh r e \<longleftrightarrow> (case e of
       Attach i nav detail \<Rightarrow> (\<forall>x. run_at r i = Some x \<longrightarrow> \<not> remote_terminal x) | _ \<Rightarrow> True)"

definition flight_inv :: "registry \<Rightarrow> bool" where
  "flight_inv r \<longleftrightarrow> registry_ok r \<and> single_flight r"

lemma live_after:
  assumes "run_at (after e r) i = Some y" "\<not> remote_terminal y" "attach_fresh r e"
  shows "(\<exists>x. run_at r i = Some x \<and> \<not> remote_terminal x) \<or> busy_run r = None \<and> (\<exists>a b c d ep. e = Reserve a b c d ep i)"
  using assms
  by (cases e) (auto simp: after_run_at attach_fresh_def dest!: remote_update_live split: if_splits)

lemma flight_step:
  assumes "flight_inv r" "attach_fresh r e"
  shows "flight_inv (after e r)"
proof -
  have ok: "registry_ok r" "registry_ok (after e r)" using assms(1) after_ok by (auto simp: flight_inv_def)
  have sf: "at_most_one (run_at r) (\<lambda>x. \<not> remote_terminal x)"
    using assms(1) single_flight_iff [OF ok(1)] by (simp add: flight_inv_def)
  have "i = j" if "run_at (after e r) i = Some x" "run_at (after e r) j = Some y"
    "\<not> remote_terminal x" "\<not> remote_terminal y" for i j x y
  proof (cases "busy_run r = None \<and> (\<exists>a b c d ep k. e = Reserve a b c d ep k)")
    case True
    then have "\<forall>k z. run_at r k = Some z \<longrightarrow> remote_terminal z" using busy_None_iff [OF ok(1)] by simp
    then show ?thesis
      using live_after [OF that(1,3) assms(2)] live_after [OF that(2,4) assms(2)] by auto
  next
    case False
    then show ?thesis
      using live_after [OF that(1,3) assms(2)] live_after [OF that(2,4) assms(2)] sf
      unfolding at_most_one_def by blast
  qed
  then show ?thesis using ok(2) single_flight_iff [OF ok(2)] by (auto simp: flight_inv_def at_most_one_def)
qed

lemma flight_empty: "flight_inv empty_registry"
  by (simp add: flight_inv_def empty_registry_def registry_ok_def single_flight_def)

interpretation flight: invariant_system registry_step attach_fresh flight_inv
  by unfold_locales (use flight_step in \<open>simp add: after_def\<close>)

section \<open>Provider-terminal evidence is final\<close>

text \<open>Operations that do not take the run away or start it anew.\<close>

definition keeps_run :: "string \<Rightarrow> registry_op \<Rightarrow> bool" where
  "keeps_run i e \<longleftrightarrow> (case e of Attach j nav detail \<Rightarrow> j \<noteq> i | RemoveRun j \<Rightarrow> j \<noteq> i | ClearRuns \<Rightarrow> False | _ \<Rightarrow> True)"

definition ended_as :: "string \<Rightarrow> string \<Rightarrow> registry \<Rightarrow> bool" where
  "ended_as i st r \<longleftrightarrow> (case run_at r i of None \<Rightarrow> False | Some x \<Rightarrow> remote_terminal x \<and> remote_state x = st)"

interpretation terminal_evidence: invariant_system registry_step "\<lambda>_. keeps_run i" "ended_as i st" for i st
proof unfold_locales
  fix r e
  assume "ended_as i st r" "keeps_run i e"
  then have "ended_as i st (after e r)"
    by (cases e) (auto simp: ended_as_def keeps_run_def after_run_at split: option.splits)
  then show "ended_as i st (snd (registry_step e r))" by (simp add: after_def)
qed

section \<open>Invalidation is final\<close>

definition failed_as :: "string \<Rightarrow> registry \<Rightarrow> bool" where
  "failed_as i r \<longleftrightarrow> (case run_at r i of None \<Rightarrow> False | Some x \<Rightarrow> invalidated x \<and> run_state x = ''FAILED'')"

definition keeps_key :: "string \<Rightarrow> registry_op \<Rightarrow> bool" where
  "keeps_key i e \<longleftrightarrow> (case e of RemoveRun j \<Rightarrow> j \<noteq> i | ClearRuns \<Rightarrow> False | _ \<Rightarrow> True)"

interpretation invalidation: invariant_system registry_step "\<lambda>_. keeps_key i" "failed_as i" for i
proof unfold_locales
  fix r e
  assume "failed_as i r" "keeps_key i e"
  then have "failed_as i (after e r)"
    by (cases e) (auto simp: failed_as_def keeps_key_def after_run_at split: option.splits)
  then show "failed_as i (snd (registry_step e r))" by (simp add: after_def)
qed

section \<open>One canceller at a time\<close>

text \<open>The claim on a run is open again only after its holder reported an unconfirmed result.\<close>

definition holds_claim :: "string \<Rightarrow> registry_op \<Rightarrow> bool" where
  "holds_claim i e \<longleftrightarrow> (case e of
       Attach j nav detail \<Rightarrow> j \<noteq> i | RemoveRun j \<Rightarrow> j \<noteq> i | ClearRuns \<Rightarrow> False
     | MarkCancel j detail b \<Rightarrow> j \<noteq> i \<or> b \<noteq> Some False | _ \<Rightarrow> True)"

definition claim_taken :: "string \<Rightarrow> registry \<Rightarrow> bool" where
  "claim_taken i r \<longleftrightarrow> (case run_at r i of None \<Rightarrow> False | Some x \<Rightarrow> cancel_started x)"

definition claims :: "string \<Rightarrow> registry_out \<Rightarrow> bool" where
  "claims i out \<longleftrightarrow> (case out of Claimed cs \<Rightarrow> i \<in> set (map fst cs) | _ \<Rightarrow> False)"

lemma claim_taken_step: "claim_taken i r \<Longrightarrow> holds_claim i e \<Longrightarrow> claim_taken i (after e r)"
  by (cases e) (auto simp: claim_taken_def holds_claim_def after_run_at split: option.splits)

lemma claims_step:
  assumes "registry_ok r" "holds_claim i e" "claims i (fst (registry_step e r))"
  shows "\<not> claim_taken i r \<and> claim_taken i (after e r)"
proof (cases e)
  case (Invalidate reason)
  then obtain j x where x: "(j, x) \<in> set (runs r)" "claims_cancel x" "semantic_run_id x = i"
    using assms(3) by (auto simp: claims_def invalidate_nonterminal_def)
  then have "run_at r i = Some x"
    using in_runs_iff [OF assms(1)] registry_ok_id [OF assms(1)] by metis
  then show ?thesis using x Invalidate
    by (auto simp: claim_taken_def after_run_at claims_cancel_def)
next
  case (ClaimCancel j)
  then show ?thesis using assms(3)
    by (auto simp: claims_def claim_cancel_def claim_taken_def after_run_at require_run_cases
        split: option.splits if_splits)
next
  case (Attach j nav detail)
  then show ?thesis using assms(2,3)
    by (auto simp: claims_def holds_claim_def attach_navigation_def require_run_cases split: option.splits if_splits)
qed (use assms(3) in \<open>auto simp: claims_def split: prod.splits sum.splits\<close>)

interpretation canceller: one_shot_system registry_step "\<lambda>_. holds_claim i" registry_ok "claim_taken i" "claims i"
  for i
proof unfold_locales
  fix r e
  show "registry_ok r \<Longrightarrow> registry_ok (snd (registry_step e r))" using after_ok by (simp add: after_def)
  show "holds_claim i e \<Longrightarrow> claim_taken i r \<Longrightarrow> claim_taken i (snd (registry_step e r))"
    using claim_taken_step by (simp add: after_def)
  assume "registry_ok r" "holds_claim i e" "claims i (fst (registry_step e r))"
  then show "\<not> claim_taken i r \<and> claim_taken i (snd (registry_step e r))"
    using claims_step by (simp add: after_def)
qed

end
