(* ===== verification/MapLifecycle.thy ===== *)
theory MapLifecycle imports Traces PyVal "HOL-Library.AList" begin

text \<open>
  \<open>packages/semantic_navigation/semantic_navigation/map_lifecycle.py\<close>: parsing of the authoritative
  map lifecycle and the guard that keeps the current map-frame epoch. A message is the list of its
  attributes; \<open>py_repr\<close> stands for \<open>repr\<close> of a string, which only shapes an error text.
\<close>

datatype lifecycle_exc = LifecycleBindingError string

definition UINT64_MAX :: int where "UINT64_MAX = 2 ^ 64 - 1"

definition parse_generation :: "pyval \<Rightarrow> string \<Rightarrow> lifecycle_exc + int" where
  "parse_generation v label =
     (case as_int v of
        None \<Rightarrow> Inl (LifecycleBindingError (label @ '' must be a YAML/integer uint64''))
      | Some n \<Rightarrow> if n < 0 \<or> n > UINT64_MAX
          then Inl (LifecycleBindingError (label @ '' must be within [0, 18446744073709551615]''))
          else Inr n)"

text \<open>
  \<open>validate_contract_descriptor\<close>: a descriptor and its message fields are lists of attributes.
  Iterating text or a mapping gives objects without the two attributes.
\<close>

definition MAP_LIFECYCLE_CONTRACT_ID :: string where "MAP_LIFECYCLE_CONTRACT_ID = ''robonix/service/map/lifecycle''"
definition MAP_LIFECYCLE_MESSAGE_TYPE :: string where "MAP_LIFECYCLE_MESSAGE_TYPE = ''map/msg/MapLifecycle''"

definition MAP_LIFECYCLE_FIELDS :: "(string \<times> string) list" where
  "MAP_LIFECYCLE_FIELDS = [(''map_id'', ''string''), (''mode'', ''string''), (''generation'', ''uint64'')]"

datatype descriptor_exc = BadDescriptor string | DescriptorTypeError

definition field_entry :: "(pyval \<Rightarrow> string) \<Rightarrow> pyval \<Rightarrow> string \<times> string" where
  "field_entry py_repr v = (case v of
       VDict d \<Rightarrow> (py_str py_repr (get_or d ''name'' (VStr [])), py_str py_repr (get_or d ''type_name'' (VStr [])))
     | _ \<Rightarrow> ([], []))"

definition descriptor_fields :: "(pyval \<Rightarrow> string) \<Rightarrow> pyval \<Rightarrow> descriptor_exc + (string \<times> string) list" where
  "descriptor_fields py_repr v =
     (if \<not> truthy v then Inr []
      else case v of
          VList fs \<Rightarrow> Inr (fold (\<lambda>f. AList.update (fst (field_entry py_repr f)) (snd (field_entry py_repr f))) fs [])
        | VStr _ \<Rightarrow> Inr [([], [])] | VDict _ \<Rightarrow> Inr [([], [])]
        | _ \<Rightarrow> Inl DescriptorTypeError)"

definition validate_contract_descriptor ::
  "(pyval \<Rightarrow> string) \<Rightarrow> (string \<times> pyval) list option \<Rightarrow> descriptor_exc + unit" where
  "validate_contract_descriptor py_repr descriptor =
     (case descriptor of
        None \<Rightarrow> Inl (BadDescriptor ''Atlas has no descriptor'')
      | Some d \<Rightarrow>
          if \<not> eq_str (get_or d ''id'' (VStr [])) MAP_LIFECYCLE_CONTRACT_ID
          then Inl (BadDescriptor ''Atlas returned the wrong map lifecycle contract'')
          else if py_str py_repr (get_or d ''version'' (VStr [])) \<noteq> ''1''
          then Inl (BadDescriptor ''map lifecycle contract version must be 1'')
          else if \<not> eq_str (get_or d ''mode'' (VStr [])) ''topic_out''
          then Inl (BadDescriptor ''map lifecycle contract must be topic_out'')
          else if \<not> eq_str (get_or d ''io_msg_type'' (VStr [])) MAP_LIFECYCLE_MESSAGE_TYPE
          then Inl (BadDescriptor ''map lifecycle message type'')
          else obind (descriptor_fields py_repr (get_or d ''msg_fields'' (VList []))) (\<lambda>fields.
            if set fields \<noteq> set MAP_LIFECYCLE_FIELDS
            then Inl (BadDescriptor ''map lifecycle fields do not match the v1 contract'') else Inr ()))"

lemma descriptor_fields_distinct: "descriptor_fields py_repr v = Inr fs \<Longrightarrow> distinct (map fst fs)"
proof -
  have "distinct (map fst (fold (\<lambda>f. AList.update (k f) (w f)) xs ys))" if "distinct (map fst ys)"
    for k :: "pyval \<Rightarrow> string" and w :: "pyval \<Rightarrow> string" and xs ys
    using that by (induction xs arbitrary: ys) (simp_all add: distinct_update)
  then show "descriptor_fields py_repr v = Inr fs \<Longrightarrow> distinct (map fst fs)"
    by (auto simp: descriptor_fields_def split: pyval.splits if_splits)
qed

lemma accepted_descriptor_fields:
  assumes "validate_contract_descriptor py_repr (Some d) = Inr u"
  shows "\<exists>fs. descriptor_fields py_repr (get_or d ''msg_fields'' (VList [])) = Inr fs \<and> map_of fs = map_of MAP_LIFECYCLE_FIELDS"
proof -
  obtain fs where fs: "descriptor_fields py_repr (get_or d ''msg_fields'' (VList [])) = Inr fs"
    "set fs = set MAP_LIFECYCLE_FIELDS"
    using assms by (auto simp: validate_contract_descriptor_def split: if_splits)
  have "distinct (map fst MAP_LIFECYCLE_FIELDS)" by (simp add: MAP_LIFECYCLE_FIELDS_def)
  then have "map_of fs = map_of MAP_LIFECYCLE_FIELDS"
    using map_of_inject_set [OF descriptor_fields_distinct [OF fs(1)]] fs(2) by simp
  then show ?thesis using fs(1) by blast
qed

record map_state =
  ms_map_id :: string
  ms_mode :: string
  ms_generation :: int

text \<open>\<open>MapLifecycleState.from_message\<close>\<close>

definition from_message :: "(string \<Rightarrow> string) \<Rightarrow> (string \<times> pyval) list \<Rightarrow> lifecycle_exc + map_state" where
  "from_message py_repr msg =
     (case (map_of msg ''map_id'', map_of msg ''mode'', map_of msg ''generation'') of
        (Some raw_map_id, Some raw_mode, Some raw_generation) \<Rightarrow>
          (let map_id = (case raw_map_id of VStr s \<Rightarrow> str_strip s | _ \<Rightarrow> []) in
           if map_id = []
           then Inl (LifecycleBindingError
             ''mapping broadcasts an ephemeral/empty map_id; saved landmarks are disabled'')
           else case raw_mode of
               VStr m \<Rightarrow>
                 (let mode = str_lower (str_strip m) in
                  if mode \<noteq> ''mapping'' \<and> mode \<noteq> ''localization''
                  then Inl (LifecycleBindingError (''unsupported MapLifecycle mode '' @ py_repr m))
                  else obind (parse_generation raw_generation ''MapLifecycle generation'') (\<lambda>generation.
                    Inr \<lparr>ms_map_id = map_id, ms_mode = mode, ms_generation = generation\<rparr>))
             | _ \<Rightarrow> Inl (LifecycleBindingError ''MapLifecycle mode must be a string''))
      | _ \<Rightarrow> Inl (LifecycleBindingError ''MapLifecycle sample is missing map_id, mode, or generation''))"

section \<open>LifecycleGuard\<close>

record lifecycle_guard =
  expected_map_id :: string
  expected_generation :: int
  lg_state :: "map_state option"
  lg_error :: string
  lg_revision :: nat
  lg_sample_seen :: bool

text \<open>A \<open>LifecycleSnapshot\<close> is the observable part of the guard.\<close>

record lifecycle_snapshot =
  ls_state :: "map_state option"
  ls_error :: string
  ls_revision :: nat
  ls_sample_seen :: bool

record lifecycle_transition =
  lt_previous :: "map_state option"
  lt_current :: "map_state option"
  lt_error :: string
  lt_revision :: nat

definition LifecycleGuard_init :: "string \<Rightarrow> pyval \<Rightarrow> lifecycle_exc + lifecycle_guard" where
  "LifecycleGuard_init map_id generation =
     (if str_strip map_id = [] then Inl (LifecycleBindingError ''expected map_id is empty'')
      else obind (parse_generation generation ''expected map generation'') (\<lambda>gen.
        Inr \<lparr>expected_map_id = str_strip map_id, expected_generation = gen, lg_state = None,
             lg_error = ''no MapLifecycle sample has been received'', lg_revision = 0, lg_sample_seen = False\<rparr>))"

definition lg_snapshot :: "lifecycle_guard \<Rightarrow> lifecycle_snapshot" where
  "lg_snapshot g = \<lparr>ls_state = lg_state g, ls_error = lg_error g, ls_revision = lg_revision g,
     ls_sample_seen = lg_sample_seen g\<rparr>"

text \<open>The transition is what \<open>_notify\<close> hands to the callback after the lock is released.\<close>

definition lg_observe :: "map_state \<Rightarrow> lifecycle_guard \<Rightarrow> lifecycle_transition option \<times> lifecycle_guard" where
  "lg_observe s g =
     (let changed = (lg_state g \<noteq> Some s \<or> lg_error g \<noteq> []);
          g1 = g\<lparr>lg_state := Some s, lg_error := [], lg_sample_seen := True\<rparr>
      in if changed
         then (let g2 = g1\<lparr>lg_revision := lg_revision g1 + 1\<rparr> in
               (Some \<lparr>lt_previous = lg_state g, lt_current = Some s, lt_error = [], lt_revision = lg_revision g2\<rparr>, g2))
         else (None, g1))"

definition lg_fail :: "string \<Rightarrow> bool \<Rightarrow> lifecycle_guard \<Rightarrow> lifecycle_transition option \<times> lifecycle_guard" where
  "lg_fail reason0 seen g =
     (let reason = (if str_strip reason0 = [] then ''map lifecycle monitor failed'' else str_strip reason0);
          changed = (lg_state g \<noteq> None \<or> lg_error g \<noteq> reason);
          g1 = g\<lparr>lg_state := None, lg_error := reason, lg_sample_seen := lg_sample_seen g \<or> seen\<rparr>
      in if changed
         then (let g2 = g1\<lparr>lg_revision := lg_revision g1 + 1\<rparr> in
               (Some \<lparr>lt_previous = lg_state g, lt_current = None, lt_error = reason, lt_revision = lg_revision g2\<rparr>, g2))
         else (None, g1))"

definition lg_observe_message ::
  "(string \<Rightarrow> string) \<Rightarrow> (string \<times> pyval) list \<Rightarrow> lifecycle_guard \<Rightarrow> lifecycle_transition option \<times> lifecycle_guard" where
  "lg_observe_message py_repr msg g =
     (case from_message py_repr msg of
        Inl (LifecycleBindingError e) \<Rightarrow> lg_fail e True g
      | Inr s \<Rightarrow> lg_observe s g)"

definition require_ready :: "lifecycle_guard \<Rightarrow> lifecycle_exc + lifecycle_snapshot" where
  "require_ready g =
     (if \<not> lg_sample_seen g then Inl (LifecycleBindingError ''no MapLifecycle sample has been received'')
      else if lg_error g \<noteq> [] then Inl (LifecycleBindingError (lg_error g))
      else case lg_state g of
          None \<Rightarrow> Inl (LifecycleBindingError ''MapLifecycle state is unavailable'')
        | Some s \<Rightarrow>
            if ms_mode s \<noteq> ''localization''
            then Inl (LifecycleBindingError ''active map mode is not localization'')
            else if ms_map_id s \<noteq> expected_map_id g
            then Inl (LifecycleBindingError ''active map_id does not match landmark map_id'')
            else if ms_generation s \<noteq> expected_generation g
            then Inl (LifecycleBindingError ''active map generation does not match landmark generation'')
            else Inr (lg_snapshot g))"

section \<open>LifecycleAdmission\<close>

text \<open>Guards and subscribers are compared by identity: they come as object numbers.\<close>

record admission =
  ad_guard :: nat
  ad_subscriber :: nat
  ad_topic :: string
  ad_snapshot :: lifecycle_snapshot

definition validate_current ::
  "bool \<Rightarrow> nat option \<Rightarrow> nat option \<Rightarrow> string \<Rightarrow> bool \<Rightarrow> lifecycle_guard \<Rightarrow> admission \<Rightarrow> lifecycle_exc + lifecycle_snapshot" where
  "validate_current accepting guard subscriber topic alive g a =
     (if \<not> accepting then Inl (LifecycleBindingError ''semantic navigation stopped accepting goals'')
      else if guard \<noteq> Some (ad_guard a) \<or> subscriber \<noteq> Some (ad_subscriber a)
      then Inl (LifecycleBindingError ''map lifecycle binding changed before dispatch'')
      else if topic \<noteq> ad_topic a
      then Inl (LifecycleBindingError ''map lifecycle topic changed before dispatch'')
      else if \<not> alive
      then Inl (LifecycleBindingError ''map lifecycle subscriber stopped before dispatch'')
      else obind (require_ready g) (\<lambda>latest.
        if ls_revision latest \<noteq> ls_revision (ad_snapshot a) \<or> ls_state latest \<noteq> ls_state (ad_snapshot a)
        then Inl (LifecycleBindingError ''map lifecycle state changed before dispatch'')
        else Inr latest))"

section \<open>Lemmas\<close>

definition ready :: "lifecycle_guard \<Rightarrow> bool" where
  "ready g \<longleftrightarrow> lg_sample_seen g \<and> lg_error g = [] \<and>
     lg_state g = Some \<lparr>ms_map_id = expected_map_id g, ms_mode = ''localization'', ms_generation = expected_generation g\<rparr>"

lemma require_ready_Inr: "require_ready g = Inr s \<longleftrightarrow> ready g \<and> s = lg_snapshot g"
  by (auto simp: require_ready_def ready_def split: option.splits)

lemma validate_current_Inr:
  "validate_current accepting guard subscriber topic alive g a = Inr s \<longleftrightarrow>
     accepting \<and> guard = Some (ad_guard a) \<and> subscriber = Some (ad_subscriber a) \<and> topic = ad_topic a \<and> alive \<and>
     ready g \<and> lg_revision g = ls_revision (ad_snapshot a) \<and> lg_state g = ls_state (ad_snapshot a) \<and> s = lg_snapshot g"
  by (auto simp: validate_current_def require_ready_Inr lg_snapshot_def)

datatype lifecycle_event = Message "(string \<times> pyval) list" | Fail string

fun lifecycle_step ::
  "(string \<Rightarrow> string) \<Rightarrow> lifecycle_event \<Rightarrow> lifecycle_guard \<Rightarrow> lifecycle_transition option \<times> lifecycle_guard" where
  "lifecycle_step py_repr (Message m) g = lg_observe_message py_repr m g"
| "lifecycle_step py_repr (Fail reason) g = lg_fail reason False g"

lemma lg_observe_step:
  "lg_observe s g = (t, h) \<Longrightarrow> lg_revision g \<le> lg_revision h \<and>
    (lg_revision h = lg_revision g \<longleftrightarrow> t = None) \<and>
    (t = None \<longrightarrow> lg_state h = lg_state g \<and> lg_error h = lg_error g) \<and>
    (\<forall>x. t = Some x \<longrightarrow> lg_revision h = lg_revision g + 1 \<and> lt_revision x = lg_revision h \<and>
       lt_previous x = lg_state g \<and> lt_current x = lg_state h \<and> lt_error x = lg_error h)"
  by (auto simp: lg_observe_def Let_def split: if_splits)

lemma lg_fail_step:
  "lg_fail r b g = (t, h) \<Longrightarrow> lg_revision g \<le> lg_revision h \<and>
    (lg_revision h = lg_revision g \<longleftrightarrow> t = None) \<and>
    (t = None \<longrightarrow> lg_state h = lg_state g \<and> lg_error h = lg_error g) \<and>
    (\<forall>x. t = Some x \<longrightarrow> lg_revision h = lg_revision g + 1 \<and> lt_revision x = lg_revision h \<and>
       lt_previous x = lg_state g \<and> lt_current x = lg_state h \<and> lt_error x = lg_error h)"
  by (auto simp: lg_fail_def Let_def split: if_splits)

lemma lifecycle_step_facts:
  assumes "lifecycle_step py_repr e g = (t, h)"
  shows "lg_revision g \<le> lg_revision h \<and> (lg_revision h = lg_revision g \<longleftrightarrow> t = None) \<and>
    (t = None \<longrightarrow> lg_state h = lg_state g \<and> lg_error h = lg_error g) \<and>
    (\<forall>x. t = Some x \<longrightarrow> lg_revision h = lg_revision g + 1 \<and> lt_revision x = lg_revision h \<and>
       lt_previous x = lg_state g \<and> lt_current x = lg_state h \<and> lt_error x = lg_error h)"
  using assms lg_observe_step lg_fail_step
  by (cases e) (auto simp: lg_observe_message_def split: sum.splits lifecycle_exc.splits)

text \<open>The revision identifies the state: an unchanged revision means nothing changed in between.\<close>

definition since :: "lifecycle_guard \<Rightarrow> lifecycle_guard \<Rightarrow> bool" where
  "since g h \<longleftrightarrow> lg_revision g \<le> lg_revision h \<and>
     (lg_revision h = lg_revision g \<longrightarrow> lg_state h = lg_state g \<and> lg_error h = lg_error g)"

interpretation epoch: invariant_system "lifecycle_step py_repr" "\<lambda>_ _. True" "since g" for py_repr g
proof unfold_locales
  fix h e
  assume s: "since g h"
  obtain t k where k: "lifecycle_step py_repr e h = (t, k)" by fastforce
  have "since g k"
    using s lifecycle_step_facts [OF k] by (cases t) (auto simp: since_def)
  then show "since g (snd (lifecycle_step py_repr e h))" using k by simp
qed

end
