(* ===== verification/CancelPolicy.thy ===== *)
theory CancelPolicy imports PyVal begin

text \<open>
  \<open>packages/semantic_navigation/semantic_navigation/cancel_policy.py\<close>: the bounded retry loop that
  waits for a confirmed provider terminal state. What the provider answers to the i-th status and
  cancel call and what the clock reads after them are functions of \<open>i\<close>. The loop has no bound of
  its own, so it is a partial function; it returns as soon as the clock passes the deadline.
\<close>

definition CANCEL_TERMINAL_STATES :: "string list" where
  "CANCEL_TERMINAL_STATES = [''SUCCEEDED'', ''CANCELED'', ''FAILED'']"

record cancel_outcome =
  co_terminal :: bool
  co_terminal_state :: string
  co_detail :: string
  co_attempts :: nat
  co_accepted :: bool
  co_timed_out :: bool

datatype status_reply = StatusRaised string | Status bool string string
datatype cancel_reply = CancelRaised string | Cancel bool string

definition or_else :: "string \<Rightarrow> string \<Rightarrow> string" where
  "or_else a b = (if a \<noteq> [] then a else b)"

text \<open>The loop's variables \<open>attempts\<close>, \<open>accepted\<close> and \<open>last_detail\<close>.\<close>

record cancel_vars =
  attempts :: nat
  accepted :: bool
  last_detail :: string

definition clean_state :: "string \<Rightarrow> string" where
  "clean_state s = str_upper (str_strip s)"

definition status_part :: "status_reply \<Rightarrow> cancel_vars \<Rightarrow> cancel_outcome + cancel_vars" where
  "status_part reply v =
     (case reply of
        StatusRaised e \<Rightarrow> Inr (v\<lparr>last_detail := ''navigation status failed: '' @ e\<rparr>)
      | Status known state0 detail \<Rightarrow>
          if \<not> known then Inr (v\<lparr>last_detail := ''navigation status is unknown/not registered''\<rparr>)
          else
            let state = clean_state state0 in
            if state \<in> set CANCEL_TERMINAL_STATES
            then Inl \<lparr>co_terminal = True, co_terminal_state = state,
                   co_detail = or_else detail (''navigation confirmed '' @ state), co_attempts = attempts v,
                   co_accepted = accepted v, co_timed_out = False\<rparr>
            else Inr (v\<lparr>last_detail := or_else detail (''navigation remains '' @ or_else state ''UNKNOWN'')\<rparr>))"

definition cancel_part :: "cancel_reply \<Rightarrow> cancel_vars \<Rightarrow> cancel_vars" where
  "cancel_part reply v =
     (case reply of
        CancelRaised e \<Rightarrow> v\<lparr>attempts := attempts v + 1, last_detail := ''navigation cancel failed: '' @ e\<rparr>
      | Cancel True detail \<Rightarrow> v\<lparr>attempts := attempts v + 1, accepted := True,
          last_detail := or_else detail ''cancel submitted; terminal not confirmed''\<rparr>
      | Cancel False detail \<Rightarrow> v\<lparr>attempts := attempts v + 1,
          last_detail := or_else detail ''cancel request rejected''\<rparr>)"

definition timeout_outcome :: "cancel_vars \<Rightarrow> cancel_outcome" where
  "timeout_outcome v = \<lparr>co_terminal = False, co_terminal_state = [], co_detail = last_detail v,
     co_attempts = attempts v, co_accepted = accepted v, co_timed_out = True\<rparr>"

partial_function (option) cancel_loop ::
  "(nat \<Rightarrow> status_reply) \<Rightarrow> (nat \<Rightarrow> cancel_reply) \<Rightarrow> (nat \<Rightarrow> pyfloat) \<Rightarrow> pyfloat \<Rightarrow> nat \<Rightarrow> cancel_vars
   \<Rightarrow> cancel_outcome option" where
  [code]: "cancel_loop status cancel clock deadline i v =
     (case status_part (status i) v of
        Inl outcome \<Rightarrow> Some outcome
      | Inr w \<Rightarrow>
          let u = cancel_part (cancel i) w in
          if fle (fsub deadline (clock i)) (Fin 0) then Some (timeout_outcome u)
          else cancel_loop status cancel clock deadline (Suc i) u)"

datatype cancel_result = PolicyValueError | Outcome cancel_outcome

definition cancel_until_terminal ::
  "(nat \<Rightarrow> status_reply) \<Rightarrow> (nat \<Rightarrow> cancel_reply) \<Rightarrow> pyfloat \<Rightarrow> (nat \<Rightarrow> pyfloat) \<Rightarrow> pyfloat \<Rightarrow> pyfloat
   \<Rightarrow> cancel_result option" where
  "cancel_until_terminal status cancel start clock timeout_s poll_s =
     (if fle timeout_s (Fin 0) \<or> fle poll_s (Fin 0) then Some PolicyValueError
      else map_option Outcome (cancel_loop status cancel clock (fadd start timeout_s) 0
             \<lparr>attempts = 0, accepted = False, last_detail = ''no status or cancel response''\<rparr>))"

section \<open>What the loop returns\<close>

definition confirms :: "status_reply \<Rightarrow> string \<Rightarrow> bool" where
  "confirms reply st \<longleftrightarrow> (case reply of StatusRaised e \<Rightarrow> False
     | Status known state detail \<Rightarrow> known \<and> clean_state state = st \<and> st \<in> set CANCEL_TERMINAL_STATES)"

lemma status_part_Inl:
  "status_part reply v = Inl out \<Longrightarrow> co_terminal out \<and> \<not> co_timed_out out \<and> confirms reply (co_terminal_state out) \<and>
     co_attempts out = attempts v \<and> co_accepted out = accepted v"
  by (auto simp: status_part_def confirms_def Let_def split: status_reply.splits if_splits)

lemma status_part_Inr:
  "status_part reply v = Inr w \<Longrightarrow> (\<forall>st. \<not> confirms reply st) \<and> attempts w = attempts v \<and> accepted w = accepted v"
  by (auto simp: status_part_def confirms_def Let_def split: status_reply.splits if_splits)

lemma cancel_part_simps [simp]:
  "attempts (cancel_part reply v) = attempts v + 1"
  "accepted (cancel_part reply v) \<longleftrightarrow> accepted v \<or> (\<exists>d. reply = Cancel True d)"
  by (auto simp: cancel_part_def split: cancel_reply.split bool.split)

text \<open>
  The outcome of a loop entered in round \<open>i\<close> is decided in some round \<open>n\<close>: the first that confirms a
  terminal state or reads the clock past the deadline.
\<close>

definition decided_at ::
  "(nat \<Rightarrow> status_reply) \<Rightarrow> (nat \<Rightarrow> cancel_reply) \<Rightarrow> (nat \<Rightarrow> pyfloat) \<Rightarrow> pyfloat \<Rightarrow> nat \<Rightarrow> cancel_vars \<Rightarrow> nat
   \<Rightarrow> cancel_outcome \<Rightarrow> bool" where
  "decided_at status cancel clock deadline i v n out \<longleftrightarrow>
     i \<le> n \<and> (\<forall>k st. i \<le> k \<longrightarrow> k < n \<longrightarrow> \<not> confirms (status k) st) \<and>
     (\<forall>k. i \<le> k \<longrightarrow> k < n \<longrightarrow> \<not> fle (fsub deadline (clock k)) (Fin 0)) \<and>
     (if co_terminal out
      then confirms (status n) (co_terminal_state out) \<and> \<not> co_timed_out out \<and> co_attempts out = attempts v + (n - i)
      else co_timed_out out \<and> (\<forall>st. \<not> confirms (status n) st) \<and> fle (fsub deadline (clock n)) (Fin 0) \<and>
        co_attempts out = attempts v + (n - i) + 1)"

lemma cancel_loop_decided:
  assumes "cancel_loop status cancel clock deadline i v = Some out"
  shows "\<exists>n. decided_at status cancel clock deadline i v n out"
proof (rule cancel_loop.raw_induct [OF _ assms])
  fix loop status cancel clock deadline i v out
  assume IH: "\<And>status cancel clock deadline i v out. loop status cancel clock deadline i v = Some out \<Longrightarrow>
      \<exists>n. decided_at status cancel clock deadline i v n out"
    and body: "(case status_part (status i) v of
        Inl outcome \<Rightarrow> Some outcome
      | Inr w \<Rightarrow>
          let u = cancel_part (cancel i) w in
          if fle (fsub deadline (clock i)) (Fin 0) then Some (timeout_outcome u)
          else loop status cancel clock deadline (Suc i) u) = Some out"
  show "\<exists>n. decided_at status cancel clock deadline i v n out"
  proof (cases "status_part (status i) v")
    case (Inl o')
    then show ?thesis using body status_part_Inl [OF Inl] by (auto simp: decided_at_def intro!: exI [of _ i])
  next
    case (Inr w)
    let ?u = "cancel_part (cancel i) w"
    have w: "\<forall>st. \<not> confirms (status i) st" "attempts w = attempts v" using status_part_Inr [OF Inr] by auto
    show ?thesis
    proof (cases "fle (fsub deadline (clock i)) (Fin 0)")
      case True
      then show ?thesis using body Inr w
        by (auto simp: decided_at_def timeout_outcome_def Let_def intro!: exI [of _ i])
    next
      case False
      then have "loop status cancel clock deadline (Suc i) ?u = Some out" using body Inr by (simp add: Let_def)
      then obtain n where n: "decided_at status cancel clock deadline (Suc i) ?u n out" using IH by blast
      have "\<not> confirms (status k) st" if "i \<le> k" "k < n" for k st
        using n w(1) that by (cases "k = i") (auto simp: decided_at_def)
      moreover have "\<not> fle (fsub deadline (clock k)) (Fin 0)" if "i \<le> k" "k < n" for k
        using n False that by (cases "k = i") (auto simp: decided_at_def)
      ultimately have "decided_at status cancel clock deadline i v n out"
        using n w(2) by (auto simp: decided_at_def split: if_splits)
      then show ?thesis by blast
    qed
  qed
qed

lemma cancel_loop_returns:
  assumes "i \<le> n" "fle (fsub deadline (clock n)) (Fin 0)"
  shows "\<exists>out. cancel_loop status cancel clock deadline i v = Some out"
  using assms(1)
proof (induction "n - i" arbitrary: i v)
  case 0
  then show ?case using assms(2) by (subst cancel_loop.simps) (auto simp: Let_def split: sum.split)
next
  case (Suc d)
  then have "\<exists>out. cancel_loop status cancel clock deadline (Suc i) u = Some out" for u by auto
  then show ?case by (subst cancel_loop.simps) (auto simp: Let_def split: sum.split)
qed

end
