(* ===== verification/Landmarks.thy ===== *)
theory Landmarks imports PyVal GuardEvidence MapLifecycle "HOL-Library.Sublist" begin

text \<open>
  \<open>packages/semantic_navigation/semantic_navigation/core.py\<close>: loading saved landmarks and resolving
  an utterance to one of them. Parameters: \<open>nrm\<close> for \<open>normalize_text\<close> (its NFKC step is the
  Unicode database; \<open>normalize_ascii\<close> is what it does on ASCII text), \<open>py_repr\<close> for \<open>str\<close> of a value
  that is not text, \<open>py_sum\<close> for the builtin \<open>sum\<close> of floats, and the \<open>math\<close> functions in \<open>libm\<close>.
\<close>

datatype landmark_exc = LandmarkError string | LandmarkOverflow

definition insist :: "bool \<Rightarrow> string \<Rightarrow> landmark_exc + unit" where
  "insist ok msg = raise_unless ok (LandmarkError msg)"

lemma insist_Inr [simp]: "insist b msg = Inr u \<longleftrightarrow> b"
  by (simp add: insist_def)

definition ascii_separators :: string where
  "ascii_separators = '' ,.!?;:()[]<>_-'' @ [CHR 0x22, CHR 0x27, CHR 0x09, CHR 0x0A, CHR 0x0B, CHR 0x0C, CHR 0x0D,
     CHR 0x1C, CHR 0x1D, CHR 0x1E, CHR 0x1F]"

definition normalize_ascii :: "string \<Rightarrow> string" where
  "normalize_ascii s = filter (\<lambda>c. c \<notin> set ascii_separators) (str_lower s)"

definition normalize_yaw :: "libm \<Rightarrow> pyfloat \<Rightarrow> pyfloat" where
  "normalize_yaw m v = m_atan2 m (m_sin m v) (m_cos m v)"

section \<open>Values\<close>

definition finite_value :: "pyval \<Rightarrow> string \<Rightarrow> landmark_exc + pyfloat" where
  "finite_value v label =
     (if as_bool v \<noteq> None then Inl (LandmarkError (label @ '' must be a finite number''))
      else case to_float v of
          Inl OverflowError \<Rightarrow> Inl LandmarkOverflow
        | Inl _ \<Rightarrow> Inl (LandmarkError (label @ '' must be a finite number''))
        | Inr f \<Rightarrow> if isfinite f then Inr f else Inl (LandmarkError (label @ '' must be a finite number'')))"

section \<open>Regions\<close>

definition parse_point :: "pyval \<Rightarrow> landmark_exc + pyfloat \<times> pyfloat" where
  "parse_point v = (case v of
       VList [a, b] \<Rightarrow> obind (finite_value a ''region point x'') (\<lambda>x.
         obind (finite_value b ''region point y'') (\<lambda>y. Inr (x, y)))
     | _ \<Rightarrow> Inl (LandmarkError ''region point must be [x, y]''))"

definition cross_terms :: "(pyfloat \<times> pyfloat) list \<Rightarrow> pyfloat list" where
  "cross_terms ps = map (\<lambda>((x1, y1), (x2, y2)). fsub (fmul x1 y2) (fmul x2 y1)) (zip ps (tl ps @ [hd ps]))"

definition parse_region ::
  "(pyfloat list \<Rightarrow> pyfloat) \<Rightarrow> pyval \<Rightarrow> landmark_exc + (pyfloat \<times> pyfloat) list option" where
  "parse_region py_sum v =
     (case v of
        VNone \<Rightarrow> Inr None
      | VDict d \<Rightarrow>
          (case dict_get d ''points'' of
             VList ps \<Rightarrow>
               if length ps < 3 then Inl (LandmarkError ''region.points must contain at least three points'')
               else obind (all_ok parse_point ps) (\<lambda>parsed.
                 obind (insist (3 \<le> length (remdups parsed)) ''region must contain three distinct points'') (\<lambda>_.
                 obind (insist (\<not> fle (fabs (py_sum (cross_terms parsed))) (fl (1 / 10 ^ 9)))
                   ''region polygon has zero area'') (\<lambda>_. Inr (Some parsed))))
           | _ \<Rightarrow> Inl (LandmarkError ''region.points must contain at least three points''))
      | _ \<Rightarrow> Inl (LandmarkError ''region must be a mapping''))"

section \<open>Landmarks\<close>

record landmark =
  lm_id :: string
  lm_name :: string
  lm_aliases :: "string list"
  lm_kind :: string
  lm_map_id :: string
  lm_map_generation :: int
  lm_frame_id :: string
  lm_pose :: "(pyfloat \<times> pyfloat \<times> pyfloat) option"
  lm_arrival_radius :: "pyfloat option"
  lm_region :: "(pyfloat \<times> pyfloat) list option"
  lm_verified :: bool
  lm_metadata :: "(string \<times> pyval) list"

definition lm_terms :: "landmark \<Rightarrow> string list" where
  "lm_terms l = lm_name l # lm_aliases l"

definition navigable :: "landmark \<Rightarrow> bool" where
  "navigable l \<longleftrightarrow> lm_kind l = ''navigation''"

record landmark_store =
  st_map_id :: string
  st_map_generation :: int
  st_frame_id :: string
  st_landmarks :: "landmark list"

definition LandmarkStore_init :: "string \<Rightarrow> int \<Rightarrow> string \<Rightarrow> landmark list \<Rightarrow> landmark_exc + landmark_store" where
  "LandmarkStore_init map_id gen frame ls =
     obind (insist (str_strip map_id \<noteq> []) ''landmark file has an empty map_id'') (\<lambda>_.
     obind (insist (frame = ''map'') ''landmark frame must be map'') (\<lambda>_.
     obind (insist (ls \<noteq> []) ''landmark file contains no landmarks'') (\<lambda>_.
     obind (insist (distinct (map lm_id ls)) ''landmark ids must be unique'') (\<lambda>_.
     Inr \<lparr>st_map_id = map_id, st_map_generation = gen, st_frame_id = frame, st_landmarks = ls\<rparr>))))"

definition parse_pose :: "libm \<Rightarrow> pyval \<Rightarrow> landmark_exc + (pyfloat \<times> pyfloat \<times> pyfloat) option" where
  "parse_pose lm v =
     (let field = (\<lambda>d k. case map_of d k of
            None \<Rightarrow> Inl (LandmarkError ''landmark pose requires x, y and yaw'')
          | Some w \<Rightarrow> finite_value w (''pose.'' @ k)) in
      case v of
        VNone \<Rightarrow> Inr None
      | VDict d \<Rightarrow> obind (field d ''x'') (\<lambda>x. obind (field d ''y'') (\<lambda>y. obind (field d ''yaw'') (\<lambda>yaw.
          Inr (Some (x, y, normalize_yaw lm yaw)))))
      | _ \<Rightarrow> Inl (LandmarkError ''landmark pose must be a mapping''))"

definition parse_radius :: "string \<Rightarrow> (string \<times> pyval) list \<Rightarrow> landmark_exc + pyfloat option" where
  "parse_radius kind row =
     (if kind = ''navigation'' then
        obind (finite_value (get_or row ''arrival_radius'' (VFloat (fl (35 / 100)))) ''arrival_radius'') (\<lambda>r.
        obind (insist (fle (fl (5 / 100)) r \<and> fle r (Fin 10)) ''arrival_radius must be between 0.05 and 10.0 metres'') (\<lambda>_.
        Inr (Some r)))
      else if map_of row ''arrival_radius'' \<noteq> None
      then Inl (LandmarkError ''non-navigation marker cannot set arrival_radius'') else Inr None)"

definition alias_list :: "(pyval \<Rightarrow> string) \<Rightarrow> pyval list \<Rightarrow> string list" where
  "alias_list py_repr vs = filter (\<lambda>s. s \<noteq> []) (map (\<lambda>v. str_strip (py_str py_repr v)) vs)"

definition list_value :: "pyval \<Rightarrow> pyval list option" where
  "list_value v = (if \<not> truthy v then Some [] else case v of VList xs \<Rightarrow> Some xs | _ \<Rightarrow> None)"

definition dict_value :: "pyval \<Rightarrow> (string \<times> pyval) list option" where
  "dict_value v = (if \<not> truthy v then Some [] else case v of VDict d \<Rightarrow> Some d | _ \<Rightarrow> None)"

text \<open>One row of the document, in the order the code checks it.\<close>

definition parse_row ::
  "libm \<Rightarrow> (pyval \<Rightarrow> string) \<Rightarrow> (pyfloat list \<Rightarrow> pyfloat) \<Rightarrow> string \<Rightarrow> int \<Rightarrow> string \<Rightarrow> pyval \<Rightarrow> landmark_exc + landmark" where
  "parse_row lm py_repr py_sum map_id gen frame v =
     (case v of
        VDict row \<Rightarrow>
          let i = str_strip (py_str py_repr (get_or row ''id'' (VStr [])));
              name = str_strip (py_str py_repr (get_or row ''name'' (VStr [])));
              kind = str_strip (py_str py_repr (get_or row ''kind'' (VStr ''navigation''))) in
          obind (parse_region py_sum (dict_get row ''region'')) (\<lambda>region.
          obind (insist (i \<noteq> [] \<and> name \<noteq> []) ''landmark requires id and name'') (\<lambda>_.
          obind (insist (kind = ''navigation'' \<or> kind = ''marker'') ''landmark kind must be marker or navigation'') (\<lambda>_.
          obind (case list_value (dict_get row ''aliases'') of
              None \<Rightarrow> Inl (LandmarkError ''landmark aliases must be a list'') | Some vs \<Rightarrow> Inr vs) (\<lambda>aliases.
          obind (case as_bool (get_or row ''verified'' (VBool False)) of
              None \<Rightarrow> Inl (LandmarkError ''landmark verified must be a YAML boolean'') | Some b \<Rightarrow> Inr b) (\<lambda>verified.
          obind (case dict_value (dict_get row ''metadata'') of
              None \<Rightarrow> Inl (LandmarkError ''landmark metadata must be a mapping'') | Some d \<Rightarrow> Inr d) (\<lambda>metadata.
          obind (parse_pose lm (dict_get row ''pose'')) (\<lambda>pose.
          obind (insist (\<not> (kind = ''navigation'' \<and> pose = None)) ''navigation landmark requires a point pose'') (\<lambda>_.
          obind (insist (\<not> (kind = ''marker'' \<and> pose = None \<and> region = None)) ''marker requires a point pose or region'') (\<lambda>_.
          obind (parse_radius kind row) (\<lambda>radius.
          Inr \<lparr>lm_id = i, lm_name = name, lm_aliases = alias_list py_repr aliases, lm_kind = kind,
               lm_map_id = map_id, lm_map_generation = gen, lm_frame_id = frame, lm_pose = pose,
               lm_arrival_radius = radius, lm_region = region, lm_verified = verified,
               lm_metadata = metadata\<rparr>))))))))))
      | _ \<Rightarrow> Inl (LandmarkError ''landmark must be a mapping''))"

text \<open>The loop over the terms of one landmark, and over the rows; \<open>seen\<close> is \<open>seen_terms\<close>.\<close>

fun claim_terms ::
  "(string \<Rightarrow> string) \<Rightarrow> string \<Rightarrow> string list \<Rightarrow> (string \<rightharpoonup> string) \<Rightarrow> landmark_exc + (string \<rightharpoonup> string)" where
  "claim_terms nrm i [] seen = Inr seen"
| "claim_terms nrm i (t # ts) seen =
     (let n = nrm t in
      if n = [] then Inl (LandmarkError ''landmark contains an empty term'')
      else if seen n \<noteq> None \<and> seen n \<noteq> Some i then Inl (LandmarkError ''ambiguous normalized landmark term'')
      else claim_terms nrm i ts (seen(n \<mapsto> i)))"

fun load_rows ::
  "(pyval \<Rightarrow> landmark_exc + landmark) \<Rightarrow> (string \<Rightarrow> string) \<Rightarrow> pyval list \<Rightarrow> (string \<rightharpoonup> string)
   \<Rightarrow> landmark_exc + landmark list" where
  "load_rows parse nrm [] seen = Inr []"
| "load_rows parse nrm (row # rows) seen =
     obind (parse row) (\<lambda>l.
     obind (claim_terms nrm (lm_id l) (lm_terms l) seen) (\<lambda>seen'.
     obind (load_rows parse nrm rows seen') (\<lambda>ls. Inr (l # ls))))"

definition from_mapping ::
  "libm \<Rightarrow> (pyval \<Rightarrow> string) \<Rightarrow> (pyfloat list \<Rightarrow> pyfloat) \<Rightarrow> (string \<Rightarrow> string) \<Rightarrow> pyval \<Rightarrow> landmark_exc + landmark_store" where
  "from_mapping lm py_repr py_sum nrm raw =
     (case raw of
        VDict d \<Rightarrow>
          obind (insist (eq_int (dict_get d ''schema_version'') 2) ''unsupported semantic landmark schema_version'') (\<lambda>_.
          let map_id = str_strip (py_str py_repr (get_or d ''map_id'' (VStr []))) in
          obind (case parse_generation (dict_get d ''map_generation'') ''landmark map_generation'' of
              Inl (LifecycleBindingError e) \<Rightarrow> Inl (LandmarkError e) | Inr g \<Rightarrow> Inr g) (\<lambda>gen.
          let frame = str_strip (py_str py_repr (get_or d ''frame_id'' (VStr ''map''))) in
          obind (case dict_get d ''landmarks'' of VList rows \<Rightarrow> Inr rows
            | _ \<Rightarrow> Inl (LandmarkError ''landmarks must be a list'')) (\<lambda>rows.
          obind (load_rows (parse_row lm py_repr py_sum map_id gen frame) nrm rows Map.empty) (\<lambda>ls.
          LandmarkStore_init map_id gen frame ls))))
      | _ \<Rightarrow> Inl (LandmarkError ''landmark document must be a mapping''))"

section \<open>Resolving\<close>

text \<open>One entry per matching term, in the order of the nested loops.\<close>

definition term_matches :: "(string \<Rightarrow> string) \<Rightarrow> string \<Rightarrow> string \<Rightarrow> bool" where
  "term_matches nrm query t \<longleftrightarrow> nrm t \<noteq> [] \<and> sublist (nrm t) query"

definition match_items :: "(string \<Rightarrow> string) \<Rightarrow> string \<Rightarrow> landmark list \<Rightarrow> landmark list" where
  "match_items nrm query ls =
     concat (map (\<lambda>l. map (\<lambda>_. l) (filter (term_matches nrm query) (lm_terms l))) ls)"

definition resolve ::
  "(string \<Rightarrow> string) \<Rightarrow> landmark_store \<Rightarrow> string \<Rightarrow> string \<Rightarrow> int \<Rightarrow> bool \<Rightarrow> landmark_exc + landmark" where
  "resolve nrm st utterance expected_map expected_gen require_verified =
     (let query = nrm utterance in
      obind (insist (query \<noteq> []) ''landmark name is empty'') (\<lambda>_.
      obind (insist (st_map_id st = expected_map) ''landmark map_id does not match active map'') (\<lambda>_.
      obind (insist (st_map_generation st = expected_gen) ''landmark map generation does not match active map'') (\<lambda>_.
      let found = match_items nrm query (st_landmarks st);
          matches = filter navigable found; markers = filter (\<lambda>l. \<not> navigable l) found in
      if matches = [] then
        (if markers \<noteq> [] then Inl (LandmarkError ''matched non-navigation marker(s)'')
         else Inl (LandmarkError ''unknown semantic landmark''))
      else if length (remdups (map lm_id matches)) \<noteq> 1 then Inl (LandmarkError ''ambiguous semantic landmark'')
      else
        let item = last matches in
        if require_verified \<and> \<not> lm_verified item
        then Inl (LandmarkError ''landmark has no physically verified approach pose'') else Inr item))))"

section \<open>What loading guarantees\<close>

text \<open>Names claimed by a landmark belong to it alone.\<close>

lemma map_le_Some: "f \<subseteq>\<^sub>m g \<Longrightarrow> f x = Some y \<Longrightarrow> g x = Some y"
  by (metis domI map_le_def)

lemma claim_terms_Inr:
  "claim_terms nrm i ts seen = Inr seen' \<Longrightarrow>
     (\<forall>t \<in> set ts. nrm t \<noteq> [] \<and> seen' (nrm t) = Some i) \<and> seen \<subseteq>\<^sub>m seen'"
proof (induction ts arbitrary: seen)
  case Nil
  then show ?case by simp
next
  case (Cons t ts)
  have t: "nrm t \<noteq> []" "seen (nrm t) = None \<or> seen (nrm t) = Some i"
    "claim_terms nrm i ts (seen(nrm t \<mapsto> i)) = Inr seen'"
    using Cons.prems by (auto simp: Let_def split: if_splits)
  have le: "seen \<subseteq>\<^sub>m seen(nrm t \<mapsto> i)" using t(2) by (auto simp: map_le_def)
  have IH: "\<forall>t \<in> set ts. nrm t \<noteq> [] \<and> seen' (nrm t) = Some i" "seen(nrm t \<mapsto> i) \<subseteq>\<^sub>m seen'"
    using Cons.IH [OF t(3)] by blast+
  have "seen' (nrm t) = Some i" using map_le_Some [OF IH(2)] by simp
  then show ?case using t(1) IH map_le_trans [OF le IH(2)] by auto
qed

lemma load_rows_terms:
  "load_rows parse nrm rows seen = Inr ls \<Longrightarrow>
     \<exists>seen'. seen \<subseteq>\<^sub>m seen' \<and>
       (\<forall>l \<in> set ls. \<forall>t \<in> set (lm_terms l). nrm t \<noteq> [] \<and> seen' (nrm t) = Some (lm_id l))"
proof (induction rows arbitrary: seen ls)
  case Nil
  then show ?case by (auto intro: map_le_refl)
next
  case (Cons row rows)
  obtain l seen1 rest where l: "parse row = Inr l" "claim_terms nrm (lm_id l) (lm_terms l) seen = Inr seen1"
    "load_rows parse nrm rows seen1 = Inr rest" "ls = l # rest"
    using Cons.prems by auto
  obtain seen' where s: "seen1 \<subseteq>\<^sub>m seen'"
    "\<forall>l \<in> set rest. \<forall>t \<in> set (lm_terms l). nrm t \<noteq> [] \<and> seen' (nrm t) = Some (lm_id l)"
    using Cons.IH [OF l(3)] by blast
  have c: "\<forall>t \<in> set (lm_terms l). nrm t \<noteq> [] \<and> seen1 (nrm t) = Some (lm_id l)" "seen \<subseteq>\<^sub>m seen1"
    using claim_terms_Inr [OF l(2)] by auto
  have "seen' (nrm t) = Some (lm_id l)" if "t \<in> set (lm_terms l)" for t
    using c(1) that map_le_Some [OF s(1)] by blast
  then show ?case using c s l(4) map_le_trans [OF c(2) s(1)] by (auto intro!: exI [of _ seen'])
qed

lemma load_rows_parsed: "load_rows parse nrm rows seen = Inr ls \<Longrightarrow> l \<in> set ls \<Longrightarrow> \<exists>row. parse row = Inr l"
  by (induction parse nrm rows seen arbitrary: ls rule: load_rows.induct) auto


text \<open>A landmark read from a row.\<close>

definition landmark_ok :: "landmark \<Rightarrow> bool" where
  "landmark_ok l \<longleftrightarrow> lm_id l \<noteq> [] \<and> lm_name l \<noteq> [] \<and>
     (lm_kind l = ''navigation'' \<and> lm_pose l \<noteq> None \<and>
        (\<exists>r. lm_arrival_radius l = Some r \<and> isfinite r \<and> fle (fl (5 / 100)) r \<and> fle r (Fin 10)) \<or>
      lm_kind l = ''marker'' \<and> (lm_pose l \<noteq> None \<or> lm_region l \<noteq> None) \<and> lm_arrival_radius l = None) \<and>
     (\<forall>x y yaw. lm_pose l = Some (x, y, yaw) \<longrightarrow> isfinite x \<and> isfinite y) \<and>
     (\<forall>ps. lm_region l = Some ps \<longrightarrow> 3 \<le> length (remdups ps) \<and> (\<forall>(x, y) \<in> set ps. isfinite x \<and> isfinite y))"

lemma finite_value_Inr: "finite_value v s = Inr f \<Longrightarrow> isfinite f"
  by (auto simp: finite_value_def split: if_splits sum.splits conversion_error.splits)

lemma parse_pose_Inr: "parse_pose lm v = Inr (Some (x, y, yaw)) \<Longrightarrow> isfinite x \<and> isfinite y"
  by (auto simp: parse_pose_def Let_def split: pyval.splits option.splits dest!: finite_value_Inr)

lemma parse_point_Inr: "parse_point v = Inr (x, y) \<Longrightarrow> isfinite x \<and> isfinite y"
  by (auto simp: parse_point_def split: pyval.splits list.splits dest!: finite_value_Inr)

lemma parse_region_Inr:
  assumes "parse_region py_sum v = Inr (Some ps)"
  shows "3 \<le> length (remdups ps) \<and> (\<forall>(x, y) \<in> set ps. isfinite x \<and> isfinite y)"
proof -
  obtain vs where v: "all_ok parse_point vs = Inr ps" "3 \<le> length (remdups ps)"
    using assms by (auto simp: parse_region_def split: pyval.splits if_splits)
  have "isfinite x \<and> isfinite y" if xy: "(x, y) \<in> set ps" for x y
    using all_ok_member [OF v(1) xy] parse_point_Inr by blast
  then show ?thesis using v(2) by auto
qed

lemma parse_radius_Inr:
  "parse_radius kind row = Inr r \<Longrightarrow>
     (if kind = ''navigation'' then \<exists>q. r = Some q \<and> isfinite q \<and> fle (fl (5 / 100)) q \<and> fle q (Fin 10) else r = None)"
  by (auto simp: parse_radius_def split: if_splits dest!: finite_value_Inr)

lemma parse_row_ok:
  assumes "parse_row lm py_repr py_sum map_id gen frame v = Inr l"
  shows "landmark_ok l \<and> lm_map_id l = map_id \<and> lm_map_generation l = gen \<and> lm_frame_id l = frame"
proof -
  obtain row where v: "v = VDict row" using assms by (auto simp: parse_row_def split: pyval.splits)
  obtain region pose radius where p: "parse_region py_sum (dict_get row ''region'') = Inr region"
    "parse_pose lm (dict_get row ''pose'') = Inr pose" "parse_radius (lm_kind l) row = Inr radius"
    "lm_region l = region" "lm_pose l = pose" "lm_arrival_radius l = radius"
    "lm_id l \<noteq> []" "lm_name l \<noteq> []" "lm_kind l = ''navigation'' \<or> lm_kind l = ''marker''"
    "\<not> (lm_kind l = ''navigation'' \<and> pose = None)" "\<not> (lm_kind l = ''marker'' \<and> pose = None \<and> region = None)"
    "lm_map_id l = map_id" "lm_map_generation l = gen" "lm_frame_id l = frame"
    using assms unfolding v parse_row_def by (auto simp: Let_def)
  show ?thesis
    using p(4-) parse_radius_Inr [OF p(3)] parse_pose_Inr [of lm "dict_get row ''pose''"]
      parse_region_Inr [of py_sum "dict_get row ''region''"] p(1,2)
    unfolding landmark_ok_def by (auto split: if_splits)
qed

definition store_ok :: "(string \<Rightarrow> string) \<Rightarrow> landmark_store \<Rightarrow> bool" where
  "store_ok nrm st \<longleftrightarrow> st_frame_id st = ''map'' \<and> st_landmarks st \<noteq> [] \<and> distinct (map lm_id (st_landmarks st)) \<and>
     0 \<le> st_map_generation st \<and> st_map_generation st \<le> UINT64_MAX \<and>
     (\<forall>l \<in> set (st_landmarks st). landmark_ok l \<and> lm_map_id l = st_map_id st \<and>
        lm_map_generation l = st_map_generation st \<and> (\<forall>t \<in> set (lm_terms l). nrm t \<noteq> [])) \<and>
     (\<forall>l \<in> set (st_landmarks st). \<forall>k \<in> set (st_landmarks st). \<forall>t \<in> set (lm_terms l). \<forall>u \<in> set (lm_terms k).
        nrm t = nrm u \<longrightarrow> l = k)"

lemma from_mapping_store_ok:
  assumes "from_mapping lm py_repr py_sum nrm raw = Inr st"
  shows "store_ok nrm st"
proof -
  obtain d map_id gen frame rows ls where r: "raw = VDict d"
    "parse_generation (dict_get d ''map_generation'') ''landmark map_generation'' = Inr gen"
    "load_rows (parse_row lm py_repr py_sum map_id gen frame) nrm rows Map.empty = Inr ls"
    "LandmarkStore_init map_id gen frame ls = Inr st"
    using assms by (auto simp: from_mapping_def Let_def split: pyval.splits sum.splits lifecycle_exc.splits)
  have st: "st_map_id st = map_id" "st_map_generation st = gen" "st_frame_id st = ''map''" "st_landmarks st = ls"
    "ls \<noteq> []" "distinct (map lm_id ls)"
    using r(4) by (auto simp: LandmarkStore_init_def)
  have gen: "0 \<le> gen \<and> gen \<le> UINT64_MAX"
    using r(2) by (auto simp: parse_generation_def split: option.splits if_splits)
  have each: "landmark_ok l \<and> lm_map_id l = map_id \<and> lm_map_generation l = gen" if "l \<in> set ls" for l
    using load_rows_parsed [OF r(3) that] parse_row_ok by blast
  obtain seen where s: "\<forall>l \<in> set ls. \<forall>t \<in> set (lm_terms l). nrm t \<noteq> [] \<and> seen (nrm t) = Some (lm_id l)"
    using load_rows_terms [OF r(3)] by blast
  have "l = k" if "l \<in> set ls" "k \<in> set ls" "t \<in> set (lm_terms l)" "u \<in> set (lm_terms k)" "nrm t = nrm u" for l k t u
  proof -
    have "lm_id l = lm_id k" using s that by (metis option.inject)
    then show ?thesis using st(6) that(1,2) by (auto simp: distinct_map inj_on_def)
  qed
  then show ?thesis unfolding store_ok_def st using st(5,6) gen each s by blast
qed

section \<open>What resolving guarantees\<close>

definition mentioned :: "(string \<Rightarrow> string) \<Rightarrow> string \<Rightarrow> landmark \<Rightarrow> bool" where
  "mentioned nrm query l \<longleftrightarrow> (\<exists>t \<in> set (lm_terms l). term_matches nrm query t)"

lemma match_items_set: "l \<in> set (match_items nrm query ls) \<longleftrightarrow> l \<in> set ls \<and> mentioned nrm query l"
  by (auto simp: match_items_def mentioned_def)

lemma one_id:
  "xs \<noteq> [] \<Longrightarrow> length (remdups (map f xs)) = 1 \<longleftrightarrow> (\<forall>x \<in> set xs. f x = f (last xs))"
proof -
  assume ne: "xs \<noteq> []"
  have "length (remdups (map f xs)) = card (f ` set xs)" by (simp add: length_remdups_card_conv)
  moreover have "card (f ` set xs) = 1 \<longleftrightarrow> (\<forall>x \<in> set xs. f x = f (last xs))"
  proof
    assume "card (f ` set xs) = 1"
    then obtain y where y: "f ` set xs = {y}" by (auto simp: card_1_singleton_iff)
    then have "f x = y" if "x \<in> set xs" for x using that by blast
    then show "\<forall>x \<in> set xs. f x = f (last xs)" using ne by simp
  next
    assume all: "\<forall>x \<in> set xs. f x = f (last xs)"
    define y where "y = f (last xs)"
    have "f ` set xs = (\<lambda>_. y) ` set xs" using all by (intro image_cong) (simp_all add: y_def)
    then have "f ` set xs = {y}" using ne by (simp add: image_constant_conv)
    then show "card (f ` set xs) = 1" by simp
  qed
  ultimately show ?thesis by simp
qed

lemma resolve_iff:
  assumes "distinct (map lm_id (st_landmarks st))"
  shows "resolve nrm st utterance m g rv = Inr l \<longleftrightarrow>
    nrm utterance \<noteq> [] \<and> st_map_id st = m \<and> st_map_generation st = g \<and> l \<in> set (st_landmarks st) \<and> navigable l \<and>
    mentioned nrm (nrm utterance) l \<and> (rv \<longrightarrow> lm_verified l) \<and>
    (\<forall>k \<in> set (st_landmarks st). navigable k \<longrightarrow> mentioned nrm (nrm utterance) k \<longrightarrow> k = l)"
proof -
  define ms where "ms = filter navigable (match_items nrm (nrm utterance) (st_landmarks st))"
  have ms: "x \<in> set ms \<longleftrightarrow> x \<in> set (st_landmarks st) \<and> navigable x \<and> mentioned nrm (nrm utterance) x" for x
    by (auto simp: ms_def match_items_set)
  have inj: "x = y" if "x \<in> set ms" "y \<in> set ms" "lm_id x = lm_id y" for x y
    using assms that ms by (auto simp: distinct_map inj_on_def)
  have "resolve nrm st utterance m g rv = Inr l \<longleftrightarrow>
    nrm utterance \<noteq> [] \<and> st_map_id st = m \<and> st_map_generation st = g \<and> ms \<noteq> [] \<and>
    length (remdups (map lm_id ms)) = 1 \<and> l = last ms \<and> (rv \<longrightarrow> lm_verified l)"
    unfolding resolve_def Let_def ms_def [symmetric] by (cases "ms = []") auto
  also have "\<dots> \<longleftrightarrow> nrm utterance \<noteq> [] \<and> st_map_id st = m \<and> st_map_generation st = g \<and>
    l \<in> set ms \<and> (\<forall>k \<in> set ms. k = l) \<and> (rv \<longrightarrow> lm_verified l)"
  proof (cases "ms = []")
    case False
    then have "length (remdups (map lm_id ms)) = 1 \<and> l = last ms \<longleftrightarrow> l \<in> set ms \<and> (\<forall>k \<in> set ms. k = l)"
    proof (intro iffI; elim conjE)
      assume "length (remdups (map lm_id ms)) = 1" "l = last ms"
      then show "l \<in> set ms \<and> (\<forall>k \<in> set ms. k = l)"
        using one_id [OF False, of lm_id] inj last_in_set [OF False] by blast
    next
      assume "l \<in> set ms" "\<forall>k \<in> set ms. k = l"
      note ll = this
      have same: "k = last ms" if "k \<in> set ms" for k
      proof -
        have "k = l" by (rule bspec [OF ll(2) that])
        moreover have "last ms = l" by (rule bspec [OF ll(2) last_in_set [OF False]])
        ultimately show ?thesis by simp
      qed
      then have "\<forall>k \<in> set ms. lm_id k = lm_id (last ms)" by (metis)
      then show "length (remdups (map lm_id ms)) = 1 \<and> l = last ms"
        using one_id [OF False, of lm_id] same [OF ll(1)] by blast
    qed
    then show ?thesis using False by blast
  qed simp
  finally have main: "resolve nrm st utterance m g rv = Inr l \<longleftrightarrow>
    nrm utterance \<noteq> [] \<and> st_map_id st = m \<and> st_map_generation st = g \<and>
    l \<in> set ms \<and> (\<forall>k \<in> set ms. k = l) \<and> (rv \<longrightarrow> lm_verified l)" .
  have only: "(\<forall>k \<in> set ms. k = l) \<longleftrightarrow>
    (\<forall>k \<in> set (st_landmarks st). navigable k \<longrightarrow> mentioned nrm (nrm utterance) k \<longrightarrow> k = l)"
    by (simp add: Ball_def ms) metis
  show ?thesis unfolding main only ms by argo
qed

end
