(* ===== verification/SemanticService.thy ===== *)
theory SemanticService imports RunRegistry MapLifecycle CancelPolicy Landmarks begin

text \<open>
  \<open>packages/semantic_navigation/semantic_navigation/service.py\<close>: the concurrent service around the
  run registry and the lifecycle guard. Its threads are the MCP handlers (one \<open>navigate_landmark\<close>
  call per fresh UUID, \<open>landmark_status\<close>, \<open>landmark_cancel\<close>), the lifecycle callbacks, the
  cancellation workers and the activation and shutdown handlers. A step is what one thread does
  between two points where another may run: one critical section of \<open>_lock\<close>, one registry or guard
  operation, or the reply of one RPC. Notifications to the dashboard have no effect on the state.
\<close>

section \<open>State\<close>

record service_config =
  cf_store :: landmark_store
  cf_require_verified :: bool
  cf_normalize :: "string \<Rightarrow> string"
  cf_repr :: "string \<Rightarrow> string"

text \<open>
  Where a \<open>navigate_landmark\<close> call is. \<open>ReadBinding\<close> and \<open>LiveChecked\<close> are inside
  \<open>_require_lifecycle_ready\<close>, which runs once before the goal is reserved and once after the provider
  accepted it; \<open>Validated\<close> holds \<open>_lock\<close>.
\<close>

datatype readiness = First string | Again admission

datatype call_phase =
    NotCalled
  | ReadBinding readiness nat string
  | LiveChecked readiness nat string
  | Admitted admission landmark
  | Validated admission landmark
  | Navigating admission landmark
  | Accepted admission
  | Closing
  | Returned bool
  | Refused

text \<open>A callback takes \<open>_lock\<close> before it invalidates, the shutdown path does not.\<close>

datatype invalidation_task = Callback string | StopInvalidate string

datatype worker_stage = Asked | Asking | Polling | Marking bool

record cancel_worker =
  cw_run :: string
  cw_nav :: string
  cw_reason :: string
  cw_stage :: worker_stage

datatype activation = Inactive | Starting nat | Checked nat

record service =
  sv_accepting :: bool
  sv_bound :: "nat option"
  sv_topic :: string
  sv_guards :: "nat \<Rightarrow> lifecycle_guard"
  sv_alive :: "nat \<Rightarrow> bool"
  sv_objects :: nat
  sv_activation :: activation
  sv_lock :: "string option"
  sv_registry :: registry
  sv_calls :: "string \<Rightarrow> call_phase"
  sv_pending :: "invalidation_task list"
  sv_workers :: "cancel_worker list"
  sv_polls :: "(string \<times> string) list"

text \<open>A service after \<open>init\<close>; \<open>g0\<close> is the irrelevant content of guards that do not exist yet.\<close>

definition initial_service :: "lifecycle_guard \<Rightarrow> service" where
  "initial_service g0 = \<lparr>sv_accepting = False, sv_bound = None, sv_topic = [], sv_guards = (\<lambda>_. g0),
     sv_alive = (\<lambda>_. False), sv_objects = 0, sv_activation = Inactive, sv_lock = None,
     sv_registry = empty_registry, sv_calls = (\<lambda>_. NotCalled), sv_pending = [], sv_workers = [], sv_polls = []\<rparr>"

section \<open>Pieces of the handlers\<close>

definition state_text :: "map_state \<Rightarrow> string" where
  "state_text m = ms_map_id m @ ''/'' @ int_text (ms_generation m) @ ''/'' @ ms_mode m"

definition transition_detail :: "lifecycle_transition \<Rightarrow> string" where
  "transition_detail t = ''map lifecycle changed at revision '' @ nat_digits (lt_revision t) @ '': '' @
     (case lt_previous t of None \<Rightarrow> ''none'' | Some m \<Rightarrow> state_text m) @ '' -> '' @
     (case lt_current t of None \<Rightarrow> ''invalid ('' @ lt_error t @ '')'' | Some m \<Rightarrow> state_text m)"

text \<open>\<open>_on_lifecycle_transition\<close>: the first sample is not an invalidation.\<close>

definition on_transition :: "lifecycle_transition option \<Rightarrow> invalidation_task list" where
  "on_transition t = (case t of None \<Rightarrow> []
     | Some x \<Rightarrow> if lt_previous x = None \<and> lt_error x = [] then [] else [Callback (transition_detail x)])"

definition guard_changed :: "nat \<Rightarrow> lifecycle_transition option \<times> lifecycle_guard \<Rightarrow> service \<Rightarrow> service" where
  "guard_changed n r s = s\<lparr>sv_guards := (sv_guards s)(n := snd r), sv_pending := sv_pending s @ on_transition (fst r)\<rparr>"

definition cancel_worker_for :: "worker_stage \<Rightarrow> string \<times> string \<times> string \<Rightarrow> cancel_worker" where
  "cancel_worker_for stage c = \<lparr>cw_run = fst c, cw_nav = fst (snd c), cw_reason = snd (snd c), cw_stage = stage\<rparr>"

text \<open>\<open>_invalidate_nonterminal_runs\<close> with the workers it schedules.\<close>

definition invalidate_all :: "string \<Rightarrow> service \<Rightarrow> service" where
  "invalidate_all reason s =
     s\<lparr>sv_registry := snd (invalidate_nonterminal reason (sv_registry s)),
       sv_workers := sv_workers s @
         map (cancel_worker_for Polling) (fst (invalidate_nonterminal reason (sv_registry s)))\<rparr>"

definition goto :: "string \<Rightarrow> call_phase \<Rightarrow> service \<Rightarrow> service" where
  "goto i p s = s\<lparr>sv_calls := (sv_calls s)(i := p)\<rparr>"

definition remote_reply :: "string \<Rightarrow> string \<Rightarrow> string \<Rightarrow> service \<Rightarrow> service" where
  "remote_reply i state detail s = s\<lparr>sv_registry := snd (update_remote i state detail (sv_registry s))\<rparr>"

definition unknown_detail :: "service_config \<Rightarrow> string \<Rightarrow> string" where
  "unknown_detail C nav = ''navigation provider does not currently know run '' @ cf_repr C nav @
     ''; terminal state is unconfirmed''"

definition validate_now :: "admission \<Rightarrow> service \<Rightarrow> lifecycle_exc + lifecycle_snapshot" where
  "validate_now a s = validate_current (sv_accepting s) (sv_bound s) (sv_bound s) (sv_topic s)
     (sv_alive s (ad_subscriber a)) (sv_guards s (ad_guard a)) a"

text \<open>The arguments \<open>navigate_landmark\<close> hands to \<open>reserve\<close>; \<open>active\<close> is the admitted state.\<close>

definition reserve_goal :: "admission \<Rightarrow> landmark \<Rightarrow> string \<Rightarrow> registry \<Rightarrow> (registry_exc + string) \<times> registry" where
  "reserve_goal a l i r = (case ls_state (ad_snapshot a) of
       None \<Rightarrow> (Inl (RegistryValueError ''no active state''), r)
     | Some active \<Rightarrow> reserve (lm_id l) (lm_name l) (ms_map_id active) (ms_generation active)
         (ls_revision (ad_snapshot a)) i r)"

text \<open>The critical section of \<open>_stop_lifecycle_binding\<close>; the invalidation after it is still to come.\<close>

definition close_binding :: "string \<Rightarrow> bool \<Rightarrow> service \<Rightarrow> service" where
  "close_binding reason giving_up s =
     s\<lparr>sv_accepting := False, sv_bound := None, sv_topic := [],
       sv_pending := sv_pending s @ [StopInvalidate reason],
       sv_activation := (if giving_up then Inactive else sv_activation s)\<rparr>"

section \<open>Steps\<close>

text \<open>
  \<open>navigate_landmark\<close>: the first \<open>_require_lifecycle_ready\<close>, the critical section of admission and
  reservation, the reply of \<open>Navigate\<close>, the second \<open>_require_lifecycle_ready\<close> and the response.
\<close>

inductive call_step :: "service_config \<Rightarrow> service \<Rightarrow> service \<Rightarrow> bool" for C where
  call_start: "sv_calls s i = NotCalled \<Longrightarrow> i \<noteq> [] \<Longrightarrow> sv_lock s = None \<Longrightarrow> sv_accepting s \<Longrightarrow> sv_bound s = Some n \<Longrightarrow>
    call_step C s (goto i (ReadBinding (First name) n (sv_topic s)) s)"
| call_closed: "sv_calls s i = NotCalled \<Longrightarrow> sv_lock s = None \<Longrightarrow> \<not> sv_accepting s \<or> sv_bound s = None \<Longrightarrow>
    call_step C s (goto i Refused s)"
| check_alive: "sv_calls s i = ReadBinding p n tp \<Longrightarrow> sv_alive s n \<Longrightarrow>
    call_step C s (goto i (LiveChecked p n tp) s)"
| check_dead: "sv_calls s i = ReadBinding p n tp \<Longrightarrow> \<not> sv_alive s n \<Longrightarrow>
    call_step C s (goto i (LiveChecked p n tp)
      (guard_changed n (lg_fail ''map lifecycle subscriber is not running'' False (sv_guards s n)) s))"
| admit: "sv_calls s i = LiveChecked (First name) n tp \<Longrightarrow> require_ready (sv_guards s n) = Inr snap \<Longrightarrow>
    ls_state snap = Some active \<Longrightarrow>
    resolve (cf_normalize C) (cf_store C) name (ms_map_id active) (ms_generation active) (cf_require_verified C) = Inr l \<Longrightarrow>
    call_step C s (goto i (Admitted \<lparr>ad_guard = n, ad_subscriber = n, ad_topic = tp, ad_snapshot = snap\<rparr> l) s)"
| not_admitted: "sv_calls s i = LiveChecked (First name) n tp \<Longrightarrow> call_step C s (goto i Refused s)"
| validate: "sv_calls s i = Admitted a l \<Longrightarrow> sv_lock s = None \<Longrightarrow> validate_now a s = Inr snap \<Longrightarrow>
    call_step C s (goto i (Validated a l) s\<lparr>sv_lock := Some i\<rparr>)"
| not_valid: "sv_calls s i = Admitted a l \<Longrightarrow> sv_lock s = None \<Longrightarrow> validate_now a s = Inl e \<Longrightarrow>
    call_step C s (goto i Refused s)"
| reserved: "sv_calls s i = Validated a l \<Longrightarrow> reserve_goal a l i (sv_registry s) = (Inr j, r) \<Longrightarrow>
    call_step C s (goto i (Navigating a l) s\<lparr>sv_registry := r, sv_lock := None\<rparr>)"
| not_reserved: "sv_calls s i = Validated a l \<Longrightarrow> reserve_goal a l i (sv_registry s) = (Inl e, r) \<Longrightarrow>
    call_step C s (goto i Refused s\<lparr>sv_registry := r, sv_lock := None\<rparr>)"
| navigate_unclear: "sv_calls s i = Navigating a l \<Longrightarrow>
    call_step C s (goto i Refused (remote_reply i ''UNKNOWN'' detail s))"
| navigate_rejected: "sv_calls s i = Navigating a l \<Longrightarrow>
    call_step C s (goto i Refused s\<lparr>sv_registry := remove i (sv_registry s)\<rparr>)"
| navigate_accepted: "sv_calls s i = Navigating a l \<Longrightarrow>
    attach_navigation i nav detail (sv_registry s) = (Inr (x, False), r) \<Longrightarrow>
    call_step C s (goto i (Accepted a) s\<lparr>sv_registry := r\<rparr>)"
| navigate_late: "sv_calls s i = Navigating a l \<Longrightarrow>
    attach_navigation i nav detail (sv_registry s) = (Inr (x, True), r) \<Longrightarrow>
    call_step C s (goto i Closing s\<lparr>sv_registry := r, sv_workers := sv_workers s @
      [cancel_worker_for Polling (i, nav, or_else (invalidation_detail x) ''map lifecycle changed while goal was starting'')]\<rparr>)"
| recheck: "sv_calls s i = Accepted a \<Longrightarrow> sv_lock s = None \<Longrightarrow> sv_accepting s \<Longrightarrow> sv_bound s = Some n \<Longrightarrow>
    call_step C s (goto i (ReadBinding (Again a) n (sv_topic s)) s)"
| recheck_closed: "sv_calls s i = Accepted a \<Longrightarrow> sv_lock s = None \<Longrightarrow> \<not> sv_accepting s \<or> sv_bound s = None \<Longrightarrow>
    call_step C s (goto i Closing (invalidate_all ''semantic navigation is not active'' s))"
| recheck_same: "sv_calls s i = LiveChecked (Again a) n tp \<Longrightarrow> require_ready (sv_guards s n) = Inr snap \<Longrightarrow>
    ls_revision snap = ls_revision (ad_snapshot a) \<Longrightarrow> call_step C s (goto i Closing s)"
| recheck_failed: "sv_calls s i = LiveChecked (Again a) n tp \<Longrightarrow>
    call_step C s (goto i Closing (invalidate_all reason s))"
| respond: "sv_calls s i = Closing \<Longrightarrow> get_run i (sv_registry s) = Inr x \<Longrightarrow>
    call_step C s (goto i (Returned (\<not> invalidated x)) s)"

text \<open>
  The lifecycle guard, its subscriber thread and \<open>_on_lifecycle_transition\<close>.
\<close>

inductive guard_step :: "service_config \<Rightarrow> service \<Rightarrow> service \<Rightarrow> bool" for C where
  observe: "guard_step C s (guard_changed n (lg_observe_message (cf_repr C) msg (sv_guards s n)) s)"
| fail: "guard_step C s (guard_changed n (lg_fail reason False (sv_guards s n)) s)"
| subscriber: "guard_step C s (s\<lparr>sv_alive := (sv_alive s)(n := b)\<rparr>)"
| callback: "sv_pending s = xs @ Callback reason # ys \<Longrightarrow> sv_lock s = None \<Longrightarrow>
    guard_step C s (invalidate_all reason (s\<lparr>sv_pending := xs @ ys\<rparr>))"

text \<open>
  \<open>activate\<close>, and \<open>_stop_lifecycle_binding\<close> as run by \<open>deactivate\<close>, \<open>shutdown\<close> and a failed
  activation. The skill framework activates only a skill that is not active: \<open>bind\<close> finds no binding.
\<close>

inductive activation_step :: "service_config \<Rightarrow> service \<Rightarrow> service \<Rightarrow> bool" for C where
  bind: "sv_activation s = Inactive \<Longrightarrow> sv_bound s = None \<Longrightarrow> sv_lock s = None \<Longrightarrow>
    LifecycleGuard_init (st_map_id (cf_store C)) (VInt (st_map_generation (cf_store C))) = Inr g \<Longrightarrow>
    activation_step C s (s\<lparr>sv_guards := (sv_guards s)(sv_objects s := g), sv_objects := sv_objects s + 1,
      sv_bound := Some (sv_objects s), sv_topic := topic, sv_accepting := False,
      sv_activation := Starting (sv_objects s)\<rparr>)"
| ready_check: "sv_activation s = Starting n \<Longrightarrow> require_ready (sv_guards s n) = Inr snap \<Longrightarrow>
    activation_step C s (s\<lparr>sv_activation := Checked n\<rparr>)"
| accept_goals: "sv_activation s = Checked n \<Longrightarrow> sv_lock s = None \<Longrightarrow>
    activation_step C s (s\<lparr>sv_accepting := True, sv_activation := Inactive\<rparr>)"
| stop: "sv_lock s = None \<Longrightarrow> activation_step C s (close_binding reason giving_up s)"
| stop_invalidate: "sv_pending s = xs @ StopInvalidate reason # ys \<Longrightarrow>
    activation_step C s (invalidate_all reason (s\<lparr>sv_pending := xs @ ys\<rparr>))"

text \<open>
  \<open>landmark_status\<close> and \<open>_monitor_navigation_status\<close>: read the run, ask the provider, store the reply.
  \<open>known_empty\<close> says whether the provider may answer \<open>known\<close> to a status request with an empty run id,
  which \<open>landmark_status\<close> sends for a goal that has no provider id yet.
\<close>

inductive status_step :: "service_config \<Rightarrow> bool \<Rightarrow> service \<Rightarrow> service \<Rightarrow> bool" for C known_empty where
  poll: "get_run i (sv_registry s) = Inr x \<Longrightarrow> \<not> remote_terminal x \<Longrightarrow>
    status_step C known_empty s (s\<lparr>sv_polls := (i, nav_run_id x) # sv_polls s\<rparr>)"
| poll_failed: "status_step C known_empty s (s\<lparr>sv_polls := remove1 p (sv_polls s)\<rparr>)"
| poll_unknown: "(i, nav) \<in> set (sv_polls s) \<Longrightarrow>
    status_step C known_empty s (remote_reply i ''UNKNOWN'' (unknown_detail C nav)
      (s\<lparr>sv_polls := remove1 (i, nav) (sv_polls s)\<rparr>))"
| poll_known: "(i, nav) \<in> set (sv_polls s) \<Longrightarrow> nav \<noteq> [] \<or> known_empty \<Longrightarrow>
    status_step C known_empty s (remote_reply i state detail (s\<lparr>sv_polls := remove1 (i, nav) (sv_polls s)\<rparr>))"

text \<open>
  \<open>landmark_cancel\<close>.
\<close>

inductive cancel_step :: "service \<Rightarrow> service \<Rightarrow> bool" where
  cancel_ask: "get_run i (sv_registry s) = Inr x \<Longrightarrow> nav_run_id x \<noteq> [] \<Longrightarrow> \<not> remote_terminal x \<Longrightarrow> \<not> cancel_started x \<Longrightarrow>
    cancel_step s (s\<lparr>sv_workers := cancel_worker_for Asked (i, nav_run_id x, ''user requested cancellation'') # sv_workers s\<rparr>)"
| cancel_claimed: "sv_workers s = xs @ w # ys \<Longrightarrow> cw_stage w = Asked \<Longrightarrow>
    claim_cancel (cw_run w) (sv_registry s) = (Inr (Some (nav, detail)), r) \<Longrightarrow>
    cancel_step s (s\<lparr>sv_registry := r, sv_workers := xs @ w\<lparr>cw_stage := Asking\<rparr> # ys\<rparr>)"
| cancel_not_claimed: "sv_workers s = xs @ w # ys \<Longrightarrow> cw_stage w = Asked \<Longrightarrow>
    claim_cancel (cw_run w) (sv_registry s) = (Inr None, r) \<Longrightarrow>
    cancel_step s (s\<lparr>sv_registry := r, sv_workers := xs @ ys\<rparr>)"
| cancel_submitted: "sv_workers s = xs @ w # ys \<Longrightarrow> cw_stage w = Asking \<Longrightarrow>
    mark_cancel_result (cw_run w) (or_else detail ''cancel submitted'' @ ''; waiting for provider terminal confirmation'')
      None (sv_registry s) = (Inr x, r) \<Longrightarrow>
    cancel_step s (s\<lparr>sv_registry := r, sv_workers := xs @ w\<lparr>cw_stage := Polling\<rparr> # ys\<rparr>)"
| cancel_not_submitted: "sv_workers s = xs @ w # ys \<Longrightarrow> cw_stage w = Asking \<Longrightarrow>
    cancel_step s (s\<lparr>sv_workers := xs @ w\<lparr>cw_stage := Polling, cw_reason := reason\<rparr> # ys\<rparr>)"

text \<open>
  \<open>_cancel_run_until_terminal\<close>.
\<close>

inductive worker_step :: "service \<Rightarrow> service \<Rightarrow> bool" where
  worker_confirmed: "sv_workers s = xs @ w # ys \<Longrightarrow> cw_stage w = Polling \<Longrightarrow>
    cancel_until_terminal status cancel start clock timeout_s poll_s = Some (Outcome out) \<Longrightarrow> co_terminal out \<Longrightarrow>
    worker_step s (remote_reply (cw_run w) (co_terminal_state out) (co_detail out)
      (s\<lparr>sv_workers := xs @ w\<lparr>cw_stage := Marking True\<rparr> # ys\<rparr>))"
| worker_saw_terminal: "sv_workers s = xs @ w # ys \<Longrightarrow> cw_stage w = Polling \<Longrightarrow>
    get_run (cw_run w) (sv_registry s) = Inr x \<Longrightarrow> remote_terminal x \<Longrightarrow>
    worker_step s (s\<lparr>sv_workers := xs @ w\<lparr>cw_stage := Marking True\<rparr> # ys\<rparr>)"
| worker_timed_out: "sv_workers s = xs @ w # ys \<Longrightarrow> cw_stage w = Polling \<Longrightarrow>
    cancel_until_terminal status cancel start clock timeout_s poll_s = Some (Outcome out) \<Longrightarrow> \<not> co_terminal out \<Longrightarrow>
    get_run (cw_run w) (sv_registry s) = Inr x \<Longrightarrow> \<not> remote_terminal x \<Longrightarrow>
    worker_step s (s\<lparr>sv_workers := xs @ w\<lparr>cw_stage := Marking False\<rparr> # ys\<rparr>)"
| worker_marked: "sv_workers s = xs @ w # ys \<Longrightarrow> cw_stage w = Marking in_progress \<Longrightarrow>
    mark_cancel_result (cw_run w) detail (Some in_progress) (sv_registry s) = (Inr x, r) \<Longrightarrow>
    worker_step s (s\<lparr>sv_registry := r, sv_workers := xs @ ys\<rparr>)"

text \<open>Any thread may run next.\<close>

inductive svc_step :: "service_config \<Rightarrow> bool \<Rightarrow> service \<Rightarrow> service \<Rightarrow> bool" for C known_empty where
  call: "call_step C s t \<Longrightarrow> svc_step C known_empty s t"
| guard: "guard_step C s t \<Longrightarrow> svc_step C known_empty s t"
| activation: "activation_step C s t \<Longrightarrow> svc_step C known_empty s t"
| status: "status_step C known_empty s t \<Longrightarrow> svc_step C known_empty s t"
| cancel: "cancel_step s t \<Longrightarrow> svc_step C known_empty s t"
| worker: "worker_step s t \<Longrightarrow> svc_step C known_empty s t"

inductive svc_reachable :: "service_config \<Rightarrow> bool \<Rightarrow> service \<Rightarrow> bool" for C known_empty where
  start: "svc_reachable C known_empty (initial_service g0)"
| step: "svc_reachable C known_empty s \<Longrightarrow> svc_step C known_empty s t \<Longrightarrow> svc_reachable C known_empty t"

text \<open>
  An execution with a memory of the runs that were ended before the provider had accepted their goal:
  \<open>landmark_status\<close> asked with an empty run id, and the provider answered with a terminal state. No
  document says whether it may, so the system allows it and the properties name these runs.
\<close>

definition ends_dispatch :: "service \<Rightarrow> string \<Rightarrow> string \<Rightarrow> bool" where
  "ends_dispatch s i state \<longleftrightarrow> (case run_at (sv_registry s) i of None \<Rightarrow> False
     | Some x \<Rightarrow> nav_run_id x = [] \<and> (clean_state state = [] \<or> clean_state state \<in> set TERMINAL_STATES))"

inductive svc_execution :: "service_config \<Rightarrow> service \<Rightarrow> string set \<Rightarrow> bool" for C where
  begin_execution: "svc_execution C (initial_service g0) {}"
| ordinary: "svc_execution C s G \<Longrightarrow> svc_step C False s t \<Longrightarrow> svc_execution C t G"
| nameless: "svc_execution C s G \<Longrightarrow> (i, []) \<in> set (sv_polls s) \<Longrightarrow>
    svc_execution C (remote_reply i state detail (s\<lparr>sv_polls := remove1 (i, []) (sv_polls s)\<rparr>))
      (if ends_dispatch s i state then insert i G else G)"

end
