(* ===== verification/SemanticInvariant.thy ===== *)
theory SemanticInvariant imports SemanticService begin

text \<open>
  Invariants of the executions of the semantic navigation service: what a call knows about its run
  (\<open>registry_inv\<close>), who owns a cancellation (\<open>owners_ok\<close>), and how runs and calls holding the lock are
  bound to the current map epoch (\<open>epoch_ok\<close>, \<open>lock_ok\<close>). Each is kept by every step, whatever the
  navigation provider answers; \<open>G\<close> holds the runs that a terminal answer to a status request without
  a run id ended before the provider had accepted them.
\<close>

section \<open>What the registry operations leave behind\<close>

lemma reserve_Inr:
  "reserve a b c d e i r = (Inr j, r') \<longleftrightarrow> busy_run r = None \<and> run_at r i = None \<and> j = i \<and>
     r' = (set_run i (new_run i a b c d e) r)\<lparr>latest_run_id := i\<rparr>"
  by (auto simp: reserve_def run_at_def split: option.splits)

lemma reserve_Inl: "reserve a b c d e i r = (Inl ex, r') \<Longrightarrow> r' = r"
  by (auto simp: reserve_def split: option.splits if_splits)

lemma attach_Inr:
  "attach_navigation i nav d r = (Inr (x, must), r') \<longleftrightarrow> nav \<noteq> [] \<and>
     (\<exists>y. run_at r i = Some y \<and> x = attach_run nav d y \<and> must = invalidated y \<and>
       r' = (set_run i (attach_run nav d y) r)\<lparr>latest_run_id := i\<rparr>)"
  by (auto simp: attach_navigation_def require_run_cases split: option.splits)

lemma update_remote_at [simp]:
  "run_at (snd (update_remote j st d r)) i = (if j = i then map_option (remote_update st d) (run_at r i) else run_at r i)"
  by (auto simp: update_remote_def require_run_cases split: option.splits)

lemma claim_cancel_Some:
  "claim_cancel i r = (Inr (Some (nav, d)), r') \<longleftrightarrow>
     (\<exists>x. run_at r i = Some x \<and> nav = nav_run_id x \<and> nav \<noteq> [] \<and> \<not> cancel_started x \<and> d = invalidation_detail x \<and>
       r' = set_run i (x\<lparr>cancel_started := True\<rparr>) r)"
  by (auto simp: claim_cancel_def require_run_cases split: option.splits if_splits)

lemma claim_cancel_None: "claim_cancel i r = (Inr None, r') \<Longrightarrow> r' = r"
  by (auto simp: claim_cancel_def require_run_cases split: option.splits if_splits)

lemma mark_Inr:
  "mark_cancel_result i d b r = (Inr x, r') \<longleftrightarrow>
     (\<exists>y. run_at r i = Some y \<and> x = cancel_result d b y \<and> r' = set_run i (cancel_result d b y) r)"
  by (auto simp: mark_cancel_result_def require_run_cases split: option.splits)

lemma get_run_Inr [simp]: "get_run i r = Inr x \<longleftrightarrow> run_at r i = Some x"
  by (simp add: get_run_def)

lemma claimed_by_invalidation:
  "registry_ok r \<Longrightarrow> set (map fst (fst (invalidate_nonterminal reason r))) =
     {i. \<exists>x. run_at r i = Some x \<and> claims_cancel x}"
proof -
  assume ok: "registry_ok r"
  have "set (map fst (fst (invalidate_nonterminal reason r))) =
      {i. \<exists>p \<in> set (runs r). claims_cancel (snd p) \<and> semantic_run_id (snd p) = i}"
    by (auto simp: invalidate_nonterminal_def)
  also have "\<dots> = {i. \<exists>x. run_at r i = Some x \<and> claims_cancel x}"
  proof (intro set_eqI iffI CollectI; elim CollectE bexE exE conjE)
    fix i p assume p: "p \<in> set (runs r)" "claims_cancel (snd p)" "semantic_run_id (snd p) = i"
    obtain j x where jx: "p = (j, x)" by (cases p)
    have "run_at r j = Some x" using in_runs_iff [OF ok] p(1) jx by blast
    then show "\<exists>x. run_at r i = Some x \<and> claims_cancel x" using registry_ok_id [OF ok] p(2,3) jx by auto
  next
    fix i x assume "run_at r i = Some x" "claims_cancel x"
    then show "\<exists>p \<in> set (runs r). claims_cancel (snd p) \<and> semantic_run_id (snd p) = i"
      using in_runs_iff [OF ok] registry_ok_id [OF ok] by (intro bexI [of _ "(i, x)"]) auto
  qed
  finally show ?thesis .
qed

lemmas registry_results = reserve_Inr attach_Inr claim_cancel_Some mark_Inr

declare close_binding_def [simp]

section \<open>Simple projections of the steps\<close>

lemma goto_simps [simp]:
  "sv_calls (goto i p s) = (sv_calls s)(i := p)" "sv_registry (goto i p s) = sv_registry s"
  "sv_lock (goto i p s) = sv_lock s" "sv_pending (goto i p s) = sv_pending s" "sv_bound (goto i p s) = sv_bound s"
  "sv_accepting (goto i p s) = sv_accepting s" "sv_guards (goto i p s) = sv_guards s"
  "sv_workers (goto i p s) = sv_workers s" "sv_polls (goto i p s) = sv_polls s" "sv_topic (goto i p s) = sv_topic s"
  by (simp_all add: goto_def)

lemma guard_changed_simps [simp]:
  "sv_calls (guard_changed n r s) = sv_calls s" "sv_registry (guard_changed n r s) = sv_registry s"
  "sv_lock (guard_changed n r s) = sv_lock s" "sv_pending (guard_changed n r s) = sv_pending s @ on_transition (fst r)"
  "sv_bound (guard_changed n r s) = sv_bound s" "sv_accepting (guard_changed n r s) = sv_accepting s"
  "sv_guards (guard_changed n r s) = (sv_guards s)(n := snd r)" "sv_workers (guard_changed n r s) = sv_workers s"
  "sv_polls (guard_changed n r s) = sv_polls s" "sv_topic (guard_changed n r s) = sv_topic s"
  by (simp_all add: guard_changed_def)

lemma remote_reply_simps [simp]:
  "sv_calls (remote_reply j st d s) = sv_calls s" "sv_lock (remote_reply j st d s) = sv_lock s"
  "sv_registry (remote_reply j st d s) = snd (update_remote j st d (sv_registry s))"
  "sv_pending (remote_reply j st d s) = sv_pending s" "sv_bound (remote_reply j st d s) = sv_bound s"
  "sv_accepting (remote_reply j st d s) = sv_accepting s" "sv_guards (remote_reply j st d s) = sv_guards s"
  "sv_workers (remote_reply j st d s) = sv_workers s" "sv_polls (remote_reply j st d s) = sv_polls s"
  by (simp_all add: remote_reply_def)

lemma invalidate_all_simps [simp]:
  "sv_calls (invalidate_all d s) = sv_calls s" "sv_lock (invalidate_all d s) = sv_lock s"
  "sv_registry (invalidate_all d s) = snd (invalidate_nonterminal d (sv_registry s))"
  "sv_pending (invalidate_all d s) = sv_pending s" "sv_bound (invalidate_all d s) = sv_bound s"
  "sv_accepting (invalidate_all d s) = sv_accepting s" "sv_guards (invalidate_all d s) = sv_guards s"
  "sv_polls (invalidate_all d s) = sv_polls s"
  "sv_workers (invalidate_all d s) = sv_workers s @
     map (cancel_worker_for Polling) (fst (invalidate_nonterminal d (sv_registry s)))"
  by (simp_all add: invalidate_all_def)

lemma reserve_goal_Inr:
  "reserve_goal a l i r = (Inr j, r') \<longleftrightarrow> (\<exists>m. ls_state (ad_snapshot a) = Some m \<and> busy_run r = None \<and> run_at r i = None \<and> j = i \<and>
     r' = (set_run i (new_run i (lm_id l) (lm_name l) (ms_map_id m) (ms_generation m) (ls_revision (ad_snapshot a))) r)\<lparr>latest_run_id := i\<rparr>)"
  by (auto simp: reserve_goal_def reserve_Inr split: option.splits)

lemma reserve_goal_Inl: "reserve_goal a l i r = (Inl e, r') \<Longrightarrow> r' = r"
  by (auto simp: reserve_goal_def split: option.splits dest: reserve_Inl)

lemma cancel_worker_for_simps [simp]:
  "cw_run (cancel_worker_for st c) = fst c" "cw_nav (cancel_worker_for st c) = fst (snd c)"
  "cw_stage (cancel_worker_for st c) = st"
  by (simp_all add: cancel_worker_for_def)

lemma unknown_not_terminal [simp]:
  "\<not> remote_terminal x \<Longrightarrow> \<not> remote_terminal (remote_update ''UNKNOWN'' d x)"
  by (simp add: remote_update_def Let_def TERMINAL_STATES_def str_upper_def str_strip_def upper_char_def is_space_def code_of_def)

section \<open>Single flight outside a set of runs\<close>

definition without :: "string set \<Rightarrow> registry \<Rightarrow> registry" where
  "without G r = r\<lparr>runs := filter (\<lambda>p. fst p \<notin> G) (runs r)\<rparr>"

lemma run_at_without: "run_at (without G r) i = (if i \<in> G then None else run_at r i)"
proof -
  have "map_of (filter (\<lambda>p. fst p \<notin> G) xs) i = (if i \<in> G then None else map_of xs i)" for xs :: "(string \<times> run) list"
    by (induction xs) auto
  then show ?thesis by (simp add: run_at_def without_def)
qed

lemma without_empty [simp]: "without {} r = r"
  by (simp add: without_def)

lemma registry_ok_without: "registry_ok r \<Longrightarrow> registry_ok (without G r)"
  by (auto simp: registry_ok_def without_def list_all_iff intro: distinct_map_filter)

definition flight_outside :: "string set \<Rightarrow> registry \<Rightarrow> bool" where
  "flight_outside G r \<longleftrightarrow> registry_ok r \<and> single_flight (without G r)"

lemma flight_outside_iff:
  "flight_outside G r \<longleftrightarrow> registry_ok r \<and> (\<forall>i j x y. run_at r i = Some x \<longrightarrow> run_at r j = Some y \<longrightarrow>
     \<not> remote_terminal x \<longrightarrow> \<not> remote_terminal y \<longrightarrow> i \<notin> G \<longrightarrow> j \<notin> G \<longrightarrow> i = j)"
  using single_flight_iff [OF registry_ok_without, of r G]
  by (auto simp: flight_outside_def at_most_one_def run_at_without split: if_splits)

lemma flight_outside_mono: "flight_outside G r \<Longrightarrow> G \<subseteq> H \<Longrightarrow> flight_outside H r"
  unfolding flight_outside_iff by blast

section \<open>Calls, runs and workers\<close>

text \<open>What a call knows about its run.\<close>

definition attached :: "run option \<Rightarrow> bool" where
  "attached r \<longleftrightarrow> (case r of None \<Rightarrow> False | Some x \<Rightarrow> nav_run_id x \<noteq> [])"

lemma attached_simps [simp]: "\<not> attached None" "attached (Some x) \<longleftrightarrow> nav_run_id x \<noteq> []"
  by (simp_all add: attached_def)

fun readiness_run :: "readiness \<Rightarrow> run option \<Rightarrow> bool" where
  "readiness_run (First name) r \<longleftrightarrow> r = None"
| "readiness_run (Again a) r \<longleftrightarrow> attached r"

fun phase_run :: "call_phase \<Rightarrow> run option \<Rightarrow> bool" where
  "phase_run (Navigating a l) r \<longleftrightarrow> (case r of None \<Rightarrow> False
     | Some x \<Rightarrow> nav_run_id x = [] \<and> \<not> cancel_started x)"
| "phase_run (ReadBinding p n tp) r \<longleftrightarrow> readiness_run p r"
| "phase_run (LiveChecked p n tp) r \<longleftrightarrow> readiness_run p r"
| "phase_run (Accepted a) r \<longleftrightarrow> attached r"
| "phase_run Closing r \<longleftrightarrow> attached r"
| "phase_run (Returned b) r \<longleftrightarrow> attached r"
| "phase_run Refused r \<longleftrightarrow> True"
| "phase_run NotCalled r \<longleftrightarrow> r = None"
| "phase_run (Admitted a l) r \<longleftrightarrow> r = None"
| "phase_run (Validated a l) r \<longleftrightarrow> r = None"

definition calls_ok :: "service \<Rightarrow> bool" where
  "calls_ok s \<longleftrightarrow> (\<forall>i. phase_run (sv_calls s i) (run_at (sv_registry s) i))"

text \<open>A run without a provider id ends only by an answer that names no run; a poll carries the id of its run.\<close>

definition unattached_ended :: "string set \<Rightarrow> service \<Rightarrow> bool" where
  "unattached_ended G s \<longleftrightarrow> (\<forall>i x. run_at (sv_registry s) i = Some x \<longrightarrow> nav_run_id x = [] \<longrightarrow>
     remote_terminal x \<longrightarrow> i \<in> G)"

definition polls_ok :: "service \<Rightarrow> bool" where
  "polls_ok s \<longleftrightarrow> (\<forall>(i, nav) \<in> set (sv_polls s). nav \<noteq> [] \<longrightarrow>
     (case run_at (sv_registry s) i of None \<Rightarrow> False | Some x \<Rightarrow> nav_run_id x \<noteq> []))"

definition workers_ok :: "service \<Rightarrow> bool" where
  "workers_ok s \<longleftrightarrow> (\<forall>w \<in> set (sv_workers s).
     (case run_at (sv_registry s) (cw_run w) of None \<Rightarrow> False | Some x \<Rightarrow> nav_run_id x \<noteq> []))"

definition registry_inv :: "string set \<Rightarrow> service \<Rightarrow> bool" where
  "registry_inv G s \<longleftrightarrow> flight_outside G (sv_registry s) \<and> calls_ok s \<and> unattached_ended G s \<and> polls_ok s \<and> workers_ok s"

text \<open>
  An update of one run that keeps its provider id, never claims a run that has none, and ends such a
  run only if it is in \<open>G\<close>.
\<close>

definition tame :: "string set \<Rightarrow> run \<Rightarrow> run \<Rightarrow> bool" where
  "tame G x y \<longleftrightarrow> semantic_run_id y = semantic_run_id x \<and> nav_run_id y = nav_run_id x \<and>
     (nav_run_id x = [] \<longrightarrow> remote_terminal y \<longrightarrow> remote_terminal x \<or> semantic_run_id x \<in> G) \<and>
     (nav_run_id x = [] \<longrightarrow> \<not> cancel_started x \<longrightarrow> \<not> cancel_started y) \<and> (remote_terminal x \<longrightarrow> remote_terminal y)"

text \<open>A registry every run of which was updated tamely.\<close>

definition tamed :: "string set \<Rightarrow> registry \<Rightarrow> registry \<Rightarrow> bool" where
  "tamed G r r' \<longleftrightarrow> registry_ok r' \<and> (\<forall>i. case run_at r i of None \<Rightarrow> run_at r' i = None
     | Some x \<Rightarrow> (case run_at r' i of None \<Rightarrow> False | Some y \<Rightarrow> tame G x y))"


lemma tamed_at: "tamed G r r' \<Longrightarrow> case run_at r i of None \<Rightarrow> run_at r' i = None
     | Some x \<Rightarrow> (case run_at r' i of None \<Rightarrow> False | Some y \<Rightarrow> tame G x y)"
  by (simp add: tamed_def)

lemma tamed_Some: "tamed G r r' \<Longrightarrow> run_at r i = Some x \<Longrightarrow> \<exists>y. run_at r' i = Some y \<and> tame G x y"
  by (drule tamed_at [of _ _ _ i]) (cases "run_at r' i"; simp)

lemma tamed_None: "tamed G r r' \<Longrightarrow> run_at r i = None \<Longrightarrow> run_at r' i = None"
  by (drule tamed_at [of _ _ _ i]) simp

lemma tamed_back: "tamed G r r' \<Longrightarrow> run_at r' i = Some y \<Longrightarrow> \<exists>x. run_at r i = Some x \<and> tame G x y"
  by (drule tamed_at [of _ _ _ i]) (cases "run_at r i"; simp)

lemma tamed_attached: "tamed G r r' \<Longrightarrow> attached (run_at r i) \<Longrightarrow> attached (run_at r' i)"
  by (cases "run_at r i") (auto dest!: tamed_Some [of G r r' i] simp: tame_def)

lemma tamed_readiness: "tamed G r r' \<Longrightarrow> readiness_run p (run_at r i) \<Longrightarrow> readiness_run p (run_at r' i)"
  by (cases p) (auto simp: tamed_None tamed_attached)

lemma tamed_phase: "tamed G r r' \<Longrightarrow> phase_run p (run_at r i) \<Longrightarrow> phase_run p (run_at r' i)"
  by (cases p) (auto simp: tame_def tamed_None tamed_attached tamed_readiness dest: tamed_Some split: option.splits)

lemma tamed_flight:
  assumes "flight_outside G r" "tamed G r r'"
  shows "flight_outside G r'"
proof -
  have "i = j" if "run_at r' i = Some x" "run_at r' j = Some y" "\<not> remote_terminal x" "\<not> remote_terminal y"
      "i \<notin> G" "j \<notin> G" for i j x y
    using tamed_back [OF assms(2) that(1)] tamed_back [OF assms(2) that(2)] assms(1) that(3-6)
    unfolding flight_outside_iff tame_def by blast
  then show ?thesis using assms(2) by (auto simp: flight_outside_iff tamed_def)
qed

lemma tamed_refl: "registry_ok r \<Longrightarrow> tamed G r r"
  by (auto simp: tamed_def tame_def split: option.split)

lemma tamed_set: "registry_ok r \<Longrightarrow> run_at r i = Some x \<Longrightarrow> tame G x y \<Longrightarrow> tamed G r (set_run i y r)"
  by (auto simp: tamed_def registry_ok_id tame_def intro: registry_ok_set split: option.splits)

lemma tame_updates:
  "tame G x (invalidate_run d x)" "tame G x (cancel_result d b x) \<longleftrightarrow> nav_run_id x \<noteq> [] \<or> b \<noteq> Some True \<or> cancel_started x"
  "tame G x (remote_update ''UNKNOWN'' d x)" "nav_run_id x \<noteq> [] \<Longrightarrow> tame G x (remote_update st d x)"
  "nav_run_id x \<noteq> [] \<Longrightarrow> tame G x (x\<lparr>cancel_started := True\<rparr>)"
  by (cases "remote_terminal x"; auto simp: tame_def claims_cancel_def split: option.splits)+

lemma tamed_invalidate: "registry_ok r \<Longrightarrow> tamed G r (snd (invalidate_nonterminal d r))"
  by (auto simp: tamed_def tame_updates(1) registry_ok_invalidate split: option.split)

lemma claimed_run:
  assumes "registry_ok r" "c \<in> set (fst (invalidate_nonterminal d r))"
  shows "\<exists>x. run_at r (fst c) = Some x \<and> claims_cancel x"
proof -
  have "fst c \<in> set (map fst (fst (invalidate_nonterminal d r)))" using assms(2) by simp
  then show ?thesis unfolding claimed_by_invalidation [OF assms(1)] by simp
qed

lemma tamed_update:
  assumes "registry_ok r" "st = ''UNKNOWN'' \<or> (\<exists>x. run_at r i = Some x \<and> nav_run_id x \<noteq> []) \<or> i \<in> G"
  shows "tamed G r (snd (update_remote i st d r))"
proof (cases "run_at r i")
  case None
  then show ?thesis using assms(1) tamed_refl by (simp add: update_remote_def require_run_cases)
next
  case (Some x)
  then have "tame G x (remote_update st d x)"
    using assms tame_updates(3,4) registry_ok_id [OF assms(1) Some] by (auto simp: tame_def)
  then show ?thesis
    using assms(1) Some by (auto simp: update_remote_def require_run_cases intro!: tamed_set)
qed

lemma tamed_inv:
  assumes "registry_inv G s" "tamed G (sv_registry s) (sv_registry t)"
    and "\<And>i. phase_run (sv_calls s i) (run_at (sv_registry t) i) \<Longrightarrow> phase_run (sv_calls t i) (run_at (sv_registry t) i)"
    and "\<And>i nav. (i, nav) \<in> set (sv_polls t) \<Longrightarrow> nav \<noteq> [] \<Longrightarrow>
      (i, nav) \<in> set (sv_polls s) \<or> (\<exists>x. run_at (sv_registry t) i = Some x \<and> nav_run_id x \<noteq> [])"
    and "\<And>w. w \<in> set (sv_workers t) \<Longrightarrow> cw_run w \<in> cw_run ` set (sv_workers s) \<or>
      (\<exists>x. run_at (sv_registry t) (cw_run w) = Some x \<and> nav_run_id x \<noteq> [])"
  shows "registry_inv G t"
proof -
  have inv: "flight_outside G (sv_registry s)" "calls_ok s" "unattached_ended G s" "polls_ok s" "workers_ok s"
    using assms(1) by (simp_all add: registry_inv_def)
  have "flight_outside G (sv_registry t)" using tamed_flight [OF inv(1) assms(2)] .
  moreover have "calls_ok t"
    using inv(2) assms(3) tamed_phase [OF assms(2)] by (auto simp: calls_ok_def)
  moreover have "i \<in> G" if y: "run_at (sv_registry t) i = Some y" "nav_run_id y = []" "remote_terminal y" for i y
  proof -
    obtain x where x: "run_at (sv_registry s) i = Some x" "tame G x y" using tamed_back [OF assms(2) y(1)] by blast
    have "semantic_run_id x = i" using registry_ok_id [OF _ x(1)] inv(1) by (simp add: flight_outside_def)
    then show ?thesis using x y(2,3) inv(3) unfolding unattached_ended_def tame_def by metis
  qed
  then have ended: "unattached_ended G t" by (auto simp: unattached_ended_def)
  moreover have keep: "\<exists>y. run_at (sv_registry t) i = Some y \<and> nav_run_id y \<noteq> []"
    if "run_at (sv_registry s) i = Some x" "nav_run_id x \<noteq> []" for i x
    using tamed_Some [OF assms(2) that(1)] that(2) by (auto simp: tame_def)
  have "polls_ok t"
    using inv(4) assms(4) keep unfolding polls_ok_def by (fastforce split: option.splits)
  moreover have "workers_ok t"
    using inv(5) assms(5) keep unfolding workers_ok_def by (fastforce split: option.splits)
  ultimately show ?thesis by (simp add: registry_inv_def)
qed

lemma calls_phase: "calls_ok s \<Longrightarrow> phase_run (sv_calls s i) (run_at (sv_registry s) i)"
  by (simp add: calls_ok_def)

lemma registry_invD:
  "registry_inv G s \<Longrightarrow> registry_ok (sv_registry s)" "registry_inv G s \<Longrightarrow> flight_outside G (sv_registry s)"
  "registry_inv G s \<Longrightarrow> phase_run (sv_calls s i) (run_at (sv_registry s) i)"
  "registry_inv G s \<Longrightarrow> (i, nav) \<in> set (sv_polls s) \<Longrightarrow> nav \<noteq> [] \<Longrightarrow>
     \<exists>x. run_at (sv_registry s) i = Some x \<and> nav_run_id x \<noteq> []"
  "registry_inv G s \<Longrightarrow> w \<in> set (sv_workers s) \<Longrightarrow> \<exists>x. run_at (sv_registry s) (cw_run w) = Some x \<and> nav_run_id x \<noteq> []"
  "registry_inv G s \<Longrightarrow> run_at (sv_registry s) i = Some x \<Longrightarrow> nav_run_id x = [] \<Longrightarrow> remote_terminal x \<Longrightarrow> i \<in> G"
  unfolding registry_inv_def flight_outside_def calls_ok_def polls_ok_def workers_ok_def unattached_ended_def
  by (fastforce split: option.splits)+

lemma quiet_inv:
  assumes "registry_inv G s" "sv_registry t = sv_registry s"
    and "\<And>i. phase_run (sv_calls s i) (run_at (sv_registry s) i) \<Longrightarrow> phase_run (sv_calls t i) (run_at (sv_registry s) i)"
    and "\<And>p. p \<in> set (sv_polls t) \<Longrightarrow> p \<in> set (sv_polls s)"
    and "\<And>w. w \<in> set (sv_workers t) \<Longrightarrow> cw_run w \<in> cw_run ` set (sv_workers s)"
  shows "registry_inv G t"
proof (rule tamed_inv [OF assms(1)])
  show "tamed G (sv_registry s) (sv_registry t)" using tamed_refl [OF registry_invD(1) [OF assms(1)]] assms(2) by simp
qed (use assms(2-) in auto)

lemma registry_inv_invalidate:
  assumes "registry_inv G s"
  shows "registry_inv G (invalidate_all d s)"
proof (rule tamed_inv [OF assms])
  have ok: "registry_ok (sv_registry s)" using registry_invD(1) [OF assms] .
  show "tamed G (sv_registry s) (sv_registry (invalidate_all d s))" using tamed_invalidate [OF ok] by simp
  fix w assume w: "w \<in> set (sv_workers (invalidate_all d s))"
  show "cw_run w \<in> cw_run ` set (sv_workers s) \<or>
    (\<exists>x. run_at (sv_registry (invalidate_all d s)) (cw_run w) = Some x \<and> nav_run_id x \<noteq> [])"
  proof (cases "w \<in> set (sv_workers s)")
    case False
    then obtain c where c: "w = cancel_worker_for Polling c" "c \<in> set (fst (invalidate_nonterminal d (sv_registry s)))"
      using w by auto
    then show ?thesis using claimed_run [OF ok c(2)] by (auto simp: claims_cancel_def)
  qed simp
qed simp_all

lemma registry_inv_fields [simp]:
  "registry_inv G (s\<lparr>sv_pending := q\<rparr>) \<longleftrightarrow> registry_inv G s"
  by (simp add: registry_inv_def calls_ok_def unattached_ended_def polls_ok_def workers_ok_def)

lemma registry_inv_goto: "registry_inv G s \<Longrightarrow> phase_run p (run_at (sv_registry s) i) \<Longrightarrow> registry_inv G (goto i p s)"
  by (rule quiet_inv) auto

text \<open>The operations that are not tame: a call takes its own run in, attaches or removes it.\<close>

lemma own_run_inv:
  assumes "registry_inv G s" "flight_outside G (sv_registry t)"
    and "\<And>j. j \<noteq> i \<Longrightarrow> run_at (sv_registry t) j = run_at (sv_registry s) j \<and> sv_calls t j = sv_calls s j"
    and "case run_at (sv_registry s) i of None \<Rightarrow> True | Some x \<Rightarrow> nav_run_id x = []"
    and "phase_run (sv_calls t i) (run_at (sv_registry t) i)"
    and "case run_at (sv_registry t) i of None \<Rightarrow> True | Some x \<Rightarrow> nav_run_id x = [] \<longrightarrow> remote_terminal x \<longrightarrow> i \<in> G"
    and "sv_polls t = sv_polls s"
    and "\<And>w. w \<in> set (sv_workers t) \<Longrightarrow> w \<in> set (sv_workers s) \<or>
      (\<exists>x. run_at (sv_registry t) (cw_run w) = Some x \<and> nav_run_id x \<noteq> [])"
  shows "registry_inv G t"
proof -
  have other: "\<exists>x. run_at (sv_registry t) j = Some x \<and> nav_run_id x \<noteq> []"
    if "\<exists>x. run_at (sv_registry s) j = Some x \<and> nav_run_id x \<noteq> []" for j
    using assms(3) [of j] assms(4) that by (cases "j = i") auto
  have "phase_run (sv_calls t j) (run_at (sv_registry t) j)" for j
    using assms(3) [of j] assms(5) registry_invD(3) [OF assms(1), of j] by (cases "j = i") auto
  moreover have "j \<in> G" if "run_at (sv_registry t) j = Some x" "nav_run_id x = []" "remote_terminal x" for j x
    using assms(3) [of j] assms(6) registry_invD(6) [OF assms(1), of j x] that by (cases "j = i") auto
  moreover have "case run_at (sv_registry t) j of None \<Rightarrow> False | Some x \<Rightarrow> nav_run_id x \<noteq> []"
    if "(j, nav) \<in> set (sv_polls t)" "nav \<noteq> []" for j nav
    using other [OF registry_invD(4) [OF assms(1), of j nav]] that assms(7) by (auto split: option.split)
  moreover have "case run_at (sv_registry t) (cw_run w) of None \<Rightarrow> False | Some x \<Rightarrow> nav_run_id x \<noteq> []"
    if "w \<in> set (sv_workers t)" for w
    using other [OF registry_invD(5) [OF assms(1), of w]] assms(8) [OF that] by auto
  ultimately show ?thesis
    using assms(2) by (auto simp: registry_inv_def calls_ok_def unattached_ended_def polls_ok_def workers_ok_def)
qed

lemma flight_registry:
  assumes "flight_outside G r"
  shows "reserve a b c d e i r = (Inr j, r') \<Longrightarrow> flight_outside G r'" "flight_outside G (remove i r)"
    "run_at r i = Some x \<Longrightarrow> remote_terminal x \<longrightarrow> i \<in> G \<Longrightarrow> attach_navigation i nav det r = (Inr q, r') \<Longrightarrow> flight_outside G r'"
proof -
  have ok: "registry_ok r" using assms by (simp add: flight_outside_def)
  note ok' = registry_ok_ops [OF ok]
  show "flight_outside G r'" if reserved: "reserve a b c d e i r = (Inr j, r')"
  proof -
    have "registry_ok r'" using ok'(1) [of a b c d e i] reserved by simp
    then show ?thesis
      using reserved busy_None_iff [OF ok] by (auto simp: flight_outside_iff reserve_Inr new_run_def split: if_splits)
  qed
  show "flight_outside G (remove i r)"
    using assms ok' by (auto simp: flight_outside_iff split: if_splits)
  show "flight_outside G r'" if x: "run_at r i = Some x" "remote_terminal x \<longrightarrow> i \<in> G"
    and attach: "attach_navigation i nav det r = (Inr q, r')"
  proof -
    have "registry_ok r'" using ok'(2) [of i nav det] attach by simp
    moreover obtain y must where "q = (y, must)" by (cases q)
    moreover have "j = k" if "run_at r j = Some u" "run_at r k = Some v" "\<not> remote_terminal u" "\<not> remote_terminal v"
        "j \<notin> G" "k \<notin> G" for j k u v
      using assms that unfolding flight_outside_iff by blast
    ultimately show ?thesis
      using attach x unfolding flight_outside_iff by (auto simp: attach_Inr split: if_splits)
  qed
qed

lemma registry_inv_call_step:
  assumes "call_step C s t" "registry_inv G s"
  shows "registry_inv G t"
  using assms(1)
proof (cases rule: call_step.cases)
  case (reserved i a l j r)
  have "flight_outside G r"
    using flight_registry(1) [OF registry_invD(2) [OF assms(2)]] reserved(3) by (auto simp: reserve_goal_def split: option.splits)
  then show ?thesis
    using reserved by (intro own_run_inv [OF assms(2), where i = i]) (auto simp: reserve_goal_Inr new_run_def)
next
  case (navigate_unclear i a l detail)
  then show ?thesis
    using tamed_update [OF registry_invD(1) [OF assms(2)], of "''UNKNOWN''"] by (intro tamed_inv [OF assms(2)]) auto
next
  case (navigate_rejected i a l)
  then show ?thesis
    using flight_registry(2) [OF registry_invD(2) [OF assms(2)]] registry_invD(3) [OF assms(2), of i]
    by (intro own_run_inv [OF assms(2), where i = i]) (auto split: option.splits)
next
  case (navigate_accepted i a l nav detail x r)
  then obtain y where "run_at (sv_registry s) i = Some y" "nav_run_id y = []" "remote_terminal y \<longrightarrow> i \<in> G"
    using registry_invD(3) [OF assms(2), of i] registry_invD(6) [OF assms(2), of i] by (auto split: option.splits)
  then show ?thesis
    using flight_registry(3) [OF registry_invD(2) [OF assms(2)]] navigate_accepted
    by (intro own_run_inv [OF assms(2), where i = i]) (auto simp: attach_Inr)
next
  case (navigate_late i a l nav detail x r)
  then obtain y where "run_at (sv_registry s) i = Some y" "nav_run_id y = []" "remote_terminal y \<longrightarrow> i \<in> G"
    using registry_invD(3) [OF assms(2), of i] registry_invD(6) [OF assms(2), of i] by (auto split: option.splits)
  then show ?thesis
    using flight_registry(3) [OF registry_invD(2) [OF assms(2)]] navigate_late
    by (intro own_run_inv [OF assms(2), where i = i]) (auto simp: attach_Inr)
next
  case (recheck_closed i a)
  then show ?thesis
    using registry_inv_invalidate [OF assms(2)] registry_invD(3) [OF assms(2), of i]
    by (auto intro!: registry_inv_goto simp: attached_def split: option.splits)
next
  case (recheck_failed i a n tp reason)
  then show ?thesis
    using registry_inv_invalidate [OF assms(2)] registry_invD(3) [OF assms(2), of i]
    by (auto intro!: registry_inv_goto simp: attached_def split: option.splits)
qed (rule quiet_inv [OF assms(2)]; auto dest: reserve_goal_Inl subsetD [OF set_remove1_subset]; fail)+

lemma registry_inv_guard_step:
  assumes "guard_step C s t" "registry_inv G s"
  shows "registry_inv G t"
  using assms(1)
proof (cases rule: guard_step.cases)
  case (callback xs reason ys)
  then show ?thesis using assms(2) by (simp add: registry_inv_invalidate)
qed (rule quiet_inv [OF assms(2)]; auto dest: reserve_goal_Inl subsetD [OF set_remove1_subset]; fail)+

lemma registry_inv_activation_step:
  assumes "activation_step C s t" "registry_inv G s"
  shows "registry_inv G t"
  using assms(1)
proof (cases rule: activation_step.cases)
  case (stop_invalidate xs reason ys)
  then show ?thesis using assms(2) by (simp add: registry_inv_invalidate)
qed (rule quiet_inv [OF assms(2)]; auto dest: reserve_goal_Inl subsetD [OF set_remove1_subset]; fail)+

lemma registry_inv_status_step:
  assumes "status_step C False s t" "registry_inv G s"
  shows "registry_inv G t"
  using assms(1)
proof (cases rule: status_step.cases)
  case (poll i x)
  then show ?thesis
    using tamed_refl [OF registry_invD(1) [OF assms(2)]] by (intro tamed_inv [OF assms(2)]) auto
next
  case (poll_unknown i nav)
  then show ?thesis
    using tamed_update [OF registry_invD(1) [OF assms(2)], of "''UNKNOWN''"]
    by (intro tamed_inv [OF assms(2)]) (auto dest: notin_set_remove1)
next
  case (poll_known i nav state detail)
  then show ?thesis
    using tamed_update [OF registry_invD(1) [OF assms(2)], of state i G detail] registry_invD(4) [OF assms(2)]
    by (intro tamed_inv [OF assms(2)]) (auto dest: notin_set_remove1)
qed (rule quiet_inv [OF assms(2)]; auto dest: reserve_goal_Inl subsetD [OF set_remove1_subset]; fail)+

lemma registry_inv_cancel_step:
  assumes "cancel_step s t" "registry_inv G s"
  shows "registry_inv G t"
  using assms(1)
proof (cases rule: cancel_step.cases)
  case (cancel_ask i x)
  then show ?thesis
    using tamed_refl [OF registry_invD(1) [OF assms(2)]] by (intro tamed_inv [OF assms(2)]) auto
next
  case (cancel_claimed xs w ys nav detail r)
  then show ?thesis
    using tamed_set [OF registry_invD(1) [OF assms(2)], of "cw_run w"] tame_updates(5)
    by (intro tamed_inv [OF assms(2)]) (auto simp: claim_cancel_Some)
next
  case (cancel_not_claimed xs w ys r)
  then show ?thesis
    by (intro quiet_inv [OF assms(2)]) (auto dest: claim_cancel_None)
next
  case (cancel_submitted xs w ys detail x r)
  then show ?thesis
    using tamed_set [OF registry_invD(1) [OF assms(2)], of "cw_run w"] tame_updates(2)
    by (intro tamed_inv [OF assms(2)]) (auto simp: mark_Inr)
next
  case (cancel_not_submitted xs w ys reason)
  then show ?thesis
    by (intro quiet_inv [OF assms(2)]) auto
qed

lemma registry_inv_worker_step:
  assumes "worker_step s t" "registry_inv G s"
  shows "registry_inv G t"
  using assms(1)
proof (cases rule: worker_step.cases)
  case (worker_confirmed xs w ys status cancel start clock timeout_s poll_s out)
  then show ?thesis
    using tamed_update [OF registry_invD(1) [OF assms(2)]] registry_invD(5) [OF assms(2), of w]
    by (intro tamed_inv [OF assms(2)]) auto
next
  case (worker_marked xs w ys in_progress detail x r)
  then show ?thesis
    using tamed_set [OF registry_invD(1) [OF assms(2)], of "cw_run w"] tame_updates(2) registry_invD(5) [OF assms(2), of w]
    by (intro tamed_inv [OF assms(2)]) (auto simp: mark_Inr)
qed (rule quiet_inv [OF assms(2)]; auto dest: reserve_goal_Inl subsetD [OF set_remove1_subset]; fail)+

lemma registry_inv_step:
  assumes "svc_step C False s t" "registry_inv G s"
  shows "registry_inv G t"
  using assms(1)
  by (cases rule: svc_step.cases)
    (use assms in \<open>auto intro: registry_inv_call_step registry_inv_guard_step registry_inv_activation_step registry_inv_status_step registry_inv_cancel_step registry_inv_worker_step\<close>)

section \<open>Who cancels\<close>

definition active :: "cancel_worker \<Rightarrow> bool" where
  "active w \<longleftrightarrow> cw_stage w \<noteq> Asked"

text \<open>How many handlers and workers own the cancellation of a run.\<close>

definition owners :: "cancel_worker list \<Rightarrow> string \<Rightarrow> nat" where
  "owners ws i = length (filter (\<lambda>w. active w \<and> cw_run w = i) ws)"

lemma owners_simps [simp]:
  "owners [] i = 0" "owners (w # ws) i = (if active w \<and> cw_run w = i then 1 else 0) + owners ws i"
  "owners (vs @ ws) i = owners vs i + owners ws i"
  by (simp_all add: owners_def)

definition owned_run :: "nat \<Rightarrow> run option \<Rightarrow> bool" where
  "owned_run n r \<longleftrightarrow> (case r of None \<Rightarrow> n = 0
     | Some x \<Rightarrow> n \<le> 1 \<and> (n = 1 \<longrightarrow> cancel_started x) \<and> (cancel_started x \<longrightarrow> \<not> remote_terminal x \<longrightarrow> n = 1))"

definition owners_ok :: "service \<Rightarrow> bool" where
  "owners_ok s \<longleftrightarrow> (\<forall>i. owned_run (owners (sv_workers s) i) (run_at (sv_registry s) i)) \<and>
     (\<forall>w \<in> set (sv_workers s). cw_stage w = Marking True \<longrightarrow>
        (case run_at (sv_registry s) (cw_run w) of None \<Rightarrow> False | Some x \<Rightarrow> remote_terminal x))"

lemma owners_map: "owners (map (cancel_worker_for Polling) cs) i = count_list (map fst cs) i"
  by (induction cs) (auto simp: active_def)

lemma count_distinct: "distinct xs \<Longrightarrow> count_list xs x = (if x \<in> set xs then 1 else 0)"
  by (induction xs) auto

lemma claimed_distinct: "registry_ok r \<Longrightarrow> distinct (map fst (fst (invalidate_nonterminal d r)))"
proof -
  have "distinct (map (semantic_run_id \<circ> snd) (filter (P \<circ> snd) xs))"
    if "distinct (map fst xs)" "list_all (\<lambda>(i, x). semantic_run_id x = i) xs" for P and xs :: "(string \<times> run) list"
    using that by (induction xs) (force simp: list_all_iff)+
  from this [of "runs r" claims_cancel] show "registry_ok r \<Longrightarrow> distinct (map fst (fst (invalidate_nonterminal d r)))"
    by (simp add: registry_ok_def invalidate_nonterminal_def filter_map comp_def)
qed

lemma owners_claimed:
  "registry_ok r \<Longrightarrow> owners (map (cancel_worker_for Polling) (fst (invalidate_nonterminal d r))) i =
     (case run_at r i of None \<Rightarrow> 0 | Some x \<Rightarrow> if claims_cancel x then 1 else 0)"
  unfolding owners_map count_distinct [OF claimed_distinct] claimed_by_invalidation
  by (auto split: option.split)

lemma owners_invalidate:
  assumes "registry_ok (sv_registry s)" "owners_ok s"
  shows "owners_ok (invalidate_all d s)"
proof -
  have "owned_run (owners (sv_workers (invalidate_all d s)) i) (run_at (sv_registry (invalidate_all d s)) i)" for i
  proof -
    have "owned_run (owners (sv_workers s) i) (run_at (sv_registry s) i)" using assms(2) by (simp add: owners_ok_def)
    then show ?thesis
      by (cases "run_at (sv_registry s) i")
        (auto simp: owned_run_def owners_claimed [OF assms(1)] claims_cancel_def)
  qed
  moreover have "case run_at (sv_registry (invalidate_all d s)) (cw_run w) of None \<Rightarrow> False | Some x \<Rightarrow> remote_terminal x"
    if "w \<in> set (sv_workers (invalidate_all d s))" "cw_stage w = Marking True" for w
    using that assms(2) by (fastforce simp: owners_ok_def split: option.splits)
  ultimately show ?thesis by (simp add: owners_ok_def)
qed

lemma owners_ok_cong:
  assumes "owners_ok s" "\<And>i. owners (sv_workers t) i = owners (sv_workers s) i"
    and "\<And>i. map_option (\<lambda>x. (cancel_started x, remote_terminal x)) (run_at (sv_registry t) i) =
      map_option (\<lambda>x. (cancel_started x, remote_terminal x)) (run_at (sv_registry s) i)"
    and "\<And>w. w \<in> set (sv_workers t) \<Longrightarrow> cw_stage w = Marking True \<Longrightarrow> w \<in> set (sv_workers s) \<or>
      (\<exists>x. run_at (sv_registry t) (cw_run w) = Some x \<and> remote_terminal x)"
  shows "owners_ok t"
proof -
  have view: "owned_run n r \<longleftrightarrow> owned_run n r'"
    if "map_option (\<lambda>x. (cancel_started x, remote_terminal x)) r = map_option (\<lambda>x. (cancel_started x, remote_terminal x)) r'"
    for n r r' using that by (cases r; cases r') (auto simp: owned_run_def)
  have "owned_run (owners (sv_workers t) i) (run_at (sv_registry t) i)" for i
    using view [OF assms(3)] assms(1,2) by (simp add: owners_ok_def)
  moreover have "case run_at (sv_registry t) (cw_run w) of None \<Rightarrow> False | Some x \<Rightarrow> remote_terminal x"
    if "w \<in> set (sv_workers t)" "cw_stage w = Marking True" for w
    using assms(4) [OF that] assms(1) assms(3) [of "cw_run w"] that(2)
    by (auto simp: owners_ok_def split: option.splits dest!: bspec)
  ultimately show ?thesis by (simp add: owners_ok_def)
qed

lemma owners_ok_key:
  assumes "owners_ok s"
    and "\<And>j. j \<noteq> i \<Longrightarrow> owners (sv_workers t) j = owners (sv_workers s) j \<and> run_at (sv_registry t) j = run_at (sv_registry s) j"
    and "owned_run (owners (sv_workers t) i) (run_at (sv_registry t) i)"
    and "\<And>w. w \<in> set (sv_workers t) \<Longrightarrow> cw_stage w = Marking True \<Longrightarrow> w \<in> set (sv_workers s) \<and> cw_run w \<noteq> i \<or>
      (\<exists>x. run_at (sv_registry t) (cw_run w) = Some x \<and> remote_terminal x)"
  shows "owners_ok t"
proof -
  have "owned_run (owners (sv_workers t) j) (run_at (sv_registry t) j)" for j
    using assms(1) assms(2) [of j] assms(3) by (cases "j = i") (auto simp: owners_ok_def)
  moreover have "case run_at (sv_registry t) (cw_run w) of None \<Rightarrow> False | Some x \<Rightarrow> remote_terminal x"
    if "w \<in> set (sv_workers t)" "cw_stage w = Marking True" for w
    using assms(4) [OF that] assms(1) assms(2) [of "cw_run w"] that(2)
    by (cases "cw_run w = i") (auto simp: owners_ok_def split: option.splits dest!: bspec)
  ultimately show ?thesis by (simp add: owners_ok_def)
qed

lemma owners_okD:
  "owners_ok s \<Longrightarrow> owned_run (owners (sv_workers s) i) (run_at (sv_registry s) i)"
  "owners_ok s \<Longrightarrow> w \<in> set (sv_workers s) \<Longrightarrow> cw_stage w = Marking True \<Longrightarrow>
     \<exists>x. run_at (sv_registry s) (cw_run w) = Some x \<and> remote_terminal x"
  by (auto simp: owners_ok_def split: option.splits)

lemma owners_remote:
  assumes "owners_ok s" "sv_workers t = sv_workers s" "sv_registry t = snd (update_remote i st d (sv_registry s))"
  shows "owners_ok t"
proof (rule owners_ok_key [OF assms(1), where i = i])
  show "owned_run (owners (sv_workers t) i) (run_at (sv_registry t) i)"
    using owners_okD(1) [OF assms(1), of i] assms(2,3)
    by (cases "run_at (sv_registry s) i") (auto simp: owned_run_def)
  fix w assume "w \<in> set (sv_workers t)" "cw_stage w = Marking True"
  then show "w \<in> set (sv_workers s) \<and> cw_run w \<noteq> i \<or> (\<exists>x. run_at (sv_registry t) (cw_run w) = Some x \<and> remote_terminal x)"
    using owners_okD(2) [OF assms(1), of w] assms(2,3) by auto
qed (use assms(2,3) in simp_all)

lemma confirmed_terminal:
  assumes "cancel_until_terminal status cancel start clock timeout_s poll_s = Some (Outcome out)" "co_terminal out"
  shows "remote_terminal (remote_update (co_terminal_state out) d x)"
proof -
  obtain v where "cancel_loop status cancel clock (fadd start timeout_s) 0 v = Some out"
    using assms(1) by (auto simp: cancel_until_terminal_def split: if_splits)
  then obtain n where "confirms (status n) (co_terminal_state out)"
    using cancel_loop_decided assms(2) unfolding decided_at_def by (metis (full_types))
  then have "co_terminal_state out \<in> set CANCEL_TERMINAL_STATES"
    by (auto simp: confirms_def split: status_reply.splits)
  then show ?thesis
    by (auto simp: CANCEL_TERMINAL_STATES_def remote_update_def Let_def TERMINAL_STATES_def str_upper_def str_strip_def
        upper_char_def is_space_def code_of_def)
qed

lemma owners_calling:
  "registry_inv G s \<Longrightarrow> owners_ok s \<Longrightarrow> sv_calls s i = Navigating a l \<Longrightarrow>
    \<exists>x. run_at (sv_registry s) i = Some x \<and> \<not> cancel_started x \<and> nav_run_id x = [] \<and> owners (sv_workers s) i = 0"
  using registry_invD(3) [of G s i] owners_okD(1) [of s i] by (auto simp: owned_run_def split: option.splits)

lemma owners_unmarked:
  "registry_inv G s \<Longrightarrow> owners_ok s \<Longrightarrow> w \<in> set (sv_workers s) \<Longrightarrow> cw_stage w = Marking True \<Longrightarrow>
    sv_calls s i = Navigating a l \<Longrightarrow> cw_run w \<noteq> i"
  using registry_invD(5) [of G s w] registry_invD(3) [of G s i] by (auto split: option.splits)

lemma owners_ended:
  "owners_ok s \<Longrightarrow> run_at (sv_registry s) i = Some x \<Longrightarrow>
    \<forall>w \<in> set (sv_workers s). cw_stage w = Marking True \<longrightarrow> cw_run w = i \<longrightarrow> remote_terminal x"
  using owners_okD(2) [of s] by fastforce

lemma owners_ok_call_step:
  assumes "call_step C s t" "registry_inv G s" "owners_ok s"
  shows "owners_ok t"
  using assms(1)
proof (cases rule: call_step.cases)
  case (reserved i a l j r)
  then have i: "run_at (sv_registry s) i = None" "owners (sv_workers s) i = 0"
    using registry_invD(3) [OF assms(2), of i] owners_okD(1) [OF assms(3), of i] by (auto simp: owned_run_def)
  then have "cw_run w \<noteq> i" if "w \<in> set (sv_workers s)" "cw_stage w = Marking True" for w
    using owners_okD(2) [OF assms(3) that] by auto
  then show ?thesis
    using reserved i
    by (intro owners_ok_key [OF assms(3), where i = i])
      (auto simp: reserve_goal_Inr owned_run_def new_run_def)
next
  case (navigate_unclear i a l detail)
  then show ?thesis by (intro owners_remote [OF assms(3)]) auto
next
  case (navigate_rejected i a l)
  then show ?thesis
    using owners_calling [OF assms(2,3)] owners_unmarked [OF assms(2,3)]
    by (intro owners_ok_key [OF assms(3), where i = i]) (fastforce simp: owned_run_def)+
next
  case (navigate_accepted i a l nav detail x r)
  then show ?thesis
    using owners_calling [OF assms(2,3) navigate_accepted(2)] owners_unmarked [OF assms(2,3)]
    by (intro owners_ok_key [OF assms(3), where i = i]) (auto simp: owned_run_def attach_Inr)
next
  case (navigate_late i a l nav detail x r)
  then show ?thesis
    using owners_calling [OF assms(2,3) navigate_late(2)] owners_unmarked [OF assms(2,3)]
    by (intro owners_ok_key [OF assms(3), where i = i]) (auto simp: owned_run_def attach_Inr active_def)
next
  case (recheck_closed i a)
  then show ?thesis
    by (intro owners_ok_cong [OF owners_invalidate [OF registry_invD(1) [OF assms(2)] assms(3)]]) auto
next
  case (recheck_failed i a n tp reason)
  then show ?thesis
    by (intro owners_ok_cong [OF owners_invalidate [OF registry_invD(1) [OF assms(2)] assms(3)]]) auto
qed (rule owners_ok_cong [OF assms(3)]; auto dest: reserve_goal_Inl; fail)+

lemma owners_ok_guard_step:
  assumes "guard_step C s t" "registry_inv G s" "owners_ok s"
  shows "owners_ok t"
  using assms(1)
proof (cases rule: guard_step.cases)
  case (callback xs reason ys)
  then show ?thesis
    by (intro owners_ok_cong [OF owners_invalidate [OF registry_invD(1) [OF assms(2)] assms(3)]]) auto
qed (rule owners_ok_cong [OF assms(3)]; auto dest: reserve_goal_Inl; fail)+

lemma owners_ok_activation_step:
  assumes "activation_step C s t" "registry_inv G s" "owners_ok s"
  shows "owners_ok t"
  using assms(1)
proof (cases rule: activation_step.cases)
  case (stop_invalidate xs reason ys)
  then show ?thesis
    by (intro owners_ok_cong [OF owners_invalidate [OF registry_invD(1) [OF assms(2)] assms(3)]]) auto
qed (rule owners_ok_cong [OF assms(3)]; auto dest: reserve_goal_Inl; fail)+

lemma owners_ok_status_step:
  assumes "status_step C False s t" "registry_inv G s" "owners_ok s"
  shows "owners_ok t"
  using assms(1)
proof (cases rule: status_step.cases)
  case (poll_unknown i nav)
  then show ?thesis by (intro owners_remote [OF assms(3)]) auto
next
  case (poll_known i nav state detail)
  then show ?thesis by (intro owners_remote [OF assms(3)]) auto
qed (rule owners_ok_cong [OF assms(3)]; auto dest: reserve_goal_Inl; fail)+

lemma owners_ok_cancel_step:
  assumes "cancel_step s t" "registry_inv G s" "owners_ok s"
  shows "owners_ok t"
  using assms(1)
proof (cases rule: cancel_step.cases)
  case (cancel_ask i x)
  then show ?thesis by (intro owners_ok_cong [OF assms(3)]) (auto simp: active_def)
next
  case (cancel_claimed xs w ys nav detail r)
  then obtain x where x: "run_at (sv_registry s) (cw_run w) = Some x" "\<not> cancel_started x" "owners (sv_workers s) (cw_run w) = 0"
    using owners_okD(1) [OF assms(3), of "cw_run w"] by (auto simp: claim_cancel_Some owned_run_def)
  then show ?thesis
    using cancel_claimed owners_ended [OF assms(3) x(1)] x
    by (intro owners_ok_key [OF assms(3), where i = "cw_run w"])
      (auto simp: claim_cancel_Some owned_run_def active_def)
next
  case (cancel_not_claimed xs w ys r)
  then show ?thesis by (intro owners_ok_cong [OF assms(3)]) (auto simp: active_def dest: claim_cancel_None)
next
  case (cancel_submitted xs w ys detail x r)
  then obtain y where y: "run_at (sv_registry s) (cw_run w) = Some y" by (auto simp: mark_Inr)
  show ?thesis
    using cancel_submitted owners_okD(1) [OF assms(3), of "cw_run w"] owners_ended [OF assms(3) y] y
    by (intro owners_ok_key [OF assms(3), where i = "cw_run w"])
      (auto simp: mark_Inr owned_run_def active_def)
next
  case (cancel_not_submitted xs w ys reason)
  then show ?thesis by (intro owners_ok_cong [OF assms(3)]) (auto simp: active_def)
qed

lemma owners_ok_worker_step:
  assumes "worker_step s t" "registry_inv G s" "owners_ok s"
  shows "owners_ok t"
  using assms(1)
proof (cases rule: worker_step.cases)
  case (worker_confirmed xs w ys status cancel start clock timeout_s poll_s out)
  obtain x where x: "run_at (sv_registry s) (cw_run w) = Some x"
    using registry_invD(5) [OF assms(2), of w] worker_confirmed(2) by auto
  define y where "y = remote_update (co_terminal_state out) (co_detail out) x"
  have y: "remote_terminal y" "cancel_started y = cancel_started x" "run_at (sv_registry t) (cw_run w) = Some y"
    using confirmed_terminal [OF worker_confirmed(4,5)] x worker_confirmed(1) by (simp_all add: y_def)
  show ?thesis
  proof (rule owners_ok_key [OF assms(3), where i = "cw_run w"])
    show "owned_run (owners (sv_workers t) (cw_run w)) (run_at (sv_registry t) (cw_run w))"
      using owners_okD(1) [OF assms(3), of "cw_run w"] worker_confirmed(1-3) unfolding y(3) x
      by (simp add: y(1,2) owned_run_def active_def split: if_splits)
  next
    fix v assume "v \<in> set (sv_workers t)" "cw_stage v = Marking True"
    then show "v \<in> set (sv_workers s) \<and> cw_run v \<noteq> cw_run w \<or>
      (\<exists>x. run_at (sv_registry t) (cw_run v) = Some x \<and> remote_terminal x)"
      using y(1,3) worker_confirmed(1,2) by (cases "cw_run v = cw_run w") auto
  qed (use worker_confirmed in \<open>auto simp: active_def\<close>)
next
  case (worker_saw_terminal xs w ys x)
  then show ?thesis by (intro owners_ok_cong [OF assms(3)]) (auto simp: active_def)
next
  case (worker_timed_out xs w ys status cancel start clock timeout_s poll_s out x)
  then show ?thesis by (intro owners_ok_cong [OF assms(3)]) (auto simp: active_def)
next
  case (worker_marked xs w ys in_progress detail x r)
  then obtain y where y: "run_at (sv_registry s) (cw_run w) = Some y" by (auto simp: mark_Inr)
  show ?thesis
    using worker_marked owners_okD(1) [OF assms(3), of "cw_run w"] owners_ended [OF assms(3) y] y
    by (intro owners_ok_key [OF assms(3), where i = "cw_run w"])
      (auto simp: mark_Inr owned_run_def active_def)
qed

lemma owners_step:
  assumes "svc_step C False s t" "registry_inv G s" "owners_ok s"
  shows "owners_ok t"
  using assms(1)
  by (cases rule: svc_step.cases)
    (use assms in \<open>auto intro: owners_ok_call_step owners_ok_guard_step owners_ok_activation_step owners_ok_status_step owners_ok_cancel_step owners_ok_worker_step\<close>)

section \<open>Runs and map epochs\<close>

text \<open>The service accepts goals and its guard reports exactly this revision, map and generation.\<close>

definition current_epoch :: "service \<Rightarrow> nat \<Rightarrow> string \<Rightarrow> int \<Rightarrow> bool" where
  "current_epoch s epo mid gen \<longleftrightarrow> sv_accepting s \<and> (case sv_bound s of None \<Rightarrow> False
     | Some n \<Rightarrow> lg_revision (sv_guards s n) = epo \<and> lg_error (sv_guards s n) = [] \<and>
         lg_state (sv_guards s n) = Some \<lparr>ms_map_id = mid, ms_mode = ''localization'', ms_generation = gen\<rparr>)"

definition may_move :: "run \<Rightarrow> bool" where
  "may_move x \<longleftrightarrow> \<not> remote_terminal x \<and> \<not> invalidated x"

definition bound_to_epoch :: "service \<Rightarrow> run \<Rightarrow> bool" where
  "bound_to_epoch s x \<longleftrightarrow> current_epoch s (lifecycle_revision x) (run_map_id x) (run_map_generation x)"

definition epoch_ok :: "string set \<Rightarrow> service \<Rightarrow> bool" where
  "epoch_ok G s \<longleftrightarrow> sv_pending s \<noteq> [] \<or>
     (\<forall>i x. run_at (sv_registry s) i = Some x \<longrightarrow> i \<notin> G \<longrightarrow> may_move x \<longrightarrow> bound_to_epoch s x)"

definition callback_due :: "service \<Rightarrow> bool" where
  "callback_due s \<longleftrightarrow> (\<exists>r. Callback r \<in> set (sv_pending s))"

definition admission_current :: "service \<Rightarrow> admission \<Rightarrow> bool" where
  "admission_current s a \<longleftrightarrow> (case ls_state (ad_snapshot a) of None \<Rightarrow> False
     | Some m \<Rightarrow> current_epoch s (ls_revision (ad_snapshot a)) (ms_map_id m) (ms_generation m))"

text \<open>While a call holds \<open>_lock\<close> its admission stays current, or a callback waits for the lock.\<close>

definition lock_ok :: "service \<Rightarrow> bool" where
  "lock_ok s \<longleftrightarrow> (\<forall>i a l. sv_calls s i = Validated a l \<longrightarrow>
     sv_lock s = Some i \<and> (callback_due s \<or> admission_current s a))"

lemma epoch_views [simp]:
  "current_epoch (goto i p s) epo mid gen \<longleftrightarrow> current_epoch s epo mid gen" "callback_due (goto i p s) \<longleftrightarrow> callback_due s"
  "current_epoch (remote_reply i st d s) epo mid gen \<longleftrightarrow> current_epoch s epo mid gen" "callback_due (remote_reply i st d s) \<longleftrightarrow> callback_due s"
  "current_epoch (invalidate_all d s) epo mid gen \<longleftrightarrow> current_epoch s epo mid gen" "callback_due (invalidate_all d s) \<longleftrightarrow> callback_due s"
  "current_epoch (s\<lparr>sv_registry := r'\<rparr>) epo mid gen \<longleftrightarrow> current_epoch s epo mid gen" "callback_due (s\<lparr>sv_registry := r'\<rparr>) \<longleftrightarrow> callback_due s"
  "current_epoch (s\<lparr>sv_lock := l'\<rparr>) epo mid gen \<longleftrightarrow> current_epoch s epo mid gen" "callback_due (s\<lparr>sv_lock := l'\<rparr>) \<longleftrightarrow> callback_due s"
  "current_epoch (s\<lparr>sv_workers := w'\<rparr>) epo mid gen \<longleftrightarrow> current_epoch s epo mid gen" "callback_due (s\<lparr>sv_workers := w'\<rparr>) \<longleftrightarrow> callback_due s"
  "current_epoch (s\<lparr>sv_polls := p'\<rparr>) epo mid gen \<longleftrightarrow> current_epoch s epo mid gen" "callback_due (s\<lparr>sv_polls := p'\<rparr>) \<longleftrightarrow> callback_due s"
  "current_epoch (s\<lparr>sv_activation := a'\<rparr>) epo mid gen \<longleftrightarrow> current_epoch s epo mid gen" "callback_due (s\<lparr>sv_activation := a'\<rparr>) \<longleftrightarrow> callback_due s"
  "current_epoch (s\<lparr>sv_alive := b'\<rparr>) epo mid gen \<longleftrightarrow> current_epoch s epo mid gen" "callback_due (s\<lparr>sv_alive := b'\<rparr>) \<longleftrightarrow> callback_due s"
  by (simp_all add: current_epoch_def callback_due_def split: option.split)

lemma current_epoch_pending [simp]: "current_epoch (s\<lparr>sv_pending := q\<rparr>) epo mid gen \<longleftrightarrow> current_epoch s epo mid gen"
  by (simp add: current_epoch_def split: option.split)

lemma callback_due_pending: "callback_due s \<Longrightarrow> sv_pending s \<noteq> []"
  by (auto simp: callback_due_def)

lemma goal_fields [simp]:
  "lifecycle_revision (attach_run nav d x) = lifecycle_revision x" "run_map_id (attach_run nav d x) = run_map_id x"
  "run_map_generation (attach_run nav d x) = run_map_generation x"
  "lifecycle_revision (remote_update st d x) = lifecycle_revision x" "run_map_id (remote_update st d x) = run_map_id x"
  "run_map_generation (remote_update st d x) = run_map_generation x"
  "lifecycle_revision (cancel_result d b x) = lifecycle_revision x" "run_map_id (cancel_result d b x) = run_map_id x"
  "run_map_generation (cancel_result d b x) = run_map_generation x"
  by (simp_all add: attach_run_def remote_update_def cancel_result_def Let_def split: option.split)

lemma may_move_updates:
  "may_move (remote_update st d x) \<Longrightarrow> may_move x" "may_move (cancel_result d b x) \<longleftrightarrow> may_move x"
  "may_move (x\<lparr>cancel_started := c\<rparr>) \<longleftrightarrow> may_move x" "\<not> may_move (invalidate_run d x)"
  by (auto simp: may_move_def)

text \<open>A change of the guard either leaves its epoch alone or queues a callback.\<close>

lemma guard_epoch:
  assumes "r = lg_observe_message py_repr msg g \<or> r = lg_fail reason False g"
    and "lg_error g = []" "lg_state g = Some m"
  shows "(\<exists>q. on_transition (fst r) = [Callback q]) \<or>
    lg_revision (snd r) = lg_revision g \<and> lg_error (snd r) = lg_error g \<and> lg_state (snd r) = lg_state g"
proof -
  obtain e where e: "r = lifecycle_step py_repr e g"
    using assms(1) by (metis lifecycle_step.simps)
  show ?thesis
    using lifecycle_step_facts [of py_repr e g "fst r" "snd r"] e assms(2,3)
    by (cases "fst r") (auto simp: on_transition_def)
qed

lemma callback_due_changed [simp]: "callback_due s \<Longrightarrow> callback_due (guard_changed n r s)"
  by (auto simp: callback_due_def)

lemma epoch_guard_changed:
  assumes "r = lg_observe_message py_repr msg (sv_guards s n) \<or> r = lg_fail reason False (sv_guards s n)"
    and "current_epoch s epo mid gen"
  shows "callback_due (guard_changed n r s) \<or> current_epoch (guard_changed n r s) epo mid gen"
proof (cases "sv_bound s = Some n")
  case True
  then show ?thesis
    using guard_epoch [OF assms(1)] assms(2) by (fastforce simp: current_epoch_def callback_due_def)
next
  case False
  then show ?thesis using assms(2) by (auto simp: current_epoch_def split: option.splits)
qed

lemma epoch_ok_keep:
  assumes "epoch_ok G s" "sv_pending s \<noteq> [] \<Longrightarrow> sv_pending t \<noteq> []"
    and "\<And>i y. run_at (sv_registry t) i = Some y \<Longrightarrow> i \<notin> G \<Longrightarrow> may_move y \<Longrightarrow>
      \<exists>x. run_at (sv_registry s) i = Some x \<and> may_move x \<and> lifecycle_revision y = lifecycle_revision x \<and>
        run_map_id y = run_map_id x \<and> run_map_generation y = run_map_generation x"
    and "\<And>epo mid gen. current_epoch s epo mid gen \<Longrightarrow> sv_pending t \<noteq> [] \<or> current_epoch t epo mid gen"
  shows "epoch_ok G t"
proof -
  have "bound_to_epoch t y" if none: "sv_pending t = []" and y: "run_at (sv_registry t) i = Some y" "i \<notin> G" "may_move y" for i y
  proof -
    obtain x where x: "run_at (sv_registry s) i = Some x" "may_move x" "lifecycle_revision y = lifecycle_revision x"
        "run_map_id y = run_map_id x" "run_map_generation y = run_map_generation x"
      using assms(3) [OF y] by blast
    have "bound_to_epoch s x" using assms(1,2) none x(1,2) y(2) by (auto simp: epoch_ok_def)
    then show ?thesis
      using assms(4) [of "lifecycle_revision x" "run_map_id x" "run_map_generation x"] none
      unfolding bound_to_epoch_def x(3-5) by simp
  qed
  then show ?thesis by (auto simp: epoch_ok_def)
qed

lemma epoch_ok_invalidated: "epoch_ok G (invalidate_all d s)"
proof -
  have "\<not> may_move x" if "run_at (sv_registry (invalidate_all d s)) i = Some x" for i x
    using that may_move_updates(4) by auto
  then show ?thesis unfolding epoch_ok_def by blast
qed

lemma lock_ok_keep:
  assumes "lock_ok s" "\<And>i a l. sv_calls t i = Validated a l \<Longrightarrow> sv_calls s i = Validated a l \<and> sv_lock t = sv_lock s"
    and "sv_lock s \<noteq> None \<Longrightarrow> callback_due s \<Longrightarrow> callback_due t"
    and "\<And>epo mid gen. sv_lock s \<noteq> None \<Longrightarrow> current_epoch s epo mid gen \<Longrightarrow> callback_due t \<or> current_epoch t epo mid gen"
  shows "lock_ok t"
  unfolding lock_ok_def
proof (intro allI impI)
  fix i a l assume "sv_calls t i = Validated a l"
  then have c: "sv_calls s i = Validated a l" "sv_lock t = sv_lock s" using assms(2) by auto
  then have "sv_lock s = Some i" "callback_due s \<or> admission_current s a" using assms(1) by (auto simp: lock_ok_def)
  then show "sv_lock t = Some i \<and> (callback_due t \<or> admission_current t a)"
    using assms(3,4) c(2) by (auto simp: admission_current_def split: option.splits)
qed

lemma guard_changed_ok:
  assumes "r = lg_observe_message py_repr msg (sv_guards s n) \<or> r = lg_fail reason False (sv_guards s n)"
  shows "epoch_ok G s \<Longrightarrow> epoch_ok G (guard_changed n r s)" "lock_ok s \<Longrightarrow> lock_ok (guard_changed n r s)"
proof -
  have due: "callback_due (guard_changed n r s) \<or> current_epoch (guard_changed n r s) epo mid gen"
    if "current_epoch s epo mid gen" for epo mid gen
    using epoch_guard_changed [OF assms that] .
  show "epoch_ok G (guard_changed n r s)" if "epoch_ok G s"
  proof (rule epoch_ok_keep [OF that])
    show "sv_pending (guard_changed n r s) \<noteq> [] \<or> current_epoch (guard_changed n r s) epo mid gen"
      if "current_epoch s epo mid gen" for epo mid gen
      using due [OF that] callback_due_pending by blast
  qed auto
  show "lock_ok (guard_changed n r s)" if "lock_ok s"
    by (rule lock_ok_keep [OF that]) (simp_all add: due)
qed

lemma epoch_ok_goto [simp]: "epoch_ok G (goto i p s) \<longleftrightarrow> epoch_ok G s"
  by (simp add: epoch_ok_def bound_to_epoch_def)

lemma lock_ok_goto: "lock_ok s \<Longrightarrow> (\<And>a l. p \<noteq> Validated a l) \<Longrightarrow> lock_ok (goto i p s)"
  by (rule lock_ok_keep) (auto split: if_splits)

lemma epoch_ok_fields [simp]:
  "epoch_ok G (s\<lparr>sv_lock := l\<rparr>) \<longleftrightarrow> epoch_ok G s" "epoch_ok G (s\<lparr>sv_workers := w\<rparr>) \<longleftrightarrow> epoch_ok G s"
  "epoch_ok G (s\<lparr>sv_polls := q\<rparr>) \<longleftrightarrow> epoch_ok G s" "epoch_ok G (s\<lparr>sv_activation := a\<rparr>) \<longleftrightarrow> epoch_ok G s"
  "epoch_ok G (s\<lparr>sv_alive := b\<rparr>) \<longleftrightarrow> epoch_ok G s"
  by (simp_all add: epoch_ok_def bound_to_epoch_def)

lemma epoch_ok_remote: "epoch_ok G s \<Longrightarrow> epoch_ok G (remote_reply i st d s)"
  by (rule epoch_ok_keep) (auto dest: may_move_updates(1) split: if_splits)

lemma epoch_ok_set:
  assumes "epoch_ok G s" "run_at (sv_registry s) i = Some x" "may_move y \<Longrightarrow> may_move x"
    "lifecycle_revision y = lifecycle_revision x" "run_map_id y = run_map_id x"
    "run_map_generation y = run_map_generation x"
  shows "epoch_ok G (s\<lparr>sv_registry := set_run i y (sv_registry s)\<rparr>)"
  by (rule epoch_ok_keep [OF assms(1)]) (use assms in \<open>auto split: if_splits\<close>)

lemma epoch_ok_call_step:
  assumes "call_step C s t" "registry_inv G s" "lock_ok s" "epoch_ok G s"
  shows "epoch_ok G t"
  using assms(1)
proof (cases rule: call_step.cases)
  case (check_dead i p n tp)
  then show ?thesis using guard_changed_ok(1) [OF disjI2 [OF refl] assms(4)] by simp
next
  case (reserved i a l j r)
  then have "callback_due s \<or> admission_current s a" using assms(3) unfolding lock_ok_def by blast
  then show ?thesis
    using reserved assms(4) callback_due_pending
    by (auto simp: epoch_ok_def reserve_goal_Inr bound_to_epoch_def new_run_def admission_current_def
        split: if_splits)
next
  case (not_reserved i a l e r)
  then have r: "r = sv_registry s" using reserve_goal_Inl by blast
  show ?thesis using not_reserved(1) assms(4) by (simp add: r epoch_ok_def bound_to_epoch_def)
next
  case (navigate_unclear i a l detail)
  then show ?thesis using assms(4) by (simp add: epoch_ok_remote)
next
  case (navigate_rejected i a l)
  then show ?thesis
    by (intro epoch_ok_keep [OF assms(4)]) (auto split: if_splits)
next
  case (navigate_accepted i a l nav detail x r)
  then show ?thesis
    using registry_invD(3) [OF assms(2), of i] registry_invD(6) [OF assms(2), of i]
    by (intro epoch_ok_keep [OF assms(4)]) (auto simp: attach_Inr may_move_def split: if_splits)
next
  case (navigate_late i a l nav detail x r)
  then show ?thesis
    by (intro epoch_ok_keep [OF assms(4)]) (auto simp: attach_Inr may_move_def split: if_splits)
next
  case (recheck_closed i a)
  then show ?thesis using epoch_ok_invalidated by simp
next
  case (recheck_failed i a n tp reason)
  then show ?thesis using epoch_ok_invalidated by simp
qed (use assms(4) in simp_all)

lemma epoch_ok_guard_step:
  assumes "guard_step C s t" "registry_inv G s" "lock_ok s" "epoch_ok G s"
  shows "epoch_ok G t"
  using assms(1)
proof (cases rule: guard_step.cases)
  case (observe n msg)
  then show ?thesis using guard_changed_ok(1) assms(4) by blast
next
  case (fail n reason)
  then show ?thesis using guard_changed_ok(1) assms(4) by blast
next
  case (callback xs reason ys)
  then show ?thesis using epoch_ok_invalidated by simp
qed (use assms(4) in simp_all)

lemma epoch_ok_activation_step:
  assumes "activation_step C s t" "registry_inv G s" "lock_ok s" "epoch_ok G s"
  shows "epoch_ok G t"
  using assms(1)
proof (cases rule: activation_step.cases)
  case (bind g topic)
  then have "sv_pending s \<noteq> [] \<or> (\<forall>i x. run_at (sv_registry s) i = Some x \<longrightarrow> i \<notin> G \<longrightarrow> \<not> may_move x)"
    using assms(4) by (auto simp: epoch_ok_def bound_to_epoch_def current_epoch_def)
  then show ?thesis using bind by (auto simp: epoch_ok_def)
next
  case (accept_goals n)
  then show ?thesis
    by (intro epoch_ok_keep [OF assms(4)]) (auto simp: current_epoch_def split: option.splits)
next
  case (stop reason giving_up)
  then show ?thesis by (simp add: epoch_ok_def)
next
  case (stop_invalidate xs reason ys)
  then show ?thesis using epoch_ok_invalidated by simp
qed (use assms(4) in simp_all)

lemma epoch_ok_status_step:
  assumes "status_step C False s t" "registry_inv G s" "lock_ok s" "epoch_ok G s"
  shows "epoch_ok G t"
  using assms(1)
proof (cases rule: status_step.cases)
  case (poll_unknown i nav)
  then show ?thesis using assms(4) by (simp add: epoch_ok_remote)
next
  case (poll_known i nav state detail)
  then show ?thesis using assms(4) by (simp add: epoch_ok_remote)
qed (use assms(4) in simp_all)

lemma epoch_ok_cancel_step:
  assumes "cancel_step s t" "registry_inv G s" "lock_ok s" "epoch_ok G s"
  shows "epoch_ok G t"
  using assms(1)
proof (cases rule: cancel_step.cases)
  case (cancel_claimed xs w ys nav detail r)
  then obtain y where "run_at (sv_registry s) (cw_run w) = Some y"
    "r = set_run (cw_run w) (y\<lparr>cancel_started := True\<rparr>) (sv_registry s)"
    by (auto simp: claim_cancel_Some)
  then have "epoch_ok G (s\<lparr>sv_registry := r\<rparr>)"
    using epoch_ok_set [OF assms(4), of "cw_run w" y "y\<lparr>cancel_started := True\<rparr>"] by (simp only: may_move_updates) simp
  then show ?thesis unfolding cancel_claimed(1) by (rule epoch_ok_fields(2) [THEN iffD2])
next
  case (cancel_not_claimed xs w ys r)
  then have r: "r = sv_registry s" using claim_cancel_None by blast
  show ?thesis using cancel_not_claimed(1) assms(4) by (simp add: r epoch_ok_def bound_to_epoch_def)
next
  case (cancel_submitted xs w ys detail x r)
  then obtain y d where "run_at (sv_registry s) (cw_run w) = Some y"
    "r = set_run (cw_run w) (cancel_result d None y) (sv_registry s)"
    by (auto simp: mark_Inr)
  then have "epoch_ok G (s\<lparr>sv_registry := r\<rparr>)"
    using epoch_ok_set [OF assms(4), of "cw_run w" y "cancel_result d None y"] by (simp only: may_move_updates goal_fields)
  then show ?thesis unfolding cancel_submitted(1) by (rule epoch_ok_fields(2) [THEN iffD2])
qed (use assms(4) in simp_all)

lemma epoch_ok_worker_step:
  assumes "worker_step s t" "registry_inv G s" "lock_ok s" "epoch_ok G s"
  shows "epoch_ok G t"
  using assms(1)
proof (cases rule: worker_step.cases)
  case (worker_confirmed xs w ys status cancel start clock timeout_s poll_s out)
  then show ?thesis using assms(4) by (simp add: epoch_ok_remote)
next
  case (worker_marked xs w ys in_progress detail x r)
  then obtain y d where "run_at (sv_registry s) (cw_run w) = Some y"
    "r = set_run (cw_run w) (cancel_result d (Some in_progress) y) (sv_registry s)"
    by (auto simp: mark_Inr)
  then have "epoch_ok G (s\<lparr>sv_registry := r\<rparr>)"
    using epoch_ok_set [OF assms(4), of "cw_run w" y "cancel_result d (Some in_progress) y"] by (simp only: may_move_updates goal_fields)
  then show ?thesis unfolding worker_marked(1) by (rule epoch_ok_fields(2) [THEN iffD2])
qed (use assms(4) in simp_all)

lemma epoch_step:
  assumes "svc_step C False s t" "registry_inv G s" "lock_ok s" "epoch_ok G s"
  shows "epoch_ok G t"
  using assms(1)
  by (cases rule: svc_step.cases)
    (use assms in \<open>auto intro: epoch_ok_call_step epoch_ok_guard_step epoch_ok_activation_step epoch_ok_status_step epoch_ok_cancel_step epoch_ok_worker_step\<close>)

lemma lock_holder: "lock_ok s \<Longrightarrow> sv_calls s i = Validated a l \<Longrightarrow> sv_calls s j = Validated b k \<Longrightarrow> j = i"
  unfolding lock_ok_def by (metis option.inject)

lemma lock_ok_call_step:
  assumes "call_step C s t" "lock_ok s"
  shows "lock_ok t"
  using assms(1)
proof (cases rule: call_step.cases)
  case (check_dead i p n tp)
  then show ?thesis using guard_changed_ok(2) [OF disjI2 [OF refl] assms(2)] by (simp add: lock_ok_goto)
next
  case (validate i a l snap)
  then have "admission_current t a"
    unfolding validate_now_def validate_current_Inr by (auto simp: admission_current_def current_epoch_def ready_def)
  then show ?thesis using validate assms(2) by (auto simp: lock_ok_def)
next
  case (reserved i a l j r)
  then have "sv_calls t j \<noteq> Validated b k" for j b k
    using lock_holder [OF assms(2) reserved(2), of j b k] by auto
  then show ?thesis by (simp add: lock_ok_def)
next
  case (not_reserved i a l e r)
  then have "sv_calls t j \<noteq> Validated b k" for j b k
    using lock_holder [OF assms(2) not_reserved(2), of j b k] by auto
  then show ?thesis by (simp add: lock_ok_def)
qed (rule lock_ok_keep [OF assms(2)]; auto split: if_splits; fail)+

lemma lock_ok_guard_step:
  assumes "guard_step C s t" "lock_ok s"
  shows "lock_ok t"
  using assms(1)
proof (cases rule: guard_step.cases)
  case (observe n msg)
  then show ?thesis using guard_changed_ok(2) assms(2) by blast
next
  case (fail n reason)
  then show ?thesis using guard_changed_ok(2) assms(2) by blast
qed (rule lock_ok_keep [OF assms(2)]; auto split: if_splits; fail)+

lemma lock_ok_activation_step:
  assumes "activation_step C s t" "lock_ok s"
  shows "lock_ok t"
  using assms(1)
proof (cases rule: activation_step.cases)
  case (accept_goals n)
  then show ?thesis by (intro lock_ok_keep [OF assms(2)]) (auto simp: current_epoch_def callback_due_def split: option.splits)
next
  case (stop_invalidate xs reason ys)
  then show ?thesis by (intro lock_ok_keep [OF assms(2)]) (auto simp: callback_due_def)
qed (rule lock_ok_keep [OF assms(2)]; auto split: if_splits; fail)+

lemma lock_ok_status_step:
  assumes "status_step C False s t" "lock_ok s"
  shows "lock_ok t"
  using assms(1)
proof (cases rule: status_step.cases)
qed (rule lock_ok_keep [OF assms(2)]; auto split: if_splits; fail)+

lemma lock_ok_cancel_step:
  assumes "cancel_step s t" "lock_ok s"
  shows "lock_ok t"
  using assms(1)
proof (cases rule: cancel_step.cases)
qed (rule lock_ok_keep [OF assms(2)]; auto split: if_splits; fail)+

lemma lock_ok_worker_step:
  assumes "worker_step s t" "lock_ok s"
  shows "lock_ok t"
  using assms(1)
proof (cases rule: worker_step.cases)
qed (rule lock_ok_keep [OF assms(2)]; auto split: if_splits; fail)+

lemma lock_step:
  assumes "svc_step C False s t" "lock_ok s"
  shows "lock_ok t"
  using assms(1)
  by (cases rule: svc_step.cases)
    (use assms in \<open>auto intro: lock_ok_call_step lock_ok_guard_step lock_ok_activation_step lock_ok_status_step lock_ok_cancel_step lock_ok_worker_step\<close>)

section \<open>Executions\<close>

definition service_inv :: "string set \<Rightarrow> service \<Rightarrow> bool" where
  "service_inv G s \<longleftrightarrow> registry_inv G s \<and> owners_ok s \<and> lock_ok s \<and> epoch_ok G s"

lemma service_inv_initial: "service_inv {} (initial_service g0)"
  by (simp add: service_inv_def initial_service_def registry_inv_def calls_ok_def unattached_ended_def polls_ok_def
      workers_ok_def owners_ok_def owned_run_def lock_ok_def epoch_ok_def flight_outside_def empty_registry_def
      registry_ok_def single_flight_def run_at_def)

lemma service_inv_step: "service_inv G s \<Longrightarrow> svc_step C False s t \<Longrightarrow> service_inv G t"
  using registry_inv_step owners_step lock_step epoch_step by (auto simp: service_inv_def)

lemma service_inv_mono:
  assumes "service_inv G s" "G \<subseteq> H"
  shows "service_inv H s"
proof -
  have "epoch_ok H s" using assms unfolding service_inv_def epoch_ok_def by blast
  then show ?thesis
    using assms flight_outside_mono [of G _ H] by (auto simp: service_inv_def registry_inv_def unattached_ended_def)
qed

text \<open>An answer that is not terminal leaves a live run live.\<close>

lemma live_answer:
  "\<not> (clean_state state = [] \<or> clean_state state \<in> set TERMINAL_STATES) \<Longrightarrow> remote_terminal (remote_update state d x) \<Longrightarrow>
    remote_terminal x"
  by (auto simp: remote_update_def clean_state_def Let_def split: if_splits)

lemma nameless_tamed:
  assumes "registry_ok (sv_registry s)" "H = (if ends_dispatch s i state then insert i G else G)"
  shows "tamed H (sv_registry s) (snd (update_remote i state d (sv_registry s)))"
proof (cases "run_at (sv_registry s) i")
  case None
  then show ?thesis using tamed_refl [OF assms(1)] by (simp add: update_remote_def require_run_cases)
next
  case (Some x)
  have "remote_terminal x \<or> i \<in> H" if "nav_run_id x = []" "remote_terminal (remote_update state d x)"
    using live_answer [OF _ that(2)] that(1) Some assms(2) by (cases "ends_dispatch s i state") (auto simp: ends_dispatch_def)
  then have "tame H x (remote_update state d x)"
    using registry_ok_id [OF assms(1) Some] by (simp add: tame_def)
  then show ?thesis
    using tamed_set [OF assms(1) Some] Some by (simp add: update_remote_def require_run_cases)
qed

lemma service_inv_nameless:
  assumes "service_inv G s" "(i, []) \<in> set (sv_polls s)"
  shows "service_inv (if ends_dispatch s i state then insert i G else G)
    (remote_reply i state d (s\<lparr>sv_polls := remove1 (i, []) (sv_polls s)\<rparr>))"
proof -
  define H where "H = (if ends_dispatch s i state then insert i G else G)"
  let ?t = "remote_reply i state d (s\<lparr>sv_polls := remove1 (i, []) (sv_polls s)\<rparr>)"
  have inv: "registry_inv H s" "owners_ok s" "lock_ok s" "epoch_ok H s"
    using service_inv_mono [OF assms(1), of H] subset_insertI [of G i] unfolding H_def service_inv_def
    by (simp_all split: if_splits)
  have "tamed H (sv_registry s) (sv_registry ?t)"
    using nameless_tamed [OF registry_invD(1) [OF inv(1)] H_def] by simp
  then have "registry_inv H ?t"
    by (rule tamed_inv [OF inv(1)]) (auto dest: notin_set_remove1)
  moreover have "owners_ok ?t" by (rule owners_remote [OF inv(2)]) simp_all
  moreover have "lock_ok ?t" by (rule lock_ok_keep [OF inv(3)]) auto
  moreover have "epoch_ok H ?t" by (rule epoch_ok_remote) (use inv(4) in simp)
  ultimately show ?thesis by (simp add: H_def service_inv_def)
qed

lemma execution_inv: "svc_execution C s G \<Longrightarrow> service_inv G s"
proof (induction rule: svc_execution.induct)
  case (nameless s G i state detail)
  show ?case by (rule service_inv_nameless [OF nameless.IH nameless.hyps(2)])
qed (auto intro: service_inv_initial service_inv_step)

text \<open>Every reachable state ends an execution, and every execution ends in a reachable state.\<close>

lemma step_weaken: "svc_step C False s t \<Longrightarrow> svc_step C True s t"
  by (auto elim!: svc_step.cases status_step.cases intro: svc_step.intros status_step.intros)

lemma step_nameless:
  assumes "svc_step C True s t"
  shows "svc_step C False s t \<or> (\<exists>i state d. (i, []) \<in> set (sv_polls s) \<and>
    t = remote_reply i state d (s\<lparr>sv_polls := remove1 (i, []) (sv_polls s)\<rparr>))"
  using assms
proof (cases rule: svc_step.cases)
  case status
  then show ?thesis
  proof (cases rule: status_step.cases)
    case (poll i x)
    then show ?thesis using status_step.poll [of i s x C False] svc_step.status by simp
  next
    case (poll_known i nav state detail)
    show ?thesis
    proof (cases "nav = []")
      case True
      then show ?thesis using poll_known by blast
    next
      case False
      then show ?thesis using poll_known status_step.poll_known [of i nav s False C state detail] svc_step.status by simp
    qed
  qed (auto intro: svc_step.intros status_step.intros)
qed (auto intro: svc_step.intros)

lemma reachable_execution: "svc_reachable C True s \<longleftrightarrow> (\<exists>G. svc_execution C s G)"
proof
  assume "svc_reachable C True s"
  then show "\<exists>G. svc_execution C s G"
  proof (induction rule: svc_reachable.induct)
    case (start g0)
    then show ?case using begin_execution by blast
  next
    case (step s t)
    then show ?case using step_nameless [OF step.hyps(2)] ordinary nameless by blast
  qed
next
  assume "\<exists>G. svc_execution C s G"
  then obtain G where "svc_execution C s G" ..
  then show "svc_reachable C True s"
  proof (induction rule: svc_execution.induct)
    case (nameless s G i state detail)
    then have "status_step C True s (remote_reply i state detail (s\<lparr>sv_polls := remove1 (i, []) (sv_polls s)\<rparr>))"
      by (intro poll_known) auto
    then show ?case using nameless.IH svc_reachable.step svc_step.status by blast
  qed (auto intro: svc_reachable.intros step_weaken)
qed

lemma reachable_plain: "svc_reachable C False s \<Longrightarrow> svc_execution C s {}"
  by (induction rule: svc_reachable.induct) (auto intro: begin_execution ordinary)

lemma reachable_owners: "svc_reachable C True s \<Longrightarrow> owners_ok s"
  using execution_inv by (auto simp: reachable_execution service_inv_def)

inductive_simps reachable_simps: "svc_reachable C known_empty s"

text \<open>Reachability along one step of each handler.\<close>

lemmas reach_call = svc_reachable.step [OF _ svc_step.call]
lemmas reach_guard = svc_reachable.step [OF _ svc_step.guard]
lemmas reach_activation = svc_reachable.step [OF _ svc_step.activation]
lemmas reach_status = svc_reachable.step [OF _ svc_step.status]

section \<open>A call that meets no obstacle\<close>

text \<open>The service is active, idle and the guard is ready for the landmark asked for.\<close>

definition serves :: "service_config \<Rightarrow> service \<Rightarrow> nat \<Rightarrow> admission \<Rightarrow> string \<Rightarrow> landmark \<Rightarrow> bool" where
  "serves C s n a name l \<longleftrightarrow> sv_lock s = None \<and> sv_accepting s \<and> sv_bound s = Some n \<and> sv_alive s n \<and>
     ready (sv_guards s n) \<and>
     a = \<lparr>ad_guard = n, ad_subscriber = n, ad_topic = sv_topic s, ad_snapshot = lg_snapshot (sv_guards s n)\<rparr> \<and>
     resolve (cf_normalize C) (cf_store C) name (expected_map_id (sv_guards s n)) (expected_generation (sv_guards s n))
       (cf_require_verified C) = Inr l"

definition after_reserve :: "string \<Rightarrow> admission \<Rightarrow> landmark \<Rightarrow> service \<Rightarrow> service" where
  "after_reserve i a l s = goto i (Navigating a l) s\<lparr>sv_registry := snd (reserve_goal a l i (sv_registry s))\<rparr>"

lemma ready_snapshot:
  "ready g \<Longrightarrow> ls_state (lg_snapshot g) =
     Some \<lparr>ms_map_id = expected_map_id g, ms_mode = ''localization'', ms_generation = expected_generation g\<rparr>"
  "ls_revision (lg_snapshot g) = lg_revision g"
  by (simp_all add: ready_def lg_snapshot_def)

lemma call_reserved:
  assumes "svc_reachable C b s" "serves C s n a name l" "sv_calls s i = NotCalled" "i \<noteq> []"
    and "busy_run (sv_registry s) = None" "run_at (sv_registry s) i = None"
  shows "svc_reachable C b (after_reserve i a l s)"
proof -
  have idle: "sv_lock s = None" "sv_accepting s" "sv_bound s = Some n" "sv_alive s n" "ready (sv_guards s n)"
    and a: "a = \<lparr>ad_guard = n, ad_subscriber = n, ad_topic = sv_topic s, ad_snapshot = lg_snapshot (sv_guards s n)\<rparr>"
    and l: "resolve (cf_normalize C) (cf_store C) name (expected_map_id (sv_guards s n)) (expected_generation (sv_guards s n))
       (cf_require_verified C) = Inr l"
    using assms(2) by (auto simp: serves_def)
  let ?s1 = "goto i (ReadBinding (First name) n (sv_topic s)) s"
  let ?s2 = "goto i (LiveChecked (First name) n (sv_topic s)) ?s1"
  let ?s3 = "goto i (Admitted a l) ?s2"
  let ?s4 = "goto i (Validated a l) ?s3\<lparr>sv_lock := Some i\<rparr>"
  have s1: "svc_reachable C b ?s1"
    using reach_call [OF assms(1) call_start] assms(3,4) idle by simp
  have s2: "svc_reachable C b ?s2"
    by (rule reach_call [OF s1 check_alive]) (use idle in \<open>simp_all add: goto_def\<close>)
  have s3: "svc_reachable C b ?s3"
    unfolding a
    by (rule reach_call [OF s2 admit [where snap = "lg_snapshot (sv_guards s n)" and
          active = "\<lparr>ms_map_id = expected_map_id (sv_guards s n), ms_mode = ''localization'',
            ms_generation = expected_generation (sv_guards s n)\<rparr>"]])
      (use idle l in \<open>simp_all add: require_ready_Inr ready_snapshot\<close>)
  have "validate_now a ?s3 = Inr (lg_snapshot (sv_guards s n))"
    unfolding validate_now_def validate_current_Inr using idle by (simp add: a goto_def lg_snapshot_def)
  then have s4: "svc_reachable C b ?s4"
    by (intro reach_call [OF s3 validate]) (use idle in simp_all)
  obtain r where r: "reserve_goal a l i (sv_registry s) = (Inr i, r)"
    using assms(5,6) idle(5) by (simp add: reserve_goal_Inr a ready_snapshot)
  have "svc_reachable C b (goto i (Navigating a l) ?s4\<lparr>sv_registry := r, sv_lock := None\<rparr>)"
    by (rule reach_call [OF s4 reserved]) (use r in simp_all)
  moreover have "goto i (Navigating a l) ?s4\<lparr>sv_registry := r, sv_lock := None\<rparr> = after_reserve i a l s"
    using idle(1) by (simp add: after_reserve_def goto_def r)
  ultimately show ?thesis by simp
qed

definition after_accept :: "string \<Rightarrow> string \<Rightarrow> string \<Rightarrow> service \<Rightarrow> service" where
  "after_accept i nav detail s =
     goto i (Returned True) s\<lparr>sv_registry := snd (attach_navigation i nav detail (sv_registry s))\<rparr>"

lemma call_accepted:
  assumes "svc_reachable C b s" "serves C s n a name l" "sv_calls s i = Navigating a l" "nav \<noteq> []"
    and "run_at (sv_registry s) i = Some x" "\<not> invalidated x"
  shows "svc_reachable C b (after_accept i nav detail s)"
proof -
  have idle: "sv_lock s = None" "sv_accepting s" "sv_bound s = Some n" "sv_alive s n" "ready (sv_guards s n)"
    and a: "a = \<lparr>ad_guard = n, ad_subscriber = n, ad_topic = sv_topic s, ad_snapshot = lg_snapshot (sv_guards s n)\<rparr>"
    using assms(2) by (auto simp: serves_def)
  obtain r where r: "attach_navigation i nav detail (sv_registry s) = (Inr (attach_run nav detail x, False), r)"
    using assms(4-6) by (simp add: attach_Inr)
  have run: "run_at r i = Some (attach_run nav detail x)" using r by (auto simp: attach_Inr)
  have snap: "ad_snapshot a = lg_snapshot (sv_guards s n)" by (simp add: a)
  let ?s1 = "goto i (Accepted a) s\<lparr>sv_registry := r\<rparr>"
  let ?s2 = "goto i (ReadBinding (Again a) n (sv_topic ?s1)) ?s1"
  let ?s3 = "goto i (LiveChecked (Again a) n (sv_topic ?s1)) ?s2"
  let ?s4 = "goto i Closing ?s3"
  have s1: "svc_reachable C b ?s1" using reach_call [OF assms(1) navigate_accepted] assms(3) r by blast
  have s2: "svc_reachable C b ?s2" by (rule reach_call [OF s1 recheck]) (use idle in simp_all)
  have s3: "svc_reachable C b ?s3"
    by (rule reach_call [OF s2 check_alive]) (use idle in \<open>simp_all add: goto_def\<close>)
  have s4: "svc_reachable C b ?s4"
    by (rule reach_call [OF s3 recheck_same [where a = a and n = n and snap = "lg_snapshot (sv_guards s n)"]]) (use idle snap in \<open>simp_all add: require_ready_Inr\<close>)
  have "svc_reachable C b (goto i (Returned (\<not> invalidated (attach_run nav detail x))) ?s4)"
    by (rule reach_call [OF s4 respond]) (use run in simp_all)
  moreover have "goto i (Returned (\<not> invalidated (attach_run nav detail x))) ?s4 = after_accept i nav detail s"
    using assms(6) by (simp add: after_accept_def goto_def r)
  ultimately show ?thesis by simp
qed

end
