(* ===== verification/SemanticDemo.thy ===== *)
theory SemanticDemo imports SemanticInvariant begin

text \<open>
  A concrete deployment of the semantic navigation service: one verified landmark, activation by the
  first lifecycle sample, one goal reserved, accepted and moving.
\<close>

definition hall :: landmark where
  "hall = \<lparr>lm_id = ''hall'', lm_name = ''Hall'', lm_aliases = [''lobby''], lm_kind = ''navigation'',
     lm_map_id = ''floor1'', lm_map_generation = 3, lm_frame_id = ''map'',
     lm_pose = Some (Fin 1, Fin 2, Fin 0), lm_arrival_radius = Some (Fin 1), lm_region = None,
     lm_verified = True, lm_metadata = []\<rparr>"

definition floor1 :: landmark_store where
  "floor1 = \<lparr>st_map_id = ''floor1'', st_map_generation = 3, st_frame_id = ''map'', st_landmarks = [hall]\<rparr>"

definition demo_config :: service_config where
  "demo_config = \<lparr>cf_store = floor1, cf_require_verified = True, cf_normalize = normalize_ascii, cf_repr = (\<lambda>s. s)\<rparr>"

definition sample :: "(string \<times> pyval) list" where
  "sample = [(''map_id'', VStr ''floor1''), (''mode'', VStr ''localization''), (''generation'', VInt 3)]"

definition fresh_guard :: lifecycle_guard where
  "fresh_guard = \<lparr>expected_map_id = ''floor1'', expected_generation = 3, lg_state = None,
     lg_error = ''no MapLifecycle sample has been received'', lg_revision = 0, lg_sample_seen = False\<rparr>"

definition ready_guard :: lifecycle_guard where
  "ready_guard = \<lparr>expected_map_id = ''floor1'', expected_generation = 3,
     lg_state = Some \<lparr>ms_map_id = ''floor1'', ms_mode = ''localization'', ms_generation = 3\<rparr>,
     lg_error = [], lg_revision = 1, lg_sample_seen = True\<rparr>"

lemmas text_defs = str_lower_def lower_char_def str_strip_def is_space_def code_of_def

lemma sample_seen:
  "lg_observe_message r sample fresh_guard =
     (Some \<lparr>lt_previous = None, lt_current = lg_state ready_guard, lt_error = [], lt_revision = 1\<rparr>, ready_guard)"
  by (simp add: lg_observe_message_def from_message_def sample_def lg_observe_def fresh_guard_def ready_guard_def
      parse_generation_def UINT64_MAX_def text_defs)

lemma guard_created: "LifecycleGuard_init (st_map_id floor1) (VInt (st_map_generation floor1)) = Inr fresh_guard"
  by (simp add: LifecycleGuard_init_def floor1_def fresh_guard_def parse_generation_def UINT64_MAX_def text_defs)

lemma hall_resolved: "resolve normalize_ascii floor1 ''to the hall'' ''floor1'' 3 True = Inr hall"
proof -
  have "normalize_ascii ''to the hall'' = ''tothehall''" "normalize_ascii ''Hall'' = ''hall''"
    "normalize_ascii ''lobby'' = ''lobby''"
    by code_simp+
  moreover have "sublist ''hall'' ''tothehall''" "\<not> sublist ''lobby'' ''tothehall''" by code_simp+
  ultimately show ?thesis
    by (simp add: resolve_def floor1_def hall_def match_items_def term_matches_def lm_terms_def navigable_def)
qed

definition ready_service :: service where
  "ready_service = (initial_service fresh_guard)\<lparr>sv_accepting := True, sv_bound := Some 0, sv_topic := ''/map_lifecycle'',
     sv_guards := (\<lambda>_. fresh_guard)(0 := ready_guard), sv_alive := (\<lambda>_. False)(0 := True), sv_objects := 1\<rparr>"

lemma ready_reachable: "svc_reachable demo_config b ready_service"
proof -
  let ?s0 = "initial_service fresh_guard"
  let ?s1 = "?s0\<lparr>sv_guards := (sv_guards ?s0)(sv_objects ?s0 := fresh_guard), sv_objects := sv_objects ?s0 + 1,
      sv_bound := Some (sv_objects ?s0), sv_topic := ''/map_lifecycle'', sv_accepting := False,
      sv_activation := Starting (sv_objects ?s0)\<rparr>"
  let ?s2 = "?s1\<lparr>sv_alive := (sv_alive ?s1)(0 := True)\<rparr>"
  let ?s3 = "guard_changed 0 (lg_observe_message (cf_repr demo_config) sample (sv_guards ?s2 0)) ?s2"
  let ?s4 = "?s3\<lparr>sv_activation := Checked 0\<rparr>"
  let ?s5 = "?s4\<lparr>sv_accepting := True, sv_activation := Inactive\<rparr>"
  note init = initial_service_def
  have s1: "svc_reachable demo_config b ?s1"
    by (rule reach_activation [OF svc_reachable.start [of _ _ fresh_guard] bind])
      (simp_all add: init demo_config_def guard_created)
  have s2: "svc_reachable demo_config b ?s2" by (rule reach_guard [OF s1 subscriber])
  have s3: "svc_reachable demo_config b ?s3" by (rule reach_guard [OF s2 observe])
  have s3_eq: "?s3 = ?s2\<lparr>sv_guards := (\<lambda>_. fresh_guard)(0 := ready_guard)\<rparr>"
    by (simp add: init guard_changed_def sample_seen on_transition_def)
  have s4: "svc_reachable demo_config b ?s4"
    by (rule reach_activation [OF s3 ready_check [where snap = "lg_snapshot ready_guard"]])
      (simp_all add: guard_changed_def sample_seen on_transition_def init require_ready_Inr ready_def ready_guard_def)
  have "svc_reachable demo_config b ?s5"
    by (rule reach_activation [OF s4 accept_goals]) (simp_all add: init)
  moreover have "?s5 = ready_service" unfolding s3_eq by (simp add: ready_service_def init)
  ultimately show ?thesis by simp
qed

definition hall_admission :: admission where
  "hall_admission = \<lparr>ad_guard = 0, ad_subscriber = 0, ad_topic = ''/map_lifecycle'', ad_snapshot = lg_snapshot ready_guard\<rparr>"

lemma ready_serves: "serves demo_config ready_service 0 hall_admission ''to the hall'' hall"
  using hall_resolved
  by (simp add: serves_def ready_service_def hall_admission_def demo_config_def ready_def ready_guard_def
      initial_service_def)

definition hall_run :: run where
  "hall_run = new_run ''r1'' ''hall'' ''Hall'' ''floor1'' 3 1"

definition navigating_service :: service where
  "navigating_service = after_reserve ''r1'' hall_admission hall ready_service"

definition moving_service :: service where
  "moving_service = after_accept ''r1'' ''nav-7'' ''accepted'' navigating_service"

lemma navigating_reachable: "svc_reachable demo_config b navigating_service"
  unfolding navigating_service_def
  by (rule call_reserved [OF ready_reachable ready_serves])
    (simp_all add: ready_service_def initial_service_def busy_run_def empty_registry_def run_at_def)

lemma navigating_fields:
  "run_at (sv_registry navigating_service) i = (if i = ''r1'' then Some hall_run else None)"
  "sv_calls navigating_service ''r1'' = Navigating hall_admission hall"
  by (simp_all add: navigating_service_def after_reserve_def reserve_goal_def reserve_def ready_service_def
      initial_service_def busy_run_def empty_registry_def run_at_def hall_run_def hall_def hall_admission_def
      lg_snapshot_def ready_guard_def set_run_def)

lemma navigating_serves: "serves demo_config navigating_service 0 hall_admission ''to the hall'' hall"
  using ready_serves by (simp add: serves_def navigating_service_def after_reserve_def goto_def)

lemma moving_reachable: "svc_reachable demo_config b moving_service"
  unfolding moving_service_def
  by (rule call_accepted [OF navigating_reachable navigating_serves, where x = hall_run])
    (simp_all add: navigating_fields hall_run_def new_run_def)

lemma moving_fields:
  "run_at (sv_registry moving_service) i = (if i = ''r1'' then Some (attach_run ''nav-7'' ''accepted'' hall_run) else None)"
  "sv_pending moving_service = []" "sv_calls moving_service ''r1'' = Returned True"
proof -
  show "run_at (sv_registry moving_service) i = (if i = ''r1'' then Some (attach_run ''nav-7'' ''accepted'' hall_run) else None)"
    by (simp add: moving_service_def after_accept_def attach_navigation_def require_run_cases navigating_fields)
  show "sv_pending moving_service = []" "sv_calls moving_service ''r1'' = Returned True"
    by (simp_all add: moving_service_def after_accept_def navigating_service_def after_reserve_def ready_service_def
        initial_service_def)
qed

lemma moving_may_move: "may_move (attach_run ''nav-7'' ''accepted'' hall_run)"
  by (simp add: may_move_def hall_run_def new_run_def)

section \<open>A provider that answers for the empty run id\<close>

text \<open>A status request for the goal in flight carries an empty run id; a terminal answer frees the slot.\<close>

definition polled_service :: service where
  "polled_service = remote_reply ''r1'' ''SUCCEEDED'' ''previous goal'' navigating_service"

definition second_service :: service where
  "second_service = after_reserve ''r2'' hall_admission hall polled_service"

definition revived_service :: service where
  "revived_service = goto ''r1'' (Accepted hall_admission) second_service
     \<lparr>sv_registry := snd (attach_navigation ''r1'' ''nav-7'' ''accepted'' (sv_registry second_service))\<rparr>"

lemma polled_reachable: "svc_reachable demo_config True polled_service"
proof -
  let ?s1 = "navigating_service\<lparr>sv_polls := (''r1'', nav_run_id hall_run) # sv_polls navigating_service\<rparr>"
  have s1: "svc_reachable demo_config True ?s1"
    by (rule reach_status [OF navigating_reachable poll])
      (simp_all add: navigating_fields hall_run_def new_run_def)
  have "svc_reachable demo_config True (remote_reply ''r1'' ''SUCCEEDED'' ''previous goal''
      (?s1\<lparr>sv_polls := remove1 (''r1'', []) (sv_polls ?s1)\<rparr>))"
    by (rule reach_status [OF s1 poll_known]) (simp_all add: hall_run_def new_run_def)
  moreover have "remote_reply ''r1'' ''SUCCEEDED'' ''previous goal''
      (?s1\<lparr>sv_polls := remove1 (''r1'', []) (sv_polls ?s1)\<rparr>) = polled_service"
    by (simp add: polled_service_def remote_reply_def hall_run_def new_run_def)
  ultimately show ?thesis by simp
qed

definition ended_run :: run where
  "ended_run = remote_update ''SUCCEEDED'' ''previous goal'' hall_run"

lemma ended_run_facts [simp]: "remote_terminal ended_run" "\<not> invalidated ended_run"
proof -
  show "remote_terminal ended_run"
    unfolding ended_run_def hall_run_def
    by (simp add: remote_update_def new_run_def Let_def TERMINAL_STATES_def str_upper_def upper_char_def str_strip_def
        is_space_def code_of_def)
  show "\<not> invalidated ended_run" by (simp add: ended_run_def hall_run_def new_run_def)
qed

lemma polled_fields:
  "run_at (sv_registry polled_service) i = (if i = ''r1'' then Some ended_run else None)"
  "sv_calls polled_service = sv_calls navigating_service"
  by (simp_all add: polled_service_def navigating_fields ended_run_def)

lemma polled_serves: "serves demo_config polled_service 0 hall_admission ''to the hall'' hall"
  using navigating_serves by (simp add: serves_def polled_service_def remote_reply_def)

lemma polled_not_busy: "busy_run (sv_registry polled_service) = None"
proof -
  have "runs (sv_registry navigating_service) = [(''r1'', hall_run)]"
    by (simp add: navigating_service_def after_reserve_def reserve_goal_def reserve_def ready_service_def
        initial_service_def busy_run_def empty_registry_def hall_run_def hall_def hall_admission_def
        lg_snapshot_def ready_guard_def set_run_def)
  then have "runs (sv_registry polled_service) = [(''r1'', ended_run)]"
    by (simp add: polled_service_def update_remote_def require_run_def set_run_def ended_run_def)
  then show ?thesis by (simp add: busy_run_def)
qed

lemma second_reachable: "svc_reachable demo_config True second_service"
  unfolding second_service_def
  by (rule call_reserved [OF polled_reachable polled_serves])
    (simp_all add: polled_fields polled_not_busy navigating_service_def after_reserve_def ready_service_def
      initial_service_def)

lemma second_fields:
  "run_at (sv_registry second_service) i = (if i = ''r2'' then Some (new_run ''r2'' ''hall'' ''Hall'' ''floor1'' 3 1)
     else if i = ''r1'' then Some ended_run else None)"
  "sv_calls second_service ''r1'' = Navigating hall_admission hall"
proof -
  have "reserve_goal hall_admission hall ''r2'' (sv_registry polled_service) = (Inr ''r2'',
      (set_run ''r2'' (new_run ''r2'' ''hall'' ''Hall'' ''floor1'' 3 1) (sv_registry polled_service))\<lparr>latest_run_id := ''r2''\<rparr>)"
    using polled_not_busy polled_fields(1) [of "''r2''"]
    by (simp add: reserve_goal_Inr hall_admission_def lg_snapshot_def ready_guard_def hall_def)
  then show "run_at (sv_registry second_service) i =
      (if i = ''r2'' then Some (new_run ''r2'' ''hall'' ''Hall'' ''floor1'' 3 1)
       else if i = ''r1'' then Some ended_run else None)"
    by (simp add: second_service_def after_reserve_def polled_fields)
  show "sv_calls second_service ''r1'' = Navigating hall_admission hall"
    by (simp add: second_service_def after_reserve_def polled_fields navigating_fields)
qed

lemma revived_reachable: "svc_reachable demo_config True revived_service"
  unfolding revived_service_def
  by (rule reach_call [OF second_reachable navigate_accepted [where x = "attach_run ''nav-7'' ''accepted'' ended_run"]])
    (auto simp: second_fields attach_Inr attach_navigation_def require_run_cases)

lemma revived_fields:
  "run_at (sv_registry revived_service) ''r1'' = Some (attach_run ''nav-7'' ''accepted'' ended_run)"
  "run_at (sv_registry revived_service) ''r2'' = Some (new_run ''r2'' ''hall'' ''Hall'' ''floor1'' 3 1)"
  by (simp_all add: revived_service_def attach_navigation_def require_run_cases second_fields)

end
