(* ===== verification/SemanticProperties.thy ===== *)
theory SemanticProperties imports SemanticDemo begin

text \<open>The properties of the semantic navigation skill, each with a concrete instance.\<close>






text \<open>
  C24. Cancellation is neither lost nor duplicated: a run whose cancellation has been claimed and
  whose provider terminal is not confirmed has exactly one handler or worker that will go on
  cancelling it, and a run nobody claimed has none. It holds in every reachable state, whatever the
  provider answers.
\<close>

theorem service_cancel_owned:
  assumes "svc_reachable C True s" "run_at (sv_registry s) i = Some x" "\<not> remote_terminal x"
  shows "owners (sv_workers s) i = (if cancel_started x then 1 else 0)"
  using owners_okD(1) [OF reachable_owners [OF assms(1)], of i] assms(2,3) by (auto simp: owned_run_def)

theorem service_cancel_owned_witness:
  "owners (sv_workers (invalidate_all ''map switched'' moving_service\<lparr>sv_pending := []\<rparr>)) ''r1'' = 1"
proof -
  let ?s = "close_binding ''map switched'' True moving_service"
  let ?x = "attach_run ''nav-7'' ''accepted'' hall_run"
  have idle: "sv_lock moving_service = None"
    by (simp add: moving_service_def after_accept_def navigating_service_def after_reserve_def goto_def
        ready_service_def initial_service_def)
  have "svc_reachable demo_config True ?s"
    by (rule reach_activation [OF moving_reachable stop [OF idle]])
  then have "svc_reachable demo_config True (invalidate_all ''map switched'' (?s\<lparr>sv_pending := [] @ []\<rparr>))"
    by (rule reach_activation [OF _ stop_invalidate]) (simp add: moving_fields)
  then have "owners (sv_workers (invalidate_all ''map switched'' (?s\<lparr>sv_pending := [] @ []\<rparr>))) ''r1'' =
      (if cancel_started (invalidate_run ''map switched'' ?x) then 1 else 0)"
    by (rule service_cancel_owned) (simp_all add: moving_fields)
  then show ?thesis
    by (simp add: claims_cancel_def hall_run_def new_run_def invalidate_all_def)
qed

text \<open>
  C40. The runs in \<open>G\<close> have to be left out: if the provider answers \<open>known\<close> for an empty run id, a status request
  for a goal still being dispatched can end that run, admit a second goal, and let the late reply of
  the first call revive its run: two runs are then live at once.
\<close>

theorem service_revival_breaks_single_flight:
  "svc_reachable demo_config True revived_service \<and> \<not> single_flight (sv_registry revived_service)"
proof -
  let ?r = "sv_registry revived_service"
  have live: "\<not> remote_terminal (new_run ''r2'' ''hall'' ''Hall'' ''floor1'' 3 1)" by (simp add: new_run_def)
  have "(''r1'', attach_run ''nav-7'' ''accepted'' ended_run) \<in> set (runs ?r)"
    "(''r2'', new_run ''r2'' ''hall'' ''Hall'' ''floor1'' 3 1) \<in> set (runs ?r)"
    using revived_fields by (auto simp: run_at_def intro: map_of_SomeD)
  then have "{''r1'', ''r2''} \<subseteq> set (map fst (filter (\<lambda>p. \<not> remote_terminal (snd p)) (runs ?r)))"
    using live by force
  then have "card {''r1'', ''r2''} \<le> length (map fst (filter (\<lambda>p. \<not> remote_terminal (snd p)) (runs ?r)))"
    by (meson List.finite_set card_length card_mono le_trans)
  then show ?thesis using revived_reachable by (simp add: single_flight_def filter_map comp_def)
qed

text \<open>
  Provider-terminal evidence is final: whatever registry operations follow, a run that ended with
  a confirmed terminal state keeps that state, unless the run is attached anew or taken out.
\<close>

theorem registry_terminal_final:
  assumes "ended_as i st r" "list_all (keeps_run i) es"
  shows "ended_as i st (final registry_step es r)"
  by (rule terminal_evidence.inv_final) (use assms in simp_all)

theorem registry_terminal_final_witness:
  "ended_as ''r1'' ''SUCCEEDED'' (final registry_step
     [UpdateRemote ''r1'' ''RUNNING'' ''late'', Invalidate ''map switched'', ClaimCancel ''r1''] (sv_registry polled_service))"
proof -
  have "remote_state ended_run = ''SUCCEEDED''"
    by (simp add: ended_run_def hall_run_def remote_update_def new_run_def Let_def TERMINAL_STATES_def str_upper_def
        upper_char_def str_strip_def is_space_def code_of_def)
  then show ?thesis
    by (intro registry_terminal_final) (simp_all add: ended_as_def polled_fields keeps_run_def)
qed

text \<open>
  The revision of the lifecycle guard identifies its state: if messages and failures leave the
  revision where it was, they left the map state and the error where they were, so that comparing
  revisions before dispatch compares everything the guard knows.
\<close>

theorem lifecycle_revision_identifies:
  fixes g :: lifecycle_guard
  assumes "h = final (lifecycle_step py_repr) es g" "lg_revision h = lg_revision g"
  shows "lg_state h = lg_state g \<and> lg_error h = lg_error g"
  using epoch.inv_final [of g g py_repr es] assms by (simp add: since_def list.pred_True)

theorem lifecycle_revision_identifies_witness:
  "lg_state (final (lifecycle_step (\<lambda>s. s)) [Message sample, Message sample] ready_guard) = lg_state ready_guard"
proof -
  have again: "lifecycle_step (\<lambda>s. s) (Message sample) ready_guard = (None, ready_guard)"
    by (simp add: lg_observe_message_def from_message_def sample_def lg_observe_def ready_guard_def
        parse_generation_def UINT64_MAX_def text_defs)
  show ?thesis
    using lifecycle_revision_identifies [OF refl, of "\<lambda>s. s" "[Message sample, Message sample]" ready_guard] again by simp
qed

text \<open>
  C23. Resolving an utterance is exact: it returns a landmark just when the store is the active map's,
  the normalized utterance is not empty, and that landmark is the one navigable landmark any of whose
  terms the utterance mentions, verified if verification is required.
\<close>

theorem resolve_exact:
  assumes "store_ok nrm st"
  shows "resolve nrm st utterance m g rv = Inr l \<longleftrightarrow>
    nrm utterance \<noteq> [] \<and> st_map_id st = m \<and> st_map_generation st = g \<and> l \<in> set (st_landmarks st) \<and> navigable l \<and>
    mentioned nrm (nrm utterance) l \<and> (rv \<longrightarrow> lm_verified l) \<and>
    (\<forall>k \<in> set (st_landmarks st). navigable k \<longrightarrow> mentioned nrm (nrm utterance) k \<longrightarrow> k = l)"
  by (rule resolve_iff) (use assms in \<open>simp add: store_ok_def\<close>)

lemma floor1_ok: "store_ok normalize_ascii floor1"
proof -
  have "normalize_ascii ''Hall'' = ''hall''" "normalize_ascii ''lobby'' = ''lobby''" by code_simp+
  moreover have "fle (fl (5 / 100)) (Fin 1)" by simp
  ultimately show ?thesis
    by (simp add: store_ok_def floor1_def hall_def landmark_ok_def lm_terms_def UINT64_MAX_def)
qed

theorem resolve_exact_witness:
  "mentioned normalize_ascii (normalize_ascii ''to the hall'') hall \<and> hall \<in> set (st_landmarks floor1)"
  using resolve_exact [OF floor1_ok, of "''to the hall''" "''floor1''" 3 True hall] hall_resolved by blast

text \<open>
  C26. A landmark document that loads gives a well-formed store: frame \<open>map\<close>, a generation within
  uint64, distinct landmark ids, every landmark with finite coordinates, a pose and an arrival radius
  in range where it is navigable, and no two landmarks sharing a normalized name or alias.
\<close>

theorem document_store_ok:
  assumes "from_mapping lm py_repr py_sum nrm raw = Inr st"
  shows "store_ok nrm st"
  by (rule from_mapping_store_ok [OF assms])

definition document :: pyval where
  "document = VDict [(''schema_version'', VInt 2), (''map_id'', VStr ''floor1''), (''map_generation'', VInt 3),
     (''landmarks'', VList [VDict [(''id'', VStr '' hall ''), (''name'', VStr ''Hall''), (''aliases'', VList [VStr ''lobby'']),
        (''pose'', VDict [(''x'', VInt 1), (''y'', VInt 2), (''yaw'', VInt 0)]), (''arrival_radius'', VInt 1),
        (''verified'', VBool True)]])]"

definition flat_libm :: libm where
  "flat_libm = \<lparr>m_hypot = (\<lambda>_ _. Fin 0), m_sin = (\<lambda>_. Fin 0), m_cos = (\<lambda>_. Fin 0), m_atan2 = (\<lambda>_ _. Fin 0)\<rparr>"

lemma document_loads: "from_mapping flat_libm (\<lambda>_. []) (\<lambda>_. Fin 0) normalize_ascii document = Inr floor1"
proof -
  have n: "normalize_ascii ''Hall'' = ''hall''" "normalize_ascii ''lobby'' = ''lobby''" by code_simp+
  have "str_strip '' hall '' = ''hall''" "str_strip ''Hall'' = ''Hall''" "str_strip ''lobby'' = ''lobby''"
    "str_strip ''floor1'' = ''floor1''" "str_strip ''map'' = ''map''" "str_strip ''navigation'' = ''navigation''"
    by code_simp+
  note texts = this
  show ?thesis
    by (simp add: from_mapping_def document_def get_or_def texts parse_generation_def
        UINT64_MAX_def parse_row_def parse_region_def list_value_def dict_value_def parse_pose_def finite_value_def
        parse_radius_def alias_list_def lm_terms_def n LandmarkStore_init_def floor1_def hall_def normalize_yaw_def
        flat_libm_def insist_def Let_def dict_get_def float_of_int_def)
qed

theorem document_store_ok_witness: "store_ok normalize_ascii floor1"
  by (rule document_store_ok [OF document_loads])

text \<open>
  C25. The cancellation loop ends in time and tells the truth: if the clock has passed the deadline in
  round \<open>n\<close>, the loop returns in some round \<open>m\<close> up to \<open>n\<close>, the first that saw a confirmed terminal state or
  the deadline. It reports a terminal state only if the provider confirmed that state in round \<open>m\<close>, and a
  timeout only if the deadline had passed in round \<open>m\<close> and no status up to it was terminal; the attempts
  it counts are the cancel requests it sent.
\<close>

theorem cancel_returns_confirmed:
  assumes "\<not> fle timeout_s (Fin 0)" "\<not> fle poll_s (Fin 0)"
    and "fle (fsub (fadd start timeout_s) (clock n)) (Fin 0)"
  shows "\<exists>out m. cancel_until_terminal status cancel start clock timeout_s poll_s = Some (Outcome out) \<and> m \<le> n \<and>
    (\<forall>k st. k < m \<longrightarrow> \<not> confirms (status k) st) \<and>
    (\<forall>k. k < m \<longrightarrow> \<not> fle (fsub (fadd start timeout_s) (clock k)) (Fin 0)) \<and>
    (if co_terminal out
     then confirms (status m) (co_terminal_state out) \<and> \<not> co_timed_out out \<and> co_attempts out = m
     else co_timed_out out \<and> (\<forall>st. \<not> confirms (status m) st) \<and>
       fle (fsub (fadd start timeout_s) (clock m)) (Fin 0) \<and> co_attempts out = m + 1)"
proof -
  let ?v = "\<lparr>attempts = 0, accepted = False, last_detail = ''no status or cancel response''\<rparr>"
  obtain out where out: "cancel_loop status cancel clock (fadd start timeout_s) 0 ?v = Some out"
    using cancel_loop_returns [where i = 0 and n = n and clock = clock and deadline = "fadd start timeout_s" and status = status
        and cancel = cancel and v = ?v] assms(3)
    by auto
  obtain m where m: "decided_at status cancel clock (fadd start timeout_s) 0 ?v m out"
    using cancel_loop_decided [OF out] by blast
  then have "m \<le> n" using assms(3) unfolding decided_at_def by (metis le0 leI)
  moreover have "cancel_until_terminal status cancel start clock timeout_s poll_s = Some (Outcome out)"
    using out assms(1,2) by (simp add: cancel_until_terminal_def)
  ultimately show ?thesis
    using m unfolding decided_at_def by (intro exI [of _ out] exI [of _ m]) simp
qed

theorem cancel_returns_confirmed_witness:
  "\<exists>out. cancel_until_terminal (\<lambda>i. StatusRaised ''unavailable'') (\<lambda>_. Cancel True []) (Fin 0) (\<lambda>i. Fin (of_nat i))
     (Fin 5) (Fin 1) = Some (Outcome out) \<and> co_timed_out out \<and> co_attempts out \<le> 10"
proof -
  have "\<not> fle (Fin 5) (Fin 0)" "\<not> fle (Fin 1) (Fin 0)" by simp_all
  moreover have "fle (fsub (fadd (Fin 0) (Fin 5)) (Fin (of_nat 9))) (Fin 0)"
    using fl_mono [of "- 4" 0] by (simp add: fsub_def)
  ultimately obtain out m where "cancel_until_terminal (\<lambda>i. StatusRaised ''unavailable'') (\<lambda>_. Cancel True []) (Fin 0)
      (\<lambda>i. Fin (of_nat i)) (Fin 5) (Fin 1) = Some (Outcome out)" "m \<le> 9"
    "if co_terminal out then confirms (StatusRaised ''unavailable'') (co_terminal_state out)
     else co_timed_out out \<and> co_attempts out = m + 1"
    using cancel_returns_confirmed [where n = 9 and clock = "\<lambda>i. Fin (of_nat i)" and status = "\<lambda>i. StatusRaised ''unavailable''"
        and cancel = "\<lambda>_. Cancel True []" and start = "Fin 0" and timeout_s = "Fin 5" and poll_s = "Fin 1"]
    by (auto split: if_splits)
  then show ?thesis by (intro exI [of _ out]) (auto simp: confirms_def split: if_splits)
qed

end
