(* ===== verification/StampConfig.thy ===== *)
theory StampConfig
  imports PyFloat "HOL-Library.List_Lexorder" "HOL-Library.Char_ord"
begin

text \<open>
  \<open>deploy/time-sync/navigation_stamp_discipline.py\<close>, part 1: the stream policies and the configuration
  of a timestamp discipline, its validation, and the three configurations the deployment uses.
  Fields hold values of their declared types, so the \<open>isinstance\<close> checks on them hold.
\<close>

definition SECOND_NS :: int where "SECOND_NS = 1000000000"
definition NOMOTION_RECOVERY_CEILING_NS :: int where "NOMOTION_RECOVERY_CEILING_NS = 2000000000"
definition WORKSTATION_MOTION_MAX_CORRECTED_AGE_NS :: int where "WORKSTATION_MOTION_MAX_CORRECTED_AGE_NS = 200000000"
definition WORKSTATION_MOTION_DELTA_ERROR_LIMIT_NS :: int where "WORKSTATION_MOTION_DELTA_ERROR_LIMIT_NS = 200000000"

record stream_policy =
  sp_name :: string
  max_corrected_age_ns :: int
  hard_age_ceiling_ns :: int
  stale_receipt_timeout_ns :: int
  max_relative_lag_ns :: int
  min_samples :: int
  max_duplicate_fraction :: pyfloat
  sp_delta_limit_ns :: "int option"

record discipline_config =
  reference_stream :: string
  expected_clock_domain :: string
  streams :: "stream_policy list"
  minimum_qualification_span_ns :: int
  offset_guard_ns :: int
  affine_anchor_past_guard_ns :: int
  lower_quantile :: pyfloat
  max_corrected_future_ns :: int
  minimum_locked_corrected_age_ns :: "int option"
  max_relative_lead_ns :: int
  max_clock_pair_discontinuity_ns :: int
  max_clock_read_span_ns :: int
  max_source_receipt_delta_error_ns :: int
  max_absolute_drift_ppm :: pyfloat
  max_pairwise_drift_ppm :: pyfloat
  max_approved_affine_drift_deviation_ppm :: pyfloat
  affine_qualification_window_ns :: "int option"
  max_affine_window_common_drift_deviation_ppm :: pyfloat
  affine_enforce_subwindow_pairwise_drift :: bool
  affine_enforce_subwindow_common_drift :: bool
  max_locked_affine_drift_deviation_ppm :: pyfloat
  max_locked_offset_deviation_ns :: int
  drift_bin_ns :: int
  statistics_evaluation_period_ns :: int
  locked_statistics_enabled :: bool
  retained_samples_per_stream :: int
  affine_locked_noncore_delta_drop_streams :: "string list"
  affine_qualifying_noncore_delta_drop_streams :: "string list"
  affine_restart_on_core_delta_discontinuity :: bool
  affine_locked_core_delta_recovery_streams :: "string list"

text \<open>A policy with the default duplicate allowance and no delta limit of its own.\<close>

definition policy :: "string \<Rightarrow> int \<Rightarrow> int \<Rightarrow> int \<Rightarrow> int \<Rightarrow> int \<Rightarrow> stream_policy" where
  "policy name age hard timeout lag samples =
     \<lparr>sp_name = name, max_corrected_age_ns = age, hard_age_ceiling_ns = hard, stale_receipt_timeout_ns = timeout,
      max_relative_lag_ns = lag, min_samples = samples, max_duplicate_fraction = fl (1 / 10),
      sp_delta_limit_ns = None\<rparr>"

text \<open>A configuration with every default of the class.\<close>

definition default_config :: "string \<Rightarrow> string \<Rightarrow> stream_policy list \<Rightarrow> discipline_config" where
  "default_config reference domain ps =
     \<lparr>reference_stream = reference, expected_clock_domain = domain, streams = ps,
      minimum_qualification_span_ns = 30 * SECOND_NS, offset_guard_ns = 5000000,
      affine_anchor_past_guard_ns = 5000000, lower_quantile = fl (1 / 100), max_corrected_future_ns = 2000000,
      minimum_locked_corrected_age_ns = None, max_relative_lead_ns = 5000000,
      max_clock_pair_discontinuity_ns = 20000000, max_clock_read_span_ns = 1000000,
      max_source_receipt_delta_error_ns = 50000000, max_absolute_drift_ppm = Fin 50,
      max_pairwise_drift_ppm = Fin 25, max_approved_affine_drift_deviation_ppm = Fin 5,
      affine_qualification_window_ns = None, max_affine_window_common_drift_deviation_ppm = Fin 5,
      affine_enforce_subwindow_pairwise_drift = True, affine_enforce_subwindow_common_drift = True,
      max_locked_affine_drift_deviation_ppm = Fin 25, max_locked_offset_deviation_ns = 20000000,
      drift_bin_ns = SECOND_NS, statistics_evaluation_period_ns = SECOND_NS, locked_statistics_enabled = True,
      retained_samples_per_stream = 20000, affine_locked_noncore_delta_drop_streams = [],
      affine_qualifying_noncore_delta_drop_streams = [], affine_restart_on_core_delta_discontinuity = False,
      affine_locked_core_delta_recovery_streams = []\<rparr>"

section \<open>\<open>DisciplineConfig.validate\<close>\<close>

datatype config_exc = ConfigError string | ConfigZeroDivision

text \<open>Checks in source order: the first that fails is raised.\<close>

fun check_all :: "(bool \<times> string) list \<Rightarrow> config_exc + unit" where
  "check_all [] = Inr ()"
| "check_all ((ok, msg) # cs) = (if ok then check_all cs else Inl (ConfigError msg))"

lemma check_all_Inr [simp]: "check_all cs = Inr u \<longleftrightarrow> list_all fst cs"
  by (induction cs rule: check_all.induct) auto

definition in_range :: "int \<Rightarrow> int \<Rightarrow> int \<Rightarrow> bool" where
  "in_range lo x hi \<longleftrightarrow> lo \<le> x \<and> x \<le> hi"

definition fin_range :: "pyfloat \<Rightarrow> pyfloat \<Rightarrow> pyfloat \<Rightarrow> bool" where
  "fin_range lo x hi \<longleftrightarrow> fle lo x \<and> fle x hi"

definition stream_names :: "discipline_config \<Rightarrow> string list" where
  "stream_names c = map sp_name (streams c)"

definition basic_checks :: "discipline_config \<Rightarrow> (bool \<times> string) list" where
  "basic_checks c =
     [(reference_stream c \<noteq> [] \<and> expected_clock_domain c \<noteq> [], ''reference stream and expected clock domain are required''),
      (streams c \<noteq> [], ''at least one required stream is needed''),
      (distinct (stream_names c) \<and> reference_stream c \<in> set (stream_names c),
         ''stream names must be unique and include the reference''),
      (10 * SECOND_NS \<le> minimum_qualification_span_ns c, ''qualification span must be at least 10 seconds''),
      (in_range 1000000 (offset_guard_ns c) 20000000, ''offset guard must be 1..20 ms''),
      (in_range 1000000 (affine_anchor_past_guard_ns c) 20000000, ''affine anchor past guard must be 1..20 ms''),
      (fless (Fin 0) (lower_quantile c) \<and> fle (lower_quantile c) (fl (5 / 100)), ''lower quantile must be in (0, 0.05]''),
      (in_range 0 (max_corrected_future_ns c) 5000000, ''navigation correction may allow at most 5 ms future skew''),
      (max_corrected_future_ns c \<le> offset_guard_ns c, ''offset guard must cover the allowed future skew''),
      (max_corrected_future_ns c \<le> affine_anchor_past_guard_ns c,
         ''affine anchor past guard must cover the allowed future skew''),
      (case minimum_locked_corrected_age_ns c of None \<Rightarrow> True
         | Some a \<Rightarrow> in_range 1000000 a (affine_anchor_past_guard_ns c),
         ''locked corrected-age floor must be 1 ms..affine anchor guard''),
      (in_range 0 (max_relative_lead_ns c) 10000000, ''cross-stream lead allowance may be at most 10 ms''),
      (in_range 1000000 (max_clock_pair_discontinuity_ns c) 50000000, ''clock discontinuity threshold must be 1..50 ms''),
      (0 < max_clock_read_span_ns c \<and> max_clock_read_span_ns c \<le> 5000000, ''clock read span ceiling must be at most 5 ms''),
      (in_range 1000000 (max_source_receipt_delta_error_ns c) 250000000,
         ''source/receipt delta error threshold must be 1..250 ms''),
      (fin_range (fl (1 / 10)) (max_absolute_drift_ppm c) (Fin 100), ''absolute drift threshold must be 0.1..100 ppm''),
      (fin_range (fl (1 / 10)) (max_pairwise_drift_ppm c) (Fin 50), ''pairwise drift threshold must be 0.1..50 ppm''),
      (fin_range (fl (1 / 10)) (max_approved_affine_drift_deviation_ppm c) (Fin 5),
         ''approved affine drift-deviation threshold must be 0.1..5 ppm'')]"

text \<open>The remainder is only taken when the window is long enough; a zero bin raises \<open>ZeroDivisionError\<close>.\<close>

definition window_check :: "discipline_config \<Rightarrow> config_exc + unit" where
  "window_check c =
     (case affine_qualification_window_ns c of None \<Rightarrow> Inr ()
      | Some w \<Rightarrow>
          let bad = Inl (ConfigError ''affine qualification window must be an integer multiple of the drift bin and at least 10 seconds'')
          in if w < 10 * SECOND_NS then bad
             else if drift_bin_ns c = 0 then Inl ConfigZeroDivision
             else if w mod drift_bin_ns c \<noteq> 0 then bad else Inr ())"

definition rate_checks :: "discipline_config \<Rightarrow> (bool \<times> string) list" where
  "rate_checks c =
     [(fin_range (fl (1 / 10)) (max_affine_window_common_drift_deviation_ppm c) (Fin 20),
         ''affine window common-drift threshold must be 0.1..20 ppm''),
      (fin_range (fl (1 / 10)) (max_locked_affine_drift_deviation_ppm c) (Fin 50),
         ''locked affine drift-deviation threshold must be 0.1..50 ppm''),
      (\<not> fless (max_absolute_drift_ppm c) (max_pairwise_drift_ppm c), ''pairwise drift threshold cannot exceed absolute drift''),
      (in_range 1000000 (max_locked_offset_deviation_ns c) 50000000, ''locked offset deviation must be 1..50 ms''),
      (in_range 100000000 (drift_bin_ns c) (5 * SECOND_NS), ''drift bin must be 0.1..5 seconds''),
      (in_range 10000000 (statistics_evaluation_period_ns c) (5 * SECOND_NS),
         ''statistics evaluation period must be 0.01..5 seconds''),
      (in_range 100 (retained_samples_per_stream c) 100000, ''retained sample count must be 100..100000'')]"

fun join_comma :: "string list \<Rightarrow> string" where
  "join_comma [] = []"
| "join_comma [r] = r"
| "join_comma (r # rs) = r @ '','' @ join_comma rs"

text \<open>\<open>sorted(set(names))\<close>\<close>

definition sorted_names :: "string list \<Rightarrow> string list" where
  "sorted_names ns = sort (remdups ns)"

text \<open>The checks of a delta-drop list; \<open>who\<close> is how its messages call it.\<close>

definition drop_checks :: "string \<Rightarrow> string \<Rightarrow> discipline_config \<Rightarrow> string list \<Rightarrow> (bool \<times> string) list" where
  "drop_checks who who_reference c ds =
     [([] \<notin> set ds \<and> distinct ds, who @ '' delta-drop streams must be unique names''),
      (set ds \<subseteq> set (stream_names c), who @ '' delta-drop streams are unknown: '' @
         join_comma (sorted_names (filter (\<lambda>d. d \<notin> set (stream_names c)) ds))),
      (set ds \<subseteq> {''mid360_cloud''}, ''only mid360_cloud may use the '' @ who @ '' delta-drop contract''),
      (reference_stream c \<notin> set ds, ''the affine reference stream cannot be '' @ who_reference @ ''delta-drop enabled'')]"

definition locked_drop_checks :: "discipline_config \<Rightarrow> (bool \<times> string) list" where
  "locked_drop_checks c =
     drop_checks ''affine locked non-core'' [] c (affine_locked_noncore_delta_drop_streams c)"

definition qualifying_drop_checks :: "discipline_config \<Rightarrow> (bool \<times> string) list" where
  "qualifying_drop_checks c =
     drop_checks ''affine qualifying non-core'' ''qualifying '' c (affine_qualifying_noncore_delta_drop_streams c)"

definition recovery_checks :: "discipline_config \<Rightarrow> (bool \<times> string) list" where
  "recovery_checks c =
     (let recovery = affine_locked_core_delta_recovery_streams c; drops = affine_locked_noncore_delta_drop_streams c in
      [([] \<notin> set recovery \<and> distinct recovery, ''affine locked core delta-recovery streams must be unique names''),
       (set recovery \<subseteq> set (stream_names c), ''affine locked core delta-recovery streams are unknown: '' @
          join_comma (sorted_names (filter (\<lambda>d. d \<notin> set (stream_names c)) recovery))),
       (set recovery \<inter> set drops = {}, ''affine delta-drop and delta-recovery streams must be disjoint: '' @
          join_comma (sorted_names (filter (\<lambda>d. d \<in> set drops) recovery)))])"

definition policy_checks :: "discipline_config \<Rightarrow> stream_policy \<Rightarrow> (bool \<times> string) list" where
  "policy_checks c p =
     (let about = \<lambda>msg. sp_name p @ '': '' @ msg in
      [(sp_name p \<noteq> [], ''stream name cannot be empty''),
       (0 < max_corrected_age_ns p \<and> max_corrected_age_ns p \<le> hard_age_ceiling_ns p,
          about ''corrected-age threshold exceeds its hard ceiling''),
       (0 < stale_receipt_timeout_ns p \<and> stale_receipt_timeout_ns p \<le> hard_age_ceiling_ns p,
          about ''receipt timeout exceeds its hard ceiling''),
       (in_range 0 (max_relative_lag_ns p) (hard_age_ceiling_ns p), about ''relative lag exceeds its hard age ceiling''),
       (in_range 10 (min_samples p) (retained_samples_per_stream c), about ''invalid minimum sample count''),
       (fin_range (Fin 0) (max_duplicate_fraction p) (fl (1 / 10)), about ''duplicate allowance may be at most 10 percent''),
       (case sp_delta_limit_ns p of None \<Rightarrow> True | Some d \<Rightarrow> in_range 1000000 d 250000000,
          about ''source/receipt delta error threshold must be 1..250 ms''),
       (case sp_delta_limit_ns p of None \<Rightarrow> True | Some d \<Rightarrow> d \<le> hard_age_ceiling_ns p,
          about ''source/receipt delta error threshold exceeds its hard age ceiling'')])"

definition validate_config :: "discipline_config \<Rightarrow> config_exc + unit" where
  "validate_config c =
     obind (check_all (basic_checks c)) (\<lambda>_. obind (window_check c) (\<lambda>_. check_all
       (rate_checks c @ locked_drop_checks c @ qualifying_drop_checks c @ recovery_checks c @
        concat (map (policy_checks c) (streams c)))))"

section \<open>The deployed configurations\<close>

definition go2_navigation_config :: "string \<Rightarrow> discipline_config" where
  "go2_navigation_config domain = default_config ''sport_primary'' domain
     [policy ''sport_primary'' 100000000 200000000 200000000 10000000 300,
      policy ''mid360_imu'' 100000000 200000000 200000000 20000000 300,
      policy ''mid360_cloud'' 250000000 500000000 500000000 150000000 200]"

definition nomotion_policy :: "stream_policy \<Rightarrow> stream_policy" where
  "nomotion_policy p =
     (if sp_name p \<in> {''sport_primary'', ''mid360_imu'', ''mid360_cloud''}
      then p\<lparr>max_corrected_age_ns := (if sp_name p = ''sport_primary'' then 150000000
               else if sp_name p = ''mid360_imu'' then hard_age_ceiling_ns p else max_corrected_age_ns p),
             hard_age_ceiling_ns := NOMOTION_RECOVERY_CEILING_NS, stale_receipt_timeout_ns := 500000000,
             sp_delta_limit_ns := Some 150000000\<rparr>
      else p)"

definition go2_workstation_nomotion_config :: "string \<Rightarrow> discipline_config" where
  "go2_workstation_nomotion_config domain = (let base = go2_navigation_config domain in
     base\<lparr>streams := map nomotion_policy (streams base) @
            [(policy ''mid360_odom'' 200000000 NOMOTION_RECOVERY_CEILING_NS 500000000 20000000 200)
               \<lparr>sp_delta_limit_ns := Some 150000000\<rparr>],
          affine_anchor_past_guard_ns := 20000000, minimum_locked_corrected_age_ns := Some 5000000,
          max_approved_affine_drift_deviation_ppm := Fin 5, affine_qualification_window_ns := Some (30 * SECOND_NS),
          max_affine_window_common_drift_deviation_ppm := Fin 15, retained_samples_per_stream := 40000,
          affine_locked_noncore_delta_drop_streams := [''mid360_cloud''],
          affine_qualifying_noncore_delta_drop_streams := [''mid360_cloud''],
          affine_locked_core_delta_recovery_streams := [''sport_primary'', ''mid360_imu'', ''mid360_odom'']\<rparr>)"

definition strict_policy :: "stream_policy \<Rightarrow> stream_policy" where
  "strict_policy p = p\<lparr>max_corrected_age_ns := WORKSTATION_MOTION_MAX_CORRECTED_AGE_NS,
     sp_delta_limit_ns := Some WORKSTATION_MOTION_DELTA_ERROR_LIMIT_NS\<rparr>"

definition go2_workstation_motion_config :: "string \<Rightarrow> discipline_config" where
  "go2_workstation_motion_config domain = (let base = go2_navigation_config domain in
     base\<lparr>streams := map strict_policy (filter (\<lambda>p. sp_name p \<noteq> ''mid360_cloud'') (streams base)) @
            [(policy ''mid360_odom'' WORKSTATION_MOTION_MAX_CORRECTED_AGE_NS 200000000 200000000 20000000 200)
               \<lparr>sp_delta_limit_ns := Some WORKSTATION_MOTION_DELTA_ERROR_LIMIT_NS\<rparr>],
          minimum_qualification_span_ns := 10 * SECOND_NS, affine_anchor_past_guard_ns := 20000000,
          max_approved_affine_drift_deviation_ppm := Fin 5, affine_qualification_window_ns := Some (10 * SECOND_NS),
          max_affine_window_common_drift_deviation_ppm := Fin 15,
          affine_enforce_subwindow_pairwise_drift := False, affine_enforce_subwindow_common_drift := False,
          locked_statistics_enabled := False, retained_samples_per_stream := 40000,
          affine_locked_core_delta_recovery_streams := [''sport_primary'', ''mid360_imu'', ''mid360_odom''],
          affine_restart_on_core_delta_discontinuity := True\<rparr>)"

section \<open>What a validated configuration guarantees\<close>

lemma validated_checks:
  "validate_config c = Inr u \<Longrightarrow> list_all fst (basic_checks c) \<and> list_all fst (rate_checks c) \<and>
     (\<forall>p \<in> set (streams c). list_all fst (policy_checks c p))"
  by (auto simp: validate_config_def list_all_iff)

lemma validated_streams:
  "validate_config c = Inr u \<Longrightarrow> distinct (stream_names c) \<and> reference_stream c \<in> set (stream_names c)"
  using validated_checks [of c u] by (simp add: basic_checks_def)

lemma validated_budgets:
  assumes "validate_config c = Inr u" "p \<in> set (streams c)"
  shows "0 \<le> max_corrected_future_ns c \<and> max_corrected_future_ns c \<le> 5000000 \<and>
    0 < max_corrected_age_ns p \<and> max_corrected_age_ns p \<le> hard_age_ceiling_ns p \<and>
    0 < stale_receipt_timeout_ns p \<and> stale_receipt_timeout_ns p \<le> hard_age_ceiling_ns p"
  using validated_checks [OF assms(1)] assms(2) by (auto simp: basic_checks_def policy_checks_def in_range_def Let_def)

lemma motion_streams:
  "streams (go2_workstation_motion_config domain) =
     [(policy ''sport_primary'' 200000000 200000000 200000000 10000000 300)\<lparr>sp_delta_limit_ns := Some 200000000\<rparr>,
      (policy ''mid360_imu'' 200000000 200000000 200000000 20000000 300)\<lparr>sp_delta_limit_ns := Some 200000000\<rparr>,
      (policy ''mid360_odom'' 200000000 200000000 200000000 20000000 200)\<lparr>sp_delta_limit_ns := Some 200000000\<rparr>]"
  by (simp add: go2_workstation_motion_config_def go2_navigation_config_def default_config_def strict_policy_def
      policy_def WORKSTATION_MOTION_MAX_CORRECTED_AGE_NS_def WORKSTATION_MOTION_DELTA_ERROR_LIMIT_NS_def)

lemma nomotion_streams:
  "streams (go2_workstation_nomotion_config domain) =
     [(policy ''sport_primary'' 150000000 2000000000 500000000 10000000 300)\<lparr>sp_delta_limit_ns := Some 150000000\<rparr>,
      (policy ''mid360_imu'' 200000000 2000000000 500000000 20000000 300)\<lparr>sp_delta_limit_ns := Some 150000000\<rparr>,
      (policy ''mid360_cloud'' 250000000 2000000000 500000000 150000000 200)\<lparr>sp_delta_limit_ns := Some 150000000\<rparr>,
      (policy ''mid360_odom'' 200000000 2000000000 500000000 20000000 200)\<lparr>sp_delta_limit_ns := Some 150000000\<rparr>]"
  by (simp add: go2_workstation_nomotion_config_def go2_navigation_config_def default_config_def nomotion_policy_def
      policy_def NOMOTION_RECOVERY_CEILING_NS_def)

end
