(* ===== verification/StampStatistics.thy ===== *)
theory StampStatistics
  imports PyFloat "HOL-Library.AList" "HOL-Library.Multiset" "HOL-Library.Product_Lexorder"
begin

text \<open>
  \<open>deploy/time-sync/navigation_stamp_discipline.py\<close>, part 2: the robust statistics over retained
  samples (quantiles, medians, Theil-Sen drift, lower envelopes) and the frozen affine correction.
  A sample is \<open>(source_stamp_ns, receipt_monotonic_ns, age_ns)\<close>. Stamps are nanosecond counts far
  below \<open>2 ^ 1023\<close>, so no quotient of two of them leaves the range of a double.
\<close>

type_synonym stamp_sample = "int \<times> int \<times> int"

abbreviation sample_source :: "stamp_sample \<Rightarrow> int" where "sample_source \<equiv> fst"
abbreviation sample_receipt :: "stamp_sample \<Rightarrow> int" where "sample_receipt s \<equiv> fst (snd s)"
abbreviation sample_age :: "stamp_sample \<Rightarrow> int" where "sample_age s \<equiv> snd (snd s)"

section \<open>Floats in numeric order\<close>

text \<open>A linear order that agrees with Python's \<open><\<close> on every float but \<open>nan\<close>.\<close>

fun float_rank :: "pyfloat \<Rightarrow> nat \<times> rat" where
  "float_rank NInf = (0, 0)"
| "float_rank (Fin q) = (1, q)"
| "float_rank PInf = (2, 0)"
| "float_rank NaN = (3, 0)"

lemma float_rank_inj: "float_rank a = float_rank b \<Longrightarrow> a = b"
  by (cases a; cases b) auto

instantiation pyfloat :: linorder
begin

definition less_eq_pyfloat :: "pyfloat \<Rightarrow> pyfloat \<Rightarrow> bool" where
  "less_eq_pyfloat a b \<longleftrightarrow> float_rank a \<le> float_rank b"

definition less_pyfloat :: "pyfloat \<Rightarrow> pyfloat \<Rightarrow> bool" where
  "less_pyfloat a b \<longleftrightarrow> float_rank a < float_rank b"

instance
  by standard (auto simp: less_eq_pyfloat_def less_pyfloat_def intro: float_rank_inj)

end

lemma less_pyfloat_fless: "a \<noteq> NaN \<Longrightarrow> b \<noteq> NaN \<Longrightarrow> a < b \<longleftrightarrow> fless a b"
  by (cases a; cases b) (auto simp: less_pyfloat_def)

section \<open>Quotients, quantiles and medians\<close>

text \<open>\<open>a / b\<close> on integers: the correctly rounded quotient.\<close>

definition true_div :: "int \<Rightarrow> int \<Rightarrow> pyfloat" where
  "true_div a b = fl (of_int a / of_int b)"

fun trunc_float :: "pyfloat \<Rightarrow> int" where
  "trunc_float (Fin q) = (if 0 \<le> q then \<lfloor>q\<rfloor> else \<lceil>q\<rceil>)"
| "trunc_float _ = 0"

definition positive_int :: "int \<Rightarrow> bool" where
  "positive_int v \<longleftrightarrow> 0 < v"

text \<open>The position \<open>_quantile\<close> selects among \<open>n\<close> ordered values.\<close>

definition quantile_index :: "pyfloat \<Rightarrow> nat \<Rightarrow> nat" where
  "quantile_index fraction n =
     (case fmul fraction (Fin (of_nat n)) of
        Fin q \<Rightarrow> nat (max 0 (min (int n - 1) (\<lceil>q\<rceil> - 1)))
      | _ \<Rightarrow> 0)"

definition quantile :: "int list \<Rightarrow> pyfloat \<Rightarrow> int option" where
  "quantile values fraction =
     (let ordered = sort values in
      if ordered = [] then None else Some (ordered ! quantile_index fraction (length ordered)))"

definition int_median :: "int list \<Rightarrow> int" where
  "int_median values =
     (let s = sort values; n = length s in
      if odd n then s ! (n div 2) else trunc_float (true_div (s ! (n div 2 - 1) + s ! (n div 2)) 2))"

definition float_median :: "pyfloat list \<Rightarrow> pyfloat" where
  "float_median values =
     (let s = sort values; n = length s in
      if odd n then s ! (n div 2)
      else case fdiv (fadd (s ! (n div 2 - 1)) (s ! (n div 2))) (Fin 2) of Some m \<Rightarrow> m | None \<Rightarrow> NaN)"

section \<open>Time bins\<close>

definition bin_of :: "int \<Rightarrow> int \<Rightarrow> int \<Rightarrow> int" where
  "bin_of anchor bin receipt = (receipt - anchor) div bin"

text \<open>The ages of each bin, in order of arrival.\<close>

definition group_age :: "int \<Rightarrow> int \<Rightarrow> stamp_sample \<Rightarrow> (int \<times> int list) list \<Rightarrow> (int \<times> int list) list" where
  "group_age anchor bin s = AList.map_default (bin_of anchor bin (sample_receipt s)) [sample_age s] (\<lambda>ages. ages @ [sample_age s])"

definition bin_points :: "stamp_sample list \<Rightarrow> int \<Rightarrow> (int \<times> int) list" where
  "bin_points samples bin =
     (case samples of [] \<Rightarrow> []
      | s0 # _ \<Rightarrow> map (\<lambda>(key, ages). (key * bin, int_median ages))
          (sort_key fst (fold (group_age (sample_receipt s0) bin) samples [])))"

text \<open>The slopes between all pairs of points with increasing time, in ppm.\<close>

fun pair_slopes :: "(int \<times> int) list \<Rightarrow> pyfloat list" where
  "pair_slopes [] = []"
| "pair_slopes ((t, a) # ps) =
     map (\<lambda>(t', a'). fmul (true_div (a' - a) (t' - t)) (Fin 1000000)) (filter (\<lambda>(t', a'). 0 < t' - t) ps) @
     pair_slopes ps"

definition theil_sen :: "(int \<times> int) list \<Rightarrow> pyfloat option" where
  "theil_sen points =
     (if length points < 4 then None
      else let slopes = pair_slopes points in if slopes \<noteq> [] then Some (float_median slopes) else None)"

definition robust_drift_ppm :: "stamp_sample list \<Rightarrow> int \<Rightarrow> pyfloat option" where
  "robust_drift_ppm samples bin = theil_sen (bin_points samples bin)"

section \<open>Lower envelopes\<close>

definition envelope_key :: "stamp_sample \<Rightarrow> int \<times> int \<times> int" where
  "envelope_key s = (sample_age s, sample_receipt s, sample_source s)"

definition envelope_insert :: "int \<Rightarrow> int \<Rightarrow> stamp_sample \<Rightarrow> (int \<times> stamp_sample) list \<Rightarrow> (int \<times> stamp_sample) list" where
  "envelope_insert anchor bin s =
     AList.map_default (bin_of anchor bin (sample_receipt s)) s
       (\<lambda>incumbent. if envelope_key s < envelope_key incumbent then s else incumbent)"

definition lower_envelope_points :: "stamp_sample list \<Rightarrow> int \<Rightarrow> int \<Rightarrow> string + stamp_sample list" where
  "lower_envelope_points samples bin anchor =
     (if anchor < 0 then Inl ''lower-envelope bin anchor must be a non-negative integer''
      else Inr (map snd (sort_key fst (fold (envelope_insert anchor bin) samples []))))"

definition theil_sen_age_drift_ppm :: "stamp_sample list \<Rightarrow> pyfloat option" where
  "theil_sen_age_drift_ppm points = theil_sen (map (\<lambda>s. (sample_receipt s, sample_age s)) points)"

definition pairwise_drift_disagreements :: "(string \<times> pyfloat) list \<Rightarrow> pyfloat \<Rightarrow> string list" where
  "pairwise_drift_disagreements drifts limit =
     map fst (filter (\<lambda>(name, d). list_ex (\<lambda>(other, d'). other \<noteq> name \<and> fless limit (fabs (fsub d d'))) drifts) drifts)"

section \<open>The frozen affine correction\<close>

definition source_to_local_scale :: "pyfloat \<Rightarrow> string + pyfloat" where
  "source_to_local_scale drift =
     (if \<not> isfinite drift then Inl ''affine drift must be finite''
      else let denominator = fsub (Fin 1) (fmul drift (fl (1 / 1000000))) in
        if fle denominator (Fin 0) then Inl ''affine drift produces a non-positive clock rate''
        else case fdiv (Fin 1) denominator of Some s \<Rightarrow> Inr s | None \<Rightarrow> Inl ''float division by zero'')"

record affine_clock_model =
  anchor_source_ns :: int
  anchor_local_ns :: int
  am_drift_ppm :: pyfloat
  am_scale :: pyfloat
  core_stream_drifts_ppm :: "(string \<times> pyfloat) list"
  stream_baseline_corrected_age_ns :: "(string \<times> int) list"

text \<open>\<open>round\<close> of an \<open>int * float\<close> product; an infinite product and an oversized delta raise \<open>OverflowError\<close>.\<close>

definition scaled_delta :: "int \<Rightarrow> pyfloat \<Rightarrow> int option" where
  "scaled_delta delta scale =
     (case float_of_int delta of None \<Rightarrow> None
      | Some d \<Rightarrow> (case fmul d scale of Fin q \<Rightarrow> Some (round_half_even q) | _ \<Rightarrow> None))"

definition affine_corrected_stamp_ns :: "affine_clock_model \<Rightarrow> int \<Rightarrow> string + int" where
  "affine_corrected_stamp_ns am source =
     (if \<not> positive_int source then Inl ''source stamp must be a positive integer''
      else case scaled_delta (source - anchor_source_ns am) (am_scale am) of
          None \<Rightarrow> Inl ''int too large to convert to float''
        | Some d \<Rightarrow> (let corrected = anchor_local_ns am + d in
            if corrected \<le> 0 \<or> 2 ^ 63 \<le> corrected then Inl ''affine-corrected stamp is outside positive int64''
            else Inr corrected))"

definition offset_at_source_ns :: "affine_clock_model \<Rightarrow> int \<Rightarrow> string + int" where
  "offset_at_source_ns am source = obind (affine_corrected_stamp_ns am source) (\<lambda>c. Inr (c - source))"

record ui_receipt_stamp =
  ui_stamp_ns :: int
  ui_provenance :: string
  ui_navigation_eligible :: bool

definition ui_receipt_retimestamp :: "int \<Rightarrow> string + ui_receipt_stamp" where
  "ui_receipt_retimestamp receipt =
     (if \<not> positive_int receipt then Inl ''UI receipt timestamp must be a positive integer''
      else Inr \<lparr>ui_stamp_ns = receipt, ui_provenance = ''local_receipt_time_ui_only'', ui_navigation_eligible = False\<rparr>)"

section \<open>Order statistics\<close>

lemma length_filter_sort: "length (filter p (sort xs)) = length (filter p xs)"
  by (metis mset_filter mset_sort size_mset)

lemma quantile_index_less: "0 < n \<Longrightarrow> quantile_index f n < n"
  by (auto simp: quantile_index_def split: pyfloat.split)

text \<open>At most \<open>quantile_index\<close> values lie below the quantile, and more than that do not exceed it.\<close>

lemma quantile_rank:
  assumes "quantile xs f = Some v"
  shows "v \<in> set xs"
    and "length (filter (\<lambda>x. x < v) xs) \<le> quantile_index f (length xs)"
    and "quantile_index f (length xs) < length (filter (\<lambda>x. x \<le> v) xs)"
proof -
  let ?s = "sort xs" let ?i = "quantile_index f (length xs)"
  have ne: "xs \<noteq> []" and v: "v = ?s ! ?i" using assms by (auto simp: quantile_def Let_def split: if_splits)
  have i: "?i < length ?s" using ne quantile_index_less by simp
  show "v \<in> set xs" using i v by (metis nth_mem set_sort)
  have "?s = take ?i ?s @ drop ?i ?s" by simp
  moreover have "filter (\<lambda>x. x < v) (drop ?i ?s) = []"
    using i v by (auto simp: filter_empty_conv in_set_conv_nth not_less intro!: sorted_nth_mono)
  ultimately have "length (filter (\<lambda>x. x < v) ?s) \<le> length (take ?i ?s)"
    by (metis append_Nil2 filter_append length_filter_le)
  then show "length (filter (\<lambda>x. x < v) xs) \<le> ?i" using i by (simp add: length_filter_sort)
  have "list_all (\<lambda>x. x \<le> v) (take (Suc ?i) ?s)"
    using i v by (auto simp: list_all_iff in_set_conv_nth intro!: sorted_nth_mono)
  then have "filter (\<lambda>x. x \<le> v) (take (Suc ?i) ?s) = take (Suc ?i) ?s" by (simp add: list_all_iff)
  then have "length (take (Suc ?i) ?s) \<le> length (filter (\<lambda>x. x \<le> v) (take (Suc ?i) ?s @ drop (Suc ?i) ?s))"
    by (simp only: filter_append length_append)
  then have "Suc ?i \<le> length (filter (\<lambda>x. x \<le> v) ?s)" using i by (simp only: append_take_drop_id) simp
  then show "?i < length (filter (\<lambda>x. x \<le> v) xs)" by (simp add: length_filter_sort)
qed

text \<open>The double nearest to \<open>k / 20\<close> times a count below \<open>2 ^ 40\<close>: still within one twentieth of the exact product.\<close>

lemma fl_ge_grid: "of_int m / 2 ^ 6 \<le> q \<Longrightarrow> \<bar>m\<bar> \<le> 2 ^ 53 \<Longrightarrow> fl q = Fin r \<Longrightarrow> of_int m / 2 ^ 6 \<le> r"
  using fl_mono [of "of_int m / 2 ^ 6" q] fl_dyadic [of m 6] by simp

lemma fl_le_grid: "q \<le> of_int m / 2 ^ 6 \<Longrightarrow> \<bar>m\<bar> \<le> 2 ^ 53 \<Longrightarrow> fl q = Fin r \<Longrightarrow> r \<le> of_int m / 2 ^ 6"
  using fl_mono [of q "of_int m / 2 ^ 6"] fl_dyadic [of m 6] by simp

lemma fl_bounded:
  assumes "0 \<le> q" "q \<le> of_int m / 2 ^ 6" "\<bar>m\<bar> \<le> 2 ^ 53"
  shows "\<exists>r. fl q = Fin r"
proof -
  have "fle (fl q) (Fin (of_int m / 2 ^ 6))" "fle (Fin 0) (fl q)"
    using fl_mono [OF assms(2)] fl_mono [OF assms(1)] fl_dyadic [of m 6] assms(3) by simp_all
  then show ?thesis by (cases "fl q") (auto simp: fle_def)
qed

lemma fl_lit_19_20 [simp]: "fl (19 / 20) = Fin (4278419646001971 / 4503599627370496)"
  using fl_literal [of "19 / 20" 53 8556839292003942] by simp

text \<open>The selected position never cuts off more than a twentieth of the values.\<close>

lemma low_quantile_tail:
  assumes "fless (Fin 0) f" "fle f (fl (1 / 20))" "n < 2 ^ 40"
  shows "20 * quantile_index f n \<le> n"
proof (cases "quantile_index f n = 0")
  case False
  obtain a where f: "f = Fin a" and a: "0 < a" "a \<le> 3602879701896397 / 72057594037927936"
    using assms(1,2) by (cases f) (auto simp: fle_def)
  have n: "(of_nat n :: rat) < 2 ^ 40" using assms(3) by (metis of_nat_less_iff of_nat_numeral of_nat_power)
  have an: "0 \<le> a * of_nat n" "a * of_nat n \<le> 3602879701896397 / 72057594037927936 * of_nat n"
    using a mult_right_mono [OF a(2), of "of_nat n"] by (simp_all del: times_divide_eq_left)
  obtain m where m: "64 * (a * of_nat n) \<le> of_int m" "of_int m < 64 * (a * of_nat n) + 1"
    using that [of "\<lceil>64 * (a * of_nat n)\<rceil>"] by linarith
  have "(of_int m :: rat) \<le> of_int (2 ^ 53)" using m(2) an(2) n by simp
  moreover have "(0::rat) \<le> of_int m" using m(1) an(1) by linarith
  ultimately have m53: "\<bar>m\<bar> \<le> 2 ^ 53" by (simp only: of_int_le_iff of_int_0_le_iff)
  have le: "a * of_nat n \<le> of_int m / 2 ^ 6" using m(1) by simp
  obtain q where q: "fl (a * of_nat n) = Fin q" using fl_bounded [OF an(1) le m53] by blast
  have "q \<le> of_int m / 2 ^ 6" by (rule fl_le_grid [OF le m53 q])
  then have q2: "q \<le> a * of_nat n + 1 / 64" using m(2) by simp
  have "int (quantile_index f n) \<le> \<lceil>q\<rceil> - 1"
    using False q f by (simp add: quantile_index_def) linarith
  then have "(of_nat (quantile_index f n) :: rat) < q" by linarith
  then have "20 * (of_nat (quantile_index f n) :: rat) < of_nat n + 1" using q2 an(2) n by simp
  then have "(of_nat (20 * quantile_index f n) :: rat) < of_nat (n + 1)" by simp
  then show ?thesis by (simp only: of_nat_less_iff)
qed simp

lemma p95_tail:
  assumes "n < 2 ^ 40"
  shows "20 * (n - Suc (quantile_index (fl (19 / 20)) n)) \<le> n"
proof -
  let ?b = "4278419646001971 / 4503599627370496 :: rat"
  have n: "(of_nat n :: rat) < 2 ^ 40" using assms by (metis of_nat_less_iff of_nat_numeral of_nat_power)
  obtain m where m: "of_int m \<le> 64 * (?b * of_nat n)" "64 * (?b * of_nat n) < of_int m + 1" and m0: "0 \<le> m"
  proof (rule that [of "\<lfloor>64 * (?b * of_nat n)\<rfloor>"])
    show "of_int \<lfloor>64 * (?b * of_nat n)\<rfloor> \<le> 64 * (?b * of_nat n)" by (rule of_int_floor_le)
    show "64 * (?b * of_nat n) < of_int \<lfloor>64 * (?b * of_nat n)\<rfloor> + 1" by linarith
    show "0 \<le> \<lfloor>64 * (?b * of_nat n)\<rfloor>" by simp
  qed
  have "(of_int m :: rat) \<le> of_int (2 ^ 53)" using m(1) n by simp
  then have m53: "\<bar>m\<bar> \<le> 2 ^ 53" using m0 by (simp only: of_int_le_iff)
  have ge: "of_int m / 2 ^ 6 \<le> ?b * of_nat n" using m(1) by simp
  have "?b * of_nat n \<le> of_int (64 * int n) / 2 ^ 6" "\<bar>64 * int n\<bar> \<le> 2 ^ 53" using assms by simp_all
  then obtain q where q: "fl (?b * of_nat n) = Fin q" using fl_bounded [of "?b * of_nat n" "64 * int n"] by auto
  have "of_int m / 2 ^ 6 \<le> q" by (rule fl_ge_grid [OF ge m53 q])
  then have q2: "?b * of_nat n - 1 / 64 < q" using m(2) by simp
  have "min (int n) \<lceil>q\<rceil> \<le> int (Suc (quantile_index (fl (19 / 20)) n))"
    using q by (auto simp: quantile_index_def)
  then have "(of_nat n :: rat) \<le> of_nat (Suc (quantile_index (fl (19 / 20)) n)) \<or>
      q \<le> of_nat (Suc (quantile_index (fl (19 / 20)) n))" by linarith
  then have "20 * (of_nat (n - Suc (quantile_index (fl (19 / 20)) n)) :: rat) < of_nat n + 1"
    using q2 n by (cases "Suc (quantile_index (fl (19 / 20)) n) \<le> n") (auto simp: of_nat_diff)
  then have "(of_nat (20 * (n - Suc (quantile_index (fl (19 / 20)) n))) :: rat) < of_nat (n + 1)" by simp
  then show ?thesis by (simp only: of_nat_less_iff)
qed

lemma quantile_Some: "xs \<noteq> [] \<Longrightarrow> \<exists>v. quantile xs f = Some v"
  by (simp add: quantile_def Let_def flip: set_empty)

section \<open>What a lower envelope is\<close>

text \<open>The reference: per occupied bin, in bin order, the least sample by age, receipt and source.\<close>

definition in_bin :: "int \<Rightarrow> int \<Rightarrow> int \<Rightarrow> stamp_sample list \<Rightarrow> stamp_sample list" where
  "in_bin anchor bin k xs = filter (\<lambda>s. bin_of anchor bin (sample_receipt s) = k) xs"

definition envelope_spec :: "int \<Rightarrow> int \<Rightarrow> stamp_sample list \<Rightarrow> stamp_sample list" where
  "envelope_spec anchor bin xs =
     map (\<lambda>k. arg_min_list envelope_key (in_bin anchor bin k xs))
       (sorted_list_of_set ((\<lambda>s. bin_of anchor bin (sample_receipt s)) ` set xs))"

lemma arg_min_list_snoc:
  fixes f :: "'a \<Rightarrow> 'b::linorder"
  assumes "xs \<noteq> []"
  shows "arg_min_list f (xs @ [x]) = (if f x < f (arg_min_list f xs) then x else arg_min_list f xs)"
  using assms by (induction f xs rule: arg_min_list.induct) (auto simp: Let_def)

lemma sort_key_alist:
  assumes "distinct (map fst al)"
  shows "sort_key fst al = map (\<lambda>k. (k, the (map_of al k))) (sorted_list_of_set (fst ` set al))"
proof -
  let ?s = "sort_key fst al"
  have d: "distinct (map fst ?s)"
    using assms by (metis mset_map mset_sort mset_eq_imp_distinct_iff)
  have keys: "map fst ?s = sorted_list_of_set (fst ` set al)"
    using d by (intro sorted_distinct_set_unique) auto
  have "map (\<lambda>k. (k, the (map_of al k))) (map fst ?s) = ?s"
    using assms by (auto intro!: map_idI)
  then show ?thesis using keys by simp
qed

lemma map_of_envelope_insert:
  "map_of (envelope_insert anchor bin s al) =
     (map_of al)(bin_of anchor bin (sample_receipt s) \<mapsto>
       (case map_of al (bin_of anchor bin (sample_receipt s)) of None \<Rightarrow> s
        | Some t \<Rightarrow> if envelope_key s < envelope_key t then s else t))"
  by (simp add: envelope_insert_def map_of_map_default split: option.split)

lemma envelope_fold_map:
  "map_of (fold (envelope_insert anchor bin) xs []) k =
    (if in_bin anchor bin k xs = [] then None else Some (arg_min_list envelope_key (in_bin anchor bin k xs)))"
proof (induction xs rule: rev_induct)
  case Nil
  then show ?case by (simp add: in_bin_def)
next
  case (snoc x xs)
  have IH: "map_of (fold (envelope_insert anchor bin) xs []) k =
    (if in_bin anchor bin k xs = [] then None else Some (arg_min_list envelope_key (in_bin anchor bin k xs)))" by (rule snoc.IH)
  have step: "in_bin anchor bin k (xs @ [x]) = (if bin_of anchor bin (sample_receipt x) = k then in_bin anchor bin k xs @ [x] else in_bin anchor bin k xs)"
    by (simp add: in_bin_def)
  show ?case
  proof (cases "bin_of anchor bin (sample_receipt x) = k")
    case True
    then show ?thesis
      by (cases "in_bin anchor bin k xs = []") (auto simp: map_of_envelope_insert step IH arg_min_list_snoc)
  next
    case False
    then show ?thesis by (simp add: map_of_envelope_insert step IH)
  qed
qed

lemma envelope_fold_keys:
  "distinct (map fst (fold (envelope_insert anchor bin) xs []))"
  "fst ` set (fold (envelope_insert anchor bin) xs []) = (\<lambda>s. bin_of anchor bin (sample_receipt s)) ` set xs"
  by (induction xs rule: rev_induct) (auto simp: envelope_insert_def dom_map_default intro: distinct_map_default)

lemma envelope_fold_spec:
  "map snd (sort_key fst (fold (envelope_insert anchor bin) xs [])) = envelope_spec anchor bin xs"
  by (auto simp: sort_key_alist [OF envelope_fold_keys(1)] envelope_fold_keys(2) envelope_spec_def
      envelope_fold_map in_bin_def filter_empty_conv)

section \<open>The affine correction is monotone\<close>

lemma scaled_delta_Some:
  "scaled_delta d scale = Some r \<longleftrightarrow>
     (\<exists>x q u. fl (of_int d) = Fin x \<and> scale = Fin q \<and> fl (x * q) = Fin u \<and> r = round_half_even u)"
  by (cases scale) (auto simp: scaled_delta_def float_of_int_def finf_sign_def split: pyfloat.splits option.splits)

lemma scaled_delta_mono:
  assumes "scaled_delta d scale = Some r" "scaled_delta e scale = Some t" "d \<le> e" "fle (Fin 0) scale"
  shows "r \<le> t"
proof -
  obtain x y q u w where v: "fl (of_int d) = Fin x" "fl (of_int e) = Fin y" "scale = Fin q"
      "fl (x * q) = Fin u" "fl (y * q) = Fin w" "r = round_half_even u" "t = round_half_even w"
    using assms(1,2) unfolding scaled_delta_Some by force
  have "x \<le> y" using fl_mono [of "of_int d" "of_int e"] assms(3) v(1,2) by simp
  then have "x * q \<le> y * q" using assms(4) v(3) by (intro mult_right_mono) simp_all
  then have "u \<le> w" using fl_mono [of "x * q" "y * q"] v(4,5) by simp
  then show ?thesis by (simp add: v(6,7) round_half_even_mono)
qed

lemma affine_corrected_mono:
  assumes "affine_corrected_stamp_ns am s = Inr x" "affine_corrected_stamp_ns am t = Inr y" "s \<le> t"
    "fle (Fin 0) (am_scale am)"
  shows "x \<le> y"
  using assms scaled_delta_mono [of "s - anchor_source_ns am" "am_scale am" _ "t - anchor_source_ns am"]
  by (auto simp: affine_corrected_stamp_ns_def Let_def split: if_splits option.splits)

lemma affine_corrected_int64:
  "affine_corrected_stamp_ns am s = Inr x \<Longrightarrow> 0 < s \<and> 0 < x \<and> x < 2 ^ 63"
  by (auto simp: affine_corrected_stamp_ns_def positive_int_def Let_def split: if_splits option.splits)

section \<open>Streams of constant age have no drift\<close>

lemma fl_lit_1_100 [simp]: "fl (1 / 100) = Fin (5764607523034235 / 576460752303423488)"
  using fl_literal [of "1 / 100" 59 5764607523034235] by simp

lemma quantile_const: "xs \<noteq> [] \<Longrightarrow> set xs \<subseteq> {a} \<Longrightarrow> quantile xs f = Some a"
  using quantile_Some [of xs f] by (auto dest: quantile_rank(1))

lemma float_median_zero:
  assumes "xs \<noteq> []" "set xs \<subseteq> {Fin 0}"
  shows "float_median xs = Fin 0"
proof -
  have "sort xs ! i = Fin 0" if "i < length xs" for i
    using that assms(2) by (metis length_sort nth_mem set_sort singletonD subset_iff)
  moreover have "length xs div 2 < length xs" "length xs div 2 - 1 < length xs" using assms(1) by (auto simp: less_imp_diff_less)
  ultimately show ?thesis by (simp add: float_median_def Let_def)
qed

lemma pair_slopes_const: "set ps \<subseteq> UNIV \<times> {a} \<Longrightarrow> set (pair_slopes ps) \<subseteq> {Fin 0}"
  by (induction ps rule: pair_slopes.induct) (fastforce simp: true_div_def)+

lemma theil_sen_const:
  assumes "4 \<le> length ps" "set ps \<subseteq> UNIV \<times> {a}" "pair_slopes ps \<noteq> []"
  shows "theil_sen ps = Some (Fin 0)"
  using assms by (simp add: theil_sen_def Let_def float_median_zero pair_slopes_const)

end
