(* ===== verification/StampDiscipline.thy ===== *)
theory StampDiscipline imports StampConfig StampStatistics begin

text \<open>
  \<open>deploy/time-sync/navigation_stamp_discipline.py\<close>, part 3: \<open>NavigationStampDiscipline\<close>, the
  state machine that qualifies a set of streams, locks one clock offset and polices it. The
  dictionaries of the class are indexed by the configured stream names and never gain a key, so
  the stream states are a function read at configured names only. The affine subclass extends the
  record, so the inherited helpers take a record scheme.
\<close>

section \<open>State and results\<close>

datatype discipline_state = QUALIFYING | LOCKED | FAULTED

record correction_result =
  cr_accepted :: bool
  corrected_stamp_ns :: "int option"
  navigation_eligible :: bool
  cr_reason :: string
  cr_state :: discipline_state
  diagnostics :: "(string \<times> int) list"

record stream_metrics =
  sm_samples :: nat
  span_ns :: int
  lower_age_ns :: int
  median_age_ns :: int
  p95_age_ns :: int
  sm_drift_ppm :: "pyfloat option"
  duplicate_fraction :: pyfloat

record stream_state =
  ss_samples :: "stamp_sample list"
  last_source_ns :: "int option"
  last_receipt_ns :: "int option"
  advancing :: int
  duplicates :: int

record stamp_discipline =
  sd_state :: discipline_state
  sd_fault_reason :: "string option"
  locked_offset_ns :: "int option"
  stream_states :: "string \<Rightarrow> stream_state"
  last_clock_base_ns :: "int option"
  last_statistics_ns :: "int option"

definition stream_init :: stream_state where
  "stream_init = \<lparr>ss_samples = [], last_source_ns = None, last_receipt_ns = None, advancing = 0, duplicates = 0\<rparr>"

definition discipline_init :: "discipline_config \<Rightarrow> config_exc + stamp_discipline" where
  "discipline_init c = obind (validate_config c) (\<lambda>_.
     Inr \<lparr>sd_state = QUALIFYING, sd_fault_reason = None, locked_offset_ns = None,
          stream_states = (\<lambda>_. stream_init), last_clock_base_ns = None, last_statistics_ns = None\<rparr>)"

text \<open>\<open>deque(maxlen=limit).append\<close>\<close>

definition deque_append :: "int \<Rightarrow> 'a list \<Rightarrow> 'a \<Rightarrow> 'a list" where
  "deque_append limit xs x = (let ys = xs @ [x] in drop (length ys - nat limit) ys)"

lemma length_deque_append: "length xs \<le> nat limit \<Longrightarrow> length (deque_append limit xs x) \<le> nat limit"
  by (simp add: deque_append_def Let_def)

lemma set_deque_append: "set (deque_append limit xs x) \<subseteq> insert x (set xs)"
  by (auto simp: deque_append_def Let_def dest: in_set_dropD)

lemma last_deque_append: "0 < limit \<Longrightarrow> deque_append limit xs x \<noteq> [] \<and> last (deque_append limit xs x) = x"
  by (simp add: deque_append_def Let_def last_drop)

section \<open>Refusals and metrics\<close>

definition refuse :: "string \<Rightarrow> discipline_state \<Rightarrow> correction_result" where
  "refuse reason st = \<lparr>cr_accepted = False, corrected_stamp_ns = None, navigation_eligible = False,
     cr_reason = reason, cr_state = st, diagnostics = []\<rparr>"

definition fault ::
  "string \<Rightarrow> (string \<times> int) list \<Rightarrow> 'a stamp_discipline_scheme \<Rightarrow> correction_result \<times> 'a stamp_discipline_scheme" where
  "fault reason diag d =
     ((refuse reason FAULTED)\<lparr>diagnostics := diag\<rparr>, d\<lparr>sd_state := FAULTED, sd_fault_reason := Some reason\<rparr>)"

definition faulted_result :: "'a stamp_discipline_scheme \<Rightarrow> correction_result" where
  "faulted_result d = refuse (case sd_fault_reason d of Some r \<Rightarrow> if r \<noteq> [] then r else ''discipline faulted''
                              | None \<Rightarrow> ''discipline faulted'') FAULTED"

definition stream_metrics_of :: "discipline_config \<Rightarrow> stream_state \<Rightarrow> stream_metrics option" where
  "stream_metrics_of c ss =
     (if ss_samples ss = [] then None
      else let ages = map sample_age (ss_samples ss); total = advancing ss + duplicates ss in
        Some \<lparr>sm_samples = length (ss_samples ss),
              span_ns = max 0 (sample_receipt (last (ss_samples ss)) - sample_receipt (hd (ss_samples ss))),
              lower_age_ns = the (quantile ages (lower_quantile c)),
              median_age_ns = the (quantile ages (fl (1 / 2))),
              p95_age_ns = the (quantile ages (fl (19 / 20))),
              sm_drift_ppm = robust_drift_ppm (ss_samples ss) (drift_bin_ns c),
              duplicate_fraction = (if total \<noteq> 0 then true_div (duplicates ss) total else Fin 0)\<rparr>)"

abbreviation metrics_of :: "discipline_config \<Rightarrow> 'a stamp_discipline_scheme \<Rightarrow> string \<Rightarrow> stream_metrics option" where
  "metrics_of c d name \<equiv> stream_metrics_of c (stream_states d name)"

section \<open>Liveness and statistics of a locked session\<close>

text \<open>One entry of \<open>receipt_liveness_snapshot\<close>: last receipt, its age, the limit, live.\<close>

record liveness =
  lv_last :: "int option"
  lv_age :: "int option"
  lv_limit :: int
  lv_live :: bool

definition receipt_liveness :: "'a stamp_discipline_scheme \<Rightarrow> int \<Rightarrow> stream_policy \<Rightarrow> liveness" where
  "receipt_liveness d now p =
     (let last_receipt = last_receipt_ns (stream_states d (sp_name p));
          age = map_option (\<lambda>r. now - r) last_receipt in
      \<lparr>lv_last = last_receipt, lv_age = age, lv_limit = stale_receipt_timeout_ns p,
       lv_live = (case age of None \<Rightarrow> False | Some a \<Rightarrow> in_range 0 a (stale_receipt_timeout_ns p))\<rparr>)"

definition receipt_liveness_snapshot ::
  "discipline_config \<Rightarrow> 'a stamp_discipline_scheme \<Rightarrow> int \<Rightarrow> (string \<times> liveness) list" where
  "receipt_liveness_snapshot c d now = map (\<lambda>p. (sp_name p, receipt_liveness d now p)) (streams c)"

definition stale_text :: "string \<Rightarrow> liveness \<Rightarrow> string" where
  "stale_text name lv = ''stream_stale:'' @ name @ '':receipt_age_ns='' @
     (case lv_age lv of None \<Rightarrow> ''missing'' | Some a \<Rightarrow> int_text a) @ '':limit_ns='' @ int_text (lv_limit lv)"

definition liveness_health :: "discipline_config \<Rightarrow> 'a stamp_discipline_scheme \<Rightarrow> int \<Rightarrow> string option" where
  "liveness_health c d now =
     map_option (\<lambda>(name, lv). stale_text name lv)
       (find (\<lambda>(name, lv). \<not> lv_live lv) (receipt_liveness_snapshot c d now))"

definition drift_exceeded :: "discipline_config \<Rightarrow> pyfloat \<Rightarrow> bool" where
  "drift_exceeded c drift \<longleftrightarrow> fless (max_absolute_drift_ppm c) (fabs drift)"

text \<open>The checks of one stream in \<open>_statistical_health\<close>, first failure first.\<close>

definition stream_health ::
  "discipline_config \<Rightarrow> stamp_discipline \<Rightarrow> stream_metrics \<Rightarrow> stream_policy \<Rightarrow> string option" where
  "stream_health c d reference p =
     (let name = sp_name p in
      case metrics_of c d name of None \<Rightarrow> Some (''stream_lost:'' @ name)
      | Some sm \<Rightarrow>
        if fless (max_duplicate_fraction p) (duplicate_fraction sm) then Some (''duplicate_fraction_exceeded:'' @ name)
        else case sm_drift_ppm sm of None \<Rightarrow> Some (''clock_drift_exceeded:'' @ name)
        | Some drift \<Rightarrow>
          if drift_exceeded c drift then Some (''clock_drift_exceeded:'' @ name)
          else if (case sm_drift_ppm reference of None \<Rightarrow> False
                   | Some rd \<Rightarrow> fless (max_pairwise_drift_ppm c) (fabs (fsub drift rd)))
          then Some (''pairwise_drift_disagreement:'' @ name)
          else let lag = lower_age_ns sm - lower_age_ns reference in
            if lag < - max_relative_lead_ns c then Some (''stream_leads_reference:'' @ name)
            else if max_relative_lag_ns p < lag then Some (''stream_lag_exceeded:'' @ name)
            else None)"

fun first_reason :: "('a \<Rightarrow> string option) \<Rightarrow> 'a list \<Rightarrow> string option" where
  "first_reason f [] = None"
| "first_reason f (x # xs) = (case f x of Some r \<Rightarrow> Some r | None \<Rightarrow> first_reason f xs)"

definition statistical_health :: "discipline_config \<Rightarrow> stamp_discipline \<Rightarrow> string option" where
  "statistical_health c d =
     (case metrics_of c d (reference_stream c) of None \<Rightarrow> Some ''reference_stream_lost''
      | Some reference \<Rightarrow>
        if max_locked_offset_deviation_ns c <
           \<bar>lower_age_ns reference - offset_guard_ns c - the (locked_offset_ns d)\<bar>
        then Some ''locked_offset_deviation_exceeded''
        else first_reason (stream_health c d reference) (streams c))"

definition scheduled_statistics_health ::
  "discipline_config \<Rightarrow> int \<Rightarrow> stamp_discipline \<Rightarrow> string option \<times> stamp_discipline" where
  "scheduled_statistics_health c now d =
     (case last_statistics_ns d of
        Some previous \<Rightarrow>
          if now < previous then (Some ''statistics_monotonic_regression'', d)
          else if \<not> locked_statistics_enabled c then (None, d)
          else if now - previous < statistics_evaluation_period_ns c then (None, d)
          else let d' = d\<lparr>last_statistics_ns := Some now\<rparr> in (statistical_health c d', d')
      | None \<Rightarrow>
          if \<not> locked_statistics_enabled c then (None, d)
          else let d' = d\<lparr>last_statistics_ns := Some now\<rparr> in (statistical_health c d', d'))"

text \<open>The breaker shared by \<open>observe\<close> and \<open>poll\<close>: liveness first, then the scheduled statistics.\<close>

definition run_breakers :: "discipline_config \<Rightarrow> int \<Rightarrow> stamp_discipline \<Rightarrow> string option \<times> stamp_discipline" where
  "run_breakers c now d =
     (case liveness_health c d now of Some r \<Rightarrow> (Some r, d) | None \<Rightarrow> scheduled_statistics_health c now d)"

section \<open>\<open>observe\<close>\<close>

record observation =
  ob_stream :: string
  ob_source :: int
  ob_realtime :: int
  ob_monotonic :: int
  ob_domain :: string
  ob_read_span :: int

definition policy_of :: "discipline_config \<Rightarrow> string \<Rightarrow> stream_policy" where
  "policy_of c name = the (find (\<lambda>p. sp_name p = name) (streams c))"

definition delta_limit :: "discipline_config \<Rightarrow> stream_policy \<Rightarrow> int" where
  "delta_limit c p = (case sp_delta_limit_ns p of Some l \<Rightarrow> l | None \<Rightarrow> max_source_receipt_delta_error_ns c)"

definition put_stream ::
  "string \<Rightarrow> stream_state \<Rightarrow> 'a stamp_discipline_scheme \<Rightarrow> 'a stamp_discipline_scheme" where
  "put_stream name ss d = d\<lparr>stream_states := (stream_states d)(name := ss)\<rparr>"

text \<open>The entry checks of \<open>observe\<close>, before any state changes.\<close>

definition entry_fault :: "discipline_config \<Rightarrow> observation \<Rightarrow> 'a stamp_discipline_scheme \<Rightarrow> string option" where
  "entry_fault c e d =
     (if ob_stream e \<notin> set (stream_names c) then Some (''unexpected_stream:'' @ ob_stream e)
      else if ob_domain e \<noteq> expected_clock_domain c then Some (''clock_domain_mismatch:'' @ ob_stream e)
      else if \<not> (positive_int (ob_source e) \<and> positive_int (ob_realtime e) \<and> positive_int (ob_monotonic e))
      then Some (''invalid_timestamp_encoding:'' @ ob_stream e)
      else if \<not> in_range 0 (ob_read_span e) (max_clock_read_span_ns c)
      then Some (''clock_read_span_exceeded:'' @ ob_stream e)
      else case last_clock_base_ns d of None \<Rightarrow> None
        | Some base \<Rightarrow> if max_clock_pair_discontinuity_ns c < \<bar>ob_realtime e - ob_monotonic e - base\<bar>
                       then Some ''local_realtime_discontinuity'' else None)"

text \<open>How a sample relates to the last advancing one of its stream.\<close>

datatype continuity = Advances | Duplicate | Broken string "(string \<times> int) list"

definition sample_continuity :: "discipline_config \<Rightarrow> observation \<Rightarrow> stream_state \<Rightarrow> continuity" where
  "sample_continuity c e ss =
     (case last_source_ns ss of None \<Rightarrow> Advances
      | Some last_source \<Rightarrow>
        if ob_source e < last_source then Broken (''source_timestamp_regression:'' @ ob_stream e) []
        else if ob_source e = last_source then Duplicate
        else let source_delta = ob_source e - last_source;
                 receipt_delta = ob_monotonic e - the (last_receipt_ns ss);
                 limit = delta_limit c (policy_of c (ob_stream e));
                 delta_error = \<bar>source_delta - receipt_delta\<bar> in
          if receipt_delta \<le> 0 then Broken (''receipt_monotonic_not_advancing:'' @ ob_stream e) []
          else if limit < delta_error
          then Broken (''source_receipt_delta_discontinuity:'' @ ob_stream e)
                 [(''source_delta_ns'', source_delta), (''receipt_delta_ns'', receipt_delta),
                  (''delta_error_ns'', delta_error), (''delta_error_limit_ns'', limit)]
          else Advances)"

definition record_sample :: "discipline_config \<Rightarrow> observation \<Rightarrow> stream_state \<Rightarrow> stream_state" where
  "record_sample c e ss = ss
     \<lparr>ss_samples := deque_append (retained_samples_per_stream c) (ss_samples ss)
        (ob_source e, ob_monotonic e, ob_realtime e - ob_source e),
      last_source_ns := Some (ob_source e), last_receipt_ns := Some (ob_monotonic e),
      advancing := advancing ss + 1\<rparr>"

text \<open>The correction of a recorded sample by the locked offset.\<close>

definition correct_sample ::
  "discipline_config \<Rightarrow> observation \<Rightarrow> int \<Rightarrow> stamp_discipline \<Rightarrow> correction_result \<times> stamp_discipline" where
  "correct_sample c e off d =
     (let corrected = ob_source e + off; age = ob_realtime e - corrected; p = policy_of c (ob_stream e) in
      if age < - max_corrected_future_ns c then fault (''corrected_timestamp_in_future:'' @ ob_stream e) [] d
      else if max_corrected_age_ns p < age
      then fault (''corrected_timestamp_stale:'' @ ob_stream e @ '':corrected_age_ns='' @ int_text age @
                  '':limit_ns='' @ int_text (max_corrected_age_ns p)) [] d
      else case run_breakers c (ob_monotonic e) d of
          (Some reason, d') \<Rightarrow> fault reason [] d'
        | (None, d') \<Rightarrow>
            (\<lparr>cr_accepted = True, corrected_stamp_ns = Some corrected, navigation_eligible = True,
              cr_reason = ''navigation_safe'', cr_state = sd_state d', diagnostics = []\<rparr>, d'))"

definition sd_observe :: "discipline_config \<Rightarrow> observation \<Rightarrow> stamp_discipline \<Rightarrow> correction_result \<times> stamp_discipline" where
  "sd_observe c e d =
     (if sd_state d = FAULTED then (faulted_result d, d)
      else case entry_fault c e d of Some reason \<Rightarrow> fault reason [] d
      | None \<Rightarrow>
        let d1 = d\<lparr>last_clock_base_ns := Some (ob_realtime e - ob_monotonic e)\<rparr>;
            ss = stream_states d (ob_stream e) in
        case sample_continuity c e ss of
          Broken reason diag \<Rightarrow> fault reason diag d1
        | Duplicate \<Rightarrow>
            (refuse (''duplicate_source_timestamp:'' @ ob_stream e) (sd_state d),
             put_stream (ob_stream e) (ss\<lparr>duplicates := duplicates ss + 1\<rparr>) d1)
        | Advances \<Rightarrow>
            let d2 = put_stream (ob_stream e) (record_sample c e ss) d1 in
            if sd_state d \<noteq> LOCKED then (refuse ''offset_not_locked'' (sd_state d), d2)
            else correct_sample c e (the (locked_offset_ns d)) d2)"

section \<open>Qualification and locking\<close>

definition when_reason :: "bool \<Rightarrow> string \<Rightarrow> string list" where
  "when_reason b r = (if b then [r] else [])"

definition qualify_stream ::
  "discipline_config \<Rightarrow> stamp_discipline \<Rightarrow> int \<Rightarrow> stream_metrics \<Rightarrow> stream_policy \<Rightarrow> string list" where
  "qualify_stream c d now reference p =
     (let name = sp_name p in
      case metrics_of c d name of None \<Rightarrow> [''missing_stream:'' @ name]
      | Some sm \<Rightarrow>
        (let lag = lower_age_ns sm - lower_age_ns reference in
         when_reason (int (sm_samples sm) < min_samples p) (''insufficient_samples:'' @ name) @
         when_reason (span_ns sm < minimum_qualification_span_ns c) (''insufficient_span:'' @ name) @
         when_reason (\<not> lv_live (receipt_liveness d now p)) (''stream_not_live:'' @ name) @
         when_reason (fless (max_duplicate_fraction p) (duplicate_fraction sm)) (''excessive_duplicates:'' @ name) @
         (case sm_drift_ppm sm of None \<Rightarrow> [''insufficient_drift_bins:'' @ name]
          | Some drift \<Rightarrow> when_reason (drift_exceeded c drift) (''clock_drift_exceeded:'' @ name)) @
         when_reason (lag < - max_relative_lead_ns c) (''stream_leads_reference:'' @ name) @
         when_reason (max_relative_lag_ns p < lag) (''stream_lag_exceeded:'' @ name)))"

definition pairwise_reasons :: "discipline_config \<Rightarrow> stamp_discipline \<Rightarrow> stream_metrics \<Rightarrow> stream_policy \<Rightarrow> string list" where
  "pairwise_reasons c d reference p =
     (case (sm_drift_ppm reference, Option.bind (metrics_of c d (sp_name p)) sm_drift_ppm) of
        (Some rd, Some drift) \<Rightarrow> when_reason (fless (max_pairwise_drift_ppm c) (fabs (fsub drift rd)))
          (''pairwise_drift_disagreement:'' @ sp_name p)
      | _ \<Rightarrow> [])"

text \<open>Would an offset leave the stream's lower and 95-percent ages within the budgets?\<close>

definition budget_reasons ::
  "string \<Rightarrow> discipline_config \<Rightarrow> stamp_discipline \<Rightarrow> int \<Rightarrow> stream_policy \<Rightarrow> string list" where
  "budget_reasons who c d off p =
     (case metrics_of c d (sp_name p) of None \<Rightarrow> []
      | Some sm \<Rightarrow>
          when_reason (lower_age_ns sm - off < - max_corrected_future_ns c) (who @ ''_would_be_future:'' @ sp_name p) @
          when_reason (max_corrected_age_ns p < p95_age_ns sm - off) (who @ ''_would_be_stale:'' @ sp_name p))"

definition qualification_reasons :: "discipline_config \<Rightarrow> stamp_discipline \<Rightarrow> int \<Rightarrow> string list" where
  "qualification_reasons c d now =
     (if \<not> positive_int now then [''invalid_qualification_time'']
      else case metrics_of c d (reference_stream c) of None \<Rightarrow> [''missing_reference_stream'']
      | Some reference \<Rightarrow> sorted_names
          (concat (map (qualify_stream c d now reference) (streams c)) @
           concat (map (pairwise_reasons c d reference) (streams c)) @
           concat (map (budget_reasons ''candidate'' c d (lower_age_ns reference - offset_guard_ns c)) (streams c))))"

text \<open>\<open>Inl\<close> is the message of the \<open>RuntimeError\<close>; the state is only changed by a lock.\<close>

definition commit_lock :: "int \<Rightarrow> int \<Rightarrow> stamp_discipline \<Rightarrow> stamp_discipline" where
  "commit_lock off now d = d\<lparr>locked_offset_ns := Some off, sd_state := LOCKED, last_statistics_ns := Some now\<rparr>"

definition lock ::
  "discipline_config \<Rightarrow> bool \<Rightarrow> int \<Rightarrow> stamp_discipline \<Rightarrow> (string + int) \<times> stamp_discipline" where
  "lock c identity now d =
     (if sd_state d = FAULTED then (Inl (cr_reason (faulted_result d)), d)
      else if sd_state d = LOCKED then (Inr (the (locked_offset_ns d)), d)
      else if \<not> identity then (Inl ''clock-domain identity evidence is not verified'', d)
      else let reasons = qualification_reasons c d now in
        if reasons \<noteq> [] then (Inl (''timestamp qualification failed: '' @ join_comma reasons), d)
        else let off = lower_age_ns (the (metrics_of c d (reference_stream c))) - offset_guard_ns c in
          (Inr off, commit_lock off now d))"

definition lock_fixed ::
  "discipline_config \<Rightarrow> int \<Rightarrow> bool \<Rightarrow> int \<Rightarrow> stamp_discipline \<Rightarrow> (string + int) \<times> stamp_discipline" where
  "lock_fixed c off identity now d =
     (if sd_state d = FAULTED then (Inl (cr_reason (faulted_result d)), d)
      else if sd_state d = LOCKED
      then (if off \<noteq> the (locked_offset_ns d) then (Inl ''discipline is already locked to another offset'', d)
            else (Inr (the (locked_offset_ns d)), d))
      else if \<not> (- (2 ^ 63) < off \<and> off < 2 ^ 63)
      then (Inl ''approved offset must be a signed int64 nanosecond value'', d)
      else if \<not> identity then (Inl ''clock-domain identity evidence is not verified'', d)
      else let reasons = qualification_reasons c d now in
        if reasons \<noteq> [] then (Inl (''timestamp qualification failed: '' @ join_comma reasons), d)
        else let candidate = lower_age_ns (the (metrics_of c d (reference_stream c))) - offset_guard_ns c in
          if max_locked_offset_deviation_ns c < \<bar>candidate - off\<bar>
          then (Inl ''approved fixed offset disagrees with live qualification'', d)
          else let failed = concat (map (budget_reasons ''approved_offset'' c d off) (streams c)) in
            if failed \<noteq> []
            then (Inl (''approved fixed offset failed stream budgets: '' @ join_comma (sorted_names failed)), d)
            else (Inr off, commit_lock off now d))"

section \<open>\<open>poll\<close> and the diagnostic snapshots\<close>

definition poll :: "discipline_config \<Rightarrow> int \<Rightarrow> stamp_discipline \<Rightarrow> correction_result \<times> stamp_discipline" where
  "poll c now d =
     (if sd_state d = FAULTED then (faulted_result d, d)
      else if sd_state d \<noteq> LOCKED then (refuse ''offset_not_locked'' (sd_state d), d)
      else if \<not> positive_int now then fault ''invalid_poll_time'' [] d
      else case run_breakers c now d of
          (Some reason, d') \<Rightarrow> fault reason [] d'
        | (None, d') \<Rightarrow> (refuse ''healthy_no_sample'' (sd_state d'), d'))"

definition diagnostic_corrected_stamp_ns :: "stamp_discipline \<Rightarrow> int \<Rightarrow> int option" where
  "diagnostic_corrected_stamp_ns d source = map_option (\<lambda>off. source + off) (locked_offset_ns d)"

record age_report =
  ar_source :: "int option"
  ar_realtime :: "int option"
  ar_age :: "int option"
  ar_limit :: int
  ar_within :: bool

definition age_report_of :: "discipline_config \<Rightarrow> stamp_discipline \<Rightarrow> stream_policy \<Rightarrow> age_report" where
  "age_report_of c d p =
     (let xs = ss_samples (stream_states d (sp_name p)) in
      if xs = [] then \<lparr>ar_source = None, ar_realtime = None, ar_age = None,
                       ar_limit = max_corrected_age_ns p, ar_within = False\<rparr>
      else let source = sample_source (last xs); realtime = source + sample_age (last xs);
               age = map_option (\<lambda>s. realtime - s) (diagnostic_corrected_stamp_ns d source) in
        \<lparr>ar_source = Some source, ar_realtime = Some realtime, ar_age = age, ar_limit = max_corrected_age_ns p,
         ar_within = (case age of None \<Rightarrow> False
            | Some a \<Rightarrow> in_range (- max_corrected_future_ns c) a (max_corrected_age_ns p))\<rparr>)"

definition corrected_age_snapshot :: "discipline_config \<Rightarrow> stamp_discipline \<Rightarrow> (string \<times> age_report) list" where
  "corrected_age_snapshot c d = map (\<lambda>p. (sp_name p, age_report_of c d p)) (streams c)"

section \<open>A session: any sequence of calls\<close>

datatype sd_event = Observe observation | Lock bool int | LockFixed int bool int | Poll int

datatype sd_output = Correction correction_result | LockReply "string + int"

fun sd_step :: "discipline_config \<Rightarrow> sd_event \<Rightarrow> stamp_discipline \<Rightarrow> sd_output \<times> stamp_discipline" where
  "sd_step c (Observe e) d = map_prod Correction id (sd_observe c e d)"
| "sd_step c (Lock identity now) d = map_prod LockReply id (lock c identity now d)"
| "sd_step c (LockFixed off identity now) d = map_prod LockReply id (lock_fixed c off identity now d)"
| "sd_step c (Poll now) d = map_prod Correction id (poll c now d)"

end
