(* ===== verification/StampInvariant.thy ===== *)
theory StampInvariant imports StampDiscipline Traces begin

text \<open>
  What every call keeps of a \<open>NavigationStampDiscipline\<close>: the locked offset, the fault latch, the
  order of source stamps per stream and the bound on retained samples, as instances of the trace
  interfaces.
\<close>

section \<open>What the helpers leave alone\<close>

lemma fault_simps [simp]:
  "cr_accepted (fst (fault r g d)) = False" "sd_state (snd (fault r g d)) = FAULTED"
  "locked_offset_ns (snd (fault r g d)) = locked_offset_ns d"
  "stream_states (snd (fault r g d)) = stream_states d" "cr_reason (fst (fault r g d)) = r"
  "sd_fault_reason (snd (fault r g d)) = Some r"
  by (simp_all add: fault_def refuse_def)

lemma refuse_simps [simp]: "cr_accepted (refuse r st) = False" "cr_reason (refuse r st) = r" "cr_accepted (faulted_result d) = False"
  by (simp_all add: refuse_def faulted_result_def)

lemma put_stream_simps [simp]:
  "sd_state (put_stream n ss d) = sd_state d" "locked_offset_ns (put_stream n ss d) = locked_offset_ns d"
  "stream_states (put_stream n ss d) = (stream_states d)(n := ss)"
  by (simp_all add: put_stream_def)

lemma run_breakers_keeps:
  "run_breakers c now d = (r, d') \<Longrightarrow>
     sd_state d' = sd_state d \<and> locked_offset_ns d' = locked_offset_ns d \<and> stream_states d' = stream_states d"
  by (auto simp: run_breakers_def scheduled_statistics_health_def Let_def split: option.splits if_splits)

lemma liveness_health_None:
  "liveness_health c d now = None \<longleftrightarrow> (\<forall>p \<in> set (streams c). lv_live (receipt_liveness d now p))"
  by (auto simp: liveness_health_def find_None_iff receipt_liveness_snapshot_def)

lemma run_breakers_live:
  "fst (run_breakers c now d) = None \<Longrightarrow> p \<in> set (streams c) \<Longrightarrow> lv_live (receipt_liveness d now p)"
  by (auto simp: run_breakers_def liveness_health_None split: option.splits)

lemma run_breakers_silent:
  assumes "p \<in> set (streams c)" "\<not> lv_live (receipt_liveness d now p)"
  shows "\<exists>q \<in> set (streams c). \<not> lv_live (receipt_liveness d now q) \<and>
    run_breakers c now d = (Some (stale_text (sp_name q) (receipt_liveness d now q)), d)"
proof -
  have "liveness_health c d now \<noteq> None" using assms by (auto simp: liveness_health_None)
  then obtain n lv where f: "find (\<lambda>(name, lv). \<not> lv_live lv) (receipt_liveness_snapshot c d now) = Some (n, lv)"
    by (auto simp: liveness_health_def)
  then have "(n, lv) \<in> set (receipt_liveness_snapshot c d now) \<and> \<not> lv_live lv"
    by (auto simp: find_Some_iff in_set_conv_nth)
  then obtain q where "q \<in> set (streams c)" "n = sp_name q" "lv = receipt_liveness d now q" "\<not> lv_live lv"
    by (auto simp: receipt_liveness_snapshot_def)
  then show ?thesis using f by (auto simp: run_breakers_def liveness_health_def)
qed

section \<open>One call\<close>

lemma correct_sample_keeps [simp]:
  "locked_offset_ns (snd (correct_sample c e off d)) = locked_offset_ns d"
  "stream_states (snd (correct_sample c e off d)) = stream_states d"
  "sd_state (snd (correct_sample c e off d)) \<in> {sd_state d, FAULTED}"
  by (auto simp: correct_sample_def Let_def dest!: run_breakers_keeps split: prod.splits option.splits)

lemma sd_observe_offset [simp]: "locked_offset_ns (snd (sd_observe c e d)) = locked_offset_ns d"
  by (simp add: sd_observe_def Let_def split: option.split continuity.split)

lemma sd_observe_state: "sd_state (snd (sd_observe c e d)) \<in> {sd_state d, FAULTED}"
proof (cases "entry_fault c e d")
  case None
  let ?ss = "stream_states d (ob_stream e)"
  let ?d = "put_stream (ob_stream e) (record_sample c e ?ss) (d\<lparr>last_clock_base_ns := Some (ob_realtime e - ob_monotonic e)\<rparr>)"
  show ?thesis using None correct_sample_keeps(3) [of c e "the (locked_offset_ns d)" ?d]
    by (auto simp: sd_observe_def Let_def split: continuity.split)
qed (simp add: sd_observe_def)

text \<open>The three things \<open>observe\<close> can do to the states of the streams.\<close>

lemma sd_observe_streams:
  "let n = ob_stream e; ss = stream_states d n; xs = stream_states (snd (sd_observe c e d)) in
   xs = stream_states d \<or>
   xs = (stream_states d)(n := ss\<lparr>duplicates := duplicates ss + 1\<rparr>) \<or>
   xs = (stream_states d)(n := record_sample c e ss) \<and> sample_continuity c e ss = Advances"
  by (simp add: sd_observe_def Let_def split: option.split continuity.split)

lemma poll_keeps [simp]:
  "locked_offset_ns (snd (poll c now d)) = locked_offset_ns d"
  "stream_states (snd (poll c now d)) = stream_states d"
  "sd_state (snd (poll c now d)) \<in> {sd_state d, FAULTED}"
  "cr_accepted (fst (poll c now d)) = False"
  by (auto simp: poll_def dest!: run_breakers_keeps split: prod.splits option.splits)

lemma commit_lock_simps [simp]:
  "sd_state (commit_lock off now d) = LOCKED" "locked_offset_ns (commit_lock off now d) = Some off"
  "stream_states (commit_lock off now d) = stream_states d"
  by (simp_all add: commit_lock_def)

text \<open>A lock either changes nothing or commits the offset it returns, from a qualifying session.\<close>

lemma lock_cases:
  "snd (lock c idn now d) = d \<or>
   sd_state d = QUALIFYING \<and> idn \<and> qualification_reasons c d now = [] \<and>
   (\<exists>off. lock c idn now d = (Inr off, commit_lock off now d))"
  by (cases "sd_state d") (auto simp: lock_def Let_def)

lemma lock_fixed_cases:
  "snd (lock_fixed c off idn now d) = d \<or>
   sd_state d = QUALIFYING \<and> idn \<and> qualification_reasons c d now = [] \<and>
   lock_fixed c off idn now d = (Inr off, commit_lock off now d)"
  by (cases "sd_state d") (auto simp: lock_fixed_def Let_def)

section \<open>The invariants\<close>

definition sd_inv :: "discipline_config \<Rightarrow> stamp_discipline \<Rightarrow> bool" where
  "sd_inv c d \<longleftrightarrow>
     (sd_state d = QUALIFYING \<longrightarrow> locked_offset_ns d = None) \<and>
     (sd_state d = LOCKED \<longrightarrow> locked_offset_ns d \<noteq> None) \<and>
     (\<forall>n. length (ss_samples (stream_states d n)) \<le> nat (retained_samples_per_stream c))"

lemma sd_inv_init: "discipline_init c = Inr d \<Longrightarrow> sd_inv c d"
  by (auto simp: discipline_init_def sd_inv_def stream_init_def)

lemma sd_observe_retained:
  assumes "\<forall>n. length (ss_samples (stream_states d n)) \<le> nat (retained_samples_per_stream c)"
  shows "length (ss_samples (stream_states (snd (sd_observe c e d)) n)) \<le> nat (retained_samples_per_stream c)"
  using sd_observe_streams [of e d c] assms
  by (auto simp: Let_def record_sample_def length_deque_append)

lemma sd_inv_step: "sd_inv c d \<Longrightarrow> sd_inv c (snd (sd_step c ev d))"
proof (cases ev)
  case (Observe e)
  assume "sd_inv c d"
  then show ?thesis using Observe sd_observe_state [of c e d] by (auto simp: sd_inv_def sd_observe_retained)
next
  case (Poll now)
  assume "sd_inv c d"
  then show ?thesis using Poll poll_keeps(3) [of c now d] by (auto simp: sd_inv_def)
next
  case (Lock idn now)
  assume "sd_inv c d"
  then show ?thesis using Lock lock_cases [of c idn now d] by (auto simp: sd_inv_def)
next
  case (LockFixed off idn now)
  assume "sd_inv c d"
  then show ?thesis using LockFixed lock_fixed_cases [of c off idn now d] by (auto simp: sd_inv_def)
qed

text \<open>A fault is final: the state stays faulted and nothing is accepted any more.\<close>

fun output_accepted :: "sd_output \<Rightarrow> bool" where
  "output_accepted (Correction r) \<longleftrightarrow> cr_accepted r"
| "output_accepted (LockReply _) \<longleftrightarrow> False"

interpretation discipline: latch_system "sd_step c" "\<lambda>_ _. True" "sd_inv c"
  "\<lambda>d. sd_state d = FAULTED" "\<lambda>out. \<not> output_accepted out" for c
proof
  fix d ev
  show "sd_inv c d \<Longrightarrow> sd_inv c (snd (sd_step c ev d))" by (rule sd_inv_step)
  show "sd_state d = FAULTED \<Longrightarrow> sd_state (snd (sd_step c ev d)) = FAULTED"
    by (cases ev) (simp_all add: sd_observe_def poll_def lock_def lock_fixed_def)
  show "sd_state d = FAULTED \<Longrightarrow> \<not> output_accepted (fst (sd_step c ev d))"
    by (cases ev) (simp_all add: sd_observe_def poll_def)
qed

text \<open>A committed offset never changes.\<close>

lemma offset_step:
  assumes "sd_inv c d" "locked_offset_ns d = Some off"
  shows "locked_offset_ns (snd (sd_step c ev d)) = Some off"
proof -
  have "sd_state d \<noteq> QUALIFYING" using assms by (auto simp: sd_inv_def)
  then have "snd (lock c idn now d) = d" "snd (lock_fixed c o' idn now d) = d" for idn now o'
    using lock_cases [of c idn now d] lock_fixed_cases [of c o' idn now d] by simp_all
  then show ?thesis using assms(2) by (cases ev) simp_all
qed

lemma offset_final:
  "sd_inv c d \<Longrightarrow> locked_offset_ns d = Some off \<Longrightarrow> locked_offset_ns (final (sd_step c) es d) = Some off"
  by (induction es arbitrary: d) (simp_all add: sd_inv_step offset_step)

text \<open>The last source stamp of a stream never goes back.\<close>

lemma continuity_advances:
  "sample_continuity c e ss = Advances \<Longrightarrow> last_source_ns ss = Some s \<Longrightarrow> s < ob_source e"
  by (auto simp: sample_continuity_def Let_def split: if_splits)

lemma source_step:
  assumes "last_source_ns (stream_states d n) = Some s"
  shows "\<exists>t \<ge> s. last_source_ns (stream_states (snd (sd_step c ev d)) n) = Some t"
proof (cases ev)
  case (Observe e)
  then show ?thesis using assms sd_observe_streams [of e d c] continuity_advances [of c e]
    by (fastforce simp: Let_def record_sample_def)
next
  case (Lock idn now)
  then show ?thesis using assms lock_cases [of c idn now d] by auto
next
  case (LockFixed off idn now)
  then show ?thesis using assms lock_fixed_cases [of c off idn now d] by auto
qed (use assms in simp)

section \<open>What an accepted correction says\<close>

lemma correct_sample_accepted:
  assumes "cr_accepted (fst (correct_sample c e off d))"
  shows "corrected_stamp_ns (fst (correct_sample c e off d)) = Some (ob_source e + off) \<and>
    sd_state (snd (correct_sample c e off d)) = sd_state d \<and>
    in_range (- max_corrected_future_ns c) (ob_realtime e - (ob_source e + off))
      (max_corrected_age_ns (policy_of c (ob_stream e))) \<and>
    (\<forall>p \<in> set (streams c). lv_live (receipt_liveness d (ob_monotonic e) p))"
  using assms run_breakers_live [of c "ob_monotonic e" d]
  by (auto simp: correct_sample_def in_range_def Let_def dest!: run_breakers_keeps split: if_splits prod.splits option.splits)

lemma sd_observe_accepted_unfold:
  assumes "cr_accepted (fst (sd_observe c e d))"
  shows "sd_state d = LOCKED \<and> entry_fault c e d = None \<and>
    sample_continuity c e (stream_states d (ob_stream e)) = Advances \<and>
    sd_observe c e d = correct_sample c e (the (locked_offset_ns d))
      (put_stream (ob_stream e) (record_sample c e (stream_states d (ob_stream e)))
        (d\<lparr>last_clock_base_ns := Some (ob_realtime e - ob_monotonic e)\<rparr>))"
  using assms by (auto simp: sd_observe_def Let_def split: if_splits option.splits continuity.splits)

lemma find_member: "x \<in> set xs \<Longrightarrow> p x \<Longrightarrow> \<exists>y \<in> set xs. find p xs = Some y \<and> p y"
  by (induction xs) auto

lemma policy_of_in: "n \<in> set (stream_names c) \<Longrightarrow> policy_of c n \<in> set (streams c) \<and> sp_name (policy_of c n) = n"
proof -
  assume "n \<in> set (stream_names c)"
  then obtain p where "p \<in> set (streams c)" "sp_name p = n" by (auto simp: stream_names_def)
  then show ?thesis using find_member [of p "streams c" "\<lambda>p. sp_name p = n"] by (auto simp: policy_of_def)
qed

lemma policy_of_unique: "distinct (stream_names c) \<Longrightarrow> p \<in> set (streams c) \<Longrightarrow> policy_of c (sp_name p) = p"
  using policy_of_in [of "sp_name p" c]
  by (auto simp: stream_names_def distinct_map dest: inj_onD)

end
