(* ===== verification/StampDemo.thy ===== *)
theory StampDemo imports StampDiscipline Traces begin

text \<open>A concrete session: one stream at one sample per second, eleven samples of constant age, then a lock.\<close>

definition sd_demo_policy :: stream_policy where
  "sd_demo_policy = policy ''imu'' 100000000 200000000 200000000 10000000 11"

definition sd_demo_config :: discipline_config where
  "sd_demo_config = (default_config ''imu'' ''go2'' [sd_demo_policy])\<lparr>minimum_qualification_span_ns := 10 * SECOND_NS,
     statistics_evaluation_period_ns := 5 * SECOND_NS\<rparr>"

definition sd_demo_sample :: "int \<Rightarrow> observation" where
  "sd_demo_sample k = \<lparr>ob_stream = ''imu'', ob_source = 1000 * SECOND_NS + k * SECOND_NS,
     ob_realtime = 1000 * SECOND_NS + k * SECOND_NS + 20000000, ob_monotonic = k * SECOND_NS, ob_domain = ''go2'',
     ob_read_span = 1000\<rparr>"

definition sd_demo_samples :: "nat \<Rightarrow> stamp_sample list" where
  "sd_demo_samples n = map (\<lambda>k. ((1000 + int k) * SECOND_NS, int k * SECOND_NS, 20000000)) [1..<Suc n]"

text \<open>The qualifying session after \<open>n\<close> of these samples.\<close>

definition sd_demo_state :: "nat \<Rightarrow> stamp_discipline" where
  "sd_demo_state n = \<lparr>sd_state = QUALIFYING, sd_fault_reason = None, locked_offset_ns = None,
     stream_states = (\<lambda>_. stream_init)(''imu'' := \<lparr>ss_samples = sd_demo_samples n,
       last_source_ns = (if n = 0 then None else Some ((1000 + int n) * SECOND_NS)),
       last_receipt_ns = (if n = 0 then None else Some (int n * SECOND_NS)), advancing = int n, duplicates = 0\<rparr>),
     last_clock_base_ns = (if n = 0 then None else Some (1000 * SECOND_NS + 20000000)), last_statistics_ns = None\<rparr>"

lemmas sd_demo_defs = sd_demo_policy_def sd_demo_config_def policy_def default_config_def SECOND_NS_def

lemma sd_demo_valid: "validate_config sd_demo_config = Inr ()"
  by (simp add: validate_config_def basic_checks_def window_check_def rate_checks_def locked_drop_checks_def qualifying_drop_checks_def drop_checks_def Let_def
      recovery_checks_def policy_checks_def stream_names_def in_range_def fin_range_def sd_demo_defs)

lemma sd_demo_init: "discipline_init sd_demo_config = Inr (sd_demo_state 0)"
  using sd_demo_valid by (auto simp: discipline_init_def sd_demo_state_def sd_demo_samples_def stream_init_def)

lemma sd_demo_observe:
  assumes "n < 100"
  shows "sd_observe sd_demo_config (sd_demo_sample (int (Suc n))) (sd_demo_state n) =
    (refuse ''offset_not_locked'' QUALIFYING, sd_demo_state (Suc n))"
proof -
  have "deque_append 20000 (sd_demo_samples n) ((1001 + int n) * SECOND_NS, (int n + 1) * SECOND_NS, 20000000) = sd_demo_samples (Suc n)"
    using assms by (simp add: deque_append_def sd_demo_samples_def algebra_simps)
  then show ?thesis
    by (cases "n = 0") (simp_all add: sd_observe_def entry_fault_def sd_demo_sample_def stream_names_def sd_demo_defs positive_int_def in_range_def
        sample_continuity_def record_sample_def put_stream_def sd_demo_state_def delta_limit_def policy_of_def Let_def
        algebra_simps)
qed

lemma sd_demo_ages: "set (map sample_age (sd_demo_samples n)) \<subseteq> {20000000}"
  by (auto simp: sd_demo_samples_def)

lemma sd_demo_upt: "[Suc 0..<12] = [1, 2, 3, 4, 5, 6, 7, 8, 9, 10, 11]"
  by code_simp

lemma sd_demo_points: "bin_points (sd_demo_samples 11) 1000000000 = map (\<lambda>k. (k * 1000000000, 20000000)) [0, 1, 2, 3, 4, 5, 6, 7, 8, 9, 10]"
  by (simp add: sd_demo_samples_def sd_demo_upt SECOND_NS_def bin_points_def group_age_def bin_of_def int_median_def)

lemma sd_demo_drift: "robust_drift_ppm (sd_demo_samples 11) 1000000000 = Some (Fin 0)"
  unfolding robust_drift_ppm_def sd_demo_points by (rule theil_sen_const [where a = 20000000]) auto

lemma sd_demo_metrics:
  "metrics_of sd_demo_config (sd_demo_state 11) ''imu'' = Some \<lparr>sm_samples = 11, span_ns = 10000000000,
     lower_age_ns = 20000000, median_age_ns = 20000000, p95_age_ns = 20000000,
     sm_drift_ppm = Some (Fin 0), duplicate_fraction = Fin 0\<rparr>"
proof -
  have ne: "sd_demo_samples 11 \<noteq> []" and len: "length (sd_demo_samples 11) = 11"
    and span: "sample_receipt (last (sd_demo_samples 11)) - sample_receipt (hd (sd_demo_samples 11)) = 10000000000"
    by (simp_all add: sd_demo_samples_def sd_demo_upt SECOND_NS_def)
  show ?thesis
    using ne sd_demo_drift quantile_const [OF _ sd_demo_ages, of 11]
    by (simp add: stream_metrics_of_def sd_demo_state_def Let_def len span true_div_def sd_demo_defs)
qed

lemma sd_demo_qualified: "qualification_reasons sd_demo_config (sd_demo_state 11) (11 * SECOND_NS) = []"
proof -
  have r: "reference_stream sd_demo_config = ''imu''" and ps: "streams sd_demo_config = [sd_demo_policy]" by (simp_all add: sd_demo_config_def default_config_def)
  have n: "sp_name sd_demo_policy = ''imu''" by (simp add: sd_demo_defs)
  have "lv_live (receipt_liveness (sd_demo_state 11) (11 * SECOND_NS) sd_demo_policy)"
    by (simp add: receipt_liveness_def sd_demo_state_def sd_demo_defs in_range_def Let_def)
  then show ?thesis
    by (simp add: qualification_reasons_def r ps n sd_demo_metrics qualify_stream_def pairwise_reasons_def
        budget_reasons_def when_reason_def drift_exceeded_def positive_int_def sorted_names_def Let_def fsub_def)
      (simp add: sd_demo_defs)
qed

definition sd_demo_locked :: stamp_discipline where
  "sd_demo_locked = commit_lock 15000000 (11 * SECOND_NS) (sd_demo_state 11)"

lemma sd_demo_lock: "lock sd_demo_config True (11 * SECOND_NS) (sd_demo_state 11) = (Inr 15000000, sd_demo_locked)"
proof -
  have "sd_state (sd_demo_state 11) = QUALIFYING" "reference_stream sd_demo_config = ''imu''"
    by (simp_all add: sd_demo_state_def sd_demo_config_def default_config_def)
  then show ?thesis
    by (simp add: lock_def sd_demo_qualified sd_demo_metrics sd_demo_locked_def) (simp add: sd_demo_defs)
qed

lemma sd_demo_accept:
  "cr_accepted (fst (sd_observe sd_demo_config (sd_demo_sample 12) sd_demo_locked)) \<and>
   corrected_stamp_ns (fst (sd_observe sd_demo_config (sd_demo_sample 12) sd_demo_locked)) = Some 1012015000000"
  by (simp add: sd_observe_def entry_fault_def sd_demo_sample_def stream_names_def sd_demo_defs positive_int_def in_range_def
      sample_continuity_def record_sample_def put_stream_def sd_demo_state_def sd_demo_locked_def commit_lock_def delta_limit_def
      policy_of_def correct_sample_def run_breakers_def liveness_health_def receipt_liveness_snapshot_def
      receipt_liveness_def scheduled_statistics_health_def Let_def)

lemma sd_demo_final: "n \<le> 11 \<Longrightarrow> final (sd_step sd_demo_config) (map (Observe o sd_demo_sample o int) [1..<Suc n]) (sd_demo_state 0) = sd_demo_state n"
proof (induction n)
  case (Suc n)
  then show ?case using sd_demo_observe [of n] by (simp add: final_append)
qed simp

definition sd_demo_qualifying_run :: "sd_event list" where
  "sd_demo_qualifying_run = map (Observe o sd_demo_sample o int) [1..<Suc 11]"

lemma sd_demo_qualifying_final: "final (sd_step sd_demo_config) sd_demo_qualifying_run (sd_demo_state 0) = sd_demo_state 11"
  unfolding sd_demo_qualifying_run_def by (rule sd_demo_final) simp

lemma sd_demo_locked_final:
  "final (sd_step sd_demo_config) (sd_demo_qualifying_run @ [Lock True (11 * SECOND_NS)]) (sd_demo_state 0) = sd_demo_locked"
  by (simp add: final_append sd_demo_qualifying_final sd_demo_lock)

end
