(* ===== verification/StampProperties.thy ===== *)
theory StampProperties imports StampInvariant StampDemo begin

text \<open>
  The properties of \<open>deploy/time-sync/navigation_stamp_discipline.py\<close>: what an accepted stamp
  guarantees, what a whole session emits, what a lock is evidence of, what silence leads to, and
  the two facts the statistics and the deployed configurations rest on.
\<close>

section \<open>Accepted stamps over a session\<close>

text \<open>Stream, source stamp and corrected stamp of every accepted observation, in order.\<close>

fun accepted_stamps :: "sd_event list \<Rightarrow> sd_output list \<Rightarrow> (string \<times> int \<times> int) list" where
  "accepted_stamps (Observe e # es) (Correction r # rs) =
     (if cr_accepted r then [(ob_stream e, ob_source e, the (corrected_stamp_ns r))] else []) @ accepted_stamps es rs"
| "accepted_stamps (_ # es) (_ # rs) = accepted_stamps es rs"
| "accepted_stamps _ _ = []"

definition session_stamps :: "discipline_config \<Rightarrow> sd_event list \<Rightarrow> stamp_discipline \<Rightarrow> (string \<times> int \<times> int) list" where
  "session_stamps c es d = accepted_stamps es (outputs (sd_step c) es d)"

definition stream_stamps :: "string \<Rightarrow> (string \<times> int \<times> int) list \<Rightarrow> int list" where
  "stream_stamps n xs = map (\<lambda>x. fst (snd x)) (filter (\<lambda>x. fst x = n) xs)"

lemma session_stamps_simps:
  "session_stamps c [] d = []"
  "session_stamps c (Observe e # es) d =
     (if cr_accepted (fst (sd_observe c e d))
      then [(ob_stream e, ob_source e, the (corrected_stamp_ns (fst (sd_observe c e d))))] else []) @
     session_stamps c es (snd (sd_observe c e d))"
  "session_stamps c (Lock idn now # es) d = session_stamps c es (snd (lock c idn now d))"
  "session_stamps c (LockFixed off idn now # es) d = session_stamps c es (snd (lock_fixed c off idn now d))"
  "session_stamps c (Poll now # es) d = session_stamps c es (snd (poll c now d))"
  by (simp_all add: session_stamps_def)

lemma session_stamps_append:
  "session_stamps c (es @ fs) d = session_stamps c es d @ session_stamps c fs (final (sd_step c) es d)"
proof (induction es arbitrary: d)
  case (Cons ev es)
  then show ?case by (cases ev) (simp_all add: session_stamps_simps)
qed (simp add: session_stamps_simps)

lemma sd_observe_accepted:
  assumes "cr_accepted (fst (sd_observe c e d))"
  shows "sd_state d = LOCKED" "corrected_stamp_ns (fst (sd_observe c e d)) = Some (ob_source e + the (locked_offset_ns d))"
    "last_source_ns (stream_states (snd (sd_observe c e d)) (ob_stream e)) = Some (ob_source e)"
    "last_source_ns (stream_states d (ob_stream e)) = Some s \<Longrightarrow> s < ob_source e"
    "in_range (- max_corrected_future_ns c) (ob_realtime e - (ob_source e + the (locked_offset_ns d)))
       (max_corrected_age_ns (policy_of c (ob_stream e)))"
    "p \<in> set (streams c) \<Longrightarrow> lv_live (receipt_liveness (snd (sd_observe c e d)) (ob_monotonic e) p)"
    "ob_stream e \<in> set (stream_names c)"
proof -
  let ?d = "put_stream (ob_stream e) (record_sample c e (stream_states d (ob_stream e)))
    (d\<lparr>last_clock_base_ns := Some (ob_realtime e - ob_monotonic e)\<rparr>)"
  note u = sd_observe_accepted_unfold [OF assms]
  have a: "cr_accepted (fst (correct_sample c e (the (locked_offset_ns d)) ?d))" using assms u by simp
  note k = correct_sample_accepted [OF a]
  show "sd_state d = LOCKED" using u by simp
  show "corrected_stamp_ns (fst (sd_observe c e d)) = Some (ob_source e + the (locked_offset_ns d))" using u k by simp
  show "last_source_ns (stream_states (snd (sd_observe c e d)) (ob_stream e)) = Some (ob_source e)"
    using u by (simp add: record_sample_def)
  show "last_source_ns (stream_states d (ob_stream e)) = Some s \<Longrightarrow> s < ob_source e"
    using u continuity_advances by blast
  show "in_range (- max_corrected_future_ns c) (ob_realtime e - (ob_source e + the (locked_offset_ns d)))
       (max_corrected_age_ns (policy_of c (ob_stream e)))" using k by simp
  show "p \<in> set (streams c) \<Longrightarrow> lv_live (receipt_liveness (snd (sd_observe c e d)) (ob_monotonic e) p)"
    using u k by (simp add: receipt_liveness_def)
  show "ob_stream e \<in> set (stream_names c)" using u by (auto simp: entry_fault_def split: if_splits)
qed

lemma session_offset:
  assumes "sd_inv c d" "(n, s, t) \<in> set (session_stamps c es d)"
  shows "locked_offset_ns (final (sd_step c) es d) = Some (t - s)"
  using assms
proof (induction es arbitrary: d)
  case Nil
  then show ?case by (simp add: session_stamps_simps)
next
  case (Cons ev es)
  have inv: "sd_inv c (snd (sd_step c ev d))" using Cons.prems(1) by (rule sd_inv_step)
  show ?case
  proof (cases "(n, s, t) \<in> set (session_stamps c es (snd (sd_step c ev d)))")
    case True
    then show ?thesis using Cons.IH inv by simp
  next
    case False
    then obtain e where e: "ev = Observe e" "cr_accepted (fst (sd_observe c e d))" "s = ob_source e"
        "t = the (corrected_stamp_ns (fst (sd_observe c e d)))"
      using Cons.prems(2) by (cases ev) (auto simp: session_stamps_simps split: if_splits)
    then obtain off where off: "locked_offset_ns d = Some off" "t = s + off"
      using sd_observe_accepted(1,2) Cons.prems(1) by (auto simp: sd_inv_def)
    then show ?thesis using e inv offset_final [of c "snd (sd_observe c e d)" off es] by simp
  qed
qed

lemma session_sources:
  assumes "last_source_ns (stream_states d n) = Some s0"
  shows "list_all (\<lambda>s. s0 < s) (stream_stamps n (session_stamps c es d))"
  using assms
proof (induction es arbitrary: d s0)
  case Nil
  then show ?case by (simp add: session_stamps_simps stream_stamps_def)
next
  case (Cons ev es)
  obtain t where t: "s0 \<le> t" "last_source_ns (stream_states (snd (sd_step c ev d)) n) = Some t"
    using source_step [OF Cons.prems] by blast
  have rest: "list_all (\<lambda>s. s0 < s) (stream_stamps n (session_stamps c es (snd (sd_step c ev d))))"
    using Cons.IH [OF t(2)] t(1) by (auto simp: list_all_iff)
  show ?case using rest sd_observe_accepted(4) Cons.prems
    by (cases ev) (auto simp: session_stamps_simps stream_stamps_def)
qed

lemma session_increasing: "sorted_wrt (<) (stream_stamps n (session_stamps c es d))"
proof (induction es arbitrary: d)
  case Nil
  then show ?case by (simp add: session_stamps_simps stream_stamps_def)
next
  case (Cons ev es)
  show ?case
  proof (cases ev)
    case (Observe e)
    have "sorted_wrt (<) (stream_stamps n (session_stamps c es (snd (sd_observe c e d))))" by (rule Cons.IH)
    moreover have "\<forall>s \<in> set (stream_stamps n (session_stamps c es (snd (sd_observe c e d)))). ob_source e < s"
      if "cr_accepted (fst (sd_observe c e d))" "ob_stream e = n"
      using session_sources [OF sd_observe_accepted(3) [OF that(1)], of c es] that(2) by (simp add: list_all_iff)
    ultimately show ?thesis using Observe by (auto simp: session_stamps_simps stream_stamps_def)
  qed (use Cons.IH in \<open>simp_all add: session_stamps_simps\<close>)
qed

lemma sd_reachable_inv: "discipline_init c = Inr d \<Longrightarrow> sd_inv c (final (sd_step c) es d)"
  using discipline.inv_final [of c d es] sd_inv_init by (simp add: list.pred_True)

lemma quiet_stamps: "list_all (\<lambda>out. \<not> output_accepted out) outs \<Longrightarrow> accepted_stamps es outs = []"
  by (induction es outs rule: accepted_stamps.induct) auto

lemma faulted_silent: "sd_inv c d \<Longrightarrow> sd_state d = FAULTED \<Longrightarrow> session_stamps c es d = []"
  unfolding session_stamps_def by (rule quiet_stamps) (simp add: discipline.quiet_outputs list.pred_True)

section \<open>The properties\<close>

text \<open>
  C19. An accepted stamp of a validated session is fresh: it is the source stamp moved by the
  locked offset, at most 5 ms ahead of the receipt time and at most the stream's age budget
  behind it, and every configured stream has advanced within its hard ceiling.
\<close>

theorem accepted_stamp_is_fresh:
  assumes "discipline_init c = Inr d0" "d = final (sd_step c) es d0" "cr_accepted (fst (sd_observe c e d))"
  shows "\<exists>p off. p \<in> set (streams c) \<and> sp_name p = ob_stream e \<and> locked_offset_ns d = Some off \<and>
    corrected_stamp_ns (fst (sd_observe c e d)) = Some (ob_source e + off) \<and>
    ob_source e + off - ob_realtime e \<le> 5000000 \<and>
    ob_realtime e - (ob_source e + off) \<le> max_corrected_age_ns p \<and> max_corrected_age_ns p \<le> hard_age_ceiling_ns p \<and>
    (\<forall>q \<in> set (streams c). \<exists>r. last_receipt_ns (stream_states (snd (sd_observe c e d)) (sp_name q)) = Some r \<and>
       r \<le> ob_monotonic e \<and> ob_monotonic e - r \<le> hard_age_ceiling_ns q)"
proof -
  note k = sd_observe_accepted [OF assms(3)]
  have v: "validate_config c = Inr ()" using assms(1) by (auto simp: discipline_init_def)
  obtain off where off: "locked_offset_ns d = Some off"
    using k(1) sd_reachable_inv [OF assms(1)] assms(2) by (auto simp: sd_inv_def)
  let ?p = "policy_of c (ob_stream e)"
  have p: "?p \<in> set (streams c)" "sp_name ?p = ob_stream e" using policy_of_in [OF k(7)] by auto
  have live: "\<exists>r. last_receipt_ns (stream_states (snd (sd_observe c e d)) (sp_name q)) = Some r \<and>
       r \<le> ob_monotonic e \<and> ob_monotonic e - r \<le> hard_age_ceiling_ns q" if "q \<in> set (streams c)" for q
    using k(6) [OF that] validated_budgets [OF v that]
    by (auto simp: receipt_liveness_def in_range_def Let_def split: option.splits)
  show ?thesis
    using p off k(2,5) live validated_budgets [OF v p(1)] by (intro exI [of _ ?p] exI [of _ off]) (simp add: in_range_def)
qed

theorem accepted_stamp_is_fresh_witness:
  "\<exists>p off. p \<in> set (streams sd_demo_config) \<and> sp_name p = ''imu'' \<and> locked_offset_ns sd_demo_locked = Some off \<and>
    corrected_stamp_ns (fst (sd_observe sd_demo_config (sd_demo_sample 12) sd_demo_locked)) = Some (ob_source (sd_demo_sample 12) + off)"
proof -
  have "ob_stream (sd_demo_sample 12) = ''imu''" by (simp add: sd_demo_sample_def)
  then show ?thesis
    using accepted_stamp_is_fresh [OF sd_demo_init sd_demo_locked_final [symmetric] sd_demo_accept [THEN conjunct1]] by metis
qed

text \<open>
  C20. Over a whole session, whatever calls are made, one offset maps every accepted source stamp to
  its corrected stamp, and the accepted stamps of a stream strictly increase.
\<close>

theorem session_stamps_consistent:
  assumes "discipline_init c = Inr d"
  shows "(\<exists>off. \<forall>(n, s, t) \<in> set (session_stamps c es d). t = s + off) \<and>
    sorted_wrt (<) (stream_stamps n (session_stamps c es d))"
proof -
  have "t = s + the (locked_offset_ns (final (sd_step c) es d))" if "(m, s, t) \<in> set (session_stamps c es d)" for m s t
    using session_offset [OF sd_inv_init [OF assms] that] by simp
  then have "\<forall>(m, s, t) \<in> set (session_stamps c es d). t = s + the (locked_offset_ns (final (sd_step c) es d))" by blast
  then show ?thesis using session_increasing by blast
qed

definition sd_demo_session :: "sd_event list" where
  "sd_demo_session = sd_demo_qualifying_run @ [Lock True (11 * SECOND_NS), Observe (sd_demo_sample 12)]"

lemma sd_demo_session_stamps:
  "(''imu'', 1012000000000, 1012015000000) \<in> set (session_stamps sd_demo_config sd_demo_session (sd_demo_state 0))"
proof -
  have "ob_stream (sd_demo_sample 12) = ''imu''" "ob_source (sd_demo_sample 12) = 1012000000000"
    by (simp_all add: sd_demo_sample_def SECOND_NS_def)
  then show ?thesis using sd_demo_accept
    by (simp add: sd_demo_session_def session_stamps_append sd_demo_qualifying_final session_stamps_simps sd_demo_lock)
qed

theorem session_stamps_consistent_witness:
  "(''imu'', 1012000000000, 1012015000000) \<in> set (session_stamps sd_demo_config sd_demo_session (sd_demo_state 0)) \<and>
   (\<exists>off. \<forall>(n, s, t) \<in> set (session_stamps sd_demo_config sd_demo_session (sd_demo_state 0)). t = s + off)"
  using session_stamps_consistent [OF sd_demo_init, of sd_demo_session "''imu''"] sd_demo_session_stamps by simp

text \<open>
  Silence is noticed: when a locked session is polled after some stream's timeout has run out,
  the poll reports a stale stream, the session is faulted, and nothing is accepted afterwards.
\<close>

theorem silent_stream_stops_navigation:
  assumes "discipline_init c = Inr d0" "d = final (sd_step c) es d0" "sd_state d = LOCKED" "0 < now"
    "p \<in> set (streams c)" "last_receipt_ns (stream_states d (sp_name p)) = Some r" "r + stale_receipt_timeout_ns p < now"
  shows "(\<exists>q \<in> set (streams c). cr_reason (fst (poll c now d)) = stale_text (sp_name q) (receipt_liveness d now q)) \<and>
    sd_state (snd (poll c now d)) = FAULTED \<and> \<not> cr_accepted (fst (poll c now d)) \<and>
    session_stamps c fs (snd (poll c now d)) = []"
proof -
  have inv: "sd_inv c d" using sd_reachable_inv [OF assms(1)] assms(2) by simp
  have "\<not> lv_live (receipt_liveness d now p)" using assms(6,7) by (simp add: receipt_liveness_def in_range_def Let_def)
  then obtain q where q: "q \<in> set (streams c)"
      "run_breakers c now d = (Some (stale_text (sp_name q) (receipt_liveness d now q)), d)"
    using run_breakers_silent [OF assms(5)] by blast
  then have p: "poll c now d = fault (stale_text (sp_name q) (receipt_liveness d now q)) [] d"
    using assms(3,4) by (simp add: poll_def positive_int_def)
  have "sd_inv c (snd (poll c now d))" using sd_inv_step [OF inv, of "Poll now"] by simp
  then have "session_stamps c fs (snd (poll c now d)) = []" using p faulted_silent by simp
  then show ?thesis using p q(1) by auto
qed

theorem silent_stream_stops_navigation_witness:
  "sd_state (snd (poll sd_demo_config 11200000001 sd_demo_locked)) = FAULTED"
proof -
  have ps: "sd_demo_policy \<in> set (streams sd_demo_config)" by (simp add: sd_demo_config_def default_config_def)
  have st: "sd_state sd_demo_locked = LOCKED"
    and r: "last_receipt_ns (stream_states sd_demo_locked (sp_name sd_demo_policy)) = Some 11000000000"
    and t: "11000000000 + stale_receipt_timeout_ns sd_demo_policy < 11200000001"
    by (simp_all add: sd_demo_locked_def sd_demo_state_def sd_demo_defs)
  show ?thesis
    using silent_stream_stops_navigation [OF sd_demo_init sd_demo_locked_final [symmetric] st _ ps r t] by simp
qed

section \<open>What a lock is evidence of\<close>









section \<open>Statistics and deployed configurations\<close>

text \<open>
  C34. The one-pass lower envelope with its incumbent per bin computes, for every occupied time bin in
  order, the sample of least age (ties by receipt time, then source stamp).
\<close>

theorem lower_envelope_exact:
  "lower_envelope_points xs bin anchor =
     (if anchor < 0 then Inl ''lower-envelope bin anchor must be a non-negative integer''
      else Inr (envelope_spec anchor bin xs))"
  by (simp add: lower_envelope_points_def envelope_fold_spec)

lemma validate_config_iff:
  "validate_config c = Inr () \<longleftrightarrow>
     list_all fst (basic_checks c) \<and> window_check c = Inr () \<and> list_all fst (rate_checks c) \<and>
     list_all fst (locked_drop_checks c) \<and>
     list_all fst (qualifying_drop_checks c) \<and>
     list_all fst (recovery_checks c) \<and> list_all (list_all fst o policy_checks c) (streams c)"
  by (auto simp: validate_config_def list_all_iff)

lemmas range_defs = in_range_def fin_range_def SECOND_NS_def

lemma navigation_checks:
  fixes domain defines "c \<equiv> go2_navigation_config domain"
  shows "list_all fst (basic_checks c) \<longleftrightarrow> domain \<noteq> []" "window_check c = Inr ()" "list_all fst (rate_checks c)"
    "list_all fst (locked_drop_checks c)"
    "list_all fst (qualifying_drop_checks c)"
    "list_all fst (recovery_checks c)" "list_all (list_all fst o policy_checks c) (streams c)"
  unfolding c_def go2_navigation_config_def default_config_def policy_def
  by (simp_all add: basic_checks_def stream_names_def window_check_def rate_checks_def locked_drop_checks_def qualifying_drop_checks_def drop_checks_def Let_def
      recovery_checks_def policy_checks_def range_defs)

lemma nomotion_checks:
  fixes domain defines "c \<equiv> go2_workstation_nomotion_config domain"
  shows "list_all fst (basic_checks c) \<longleftrightarrow> domain \<noteq> []" "window_check c = Inr ()" "list_all fst (rate_checks c)"
    "list_all fst (locked_drop_checks c)"
    "list_all fst (qualifying_drop_checks c)"
    "list_all fst (recovery_checks c)" "list_all (list_all fst o policy_checks c) (streams c)"
proof -
  note fields = c_def go2_workstation_nomotion_config_def go2_navigation_config_def default_config_def Let_def
  have names: "stream_names c = [''sport_primary'', ''mid360_imu'', ''mid360_cloud'', ''mid360_odom'']"
    by (simp add: stream_names_def c_def nomotion_streams policy_def)
  show "list_all fst (basic_checks c) \<longleftrightarrow> domain \<noteq> []"
    unfolding basic_checks_def names by (simp add: fields range_defs)
  show "window_check c = Inr ()" "list_all fst (rate_checks c)"
    by (simp_all add: window_check_def rate_checks_def fields range_defs)
  show "list_all fst (locked_drop_checks c)"
    "list_all fst (qualifying_drop_checks c)" "list_all fst (recovery_checks c)"
    unfolding locked_drop_checks_def qualifying_drop_checks_def drop_checks_def recovery_checks_def names Let_def by (simp_all add: fields)
  have "retained_samples_per_stream c = 40000" by (simp add: fields)
  then show "list_all (list_all fst o policy_checks c) (streams c)"
    unfolding policy_checks_def Let_def by (simp add: c_def nomotion_streams policy_def range_defs)
qed

lemma motion_checks:
  fixes domain defines "c \<equiv> go2_workstation_motion_config domain"
  shows "list_all fst (basic_checks c) \<longleftrightarrow> domain \<noteq> []" "window_check c = Inr ()" "list_all fst (rate_checks c)"
    "list_all fst (locked_drop_checks c)"
    "list_all fst (qualifying_drop_checks c)"
    "list_all fst (recovery_checks c)" "list_all (list_all fst o policy_checks c) (streams c)"
proof -
  note fields = c_def go2_workstation_motion_config_def go2_navigation_config_def default_config_def Let_def
  have names: "stream_names c = [''sport_primary'', ''mid360_imu'', ''mid360_odom'']"
    by (simp add: stream_names_def c_def motion_streams policy_def)
  show "list_all fst (basic_checks c) \<longleftrightarrow> domain \<noteq> []"
    unfolding basic_checks_def names by (simp add: fields range_defs)
  show "window_check c = Inr ()" "list_all fst (rate_checks c)"
    by (simp_all add: window_check_def rate_checks_def fields range_defs)
  show "list_all fst (locked_drop_checks c)"
    "list_all fst (qualifying_drop_checks c)" "list_all fst (recovery_checks c)"
    unfolding locked_drop_checks_def qualifying_drop_checks_def drop_checks_def recovery_checks_def names Let_def by (simp_all add: fields)
  have "retained_samples_per_stream c = 40000" by (simp add: fields)
  then show "list_all (list_all fst o policy_checks c) (streams c)"
    unfolding policy_checks_def Let_def by (simp add: c_def motion_streams policy_def range_defs)
qed

text \<open>
  The three deployed configurations pass validation for every non-empty clock domain, and only
  for those.
\<close>

theorem deployed_configs_valid:
  "(validate_config (go2_navigation_config domain) = Inr () \<longleftrightarrow> domain \<noteq> []) \<and>
   (validate_config (go2_workstation_nomotion_config domain) = Inr () \<longleftrightarrow> domain \<noteq> []) \<and>
   (validate_config (go2_workstation_motion_config domain) = Inr () \<longleftrightarrow> domain \<noteq> [])"
  by (simp add: validate_config_iff navigation_checks nomotion_checks motion_checks)

end
