(* ===== verification/AffineState.thy ===== *)
theory AffineState imports StampInvariant begin

text \<open>
  \<open>deploy/time-sync/navigation_stamp_discipline.py\<close>, part 4: the state of
  \<open>AffineNavigationStampDiscipline\<close>, the discipline the workstation deploys, and its receipt
  recovery. The record extends the one of the base class, whose helpers it inherits. Fields hold
  values of their declared types.
\<close>

section \<open>Constants and exceptions\<close>

definition LOCKED_AFFINE_DRIFT_WINDOW_NS :: int where "LOCKED_AFFINE_DRIFT_WINDOW_NS = 60 * SECOND_NS"
definition APPROVED_AFFINE_ANCHOR_WINDOW_NS :: int where "APPROVED_AFFINE_ANCHOR_WINDOW_NS = SECOND_NS"
definition NONCORE_DROP :: string where "NONCORE_DROP = ''noncore_source_receipt_delta_discontinuity_dropped''"
definition LOCKED_STALE_DROP :: string where "LOCKED_STALE_DROP = ''locked_corrected_timestamp_stale_dropped''"
definition RECOVERY_PREFIX :: string where "RECOVERY_PREFIX = ''locked_receipt_recovery''"
definition RECOVERY_DELTA_DROP :: string where
  "RECOVERY_DELTA_DROP = ''locked_receipt_recovery_delta_discontinuity_dropped''"
definition RECOVERY_REQUIRED_SAMPLES :: int where "RECOVERY_REQUIRED_SAMPLES = 2"
definition QUALIFYING_DELTA_CEILING_NS :: int where "QUALIFYING_DELTA_CEILING_NS = 200000000"
definition QUALIFYING_PERIOD_CEILING_NS :: int where "QUALIFYING_PERIOD_CEILING_NS = 500000000"
definition INCOMPLETE_WINDOW :: string where "INCOMPLETE_WINDOW = ''locked_affine_common_window_incomplete:''"

datatype affine_exc = ValueErr string | RuntimeErr string | OverflowErr

text \<open>The two kinds of exception an affine correction raises.\<close>

definition raised :: "string + 'a \<Rightarrow> affine_exc + 'a" where
  "raised r = (case r of Inr x \<Rightarrow> Inr x
     | Inl msg \<Rightarrow> Inl (if msg = ''int too large to convert to float'' then OverflowErr else ValueErr msg))"

definition starts_with :: "string \<Rightarrow> string \<Rightarrow> bool" where
  "starts_with p s \<longleftrightarrow> take (length p) s = p"

section \<open>State\<close>

text \<open>The diagnostics of one core stream in the locked rate window; \<open>dt_gap\<close> is start, end and width.\<close>

record window_detail =
  dt_retained :: int
  dt_limit :: int
  dt_span :: int
  dt_evicted :: int
  dt_saturated :: bool
  dt_start :: int
  dt_end :: int
  dt_samples :: int
  dt_first :: "int option"
  dt_last :: "int option"
  dt_gap :: "(int \<times> int \<times> int) option"
  dt_points :: int
  dt_previous :: "pyfloat option"
  dt_current :: "pyfloat option"
  dt_covered :: "bool option"

record locked_report =
  lr_anchor :: int
  lr_start :: int
  lr_end :: int
  lr_locked :: "int option"
  lr_elapsed :: "int option"
  lr_lock_base :: "int option"
  lr_current_base :: "int option"
  lr_model_cores :: "(string \<times> pyfloat) list"
  lr_model_common :: pyfloat
  lr_previous_cores :: "(string \<times> pyfloat option) list"
  lr_previous_common :: "pyfloat option"
  lr_cores :: "(string \<times> pyfloat option) list"
  lr_common :: "pyfloat option"
  lr_deviation :: "pyfloat option"
  lr_limit :: pyfloat
  lr_streams :: "(string \<times> window_detail) list"

datatype drift_report =
    ApprovalReport pyfloat "(string \<times> pyfloat) list" pyfloat pyfloat pyfloat
  | AnchorReport "(string \<times> pyfloat) list" pyfloat int int
  | LockedHealth locked_report

record affine_discipline = stamp_discipline +
  af_start :: "int option"
  observed_continuity :: "string \<Rightarrow> (int \<times> int) option"
  continuity_is_last_good :: "string \<Rightarrow> bool"
  locked_affine_model :: "affine_clock_model option"
  locked_corrected_ages :: "(string \<rightharpoonup> int list) option"
  drift_diagnostics :: "drift_report option"
  affine_lock_monotonic :: "int option"
  affine_lock_clock_base :: "int option"
  recovery_active :: bool
  recovery_count :: int
  recovery_samples :: "string \<Rightarrow> int"
  pre_gap_receipt :: "string \<Rightarrow> int option"
  gap_waivers :: "string \<rightharpoonup> int \<times> int \<times> int"

text \<open>What the constructor is given.\<close>

record affine_setup =
  as_config :: discipline_config
  core_streams :: "string list"
  qualification_start :: "int option"
  allow_recovery :: bool

definition affine_names :: "affine_setup \<Rightarrow> string list" where
  "affine_names S = stream_names (as_config S)"

definition core_checks :: "affine_setup \<Rightarrow> (bool \<times> string) list" where
  "core_checks S =
     (let c = as_config S; cores = core_streams S;
          listed = \<lambda>msg bad. msg @ join_comma (sorted_names bad) in
      [(2 \<le> length cores \<and> distinct cores, ''at least two unique affine core streams are required''),
       (set cores \<subseteq> set (stream_names c),
          listed ''unknown affine core streams: '' (filter (\<lambda>n. n \<notin> set (stream_names c)) cores)),
       (reference_stream c \<in> set cores, ''affine core streams must include the reference stream''),
       (set (affine_locked_noncore_delta_drop_streams c) \<inter> set cores = {},
          listed ''affine core streams cannot be delta-drop enabled: ''
            (filter (\<lambda>n. n \<in> set cores) (affine_locked_noncore_delta_drop_streams c))),
       (set (affine_qualifying_noncore_delta_drop_streams c) \<inter> set cores = {},
          listed ''affine core streams cannot be qualifying delta-drop enabled: ''
            (filter (\<lambda>n. n \<in> set cores) (affine_qualifying_noncore_delta_drop_streams c))),
       (set (affine_locked_core_delta_recovery_streams c) \<subseteq> set cores,
          listed ''only affine core streams can use delta recovery: ''
            (filter (\<lambda>n. n \<notin> set cores) (affine_locked_core_delta_recovery_streams c))),
       (case qualification_start S of None \<Rightarrow> True | Some s \<Rightarrow> positive_int s,
          ''affine qualification start must be a positive integer'')])"

definition affine_init :: "affine_setup \<Rightarrow> config_exc + affine_discipline" where
  "affine_init S = obind (discipline_init (as_config S)) (\<lambda>base.
     obind (check_all (core_checks S)) (\<lambda>_.
       Inr (stamp_discipline.extend base
         (affine_discipline.fields (qualification_start S) (\<lambda>_. None) (\<lambda>_. False) None None None None None
            False 0 (\<lambda>_. 0) (\<lambda>_. None) (\<lambda>_. None)))))"

section \<open>Sampling\<close>

text \<open>What \<open>_observed_continuity\<close> records of an observation, and whether the sample was kept.\<close>

definition note_continuity :: "observation \<Rightarrow> bool \<Rightarrow> affine_discipline \<Rightarrow> affine_discipline" where
  "note_continuity e kept d = d
     \<lparr>observed_continuity := (observed_continuity d)(ob_stream e := Some (ob_source e, ob_monotonic e)),
      continuity_is_last_good := (continuity_is_last_good d)(ob_stream e := kept)\<rparr>"

definition take_sample :: "affine_setup \<Rightarrow> observation \<Rightarrow> affine_discipline \<Rightarrow> affine_discipline" where
  "take_sample S e d = note_continuity e True
     (put_stream (ob_stream e) (record_sample (as_config S) e (stream_states d (ob_stream e))) d)"

definition restart_qualification ::
  "affine_setup \<Rightarrow> observation \<Rightarrow> (string \<times> int) list \<Rightarrow> affine_discipline \<Rightarrow> correction_result \<times> affine_discipline" where
  "restart_qualification S e diag d =
     ((refuse (''affine_qualification_restarted_after_delivery_pause:'' @ ob_stream e) (sd_state d))\<lparr>diagnostics := diag\<rparr>,
      take_sample S e (d\<lparr>stream_states := (\<lambda>_. stream_init), observed_continuity := (\<lambda>_. None),
        continuity_is_last_good := (\<lambda>_. False), af_start := None, last_statistics_ns := None,
        drift_diagnostics := None\<rparr>))"

section \<open>Receipt recovery of a locked session\<close>

definition recovery_result :: "string \<Rightarrow> (string \<times> int) list \<Rightarrow> affine_discipline \<Rightarrow> correction_result" where
  "recovery_result reason diag d = (refuse (RECOVERY_PREFIX @ '':'' @ reason) (sd_state d))\<lparr>diagnostics := diag\<rparr>"

text \<open>\<open>_record_gap_waiver\<close> of one stream: an outage gap is kept unless a wider one is on record.\<close>

definition merge_waiver :: "int \<Rightarrow> int \<Rightarrow> int \<Rightarrow> (int \<times> int \<times> int) option \<Rightarrow> (int \<times> int \<times> int) option" where
  "merge_waiver timeout left right previous =
     (if right - left \<le> timeout then previous
      else case previous of None \<Rightarrow> Some (left, right, right - left)
        | Some (l, r, g) \<Rightarrow> if g < right - left then Some (left, right, right - left) else previous)"

definition timeout_of :: "discipline_config \<Rightarrow> string \<Rightarrow> int" where
  "timeout_of c name = stale_receipt_timeout_ns (policy_of c name)"

text \<open>The last two receipts of a stream, when more than its timeout lies between them.\<close>

definition last_outage :: "discipline_config \<Rightarrow> affine_discipline \<Rightarrow> string \<Rightarrow> (int \<times> int) option" where
  "last_outage c d name =
     (case rev (ss_samples (stream_states d name)) of
        right # left # _ \<Rightarrow> if timeout_of c name < sample_receipt right - sample_receipt left
                           then Some (sample_receipt left, sample_receipt right) else None
      | _ \<Rightarrow> None)"

definition begin_recovery :: "discipline_config \<Rightarrow> affine_discipline \<Rightarrow> affine_discipline" where
  "begin_recovery c d = d
     \<lparr>recovery_active := True, recovery_count := recovery_count d + 1,
      recovery_samples := (\<lambda>n. if last_outage c d n = None then 0 else 1),
      pre_gap_receipt := (\<lambda>n. case last_outage c d n of None \<Rightarrow> last_receipt_ns (stream_states d n) | Some (l, r) \<Rightarrow> Some r),
      gap_waivers := (\<lambda>n. case last_outage c d n of None \<Rightarrow> gap_waivers d n
                         | Some (l, r) \<Rightarrow> merge_waiver (timeout_of c n) l r (gap_waivers d n))\<rparr>"

definition recoverable :: "string \<Rightarrow> bool" where
  "recoverable reason \<longleftrightarrow> starts_with ''stream_stale:'' reason \<or>
     starts_with ''corrected_timestamp_transient_stale:'' reason \<or>
     starts_with (RECOVERY_DELTA_DROP @ '':'') reason \<or> starts_with INCOMPLETE_WINDOW reason"

definition enter_recovery ::
  "affine_setup \<Rightarrow> string \<Rightarrow> (string \<times> int) list \<Rightarrow> affine_discipline \<Rightarrow> correction_result \<times> affine_discipline" where
  "enter_recovery S reason diag d =
     (if \<not> allow_recovery S \<or> sd_state d \<noteq> LOCKED \<or> \<not> recoverable reason then fault reason [] d
      else (recovery_result reason diag d, if recovery_active d then d else begin_recovery (as_config S) d))"

definition record_recovery_sample :: "affine_setup \<Rightarrow> string \<Rightarrow> int \<Rightarrow> affine_discipline \<Rightarrow> affine_discipline" where
  "record_recovery_sample S name receipt d =
     (if \<not> recovery_active d \<or> RECOVERY_REQUIRED_SAMPLES \<le> recovery_samples d name then d
      else let d' = (if recovery_samples d name = 0
                     then (case pre_gap_receipt d name of None \<Rightarrow> d
                           | Some p \<Rightarrow> d\<lparr>gap_waivers := (gap_waivers d)(name :=
                               merge_waiver (timeout_of (as_config S) name) p receipt (gap_waivers d name))\<rparr>)
                     else d)
           in d'\<lparr>recovery_samples := (recovery_samples d)(name := recovery_samples d name + 1)\<rparr>)"

text \<open>
  \<open>_scheduled_statistics_health\<close> with the \<open>_statistical_health\<close> it dispatches to. The base class is
  the instance whose check leaves the object alone.
\<close>

definition scheduled_health ::
  "discipline_config \<Rightarrow> ('a stamp_discipline_scheme \<Rightarrow> string option \<times> 'a stamp_discipline_scheme) \<Rightarrow> int \<Rightarrow>
    'a stamp_discipline_scheme \<Rightarrow> string option \<times> 'a stamp_discipline_scheme" where
  "scheduled_health c check now d =
     (if (case last_statistics_ns d of Some p \<Rightarrow> now < p | None \<Rightarrow> False) then (Some ''statistics_monotonic_regression'', d)
      else if \<not> locked_statistics_enabled c then (None, d)
      else if (case last_statistics_ns d of Some p \<Rightarrow> now - p < statistics_evaluation_period_ns c | None \<Rightarrow> False)
      then (None, d)
      else check (d\<lparr>last_statistics_ns := Some now\<rparr>))"

lemma scheduled_health_base:
  "scheduled_statistics_health c now d = scheduled_health c (\<lambda>d. (statistical_health c d, d)) now d"
  by (simp add: scheduled_statistics_health_def scheduled_health_def Let_def split: option.split)

section \<open>Diagnostic snapshots\<close>

definition affine_diagnostic_stamp :: "affine_discipline \<Rightarrow> int \<Rightarrow> (affine_exc + int) option" where
  "affine_diagnostic_stamp d source =
     map_option (\<lambda>m. raised (affine_corrected_stamp_ns m source)) (locked_affine_model d)"

text \<open>One entry of \<open>corrected_age_snapshot\<close>, with the affine floor on the age.\<close>

definition affine_age_report :: "discipline_config \<Rightarrow> affine_discipline \<Rightarrow> stream_policy \<Rightarrow> affine_exc + age_report" where
  "affine_age_report c d p =
     (let xs = ss_samples (stream_states d (sp_name p));
          empty = \<lparr>ar_source = None, ar_realtime = None, ar_age = None, ar_limit = max_corrected_age_ns p, ar_within = False\<rparr> in
      if xs = [] then Inr empty
      else let source = sample_source (last xs); realtime = source + sample_age (last xs);
               report = empty\<lparr>ar_source := Some source, ar_realtime := Some realtime\<rparr> in
        case affine_diagnostic_stamp d source of None \<Rightarrow> Inr report
        | Some r \<Rightarrow> obind r (\<lambda>stamp. let age = realtime - stamp in
            Inr (report\<lparr>ar_age := Some age,
              ar_within := in_range (- max_corrected_future_ns c) age (max_corrected_age_ns p) \<and>
                (case minimum_locked_corrected_age_ns c of None \<Rightarrow> True | Some m \<Rightarrow> m \<le> age)\<rparr>)))"

definition affine_age_snapshot :: "affine_setup \<Rightarrow> affine_discipline \<Rightarrow> affine_exc + (string \<times> age_report) list" where
  "affine_age_snapshot S d =
     all_ok (\<lambda>p. obind (affine_age_report (as_config S) d p) (\<lambda>r. Inr (sp_name p, r))) (streams (as_config S))"

end
