(* ===== verification/AffineStatistics.thy ===== *)
theory AffineStatistics imports AffineState begin

text \<open>
  \<open>deploy/time-sync/navigation_stamp_discipline.py\<close>, part 5: the rate evidence of
  \<open>AffineNavigationStampDiscipline\<close>. Envelopes are binned from the start of the qualification, a
  positive receipt time or 0, so \<open>_lower_envelope_points\<close> never refuses its anchor.
\<close>

section \<open>Envelopes and gaps\<close>

definition anchor_of :: "affine_discipline \<Rightarrow> int" where
  "anchor_of d = (case af_start d of Some s \<Rightarrow> s | None \<Rightarrow> 0)"

definition envelope :: "discipline_config \<Rightarrow> int \<Rightarrow> stamp_sample list \<Rightarrow> stamp_sample list" where
  "envelope c anchor xs = (case lower_envelope_points xs (drift_bin_ns c) anchor of Inr ps \<Rightarrow> ps | Inl _ \<Rightarrow> [])"

definition stream_samples :: "'a stamp_discipline_scheme \<Rightarrow> string \<Rightarrow> stamp_sample list" where
  "stream_samples d n = ss_samples (stream_states d n)"

record affine_metrics =
  am_points :: int
  am_drift :: "pyfloat option"

definition affine_metrics_for ::
  "discipline_config \<Rightarrow> affine_discipline \<Rightarrow> (string \<Rightarrow> stamp_sample list) \<Rightarrow> string \<Rightarrow> affine_metrics" where
  "affine_metrics_for c d samples n =
     (let points = envelope c (anchor_of d) (samples n) in
      \<lparr>am_points = int (length points), am_drift = theil_sen_age_drift_ppm points\<rparr>)"

text \<open>The median of the core rates, when every core stream has one.\<close>

definition common_drift :: "(string \<times> pyfloat option) list \<Rightarrow> pyfloat option" where
  "common_drift drifts =
     (let finite = List.map_filter snd drifts in if length finite = length drifts then Some (float_median finite) else None)"

definition receipt_gaps :: "stamp_sample list \<Rightarrow> (int \<times> int \<times> int) list" where
  "receipt_gaps xs = map (\<lambda>(l, r). (sample_receipt l, sample_receipt r, sample_receipt r - sample_receipt l)) (zip xs (tl xs))"

text \<open>\<open>max\<close> with a key: the first of the widest gaps.\<close>

definition widest_gap :: "stamp_sample list \<Rightarrow> (int \<times> int \<times> int) option" where
  "widest_gap xs =
     (case receipt_gaps xs of [] \<Rightarrow> None
      | g # gs \<Rightarrow> Some (fold (\<lambda>h best. if snd (snd best) < snd (snd h) then h else best) gs g))"

definition within_receipts :: "int \<Rightarrow> int \<Rightarrow> bool \<Rightarrow> stamp_sample \<Rightarrow> bool" where
  "within_receipts start stop inclusive s \<longleftrightarrow>
     start \<le> sample_receipt s \<and> (if inclusive then sample_receipt s \<le> stop else sample_receipt s < stop)"

section \<open>Evidence of one interval\<close>

record interval_evidence =
  iv_start :: int
  iv_end :: int
  iv_inclusive :: bool
  iv_drifts :: "(string \<times> pyfloat option) list"
  iv_points :: "(string \<times> int) list"
  iv_first :: "(string \<times> int option) list"
  iv_last :: "(string \<times> int option) list"
  iv_gap :: "(string \<times> int option) list"
  iv_common :: "pyfloat option"

definition first_offset :: "int \<Rightarrow> stamp_sample list \<Rightarrow> int option" where
  "first_offset start xs = (if xs = [] then None else Some (sample_receipt (hd xs) - start))"

definition last_offset :: "int \<Rightarrow> stamp_sample list \<Rightarrow> int option" where
  "last_offset stop xs = (if xs = [] then None else Some (stop - sample_receipt (last xs)))"

definition max_gap :: "stamp_sample list \<Rightarrow> int option" where
  "max_gap xs = (case map (snd \<circ> snd) (receipt_gaps xs) of [] \<Rightarrow> None | g # gs \<Rightarrow> Some (fold max gs g))"

definition drift_interval_evidence ::
  "affine_setup \<Rightarrow> affine_discipline \<Rightarrow> int \<Rightarrow> int \<Rightarrow> bool \<Rightarrow> interval_evidence" where
  "drift_interval_evidence S d start stop inclusive =
     (let samples = (\<lambda>n. filter (within_receipts start stop inclusive) (stream_samples d n));
          metrics = affine_metrics_for (as_config S) d samples;
          per_core = (\<lambda>f. map (\<lambda>n. (n, f n)) (core_streams S)) in
      \<lparr>iv_start = start, iv_end = stop, iv_inclusive = inclusive,
       iv_drifts = map (\<lambda>n. (n, am_drift (metrics n))) (core_streams S),
       iv_points = map (\<lambda>n. (n, am_points (metrics n))) (core_streams S),
       iv_first = per_core (\<lambda>n. first_offset start (samples n)),
       iv_last = per_core (\<lambda>n. last_offset stop (samples n)),
       iv_gap = per_core (\<lambda>n. max_gap (samples n)),
       iv_common = common_drift (map (\<lambda>n. (n, am_drift (metrics n))) (core_streams S))\<rparr>)"

definition affine_qualification_evidence ::
  "affine_setup \<Rightarrow> affine_discipline \<Rightarrow> (interval_evidence \<times> interval_evidence \<times> interval_evidence) option" where
  "affine_qualification_evidence S d =
     (case (affine_qualification_window_ns (as_config S), af_start d) of
        (Some w, Some s) \<Rightarrow> Some (drift_interval_evidence S d s (s + w) False,
           drift_interval_evidence S d (s + w) (s + w + w) True, drift_interval_evidence S d s (s + w + w) True)
      | _ \<Rightarrow> None)"

definition model_samples :: "affine_setup \<Rightarrow> affine_discipline \<Rightarrow> string \<Rightarrow> stamp_sample list" where
  "model_samples S d n =
     (case affine_qualification_evidence S d of None \<Rightarrow> stream_samples d n
      | Some (_, _, both) \<Rightarrow>
          filter (within_receipts (iv_start both) (iv_end both) (iv_inclusive both)) (stream_samples d n))"

section \<open>The locked rate window\<close>

definition locked_window :: "affine_setup \<Rightarrow> affine_discipline \<Rightarrow> int \<times> int" where
  "locked_window S d =
     (let stop = Min (set (map (\<lambda>n. sample_receipt (last (stream_samples d n))) (core_streams S)));
          start = (case af_start d of None \<Rightarrow> stop | Some s \<Rightarrow> s) in
      (max start (stop - LOCKED_AFFINE_DRIFT_WINDOW_NS), stop))"

definition window_samples :: "affine_setup \<Rightarrow> affine_discipline \<Rightarrow> string \<Rightarrow> stamp_sample list" where
  "window_samples S d n =
     (let (start, stop) = locked_window S d in filter (within_receipts start stop True) (stream_samples d n))"

definition window_detail_of ::
  "affine_setup \<Rightarrow> affine_discipline \<Rightarrow> (string \<times> pyfloat option) list \<Rightarrow> string \<Rightarrow> window_detail" where
  "window_detail_of S d previous n =
     (let (start, stop) = locked_window S d; all = stream_samples d n; xs = window_samples S d n;
          limit = retained_samples_per_stream (as_config S);
          evicted = max 0 (advancing (stream_states d n) - int (length all));
          metrics = affine_metrics_for (as_config S) d (window_samples S d) n in
      \<lparr>dt_retained = int (length all), dt_limit = limit,
       dt_span = (if length all < 2 then 0 else sample_receipt (last all) - sample_receipt (hd all)),
       dt_evicted = evicted, dt_saturated = (limit \<le> int (length all) \<or> 0 < evicted),
       dt_start = start, dt_end = stop, dt_samples = int (length xs),
       dt_first = first_offset start xs, dt_last = last_offset stop xs, dt_gap = widest_gap xs,
       dt_points = am_points metrics, dt_previous = Option.bind (map_of previous n) id,
       dt_current = am_drift metrics, dt_covered = None\<rparr>)"

text \<open>
  Does a core stream cover the window? A recorded outage that left the window is dropped; one that is
  still inside excuses exactly its own gap, or the uncovered start of the window it straddles.
\<close>

definition window_coverage ::
  "discipline_config \<Rightarrow> int \<Rightarrow> (string \<rightharpoonup> int \<times> int \<times> int) \<Rightarrow> string \<Rightarrow> window_detail \<Rightarrow>
    bool \<times> bool \<times> (string \<rightharpoonup> int \<times> int \<times> int)" where
  "window_coverage c required waivers n dt =
     (let limit = timeout_of c n; start = dt_start dt;
          expired = (case waivers n of Some (_, right, _) \<Rightarrow> right < start | None \<Rightarrow> False);
          waivers' = (if expired then waivers(n := None) else waivers);
          gap_ok = (case dt_gap dt of None \<Rightarrow> False
                    | Some (l, r, g) \<Rightarrow> g \<le> limit \<or> waivers' n = Some (l, r, g));
          straddles = (case (waivers' n, dt_first dt) of
                         (Some (l, r, _), Some f) \<Rightarrow> l < start \<and> start \<le> r \<and> start + f = r | _ \<Rightarrow> False);
          first_ok = (case dt_first dt of None \<Rightarrow> False | Some f \<Rightarrow> f \<le> limit \<or> straddles);
          last_ok = (case dt_last dt of None \<Rightarrow> False | Some l \<Rightarrow> l \<le> limit) in
      (4 \<le> dt_samples dt \<and> required \<le> dt_points dt \<and> first_ok \<and> last_ok \<and> gap_ok, straddles, waivers'))"

text \<open>The loop over the core streams, up to the first one that is not covered.\<close>

fun check_coverage ::
  "discipline_config \<Rightarrow> int \<Rightarrow> (string \<rightharpoonup> int \<times> int \<times> int) \<Rightarrow> (string \<times> window_detail) list \<Rightarrow>
    string option \<times> (string \<rightharpoonup> int \<times> int \<times> int) \<times> (string \<times> window_detail) list" where
  "check_coverage c required waivers [] = (None, waivers, [])"
| "check_coverage c required waivers ((n, dt) # rest) =
     (case window_coverage c required waivers n dt of (ok, straddles, waivers') \<Rightarrow>
        let dt' = dt\<lparr>dt_covered := Some straddles\<rparr> in
        if \<not> ok then (Some (INCOMPLETE_WINDOW @ n), waivers', (n, dt') # rest)
        else case check_coverage c required waivers' rest of (r, w, ds) \<Rightarrow> (r, w, (n, dt') # ds))"

section \<open>The health of a locked session\<close>

definition duplicate_fraction_of :: "stream_state \<Rightarrow> pyfloat" where
  "duplicate_fraction_of ss =
     (let total = advancing ss + duplicates ss in if total \<noteq> 0 then true_div (duplicates ss) total else Fin 0)"

definition presence_health :: "affine_discipline \<Rightarrow> stream_policy \<Rightarrow> string option" where
  "presence_health d p =
     (if stream_samples d (sp_name p) = [] then Some (''stream_lost:'' @ sp_name p)
      else if fless (max_duplicate_fraction p) (duplicate_fraction_of (stream_states d (sp_name p)))
      then Some (''duplicate_fraction_exceeded:'' @ sp_name p) else None)"

definition rate_health :: "discipline_config \<Rightarrow> string \<times> pyfloat option \<Rightarrow> string option" where
  "rate_health c nd =
     (case snd nd of None \<Rightarrow> Some (''clock_drift_exceeded:'' @ fst nd)
      | Some drift \<Rightarrow> if drift_exceeded c drift then Some (''clock_drift_exceeded:'' @ fst nd) else None)"

definition cached_ages :: "affine_discipline \<Rightarrow> string \<Rightarrow> int list option" where
  "cached_ages d n = Option.bind (locked_corrected_ages d) (\<lambda>m. m n)"

definition current_lower :: "discipline_config \<Rightarrow> affine_discipline \<Rightarrow> string \<Rightarrow> int" where
  "current_lower c d n = the (quantile (the (cached_ages d n)) (lower_quantile c))"

definition baseline_of :: "affine_clock_model \<Rightarrow> string \<Rightarrow> int" where
  "baseline_of m n = the (map_of (stream_baseline_corrected_age_ns m) n)"

definition residual_health :: "discipline_config \<Rightarrow> affine_clock_model \<Rightarrow> affine_discipline \<Rightarrow> string \<Rightarrow> string option" where
  "residual_health c m d n =
     (case cached_ages d n of None \<Rightarrow> Some ''affine_corrected_age_cache_missing_after_lock''
      | Some ages \<Rightarrow>
        if length ages \<noteq> length (stream_samples d n) then Some (''affine_corrected_age_cache_misaligned:'' @ n)
        else if max_locked_offset_deviation_ns c < \<bar>current_lower c d n - baseline_of m n\<bar>
        then Some (''affine_model_residual_exceeded:'' @ n) else None)"

definition lag_health :: "discipline_config \<Rightarrow> affine_clock_model \<Rightarrow> affine_discipline \<Rightarrow> stream_policy \<Rightarrow> string option" where
  "lag_health c m d p =
     (let n = sp_name p;
          baseline = baseline_of m n - baseline_of m (reference_stream c);
          current = current_lower c d n - current_lower c d (reference_stream c) in
      if max_locked_offset_deviation_ns c < \<bar>current - baseline\<bar> then Some (''stream_relative_lag_changed:'' @ n)
      else if current < - max_relative_lead_ns c then Some (''stream_leads_reference:'' @ n)
      else if max_relative_lag_ns p < current then Some (''stream_lag_exceeded:'' @ n)
      else None)"

definition previous_rates :: "affine_clock_model \<Rightarrow> drift_report option \<Rightarrow> (string \<times> pyfloat option) list \<times> pyfloat option" where
  "previous_rates m report =
     (case report of Some (LockedHealth r) \<Rightarrow> (lr_cores r, lr_common r)
      | _ \<Rightarrow> (map (map_prod id Some) (core_stream_drifts_ppm m), Some (am_drift_ppm m)))"

definition locked_report_of ::
  "affine_setup \<Rightarrow> affine_clock_model \<Rightarrow> affine_discipline \<Rightarrow> (string \<times> pyfloat option) list \<Rightarrow> locked_report" where
  "locked_report_of S m d rates =
     (let (start, stop) = locked_window S d; (previous, previous_common) = previous_rates m (drift_diagnostics d) in
      \<lparr>lr_anchor = anchor_of d, lr_start = start, lr_end = stop, lr_locked = affine_lock_monotonic d,
       lr_elapsed = map_option (\<lambda>l. max 0 (stop - l)) (affine_lock_monotonic d),
       lr_lock_base = affine_lock_clock_base d, lr_current_base = last_clock_base_ns d,
       lr_model_cores = core_stream_drifts_ppm m, lr_model_common = am_drift_ppm m,
       lr_previous_cores = previous, lr_previous_common = previous_common,
       lr_cores = rates, lr_common = common_drift rates,
       lr_deviation = map_option (\<lambda>x. fabs (fsub x (am_drift_ppm m))) (common_drift rates),
       lr_limit = max_locked_affine_drift_deviation_ppm (as_config S),
       lr_streams = map (\<lambda>n. (n, window_detail_of S d previous n)) (core_streams S)\<rparr>)"

text \<open>The checks after coverage: absolute and common rate, pairwise rate, residuals, relative lags.\<close>

definition model_health ::
  "affine_setup \<Rightarrow> affine_clock_model \<Rightarrow> affine_discipline \<Rightarrow> (string \<times> pyfloat option) list \<Rightarrow> string option" where
  "model_health S m d rates =
     (let c = as_config S in
      case first_reason (rate_health c) rates of Some r \<Rightarrow> Some r
      | None \<Rightarrow>
        if fless (max_locked_affine_drift_deviation_ppm c) (fabs (fsub (the (common_drift rates)) (am_drift_ppm m)))
        then Some ''affine_model_drift_deviation_exceeded''
        else case pairwise_drift_disagreements (map (map_prod id the) rates) (max_pairwise_drift_ppm c) of
          n # _ \<Rightarrow> Some (''pairwise_drift_disagreement:'' @ n)
        | [] \<Rightarrow>
          (case first_reason (residual_health c m d) (affine_names S) of Some r \<Rightarrow> Some r
           | None \<Rightarrow> first_reason (lag_health c m d) (streams c)))"

definition affine_statistical_health :: "affine_setup \<Rightarrow> affine_discipline \<Rightarrow> string option \<times> affine_discipline" where
  "affine_statistical_health S d =
     (let c = as_config S in
      case locked_affine_model d of None \<Rightarrow> (Some ''affine_model_missing_after_lock'', d)
      | Some m \<Rightarrow>
        (case first_reason (presence_health d) (streams c) of Some r \<Rightarrow> (Some r, d)
         | None \<Rightarrow>
           let rates = map (\<lambda>n. (n, am_drift (affine_metrics_for c d (window_samples S d) n))) (core_streams S);
               report = locked_report_of S m d rates;
               required = max 4 ((lr_end report - lr_start report) div drift_bin_ns c) in
           case check_coverage c required (gap_waivers d) (lr_streams report) of (reason, waivers, details) \<Rightarrow>
             let d' = d\<lparr>drift_diagnostics := Some (LockedHealth (report\<lparr>lr_streams := details\<rparr>)), gap_waivers := waivers\<rparr> in
             (case reason of Some r \<Rightarrow> (Some r, d') | None \<Rightarrow> (model_health S m d' rates, d'))))"

abbreviation affine_scheduled :: "affine_setup \<Rightarrow> int \<Rightarrow> affine_discipline \<Rightarrow> string option \<times> affine_discipline" where
  "affine_scheduled S now d \<equiv> scheduled_health (as_config S) (affine_statistical_health S) now d"

text \<open>\<open>_locked_receipt_recovery_health\<close>: a result keeps the session paused (or faults it), none resumes it.\<close>

definition recovery_health ::
  "affine_setup \<Rightarrow> int \<Rightarrow> affine_discipline \<Rightarrow> correction_result option \<times> affine_discipline" where
  "recovery_health S now d =
     (let c = as_config S;
          pending = sort (filter (\<lambda>n. recovery_samples d n < RECOVERY_REQUIRED_SAMPLES) (affine_names S)) in
      case liveness_health c d now of Some r \<Rightarrow> (Some (recovery_result r [] d), d)
      | None \<Rightarrow>
        if pending \<noteq> [] then (Some (recovery_result (''awaiting_fresh_streams:'' @ join_comma pending) [] d), d)
        else if \<not> locked_statistics_enabled c then (None, d\<lparr>recovery_active := False\<rparr>)
        else case affine_scheduled S now d of (reason, d') \<Rightarrow>
          if last_statistics_ns d' = last_statistics_ns d
          then (Some (recovery_result ''awaiting_locked_statistics'' [] d'), d')
          else case reason of None \<Rightarrow> (None, d'\<lparr>recovery_active := False\<rparr>)
            | Some r \<Rightarrow> if starts_with INCOMPLETE_WINDOW r then (Some (recovery_result r [] d'), d')
                        else map_prod Some id (fault r [] d'))"

text \<open>The checks before a non-core callback is discarded.\<close>

definition noncore_drop_health :: "affine_setup \<Rightarrow> string \<Rightarrow> int \<Rightarrow> affine_discipline \<Rightarrow> string option \<times> affine_discipline" where
  "noncore_drop_health S n now d =
     (if locked_affine_model d = None then (Some ''affine_model_missing_after_lock'', d)
      else case cached_ages d n of None \<Rightarrow> (Some ''affine_corrected_age_cache_missing_after_lock'', d)
      | Some ages \<Rightarrow>
        if length ages \<noteq> length (stream_samples d n) then (Some (''affine_corrected_age_cache_misaligned:'' @ n), d)
        else case liveness_health (as_config S) d now of Some r \<Rightarrow> (Some r, d) | None \<Rightarrow> affine_scheduled S now d)"

end
