(* ===== verification/AffineQualification.thy ===== *)
theory AffineQualification imports AffineStatistics begin

text \<open>
  \<open>deploy/time-sync/navigation_stamp_discipline.py\<close>, part 6: how an
  \<open>AffineNavigationStampDiscipline\<close> qualifies its streams, fits the common affine model and freezes
  it: from the live samples, from one immutable snapshot, or from an independently approved rate.
\<close>

section \<open>The reasons of the two qualification paths\<close>

text \<open>
  The code has two copies of these checks: in \<open>qualification_reasons\<close>, over the live samples, and in
  the terminal evaluation, over a snapshot. The checks of one stream are here as the two copies are,
  first the live one. The later ones (rates, windows, candidate) are the same text in both copies and
  one definition here.
\<close>

definition qualify_basic ::
  "discipline_config \<Rightarrow> int \<Rightarrow> int option \<Rightarrow> stream_metrics \<Rightarrow> stream_metrics option \<Rightarrow> stream_policy \<Rightarrow> string list" where
  "qualify_basic c now last_receipt reference metrics p =
     (let name = sp_name p in
      case metrics of None \<Rightarrow> [''missing_stream:'' @ name]
      | Some sm \<Rightarrow>
         when_reason (int (sm_samples sm) < min_samples p) (''insufficient_samples:'' @ name) @
         when_reason (span_ns sm < minimum_qualification_span_ns c) (''insufficient_span:'' @ name) @
         when_reason (case last_receipt of None \<Rightarrow> True | Some r \<Rightarrow> \<not> in_range 0 (now - r) (stale_receipt_timeout_ns p))
           (''stream_not_live:'' @ name) @
         when_reason (fless (max_duplicate_fraction p) (duplicate_fraction sm)) (''excessive_duplicates:'' @ name) @
         (let lag = lower_age_ns sm - lower_age_ns reference in
          when_reason (lag < - max_relative_lead_ns c) (''stream_leads_reference:'' @ name) @
          when_reason (max_relative_lag_ns p < lag) (''stream_lag_exceeded:'' @ name)))"

definition snapshot_basic ::
  "discipline_config \<Rightarrow> int \<Rightarrow> int option \<Rightarrow> stream_metrics option \<Rightarrow> stream_metrics option \<Rightarrow> stream_policy \<Rightarrow> string list" where
  "snapshot_basic c evaluation last_receipt reference metrics p =
     (let name = sp_name p in
      case metrics of None \<Rightarrow> [''missing_stream:'' @ name]
      | Some sm \<Rightarrow>
         (let receipt_age = map_option (\<lambda>r. evaluation - r) last_receipt in
         when_reason (int (sm_samples sm) < min_samples p) (''insufficient_samples:'' @ name) @
         when_reason (span_ns sm < minimum_qualification_span_ns c) (''insufficient_span:'' @ name) @
         when_reason (case receipt_age of None \<Rightarrow> True | Some a \<Rightarrow> a < 0 \<or> stale_receipt_timeout_ns p < a)
           (''stream_not_live:'' @ name) @
         when_reason (fless (max_duplicate_fraction p) (duplicate_fraction sm)) (''excessive_duplicates:'' @ name) @
         (case reference of None \<Rightarrow> []
          | Some ref \<Rightarrow> (let lag = lower_age_ns sm - lower_age_ns ref in
             when_reason (lag < - max_relative_lead_ns c) (''stream_leads_reference:'' @ name) @
             when_reason (max_relative_lag_ns p < lag) (''stream_lag_exceeded:'' @ name)))))"

definition available_drifts :: "(string \<times> pyfloat option) list \<Rightarrow> (string \<times> pyfloat) list" where
  "available_drifts drifts = List.map_filter (\<lambda>(n, dr). map_option (Pair n) dr) drifts"

definition core_rate_reasons :: "discipline_config \<Rightarrow> (string \<times> pyfloat option) list \<Rightarrow> string list" where
  "core_rate_reasons c drifts =
     concat (map (\<lambda>(n, dr). case dr of None \<Rightarrow> [''insufficient_affine_drift_bins:'' @ n]
        | Some x \<Rightarrow> when_reason (drift_exceeded c x) (''clock_drift_exceeded:'' @ n)) drifts) @
     (if length (available_drifts drifts) = length drifts
      then map (\<lambda>n. ''pairwise_drift_disagreement:'' @ n)
             (pairwise_drift_disagreements (available_drifts drifts) (max_pairwise_drift_ppm c))
      else [])"

text \<open>Does one core stream cover one of the two windows?\<close>

definition window_incomplete :: "discipline_config \<Rightarrow> int \<Rightarrow> interval_evidence \<Rightarrow> string \<Rightarrow> pyfloat option \<Rightarrow> bool" where
  "window_incomplete c required ev n drift =
     (let over = (\<lambda>v. case v of None \<Rightarrow> True | Some x \<Rightarrow> timeout_of c n < x) in
      the (map_of (iv_points ev) n) < required \<or> drift = None \<or>
      over (the (map_of (iv_first ev) n)) \<or> over (the (map_of (iv_last ev) n)) \<or> over (the (map_of (iv_gap ev) n)))"

definition window_reasons :: "discipline_config \<Rightarrow> int \<Rightarrow> string \<Rightarrow> interval_evidence \<Rightarrow> string list" where
  "window_reasons c required label ev =
     (let complete = filter (\<lambda>(n, dr). \<not> window_incomplete c required ev n dr) (iv_drifts ev) in
      concat (map (\<lambda>(n, dr).
        if window_incomplete c required ev n dr then [''insufficient_affine_window:'' @ label @ '':'' @ n]
        else when_reason (drift_exceeded c (the dr)) (''affine_window_clock_drift_exceeded:'' @ label @ '':'' @ n)) (iv_drifts ev)) @
      (if affine_enforce_subwindow_pairwise_drift c \<and> length complete = length (iv_drifts ev)
       then map (\<lambda>n. ''affine_window_pairwise_drift_disagreement:'' @ label @ '':'' @ n)
              (pairwise_drift_disagreements (map (map_prod id the) complete) (max_pairwise_drift_ppm c))
       else []))"

definition windows_reasons :: "discipline_config \<Rightarrow> int \<Rightarrow> interval_evidence \<Rightarrow> interval_evidence \<Rightarrow> string list" where
  "windows_reasons c w early late =
     (let required = w div drift_bin_ns c in
      window_reasons c required ''first'' early @ window_reasons c required ''second'' late @
      when_reason (affine_enforce_subwindow_common_drift c \<and>
          (case (iv_common early, iv_common late) of
             (Some a, Some b) \<Rightarrow> fless (max_affine_window_common_drift_deviation_ppm c) (fabs (fsub a b)) | _ \<Rightarrow> False))
        ''affine_window_common_drift_deviation_exceeded'')"

definition candidate_reasons :: "discipline_config \<Rightarrow> string \<Rightarrow> int list \<Rightarrow> string list" where
  "candidate_reasons c n ages =
     (let low = the (quantile ages (lower_quantile c)); high = the (quantile ages (fl (19 / 20))) in
      (if low < - max_corrected_future_ns c then [''candidate_would_be_future:'' @ n]
       else when_reason (case minimum_locked_corrected_age_ns c of None \<Rightarrow> False | Some m \<Rightarrow> low < m)
              (''candidate_locked_corrected_age_below_minimum:'' @ n)) @
      when_reason (max_corrected_age_ns (policy_of c n) < high) (''candidate_would_be_stale:'' @ n))"

section \<open>Fitting the model\<close>

definition round_float :: "pyfloat \<Rightarrow> affine_exc + int" where
  "round_float x = (case x of Fin q \<Rightarrow> Inr (round_half_even q)
     | NaN \<Rightarrow> Inl (ValueErr ''cannot convert float NaN to integer'') | _ \<Rightarrow> Inl OverflowErr)"

definition float_int :: "int \<Rightarrow> affine_exc + pyfloat" where
  "float_int k = (case float_of_int k of Some x \<Rightarrow> Inr x | None \<Rightarrow> Inl OverflowErr)"

text \<open>The age a reference sample would have at the anchor.\<close>

definition anchor_age :: "int \<Rightarrow> pyfloat \<Rightarrow> stamp_sample \<Rightarrow> affine_exc + pyfloat" where
  "anchor_age anchor slope s =
     obind (float_int (sample_source s - anchor)) (\<lambda>delta.
     obind (float_int (sample_age s)) (\<lambda>age. Inr (fsub age (fmul delta slope))))"

definition model_at :: "discipline_config \<Rightarrow> int \<Rightarrow> int \<Rightarrow> pyfloat \<Rightarrow> pyfloat \<Rightarrow> (string \<times> pyfloat) list \<Rightarrow> affine_clock_model" where
  "model_at c anchor predicted drift scale drifts =
     \<lparr>anchor_source_ns = anchor, anchor_local_ns = anchor + predicted - affine_anchor_past_guard_ns c,
      am_drift_ppm = drift, am_scale = scale, core_stream_drifts_ppm = drifts,
      stream_baseline_corrected_age_ns = []\<rparr>"

definition fit_model ::
  "discipline_config \<Rightarrow> (string \<times> pyfloat) list \<Rightarrow> stamp_sample list \<Rightarrow> affine_exc + affine_clock_model option" where
  "fit_model c drifts points =
     (let common = float_median (map snd drifts) in
      obind (raised (source_to_local_scale common)) (\<lambda>scale.
      if points = [] then Inr None
      else let anchor = Max (set (map sample_source points)) in
        obind (all_ok (anchor_age anchor (fsub scale (Fin 1))) points) (\<lambda>ages.
        obind (round_float (float_median ages)) (\<lambda>predicted. Inr (Some (model_at c anchor predicted common scale drifts))))))"

definition corrected_age :: "affine_clock_model \<Rightarrow> stamp_sample \<Rightarrow> affine_exc + int" where
  "corrected_age m s = obind (raised (offset_at_source_ns m (sample_source s))) (\<lambda>off. Inr (sample_age s - off))"

fun provisional_baselines ::
  "discipline_config \<Rightarrow> affine_clock_model \<Rightarrow> (string \<Rightarrow> stamp_sample list) \<Rightarrow> string list \<Rightarrow> affine_exc + (string \<times> int) list option" where
  "provisional_baselines c m samples [] = Inr (Some [])"
| "provisional_baselines c m samples (n # ns) =
     obind (all_ok (corrected_age m) (samples n)) (\<lambda>ages.
     if ages = [] then Inr None
     else obind (provisional_baselines c m samples ns) (\<lambda>rest.
       Inr (map_option (\<lambda>bs. (n, the (quantile ages (lower_quantile c))) # bs) rest)))"

definition provisional_model :: "affine_setup \<Rightarrow> affine_discipline \<Rightarrow> affine_exc + affine_clock_model option" where
  "provisional_model S d =
     (let c = as_config S; points = (\<lambda>n. envelope c (anchor_of d) (model_samples S d n));
          drifts = map (\<lambda>n. (n, theil_sen_age_drift_ppm (points n))) (core_streams S) in
      if list_ex (\<lambda>(n, dr). dr = None) drifts then Inr None
      else obind (fit_model c (map (map_prod id the) drifts) (points (reference_stream c))) (\<lambda>fit.
        case fit of None \<Rightarrow> Inr None
        | Some m \<Rightarrow> obind (provisional_baselines c m (model_samples S d) (affine_names S)) (\<lambda>bs.
            Inr (map_option (\<lambda>b. m\<lparr>stream_baseline_corrected_age_ns := b\<rparr>) bs))))"

definition affine_qualification_reasons :: "affine_setup \<Rightarrow> affine_discipline \<Rightarrow> int \<Rightarrow> affine_exc + string list" where
  "affine_qualification_reasons S d now =
     (let c = as_config S in
      if \<not> positive_int now then Inr [''invalid_qualification_time'']
      else case metrics_of c d (reference_stream c) of None \<Rightarrow> Inr [''missing_reference_stream'']
      | Some reference \<Rightarrow>
        let basic = concat (map (\<lambda>p. qualify_basic c now (last_receipt_ns (stream_states d (sp_name p))) reference
                      (metrics_of c d (sp_name p)) p) (streams c));
            rates = core_rate_reasons c (map (\<lambda>n. (n, am_drift (affine_metrics_for c d (model_samples S d) n))) (core_streams S));
            duration = (case affine_qualification_window_ns c of None \<Rightarrow> []
              | Some w \<Rightarrow> (case af_start d of None \<Rightarrow> [''missing_affine_qualification_start'']
                 | Some s \<Rightarrow> when_reason (now < s + 2 * w) ''insufficient_affine_two_window_duration''));
            windows = (case (affine_qualification_window_ns c, affine_qualification_evidence S d) of
                (Some w, Some (early, late, _)) \<Rightarrow> windows_reasons c w early late | _ \<Rightarrow> []) in
        obind (provisional_model S d) (\<lambda>candidate.
        obind (case candidate of None \<Rightarrow> Inr []
               | Some m \<Rightarrow> all_ok (\<lambda>n. obind (all_ok (corrected_age m) (model_samples S d n)) (\<lambda>ages.
                   Inr (candidate_reasons c n ages))) (affine_names S)) (\<lambda>fits.
        Inr (sorted_names (basic @ rates @ duration @ windows @ concat fits)))))"

section \<open>The terminal snapshot\<close>

record stream_snapshot =
  ssn_name :: string
  ssn_samples :: "stamp_sample list"
  ssn_last_receipt :: "int option"
  ssn_advancing :: int
  ssn_duplicates :: int

record qualification_snapshot =
  qs_start :: int
  qs_end :: int
  qs_evaluation :: int
  qs_streams :: "stream_snapshot list"

record qualification_evaluation =
  ev_snapshot :: qualification_snapshot
  ev_reasons :: "string list"
  ev_intervals :: "interval_evidence \<times> interval_evidence \<times> interval_evidence"
  ev_model :: "affine_clock_model option"
  ev_windows :: "(string \<times> int list) list"

definition qualification_deadline :: "affine_setup \<Rightarrow> affine_discipline \<Rightarrow> int option" where
  "qualification_deadline S d =
     (case (af_start d, affine_qualification_window_ns (as_config S)) of (Some s, Some w) \<Rightarrow> Some (s + 2 * w) | _ \<Rightarrow> None)"

definition anchor_deadline :: "affine_discipline \<Rightarrow> int option" where
  "anchor_deadline d = map_option (\<lambda>s. s + APPROVED_AFFINE_ANCHOR_WINDOW_NS) (af_start d)"

definition stream_snapshot_of :: "affine_discipline \<Rightarrow> string \<Rightarrow> stream_snapshot" where
  "stream_snapshot_of d n = (let ss = stream_states d n in
     \<lparr>ssn_name = n, ssn_samples = ss_samples ss, ssn_last_receipt = last_receipt_ns ss,
      ssn_advancing = advancing ss, ssn_duplicates = duplicates ss\<rparr>)"

definition capture_snapshot :: "affine_setup \<Rightarrow> affine_discipline \<Rightarrow> int \<Rightarrow> affine_exc + qualification_snapshot" where
  "capture_snapshot S d now =
     (if \<not> positive_int now then Inl (ValueErr ''invalid affine qualification snapshot time'')
      else case (af_start d, qualification_deadline S d) of
          (Some s, Some stop) \<Rightarrow>
            if now < stop then Inl (RuntimeErr ''fixed affine qualification window is incomplete'')
            else Inr \<lparr>qs_start = s, qs_end = stop, qs_evaluation = now,
                      qs_streams = map (stream_snapshot_of d) (affine_names S)\<rparr>
        | _ \<Rightarrow> Inl (RuntimeErr ''fixed affine qualification window is not initialized''))"

definition require_current :: "affine_setup \<Rightarrow> qualification_snapshot \<Rightarrow> affine_discipline \<Rightarrow> affine_exc + unit" where
  "require_current S snap d =
     raise_unless (Some (qs_start snap) = af_start d \<and> Some (qs_end snap) = qualification_deadline S d \<and>
         qs_end snap \<le> qs_evaluation snap \<and> map ssn_name (qs_streams snap) = affine_names S)
       (ValueErr ''affine qualification snapshot does not match runtime'')"

definition snapshot_of :: "qualification_snapshot \<Rightarrow> string \<Rightarrow> stream_snapshot" where
  "snapshot_of snap n = the (find (\<lambda>s. ssn_name s = n) (qs_streams snap))"

text \<open>Has the stream moved on since the snapshot?\<close>

definition stream_changed :: "qualification_snapshot \<Rightarrow> affine_discipline \<Rightarrow> string \<Rightarrow> bool" where
  "stream_changed snap d n =
     (let s = snapshot_of snap n; ss = stream_states d n in
      length (ss_samples ss) \<noteq> length (ssn_samples s) \<or>
      last_source_ns ss \<noteq> (if ssn_samples s = [] then None else Some (sample_source (last (ssn_samples s)))) \<or>
      last_receipt_ns ss \<noteq> ssn_last_receipt s \<or> advancing ss \<noteq> ssn_advancing s \<or> duplicates ss \<noteq> ssn_duplicates s)"

section \<open>The single terminal evaluation\<close>

text \<open>The partition of the samples: one pass splits them into the two windows and their union.\<close>

fun partition_windows ::
  "int \<Rightarrow> int \<Rightarrow> int \<Rightarrow> stamp_sample list \<Rightarrow> stamp_sample list \<times> stamp_sample list \<times> stamp_sample list" where
  "partition_windows start split stop [] = ([], [], [])"
| "partition_windows start split stop (s # ss) =
     (case partition_windows start split stop ss of (early, late, both) \<Rightarrow>
        if sample_receipt s < start \<or> stop < sample_receipt s then (early, late, both)
        else if sample_receipt s < split then (s # early, late, s # both)
        else (early, s # late, s # both))"

definition snapshot_interval ::
  "affine_setup \<Rightarrow> int \<Rightarrow> int \<Rightarrow> bool \<Rightarrow> (string \<Rightarrow> stamp_sample list) \<Rightarrow> (string \<Rightarrow> stamp_sample list) \<Rightarrow> interval_evidence" where
  "snapshot_interval S start stop inclusive samples points =
     (let cores = core_streams S; drifts = map (\<lambda>n. (n, theil_sen_age_drift_ppm (points n))) cores in
      \<lparr>iv_start = start, iv_end = stop, iv_inclusive = inclusive, iv_drifts = drifts,
       iv_points = map (\<lambda>n. (n, int (length (points n)))) cores,
       iv_first = map (\<lambda>n. (n, first_offset start (samples n))) cores,
       iv_last = map (\<lambda>n. (n, last_offset stop (samples n))) cores,
       iv_gap = map (\<lambda>n. (n, max_gap (samples n))) cores, iv_common = common_drift drifts\<rparr>)"

definition snapshot_metrics :: "discipline_config \<Rightarrow> stream_snapshot \<Rightarrow> stamp_sample list \<Rightarrow> stream_metrics option" where
  "snapshot_metrics c s xs =
     (if xs = [] then None
      else let ages = map sample_age xs; total = ssn_advancing s + ssn_duplicates s in
        Some \<lparr>sm_samples = length xs, span_ns = max 0 (sample_receipt (last xs) - sample_receipt (hd xs)),
              lower_age_ns = the (quantile ages (lower_quantile c)), median_age_ns = the (quantile ages (fl (1 / 2))),
              p95_age_ns = the (quantile ages (fl (19 / 20))), sm_drift_ppm = None,
              duplicate_fraction = (if total \<noteq> 0 then true_div (ssn_duplicates s) total else Fin 0)\<rparr>)"

text \<open>
  The loop that checks the candidate on every stream: reasons, baselines over the window, corrected
  ages of all retained samples. It stops at the first stream with no sample in the window.
\<close>

fun candidate_streams ::
  "discipline_config \<Rightarrow> affine_clock_model \<Rightarrow> int \<Rightarrow> int \<Rightarrow> (string \<Rightarrow> stamp_sample list) \<Rightarrow> string list \<Rightarrow>
    affine_exc + string list \<times> (string \<times> int) list \<times> (string \<times> int list) list" where
  "candidate_streams c m start stop raw [] = Inr ([], [], [])"
| "candidate_streams c m start stop raw (n # ns) =
     obind (all_ok (corrected_age m) (raw n)) (\<lambda>ages.
     let qualified = map snd (filter (\<lambda>(s, a). within_receipts start stop True s) (zip (raw n) ages)) in
     if qualified = [] then Inr ([], [], [])
     else obind (candidate_streams c m start stop raw ns) (\<lambda>(reasons, baselines, windows).
       Inr (candidate_reasons c n qualified @ reasons,
            (n, the (quantile qualified (lower_quantile c))) # baselines, (n, ages) # windows)))"

definition evaluate_snapshot ::
  "affine_setup \<Rightarrow> qualification_snapshot \<Rightarrow> affine_discipline \<Rightarrow> affine_exc + qualification_evaluation" where
  "evaluate_snapshot S snap d =
     obind (require_current S snap d) (\<lambda>_.
     let c = as_config S; start = qs_start snap; stop = qs_end snap; w = the (affine_qualification_window_ns c);
         raw = (\<lambda>n. ssn_samples (snapshot_of snap n));
         early = (\<lambda>n. fst (partition_windows start (start + w) stop (raw n)));
         late = (\<lambda>n. fst (snd (partition_windows start (start + w) stop (raw n))));
         both = (\<lambda>n. snd (snd (partition_windows start (start + w) stop (raw n))));
         first_ev = snapshot_interval S start (start + w) False early (\<lambda>n. envelope c start (early n));
         second_ev = snapshot_interval S (start + w) stop True late (\<lambda>n. envelope c start (late n));
         whole_ev = snapshot_interval S start stop True both (\<lambda>n. envelope c start (both n));
         metrics = (\<lambda>n. snapshot_metrics c (snapshot_of snap n) (both n));
         reference = metrics (reference_stream c);
         reasons = when_reason (reference = None) ''missing_reference_stream'' @
           concat (map (\<lambda>p. snapshot_basic c (qs_evaluation snap) (ssn_last_receipt (snapshot_of snap (sp_name p))) reference
             (metrics (sp_name p)) p) (streams c)) @
           core_rate_reasons c (iv_drifts whole_ev) @ windows_reasons c w first_ev second_ev;
         result = (\<lambda>more model windows. Inr \<lparr>ev_snapshot = snap, ev_reasons = sorted_names (reasons @ more),
           ev_intervals = (first_ev, second_ev, whole_ev), ev_model = model, ev_windows = windows\<rparr>);
         drifts = available_drifts (iv_drifts whole_ev) in
     if length drifts \<noteq> length (core_streams S) then result [] None []
     else obind (fit_model c drifts (envelope c start (both (reference_stream c)))) (\<lambda>fit.
       case fit of None \<Rightarrow> result [] None []
       | Some m \<Rightarrow> obind (candidate_streams c m start stop raw (affine_names S)) (\<lambda>(more, baselines, windows).
           if length baselines = length (affine_names S)
           then result more (Some (m\<lparr>stream_baseline_corrected_age_ns := baselines\<rparr>)) windows
           else result more None [])))"

end
