(* ===== verification/AffineLock.thy ===== *)
theory AffineLock imports AffineQualification begin

text \<open>
  \<open>deploy/time-sync/navigation_stamp_discipline.py\<close>, part 7: the decisions that end the
  qualification of an \<open>AffineNavigationStampDiscipline\<close>: the gate before a cached result is
  committed, the rejection, and the two locks. A raised exception leaves the state that is returned
  with it.
\<close>

section \<open>The commit gate\<close>

record gate_report =
  gr_evaluation :: int
  gr_realtime :: int
  gr_monotonic :: int
  gr_elapsed :: "int option"
  gr_span :: int
  gr_span_limit :: int
  gr_previous_base :: "int option"
  gr_base :: "int option"
  gr_delta :: "int option"
  gr_limit :: int
  gr_liveness :: "(string \<times> liveness) list"

definition gate_liveness :: "affine_setup \<Rightarrow> affine_discipline \<Rightarrow> int \<Rightarrow> (string \<times> liveness) list" where
  "gate_liveness S d now =
     (if positive_int now then receipt_liveness_snapshot (as_config S) d now
      else map (\<lambda>p. (sp_name p, \<lparr>lv_last = last_receipt_ns (stream_states d (sp_name p)), lv_age = None,
              lv_limit = stale_receipt_timeout_ns p, lv_live = False\<rparr>)) (streams (as_config S)))"

definition post_evaluation_gate ::
  "affine_setup \<Rightarrow> qualification_evaluation \<Rightarrow> int \<Rightarrow> int \<Rightarrow> int \<Rightarrow> affine_discipline \<Rightarrow>
    (affine_exc + string list \<times> gate_report) \<times> affine_discipline" where
  "post_evaluation_gate S ev realtime monotonic read_span d =
     (case require_current S (ev_snapshot ev) d of Inl ex \<Rightarrow> (Inl ex, d)
      | Inr _ \<Rightarrow>
        let c = as_config S; evaluated = qs_evaluation (ev_snapshot ev);
            clocks = positive_int realtime \<and> positive_int monotonic;
            base = (if clocks then Some (realtime - monotonic) else None);
            delta = (case (base, last_clock_base_ns d) of (Some b, Some p) \<Rightarrow> Some \<bar>b - p\<bar> | _ \<Rightarrow> None);
            live = gate_liveness S d monotonic;
            reasons = sorted_names (
              when_reason (\<not> clocks) ''post_evaluation_clock_invalid'' @
              when_reason (\<not> in_range 0 read_span (max_clock_read_span_ns c)) ''post_evaluation_clock_read_span_exceeded'' @
              when_reason (positive_int monotonic \<and> monotonic < evaluated) ''post_evaluation_monotonic_regression'' @
              (if last_clock_base_ns d = None then [''post_evaluation_clock_reference_missing'']
               else when_reason (case delta of None \<Rightarrow> False | Some x \<Rightarrow> max_clock_pair_discontinuity_ns c < x)
                 ''post_evaluation_realtime_discontinuity'') @
              map (\<lambda>n. ''post_evaluation_live_state_changed:'' @ n)
                (filter (stream_changed (ev_snapshot ev) d) (affine_names S)) @
              map (\<lambda>(n, lv). stale_text n lv) (filter (\<lambda>(n, lv). \<not> lv_live lv) live)) in
        (Inr (reasons, \<lparr>gr_evaluation = evaluated, gr_realtime = realtime, gr_monotonic = monotonic,
            gr_elapsed = (if positive_int monotonic then Some (monotonic - evaluated) else None), gr_span = read_span,
            gr_span_limit = max_clock_read_span_ns c, gr_previous_base = last_clock_base_ns d, gr_base = base,
            gr_delta = delta, gr_limit = max_clock_pair_discontinuity_ns c, gr_liveness = live\<rparr>),
         if reasons = [] then d\<lparr>last_clock_base_ns := base\<rparr> else d))"

definition reject_qualification ::
  "affine_setup \<Rightarrow> qualification_evaluation \<Rightarrow> affine_discipline \<Rightarrow> (affine_exc + string) \<times> affine_discipline" where
  "reject_qualification S ev d =
     (let failed = ''affine_qualification_terminal_failed'' in
      case require_current S (ev_snapshot ev) d of Inl ex \<Rightarrow> (Inl ex, d)
      | Inr _ \<Rightarrow>
        if sd_state d = LOCKED then (Inl (RuntimeErr ''cannot reject an already locked affine model''), d)
        else if sd_state d = FAULTED
        then (Inr (case sd_fault_reason d of Some r \<Rightarrow> if r \<noteq> [] then r else failed | None \<Rightarrow> failed), d)
        else (Inr failed, d\<lparr>sd_state := FAULTED, sd_fault_reason := Some failed\<rparr>))"

section \<open>Terminal diagnostics\<close>

record core_payload =
  cp_points :: int
  cp_first :: "int option"
  cp_last :: "int option"
  cp_gap :: "int option"
  cp_drift :: "pyfloat option"

record interval_payload =
  ip_start :: int
  ip_end :: int
  ip_inclusive :: bool
  ip_common :: "pyfloat option"
  ip_cores :: "(string \<times> core_payload) list"

record fault_payload =
  fp_phase :: string
  fp_evaluation :: int
  fp_start :: int
  fp_end :: int
  fp_reasons :: "string list"
  fp_windows :: "(string \<times> interval_payload) list"

definition interval_payload_of :: "affine_setup \<Rightarrow> interval_evidence \<Rightarrow> interval_payload" where
  "interval_payload_of S ev = \<lparr>ip_start = iv_start ev, ip_end = iv_end ev, ip_inclusive = iv_inclusive ev,
     ip_common = iv_common ev,
     ip_cores = map (\<lambda>n. (n, \<lparr>cp_points = the (map_of (iv_points ev) n), cp_first = the (map_of (iv_first ev) n),
       cp_last = the (map_of (iv_last ev) n), cp_gap = the (map_of (iv_gap ev) n),
       cp_drift = the (map_of (iv_drifts ev) n)\<rparr>)) (core_streams S)\<rparr>"

definition fault_diagnostics ::
  "affine_setup \<Rightarrow> qualification_evaluation \<Rightarrow> string \<Rightarrow> string list option \<Rightarrow> affine_discipline \<Rightarrow> affine_exc + fault_payload" where
  "fault_diagnostics S ev phase reasons d =
     obind (require_current S (ev_snapshot ev) d) (\<lambda>_.
       case ev_intervals ev of (early, late, both) \<Rightarrow>
       Inr \<lparr>fp_phase = phase, fp_evaluation = qs_evaluation (ev_snapshot ev), fp_start = qs_start (ev_snapshot ev),
            fp_end = qs_end (ev_snapshot ev), fp_reasons = (case reasons of None \<Rightarrow> ev_reasons ev | Some rs \<Rightarrow> rs),
            fp_windows = [(''first'', interval_payload_of S early), (''second'', interval_payload_of S late),
                          (''complete'', interval_payload_of S both)]\<rparr>)"

section \<open>Freezing a model\<close>

text \<open>\<open>deque(values, maxlen=limit)\<close>\<close>

definition deque_of :: "int \<Rightarrow> 'a list \<Rightarrow> 'a list" where
  "deque_of limit xs = drop (length xs - nat limit) xs"

definition age_windows ::
  "affine_setup \<Rightarrow> (string \<Rightarrow> affine_exc + int list) \<Rightarrow> affine_exc + (string \<rightharpoonup> int list)" where
  "age_windows S values =
     obind (all_ok (\<lambda>n. obind (values n) (\<lambda>v. Inr (n, deque_of (retained_samples_per_stream (as_config S)) v))) (affine_names S))
       (\<lambda>ws. Inr (map_of ws))"

definition commit_affine :: "affine_clock_model \<Rightarrow> (string \<rightharpoonup> int list) \<Rightarrow> int \<Rightarrow> affine_discipline \<Rightarrow> affine_discipline" where
  "commit_affine m windows now d = d
     \<lparr>locked_affine_model := Some m, locked_corrected_ages := Some windows, affine_lock_monotonic := Some now,
      affine_lock_clock_base := last_clock_base_ns d, sd_state := LOCKED, last_statistics_ns := Some now\<rparr>"

definition lock_faulted :: "affine_discipline \<Rightarrow> affine_exc" where
  "lock_faulted d = RuntimeErr (cr_reason (faulted_result d))"

definition invalid_drift :: "discipline_config \<Rightarrow> pyfloat \<Rightarrow> bool" where
  "invalid_drift c drift \<longleftrightarrow> \<not> isfinite drift \<or> drift_exceeded c drift"

section \<open>\<open>lock_affine\<close>\<close>

text \<open>Reasons, candidate and cached corrected ages, from the live samples or from an evaluation.\<close>

definition lock_candidate ::
  "affine_setup \<Rightarrow> int \<Rightarrow> qualification_evaluation option \<Rightarrow> affine_discipline \<Rightarrow>
    affine_exc + string list \<times> affine_clock_model option \<times> (string \<times> int list) list option" where
  "lock_candidate S now evaluation d =
     (case evaluation of
        None \<Rightarrow> obind (affine_qualification_reasons S d now) (\<lambda>rs. obind (provisional_model S d) (\<lambda>m. Inr (rs, m, None)))
      | Some ev \<Rightarrow>
        let snap = ev_snapshot ev; windows = ev_windows ev in
        obind (require_current S snap d) (\<lambda>_.
        obind (raise_unless (positive_int now \<and> qs_evaluation snap \<le> now)
          (RuntimeErr ''affine commit time precedes qualification evaluation'')) (\<lambda>_.
        obind (raise_unless (\<not> list_ex (stream_changed snap d) (affine_names S))
          (RuntimeErr ''affine live samples changed after terminal snapshot'')) (\<lambda>_.
        obind (raise_unless (set (map fst windows) = set (affine_names S) \<and>
            list_all (\<lambda>n. length (the (map_of windows n)) = length (ssn_samples (snapshot_of snap n))) (affine_names S))
          (RuntimeErr ''affine qualification corrected-age cache is incomplete'')) (\<lambda>_.
        Inr (ev_reasons ev, ev_model ev, Some windows))))))"

definition approve_drift ::
  "affine_setup \<Rightarrow> affine_clock_model \<Rightarrow> pyfloat option \<Rightarrow> affine_discipline \<Rightarrow> (affine_exc + unit) \<times> affine_discipline" where
  "approve_drift S m approved d =
     (let c = as_config S; limit = max_approved_affine_drift_deviation_ppm c in
      case approved of None \<Rightarrow> (Inr (), d)
      | Some a \<Rightarrow>
        if invalid_drift c a then (Inl (RuntimeErr ''approved affine common drift is invalid''), d)
        else let deviation = fabs (fsub (am_drift_ppm m) a);
                 d' = d\<lparr>drift_diagnostics := Some (ApprovalReport a (core_stream_drifts_ppm m) (am_drift_ppm m) deviation limit)\<rparr>;
                 exceeded = ''approved_affine_common_drift_deviation_exceeded'' in
          if fless limit deviation
          then (Inl (RuntimeErr exceeded), d'\<lparr>sd_state := FAULTED, sd_fault_reason := Some exceeded\<rparr>)
          else (Inr (), d'))"

definition approve_offset :: "affine_setup \<Rightarrow> affine_clock_model \<Rightarrow> int option \<Rightarrow> affine_exc + unit" where
  "approve_offset S m approved =
     (case approved of None \<Rightarrow> Inr ()
      | Some a \<Rightarrow> obind (raised (offset_at_source_ns m (anchor_source_ns m))) (\<lambda>off.
          raise_unless (\<bar>off - a\<bar> \<le> max_locked_offset_deviation_ns (as_config S))
            (RuntimeErr ''approved reference offset disagrees with affine qualification'')))"

definition lock_affine ::
  "affine_setup \<Rightarrow> bool \<Rightarrow> int \<Rightarrow> int option \<Rightarrow> pyfloat option \<Rightarrow> qualification_evaluation option \<Rightarrow> affine_discipline \<Rightarrow>
    (affine_exc + affine_clock_model) \<times> affine_discipline" where
  "lock_affine S identity now approved_offset approved_drift evaluation d =
     (let c = as_config S in
      if sd_state d = FAULTED then (Inl (lock_faulted d), d)
      else if sd_state d = LOCKED
      then (case locked_affine_model d of
              None \<Rightarrow> (Inl (RuntimeErr ''discipline is already locked in fixed-offset mode''), d)
            | Some m \<Rightarrow>
              if (case approved_drift of None \<Rightarrow> False
                  | Some a \<Rightarrow> fless (max_approved_affine_drift_deviation_ppm c) (fabs (fsub (am_drift_ppm m) a)))
              then (Inl (RuntimeErr ''discipline is already locked to a different affine drift''), d)
              else (Inr m, d))
      else if \<not> identity then (Inl (RuntimeErr ''clock-domain identity evidence is not verified''), d)
      else case lock_candidate S now evaluation d of Inl ex \<Rightarrow> (Inl ex, d)
      | Inr (reasons, model, cached) \<Rightarrow>
        if reasons \<noteq> [] then (Inl (RuntimeErr (''timestamp qualification failed: '' @ join_comma reasons)), d)
        else case model of
          None \<Rightarrow> (Inl (RuntimeErr ''timestamp qualification did not produce an affine model''), d)
        | Some m \<Rightarrow>
          (case approve_drift S m approved_drift d of (Inl ex, d') \<Rightarrow> (Inl ex, d')
           | (Inr _, d') \<Rightarrow>
             (case obind (approve_offset S m approved_offset) (\<lambda>_. age_windows S (case cached of
                  None \<Rightarrow> (\<lambda>n. all_ok (corrected_age m) (stream_samples d' n))
                | Some ws \<Rightarrow> (\<lambda>n. Inr (the (map_of ws n))))) of
                Inl ex \<Rightarrow> (Inl ex, d') | Inr windows \<Rightarrow> (Inr m, commit_affine m windows now d'))))"

section \<open>\<open>lock_affine_from_approved_drift\<close>\<close>

definition recent_samples :: "affine_discipline \<Rightarrow> int \<Rightarrow> int \<Rightarrow> string \<Rightarrow> stamp_sample list" where
  "recent_samples d start now n = filter (within_receipts start now True) (stream_samples d n)"

definition recent_reason :: "affine_discipline \<Rightarrow> int \<Rightarrow> int \<Rightarrow> stream_policy \<Rightarrow> string option" where
  "recent_reason d start now p =
     (let xs = recent_samples d start now (sp_name p); limit = stale_receipt_timeout_ns p in
      if length xs < 2 then Some (''approved_affine_live_samples_missing:'' @ sp_name p)
      else if limit < sample_receipt (hd xs) - start \<or> limit < now - sample_receipt (last xs) \<or> limit < the (max_gap xs)
      then Some (''approved_affine_stream_not_live:'' @ sp_name p) else None)"

definition fail_on :: "string option \<Rightarrow> affine_exc + unit" where
  "fail_on r = (case r of None \<Rightarrow> Inr () | Some msg \<Rightarrow> Inl (RuntimeErr msg))"

text \<open>The intercept of the approved rate: the low quantile of the rounded anchor ages.\<close>

definition anchor_approved ::
  "affine_setup \<Rightarrow> pyfloat \<Rightarrow> stamp_sample list \<Rightarrow> affine_exc + affine_clock_model" where
  "anchor_approved S drift points =
     (let c = as_config S in
      obind (raised (source_to_local_scale drift)) (\<lambda>scale.
      let anchor = Max (set (map sample_source points)) in
      obind (all_ok (anchor_age anchor (fsub scale (Fin 1))) points) (\<lambda>ages.
      obind (all_ok round_float ages) (\<lambda>rounded.
        Inr (model_at c anchor (the (quantile rounded (lower_quantile c))) drift scale
              (map (\<lambda>n. (n, drift)) (core_streams S)))))))"

fun live_baselines ::
  "discipline_config \<Rightarrow> affine_clock_model \<Rightarrow> (string \<Rightarrow> stamp_sample list) \<Rightarrow> string list \<Rightarrow> affine_exc + (string \<times> int) list" where
  "live_baselines c m samples [] = Inr []"
| "live_baselines c m samples (n # ns) =
     obind (all_ok (corrected_age m) (samples n)) (\<lambda>ages.
     obind (fail_on (if Min (set ages) < - max_corrected_future_ns c then Some (''candidate_would_be_future:'' @ n)
         else if max_corrected_age_ns (policy_of c n) < the (quantile ages (fl (19 / 20)))
         then Some (''candidate_would_be_stale:'' @ n) else None)) (\<lambda>_.
     obind (live_baselines c m samples ns) (\<lambda>rest. Inr ((n, the (quantile ages (lower_quantile c))) # rest))))"

definition relative_reason :: "discipline_config \<Rightarrow> (string \<times> int) list \<Rightarrow> string \<times> int \<Rightarrow> string option" where
  "relative_reason c baselines nb =
     (let lag = snd nb - the (map_of baselines (reference_stream c)) in
      if lag < - max_relative_lead_ns c then Some (''stream_leads_reference:'' @ fst nb)
      else if max_relative_lag_ns (policy_of c (fst nb)) < lag then Some (''stream_lag_exceeded:'' @ fst nb) else None)"

definition approved_model ::
  "affine_setup \<Rightarrow> pyfloat \<Rightarrow> int \<Rightarrow> int \<Rightarrow> affine_discipline \<Rightarrow> affine_exc + affine_clock_model \<times> (string \<rightharpoonup> int list)" where
  "approved_model S drift start now d =
     (let c = as_config S; recent = recent_samples d start now in
      obind (fail_on (first_reason (recent_reason d start now) (streams c))) (\<lambda>_.
      obind (anchor_approved S drift (recent (reference_stream c))) (\<lambda>m.
      obind (live_baselines c m recent (affine_names S)) (\<lambda>bs.
      obind (fail_on (first_reason (relative_reason c bs) bs)) (\<lambda>_.
      let m' = m\<lparr>stream_baseline_corrected_age_ns := bs\<rparr> in
      obind (age_windows S (\<lambda>n. all_ok (corrected_age m') (stream_samples d n))) (\<lambda>ws. Inr (m', ws)))))))"

definition lock_approved ::
  "affine_setup \<Rightarrow> pyfloat \<Rightarrow> bool \<Rightarrow> int \<Rightarrow> affine_discipline \<Rightarrow> (affine_exc + affine_clock_model) \<times> affine_discipline" where
  "lock_approved S drift identity now d =
     (if sd_state d = FAULTED then (Inl (lock_faulted d), d)
      else if sd_state d = LOCKED
      then (case locked_affine_model d of
              None \<Rightarrow> (Inl (RuntimeErr ''discipline is already locked in fixed-offset mode''), d)
            | Some m \<Rightarrow>
              if \<not> isfinite drift \<or> fless (fl (1 / 1000000000)) (fabs (fsub (am_drift_ppm m) drift))
              then (Inl (RuntimeErr ''discipline is already locked to a different affine drift''), d)
              else (Inr m, d))
      else if \<not> identity then (Inl (RuntimeErr ''clock-domain identity evidence is not verified''), d)
      else if invalid_drift (as_config S) drift then (Inl (RuntimeErr ''approved affine common drift is invalid''), d)
      else if \<not> positive_int now then (Inl (RuntimeErr ''invalid affine commit time''), d)
      else case af_start d of None \<Rightarrow> (Inl (RuntimeErr ''approved affine live anchor window is incomplete''), d)
      | Some s \<Rightarrow>
        if now < s + APPROVED_AFFINE_ANCHOR_WINDOW_NS
        then (Inl (RuntimeErr ''approved affine live anchor window is incomplete''), d)
        else let start = max s (now - APPROVED_AFFINE_ANCHOR_WINDOW_NS) in
          (case approved_model S drift start now d of Inl ex \<Rightarrow> (Inl ex, d)
           | Inr (m, windows) \<Rightarrow> (Inr m, (commit_affine m windows now d)
               \<lparr>drift_diagnostics := Some (AnchorReport (core_stream_drifts_ppm m) (am_drift_ppm m) start now)\<rparr>)))"

text \<open>The locks of the base class are closed.\<close>

definition affine_lock :: "affine_discipline \<Rightarrow> (affine_exc + int) \<times> affine_discipline" where
  "affine_lock d = (Inl (RuntimeErr ''affine discipline requires lock_affine()''), d)"

definition affine_lock_fixed :: "affine_discipline \<Rightarrow> (affine_exc + int) \<times> affine_discipline" where
  "affine_lock_fixed d = (Inl (RuntimeErr ''affine discipline cannot lock a fixed offset''), d)"

end
