(* ===== verification/AffineDiscipline.thy ===== *)
theory AffineDiscipline imports AffineLock begin

text \<open>
  \<open>deploy/time-sync/navigation_stamp_discipline.py\<close>, part 8: \<open>observe\<close> and \<open>poll\<close> of
  \<open>AffineNavigationStampDiscipline\<close>, and sessions of calls. An outcome is a correction result or an
  exception that escapes.
\<close>

type_synonym correction = "(affine_exc + correction_result) \<times> affine_discipline"

abbreviation replied :: "correction_result \<times> affine_discipline \<Rightarrow> correction" where
  "replied r \<equiv> map_prod Inr id r"

section \<open>Source and receipt steps that disagree\<close>

text \<open>
  What happens to an advancing sample whose source and receipt steps differ by more than the limit:
  restart, bounded drop while qualifying, drop during recovery, entry into recovery, drop of a
  locked non-core callback, or fault.
\<close>

definition delta_discontinuity ::
  "affine_setup \<Rightarrow> observation \<Rightarrow> int \<Rightarrow> int \<Rightarrow> int \<Rightarrow> affine_discipline \<Rightarrow> correction_result \<times> affine_discipline" where
  "delta_discontinuity S e source_delta receipt_delta limit d =
     (let c = as_config S; n = ob_stream e; delta_error = \<bar>source_delta - receipt_delta\<bar>;
          diag = [(''source_delta_ns'', source_delta), (''receipt_delta_ns'', receipt_delta),
                  (''delta_error_ns'', delta_error), (''delta_error_limit_ns'', limit)];
          drop_reason = NONCORE_DROP @ '':'' @ n;
          dropped = \<lambda>s. ((refuse drop_reason (sd_state s))\<lparr>diagnostics := diag\<rparr>, note_continuity e False s) in
      if sd_state d = QUALIFYING \<and> affine_restart_on_core_delta_discontinuity c \<and> n \<in> set (core_streams S)
      then restart_qualification S e diag d
      else if sd_state d = QUALIFYING \<and> n \<in> set (affine_qualifying_noncore_delta_drop_streams c) \<and>
          delta_error \<le> QUALIFYING_DELTA_CEILING_NS \<and> source_delta \<le> QUALIFYING_PERIOD_CEILING_NS \<and>
          receipt_delta \<le> QUALIFYING_PERIOD_CEILING_NS
      then dropped d
      else if sd_state d = LOCKED \<and> recovery_active d \<and> allow_recovery S
      then (recovery_result (RECOVERY_DELTA_DROP @ '':'' @ n) diag d, note_continuity e False d)
      else if sd_state d = LOCKED \<and> allow_recovery S \<and> n \<in> set (affine_locked_core_delta_recovery_streams c) \<and>
          delta_error \<le> hard_age_ceiling_ns (policy_of c n)
      then (case enter_recovery S (RECOVERY_DELTA_DROP @ '':'' @ n) diag d of (r, d') \<Rightarrow>
              (r, if cr_state r \<noteq> FAULTED then note_continuity e False d' else d'))
      else if sd_state d = LOCKED \<and> n \<in> set (affine_locked_noncore_delta_drop_streams c)
      then (case noncore_drop_health S n (ob_monotonic e) d of
              (Some reason, d') \<Rightarrow> fault reason [] d' | (None, d') \<Rightarrow> dropped d')
      else fault (''source_receipt_delta_discontinuity:'' @ n) diag d)"

section \<open>Correcting a locked sample\<close>

text \<open>The corrected stamp and age of a sample that may be kept, or the outcome that ends the call.\<close>

definition locked_check :: "affine_setup \<Rightarrow> observation \<Rightarrow> affine_discipline \<Rightarrow> correction + int \<times> int" where
  "locked_check S e d =
     (let c = as_config S; n = ob_stream e; p = policy_of c n; stop = (\<lambda>reason diag. Inl (replied (fault reason diag d))) in
      case locked_affine_model d of None \<Rightarrow> stop ''affine_model_missing_after_lock'' []
      | Some m \<Rightarrow>
      (case cached_ages d n of None \<Rightarrow> stop ''affine_corrected_age_cache_missing_after_lock'' []
       | Some ages \<Rightarrow>
         if length ages \<noteq> length (stream_samples d n) then stop (''affine_corrected_age_cache_misaligned:'' @ n) []
         else case raised (affine_corrected_stamp_ns m (ob_source e)) of
           Inl (ValueErr _) \<Rightarrow> stop (''affine_correction_out_of_range:'' @ n) []
         | Inl ex \<Rightarrow> Inl (Inl ex, d)
         | Inr stamp \<Rightarrow>
           let age = ob_realtime e - stamp in
           if age < - max_corrected_future_ns c
           then stop (''corrected_timestamp_in_future:'' @ n)
                  [(''corrected_age_ns'', age), (''max_corrected_future_ns'', max_corrected_future_ns c)]
           else if (case minimum_locked_corrected_age_ns c of None \<Rightarrow> False | Some least \<Rightarrow> age < least)
           then stop (''affine_corrected_age_margin_exhausted:'' @ n)
                  [(''corrected_age_ns'', age), (''minimum_locked_corrected_age_ns'', the (minimum_locked_corrected_age_ns c))]
           else if max_corrected_age_ns p < age
           then Inl (replied (case liveness_health c d (ob_monotonic e) of
                Some reason \<Rightarrow> enter_recovery S reason [] d
              | None \<Rightarrow> ((refuse (LOCKED_STALE_DROP @ '':'' @ n) (sd_state d))
                    \<lparr>diagnostics := [(''corrected_age_ns'', age), (''max_corrected_age_ns'', max_corrected_age_ns p)]\<rparr>,
                  note_continuity e False d)))
           else Inr (stamp, age)))"

text \<open>The breakers after a kept sample or a poll: liveness, then the scheduled statistics.\<close>

definition affine_breakers :: "affine_setup \<Rightarrow> int \<Rightarrow> affine_discipline \<Rightarrow> correction_result option \<times> affine_discipline" where
  "affine_breakers S now d =
     (case liveness_health (as_config S) d now of
        Some reason \<Rightarrow> map_prod Some id (enter_recovery S reason [] d)
      | None \<Rightarrow>
        (case affine_scheduled S now d of
           (Some reason, d') \<Rightarrow> map_prod Some id
              (if starts_with INCOMPLETE_WINDOW reason then enter_recovery S reason [] d' else fault reason [] d')
         | (None, d') \<Rightarrow> (None, d')))"

definition finish_locked :: "affine_setup \<Rightarrow> observation \<Rightarrow> int \<Rightarrow> affine_discipline \<Rightarrow> correction_result \<times> affine_discipline" where
  "finish_locked S e stamp d =
     (let now = ob_monotonic e;
          accept = (\<lambda>d. case affine_breakers S now d of (Some r, d') \<Rightarrow> (r, d')
            | (None, d') \<Rightarrow> (\<lparr>cr_accepted = True, corrected_stamp_ns = Some stamp, navigation_eligible = True,
                 cr_reason = ''navigation_safe_affine'', cr_state = sd_state d', diagnostics = []\<rparr>, d')) in
      if recovery_active d
      then case recovery_health S now (record_recovery_sample S (ob_stream e) now d) of
             (Some r, d') \<Rightarrow> (r, d') | (None, d') \<Rightarrow> accept d'
      else accept d)"

text \<open>The aligned cache of corrected ages advances with the samples.\<close>

definition cache_age :: "affine_setup \<Rightarrow> string \<Rightarrow> int \<Rightarrow> affine_discipline \<Rightarrow> affine_discipline" where
  "cache_age S n age d = d\<lparr>locked_corrected_ages := map_option (\<lambda>m.
     m(n := map_option (\<lambda>ages. deque_append (retained_samples_per_stream (as_config S)) ages age) (m n)))
     (locked_corrected_ages d)\<rparr>"

text \<open>The fixed window starts once every stream has delivered.\<close>

definition start_window :: "affine_setup \<Rightarrow> affine_discipline \<Rightarrow> affine_discipline" where
  "start_window S d =
     (if sd_state d = QUALIFYING \<and> af_start d = None \<and> list_all (\<lambda>n. stream_samples d n \<noteq> []) (affine_names S)
      then d\<lparr>af_start := Some (Max (set (map (\<lambda>n. sample_receipt (hd (stream_samples d n))) (affine_names S))))\<rparr>
      else d)"

definition accept_sample :: "affine_setup \<Rightarrow> observation \<Rightarrow> affine_discipline \<Rightarrow> correction" where
  "accept_sample S e d =
     (if sd_state d \<noteq> LOCKED
      then (Inr (refuse ''affine_not_locked'' (sd_state d)), start_window S (take_sample S e d))
      else case locked_check S e d of Inl outcome \<Rightarrow> outcome
      | Inr (stamp, age) \<Rightarrow>
        let d' = cache_age S (ob_stream e) age (take_sample S e d) in
        if length (the (cached_ages d' (ob_stream e))) \<noteq> length (stream_samples d' (ob_stream e))
        then replied (fault (''affine_corrected_age_cache_misaligned:'' @ ob_stream e) [] d')
        else replied (finish_locked S e stamp d'))"

section \<open>\<open>observe\<close> and \<open>poll\<close>\<close>

text \<open>The receipt gaps, beyond their timeouts, a restarting qualification sees before a sample.\<close>

definition qualifying_gaps :: "affine_setup \<Rightarrow> int \<Rightarrow> affine_discipline \<Rightarrow> int list" where
  "qualifying_gaps S now d =
     List.map_filter (\<lambda>n. case last_receipt_ns (stream_states d n) of None \<Rightarrow> None
        | Some r \<Rightarrow> if timeout_of (as_config S) n < now - r then Some (now - r) else None) (affine_names S)"

definition enter_if_stale :: "affine_setup \<Rightarrow> int \<Rightarrow> affine_discipline \<Rightarrow> affine_discipline" where
  "enter_if_stale S now d =
     (if sd_state d = LOCKED \<and> allow_recovery S \<and> \<not> recovery_active d
      then (case liveness_health (as_config S) d now of None \<Rightarrow> d
            | Some reason \<Rightarrow> snd (enter_recovery S reason [] d))
      else d)"

definition observe_sample :: "affine_setup \<Rightarrow> observation \<Rightarrow> affine_discipline \<Rightarrow> correction" where
  "observe_sample S e d =
     (let n = ob_stream e in
      case observed_continuity d n of None \<Rightarrow> accept_sample S e d
      | Some (last_source, last_receipt) \<Rightarrow>
        if ob_source e < last_source then replied (fault (''source_timestamp_regression:'' @ n) [] d)
        else if ob_source e = last_source
        then (Inr (refuse (''duplicate_source_timestamp:'' @ n) (sd_state d)),
              if continuity_is_last_good d n
              then put_stream n (stream_states d n\<lparr>duplicates := duplicates (stream_states d n) + 1\<rparr>) d else d)
        else let source_delta = ob_source e - last_source; receipt_delta = ob_monotonic e - last_receipt;
                 limit = delta_limit (as_config S) (policy_of (as_config S) n) in
          if receipt_delta \<le> 0 then replied (fault (''receipt_monotonic_not_advancing:'' @ n) [] d)
          else if limit < \<bar>source_delta - receipt_delta\<bar>
          then replied (delta_discontinuity S e source_delta receipt_delta limit d)
          else accept_sample S e d)"

definition affine_observe :: "affine_setup \<Rightarrow> observation \<Rightarrow> affine_discipline \<Rightarrow> correction" where
  "affine_observe S e d =
     (let c = as_config S in
      if sd_state d = FAULTED then (Inr (faulted_result d), d)
      else case entry_fault c e d of Some reason \<Rightarrow> replied (fault reason [] d)
      | None \<Rightarrow>
        let d1 = d\<lparr>last_clock_base_ns := Some (ob_realtime e - ob_monotonic e)\<rparr>;
            gaps = qualifying_gaps S (ob_monotonic e) d1 in
        if sd_state d = QUALIFYING \<and> affine_restart_on_core_delta_discontinuity c \<and> af_start d \<noteq> None \<and> gaps \<noteq> []
        then replied (restart_qualification S e
               [(''stale_stream_count'', int (length gaps)), (''largest_receipt_gap_ns'', Max (set gaps))] d1)
        else observe_sample S e (enter_if_stale S (ob_monotonic e) d1))"

definition affine_poll :: "affine_setup \<Rightarrow> int \<Rightarrow> affine_discipline \<Rightarrow> correction_result \<times> affine_discipline" where
  "affine_poll S now d =
     (if sd_state d = FAULTED then (faulted_result d, d)
      else if sd_state d \<noteq> LOCKED then (refuse ''affine_not_locked'' (sd_state d), d)
      else if \<not> positive_int now then fault ''invalid_poll_time'' [] d
      else if recovery_active d
      then case recovery_health S now d of (Some r, d') \<Rightarrow> (r, d')
           | (None, d') \<Rightarrow> (refuse ''locked_receipt_recovered'' (sd_state d'), d')
      else case affine_breakers S now d of (Some r, d') \<Rightarrow> (r, d')
           | (None, d') \<Rightarrow> (refuse ''healthy_no_sample'' (sd_state d'), d'))"

section \<open>A session: any sequence of calls\<close>

datatype affine_event =
    ASample observation
  | APoll int
  | AGate qualification_evaluation int int int
  | AReject qualification_evaluation
  | ALock bool int "int option" "pyfloat option" "qualification_evaluation option"
  | ALockApproved pyfloat bool int
  | ALockBase
  | ALockFixed

datatype affine_output =
    ACorrection "affine_exc + correction_result"
  | AGateReply "affine_exc + string list \<times> gate_report"
  | ARejectReply "affine_exc + string"
  | AModel "affine_exc + affine_clock_model"
  | AOffset "affine_exc + int"

fun affine_step :: "affine_setup \<Rightarrow> affine_event \<Rightarrow> affine_discipline \<Rightarrow> affine_output \<times> affine_discipline" where
  "affine_step S (ASample e) d = map_prod ACorrection id (affine_observe S e d)"
| "affine_step S (APoll now) d = map_prod ACorrection id (replied (affine_poll S now d))"
| "affine_step S (AGate ev realtime monotonic s) d = map_prod AGateReply id (post_evaluation_gate S ev realtime monotonic s d)"
| "affine_step S (AReject ev) d = map_prod ARejectReply id (reject_qualification S ev d)"
| "affine_step S (ALock identity now off drift ev) d = map_prod AModel id (lock_affine S identity now off drift ev d)"
| "affine_step S (ALockApproved drift identity now) d = map_prod AModel id (lock_approved S drift identity now d)"
| "affine_step S ALockBase d = map_prod AOffset id (affine_lock d)"
| "affine_step S ALockFixed d = map_prod AOffset id (affine_lock_fixed d)"

end
