(* ===== verification/AffineFrames.thy ===== *)
theory AffineFrames imports AffineDiscipline begin

text \<open>
  What the helpers of \<open>AffineNavigationStampDiscipline\<close> leave alone, and the steps one observation
  consists of, as an interface: whatever those steps keep, \<open>observe\<close> keeps.
\<close>

section \<open>What the helpers leave alone\<close>

text \<open>The fields only samples, restarts and locks touch.\<close>

definition core_of :: "affine_discipline \<Rightarrow>
    affine_clock_model option \<times> (string \<rightharpoonup> int list) option \<times> (string \<Rightarrow> stream_state) \<times>
    (string \<Rightarrow> (int \<times> int) option) \<times> int option" where
  "core_of d = (locked_affine_model d, locked_corrected_ages d, stream_states d, observed_continuity d, af_start d)"

definition recovery_of :: "affine_discipline \<Rightarrow> bool \<times> (string \<Rightarrow> int)" where
  "recovery_of d = (recovery_active d, recovery_samples d)"

named_theorems affine_frame

lemma map_prod_id: "map_prod f id p = (f (fst p), snd p)"
  by (cases p) simp

lemma core_fields:
  assumes "core_of d' = core_of d"
  shows "locked_affine_model d' = locked_affine_model d" "locked_corrected_ages d' = locked_corrected_ages d"
    "stream_states d' = stream_states d" "observed_continuity d' = observed_continuity d" "af_start d' = af_start d"
  using assms by (simp_all add: core_of_def)

lemma fault_frame [affine_frame]:
  "core_of (snd (fault r g d)) = core_of d" "recovery_of (snd (fault r g d)) = recovery_of d"
  "sd_state (snd (fault r g d)) = FAULTED" "cr_accepted (fst (fault r g d)) = False"
  by (simp_all add: fault_def refuse_def core_of_def recovery_of_def)

lemma recovery_result_frame [simp, affine_frame]: "cr_accepted (recovery_result r g d) = False"
  by (simp add: recovery_result_def refuse_def)

lemma enter_recovery_frame [affine_frame]:
  "core_of (snd (enter_recovery S r g d)) = core_of d"
  "sd_state (snd (enter_recovery S r g d)) \<in> {sd_state d, FAULTED}"
  "cr_accepted (fst (enter_recovery S r g d)) = False"
  "recovery_active d \<Longrightarrow> recovery_of (snd (enter_recovery S r g d)) = recovery_of d"
  "sd_state d \<noteq> LOCKED \<Longrightarrow> sd_state (snd (enter_recovery S r g d)) = FAULTED"
  by (auto simp: enter_recovery_def begin_recovery_def core_of_def recovery_of_def fault_def refuse_def)

lemma record_recovery_frame [affine_frame]:
  "core_of (record_recovery_sample S n now d) = core_of d"
  "sd_state (record_recovery_sample S n now d) = sd_state d"
  "recovery_active (record_recovery_sample S n now d) = recovery_active d"
  by (auto simp: record_recovery_sample_def core_of_def Let_def split: option.split)

lemma record_recovery_count:
  "recovery_samples (record_recovery_sample S n now d) k \<le> recovery_samples d k + (if k = n then 1 else 0)"
  by (auto simp: record_recovery_sample_def Let_def split: option.split)

lemma statistical_health_frame:
  "\<exists>r w. snd (affine_statistical_health S d) = d\<lparr>drift_diagnostics := r, gap_waivers := w\<rparr>"
proof -
  have same: "\<exists>r w. d = d\<lparr>drift_diagnostics := r, gap_waivers := w\<rparr>"
    by (rule exI [of _ "drift_diagnostics d"], rule exI [of _ "gap_waivers d"]) simp
  show ?thesis
  proof (cases "locked_affine_model d")
    case None
    then show ?thesis using same by (simp add: affine_statistical_health_def)
  next
    case (Some m)
    show ?thesis
    proof (cases "first_reason (presence_health d) (streams (as_config S))")
      case None
      let ?rates = "map (\<lambda>n. (n, am_drift (affine_metrics_for (as_config S) d (window_samples S d) n))) (core_streams S)"
      let ?report = "locked_report_of S m d ?rates"
      obtain r w ds where "check_coverage (as_config S) (max 4 ((lr_end ?report - lr_start ?report) div drift_bin_ns (as_config S)))
          (gap_waivers d) (lr_streams ?report) = (r, w, ds)" by (rule prod_cases3)
      then show ?thesis using Some None by (auto simp: affine_statistical_health_def Let_def split: option.split)
    qed (use Some same in \<open>simp add: affine_statistical_health_def\<close>)
  qed
qed

lemma scheduled_frame [affine_frame]:
  "core_of (snd (affine_scheduled S now d)) = core_of d"
  "recovery_of (snd (affine_scheduled S now d)) = recovery_of d"
  "sd_state (snd (affine_scheduled S now d)) = sd_state d"
proof -
  let ?d = "d\<lparr>last_statistics_ns := Some now\<rparr>"
  obtain r w where "snd (affine_statistical_health S ?d) = ?d\<lparr>drift_diagnostics := r, gap_waivers := w\<rparr>"
    using statistical_health_frame by blast
  then show "core_of (snd (affine_scheduled S now d)) = core_of d"
    "recovery_of (snd (affine_scheduled S now d)) = recovery_of d"
    "sd_state (snd (affine_scheduled S now d)) = sd_state d"
    by (auto simp: scheduled_health_def core_of_def recovery_of_def)
qed

lemma noncore_drop_frame [affine_frame]:
  "core_of (snd (noncore_drop_health S n now d)) = core_of d"
  "recovery_of (snd (noncore_drop_health S n now d)) = recovery_of d"
  "sd_state (snd (noncore_drop_health S n now d)) = sd_state d"
  by (auto simp: noncore_drop_health_def affine_frame split: option.split)

definition all_live :: "affine_setup \<Rightarrow> int \<Rightarrow> 'a stamp_discipline_scheme \<Rightarrow> bool" where
  "all_live S now d \<longleftrightarrow> (\<forall>p \<in> set (streams (as_config S)). lv_live (receipt_liveness d now p))"

lemma liveness_None: "liveness_health (as_config S) d now = None \<longleftrightarrow> all_live S now d"
  by (auto simp: liveness_health_def find_None_iff receipt_liveness_snapshot_def all_live_def)

lemma all_live_core: "stream_states d' = stream_states d \<Longrightarrow> all_live S now d' = all_live S now d"
  by (simp add: all_live_def receipt_liveness_def)

definition fresh_samples :: "affine_setup \<Rightarrow> affine_discipline \<Rightarrow> bool" where
  "fresh_samples S d \<longleftrightarrow> (\<forall>n \<in> set (affine_names S). RECOVERY_REQUIRED_SAMPLES \<le> recovery_samples d n)"

lemma pending_None: "sort (filter (\<lambda>n. recovery_samples d n < RECOVERY_REQUIRED_SAMPLES) (affine_names S)) = [] \<longleftrightarrow> fresh_samples S d"
  by (auto simp: fresh_samples_def filter_empty_conv not_less simp flip: set_empty)

lemma recovery_health_frame:
  assumes "recovery_health S now d = (r, d')"
  shows "core_of d' = core_of d" "sd_state d' \<in> {sd_state d, FAULTED}" "recovery_samples d' = recovery_samples d"
    "r = Some x \<Longrightarrow> \<not> cr_accepted x \<and> recovery_active d' = recovery_active d"
    "r = None \<Longrightarrow> sd_state d' = sd_state d \<and> fresh_samples S d \<and> all_live S now d \<and> \<not> recovery_active d'"
proof -
  obtain reason e where e: "affine_scheduled S now d = (reason, e)" by (cases "affine_scheduled S now d")
  have f: "core_of e = core_of d" "recovery_of e = recovery_of d" "sd_state e = sd_state d"
    using scheduled_frame [where S = S and now = now and d = d] e by simp_all
  have h: "recovery_health S now d =
     (case liveness_health (as_config S) d now of Some r \<Rightarrow> (Some (recovery_result r [] d), d)
      | None \<Rightarrow> if \<not> fresh_samples S d
          then (Some (recovery_result (''awaiting_fresh_streams:'' @ join_comma
             (sort (filter (\<lambda>n. recovery_samples d n < RECOVERY_REQUIRED_SAMPLES) (affine_names S)))) [] d), d)
          else if \<not> locked_statistics_enabled (as_config S) then (None, d\<lparr>recovery_active := False\<rparr>)
          else if last_statistics_ns e = last_statistics_ns d then (Some (recovery_result ''awaiting_locked_statistics'' [] e), e)
          else case reason of None \<Rightarrow> (None, e\<lparr>recovery_active := False\<rparr>)
            | Some r \<Rightarrow> if starts_with INCOMPLETE_WINDOW r then (Some (recovery_result r [] e), e)
                        else map_prod Some id (fault r [] e))"
    unfolding recovery_health_def Let_def pending_None [symmetric] e by (simp split: option.split)
  have rec: "recovery_active e = recovery_active d" "recovery_samples e = recovery_samples d"
    using f(2) by (simp_all add: recovery_of_def)
  have fr: "core_of (snd (fault x [] e)) = core_of d" "recovery_active (snd (fault x [] e)) = recovery_active d"
      "recovery_samples (snd (fault x [] e)) = recovery_samples d" "sd_state (snd (fault x [] e)) = FAULTED"
      "\<not> cr_accepted (fst (fault x [] e))" for x
    using fault_frame [of x "[]" e] f(1) rec by (simp_all add: recovery_of_def)
  have off: "core_of (x\<lparr>recovery_active := False\<rparr>) = core_of x" for x by (simp add: core_of_def)
  show "core_of d' = core_of d" "sd_state d' \<in> {sd_state d, FAULTED}" "recovery_samples d' = recovery_samples d"
    "r = Some x \<Longrightarrow> \<not> cr_accepted x \<and> recovery_active d' = recovery_active d"
    "r = None \<Longrightarrow> sd_state d' = sd_state d \<and> fresh_samples S d \<and> all_live S now d \<and> \<not> recovery_active d'"
    using assms [unfolded h] f(1,3) rec fr off
    by (auto simp: map_prod_id liveness_None split: option.splits if_splits)
qed


lemmas recovery_health_proj = recovery_health_frame [OF prod.collapse [symmetric]]

section \<open>Steady calls\<close>

text \<open>A call that keeps the core fields, and the state unless it faults; only a locked session starts a recovery.\<close>

definition steady :: "affine_discipline \<Rightarrow> affine_discipline \<Rightarrow> bool" where
  "steady d d' \<longleftrightarrow> core_of d' = core_of d \<and>
     (sd_state d' = FAULTED \<or> sd_state d' = sd_state d \<and> (sd_state d = LOCKED \<or> recovery_active d' = recovery_active d))"

lemma steady_refl [simp]: "steady d d"
  by (simp add: steady_def)

lemma steady_trans: "steady d e \<Longrightarrow> steady e f \<Longrightarrow> steady d f"
  by (auto simp: steady_def)

lemma steady_same: "core_of d' = core_of d \<Longrightarrow> recovery_of d' = recovery_of d \<Longrightarrow> sd_state d' = sd_state d \<Longrightarrow> steady d d'"
  by (auto simp: steady_def recovery_of_def)

lemma steady_fault [simp]: "steady d (snd (fault r g d))"
  by (simp add: steady_def affine_frame)

lemma steady_enter [simp]: "steady d (snd (enter_recovery S r g d))"
  using enter_recovery_frame(1,2,5) [where S = S and r = r and g = g and d = d] by (auto simp: steady_def)

lemma steady_scheduled [simp]: "steady d (snd (affine_scheduled S now d))"
  by (rule steady_same) (simp_all add: affine_frame)

lemma steady_noncore [simp]: "steady d (snd (noncore_drop_health S n now d))"
  by (rule steady_same) (simp_all add: affine_frame)

lemma steady_record [simp]: "steady d (record_recovery_sample S n now d)"
  by (simp add: steady_def affine_frame)

lemma steady_recovery_health: "sd_state d = LOCKED \<Longrightarrow> steady d (snd (recovery_health S now d))"
  using recovery_health_proj(1,2) [of S now d] by (auto simp: steady_def)

text \<open>The breakers: when they pass, every stream is live and nothing but the statistics moved.\<close>

lemma affine_breakers_frame:
  "steady d (snd (affine_breakers S now d))"
  "fst (affine_breakers S now d) = None \<Longrightarrow> all_live S now d \<and>
     recovery_of (snd (affine_breakers S now d)) = recovery_of d \<and> sd_state (snd (affine_breakers S now d)) = sd_state d"
  "fst (affine_breakers S now d) = Some r \<Longrightarrow> \<not> cr_accepted r"
proof -
  let ?sch = "affine_scheduled S now d"
  have u: "affine_breakers S now d = (case liveness_health (as_config S) d now of
      Some reason \<Rightarrow> map_prod Some id (enter_recovery S reason [] d)
    | None \<Rightarrow> (case fst ?sch of Some reason \<Rightarrow> map_prod Some id
           (if starts_with INCOMPLETE_WINDOW reason then enter_recovery S reason [] (snd ?sch) else fault reason [] (snd ?sch))
       | None \<Rightarrow> (None, snd ?sch)))"
    by (auto simp: affine_breakers_def split: option.split prod.split)
  have sch: "steady d (snd (enter_recovery S x g (snd ?sch)))" "steady d (snd (fault x g (snd ?sch)))" for x g
    using steady_trans [OF steady_scheduled] steady_enter steady_fault by blast+
  show "steady d (snd (affine_breakers S now d))"
    using sch by (auto simp: u map_prod_id split: option.split)
  show "fst (affine_breakers S now d) = None \<Longrightarrow> all_live S now d \<and>
     recovery_of (snd (affine_breakers S now d)) = recovery_of d \<and> sd_state (snd (affine_breakers S now d)) = sd_state d"
    by (auto simp: u map_prod_id affine_frame simp flip: liveness_None split: option.splits)
  show "fst (affine_breakers S now d) = Some r \<Longrightarrow> \<not> cr_accepted r"
    by (auto simp: u map_prod_id affine_frame split: option.splits if_splits)
qed

text \<open>The end of \<open>observe\<close> for a kept sample of a locked session.\<close>

definition emit :: "affine_setup \<Rightarrow> observation \<Rightarrow> int \<Rightarrow> affine_discipline \<Rightarrow> correction_result \<times> affine_discipline" where
  "emit S e stamp d =
     (case fst (affine_breakers S (ob_monotonic e) d) of Some r \<Rightarrow> (r, snd (affine_breakers S (ob_monotonic e) d))
      | None \<Rightarrow> (\<lparr>cr_accepted = True, corrected_stamp_ns = Some stamp, navigation_eligible = True,
           cr_reason = ''navigation_safe_affine'', cr_state = sd_state (snd (affine_breakers S (ob_monotonic e) d)),
           diagnostics = []\<rparr>, snd (affine_breakers S (ob_monotonic e) d)))"

lemma finish_locked_alt:
  "finish_locked S e stamp d =
     (if recovery_active d
      then let h = recovery_health S (ob_monotonic e) (record_recovery_sample S (ob_stream e) (ob_monotonic e) d) in
        case fst h of Some r \<Rightarrow> (r, snd h) | None \<Rightarrow> emit S e stamp (snd h)
      else emit S e stamp d)"
  by (auto simp: finish_locked_def emit_def Let_def split: option.split prod.split)

lemma emit_frame:
  "steady d (snd (emit S e stamp d))"
  "cr_accepted (fst (emit S e stamp d)) \<Longrightarrow> all_live S (ob_monotonic e) d \<and>
     corrected_stamp_ns (fst (emit S e stamp d)) = Some stamp \<and>
     recovery_of (snd (emit S e stamp d)) = recovery_of d \<and> sd_state (snd (emit S e stamp d)) = sd_state d"
  using affine_breakers_frame [where d = d and S = S and now = "ob_monotonic e"] by (auto simp: emit_def split: option.splits)

lemma finish_locked_frame:
  assumes "sd_state d = LOCKED"
  shows "steady d (snd (finish_locked S e stamp d))"
    "cr_accepted (fst (finish_locked S e stamp d)) \<Longrightarrow> all_live S (ob_monotonic e) d \<and>
       corrected_stamp_ns (fst (finish_locked S e stamp d)) = Some stamp \<and>
       sd_state (snd (finish_locked S e stamp d)) = LOCKED \<and> \<not> recovery_active (snd (finish_locked S e stamp d))"
    "recovery_active d \<Longrightarrow> n \<in> set (affine_names S) \<Longrightarrow>
       recovery_active (snd (finish_locked S e stamp d)) \<and> \<not> cr_accepted (fst (finish_locked S e stamp d)) \<and>
         recovery_samples (snd (finish_locked S e stamp d)) n \<le> recovery_samples d n + (if n = ob_stream e then 1 else 0)
       \<or> RECOVERY_REQUIRED_SAMPLES \<le> recovery_samples d n + (if n = ob_stream e then 1 else 0)"
proof -
  let ?rec = "record_recovery_sample S (ob_stream e) (ob_monotonic e) d"
  let ?h = "recovery_health S (ob_monotonic e) ?rec"
  have rec: "core_of ?rec = core_of d" "sd_state ?rec = LOCKED" "recovery_active ?rec = recovery_active d"
    using record_recovery_frame [of S "ob_stream e" "ob_monotonic e" d] assms by simp_all
  have live: "all_live S now ?rec = all_live S now d" for now
    using all_live_core core_fields(3) [OF rec(1)] by blast
  note h = recovery_health_proj [of S "ob_monotonic e" ?rec]
  have sh: "steady d (snd ?h)"
    by (rule steady_trans [OF steady_record steady_recovery_health [OF rec(2)]])
  show "steady d (snd (finish_locked S e stamp d))"
    using sh steady_trans [OF sh emit_frame(1)] emit_frame(1) [where d = d and S = S and e = e and stamp = stamp]
    by (auto simp: finish_locked_alt Let_def split: option.split)
  have resumed: "sd_state (snd ?h) = LOCKED \<and> fresh_samples S ?rec \<and> all_live S (ob_monotonic e) d \<and> \<not> recovery_active (snd ?h)"
    if "fst ?h = None" using h(5) that rec(2) live by simp
  show "cr_accepted (fst (finish_locked S e stamp d)) \<Longrightarrow> all_live S (ob_monotonic e) d \<and>
       corrected_stamp_ns (fst (finish_locked S e stamp d)) = Some stamp \<and>
       sd_state (snd (finish_locked S e stamp d)) = LOCKED \<and> \<not> recovery_active (snd (finish_locked S e stamp d))"
    using emit_frame(2) [where d = d and S = S and e = e and stamp = stamp] emit_frame(2) [where d = "snd ?h" and S = S and e = e and stamp = stamp] resumed h(4) assms
    by (auto simp: finish_locked_alt Let_def recovery_of_def split: if_splits option.splits)
  assume a: "recovery_active d" and n: "n \<in> set (affine_names S)"
  let ?hit = "if n = ob_stream e then 1 else 0 :: int"
  have count: "recovery_samples ?rec n \<le> recovery_samples d n + ?hit" by (rule record_recovery_count)
  show "recovery_active (snd (finish_locked S e stamp d)) \<and> \<not> cr_accepted (fst (finish_locked S e stamp d)) \<and>
         recovery_samples (snd (finish_locked S e stamp d)) n \<le> recovery_samples d n + ?hit
       \<or> RECOVERY_REQUIRED_SAMPLES \<le> recovery_samples d n + ?hit"
  proof (cases "fst ?h")
    case None
    then show ?thesis using resumed n count by (fastforce simp: fresh_samples_def)
  next
    case (Some r)
    then have "finish_locked S e stamp d = (r, snd ?h)" using a by (simp add: finish_locked_alt Let_def)
    then show ?thesis using h(3) h(4) [OF Some] rec(3) a count by simp
  qed
qed


section \<open>One observation\<close>

text \<open>A sample that advances every record of its stream.\<close>

definition advances :: "observation \<Rightarrow> affine_discipline \<Rightarrow> bool" where
  "advances e d \<longleftrightarrow> (\<forall>s r. observed_continuity d (ob_stream e) = Some (s, r) \<longrightarrow> s < ob_source e)"

definition sound_entry :: "affine_setup \<Rightarrow> observation \<Rightarrow> bool" where
  "sound_entry S e \<longleftrightarrow> ob_stream e \<in> set (affine_names S) \<and> 0 < ob_source e \<and> 0 < ob_monotonic e"

lemma entry_ok: "entry_fault (as_config S) e d = None \<Longrightarrow> sound_entry S e"
  by (auto simp: entry_fault_def sound_entry_def affine_names_def positive_int_def split: if_splits)

lemma steady_advances: "core_of d' = core_of d \<Longrightarrow> advances e d' = advances e d"
  by (simp add: advances_def core_of_def)

lemma steady_base: "steady d (d\<lparr>last_clock_base_ns := b\<rparr>)"
  by (simp add: steady_def core_of_def)

lemma steady_enter_if_stale: "steady d (enter_if_stale S now d)"
  by (auto simp: enter_if_stale_def split: option.split)

text \<open>A stale stream never faults a session that may recover.\<close>

lemma starts_with_append [simp]: "starts_with p (p @ s)"
  by (simp add: starts_with_def)

lemma liveness_recoverable: "liveness_health c d now = Some r \<Longrightarrow> recoverable r"
  using starts_with_append [of "''stream_stale:''"]
  by (auto simp: liveness_health_def stale_text_def recoverable_def starts_with_def)

lemma enter_if_stale_state: "sd_state (enter_if_stale S now d) = sd_state d"
  by (auto simp: enter_if_stale_def enter_recovery_def begin_recovery_def liveness_recoverable split: option.split)

lemma replied_snd [simp]: "snd (replied r) = snd r" "fst (replied r) = Inr (fst r)"
  by (simp_all add: map_prod_id)

text \<open>What \<open>observe\<close> can do to the object, as a rule for whatever those steps keep.\<close>

locale sample_closed =
  fixes S :: affine_setup and e :: observation and P :: "affine_discipline \<Rightarrow> bool"
  assumes steady: "P a \<Longrightarrow> steady a b \<Longrightarrow> P b"
    and noted: "P a \<Longrightarrow> sound_entry S e \<Longrightarrow> advances e a \<Longrightarrow> P (note_continuity e k a)"
    and repeated: "P a \<Longrightarrow> P (put_stream (ob_stream e)
          (stream_states a (ob_stream e)\<lparr>duplicates := duplicates (stream_states a (ob_stream e)) + 1\<rparr>) a)"
    and restart: "P a \<Longrightarrow> sound_entry S e \<Longrightarrow> sd_state a = QUALIFYING \<Longrightarrow> P (snd (restart_qualification S e g a))"
    and taken: "P a \<Longrightarrow> sound_entry S e \<Longrightarrow> sd_state a = QUALIFYING \<Longrightarrow> advances e a \<Longrightarrow>
          P (start_window S (take_sample S e a))"
    and kept: "P a \<Longrightarrow> sound_entry S e \<Longrightarrow> sd_state a = LOCKED \<Longrightarrow> advances e a \<Longrightarrow>
          P (cache_age S (ob_stream e) age (take_sample S e a))"
begin

lemma delta_discontinuity_closed:
  assumes "P d" "sound_entry S e" "advances e d"
  shows "P (snd (delta_discontinuity S e sd rd limit d))"
proof -
  let ?r = "enter_recovery S (RECOVERY_DELTA_DROP @ '':'' @ ob_stream e)"
  let ?h = "noncore_drop_health S (ob_stream e) (ob_monotonic e) d"
  have adv: "P (note_continuity e k b)" if "P b" "core_of b = core_of d" for b k
    using noted [OF that(1) assms(2)] steady_advances [OF that(2)] assms(3) by blast
  have entered: "P b" "P (note_continuity e k b)" if "?r diag d = (y, b)" for diag k y b
    using steady [OF assms(1) steady_enter] adv enter_recovery_frame(1) that by (metis snd_conv)+
  have checked: "P (note_continuity e k b)" "P (snd (fault r g b))" if "?h = (y, b)" for k y b r g
    using steady [OF assms(1) steady_noncore] steady [OF _ steady_fault] adv noncore_drop_frame(1) that by (metis snd_conv)+
  have faulted: "P (snd (fault r g d))" for r g using steady [OF assms(1) steady_fault] .
  show ?thesis
    using noted [OF assms(1,2,3)] restart [OF assms(1,2)] entered checked faulted
    by (auto simp: delta_discontinuity_def Let_def split: prod.split option.split)
qed

lemma accept_sample_closed:
  assumes "P d" "sound_entry S e" "advances e d" "sd_state d \<noteq> FAULTED"
  shows "P (snd (accept_sample S e d))"
proof (cases "sd_state d = LOCKED")
  case False
  then have "sd_state d = QUALIFYING" using assms(4) by (cases "sd_state d") auto
  then show ?thesis using taken [OF assms(1,2) _ assms(3)] by (simp add: accept_sample_def)
next
  case True
  have stale: "P (snd (enter_recovery S reason [] d))" "P (note_continuity e False d)" for reason
    using steady [OF assms(1) steady_enter] noted [OF assms(1,2,3)] by simp_all
  have "P (snd r)" if "locked_check S e d = Inl r" for r
    using that stale steady [OF assms(1) steady_fault] assms(1)
    by (auto simp: locked_check_def Let_def split: option.splits sum.splits affine_exc.splits if_splits)
  moreover have "P (snd (fault x g (cache_age S (ob_stream e) age (take_sample S e d))))"
      "P (snd (finish_locked S e stamp (cache_age S (ob_stream e) age (take_sample S e d))))" for x g age stamp
  proof -
    let ?k = "cache_age S (ob_stream e) age (take_sample S e d)"
    have k: "P ?k" using kept [OF assms(1,2) True assms(3)] .
    have "sd_state ?k = LOCKED" using True by (simp add: cache_age_def take_sample_def note_continuity_def)
    then show "P (snd (fault x g ?k))" "P (snd (finish_locked S e stamp ?k))"
      using steady [OF k steady_fault] steady [OF k finish_locked_frame(1)] by blast+
  qed
  ultimately show ?thesis
    using True by (auto simp: accept_sample_def Let_def split: sum.split prod.split)
qed

lemma observe_sample_closed:
  assumes "P d" "sound_entry S e" "sd_state d \<noteq> FAULTED"
  shows "P (snd (observe_sample S e d))"
proof (cases "observed_continuity d (ob_stream e)")
  case None
  then show ?thesis using accept_sample_closed [OF assms(1,2)] assms(3) by (simp add: observe_sample_def advances_def)
next
  case (Some sr)
  have "advances e d" if "fst sr < ob_source e" using Some that by (auto simp: advances_def)
  then show ?thesis
    using Some assms(1) repeated [OF assms(1)] steady [OF assms(1) steady_fault] accept_sample_closed [OF assms(1,2) _ assms(3)]
      delta_discontinuity_closed [OF assms(1,2)]
    by (cases sr) (auto simp: observe_sample_def Let_def)
qed

lemma observe_closed:
  assumes "P d"
  shows "P (snd (affine_observe S e d))"
proof (cases "sd_state d = FAULTED \<or> entry_fault (as_config S) e d \<noteq> None")
  case True
  then show ?thesis using assms steady [OF assms steady_fault] by (auto simp: affine_observe_def Let_def)
next
  case False
  then have ok: "sound_entry S e" using entry_ok by blast
  let ?d = "d\<lparr>last_clock_base_ns := Some (ob_realtime e - ob_monotonic e)\<rparr>"
  have d1: "P ?d" by (rule steady [OF assms steady_base])
  have d2: "P (enter_if_stale S now ?d)" for now by (rule steady [OF d1 steady_enter_if_stale])
  have ne: "sd_state (enter_if_stale S now ?d) \<noteq> FAULTED" for now
    using False enter_if_stale_state [of S now ?d] by simp
  show ?thesis
    using False restart [OF d1 ok] observe_sample_closed [OF d2 ok ne] by (auto simp: affine_observe_def Let_def)
qed

end

end
