(* ===== verification/AffineInvariant.thy ===== *)
theory AffineInvariant imports AffineFrames begin

text \<open>
  The invariant of an \<open>AffineNavigationStampDiscipline\<close>: bounded samples, ordered source stamps, and a
  cache of corrected ages that runs in step with the samples of a frozen model; every call keeps it.
\<close>

section \<open>The invariant\<close>

text \<open>Samples are bounded and positive, and no stream's last kept source is ahead of the last one observed.\<close>

definition samples_inv :: "affine_setup \<Rightarrow> affine_discipline \<Rightarrow> bool" where
  "samples_inv S d \<longleftrightarrow> affine_names S \<noteq> [] \<and>
     (\<forall>n. length (stream_samples d n) \<le> nat (retained_samples_per_stream (as_config S))) \<and>
     (\<forall>n. \<forall>x \<in> set (stream_samples d n). 0 < sample_receipt x) \<and>
     (\<forall>n t. last_source_ns (stream_states d n) = Some t \<longrightarrow> (\<exists>s r. observed_continuity d n = Some (s, r) \<and> t \<le> s)) \<and>
     (\<forall>s. af_start d = Some s \<longrightarrow> 0 < s)"

text \<open>The cache of corrected ages of a frozen model runs in step with the samples.\<close>

definition aligned :: "affine_setup \<Rightarrow> affine_discipline \<Rightarrow> bool" where
  "aligned S d \<longleftrightarrow> (\<forall>m. locked_affine_model d = Some m \<longrightarrow> fle (Fin 0) (am_scale m) \<and>
     (\<forall>n \<in> set (affine_names S). \<exists>ages. cached_ages d n = Some ages \<and> length ages = length (stream_samples d n)))"

definition state_inv :: "affine_discipline \<Rightarrow> bool" where
  "state_inv d \<longleftrightarrow> (sd_state d = QUALIFYING \<longrightarrow> locked_affine_model d = None \<and> \<not> recovery_active d) \<and>
     (sd_state d = LOCKED \<longrightarrow> locked_affine_model d \<noteq> None)"

definition affine_inv :: "affine_setup \<Rightarrow> affine_discipline \<Rightarrow> bool" where
  "affine_inv S d \<longleftrightarrow> samples_inv S d \<and> aligned S d \<and> state_inv d"

lemma inv_steady: "affine_inv S d \<Longrightarrow> steady d d' \<Longrightarrow> affine_inv S d'"
  by (auto simp: affine_inv_def samples_inv_def aligned_def state_inv_def cached_ages_def stream_samples_def steady_def core_of_def)

lemma note_simps [simp]:
  "sd_state (note_continuity e k d) = sd_state d" "locked_affine_model (note_continuity e k d) = locked_affine_model d"
  "stream_states (note_continuity e k d) = stream_states d" "af_start (note_continuity e k d) = af_start d"
  "recovery_active (note_continuity e k d) = recovery_active d" "recovery_samples (note_continuity e k d) = recovery_samples d"
  "locked_corrected_ages (note_continuity e k d) = locked_corrected_ages d"
  "observed_continuity (note_continuity e k d) = (observed_continuity d)(ob_stream e := Some (ob_source e, ob_monotonic e))"
  by (simp_all add: note_continuity_def)

lemma put_stream_fields [simp]:
  "sd_state (put_stream n ss d) = sd_state d" "locked_affine_model (put_stream n ss d) = locked_affine_model d"
  "stream_states (put_stream n ss d) = (stream_states d)(n := ss)" "af_start (put_stream n ss d) = af_start d"
  "recovery_active (put_stream n ss d) = recovery_active d" "recovery_samples (put_stream n ss d) = recovery_samples d"
  "locked_corrected_ages (put_stream n ss d) = locked_corrected_ages d"
  "observed_continuity (put_stream n ss d) = observed_continuity d"
  by (simp_all add: put_stream_def)

lemma cache_simps [simp]:
  "sd_state (cache_age S n a d) = sd_state d" "locked_affine_model (cache_age S n a d) = locked_affine_model d"
  "stream_states (cache_age S n a d) = stream_states d" "af_start (cache_age S n a d) = af_start d"
  "recovery_active (cache_age S n a d) = recovery_active d" "recovery_samples (cache_age S n a d) = recovery_samples d"
  "observed_continuity (cache_age S n a d) = observed_continuity d"
  "cached_ages (cache_age S n a d) k = (if k = n
     then map_option (\<lambda>ages. deque_append (retained_samples_per_stream (as_config S)) ages a) (cached_ages d n) else cached_ages d k)"
  by (cases "locked_corrected_ages d"; simp add: cache_age_def cached_ages_def)+

lemma record_sample_simps [simp]:
  "ss_samples (record_sample c e ss) = deque_append (retained_samples_per_stream c) (ss_samples ss)
     (ob_source e, ob_monotonic e, ob_realtime e - ob_source e)"
  "last_source_ns (record_sample c e ss) = Some (ob_source e)"
  "last_receipt_ns (record_sample c e ss) = Some (ob_monotonic e)"
  by (simp_all add: record_sample_def)

lemma length_deque_append_eq: "length xs = length ys \<Longrightarrow> length (deque_append k xs x) = length (deque_append k ys y)"
  by (simp add: deque_append_def Let_def)

lemma samples_inv_note: "samples_inv S d \<Longrightarrow> advances e d \<Longrightarrow> samples_inv S (note_continuity e k d)"
  unfolding samples_inv_def advances_def stream_samples_def by (auto simp: less_imp_le) (metis (lifting) order_less_imp_le order_trans)

lemma take_sample_simps [simp]:
  "sd_state (take_sample S e d) = sd_state d" "locked_affine_model (take_sample S e d) = locked_affine_model d"
  "af_start (take_sample S e d) = af_start d" "recovery_active (take_sample S e d) = recovery_active d"
  "recovery_samples (take_sample S e d) = recovery_samples d"
  "cached_ages (take_sample S e d) = cached_ages d"
  "observed_continuity (take_sample S e d) = (observed_continuity d)(ob_stream e := Some (ob_source e, ob_monotonic e))"
  "stream_states (take_sample S e d) =
     (stream_states d)(ob_stream e := record_sample (as_config S) e (stream_states d (ob_stream e)))"
  by (simp_all add: take_sample_def cached_ages_def fun_eq_iff)

lemma samples_inv_take:
  assumes "samples_inv S d" "sound_entry S e"
  shows "samples_inv S (take_sample S e d)"
proof -
  let ?x = "(ob_source e, ob_monotonic e, ob_realtime e - ob_source e)"
  let ?k = "retained_samples_per_stream (as_config S)"
  have x: "0 < sample_receipt ?x" using assms(2) by (simp add: sound_entry_def)
  have "length (deque_append ?k (stream_samples d n) ?x) \<le> nat ?k" for n
    using assms(1) by (intro length_deque_append) (simp add: samples_inv_def)
  moreover have "0 < sample_receipt y" if "y \<in> set (deque_append ?k (stream_samples d n) ?x)" for n y
    using that set_deque_append [of ?k "stream_samples d n" ?x] assms(1) x by (auto simp: samples_inv_def)
  ultimately show ?thesis using assms(1) by (simp add: samples_inv_def stream_samples_def)
qed

lemma samples_inv_start:
  assumes "samples_inv S d"
  shows "samples_inv S (start_window S d)"
proof -
  have "0 < Max (set (map (\<lambda>n. sample_receipt (hd (stream_samples d n))) (affine_names S)))"
    if "list_all (\<lambda>n. stream_samples d n \<noteq> []) (affine_names S)"
  proof -
    obtain n where n: "n \<in> set (affine_names S)" using assms by (fastforce simp: samples_inv_def neq_Nil_conv)
    then have "0 < sample_receipt (hd (stream_samples d n))"
      using assms that hd_in_set [of "stream_samples d n"] unfolding samples_inv_def list_all_iff by blast
    also have "\<dots> \<le> Max (set (map (\<lambda>n. sample_receipt (hd (stream_samples d n))) (affine_names S)))"
      using n by (intro Max_ge) auto
    finally show ?thesis .
  qed
  then show ?thesis using assms by (auto simp: samples_inv_def start_window_def stream_samples_def)
qed

lemma aligned_keep:
  assumes "aligned S d"
  shows "aligned S (cache_age S (ob_stream e) age (take_sample S e d))"
  unfolding aligned_def
proof (intro allI impI conjI ballI)
  fix m assume m: "locked_affine_model (cache_age S (ob_stream e) age (take_sample S e d)) = Some m"
  then show "fle (Fin 0) (am_scale m)" using assms by (simp add: aligned_def)
  fix n assume "n \<in> set (affine_names S)"
  then obtain ages where "cached_ages d n = Some ages" "length ages = length (stream_samples d n)"
    using assms m by (auto simp: aligned_def)
  then show "\<exists>ages. cached_ages (cache_age S (ob_stream e) age (take_sample S e d)) n = Some ages \<and>
      length ages = length (stream_samples (cache_age S (ob_stream e) age (take_sample S e d)) n)"
    by (auto simp: stream_samples_def intro: length_deque_append_eq)
qed

text \<open>Every observation keeps the invariant.\<close>

lemma restart_snd: "snd (restart_qualification S e g d) = take_sample S e (d\<lparr>stream_states := (\<lambda>_. stream_init),
    observed_continuity := (\<lambda>_. None), continuity_is_last_good := (\<lambda>_. False), af_start := None,
    last_statistics_ns := None, drift_diagnostics := None\<rparr>)"
  by (simp add: restart_qualification_def)

lemma restart_inv:
  assumes "affine_inv S d" "sound_entry S e" "sd_state d = QUALIFYING"
  shows "affine_inv S (snd (restart_qualification S e g d))"
proof -
  let ?c = "d\<lparr>stream_states := (\<lambda>_. stream_init), observed_continuity := (\<lambda>_. None),
    continuity_is_last_good := (\<lambda>_. False), af_start := None, last_statistics_ns := None, drift_diagnostics := None\<rparr>"
  have "samples_inv S ?c" using assms(1) by (simp add: affine_inv_def samples_inv_def stream_samples_def stream_init_def)
  then have "samples_inv S (take_sample S e ?c)" using assms(2) by (rule samples_inv_take)
  then show ?thesis using assms(1,3) by (simp add: affine_inv_def aligned_def state_inv_def restart_snd)
qed

interpretation observing: sample_closed S e "affine_inv S" for S e
proof
  fix a b k g age
  show "affine_inv S a \<Longrightarrow> steady a b \<Longrightarrow> affine_inv S b" by (rule inv_steady)
  show "affine_inv S a \<Longrightarrow> sound_entry S e \<Longrightarrow> advances e a \<Longrightarrow> affine_inv S (note_continuity e k a)"
    using samples_inv_note by (auto simp: affine_inv_def aligned_def state_inv_def cached_ages_def stream_samples_def)
  show "affine_inv S a \<Longrightarrow> affine_inv S (put_stream (ob_stream e)
      (stream_states a (ob_stream e)\<lparr>duplicates := duplicates (stream_states a (ob_stream e)) + 1\<rparr>) a)"
    by (auto simp: affine_inv_def samples_inv_def aligned_def state_inv_def cached_ages_def stream_samples_def)
  show "affine_inv S a \<Longrightarrow> sound_entry S e \<Longrightarrow> sd_state a = QUALIFYING \<Longrightarrow> affine_inv S (snd (restart_qualification S e g a))"
    by (rule restart_inv)
  show "affine_inv S a \<Longrightarrow> sound_entry S e \<Longrightarrow> sd_state a = QUALIFYING \<Longrightarrow> advances e a \<Longrightarrow>
      affine_inv S (start_window S (take_sample S e a))"
  proof -
    assume a: "affine_inv S a" "sound_entry S e" "sd_state a = QUALIFYING"
    have "samples_inv S (start_window S (take_sample S e a))"
      using a by (intro samples_inv_start samples_inv_take) (simp_all add: affine_inv_def)
    then show ?thesis using a by (simp add: affine_inv_def aligned_def state_inv_def start_window_def)
  qed
  show "affine_inv S a \<Longrightarrow> sound_entry S e \<Longrightarrow> sd_state a = LOCKED \<Longrightarrow> advances e a \<Longrightarrow>
      affine_inv S (cache_age S (ob_stream e) age (take_sample S e a))"
    using aligned_keep [of S a e age] samples_inv_take [of S a e]
    by (auto simp: affine_inv_def samples_inv_def stream_samples_def state_inv_def)
qed


section \<open>Locks\<close>

lemma raised_Inr [simp]: "raised r = Inr x \<longleftrightarrow> r = Inr x"
  by (cases r) (auto simp: raised_def)

lemma scale_nonneg:
  assumes "source_to_local_scale drift = Inr s"
  shows "fle (Fin 0) s"
proof -
  obtain q where q: "drift = Fin q"
    using assms by (cases drift) (auto simp: source_to_local_scale_def)
  obtain r where r: "fl (1 / 1000000) = Fin r" using fl_bounded [of "1 / 1000000" 64] by auto
  let ?d = "fsub (Fin 1) (fl (q * r))"
  have d: "\<not> fle ?d (Fin 0)" "fdiv (Fin 1) ?d = Some s"
    using assms q r by (auto simp: source_to_local_scale_def Let_def split: if_splits option.splits)
  have "fle (Fin 0) (fl (1 / x))" if "0 < x" for x using fl_mono [of 0 "1 / x"] that by simp
  moreover have "fle NInf (Fin 0)" "\<not> fle PInf (Fin 0)" by (simp_all add: fle_def)
  ultimately show ?thesis using d by (cases "fl (q * r)"; cases ?d) (auto simp: fsub_def not_le)
qed

lemma fit_model_scale: "fit_model c drifts ps = Inr (Some m) \<Longrightarrow> fle (Fin 0) (am_scale m)"
  by (auto simp: fit_model_def model_at_def Let_def split: if_splits dest: scale_nonneg)

text \<open>An evaluation the discipline produced.\<close>

definition genuine :: "affine_setup \<Rightarrow> qualification_evaluation \<Rightarrow> bool" where
  "genuine S ev \<longleftrightarrow> (\<exists>snap d. evaluate_snapshot S snap d = Inr ev)"

lemma provisional_model_scale: "provisional_model S d = Inr (Some m) \<Longrightarrow> fle (Fin 0) (am_scale m)"
  by (auto simp: provisional_model_def Let_def split: if_splits option.splits dest!: fit_model_scale)

lemma genuine_scale:
  assumes "genuine S ev" "ev_model ev = Some m"
  shows "fle (Fin 0) (am_scale m)"
proof -
  obtain snap d where "evaluate_snapshot S snap d = Inr ev" using assms(1) by (auto simp: genuine_def)
  then show ?thesis using assms(2)
    by (auto simp: evaluate_snapshot_def Let_def split: if_splits option.splits prod.splits dest!: fit_model_scale)
qed

lemma all_ok_map_of:
  "all_ok (\<lambda>n. obind (f n) (\<lambda>v. Inr (n, g v))) ns = Inr ws \<Longrightarrow> n \<in> set ns \<Longrightarrow>
     \<exists>v. f n = Inr v \<and> map_of ws n = Some (g v)"
  by (induction ns arbitrary: ws) auto

lemma age_windows_Inr:
  "age_windows S values = Inr ws \<Longrightarrow> n \<in> set (affine_names S) \<Longrightarrow>
     \<exists>v. values n = Inr v \<and> ws n = Some (deque_of (retained_samples_per_stream (as_config S)) v)"
  using all_ok_map_of [where f = "values" and g = "deque_of (retained_samples_per_stream (as_config S))"]
  by (auto simp: age_windows_def)

lemma approve_drift_frame:
  "steady d (snd (approve_drift S m a d))"
  "fst (approve_drift S m a d) = Inr u \<Longrightarrow> core_of (snd (approve_drift S m a d)) = core_of d \<and>
     recovery_of (snd (approve_drift S m a d)) = recovery_of d \<and> sd_state (snd (approve_drift S m a d)) = sd_state d"
  by (auto simp: approve_drift_def steady_def core_of_def recovery_of_def Let_def split: option.splits if_splits)


lemma lock_affine_cases:
  "steady d (snd (lock_affine S identity now off drift ev d)) \<and>
     (sd_state d = LOCKED \<or> (\<exists>x. fst (lock_affine S identity now off drift ev d) = Inl x)) \<or>
   sd_state d = QUALIFYING \<and> identity \<and>
   (\<exists>m cached ws d1. lock_candidate S now ev d = Inr ([], Some m, cached) \<and>
      age_windows S (case cached of None \<Rightarrow> (\<lambda>n. all_ok (corrected_age m) (stream_samples d1 n))
                     | Some w \<Rightarrow> (\<lambda>n. Inr (the (map_of w n)))) = Inr ws \<and>
      core_of d1 = core_of d \<and> recovery_of d1 = recovery_of d \<and>
      lock_affine S identity now off drift ev d = (Inr m, commit_affine m ws now d1))"
proof (cases "sd_state d = QUALIFYING \<and> identity \<and> (\<exists>m cached. lock_candidate S now ev d = Inr ([], Some m, cached))")
  case True
  then obtain m cached where c: "lock_candidate S now ev d = Inr ([], Some m, cached)" by blast
  obtain r d1 where a: "approve_drift S m drift d = (r, d1)" by (cases "approve_drift S m drift d")
  let ?w = "obind (approve_offset S m off) (\<lambda>_. age_windows S (case cached of
      None \<Rightarrow> (\<lambda>n. all_ok (corrected_age m) (stream_samples d1 n)) | Some ws \<Rightarrow> (\<lambda>n. Inr (the (map_of ws n)))))"
  have u: "lock_affine S identity now off drift ev d =
      (case r of Inl ex \<Rightarrow> (Inl ex, d1) | Inr _ \<Rightarrow>
        (case ?w of Inl ex \<Rightarrow> (Inl ex, d1) | Inr windows \<Rightarrow> (Inr m, commit_affine m windows now d1)))"
    using True c a by (simp add: lock_affine_def)
  note f = approve_drift_frame [where d = d and S = S and m = m and a = drift, unfolded a, simplified]
  show ?thesis
  proof (cases r)
    case (Inr x)
    then show ?thesis using True c f(2) u steady_same [of d1 d] f(1) by (cases ?w) auto
  qed (use u f(1) in auto)
next
  case False
  then show ?thesis
    by (intro disjI1) (cases "sd_state d";
      auto simp: lock_affine_def Let_def split: sum.splits option.splits if_splits)
qed


lemma lock_approved_cases:
  "snd (lock_approved S drift identity now d) = d \<or>
   sd_state d = QUALIFYING \<and> identity \<and>
   (\<exists>m s ws. af_start d = Some s \<and> s + APPROVED_AFFINE_ANCHOR_WINDOW_NS \<le> now \<and>
      approved_model S drift (max s (now - APPROVED_AFFINE_ANCHOR_WINDOW_NS)) now d = Inr (m, ws) \<and>
      lock_approved S drift identity now d = (Inr m, (commit_affine m ws now d)\<lparr>drift_diagnostics :=
        Some (AnchorReport (core_stream_drifts_ppm m) (am_drift_ppm m) (max s (now - APPROVED_AFFINE_ANCHOR_WINDOW_NS)) now)\<rparr>))"
  by (cases "sd_state d")
    (auto simp: lock_approved_def Let_def split: sum.splits option.splits if_splits)


lemma length_deque_of: "length xs \<le> nat k \<Longrightarrow> length (deque_of k xs) = length xs"
  by (simp add: deque_of_def)

lemma commit_inv:
  assumes "affine_inv S d" "core_of d1 = core_of d" "recovery_active d1 = recovery_active d" "sd_state d = QUALIFYING"
    "fle (Fin 0) (am_scale m)"
    "\<And>n. n \<in> set (affine_names S) \<Longrightarrow> \<exists>v. ws n = Some v \<and> length v = length (stream_samples d n)"
  shows "affine_inv S (commit_affine m ws now d1)"
proof -
  have "core_of (commit_affine m ws now d1) = (Some m, Some ws, stream_states d, observed_continuity d, af_start d)"
    using assms(2) by (simp add: core_of_def commit_affine_def)
  then have f: "stream_states (commit_affine m ws now d1) = stream_states d"
      "observed_continuity (commit_affine m ws now d1) = observed_continuity d"
      "af_start (commit_affine m ws now d1) = af_start d"
      "locked_affine_model (commit_affine m ws now d1) = Some m" "locked_corrected_ages (commit_affine m ws now d1) = Some ws"
    by (simp_all add: core_of_def)
  have "sd_state (commit_affine m ws now d1) = LOCKED" by (simp add: commit_affine_def)
  then show ?thesis using assms(1,5,6)
    by (simp add: affine_inv_def samples_inv_def aligned_def state_inv_def cached_ages_def stream_samples_def f)
qed

lemma candidate_windows:
  assumes "affine_inv S d" "lock_candidate S now ev d = Inr ([], Some m, cached)"
    "age_windows S (case cached of None \<Rightarrow> (\<lambda>n. all_ok (corrected_age m) (stream_samples d n))
                     | Some w \<Rightarrow> (\<lambda>n. Inr (the (map_of w n)))) = Inr ws"
    "n \<in> set (affine_names S)"
  shows "\<exists>v. ws n = Some v \<and> length v = length (stream_samples d n)"
proof -
  have len: "length (stream_samples d n) \<le> nat (retained_samples_per_stream (as_config S))"
    using assms(1) by (simp add: affine_inv_def samples_inv_def)
  obtain v where v: "(case cached of None \<Rightarrow> (\<lambda>n. all_ok (corrected_age m) (stream_samples d n))
                     | Some w \<Rightarrow> (\<lambda>n. Inr (the (map_of w n)))) n = Inr v"
      "ws n = Some (deque_of (retained_samples_per_stream (as_config S)) v)"
    using age_windows_Inr [OF assms(3,4)] by blast
  have "length v = length (stream_samples d n)"
  proof (cases ev)
    case None
    then have "cached = None" using assms(2) by (auto simp: lock_candidate_def)
    then show ?thesis using v(1) all_ok_length by auto
  next
    case (Some x)
    then have "cached = Some (ev_windows x)" "\<not> stream_changed (ev_snapshot x) d n"
        "length (the (map_of (ev_windows x) n)) = length (ssn_samples (snapshot_of (ev_snapshot x) n))"
      using assms(2,4) by (auto simp: lock_candidate_def Let_def list_all_iff list_ex_iff)
    then show ?thesis using v(1) by (simp add: stream_changed_def stream_samples_def Let_def)
  qed
  then show ?thesis using v(2) len by (simp add: length_deque_of)
qed

lemma candidate_scale:
  assumes "lock_candidate S now ev d = Inr (rs, Some m, cached)" "\<And>x. ev = Some x \<Longrightarrow> genuine S x"
  shows "fle (Fin 0) (am_scale m)"
  using assms genuine_scale provisional_model_scale
  by (cases ev) (auto simp: lock_candidate_def Let_def)

lemma approved_model_Inr:
  assumes "affine_inv S d" "approved_model S drift start now d = Inr (m, ws)"
  shows "fle (Fin 0) (am_scale m)"
    "n \<in> set (affine_names S) \<Longrightarrow> \<exists>v. ws n = Some v \<and> length v = length (stream_samples d n)"
proof -
  show "fle (Fin 0) (am_scale m)"
    using assms(2) by (auto simp: approved_model_def anchor_approved_def model_at_def Let_def dest: scale_nonneg)
  assume n: "n \<in> set (affine_names S)"
  have len: "length (stream_samples d n) \<le> nat (retained_samples_per_stream (as_config S))"
    using assms(1) by (simp add: affine_inv_def samples_inv_def)
  have "age_windows S (\<lambda>n. all_ok (corrected_age m) (stream_samples d n)) = Inr ws"
    using assms(2) by (auto simp: approved_model_def Let_def)
  then obtain v where "all_ok (corrected_age m) (stream_samples d n) = Inr v"
      "ws n = Some (deque_of (retained_samples_per_stream (as_config S)) v)"
    using age_windows_Inr [OF _ n] by blast
  then show "\<exists>v. ws n = Some v \<and> length v = length (stream_samples d n)"
    using all_ok_length len by (fastforce simp: length_deque_of)
qed

section \<open>Every call\<close>

lemma poll_steady: "steady d (snd (affine_poll S now d))" "\<not> cr_accepted (fst (affine_poll S now d))"
proof -
  let ?h = "recovery_health S now d" let ?b = "affine_breakers S now d"
  have u: "affine_poll S now d =
     (if sd_state d = FAULTED then (faulted_result d, d)
      else if sd_state d \<noteq> LOCKED then (refuse ''affine_not_locked'' (sd_state d), d)
      else if \<not> positive_int now then fault ''invalid_poll_time'' [] d
      else if recovery_active d
      then (case fst ?h of Some r \<Rightarrow> r | None \<Rightarrow> refuse ''locked_receipt_recovered'' (sd_state (snd ?h)), snd ?h)
      else (case fst ?b of Some r \<Rightarrow> r | None \<Rightarrow> refuse ''healthy_no_sample'' (sd_state (snd ?b)), snd ?b))"
    by (auto simp: affine_poll_def split: option.split prod.split)
  show "steady d (snd (affine_poll S now d))"
    using steady_recovery_health [of d S now] affine_breakers_frame(1) [of d S now] by (simp add: u)
  show "\<not> cr_accepted (fst (affine_poll S now d))"
    using recovery_health_proj(4) [of S now d] affine_breakers_frame(3) [where S = S and now = now and d = d]
    by (auto simp: u affine_frame split: option.split)
qed

lemma gate_steady: "steady d (snd (post_evaluation_gate S ev rt mt sp d))"
  by (auto simp: post_evaluation_gate_def Let_def steady_base split: sum.split)

lemma reject_steady: "steady d (snd (reject_qualification S ev d))"
  by (auto simp: reject_qualification_def steady_def core_of_def Let_def split: sum.split)

definition affine_event_ok :: "affine_setup \<Rightarrow> affine_event \<Rightarrow> bool" where
  "affine_event_ok S ev \<longleftrightarrow> (case ev of ALock _ _ _ _ (Some x) \<Rightarrow> genuine S x | _ \<Rightarrow> True)"

lemma inv_lock_affine:
  assumes "affine_inv S d" "\<And>x. ev = Some x \<Longrightarrow> genuine S x"
  shows "affine_inv S (snd (lock_affine S identity now off drift ev d))"
  using lock_affine_cases [of d S identity now off drift ev]
proof (elim disjE conjE exE)
  assume "steady d (snd (lock_affine S identity now off drift ev d))"
  then show ?thesis by (rule inv_steady [OF assms(1)])
next
  assume "steady d (snd (lock_affine S identity now off drift ev d))"
  then show ?thesis by (rule inv_steady [OF assms(1)])
next
  fix m cached ws d1
  assume q: "sd_state d = QUALIFYING" and c: "lock_candidate S now ev d = Inr ([], Some m, cached)"
    and w: "age_windows S (case cached of None \<Rightarrow> (\<lambda>n. all_ok (corrected_age m) (stream_samples d1 n))
                     | Some w \<Rightarrow> (\<lambda>n. Inr (the (map_of w n)))) = Inr ws"
    and f: "core_of d1 = core_of d" "recovery_of d1 = recovery_of d"
    and l: "lock_affine S identity now off drift ev d = (Inr m, commit_affine m ws now d1)"
  have "stream_samples d1 = stream_samples d" using core_fields(3) [OF f(1)] by (simp add: stream_samples_def fun_eq_iff)
  note w = w [unfolded this]
  have "recovery_active d1 = recovery_active d" using f(2) by (simp add: recovery_of_def)
  then show ?thesis
    using commit_inv [OF assms(1) f(1) _ q candidate_scale [OF c assms(2)] candidate_windows [OF assms(1) c w]] l
    by simp
qed

lemma inv_lock_approved:
  assumes "affine_inv S d"
  shows "affine_inv S (snd (lock_approved S drift identity now d))"
  using lock_approved_cases [of S drift identity now d]
proof (elim disjE conjE exE)
  fix m s ws
  assume q: "sd_state d = QUALIFYING"
    and a: "approved_model S drift (max s (now - APPROVED_AFFINE_ANCHOR_WINDOW_NS)) now d = Inr (m, ws)"
    and l: "lock_approved S drift identity now d = (Inr m, (commit_affine m ws now d)\<lparr>drift_diagnostics :=
        Some (AnchorReport (core_stream_drifts_ppm m) (am_drift_ppm m) (max s (now - APPROVED_AFFINE_ANCHOR_WINDOW_NS)) now)\<rparr>)"
  have "affine_inv S (commit_affine m ws now d)"
    using commit_inv [OF assms refl refl q approved_model_Inr(1) [OF assms a] approved_model_Inr(2) [OF assms a]] .
  moreover have "steady x (x\<lparr>drift_diagnostics := r\<rparr>)" for x r by (simp add: steady_def core_of_def)
  ultimately show ?thesis using inv_steady l by simp
qed (use assms in simp)

lemma inv_affine_step:
  assumes "affine_inv S d" "affine_event_ok S ev"
  shows "affine_inv S (snd (affine_step S ev d))"
proof (cases ev)
  case (ASample e)
  then show ?thesis using observing.observe_closed [OF assms(1)] by simp
next
  case (ALock identity now off drift x)
  then have "\<And>y. x = Some y \<Longrightarrow> genuine S y" using assms(2) by (auto simp: affine_event_ok_def)
  then show ?thesis using ALock inv_lock_affine [OF assms(1)] by simp
qed (use assms(1) inv_steady [OF assms(1)] poll_steady(1) gate_steady reject_steady inv_lock_approved
    in \<open>simp_all add: affine_lock_def affine_lock_fixed_def\<close>)

lemma affine_init_inv:
  assumes "affine_init S = Inr d"
  shows "affine_inv S d"
proof -
  obtain b where b: "discipline_init (as_config S) = Inr b" "list_all fst (core_checks S)"
      "d = stamp_discipline.extend b (affine_discipline.fields (qualification_start S) (\<lambda>_. None) (\<lambda>_. False) None None None None None
            False 0 (\<lambda>_. 0) (\<lambda>_. None) (\<lambda>_. None))"
    using assms by (auto simp: affine_init_def)
  then have v: "validate_config (as_config S) = Inr ()" and s: "stream_states b = (\<lambda>_. stream_init)" "sd_state b = QUALIFYING"
    by (auto simp: discipline_init_def)
  have "stream_names (as_config S) \<noteq> []" using validated_streams [OF v] by auto
  moreover have "0 < x" if "qualification_start S = Some x" for x
    using b(2) that by (simp add: core_checks_def Let_def positive_int_def)
  ultimately show ?thesis
    using s b(3) by (simp add: affine_inv_def samples_inv_def aligned_def state_inv_def affine_names_def stream_samples_def
        stream_init_def stamp_discipline.defs affine_discipline.defs)
qed

end
