(* ===== verification/AffineSession.thy ===== *)
theory AffineSession imports AffineInvariant StampProperties begin

text \<open>
  Whole sessions of an \<open>AffineNavigationStampDiscipline\<close>: the frozen model, the fault latch, the
  order of accepted stamps, and what receipt recovery demands before output resumes.
\<close>

section \<open>What an accepted correction says\<close>

lemma locked_check_Inr:
  assumes "locked_check S e d = Inr (stamp, age)"
  shows "\<exists>m. locked_affine_model d = Some m \<and> affine_corrected_stamp_ns m (ob_source e) = Inr stamp \<and>
    age = ob_realtime e - stamp \<and> - max_corrected_future_ns (as_config S) \<le> age \<and>
    age \<le> max_corrected_age_ns (policy_of (as_config S) (ob_stream e)) \<and>
    (\<forall>least. minimum_locked_corrected_age_ns (as_config S) = Some least \<longrightarrow> least \<le> age)"
  using assms
  by (auto simp: locked_check_def Let_def split: option.splits sum.splits affine_exc.splits if_splits)

lemma locked_check_quiet: "locked_check S e d = Inl (Inr r, d') \<Longrightarrow> \<not> cr_accepted r"
  by (auto simp: locked_check_def Let_def map_prod_id refuse_def enter_recovery_frame(3) fault_frame(4)
      split: option.splits sum.splits affine_exc.splits if_splits)

definition correction_accepted :: "affine_exc + correction_result \<Rightarrow> bool" where
  "correction_accepted r \<longleftrightarrow> (case r of Inr x \<Rightarrow> cr_accepted x | Inl _ \<Rightarrow> False)"

lemma correction_accepted_simps [simp]:
  "correction_accepted (Inr r) = cr_accepted r" "correction_accepted (Inl x) = False"
  by (simp_all add: correction_accepted_def)

definition kept_sample :: "affine_setup \<Rightarrow> observation \<Rightarrow> int \<Rightarrow> affine_discipline \<Rightarrow> affine_discipline" where
  "kept_sample S e age d = cache_age S (ob_stream e) age (take_sample S e d)"

lemma accept_sample_accepted:
  assumes "correction_accepted (fst (accept_sample S e d))"
  shows "\<exists>stamp age. sd_state d = LOCKED \<and> locked_check S e d = Inr (stamp, age) \<and>
    accept_sample S e d = replied (finish_locked S e stamp (kept_sample S e age d)) \<and>
    cr_accepted (fst (finish_locked S e stamp (kept_sample S e age d)))"
proof -
  have l: "sd_state d = LOCKED"
    using assms by (auto simp: accept_sample_def correction_accepted_def refuse_def split: if_splits)
  show ?thesis
  proof (cases "locked_check S e d")
    case (Inl r)
    then show ?thesis using assms l locked_check_quiet [of S e d]
      by (cases r) (auto simp: accept_sample_def correction_accepted_def split: sum.splits)
  next
    case (Inr sa)
    then show ?thesis using assms l
      by (cases sa) (auto simp: accept_sample_def correction_accepted_def kept_sample_def Let_def fault_frame(4) split: if_splits)
  qed
qed

lemma delta_discontinuity_quiet: "\<not> cr_accepted (fst (delta_discontinuity S e sd rd limit d))"
proof -
  have "\<not> cr_accepted y" if "enter_recovery S r g d = (y, b)" for r g y b
    using enter_recovery_frame(3) [of S r g d] that by simp
  then show ?thesis
    by (auto simp: delta_discontinuity_def Let_def restart_qualification_def refuse_def fault_frame(4)
        split: prod.split option.split)
qed

lemma observe_sample_accepted:
  assumes "correction_accepted (fst (observe_sample S e d))"
  shows "observe_sample S e d = accept_sample S e d" "advances e d"
proof -
  consider "observed_continuity d (ob_stream e) = None" | s r where "observed_continuity d (ob_stream e) = Some (s, r)"
    by fastforce
  then have "observe_sample S e d = accept_sample S e d \<and> advances e d"
  proof cases
    case (2 s r)
    then show ?thesis using assms delta_discontinuity_quiet
      by (auto simp: observe_sample_def advances_def fault_frame(4) Let_def split: if_splits)
  qed (simp add: observe_sample_def advances_def)
  then show "observe_sample S e d = accept_sample S e d" "advances e d" by blast+
qed

lemma affine_observe_unfold:
  assumes "correction_accepted (fst (affine_observe S e d))"
  shows "entry_fault (as_config S) e d = None"
    "affine_observe S e d = observe_sample S e (enter_if_stale S (ob_monotonic e)
       (d\<lparr>last_clock_base_ns := Some (ob_realtime e - ob_monotonic e)\<rparr>))"
proof -
  show n: "entry_fault (as_config S) e d = None"
  proof (cases "entry_fault (as_config S) e d")
    case (Some r)
    then show ?thesis using assms by (auto simp: affine_observe_def Let_def fault_frame(4) split: if_splits)
  qed
  show "affine_observe S e d = observe_sample S e (enter_if_stale S (ob_monotonic e)
       (d\<lparr>last_clock_base_ns := Some (ob_realtime e - ob_monotonic e)\<rparr>))"
    using assms n by (auto simp: affine_observe_def Let_def restart_qualification_def refuse_def split: if_splits)
qed

lemma observe_accepted:
  assumes "correction_accepted (fst (affine_observe S e d))"
  shows "\<exists>d2 stamp age. steady d d2 \<and> sd_state d = LOCKED \<and> sd_state d2 = LOCKED \<and> sound_entry S e \<and> advances e d \<and>
    (recovery_active d \<longrightarrow> recovery_of d2 = recovery_of d) \<and>
    locked_check S e d2 = Inr (stamp, age) \<and>
    affine_observe S e d = replied (finish_locked S e stamp (kept_sample S e age d2)) \<and>
    cr_accepted (fst (finish_locked S e stamp (kept_sample S e age d2)))"
proof -
  let ?d1 = "d\<lparr>last_clock_base_ns := Some (ob_realtime e - ob_monotonic e)\<rparr>"
  let ?d2 = "enter_if_stale S (ob_monotonic e) ?d1"
  note obs = affine_observe_unfold(2,1) [OF assms]
  have st: "steady d ?d2" by (rule steady_trans [OF steady_base steady_enter_if_stale])
  note acc = observe_sample_accepted [of S e ?d2, OF assms [unfolded obs(1)]]
  obtain stamp age where a: "sd_state ?d2 = LOCKED" "locked_check S e ?d2 = Inr (stamp, age)"
      "accept_sample S e ?d2 = replied (finish_locked S e stamp (kept_sample S e age ?d2))"
      "cr_accepted (fst (finish_locked S e stamp (kept_sample S e age ?d2)))"
    using accept_sample_accepted [OF assms [unfolded obs(1) acc(1)]] by (elim exE conjE) (rule that)
  have l: "sd_state d = LOCKED" using a(1) enter_if_stale_state [of S _ ?d1] by simp
  have ad: "advances e d" using acc(2) st [unfolded steady_def] steady_advances [of ?d2 d e] by blast
  have r: "recovery_active d \<longrightarrow> recovery_of ?d2 = recovery_of d" by (simp add: enter_if_stale_def recovery_of_def)
  have eq: "affine_observe S e d = replied (finish_locked S e stamp (kept_sample S e age ?d2))"
    using obs(1) acc(1) a(3) by simp
  show ?thesis
    by (intro exI [of _ ?d2] exI [of _ stamp] exI [of _ age] conjI) (fact st l a(1) entry_ok [OF obs(2)] ad r a(2) eq a(4))+
qed


section \<open>The frozen model\<close>

text \<open>Once a model is frozen no observation replaces it, and the last kept source of a stream never goes back.\<close>

definition model_frozen :: "affine_setup \<Rightarrow> affine_clock_model \<Rightarrow> affine_discipline \<Rightarrow> bool" where
  "model_frozen S m d \<longleftrightarrow> affine_inv S d \<and> locked_affine_model d = Some m"

definition kept_source :: "affine_setup \<Rightarrow> affine_clock_model \<Rightarrow> string \<Rightarrow> int \<Rightarrow> affine_discipline \<Rightarrow> bool" where
  "kept_source S m n s d \<longleftrightarrow> model_frozen S m d \<and> (\<exists>t \<ge> s. last_source_ns (stream_states d n) = Some t)"

lemma frozen_not_qualifying: "model_frozen S m d \<Longrightarrow> sd_state d \<noteq> QUALIFYING"
  by (auto simp: model_frozen_def affine_inv_def state_inv_def)

lemma steady_fields:
  "steady d d' \<Longrightarrow> locked_affine_model d' = locked_affine_model d" "steady d d' \<Longrightarrow> stream_states d' = stream_states d"
  "steady d d' \<Longrightarrow> observed_continuity d' = observed_continuity d"
  by (simp_all add: steady_def core_of_def)

lemma frozen_steady: "model_frozen S m d \<Longrightarrow> steady d d' \<Longrightarrow> model_frozen S m d'"
  unfolding model_frozen_def using inv_steady steady_fields(1) by metis

lemma advances_kept:
  assumes "affine_inv S d" "advances e d" "last_source_ns (stream_states d (ob_stream e)) = Some t"
  shows "t < ob_source e"
proof -
  obtain s r where "observed_continuity d (ob_stream e) = Some (s, r)" "t \<le> s"
    using assms(1,3) unfolding affine_inv_def samples_inv_def by blast
  then show ?thesis using assms(2) by (fastforce simp: advances_def)
qed

interpretation freezing: sample_closed S e "kept_source S m n s" for S e m n s
proof
  fix a b k g age
  show "kept_source S m n s a \<Longrightarrow> steady a b \<Longrightarrow> kept_source S m n s b"
    using frozen_steady steady_fields(2) by (fastforce simp: kept_source_def)
  show "kept_source S m n s a \<Longrightarrow> sound_entry S e \<Longrightarrow> advances e a \<Longrightarrow> kept_source S m n s (note_continuity e k a)"
    using observing.noted by (auto simp: kept_source_def model_frozen_def)
  show "kept_source S m n s a \<Longrightarrow> kept_source S m n s (put_stream (ob_stream e)
      (stream_states a (ob_stream e)\<lparr>duplicates := duplicates (stream_states a (ob_stream e)) + 1\<rparr>) a)"
    using observing.repeated by (auto simp: kept_source_def model_frozen_def)
  show "kept_source S m n s a \<Longrightarrow> sound_entry S e \<Longrightarrow> sd_state a = QUALIFYING \<Longrightarrow>
      kept_source S m n s (snd (restart_qualification S e g a))"
    using frozen_not_qualifying by (auto simp: kept_source_def)
  show "kept_source S m n s a \<Longrightarrow> sound_entry S e \<Longrightarrow> sd_state a = QUALIFYING \<Longrightarrow> advances e a \<Longrightarrow>
      kept_source S m n s (start_window S (take_sample S e a))"
    using frozen_not_qualifying by (auto simp: kept_source_def)
  show "kept_source S m n s a \<Longrightarrow> sound_entry S e \<Longrightarrow> sd_state a = LOCKED \<Longrightarrow> advances e a \<Longrightarrow>
      kept_source S m n s (cache_age S (ob_stream e) age (take_sample S e a))"
    using observing.kept [of S a e age] advances_kept [of S a e]
    by (fastforce simp: kept_source_def model_frozen_def)
qed

text \<open>The same for the model alone.\<close>

interpretation modelled: sample_closed S e "model_frozen S m" for S e m
proof
  fix a b k g age
  show "model_frozen S m a \<Longrightarrow> steady a b \<Longrightarrow> model_frozen S m b" by (rule frozen_steady)
  show "model_frozen S m a \<Longrightarrow> sound_entry S e \<Longrightarrow> advances e a \<Longrightarrow> model_frozen S m (note_continuity e k a)"
    using observing.noted by (auto simp: model_frozen_def)
  show "model_frozen S m a \<Longrightarrow> model_frozen S m (put_stream (ob_stream e)
      (stream_states a (ob_stream e)\<lparr>duplicates := duplicates (stream_states a (ob_stream e)) + 1\<rparr>) a)"
    using observing.repeated by (auto simp: model_frozen_def)
  show "model_frozen S m a \<Longrightarrow> sound_entry S e \<Longrightarrow> sd_state a = QUALIFYING \<Longrightarrow> model_frozen S m (snd (restart_qualification S e g a))"
    using frozen_not_qualifying by auto
  show "model_frozen S m a \<Longrightarrow> sound_entry S e \<Longrightarrow> sd_state a = QUALIFYING \<Longrightarrow> advances e a \<Longrightarrow>
      model_frozen S m (start_window S (take_sample S e a))"
    using frozen_not_qualifying by auto
  show "model_frozen S m a \<Longrightarrow> sound_entry S e \<Longrightarrow> sd_state a = LOCKED \<Longrightarrow> advances e a \<Longrightarrow>
      model_frozen S m (cache_age S (ob_stream e) age (take_sample S e a))"
    using observing.kept by (auto simp: model_frozen_def)
qed

text \<open>Every other call of a session with a frozen model is steady.\<close>

lemma frozen_model_steady:
  assumes "model_frozen S m d" "\<not> (\<exists>e. ev = ASample e)"
  shows "steady d (snd (affine_step S ev d))"
proof -
  have q: "sd_state d \<noteq> QUALIFYING" using frozen_not_qualifying [OF assms(1)] .
  have "steady d (snd (lock_affine S identity now off drift x d))" "steady d (snd (lock_approved S dr identity now d))"
    for identity now off drift x dr
    using lock_affine_cases [of d S identity now off drift x] lock_approved_cases [of S dr identity now d] q by auto
  then show ?thesis using assms(2)
    by (cases ev) (auto simp: poll_steady gate_steady reject_steady affine_lock_def affine_lock_fixed_def)
qed

lemma frozen_model_step: "model_frozen S m d \<Longrightarrow> model_frozen S m (snd (affine_step S ev d))"
  using modelled.observe_closed frozen_model_steady frozen_steady by (cases ev) fastforce+

lemma kept_source_step: "kept_source S m n s d \<Longrightarrow> kept_source S m n s (snd (affine_step S ev d))"
proof (cases "\<exists>e. ev = ASample e")
  case False
  assume k: "kept_source S m n s d"
  then have "steady d (snd (affine_step S ev d))" using frozen_model_steady [of S m d ev] False by (auto simp: kept_source_def)
  then show ?thesis using freezing.steady k by blast
qed (use freezing.observe_closed in auto)


section \<open>What an accepted sample leaves behind\<close>

lemma observe_accepted_facts:
  assumes "affine_inv S d" "correction_accepted (fst (affine_observe S e d))"
  shows "\<exists>r m stamp. fst (affine_observe S e d) = Inr r \<and> sd_state d = LOCKED \<and> sound_entry S e \<and> advances e d \<and>
    locked_affine_model d = Some m \<and> affine_corrected_stamp_ns m (ob_source e) = Inr stamp \<and>
    corrected_stamp_ns r = Some stamp \<and>
    - max_corrected_future_ns (as_config S) \<le> ob_realtime e - stamp \<and>
    ob_realtime e - stamp \<le> max_corrected_age_ns (policy_of (as_config S) (ob_stream e)) \<and>
    (\<forall>least. minimum_locked_corrected_age_ns (as_config S) = Some least \<longrightarrow> least \<le> ob_realtime e - stamp) \<and>
    all_live S (ob_monotonic e) (snd (affine_observe S e d)) \<and>
    sd_state (snd (affine_observe S e d)) = LOCKED \<and> \<not> recovery_active (snd (affine_observe S e d)) \<and>
    last_source_ns (stream_states (snd (affine_observe S e d)) (ob_stream e)) = Some (ob_source e)"
proof -
  obtain d2 stamp age where o: "steady d d2" "sd_state d = LOCKED" "sd_state d2 = LOCKED" "sound_entry S e" "advances e d"
      "locked_check S e d2 = Inr (stamp, age)"
      "affine_observe S e d = replied (finish_locked S e stamp (kept_sample S e age d2))"
      "cr_accepted (fst (finish_locked S e stamp (kept_sample S e age d2)))"
    using observe_accepted [OF assms(2)] by blast
  let ?k = "kept_sample S e age d2"
  have k: "sd_state ?k = LOCKED" using o(3) by (simp add: kept_sample_def)
  note f = finish_locked_frame(1) [OF k, of S e stamp] finish_locked_frame(2) [OF k o(8)]
  have ss: "stream_states (snd (affine_observe S e d)) = stream_states ?k" using f(1) o(7) steady_fields(2) by simp
  have m: "locked_affine_model d2 = locked_affine_model d" using steady_fields(1) [OF o(1)] .
  have live: "all_live S (ob_monotonic e) (snd (affine_observe S e d))" using f(2) all_live_core [OF ss] by blast
  have last: "last_source_ns (stream_states (snd (affine_observe S e d)) (ob_stream e)) = Some (ob_source e)"
    unfolding ss by (simp add: kept_sample_def)
  show ?thesis
    using locked_check_Inr [OF o(6)] o(2,4,5,7) f(2) live last m by auto
qed

section \<open>The stamps of a session\<close>

text \<open>Stream, source stamp and corrected stamp of every accepted observation, in order.\<close>

fun affine_stamp_of :: "affine_event \<Rightarrow> affine_output \<Rightarrow> (string \<times> int \<times> int) list" where
  "affine_stamp_of (ASample e) (ACorrection (Inr r)) =
     (if cr_accepted r then [(ob_stream e, ob_source e, the (corrected_stamp_ns r))] else [])"
| "affine_stamp_of _ _ = []"

definition affine_stamps :: "affine_setup \<Rightarrow> affine_event list \<Rightarrow> affine_discipline \<Rightarrow> (string \<times> int \<times> int) list" where
  "affine_stamps S es d = concat (map2 affine_stamp_of es (outputs (affine_step S) es d))"

lemma affine_stamps_simps [simp]:
  "affine_stamps S [] d = []"
  "affine_stamps S (ev # es) d = affine_stamp_of ev (fst (affine_step S ev d)) @ affine_stamps S es (snd (affine_step S ev d))"
  by (simp_all add: affine_stamps_def)

lemma affine_stamp_of_in:
  assumes "(n, s, t) \<in> set (affine_stamp_of ev (fst (affine_step S ev d)))"
  shows "\<exists>e. ev = ASample e \<and> correction_accepted (fst (affine_observe S e d)) \<and> n = ob_stream e \<and> s = ob_source e \<and>
    (\<exists>r. fst (affine_observe S e d) = Inr r \<and> t = the (corrected_stamp_ns r))"
proof (cases ev)
  case (ASample e)
  then show ?thesis using assms by (cases "fst (affine_observe S e d)") (auto split: if_splits)
qed (use assms in auto)

lemma stamp_frozen:
  assumes "affine_inv S d" "(n, s, t) \<in> set (affine_stamp_of ev (fst (affine_step S ev d)))"
  shows "\<exists>m. model_frozen S m d \<and> kept_source S m n s (snd (affine_step S ev d)) \<and> affine_corrected_stamp_ns m s = Inr t \<and>
    (\<forall>u. last_source_ns (stream_states d n) = Some u \<longrightarrow> u < s)"
proof -
  obtain e r where e: "ev = ASample e" "correction_accepted (fst (affine_observe S e d))" "n = ob_stream e" "s = ob_source e"
      "fst (affine_observe S e d) = Inr r" "t = the (corrected_stamp_ns r)"
    using affine_stamp_of_in [OF assms(2)] by blast
  obtain m where m: "locked_affine_model d = Some m" "affine_corrected_stamp_ns m s = Inr t" "advances e d"
      "last_source_ns (stream_states (snd (affine_observe S e d)) n) = Some s"
    using observe_accepted_facts [OF assms(1) e(2)] e(3-6) by auto
  have fr: "model_frozen S m d" using m(1) assms(1) by (simp add: model_frozen_def)
  have "kept_source S m n s (snd (affine_step S ev d))"
    using frozen_model_step [OF fr, of ev] m(4) e(1) by (simp add: kept_source_def)
  then show ?thesis using fr m(2) advances_kept [OF assms(1) m(3)] e(3,4) by blast
qed

lemma affine_inv_final: "affine_inv S d \<Longrightarrow> list_all (affine_event_ok S) es \<Longrightarrow> affine_inv S (final (affine_step S) es d)"
  by (induction es arbitrary: d) (simp_all add: inv_affine_step)

lemma frozen_final: "model_frozen S m d \<Longrightarrow> model_frozen S m (final (affine_step S) es d)"
  by (induction es arbitrary: d) (simp_all add: frozen_model_step)

lemma affine_stamps_model:
  assumes "affine_inv S d" "list_all (affine_event_ok S) es" "(n, s, t) \<in> set (affine_stamps S es d)"
  shows "\<exists>m. model_frozen S m (final (affine_step S) es d) \<and> affine_corrected_stamp_ns m s = Inr t"
  using assms
proof (induction es arbitrary: d)
  case (Cons ev es)
  have inv: "affine_inv S (snd (affine_step S ev d))" using Cons.prems(1,2) by (simp add: inv_affine_step)
  consider "(n, s, t) \<in> set (affine_stamp_of ev (fst (affine_step S ev d)))" | "(n, s, t) \<in> set (affine_stamps S es (snd (affine_step S ev d)))"
    using Cons.prems(3) by auto
  then show ?case
  proof cases
    case 1
    then show ?thesis using stamp_frozen [OF Cons.prems(1)] frozen_model_step frozen_final by (metis final_simps(2))
  qed (use Cons.IH [OF inv] Cons.prems(2) in simp)
qed simp

lemma kept_source_stamps:
  assumes "kept_source S m n u d"
  shows "list_all (\<lambda>s. u < s) (stream_stamps n (affine_stamps S es d))"
  using assms
proof (induction es arbitrary: d)
  case Nil
  then show ?case by (simp add: stream_stamps_def)
next
  case (Cons ev es)
  have inv: "affine_inv S d" using Cons.prems by (simp add: kept_source_def model_frozen_def)
  obtain v where v: "u \<le> v" "last_source_ns (stream_states d n) = Some v" using Cons.prems by (auto simp: kept_source_def)
  have "u < s" if "(n, s, t) \<in> set (affine_stamp_of ev (fst (affine_step S ev d)))" for s t
    using stamp_frozen [OF inv that] v by fastforce
  then have "list_all (\<lambda>s. u < s) (stream_stamps n (affine_stamp_of ev (fst (affine_step S ev d))))"
    by (auto simp: stream_stamps_def list_all_iff)
  then show ?case using Cons.IH [OF kept_source_step [OF Cons.prems]] by (simp add: stream_stamps_def)
qed

lemma affine_stamp_of_short: "affine_stamp_of ev out = [] \<or> (\<exists>x. affine_stamp_of ev out = [x])"
  by (cases "(ev, out)" rule: affine_stamp_of.cases) auto

lemma affine_stamps_increasing:
  "affine_inv S d \<Longrightarrow> list_all (affine_event_ok S) es \<Longrightarrow> sorted_wrt (<) (stream_stamps n (affine_stamps S es d))"
proof (induction es arbitrary: d)
  case Nil
  then show ?case by (simp add: stream_stamps_def)
next
  case (Cons ev es)
  let ?out = "fst (affine_step S ev d)" let ?d = "snd (affine_step S ev d)"
  have rest: "sorted_wrt (<) (stream_stamps n (affine_stamps S es ?d))"
    using Cons by (simp add: inv_affine_step)
  consider "affine_stamp_of ev ?out = []" | k s t where "affine_stamp_of ev ?out = [(k, s, t)]"
    using affine_stamp_of_short [of ev ?out] by (metis prod_cases3)
  then show ?case
  proof cases
    case (2 k s t)
    then obtain m where "kept_source S m k s ?d" using stamp_frozen [OF Cons.prems(1), of k s t ev] by auto
    then have "list_all (\<lambda>s'. s < s') (stream_stamps k (affine_stamps S es ?d))" by (rule kept_source_stamps)
    then show ?thesis using 2 rest by (auto simp: stream_stamps_def list_all_iff)
  qed (use rest in simp)
qed

section \<open>The fault latch\<close>

fun affine_accepted :: "affine_output \<Rightarrow> bool" where
  "affine_accepted (ACorrection r) \<longleftrightarrow> correction_accepted r"
| "affine_accepted _ \<longleftrightarrow> False"

interpretation affine: latch_system "affine_step S" "\<lambda>_. affine_event_ok S" "affine_inv S"
  "\<lambda>d. sd_state d = FAULTED" "\<lambda>out. \<not> affine_accepted out" for S
proof
  fix d ev
  show "affine_inv S d \<Longrightarrow> affine_event_ok S ev \<Longrightarrow> affine_inv S (snd (affine_step S ev d))" by (rule inv_affine_step)
  show "sd_state d = FAULTED \<Longrightarrow> sd_state (snd (affine_step S ev d)) = FAULTED"
    by (cases ev) (auto simp: affine_observe_def affine_poll_def lock_affine_def lock_approved_def post_evaluation_gate_def
        reject_qualification_def affine_lock_def affine_lock_fixed_def Let_def split: sum.split)
  show "sd_state d = FAULTED \<Longrightarrow> \<not> affine_accepted (fst (affine_step S ev d))"
    by (cases ev) (auto simp: affine_observe_def affine_poll_def)
qed

section \<open>Receipt recovery\<close>

definition sample_hit :: "string \<Rightarrow> affine_event \<Rightarrow> int" where
  "sample_hit n ev = (case ev of ASample e \<Rightarrow> if ob_stream e = n then 1 else 0 | _ \<Rightarrow> 0)"

text \<open>A call during recovery either stays silent and counts at most its own sample, or had enough samples.\<close>

definition recovering :: "string \<Rightarrow> int \<Rightarrow> bool \<Rightarrow> affine_discipline \<Rightarrow> affine_discipline \<Rightarrow> bool" where
  "recovering n hit accepted d d' \<longleftrightarrow>
     recovery_active d' \<and> \<not> accepted \<and> recovery_samples d' n \<le> recovery_samples d n + hit \<or>
     RECOVERY_REQUIRED_SAMPLES \<le> recovery_samples d n + hit"

lemma recovering_same: "recovery_active d \<Longrightarrow> recovery_of d' = recovery_of d \<Longrightarrow> 0 \<le> hit \<Longrightarrow> recovering n hit False d d'"
  by (simp add: recovering_def recovery_of_def)

lemma recovery_of_simps [simp]:
  "recovery_of (snd (fault r g d)) = recovery_of d" "recovery_of (note_continuity e k d) = recovery_of d"
  "recovery_of (put_stream m ss d) = recovery_of d" "recovery_of (d\<lparr>last_clock_base_ns := b\<rparr>) = recovery_of d"
  by (simp_all add: fault_def recovery_of_def)

lemma locked_check_recovering:
  assumes "recovery_active d" "locked_check S e d = Inl (x, d')"
  shows "recovery_of d' = recovery_of d \<and> \<not> correction_accepted x"
proof -
  have r: "recovery_of (snd (enter_recovery S r g d)) = recovery_of d" "\<not> cr_accepted (fst (enter_recovery S r g d))" for r g
    using enter_recovery_frame(3,4) assms(1) by blast+
  show ?thesis using assms(2) r
    by (auto simp: locked_check_def Let_def map_prod_id refuse_def fault_frame(4)
        split: option.splits sum.splits affine_exc.splits if_splits)
qed

lemma accept_sample_recovering:
  assumes "recovery_active d" "sd_state d = LOCKED" "n \<in> set (affine_names S)"
  shows "recovering n (if n = ob_stream e then 1 else 0) (correction_accepted (fst (accept_sample S e d))) d (snd (accept_sample S e d))"
proof (cases "locked_check S e d")
  case (Inl o1)
  then show ?thesis using assms locked_check_recovering [OF assms(1), of S e "fst o1" "snd o1"]
    by (auto simp: accept_sample_def intro!: recovering_same)
next
  case (Inr sa)
  obtain stamp age where sa: "sa = (stamp, age)" by (cases sa)
  let ?k = "kept_sample S e age d"
  have k: "recovery_active ?k" "sd_state ?k = LOCKED" "recovery_samples ?k = recovery_samples d" "recovery_of ?k = recovery_of d"
    using assms by (simp_all add: kept_sample_def recovery_of_def)
  show ?thesis
  proof (cases "length (the (cached_ages ?k (ob_stream e))) = length (stream_samples ?k (ob_stream e))")
    case True
    then have "accept_sample S e d = replied (finish_locked S e stamp ?k)"
      using assms(2) Inr sa by (simp add: accept_sample_def kept_sample_def Let_def)
    then show ?thesis using finish_locked_frame(3) [OF k(2,1) assms(3), of e stamp] k(3) by (simp add: recovering_def)
  next
    case False
    then have "accept_sample S e d = replied (fault (''affine_corrected_age_cache_misaligned:'' @ ob_stream e) [] ?k)"
      using assms(2) Inr sa by (simp add: accept_sample_def kept_sample_def Let_def)
    then show ?thesis using assms(1) k(4) by (auto simp: fault_frame(4) intro!: recovering_same)
  qed
qed

lemma delta_recovering:
  assumes "recovery_active d" "sd_state d = LOCKED"
  shows "recovery_of (snd (delta_discontinuity S e sd rd limit d)) = recovery_of d"
proof -
  have h: "recovery_of b = recovery_of d" if "noncore_drop_health S n now d = (y, b)" for n now y b
    using noncore_drop_frame(2) [of S n now d] that by simp
  have r: "recovery_of b = recovery_of d" if "enter_recovery S r g d = (y, b)" for r g y b
    using enter_recovery_frame(4) [OF assms(1), of S r g] that by simp
  show ?thesis using assms(2) h r
    by (auto simp: delta_discontinuity_def Let_def split: prod.split option.split)
qed

lemma observe_sample_recovering:
  assumes "recovery_active d" "sd_state d = LOCKED" "n \<in> set (affine_names S)"
  shows "recovering n (if n = ob_stream e then 1 else 0) (correction_accepted (fst (observe_sample S e d))) d (snd (observe_sample S e d))"
proof -
  note a = accept_sample_recovering [OF assms, of e]
  note q = recovering_same [OF assms(1), of _ "if n = ob_stream e then 1 else 0" n]
  consider "observed_continuity d (ob_stream e) = None" | s r where "observed_continuity d (ob_stream e) = Some (s, r)" by fastforce
  then show ?thesis
  proof cases
    case 1
    then show ?thesis using a by (simp add: observe_sample_def)
  next
    case (2 s r)
    then show ?thesis
      using a q delta_recovering [OF assms(1,2)] delta_discontinuity_quiet fault_frame(4)
      by (auto simp: observe_sample_def Let_def refuse_def simp del: replied_snd)
  qed
qed


lemma affine_observe_recovering:
  assumes "affine_inv S d" "recovery_active d" "n \<in> set (affine_names S)"
  shows "recovering n (if n = ob_stream e then 1 else 0) (correction_accepted (fst (affine_observe S e d))) d (snd (affine_observe S e d))"
proof -
  let ?d = "d\<lparr>last_clock_base_ns := Some (ob_realtime e - ob_monotonic e)\<rparr>"
  have q: "sd_state d \<noteq> QUALIFYING" using assms(1,2) by (auto simp: affine_inv_def state_inv_def)
  have same: "recovering n (if n = ob_stream e then 1 else 0) False d d'" if "recovery_of d' = recovery_of d" for d'
    using recovering_same [OF assms(2) that] by simp
  consider "sd_state d = FAULTED" | r where "sd_state d \<noteq> FAULTED" "entry_fault (as_config S) e d = Some r"
    | "sd_state d = LOCKED" "entry_fault (as_config S) e d = None" using q by (cases "sd_state d"; fastforce)
  then show ?thesis
  proof cases
    case 3
    then have "affine_observe S e d = observe_sample S e ?d"
      using assms(2) by (simp add: affine_observe_def enter_if_stale_def Let_def)
    moreover have "recovering n hit acc ?d x \<longleftrightarrow> recovering n hit acc d x" for hit acc x by (simp add: recovering_def)
    ultimately show ?thesis using observe_sample_recovering [of ?d n S e] assms(2,3) 3(1) by simp
  qed (use same in \<open>simp_all add: affine_observe_def Let_def fault_frame(4)\<close>)
qed

lemma poll_recovering:
  assumes "recovery_active d" "n \<in> set (affine_names S)"
  shows "recovering n 0 False d (snd (affine_poll S now d))"
proof -
  have same: "recovering n 0 False d d'" if "recovery_of d' = recovery_of d" for d'
    using recovering_same [OF assms(1) that] by simp
  note h = recovery_health_proj [of S now d]
  show ?thesis
  proof (cases "sd_state d = LOCKED \<and> positive_int now")
    case True
    then have p: "snd (affine_poll S now d) = snd (recovery_health S now d)"
      using assms(1) by (auto simp: affine_poll_def split: option.split prod.split)
    show ?thesis
    proof (cases "fst (recovery_health S now d)")
      case None
      then show ?thesis using h(5) assms(2) by (simp add: recovering_def fresh_samples_def)
    next
      case (Some r)
      then show ?thesis using h(3) h(4) [OF Some] assms(1) p by (simp add: recovering_def)
    qed
  qed (use same in \<open>auto simp: affine_poll_def\<close>)
qed

lemma affine_step_recovering:
  assumes "affine_inv S d" "recovery_active d" "n \<in> set (affine_names S)"
  shows "recovering n (sample_hit n ev) (affine_accepted (fst (affine_step S ev d))) d (snd (affine_step S ev d))"
proof -
  have q: "sd_state d \<noteq> QUALIFYING" using assms(1,2) by (auto simp: affine_inv_def state_inv_def)
  have same: "recovering n 0 False d d'" if "recovery_of d' = recovery_of d" for d'
    using recovering_same [OF assms(2) that] by simp
  show ?thesis
  proof (cases ev)
    case (ASample e)
    then show ?thesis using affine_observe_recovering [OF assms, of e] by (auto simp: sample_hit_def)
  next
    case (APoll now)
    then show ?thesis using poll_recovering [OF assms(2,3), of now] poll_steady(2) by (simp add: sample_hit_def)
  next
    case (AGate x rt mt sp)
    then show ?thesis using same by (auto simp: sample_hit_def post_evaluation_gate_def Let_def split: sum.split)
  next
    case (AReject x)
    have "recovery_of (d\<lparr>sd_state := a, sd_fault_reason := b\<rparr>) = recovery_of d" for a b by (simp add: recovery_of_def)
    then show ?thesis using AReject same by (auto simp: sample_hit_def reject_qualification_def Let_def split: sum.split)
  next
    case (ALock identity now off drift x)
    then show ?thesis using same q
      by (cases "sd_state d") (auto simp: sample_hit_def lock_affine_def Let_def split: option.split)
  next
    case (ALockApproved drift identity now)
    then show ?thesis using same lock_approved_cases [of S drift identity now d] q by (auto simp: sample_hit_def)
  qed (use same in \<open>simp_all add: sample_hit_def affine_lock_def affine_lock_fixed_def\<close>)
qed

lemma sample_hit_nonneg [simp]: "0 \<le> sample_hit n ev"
  by (auto simp: sample_hit_def split: affine_event.split)

lemma recovery_trace:
  assumes "affine_inv S d" "list_all (affine_event_ok S) es" "recovery_active d" "n \<in> set (affine_names S)"
    "\<exists>out \<in> set (outputs (affine_step S) es d). affine_accepted out"
  shows "RECOVERY_REQUIRED_SAMPLES \<le> recovery_samples d n + sum_list (map (sample_hit n) es)"
  using assms
proof (induction es arbitrary: d)
  case (Cons ev es)
  let ?d = "snd (affine_step S ev d)"
  have rest: "0 \<le> sum_list (map (sample_hit n) es)" by (rule sum_list_nonneg) auto
  consider "RECOVERY_REQUIRED_SAMPLES \<le> recovery_samples d n + sample_hit n ev"
    | "recovery_active ?d" "\<not> affine_accepted (fst (affine_step S ev d))"
      "recovery_samples ?d n \<le> recovery_samples d n + sample_hit n ev"
    using affine_step_recovering [OF Cons.prems(1,3,4), of ev] by (auto simp: recovering_def)
  then show ?case
  proof cases
    case 2
    have "RECOVERY_REQUIRED_SAMPLES \<le> recovery_samples ?d n + sum_list (map (sample_hit n) es)"
      using Cons.IH [of ?d] Cons.prems 2(1,2) by (simp add: inv_affine_step)
    then show ?thesis using 2(3) by simp
  qed (use rest in simp)
qed simp

end
