(* ===== verification/AffineEquivalence.thy ===== *)
theory AffineEquivalence imports AffineInvariant begin

text \<open>
  The single-pass terminal evaluation of an \<open>AffineNavigationStampDiscipline\<close> agrees with the live
  routines it replaces: the interval evidence, the candidate model and the corrected ages a lock
  freezes are the ones recomputed from the live samples.
\<close>

section \<open>The partition\<close>

lemma partition_windows_filter:
  assumes "start \<le> split" "split \<le> stop"
  shows "partition_windows start split stop xs =
    (filter (within_receipts start split False) xs, filter (within_receipts split stop True) xs,
     filter (within_receipts start stop True) xs)"
  using assms by (induction xs) (auto simp: within_receipts_def)

lemma snapshot_of_capture:
  assumes "capture_snapshot S d now = Inr snap" "n \<in> set (affine_names S)"
  shows "snapshot_of snap n = stream_snapshot_of d n"
proof -
  have "qs_streams snap = map (stream_snapshot_of d) (affine_names S)"
    using assms(1) by (auto simp: capture_snapshot_def split: if_splits option.splits)
  moreover have "\<exists>y. find (\<lambda>s. ssn_name s = n) (map (stream_snapshot_of d) ns) = Some (stream_snapshot_of d n)" if "n \<in> set ns" for ns
    using that by (induction ns) (auto simp: stream_snapshot_of_def Let_def)
  ultimately show ?thesis using assms(2) by (simp add: snapshot_of_def)
qed

lemma capture_fields:
  assumes "capture_snapshot S d now = Inr snap"
  shows "\<exists>s w. af_start d = Some s \<and> affine_qualification_window_ns (as_config S) = Some w \<and>
    qs_start snap = s \<and> qs_end snap = s + 2 * w \<and> qs_evaluation snap = now \<and> s + 2 * w \<le> now \<and> 0 < now"
  using assms by (auto simp: capture_snapshot_def qualification_deadline_def positive_int_def split: if_splits option.splits)

section \<open>The candidate\<close>

lemma affine_corrected_baseline [simp]:
  "affine_corrected_stamp_ns (m\<lparr>stream_baseline_corrected_age_ns := b\<rparr>) s = affine_corrected_stamp_ns m s"
  by (simp add: affine_corrected_stamp_ns_def Let_def split: option.split)

lemma corrected_age_baseline [simp]: "corrected_age (m\<lparr>stream_baseline_corrected_age_ns := b\<rparr>) = corrected_age m"
  by (simp add: fun_eq_iff corrected_age_def offset_at_source_ns_def)

lemma all_ok_filter: "all_ok f xs = Inr ys \<Longrightarrow> all_ok f (filter p xs) = Inr (map snd (filter (\<lambda>(x, y). p x) (zip xs ys)))"
  by (induction xs arbitrary: ys) auto

lemma candidate_streams_baselines:
  assumes "candidate_streams c m start stop raw ns = Inr (reasons, bs, ws)"
  shows "provisional_baselines c m (\<lambda>n. filter (within_receipts start stop True) (raw n)) ns =
      Inr (if length bs = length ns then Some bs else None) \<and> length bs \<le> length ns \<and>
    (length bs = length ns \<longrightarrow> map fst ws = ns \<and> (\<forall>n \<in> set ns. \<exists>v. map_of ws n = Some v \<and> all_ok (corrected_age m) (raw n) = Inr v))"
  using assms
proof (induction ns arbitrary: reasons bs ws)
  case (Cons n ns)
  obtain ages where a: "all_ok (corrected_age m) (raw n) = Inr ages" using Cons.prems by auto
  let ?q = "map snd (filter (\<lambda>(s, a). within_receipts start stop True s) (zip (raw n) ages))"
  have f: "all_ok (corrected_age m) (filter (within_receipts start stop True) (raw n)) = Inr ?q" by (rule all_ok_filter [OF a])
  show ?case
  proof (cases "?q = []")
    case True
    then show ?thesis using Cons.prems a f by (auto simp: Let_def)
  next
    case False
    then obtain r b w where rest: "candidate_streams c m start stop raw ns = Inr (r, b, w)"
        "bs = (n, the (quantile ?q (lower_quantile c))) # b" "ws = (n, ages) # w"
      using Cons.prems a by (auto simp: Let_def)
    show ?thesis using Cons.IH [OF rest(1)] False a f rest(2,3) by auto
  qed
qed auto


lemma candidate_streams_cong:
  "(\<And>n. n \<in> set ns \<Longrightarrow> f n = g n) \<Longrightarrow> candidate_streams c m start stop f ns = candidate_streams c m start stop g ns"
proof (induction ns)
  case (Cons n ns)
  then have eq: "candidate_streams c m start stop f ns = candidate_streams c m start stop g ns" "f n = g n" by simp_all
  show ?case unfolding candidate_streams.simps eq ..
qed simp

section \<open>The evaluation\<close>

lemma setup_cores:
  assumes "affine_init S = Inr d0"
  shows "set (core_streams S) \<subseteq> set (affine_names S)" "reference_stream (as_config S) \<in> set (affine_names S)"
    "affine_qualification_window_ns (as_config S) = Some w \<Longrightarrow> 0 < w"
proof -
  have v: "validate_config (as_config S) = Inr ()" and k: "list_all fst (core_checks S)"
    using assms by (auto simp: affine_init_def discipline_init_def)
  show "set (core_streams S) \<subseteq> set (affine_names S)" using k by (simp add: core_checks_def affine_names_def Let_def)
  show "reference_stream (as_config S) \<in> set (affine_names S)" using validated_streams [OF v] by (simp add: affine_names_def)
  show "affine_qualification_window_ns (as_config S) = Some w \<Longrightarrow> 0 < w"
    using v by (auto simp: validate_config_def window_check_def SECOND_NS_def Let_def split: if_splits)
qed

lemma common_drift_available:
  "length (available_drifts ds) = length ds \<longleftrightarrow> \<not> list_ex (\<lambda>(n, dr). dr = None) ds"
  "\<not> list_ex (\<lambda>(n, dr). dr = None) ds \<Longrightarrow> available_drifts ds = map (map_prod id the) ds"
proof -
  have le: "length (available_drifts ds) \<le> length ds" for ds
    by (induction ds) (auto simp: available_drifts_def List.map_filter_simps split: option.split)
  show "length (available_drifts ds) = length ds \<longleftrightarrow> \<not> list_ex (\<lambda>(n, dr). dr = None) ds"
  proof (induction ds)
    case (Cons x ds)
    then show ?case using le [of ds] by (cases x; cases "snd x") (auto simp: available_drifts_def List.map_filter_simps split: option.split)
  qed (simp add: available_drifts_def List.map_filter_simps)
  show "\<not> list_ex (\<lambda>(n, dr). dr = None) ds \<Longrightarrow> available_drifts ds = map (map_prod id the) ds"
    by (induction ds) (auto simp: available_drifts_def List.map_filter_simps split: option.split)
qed

text \<open>The evaluation over the live samples, with its windows spelled out.\<close>

definition live_evaluation ::
  "affine_setup \<Rightarrow> affine_discipline \<Rightarrow> int \<Rightarrow> int \<Rightarrow> int \<Rightarrow> qualification_evaluation \<Rightarrow> bool" where
  "live_evaluation S d s split stop ev \<longleftrightarrow>
     (let c = as_config S; drifts = iv_drifts (drift_interval_evidence S d s stop True);
          both = (\<lambda>n. filter (within_receipts s stop True) (stream_samples d n)) in
      ev_intervals ev = (drift_interval_evidence S d s split False, drift_interval_evidence S d split stop True,
                         drift_interval_evidence S d s stop True) \<and>
      (if length (available_drifts drifts) \<noteq> length drifts then ev_model ev = None
       else case fit_model c (available_drifts drifts) (envelope c s (both (reference_stream c))) of
           Inl _ \<Rightarrow> False
         | Inr None \<Rightarrow> ev_model ev = None
         | Inr (Some m) \<Rightarrow>
           (case candidate_streams c m s stop (stream_samples d) (affine_names S) of
              Inl _ \<Rightarrow> False
            | Inr (rs, bs, ws) \<Rightarrow>
              if length bs = length (affine_names S)
              then ev_model ev = Some (m\<lparr>stream_baseline_corrected_age_ns := bs\<rparr>) \<and> ev_windows ev = ws
              else ev_model ev = None)))"

lemma live_evaluation_model:
  assumes "live_evaluation S d s split stop ev" "ev_model ev = Some m"
  shows "\<exists>m0 rs bs ws. candidate_streams (as_config S) m0 s stop (stream_samples d) (affine_names S) = Inr (rs, bs, ws) \<and>
    length bs = length (affine_names S) \<and> m = m0\<lparr>stream_baseline_corrected_age_ns := bs\<rparr> \<and> ev_windows ev = ws"
proof -
  let ?drifts = "iv_drifts (drift_interval_evidence S d s stop True)"
  let ?fit = "fit_model (as_config S) (available_drifts ?drifts)
    (envelope (as_config S) s (filter (within_receipts s stop True) (stream_samples d (reference_stream (as_config S)))))"
  obtain m0 where f: "length (available_drifts ?drifts) = length ?drifts" "?fit = Inr (Some m0)"
    using assms unfolding live_evaluation_def Let_def by (auto split: if_splits sum.splits option.splits)
  obtain rs bs ws where c: "candidate_streams (as_config S) m0 s stop (stream_samples d) (affine_names S) = Inr (rs, bs, ws)"
  proof (cases "candidate_streams (as_config S) m0 s stop (stream_samples d) (affine_names S)")
    case (Inr r)
    then show ?thesis using that by (cases r) blast
  qed (use assms(1) f in \<open>simp add: live_evaluation_def Let_def\<close>)
  show ?thesis using assms f c by (auto simp: live_evaluation_def Let_def split: if_splits)
qed

lemma evaluate_live:
  assumes "affine_init S = Inr d0" "capture_snapshot S d now = Inr snap" "evaluate_snapshot S snap d = Inr ev"
  shows "\<exists>s w stop. af_start d = Some s \<and> affine_qualification_window_ns (as_config S) = Some w \<and> stop = s + w + w \<and>
    live_evaluation S d s (s + w) stop ev"
proof -
  obtain s w where sw: "af_start d = Some s" "affine_qualification_window_ns (as_config S) = Some w"
    using capture_fields [OF assms(2)] by blast
  obtain stop where stop: "stop = s + w + w" by simp
  have w: "0 < w" by (rule setup_cores(3) [OF assms(1) sw(2)])
  have st: "qs_start snap = s" "qs_end snap = stop" using capture_fields [OF assms(2)] sw stop by auto
  have raw: "ssn_samples (snapshot_of snap n) = stream_samples d n" if "n \<in> set (affine_names S)" for n
    using snapshot_of_capture [OF assms(2) that] by (simp add: stream_snapshot_of_def stream_samples_def Let_def)
  have core: "ssn_samples (snapshot_of snap n) = stream_samples d n" if "n \<in> set (core_streams S)" for n
    using raw setup_cores(1) [OF assms(1)] that by blast
  have anchor: "anchor_of d = s" using sw(1) by (simp add: anchor_of_def)
  have part: "partition_windows s (s + w) stop xs =
     (filter (within_receipts s (s + w) False) xs, filter (within_receipts (s + w) stop True) xs,
      filter (within_receipts s stop True) xs)" for xs
    using w stop by (simp add: partition_windows_filter)
  have iv: "snapshot_interval S lo hi inc (\<lambda>n. filter (within_receipts lo hi inc) (ssn_samples (snapshot_of snap n)))
      (\<lambda>n. envelope (as_config S) s (filter (within_receipts lo hi inc) (ssn_samples (snapshot_of snap n)))) =
     drift_interval_evidence S d lo hi inc" for lo hi inc
    using core by (simp add: snapshot_interval_def drift_interval_evidence_def affine_metrics_for_def anchor Let_def cong: map_cong)
  have streams: "candidate_streams c m a b (\<lambda>n. ssn_samples (snapshot_of snap n)) (affine_names S) =
      candidate_streams c m a b (stream_samples d) (affine_names S)" for c m a b
    by (rule candidate_streams_cong) (rule raw)
  have len: "length (core_streams S) = length (iv_drifts (drift_interval_evidence S d s stop True))"
    by (simp add: drift_interval_evidence_def Let_def)
  have "live_evaluation S d s (s + w) stop ev"
    using assms(3) unfolding evaluate_snapshot_def st sw(2) option.sel Let_def part fst_conv snd_conv iv streams len
    by (auto simp: live_evaluation_def raw [OF setup_cores(2) [OF assms(1)]] Let_def
        split: if_splits option.splits sum.splits prod.splits)
  then show ?thesis using sw stop by blast
qed


lemma evaluation_model:
  assumes "affine_init S = Inr d0" "capture_snapshot S d now = Inr snap" "evaluate_snapshot S snap d = Inr ev"
  shows "affine_qualification_evidence S d = Some (ev_intervals ev)" "provisional_model S d = Inr (ev_model ev)"
    "ev_model ev = Some m \<Longrightarrow> n \<in> set (affine_names S) \<Longrightarrow>
       \<exists>v. map_of (ev_windows ev) n = Some v \<and> all_ok (corrected_age m) (stream_samples d n) = Inr v"
proof -
  obtain s w stop where l: "af_start d = Some s" "affine_qualification_window_ns (as_config S) = Some w" "stop = s + w + w"
      "live_evaluation S d s (s + w) stop ev"
    using evaluate_live [OF assms] by blast
  show evid: "affine_qualification_evidence S d = Some (ev_intervals ev)"
    using l by (simp add: affine_qualification_evidence_def live_evaluation_def Let_def)
  have samples: "model_samples S d n = filter (within_receipts s stop True) (stream_samples d n)" for n
    using l evid by (simp add: model_samples_def live_evaluation_def drift_interval_evidence_def Let_def)
  have anchor: "anchor_of d = s" using l(1) by (simp add: anchor_of_def)
  let ?c = "as_config S"
  let ?both = "\<lambda>n. filter (within_receipts s stop True) (stream_samples d n)"
  let ?drifts = "map (\<lambda>n. (n, theil_sen_age_drift_ppm (envelope ?c s (?both n)))) (core_streams S)"
  have drifts: "iv_drifts (drift_interval_evidence S d s stop True) = ?drifts"
    by (simp add: drift_interval_evidence_def affine_metrics_for_def anchor Let_def)
  have prov: "provisional_model S d = (if list_ex (\<lambda>(n, dr). dr = None) ?drifts then Inr None
      else obind (fit_model ?c (map (map_prod id the) ?drifts) (envelope ?c s (?both (reference_stream ?c)))) (\<lambda>fit.
        case fit of None \<Rightarrow> Inr None
        | Some m \<Rightarrow> obind (provisional_baselines ?c m ?both (affine_names S)) (\<lambda>bs.
            Inr (map_option (\<lambda>b. m\<lparr>stream_baseline_corrected_age_ns := b\<rparr>) bs))))"
    unfolding provisional_model_def Let_def samples anchor ..
  show "provisional_model S d = Inr (ev_model ev)"
  proof (cases "list_ex (\<lambda>(n, dr). dr = None) ?drifts")
    case True
    then show ?thesis using l(4) prov unfolding live_evaluation_def Let_def drifts common_drift_available(1) by simp
  next
    case False
    let ?fit = "fit_model ?c (map (map_prod id the) ?drifts) (envelope ?c s (?both (reference_stream ?c)))"
    let ?cs = "\<lambda>m. candidate_streams ?c m s stop (stream_samples d) (affine_names S)"
    have e: "case ?fit of Inl _ \<Rightarrow> False | Inr None \<Rightarrow> ev_model ev = None
      | Inr (Some m) \<Rightarrow> (case ?cs m of Inl _ \<Rightarrow> False
          | Inr (rs, bs, ws) \<Rightarrow> if length bs = length (affine_names S)
              then ev_model ev = Some (m\<lparr>stream_baseline_corrected_age_ns := bs\<rparr>) \<and> ev_windows ev = ws else ev_model ev = None)"
      using l(4) False unfolding live_evaluation_def Let_def drifts common_drift_available(1) common_drift_available(2) [OF False]
      by (simp only: not_not if_False simp_thms)
    obtain fit where fit: "?fit = Inr fit" using e by (cases ?fit) simp_all
    have "\<exists>rs bs ws. ?cs m = Inr (rs, bs, ws)" if "fit = Some m" for m
      using e fit that by (cases "?cs m") auto
    then consider "?fit = Inr None" "ev_model ev = None" | m rs bs ws where "?fit = Inr (Some m)" "?cs m = Inr (rs, bs, ws)"
        "if length bs = length (affine_names S)
         then ev_model ev = Some (m\<lparr>stream_baseline_corrected_age_ns := bs\<rparr>) \<and> ev_windows ev = ws else ev_model ev = None"
      using e fit by (cases fit) fastforce+
    then show ?thesis
    proof cases
      case (2 m rs bs ws)
      note b = candidate_streams_baselines [OF 2(2)]
      show ?thesis using 2(1,3) b False unfolding prov by (auto split: if_splits)
    qed (use prov False in simp)
  qed
  show "\<exists>v. map_of (ev_windows ev) n = Some v \<and> all_ok (corrected_age m) (stream_samples d n) = Inr v"
    if mo: "ev_model ev = Some m" and n: "n \<in> set (affine_names S)"
  proof -
    obtain m0 rs bs ws where "candidate_streams ?c m0 s stop (stream_samples d) (affine_names S) = Inr (rs, bs, ws)"
        "length bs = length (affine_names S)" "m = m0\<lparr>stream_baseline_corrected_age_ns := bs\<rparr>" "ev_windows ev = ws"
      using live_evaluation_model [OF l(4) mo] by blast
    then show ?thesis using candidate_streams_baselines n by fastforce
  qed
qed


section \<open>Locking from the evaluation\<close>

lemma all_ok_cong: "(\<And>x. x \<in> set xs \<Longrightarrow> f x = g x) \<Longrightarrow> all_ok f xs = all_ok g xs"
  by (induction xs) auto

lemma age_windows_cong: "(\<And>n. n \<in> set (affine_names S) \<Longrightarrow> f n = g n) \<Longrightarrow> age_windows S f = age_windows S g"
  unfolding age_windows_def using all_ok_cong [of "affine_names S"] by (metis (no_types, lifting))

lemma lock_affine_Inr:
  assumes "lock_affine S identity now off drift ev d = (Inr m, d')" "sd_state d = QUALIFYING"
  shows "\<exists>cached. lock_candidate S now ev d = Inr ([], Some m, cached) \<and> identity \<and>
    (\<exists>d1 ws. approve_drift S m drift d = (Inr (), d1) \<and> approve_offset S m off = Inr () \<and>
       age_windows S (case cached of None \<Rightarrow> (\<lambda>n. all_ok (corrected_age m) (stream_samples d1 n))
                     | Some w \<Rightarrow> (\<lambda>n. Inr (the (map_of w n)))) = Inr ws \<and>
       d' = commit_affine m ws now d1)"
  using assms
  by (auto simp: lock_affine_def Let_def split: if_splits sum.splits option.splits prod.splits)

lemma cached_lock:
  assumes "affine_init S = Inr d0" "capture_snapshot S d at0 = Inr snap" "evaluate_snapshot S snap d = Inr ev"
    "sd_state d = QUALIFYING"
    "lock_affine S identity now off drift (Some ev) d = (Inr m, d1)" "lock_affine S identity now off drift None d = (Inr m', d2)"
  shows "m = m' \<and> d1 = d2"
proof -
  note model = evaluation_model [OF assms(1,2,3)]
  obtain cached e1 w1 where c: "lock_candidate S now (Some ev) d = Inr ([], Some m, cached)"
      "approve_drift S m drift d = (Inr (), e1)" 
      "age_windows S (case cached of None \<Rightarrow> (\<lambda>n. all_ok (corrected_age m) (stream_samples e1 n))
                     | Some w \<Rightarrow> (\<lambda>n. Inr (the (map_of w n)))) = Inr w1" "d1 = commit_affine m w1 now e1"
    using lock_affine_Inr [OF assms(5,4)] by blast
  obtain cached' e2 w2 where l: "lock_candidate S now None d = Inr ([], Some m', cached')"
      "approve_drift S m' drift d = (Inr (), e2)" 
      "age_windows S (case cached' of None \<Rightarrow> (\<lambda>n. all_ok (corrected_age m') (stream_samples e2 n))
                     | Some w \<Rightarrow> (\<lambda>n. Inr (the (map_of w n)))) = Inr w2" "d2 = commit_affine m' w2 now e2"
    using lock_affine_Inr [OF assms(6,4)] by blast
  have mm: "ev_model ev = Some m" "cached = Some (ev_windows ev)" "cached' = None" "m' = m"
    using c(1) l(1) model(2) by (auto simp: lock_candidate_def Let_def)
  have e: "e1 = e2" using c(2) l(2) mm(4) by simp
  have "stream_samples e2 = stream_samples d"
    using approve_drift_frame(2) [of S m drift d "()"] c(2) e core_fields(3) [of e2 d] by (simp add: stream_samples_def fun_eq_iff)
  then have "age_windows S (\<lambda>n. Inr (the (map_of (ev_windows ev) n))) =
      age_windows S (\<lambda>n. all_ok (corrected_age m) (stream_samples e2 n))"
    using model(3) [OF mm(1)] by (intro age_windows_cong) fastforce
  then show ?thesis using c(3,4) l(3,4) mm e by simp
qed

end
