(* ===== verification/AffineDemo.thy ===== *)
theory AffineDemo imports AffineSession AffineEquivalence begin

text \<open>
  A concrete affine session: two core streams at one sample per second and constant age, two windows
  of ten seconds, a lock, an outage of ten seconds and the recovery from it.
\<close>

definition af_policy :: "string \<Rightarrow> stream_policy" where
  "af_policy n = policy n 100000000 2000000000 1500000000 10000000 11"

definition af_config :: discipline_config where
  "af_config = (default_config ''imu'' ''go2'' [af_policy ''imu'', af_policy ''odom''])
     \<lparr>minimum_qualification_span_ns := 10 * SECOND_NS, affine_qualification_window_ns := Some (10 * SECOND_NS),
      drift_bin_ns := 2500000000, locked_statistics_enabled := False\<rparr>"

definition af_setup :: affine_setup where
  "af_setup = \<lparr>as_config = af_config, core_streams = [''imu'', ''odom''], qualification_start = None, allow_recovery = True\<rparr>"

definition af_sample :: "string \<Rightarrow> int \<Rightarrow> observation" where
  "af_sample n k = \<lparr>ob_stream = n, ob_source = (1000 + k) * SECOND_NS, ob_realtime = (1000 + k) * SECOND_NS + 20000000,
     ob_monotonic = k * SECOND_NS, ob_domain = ''go2'', ob_read_span = 1000\<rparr>"

definition af_samples :: "nat \<Rightarrow> stamp_sample list" where
  "af_samples k = map (\<lambda>i. ((1000 + int i) * SECOND_NS, int i * SECOND_NS, 20000000)) [1..<Suc k]"

definition af_stream :: "nat \<Rightarrow> stream_state" where
  "af_stream k = \<lparr>ss_samples = af_samples k, last_source_ns = Some ((1000 + int k) * SECOND_NS),
     last_receipt_ns = Some (int k * SECOND_NS), advancing = int k, duplicates = 0\<rparr>"

text \<open>The qualifying session after \<open>i\<close> samples of the first and \<open>j\<close> of the second stream.\<close>

definition af_state :: "nat \<Rightarrow> nat \<Rightarrow> affine_discipline" where
  "af_state i j = \<lparr>sd_state = QUALIFYING, sd_fault_reason = None, locked_offset_ns = None,
     stream_states = (\<lambda>_. stream_init)(''imu'' := (if i = 0 then stream_init else af_stream i),
                                       ''odom'' := (if j = 0 then stream_init else af_stream j)),
     last_clock_base_ns = (if i = 0 then None else Some (1000 * SECOND_NS + 20000000)), last_statistics_ns = None,
     af_start = (if j = 0 then None else Some SECOND_NS),
     observed_continuity = (\<lambda>_. None)(''imu'' := (if i = 0 then None else Some ((1000 + int i) * SECOND_NS, int i * SECOND_NS)),
                                      ''odom'' := (if j = 0 then None else Some ((1000 + int j) * SECOND_NS, int j * SECOND_NS))),
     continuity_is_last_good = (\<lambda>_. False)(''imu'' := 0 < i, ''odom'' := 0 < j),
     locked_affine_model = None, locked_corrected_ages = None, drift_diagnostics = None, affine_lock_monotonic = None,
     affine_lock_clock_base = None, recovery_active = False, recovery_count = 0, recovery_samples = (\<lambda>_. 0),
     pre_gap_receipt = (\<lambda>_. None), gap_waivers = (\<lambda>_. None)\<rparr>"

lemmas af_defs = af_setup_def af_config_def af_policy_def policy_def default_config_def SECOND_NS_def

lemma af_valid: "validate_config af_config = Inr ()"
  by (simp add: validate_config_def basic_checks_def window_check_def rate_checks_def locked_drop_checks_def qualifying_drop_checks_def
      drop_checks_def Let_def recovery_checks_def policy_checks_def stream_names_def in_range_def fin_range_def af_defs)

lemma af_names: "affine_names af_setup = [''imu'', ''odom'']" "as_config af_setup = af_config" "streams af_config = [af_policy ''imu'', af_policy ''odom'']"
    "core_streams af_setup = [''imu'', ''odom'']" "sp_name (af_policy n) = n" "reference_stream af_config = ''imu''"
  by (simp_all add: affine_names_def stream_names_def af_defs)

lemma af_init: "affine_init af_setup = Inr (af_state 0 0)"
  using af_valid
  by (auto simp: affine_init_def discipline_init_def core_checks_def af_names stream_names_def af_state_def
      stamp_discipline.defs affine_discipline.defs Let_def fun_eq_iff) (simp_all add: af_defs)

lemma af_append: "k < 100 \<Longrightarrow> deque_append 20000 (af_samples k) ((1000 + (1 + int k)) * SECOND_NS, (1 + int k) * SECOND_NS, 20000000) = af_samples (Suc k)"
  by (simp add: deque_append_def af_samples_def algebra_simps)


lemmas af_observe_defs = affine_observe_def entry_fault_def affine_names_def stream_names_def positive_int_def in_range_def
  enter_if_stale_def observe_sample_def accept_sample_def start_window_def take_sample_def note_continuity_def put_stream_def
  record_sample_def delta_limit_def policy_of_def stream_samples_def af_sample_def Let_def

lemma af_hd: "0 < k \<Longrightarrow> hd (af_samples k) = (1001 * SECOND_NS, SECOND_NS, 20000000)"
  by (simp add: af_samples_def upt_conv_Cons del: upt_Suc)

lemma af_samples_Nil: "af_samples k = [] \<longleftrightarrow> k = 0" "af_samples 0 = []"
  by (simp_all add: af_samples_def)

lemma af_config_simps: "expected_clock_domain af_config = ''go2''" "max_clock_read_span_ns af_config = 1000000"
  "max_clock_pair_discontinuity_ns af_config = 20000000" "max_source_receipt_delta_error_ns af_config = 50000000"
  "affine_restart_on_core_delta_discontinuity af_config = False" "retained_samples_per_stream af_config = 20000"
  "sp_delta_limit_ns (af_policy n) = None" "allow_recovery af_setup = True" "streams af_config = [af_policy ''imu'', af_policy ''odom'']"
  "as_config af_setup = af_config" "sp_name (af_policy n) = n"
  by (simp_all add: af_defs)

lemma af_observe_imu:
  assumes "k < 100"
  shows "affine_observe af_setup (af_sample ''imu'' (1 + int k)) (af_state k k) =
    (Inr (refuse ''affine_not_locked'' QUALIFYING), af_state (Suc k) k)"
  using af_append [OF assms]
  by (cases "k = 0") (simp_all add: af_observe_defs af_config_simps af_state_def af_stream_def stream_init_def SECOND_NS_def
      af_samples_Nil algebra_simps fun_eq_iff)


lemma af_observe_odom:
  assumes "k < 100"
  shows "affine_observe af_setup (af_sample ''odom'' (1 + int k)) (af_state (Suc k) k) =
    (Inr (refuse ''affine_not_locked'' QUALIFYING), af_state (Suc k) (Suc k))"
  using af_append [OF assms] af_hd [of "Suc k"]
  by (cases "k = 0") (simp_all add: af_observe_defs af_config_simps af_state_def af_stream_def stream_init_def SECOND_NS_def
      af_samples_Nil algebra_simps fun_eq_iff)

definition af_rounds :: "nat \<Rightarrow> affine_event list" where
  "af_rounds k = concat (map (\<lambda>i. [ASample (af_sample ''imu'' (1 + int i)), ASample (af_sample ''odom'' (1 + int i))]) [0..<k])"

lemma af_rounds_final: "k \<le> 100 \<Longrightarrow> final (affine_step af_setup) (af_rounds k) (af_state 0 0) = af_state k k"
proof (induction k)
  case (Suc k)
  then show ?case using af_observe_imu [of k] af_observe_odom [of k] by (simp add: af_rounds_def final_append)
qed (simp add: af_rounds_def)

section \<open>The fit\<close>

definition af_model :: affine_clock_model where
  "af_model = \<lparr>anchor_source_ns = 1021 * SECOND_NS, anchor_local_ns = 1021 * SECOND_NS + 15000000, am_drift_ppm = Fin 0,
     am_scale = Fin 1, core_stream_drifts_ppm = [(''imu'', Fin 0), (''odom'', Fin 0)],
     stream_baseline_corrected_age_ns = [(''imu'', 5000000), (''odom'', 5000000)]\<rparr>"

text \<open>With scale 1 the correction is a shift.\<close>

lemma unit_scale_corrected:
  assumes "am_scale m = Fin 1" "\<bar>s - anchor_source_ns m\<bar> \<le> 2 ^ 53" "0 < s"
    "0 < anchor_local_ns m + (s - anchor_source_ns m)" "anchor_local_ns m + (s - anchor_source_ns m) < 2 ^ 63"
  shows "affine_corrected_stamp_ns m s = Inr (anchor_local_ns m + (s - anchor_source_ns m))"
proof -
  have "fl (of_int (s - anchor_source_ns m)) = Fin (of_int (s - anchor_source_ns m))"
    using fl_dyadic [of "s - anchor_source_ns m" 0] assms(2) by simp
  then have "scaled_delta (s - anchor_source_ns m) (am_scale m) = Some (s - anchor_source_ns m)"
    unfolding scaled_delta_Some using assms(1) round_half_even_of_int [of "s - anchor_source_ns m"] by fastforce
  then show ?thesis using assms(3-5) by (simp add: affine_corrected_stamp_ns_def positive_int_def)
qed

lemma af_corrected_age:
  assumes "anchor_source_ns m = 1021 * SECOND_NS" "anchor_local_ns m = 1021 * SECOND_NS + 15000000" "am_scale m = Fin 1" "x \<in> set (af_samples 21)"
  shows "corrected_age m x = Inr 5000000"
proof -
  obtain i where i: "x = ((1000 + int i) * SECOND_NS, int i * SECOND_NS, 20000000)" "1 \<le> i" "i \<le> 21"
    using assms(4) unfolding af_samples_def set_map image_iff by (metis atLeastLessThan_upt atLeastLessThan_iff less_Suc_eq_le One_nat_def)
  have b: "1000000000000 \<le> (1000 + int i) * 1000000000" "(1000 + int i) * 1000000000 \<le> 1021000000000" using i(3) by simp_all
  have "affine_corrected_stamp_ns m ((1000 + int i) * SECOND_NS) = Inr ((1000 + int i) * SECOND_NS + 15000000)"
    using unit_scale_corrected [OF assms(3), of "(1000 + int i) * SECOND_NS"] b assms(1,2) by (simp add: SECOND_NS_def)
  then show ?thesis by (simp add: corrected_age_def offset_at_source_ns_def i)
qed

lemma all_ok_const: "(\<And>x. x \<in> set xs \<Longrightarrow> f x = Inr c) \<Longrightarrow> all_ok f xs = Inr (replicate (length xs) c)"
  by (induction xs) auto


definition af_at :: "int \<Rightarrow> stamp_sample" where
  "af_at i = ((1000 + i) * 1000000000, i * 1000000000, 20000000)"

lemma af_bin: "drift_bin_ns af_config = 2500000000" "lower_quantile af_config = fl (1 / 100)"
  "affine_qualification_window_ns af_config = Some (10 * SECOND_NS)" "affine_anchor_past_guard_ns af_config = 5000000"
  by (simp_all add: af_defs)

lemma af_early: "filter (within_receipts SECOND_NS (11 * SECOND_NS) False) (af_samples 21) = map af_at [1, 2, 3, 4, 5, 6, 7, 8, 9, 10]"
  by code_simp

lemma af_late: "filter (within_receipts (11 * SECOND_NS) (21 * SECOND_NS) True) (af_samples 21) = map af_at [11, 12, 13, 14, 15, 16, 17, 18, 19, 20, 21]"
  by code_simp

lemma af_both: "filter (within_receipts SECOND_NS (21 * SECOND_NS) True) (af_samples 21) = af_samples 21"
  by code_simp

lemma af_envelope_early: "envelope af_config SECOND_NS (map af_at [1, 2, 3, 4, 5, 6, 7, 8, 9, 10]) = map af_at [1, 4, 6, 9]"
  unfolding envelope_def af_bin by code_simp

lemma af_envelope_late: "envelope af_config SECOND_NS (map af_at [11, 12, 13, 14, 15, 16, 17, 18, 19, 20, 21]) = map af_at [11, 14, 16, 19, 21]"
  unfolding envelope_def af_bin by code_simp

lemma af_envelope_both: "envelope af_config SECOND_NS (af_samples 21) = map af_at [1, 4, 6, 9, 11, 14, 16, 19, 21]"
  unfolding envelope_def af_bin by code_simp

lemma af_rate: "theil_sen_age_drift_ppm (map af_at [1, 4, 6, 9]) = Some (Fin 0)"
  "theil_sen_age_drift_ppm (map af_at [11, 14, 16, 19, 21]) = Some (Fin 0)"
  "theil_sen_age_drift_ppm (map af_at [1, 4, 6, 9, 11, 14, 16, 19, 21]) = Some (Fin 0)"
  unfolding theil_sen_age_drift_ppm_def by (rule theil_sen_const [where a = 20000000]; auto simp: af_at_def)+


lemma unit_scale: "source_to_local_scale (Fin 0) = Inr (Fin 1)"
proof -
  obtain r where "fl (1 / 1000000) = Fin r" using fl_bounded [of "1 / 1000000" 64] by auto
  then show ?thesis by (simp add: source_to_local_scale_def fsub_def)
qed

lemma float_median_const: "odd (length xs) \<Longrightarrow> set xs \<subseteq> {a} \<Longrightarrow> float_median xs = a"
  by (auto simp: float_median_def Let_def dest!: odd_pos)
    (metis div_less_dividend length_greater_0_conv length_sort nth_mem one_less_numeral_iff semiring_norm(76) set_sort singletonD subset_iff)

lemma float_int_small: "\<bar>k\<bar> \<le> 2 ^ 53 \<Longrightarrow> float_int k = Inr (Fin (of_int k))"
  by (simp add: float_int_def float_of_int_small)

lemma af_anchor_age:
  assumes "x \<in> set (map af_at [1, 4, 6, 9, 11, 14, 16, 19, 21])"
  shows "anchor_age 1021000000000 (fsub (Fin 1) (Fin 1)) x = Inr (Fin 20000000)"
proof -
  have "fsub (Fin 1) (Fin 1) = Fin 0" by (simp add: fsub_def)
  moreover have "\<bar>sample_source x - 1021000000000\<bar> \<le> 2 ^ 53" "sample_age x = 20000000" using assms by (auto simp: af_at_def)
  ultimately show ?thesis by (simp add: anchor_age_def float_int_small fsub_def)
qed

lemma af_fit:
  "fit_model af_config [(''imu'', Fin 0), (''odom'', Fin 0)] (map af_at [1, 4, 6, 9, 11, 14, 16, 19, 21]) =
     Inr (Some (af_model\<lparr>stream_baseline_corrected_age_ns := []\<rparr>))"
proof -
  let ?ps = "map af_at [1, 4, 6, 9, 11, 14, 16, 19, 21]"
  have median: "float_median (map snd [(''imu'', Fin 0), (''odom'', Fin 0)]) = Fin 0" by (rule float_median_zero) auto
  have anchor: "Max (set (map sample_source ?ps)) = 1021000000000" by (simp add: af_at_def)
  have ages: "all_ok (anchor_age 1021000000000 (fsub (Fin 1) (Fin 1))) ?ps = Inr (replicate 9 (Fin 20000000))"
    using all_ok_const [of ?ps "anchor_age 1021000000000 (fsub (Fin 1) (Fin 1))" "Fin 20000000"] af_anchor_age
    by (simp add: numeral_eq_Suc)
  have age: "float_median (replicate 9 (Fin 20000000)) = Fin 20000000" by (rule float_median_const) auto
  have round: "round_float (Fin 20000000) = Inr 20000000"
    using round_half_even_of_int [of 20000000] by (simp add: round_float_def)
  have ne: "?ps \<noteq> []" by simp
  show ?thesis
    unfolding fit_model_def Let_def median unit_scale raised_def sum.case obind.simps if_not_P [OF ne] anchor ages age round
    by (simp add: model_at_def af_model_def af_bin SECOND_NS_def)
qed

section \<open>The evaluation\<close>

definition af_qualified :: affine_discipline where
  "af_qualified = af_state 21 21"

definition af_snapshot :: qualification_snapshot where
  "af_snapshot = \<lparr>qs_start = SECOND_NS, qs_end = 21 * SECOND_NS, qs_evaluation = 21 * SECOND_NS,
     qs_streams = [stream_snapshot_of af_qualified ''imu'', stream_snapshot_of af_qualified ''odom'']\<rparr>"

lemma af_qualified_simps:
  "sd_state af_qualified = QUALIFYING" "af_start af_qualified = Some SECOND_NS" "locked_affine_model af_qualified = None"
  "n \<in> {''imu'', ''odom''} \<Longrightarrow> stream_states af_qualified n = af_stream 21"
  "last_clock_base_ns af_qualified = Some (1000 * SECOND_NS + 20000000)"
  by (auto simp: af_qualified_def af_state_def)

lemma af_capture: "capture_snapshot af_setup af_qualified (21 * SECOND_NS) = Inr af_snapshot"
  by (simp add: capture_snapshot_def qualification_deadline_def af_qualified_simps af_names af_bin af_snapshot_def SECOND_NS_def positive_int_def)

lemma af_current: "require_current af_setup af_snapshot af_qualified = Inr ()"
  by (simp add: require_current_def qualification_deadline_def af_qualified_simps af_names af_bin af_snapshot_def SECOND_NS_def
      stream_snapshot_of_def Let_def)

lemma af_snapshot_of: "n \<in> {''imu'', ''odom''} \<Longrightarrow> snapshot_of af_snapshot n = stream_snapshot_of af_qualified n"
  using snapshot_of_capture [OF af_capture, of n] by (simp add: af_names)

lemma af_stream_samples: "n \<in> {''imu'', ''odom''} \<Longrightarrow> stream_samples af_qualified n = af_samples 21"
  by (auto simp: stream_samples_def af_qualified_simps af_stream_def)

definition af_windows :: "(string \<times> int list) list" where
  "af_windows = [(''imu'', replicate 21 5000000), (''odom'', replicate 21 5000000)]"

lemma af_corrected_ages:
  "all_ok (corrected_age (af_model\<lparr>stream_baseline_corrected_age_ns := b\<rparr>)) (af_samples 21) = Inr (replicate 21 5000000)"
proof -
  have "length (af_samples 21) = 21" by (simp add: af_samples_def)
  moreover have "anchor_source_ns af_model = 1021 * SECOND_NS" "anchor_local_ns af_model = 1021 * SECOND_NS + 15000000"
      "am_scale af_model = Fin 1" by (simp_all add: af_model_def)
  ultimately show ?thesis
    using all_ok_const [of "af_samples 21" "corrected_age af_model" 5000000] af_corrected_age by simp
qed


lemma af_quantiles:
  "quantile (replicate 21 5000000) f = Some 5000000" "quantile (map sample_age (af_samples 21)) f = Some 20000000"
  using quantile_const [of "replicate 21 5000000" 5000000 f] quantile_const [of "map sample_age (af_samples 21)" 20000000 f]
  by (auto simp: af_samples_def)

lemma af_candidate_reasons: "n \<in> {''imu'', ''odom''} \<Longrightarrow> candidate_reasons af_config n (replicate 21 5000000) = []"
  by (auto simp: candidate_reasons_def af_quantiles when_reason_def policy_of_def Let_def af_defs)

lemma af_candidate:
  "candidate_streams af_config (af_model\<lparr>stream_baseline_corrected_age_ns := []\<rparr>) SECOND_NS (21 * SECOND_NS)
     (\<lambda>n. ssn_samples (snapshot_of af_snapshot n)) [''imu'', ''odom''] =
   Inr ([], [(''imu'', 5000000), (''odom'', 5000000)], af_windows)"
proof -
  have raw: "ssn_samples (snapshot_of af_snapshot n) = af_samples 21" if "n \<in> {''imu'', ''odom''}" for n
    using af_snapshot_of [OF that] af_stream_samples [OF that] by (simp add: stream_snapshot_of_def stream_samples_def Let_def)
  have q: "map snd (filter (\<lambda>(s, a). within_receipts SECOND_NS (21 * SECOND_NS) True s)
      (zip (af_samples 21) (replicate 21 5000000))) = replicate 21 (5000000::int)" by code_simp
  have q': "replicate 21 (5000000::int) \<noteq> []" by simp
  show ?thesis
    unfolding candidate_streams.simps raw [OF insertI1] raw [OF insertI2 [OF singletonI]] af_corrected_ages obind.simps Let_def q
      if_not_P [OF q'] af_quantiles
    by (simp add: af_candidate_reasons af_windows_def)
qed


definition af_interval :: "int \<Rightarrow> int \<Rightarrow> bool \<Rightarrow> int \<Rightarrow> int \<Rightarrow> interval_evidence" where
  "af_interval start stop inclusive points left = \<lparr>iv_start = start, iv_end = stop, iv_inclusive = inclusive,
     iv_drifts = [(''imu'', Some (Fin 0)), (''odom'', Some (Fin 0))], iv_points = [(''imu'', points), (''odom'', points)],
     iv_first = [(''imu'', Some 0), (''odom'', Some 0)], iv_last = [(''imu'', Some left), (''odom'', Some left)],
     iv_gap = [(''imu'', Some SECOND_NS), (''odom'', Some SECOND_NS)], iv_common = Some (Fin 0)\<rparr>"

lemma af_common: "common_drift [(''imu'', Some (Fin 0)), (''odom'', Some (Fin 0))] = Some (Fin 0)"
  by (simp add: common_drift_def float_median_zero)

lemma af_interval_of:
  assumes "\<And>n. n \<in> {''imu'', ''odom''} \<Longrightarrow> f n = xs" "envelope af_config SECOND_NS xs = ps"
    "theil_sen_age_drift_ppm ps = Some (Fin 0)" "first_offset start xs = Some 0" "last_offset stop xs = Some left"
    "max_gap xs = Some SECOND_NS"
  shows "snapshot_interval af_setup start stop inclusive f (\<lambda>n. envelope af_config SECOND_NS (f n)) =
    af_interval start stop inclusive (int (length ps)) left"
  using assms by (simp add: snapshot_interval_def af_names af_interval_def af_common)

definition af_evaluation :: qualification_evaluation where
  "af_evaluation = \<lparr>ev_snapshot = af_snapshot, ev_reasons = [],
     ev_intervals = (af_interval SECOND_NS (11 * SECOND_NS) False 4 SECOND_NS,
       af_interval (11 * SECOND_NS) (21 * SECOND_NS) True 5 0, af_interval SECOND_NS (21 * SECOND_NS) True 9 0),
     ev_model = Some af_model, ev_windows = af_windows\<rparr>"

lemma af_metrics:
  "n \<in> {''imu'', ''odom''} \<Longrightarrow> snapshot_metrics af_config (snapshot_of af_snapshot n) (af_samples 21) =
     Some \<lparr>sm_samples = 21, span_ns = 20 * SECOND_NS, lower_age_ns = 20000000, median_age_ns = 20000000, p95_age_ns = 20000000,
       sm_drift_ppm = None, duplicate_fraction = Fin 0\<rparr>"
proof -
  assume n: "n \<in> {''imu'', ''odom''}"
  have ends: "af_samples 21 \<noteq> []" "length (af_samples 21) = 21"
      "max 0 (sample_receipt (last (af_samples 21)) - sample_receipt (hd (af_samples 21))) = 20 * SECOND_NS" by code_simp+
  have dup: "ssn_duplicates (snapshot_of af_snapshot n) = 0" "ssn_advancing (snapshot_of af_snapshot n) = 21"
    using n by (auto simp: af_snapshot_of stream_snapshot_of_def af_qualified_simps af_stream_def Let_def)
  show ?thesis using ends by (simp add: snapshot_metrics_def dup af_quantiles true_div_def Let_def)
qed

lemma af_basic:
  assumes "n \<in> {''imu'', ''odom''}" "r = Some (21 * SECOND_NS)"
  shows "snapshot_basic af_config (21 * SECOND_NS) r (Some \<lparr>sm_samples = 21, span_ns = 20 * SECOND_NS, lower_age_ns = 20000000,
      median_age_ns = 20000000, p95_age_ns = 20000000, sm_drift_ppm = None, duplicate_fraction = Fin 0\<rparr>)
    (Some \<lparr>sm_samples = 21, span_ns = 20 * SECOND_NS, lower_age_ns = 20000000, median_age_ns = 20000000,
      p95_age_ns = 20000000, sm_drift_ppm = None, duplicate_fraction = Fin 0\<rparr>) (af_policy n) = []"
  using assms by (auto simp: snapshot_basic_def when_reason_def Let_def) (simp_all add: af_defs)

lemma af_windows_ok:
  "windows_reasons af_config (10 * SECOND_NS) (af_interval SECOND_NS (11 * SECOND_NS) False 4 SECOND_NS)
     (af_interval (11 * SECOND_NS) (21 * SECOND_NS) True 5 0) = []"
  "core_rate_reasons af_config [(''imu'', Some (Fin 0)), (''odom'', Some (Fin 0))] = []"
  by (simp_all add: windows_reasons_def window_reasons_def window_incomplete_def af_interval_def when_reason_def drift_exceeded_def
      pairwise_drift_disagreements_def core_rate_reasons_def available_drifts_def timeout_of_def policy_of_def fsub_def Let_def)
    (simp_all add: af_defs)


lemma af_edges:
  "first_offset SECOND_NS (map af_at [1, 2, 3, 4, 5, 6, 7, 8, 9, 10]) = Some 0"
  "last_offset (11 * SECOND_NS) (map af_at [1, 2, 3, 4, 5, 6, 7, 8, 9, 10]) = Some SECOND_NS"
  "max_gap (map af_at [1, 2, 3, 4, 5, 6, 7, 8, 9, 10]) = Some SECOND_NS"
  "first_offset (11 * SECOND_NS) (map af_at [11, 12, 13, 14, 15, 16, 17, 18, 19, 20, 21]) = Some 0"
  "last_offset (21 * SECOND_NS) (map af_at [11, 12, 13, 14, 15, 16, 17, 18, 19, 20, 21]) = Some 0"
  "max_gap (map af_at [11, 12, 13, 14, 15, 16, 17, 18, 19, 20, 21]) = Some SECOND_NS"
  "first_offset SECOND_NS (af_samples 21) = Some 0" "last_offset (21 * SECOND_NS) (af_samples 21) = Some 0"
  "max_gap (af_samples 21) = Some SECOND_NS"
  by code_simp+

lemma af_evaluate: "evaluate_snapshot af_setup af_snapshot af_qualified = Inr af_evaluation"
proof -
  have raw: "ssn_samples (snapshot_of af_snapshot n) = af_samples 21" if "n \<in> {''imu'', ''odom''}" for n
    using af_snapshot_of [OF that] af_stream_samples [OF that] by (simp add: stream_snapshot_of_def stream_samples_def Let_def)
  have split: "SECOND_NS + 10 * SECOND_NS = 11 * SECOND_NS" by simp
  have part: "partition_windows SECOND_NS (11 * SECOND_NS) (21 * SECOND_NS) xs =
     (filter (within_receipts SECOND_NS (11 * SECOND_NS) False) xs, filter (within_receipts (11 * SECOND_NS) (21 * SECOND_NS) True) xs,
      filter (within_receipts SECOND_NS (21 * SECOND_NS) True) xs)" for xs
    by (rule partition_windows_filter) (simp_all add: SECOND_NS_def)
  have iv1: "snapshot_interval af_setup SECOND_NS (11 * SECOND_NS) False
      (\<lambda>n. filter (within_receipts SECOND_NS (11 * SECOND_NS) False) (ssn_samples (snapshot_of af_snapshot n)))
      (\<lambda>n. envelope af_config SECOND_NS (filter (within_receipts SECOND_NS (11 * SECOND_NS) False) (ssn_samples (snapshot_of af_snapshot n)))) =
     af_interval SECOND_NS (11 * SECOND_NS) False 4 SECOND_NS"
    using af_interval_of [OF _ af_envelope_early af_rate(1) af_edges(1,2,3)] raw af_early by simp
  have iv2: "snapshot_interval af_setup (11 * SECOND_NS) (21 * SECOND_NS) True
      (\<lambda>n. filter (within_receipts (11 * SECOND_NS) (21 * SECOND_NS) True) (ssn_samples (snapshot_of af_snapshot n)))
      (\<lambda>n. envelope af_config SECOND_NS (filter (within_receipts (11 * SECOND_NS) (21 * SECOND_NS) True) (ssn_samples (snapshot_of af_snapshot n)))) =
     af_interval (11 * SECOND_NS) (21 * SECOND_NS) True 5 0"
    using af_interval_of [OF _ af_envelope_late af_rate(2) af_edges(4,5,6)] raw af_late by simp
  have iv3: "snapshot_interval af_setup SECOND_NS (21 * SECOND_NS) True
      (\<lambda>n. filter (within_receipts SECOND_NS (21 * SECOND_NS) True) (ssn_samples (snapshot_of af_snapshot n)))
      (\<lambda>n. envelope af_config SECOND_NS (filter (within_receipts SECOND_NS (21 * SECOND_NS) True) (ssn_samples (snapshot_of af_snapshot n)))) =
     af_interval SECOND_NS (21 * SECOND_NS) True 9 0"
    using af_interval_of [OF _ af_envelope_both af_rate(3) af_edges(7,8,9)] raw af_both by simp
  have rec: "ssn_last_receipt (snapshot_of af_snapshot n) = Some (21 * SECOND_NS)" if "n \<in> {''imu'', ''odom''}" for n
    using that by (auto simp: af_snapshot_of stream_snapshot_of_def af_qualified_simps af_stream_def Let_def)
  have snap: "qs_start af_snapshot = SECOND_NS" "qs_end af_snapshot = 21 * SECOND_NS" "qs_evaluation af_snapshot = 21 * SECOND_NS"
    by (simp_all add: af_snapshot_def)
  have drifts: "iv_drifts (af_interval SECOND_NS (21 * SECOND_NS) True 9 0) = [(''imu'', Some (Fin 0)), (''odom'', Some (Fin 0))]"
    "available_drifts [(''imu'', Some (Fin 0)), (''odom'', Some (Fin 0))] = [(''imu'', Fin 0), (''odom'', Fin 0)]"
    by (simp_all add: af_interval_def available_drifts_def)
  have model: "af_model\<lparr>stream_baseline_corrected_age_ns := [], stream_baseline_corrected_age_ns := [(''imu'', 5000000), (''odom'', 5000000)]\<rparr> = af_model"
    by (simp add: af_model_def)
  show ?thesis
    unfolding evaluate_snapshot_def af_current obind.simps snap af_names(1-4,6) af_bin(3) option.sel Let_def split part fst_conv snd_conv
      iv1 iv2 iv3 drifts
    by (simp add: raw rec af_both af_envelope_both af_fit [unfolded list.map] af_candidate af_metrics af_basic af_windows_ok
        when_reason_def sorted_names_def af_evaluation_def model af_names del: candidate_streams.simps)
qed


section \<open>The lock\<close>

definition af_locked :: affine_discipline where
  "af_locked = commit_affine af_model (map_of af_windows) (21 * SECOND_NS) af_qualified"

lemma af_unchanged: "n \<in> {''imu'', ''odom''} \<Longrightarrow> \<not> stream_changed af_snapshot af_qualified n"
proof -
  assume n: "n \<in> {''imu'', ''odom''}"
  have "last (af_samples 21) = (1021 * SECOND_NS, 21 * SECOND_NS, 20000000)" "af_samples 21 \<noteq> []" by code_simp+
  then show ?thesis using n
    by (auto simp: stream_changed_def af_snapshot_of stream_snapshot_of_def af_qualified_simps af_stream_def Let_def)
qed

lemma af_lock_candidate: "lock_candidate af_setup (21 * SECOND_NS) (Some af_evaluation) af_qualified = Inr ([], Some af_model, Some af_windows)"
proof -
  have len: "length (ssn_samples (snapshot_of af_snapshot n)) = 21" if "n \<in> {''imu'', ''odom''}" for n
    using that by (auto simp: af_snapshot_of stream_snapshot_of_def af_qualified_simps af_stream_def af_samples_def Let_def)
  have "qs_evaluation af_snapshot = 21 * SECOND_NS" "ev_snapshot af_evaluation = af_snapshot" "ev_windows af_evaluation = af_windows"
      "ev_reasons af_evaluation = []" "ev_model af_evaluation = Some af_model"
    by (simp_all add: af_snapshot_def af_evaluation_def)
  then show ?thesis
    using af_unchanged len by (simp add: lock_candidate_def af_current af_names positive_int_def SECOND_NS_def)
      (simp add: af_windows_def)
qed

lemma af_lock: "lock_affine af_setup True (21 * SECOND_NS) None None (Some af_evaluation) af_qualified = (Inr af_model, af_locked)"
proof -
  have "age_windows af_setup (\<lambda>n. Inr (the (map_of af_windows n))) = Inr (map_of af_windows)"
    by (simp add: age_windows_def af_names af_config_simps deque_of_def af_windows_def)
  then show ?thesis
    by (simp add: lock_affine_def af_qualified_simps af_lock_candidate approve_drift_def approve_offset_def af_locked_def)
qed

lemma deque_append_short: "length xs < nat k \<Longrightarrow> deque_append k xs x = xs @ [x]"
  by (simp add: deque_append_def)

lemma af_locked_simps:
  "sd_state af_locked = LOCKED" "last_clock_base_ns af_locked = Some (1000 * SECOND_NS + 20000000)"
  "locked_affine_model af_locked = Some af_model" "recovery_active af_locked = False"
  "last_statistics_ns af_locked = Some (21 * SECOND_NS)"
  "n \<in> {''imu'', ''odom''} \<Longrightarrow> stream_states af_locked n = af_stream 21"
  "n \<in> {''imu'', ''odom''} \<Longrightarrow> cached_ages af_locked n = Some (replicate 21 5000000)"
  "n \<in> {''imu'', ''odom''} \<Longrightarrow> observed_continuity af_locked n = Some (1021 * SECOND_NS, 21 * SECOND_NS)"
  by (auto simp: af_locked_def commit_affine_def af_qualified_def af_state_def cached_ages_def af_windows_def)

lemma af_correct: "0 < k \<Longrightarrow> k < 1000 \<Longrightarrow> affine_corrected_stamp_ns af_model ((1000 + k) * SECOND_NS) = Inr ((1000 + k) * SECOND_NS + 15000000)"
  by (subst unit_scale_corrected) (simp_all add: af_model_def SECOND_NS_def)

lemma af_samples_21: "length (af_samples 21) = 21" "rev (af_samples 21) = (1021 * SECOND_NS, 21 * SECOND_NS, 20000000) #
    (1020 * SECOND_NS, 20 * SECOND_NS, 20000000) # rev (af_samples 19)" "af_samples 21 \<noteq> []"
  by code_simp+

lemma af_limits: "max_corrected_future_ns af_config = 2000000" "minimum_locked_corrected_age_ns af_config = None"
  "max_corrected_age_ns (af_policy n) = 100000000" "stale_receipt_timeout_ns (af_policy n) = 1500000000"
  "locked_statistics_enabled af_config = False" "policy_of af_config ''imu'' = af_policy ''imu''" "policy_of af_config ''odom'' = af_policy ''odom''"
  by (simp_all add: policy_of_def af_defs)

lemma af_liveness: "liveness_health af_config d now = (if lv_live (receipt_liveness d now (af_policy ''imu''))
    then if lv_live (receipt_liveness d now (af_policy ''odom'')) then None
      else Some (stale_text ''odom'' (receipt_liveness d now (af_policy ''odom'')))
    else Some (stale_text ''imu'' (receipt_liveness d now (af_policy ''imu''))))"
  by (simp add: liveness_health_def receipt_liveness_snapshot_def af_config_simps)

lemma af_stale: "recoverable (stale_text n lv)"
  using starts_with_append [of "''stream_stale:''"] by (simp add: recoverable_def stale_text_def starts_with_def)

lemmas af_locked_defs = affine_observe_def entry_fault_def stream_names_def af_config_simps positive_int_def in_range_def
  enter_if_stale_def receipt_liveness_def Let_def af_liveness observe_sample_def delta_limit_def accept_sample_def locked_check_def
  af_limits raised_def take_sample_def note_continuity_def put_stream_def record_sample_def cache_age_def
  finish_locked_def affine_breakers_def scheduled_health_def stream_samples_def cached_ages_def deque_append_short
  record_recovery_sample_def recovery_health_def RECOVERY_REQUIRED_SAMPLES_def affine_names_def enter_recovery_def begin_recovery_def
  last_outage_def timeout_of_def merge_waiver_def af_stale

lemma af_locked_record:
  "af_locked = af_qualified\<lparr>locked_affine_model := Some af_model, locked_corrected_ages := Some (map_of af_windows),
     affine_lock_monotonic := Some (21 * SECOND_NS), affine_lock_clock_base := Some (1000 * SECOND_NS + 20000000),
     sd_state := LOCKED, last_statistics_ns := Some (21 * SECOND_NS)\<rparr>"
  by (simp add: af_locked_def commit_affine_def af_qualified_simps)

lemma af_accept:
  "fst (affine_observe af_setup (af_sample ''imu'' 22) af_locked) = Inr \<lparr>cr_accepted = True,
     corrected_stamp_ns = Some (1022 * SECOND_NS + 15000000), navigation_eligible = True,
     cr_reason = ''navigation_safe_affine'', cr_state = LOCKED, diagnostics = []\<rparr>"
proof -
  have cor: "affine_corrected_stamp_ns af_model 1022000000000 = Inr 1022015000000"
    using af_correct [of 22] by (simp add: SECOND_NS_def)
  show ?thesis
    by (simp add: af_locked_defs af_sample_def SECOND_NS_def cor af_samples_21 af_locked_record af_qualified_def af_state_def
        af_stream_def af_windows_def)
qed


section \<open>An outage and the recovery from it\<close>

lemma af_corrections:
  "affine_corrected_stamp_ns af_model 1031000000000 = Inr 1031015000000"
  "affine_corrected_stamp_ns af_model 1032000000000 = Inr 1032015000000"
  using af_correct [of 31] af_correct [of 32] by (simp_all add: SECOND_NS_def)

definition af_recovery_run :: "affine_event list" where
  "af_recovery_run = [ASample (af_sample ''imu'' 31), ASample (af_sample ''odom'' 31),
     ASample (af_sample ''imu'' 32), ASample (af_sample ''odom'' 32)]"

definition af_paused :: affine_discipline where
  "af_paused = snd (affine_poll af_setup (24 * SECOND_NS) af_locked)"

lemma af_paused_active: "recovery_active af_paused" "\<not> recovery_active af_locked" "last_outage af_config af_locked n = None"
    if "n \<in> {''imu'', ''odom''}"
  using that
  by (auto simp: af_paused_def affine_poll_def af_locked_defs af_samples_21 af_locked_record af_qualified_def af_state_def af_stream_def SECOND_NS_def)

lemma af_recovery:
  "map affine_accepted (outputs (affine_step af_setup) af_recovery_run af_paused) = [False, False, False, True]"
  by (simp add: af_paused_def affine_poll_def af_recovery_run_def af_locked_defs af_sample_def SECOND_NS_def af_corrections
      af_samples_21 af_locked_record af_qualified_def af_state_def af_stream_def af_windows_def recovery_result_def refuse_def)

section \<open>The whole session\<close>

definition af_qualifying_run :: "affine_event list" where
  "af_qualifying_run = af_rounds 21 @ [ALock True (21 * SECOND_NS) None None (Some af_evaluation)]"

lemma af_genuine: "genuine af_setup af_evaluation"
  using af_evaluate by (auto simp: genuine_def)

lemma af_run_ok: "list_all (affine_event_ok af_setup) af_qualifying_run"
  using af_genuine by (auto simp: af_qualifying_run_def af_rounds_def affine_event_ok_def list_all_iff)

lemma af_run_final: "final (affine_step af_setup) af_qualifying_run (af_state 0 0) = af_locked"
  using af_rounds_final [of 21] af_lock by (simp add: af_qualifying_run_def final_append af_qualified_def)

end
