(* ===== verification/AffineVerdict.thy ===== *)
theory AffineVerdict imports AffineEquivalence begin

text \<open>
  The verdict of the terminal evaluation. It judges the samples inside the two qualification windows;
  on a discipline that retains just those, the live \<open>qualification_reasons\<close> give the same reasons.
\<close>

section \<open>The samples of the windows\<close>

text \<open>The discipline with only the samples received within the two windows.\<close>

definition in_window :: "affine_setup \<Rightarrow> affine_discipline \<Rightarrow> affine_discipline" where
  "in_window S d = (case (af_start d, qualification_deadline S d) of
     (Some s, Some stop) \<Rightarrow> d\<lparr>stream_states := (\<lambda>n. (stream_states d n)\<lparr>ss_samples :=
        filter (within_receipts s stop True) (stream_samples d n)\<rparr>)\<rparr>
   | _ \<Rightarrow> d)"

lemma in_window_views:
  assumes "af_start d = Some s" "affine_qualification_window_ns (as_config S) = Some w"
  shows "stream_samples (in_window S d) n = filter (within_receipts s (s + w + w) True) (stream_samples d n)"
    "af_start (in_window S d) = Some s" "anchor_of (in_window S d) = s"
    "last_receipt_ns (stream_states (in_window S d) n) = last_receipt_ns (stream_states d n)"
    "advancing (stream_states (in_window S d) n) = advancing (stream_states d n)"
    "duplicates (stream_states (in_window S d) n) = duplicates (stream_states d n)"
proof -
  have "qualification_deadline S d = Some (s + w + w)" using assms by (simp add: qualification_deadline_def)
  then have "in_window S d = d\<lparr>stream_states := (\<lambda>n. (stream_states d n)\<lparr>ss_samples :=
        filter (within_receipts s (s + w + w) True) (stream_samples d n)\<rparr>)\<rparr>"
    using assms(1) by (simp add: in_window_def)
  then show "stream_samples (in_window S d) n = filter (within_receipts s (s + w + w) True) (stream_samples d n)"
    "af_start (in_window S d) = Some s" "anchor_of (in_window S d) = s"
    "last_receipt_ns (stream_states (in_window S d) n) = last_receipt_ns (stream_states d n)"
    "advancing (stream_states (in_window S d) n) = advancing (stream_states d n)"
    "duplicates (stream_states (in_window S d) n) = duplicates (stream_states d n)"
    using assms(1) by (simp_all add: stream_samples_def anchor_of_def)
qed

lemma in_window_evidence:
  assumes "af_start d = Some s" "affine_qualification_window_ns (as_config S) = Some w" "0 < w"
  shows "affine_qualification_evidence S (in_window S d) = affine_qualification_evidence S d"
proof -
  note v = in_window_views [OF assms(1,2)]
  have anchor: "anchor_of (in_window S d) = anchor_of d" using assms(1) v(3) by (simp add: anchor_of_def)
  have keep: "filter (within_receipts lo hi inc) (stream_samples (in_window S d) n) =
      filter (within_receipts lo hi inc) (stream_samples d n)" if "s \<le> lo" "hi \<le> s + w + w" for lo hi inc n
    unfolding v(1) filter_filter by (rule filter_cong) (use that in \<open>auto simp: within_receipts_def\<close>)
  have "drift_interval_evidence S (in_window S d) lo hi inc = drift_interval_evidence S d lo hi inc"
    if "s \<le> lo" "hi \<le> s + w + w" for lo hi inc
    unfolding drift_interval_evidence_def affine_metrics_for_def keep [OF that] anchor ..
  then show ?thesis using assms v(2) by (simp add: affine_qualification_evidence_def)
qed

lemma in_window_model:
  assumes "af_start d = Some s" "affine_qualification_window_ns (as_config S) = Some w" "0 < w"
  shows "model_samples S (in_window S d) n = filter (within_receipts s (s + w + w) True) (stream_samples d n)"
    "provisional_model S (in_window S d) = provisional_model S d"
proof -
  note v = in_window_views [OF assms(1,2)]
  have iv: "iv_start (drift_interval_evidence S d a b i) = a" "iv_end (drift_interval_evidence S d a b i) = b"
    "iv_inclusive (drift_interval_evidence S d a b i) = i" for a b i
    by (simp_all add: drift_interval_evidence_def Let_def)
  have evid: "\<exists>early late. affine_qualification_evidence S d = Some (early, late, drift_interval_evidence S d s (s + w + w) True)"
    using assms(1,2) by (simp add: affine_qualification_evidence_def)
  then have m: "model_samples S d n = filter (within_receipts s (s + w + w) True) (stream_samples d n)" for n
    by (auto simp: model_samples_def iv)
  show m': "model_samples S (in_window S d) n = filter (within_receipts s (s + w + w) True) (stream_samples d n)" for n
    using evid by (auto simp: model_samples_def in_window_evidence [OF assms] iv v(1))
  have "model_samples S (in_window S d) = model_samples S d" using m m' by (simp add: fun_eq_iff)
  moreover have "anchor_of (in_window S d) = anchor_of d" using assms(1) v(3) by (simp add: anchor_of_def)
  ultimately show "provisional_model S (in_window S d) = provisional_model S d" unfolding provisional_model_def by metis
qed

section \<open>The two copies of the stream checks\<close>

definition without_rate :: "stream_metrics \<Rightarrow> stream_metrics" where
  "without_rate m = m\<lparr>sm_drift_ppm := None\<rparr>"

lemma copies_agree:
  "snapshot_basic c now r (Some (without_rate ref)) (map_option without_rate m) p = qualify_basic c now r ref m p"
  by (cases m; cases r) (auto simp: snapshot_basic_def qualify_basic_def without_rate_def in_range_def when_reason_def Let_def)

lemma metrics_in_window:
  assumes "affine_init S = Inr d0" "capture_snapshot S d now = Inr snap" "af_start d = Some s"
    "affine_qualification_window_ns (as_config S) = Some w" "n \<in> set (affine_names S)"
  shows "snapshot_metrics c (snapshot_of snap n) (filter (within_receipts s (s + w + w) True) (ssn_samples (snapshot_of snap n))) =
    map_option without_rate (metrics_of c (in_window S d) n)"
proof -
  have s: "snapshot_of snap n = stream_snapshot_of d n" by (rule snapshot_of_capture [OF assms(2,5)])
  show ?thesis
    using in_window_views [OF assms(3,4)] unfolding s
    by (simp add: snapshot_metrics_def stream_metrics_of_def stream_snapshot_of_def stream_samples_def without_rate_def Let_def)
qed

section \<open>The candidate checks\<close>

lemma candidate_reasons_live:
  assumes "candidate_streams c m start stop raw ns = Inr (reasons, bs, ws)" "length bs = length ns"
  shows "\<exists>fits. all_ok (\<lambda>n. obind (all_ok (corrected_age m) (filter (within_receipts start stop True) (raw n)))
      (\<lambda>ages. Inr (candidate_reasons c n ages))) ns = Inr fits \<and> concat fits = reasons"
  using assms
proof (induction ns arbitrary: reasons bs ws)
  case (Cons n ns)
  obtain ages where a: "all_ok (corrected_age m) (raw n) = Inr ages" using Cons.prems by auto
  let ?q = "map snd (filter (\<lambda>(s, a). within_receipts start stop True s) (zip (raw n) ages))"
  have f: "all_ok (corrected_age m) (filter (within_receipts start stop True) (raw n)) = Inr ?q" by (rule all_ok_filter [OF a])
  have q: "?q \<noteq> []" using Cons.prems a by (auto simp: Let_def split: if_splits)
  then obtain r b w where rest: "candidate_streams c m start stop raw ns = Inr (r, b, w)"
      "reasons = candidate_reasons c n ?q @ r" "length b = length ns"
    using Cons.prems a by (auto simp: Let_def)
  obtain fits where "all_ok (\<lambda>n. obind (all_ok (corrected_age m) (filter (within_receipts start stop True) (raw n)))
      (\<lambda>ages. Inr (candidate_reasons c n ages))) ns = Inr fits" "concat fits = r"
    using Cons.IH [OF rest(1,3)] by blast
  then show ?case using f rest(2) by simp
qed simp

lemma candidate_streams_short:
  assumes "candidate_streams c m start stop raw ns = Inr (reasons, bs, ws)" "length bs \<noteq> length ns"
  shows "\<exists>n \<in> set ns. filter (within_receipts start stop True) (raw n) = []"
  using assms
proof (induction ns arbitrary: reasons bs ws)
  case (Cons n ns)
  obtain ages where a: "all_ok (corrected_age m) (raw n) = Inr ages" using Cons.prems by auto
  let ?q = "map snd (filter (\<lambda>(s, a). within_receipts start stop True s) (zip (raw n) ages))"
  have f: "all_ok (corrected_age m) (filter (within_receipts start stop True) (raw n)) = Inr ?q" by (rule all_ok_filter [OF a])
  show ?case
  proof (cases "?q = []")
    case True
    then have "filter (within_receipts start stop True) (raw n) = []" using all_ok_length [OF f] by simp
    then show ?thesis by simp
  next
    case False
    then obtain r b w where "candidate_streams c m start stop raw ns = Inr (r, b, w)" "length b \<noteq> length ns"
      using Cons.prems a by (auto simp: Let_def)
    then show ?thesis using Cons.IH by auto
  qed
qed simp

section \<open>The reasons of an evaluation\<close>

text \<open>The reasons before the candidate is judged.\<close>

definition base_reasons ::
  "affine_setup \<Rightarrow> qualification_snapshot \<Rightarrow> interval_evidence \<times> interval_evidence \<times> interval_evidence \<Rightarrow> string list" where
  "base_reasons S snap ivs =
     (let c = as_config S; start = qs_start snap; w = the (affine_qualification_window_ns c);
          both = (\<lambda>n. snd (snd (partition_windows start (start + w) (qs_end snap) (ssn_samples (snapshot_of snap n)))));
          metrics = (\<lambda>n. snapshot_metrics c (snapshot_of snap n) (both n)); reference = metrics (reference_stream c) in
      when_reason (reference = None) ''missing_reference_stream'' @
      concat (map (\<lambda>p. snapshot_basic c (qs_evaluation snap) (ssn_last_receipt (snapshot_of snap (sp_name p))) reference
             (metrics (sp_name p)) p) (streams c)) @
      core_rate_reasons c (iv_drifts (snd (snd ivs))) @ windows_reasons c w (fst ivs) (fst (snd ivs)))"

lemma evaluate_parts:
  assumes "evaluate_snapshot S snap d = Inr ev"
  shows "\<exists>more. ev_reasons ev = sorted_names (base_reasons S snap (ev_intervals ev) @ more) \<and>
    (\<forall>m. ev_model ev = Some m \<longrightarrow> (\<exists>m0 bs ws. candidate_streams (as_config S) m0 (qs_start snap) (qs_end snap)
           (\<lambda>n. ssn_samples (snapshot_of snap n)) (affine_names S) = Inr (more, bs, ws) \<and>
         length bs = length (affine_names S) \<and> m = m0\<lparr>stream_baseline_corrected_age_ns := bs\<rparr>)) \<and>
    (ev_model ev = None \<longrightarrow> length (available_drifts (iv_drifts (snd (snd (ev_intervals ev))))) \<noteq> length (core_streams S) \<or>
         fit_model (as_config S) (available_drifts (iv_drifts (snd (snd (ev_intervals ev)))))
           (envelope (as_config S) (qs_start snap) (snd (snd (partition_windows (qs_start snap)
             (qs_start snap + the (affine_qualification_window_ns (as_config S))) (qs_end snap)
             (ssn_samples (snapshot_of snap (reference_stream (as_config S)))))))) = Inr None \<or>
         (\<exists>m0 rs bs ws. candidate_streams (as_config S) m0 (qs_start snap) (qs_end snap)
             (\<lambda>n. ssn_samples (snapshot_of snap n)) (affine_names S) = Inr (rs, bs, ws) \<and> length bs \<noteq> length (affine_names S)))"
proof -
  let ?c = "as_config S" let ?start = "qs_start snap" let ?stop = "qs_end snap" let ?w = "the (affine_qualification_window_ns ?c)"
  let ?part = "\<lambda>n. partition_windows ?start (?start + ?w) ?stop (ssn_samples (snapshot_of snap n))"
  let ?ivs = "(snapshot_interval S ?start (?start + ?w) False (\<lambda>n. fst (?part n)) (\<lambda>n. envelope ?c ?start (fst (?part n))),
    snapshot_interval S (?start + ?w) ?stop True (\<lambda>n. fst (snd (?part n))) (\<lambda>n. envelope ?c ?start (fst (snd (?part n)))),
    snapshot_interval S ?start ?stop True (\<lambda>n. snd (snd (?part n))) (\<lambda>n. envelope ?c ?start (snd (snd (?part n)))))"
  define mk where "mk more m ws = \<lparr>ev_snapshot = snap, ev_reasons = sorted_names (base_reasons S snap ?ivs @ more),
    ev_intervals = ?ivs, ev_model = m, ev_windows = ws\<rparr>" for more m ws
  let ?drifts = "available_drifts (iv_drifts (snd (snd ?ivs)))"
  let ?points = "envelope ?c ?start (snd (snd (?part (reference_stream ?c))))"
  let ?cs = "\<lambda>m. candidate_streams ?c m ?start ?stop (\<lambda>n. ssn_samples (snapshot_of snap n)) (affine_names S)"
  let ?finish = "\<lambda>m (more, bs, ws). if length bs = length (affine_names S)
      then Inr (mk more (Some (m\<lparr>stream_baseline_corrected_age_ns := bs\<rparr>)) ws) :: affine_exc + qualification_evaluation
      else Inr (mk more None [])"
  have e: "(if length ?drifts \<noteq> length (core_streams S) then Inr (mk [] None [])
     else obind (fit_model ?c ?drifts ?points) (\<lambda>fit. case fit of None \<Rightarrow> Inr (mk [] None [])
       | Some m \<Rightarrow> obind (?cs m) (?finish m))) = Inr ev"
    (is "?result = _")
  proof -
    have "obind (require_current S snap d) (\<lambda>_. ?result) = Inr ev"
      using assms unfolding evaluate_snapshot_def mk_def base_reasons_def Let_def fst_conv snd_conv append_assoc append_Nil2 .
    then show ?thesis unfolding obind_Inr_iff by (elim exE conjE)
  qed
  have mk: "ev_reasons (mk more m ws) = sorted_names (base_reasons S snap ?ivs @ more)" "ev_intervals (mk more m ws) = ?ivs"
    "ev_model (mk more m ws) = m" for more m ws by (simp_all add: mk_def)
  consider "length ?drifts \<noteq> length (core_streams S)" "ev = mk [] None []"
    | "fit_model ?c ?drifts ?points = Inr None" "ev = mk [] None []"
    | m more bs ws where "?cs m = Inr (more, bs, ws)" "length bs = length (affine_names S)"
        "ev = mk more (Some (m\<lparr>stream_baseline_corrected_age_ns := bs\<rparr>)) ws"
    | m more bs ws where "?cs m = Inr (more, bs, ws)" "length bs \<noteq> length (affine_names S)" "ev = mk more None []"
  proof (cases "length ?drifts \<noteq> length (core_streams S)")
    case False
    then obtain fit where fit: "fit_model ?c ?drifts ?points = Inr fit" using e by auto
    show ?thesis
    proof (cases fit)
      case (Some m)
      then have "obind (?cs m) (?finish m) = Inr ev" using e False fit by (simp only: obind.simps option.case if_not_P not_not if_False)
      from iffD1 [OF obind_Inr_iff this] obtain r where r: "?cs m = Inr r" "?finish m r = Inr ev" by (elim exE conjE) (rule that; assumption)
      obtain more bs ws where "r = (more, bs, ws)" by (cases r)
      then show ?thesis using r that(3,4) by (auto split: if_splits)
    qed (use e False fit that(2) in simp)
  qed (use e that(1) in simp)
  then show ?thesis
  proof cases
    case 1
    then show ?thesis by (intro exI [of _ "[]"]) (simp add: mk)
  next
    case 2
    then show ?thesis by (intro exI [of _ "[]"]) (simp add: mk)
  next
    case (3 m more bs ws)
    then show ?thesis by (intro exI [of _ more]) (auto simp: mk)
  next
    case (4 m more bs ws)
    then show ?thesis by (intro exI [of _ more]) (auto simp: mk)
  qed
qed

lemma candidate_streams_full:
  assumes "candidate_streams c m start stop raw ns = Inr (reasons, bs, ws)" "length bs = length ns" "n \<in> set ns"
  shows "filter (within_receipts start stop True) (raw n) \<noteq> []"
  using assms
proof (induction ns arbitrary: reasons bs ws)
  case (Cons k ns)
  obtain ages where a: "all_ok (corrected_age m) (raw k) = Inr ages" using Cons.prems by auto
  let ?q = "map snd (filter (\<lambda>(s, a). within_receipts start stop True s) (zip (raw k) ages))"
  have f: "all_ok (corrected_age m) (filter (within_receipts start stop True) (raw k)) = Inr ?q" by (rule all_ok_filter [OF a])
  have q: "?q \<noteq> []" using Cons.prems a by (auto simp: Let_def split: if_splits)
  then obtain r b w where rest: "candidate_streams c m start stop raw ns = Inr (r, b, w)" "length b = length ns"
    using Cons.prems a by (auto simp: Let_def)
  have "filter (within_receipts start stop True) (raw k) \<noteq> []" using all_ok_length [OF f] q by auto
  then show ?case using Cons.IH [OF rest] Cons.prems(3) by auto
qed simp

lemma sorted_names_empty: "sorted_names xs = [] \<longleftrightarrow> xs = []"
  by (simp add: sorted_names_def flip: set_empty)

lemma missing_stream_reason:
  assumes "p \<in> set (streams c)" "M (sp_name p) = None"
  shows "concat (map (\<lambda>p. snapshot_basic c now (r p) ref (M (sp_name p)) p) (streams c)) \<noteq> []"
    "concat (map (\<lambda>p. qualify_basic c now (r p) rf (M (sp_name p)) p) (streams c)) \<noteq> []"
  using assms by (force simp: snapshot_basic_def qualify_basic_def Let_def)+

lemma rates_missing:
  assumes "length (available_drifts ds) \<noteq> length ds"
  shows "core_rate_reasons c ds \<noteq> []"
proof -
  obtain n where "(n, None) \<in> set ds" using assms common_drift_available(1) [of ds] by (auto simp: list_ex_iff)
  then have "''insufficient_affine_drift_bins:'' @ n \<in> set (core_rate_reasons c ds)"
    unfolding core_rate_reasons_def by (force simp del: append.simps)
  then show ?thesis by auto
qed

lemma evaluation_base:
  assumes "affine_init S = Inr d0" "capture_snapshot S d now = Inr snap" "evaluate_snapshot S snap d = Inr ev"
    and "af_start d = Some s" "affine_qualification_window_ns (as_config S) = Some w" "c = as_config S" "W = in_window S d"
    and "ev_intervals ev = (early, late, whole)"
  shows "iv_drifts whole = map (\<lambda>n. (n, am_drift (affine_metrics_for c W (model_samples S W) n))) (core_streams S)"
    and "base_reasons S snap (ev_intervals ev) =
      when_reason (metrics_of c W (reference_stream c) = None) ''missing_reference_stream'' @
      concat (map (\<lambda>p. snapshot_basic c now (last_receipt_ns (stream_states W (sp_name p)))
        (map_option without_rate (metrics_of c W (reference_stream c))) (map_option without_rate (metrics_of c W (sp_name p))) p) (streams c)) @
      core_rate_reasons c (map (\<lambda>n. (n, am_drift (affine_metrics_for c W (model_samples S W) n))) (core_streams S)) @
      windows_reasons c w early late"
proof -
  have w: "0 < w" by (rule setup_cores(3) [OF assms(1,5)])
  obtain stop where stop: "stop = s + w + w" by simp
  have q: "qs_start snap = s" "qs_end snap = stop" "qs_evaluation snap = now"
    using capture_fields [OF assms(2)] assms(4,5) stop by auto
  have part: "snd (snd (partition_windows s (s + w) (stop) xs)) = filter (within_receipts s (stop) True) xs" for xs
    using w stop by (simp add: partition_windows_filter)
  have names: "sp_name p \<in> set (affine_names S)" if "p \<in> set (streams c)" for p
    using that assms(6) by (simp add: affine_names_def stream_names_def)
  have ref: "reference_stream c \<in> set (affine_names S)" using setup_cores(2) [OF assms(1)] assms(6) by simp
  have M: "snapshot_metrics c (snapshot_of snap n) (filter (within_receipts s (stop) True) (ssn_samples (snapshot_of snap n))) =
      map_option without_rate (metrics_of c W n)" if "n \<in> set (affine_names S)" for n
    using metrics_in_window [OF assms(1,2,4,5) that, folded stop] assms(7) by simp
  have last: "ssn_last_receipt (snapshot_of snap n) = last_receipt_ns (stream_states W n)" if "n \<in> set (affine_names S)" for n
    using snapshot_of_capture [OF assms(2) that] in_window_views(4) [OF assms(4,5)] assms(7) by (simp add: stream_snapshot_of_def Let_def)
  have evid: "affine_qualification_evidence S d = Some (ev_intervals ev)" by (rule evaluation_model(1) [OF assms(1-3)])
  then have "whole = drift_interval_evidence S d s (stop) True"
    using assms(4,5,8) by (simp add: affine_qualification_evidence_def stop)
  then show drifts: "iv_drifts whole = map (\<lambda>n. (n, am_drift (affine_metrics_for c W (model_samples S W) n))) (core_streams S)"
    using in_window_model(1) [OF assms(4,5) w, folded stop] in_window_views(3) [OF assms(4,5)] assms(4,6,7)
    by (simp add: drift_interval_evidence_def affine_metrics_for_def anchor_of_def)
  have "concat (map (\<lambda>p. snapshot_basic c now (ssn_last_receipt (snapshot_of snap (sp_name p)))
        (map_option without_rate (metrics_of c W (reference_stream c)))
        (snapshot_metrics c (snapshot_of snap (sp_name p)) (filter (within_receipts s (stop) True) (ssn_samples (snapshot_of snap (sp_name p))))) p) (streams c)) =
      concat (map (\<lambda>p. snapshot_basic c now (last_receipt_ns (stream_states W (sp_name p)))
        (map_option without_rate (metrics_of c W (reference_stream c))) (map_option without_rate (metrics_of c W (sp_name p))) p) (streams c))"
    by (intro arg_cong [where f = concat] map_cong refl) (simp only: M last names)
  then show "base_reasons S snap (ev_intervals ev) =
      when_reason (metrics_of c W (reference_stream c) = None) ''missing_reference_stream'' @
      concat (map (\<lambda>p. snapshot_basic c now (last_receipt_ns (stream_states W (sp_name p)))
        (map_option without_rate (metrics_of c W (reference_stream c))) (map_option without_rate (metrics_of c W (sp_name p))) p) (streams c)) @
      core_rate_reasons c (map (\<lambda>n. (n, am_drift (affine_metrics_for c W (model_samples S W) n))) (core_streams S)) @
      windows_reasons c w early late"
    using drifts assms(5) M [OF ref] by (simp add: base_reasons_def q part assms(6) [symmetric] assms(8) Let_def)
qed

lemma setup_reference: "affine_init S = Inr d0 \<Longrightarrow> reference_stream (as_config S) \<in> set (core_streams S)"
  by (auto simp: affine_init_def core_checks_def Let_def split: if_splits sum.splits)

lemma fit_none: "fit_model c ds ps = Inr None \<Longrightarrow> ps = []"
  by (auto simp: fit_model_def Let_def split: if_splits)

lemma live_reasons:
  assumes "affine_init S = Inr d0" "capture_snapshot S d now = Inr snap" "evaluate_snapshot S snap d = Inr ev"
    and "af_start d = Some s" "affine_qualification_window_ns (as_config S) = Some w" "c = as_config S" "W = in_window S d"
    and "ev_intervals ev = (early, late, whole)"
  shows "affine_qualification_reasons S W now = (case metrics_of c W (reference_stream c) of None \<Rightarrow> Inr [''missing_reference_stream'']
      | Some reference \<Rightarrow> obind (case ev_model ev of None \<Rightarrow> Inr [] | Some m \<Rightarrow> all_ok (\<lambda>n. obind (all_ok (corrected_age m) (model_samples S W n))
            (\<lambda>ages. Inr (candidate_reasons c n ages))) (affine_names S))
          (\<lambda>fits. Inr (sorted_names (
            concat (map (\<lambda>p. qualify_basic c now (last_receipt_ns (stream_states W (sp_name p))) reference (metrics_of c W (sp_name p)) p) (streams c)) @
            core_rate_reasons c (map (\<lambda>n. (n, am_drift (affine_metrics_for c W (model_samples S W) n))) (core_streams S)) @
            windows_reasons c w early late @ concat fits))))"
proof -
  have w: "0 < w" by (rule setup_cores(3) [OF assms(1,5)])
  have evid: "affine_qualification_evidence S W = Some (early, late, whole)" "af_start W = Some s"
    using evaluation_model(1) [OF assms(1-3)] in_window_evidence [OF assms(4,5) w] in_window_views(2) [OF assms(4,5)] assms(7,8)
    by simp_all
  have prov: "provisional_model S W = Inr (ev_model ev)"
    using evaluation_model(2) [OF assms(1-3)] in_window_model(2) [OF assms(4,5) w] assms(7) by simp
  have "affine_qualification_window_ns c = Some w" "positive_int now" "when_reason (now < s + 2 * w) x = []" for x
    using capture_fields [OF assms(2)] assms(4,5,6) by (auto simp: positive_int_def when_reason_def)
  note facts = this evid prov
  show ?thesis
    unfolding affine_qualification_reasons_def assms(6) [symmetric] Let_def facts option.case prod.case obind.simps
    using facts(2) by (simp split: option.split)
qed

text \<open>Without a model a core rate is missing, or a stream has no sample in the windows.\<close>

lemma no_model:
  assumes "affine_init S = Inr d0" "capture_snapshot S d now = Inr snap" "evaluate_snapshot S snap d = Inr ev"
    and "af_start d = Some s" "affine_qualification_window_ns (as_config S) = Some w" "c = as_config S" "W = in_window S d"
    and "stop = s + w + w" "ev_intervals ev = (early, late, whole)" "ev_model ev = None"
  shows "core_rate_reasons c (map (\<lambda>n. (n, am_drift (affine_metrics_for c W (model_samples S W) n))) (core_streams S)) \<noteq> [] \<or>
    (\<exists>n \<in> set (affine_names S). filter (within_receipts s stop True) (stream_samples d n) = [])"
proof -
  have w: "0 < w" by (rule setup_cores(3) [OF assms(1,5)])
  have q: "qs_start snap = s" "qs_end snap = stop" "the (affine_qualification_window_ns (as_config S)) = w"
    using capture_fields [OF assms(2)] assms(4,5,8) by auto
  have raw: "ssn_samples (snapshot_of snap n) = stream_samples d n" if "n \<in> set (affine_names S)" for n
    using snapshot_of_capture [OF assms(2) that] by (simp add: stream_snapshot_of_def stream_samples_def Let_def)
  have ref: "reference_stream c \<in> set (core_streams S)" "reference_stream c \<in> set (affine_names S)"
    using setup_reference [OF assms(1)] setup_cores(2) [OF assms(1)] by (simp_all add: assms(6))
  let ?D = "map (\<lambda>n. (n, am_drift (affine_metrics_for c W (model_samples S W) n))) (core_streams S)"
  have whole: "iv_drifts whole = ?D" by (rule evaluation_base(1) [OF assms(1-7,9)])
  consider "length (available_drifts ?D) \<noteq> length ?D"
    | ds where "fit_model c ds (envelope c s (snd (snd (partition_windows s (s + w) stop
        (ssn_samples (snapshot_of snap (reference_stream c))))))) = Inr None"
    | m0 rs bs ws where "candidate_streams c m0 s stop (\<lambda>n. ssn_samples (snapshot_of snap n)) (affine_names S) = Inr (rs, bs, ws)"
        "length bs \<noteq> length (affine_names S)"
    using evaluate_parts [OF assms(3)] assms(10) unfolding q assms(9) fst_conv snd_conv whole assms(6) by auto
  then show ?thesis
  proof cases
    case 1
    then show ?thesis using rates_missing by blast
  next
    case (2 ds)
    have "envelope c s (filter (within_receipts s stop True) (stream_samples d (reference_stream c))) = []"
      using fit_none [OF 2] w assms(8) by (simp add: partition_windows_filter raw [OF ref(2)])
    then have "(reference_stream c, None) \<in> set ?D"
      using ref(1) in_window_model(1) [OF assms(4,5) w, folded assms(7,8)] in_window_views(3) [OF assms(4,5), folded assms(7)]
      by (auto simp: affine_metrics_for_def theil_sen_age_drift_ppm_def theil_sen_def intro!: image_eqI [of _ _ "reference_stream c"])
    then have "length (available_drifts ?D) \<noteq> length ?D"
      unfolding common_drift_available(1) by (force simp only: list_ex_iff not_not split: prod.split)
    then show ?thesis using rates_missing by blast
  next
    case (3 m0 rs bs ws)
    obtain n where n: "n \<in> set (affine_names S)" "filter (within_receipts s stop True) (ssn_samples (snapshot_of snap n)) = []"
      using candidate_streams_short [OF 3] by blast
    then have "filter (within_receipts s stop True) (stream_samples d n) = []" using raw [OF n(1)] by simp
    then show ?thesis using n(1) by blast
  qed
qed

lemma evaluation_verdict:
  assumes "affine_init S = Inr d0" "capture_snapshot S d now = Inr snap" "evaluate_snapshot S snap d = Inr ev"
  shows "\<exists>rs. affine_qualification_reasons S (in_window S d) now = Inr rs \<and> (rs = [] \<longleftrightarrow> ev_reasons ev = []) \<and>
    (ev_model ev \<noteq> None \<longrightarrow> rs = ev_reasons ev)"
proof -
  define c where "c = as_config S"
  define W where "W = in_window S d"
  obtain s w stop where sw: "af_start d = Some s" "affine_qualification_window_ns (as_config S) = Some w" "stop = s + w + w"
      and q: "qs_start snap = s" "qs_end snap = stop"
    using capture_fields [OF assms(2)] by auto
  obtain early late whole where iv: "ev_intervals ev = (early, late, whole)" by (cases "ev_intervals ev") auto
  note base = evaluation_base(2) [OF assms sw(1,2) c_def W_def iv]
  note live = live_reasons [OF assms sw(1,2) c_def W_def iv]
  obtain more where more: "ev_reasons ev = sorted_names (base_reasons S snap (ev_intervals ev) @ more)"
    and parts: "\<And>m. ev_model ev = Some m \<Longrightarrow> \<exists>m0 bs ws. candidate_streams c m0 s stop (\<lambda>n. ssn_samples (snapshot_of snap n))
        (affine_names S) = Inr (more, bs, ws) \<and> length bs = length (affine_names S) \<and> m = m0\<lparr>stream_baseline_corrected_age_ns := bs\<rparr>"
    using evaluate_parts [OF assms(3)] unfolding q c_def [symmetric] by (elim exE conjE) (rule that; blast)
  have raw: "ssn_samples (snapshot_of snap n) = stream_samples d n" if "n \<in> set (affine_names S)" for n
    using snapshot_of_capture [OF assms(2) that] by (simp add: stream_snapshot_of_def stream_samples_def Let_def)
  have none: "metrics_of c W n = None \<longleftrightarrow> filter (within_receipts s stop True) (stream_samples d n) = []" for n
    using in_window_views(1) [OF sw(1,2), of n, folded sw(3) W_def] by (simp add: stream_metrics_of_def stream_samples_def Let_def)
  show ?thesis
  proof (cases "ev_model ev")
    case None
    let ?rates = "core_rate_reasons c (map (\<lambda>n. (n, am_drift (affine_metrics_for c W (model_samples S W) n))) (core_streams S))"
    have miss: "?rates \<noteq> [] \<or> (\<exists>p \<in> set (streams c). metrics_of c W (sp_name p) = None)"
      using no_model [OF assms sw(1,2) c_def W_def sw(3) iv None] none by (auto simp: affine_names_def stream_names_def c_def)
    then have "base_reasons S snap (ev_intervals ev) \<noteq> []"
      unfolding base using missing_stream_reason(1) [of _ c "\<lambda>n. map_option without_rate (metrics_of c W n)"] by auto
    moreover have "concat (map (\<lambda>p. qualify_basic c now (last_receipt_ns (stream_states W (sp_name p))) reference
        (metrics_of c W (sp_name p)) p) (streams c)) @ ?rates \<noteq> []" for reference
      using miss missing_stream_reason(2) [of _ c "metrics_of c W"] by auto
    ultimately show ?thesis
      unfolding W_def [symmetric] live using more None by (auto simp: sorted_names_empty split: option.split)
  next
    case (Some m)
    then obtain m0 bs ws where cand: "candidate_streams c m0 s stop (\<lambda>n. ssn_samples (snapshot_of snap n)) (affine_names S) = Inr (more, bs, ws)"
        "length bs = length (affine_names S)" "m = m0\<lparr>stream_baseline_corrected_age_ns := bs\<rparr>"
      using parts by blast
    have "all_ok (\<lambda>n. obind (all_ok (corrected_age m) (model_samples S W n)) (\<lambda>ages. Inr (candidate_reasons c n ages))) (affine_names S) =
      all_ok (\<lambda>n. obind (all_ok (corrected_age m0) (filter (within_receipts s stop True) (ssn_samples (snapshot_of snap n))))
        (\<lambda>ages. Inr (candidate_reasons c n ages))) (affine_names S)"
      using in_window_model(1) [OF sw(1,2) setup_cores(3) [OF assms(1) sw(2)], folded sw(3) W_def] raw by (intro all_ok_cong) (simp add: cand(3))
    then obtain fits where fits: "all_ok (\<lambda>n. obind (all_ok (corrected_age m) (model_samples S W n)) (\<lambda>ages. Inr (candidate_reasons c n ages)))
        (affine_names S) = Inr fits" "concat fits = more"
      using candidate_reasons_live [OF cand(1,2)] by auto
    have "filter (within_receipts s stop True) (stream_samples d (reference_stream c)) \<noteq> []"
      using candidate_streams_full [OF cand(1,2)] setup_cores(2) [OF assms(1)] raw unfolding c_def by metis
    then obtain reference where ref: "metrics_of c W (reference_stream c) = Some reference" using none by fastforce
    have "ev_reasons ev = sorted_names (base_reasons S snap (ev_intervals ev) @ concat fits)" using more fits(2) by simp
    then show ?thesis
      using fits(1) Some unfolding base W_def [symmetric] live ref by (simp add: copies_agree when_reason_def)
  qed
qed

end
