(* ===== verification/AffineProperties.thy ===== *)
theory AffineProperties imports AffineDemo AffineVerdict begin

text \<open>The properties of the affine timestamp discipline over whole sessions.\<close>

lemma affine_reachable:
  assumes "affine_init S = Inr d0" "list_all (affine_event_ok S) es"
  shows "affine_inv S (final (affine_step S) es d0)"
  using affine_inv_final [OF affine_init_inv [OF assms(1)] assms(2)] .

lemma affine_validated:
  assumes "affine_init S = Inr d0"
  shows "validate_config (as_config S) = Inr ()"
  using assms by (auto simp: affine_init_def discipline_init_def)

section \<open>Accepted stamps\<close>

text \<open>
  C16. An accepted stamp of a validated affine session is fresh: the frozen model corrects it, it is at
  most 5 ms ahead of the receipt time and at most the stream's age budget behind it, the session is
  then neither faulted nor recovering, and every configured stream has advanced within its hard
  ceiling.
\<close>

theorem affine_stamp_is_fresh:
  assumes "affine_init S = Inr d0" "list_all (affine_event_ok S) es" "d = final (affine_step S) es d0"
    and "fst (affine_observe S e d) = Inr r" "cr_accepted r"
  shows "\<exists>p m stamp. p \<in> set (streams (as_config S)) \<and> sp_name p = ob_stream e \<and> locked_affine_model d = Some m \<and>
    affine_corrected_stamp_ns m (ob_source e) = Inr stamp \<and> corrected_stamp_ns r = Some stamp \<and>
    stamp - ob_realtime e \<le> 5000000 \<and>
    ob_realtime e - stamp \<le> max_corrected_age_ns p \<and> max_corrected_age_ns p \<le> hard_age_ceiling_ns p \<and>
    sd_state (snd (affine_observe S e d)) = LOCKED \<and> \<not> recovery_active (snd (affine_observe S e d)) \<and>
    (\<forall>q \<in> set (streams (as_config S)). \<exists>t. last_receipt_ns (stream_states (snd (affine_observe S e d)) (sp_name q)) = Some t \<and>
       t \<le> ob_monotonic e \<and> ob_monotonic e - t \<le> hard_age_ceiling_ns q)"
proof -
  let ?c = "as_config S" let ?d = "snd (affine_observe S e d)" let ?p = "policy_of ?c (ob_stream e)"
  have inv: "affine_inv S d" using affine_reachable [OF assms(1,2)] assms(3) by simp
  have acc: "correction_accepted (fst (affine_observe S e d))" using assms(4,5) by simp
  obtain m stamp where f: "sound_entry S e" "locked_affine_model d = Some m" "affine_corrected_stamp_ns m (ob_source e) = Inr stamp"
      "corrected_stamp_ns r = Some stamp" "- max_corrected_future_ns ?c \<le> ob_realtime e - stamp"
      "ob_realtime e - stamp \<le> max_corrected_age_ns ?p" "all_live S (ob_monotonic e) ?d" "sd_state ?d = LOCKED" "\<not> recovery_active ?d"
    using observe_accepted_facts [OF inv acc] assms(4) by auto
  note v = validated_budgets [OF affine_validated [OF assms(1)]]
  have p: "?p \<in> set (streams ?c)" "sp_name ?p = ob_stream e"
    using policy_of_in [of "ob_stream e" ?c] f(1) by (simp_all add: sound_entry_def affine_names_def)
  have "\<exists>t. last_receipt_ns (stream_states ?d (sp_name q)) = Some t \<and> t \<le> ob_monotonic e \<and> ob_monotonic e - t \<le> hard_age_ceiling_ns q"
    if "q \<in> set (streams ?c)" for q
    using f(7) that v [OF that] by (auto simp: all_live_def receipt_liveness_def in_range_def Let_def split: option.splits)
  then show ?thesis using p f v [OF p(1)] by (intro exI [of _ ?p] exI [of _ m] exI [of _ stamp]) auto
qed

theorem affine_stamp_is_fresh_witness:
  "\<exists>r m stamp. fst (affine_observe af_setup (af_sample ''imu'' 22) af_locked) = Inr r \<and> locked_affine_model af_locked = Some m \<and>
    affine_corrected_stamp_ns m (ob_source (af_sample ''imu'' 22)) = Inr stamp \<and> corrected_stamp_ns r = Some stamp \<and>
    stamp - ob_realtime (af_sample ''imu'' 22) \<le> 5000000"
proof -
  obtain r where r: "fst (affine_observe af_setup (af_sample ''imu'' 22) af_locked) = Inr r" "cr_accepted r" using af_accept by simp
  show ?thesis using affine_stamp_is_fresh [OF af_init af_run_ok af_run_final [symmetric] r] r(1) by blast
qed

text \<open>
  C17. Over a whole affine session, whatever calls are made and whatever outages it recovers from, one
  monotone model corrects every accepted stamp: a later source stamp, on whichever stream, never gets
  an earlier corrected stamp, and the accepted source stamps of a stream strictly increase.
\<close>

theorem affine_session_one_clock:
  assumes "affine_init S = Inr d0" "list_all (affine_event_ok S) es"
  shows "(\<forall>(n, s, t) \<in> set (affine_stamps S es d0). \<forall>(n', s', t') \<in> set (affine_stamps S es d0). s \<le> s' \<longrightarrow> t \<le> t') \<and>
    sorted_wrt (<) (stream_stamps n (affine_stamps S es d0))"
proof -
  note inv = affine_init_inv [OF assms(1)]
  have "t \<le> t'" if a: "(n, s, t) \<in> set (affine_stamps S es d0)" "(n', s', t') \<in> set (affine_stamps S es d0)" "s \<le> s'" for n s t n' s' t'
  proof -
    obtain m where m: "model_frozen S m (final (affine_step S) es d0)" "affine_corrected_stamp_ns m s = Inr t"
      using affine_stamps_model [OF inv assms(2) a(1)] by blast
    obtain m' where m': "model_frozen S m' (final (affine_step S) es d0)" "affine_corrected_stamp_ns m' s' = Inr t'"
      using affine_stamps_model [OF inv assms(2) a(2)] by blast
    have "m' = m" "fle (Fin 0) (am_scale m)"
      using m(1) m'(1) by (simp_all add: model_frozen_def affine_inv_def aligned_def)
    then show ?thesis using affine_corrected_mono [OF m(2)] m'(2) a(3) by blast
  qed
  then show ?thesis using affine_stamps_increasing [OF inv assms(2)] by blast
qed

lemma af_session_stamps:
  "(''imu'', 1022 * SECOND_NS, 1022 * SECOND_NS + 15000000) \<in> set (affine_stamps af_setup (af_qualifying_run @ [ASample (af_sample ''imu'' 22)]) (af_state 0 0))"
proof -
  have split: "affine_stamps S (es @ [ev]) d = affine_stamps S es d @ affine_stamp_of ev (fst (affine_step S ev (final (affine_step S) es d)))" for S es ev d
    by (induction es arbitrary: d) simp_all
  have "ob_stream (af_sample ''imu'' 22) = ''imu''" "ob_source (af_sample ''imu'' 22) = 1022 * SECOND_NS" by (simp_all add: af_sample_def)
  then show ?thesis using af_accept by (simp add: split af_run_final)
qed

theorem affine_session_one_clock_witness:
  "\<exists>t. (''imu'', 1022 * SECOND_NS, t) \<in> set (affine_stamps af_setup (af_qualifying_run @ [ASample (af_sample ''imu'' 22)]) (af_state 0 0)) \<and>
    (\<forall>(n', s', t') \<in> set (affine_stamps af_setup (af_qualifying_run @ [ASample (af_sample ''imu'' 22)]) (af_state 0 0)).
       1022 * SECOND_NS \<le> s' \<longrightarrow> t \<le> t')"
proof -
  have ok: "list_all (affine_event_ok af_setup) (af_qualifying_run @ [ASample (af_sample ''imu'' 22)])"
    using af_run_ok by (simp add: affine_event_ok_def)
  show ?thesis using affine_session_one_clock [OF af_init ok, THEN conjunct1] af_session_stamps by blast
qed

section \<open>What a lock has seen\<close>


lemma fold_max: "fold max gs (g :: int) = Max (set (g # gs))"
  by (metis Max.set_eq_fold list.set(2))

lemma max_gap_bound:
  assumes "max_gap xs = Some g" "Suc i < length xs"
  shows "sample_receipt (xs ! Suc i) - sample_receipt (xs ! i) \<le> g"
proof -
  have "(xs ! i, xs ! Suc i) \<in> set (zip xs (tl xs))" using assms(2) by (auto simp: in_set_conv_nth nth_tl intro!: exI [of _ i])
  then have "sample_receipt (xs ! Suc i) - sample_receipt (xs ! i) \<in> set (map (snd \<circ> snd) (receipt_gaps xs))"
    by (force simp: receipt_gaps_def)
  moreover have "g = Max (set (map (snd \<circ> snd) (receipt_gaps xs)))"
    using assms(1) by (auto simp: max_gap_def fold_max split: list.splits)
  ultimately show ?thesis by (metis Max_ge finite_set)
qed






lemma first_reason_None: "first_reason f xs = None \<longleftrightarrow> (\<forall>x \<in> set xs. f x = None)"
  by (induction xs) (auto split: option.splits)

lemma recent_reason_None:
  assumes "recent_reason d start now p = None" "xs = recent_samples d start now (sp_name p)"
  shows "2 \<le> length xs" "sample_receipt (hd xs) - start \<le> stale_receipt_timeout_ns p"
    "now - sample_receipt (last xs) \<le> stale_receipt_timeout_ns p"
    "i < length xs - 1 \<Longrightarrow> sample_receipt (xs ! Suc i) - sample_receipt (xs ! i) \<le> stale_receipt_timeout_ns p"
proof -
  show len: "2 \<le> length xs" and "sample_receipt (hd xs) - start \<le> stale_receipt_timeout_ns p"
    "now - sample_receipt (last xs) \<le> stale_receipt_timeout_ns p"
    using assms by (auto simp: recent_reason_def Let_def split: if_splits)
  obtain g where g: "max_gap xs = Some g"
    using len by (cases xs; cases "tl xs") (auto simp: max_gap_def receipt_gaps_def)
  then have "g \<le> stale_receipt_timeout_ns p" using assms by (auto simp: recent_reason_def Let_def split: if_splits)
  then show "i < length xs - 1 \<Longrightarrow> sample_receipt (xs ! Suc i) - sample_receipt (xs ! i) \<le> stale_receipt_timeout_ns p"
    using max_gap_bound [OF g, of i] by linarith
qed

lemma live_baselines_budget:
  assumes "live_baselines c m samples ns = Inr bs" "n \<in> set ns"
  shows "\<exists>ages. all_ok (corrected_age m) (samples n) = Inr ages \<and> - max_corrected_future_ns c \<le> Min (set ages) \<and>
    the (quantile ages (fl (19 / 20))) \<le> max_corrected_age_ns (policy_of c n)"
  using assms
proof (induction ns arbitrary: bs)
  case (Cons k ns)
  then show ?case by (cases "n = k") (auto simp: fail_on_def split: if_splits)
qed simp

text \<open>A stream that is alive over an interval and whose samples the model puts where it may.\<close>

definition live_recently ::
  "discipline_config \<Rightarrow> affine_clock_model \<Rightarrow> int \<Rightarrow> int \<Rightarrow> affine_discipline \<Rightarrow> stream_policy \<Rightarrow> bool" where
  "live_recently c m start now d p \<longleftrightarrow>
     (let xs = filter (within_receipts start now True) (stream_samples d (sp_name p)) in
      2 \<le> length xs \<and> sample_receipt (hd xs) - start \<le> stale_receipt_timeout_ns p \<and>
      now - sample_receipt (last xs) \<le> stale_receipt_timeout_ns p \<and>
      (\<forall>i < length xs - 1. sample_receipt (xs ! Suc i) - sample_receipt (xs ! i) \<le> stale_receipt_timeout_ns p) \<and>
      (\<exists>ages. all_ok (corrected_age m) xs = Inr ages \<and> (\<forall>a \<in> set ages. - max_corrected_future_ns c \<le> a) \<and>
         the (quantile ages (fl (19 / 20))) \<le> max_corrected_age_ns (policy_of c (sp_name p))))"

text \<open>
  C31. A lock from an independently approved rate rests on live streams: the clock domain was verified,
  the rate is finite and within the limit and is the model's, qualification started at least one
  anchor window ago, and over the last anchor window every configured stream brought at least two
  samples without a silence longer than its timeout, none of which the model puts further into the
  future than allowed, with the 95 percent quantile of the corrected ages within the stream's budget.
\<close>

theorem approved_lock_is_live:
  assumes "sd_state d = QUALIFYING" "lock_approved S drift identity now d = (Inr m, d1)"
  shows "identity \<and> isfinite drift \<and> \<not> drift_exceeded (as_config S) drift \<and> am_drift_ppm m = drift \<and>
    (\<exists>s start. af_start d = Some s \<and> s + APPROVED_AFFINE_ANCHOR_WINDOW_NS \<le> now \<and>
      start = max s (now - APPROVED_AFFINE_ANCHOR_WINDOW_NS) \<and>
      (\<forall>p \<in> set (streams (as_config S)). live_recently (as_config S) m start now d p))"
proof -
  define c where "c = as_config S"
  obtain s start ws where a: "af_start d = Some s" "s + APPROVED_AFFINE_ANCHOR_WINDOW_NS \<le> now"
      "start = max s (now - APPROVED_AFFINE_ANCHOR_WINDOW_NS)" "approved_model S drift start now d = Inr (m, ws)"
      "identity" "\<not> invalid_drift c drift"
    using assms by (auto simp: lock_approved_def c_def Let_def split: if_splits option.splits sum.splits prod.splits)
  let ?recent = "recent_samples d start now"
  obtain m0 bs where b: "first_reason (recent_reason d start now) (streams c) = None"
      "anchor_approved S drift (?recent (reference_stream c)) = Inr m0"
      "live_baselines c m0 ?recent (affine_names S) = Inr bs" "m = m0\<lparr>stream_baseline_corrected_age_ns := bs\<rparr>"
    using a(4) by (auto simp: approved_model_def fail_on_def c_def Let_def split: option.splits)
  have drift: "am_drift_ppm m = drift" using b(2,4) by (auto simp: anchor_approved_def model_at_def Let_def)
  have live: "live_recently c m start now d p" if p: "p \<in> set (streams c)" for p
  proof -
    obtain xs where x: "xs = ?recent (sp_name p)" by simp
    have r: "recent_reason d start now p = None" using b(1) p by (simp add: first_reason_None)
    have "sp_name p \<in> set (affine_names S)" using p by (simp add: affine_names_def stream_names_def c_def)
    then obtain ages where "all_ok (corrected_age m0) xs = Inr ages" "- max_corrected_future_ns c \<le> Min (set ages)"
        "the (quantile ages (fl (19 / 20))) \<le> max_corrected_age_ns (policy_of c (sp_name p))"
      using live_baselines_budget [OF b(3)] unfolding x by blast
    then have "\<exists>ages. all_ok (corrected_age m) xs = Inr ages \<and> (\<forall>a \<in> set ages. - max_corrected_future_ns c \<le> a) \<and>
         the (quantile ages (fl (19 / 20))) \<le> max_corrected_age_ns (policy_of c (sp_name p))"
      using b(4) by (auto intro: order_trans [OF _ Min_le])
    then show ?thesis
      using recent_reason_None [OF r x] x unfolding live_recently_def recent_samples_def Let_def by blast
  qed
  have "isfinite drift" "\<not> drift_exceeded c drift" using a(6) by (simp_all add: invalid_drift_def)
  then show ?thesis
    using drift a(1-3,5) live unfolding c_def [symmetric] by (intro conjI exI [of _ s] exI [of _ start] ballI) assumption+
qed

definition af_recent :: "stamp_sample list" where
  "af_recent = map af_at [20, 21]"

lemma af_recent_samples:
  "n \<in> {''imu'', ''odom''} \<Longrightarrow> recent_samples af_qualified (20 * SECOND_NS) (21 * SECOND_NS) n = af_recent"
proof -
  have "filter (within_receipts (20 * SECOND_NS) (21 * SECOND_NS) True) (af_samples 21) = af_recent" by code_simp
  then show "n \<in> {''imu'', ''odom''} \<Longrightarrow> recent_samples af_qualified (20 * SECOND_NS) (21 * SECOND_NS) n = af_recent"
    using af_stream_samples by (simp add: recent_samples_def)
qed

lemma af_recent_live:
  "first_reason (recent_reason af_qualified (20 * SECOND_NS) (21 * SECOND_NS)) (streams af_config) = None"
proof -
  have "length af_recent = 2" "sample_receipt (hd af_recent) = 20000000000" "sample_receipt (last af_recent) = 21000000000"
    "max_gap af_recent = Some 1000000000"
    by code_simp+
  then have "recent_reason af_qualified (20 * SECOND_NS) (21 * SECOND_NS) (af_policy n) = None" if "n \<in> {''imu'', ''odom''}" for n
    using that af_recent_samples [OF that] by (simp add: recent_reason_def af_names af_limits SECOND_NS_def Let_def)
  then show ?thesis by (simp add: af_names)
qed

lemma af_recent_in: "set af_recent \<subseteq> set (af_samples 21)"
  by (simp add: af_recent_def af_samples_def af_at_def SECOND_NS_def upt_rec)

definition af_approved :: affine_clock_model where
  "af_approved = af_model\<lparr>stream_baseline_corrected_age_ns := []\<rparr>"

lemma af_approved_simps: "anchor_source_ns af_approved = 1021 * SECOND_NS" "anchor_local_ns af_approved = 1021 * SECOND_NS + 15000000"
  "am_scale af_approved = Fin 1"
  by (simp_all add: af_approved_def af_model_def)

lemma af_anchor_approved: "anchor_approved af_setup (Fin 0) af_recent = Inr af_approved"
proof -
  have anchor: "Max (set (map sample_source af_recent)) = 1021000000000" by (simp add: af_recent_def af_at_def)
  have "anchor_age 1021000000000 (fsub (Fin 1) (Fin 1)) x = Inr (Fin 20000000)" if "x \<in> set af_recent" for x
  proof -
    have "fsub (Fin 1) (Fin 1) = Fin 0" by (simp add: fsub_def)
    moreover have "\<bar>sample_source x - 1021000000000\<bar> \<le> 2 ^ 53" "sample_age x = 20000000" using that by (auto simp: af_recent_def af_at_def)
    ultimately show ?thesis by (simp add: anchor_age_def float_int_small fsub_def)
  qed
  then have ages: "all_ok (anchor_age 1021000000000 (fsub (Fin 1) (Fin 1))) af_recent = Inr [Fin 20000000, Fin 20000000]"
    using all_ok_const [of af_recent] by (simp add: af_recent_def)
  have round: "round_float (Fin 20000000) = Inr 20000000"
    using round_half_even_of_int [of 20000000] by (simp add: round_float_def)
  have q: "quantile [20000000, 20000000] f = Some 20000000" for f by (rule quantile_const) auto
  show ?thesis
    unfolding anchor_approved_def Let_def unit_scale raised_def sum.case obind.simps anchor ages
    by (simp add: round q model_at_def af_approved_def af_model_def af_names af_bin SECOND_NS_def)
qed

lemma af_live_baselines:
  "live_baselines af_config af_approved (recent_samples af_qualified (20 * SECOND_NS) (21 * SECOND_NS)) [''imu'', ''odom''] =
     Inr [(''imu'', 5000000), (''odom'', 5000000)]"
proof -
  have "all_ok (corrected_age af_approved) af_recent = Inr (replicate (length af_recent) 5000000)"
    using af_corrected_age [OF af_approved_simps] af_recent_in by (intro all_ok_const) blast
  then have ages: "all_ok (corrected_age af_approved) af_recent = Inr [5000000, 5000000]" by (simp add: af_recent_def)
  have q: "quantile [5000000, 5000000] f = Some 5000000" for f by (rule quantile_const) auto
  show ?thesis
    by (simp add: af_recent_samples ages q af_limits fail_on_def)
qed

lemma af_approved_lock: "\<exists>d1. lock_approved af_setup (Fin 0) True (21 * SECOND_NS) af_qualified = (Inr af_model, d1)"
proof -
  have m: "af_approved\<lparr>stream_baseline_corrected_age_ns := [(''imu'', 5000000), (''odom'', 5000000)]\<rparr> = af_model"
    by (simp add: af_approved_def af_model_def)
  have rel: "first_reason (relative_reason af_config [(''imu'', 5000000), (''odom'', 5000000)]) [(''imu'', 5000000), (''odom'', 5000000)] = None"
    by (simp add: relative_reason_def Let_def af_names policy_of_def) (simp add: af_defs)
  have "\<exists>ws. age_windows af_setup (\<lambda>n. all_ok (corrected_age af_approved) (stream_samples af_qualified n)) = Inr ws"
    using af_corrected_ages [of "[]"] by (simp add: age_windows_def af_names af_stream_samples af_approved_def)
  then obtain ws where ws: "age_windows af_setup (\<lambda>n. all_ok (corrected_age af_approved) (stream_samples af_qualified n)) = Inr ws" by blast
  have "approved_model af_setup (Fin 0) (20 * SECOND_NS) (21 * SECOND_NS) af_qualified = Inr (af_model, ws)"
    unfolding approved_model_def Let_def af_names(1-4,6)
    by (simp add: af_recent_live [unfolded af_names] af_recent_samples af_anchor_approved af_live_baselines rel m ws fail_on_def
        del: live_baselines.simps first_reason.simps)
  moreover have "max SECOND_NS (21 * SECOND_NS - APPROVED_AFFINE_ANCHOR_WINDOW_NS) = 20 * SECOND_NS"
    by (simp add: APPROVED_AFFINE_ANCHOR_WINDOW_NS_def SECOND_NS_def)
  moreover have "\<not> invalid_drift af_config (Fin 0)" by (simp add: invalid_drift_def drift_exceeded_def) (simp add: af_defs)
  ultimately show ?thesis
    by (simp add: lock_approved_def af_qualified_simps af_names positive_int_def APPROVED_AFFINE_ANCHOR_WINDOW_NS_def SECOND_NS_def Let_def)
qed

theorem approved_lock_is_live_witness:
  "live_recently af_config af_model (20 * SECOND_NS) (21 * SECOND_NS) af_qualified (af_policy ''odom'')"
proof -
  obtain d1 where d1: "lock_approved af_setup (Fin 0) True (21 * SECOND_NS) af_qualified = (Inr af_model, d1)" using af_approved_lock by blast
  have "max SECOND_NS (21 * SECOND_NS - APPROVED_AFFINE_ANCHOR_WINDOW_NS) = 20 * SECOND_NS"
    by (simp add: APPROVED_AFFINE_ANCHOR_WINDOW_NS_def SECOND_NS_def)
  then show ?thesis
    using approved_lock_is_live [OF af_qualified_simps(1) d1] by (auto simp: af_names af_qualified_simps(2))
qed

section \<open>The terminal evaluation\<close>

text \<open>
  C28. The single-pass evaluation of a captured snapshot agrees with the live routines it replaces: the
  interval evidence and the candidate model are the ones recomputed from the live samples; the
  verdict is the one \<open>qualification_reasons\<close> gives at the same time on the samples of the two windows
  (which are all it may judge), with the very same reasons whenever there is a candidate model and an
  empty list in both or in neither; and a lock from the cached evaluation freezes the same model and
  leaves the same object as a lock that recomputes everything.
\<close>

theorem evaluation_matches_live:
  assumes "affine_init S = Inr d0" "capture_snapshot S d at0 = Inr snap" "evaluate_snapshot S snap d = Inr ev"
    and "sd_state d = QUALIFYING"
  shows "affine_qualification_evidence S d = Some (ev_intervals ev) \<and> provisional_model S d = Inr (ev_model ev) \<and>
    (\<exists>rs. affine_qualification_reasons S (in_window S d) at0 = Inr rs \<and> (rs = [] \<longleftrightarrow> ev_reasons ev = []) \<and>
       (ev_model ev \<noteq> None \<longrightarrow> rs = ev_reasons ev)) \<and>
    (\<forall>m d1 m' d2. lock_affine S identity now off drift (Some ev) d = (Inr m, d1) \<and>
       lock_affine S identity now off drift None d = (Inr m', d2) \<longrightarrow> m = m' \<and> d1 = d2)"
  using evaluation_model(1,2) [OF assms(1,2,3)] evaluation_verdict [OF assms(1,2,3)] cached_lock [OF assms] by blast

theorem evaluation_matches_live_witness:
  "provisional_model af_setup af_qualified = Inr (Some af_model) \<and>
    affine_qualification_reasons af_setup (in_window af_setup af_qualified) (21 * SECOND_NS) = Inr []"
  using evaluation_matches_live [OF af_init af_capture af_evaluate af_qualified_simps(1)] by (simp add: af_evaluation_def)

section \<open>Recovery\<close>

lemma recovery_begun:
  "\<not> recovery_active d \<Longrightarrow> recovery_active (snd (enter_recovery S r g d)) \<Longrightarrow>
     recovery_samples (snd (enter_recovery S r g d)) n = (if last_outage (as_config S) d n = None then 0 else 1)"
  "\<not> recovery_active d \<Longrightarrow> recovery_active (snd (affine_breakers S now d)) \<Longrightarrow>
     recovery_samples (snd (affine_breakers S now d)) n = (if last_outage (as_config S) d n = None then 0 else 1)"
  "\<not> recovery_active d \<Longrightarrow> recovery_active (snd (affine_poll S now d)) \<Longrightarrow>
     recovery_samples (snd (affine_poll S now d)) n = (if last_outage (as_config S) d n = None then 0 else 1)"
proof -
  show enter: "\<not> recovery_active d \<Longrightarrow> recovery_active (snd (enter_recovery S r g d)) \<Longrightarrow>
     recovery_samples (snd (enter_recovery S r g d)) n = (if last_outage (as_config S) d n = None then 0 else 1)" for d r g
    by (auto simp: enter_recovery_def begin_recovery_def fault_def)
  have sch: "recovery_active d' = recovery_active d" "last_outage c d' n = last_outage c d n"
    if "affine_scheduled S now d = (x, d')" for x d' c
    using steady_scheduled [of d S now, unfolded that] scheduled_frame(2) [of S now d, unfolded that]
    by (simp_all add: recovery_of_def last_outage_def steady_def core_of_def)
  show breakers: "\<not> recovery_active d \<Longrightarrow> recovery_active (snd (affine_breakers S now d)) \<Longrightarrow>
     recovery_samples (snd (affine_breakers S now d)) n = (if last_outage (as_config S) d n = None then 0 else 1)"
    using enter sch
    by (auto simp: affine_breakers_def map_prod_id split: option.splits prod.splits if_splits) (simp_all add: fault_def)
  show "\<not> recovery_active d \<Longrightarrow> recovery_active (snd (affine_poll S now d)) \<Longrightarrow>
     recovery_samples (snd (affine_poll S now d)) n = (if last_outage (as_config S) d n = None then 0 else 1)"
    using breakers by (auto simp: affine_poll_def split: option.splits prod.splits if_splits) (simp_all add: fault_def)
qed

text \<open>
  C18. When a locked session goes silent and a poll starts its recovery, output resumes only after every
  configured stream has been heard again: in any run that ends in an accepted sample, each stream
  brings two samples, the first of which may be the one that revealed its outage.
\<close>

theorem recovery_needs_fresh_streams:
  assumes "affine_init S = Inr d0" "list_all (affine_event_ok S) es" "d = final (affine_step S) es d0"
    and "\<not> recovery_active d" "d1 = snd (affine_poll S now d)" "recovery_active d1"
    and "list_all (affine_event_ok S) fs" "list_ex affine_accepted (outputs (affine_step S) fs d1)" "n \<in> set (affine_names S)"
  shows "2 \<le> (if last_outage (as_config S) d n = None then 0 else 1) + sum_list (map (sample_hit n) fs)"
proof -
  have inv: "affine_inv S d" using affine_reachable [OF assms(1,2)] assms(3) by simp
  have inv1: "affine_inv S d1" using inv_steady [OF inv] poll_steady(1) assms(5) by simp
  have hits: "recovery_samples d1 n = (if last_outage (as_config S) d n = None then 0 else 1)"
    using recovery_begun(3) [OF assms(4)] assms(5,6) by simp
  show ?thesis using recovery_trace [OF inv1 assms(7,6,9)] assms(8) hits by (simp add: list_ex_iff RECOVERY_REQUIRED_SAMPLES_def)
qed

theorem recovery_needs_fresh_streams_witness:
  "2 \<le> (if last_outage af_config af_locked ''odom'' = None then 0 else 1) + sum_list (map (sample_hit ''odom'') af_recovery_run)"
proof -
  have ok: "list_all (affine_event_ok af_setup) af_recovery_run" by (simp add: af_recovery_run_def affine_event_ok_def)
  have acc: "list_ex affine_accepted (outputs (affine_step af_setup) af_recovery_run af_paused)"
    using arg_cong [OF af_recovery, of "list_ex id"] by (simp add: list_ex_iff)
  show ?thesis
    using recovery_needs_fresh_streams [OF af_init af_run_ok af_run_final [symmetric] _ af_paused_def _ ok acc, of "''odom''"]
      af_paused_active(1,2) [of "''odom''"] by (simp add: af_names)
qed

end
