(* ===== verification/RobotTrackPlan.thy ===== *)
theory RobotTrackPlan imports PyVal begin

text \<open>
  \<open>packages/go2_robottrack/go2_robottrack/core.py\<close>: velocity commands and their clipping, the
  parser of \<open>/eval_dual\<close> inference responses, and \<open>PlanStore\<close>, the latest plan with its expiry.
  A response is the value \<open>json.loads\<close> returned. Texts of errors are not modelled, only which
  exception escapes.
\<close>

section \<open>Commands\<close>

record velocity_command =
  vc_vx :: pyfloat
  vc_wz :: pyfloat

definition ZERO_COMMAND :: velocity_command where
  "ZERO_COMMAND = \<lparr>vc_vx = Fin 0, vc_wz = Fin 0\<rparr>"

text \<open>\<open>ProtocolError\<close> is a \<open>ValueError\<close>; the others are raised by conversions outside its \<open>try\<close> blocks.\<close>

datatype track_exc = ProtocolError | PlainValueError | PlainTypeError | PlainOverflowError

fun conversion_exc :: "conversion_error \<Rightarrow> track_exc" where
  "conversion_exc TypeError = PlainTypeError"
| "conversion_exc ValueError = PlainValueError"
| "conversion_exc OverflowError = PlainOverflowError"

definition finite_float :: "pyval \<Rightarrow> track_exc + pyfloat" where
  "finite_float v =
     (case v of VBool b \<Rightarrow> Inl PlainValueError
      | _ \<Rightarrow> (case to_float v of Inl e \<Rightarrow> Inl (conversion_exc e)
        | Inr f \<Rightarrow> if isfinite f then Inr f else Inl PlainValueError))"

text \<open>\<open>max(-m, min(m, v))\<close>\<close>

definition clip :: "pyfloat \<Rightarrow> pyfloat \<Rightarrow> pyfloat" where
  "clip m v = fmax (fneg m) (fmin m v)"

definition clipped :: "pyfloat \<Rightarrow> pyfloat \<Rightarrow> velocity_command \<Rightarrow> track_exc + velocity_command" where
  "clipped max_vx max_wz c =
     (if isfinite (vc_vx c) \<and> isfinite (vc_wz c)
      then Inr \<lparr>vc_vx = clip max_vx (vc_vx c), vc_wz = clip max_wz (vc_wz c)\<rparr>
      else Inl PlainValueError)"

section \<open>Inference responses\<close>

definition CONTROL_DT :: pyfloat where "CONTROL_DT = fl (1 / 10)"
definition MAX_PLAN_AGE_S :: pyfloat where "MAX_PLAN_AGE_S = fl (3 / 2)"

record inference_plan =
  ip_command :: velocity_command
  ip_waypoints :: "pyfloat list list option"
  ip_source :: string

text \<open>The \<open>except (TypeError, ValueError)\<close> of \<open>_parse_vector\<close>: an \<open>OverflowError\<close> passes through.\<close>

fun as_protocol_error :: "track_exc + 'a \<Rightarrow> track_exc + 'a" where
  "as_protocol_error (Inl PlainOverflowError) = Inl PlainOverflowError"
| "as_protocol_error (Inl _) = Inl ProtocolError"
| "as_protocol_error (Inr a) = Inr a"

fun parse_vector :: "pyval \<Rightarrow> nat \<Rightarrow> track_exc + pyfloat list" where
  "parse_vector (VList xs) n =
     (if length xs \<noteq> n then Inl ProtocolError else as_protocol_error (all_ok finite_float xs))"
| "parse_vector _ n = Inl ProtocolError"

fun parse_waypoints :: "pyval \<Rightarrow> track_exc + pyfloat list list" where
  "parse_waypoints (VList rows) =
     (if length rows \<noteq> 8 then Inl ProtocolError else all_ok (\<lambda>r. parse_vector r 3) rows)"
| "parse_waypoints _ = Inl ProtocolError"

text \<open>\<open>response.get(k)\<close>: absent and \<open>null\<close> are both \<open>None\<close>.\<close>

definition get_value :: "(string \<times> pyval) list \<Rightarrow> string \<Rightarrow> pyval option" where
  "get_value d k = (case map_of d k of Some v \<Rightarrow> if v = VNone then None else Some v | None \<Rightarrow> None)"

definition first_value :: "(string \<times> pyval) list \<Rightarrow> string \<Rightarrow> string \<Rightarrow> (string \<times> pyval) option" where
  "first_value d k k' =
     (case get_value d k of Some v \<Rightarrow> Some (k, v) | None \<Rightarrow> map_option (Pair k') (get_value d k'))"

definition waypoint_command :: "pyfloat list list \<Rightarrow> velocity_command" where
  "waypoint_command rows =
     (let w = rows ! 1; over_dt = (\<lambda>x. case fdiv x CONTROL_DT of Some q \<Rightarrow> q | None \<Rightarrow> NaN) in
      \<lparr>vc_vx = over_dt (w ! 0), vc_wz = over_dt (w ! 2)\<rparr>)"

definition select_command ::
  "pyfloat \<Rightarrow> pyfloat \<Rightarrow> (string \<times> pyval) list \<Rightarrow> pyfloat list list option \<Rightarrow> track_exc + velocity_command \<times> string" where
  "select_command max_vx max_wz d rows =
     (case first_value d ''base_velocity'' ''velocity'' of
        Some (name, v) \<Rightarrow> obind (parse_vector v 3) (\<lambda>xs.
          obind (clipped max_vx max_wz \<lparr>vc_vx = xs ! 0, vc_wz = xs ! 2\<rparr>) (\<lambda>c. Inr (c, name)))
      | None \<Rightarrow> (case rows of
          Some ws \<Rightarrow> obind (clipped max_vx max_wz (waypoint_command ws)) (\<lambda>c. Inr (c, ''waypoints[1]''))
        | None \<Rightarrow> Inl ProtocolError))"

definition check_server_dt :: "(string \<times> pyval) list \<Rightarrow> track_exc + unit" where
  "check_server_dt d =
     (case map_of d ''control_dt'' of None \<Rightarrow> Inr ()
      | Some v \<Rightarrow> obind (as_protocol_error (finite_float v)) (\<lambda>dt.
          raise_unless (isclose (Fin 0) (fl (1 / 1000000)) dt CONTROL_DT) ProtocolError))"

fun parse_inference_response :: "pyfloat \<Rightarrow> pyfloat \<Rightarrow> pyval \<Rightarrow> track_exc + inference_plan" where
  "parse_inference_response max_vx max_wz (VDict d) =
     (if (case get_value d ''error'' of Some v \<Rightarrow> truthy v | None \<Rightarrow> False) then Inl ProtocolError
      else obind (case first_value d ''waypoints'' ''trajectory'' of None \<Rightarrow> Inr None
                  | Some (_, v) \<Rightarrow> obind (parse_waypoints v) (\<lambda>ws. Inr (Some ws))) (\<lambda>rows.
           obind (select_command max_vx max_wz d rows) (\<lambda>(c, source).
           obind (check_server_dt d) (\<lambda>_.
             Inr \<lparr>ip_command = c, ip_waypoints = rows, ip_source = source\<rparr>))))"
| "parse_inference_response max_vx max_wz _ = Inl ProtocolError"

section \<open>\<open>PlanStore\<close>\<close>

record plan_store =
  ps_max_age :: pyfloat
  ps_max_vx :: pyfloat
  ps_max_wz :: pyfloat
  ps_plan :: "inference_plan option"
  ps_arrival :: pyfloat
  ps_version :: nat

record dispatch_state =
  ds_command :: velocity_command
  ds_reason :: string
  ds_age :: "pyfloat option"
  ds_version :: nat

definition plan_store_init :: "pyfloat \<Rightarrow> pyfloat \<Rightarrow> pyfloat \<Rightarrow> plan_store" where
  "plan_store_init age max_vx max_wz = \<lparr>ps_max_age = age, ps_max_vx = max_vx, ps_max_wz = max_wz,
     ps_plan = None, ps_arrival = Fin 0, ps_version = 0\<rparr>"

definition plan_update :: "inference_plan \<Rightarrow> pyfloat \<Rightarrow> plan_store \<Rightarrow> (track_exc + nat) \<times> plan_store" where
  "plan_update p now s =
     (if \<not> isfinite now then (Inl PlainValueError, s)
      else case clipped (ps_max_vx s) (ps_max_wz s) (ip_command p) of
          Inl e \<Rightarrow> (Inl e, s)
        | Inr c \<Rightarrow> (Inr (ps_version s + 1),
            s\<lparr>ps_plan := Some (p\<lparr>ip_command := c\<rparr>), ps_arrival := now, ps_version := ps_version s + 1\<rparr>))"

definition plan_clear :: "plan_store \<Rightarrow> plan_store" where
  "plan_clear s = s\<lparr>ps_plan := None, ps_arrival := Fin 0, ps_version := ps_version s + 1\<rparr>"

definition plan_dispatch :: "pyfloat \<Rightarrow> plan_store \<Rightarrow> track_exc + dispatch_state" where
  "plan_dispatch now s =
     (if \<not> isfinite now then Inl PlainValueError
      else Inr (case ps_plan s of
          None \<Rightarrow> \<lparr>ds_command = ZERO_COMMAND, ds_reason = ''no_plan'', ds_age = None, ds_version = ps_version s\<rparr>
        | Some p \<Rightarrow>
            let age = fmax (Fin 0) (fsub now (ps_arrival s)) in
            if fless (ps_max_age s) age
            then \<lparr>ds_command = ZERO_COMMAND, ds_reason = ''stale_plan'', ds_age = Some age, ds_version = ps_version s\<rparr>
            else \<lparr>ds_command = ip_command p, ds_reason = ''active_plan'', ds_age = Some age, ds_version = ps_version s\<rparr>))"

section \<open>Clipping\<close>

text \<open>A value within \<open>\<plusminus> m\<close>.\<close>

definition within_limit :: "pyfloat \<Rightarrow> pyfloat \<Rightarrow> bool" where
  "within_limit m v \<longleftrightarrow> fle (fneg m) v \<and> fle v m"

definition limit_ok :: "pyfloat \<Rightarrow> bool" where
  "limit_ok m \<longleftrightarrow> isfinite m \<and> fle (Fin 0) m"

lemma limit_ok_Fin: "limit_ok m \<longleftrightarrow> (\<exists>q \<ge> 0. m = Fin q)"
  by (cases m) (auto simp: limit_ok_def)

lemma clip_within: "limit_ok m \<Longrightarrow> isfinite v \<Longrightarrow> within_limit m (clip m v)"
  by (cases v) (auto simp: limit_ok_Fin within_limit_def clip_def fmax_def fmin_def)

lemma clip_id: "limit_ok m \<Longrightarrow> within_limit m v \<Longrightarrow> clip m v = v"
  by (cases v) (auto simp: limit_ok_Fin within_limit_def clip_def fmax_def fmin_def fle_def)

lemma within_zero [simp]: "limit_ok m \<Longrightarrow> within_limit m (Fin 0)"
  by (auto simp: limit_ok_Fin within_limit_def)

definition command_ok :: "pyfloat \<Rightarrow> pyfloat \<Rightarrow> velocity_command \<Rightarrow> bool" where
  "command_ok max_vx max_wz c \<longleftrightarrow> within_limit max_vx (vc_vx c) \<and> within_limit max_wz (vc_wz c)"

lemma clipped_ok: "clipped max_vx max_wz c = Inr c' \<Longrightarrow> limit_ok max_vx \<Longrightarrow> limit_ok max_wz \<Longrightarrow> command_ok max_vx max_wz c'"
  by (auto simp: clipped_def command_ok_def clip_within split: if_splits)

lemma zero_command_ok [simp]: "limit_ok max_vx \<Longrightarrow> limit_ok max_wz \<Longrightarrow> command_ok max_vx max_wz ZERO_COMMAND"
  by (simp add: command_ok_def ZERO_COMMAND_def)

lemma parsed_command_ok:
  "parse_inference_response max_vx max_wz v = Inr p \<Longrightarrow> limit_ok max_vx \<Longrightarrow> limit_ok max_wz \<Longrightarrow>
     command_ok max_vx max_wz (ip_command p)"
  by (cases v) (auto simp: select_command_def clipped_ok split: if_splits option.splits)

section \<open>The invariant of the plan store\<close>

definition store_inv :: "plan_store \<Rightarrow> bool" where
  "store_inv s \<longleftrightarrow> limit_ok (ps_max_vx s) \<and> limit_ok (ps_max_wz s) \<and> isfinite (ps_arrival s) \<and>
     (case ps_plan s of None \<Rightarrow> True | Some p \<Rightarrow> command_ok (ps_max_vx s) (ps_max_wz s) (ip_command p))"

lemma store_inv_init: "limit_ok max_vx \<Longrightarrow> limit_ok max_wz \<Longrightarrow> store_inv (plan_store_init age max_vx max_wz)"
  by (simp add: store_inv_def plan_store_init_def)

lemma store_inv_update: "store_inv s \<Longrightarrow> store_inv (snd (plan_update p now s))"
  by (cases "ps_plan s") (auto simp: store_inv_def plan_update_def clipped_ok split: sum.split)

lemma store_inv_clear: "store_inv s \<Longrightarrow> store_inv (plan_clear s)"
  by (simp add: store_inv_def plan_clear_def)

lemma plan_limits_kept [simp]:
  "ps_max_age (snd (plan_update p now s)) = ps_max_age s" "ps_max_age (plan_clear s) = ps_max_age s"
  "ps_max_vx (snd (plan_update p now s)) = ps_max_vx s" "ps_max_vx (plan_clear s) = ps_max_vx s"
  "ps_max_wz (snd (plan_update p now s)) = ps_max_wz s" "ps_max_wz (plan_clear s) = ps_max_wz s"
  by (simp_all add: plan_update_def plan_clear_def split: sum.split)

lemma dispatch_cases:
  assumes "plan_dispatch now s = Inr ds"
  shows "ds_reason ds \<noteq> ''active_plan'' \<and> ds_command ds = ZERO_COMMAND \<or>
    ds_reason ds = ''active_plan'' \<and> (\<exists>p. ps_plan s = Some p \<and> ds_command ds = ip_command p \<and>
      \<not> fless (ps_max_age s) (fmax (Fin 0) (fsub now (ps_arrival s))))"
  using assms by (auto simp: plan_dispatch_def Let_def split: if_splits option.splits)

lemma dispatch_command_ok:
  "plan_dispatch now s = Inr ds \<Longrightarrow> store_inv s \<Longrightarrow> command_ok (ps_max_vx s) (ps_max_wz s) (ds_command ds)"
  using dispatch_cases [of now s ds] by (auto simp: store_inv_def)

end
