(* ===== verification/RobotTrackDistance.thy ===== *)
theory RobotTrackDistance imports RobotTrackPlan begin

text \<open>
  \<open>packages/go2_robottrack/go2_robottrack/distance_control.py\<close> and
  \<open>follow_distance_runtime.py\<close>: the fixed-distance controller and the runtime that owns it. Times
  come from the caller; fields hold values of their declared types, so \<open>_finite_float\<close> only tests
  finiteness. The free-text \<open>detail\<close> of a snapshot is not modelled.
\<close>

section \<open>Configuration\<close>

record distance_config =
  dc_enabled :: bool
  dc_target :: pyfloat
  dc_deadband :: pyfloat
  dc_kp :: pyfloat
  dc_max_forward :: pyfloat
  dc_max_reverse :: pyfloat
  dc_max_age :: pyfloat
  dc_min_confidence :: pyfloat

definition default_distance_config :: distance_config where
  "default_distance_config = \<lparr>dc_enabled = False, dc_target = Fin 5, dc_deadband = fl (1 / 4), dc_kp = fl (1 / 4),
     dc_max_forward = fl (1 / 2), dc_max_reverse = Fin 0, dc_max_age = fl (1 / 2), dc_min_confidence = fl (1 / 2)\<rparr>"

text \<open>\<open>DistanceControlConfig.__post_init__\<close>: does construction succeed?\<close>

definition valid_distance_config :: "distance_config \<Rightarrow> bool" where
  "valid_distance_config c \<longleftrightarrow>
     list_all isfinite [dc_target c, dc_deadband c, dc_kp c, dc_max_forward c, dc_max_reverse c, dc_max_age c,
       dc_min_confidence c] \<and>
     \<not> fle (dc_target c) (Fin 0) \<and> \<not> fless (dc_deadband c) (Fin 0) \<and> \<not> fle (dc_kp c) (Fin 0) \<and>
     \<not> fless (dc_max_forward c) (Fin 0) \<and> \<not> fless (dc_max_reverse c) (Fin 0) \<and> \<not> fle (dc_max_age c) (Fin 0) \<and>
     fle (Fin 0) (dc_min_confidence c) \<and> fle (dc_min_confidence c) (Fin 1)"

section \<open>\<open>FixedDistanceController\<close>\<close>

record measurement =
  me_distance :: pyfloat
  me_confidence :: pyfloat
  me_received :: pyfloat

record distance_result =
  dr_command :: velocity_command
  dr_reason :: string
  dr_target :: pyfloat
  dr_measured :: "pyfloat option"
  dr_error :: "pyfloat option"
  dr_age :: "pyfloat option"
  dr_requested :: "pyfloat option"

record distance_controller =
  fc_config :: distance_config
  fc_target :: pyfloat

definition controller_init :: "distance_config \<Rightarrow> distance_controller" where
  "controller_init c = \<lparr>fc_config = c, fc_target = dc_target c\<rparr>"

definition controller_set_target :: "pyfloat \<Rightarrow> distance_controller \<Rightarrow> (track_exc + pyfloat) \<times> distance_controller" where
  "controller_set_target d k =
     (if \<not> isfinite d \<or> fle d (Fin 0) then (Inl PlainValueError, k) else (Inr d, k\<lparr>fc_target := d\<rparr>))"

definition controller_adjust_target :: "pyfloat \<Rightarrow> distance_controller \<Rightarrow> (track_exc + pyfloat) \<times> distance_controller" where
  "controller_adjust_target delta k =
     (if \<not> isfinite delta then (Inl PlainValueError, k)
      else let target = fadd (fc_target k) delta in
        if fle target (Fin 0) then (Inl PlainValueError, k) else (Inr target, k\<lparr>fc_target := target\<rparr>))"

definition stopped_result :: "velocity_command \<Rightarrow> string \<Rightarrow> distance_controller \<Rightarrow> distance_result" where
  "stopped_result m reason k = \<lparr>dr_command = \<lparr>vc_vx = Fin 0, vc_wz = vc_wz m\<rparr>, dr_reason = reason,
     dr_target = fc_target k, dr_measured = None, dr_error = None, dr_age = None, dr_requested = None\<rparr>"

text \<open>\<open>math.copysign(x, s)\<close>; the sign of zero is not recorded, and \<open>s\<close> is not zero here.\<close>

definition copysign :: "pyfloat \<Rightarrow> pyfloat \<Rightarrow> pyfloat" where
  "copysign x s = (if fless s (Fin 0) then fneg (fabs x) else fabs x)"

text \<open>Why a measurement is refused, and the distance and age it is reported with.\<close>

definition refuse_measurement ::
  "distance_config \<Rightarrow> pyfloat \<Rightarrow> measurement \<Rightarrow> (string \<times> pyfloat option \<times> pyfloat option) option" where
  "refuse_measurement c now m =
     (let distance = me_distance m; confidence = me_confidence m in
      if \<not> isfinite distance then Some (''invalid_distance'', None, None)
      else if fle distance (Fin 0) then Some (''invalid_distance'', Some distance, None)
      else if \<not> isfinite confidence then Some (''invalid_confidence'', Some distance, None)
      else if \<not> (fle (Fin 0) confidence \<and> fle confidence (Fin 1)) then Some (''invalid_confidence'', Some distance, None)
      else if fless confidence (dc_min_confidence c) then Some (''low_confidence'', Some distance, None)
      else if \<not> (isfinite (me_received m) \<and> isfinite now) then Some (''invalid_timestamp'', Some distance, None)
      else let age = fsub now (me_received m) in
        if fless age (Fin 0) then Some (''future_measurement'', Some distance, Some age)
        else if fless (dc_max_age c) age then Some (''stale_measurement'', Some distance, Some age)
        else None)"

text \<open>The proportional law for an accepted measurement.\<close>

definition in_deadband :: "distance_config \<Rightarrow> pyfloat \<Rightarrow> bool" where
  "in_deadband c error \<longleftrightarrow>
     fle (fabs error) (dc_deadband c) \<or> isclose (Fin 0) (fl (1 / 10 ^ 9)) (fabs error) (dc_deadband c)"

definition requested_velocity :: "distance_config \<Rightarrow> pyfloat \<Rightarrow> pyfloat" where
  "requested_velocity c error = fmul (dc_kp c) (copysign (fsub (fabs error) (dc_deadband c)) error)"

definition track_distance ::
  "velocity_command \<Rightarrow> distance_controller \<Rightarrow> pyfloat \<Rightarrow> pyfloat \<Rightarrow> distance_result" where
  "track_distance m k distance age =
     (let c = fc_config k; error = fsub distance (fc_target k);
          stop = (\<lambda>reason requested. (stopped_result m reason k)
            \<lparr>dr_measured := Some distance, dr_error := Some error, dr_age := Some age, dr_requested := Some requested\<rparr>) in
      if in_deadband c error then stop ''within_deadband'' (Fin 0)
      else let requested = requested_velocity c error in
        if fless requested (Fin 0) \<and> feq (dc_max_reverse c) (Fin 0) then stop ''too_close_forward_hold'' requested
        else (stop ''tracking_distance'' requested)
          \<lparr>dr_command := \<lparr>vc_vx = fmax (fneg (dc_max_reverse c)) (fmin (dc_max_forward c) requested), vc_wz = vc_wz m\<rparr>\<rparr>)"

definition controller_apply ::
  "velocity_command \<Rightarrow> measurement option \<Rightarrow> pyfloat \<Rightarrow> distance_controller \<Rightarrow> distance_result" where
  "controller_apply m me now k =
     (if \<not> dc_enabled (fc_config k) then (stopped_result m ''disabled_passthrough'' k)\<lparr>dr_command := m\<rparr>
      else case me of None \<Rightarrow> stopped_result m ''no_measurement'' k
      | Some x \<Rightarrow>
          (case refuse_measurement (fc_config k) now x of
             Some (reason, distance, age) \<Rightarrow> (stopped_result m reason k)\<lparr>dr_measured := distance, dr_age := age\<rparr>
           | None \<Rightarrow> track_distance m k (me_distance x) (fsub now (me_received x))))"

section \<open>\<open>FollowDistanceRuntime\<close>\<close>

record follow_runtime =
  fr_controller :: distance_controller
  fr_min :: pyfloat
  fr_max :: pyfloat
  fr_active :: bool
  fr_measurement :: "measurement option"
  fr_source :: string
  fr_status :: string
  fr_revision :: nat

record follow_snapshot =
  fs_enabled :: bool
  fs_active :: bool
  fs_target :: pyfloat
  fs_measured :: "pyfloat option"
  fs_status :: string
  fs_confidence :: "pyfloat option"
  fs_source :: string
  fs_revision :: nat

abbreviation runtime_enabled :: "follow_runtime \<Rightarrow> bool" where
  "runtime_enabled r \<equiv> dc_enabled (fc_config (fr_controller r))"

definition MIN_TARGET_DISTANCE_M :: pyfloat where "MIN_TARGET_DISTANCE_M = fl (1 / 2)"
definition MAX_TARGET_DISTANCE_M :: pyfloat where "MAX_TARGET_DISTANCE_M = Fin 7"

definition follow_runtime_init :: follow_runtime where
  "follow_runtime_init = \<lparr>fr_controller = controller_init default_distance_config,
     fr_min = MIN_TARGET_DISTANCE_M, fr_max = MAX_TARGET_DISTANCE_M, fr_active = False, fr_measurement = None,
     fr_source = [], fr_status = ''disabled'', fr_revision = 0\<rparr>"

definition follow_snapshot_of :: "follow_runtime \<Rightarrow> follow_snapshot" where
  "follow_snapshot_of r =
     \<lparr>fs_enabled = runtime_enabled r, fs_active = fr_active r, fs_target = fc_target (fr_controller r),
      fs_measured = (case fr_measurement r of None \<Rightarrow> None
        | Some m \<Rightarrow> if isfinite (me_distance m) \<and> fless (Fin 0) (me_distance m) then Some (me_distance m) else None),
      fs_status = fr_status r,
      fs_confidence = (case fr_measurement r of None \<Rightarrow> None
        | Some m \<Rightarrow> if isfinite (me_confidence m) then Some (me_confidence m) else None),
      fs_source = fr_source r, fs_revision = fr_revision r\<rparr>"

definition bump :: "follow_runtime \<Rightarrow> follow_runtime" where
  "bump r = r\<lparr>fr_revision := fr_revision r + 1\<rparr>"

text \<open>\<open>configure\<close>: the argument is a constructed \<open>DistanceControlConfig\<close>.\<close>

definition configure :: "distance_config \<Rightarrow> pyfloat \<Rightarrow> pyfloat \<Rightarrow> follow_runtime \<Rightarrow> (track_exc + follow_snapshot) \<times> follow_runtime" where
  "configure c lo hi r =
     (if \<not> (isfinite lo \<and> isfinite hi) \<or> fle lo (Fin 0) \<or> fless hi lo then (Inl PlainValueError, r)
      else if \<not> isfinite (dc_target c) \<or> \<not> (fle lo (dc_target c) \<and> fle (dc_target c) hi) then (Inl PlainValueError, r)
      else let r' = bump (r\<lparr>fr_controller := controller_init c, fr_min := lo, fr_max := hi, fr_active := False,
             fr_measurement := None, fr_source := [], fr_status := (if dc_enabled c then ''ready'' else ''disabled'')\<rparr>)
        in (Inr (follow_snapshot_of r'), r'))"

definition set_active :: "bool \<Rightarrow> follow_runtime \<Rightarrow> follow_snapshot \<times> follow_runtime" where
  "set_active active r =
     (let on = active \<and> runtime_enabled r;
          r' = bump (r\<lparr>fr_active := on, fr_status := (if \<not> runtime_enabled r then ''disabled''
                 else if on then ''waiting_for_measurement'' else ''inactive'')\<rparr>)
      in (follow_snapshot_of r', r'))"

definition update_measurement ::
  "measurement option \<Rightarrow> string \<Rightarrow> string \<Rightarrow> follow_runtime \<Rightarrow> follow_snapshot \<times> follow_runtime" where
  "update_measurement me status source r =
     (let r' = bump (r\<lparr>fr_measurement := me, fr_source := str_strip source,
                 fr_status := (if str_strip status = [] then ''measurement_updated'' else str_strip status)\<rparr>)
      in (follow_snapshot_of r', r'))"

definition runtime_apply ::
  "velocity_command \<Rightarrow> measurement option \<Rightarrow> pyfloat \<Rightarrow> follow_runtime \<Rightarrow> distance_result \<times> follow_runtime" where
  "runtime_apply m me now r =
     (let r1 = (case me of None \<Rightarrow> r | Some x \<Rightarrow> bump (r\<lparr>fr_measurement := Some x\<rparr>));
          result = (if runtime_enabled r \<and> \<not> fr_active r then stopped_result m ''inactive'' (fr_controller r)
                    else controller_apply m (fr_measurement r1) now (fr_controller r))
      in (result, bump (r1\<lparr>fr_status := dr_reason result\<rparr>)))"

definition target_valid :: "pyfloat \<Rightarrow> follow_runtime \<Rightarrow> bool" where
  "target_valid t r \<longleftrightarrow> fle (fr_min r) t \<and> fle t (fr_max r)"

definition commit_target :: "pyfloat \<Rightarrow> follow_runtime \<Rightarrow> (track_exc + follow_snapshot) \<times> follow_runtime" where
  "commit_target t r =
     (if \<not> target_valid t r then (Inl PlainValueError, r)
      else case controller_set_target t (fr_controller r) of
          (Inl e, _) \<Rightarrow> (Inl e, r)
        | (Inr _, k) \<Rightarrow> (let r' = bump (r\<lparr>fr_controller := k, fr_status := ''target_updated''\<rparr>)
            in (Inr (follow_snapshot_of r'), r')))"

definition set_target_distance :: "pyfloat \<Rightarrow> follow_runtime \<Rightarrow> (track_exc + follow_snapshot) \<times> follow_runtime" where
  "set_target_distance d r =
     (if \<not> isfinite d \<or> \<not> runtime_enabled r then (Inl PlainValueError, r) else commit_target d r)"

definition adjust_target_distance :: "pyfloat \<Rightarrow> follow_runtime \<Rightarrow> (track_exc + follow_snapshot) \<times> follow_runtime" where
  "adjust_target_distance delta r =
     (if \<not> isfinite delta \<or> \<not> runtime_enabled r then (Inl PlainValueError, r)
      else commit_target (fadd (fc_target (fr_controller r)) delta) r)"

text \<open>\<open>handle\<close>: accepted or not, and the snapshot it answers with.\<close>

definition handle :: "string \<Rightarrow> pyfloat \<Rightarrow> follow_runtime \<Rightarrow> (bool \<times> follow_snapshot) \<times> follow_runtime" where
  "handle operation d r =
     (let name = str_lower (str_strip operation) in
      if name = ''get'' then ((True, follow_snapshot_of r), r)
      else let (out, r') = (if name = ''set'' then set_target_distance d r
                            else if name = ''adjust'' then adjust_target_distance d r
                            else (Inl PlainValueError, r)) in
        case out of Inl _ \<Rightarrow> ((False, follow_snapshot_of r'), r') | Inr snap \<Rightarrow> ((True, snap), r'))"

section \<open>The controller\<close>

lemma track_distance_keeps_yaw: "vc_wz (dr_command (track_distance m k d a)) = vc_wz m"
  by (simp add: track_distance_def stopped_result_def Let_def)

lemma apply_keeps_yaw: "vc_wz (dr_command (controller_apply m me now k)) = vc_wz m"
  by (simp add: controller_apply_def stopped_result_def track_distance_keeps_yaw split: option.split)

lemma valid_config_limits:
  "valid_distance_config c \<Longrightarrow> limit_ok (dc_max_forward c) \<and> limit_ok (dc_max_reverse c)"
  by (cases "dc_max_forward c"; cases "dc_max_reverse c") (auto simp: valid_distance_config_def limit_ok_def fle_def not_less)

lemma track_distance_bounded:
  assumes "valid_distance_config (fc_config k)" "dr_command (track_distance m k d a) = c"
  shows "fle (fneg (dc_max_reverse (fc_config k))) (vc_vx c) \<and> fle (vc_vx c) (dc_max_forward (fc_config k))"
proof -
  obtain f g where fg: "dc_max_forward (fc_config k) = Fin f" "dc_max_reverse (fc_config k) = Fin g" "0 \<le> f" "0 \<le> g"
    using valid_config_limits [OF assms(1)] by (auto simp: limit_ok_Fin)
  have "fle (Fin (- g)) (fmax (Fin (- g)) (fmin (Fin f) v)) \<and> fle (fmax (Fin (- g)) (fmin (Fin f) v)) (Fin f)" for v
    using fg(3,4) by (cases v) (auto simp: fmax_def fmin_def fle_def)
  then show ?thesis using assms(2) fg by (auto simp: track_distance_def stopped_result_def Let_def)
qed

lemma apply_bounded:
  assumes "valid_distance_config (fc_config k)" "dc_enabled (fc_config k)" "dr_command (controller_apply m me now k) = c"
  shows "fle (fneg (dc_max_reverse (fc_config k))) (vc_vx c) \<and> fle (vc_vx c) (dc_max_forward (fc_config k))"
proof -
  have z: "fle (fneg (dc_max_reverse (fc_config k))) (Fin 0) \<and> fle (Fin 0) (dc_max_forward (fc_config k))"
    using valid_config_limits [OF assms(1)] by (auto simp: limit_ok_Fin)
  show ?thesis
  proof (cases me)
    case (Some x)
    show ?thesis
    proof (cases "refuse_measurement (fc_config k) now x")
      case None
      then show ?thesis using assms(2,3) Some track_distance_bounded [OF assms(1) refl] by (auto simp: controller_apply_def)
    next
      case (Some e)
      then show ?thesis using assms(2,3) \<open>me = Some x\<close> z by (cases e) (auto simp: controller_apply_def stopped_result_def)
    qed
  qed (use assms(2,3) z in \<open>auto simp: controller_apply_def stopped_result_def\<close>)
qed

text \<open>The robot only moves along \<open>x\<close> on an accepted measurement outside the deadband.\<close>

lemma apply_moves:
  assumes "dc_enabled (fc_config k)" "dr_command (controller_apply m me now k) = c" "vc_vx c \<noteq> Fin 0"
  shows "\<exists>x. me = Some x \<and> refuse_measurement (fc_config k) now x = None \<and>
    \<not> in_deadband (fc_config k) (fsub (me_distance x) (fc_target k))"
  using assms by (auto simp: controller_apply_def track_distance_def stopped_result_def Let_def
      split: option.splits if_splits)

text \<open>Forward motion needs a target farther than the requested distance plus the deadband.\<close>

lemma fle_Fin_right: "fle a (Fin b) \<longleftrightarrow> a = NInf \<or> (\<exists>q. a = Fin q \<and> q \<le> b)"
  by (cases a) (auto simp: fle_def)

lemma requested_sign:
  assumes "valid_distance_config c" "\<not> in_deadband c e" "fless e (Fin 0)"
  shows "fle (requested_velocity c e) (Fin 0)"
proof -
  obtain b p where v: "dc_deadband c = Fin b" "dc_kp c = Fin p" "0 \<le> b" "0 < p"
    using assms(1) by (cases "dc_deadband c"; cases "dc_kp c") (auto simp: valid_distance_config_def)
  show ?thesis
  proof (cases e)
    case (Fin x)
    then have "b < \<bar>x\<bar>" "x < 0" using assms(2,3) v by (simp_all add: in_deadband_def)
    then have "fle (Fin 0) (fl (\<bar>x\<bar> - b))" using fl_mono [of 0 "\<bar>x\<bar> - b"] by simp
    then consider s where "fl (\<bar>x\<bar> - b) = Fin s" "0 \<le> s" | "fl (\<bar>x\<bar> - b) = PInf"
      by (cases "fl (\<bar>x\<bar> - b)") (auto simp: fle_def)
    then show ?thesis
    proof cases
      case 1
      then have "fle (fl (- (p * s))) (Fin 0)" using fl_mono [of "- (p * s)" 0] v by simp
      then show ?thesis using 1 v Fin \<open>x < 0\<close> by (simp add: requested_velocity_def copysign_def fsub_def)
    qed (use v Fin \<open>x < 0\<close> in \<open>simp add: requested_velocity_def copysign_def fsub_def finf_sign_def fle_Fin_right\<close>)
  qed (use v assms(3) in \<open>simp_all add: requested_velocity_def copysign_def fsub_def finf_sign_def fle_Fin_right\<close>)
qed

lemma clamp_nonpos: "0 \<le> g \<Longrightarrow> fle v (Fin 0) \<Longrightarrow> fle (fmax (Fin (- g)) (fmin f v)) (Fin 0)"
  by (cases f; cases v) (auto simp: fmax_def fmin_def fle_Fin_right)

lemma apply_forward_far:
  assumes "valid_distance_config (fc_config k)" "isfinite (fc_target k)" "dc_enabled (fc_config k)"
    "dr_command (controller_apply m me now k) = c" "fless (Fin 0) (vc_vx c)"
  shows "\<exists>x. me = Some x \<and> refuse_measurement (fc_config k) now x = None \<and>
    fless (dc_deadband (fc_config k)) (fsub (me_distance x) (fc_target k))"
proof -
  have "vc_vx c \<noteq> Fin 0" using assms(5) by auto
  then obtain x where x: "me = Some x" "refuse_measurement (fc_config k) now x = None"
      "\<not> in_deadband (fc_config k) (fsub (me_distance x) (fc_target k))"
    using apply_moves [OF assms(3,4)] by blast
  let ?e = "fsub (me_distance x) (fc_target k)"
  obtain g where g: "dc_max_reverse (fc_config k) = Fin g" "0 \<le> g"
    using valid_config_limits [OF assms(1)] by (auto simp: limit_ok_Fin)
  have vx: "vc_vx c = Fin 0 \<or> vc_vx c = fmax (Fin (- g)) (fmin (dc_max_forward (fc_config k)) (requested_velocity (fc_config k) ?e))"
    using assms(3,4) x g by (auto simp: controller_apply_def track_distance_def stopped_result_def Let_def)
  have "fle (vc_vx c) (Fin 0)" if "fless ?e (Fin 0)"
    using vx clamp_nonpos [OF g(2)] requested_sign [OF assms(1) x(3) that] by auto
  then have ge: "\<not> fless ?e (Fin 0)" using assms(5) by (cases "vc_vx c") (auto simp: fle_Fin_right)
  obtain d t b where v: "me_distance x = Fin d" "fc_target k = Fin t" "dc_deadband (fc_config k) = Fin b"
    using x(2) assms(1,2) by (auto simp: refuse_measurement_def valid_distance_config_def isfinite_iff Let_def split: if_splits)
  have "fless (dc_deadband (fc_config k)) (fabs ?e)"
    using x(3) v fl_not_NaN [of "d - t"] by (cases "fl (d - t)") (auto simp: in_deadband_def fsub_def fle_def)
  then show ?thesis using x(1,2) ge v fl_not_NaN [of "d - t"] by (cases "fl (d - t)") (auto simp: fsub_def)
qed

section \<open>The runtime\<close>

text \<open>The target stays finite, positive and inside the configured interval.\<close>

definition runtime_inv :: "follow_runtime \<Rightarrow> bool" where
  "runtime_inv r \<longleftrightarrow> isfinite (fc_target (fr_controller r)) \<and> fless (Fin 0) (fr_min r) \<and>
     target_valid (fc_target (fr_controller r)) r \<and> (fr_active r \<longrightarrow> runtime_enabled r)"

lemma runtime_inv_init: "runtime_inv follow_runtime_init"
  by (simp add: runtime_inv_def follow_runtime_init_def target_valid_def controller_init_def default_distance_config_def
      MIN_TARGET_DISTANCE_M_def MAX_TARGET_DISTANCE_M_def)

lemma bump_simps [simp]:
  "fr_controller (bump r) = fr_controller r" "fr_min (bump r) = fr_min r" "fr_max (bump r) = fr_max r"
  "fr_active (bump r) = fr_active r" "fr_measurement (bump r) = fr_measurement r"
  by (simp_all add: bump_def)

lemma runtime_inv_configure: "runtime_inv r \<Longrightarrow> runtime_inv (snd (configure c lo hi r))"
  by (cases lo) (auto simp: configure_def runtime_inv_def target_valid_def controller_init_def Let_def fle_def not_less)

lemma runtime_inv_set_active: "runtime_inv r \<Longrightarrow> runtime_inv (snd (set_active b r))"
  by (auto simp: set_active_def runtime_inv_def target_valid_def Let_def)

lemma runtime_inv_measurement: "runtime_inv r \<Longrightarrow> runtime_inv (snd (update_measurement me status source r))"
  by (auto simp: update_measurement_def runtime_inv_def target_valid_def Let_def)

lemma runtime_inv_apply: "runtime_inv r \<Longrightarrow> runtime_inv (snd (runtime_apply m me now r))"
  by (auto simp: runtime_apply_def runtime_inv_def target_valid_def Let_def split: option.split)

lemma runtime_inv_commit: "runtime_inv r \<Longrightarrow> runtime_inv (snd (commit_target t r))"
  by (auto simp: commit_target_def controller_set_target_def runtime_inv_def target_valid_def Let_def)

lemma runtime_inv_handle: "runtime_inv r \<Longrightarrow> runtime_inv (snd (handle op d r))"
  using runtime_inv_commit [of r]
  by (auto simp: handle_def set_target_distance_def adjust_target_distance_def Let_def split: prod.split sum.split)
     (metis snd_conv)+

end
