(* ===== verification/RobotTrackConfig.thy ===== *)
theory RobotTrackConfig imports RobotTrackDistance "HOL-Library.Sublist" begin

text \<open>
  \<open>RuntimeConfig.from_mapping\<close> of \<open>packages/go2_robottrack/go2_robottrack/core.py\<close>: the settings
  of a RobotTrack runtime, out of a JSON object. \<open>str\<close> of a value that is no text and
  \<open>urllib.parse.urlparse\<close> are the parameters \<open>py_repr\<close> and \<open>parse_url\<close>.
\<close>

definition MODEL_CROP_SIZE :: int where "MODEL_CROP_SIZE = 384"
definition MAX_CONFIGURED_VX :: pyfloat where "MAX_CONFIGURED_VX = fl (1 / 2)"
definition MAX_CONFIGURED_WZ :: pyfloat where "MAX_CONFIGURED_WZ = fl (2 / 5)"
definition MAX_VX :: pyfloat where "MAX_VX = fl (3 / 20)"
definition MAX_WZ :: pyfloat where "MAX_WZ = fl (3 / 10)"

record url_parts =
  url_scheme :: string
  url_has_host :: bool
  url_has_credentials :: bool
  url_path :: string

record runtime_config =
  rc_mode :: string
  rc_rgb_topic :: string
  rc_depth_topic :: string
  rc_command_topic :: string
  rc_server_url :: string
  rc_instruction :: string
  rc_jpeg_quality :: int
  rc_http_timeout :: pyfloat
  rc_control_dt :: pyfloat
  rc_dispatch_hz :: pyfloat
  rc_max_plan_age :: pyfloat
  rc_max_vx :: pyfloat
  rc_max_wz :: pyfloat
  rc_nav_raw_topic :: string
  rc_robottrack_raw_topic :: string
  rc_selected_output_topic :: string
  rc_selected_source :: string
  rc_source_max_age :: pyfloat
  rc_distance_enabled :: bool
  rc_target_distance :: pyfloat
  rc_min_target :: pyfloat
  rc_max_target :: pyfloat
  rc_deadband :: pyfloat
  rc_kp :: pyfloat
  rc_max_forward :: pyfloat
  rc_max_reverse :: pyfloat
  rc_measurement_max_age :: pyfloat
  rc_min_confidence :: pyfloat
  rc_pair_max_delta :: pyfloat
  rc_center_fallback :: bool

section \<open>Field readers\<close>

text \<open>\<open>str(v or default)\<close>; \<open>v\<close> is \<open>None\<close> when the key is absent.\<close>

definition text_or :: "(pyval \<Rightarrow> string) \<Rightarrow> pyval \<Rightarrow> string \<Rightarrow> string" where
  "text_or py_repr v d = (if truthy v then py_str py_repr v else d)"

abbreviation cfg_get :: "(string \<times> pyval) list \<Rightarrow> string \<Rightarrow> pyval" where
  "cfg_get cfg k \<equiv> get_or cfg k VNone"

text \<open>\<open>int(v)\<close>\<close>

fun to_int :: "pyval \<Rightarrow> track_exc + int" where
  "to_int (VInt i) = Inr i"
| "to_int (VBool b) = Inr (if b then 1 else 0)"
| "to_int (VFloat (Fin q)) = Inr (if 0 \<le> q then \<lfloor>q\<rfloor> else \<lceil>q\<rceil>)"
| "to_int (VFloat NaN) = Inl PlainValueError"
| "to_int (VFloat _) = Inl PlainOverflowError"
| "to_int (VStr s) = (case int_of_str s of Some i \<Rightarrow> Inr i | None \<Rightarrow> Inl PlainValueError)"
| "to_int _ = Inl PlainTypeError"

definition absolute_topic :: "(pyval \<Rightarrow> string) \<Rightarrow> pyval \<Rightarrow> string \<Rightarrow> track_exc + string" where
  "absolute_topic py_repr v d =
     (let topic = text_or py_repr v d in
      if take 1 topic \<noteq> ''/'' \<or> topic = ''/'' \<or> last topic = CHR ''/'' \<or> sublist ''//'' topic \<or>
         list_ex is_space topic \<or> 255 < length topic
      then Inl PlainValueError else Inr topic)"

definition float_or :: "pyval \<Rightarrow> pyfloat \<Rightarrow> track_exc + pyfloat" where
  "float_or v d = (if v = VNone then finite_float (VFloat d) else finite_float v)"

definition positive_float :: "pyval \<Rightarrow> pyfloat \<Rightarrow> pyfloat \<Rightarrow> track_exc + pyfloat" where
  "positive_float v d maximum = obind (float_or v d) (\<lambda>x.
     if fless (Fin 0) x \<and> fle x maximum then Inr x else Inl PlainValueError)"

definition bounded_float :: "pyval \<Rightarrow> pyfloat \<Rightarrow> pyfloat \<Rightarrow> pyfloat \<Rightarrow> bool \<Rightarrow> track_exc + pyfloat" where
  "bounded_float v d minimum maximum include_minimum = obind (float_or v d) (\<lambda>x.
     if \<not> (if include_minimum then fle minimum x else fless minimum x) \<or> fless maximum x
     then Inl PlainValueError else Inr x)"

definition explicit_bool :: "pyval \<Rightarrow> bool \<Rightarrow> track_exc + bool" where
  "explicit_bool v d = (case v of VNone \<Rightarrow> Inr d | VBool b \<Rightarrow> Inr b | _ \<Rightarrow> Inl PlainValueError)"

abbreviation ensure :: "bool \<Rightarrow> track_exc + unit" where
  "ensure b \<equiv> raise_unless b PlainValueError"

section \<open>\<open>from_mapping\<close>\<close>

definition source_mux_of :: "(string \<times> pyval) list \<Rightarrow> track_exc + (string \<times> pyval) list" where
  "source_mux_of cfg = (case get_or cfg ''source_mux'' (VDict []) of
     VNone \<Rightarrow> Inr [] | VDict d \<Rightarrow> Inr d | _ \<Rightarrow> Inl PlainValueError)"

text \<open>The texts: mode, server URL, instruction and the fixed model input.\<close>

definition read_texts ::
  "(pyval \<Rightarrow> string) \<Rightarrow> (string \<Rightarrow> track_exc + url_parts) \<Rightarrow> (string \<times> pyval) list \<Rightarrow> track_exc + string \<times> string \<times> string \<times> int" where
  "read_texts py_repr parse_url cfg =
     (let mode = str_lower (str_strip (text_or py_repr (cfg_get cfg ''mode'') ''dry-run''));
          server = str_strip (text_or py_repr (cfg_get cfg ''server_url'') ''http://127.0.0.1:5801/eval_dual'');
          instruction = str_strip (text_or py_repr (cfg_get cfg ''instruction'') ''Follow the person ahead'');
          input_mode = str_lower (str_strip (text_or py_repr (cfg_get cfg ''model_input_mode'') ''center_crop_height'')) in
      obind (ensure (mode \<in> {''dry-run'', ''live''})) (\<lambda>_.
      obind (parse_url server) (\<lambda>u.
      obind (ensure (url_scheme u \<in> {''http'', ''https''} \<and> url_has_host u)) (\<lambda>_.
      obind (ensure (\<not> url_has_credentials u)) (\<lambda>_.
      obind (ensure (suffix ''/eval_dual'' (url_path u))) (\<lambda>_.
      obind (ensure (instruction \<noteq> [] \<and> length instruction \<le> 1000)) (\<lambda>_.
      obind (ensure (input_mode = ''center_crop_height'')) (\<lambda>_.
      obind (to_int (get_or cfg ''model_crop_size'' (VInt MODEL_CROP_SIZE))) (\<lambda>crop.
      obind (ensure (crop = MODEL_CROP_SIZE)) (\<lambda>_.
      obind (to_int (get_or cfg ''jpeg_quality'' (VInt 60))) (\<lambda>quality.
      obind (ensure (1 \<le> quality \<and> quality \<le> 100)) (\<lambda>_.
        Inr (mode, server, instruction, quality)))))))))))))"

definition read_fixed_times ::
  "(pyval \<Rightarrow> string) \<Rightarrow> (string \<times> pyval) list \<Rightarrow> track_exc + pyfloat \<times> pyfloat" where
  "read_fixed_times py_repr cfg =
     obind (ensure (str_lower (str_strip (text_or py_repr (cfg_get cfg ''waypoint_strategy'') ''first'')) = ''first'')) (\<lambda>_.
     obind (finite_float (get_or cfg ''control_dt'' (VFloat CONTROL_DT))) (\<lambda>dt.
     obind (ensure (isclose (Fin 0) (fl (1 / 10 ^ 9)) dt CONTROL_DT)) (\<lambda>_.
     obind (finite_float (get_or cfg ''max_plan_age_s'' (VFloat MAX_PLAN_AGE_S))) (\<lambda>age.
     obind (ensure (isclose (Fin 0) (fl (1 / 10 ^ 9)) age MAX_PLAN_AGE_S)) (\<lambda>_. Inr (dt, age))))))"

record distance_limits =
  dl_max_vx :: pyfloat
  dl_max_wz :: pyfloat
  dl_enabled :: bool
  dl_min :: pyfloat
  dl_max :: pyfloat
  dl_target :: pyfloat
  dl_forward :: pyfloat
  dl_reverse :: pyfloat

definition read_limits :: "(string \<times> pyval) list \<Rightarrow> track_exc + distance_limits" where
  "read_limits cfg =
     obind (positive_float (cfg_get cfg ''max_vx'') MAX_VX MAX_CONFIGURED_VX) (\<lambda>max_vx.
     obind (positive_float (cfg_get cfg ''max_wz'') MAX_WZ MAX_CONFIGURED_WZ) (\<lambda>max_wz.
     obind (explicit_bool (cfg_get cfg ''distance_enabled'') False) (\<lambda>enabled.
     obind (bounded_float (cfg_get cfg ''min_target_distance_m'') (fl (1 / 2)) (fl (1 / 2)) (Fin 7) True) (\<lambda>lo.
     obind (bounded_float (cfg_get cfg ''max_target_distance_m'') (Fin 7) lo (Fin 7) True) (\<lambda>hi.
     obind (bounded_float (cfg_get cfg ''target_distance_m'') (Fin 5) lo hi True) (\<lambda>target.
     obind (bounded_float (cfg_get cfg ''distance_max_forward_mps'') (fmin (fl (3 / 20)) max_vx) (Fin 0) max_vx True) (\<lambda>forward.
     obind (bounded_float (cfg_get cfg ''distance_max_reverse_mps'') (Fin 0) (Fin 0) (Fin 0) True) (\<lambda>reverse.
       Inr \<lparr>dl_max_vx = max_vx, dl_max_wz = max_wz, dl_enabled = enabled, dl_min = lo, dl_max = hi, dl_target = target,
            dl_forward = forward, dl_reverse = reverse\<rparr>))))))))"

definition read_source ::
  "(pyval \<Rightarrow> string) \<Rightarrow> (string \<times> pyval) list \<Rightarrow> (string \<times> pyval) list \<Rightarrow> track_exc + string \<times> string \<times> string" where
  "read_source py_repr mux cfg =
     (let selected = str_lower (str_strip (py_str py_repr
            (get_or mux ''selected_source'' (get_or cfg ''selected_source'' (VStr ''robottrack''))))) in
      obind (ensure (selected \<in> {''navigation'', ''robottrack''})) (\<lambda>_.
      obind (absolute_topic py_repr (get_or mux ''robottrack_input_topic''
               (get_or cfg ''robottrack_raw_topic'' (VStr ''/go2/robottrack/cmd_vel_raw''))) ''/go2/robottrack/cmd_vel_raw'') (\<lambda>raw.
      obind (absolute_topic py_repr (cfg_get cfg ''command_topic'') ''/go2/robottrack/cmd_vel_raw'') (\<lambda>command.
      obind (ensure (command = raw)) (\<lambda>_. Inr (selected, raw, command))))))"

definition rc_from_mapping ::
  "(pyval \<Rightarrow> string) \<Rightarrow> (string \<Rightarrow> track_exc + url_parts) \<Rightarrow> (string \<times> pyval) list \<Rightarrow> track_exc + runtime_config" where
  "rc_from_mapping py_repr parse_url cfg =
     obind (source_mux_of cfg) (\<lambda>mux.
     obind (read_texts py_repr parse_url cfg) (\<lambda>(mode, server, instruction, quality).
     obind (read_fixed_times py_repr cfg) (\<lambda>(dt, age).
     obind (read_limits cfg) (\<lambda>l.
     obind (read_source py_repr mux cfg) (\<lambda>(selected, raw, command).
     obind (absolute_topic py_repr (cfg_get cfg ''rgb_topic'') ''/go2/d435i/color/image_raw'') (\<lambda>rgb.
     obind (absolute_topic py_repr (cfg_get cfg ''depth_topic'') ''/go2/d435i/aligned_depth_to_color/image_raw'') (\<lambda>depth.
     obind (positive_float (cfg_get cfg ''http_timeout_s'') (Fin 30) (Fin 120)) (\<lambda>timeout.
     obind (positive_float (cfg_get cfg ''dispatch_hz'') (Fin 50) (Fin 100)) (\<lambda>hz.
     obind (absolute_topic py_repr (get_or mux ''nav_input_topic''
              (get_or cfg ''nav_raw_topic'' (VStr ''/go2/robottrack/nav_cmd_vel_raw''))) ''/go2/robottrack/nav_cmd_vel_raw'') (\<lambda>nav.
     obind (absolute_topic py_repr (get_or mux ''output_topic''
              (get_or cfg ''selected_output_topic'' (VStr ''/cmd_vel_nav''))) ''/cmd_vel_nav'') (\<lambda>out.
     obind (positive_float (get_or mux ''max_age_s'' (cfg_get cfg ''source_max_age_s'')) (fl (1 / 4)) MAX_PLAN_AGE_S) (\<lambda>src_age.
     obind (bounded_float (cfg_get cfg ''distance_deadband_m'') (fl (1 / 4)) (Fin 0) (Fin 2) True) (\<lambda>deadband.
     obind (bounded_float (cfg_get cfg ''distance_kp'') (fl (1 / 4)) (Fin 0) (Fin 2) False) (\<lambda>kp.
     obind (bounded_float (cfg_get cfg ''distance_measurement_max_age_s'') (fl (3 / 5)) (fl (1 / 20)) (Fin 2) True) (\<lambda>meas_age.
     obind (bounded_float (cfg_get cfg ''distance_min_confidence'') (fl (1 / 2)) (Fin 0) (Fin 1) True) (\<lambda>conf.
     obind (bounded_float (cfg_get cfg ''distance_pair_max_delta_s'') (fl (1 / 5)) (fl (1 / 100)) (Fin 1) True) (\<lambda>pair.
     obind (explicit_bool (cfg_get cfg ''distance_center_fallback'') False) (\<lambda>fallback.
       Inr \<lparr>rc_mode = mode, rc_rgb_topic = rgb, rc_depth_topic = depth, rc_command_topic = command, rc_server_url = server,
            rc_instruction = instruction, rc_jpeg_quality = quality, rc_http_timeout = timeout, rc_control_dt = dt,
            rc_dispatch_hz = hz, rc_max_plan_age = age, rc_max_vx = dl_max_vx l, rc_max_wz = dl_max_wz l,
            rc_nav_raw_topic = nav, rc_robottrack_raw_topic = raw, rc_selected_output_topic = out,
            rc_selected_source = selected, rc_source_max_age = src_age, rc_distance_enabled = dl_enabled l,
            rc_target_distance = dl_target l, rc_min_target = dl_min l, rc_max_target = dl_max l, rc_deadband = deadband,
            rc_kp = kp, rc_max_forward = dl_forward l, rc_max_reverse = dl_reverse l, rc_measurement_max_age = meas_age,
            rc_min_confidence = conf, rc_pair_max_delta = pair, rc_center_fallback = fallback\<rparr>))))))))))))))))))"

section \<open>Configuring the distance runtime\<close>

definition distance_config_of :: "runtime_config \<Rightarrow> distance_config" where
  "distance_config_of c = \<lparr>dc_enabled = rc_distance_enabled c, dc_target = rc_target_distance c, dc_deadband = rc_deadband c,
     dc_kp = rc_kp c, dc_max_forward = rc_max_forward c, dc_max_reverse = rc_max_reverse c,
     dc_max_age = rc_measurement_max_age c, dc_min_confidence = rc_min_confidence c\<rparr>"

definition configure_distance_runtime ::
  "runtime_config \<Rightarrow> follow_runtime \<Rightarrow> (track_exc + follow_snapshot) \<times> follow_runtime" where
  "configure_distance_runtime c r =
     (if valid_distance_config (distance_config_of c)
      then configure (distance_config_of c) (rc_min_target c) (rc_max_target c) r else (Inl PlainValueError, r))"

section \<open>What an accepted configuration guarantees\<close>

lemma finite_float_finite: "finite_float v = Inr f \<Longrightarrow> isfinite f"
  by (auto simp: finite_float_def split: pyval.splits sum.splits if_splits)

lemma float_or_finite: "float_or v d = Inr x \<Longrightarrow> isfinite x"
  by (auto simp: float_or_def finite_float_finite split: if_splits)

lemma positive_float_ok: "positive_float v d m = Inr x \<Longrightarrow> isfinite x \<and> fless (Fin 0) x \<and> fle x m"
  by (auto simp: positive_float_def float_or_finite split: if_splits)

lemma bounded_float_ok:
  assumes "bounded_float v d lo hi b = Inr x" "isfinite hi"
  shows "isfinite x \<and> (if b then fle lo x else fless lo x) \<and> fle x hi"
proof -
  have x: "isfinite x" "if b then fle lo x else fless lo x" "\<not> fless hi x"
    using assms(1) by (auto simp: bounded_float_def float_or_finite split: if_splits)
  then show ?thesis using assms(2) not_fless [of hi x] by (auto simp: isfinite_not_NaN)
qed

text \<open>The limits every accepted configuration satisfies.\<close>

definition safe_config :: "runtime_config \<Rightarrow> bool" where
  "safe_config c \<longleftrightarrow>
     rc_mode c \<in> {''dry-run'', ''live''} \<and> rc_selected_source c \<in> {''navigation'', ''robottrack''} \<and>
     rc_command_topic c = rc_robottrack_raw_topic c \<and>
     isfinite (rc_max_vx c) \<and> fless (Fin 0) (rc_max_vx c) \<and> fle (rc_max_vx c) (fl (1 / 2)) \<and>
     isfinite (rc_max_wz c) \<and> fless (Fin 0) (rc_max_wz c) \<and> fle (rc_max_wz c) (fl (2 / 5)) \<and>
     isfinite (rc_max_forward c) \<and> fle (Fin 0) (rc_max_forward c) \<and> fle (rc_max_forward c) (rc_max_vx c) \<and>
     rc_max_reverse c = Fin 0 \<and>
     isfinite (rc_min_target c) \<and> isfinite (rc_max_target c) \<and> isfinite (rc_target_distance c) \<and>
     fle (fl (1 / 2)) (rc_min_target c) \<and> fle (rc_min_target c) (rc_target_distance c) \<and>
     fle (rc_target_distance c) (rc_max_target c) \<and> fle (rc_max_target c) (Fin 7) \<and>
     isfinite (rc_deadband c) \<and> fle (Fin 0) (rc_deadband c) \<and> isfinite (rc_kp c) \<and> fless (Fin 0) (rc_kp c) \<and>
     isfinite (rc_measurement_max_age c) \<and> fle (fl (1 / 20)) (rc_measurement_max_age c) \<and> fle (rc_measurement_max_age c) (Fin 2) \<and>
     isfinite (rc_min_confidence c) \<and> fle (Fin 0) (rc_min_confidence c) \<and> fle (rc_min_confidence c) (Fin 1) \<and>
     isfinite (rc_source_max_age c) \<and> fless (Fin 0) (rc_source_max_age c) \<and> fle (rc_source_max_age c) (fl (3 / 2)) \<and>
     isfinite (rc_max_plan_age c) \<and> isclose (Fin 0) (fl (1 / 10 ^ 9)) (rc_max_plan_age c) (fl (3 / 2))"

lemma read_limits_ok:
  assumes "read_limits cfg = Inr l"
  shows "isfinite (dl_max_vx l) \<and> fless (Fin 0) (dl_max_vx l) \<and> fle (dl_max_vx l) (fl (1 / 2)) \<and>
    isfinite (dl_max_wz l) \<and> fless (Fin 0) (dl_max_wz l) \<and> fle (dl_max_wz l) (fl (2 / 5)) \<and>
    isfinite (dl_min l) \<and> isfinite (dl_max l) \<and> isfinite (dl_target l) \<and>
    fle (fl (1 / 2)) (dl_min l) \<and> fle (dl_min l) (dl_target l) \<and> fle (dl_target l) (dl_max l) \<and> fle (dl_max l) (Fin 7) \<and>
    isfinite (dl_forward l) \<and> fle (Fin 0) (dl_forward l) \<and> fle (dl_forward l) (dl_max_vx l) \<and> dl_reverse l = Fin 0"
proof -
  obtain vx wz en lo hi t f g where k:
      "positive_float (cfg_get cfg ''max_vx'') MAX_VX MAX_CONFIGURED_VX = Inr vx"
      "positive_float (cfg_get cfg ''max_wz'') MAX_WZ MAX_CONFIGURED_WZ = Inr wz"
      "bounded_float (cfg_get cfg ''min_target_distance_m'') (fl (1 / 2)) (fl (1 / 2)) (Fin 7) True = Inr lo"
      "bounded_float (cfg_get cfg ''max_target_distance_m'') (Fin 7) lo (Fin 7) True = Inr hi"
      "bounded_float (cfg_get cfg ''target_distance_m'') (Fin 5) lo hi True = Inr t"
      "bounded_float (cfg_get cfg ''distance_max_forward_mps'') (fmin (fl (3 / 20)) vx) (Fin 0) vx True = Inr f"
      "bounded_float (cfg_get cfg ''distance_max_reverse_mps'') (Fin 0) (Fin 0) (Fin 0) True = Inr g"
      "l = \<lparr>dl_max_vx = vx, dl_max_wz = wz, dl_enabled = en, dl_min = lo, dl_max = hi, dl_target = t,
            dl_forward = f, dl_reverse = g\<rparr>"
    using assms unfolding read_limits_def by auto
  have vx: "isfinite vx \<and> fless (Fin 0) vx \<and> fle vx MAX_CONFIGURED_VX" using k(1) by (rule positive_float_ok)
  have wz: "isfinite wz \<and> fless (Fin 0) wz \<and> fle wz MAX_CONFIGURED_WZ" using k(2) by (rule positive_float_ok)
  have lo: "isfinite lo \<and> fle (fl (1 / 2)) lo \<and> fle lo (Fin 7)" using bounded_float_ok [OF k(3)] by simp
  have hi: "isfinite hi \<and> fle lo hi \<and> fle hi (Fin 7)" using bounded_float_ok [OF k(4)] by simp
  have t: "isfinite t \<and> fle lo t \<and> fle t hi" using bounded_float_ok [OF k(5)] hi by simp
  have f: "isfinite f \<and> fle (Fin 0) f \<and> fle f vx" using bounded_float_ok [OF k(6)] vx by simp
  have "isfinite g \<and> fle (Fin 0) g \<and> fle g (Fin 0)" using bounded_float_ok [OF k(7)] by simp
  then have g: "g = Fin 0" by (cases g) auto
  show ?thesis using vx wz lo hi t f g
    by (simp add: k(8) MAX_CONFIGURED_VX_def MAX_CONFIGURED_WZ_def del: fl_half fl_lit_2_5)
qed

lemma accepted_config_safe:
  assumes "rc_from_mapping py_repr parse_url cfg = Inr c"
  shows "safe_config c"
proof -
  obtain mux mode server instruction quality dt age l selected raw command src_age deadband kp meas_age conf rest where k:
      "read_texts py_repr parse_url cfg = Inr (mode, server, instruction, quality)"
      "read_fixed_times py_repr cfg = Inr (dt, age)" "read_limits cfg = Inr l"
      "read_source py_repr mux cfg = Inr (selected, raw, command)"
      "positive_float (get_or mux ''max_age_s'' (cfg_get cfg ''source_max_age_s'')) (fl (1 / 4)) MAX_PLAN_AGE_S = Inr src_age"
      "bounded_float (cfg_get cfg ''distance_deadband_m'') (fl (1 / 4)) (Fin 0) (Fin 2) True = Inr deadband"
      "bounded_float (cfg_get cfg ''distance_kp'') (fl (1 / 4)) (Fin 0) (Fin 2) False = Inr kp"
      "bounded_float (cfg_get cfg ''distance_measurement_max_age_s'') (fl (3 / 5)) (fl (1 / 20)) (Fin 2) True = Inr meas_age"
      "bounded_float (cfg_get cfg ''distance_min_confidence'') (fl (1 / 2)) (Fin 0) (Fin 1) True = Inr conf"
    and c: "rc_mode c = mode" "rc_selected_source c = selected" "rc_command_topic c = command"
      "rc_robottrack_raw_topic c = raw" "rc_max_vx c = dl_max_vx l" "rc_max_wz c = dl_max_wz l"
      "rc_max_forward c = dl_forward l" "rc_max_reverse c = dl_reverse l" "rc_min_target c = dl_min l"
      "rc_max_target c = dl_max l" "rc_target_distance c = dl_target l" "rc_deadband c = deadband" "rc_kp c = kp"
      "rc_measurement_max_age c = meas_age" "rc_min_confidence c = conf" "rc_source_max_age c = src_age" "rc_max_plan_age c = age"
    using assms unfolding rc_from_mapping_def by (auto split: prod.splits)
  have "mode \<in> {''dry-run'', ''live''}" using k(1) by (auto simp: read_texts_def Let_def)
  moreover have "isfinite age \<and> isclose (Fin 0) (fl (1 / 10 ^ 9)) age (fl (3 / 2))"
    using k(2) by (auto simp: read_fixed_times_def MAX_PLAN_AGE_S_def finite_float_finite simp del: fl_dyadic_3_2)
  moreover have "selected \<in> {''navigation'', ''robottrack''} \<and> command = raw"
    using k(4) by (auto simp: read_source_def Let_def)
  moreover have "isfinite src_age \<and> fless (Fin 0) src_age \<and> fle src_age (fl (3 / 2))"
    using positive_float_ok [OF k(5)] by (simp add: MAX_PLAN_AGE_S_def del: fl_dyadic_3_2)
  moreover have "isfinite deadband \<and> fle (Fin 0) deadband" using bounded_float_ok [OF k(6)] by simp
  moreover have "isfinite kp \<and> fless (Fin 0) kp" using bounded_float_ok [OF k(7)] by simp
  moreover have "isfinite meas_age \<and> fle (fl (1 / 20)) meas_age \<and> fle meas_age (Fin 2)"
    using bounded_float_ok [OF k(8)] by (simp del: fl_lit_1_20)
  moreover have "isfinite conf \<and> fle (Fin 0) conf \<and> fle conf (Fin 1)" using bounded_float_ok [OF k(9)] by simp
  ultimately show ?thesis using read_limits_ok [OF k(3)] unfolding safe_config_def c by blast
qed

lemma safe_config_distance: "safe_config c \<Longrightarrow> valid_distance_config (distance_config_of c)"
  unfolding safe_config_def valid_distance_config_def distance_config_of_def
  by (auto simp: isfinite_iff)

lemma safe_config_limits: "safe_config c \<Longrightarrow> limit_ok (rc_max_vx c) \<and> limit_ok (rc_max_wz c)"
  by (auto simp: safe_config_def limit_ok_def fless_fle)

text \<open>An accepted configuration always configures the distance runtime.\<close>

lemma safe_config_configures:
  assumes "safe_config c"
  shows "\<exists>r'. configure_distance_runtime c r = (Inr (follow_snapshot_of r'), r') \<and> runtime_inv r' \<and>
    fr_controller r' = controller_init (distance_config_of c) \<and> fr_min r' = rc_min_target c \<and> fr_max r' = rc_max_target c"
proof -
  obtain lo hi t where v: "rc_min_target c = Fin lo" "rc_max_target c = Fin hi" "rc_target_distance c = Fin t"
      "1 / 2 \<le> lo" "lo \<le> t" "t \<le> hi"
    using assms by (auto simp: safe_config_def isfinite_iff)
  then show ?thesis using safe_config_distance [OF assms]
    by (auto simp: configure_distance_runtime_def configure_def distance_config_of_def runtime_inv_def target_valid_def
        controller_init_def Let_def)
qed

end
