(* ===== verification/RobotTrackNode.thy ===== *)
theory RobotTrackNode imports RobotTrackConfig Traces begin

text \<open>
  \<open>packages/go2_robottrack/go2_robottrack/source_mux.py\<close>, \<open>distance_dispatch.py\<close> and the control
  path of \<open>ros_node.py\<close>: the mutually exclusive command mux, the choice between plan and distance
  control, and the node that ties plans, distance runtime and mux together. Publishing is the
  output of a step; images, HTTP, logging and threads are left out.
\<close>

section \<open>\<open>CommandSourceMux\<close>\<close>

record twist =
  tw_lx :: pyfloat
  tw_ly :: pyfloat
  tw_lz :: pyfloat
  tw_ax :: pyfloat
  tw_ay :: pyfloat
  tw_az :: pyfloat

definition ZERO_TWIST :: twist where
  "ZERO_TWIST = \<lparr>tw_lx = Fin 0, tw_ly = Fin 0, tw_lz = Fin 0, tw_ax = Fin 0, tw_ay = Fin 0, tw_az = Fin 0\<rparr>"

definition velocity_twist :: "velocity_command \<Rightarrow> twist" where
  "velocity_twist c = ZERO_TWIST\<lparr>tw_lx := vc_vx c, tw_az := vc_wz c\<rparr>"

definition finite_twist :: "twist \<Rightarrow> bool" where
  "finite_twist t \<longleftrightarrow> list_all isfinite [tw_lx t, tw_ly t, tw_lz t, tw_ax t, tw_ay t, tw_az t]"

definition VALID_SOURCES :: "string list" where
  "VALID_SOURCES = [''navigation'', ''robottrack'']"

record mux_state =
  mx_selected :: string
  mx_max_age :: pyfloat
  mx_latest :: "string \<Rightarrow> (twist \<times> pyfloat \<times> nat) option"
  mx_version :: nat

record mux_selection =
  ms_command :: twist
  ms_source :: string
  ms_reason :: string
  ms_age :: "pyfloat option"
  ms_command_version :: nat

definition mux_init :: "string \<Rightarrow> pyfloat \<Rightarrow> track_exc + mux_state" where
  "mux_init source max_age =
     (let selected = str_lower (str_strip source) in
      if selected \<notin> set VALID_SOURCES \<or> \<not> isfinite max_age \<or> fle max_age (Fin 0) then Inl PlainValueError
      else Inr \<lparr>mx_selected = selected, mx_max_age = max_age, mx_latest = Map.empty, mx_version = 0\<rparr>)"

definition mux_update :: "string \<Rightarrow> twist \<Rightarrow> pyfloat \<Rightarrow> mux_state \<Rightarrow> (track_exc + bool) \<times> mux_state" where
  "mux_update source t received s =
     (let name = str_lower (str_strip source) in
      if name \<notin> set VALID_SOURCES \<or> \<not> isfinite received \<or> \<not> finite_twist t then (Inl PlainValueError, s)
      else if (case mx_latest s name of Some (_, prev, _) \<Rightarrow> fle received prev | None \<Rightarrow> False) then (Inr False, s)
      else (Inr True, s\<lparr>mx_version := mx_version s + 1,
              mx_latest := (mx_latest s)(name \<mapsto> (t, received, mx_version s + 1))\<rparr>))"

definition mux_select_source :: "string \<Rightarrow> mux_state \<Rightarrow> (track_exc + unit) \<times> mux_state" where
  "mux_select_source source s =
     (let name = str_lower (str_strip source) in
      if name \<notin> set VALID_SOURCES then (Inl PlainValueError, s)
      else if name = mx_selected s then (Inr (), s)
      else (Inr (), s\<lparr>mx_selected := name, mx_latest := Map.empty, mx_version := mx_version s + 1\<rparr>))"

definition mux_output :: "pyfloat \<Rightarrow> mux_state \<Rightarrow> track_exc + mux_selection" where
  "mux_output now s =
     (if \<not> isfinite now then Inl PlainValueError
      else Inr (case mx_latest s (mx_selected s) of
          None \<Rightarrow> \<lparr>ms_command = ZERO_TWIST, ms_source = mx_selected s, ms_reason = ''selected_source_missing'',
                   ms_age = None, ms_command_version = mx_version s\<rparr>
        | Some (t, received, version) \<Rightarrow>
            let age = fmax (Fin 0) (fsub now received) in
            if fless (mx_max_age s) age
            then \<lparr>ms_command = ZERO_TWIST, ms_source = mx_selected s, ms_reason = ''selected_source_stale'',
                  ms_age = Some age, ms_command_version = version\<rparr>
            else \<lparr>ms_command = t, ms_source = mx_selected s, ms_reason = ''selected_source_fresh'',
                  ms_age = Some age, ms_command_version = version\<rparr>))"

section \<open>Choosing the command\<close>

definition select_distance_dispatch ::
  "dispatch_state \<Rightarrow> bool \<Rightarrow> (velocity_command \<Rightarrow> follow_runtime \<Rightarrow> distance_result \<times> follow_runtime) \<Rightarrow>
   follow_runtime \<Rightarrow> (velocity_command \<times> string) \<times> follow_runtime" where
  "select_distance_dispatch ds distance_enabled apply_distance r =
     (if ds_reason ds \<noteq> ''active_plan'' then ((ZERO_COMMAND, ds_reason ds), r)
      else if \<not> distance_enabled then ((ds_command ds, ds_reason ds), r)
      else let (result, r') = apply_distance (ds_command ds) r in ((dr_command result, dr_reason result), r'))"

section \<open>The node\<close>

record track_node =
  tn_config :: runtime_config
  tn_plans :: plan_store
  tn_runtime :: follow_runtime
  tn_mux :: mux_state
  tn_measured_at :: "pyfloat option"
  tn_closed :: bool

definition node_init :: "runtime_config \<Rightarrow> follow_runtime \<Rightarrow> track_exc + track_node" where
  "node_init c r =
     (case configure_distance_runtime c r of (Inl e, _) \<Rightarrow> Inl e
      | (Inr _, r1) \<Rightarrow>
          obind (mux_init (rc_selected_source c) (rc_source_max_age c)) (\<lambda>mx.
            Inr \<lparr>tn_config = c, tn_plans = plan_store_init (rc_max_plan_age c) (rc_max_vx c) (rc_max_wz c),
                 tn_runtime = snd (set_active (rc_distance_enabled c) r1), tn_mux = mx,
                 tn_measured_at = None, tn_closed = False\<rparr>))"

text \<open>The inference worker: an exception is logged and the previous plan stays.\<close>

definition on_response :: "pyval \<Rightarrow> pyfloat \<Rightarrow> track_node \<Rightarrow> track_node" where
  "on_response v now n =
     (case parse_inference_response (rc_max_vx (tn_config n)) (rc_max_wz (tn_config n)) v of Inl _ \<Rightarrow> n
      | Inr p \<Rightarrow> n\<lparr>tn_plans := snd (plan_update p now (tn_plans n))\<rparr>)"

text \<open>The callbacks of the distance estimator: a measurement, or its invalidation.\<close>

definition on_measurement :: "measurement option \<Rightarrow> string \<Rightarrow> string \<Rightarrow> track_node \<Rightarrow> track_node" where
  "on_measurement me status source n =
     (if tn_closed n then n
      else n\<lparr>tn_runtime := snd (update_measurement me status source (tn_runtime n)),
             tn_measured_at := map_option me_received me\<rparr>)"

definition expire_distance_measurement :: "pyfloat \<Rightarrow> track_node \<Rightarrow> track_node" where
  "expire_distance_measurement now n =
     (case tn_measured_at n of None \<Rightarrow> n
      | Some received \<Rightarrow>
          if fle (fsub now received) (rc_measurement_max_age (tn_config n)) then n
          else n\<lparr>tn_runtime := snd (update_measurement None ''stale_measurement'' [] (tn_runtime n)),
                 tn_measured_at := None\<rparr>)"

definition on_twist :: "string \<Rightarrow> twist \<Rightarrow> pyfloat \<Rightarrow> track_node \<Rightarrow> track_node" where
  "on_twist source t received n =
     (if rc_mode (tn_config n) \<noteq> ''live'' then n
      else n\<lparr>tn_mux := snd (mux_update source t received (tn_mux n))\<rparr>)"

text \<open>\<open>_dispatch\<close>: what it publishes on the raw and the selected topic, if it publishes at all.\<close>

definition dispatch_command :: "pyfloat \<Rightarrow> track_node \<Rightarrow> track_exc + (velocity_command \<times> string) \<times> track_node" where
  "dispatch_command now n0 =
     (let n = expire_distance_measurement now n0; c = tn_config n in
      obind (plan_dispatch now (tn_plans n)) (\<lambda>ds.
        let ((command, reason), r) = select_distance_dispatch ds (rc_distance_enabled c)
              (\<lambda>m r. runtime_apply m None now r) (tn_runtime n);
            n1 = n\<lparr>tn_runtime := r\<rparr>;
            n2 = (if rc_distance_enabled c \<and> reason = ''stale_measurement'' \<and> fs_measured (follow_snapshot_of r) \<noteq> None
                  then expire_distance_measurement now n1 else n1)
        in Inr ((command, reason), n2)))"

definition dispatch :: "pyfloat \<Rightarrow> track_node \<Rightarrow> (twist \<times> twist) option \<times> track_node" where
  "dispatch now n =
     (case dispatch_command now n of Inl _ \<Rightarrow> (None, n)
      | Inr ((command, _), n1) \<Rightarrow>
          if rc_mode (tn_config n1) = ''dry-run'' then (None, n1)
          else let n2 = n1\<lparr>tn_mux := snd (mux_update ''robottrack'' (velocity_twist command) now (tn_mux n1))\<rparr> in
            (case mux_output now (tn_mux n2) of Inl _ \<Rightarrow> (None, n2)
             | Inr sel \<Rightarrow> (Some (velocity_twist command, ms_command sel), n2)))"

definition close :: "track_node \<Rightarrow> (twist \<times> twist) option \<times> track_node" where
  "close n =
     (if tn_closed n then (None, n)
      else let n1 = n\<lparr>tn_closed := True, tn_plans := plan_clear (tn_plans n)\<rparr>;
               n2 = (if rc_distance_enabled (tn_config n)
                     then n1\<lparr>tn_runtime := snd (set_active False (snd (update_measurement None ''inactive'' [] (tn_runtime n1))))\<rparr>
                     else n1)
           in (if rc_mode (tn_config n) = ''live'' then Some (ZERO_TWIST, ZERO_TWIST) else None, n2))"

datatype track_event =
    Response pyval pyfloat
  | Measured "measurement option" string string
  | Follow string pyfloat
  | Navigation twist pyfloat
  | RawCommand twist pyfloat
  | Dispatch pyfloat
  | Close

fun track_step :: "track_event \<Rightarrow> track_node \<Rightarrow> (twist \<times> twist) option \<times> track_node" where
  "track_step (Response v now) n = (None, on_response v now n)"
| "track_step (Measured me status source) n = (None, on_measurement me status source n)"
| "track_step (Follow op d) n = (None, n\<lparr>tn_runtime := snd (handle op d (tn_runtime n))\<rparr>)"
| "track_step (Navigation t received) n = (None, on_twist ''navigation'' t received n)"
| "track_step (RawCommand t received) n = (None, on_twist ''robottrack'' t received n)"
| "track_step (Dispatch now) n = dispatch now n"
| "track_step Close n = close n"

end
