(* ===== verification/RobotTrackInvariant.thy ===== *)
theory RobotTrackInvariant imports RobotTrackNode begin

text \<open>
  The invariant of a running RobotTrack node: an accepted configuration, plans within its limits, a
  distance runtime configured by it with a target in range, and a mux bound to its source.
\<close>

section \<open>The mux\<close>

lemma mux_update_simps [simp]:
  "mx_selected (snd (mux_update source t received s)) = mx_selected s"
  "mx_max_age (snd (mux_update source t received s)) = mx_max_age s"
  by (simp_all add: mux_update_def Let_def split: option.split)

lemma mux_output_selected:
  assumes "mux_output now s = Inr sel"
  shows "ms_command sel = ZERO_TWIST \<or>
    (\<exists>received version. mx_latest s (mx_selected s) = Some (ms_command sel, received, version) \<and>
       \<not> fless (mx_max_age s) (fmax (Fin 0) (fsub now received)))"
  using assms by (auto simp: mux_output_def Let_def split: if_splits option.splits)

text \<open>A command newer than its source's last one is what the mux then emits.\<close>

definition newer :: "pyfloat \<Rightarrow> string \<Rightarrow> mux_state \<Rightarrow> bool" where
  "newer now source s \<longleftrightarrow> (case mx_latest s source of None \<Rightarrow> True | Some (_, prev, _) \<Rightarrow> fless prev now)"

lemma robottrack_name: "str_lower (str_strip ''robottrack'') = ''robottrack''" "str_lower (str_strip ''navigation'') = ''navigation''"
  by code_simp+

lemma mux_update_newer:
  assumes "newer now ''robottrack'' s" "isfinite now" "finite_twist t"
  shows "mx_latest (snd (mux_update ''robottrack'' t now s)) ''robottrack'' = Some (t, now, mx_version s + 1)"
proof -
  have "fless p now \<Longrightarrow> \<not> fle now p" for p
    by (cases p; cases now) (auto simp: fle_def)
  then show ?thesis using assms
    by (auto simp: mux_update_def Let_def robottrack_name VALID_SOURCES_def newer_def split: option.splits)
qed

lemma mux_emits_own:
  assumes "newer now ''robottrack'' s" "isfinite now" "finite_twist t" "mx_selected s = ''robottrack''"
    "fless (Fin 0) (mx_max_age s)" "mux_output now (snd (mux_update ''robottrack'' t now s)) = Inr sel"
  shows "ms_command sel = t"
proof -
  obtain q where q: "now = Fin q" using assms(2) by (auto simp: isfinite_iff)
  have "fmax (Fin 0) (fsub now now) = Fin 0" by (simp add: q fsub_def fmax_def)
  moreover have "\<not> fless (mx_max_age s) (Fin 0)" using assms(5) by (cases "mx_max_age s") auto
  ultimately show ?thesis using mux_update_newer [OF assms(1-3)] assms(4,6)
    by (auto simp: mux_output_def Let_def split: if_splits)
qed

section \<open>The distance runtime keeps its configuration\<close>

definition runtime_of :: "distance_config \<Rightarrow> pyfloat \<Rightarrow> pyfloat \<Rightarrow> follow_runtime \<Rightarrow> bool" where
  "runtime_of c lo hi r \<longleftrightarrow> runtime_inv r \<and> fc_config (fr_controller r) = c \<and> fr_min r = lo \<and> fr_max r = hi"

lemma commit_keeps: "runtime_of c lo hi r \<Longrightarrow> runtime_of c lo hi (snd (commit_target t r))"
  using runtime_inv_commit [of r t]
  by (auto simp: runtime_of_def commit_target_def controller_set_target_def Let_def)

lemma handle_keeps:
  assumes "runtime_of c lo hi r"
  shows "runtime_of c lo hi (snd (handle op d r))"
proof -
  have "snd (handle op d r) \<in> {r, snd (commit_target d r), snd (commit_target (fadd (fc_target (fr_controller r)) d) r)}"
    by (auto simp: handle_def set_target_distance_def adjust_target_distance_def Let_def split: prod.split sum.split)
  then show ?thesis using assms commit_keeps [OF assms] by auto
qed

lemma measurement_keeps: "runtime_of c lo hi r \<Longrightarrow> runtime_of c lo hi (snd (update_measurement me st src r))"
  using runtime_inv_measurement [of r me st src] by (auto simp: runtime_of_def update_measurement_def Let_def)

lemma set_active_keeps: "runtime_of c lo hi r \<Longrightarrow> runtime_of c lo hi (snd (set_active b r))"
  using runtime_inv_set_active [of r b] by (auto simp: runtime_of_def set_active_def Let_def)

lemma apply_keeps: "runtime_of c lo hi r \<Longrightarrow> runtime_of c lo hi (snd (runtime_apply m me now r))"
  using runtime_inv_apply [of r m me now]
  by (auto simp: runtime_of_def runtime_apply_def Let_def split: option.split)

lemmas runtime_keeps = handle_keeps measurement_keeps set_active_keeps apply_keeps

section \<open>The node\<close>

definition node_inv :: "runtime_config \<Rightarrow> track_node \<Rightarrow> bool" where
  "node_inv c n \<longleftrightarrow> tn_config n = c \<and> safe_config c \<and> store_inv (tn_plans n) \<and>
     ps_max_age (tn_plans n) = rc_max_plan_age c \<and> ps_max_vx (tn_plans n) = rc_max_vx c \<and> ps_max_wz (tn_plans n) = rc_max_wz c \<and>
     runtime_of (distance_config_of c) (rc_min_target c) (rc_max_target c) (tn_runtime n) \<and>
     mx_selected (tn_mux n) = rc_selected_source c \<and> mx_max_age (tn_mux n) = rc_source_max_age c"

lemma node_inv_init:
  assumes "safe_config c" "node_init c r = Inr n"
  shows "node_inv c n"
proof -
  obtain r' where r': "configure_distance_runtime c r = (Inr (follow_snapshot_of r'), r')" "runtime_inv r'"
      "fr_controller r' = controller_init (distance_config_of c)" "fr_min r' = rc_min_target c" "fr_max r' = rc_max_target c"
    using safe_config_configures [OF assms(1), of r] by blast
  have "runtime_of (distance_config_of c) (rc_min_target c) (rc_max_target c) r'"
    using r' by (simp add: runtime_of_def controller_init_def)
  moreover have "rc_selected_source c \<in> set VALID_SOURCES" using assms(1) by (simp add: safe_config_def VALID_SOURCES_def)
  then have "str_lower (str_strip (rc_selected_source c)) = rc_selected_source c"
    using robottrack_name by (auto simp: VALID_SOURCES_def)
  ultimately show ?thesis
    using assms r'(1) safe_config_limits [OF assms(1)] store_inv_init
    by (auto simp: node_inv_def node_init_def mux_init_def Let_def set_active_keeps plan_store_init_def store_inv_def split: if_splits)
qed

lemma expire_keeps: "node_inv c n \<Longrightarrow> node_inv c (expire_distance_measurement now n)"
  by (auto simp: node_inv_def expire_distance_measurement_def runtime_keeps split: option.split)

lemma expire_measurement_simps [simp]:
  "tn_config (expire_distance_measurement now n) = tn_config n" "tn_plans (expire_distance_measurement now n) = tn_plans n"
  "tn_mux (expire_distance_measurement now n) = tn_mux n"
  by (simp_all add: expire_distance_measurement_def split: option.split)

lemma select_keeps:
  "node_inv c n \<Longrightarrow> node_inv c (n\<lparr>tn_runtime := snd (select_distance_dispatch ds b (\<lambda>m r. runtime_apply m None now r) (tn_runtime n))\<rparr>)"
  by (auto simp: node_inv_def select_distance_dispatch_def runtime_keeps Let_def split: prod.split)
    (metis apply_keeps snd_conv)+

lemma dispatch_command_keeps:
  assumes "dispatch_command now n = Inr ((cmd, reason), n')" "node_inv c n"
  shows "node_inv c n' \<and> tn_mux n' = tn_mux n"
proof -
  let ?n = "expire_distance_measurement now n"
  obtain ds where ds: "plan_dispatch now (tn_plans ?n) = Inr ds"
    using assms(1) by (auto simp: dispatch_command_def Let_def)
  let ?sel = "select_distance_dispatch ds (rc_distance_enabled (tn_config ?n)) (\<lambda>m r. runtime_apply m None now r) (tn_runtime ?n)"
  have "n' \<in> {?n\<lparr>tn_runtime := snd ?sel\<rparr>, expire_distance_measurement now (?n\<lparr>tn_runtime := snd ?sel\<rparr>)}"
    using assms(1) ds by (auto simp: dispatch_command_def Let_def split: prod.splits if_splits)
  then show ?thesis using select_keeps [OF expire_keeps [OF assms(2), of now]] expire_keeps by auto
qed

lemma track_step_inv: "node_inv c n \<Longrightarrow> node_inv c (snd (track_step e n))"
proof (cases e)
  case (Dispatch now)
  assume inv: "node_inv c n"
  show ?thesis
  proof (cases "dispatch_command now n")
    case (Inr x)
    obtain cmd reason n' where x: "x = ((cmd, reason), n')" by (cases x) auto
    have "node_inv c n'" using dispatch_command_keeps Inr x inv by blast
    then show ?thesis using Dispatch Inr x by (auto simp: dispatch_def node_inv_def Let_def split: sum.split)
  qed (use Dispatch inv in \<open>simp add: dispatch_def\<close>)
next
  case Close
  assume "node_inv c n"
  then show ?thesis using Close by (auto simp: close_def node_inv_def store_inv_clear runtime_keeps Let_def)
qed (auto simp: on_response_def on_measurement_def on_twist_def node_inv_def store_inv_update runtime_keeps split: sum.split)

section \<open>The command of a dispatch\<close>

text \<open>What the published velocity of one dispatch may be, and why.\<close>

definition justified :: "runtime_config \<Rightarrow> pyfloat \<Rightarrow> track_node \<Rightarrow> velocity_command \<Rightarrow> bool" where
  "justified c now n cmd \<longleftrightarrow>
     (\<exists>p. ps_plan (tn_plans n) = Some p \<and>
        \<not> fless (rc_max_plan_age c) (fmax (Fin 0) (fsub now (ps_arrival (tn_plans n))))) \<and>
     (rc_distance_enabled c \<and> vc_vx cmd \<noteq> Fin 0 \<longrightarrow>
        fless (Fin 0) (vc_vx cmd) \<and>
        (\<exists>x. fr_measurement (tn_runtime n) = Some x \<and>
           refuse_measurement (distance_config_of c) now x = None \<and>
           fless (rc_deadband c) (fsub (me_distance x) (fc_target (fr_controller (tn_runtime n))))))"

definition command_bounded :: "runtime_config \<Rightarrow> velocity_command \<Rightarrow> bool" where
  "command_bounded c cmd \<longleftrightarrow> command_ok (rc_max_vx c) (rc_max_wz c) cmd \<and>
     (rc_distance_enabled c \<longrightarrow> fle (Fin 0) (vc_vx cmd) \<and> fle (vc_vx cmd) (rc_max_forward c))"

lemma zero_bounded: "safe_config c \<Longrightarrow> command_bounded c ZERO_COMMAND"
  using safe_config_limits [of c] by (auto simp: command_bounded_def ZERO_COMMAND_def command_ok_def safe_config_def)

lemma within_of_bounds:
  assumes "fle (Fin 0) v" "fle v f" "fle f m" "isfinite m"
  shows "within_limit m v"
proof -
  have "fle v m" using assms(2,3) by (rule fle_trans)
  moreover have "fle (fneg m) v" using assms by (cases m; cases f; cases v) (auto simp: fle_def)
  ultimately show ?thesis by (simp add: within_limit_def)
qed

lemma distance_branch:
  assumes inv: "node_inv c n" and en: "rc_distance_enabled c" and m: "command_ok (rc_max_vx c) (rc_max_wz c) m"
    and res: "res = dr_command (fst (runtime_apply m None now (tn_runtime n)))"
  shows "command_bounded c res"
    and "vc_vx res \<noteq> Fin 0 \<Longrightarrow> fless (Fin 0) (vc_vx res) \<and>
      (\<exists>x. fr_measurement (tn_runtime n) = Some x \<and> refuse_measurement (distance_config_of c) now x = None \<and>
         fless (rc_deadband c) (fsub (me_distance x) (fc_target (fr_controller (tn_runtime n)))))"
proof -
  let ?r = "tn_runtime n" and ?k = "fr_controller (tn_runtime n)"
  have safe: "safe_config c" and rt: "runtime_of (distance_config_of c) (rc_min_target c) (rc_max_target c) ?r"
    using inv by (auto simp: node_inv_def)
  have k: "fc_config ?k = distance_config_of c" and tfin: "isfinite (fc_target ?k)"
    using rt by (auto simp: runtime_of_def runtime_inv_def)
  have valid: "valid_distance_config (fc_config ?k)" using safe_config_distance [OF safe] k by simp
  have en': "dc_enabled (fc_config ?k)" using en k by (simp add: distance_config_of_def)
  have rev: "dc_max_reverse (fc_config ?k) = Fin 0" and fwd: "dc_max_forward (fc_config ?k) = rc_max_forward c"
    and db: "dc_deadband (fc_config ?k) = rc_deadband c"
    using k safe by (simp_all add: distance_config_of_def safe_config_def)
  have cases: "res = \<lparr>vc_vx = Fin 0, vc_wz = vc_wz m\<rparr> \<or> res = dr_command (controller_apply m (fr_measurement ?r) now ?k)"
    using res by (auto simp: runtime_apply_def stopped_result_def Let_def)
  have lims: "fle (rc_max_forward c) (rc_max_vx c)" "isfinite (rc_max_vx c)" "fle (Fin 0) (rc_max_forward c)"
    using safe by (auto simp: safe_config_def)
  have v: "fle (Fin 0) (vc_vx res) \<and> fle (vc_vx res) (rc_max_forward c)"
    using cases apply_bounded [OF valid en' refl] lims(3) by (auto simp: rev fwd)
  moreover have "vc_wz res = vc_wz m" using cases by (auto simp: apply_keeps_yaw)
  ultimately show "command_bounded c res"
    using m within_of_bounds [OF _ _ lims(1,2)] by (auto simp: command_bounded_def command_ok_def)
  assume nz: "vc_vx res \<noteq> Fin 0"
  then have r: "res = dr_command (controller_apply m (fr_measurement ?r) now ?k)" using cases by auto
  have pos: "fless (Fin 0) (vc_vx res)" using v nz by (cases "vc_vx res") (auto simp: fle_def)
  then show "fless (Fin 0) (vc_vx res) \<and>
      (\<exists>x. fr_measurement ?r = Some x \<and> refuse_measurement (distance_config_of c) now x = None \<and>
         fless (rc_deadband c) (fsub (me_distance x) (fc_target ?k)))"
    using apply_forward_far [OF valid tfin en' r [symmetric] pos] by (auto simp: k db [unfolded k])
qed

lemma dispatch_command_justified:
  assumes inv: "node_inv c n" and d: "dispatch_command now n = Inr ((cmd, reason), n')"
  shows "command_bounded c cmd" "cmd \<noteq> ZERO_COMMAND \<Longrightarrow> justified c now (expire_distance_measurement now n) cmd"
proof -
  let ?n = "expire_distance_measurement now n"
  have inv': "node_inv c ?n" by (rule expire_keeps [OF inv])
  then have safe: "safe_config c" and cfg: "tn_config ?n = c" by (auto simp: node_inv_def)
  obtain ds where ds: "plan_dispatch now (tn_plans ?n) = Inr ds"
    using d by (auto simp: dispatch_command_def Let_def)
  have ok: "command_ok (rc_max_vx c) (rc_max_wz c) (ds_command ds)"
    using dispatch_command_ok [OF ds] inv' by (auto simp: node_inv_def)
  have cmd: "cmd = fst (fst (select_distance_dispatch ds (rc_distance_enabled c) (\<lambda>m r. runtime_apply m None now r) (tn_runtime ?n)))"
    using d ds cfg by (auto simp: dispatch_command_def Let_def split: prod.splits if_splits)
  consider "cmd = ZERO_COMMAND" | "ds_reason ds = ''active_plan''" "\<not> rc_distance_enabled c" "cmd = ds_command ds"
    | "ds_reason ds = ''active_plan''" "rc_distance_enabled c"
      "cmd = dr_command (fst (runtime_apply (ds_command ds) None now (tn_runtime ?n)))"
    using cmd by (auto simp: select_distance_dispatch_def Let_def split: if_splits prod.splits)
  note cs = this
  have plan: "ds_reason ds = ''active_plan'' \<Longrightarrow> \<exists>p. ps_plan (tn_plans ?n) = Some p \<and>
        \<not> fless (rc_max_plan_age c) (fmax (Fin 0) (fsub now (ps_arrival (tn_plans ?n))))"
    using dispatch_cases [OF ds] inv' by (auto simp: node_inv_def)
  show "command_bounded c cmd" using cs
  proof cases
    case 3
    then show ?thesis using distance_branch(1) [OF inv' _ ok] by blast
  qed (use zero_bounded [OF safe] ok in \<open>auto simp: command_bounded_def\<close>)
  show "cmd \<noteq> ZERO_COMMAND \<Longrightarrow> justified c now ?n cmd" using cs
  proof cases
    case 3
    then show ?thesis using distance_branch(2) [OF inv' 3(2) ok 3(3)] plan by (auto simp: justified_def)
  qed (use plan in \<open>auto simp: justified_def\<close>)
qed

end
