(* ===== verification/RobotTrackDemo.thy ===== *)
theory RobotTrackDemo imports RobotTrackInvariant begin

text \<open>A concrete session: a live node following at a fixed distance, one plan, one measurement, one dispatch.\<close>

definition demo_url :: "string \<Rightarrow> track_exc + url_parts" where
  "demo_url s = Inr \<lparr>url_scheme = ''http'', url_has_host = True, url_has_credentials = False, url_path = ''/eval_dual''\<rparr>"

definition demo_cfg :: "(string \<times> pyval) list" where
  "demo_cfg = [(''mode'', VStr ''live''), (''distance_enabled'', VBool True)]"

definition track_demo_config :: runtime_config where
  "track_demo_config = \<lparr>rc_mode = ''live'', rc_rgb_topic = ''/go2/d435i/color/image_raw'',
     rc_depth_topic = ''/go2/d435i/aligned_depth_to_color/image_raw'', rc_command_topic = ''/go2/robottrack/cmd_vel_raw'',
     rc_server_url = ''http://127.0.0.1:5801/eval_dual'', rc_instruction = ''Follow the person ahead'', rc_jpeg_quality = 60,
     rc_http_timeout = Fin 30, rc_control_dt = fl (1 / 10), rc_dispatch_hz = Fin 50, rc_max_plan_age = fl (3 / 2),
     rc_max_vx = fl (3 / 20), rc_max_wz = fl (3 / 10), rc_nav_raw_topic = ''/go2/robottrack/nav_cmd_vel_raw'',
     rc_robottrack_raw_topic = ''/go2/robottrack/cmd_vel_raw'', rc_selected_output_topic = ''/cmd_vel_nav'',
     rc_selected_source = ''robottrack'', rc_source_max_age = fl (1 / 4), rc_distance_enabled = True,
     rc_target_distance = Fin 5, rc_min_target = fl (1 / 2), rc_max_target = Fin 7, rc_deadband = fl (1 / 4),
     rc_kp = fl (1 / 4), rc_max_forward = fl (3 / 20), rc_max_reverse = Fin 0, rc_measurement_max_age = fl (3 / 5),
     rc_min_confidence = fl (1 / 2), rc_pair_max_delta = fl (1 / 5), rc_center_fallback = False\<rparr>"

lemma fl_lit_3_20 [simp]: "fl (3 / 20) = Fin (5404319552844595 / 36028797018963968)"
  using fl_literal [of "3 / 20" 55 5404319552844595] by simp

lemma fl_lit_1_nano [simp]: "fl (1 / 1000000000) = Fin (4835703278458517 / 4835703278458516698824704)"
  using fl_literal [of "1 / 1000000000" 82 4835703278458517] by simp

lemma fl_lit_1_100' [simp]: "fl (1 / 100) = Fin (5764607523034235 / 576460752303423488)"
  using fl_literal [of "1 / 100" 59 5764607523034235] by simp

lemma demo_topics:
  "absolute_topic py_repr VNone ''/go2/d435i/color/image_raw'' = Inr ''/go2/d435i/color/image_raw''"
  "absolute_topic py_repr VNone ''/go2/d435i/aligned_depth_to_color/image_raw'' = Inr ''/go2/d435i/aligned_depth_to_color/image_raw''"
  "absolute_topic py_repr VNone ''/go2/robottrack/cmd_vel_raw'' = Inr ''/go2/robottrack/cmd_vel_raw''"
  "absolute_topic py_repr (VStr ''/go2/robottrack/cmd_vel_raw'') ''/go2/robottrack/cmd_vel_raw'' = Inr ''/go2/robottrack/cmd_vel_raw''"
  "absolute_topic py_repr (VStr ''/go2/robottrack/nav_cmd_vel_raw'') ''/go2/robottrack/nav_cmd_vel_raw'' = Inr ''/go2/robottrack/nav_cmd_vel_raw''"
  "absolute_topic py_repr (VStr ''/cmd_vel_nav'') ''/cmd_vel_nav'' = Inr ''/cmd_vel_nav''"
  by code_simp+

lemma demo_get:
  "k \<noteq> ''mode'' \<Longrightarrow> k \<noteq> ''distance_enabled'' \<Longrightarrow> get_or demo_cfg k d = d"
  "get_or demo_cfg ''mode'' d = VStr ''live''" "get_or demo_cfg ''distance_enabled'' d = VBool True" "get_or [] k d = d"
  by (simp_all add: get_or_def demo_cfg_def)

lemma demo_texts: "read_texts py_repr demo_url demo_cfg =
    Inr (''live'', ''http://127.0.0.1:5801/eval_dual'', ''Follow the person ahead'', 60)"
proof -
  have s: "str_lower (str_strip ''live'') = ''live''" "str_lower (str_strip ''center_crop_height'') = ''center_crop_height''"
      "str_strip ''http://127.0.0.1:5801/eval_dual'' = ''http://127.0.0.1:5801/eval_dual''"
      "str_strip ''Follow the person ahead'' = ''Follow the person ahead''"
    by code_simp+
  show ?thesis by (simp add: read_texts_def demo_get text_or_def s demo_url_def MODEL_CROP_SIZE_def Let_def)
qed

lemma demo_times: "read_fixed_times py_repr demo_cfg = Inr (fl (1 / 10), fl (3 / 2))"
proof -
  have s: "str_lower (str_strip ''first'') = ''first''" by code_simp
  show ?thesis by (simp add: read_fixed_times_def demo_get text_or_def s finite_float_def CONTROL_DT_def MAX_PLAN_AGE_S_def)
qed

lemma demo_limits: "read_limits demo_cfg = Inr \<lparr>dl_max_vx = fl (3 / 20), dl_max_wz = fl (3 / 10), dl_enabled = True,
    dl_min = fl (1 / 2), dl_max = Fin 7, dl_target = Fin 5, dl_forward = fl (3 / 20), dl_reverse = Fin 0\<rparr>"
  by (simp add: read_limits_def demo_get positive_float_def bounded_float_def float_or_def finite_float_def explicit_bool_def
      MAX_VX_def MAX_WZ_def MAX_CONFIGURED_VX_def MAX_CONFIGURED_WZ_def fmin_def)

lemma demo_source: "read_source py_repr [] demo_cfg =
    Inr (''robottrack'', ''/go2/robottrack/cmd_vel_raw'', ''/go2/robottrack/cmd_vel_raw'')"
  by (simp add: read_source_def demo_get demo_topics robottrack_name Let_def)

lemma track_from_mapping: "rc_from_mapping py_repr demo_url demo_cfg = Inr track_demo_config"
  by (simp add: rc_from_mapping_def source_mux_of_def demo_get demo_texts demo_times demo_limits demo_source demo_topics
      positive_float_def bounded_float_def float_or_def finite_float_def explicit_bool_def MAX_PLAN_AGE_S_def
      track_demo_config_def)

definition demo_response :: pyval where
  "demo_response = VDict [(''base_velocity'', VList [VFloat (Fin (1 / 8)), VFloat (Fin 0), VFloat (Fin (1 / 4))])]"

definition demo_measurement :: measurement where
  "demo_measurement = \<lparr>me_distance = Fin 6, me_confidence = Fin (3 / 4), me_received = Fin 1\<rparr>"

definition track_demo_node :: track_node where
  "track_demo_node = \<lparr>tn_config = track_demo_config,
     tn_plans = plan_store_init (fl (3 / 2)) (fl (3 / 20)) (fl (3 / 10)),
     tn_runtime = \<lparr>fr_controller = controller_init (distance_config_of track_demo_config), fr_min = fl (1 / 2), fr_max = Fin 7,
       fr_active = True, fr_measurement = None, fr_source = [], fr_status = ''waiting_for_measurement'', fr_revision = 2\<rparr>,
     tn_mux = \<lparr>mx_selected = ''robottrack'', mx_max_age = fl (1 / 4), mx_latest = Map.empty, mx_version = 0\<rparr>,
     tn_measured_at = None, tn_closed = False\<rparr>"

lemma demo_node_init: "node_init track_demo_config follow_runtime_init = Inr track_demo_node"
  by (simp add: node_init_def configure_distance_runtime_def configure_def distance_config_of_def track_demo_config_def
      valid_distance_config_def follow_runtime_init_def set_active_def mux_init_def robottrack_name VALID_SOURCES_def
      track_demo_node_def bump_def controller_init_def Let_def)

definition track_demo_events :: "track_event list" where
  "track_demo_events = [Response demo_response (Fin 1), Measured (Some demo_measurement) ''ok'' ''rgbd'']"

definition demo_plan :: inference_plan where
  "demo_plan = \<lparr>ip_command = \<lparr>vc_vx = Fin (1 / 8), vc_wz = Fin (1 / 4)\<rparr>, ip_waypoints = None, ip_source = ''base_velocity''\<rparr>"

lemma demo_parse: "parse_inference_response (fl (3 / 20)) (fl (3 / 10)) demo_response = Inr demo_plan"
  by (simp add: demo_response_def get_value_def first_value_def select_command_def finite_float_def clipped_def clip_def
      check_server_dt_def demo_plan_def fmin_def fmax_def numeral_2_eq_2 truthy.simps)

definition track_demo_ready :: track_node where
  "track_demo_ready = track_demo_node
     \<lparr>tn_plans := (tn_plans track_demo_node)\<lparr>ps_plan := Some demo_plan, ps_arrival := Fin 1, ps_version := 1\<rparr>,
      tn_runtime := (tn_runtime track_demo_node)\<lparr>fr_measurement := Some demo_measurement, fr_source := ''rgbd'',
        fr_status := ''ok'', fr_revision := 3\<rparr>,
      tn_measured_at := Some (Fin 1)\<rparr>"

lemma demo_ready: "final track_step track_demo_events track_demo_node = track_demo_ready"
proof -
  have "str_strip ''rgbd'' = ''rgbd''" "str_strip ''ok'' = ''ok''" by code_simp+
  moreover have "rc_max_vx track_demo_config = fl (3 / 20)" "rc_max_wz track_demo_config = fl (3 / 10)"
    by (simp_all add: track_demo_config_def)
  ultimately show ?thesis using demo_parse
    by (simp add: track_demo_events_def on_response_def on_measurement_def update_measurement_def track_demo_ready_def
        track_demo_node_def plan_update_def plan_store_init_def demo_plan_def clipped_def clip_def fmin_def fmax_def
        bump_def demo_measurement_def Let_def)
qed

text \<open>The person is 6 m away, one metre too far: the robot drives at the forward limit.\<close>

definition demo_twist :: twist where
  "demo_twist = velocity_twist \<lparr>vc_vx = fl (3 / 20), vc_wz = Fin (1 / 4)\<rparr>"

definition demo_command :: velocity_command where
  "demo_command = \<lparr>vc_vx = fl (3 / 20), vc_wz = Fin (1 / 4)\<rparr>"

lemma demo_plan_dispatch:
  "plan_dispatch (Fin (3 / 2)) (tn_plans track_demo_ready) = Inr \<lparr>ds_command = ip_command demo_plan,
     ds_reason = ''active_plan'', ds_age = Some (Fin (1 / 2)), ds_version = 1\<rparr>"
  by (simp add: plan_dispatch_def track_demo_ready_def track_demo_node_def plan_store_init_def fsub_def fmax_def)

lemma track_demo_accepted:
  "refuse_measurement (distance_config_of track_demo_config) (Fin (3 / 2)) demo_measurement = None"
  by (simp add: refuse_measurement_def demo_measurement_def distance_config_of_def track_demo_config_def fsub_def Let_def)

lemma demo_track:
  "dr_command (track_distance (ip_command demo_plan) (controller_init (distance_config_of track_demo_config)) (Fin 6) a) = demo_command"
  "dr_reason (track_distance (ip_command demo_plan) (controller_init (distance_config_of track_demo_config)) (Fin 6) a) = ''tracking_distance''"
proof -
  have "fl (3 / 16) = Fin (3 / 16)" using fl_dyadic [of 3 4] by simp
  then have r: "requested_velocity (distance_config_of track_demo_config) (Fin 1) = Fin (3 / 16)"
    by (simp add: requested_velocity_def copysign_def distance_config_of_def track_demo_config_def fsub_def)
  have "fl (- (3 / 4)) = Fin (- (3 / 4))" using fl_dyadic [of "- 3" 2] by simp
  then have d: "\<not> in_deadband (distance_config_of track_demo_config) (Fin 1)"
    by (simp add: in_deadband_def isclose_def distance_config_of_def track_demo_config_def fsub_def Let_def)
  have e: "fsub (Fin 6) (fc_target (controller_init (distance_config_of track_demo_config))) = Fin 1"
      "fc_config (controller_init (distance_config_of track_demo_config)) = distance_config_of track_demo_config"
    by (simp_all add: controller_init_def distance_config_of_def track_demo_config_def fsub_def)
  have l: "dc_max_reverse (distance_config_of track_demo_config) = Fin 0" "dc_max_forward (distance_config_of track_demo_config) = fl (3 / 20)"
    by (simp_all add: distance_config_of_def track_demo_config_def)
  show "dr_command (track_distance (ip_command demo_plan) (controller_init (distance_config_of track_demo_config)) (Fin 6) a) = demo_command"
    "dr_reason (track_distance (ip_command demo_plan) (controller_init (distance_config_of track_demo_config)) (Fin 6) a) = ''tracking_distance''"
    by (simp_all add: track_distance_def e d r l demo_command_def demo_plan_def fmin_def fmax_def
        stopped_result_def Let_def)
qed

lemma demo_runtime_apply:
  "dr_command (fst (runtime_apply (ip_command demo_plan) None (Fin (3 / 2)) (tn_runtime track_demo_ready))) = demo_command"
  "dr_reason (fst (runtime_apply (ip_command demo_plan) None (Fin (3 / 2)) (tn_runtime track_demo_ready))) = ''tracking_distance''"
proof -
  have "fr_controller (tn_runtime track_demo_ready) = controller_init (distance_config_of track_demo_config)"
    "fr_measurement (tn_runtime track_demo_ready) = Some demo_measurement" "fr_active (tn_runtime track_demo_ready)"
    by (simp_all add: track_demo_ready_def track_demo_node_def)
  moreover have "dc_enabled (distance_config_of track_demo_config)" "me_distance demo_measurement = Fin 6"
    by (simp_all add: distance_config_of_def track_demo_config_def demo_measurement_def)
  moreover have "fc_config (controller_init (distance_config_of track_demo_config)) = distance_config_of track_demo_config"
    by (simp add: controller_init_def)
  ultimately show
    "dr_command (fst (runtime_apply (ip_command demo_plan) None (Fin (3 / 2)) (tn_runtime track_demo_ready))) = demo_command"
    "dr_reason (fst (runtime_apply (ip_command demo_plan) None (Fin (3 / 2)) (tn_runtime track_demo_ready))) = ''tracking_distance''"
    by (simp_all add: runtime_apply_def controller_apply_def track_demo_accepted demo_track Let_def)
qed

lemma demo_dispatch_command:
  "\<exists>n'. dispatch_command (Fin (3 / 2)) track_demo_ready = Inr ((demo_command, ''tracking_distance''), n') \<and>
     tn_mux n' = tn_mux track_demo_ready \<and> tn_config n' = track_demo_config"
proof -
  have e: "expire_distance_measurement (Fin (3 / 2)) track_demo_ready = track_demo_ready"
    by (simp add: expire_distance_measurement_def track_demo_ready_def track_demo_node_def track_demo_config_def fsub_def)
  have c: "tn_config track_demo_ready = track_demo_config" "rc_distance_enabled track_demo_config"
    by (simp_all add: track_demo_ready_def track_demo_node_def track_demo_config_def)
  show ?thesis using demo_runtime_apply
    by (auto simp: dispatch_command_def e c demo_plan_dispatch select_distance_dispatch_def Let_def split: prod.split)
qed

lemma demo_dispatch: "fst (track_step (Dispatch (Fin (3 / 2))) track_demo_ready) = Some (demo_twist, demo_twist)"
proof -
  obtain n' where n': "dispatch_command (Fin (3 / 2)) track_demo_ready = Inr ((demo_command, ''tracking_distance''), n')"
      "tn_mux n' = tn_mux track_demo_ready" "tn_config n' = track_demo_config"
    using demo_dispatch_command by blast
  have c: "rc_mode track_demo_config \<noteq> ''dry-run''" by (simp add: track_demo_config_def)
  have f: "finite_twist demo_twist" by (simp add: finite_twist_def demo_twist_def velocity_twist_def ZERO_TWIST_def)
  have t: "velocity_twist demo_command = demo_twist" by (simp add: demo_twist_def demo_command_def)
  have m: "newer (Fin (3 / 2)) ''robottrack'' (tn_mux track_demo_ready)" "mx_selected (tn_mux track_demo_ready) = ''robottrack''"
      "fless (Fin 0) (mx_max_age (tn_mux track_demo_ready))"
    by (simp_all add: newer_def track_demo_ready_def track_demo_node_def)
  let ?mx = "snd (mux_update ''robottrack'' demo_twist (Fin (3 / 2)) (tn_mux track_demo_ready))"
  obtain sel where sel: "mux_output (Fin (3 / 2)) ?mx = Inr sel" by (simp add: mux_output_def)
  then have "ms_command sel = demo_twist" using mux_emits_own [OF m(1) _ f m(2,3)] by simp
  then show ?thesis by (simp add: dispatch_def n' c t sel)
qed

end
