(* ===== verification/RobotTrackProperties.thy ===== *)
theory RobotTrackProperties imports RobotTrackDemo begin

text \<open>
  The properties of the RobotTrack node: what it may publish, what a non-zero command rests on, and
  the interval the following distance stays in.
\<close>

section \<open>Runs\<close>







lemma reachable_node_inv:
  assumes "rc_from_mapping py_repr parse_url cfg = Inr c" "node_init c r = Inr n0"
  shows "node_inv c (final track_step es n0)"
proof -
  have "node_inv c n0" using node_inv_init accepted_config_safe assms by blast
  then show ?thesis
    by (induction es arbitrary: n0) (simp_all add: track_step_inv)
qed

section \<open>Where a selected command comes from\<close>












section \<open>The properties\<close>







text \<open>
  C32. The following distance of a running node never leaves the configured interval, which lies between
  half a metre and seven metres, whatever targets and adjustments are requested.
\<close>

theorem follow_target_in_range:
  assumes "rc_from_mapping py_repr parse_url cfg = Inr c" "node_init c r = Inr n0" "n = final track_step es n0"
    "target = fc_target (fr_controller (tn_runtime n))"
  shows "fle (rc_min_target c) target \<and> fle target (rc_max_target c) \<and> fle (fl (1 / 2)) target \<and> fle target (Fin 7)"
proof -
  have inv: "node_inv c n" using reachable_node_inv [OF assms(1,2)] assms(3) by simp
  then have "fle (rc_min_target c) target" "fle target (rc_max_target c)"
    using assms(4) by (auto simp: node_inv_def runtime_of_def runtime_inv_def target_valid_def)
  moreover have "fle (fl (1 / 2)) (rc_min_target c)" "fle (rc_max_target c) (Fin 7)"
    using inv by (auto simp: node_inv_def safe_config_def)
  ultimately show ?thesis by (meson fle_trans)
qed

theorem follow_target_in_range_witness:
  "fle (fl (1 / 2)) (fc_target (fr_controller (tn_runtime (final track_step (track_demo_events @ [Follow ''set'' (Fin 100)]) track_demo_node))))"
  using follow_target_in_range [OF track_from_mapping demo_node_init refl refl] by blast

end
