(* ===== verification/ProbePolicy.thy ===== *)
theory ProbePolicy imports GuardEvidence begin

text \<open>
  \<open>scripts/first_motion_probe.py\<close>, first part, and \<open>scripts/second_motion_probe.py\<close>: the operator
  gates, the writer binding, the motion, measurement and post-stop decisions. The second probe loads
  the first as its core and replaces the constants of \<open>probe_profile\<close> and the acceptance test.
  Messages are kept up to interpolated values.
\<close>

datatype probe_exc = CommissioningError string | OtherError string

section \<open>Constants\<close>

definition ODOM_TOPIC :: string where "ODOM_TOPIC = ''/odom''"
definition CANONICAL_COMMAND_TOPIC :: string where "CANONICAL_COMMAND_TOPIC = ''/cmd_vel''"
definition SPORT_REQUEST_TOPIC :: string where "SPORT_REQUEST_TOPIC = ''/api/sport/request''"
definition SPORT_LEASE_REQUEST_TOPIC :: string where "SPORT_LEASE_REQUEST_TOPIC = ''/api/sport_lease/request''"
definition EXTERNAL_ODOM_TOPIC :: string where
  "EXTERNAL_ODOM_TOPIC = ''/robonix/time_corrected/raw/utlidar/robot_odom''"
definition ARM_SERVICE :: string where "ARM_SERVICE = ''/go2_chassis/arm''"
definition ADAPTER_NODE_NAME :: string where "ADAPTER_NODE_NAME = ''go2_chassis_adapter''"
definition ADAPTER_NAMESPACE :: string where "ADAPTER_NAMESPACE = ''/''"
definition DIAGNOSTIC_NAME :: string where "DIAGNOSTIC_NAME = ''go2_chassis_adapter''"
definition SPORT_GRAPH_BASELINE_SCHEMA :: string where
  "SPORT_GRAPH_BASELINE_SCHEMA = ''robonix-go2-motion-rpc-graph-baseline-v1''"

definition CONTROL_PERIOD_S :: pyfloat where "CONTROL_PERIOD_S = fl (2 / 100)"
definition ZERO_PREAMBLE_S :: pyfloat where "ZERO_PREAMBLE_S = fl (60 / 100)"
definition ARMED_ZERO_TIMEOUT_S :: pyfloat where "ARMED_ZERO_TIMEOUT_S = Fin 2"
definition STOP_ZERO_HOLD_S :: pyfloat where "STOP_ZERO_HOLD_S = fl (35 / 100)"
definition PROBE_POST_STOP_OBSERVATION_S :: pyfloat where "PROBE_POST_STOP_OBSERVATION_S = Fin 1"
definition PROBE_POST_STOP_MAX_LINEAR_MPS :: pyfloat where "PROBE_POST_STOP_MAX_LINEAR_MPS = fl (3 / 100)"
definition PROBE_POST_STOP_MAX_YAW_RPS :: pyfloat where "PROBE_POST_STOP_MAX_YAW_RPS = fl (3 / 100)"
definition PROBE_POST_STOP_MAX_DRIFT_M :: pyfloat where "PROBE_POST_STOP_MAX_DRIFT_M = fl (2 / 100)"
definition PROBE_POST_STOP_MIN_ODOM_SAMPLES :: int where "PROBE_POST_STOP_MIN_ODOM_SAMPLES = 10"
definition STATE_STALE_S :: pyfloat where "STATE_STALE_S = fl (20 / 100)"
definition COMMAND_STALE_S :: pyfloat where "COMMAND_STALE_S = fl (20 / 100)"
definition ODOM_STALE_S :: pyfloat where "ODOM_STALE_S = fl (20 / 100)"
definition DIAGNOSTIC_STALE_S :: pyfloat where "DIAGNOSTIC_STALE_S = fl (35 / 100)"
definition GRAPH_STABILITY_SAMPLES :: int where "GRAPH_STABILITY_SAMPLES = 3"
definition GRAPH_SAMPLE_PERIOD_S :: pyfloat where "GRAPH_SAMPLE_PERIOD_S = fl (10 / 100)"
definition RUNTIME_GRAPH_CHECK_PERIOD_S :: pyfloat where "RUNTIME_GRAPH_CHECK_PERIOD_S = fl (1 / 2)"
definition DDS_GID_SIZE :: nat where "DDS_GID_SIZE = 24"
definition SPORT_GRAPH_BASELINE_MAX_AGE_S :: pyfloat where "SPORT_GRAPH_BASELINE_MAX_AGE_S = Fin 120"
definition SPORT_STATE_POSITION_ABS_LIMIT_M :: pyfloat where "SPORT_STATE_POSITION_ABS_LIMIT_M = Fin 1000000"
definition SPORT_STATE_VELOCITY_ABS_LIMIT_MPS :: pyfloat where "SPORT_STATE_VELOCITY_ABS_LIMIT_MPS = Fin 100"
definition SPORT_STATE_YAW_SPEED_ABS_LIMIT_RPS :: pyfloat where "SPORT_STATE_YAW_SPEED_ABS_LIMIT_RPS = Fin 100"
definition FIRST_MOTION_ACK :: string where "FIRST_MOTION_ACK = ''I_APPROVE_GO2_FIRST_10CM_MOTION''"
definition SECOND_MOTION_ACK :: string where "SECOND_MOTION_ACK = ''I_APPROVE_GO2_SECOND_20CM_MOTION''"

definition DIAGNOSTIC_EVIDENCE_KEYS :: "string list" where
  "DIAGNOSTIC_EVIDENCE_KEYS =
     [''guard_state'', ''allow_motion'', ''motion_profile'', ''odom_source'', ''external_odom_topic'',
      ''external_odom_valid'', ''external_odom_age_sec'', ''external_odom_timeout_sec'', ''external_odom_status'',
      ''external_odom_fault_latched'', ''daemon_armed'', ''commissioning_permit_spent'', ''commissioning_motion_active'',
      ''commissioning_stop_reason'', ''commissioning_elapsed_sec'', ''commissioning_distance_m'', ''state_age_sec'',
      ''state_timeout_sec'', ''state_valid'', ''source_stamp_status'', ''source_stamp_last_fault'',
      ''source_stamp_rejection_count'', ''max_source_stamp_age_sec'', ''max_source_stamp_future_skew_sec'']"

text \<open>The module globals that differ between the two probes.\<close>

record probe_profile =
  pp_second :: bool
  COMMAND_TOPIC :: string
  MOTION_PROFILE :: string
  PROBE_NODE_NAME :: string
  SPEED_MPS :: pyfloat
  DISTANCE_LIMIT_M :: pyfloat
  DURATION_LIMIT_S :: pyfloat
  PROBE_STOP_DISTANCE_M :: pyfloat
  PROBE_STOP_DURATION_S :: pyfloat
  MIN_MEASURED_DISPLACEMENT_M :: pyfloat
  MAX_MEASURED_LATERAL_M :: pyfloat
  MAX_MEASURED_YAW_CHANGE_RAD :: pyfloat

definition first_motion :: probe_profile where
  "first_motion = \<lparr>pp_second = False, COMMAND_TOPIC = ''/go2/commissioning/cmd_vel'',
     MOTION_PROFILE = ''workstation-first-motion-corrected-v1'', PROBE_NODE_NAME = ''go2_first_motion_probe'',
     SPEED_MPS = fl (5 / 100), DISTANCE_LIMIT_M = fl (10 / 100), DURATION_LIMIT_S = Fin 2,
     PROBE_STOP_DISTANCE_M = fl (9 / 100), PROBE_STOP_DURATION_S = fl (18 / 10),
     MIN_MEASURED_DISPLACEMENT_M = fl (2 / 100), MAX_MEASURED_LATERAL_M = fl (3 / 100),
     MAX_MEASURED_YAW_CHANGE_RAD = fl (20 / 100)\<rparr>"

definition second_motion :: probe_profile where
  "second_motion = \<lparr>pp_second = True, COMMAND_TOPIC = ''/go2/second_motion/cmd_vel'',
     MOTION_PROFILE = ''workstation-second-motion-corrected-v1'', PROBE_NODE_NAME = ''go2_second_motion_probe'',
     SPEED_MPS = fl (30 / 100), DISTANCE_LIMIT_M = fl (30 / 100), DURATION_LIMIT_S = fl (15 / 10),
     PROBE_STOP_DISTANCE_M = fl (20 / 100), PROBE_STOP_DURATION_S = fl (12 / 10),
     MIN_MEASURED_DISPLACEMENT_M = fl (15 / 100), MAX_MEASURED_LATERAL_M = fl (5 / 100),
     MAX_MEASURED_YAW_CHANGE_RAD = fl (20 / 100)\<rparr>"

section \<open>Firmware-state evidence\<close>

fun is_str :: "pyval \<Rightarrow> bool" where
  "is_str (VStr _) \<longleftrightarrow> True"
| "is_str _ \<longleftrightarrow> False"

record sport_snapshot =
  sn_position :: "pyfloat \<times> pyfloat"
  sn_velocity :: "pyfloat \<times> pyfloat"
  sn_yaw_speed :: pyfloat
  sn_mode :: int
  sn_gait :: int

definition bounded_evidence_scalar :: "pyval \<Rightarrow> string \<Rightarrow> pyfloat \<Rightarrow> probe_exc + pyfloat" where
  "bounded_evidence_scalar v label limit =
     (if as_bool v \<noteq> None then Inl (CommissioningError (label @ '' is not numeric''))
      else case to_float v of
          Inl OverflowError \<Rightarrow> Inl (OtherError ''OverflowError'')
        | Inl _ \<Rightarrow> Inl (CommissioningError (label @ '' is not numeric''))
        | Inr x \<Rightarrow> if \<not> isfinite x \<or> fless limit (fabs x)
                   then Inl (CommissioningError (label @ '' is outside its evidence bound'')) else Inr x)"

text \<open>A sequence of at least two elements that is not text; other values have no \<open>len\<close> or no index.\<close>

fun two_of :: "pyval \<Rightarrow> probe_exc + (pyval \<times> pyval)" where
  "two_of (VList (x # y # _)) = Inr (x, y)"
| "two_of (VList _) = Inl (CommissioningError ''SportModeState position/velocity evidence is incomplete'')"
| "two_of (VStr _) = Inl (CommissioningError ''SportModeState position/velocity evidence is incomplete'')"
| "two_of _ = Inl (OtherError ''TypeError'')"

definition is_uint8 :: "pyval \<Rightarrow> bool" where
  "is_uint8 v \<longleftrightarrow> (case as_int v of None \<Rightarrow> False | Some i \<Rightarrow> 0 \<le> i \<and> i \<le> 255)"

definition sport_state_evidence_snapshot :: "pyval \<Rightarrow> pyval \<Rightarrow> pyval \<Rightarrow> pyval \<Rightarrow> pyval \<Rightarrow> probe_exc + sport_snapshot" where
  "sport_state_evidence_snapshot position velocity yaw_speed mode gait =
     obind (two_of position) (\<lambda>(px, py). obind (two_of velocity) (\<lambda>(vx, vy).
     if \<not> is_uint8 mode \<or> \<not> is_uint8 gait then Inl (CommissioningError ''SportModeState mode/gait evidence is outside uint8'')
     else let pos = (\<lambda>v. bounded_evidence_scalar v ''SportModeState position'' SPORT_STATE_POSITION_ABS_LIMIT_M);
              vel = (\<lambda>v. bounded_evidence_scalar v ''SportModeState velocity'' SPORT_STATE_VELOCITY_ABS_LIMIT_MPS) in
       obind (pos px) (\<lambda>x. obind (pos py) (\<lambda>y. obind (vel vx) (\<lambda>u. obind (vel vy) (\<lambda>w.
       obind (bounded_evidence_scalar yaw_speed ''SportModeState yaw_speed'' SPORT_STATE_YAW_SPEED_ABS_LIMIT_RPS) (\<lambda>r.
         Inr \<lparr>sn_position = (x, y), sn_velocity = (u, w), sn_yaw_speed = r,
              sn_mode = the (as_int mode), sn_gait = the (as_int gait)\<rparr>)))))))"

record pair_evidence =
  pe_start :: "sport_snapshot option"
  pe_end :: "sport_snapshot option"
  pe_delta :: "(pyfloat \<times> pyfloat) option"
  pe_norm :: "pyfloat option"
  pe_issue :: string

definition sport_state_pair_evidence ::
  "'a libm_scheme \<Rightarrow> sport_snapshot option \<Rightarrow> sport_snapshot option \<Rightarrow> string \<Rightarrow> probe_exc + pair_evidence" where
  "sport_state_pair_evidence lm start stop issue =
     (let payload = \<lparr>pe_start = start, pe_end = stop, pe_delta = None, pe_norm = None, pe_issue = take 256 issue\<rparr> in
      case (start, stop) of (Some s, Some e) \<Rightarrow>
        let scalar = (\<lambda>v label. bounded_evidence_scalar (VFloat v) label SPORT_STATE_POSITION_ABS_LIMIT_M);
            delta = (\<lambda>pick. obind (scalar (pick (sn_position e)) ''SportModeState end position'') (\<lambda>b.
              obind (scalar (pick (sn_position s)) ''SportModeState start position'') (\<lambda>a. Inr (fsub b a)))) in
        obind (delta fst) (\<lambda>dx. obind (delta snd) (\<lambda>dy.
        if list_all (\<lambda>v. isfinite v \<and> fle (fabs v) (fmul (Fin 2) SPORT_STATE_POSITION_ABS_LIMIT_M)) [dx, dy]
        then Inr (payload\<lparr>pe_delta := Some (dx, dy), pe_norm := Some (m_hypot lm dx dy)\<rparr>)
        else Inl (CommissioningError ''SportModeState raw position delta is outside its evidence bound'')))
      | _ \<Rightarrow> Inr payload)"

section \<open>Operator gates\<close>

definition refuse_unless :: "bool \<Rightarrow> string \<Rightarrow> probe_exc + unit" where
  "refuse_unless ok msg = raise_unless ok (CommissioningError msg)"

definition decimal_item :: "string \<Rightarrow> int \<Rightarrow> int \<Rightarrow> string \<Rightarrow> probe_exc + int" where
  "decimal_item label minimum maximum raw =
     (let item = str_strip raw in
      obind (refuse_unless (item \<noteq> [] \<and> list_all is_digit item) (label @ '' must contain decimal integers'')) (\<lambda>_.
      case int_of_str item of None \<Rightarrow> Inl (OtherError ''ValueError'')
      | Some i \<Rightarrow> obind (refuse_unless (minimum \<le> i \<and> i \<le> maximum) (label @ '' value is outside its audited range'')) (\<lambda>_. Inr i)))"

definition parse_decimal_set :: "string \<Rightarrow> string \<Rightarrow> int \<Rightarrow> int \<Rightarrow> probe_exc + int list" where
  "parse_decimal_set v label minimum maximum =
     obind (refuse_unless (str_strip v \<noteq> []) (label @ '' must be a completed audit value'')) (\<lambda>_.
       obind (all_ok (decimal_item label minimum maximum) (split_on (CHR '','') v)) (\<lambda>is. Inr (remdups is)))"

definition probe_environment :: "string \<times> string \<Rightarrow> (string \<rightharpoonup> string) \<Rightarrow> probe_exc + int list \<times> int list" where
  "probe_environment ack env =
     obind (all_ok (\<lambda>(key, expected). refuse_unless (env key = Some expected) (key @ '' must exactly equal''))
        [(''GO2_ALLOW_MOTION'', ''true''), (''GO2_OPERATOR_PRESENT'', ''true''),
         (''GO2_SAFETY_ACK'', ''I_UNDERSTAND_GO2_CAN_MOVE''), ack]) (\<lambda>_.
     let nic = env_get env ''GO2_NETWORK_INTERFACE'' in
     obind (refuse_unless (nic \<noteq> [] \<and> \<not> list_ex is_space nic) ''GO2_NETWORK_INTERFACE must name the audited NIC'') (\<lambda>_.
     obind (parse_decimal_set (env_get env ''GO2_ALLOWED_MODES'') ''GO2_ALLOWED_MODES'' 0 254) (\<lambda>modes.
     let markers = str_strip (env_get env ''GO2_ALLOWED_STATE_MARKERS'') in
     obind (if markers = [] then Inr [] else parse_decimal_set markers ''GO2_ALLOWED_STATE_MARKERS'' 1 4294967295) (\<lambda>ms.
       Inr (modes, ms)))))"

definition first_environment :: "(string \<rightharpoonup> string) \<Rightarrow> probe_exc + int list \<times> int list" where
  "first_environment = probe_environment (''GO2_FIRST_MOTION_ACK'', FIRST_MOTION_ACK)"

definition second_environment :: "(string \<rightharpoonup> string) \<Rightarrow> probe_exc + int list \<times> int list" where
  "second_environment = probe_environment (''GO2_SECOND_MOTION_ACK'', SECOND_MOTION_ACK)"

section \<open>The request-writer baseline\<close>

type_synonym gid = "int list"

definition hex_value :: "char \<Rightarrow> int option" where
  "hex_value ch = (let n = code_of ch in
     if 48 \<le> n \<and> n \<le> 57 then Some (int n - 48)
     else if 97 \<le> n \<and> n \<le> 102 then Some (int n - 87)
     else if 65 \<le> n \<and> n \<le> 70 then Some (int n - 55) else None)"

text \<open>\<open>bytes.fromhex\<close>: white space may separate the two-digit bytes.\<close>

fun from_hex :: "string \<Rightarrow> gid option" where
  "from_hex [] = Some []"
| "from_hex (a # s) =
     (if code_of a = 32 \<or> (9 \<le> code_of a \<and> code_of a \<le> 13) then from_hex s
      else case s of [] \<Rightarrow> None
        | b # t \<Rightarrow> (case (hex_value a, hex_value b) of
              (Some h, Some l) \<Rightarrow> map_option (\<lambda>g. (16 * h + l) # g) (from_hex t) | _ \<Rightarrow> None))"

text \<open>\<open>GO2_SPORT_REQUEST_BASELINE_FILE\<close>: an absolute regular non-symlink file, and its JSON, if readable.\<close>

record baseline_file =
  bf_regular :: bool
  bf_payload :: "pyval option"

definition usable_gid :: "gid \<Rightarrow> bool" where
  "usable_gid g \<longleftrightarrow> length g = DDS_GID_SIZE \<and> list_ex (\<lambda>b. b \<noteq> 0) g"

definition baseline_gids :: "(string \<times> pyval) list \<Rightarrow> probe_exc + gid list" where
  "baseline_gids payload =
     (case get_or payload ''sport_request_writer_gids'' VNone of
        VList vs \<Rightarrow>
          obind (refuse_unless (list_all is_str vs) ''motion RPC graph baseline GID list is invalid'') (\<lambda>_.
          obind (all_ok (\<lambda>v. case v of VStr s \<Rightarrow> (case from_hex s of Some g \<Rightarrow> Inr g
               | None \<Rightarrow> Inl (CommissioningError ''motion RPC graph baseline GID is malformed''))
             | _ \<Rightarrow> Inl (CommissioningError ''motion RPC graph baseline GID list is invalid'')) vs) (\<lambda>gids.
          obind (refuse_unless (list_all usable_gid gids) ''motion RPC graph baseline GID is invalid'') (\<lambda>_.
          obind (refuse_unless (distinct gids) ''motion RPC graph baseline GIDs are duplicated'') (\<lambda>_.
          obind (refuse_unless (eq_int (get_or payload ''sport_request_writer_count'' VNone) (int (length gids)))
             ''motion RPC graph baseline count is inconsistent'') (\<lambda>_. Inr gids)))))
      | _ \<Rightarrow> Inl (CommissioningError ''motion RPC graph baseline GID list is invalid''))"

definition baseline_age :: "int \<Rightarrow> int \<Rightarrow> probe_exc + pyfloat" where
  "baseline_age now captured =
     (case float_of_int (now - captured) of None \<Rightarrow> Inl (OtherError ''OverflowError'')
      | Some d \<Rightarrow> Inr (the (fdiv d (Fin 1000000000))))"

definition load_sport_request_baseline ::
  "(string \<Rightarrow> baseline_file) \<Rightarrow> int \<Rightarrow> (string \<rightharpoonup> string) \<Rightarrow> probe_exc + gid list" where
  "load_sport_request_baseline files now env =
     (let path = env_get env ''GO2_SPORT_REQUEST_BASELINE_FILE'' in
      obind (refuse_unless (path \<noteq> [] \<and> bf_regular (files path))
        ''GO2_SPORT_REQUEST_BASELINE_FILE must be an absolute regular non-symlink file'') (\<lambda>_.
      case bf_payload (files path) of None \<Rightarrow> Inl (CommissioningError ''motion RPC graph baseline is unreadable'')
      | Some (VDict p) \<Rightarrow>
        let field = (\<lambda>k. get_or p k VNone) in
        obind (refuse_unless (eq_str (field ''schema'') SPORT_GRAPH_BASELINE_SCHEMA) ''motion RPC graph baseline schema is invalid'') (\<lambda>_.
        obind (refuse_unless (eq_str (field ''sport_request_topic'') SPORT_REQUEST_TOPIC) ''motion RPC graph baseline topic is invalid'') (\<lambda>_.
        obind (refuse_unless (eq_str (field ''sport_lease_request_topic'') SPORT_LEASE_REQUEST_TOPIC)
          ''motion RPC lease baseline topic is invalid'') (\<lambda>_.
        obind (refuse_unless (eq_int (field ''sport_lease_request_writer_count'') 0) ''motion RPC baseline contains a lease writer'') (\<lambda>_.
        case as_int (field ''captured_unix_ns'') of
          None \<Rightarrow> Inl (CommissioningError ''motion RPC graph baseline timestamp is invalid'')
        | Some captured \<Rightarrow>
          obind (baseline_age now captured) (\<lambda>age.
          obind (refuse_unless (isfinite age \<and> \<not> fless age (Fin 0) \<and> \<not> fless SPORT_GRAPH_BASELINE_MAX_AGE_S age)
            ''motion RPC graph baseline is stale'') (\<lambda>_. baseline_gids p))))))
      | Some _ \<Rightarrow> Inl (CommissioningError ''motion RPC graph baseline schema is invalid'')))"

text \<open>The issue, empty when there is none, and the bound writer. An endpoint without a usable \<open>bytes\<close> has no GID.\<close>

fun normalize_gids :: "gid option list \<Rightarrow> string + gid list" where
  "normalize_gids [] = Inr []"
| "normalize_gids (None # gs) = Inl ''sport request writer has no usable DDS GID''"
| "normalize_gids (Some g # gs) =
     (if \<not> usable_gid g then Inl ''sport request writer DDS GID is invalid''
      else obind (normalize_gids gs) (\<lambda>rest. Inr (g # rest)))"

definition bind_added_sport_writer :: "gid list \<Rightarrow> gid option list \<Rightarrow> gid option \<Rightarrow> string \<times> gid option" where
  "bind_added_sport_writer baseline endpoints bound =
     (case normalize_gids endpoints of Inl issue \<Rightarrow> (issue, bound)
      | Inr current \<Rightarrow>
        let additions = filter (\<lambda>g. g \<notin> set baseline) current in
        if \<not> distinct current then (''sport request graph contains duplicate DDS GIDs'', bound)
        else if \<not> set baseline \<subseteq> set current then (''pre-boot sport request writer baseline changed'', bound)
        else if length additions \<noteq> 1 then (''motion boot did not add exactly one sport request writer'', bound)
        else if bound \<noteq> None \<and> bound \<noteq> Some (hd additions) then (''sport request writer DDS GID changed during the probe'', bound)
        else ([], Some (hd additions)))"


section \<open>Decisions\<close>

record motion_verdict =
  md_continue :: bool
  md_reason :: string
  md_elapsed :: pyfloat
  md_distance :: pyfloat

type_synonym xy = "pyfloat \<times> pyfloat"

definition displacement :: "'a libm_scheme \<Rightarrow> xy \<Rightarrow> xy \<Rightarrow> pyfloat" where
  "displacement lm a b = m_hypot lm (fsub (fst b) (fst a)) (fsub (snd b) (snd a))"

definition motion_decision :: "probe_profile \<Rightarrow> 'a libm_scheme \<Rightarrow> pyfloat \<Rightarrow> pyfloat \<Rightarrow> xy \<Rightarrow> xy \<Rightarrow> probe_exc + motion_verdict" where
  "motion_decision p lm start now start_xy current_xy =
     (if \<not> list_all isfinite [fst start_xy, snd start_xy, fst current_xy, snd current_xy, start, now]
      then Inl (CommissioningError ''non-finite odometry or monotonic time'')
      else let elapsed = fsub now start; distance = displacement lm start_xy current_xy;
               decide = (\<lambda>go reason. Inr \<lparr>md_continue = go, md_reason = reason, md_elapsed = elapsed, md_distance = distance\<rparr>) in
        if fless elapsed (Fin 0) then Inl (CommissioningError ''monotonic clock regressed'')
        else if fle (PROBE_STOP_DISTANCE_M p) distance then decide False ''distance_limit''
        else if fle (PROBE_STOP_DURATION_S p) elapsed then decide False ''duration_limit''
        else decide True ''within_limits'')"

text \<open>\<open>libm\<close> with \<open>math.sqrt\<close> and the built-in \<open>sum\<close> of floats.\<close>

record probe_math = libm +
  m_sqrt :: "pyfloat \<Rightarrow> pyfloat"
  m_sum :: "pyfloat list \<Rightarrow> pyfloat"

definition normalize_angle :: "('a libm_scheme) \<Rightarrow> pyfloat \<Rightarrow> probe_exc + pyfloat" where
  "normalize_angle lm a =
     (if \<not> isfinite a then Inl (CommissioningError ''odometry yaw is non-finite'')
      else Inr (m_atan2 lm (m_sin lm a) (m_cos lm a)))"

definition quaternion_yaw :: "probe_math \<Rightarrow> pyfloat \<Rightarrow> pyfloat \<Rightarrow> pyfloat \<Rightarrow> pyfloat \<Rightarrow> probe_exc + pyfloat" where
  "quaternion_yaw lm x y z w =
     (if \<not> list_all isfinite [x, y, z, w] then Inl (CommissioningError ''odometry quaternion is non-finite'')
      else let n = m_sqrt lm (m_sum lm (map (\<lambda>v. fmul v v) [x, y, z, w])) in
        if \<not> (fle (fl (99 / 100)) n \<and> fle n (fl (101 / 100)))
        then Inl (CommissioningError ''odometry quaternion is not normalized'')
        else let x = the (fdiv x n); y = the (fdiv y n); z = the (fdiv z n); w = the (fdiv w n) in
          Inr (m_atan2 lm (fmul (Fin 2) (fadd (fmul w z) (fmul x y)))
                 (fsub (Fin 1) (fmul (Fin 2) (fadd (fmul y y) (fmul z z))))))"

record motion_measurement =
  mm_distance :: pyfloat
  mm_forward :: pyfloat
  mm_lateral :: pyfloat
  mm_yaw_change :: pyfloat

definition measured_motion :: "'a libm_scheme \<Rightarrow> xy \<Rightarrow> pyfloat \<Rightarrow> xy \<Rightarrow> pyfloat \<Rightarrow> probe_exc + motion_measurement" where
  "measured_motion lm start_xy start_yaw current_xy current_yaw =
     (if \<not> list_all isfinite [fst start_xy, snd start_xy, start_yaw, fst current_xy, snd current_xy, current_yaw]
      then Inl (CommissioningError ''measured odometry motion is non-finite'')
      else let dx = fsub (fst current_xy) (fst start_xy); dy = fsub (snd current_xy) (snd start_xy);
               co = m_cos lm start_yaw; si = m_sin lm start_yaw in
        obind (normalize_angle lm (fsub current_yaw start_yaw)) (\<lambda>turn.
          Inr \<lparr>mm_distance = m_hypot lm dx dy, mm_forward = fadd (fmul co dx) (fmul si dy),
               mm_lateral = fadd (fmul (fneg si) dx) (fmul co dy), mm_yaw_change = turn\<rparr>))"

definition measurement_valid :: "motion_measurement \<Rightarrow> probe_exc + unit" where
  "measurement_valid m = refuse_unless
     (list_all isfinite [mm_distance m, mm_forward m, mm_lateral m, mm_yaw_change m] \<and> \<not> fless (mm_distance m) (Fin 0))
     ''measured odometry displacement is invalid''"

definition straight_line :: "probe_profile \<Rightarrow> motion_measurement \<Rightarrow> probe_exc + unit" where
  "straight_line p m =
     obind (refuse_unless (\<not> fless (mm_forward m) (MIN_MEASURED_DISPLACEMENT_M p))
       ''measured forward odometry displacement is below the acceptance floor'') (\<lambda>_.
     obind (refuse_unless (\<not> fless (MAX_MEASURED_LATERAL_M p) (fabs (mm_lateral m)))
       ''measured lateral odometry displacement exceeds the straight-line limit'') (\<lambda>_.
     refuse_unless (\<not> fless (MAX_MEASURED_YAW_CHANGE_RAD p) (fabs (mm_yaw_change m)))
       ''measured odometry yaw change exceeds the straight-line limit''))"

definition first_require_displacement :: "probe_profile \<Rightarrow> motion_measurement \<Rightarrow> probe_exc + unit" where
  "first_require_displacement p m = obind (measurement_valid m) (\<lambda>_. straight_line p m)"

definition second_require_displacement :: "probe_profile \<Rightarrow> motion_measurement \<Rightarrow> probe_exc + unit" where
  "second_require_displacement p m =
     obind (measurement_valid m) (\<lambda>_.
     obind (refuse_unless (\<not> fle (DISTANCE_LIMIT_M p) (mm_distance m))
       ''measured total odometry displacement reached the hard envelope'') (\<lambda>_. straight_line p m))"

definition require_measured_displacement :: "probe_profile \<Rightarrow> motion_measurement \<Rightarrow> probe_exc + unit" where
  "require_measured_displacement p m =
     (if pp_second p then second_require_displacement p m else first_require_displacement p m)"

record post_stop_verdict =
  pd_stationary :: bool
  pd_reason :: string
  pd_drift :: pyfloat
  pd_linear :: pyfloat
  pd_yaw_rate :: pyfloat

definition post_stop_decision :: "'a libm_scheme \<Rightarrow> xy \<Rightarrow> xy \<Rightarrow> pyfloat \<Rightarrow> pyfloat \<Rightarrow> probe_exc + post_stop_verdict" where
  "post_stop_decision lm start_xy current_xy speed yaw_rate =
     (if \<not> list_all isfinite [fst start_xy, snd start_xy, fst current_xy, snd current_xy, speed, yaw_rate]
      then Inl (CommissioningError ''non-finite post-stop odometry'')
      else let drift = displacement lm start_xy current_xy; v = fabs speed; r = fabs yaw_rate;
               reason = (if fless PROBE_POST_STOP_MAX_LINEAR_MPS v then ''post_stop_linear_speed''
                         else if fless PROBE_POST_STOP_MAX_YAW_RPS r then ''post_stop_yaw_rate''
                         else if fless PROBE_POST_STOP_MAX_DRIFT_M drift then ''post_stop_drift'' else ''stationary'') in
        Inr \<lparr>pd_stationary = (reason = ''stationary''), pd_reason = reason, pd_drift = drift, pd_linear = v, pd_yaw_rate = r\<rparr>)"

definition assert_fresh :: "pyfloat \<Rightarrow> pyfloat option \<Rightarrow> pyfloat \<Rightarrow> string \<Rightarrow> probe_exc + unit" where
  "assert_fresh now receipt limit label =
     (case receipt of None \<Rightarrow> Inl (CommissioningError (''no '' @ label @ '' sample received''))
      | Some r \<Rightarrow> let age = fsub now r in
          refuse_unless (isfinite age \<and> \<not> fless age (Fin 0) \<and> \<not> fless limit age) (label @ '' is stale''))"

datatype level_value = LevelInt int | LevelBytes "int list" | LevelOther

definition diagnostic_level :: "level_value \<Rightarrow> probe_exc + int" where
  "diagnostic_level v =
     obind (case v of LevelInt i \<Rightarrow> Inr i
       | LevelBytes bs \<Rightarrow> (case bs of [b] \<Rightarrow> Inr b
           | _ \<Rightarrow> Inl (CommissioningError ''chassis diagnostic level byte must contain exactly one octet''))
       | LevelOther \<Rightarrow> Inl (CommissioningError ''chassis diagnostic level has an unsupported representation'')) (\<lambda>level.
     obind (refuse_unless (0 \<le> level \<and> level \<le> 255) ''chassis diagnostic level is outside uint8'') (\<lambda>_. Inr level))"

record evidence_snapshot =
  de_message :: string
  de_level :: "int option"
  de_issue :: string
  de_values :: "(string \<times> string) list"

definition diagnostic_evidence :: "string \<Rightarrow> int option \<Rightarrow> string \<Rightarrow> (string \<rightharpoonup> string) \<Rightarrow> evidence_snapshot" where
  "diagnostic_evidence message level issue values =
     \<lparr>de_message = message, de_level = level, de_issue = issue,
      de_values = List.map_filter (\<lambda>k. map_option (Pair k) (values k)) DIAGNOSTIC_EVIDENCE_KEYS\<rparr>"

end
