(* ===== verification/ProbeNode.thy ===== *)
theory ProbeNode imports ProbePolicy begin

text \<open>
  \<open>scripts/first_motion_probe.py\<close>, second part: the state of \<open>FirstMotionNode\<close>, its three
  subscription callbacks, the command-graph check and the health check. A callback is given the clock
  reading it makes; the graph check is given one view of the ROS graph.
\<close>

record probe_node =
  pn_state_receipt :: "pyfloat option"
  pn_odom_receipt :: "pyfloat option"
  pn_diagnostic_receipt :: "pyfloat option"
  pn_state_stamp :: "int option"
  pn_odom_stamp :: "int option"
  pn_marker :: "int option"
  pn_sport :: "sport_snapshot option"
  pn_sport_issue :: string
  pn_xy :: "xy option"
  pn_yaw :: "pyfloat option"
  pn_speed :: "pyfloat option"
  pn_yaw_rate :: "pyfloat option"
  pn_odom_count :: int
  pn_state_issue :: string
  pn_odom_issue :: string
  pn_diagnostic_issue :: string
  pn_latched :: "string option"
  pn_guard_state :: string
  pn_armed :: bool
  pn_permit_spent :: bool
  pn_moving :: bool
  pn_moved :: bool
  pn_stop_reason :: string
  pn_gid :: "gid option"
  pn_next_graph :: pyfloat
  pn_evidence :: evidence_snapshot

definition node_start :: probe_node where
  "node_start = \<lparr>pn_state_receipt = None, pn_odom_receipt = None, pn_diagnostic_receipt = None, pn_state_stamp = None,
     pn_odom_stamp = None, pn_marker = None, pn_sport = None,
     pn_sport_issue = ''waiting for bounded SportModeState evidence'', pn_xy = None, pn_yaw = None, pn_speed = None,
     pn_yaw_rate = None, pn_odom_count = 0, pn_state_issue = ''waiting for SportModeState'',
     pn_odom_issue = ''waiting for odometry'', pn_diagnostic_issue = ''waiting for chassis diagnostics'', pn_latched = None,
     pn_guard_state = ''UNKNOWN'', pn_armed = False, pn_permit_spent = False, pn_moving = False, pn_moved = False,
     pn_stop_reason = ''not_received'', pn_gid = None, pn_next_graph = Fin 0,
     pn_evidence = diagnostic_evidence [] None ''waiting for chassis diagnostics'' (\<lambda>_. None)\<rparr>"

definition latch :: "string \<Rightarrow> probe_node \<Rightarrow> probe_node" where
  "latch msg n = (if pn_latched n = None then n\<lparr>pn_latched := Some msg\<rparr> else n)"

text \<open>\<open>issue or self.latched_issue or default\<close>\<close>

definition first_text :: "string option \<Rightarrow> string option \<Rightarrow> string \<Rightarrow> string" where
  "first_text a b fallback =
     (if a \<noteq> None \<and> the a \<noteq> [] then the a else if b \<noteq> None \<and> the b \<noteq> [] then the b else fallback)"

definition stamp_of :: "int \<Rightarrow> int \<Rightarrow> int" where
  "stamp_of sec nanosec = sec * 1000000000 + nanosec"

definition stamp_bad :: "int \<Rightarrow> int \<Rightarrow> bool" where
  "stamp_bad sec nanosec \<longleftrightarrow> sec < 0 \<or> \<not> (0 \<le> nanosec \<and> nanosec < 1000000000) \<or> stamp_of sec nanosec \<le> 0"

definition stalled :: "int option \<Rightarrow> int \<Rightarrow> bool" where
  "stalled previous stamp \<longleftrightarrow> (case previous of None \<Rightarrow> False | Some s \<Rightarrow> stamp \<le> s)"

section \<open>\<open>_on_state\<close>\<close>

record state_message =
  sm_sec :: int
  sm_nanosec :: int
  sm_mode :: int
  sm_gait :: int
  sm_error_code :: int
  sm_position :: pyval
  sm_velocity :: pyval
  sm_yaw_speed :: pyval

definition state_stamp_check :: "state_message \<Rightarrow> probe_node \<Rightarrow> string option \<times> probe_node" where
  "state_stamp_check m n =
     (let stamp = stamp_of (sm_sec m) (sm_nanosec m) in
      if stamp_bad (sm_sec m) (sm_nanosec m) then (Some ''SportModeState source stamp is invalid'', n)
      else if stalled (pn_state_stamp n) stamp
      then let n' = latch ''SportModeState source stamp stopped progressing'' n in (pn_latched n', n')
      else (None, n))"

definition state_allowlist :: "int list \<Rightarrow> int list \<Rightarrow> state_message \<Rightarrow> string option \<Rightarrow> string option" where
  "state_allowlist modes markers m issue =
     (if sm_error_code m \<noteq> 0 \<and> sm_error_code m \<notin> set markers then Some ''opaque state marker is not session-allowlisted''
      else if sm_mode m \<notin> set modes then Some ''SportModeState mode is not session-allowlisted''
      else issue)"

definition state_marker_check :: "state_message \<Rightarrow> string option \<times> probe_node \<Rightarrow> string option \<times> probe_node" where
  "state_marker_check m r =
     (let (issue, n) = r in
      case pn_marker n of None \<Rightarrow> (issue, n\<lparr>pn_marker := Some (sm_error_code m)\<rparr>)
      | Some k \<Rightarrow> if sm_error_code m = k then (issue, n)
                  else let n' = latch ''opaque state marker changed'' n in (pn_latched n', n'))"

definition on_state :: "int list \<Rightarrow> int list \<Rightarrow> pyfloat \<Rightarrow> state_message \<Rightarrow> probe_node \<Rightarrow> (probe_exc + unit) \<times> probe_node" where
  "on_state modes markers now m n =
     (let (issue1, n1) = state_stamp_check m n;
          snap = sport_state_evidence_snapshot (sm_position m) (sm_velocity m) (sm_yaw_speed m) (VInt (sm_mode m)) (VInt (sm_gait m));
          rest = (\<lambda>n2. let (issue, n3) = state_marker_check m (state_allowlist modes markers m issue1, n2) in
            (Inr (), if issue = None \<and> pn_latched n3 = None
               then n3\<lparr>pn_state_stamp := Some (stamp_of (sm_sec m) (sm_nanosec m)), pn_state_receipt := Some now, pn_state_issue := []\<rparr>
               else n3\<lparr>pn_state_issue := first_text issue (pn_latched n3) ''invalid state''\<rparr>)) in
      case snap of Inr s \<Rightarrow> rest (n1\<lparr>pn_sport := Some s, pn_sport_issue := []\<rparr>)
      | Inl (CommissioningError e) \<Rightarrow> rest (n1\<lparr>pn_sport_issue := e\<rparr>)
      | Inl (OtherError e) \<Rightarrow> (Inl (OtherError e), n1))"

section \<open>\<open>_on_odom\<close>\<close>

record odom_message =
  om_sec :: int
  om_nanosec :: int
  om_frame :: string
  om_child :: string
  om_x :: pyfloat
  om_y :: pyfloat
  om_qx :: pyfloat
  om_qy :: pyfloat
  om_qz :: pyfloat
  om_qw :: pyfloat
  om_vx :: pyfloat
  om_vy :: pyfloat
  om_wz :: pyfloat

definition odom_pose_check :: "probe_math \<Rightarrow> odom_message \<Rightarrow> string option \<times> pyfloat option" where
  "odom_pose_check lm m =
     (if om_frame m \<noteq> ''odom'' \<or> om_child m \<noteq> ''base_link'' then (Some ''odometry frame is not odom -> base_link'', None)
      else if \<not> list_all isfinite [om_x m, om_y m, om_qx m, om_qy m, om_qz m, om_qw m, om_vx m, om_vy m, om_wz m]
      then (Some ''odometry pose or velocity is non-finite'', None)
      else case quaternion_yaw lm (om_qx m) (om_qy m) (om_qz m) (om_qw m) of
          Inr yaw \<Rightarrow> (None, Some yaw)
        | Inl (CommissioningError e) \<Rightarrow> (Some e, None) | Inl (OtherError e) \<Rightarrow> (Some e, None))"

definition odom_stamp_check :: "odom_message \<Rightarrow> string option \<Rightarrow> probe_node \<Rightarrow> string option \<times> probe_node" where
  "odom_stamp_check m issue n =
     (if issue \<noteq> None then (issue, n)
      else if stamp_bad (om_sec m) (om_nanosec m) then (Some ''odometry source stamp is invalid'', n)
      else if stalled (pn_odom_stamp n) (stamp_of (om_sec m) (om_nanosec m))
      then let n' = latch ''odometry source stamp stopped progressing'' n in (pn_latched n', n')
      else (None, n))"

definition on_odom :: "probe_math \<Rightarrow> pyfloat \<Rightarrow> odom_message \<Rightarrow> probe_node \<Rightarrow> probe_node" where
  "on_odom lm now m n =
     (let (issue1, yaw) = odom_pose_check lm m; (issue, n1) = odom_stamp_check m issue1 n in
      if issue = None \<and> pn_latched n1 = None
      then if yaw = None
           then let n2 = latch ''odometry yaw was not computed'' n1 in n2\<lparr>pn_odom_issue := the (pn_latched n2)\<rparr>
           else n1\<lparr>pn_odom_stamp := Some (stamp_of (om_sec m) (om_nanosec m)), pn_odom_receipt := Some now,
                   pn_xy := Some (om_x m, om_y m), pn_yaw := yaw, pn_speed := Some (m_hypot lm (om_vx m) (om_vy m)),
                   pn_yaw_rate := Some (fabs (om_wz m)), pn_odom_count := pn_odom_count n1 + 1, pn_odom_issue := []\<rparr>
      else n1\<lparr>pn_odom_issue := first_text issue (pn_latched n1) ''invalid odometry''\<rparr>)"

section \<open>\<open>_on_diagnostics\<close>\<close>

record chassis_status =
  cs_name :: string
  cs_message :: string
  cs_level :: level_value
  cs_values :: "(string \<times> string) list"

record chassis_numbers =
  cn_state_age :: pyfloat
  cn_marker :: int
  cn_duration :: pyfloat
  cn_distance :: pyfloat
  cn_timeout :: pyfloat

text \<open>The numeric fields, or the \<open>ValueError\<close> of one of them.\<close>

definition chassis_numbers_of :: "(string \<rightharpoonup> string) \<Rightarrow> chassis_numbers option" where
  "chassis_numbers_of values =
     (let text = (\<lambda>k fallback. case values k of None \<Rightarrow> fallback | Some v \<Rightarrow> v);
          number = (\<lambda>k. float_of_str (text k ''nan'')) in
      case (number ''state_age_sec'', int_of_str (text ''sport_error_code'' ''-1''), number ''commissioning_max_duration_sec'',
            number ''commissioning_max_distance_m'', number ''commissioning_command_timeout_sec'') of
        (Some a, Some k, Some d, Some l, Some t) \<Rightarrow>
          Some \<lparr>cn_state_age = a, cn_marker = k, cn_duration = d, cn_distance = l, cn_timeout = t\<rparr>
      | _ \<Rightarrow> None)"

definition chassis_checks ::
  "probe_profile \<Rightarrow> (string \<rightharpoonup> string) \<Rightarrow> int option \<Rightarrow> chassis_numbers \<Rightarrow> (bool \<times> string) list" where
  "chassis_checks p values level cn =
     (let is = (\<lambda>k v. values k = Some v); flag = (\<lambda>k. is k ''true'' \<or> is k ''false'') in
      [(flag ''commissioning_permit_spent'', ''adapter commissioning permit diagnostic is malformed''),
       (flag ''commissioning_motion_active'', ''adapter commissioning activity diagnostic is malformed''),
       (flag ''daemon_armed'', ''adapter daemon arm diagnostic is malformed''),
       (\<not> is ''commissioning_stop_reason'' [] \<and> values ''commissioning_stop_reason'' \<noteq> None,
          ''adapter commissioning stop reason is missing''),
       (level \<noteq> None, ''chassis diagnostic level is malformed''),
       (the level \<le> 1, ''chassis diagnostic level is ERROR''),
       (is ''allow_motion'' ''true'', ''chassis adapter motion graph is not configured''),
       (is ''motion_profile'' (MOTION_PROFILE p), ''chassis adapter motion profile is not the probe profile''),
       (is ''odom_source'' ''external_verified'', ''chassis adapter odometry is not externally verified''),
       (is ''external_odom_topic'' EXTERNAL_ODOM_TOPIC, ''chassis adapter external odometry topic is unexpected''),
       (is ''external_odom_valid'' ''true'', ''chassis adapter external odometry is not fresh/valid''),
       (is ''external_odom_status'' ''fresh'', ''chassis adapter external odometry status is not fresh''),
       (is ''external_odom_fault_latched'' ''false'', ''chassis adapter external odometry fault is latched''),
       (is ''state_valid'' ''true'', ''chassis state_valid is not true''),
       (is ''source_stamp_status'' ''fresh'', ''chassis source stamp is not fresh''),
       (fle (Fin 0) (cn_state_age cn) \<and> fle (cn_state_age cn) STATE_STALE_S, ''chassis diagnostic reports stale state''),
       (is ''opaque_state_marker_change_latched'' ''false'', ''opaque state marker change is latched''),
       (feq (cn_duration cn) (DURATION_LIMIT_S p), ''adapter commissioning duration envelope is unexpected''),
       (feq (cn_distance cn) (DISTANCE_LIMIT_M p), ''adapter commissioning distance envelope is unexpected''),
       (feq (cn_timeout cn) COMMAND_STALE_S, ''adapter command watchdog is not 0.20 s''),
       (cn_marker cn = 0 \<or> is ''opaque_state_marker_explicitly_allowed'' ''true'', ''non-zero marker lacks explicit adapter proof''),
       (cn_marker cn = 0 \<or> is ''opaque_state_marker_bound'' (int_text (cn_marker cn)),
          ''adapter bound marker does not match current marker'')])"

definition first_failure :: "(bool \<times> string) list \<Rightarrow> string option" where
  "first_failure checks = map_option snd (find (\<lambda>c. \<not> fst c) checks)"

definition chassis_issue :: "probe_profile \<Rightarrow> chassis_status \<Rightarrow> (string \<rightharpoonup> string) \<Rightarrow> string option" where
  "chassis_issue p st values =
     (case chassis_numbers_of values of
        None \<Rightarrow> Some ''chassis diagnostic numeric value is malformed''
      | Some cn \<Rightarrow>
        if \<not> distinct (map fst (cs_values st)) then Some ''chassis diagnostic keys are duplicated''
        else case diagnostic_level (cs_level st) of
            Inl (CommissioningError e) \<Rightarrow> Some e | Inl (OtherError e) \<Rightarrow> Some e
          | Inr level \<Rightarrow> first_failure (chassis_checks p values (Some level) cn))"

definition on_diagnostics :: "probe_profile \<Rightarrow> pyfloat \<Rightarrow> chassis_status list \<Rightarrow> probe_node \<Rightarrow> probe_node" where
  "on_diagnostics p now statuses n =
     (case filter (\<lambda>st. cs_name st = DIAGNOSTIC_NAME) statuses of
        [st] \<Rightarrow>
          let values = map_of (rev (cs_values st)); issue = chassis_issue p st values;
              level = (case diagnostic_level (cs_level st) of Inr l \<Rightarrow> Some l | Inl _ \<Rightarrow> None);
              text = first_text issue None [];
              n1 = n\<lparr>pn_guard_state := (case values ''guard_state'' of None \<Rightarrow> ''UNKNOWN'' | Some g \<Rightarrow> g),
                     pn_armed := (values ''daemon_armed'' = Some ''true''),
                     pn_permit_spent := (values ''commissioning_permit_spent'' = Some ''true''),
                     pn_moving := (values ''commissioning_motion_active'' = Some ''true'')\<rparr>;
              n2 = n1\<lparr>pn_moved := (pn_moved n1 \<or> issue = None \<and> pn_moving n1),
                      pn_stop_reason := (case values ''commissioning_stop_reason'' of None \<Rightarrow> ''missing'' | Some r \<Rightarrow> r),
                      pn_diagnostic_issue := text, pn_evidence := diagnostic_evidence (cs_message st) level text values\<rparr> in
          if issue = None then n2\<lparr>pn_diagnostic_receipt := Some now\<rparr> else n2
      | _ \<Rightarrow> let text = ''expected exactly one chassis diagnostic status'' in
          n\<lparr>pn_diagnostic_issue := text, pn_evidence := diagnostic_evidence [] None text (\<lambda>_. None)\<rparr>)"

section \<open>The command graph\<close>

record endpoint =
  ep_name :: string
  ep_namespace :: string
  ep_gid :: "gid option"

text \<open>What the graph queries return; \<open>None\<close> for the adapter's services is the \<open>RuntimeError\<close> of that query.\<close>

record graph_view =
  gv_publishers :: "endpoint list"
  gv_subscriptions :: "endpoint list"
  gv_canonical :: "endpoint list"
  gv_sport :: "endpoint list"
  gv_lease :: "endpoint list"
  gv_odom :: "endpoint list"
  gv_nodes :: "(string \<times> string) list"
  gv_services :: "(string \<times> string list) list option"

definition sole :: "string \<Rightarrow> string \<Rightarrow> endpoint list \<Rightarrow> bool" where
  "sole name namespace eps \<longleftrightarrow>
     length eps = 1 \<and> length (filter (\<lambda>e. ep_name e = name \<and> ep_namespace e = namespace) eps) = 1"

definition graph_issue :: "probe_profile \<Rightarrow> gid list \<Rightarrow> graph_view \<Rightarrow> probe_node \<Rightarrow> string \<times> probe_node" where
  "graph_issue p baseline g n =
     (if \<not> sole (PROBE_NODE_NAME p) ''/'' (gv_publishers g)
      then (''dedicated command topic does not have this probe as sole publisher'', n)
      else if \<not> sole ADAPTER_NODE_NAME ADAPTER_NAMESPACE (gv_subscriptions g)
      then (''dedicated command topic does not have the adapter as sole subscriber'', n)
      else if gv_canonical g \<noteq> []
      then (''canonical /cmd_vel still has a publisher; Nav2 must be motion-isolated'', n)
      else if \<not> sole ADAPTER_NODE_NAME ADAPTER_NAMESPACE (gv_odom g)
      then (''canonical /odom does not have the adapter as sole publisher'', n)
      else case bind_added_sport_writer baseline (map ep_gid (gv_sport g)) (pn_gid n) of (issue, gid) \<Rightarrow>
        if issue \<noteq> [] then (issue, n)
        else let n' = n\<lparr>pn_gid := gid\<rparr> in
          if gv_lease g \<noteq> [] then (''a positive-lease request writer is present'', n')
          else if length (filter (\<lambda>x. x = (ADAPTER_NODE_NAME, ADAPTER_NAMESPACE)) (gv_nodes g)) \<noteq> 1
          then (''expected exactly one go2_chassis_adapter node'', n')
          else case gv_services g of None \<Rightarrow> (''could not inspect adapter services'', n')
            | Some services \<Rightarrow>
              if length (filter (\<lambda>(name, types). name = ARM_SERVICE \<and> ''std_srvs/srv/SetBool'' \<in> set types) services) \<noteq> 1
              then (''adapter has no unique correctly typed arm service'', n') else ([], n'))"

section \<open>Health\<close>

record expectation =
  ex_states :: "string list"
  ex_permit_spent :: "bool option"
  ex_moving :: "bool option"

definition message_of :: "probe_exc \<Rightarrow> string" where
  "message_of e = (case e of CommissioningError m \<Rightarrow> m | OtherError m \<Rightarrow> m)"

definition freshness_issue :: "pyfloat \<Rightarrow> probe_node \<Rightarrow> string" where
  "freshness_issue now n =
     (case obind (assert_fresh now (pn_state_receipt n) STATE_STALE_S ''state'') (\<lambda>_.
           obind (assert_fresh now (pn_odom_receipt n) ODOM_STALE_S ''odometry'') (\<lambda>_.
           assert_fresh now (pn_diagnostic_receipt n) DIAGNOSTIC_STALE_S ''chassis diagnostics'')) of
        Inl e \<Rightarrow> message_of e | Inr _ \<Rightarrow> [])"

definition health_issue :: "expectation \<Rightarrow> pyfloat \<Rightarrow> probe_node \<Rightarrow> string" where
  "health_issue ex now n =
     (if pn_latched n \<noteq> None \<and> the (pn_latched n) \<noteq> [] then the (pn_latched n)
      else if pn_state_issue n \<noteq> [] then pn_state_issue n
      else if pn_odom_issue n \<noteq> [] then pn_odom_issue n
      else if pn_diagnostic_issue n \<noteq> [] then pn_diagnostic_issue n
      else if freshness_issue now n \<noteq> [] then freshness_issue now n
      else if pn_guard_state n \<notin> set (ex_states ex) then ''unexpected chassis guard state''
      else if ex_permit_spent ex \<noteq> None \<and> ex_permit_spent ex \<noteq> Some (pn_permit_spent n)
      then ''adapter commissioning permit state does not match phase''
      else if ex_moving ex \<noteq> None \<and> ex_moving ex \<noteq> Some (pn_moving n)
      then ''adapter commissioning motion state does not match phase''
      else [])"

end
