(* ===== verification/ProbeRun.thy ===== *)
theory ProbeRun imports ProbeNode begin

text \<open>
  \<open>scripts/first_motion_probe.py\<close>, third part: \<open>_run_ros\<close> and \<open>main\<close>. The process is a program over
  its state that may raise. Each use of the outside world (a clock reading, a publication, a spin of
  the executor, a graph query, the arm service, the stop flag) is numbered, and \<open>probe_io\<close> says what the
  world answers to the n-th use. Loops take fuel; printing, the signal handlers and the evidence file's
  encoding are not modelled, and evidence values are kept unrounded.
\<close>

section \<open>The outside world\<close>

datatype spin_event = Quiet | StateMessage state_message | OdomMessage odom_message
  | DiagnosticsMessage "chassis_status list" | SpinRaised string

datatype arm_reply = NotDone | ReplyRaised string | NoReply | Answered bool string

record probe_io =
  io_clock :: "nat \<Rightarrow> pyfloat"
  io_stop :: "nat \<Rightarrow> bool"
  io_ok :: "nat \<Rightarrow> bool"
  io_create :: "nat \<Rightarrow> string option"
  io_publish :: "nat \<Rightarrow> string option"
  io_spin :: "nat \<Rightarrow> spin_event"
  io_graph :: "nat \<Rightarrow> string + graph_view"
  io_service :: "nat \<Rightarrow> string + bool"
  io_reply :: "nat \<Rightarrow> arm_reply"
  io_write :: "nat \<Rightarrow> bool"

record probe_setup =
  ps_profile :: probe_profile
  ps_modes :: "int list"
  ps_markers :: "int list"
  ps_baseline :: "gid list"
  ps_math :: probe_math
  ps_io :: probe_io
  ps_fuel :: nat

section \<open>The state of a run\<close>

text \<open>What the process did: a publication, with its number and the node that made it, or an arm request.\<close>

datatype probe_act = Published nat pyfloat probe_node | ArmRequested bool

record stop_metrics =
  st_drift :: pyfloat
  st_linear :: pyfloat
  st_yaw :: pyfloat
  st_samples :: "int option"

record probe_report =
  rp_ownership :: bool
  rp_gid :: "gid option"
  rp_arm_message :: "string option"
  rp_motion :: "(motion_verdict \<times> motion_measurement \<times> bool) option"
  rp_failure :: "string option"
  rp_diagnostic :: "evidence_snapshot option"
  rp_sport :: "pair_evidence option"
  rp_disarm :: "bool \<times> string"
  rp_post_stop :: "bool \<times> string \<times> stop_metrics option"
  rp_pass :: bool

record probe_run =
  ru_calls :: nat
  ru_created :: bool
  ru_node :: probe_node
  ru_acts :: "probe_act list"
  ru_accepted :: bool
  ru_start :: "(xy \<times> pyfloat \<times> pyfloat) option"
  ru_sport_start :: "sport_snapshot option"
  ru_sport_end :: "sport_snapshot option"
  ru_report :: probe_report

definition run_start :: probe_run where
  "run_start = \<lparr>ru_calls = 0, ru_created = False, ru_node = node_start, ru_acts = [], ru_accepted = False, ru_start = None,
     ru_sport_start = None, ru_sport_end = None,
     ru_report = \<lparr>rp_ownership = False, rp_gid = None, rp_arm_message = None, rp_motion = None, rp_failure = None,
       rp_diagnostic = None, rp_sport = None, rp_disarm = (False, ''disarm was not attempted''),
       rp_post_stop = (False, ''post-stop verification was not attempted'', None), rp_pass = False\<rparr>\<rparr>"

section \<open>Programs\<close>

datatype halt = Raised probe_exc | OutOfFuel

type_synonym 'a prog = "probe_run \<Rightarrow> (halt + 'a) \<times> probe_run"

definition return :: "'a \<Rightarrow> 'a prog" where "return a s = (Inr a, s)"
definition raising :: "probe_exc \<Rightarrow> 'a prog" where "raising e s = (Inl (Raised e), s)"
definition fetch :: "(probe_run \<Rightarrow> 'a) \<Rightarrow> 'a prog" where "fetch f s = (Inr (f s), s)"
definition change :: "(probe_run \<Rightarrow> probe_run) \<Rightarrow> unit prog" where "change f s = (Inr (), f s)"

definition chain :: "'a prog \<Rightarrow> ('a \<Rightarrow> 'b prog) \<Rightarrow> 'b prog" where
  "chain m f s = (case m s of (Inl e, t) \<Rightarrow> (Inl e, t) | (Inr a, t) \<Rightarrow> f a t)"

definition attempt :: "'a prog \<Rightarrow> (probe_exc \<Rightarrow> 'a prog) \<Rightarrow> 'a prog" where
  "attempt m h s = (case m s of (Inl (Raised e), t) \<Rightarrow> h e t | r \<Rightarrow> r)"

definition require_that :: "bool \<Rightarrow> string \<Rightarrow> unit prog" where
  "require_that ok msg = (if ok then return () else raising (CommissioningError msg))"

definition lift_result :: "probe_exc + 'a \<Rightarrow> 'a prog" where
  "lift_result r = (case r of Inl e \<Rightarrow> raising e | Inr a \<Rightarrow> return a)"

text \<open>A loop: its body answers \<open>Inl\<close> with the next loop state or \<open>Inr\<close> with the value it leaves with.\<close>

fun repeating :: "nat \<Rightarrow> ('b \<Rightarrow> ('b + 'c) prog) \<Rightarrow> 'b \<Rightarrow> 'c prog" where
  "repeating 0 body b = (\<lambda>s. (Inl OutOfFuel, s))"
| "repeating (Suc n) body b = chain (body b) (\<lambda>r. case r of Inl b' \<Rightarrow> repeating n body b' | Inr c \<Rightarrow> return c)"

definition ask :: "(nat \<Rightarrow> 'a) \<Rightarrow> 'a prog" where
  "ask f s = (Inr (f (ru_calls s)), s\<lparr>ru_calls := ru_calls s + 1\<rparr>)"

definition on_node :: "(probe_node \<Rightarrow> probe_node) \<Rightarrow> unit prog" where
  "on_node f = change (\<lambda>s. s\<lparr>ru_node := f (ru_node s)\<rparr>)"

definition on_report :: "(probe_report \<Rightarrow> probe_report) \<Rightarrow> unit prog" where
  "on_report f = change (\<lambda>s. s\<lparr>ru_report := f (ru_report s)\<rparr>)"

definition act :: "probe_act \<Rightarrow> unit prog" where
  "act a = change (\<lambda>s. s\<lparr>ru_acts := a # ru_acts s\<rparr>)"

definition clock :: "probe_setup \<Rightarrow> pyfloat prog" where "clock c = ask (io_clock (ps_io c))"

section \<open>The node's methods\<close>

definition publish_velocity :: "probe_setup \<Rightarrow> pyfloat \<Rightarrow> unit prog" where
  "publish_velocity c vx =
     chain (require_that (isfinite vx \<and> fle (Fin 0) vx \<and> fle vx (SPEED_MPS (ps_profile c))) ''probe attempted velocity outside its limit'') (\<lambda>_.
     chain (fetch ru_calls) (\<lambda>k.
     chain (ask (io_publish (ps_io c))) (\<lambda>failed. case failed of
         Some e \<Rightarrow> raising (OtherError e)
       | None \<Rightarrow> chain (fetch ru_node) (\<lambda>n. act (Published k vx n)))))"

definition run_callback :: "probe_setup \<Rightarrow> pyfloat \<Rightarrow> spin_event \<Rightarrow> unit prog" where
  "run_callback c now e =
     (case e of Quiet \<Rightarrow> return ()
      | StateMessage m \<Rightarrow> chain (fetch ru_node) (\<lambda>n. case on_state (ps_modes c) (ps_markers c) now m n of
          (r, n') \<Rightarrow> chain (on_node (\<lambda>_. n')) (\<lambda>_. lift_result r))
      | OdomMessage m \<Rightarrow> on_node (on_odom (ps_math c) now m)
      | DiagnosticsMessage sts \<Rightarrow> on_node (on_diagnostics (ps_profile c) now sts)
      | SpinRaised e \<Rightarrow> raising (OtherError e))"

text \<open>\<open>rclpy.spin_once\<close>: at most one callback, which reads the clock.\<close>

definition spin_once :: "probe_setup \<Rightarrow> unit prog" where
  "spin_once c = chain (ask (io_spin (ps_io c))) (\<lambda>e. chain (clock c) (\<lambda>now. run_callback c now e))"

definition check_graph :: "probe_setup \<Rightarrow> string prog" where
  "check_graph c =
     chain (ask (io_graph (ps_io c))) (\<lambda>view. case view of Inl e \<Rightarrow> raising (OtherError e)
     | Inr g \<Rightarrow> chain (fetch ru_node) (\<lambda>n. case graph_issue (ps_profile c) (ps_baseline c) g n of
         (issue, n') \<Rightarrow> chain (on_node (\<lambda>_. n')) (\<lambda>_. return issue)))"

definition check_health :: "probe_setup \<Rightarrow> expectation \<Rightarrow> string prog" where
  "check_health c ex = chain (clock c) (\<lambda>now. fetch (\<lambda>s. health_issue ex now (ru_node s)))"

text \<open>\<open>node.graph_issue() or node.health_issue(...)\<close>\<close>

definition check_gate :: "probe_setup \<Rightarrow> expectation \<Rightarrow> string prog" where
  "check_gate c ex = chain (check_graph c) (\<lambda>issue. if issue \<noteq> [] then return issue else check_health c ex)"

definition reset_runtime_graph_check :: "unit prog" where
  "reset_runtime_graph_check = on_node (\<lambda>n. n\<lparr>pn_next_graph := Fin 0\<rparr>)"

definition runtime_issue :: "probe_setup \<Rightarrow> expectation \<Rightarrow> bool \<Rightarrow> string prog" where
  "runtime_issue c ex force_graph =
     chain (clock c) (\<lambda>now. chain (fetch ru_node) (\<lambda>n.
     if force_graph \<or> fle (pn_next_graph n) now
     then chain (on_node (\<lambda>n. n\<lparr>pn_next_graph := fadd now RUNTIME_GRAPH_CHECK_PERIOD_S\<rparr>)) (\<lambda>_. check_gate c ex)
     else check_health c ex))"

definition require_runtime :: "probe_setup \<Rightarrow> expectation \<Rightarrow> bool \<Rightarrow> unit prog" where
  "require_runtime c ex force_graph = chain (runtime_issue c ex force_graph) (\<lambda>issue. require_that (issue = []) issue)"

text \<open>\<open>publish_velocity(0.0)\<close> and \<open>spin_once\<close>, the idle step of every waiting loop.\<close>

definition idle :: "probe_setup \<Rightarrow> unit prog" where
  "idle c = chain (publish_velocity c (Fin 0)) (\<lambda>_. spin_once c)"

text \<open>The wait stops when the reply is there or the deadline has passed; the reply is looked at again after it.\<close>

definition await_reply :: "probe_setup \<Rightarrow> pyfloat \<Rightarrow> arm_reply prog" where
  "await_reply c deadline =
     chain (repeating (ps_fuel c) (\<lambda>_.
       chain (ask (io_reply (ps_io c))) (\<lambda>r. if r \<noteq> NotDone then return (Inr r) else
       chain (clock c) (\<lambda>now. if \<not> fless now deadline then chain (ask (io_reply (ps_io c))) (\<lambda>r. return (Inr r))
         else chain (idle c) (\<lambda>_. return (Inl ()))))) ()) return"

definition call_arm :: "probe_setup \<Rightarrow> bool \<Rightarrow> (bool \<times> string) prog" where
  "call_arm c arm =
     chain (ask (io_service (ps_io c))) (\<lambda>ready. case ready of Inl e \<Rightarrow> raising (OtherError e)
     | Inr False \<Rightarrow> return (False, ''arm service is unavailable'')
     | Inr True \<Rightarrow>
         chain (act (ArmRequested arm)) (\<lambda>_.
         chain (clock c) (\<lambda>now. chain (await_reply c (fadd now (Fin (3 / 2)))) (\<lambda>reply.
         return (case reply of NotDone \<Rightarrow> (False, ''arm service response timed out'')
           | ReplyRaised e \<Rightarrow> (False, ''arm service failed: '' @ e)
           | NoReply \<Rightarrow> (False, ''arm service returned no response'')
           | Answered ok msg \<Rightarrow> (ok, msg))))))"

definition hold_zero :: "probe_setup \<Rightarrow> pyfloat \<Rightarrow> unit prog" where
  "hold_zero c deadline = repeating (ps_fuel c) (\<lambda>_.
     chain (ask (io_ok (ps_io c))) (\<lambda>ok. if \<not> ok then return (Inr ()) else
     chain (clock c) (\<lambda>now. if \<not> fless now deadline then return (Inr ()) else
     attempt (chain (idle c) (\<lambda>_. return (Inl ()))) (\<lambda>_. return (Inr ()))))) ()"

definition zero_and_disarm :: "probe_setup \<Rightarrow> (bool \<times> string) prog" where
  "zero_and_disarm c =
     chain (attempt (publish_velocity c (Fin 0)) (\<lambda>_. return ())) (\<lambda>_.
     chain (attempt (call_arm c False) (\<lambda>e. return (False, ''disarm service path raised '' @ message_of e))) (\<lambda>result.
     chain (clock c) (\<lambda>now. chain (hold_zero c (fadd now STOP_ZERO_HOLD_S)) (\<lambda>_. return result))))"

definition odom_readings :: "probe_node \<Rightarrow> (xy \<times> pyfloat \<times> pyfloat) option" where
  "odom_readings n = (case (pn_xy n, pn_speed n, pn_yaw_rate n) of
     (Some p, Some v, Some r) \<Rightarrow> Some (p, v, r) | _ \<Rightarrow> None)"

definition disarmed_after_motion :: expectation where
  "disarmed_after_motion = \<lparr>ex_states = [''DISARMED''], ex_permit_spent = Some True, ex_moving = Some False\<rparr>"

text \<open>One round of the post-stop observation: \<open>Inl\<close> the maxima so far, \<open>Inr\<close> the verdict that ends it early or the maxima.\<close>

definition observe_stop ::
  "probe_setup \<Rightarrow> xy \<Rightarrow> pyfloat \<Rightarrow> stop_metrics \<Rightarrow> (stop_metrics + (string \<times> stop_metrics option) + stop_metrics) prog" where
  "observe_stop c start_xy deadline mx =
     chain (ask (io_ok (ps_io c))) (\<lambda>ok. if \<not> ok then return (Inr (Inr mx)) else
     chain (clock c) (\<lambda>now. if \<not> fless now deadline then return (Inr (Inr mx)) else
     chain (idle c) (\<lambda>_.
     chain (runtime_issue c disarmed_after_motion False) (\<lambda>issue. if issue \<noteq> [] then return (Inr (Inl (issue, None))) else
     chain (fetch ru_node) (\<lambda>n.
     if pn_armed n then return (Inr (Inl (''SDK daemon re-armed after explicit stop'', None))) else
     case odom_readings n of None \<Rightarrow> return (Inr (Inl (''post-stop odometry disappeared'', None)))
     | Some (p, v, r) \<Rightarrow>
         chain (lift_result (post_stop_decision (ps_math c) start_xy p v r)) (\<lambda>d.
         let mx' = mx\<lparr>st_drift := fmax (st_drift mx) (pd_drift d), st_linear := fmax (st_linear mx) (pd_linear d),
                      st_yaw := fmax (st_yaw mx) (pd_yaw_rate d)\<rparr> in
         return (if pd_stationary d then Inl mx' else Inr (Inl (pd_reason d, Some mx')))))))))"

definition verify_post_stop :: "probe_setup \<Rightarrow> (bool \<times> string \<times> stop_metrics option) prog" where
  "verify_post_stop c =
     chain (fetch ru_node) (\<lambda>n. case odom_readings n of
       None \<Rightarrow> return (False, ''post-stop odometry is unavailable'', None)
     | Some (start_xy, _) \<Rightarrow>
         chain reset_runtime_graph_check (\<lambda>_. chain (clock c) (\<lambda>now.
         chain (repeating (ps_fuel c) (observe_stop c start_xy (fadd now PROBE_POST_STOP_OBSERVATION_S))
           \<lparr>st_drift = Fin 0, st_linear = Fin 0, st_yaw = Fin 0, st_samples = None\<rparr>) (\<lambda>r. case r of
             Inl (reason, metrics) \<Rightarrow> return (False, reason, metrics)
           | Inr mx \<Rightarrow> chain (fetch ru_node) (\<lambda>n'.
               let samples = pn_odom_count n' - pn_odom_count n; metrics = Some (mx\<lparr>st_samples := Some samples\<rparr>) in
               return (if samples < PROBE_POST_STOP_MIN_ODOM_SAMPLES
                       then (False, ''too few fresh post-stop odometry samples'', metrics)
                       else (True, ''continuous stationary observation passed'', metrics)))))))"

section \<open>\<open>_run_ros\<close>\<close>

definition disarmed_before_motion :: expectation where
  "disarmed_before_motion = \<lparr>ex_states = [''DISARMED''], ex_permit_spent = Some False, ex_moving = Some False\<rparr>"

definition refuse_stop :: "probe_setup \<Rightarrow> string \<Rightarrow> unit prog" where
  "refuse_stop c msg = chain (ask (io_stop (ps_io c))) (\<lambda>stop. require_that (\<not> stop) msg)"

text \<open>Fresh telemetry and a stable command graph: the number of consecutive good samples.\<close>

definition acquire :: "probe_setup \<Rightarrow> pyfloat \<Rightarrow> int prog" where
  "acquire c deadline = repeating (ps_fuel c) (\<lambda>(stable, next_check).
     chain (clock c) (\<lambda>t. if \<not> fless t deadline then return (Inr stable) else
     chain (refuse_stop c ''operator interrupt before arm'') (\<lambda>_.
     chain (idle c) (\<lambda>_.
     chain (clock c) (\<lambda>now. if \<not> fle next_check now then return (Inl (stable, next_check)) else
     chain (check_gate c disarmed_before_motion) (\<lambda>issue.
     let stable' = (if issue = [] then stable + 1 else 0) in
     return (if GRAPH_STABILITY_SAMPLES \<le> stable' then Inr stable' else Inl (stable', fadd now GRAPH_SAMPLE_PERIOD_S)))))))) (0, Fin 0)"

definition bind_command_graph :: "probe_setup \<Rightarrow> unit prog" where
  "bind_command_graph c =
     chain (clock c) (\<lambda>t. chain (acquire c (fadd t (Fin 8))) (\<lambda>stable.
     chain (if GRAPH_STABILITY_SAMPLES \<le> stable then return ()
            else chain (check_gate c disarmed_before_motion) (\<lambda>issue.
              raising (CommissioningError (''pre-arm graph/telemetry gate failed: '' @ issue)))) (\<lambda>_.
     chain (fetch ru_node) (\<lambda>n.
     chain (require_that (pn_gid n \<noteq> None) ''sport request writer DDS GID was not bound'') (\<lambda>_.
     on_report (\<lambda>r. r\<lparr>rp_ownership := True, rp_gid := pn_gid n\<rparr>))))))"

definition zero_preamble :: "probe_setup \<Rightarrow> unit prog" where
  "zero_preamble c =
     chain reset_runtime_graph_check (\<lambda>_. chain (clock c) (\<lambda>t. repeating (ps_fuel c) (\<lambda>_.
     chain (clock c) (\<lambda>now. if \<not> fless now (fadd t ZERO_PREAMBLE_S) then return (Inr ()) else
     chain (refuse_stop c ''operator interrupt during zero preamble'') (\<lambda>_.
     chain (require_runtime c disarmed_before_motion False) (\<lambda>_.
     chain (idle c) (\<lambda>_. return (Inl ())))))) ()))"

definition armed_zero :: "probe_node \<Rightarrow> bool" where
  "armed_zero n \<longleftrightarrow> pn_guard_state n = ''ARMED'' \<and> pn_armed n"

definition await_armed :: "probe_setup \<Rightarrow> unit prog" where
  "await_armed c =
     chain (clock c) (\<lambda>t.
     chain (repeating (ps_fuel c) (\<lambda>_.
       chain (clock c) (\<lambda>now. if \<not> fless now (fadd t ARMED_ZERO_TIMEOUT_S) then return (Inr ()) else
       chain (refuse_stop c ''operator interrupt while awaiting armed zero'') (\<lambda>_.
       chain (require_runtime c \<lparr>ex_states = [''DISARMED'', ''PREPARING'', ''ARMED''], ex_permit_spent = None, ex_moving = None\<rparr> False) (\<lambda>_.
       chain (idle c) (\<lambda>_.
       fetch (\<lambda>s. if armed_zero (ru_node s) then Inr () else Inl ())))))) ()) (\<lambda>_.
     chain (fetch ru_node) (\<lambda>n.
     chain (require_that (armed_zero n) ''adapter/SDK daemon did not reach armed zero'') (\<lambda>_.
     require_runtime c \<lparr>ex_states = [''ARMED''], ex_permit_spent = Some True, ex_moving = Some False\<rparr> True))))"

definition odom_pose :: "probe_node \<Rightarrow> (xy \<times> pyfloat) option" where
  "odom_pose n = (case (pn_xy n, pn_yaw n) of (Some p, Some a) \<Rightarrow> Some (p, a) | _ \<Rightarrow> None)"

definition require_pose :: "string \<Rightarrow> (xy \<times> pyfloat) prog" where
  "require_pose msg = chain (fetch (\<lambda>s. odom_pose (ru_node s))) (\<lambda>p. case p of
     None \<Rightarrow> raising (CommissioningError msg) | Some q \<Rightarrow> return q)"

definition armed_in_motion :: expectation where
  "armed_in_motion = \<lparr>ex_states = [''ARMED''], ex_permit_spent = None, ex_moving = None\<rparr>"

text \<open>The guards of one round of the motion loop, and the loop.\<close>

definition drive_check :: "probe_setup \<Rightarrow> xy \<Rightarrow> pyfloat \<Rightarrow> motion_verdict prog" where
  "drive_check c start_xy start_s =
     chain (refuse_stop c ''operator interrupt during motion'') (\<lambda>_.
     chain (require_runtime c armed_in_motion False) (\<lambda>_.
     chain (fetch ru_node) (\<lambda>n.
     chain (require_that (pn_armed n) ''SDK daemon disarmed during motion'') (\<lambda>_.
     chain (require_pose ''odometry disappeared during motion'') (\<lambda>pose.
     chain (clock c) (\<lambda>now.
     lift_result (motion_decision (ps_profile c) (ps_math c) start_s now start_xy (fst pose))))))))"

definition drive :: "probe_setup \<Rightarrow> xy \<Rightarrow> pyfloat \<Rightarrow> motion_verdict prog" where
  "drive c start_xy start_s = repeating (ps_fuel c) (\<lambda>_.
     chain (drive_check c start_xy start_s) (\<lambda>d.
     if \<not> md_continue d then return (Inr d) else
     chain (publish_velocity c (SPEED_MPS (ps_profile c))) (\<lambda>_.
     chain (spin_once c) (\<lambda>_. return (Inl ()))))) ()"

definition note_sport_end :: "unit prog" where
  "note_sport_end = change (\<lambda>s. case pn_sport (ru_node s) of None \<Rightarrow> s | Some e \<Rightarrow> s\<lparr>ru_sport_end := Some e\<rparr>)"

definition move :: "probe_setup \<Rightarrow> unit prog" where
  "move c =
     chain (require_pose ''odometry disappeared before motion'') (\<lambda>start.
     chain (change (\<lambda>s. s\<lparr>ru_sport_start := pn_sport (ru_node s)\<rparr>)) (\<lambda>_.
     chain (clock c) (\<lambda>start_s.
     chain (change (\<lambda>s. s\<lparr>ru_start := Some (fst start, snd start, start_s)\<rparr>)) (\<lambda>_.
     chain (drive c (fst start) start_s) (\<lambda>verdict.
     chain (publish_velocity c (Fin 0)) (\<lambda>_.
     chain note_sport_end (\<lambda>_.
     chain (require_pose ''odometry disappeared at motion stop'') (\<lambda>stop.
     chain (lift_result (measured_motion (ps_math c) (fst start) (snd start) (fst stop) (snd stop))) (\<lambda>measured.
     chain (fetch (\<lambda>s. pn_moved (ru_node s))) (\<lambda>moved.
     chain (on_report (\<lambda>r. r\<lparr>rp_motion := Some (verdict, measured, moved)\<rparr>)) (\<lambda>_.
     chain (require_that moved ''adapter diagnostics never confirmed commissioning motion active'') (\<lambda>_.
     lift_result (require_measured_displacement (ps_profile c) measured)))))))))))))"

definition probe_body :: "probe_setup \<Rightarrow> unit prog" where
  "probe_body c =
     chain (ask (io_create (ps_io c))) (\<lambda>failed.
     chain (case failed of Some e \<Rightarrow> raising (OtherError e) | None \<Rightarrow> change (\<lambda>s. s\<lparr>ru_created := True\<rparr>)) (\<lambda>_.
     chain (bind_command_graph c) (\<lambda>_.
     chain (zero_preamble c) (\<lambda>_.
     chain (call_arm c True) (\<lambda>armed.
     chain (on_report (\<lambda>r. r\<lparr>rp_arm_message := Some (snd armed)\<rparr>)) (\<lambda>_.
     chain (require_that (fst armed) (''adapter rejected arm: '' @ snd armed)) (\<lambda>_.
     chain (change (\<lambda>s. s\<lparr>ru_accepted := True\<rparr>)) (\<lambda>_.
     chain (await_armed c) (\<lambda>_. move c)))))))))"

text \<open>The \<open>except\<close> clause: whether the body returned.\<close>

definition guarded_body :: "probe_setup \<Rightarrow> bool prog" where
  "guarded_body c = attempt (chain (probe_body c) (\<lambda>_. return True)) (\<lambda>e.
     chain (fetch (\<lambda>s. if ru_created s then Some (pn_evidence (ru_node s)) else None)) (\<lambda>ev.
     chain (on_report (\<lambda>r. r\<lparr>rp_failure := Some (message_of e), rp_diagnostic := ev\<rparr>)) (\<lambda>_. return False)))"

definition pair_evidence_step :: "probe_setup \<Rightarrow> (probe_run \<Rightarrow> string) \<Rightarrow> unit prog" where
  "pair_evidence_step c issue =
     chain (fetch (\<lambda>s. sport_state_pair_evidence (ps_math c) (ru_sport_start s) (ru_sport_end s) (issue s))) (\<lambda>r.
     chain (lift_result r) (\<lambda>pe. on_report (\<lambda>r. r\<lparr>rp_sport := Some pe\<rparr>)))"

definition unverified_stop :: "bool \<times> string \<times> stop_metrics option" where
  "unverified_stop = (False, ''post-stop verification was not attempted'', None)"

definition stop_and_verify :: "probe_setup \<Rightarrow> ((bool \<times> string) \<times> bool \<times> string \<times> stop_metrics option) prog" where
  "stop_and_verify c =
     chain (zero_and_disarm c) (\<lambda>disarm.
     chain (fetch ru_accepted) (\<lambda>accepted.
     chain (if accepted \<and> fst disarm
            then attempt (verify_post_stop c) (\<lambda>e. return (False, ''post-stop verification raised '' @ message_of e, None))
            else return unverified_stop) (\<lambda>post.
     chain (pair_evidence_step c (\<lambda>s. pn_sport_issue (ru_node s))) (\<lambda>_. return (disarm, post)))))"

definition shut_down :: "probe_setup \<Rightarrow> ((bool \<times> string) \<times> bool \<times> string \<times> stop_metrics option) prog" where
  "shut_down c =
     chain (fetch ru_created) (\<lambda>created.
     chain (if created then ask (io_ok (ps_io c)) else return False) (\<lambda>live.
     if live then
       chain (fetch ru_sport_end) (\<lambda>e. chain (if e = None then note_sport_end else return ()) (\<lambda>_. stop_and_verify c))
     else
       chain (pair_evidence_step c (\<lambda>_. ''SportModeState evidence node unavailable'')) (\<lambda>_.
       return ((False, ''disarm was not attempted''), unverified_stop))))"

definition settle :: "bool \<Rightarrow> bool \<times> string \<Rightarrow> bool \<times> string \<times> stop_metrics option \<Rightarrow> probe_report \<Rightarrow> probe_report" where
  "settle finished disarm post r =
     (let r = r\<lparr>rp_disarm := disarm, rp_post_stop := post\<rparr> in
      if finished \<and> fst disarm \<and> fst post then r\<lparr>rp_pass := True\<rparr>
      else if rp_failure r = None \<and> \<not> fst disarm then r\<lparr>rp_failure := Some ''explicit adapter disarm was not acknowledged''\<rparr>
      else if rp_failure r = None \<and> \<not> fst post then r\<lparr>rp_failure := Some (fst (snd post))\<rparr>
      else r)"

definition close_report :: "probe_setup \<Rightarrow> bool \<Rightarrow> (bool \<times> string) \<times> bool \<times> string \<times> stop_metrics option \<Rightarrow> int prog" where
  "close_report c finished r =
     chain (on_report (settle finished (fst r) (snd r))) (\<lambda>_.
     chain (ask (io_write (ps_io c))) (\<lambda>written.
     fetch (\<lambda>s. if rp_pass (ru_report s) \<and> written then 0 else 1)))"

definition run_ros :: "probe_setup \<Rightarrow> int prog" where
  "run_ros c = chain (guarded_body c) (\<lambda>finished. chain (shut_down c) (close_report c finished))"

section \<open>\<open>main\<close>\<close>

record probe_process =
  pp_arguments :: nat
  pp_environ :: "string \<rightharpoonup> string"
  pp_files :: "string \<Rightarrow> baseline_file"
  pp_now :: int

definition probe_environment_of :: "probe_profile \<Rightarrow> (string \<rightharpoonup> string) \<Rightarrow> probe_exc + int list \<times> int list" where
  "probe_environment_of p = (if pp_second p then second_environment else first_environment)"

definition probe_main ::
  "probe_process \<Rightarrow> probe_profile \<Rightarrow> probe_math \<Rightarrow> probe_io \<Rightarrow> nat \<Rightarrow> (halt + int) \<times> probe_run" where
  "probe_main proc p lm io fuel =
     (if pp_arguments proc \<noteq> 1 then (Inr 2, run_start)
      else case obind (probe_environment_of p (pp_environ proc)) (\<lambda>(modes, markers).
             obind (load_sport_request_baseline (pp_files proc) (pp_now proc) (pp_environ proc)) (\<lambda>gids. Inr (modes, markers, gids))) of
          Inl (CommissioningError _) \<Rightarrow> (Inr 2, run_start)
        | Inl e \<Rightarrow> (Inl (Raised e), run_start)
        | Inr (modes, markers, gids) \<Rightarrow>
            run_ros \<lparr>ps_profile = p, ps_modes = modes, ps_markers = markers, ps_baseline = gids, ps_math = lm,
                     ps_io = io, ps_fuel = fuel\<rparr> run_start)"

end
