(* ===== verification/ProbeLogic.thy ===== *)
theory ProbeLogic imports ProbeRun begin

text \<open>
  How the programs of the motion probe are reasoned about. \<open>adds A m\<close>: whatever \<open>m\<close> answers, it only
  appends acts allowed by \<open>A\<close>. \<open>keeps f m\<close>: it leaves the part \<open>f\<close> of the state alone. \<open>preserves I m\<close>: it
  keeps an invariant. All three are instances of one relation between the states before and after,
  with one rule per program constructor. \<open>triple\<close> is the Hoare triple of a program that may raise.
\<close>

named_theorems adds_rules
named_theorems keeps_rules
named_theorems preserves_rules

section \<open>Results of programs\<close>

lemma chain_Inr_iff: "chain m f s = (Inr b, t) \<longleftrightarrow> (\<exists>a u. m s = (Inr a, u) \<and> f a u = (Inr b, t))"
  by (auto simp: chain_def split: prod.splits sum.splits)

lemma return_Inr_iff: "return a s = (Inr b, t) \<longleftrightarrow> a = b \<and> s = t"
  by (auto simp: return_def)

lemma raising_Inr_iff: "raising e s \<noteq> (Inr b, t)"
  by (simp add: raising_def)

lemma fetch_Inr_iff: "fetch f s = (Inr b, t) \<longleftrightarrow> f s = b \<and> s = t"
  by (auto simp: fetch_def)

lemma change_Inr_iff: "change f s = (Inr b, t) \<longleftrightarrow> f s = t"
  by (auto simp: change_def)

lemma require_that_Inr_iff: "require_that ok msg s = (Inr b, t) \<longleftrightarrow> ok \<and> s = t"
  by (auto simp: require_that_def return_def raising_def)

lemma lift_result_Inr_iff: "lift_result r s = (Inr b, t) \<longleftrightarrow> r = Inr b \<and> s = t"
  by (auto simp: lift_result_def return_def raising_def split: sum.splits)

lemma ask_Inr_iff: "ask f s = (Inr b, t) \<longleftrightarrow> f (ru_calls s) = b \<and> s\<lparr>ru_calls := ru_calls s + 1\<rparr> = t"
  by (auto simp: ask_def)

lemma chain_return: "chain (return a) g s = g a s"
  by (simp add: chain_def return_def)

lemma chain_fetch: "chain (fetch f) g s = g (f s) s"
  by (simp add: chain_def fetch_def)

lemma chain_change: "chain (change h) g s = g () (h s)"
  by (simp add: chain_def change_def)

lemma chain_ask: "chain (ask k) g s = g (k (ru_calls s)) (s\<lparr>ru_calls := ru_calls s + 1\<rparr>)"
  by (simp add: chain_def ask_def)

lemma chain_raising: "chain (raising e) g s = (Inl (Raised e), s)"
  by (simp add: chain_def raising_def)

lemmas chain_steps = chain_return chain_fetch chain_change chain_ask chain_raising

lemmas answers = chain_Inr_iff return_Inr_iff raising_Inr_iff fetch_Inr_iff change_Inr_iff require_that_Inr_iff
  lift_result_Inr_iff ask_Inr_iff

section \<open>What a run of a program does to the state\<close>

text \<open>
  \<open>within R m\<close>: whatever \<open>m\<close> answers, its final state is related to the initial one. For a preorder
  there is one rule per program constructor; the instances below are collected for \<open>intro\<close>.
\<close>

definition within_rel :: "(probe_run \<Rightarrow> probe_run \<Rightarrow> bool) \<Rightarrow> 'a prog \<Rightarrow> bool" where
  "within_rel R m \<longleftrightarrow> (\<forall>s. R s (snd (m s)))"

definition preorder_rel :: "(probe_run \<Rightarrow> probe_run \<Rightarrow> bool) \<Rightarrow> bool" where
  "preorder_rel R \<longleftrightarrow> (\<forall>s. R s s) \<and> (\<forall>s t u. R s t \<longrightarrow> R t u \<longrightarrow> R s u)"

lemma within_basic:
  assumes "preorder_rel R"
  shows "within_rel R (return a)" "within_rel R (raising e)" "within_rel R (fetch g)" "within_rel R (require_that ok msg)"
    "within_rel R (lift_result r)"
  using assms
  by (auto simp: within_rel_def preorder_rel_def return_def raising_def fetch_def require_that_def lift_result_def split: sum.splits)

lemma within_chain:
  assumes "preorder_rel R" "within_rel R m" "\<And>a. within_rel R (f a)"
  shows "within_rel R (chain m f)"
  unfolding within_rel_def
proof
  fix s
  obtain r t where m: "m s = (r, t)" by fastforce
  have first: "R s t" using assms(2) m unfolding within_rel_def by (metis snd_conv)
  show "R s (snd (chain m f s))"
  proof (cases r)
    case (Inl e)
    then show ?thesis using first by (simp add: chain_def m)
  next
    case (Inr a)
    have "R t (snd (f a t))" using assms(3) by (simp add: within_rel_def)
    then show ?thesis using first assms(1) Inr unfolding preorder_rel_def by (auto simp: chain_def m)
  qed
qed

lemma within_attempt:
  assumes "preorder_rel R" "within_rel R m" "\<And>e. within_rel R (h e)"
  shows "within_rel R (attempt m h)"
  unfolding within_rel_def
proof
  fix s
  obtain r t where m: "m s = (r, t)" by fastforce
  have first: "R s t" using assms(2) m unfolding within_rel_def by (metis snd_conv)
  show "R s (snd (attempt m h s))"
  proof (cases "\<exists>e. r = Inl (Raised e)")
    case True
    then obtain e where r: "r = Inl (Raised e)" by blast
    have "R t (snd (h e t))" using assms(3) by (simp add: within_rel_def)
    then show ?thesis using first assms(1) r unfolding preorder_rel_def by (auto simp: attempt_def m)
  next
    case False
    then show ?thesis using first by (auto simp: attempt_def m split: sum.splits halt.splits)
  qed
qed

lemma within_repeating:
  assumes "preorder_rel R" "\<And>b. within_rel R (body b)"
  shows "within_rel R (repeating n body b)"
proof (induction n arbitrary: b)
  case 0
  show ?case using assms(1) by (simp add: within_rel_def preorder_rel_def)
next
  case (Suc n)
  have "within_rel R (case r of Inl b' \<Rightarrow> repeating n body b' | Inr c \<Rightarrow> return c)" for r
    using Suc within_basic(1) [OF assms(1)] by (cases r) simp_all
  then show ?case unfolding repeating.simps by (rule within_chain [OF assms])
qed

lemma within_branches:
  "(b \<Longrightarrow> within_rel R m) \<Longrightarrow> (\<not> b \<Longrightarrow> within_rel R m') \<Longrightarrow> within_rel R (if b then m else m')"
  "(b \<Longrightarrow> within_rel R m) \<Longrightarrow> (\<not> b \<Longrightarrow> within_rel R m') \<Longrightarrow> within_rel R (case b of True \<Rightarrow> m | False \<Rightarrow> m')"
  by (cases b; simp)+

lemma within_case_option:
  "(x = None \<Longrightarrow> within_rel R m) \<Longrightarrow> (\<And>a. x = Some a \<Longrightarrow> within_rel R (g a)) \<Longrightarrow> within_rel R (case x of None \<Rightarrow> m | Some a \<Rightarrow> g a)"
  by (cases x) simp_all

lemma within_case_sum:
  "(\<And>e. x = Inl e \<Longrightarrow> within_rel R (g e)) \<Longrightarrow> (\<And>a. x = Inr a \<Longrightarrow> within_rel R (h a)) \<Longrightarrow> within_rel R (case x of Inl e \<Rightarrow> g e | Inr a \<Rightarrow> h a)"
  by (cases x) simp_all

lemma within_case_prod: "(\<And>a b. x = (a, b) \<Longrightarrow> within_rel R (g a b)) \<Longrightarrow> within_rel R (case x of (a, b) \<Rightarrow> g a b)"
  by (cases x) simp

lemma within_Let: "(\<And>x. within_rel R (g x)) \<Longrightarrow> within_rel R (Let v g)"
  by (simp add: Let_def)

lemmas within_cases = within_branches within_case_option within_case_sum within_case_prod within_Let

subsection \<open>Acts a program may append\<close>

definition appends :: "(probe_act \<Rightarrow> bool) \<Rightarrow> probe_run \<Rightarrow> probe_run \<Rightarrow> bool" where
  "appends A s t \<longleftrightarrow> (\<exists>new. ru_acts t = new @ ru_acts s \<and> list_all A new)"

definition adds :: "(probe_act \<Rightarrow> bool) \<Rightarrow> 'a prog \<Rightarrow> bool" where
  "adds A m \<longleftrightarrow> within_rel (appends A) m"

lemma appends_preorder: "preorder_rel (appends A)"
proof -
  have "appends A s u" if steps: "appends A s t" "appends A t u" for s t u
  proof -
    obtain n1 n2 where "ru_acts t = n1 @ ru_acts s" "ru_acts u = n2 @ ru_acts t" "list_all A n1" "list_all A n2"
      using steps unfolding appends_def by blast
    then show ?thesis unfolding appends_def by (intro exI [of _ "n2 @ n1"]) simp
  qed
  then show ?thesis by (auto simp: preorder_rel_def appends_def)
qed

lemmas [adds_rules] = within_basic [OF appends_preorder, folded adds_def] within_chain [OF appends_preorder, folded adds_def]
  within_attempt [OF appends_preorder, folded adds_def] within_repeating [OF appends_preorder, folded adds_def]
  within_cases [where R = "appends A" for A, folded adds_def]

lemma addsI: "(\<And>s. \<exists>new. ru_acts (snd (m s)) = new @ ru_acts s \<and> list_all A new) \<Longrightarrow> adds A m"
  by (simp add: adds_def within_rel_def appends_def)

lemma addsE: "adds A m \<Longrightarrow> (\<And>new. ru_acts (snd (m s)) = new @ ru_acts s \<Longrightarrow> list_all A new \<Longrightarrow> P) \<Longrightarrow> P"
  by (auto simp: adds_def within_rel_def appends_def)

lemma adds_silent: "(\<And>s. ru_acts (snd (m s)) = ru_acts s) \<Longrightarrow> adds A m"
  by (rule addsI) simp

lemma adds_mono: "adds A m \<Longrightarrow> (\<And>a. A a \<Longrightarrow> B a) \<Longrightarrow> adds B m"
  unfolding adds_def within_rel_def appends_def by (metis list_all_iff)

lemma adds_state [adds_rules]: "adds A (ask g)" "adds A (on_node h)" "adds A (on_report k)"
  by (auto intro!: adds_silent simp: ask_def on_node_def on_report_def change_def)

lemma adds_act: "A a \<Longrightarrow> adds A (act a)"
  by (auto intro!: addsI simp: act_def change_def)

lemma adds_change [adds_rules]: "(\<And>s. ru_acts (f s) = ru_acts s) \<Longrightarrow> adds A (change f)"
  by (rule adds_silent) (simp add: change_def)

subsection \<open>Parts of the state a program leaves alone\<close>

definition keeps :: "(probe_run \<Rightarrow> 'b) \<Rightarrow> 'a prog \<Rightarrow> bool" where
  "keeps f m \<longleftrightarrow> within_rel (\<lambda>s t. f t = f s) m"

lemma same_preorder: "preorder_rel (\<lambda>s t. f t = f s)"
  by (simp add: preorder_rel_def)

lemmas [keeps_rules] = within_basic [OF same_preorder, folded keeps_def] within_chain [OF same_preorder, folded keeps_def]
  within_attempt [OF same_preorder, folded keeps_def] within_repeating [OF same_preorder, folded keeps_def]
  within_cases [where R = "\<lambda>s t. f t = f s" for f, folded keeps_def]

lemma keepsD: "keeps f m \<Longrightarrow> m s = (r, t) \<Longrightarrow> f t = f s"
  unfolding keeps_def within_rel_def by (drule spec [of _ s]) simp

lemma keeps_ask [keeps_rules]: "(\<And>s n. f (s\<lparr>ru_calls := n\<rparr>) = f s) \<Longrightarrow> keeps f (ask g)"
  by (simp add: keeps_def within_rel_def ask_def)

lemma keeps_change [keeps_rules]: "(\<And>s. f (g s) = f s) \<Longrightarrow> keeps f (change g)"
  by (simp add: keeps_def within_rel_def change_def)

lemma keeps_on_node [keeps_rules]: "(\<And>s n. f (s\<lparr>ru_node := n\<rparr>) = f s) \<Longrightarrow> keeps f (on_node g)"
  unfolding on_node_def by (rule keeps_change) simp

lemma keeps_on_report [keeps_rules]: "(\<And>s. f (s\<lparr>ru_report := g (ru_report s)\<rparr>) = f s) \<Longrightarrow> keeps f (on_report g)"
  unfolding on_report_def by (rule keeps_change) simp

lemma keeps_act [keeps_rules]: "(\<And>s a. f (s\<lparr>ru_acts := a\<rparr>) = f s) \<Longrightarrow> keeps f (act b)"
  unfolding act_def by (rule keeps_change) simp

subsection \<open>Invariants every step preserves\<close>

definition preserves :: "(probe_run \<Rightarrow> bool) \<Rightarrow> 'a prog \<Rightarrow> bool" where
  "preserves I m \<longleftrightarrow> within_rel (\<lambda>s t. I s \<longrightarrow> I t) m"

lemma leads_preorder: "preorder_rel (\<lambda>s t. I s \<longrightarrow> I t)"
  by (simp add: preorder_rel_def)

lemmas [preserves_rules] = within_basic [OF leads_preorder, folded preserves_def] within_chain [OF leads_preorder, folded preserves_def]
  within_attempt [OF leads_preorder, folded preserves_def] within_repeating [OF leads_preorder, folded preserves_def]
  within_cases [where R = "\<lambda>s t. I s \<longrightarrow> I t" for I, folded preserves_def]

lemma preservesI: "(\<And>s. I s \<Longrightarrow> I (snd (m s))) \<Longrightarrow> preserves I m"
  by (simp add: preserves_def within_rel_def)

lemma preservesD: "preserves I m \<Longrightarrow> m s = (r, t) \<Longrightarrow> I s \<Longrightarrow> I t"
  unfolding preserves_def within_rel_def by (drule spec [of _ s]) simp

lemma keeps_preserves: "keeps f m \<Longrightarrow> (\<And>s t. f t = f s \<Longrightarrow> I s \<Longrightarrow> I t) \<Longrightarrow> preserves I m"
  by (auto simp: keeps_def preserves_def within_rel_def)

section \<open>Triples\<close>

definition triple :: "(probe_run \<Rightarrow> bool) \<Rightarrow> 'a prog \<Rightarrow> ('a \<Rightarrow> probe_run \<Rightarrow> bool) \<Rightarrow> (probe_run \<Rightarrow> bool) \<Rightarrow> bool" where
  "triple P m Q E \<longleftrightarrow> (\<forall>s. P s \<longrightarrow> (case m s of (Inr a, t) \<Rightarrow> Q a t | (Inl e, t) \<Rightarrow> E t))"

lemma triple_chain: "triple P m R E \<Longrightarrow> (\<And>a. triple (R a) (f a) Q E) \<Longrightarrow> triple P (chain m f) Q E"
  by (fastforce simp: triple_def chain_def split: prod.splits sum.splits)

lemma triple_repeating:
  assumes "\<And>b. triple (I b) (body b) (\<lambda>r. case r of Inl b' \<Rightarrow> I b' | Inr c \<Rightarrow> Q c) E" "\<And>b s. I b s \<Longrightarrow> E s"
  shows "triple (I b) (repeating n body b) Q E"
proof (induction n arbitrary: b)
  case 0
  show ?case using assms(2) by (simp add: triple_def)
next
  case (Suc n)
  show ?case unfolding repeating.simps
  proof (rule triple_chain [OF assms(1)])
    fix r
    show "triple (case r of Inl b' \<Rightarrow> I b' | Inr c \<Rightarrow> Q c) (case r of Inl b' \<Rightarrow> repeating n body b' | Inr c \<Rightarrow> return c) Q E"
      by (cases r) (simp_all add: Suc, simp add: triple_def return_def)
  qed
qed

lemma triple_conseq:
  "triple P m Q E \<Longrightarrow> (\<And>s. P' s \<Longrightarrow> P s) \<Longrightarrow> (\<And>a t. Q a t \<Longrightarrow> Q' a t) \<Longrightarrow> (\<And>t. E t \<Longrightarrow> E' t) \<Longrightarrow> triple P' m Q' E'"
  by (fastforce simp: triple_def split: prod.splits sum.splits)

lemma triple_snd: "triple P m (\<lambda>_. Q) Q \<Longrightarrow> P s \<Longrightarrow> Q (snd (m s))"
  by (cases "m s"; cases "fst (m s)") (auto simp: triple_def)

lemma repeating_result:
  assumes "\<And>b s b' t. I b s \<Longrightarrow> body b s = (Inr (Inl b'), t) \<Longrightarrow> I b' t"
    and "\<And>b s c t. I b s \<Longrightarrow> body b s = (Inr (Inr c), t) \<Longrightarrow> Q c t"
    and "I b s" and "repeating n body b s = (Inr c, t)"
  shows "Q c t"
  using assms(3,4)
proof (induction n arbitrary: b s)
  case 0
  then show ?case by simp
next
  case (Suc n)
  from Suc.prems(2) obtain r u where r: "body b s = (Inr r, u)"
    and k: "(case r of Inl b' \<Rightarrow> repeating n body b' | Inr c \<Rightarrow> return c) u = (Inr c, t)" by (auto simp: chain_Inr_iff)
  show ?case
  proof (cases r)
    case (Inl b')
    show ?thesis using Suc.IH [OF assms(1) [OF Suc.prems(1) r [unfolded Inl]]] k Inl by simp
  next
    case (Inr d)
    then show ?thesis using assms(2) [OF Suc.prems(1) r [unfolded Inr]] k by (simp add: return_Inr_iff)
  qed
qed

end
