(* ===== verification/ProbeInvariant.thy ===== *)
theory ProbeInvariant imports ProbeLogic begin

text \<open>
  What one run of the probe publishes and requests, over every behaviour of the outside world: the
  motion loop publishes the profile's speed only after its guards, everything else publishes zero, and
  nothing moves before the arm request or after the disarm request.
\<close>

section \<open>Stepwise acts\<close>

definition quiet_act :: "probe_act \<Rightarrow> bool" where
  "quiet_act a \<longleftrightarrow> (case a of Published k v n \<Rightarrow> v = Fin 0 | ArmRequested b \<Rightarrow> True)"

definition zero_act :: "probe_act \<Rightarrow> bool" where
  "zero_act a \<longleftrightarrow> (case a of Published k v n \<Rightarrow> v = Fin 0 | ArmRequested b \<Rightarrow> False)"

definition requests :: "bool \<Rightarrow> probe_act \<Rightarrow> bool" where
  "requests b a \<longleftrightarrow> (case a of Published k v n \<Rightarrow> False | ArmRequested b' \<Rightarrow> b' = b)"

text \<open>
  The guards of the motion loop, at its publication number \<open>k\<close>: the clock readings \<open>k - 2\<close> and \<open>k - 1\<close>
  are those of the health check and of the motion decision.
\<close>

definition motion_permitted :: "probe_setup \<Rightarrow> (xy \<times> pyfloat \<times> pyfloat) option \<Rightarrow> nat \<Rightarrow> probe_node \<Rightarrow> bool" where
  "motion_permitted c start k n \<longleftrightarrow>
     (case (start, odom_pose n) of (Some (start_xy, _, start_s), Some (current_xy, _)) \<Rightarrow>
        pn_armed n \<and> health_issue armed_in_motion (io_clock (ps_io c) (k - 2)) n = []
        \<and> \<not> fle (PROBE_STOP_DISTANCE_M (ps_profile c)) (displacement (ps_math c) start_xy current_xy)
        \<and> fle (Fin 0) (fsub (io_clock (ps_io c) (k - 1)) start_s)
        \<and> \<not> fle (PROBE_STOP_DURATION_S (ps_profile c)) (fsub (io_clock (ps_io c) (k - 1)) start_s)
      | _ \<Rightarrow> False)"

definition act_ok :: "probe_setup \<Rightarrow> (xy \<times> pyfloat \<times> pyfloat) option \<Rightarrow> probe_act \<Rightarrow> bool" where
  "act_ok c start a \<longleftrightarrow> (case a of
     Published k v n \<Rightarrow> v = Fin 0 \<or> v = SPEED_MPS (ps_profile c) \<and> motion_permitted c start k n
   | ArmRequested b \<Rightarrow> True)"

text \<open>Newest act first: motion only after the arm request and before a disarm request, which is the last request.\<close>

fun bracketed :: "probe_act list \<Rightarrow> bool" where
  "bracketed [] \<longleftrightarrow> True"
| "bracketed (a # acts) \<longleftrightarrow>
     (quiet_act a \<or> list_ex (requests True) acts \<and> \<not> list_ex (requests False) acts)
     \<and> (requests True a \<longrightarrow> \<not> list_ex (requests True) acts \<and> \<not> list_ex (requests False) acts)
     \<and> bracketed acts"

lemma zero_act_facts: "zero_act a \<Longrightarrow> quiet_act a" "zero_act a \<Longrightarrow> \<not> requests b a" "quiet_act a \<Longrightarrow> act_ok c start a"
  by (auto simp: zero_act_def quiet_act_def requests_def act_ok_def split: probe_act.splits)

lemma list_ex_none: "list_all P xs \<Longrightarrow> (\<And>x. P x \<Longrightarrow> \<not> Q x) \<Longrightarrow> \<not> list_ex Q xs"
  by (induction xs) auto

lemma list_all_weaken: "list_all P xs \<Longrightarrow> (\<And>x. P x \<Longrightarrow> Q x) \<Longrightarrow> list_all Q xs"
  by (induction xs) auto

lemma bracketed_append_quiet:
  "bracketed acts \<Longrightarrow> list_all (\<lambda>a. quiet_act a \<and> \<not> requests True a) new \<Longrightarrow> bracketed (new @ acts)"
  by (induction new) auto

section \<open>The node's methods only publish zero\<close>

lemma adds_clock [adds_rules]: "adds A (clock c)"
  unfolding clock_def by (rule adds_state)

lemma publish_velocity_acts:
  "ru_acts (snd (publish_velocity c v s)) = ru_acts s
   \<or> ru_acts (snd (publish_velocity c v s)) = Published (ru_calls s) v (ru_node s) # ru_acts s"
  by (auto simp: publish_velocity_def chain_def require_that_def return_def raising_def fetch_def ask_def act_def change_def
      split: option.splits)

lemma adds_publish_zero [adds_rules]: "adds zero_act (publish_velocity c (Fin 0))"
proof (rule addsI)
  fix s
  show "\<exists>new. ru_acts (snd (publish_velocity c (Fin 0) s)) = new @ ru_acts s \<and> list_all zero_act new"
    using publish_velocity_acts [of c "Fin 0" s]
    by (elim disjE) (auto simp: zero_act_def)
qed

lemma adds_spin_once [adds_rules]: "adds A (spin_once c)"
  unfolding spin_once_def run_callback_def
  by (intro adds_rules) (auto split: spin_event.splits intro!: adds_rules)

lemma adds_checks [adds_rules]:
  "adds A (check_graph c)" "adds A (check_health c ex)" "adds A (check_gate c ex)" "adds A reset_runtime_graph_check"
  "adds A (runtime_issue c ex force)" "adds A (require_runtime c ex force)" "adds A (refuse_stop c msg)" "adds A (require_pose msg)"
  unfolding require_runtime_def runtime_issue_def check_gate_def check_health_def check_graph_def reset_runtime_graph_check_def
    refuse_stop_def require_pose_def by (intro adds_rules)+

lemma adds_idle [adds_rules]: "adds zero_act (idle c)"
  unfolding idle_def by (intro adds_rules)

lemma adds_await_reply [adds_rules]: "adds zero_act (await_reply c deadline)"
  unfolding await_reply_def by (intro adds_rules)

lemma adds_hold_zero [adds_rules]: "adds zero_act (hold_zero c deadline)"
  unfolding hold_zero_def by (intro adds_rules)

lemma adds_observe_stop [adds_rules]: "adds zero_act (observe_stop c start_xy deadline mx)"
  unfolding observe_stop_def by (intro adds_rules)

lemma adds_verify_post_stop [adds_rules]: "adds zero_act (verify_post_stop c)"
  unfolding verify_post_stop_def by (intro adds_rules)

lemma adds_acquire [adds_rules]: "adds zero_act (acquire c deadline)"
  unfolding acquire_def by (intro adds_rules)

lemma adds_bind_command_graph [adds_rules]: "adds zero_act (bind_command_graph c)"
  unfolding bind_command_graph_def by (intro adds_rules)

lemma adds_zero_preamble [adds_rules]: "adds zero_act (zero_preamble c)"
  unfolding zero_preamble_def by (intro adds_rules)

lemma adds_await_armed [adds_rules]: "adds zero_act (await_armed c)"
  unfolding await_armed_def by (intro adds_rules)

lemma adds_zero_weaken: "adds zero_act m \<Longrightarrow> adds (\<lambda>a. zero_act a \<or> a = ArmRequested b) m"
  by (erule adds_mono) auto

lemma adds_call_arm: "adds (\<lambda>a. zero_act a \<or> a = ArmRequested b) (call_arm c b)"
  unfolding call_arm_def
  by (intro adds_rules adds_act adds_zero_weaken) auto

lemma adds_shut_down: "adds (\<lambda>a. zero_act a \<or> a = ArmRequested False) (shut_down c)"
  unfolding shut_down_def stop_and_verify_def zero_and_disarm_def pair_evidence_step_def note_sport_end_def
  by (intro adds_rules adds_zero_weaken adds_call_arm) (auto split: option.splits)

section \<open>The motion loop\<close>

lemma check_health_result:
  "check_health c ex s = (Inr issue, t) \<Longrightarrow> ru_calls t = ru_calls s + 1 \<and> issue = health_issue ex (io_clock (ps_io c) (ru_calls t - 1)) (ru_node t)"
  by (auto simp: check_health_def clock_def answers)

lemma check_gate_result:
  "check_gate c ex s = (Inr [], t) \<Longrightarrow> 1 \<le> ru_calls t \<and> health_issue ex (io_clock (ps_io c) (ru_calls t - 1)) (ru_node t) = []"
  by (auto simp: check_gate_def answers split: if_splits dest: check_health_result)

lemma require_runtime_result:
  "require_runtime c ex force s = (Inr u, t) \<Longrightarrow> 1 \<le> ru_calls t \<and> health_issue ex (io_clock (ps_io c) (ru_calls t - 1)) (ru_node t) = []"
  by (auto simp: require_runtime_def runtime_issue_def clock_def answers split: if_splits
      dest!: check_gate_result check_health_result)

lemma motion_decision_continue:
  "motion_decision p lm start now a b = Inr d \<Longrightarrow> md_continue d \<Longrightarrow>
     \<not> fle (PROBE_STOP_DISTANCE_M p) (displacement lm a b)
     \<and> fle (Fin 0) (fsub now start) \<and> \<not> fle (PROBE_STOP_DURATION_S p) (fsub now start)"
  by (auto simp: motion_decision_def Let_def isfinite_iff fsub_def split: if_splits intro!: not_fless)

lemma drive_check_result:
  assumes "drive_check c start_xy start_s s = (Inr d, t)" "md_continue d"
  shows "motion_permitted c (Some (start_xy, yaw, start_s)) (ru_calls t) (ru_node t)"
proof -
  obtain u where health: "require_runtime c armed_in_motion False (snd (refuse_stop c ''operator interrupt during motion'' s)) = (Inr (), u)"
    and rest: "chain (fetch ru_node) (\<lambda>n.
     chain (require_that (pn_armed n) ''SDK daemon disarmed during motion'') (\<lambda>_.
     chain (require_pose ''odometry disappeared during motion'') (\<lambda>pose.
     chain (clock c) (\<lambda>now.
     lift_result (motion_decision (ps_profile c) (ps_math c) start_s now start_xy (fst pose)))))) u = (Inr d, t)"
    using assms(1) unfolding drive_check_def chain_Inr_iff by (metis old.unit.exhaust snd_conv)
  note h = require_runtime_result [OF health]
  obtain xy a where pose: "pn_armed (ru_node u)" "odom_pose (ru_node u) = Some (xy, a)"
    and t: "t = u\<lparr>ru_calls := ru_calls u + 1\<rparr>"
    and d: "motion_decision (ps_profile c) (ps_math c) start_s (io_clock (ps_io c) (ru_calls u)) start_xy xy = Inr d"
    using rest by (auto simp: answers require_pose_def clock_def split: option.splits)
  show ?thesis using h pose motion_decision_continue [OF d assms(2)] by (simp add: t motion_permitted_def)
qed

section \<open>The invariant of the body\<close>

definition idle_so_far :: "probe_run \<Rightarrow> bool" where
  "idle_so_far s \<longleftrightarrow> list_all zero_act (ru_acts s)"

definition armed_at_zero :: "probe_run \<Rightarrow> bool" where
  "armed_at_zero s \<longleftrightarrow> list_all quiet_act (ru_acts s) \<and> bracketed (ru_acts s)
     \<and> list_ex (requests True) (ru_acts s) \<and> \<not> list_ex (requests False) (ru_acts s)"

definition acts_ok :: "probe_setup \<Rightarrow> probe_run \<Rightarrow> bool" where
  "acts_ok c s \<longleftrightarrow> list_all (act_ok c (ru_start s)) (ru_acts s) \<and> bracketed (ru_acts s)"

definition body_ok :: "probe_setup \<Rightarrow> probe_run \<Rightarrow> bool" where
  "body_ok c s \<longleftrightarrow> acts_ok c s \<and> \<not> list_ex (requests False) (ru_acts s)"

definition in_motion :: "probe_setup \<Rightarrow> (xy \<times> pyfloat \<times> pyfloat) \<Rightarrow> probe_run \<Rightarrow> bool" where
  "in_motion c start s \<longleftrightarrow> body_ok c s \<and> ru_start s = Some start \<and> list_ex (requests True) (ru_acts s)"

definition survives_zero :: "(probe_run \<Rightarrow> bool) \<Rightarrow> bool" where
  "survives_zero P \<longleftrightarrow> (\<forall>s t new. P s \<longrightarrow> ru_acts t = new @ ru_acts s \<longrightarrow> list_all zero_act new \<longrightarrow> ru_start t = ru_start s \<longrightarrow> P t)"

lemma zero_bracketed: "bracketed acts \<Longrightarrow> list_all zero_act new \<Longrightarrow> bracketed (new @ acts)"
  by (erule bracketed_append_quiet) (auto elim!: list_all_weaken dest: zero_act_facts)

lemma survives [simp]:
  "survives_zero idle_so_far" "survives_zero armed_at_zero" "survives_zero (acts_ok c)" "survives_zero (body_ok c)"
  "survives_zero (in_motion c start)"
  by (auto simp: survives_zero_def idle_so_far_def armed_at_zero_def acts_ok_def body_ok_def in_motion_def zero_bracketed
      elim!: list_all_weaken dest: zero_act_facts list_ex_none [of zero_act])

lemma idle_body: "idle_so_far s \<Longrightarrow> body_ok c s"
  using zero_bracketed [of "[]" "ru_acts s"]
  by (auto simp: idle_so_far_def body_ok_def acts_ok_def elim!: list_all_weaken
      dest: zero_act_facts list_ex_none [of zero_act])

lemma armed_body: "armed_at_zero s \<Longrightarrow> body_ok c s"
  by (auto simp: armed_at_zero_def body_ok_def acts_ok_def elim!: list_all_weaken dest: zero_act_facts)

lemma motion_body: "in_motion c start s \<Longrightarrow> body_ok c s"
  by (simp add: in_motion_def)

lemma triple_zero:
  assumes "survives_zero P" "adds zero_act m" "keeps ru_start m"
  shows "triple P m (\<lambda>_. P) P"
proof -
  have "P (snd (m s))" if "P s" for s
    by (rule addsE [OF assms(2), of s]) (use assms(1,3) that in \<open>auto simp: survives_zero_def keeps_def within_rel_def\<close>)
  then show ?thesis by (auto simp: triple_def split: prod.splits sum.splits) (metis snd_conv)+
qed

lemma triple_weak:
  "triple P m (\<lambda>_. P) P \<Longrightarrow> (\<And>s. P s \<Longrightarrow> E s) \<Longrightarrow> triple P m (\<lambda>_. P) E"
  by (rule triple_conseq)

lemma triple_demand: "(\<And>s. P s \<Longrightarrow> E s) \<Longrightarrow> triple P (require_that ok msg) (\<lambda>_ s. ok \<and> P s) E"
  by (auto simp: triple_def require_that_def return_def raising_def)

text \<open>The parts of the state that the node's methods and the waiting loops leave alone.\<close>

definition unaffected :: "(probe_run \<Rightarrow> 'b) \<Rightarrow> bool" where
  "unaffected f \<longleftrightarrow> (\<forall>s n. f (s\<lparr>ru_node := n\<rparr>) = f s) \<and> (\<forall>s k. f (s\<lparr>ru_calls := k\<rparr>) = f s)
     \<and> (\<forall>s a. f (s\<lparr>ru_acts := a\<rparr>) = f s) \<and> (\<forall>s e. f (s\<lparr>ru_sport_end := e\<rparr>) = f s)"

lemma steady_parts [simp]:
  "unaffected ru_start" "unaffected ru_created" "unaffected (\<lambda>s. rp_motion (ru_report s))" "unaffected (\<lambda>s. rp_failure (ru_report s))"
  "unaffected (\<lambda>s. rp_pass (ru_report s))"
  by (simp_all add: unaffected_def)

lemma keeps_methods [keeps_rules]:
  assumes "unaffected f"
  shows "keeps f (clock c)" "keeps f (publish_velocity c v)" "keeps f (spin_once c)" "keeps f (check_graph c)"
    "keeps f (check_health c ex)" "keeps f reset_runtime_graph_check" "keeps f (refuse_stop c msg)"
    "keeps f (require_pose msg)" "keeps f note_sport_end"
  using assms unfolding unaffected_def clock_def publish_velocity_def spin_once_def run_callback_def check_graph_def check_health_def
    reset_runtime_graph_check_def refuse_stop_def require_pose_def note_sport_end_def
  by ((intro keeps_rules; (auto split: spin_event.splits option.splits intro!: keeps_rules)?)+)

lemma keeps_parts [keeps_rules]:
  assumes "unaffected f"
  shows "keeps f (idle c)" "keeps f (check_gate c ex)" "keeps f (runtime_issue c ex force)"
  using assms unfolding idle_def check_gate_def runtime_issue_def check_gate_def
  by ((intro keeps_rules; simp add: unaffected_def)+)

lemma keeps_loops [keeps_rules]:
  assumes "unaffected f"
  shows "keeps f (require_runtime c ex force)" "keeps f (await_reply c d)" "keeps f (hold_zero c d)"
    "keeps f (observe_stop c xy d mx)" "keeps f (acquire c d)"
  using assms unfolding require_runtime_def await_reply_def hold_zero_def observe_stop_def acquire_def
  by ((intro keeps_rules; simp add: unaffected_def)+)

lemma keeps_phases [keeps_rules]:
  assumes "unaffected f"
  shows "keeps f (call_arm c arm)" "keeps f (verify_post_stop c)" "keeps f (zero_preamble c)" "keeps f (await_armed c)"
    "keeps f (drive_check c xy t)" "keeps f (zero_and_disarm c)"
  using assms unfolding call_arm_def verify_post_stop_def zero_preamble_def await_armed_def drive_check_def zero_and_disarm_def
  by ((intro keeps_rules; simp add: unaffected_def)+)

lemma keeps_drive [keeps_rules]: "unaffected f \<Longrightarrow> keeps f (drive c xy t)"
  unfolding drive_def by ((intro keeps_rules; simp?)+)

lemma keeps_bind_command_graph [keeps_rules]:
  "unaffected f \<Longrightarrow> (\<And>s g. f (s\<lparr>ru_report := ru_report s\<lparr>rp_ownership := True, rp_gid := g\<rparr>\<rparr>) = f s) \<Longrightarrow> keeps f (bind_command_graph c)"
  unfolding bind_command_graph_def by ((intro keeps_rules; simp add: unaffected_def)+)

lemma keeps_shut_down [keeps_rules]:
  "unaffected f \<Longrightarrow> (\<And>s e. f (s\<lparr>ru_report := ru_report s\<lparr>rp_sport := e\<rparr>\<rparr>) = f s) \<Longrightarrow> keeps f (shut_down c)"
  unfolding shut_down_def stop_and_verify_def pair_evidence_step_def by ((intro keeps_rules; simp add: unaffected_def)+)

section \<open>The body and the whole run\<close>

lemma triple_start:
  assumes "\<And>s. P s \<Longrightarrow> Q (f s)"
  shows "triple P (change f) (\<lambda>_. Q) E"
  using assms by (simp add: triple_def change_def)

lemma triple_if: "triple P m Q E \<Longrightarrow> triple P m' Q E \<Longrightarrow> triple P (if b then m else m') Q E"
  by simp

lemma triple_pre: "triple P m Q E \<Longrightarrow> (\<And>s. P' s \<Longrightarrow> P s) \<Longrightarrow> triple P' m Q E"
  by (rule triple_conseq)

lemma triple_result:
  assumes "triple P m Q E" "\<And>s a t. P s \<Longrightarrow> m s = (Inr a, t) \<Longrightarrow> R a t"
  shows "triple P m (\<lambda>a t. Q a t \<and> R a t) E"
  unfolding triple_def
proof (intro allI impI)
  fix s
  assume "P s"
  then show "case m s of (Inl e, t) \<Rightarrow> E t | (Inr a, t) \<Rightarrow> Q a t \<and> R a t"
    using assms(1) assms(2) [of s] unfolding triple_def by (cases "m s"; cases "fst (m s)") auto
qed

lemma idle_step: "adds zero_act m \<Longrightarrow> keeps ru_start m \<Longrightarrow> triple idle_so_far m (\<lambda>_. idle_so_far) (body_ok c)"
  by (rule triple_weak [OF triple_zero]) (simp_all add: idle_body)

lemma armed_step: "adds zero_act m \<Longrightarrow> keeps ru_start m \<Longrightarrow> triple armed_at_zero m (\<lambda>_. armed_at_zero) (body_ok c)"
  by (rule triple_weak [OF triple_zero]) (simp_all add: armed_body)

lemma motion_step: "adds zero_act m \<Longrightarrow> keeps ru_start m \<Longrightarrow> triple (in_motion c start) m (\<lambda>_. in_motion c start) (body_ok c)"
  by (rule triple_weak [OF triple_zero]) (simp_all add: motion_body)

lemma call_arm_triple:
  "triple idle_so_far (call_arm c True) (\<lambda>r s. body_ok c s \<and> (fst r \<longrightarrow> armed_at_zero s)) (body_ok c)"
proof -
  have ready: "triple idle_so_far (ask (io_service (ps_io c))) (\<lambda>_. idle_so_far) (body_ok c)"
    by (rule idle_step) (intro adds_rules, intro keeps_rules, simp)
  have ask: "triple idle_so_far (act (ArmRequested True)) (\<lambda>_. armed_at_zero) (body_ok c)"
    using zero_bracketed [of "[]"]
    by (auto simp: triple_def act_def change_def idle_so_far_def armed_at_zero_def quiet_act_def requests_def
        elim!: list_all_weaken dest: zero_act_facts list_ex_none [of zero_act] intro!: list_ex_none [of zero_act])
  have wait: "triple armed_at_zero (chain (clock c) (\<lambda>now. chain (await_reply c (fadd now (Fin (3 / 2)))) (\<lambda>reply. return (f reply))))
      (\<lambda>_. armed_at_zero) (body_ok c)" for f :: "arm_reply \<Rightarrow> bool \<times> string"
    by (rule armed_step) (intro adds_rules, (intro keeps_rules; simp?)+)
  show ?thesis unfolding call_arm_def
    apply (rule triple_chain [OF ready])
    subgoal for r
      apply (cases r)
       apply (simp add: triple_def raising_def idle_body)
      apply (simp split: bool.splits)
      apply (intro conjI impI)
       apply (rule triple_chain [OF ask])
       apply (rule triple_conseq [OF wait]; simp add: armed_body)
      apply (simp add: triple_def return_def idle_body)
      done
    done
qed

lemma drive_triple: "triple (in_motion c (xy, yaw, t)) (drive c xy t) (\<lambda>_. in_motion c (xy, yaw, t)) (body_ok c)"
  unfolding drive_def
proof (rule triple_repeating [where I = "\<lambda>_. in_motion c (xy, yaw, t)"])
  fix b :: unit
  let ?I = "in_motion c (xy, yaw, t)"
  have check: "triple ?I (drive_check c xy t)
      (\<lambda>d s. ?I s \<and> (md_continue d \<longrightarrow> motion_permitted c (Some (xy, yaw, t)) (ru_calls s) (ru_node s))) (body_ok c)"
  proof -
    have "triple ?I (drive_check c xy t) (\<lambda>_. ?I) (body_ok c)"
      by (rule motion_step) (auto simp: drive_check_def intro!: adds_rules keeps_rules)
    then show ?thesis by (rule triple_result) (simp add: drive_check_result)
  qed
  have publish: "triple (\<lambda>s. ?I s \<and> motion_permitted c (Some (xy, yaw, t)) (ru_calls s) (ru_node s))
      (publish_velocity c (SPEED_MPS (ps_profile c))) (\<lambda>_. ?I) (body_ok c)"
  proof -
    have "?I (snd (publish_velocity c v s))"
      if "?I s" "motion_permitted c (Some (xy, yaw, t)) (ru_calls s) (ru_node s)" "v = SPEED_MPS (ps_profile c)" for v s
      using that publish_velocity_acts [of c v s] keeps_methods(2) [of ru_start c v]
      by (auto simp: in_motion_def body_ok_def acts_ok_def keeps_def within_rel_def act_ok_def requests_def)
    then show ?thesis by (auto simp: triple_def split: prod.splits sum.splits) (metis motion_body snd_conv)+
  qed
  have spin: "triple ?I (spin_once c) (\<lambda>_. ?I) (body_ok c)"
    by (rule motion_step) (intro adds_rules, (intro keeps_rules; simp))
  show "triple ?I (chain (drive_check c xy t) (\<lambda>d. if \<not> md_continue d then return (Inr d) else
     chain (publish_velocity c (SPEED_MPS (ps_profile c))) (\<lambda>_. chain (spin_once c) (\<lambda>_. return (Inl ())))))
     (\<lambda>r. case r of Inl _ \<Rightarrow> ?I | Inr _ \<Rightarrow> ?I) (body_ok c)"
    apply (rule triple_chain [OF check])
    subgoal for d
      apply (cases "md_continue d")
       apply simp
       apply (rule triple_chain [OF publish])
       apply (rule triple_chain [OF spin])
       apply (simp_all add: triple_def return_def)
      done
    done
qed (rule motion_body)

lemma move_triple: "triple armed_at_zero (move c) (\<lambda>_. body_ok c) (body_ok c)"
proof -
  have tail: "triple (in_motion c start) (chain (publish_velocity c (Fin 0)) f) (\<lambda>_. body_ok c) (body_ok c)"
    if "\<And>a. adds zero_act (f a)" "\<And>a. keeps ru_start (f a)" for start and f :: "unit \<Rightarrow> unit prog"
    by (rule triple_conseq [OF motion_step]) (intro adds_rules that, (intro keeps_rules that; simp)+, auto simp: motion_body)
  have launch: "triple armed_at_zero (change (\<lambda>s. s\<lparr>ru_start := Some v\<rparr>)) (\<lambda>_. in_motion c v) (body_ok c)" for v
    by (rule triple_start) (auto simp: armed_at_zero_def in_motion_def body_ok_def acts_ok_def elim!: list_all_weaken dest: zero_act_facts)
  show ?thesis unfolding move_def
    apply (rule triple_chain [OF armed_step])
      apply (intro adds_rules)
     apply (intro keeps_rules; simp)
    apply (rule triple_chain [OF armed_step])
      apply (intro adds_rules; simp)
     apply (intro keeps_rules; simp)
    apply (rule triple_chain [OF armed_step])
      apply (intro adds_rules)
     apply (intro keeps_rules; simp)
    subgoal for start _ t0
      apply (rule triple_chain [OF launch])
      apply (rule triple_chain [OF drive_triple [where yaw = "snd start"], simplified])
      apply (rule tail)
       apply (auto simp: note_sport_end_def split: option.splits intro!: adds_rules keeps_rules)
      done
    done
qed

lemma body_triple: "triple idle_so_far (probe_body c) (\<lambda>_. body_ok c) (body_ok c)"
proof -
  have arm: "triple (\<lambda>s. body_ok c s \<and> (fst r \<longrightarrow> armed_at_zero s))
      (chain (on_report f) (\<lambda>_. chain (require_that (fst r) msg) (\<lambda>_.
       chain (change (\<lambda>s. s\<lparr>ru_accepted := True\<rparr>)) (\<lambda>_. chain (await_armed c) (\<lambda>_. move c))))) (\<lambda>_. body_ok c) (body_ok c)"
    for r :: "bool \<times> string" and f msg
  proof (rule triple_chain [where R = "\<lambda>_ s. body_ok c s \<and> (fst r \<longrightarrow> armed_at_zero s)"])
    show "triple (\<lambda>s. body_ok c s \<and> (fst r \<longrightarrow> armed_at_zero s)) (on_report f) (\<lambda>_ s. body_ok c s \<and> (fst r \<longrightarrow> armed_at_zero s)) (body_ok c)"
      unfolding on_report_def by (rule triple_start) (auto simp: body_ok_def acts_ok_def armed_at_zero_def)
    have mark: "triple armed_at_zero (change (\<lambda>s. s\<lparr>ru_accepted := True\<rparr>)) (\<lambda>_. armed_at_zero) (body_ok c)"
      by (rule triple_start) (auto simp: armed_at_zero_def)
    have rest: "triple armed_at_zero (chain (change (\<lambda>s. s\<lparr>ru_accepted := True\<rparr>)) (\<lambda>_. chain (await_armed c) (\<lambda>_. move c)))
        (\<lambda>_. body_ok c) (body_ok c)"
      by (rule triple_chain [OF mark], rule triple_chain [OF armed_step move_triple]) (intro adds_rules, (intro keeps_rules; simp))
    show "triple (\<lambda>s. body_ok c s \<and> (fst r \<longrightarrow> armed_at_zero s)) (chain (require_that (fst r) msg) (\<lambda>_.
        chain (change (\<lambda>s. s\<lparr>ru_accepted := True\<rparr>)) (\<lambda>_. chain (await_armed c) (\<lambda>_. move c)))) (\<lambda>_. body_ok c) (body_ok c)" for a :: unit
      by (rule triple_chain [OF triple_demand], simp, rule triple_pre [OF rest], simp)
  qed
  have create: "triple idle_so_far (ask (io_create (ps_io c))) (\<lambda>_. idle_so_far) (body_ok c)"
    by (rule idle_step) (intro adds_rules, (intro keeps_rules; simp))
  have created: "triple idle_so_far (case failed of Some e \<Rightarrow> raising (OtherError e) | None \<Rightarrow> change (\<lambda>s. s\<lparr>ru_created := True\<rparr>))
      (\<lambda>_. idle_so_far) (body_ok c)" for failed
    by (rule idle_step) (intro adds_rules, simp, intro keeps_rules, simp)
  show ?thesis unfolding probe_body_def
    by (rule triple_chain [OF create], rule triple_chain [OF created], rule triple_chain [OF idle_step],
        intro adds_rules, (intro keeps_rules; simp)+, rule triple_chain [OF idle_step], intro adds_rules, (intro keeps_rules; simp)+,
        rule triple_chain [OF call_arm_triple], rule arm)
qed

lemma guarded_body_ok: "body_ok c (snd (guarded_body c run_start))"
proof -
  have start: "idle_so_far run_start" by (simp add: idle_so_far_def run_start_def)
  obtain r t where run: "probe_body c run_start = (r, t)" by fastforce
  have t: "body_ok c t" using triple_snd [OF body_triple start, of c] by (simp add: run)
  show ?thesis
  proof (cases r)
    case (Inl h)
    then show ?thesis using t
      by (cases h) (auto simp: guarded_body_def attempt_def chain_def fetch_def on_report_def change_def return_def run body_ok_def acts_ok_def)
  next
    case (Inr u)
    then show ?thesis using t by (simp add: guarded_body_def attempt_def chain_def return_def run)
  qed
qed

lemma closing_acts:
  assumes "body_ok c s" "ru_acts t = new @ ru_acts s" "list_all (\<lambda>a. zero_act a \<or> a = ArmRequested False) new" "ru_start t = ru_start s"
  shows "acts_ok c t"
proof -
  have new: "list_all (\<lambda>a. quiet_act a \<and> \<not> requests True a) new"
    using assms(3) by (rule list_all_weaken) (auto simp: zero_act_facts, auto simp: quiet_act_def requests_def)
  then have "list_all (act_ok c (ru_start s)) new" by (rule list_all_weaken) (simp add: zero_act_facts)
  then show ?thesis using assms bracketed_append_quiet [OF _ new] by (simp add: acts_ok_def body_ok_def)
qed

lemma close_report_silent: "adds A (close_report c f r)" "keeps ru_start (close_report c f r)"
  unfolding close_report_def by (intro adds_rules, (intro keeps_rules; simp)+)

lemma run_acts_ok: "acts_ok c (snd (run_ros c run_start))"
proof -
  let ?s = "snd (guarded_body c run_start)"
  show ?thesis
  proof (cases "fst (guarded_body c run_start)")
    case (Inl e)
    then show ?thesis using guarded_body_ok [of c]
      by (cases "guarded_body c run_start") (simp add: run_ros_def chain_def body_ok_def)
  next
    case (Inr finished)
    let ?m = "chain (shut_down c) (close_report c finished)"
    have run: "run_ros c run_start = ?m ?s" using Inr by (cases "guarded_body c run_start") (simp add: run_ros_def chain_def)
    have adds: "adds (\<lambda>a. zero_act a \<or> a = ArmRequested False) ?m" by (intro adds_rules adds_shut_down close_report_silent)
    have keeps: "keeps ru_start ?m" by ((intro keeps_rules close_report_silent; simp)+)
    show ?thesis unfolding run
      by (rule addsE [OF adds, of ?s], rule closing_acts [OF guarded_body_ok]) (use keeps in \<open>auto simp: keeps_def within_rel_def\<close>)
  qed
qed

end
