(* ===== verification/ProbeOutcome.thy ===== *)
theory ProbeOutcome imports ProbeInvariant begin

text \<open>
  How a run of the probe ends: the disarm request that closes it when the world is up, and what an exit
  code of zero vouches for.
\<close>

section \<open>The closing disarm\<close>

definition world_up :: "probe_setup \<Rightarrow> bool" where
  "world_up c \<longleftrightarrow> (\<forall>k. io_ok (ps_io c) k \<and> io_publish (ps_io c) k = None \<and> io_service (ps_io c) k = Inr True
     \<and> io_create (ps_io c) k = None) \<and> fle (Fin 0) (SPEED_MPS (ps_profile c))"

lemma publish_zero_up:
  "world_up c \<Longrightarrow> publish_velocity c (Fin 0) s =
     (Inr (), s\<lparr>ru_calls := ru_calls s + 1, ru_acts := Published (ru_calls s) (Fin 0) (ru_node s) # ru_acts s\<rparr>)"
  by (simp add: publish_velocity_def world_up_def chain_def require_that_def return_def fetch_def ask_def act_def change_def)

lemma chain_adds_snd:
  assumes "\<And>a. adds A (f a)"
  shows "\<exists>new. ru_acts (snd (chain m f s)) = new @ ru_acts (snd (m s)) \<and> list_all A new"
proof (cases "m s")
  case (Pair r t)
  show ?thesis
  proof (cases r)
    case (Inl e)
    then show ?thesis by (simp add: chain_def Pair)
  next
    case (Inr a)
    then show ?thesis using addsE [OF assms, of a t] by (simp add: chain_def Pair) metis
  qed
qed

text \<open>A program that starts with an act and then only publishes zero.\<close>

lemma acts_after:
  assumes "adds zero_act m" "ru_acts u = a # ru_acts s"
  shows "\<exists>later. ru_acts (snd (m u)) = later @ a # ru_acts s \<and> list_all zero_act later"
  using assms by (metis addsE)

lemma attempt_return_snd: "snd (attempt m (\<lambda>e. return (f e)) s) = snd (m s)"
  by (auto simp: attempt_def return_def split: prod.splits sum.splits halt.splits)

lemma call_arm_up:
  assumes "world_up c"
  shows "\<exists>later. ru_acts (snd (call_arm c b s)) = later @ ArmRequested b # ru_acts s \<and> list_all zero_act later"
proof -
  let ?f = "\<lambda>reply. case reply of NotDone \<Rightarrow> (False, ''arm service response timed out'')
           | ReplyRaised e \<Rightarrow> (False, ''arm service failed: '' @ e)
           | NoReply \<Rightarrow> (False, ''arm service returned no response'')
           | Answered ok msg \<Rightarrow> (ok, msg)"
  let ?m = "chain (clock c) (\<lambda>now. chain (await_reply c (fadd now (Fin (3 / 2)))) (\<lambda>reply. return (?f reply)))"
  let ?u = "s\<lparr>ru_calls := ru_calls s + 1, ru_acts := ArmRequested b # ru_acts s\<rparr>"
  have "call_arm c b s = ?m ?u"
    using assms unfolding call_arm_def by (simp add: chain_def ask_def world_up_def act_def change_def)
  moreover have "adds zero_act ?m" by (intro adds_rules)
  ultimately show ?thesis using acts_after [of ?m ?u "ArmRequested b" s] by simp
qed

lemma zero_and_disarm_up:
  assumes "world_up c"
  shows "\<exists>later k n. ru_acts (snd (zero_and_disarm c s)) = later @ ArmRequested False # Published k (Fin 0) n # ru_acts s
           \<and> list_all zero_act later"
proof -
  let ?u = "s\<lparr>ru_calls := ru_calls s + 1, ru_acts := Published (ru_calls s) (Fin 0) (ru_node s) # ru_acts s\<rparr>"
  let ?call = "attempt (call_arm c False) (\<lambda>e. return (False, ''disarm service path raised '' @ message_of e))"
  let ?hold = "\<lambda>result. chain (clock c) (\<lambda>now. chain (hold_zero c (fadd now STOP_ZERO_HOLD_S)) (\<lambda>_. return result))"
  have step: "zero_and_disarm c s = chain ?call ?hold ?u"
    using assms by (simp add: zero_and_disarm_def chain_def attempt_def publish_zero_up)
  obtain l1 where l1: "ru_acts (snd (?call ?u)) = l1 @ ArmRequested False # ru_acts ?u" "list_all zero_act l1"
    unfolding attempt_return_snd using call_arm_up [OF assms, of False ?u] by blast
  have "\<exists>l2. ru_acts (snd (chain ?call ?hold ?u)) = l2 @ ru_acts (snd (?call ?u)) \<and> list_all zero_act l2"
    by (rule chain_adds_snd) (intro adds_rules)
  then obtain l2 where "ru_acts (snd (zero_and_disarm c s)) = l2 @ ru_acts (snd (?call ?u))" "list_all zero_act l2"
    unfolding step by blast
  then have "ru_acts (snd (zero_and_disarm c s))
      = (l2 @ l1) @ ArmRequested False # Published (ru_calls s) (Fin 0) (ru_node s) # ru_acts s \<and> list_all zero_act (l2 @ l1)"
    using l1 by simp
  then show ?thesis by blast
qed

lemma keeps_move: "unaffected f \<Longrightarrow> (\<And>s x. f (s\<lparr>ru_sport_start := x\<rparr>) = f s) \<Longrightarrow> (\<And>s x. f (s\<lparr>ru_start := x\<rparr>) = f s)
    \<Longrightarrow> (\<And>s x. f (s\<lparr>ru_report := ru_report s\<lparr>rp_motion := x\<rparr>\<rparr>) = f s) \<Longrightarrow> keeps f (move c)"
  unfolding move_def by ((intro keeps_rules; simp add: unaffected_def)+)

lemma created_up:
  assumes "world_up c"
  shows "ru_created (snd (guarded_body c run_start))"
proof -
  have created: "ru_created (snd (probe_body c run_start))"
  proof -
    have "keeps ru_created (chain (bind_command_graph c) (\<lambda>_. chain (zero_preamble c) (\<lambda>_. chain (call_arm c True) (\<lambda>armed.
     chain (on_report (\<lambda>r. r\<lparr>rp_arm_message := Some (snd armed)\<rparr>)) (\<lambda>_.
     chain (require_that (fst armed) (''adapter rejected arm: '' @ snd armed)) (\<lambda>_.
     chain (change (\<lambda>s. s\<lparr>ru_accepted := True\<rparr>)) (\<lambda>_. chain (await_armed c) (\<lambda>_. move c))))))))"
      by ((intro keeps_rules keeps_move; simp)+)
    then show ?thesis using assms unfolding probe_body_def
      by (simp add: chain_def [of "ask f" for f] chain_def [of "change f" for f] ask_def change_def world_up_def keeps_def within_rel_def)
  qed
  then show ?thesis
    by (auto simp: guarded_body_def attempt_def chain_def fetch_def on_report_def change_def return_def
        split: prod.splits sum.splits halt.splits)
qed

text \<open>What follows the disarm request publishes zero only.\<close>

lemma shut_down_up:
  assumes "world_up c" "ru_created s"
  shows "\<exists>later k n. ru_acts (snd (shut_down c s)) = later @ ArmRequested False # Published k (Fin 0) n # ru_acts s
           \<and> list_all zero_act later"
proof -
  let ?post = "\<lambda>disarm. chain (fetch ru_accepted) (\<lambda>accepted.
     chain (if accepted \<and> fst disarm
            then attempt (verify_post_stop c) (\<lambda>e. return (False, ''post-stop verification raised '' @ message_of e, None))
            else return unverified_stop) (\<lambda>post.
     chain (pair_evidence_step c (\<lambda>s. pn_sport_issue (ru_node s))) (\<lambda>_. return (disarm, post))))"
  let ?v = "s\<lparr>ru_calls := ru_calls s + 1\<rparr>"
  let ?u = "if ru_sport_end s = None then snd (note_sport_end ?v) else ?v"
  have ok: "io_ok (ps_io c) k" for k using assms(1) by (simp add: world_up_def)
  have "shut_down c s = stop_and_verify c ?u"
    by (simp add: shut_down_def chain_steps note_sport_end_def change_def assms(2) ok)
  moreover have "ru_acts ?u = ru_acts s" by (simp add: note_sport_end_def change_def split: option.splits)
  ultimately obtain u where u: "ru_acts u = ru_acts s" "shut_down c s = stop_and_verify c u" by blast
  have "\<exists>l2. ru_acts (snd (chain (zero_and_disarm c) ?post u)) = l2 @ ru_acts (snd (zero_and_disarm c u)) \<and> list_all zero_act l2"
    unfolding pair_evidence_step_def by (rule chain_adds_snd) (intro adds_rules)
  moreover obtain l1 k n where "ru_acts (snd (zero_and_disarm c u)) = l1 @ ArmRequested False # Published k (Fin 0) n # ru_acts s"
    "list_all zero_act l1" using zero_and_disarm_up [OF assms(1), of u] u(1) by auto
  ultimately obtain l2 where "ru_acts (snd (shut_down c s)) = (l2 @ l1) @ ArmRequested False # Published k (Fin 0) n # ru_acts s
      \<and> list_all zero_act (l2 @ l1)" unfolding u(2) stop_and_verify_def by auto
  then show ?thesis by blast
qed

lemma run_disarms:
  assumes "world_up c" "fst (run_ros c run_start) \<noteq> Inl OutOfFuel"
  shows "\<exists>later k n earlier. ru_acts (snd (run_ros c run_start)) = later @ ArmRequested False # Published k (Fin 0) n # earlier
           \<and> list_all zero_act later \<and> \<not> list_ex (requests False) earlier"
proof -
  obtain r s where g: "guarded_body c run_start = (r, s)" by fastforce
  obtain finished where r: "r = Inr finished"
  proof (cases r)
    case (Inl h)
    have "h = OutOfFuel"
      using g Inl by (auto simp: guarded_body_def attempt_def chain_def fetch_def on_report_def change_def return_def
          split: prod.splits sum.splits halt.splits)
    then show ?thesis using assms(2) g Inl by (simp add: run_ros_def chain_def)
  qed (use that in blast)
  have no: "\<not> list_ex (requests False) (ru_acts s)" and created: "ru_created s"
    using guarded_body_ok [of c] created_up [OF assms(1)] by (simp_all add: g body_ok_def)
  have run: "run_ros c run_start = chain (shut_down c) (close_report c finished) s" by (simp add: run_ros_def chain_def g r)
  have "ru_acts (snd (chain (shut_down c) (close_report c finished) s)) = ru_acts (snd (shut_down c s))"
    by (auto simp: chain_def close_report_def on_report_def change_def ask_def fetch_def split: prod.splits sum.splits)
  then show ?thesis using shut_down_up [OF assms(1) created] no unfolding run by auto
qed

section \<open>An exit code of zero\<close>

definition stood_still :: "stop_metrics \<Rightarrow> bool" where
  "stood_still mx \<longleftrightarrow> \<not> fless PROBE_POST_STOP_MAX_DRIFT_M (st_drift mx)
     \<and> \<not> fless PROBE_POST_STOP_MAX_LINEAR_MPS (st_linear mx) \<and> \<not> fless PROBE_POST_STOP_MAX_YAW_RPS (st_yaw mx)"

definition stop_verified :: "bool \<times> string \<times> stop_metrics option \<Rightarrow> bool" where
  "stop_verified post \<longleftrightarrow> (case snd (snd post) of None \<Rightarrow> False | Some mx \<Rightarrow>
     fst post \<and> stood_still mx \<and> (case st_samples mx of None \<Rightarrow> False | Some k \<Rightarrow> PROBE_POST_STOP_MIN_ODOM_SAMPLES \<le> k))"

lemma fle_not_fless: "fle a b \<Longrightarrow> \<not> fless b a"
  by (cases a; cases b) (auto simp: fle_def)

lemma post_stop_stationary:
  "post_stop_decision lm a b v r = Inr d \<Longrightarrow> pd_stationary d \<Longrightarrow>
     \<not> fless PROBE_POST_STOP_MAX_DRIFT_M (pd_drift d) \<and> \<not> fless PROBE_POST_STOP_MAX_LINEAR_MPS (pd_linear d)
     \<and> \<not> fless PROBE_POST_STOP_MAX_YAW_RPS (pd_yaw_rate d)"
  by (auto simp: post_stop_decision_def Let_def split: if_splits)

lemma observe_stop_result:
  assumes "stood_still mx" "observe_stop c xy dl mx s = (Inr r, t)"
  shows "case r of Inl mx' \<Rightarrow> stood_still mx' | Inr (Inl _) \<Rightarrow> True | Inr (Inr mx') \<Rightarrow> stood_still mx'"
proof -
  have step: "stood_still (mx\<lparr>st_drift := fmax (st_drift mx) (pd_drift d), st_linear := fmax (st_linear mx) (pd_linear d),
      st_yaw := fmax (st_yaw mx) (pd_yaw_rate d)\<rparr>)"
    if "post_stop_decision (ps_math c) xy p v w = Inr d" "pd_stationary d" for p v w d
    using post_stop_stationary [OF that] assms(1) by (simp add: stood_still_def fmax_def)
  from assms(2) show ?thesis
    by (auto simp: observe_stop_def answers Let_def assms(1) step split: if_splits option.splits)
qed

lemma verify_post_stop_result:
  assumes "verify_post_stop c s = (Inr post, t)" "fst post"
  shows "stop_verified post"
proof -
  have loop: "case r of Inl _ \<Rightarrow> True | Inr mx \<Rightarrow> stood_still mx"
    if "repeating n (observe_stop c xy dl) \<lparr>st_drift = Fin 0, st_linear = Fin 0, st_yaw = Fin 0, st_samples = None\<rparr> u = (Inr r, w)"
    for n xy dl u r w
  proof (rule repeating_result [where I = "\<lambda>mx _. stood_still mx" and Q = "\<lambda>r _. case r of Inl _ \<Rightarrow> True | Inr mx \<Rightarrow> stood_still mx",
        OF _ _ _ that])
    show "stood_still \<lparr>st_drift = Fin 0, st_linear = Fin 0, st_yaw = Fin 0, st_samples = None\<rparr>"
      by (simp add: stood_still_def PROBE_POST_STOP_MAX_DRIFT_M_def PROBE_POST_STOP_MAX_LINEAR_MPS_def PROBE_POST_STOP_MAX_YAW_RPS_def
          fle_not_fless fl_mono [of 0, simplified])
  qed (drule (1) observe_stop_result; simp)+
  obtain xy rest where readings: "odom_readings (ru_node s) = Some (xy, rest)"
    using assms by (auto simp: verify_post_stop_def answers split: option.splits)
  obtain n dl u r w where run: "repeating n (observe_stop c xy dl) \<lparr>st_drift = Fin 0, st_linear = Fin 0, st_yaw = Fin 0, st_samples = None\<rparr> u = (Inr r, w)"
    and tail: "(case r of Inl (reason, metrics) \<Rightarrow> return (False, reason, metrics)
           | Inr mx \<Rightarrow> chain (fetch ru_node) (\<lambda>n'.
               let samples = pn_odom_count n' - pn_odom_count (ru_node s); metrics = Some (mx\<lparr>st_samples := Some samples\<rparr>) in
               return (if samples < PROBE_POST_STOP_MIN_ODOM_SAMPLES
                       then (False, ''too few fresh post-stop odometry samples'', metrics)
                       else (True, ''continuous stationary observation passed'', metrics)))) w = (Inr post, t)"
    using assms(1) unfolding verify_post_stop_def chain_fetch readings option.case prod.case chain_Inr_iff by blast
  show ?thesis
  proof (cases r)
    case (Inl x)
    then show ?thesis using tail assms(2) by (auto simp: return_Inr_iff split: prod.splits)
  next
    case (Inr mx)
    then show ?thesis using tail assms(2) loop [OF run]
      by (auto simp: chain_fetch Let_def return_Inr_iff stop_verified_def stood_still_def split: if_splits)
  qed
qed

definition accepted_motion :: "probe_setup \<Rightarrow> probe_run \<Rightarrow> bool" where
  "accepted_motion c s \<longleftrightarrow> (case rp_motion (ru_report s) of None \<Rightarrow> False | Some (verdict, measured, moved) \<Rightarrow>
     moved \<and> \<not> md_continue verdict \<and> require_measured_displacement (ps_profile c) measured = Inr ())"

lemma drive_result: "drive c xy t s = (Inr d, u) \<Longrightarrow> \<not> md_continue d"
  unfolding drive_def
  by (rule repeating_result [where I = "\<lambda>_ _. True" and Q = "\<lambda>d _. \<not> md_continue d"]) (auto simp: answers split: if_splits)

lemma move_result:
  assumes "move c s = (Inr (), t)"
  shows "accepted_motion c t"
proof -
  have "\<exists>verdict measured moved. \<not> md_continue verdict \<and> moved \<and> require_measured_displacement (ps_profile c) measured = Inr ()
      \<and> rp_motion (ru_report t) = Some (verdict, measured, moved)"
    using assms unfolding move_def
    by (fastforce simp: answers on_report_def dest!: drive_result)
  then show ?thesis by (auto simp: accepted_motion_def)
qed

lemma guarded_body_result:
  assumes "guarded_body c run_start = (Inr True, t)"
  shows "accepted_motion c t" "rp_failure (ru_report t) = None"
proof -
  have body: "probe_body c run_start = (Inr (), t)"
    using assms by (auto simp: guarded_body_def attempt_def chain_def fetch_def on_report_def change_def return_def
        split: prod.splits sum.splits halt.splits)
  then obtain s where "move c s = (Inr (), t)" unfolding probe_body_def chain_Inr_iff by blast
  then show "accepted_motion c t" by (rule move_result)
  have failure: "keeps (\<lambda>s. rp_failure (ru_report s)) (probe_body c)"
    unfolding probe_body_def by ((intro keeps_rules keeps_move; simp)+)
  then show "rp_failure (ru_report t) = None" using keepsD [OF failure body] by (simp add: run_start_def)
qed

lemma call_arm_result:
  assumes "call_arm c b s = (Inr r, t)" "fst r"
  shows "\<exists>k. io_reply (ps_io c) k = Answered True (snd r)"
proof -
  have wait: "r = NotDone \<or> (\<exists>k. io_reply (ps_io c) k = r)" if "await_reply c d u = (Inr r, w)" for d u r w
  proof -
    have loop: "repeating (ps_fuel c) (\<lambda>_. chain (ask (io_reply (ps_io c))) (\<lambda>r. if r \<noteq> NotDone then return (Inr r) else
       chain (clock c) (\<lambda>now. if \<not> fless now d then chain (ask (io_reply (ps_io c))) (\<lambda>r. return (Inr r))
         else chain (idle c) (\<lambda>_. return (Inl ()))))) () u = (Inr r, w)"
      using that by (simp add: await_reply_def chain_Inr_iff return_Inr_iff)
    show ?thesis
      by (rule repeating_result [where I = "\<lambda>_ _. True", OF _ _ TrueI loop]) (auto simp: answers clock_def split: if_splits)
  qed
  obtain ready u where ready: "(case ready of Inl e \<Rightarrow> raising (OtherError e)
     | Inr False \<Rightarrow> return (False, ''arm service is unavailable'')
     | Inr True \<Rightarrow> chain (act (ArmRequested b)) (\<lambda>_.
         chain (clock c) (\<lambda>now. chain (await_reply c (fadd now (Fin (3 / 2)))) (\<lambda>reply.
         return (case reply of NotDone \<Rightarrow> (False, ''arm service response timed out'')
           | ReplyRaised e \<Rightarrow> (False, ''arm service failed: '' @ e)
           | NoReply \<Rightarrow> (False, ''arm service returned no response'')
           | Answered ok msg \<Rightarrow> (ok, msg)))))) u = (Inr r, t)"
    using assms(1) unfolding call_arm_def chain_Inr_iff by blast
  then have "ready = Inr True" using assms(2) by (auto simp: raising_Inr_iff return_Inr_iff split: sum.splits bool.splits)
  then obtain reply d v w where "await_reply c d v = (Inr reply, w)"
    and r: "r = (case reply of NotDone \<Rightarrow> (False, ''arm service response timed out'')
           | ReplyRaised e \<Rightarrow> (False, ''arm service failed: '' @ e)
           | NoReply \<Rightarrow> (False, ''arm service returned no response'')
           | Answered ok msg \<Rightarrow> (ok, msg))"
    using ready by (simp add: chain_Inr_iff return_Inr_iff) metis
  then show ?thesis using wait assms(2) by (cases reply) fastforce+
qed

lemma shut_down_result:
  assumes "shut_down c s = (Inr (disarm, post), t)" "fst disarm" "fst post"
  shows "\<exists>k. io_reply (ps_io c) k = Answered True (snd disarm)" and "stop_verified post"
proof -
  obtain u where u: "stop_and_verify c u = (Inr (disarm, post), t)"
    using assms by (auto simp: shut_down_def answers split: if_splits)
  obtain v w where v: "zero_and_disarm c u = (Inr disarm, v)"
    and w: "(if ru_accepted v \<and> fst disarm
            then attempt (verify_post_stop c) (\<lambda>e. return (False, ''post-stop verification raised '' @ message_of e, None))
            else return unverified_stop) v = (Inr post, w)"
    using u by (auto simp: stop_and_verify_def answers)
  have "verify_post_stop c v = (Inr post, w)"
    using w assms(3) by (auto simp: unverified_stop_def attempt_def return_def split: if_splits prod.splits sum.splits halt.splits)
  then show "stop_verified post" using assms(3) by (rule verify_post_stop_result)
  obtain x y where "attempt (call_arm c False) (\<lambda>e. return (False, ''disarm service path raised '' @ message_of e)) x = (Inr disarm, y)"
    using v by (auto simp: zero_and_disarm_def chain_Inr_iff return_Inr_iff)
  then have "call_arm c False x = (Inr disarm, y)"
    using assms(2) by (auto simp: attempt_def return_def split: prod.splits sum.splits halt.splits)
  then show "\<exists>k. io_reply (ps_io c) k = Answered True (snd disarm)" using assms(2) by (rule call_arm_result)
qed

lemma run_zero:
  assumes "run_ros c run_start = (Inr 0, t)"
  shows "accepted_motion c t \<and> fst (rp_disarm (ru_report t)) \<and> stop_verified (rp_post_stop (ru_report t))
     \<and> (\<exists>k. io_reply (ps_io c) k = Answered True (snd (rp_disarm (ru_report t)))) \<and> rp_failure (ru_report t) = None"
proof -
  obtain finished s where g: "guarded_body c run_start = (Inr finished, s)"
    and r: "chain (shut_down c) (close_report c finished) s = (Inr 0, t)"
    using assms unfolding run_ros_def chain_Inr_iff by blast
  obtain disarm post u where d: "shut_down c s = (Inr (disarm, post), u)" and close: "close_report c finished (disarm, post) u = (Inr 0, t)"
    using r unfolding chain_Inr_iff by (metis surj_pair)
  have report: "ru_report t = settle finished disarm post (ru_report u)" "rp_pass (ru_report t)"
    using close by (auto simp: close_report_def on_report_def answers split: if_splits)
  have pass: "keeps (\<lambda>s. rp_pass (ru_report s)) (guarded_body c)" "keeps (\<lambda>s. rp_pass (ru_report s)) (shut_down c)"
    unfolding guarded_body_def probe_body_def by ((intro keeps_rules keeps_move; simp)+)
  have "\<not> rp_pass (ru_report u)"
    using keepsD [OF pass(1) g] keepsD [OF pass(2) d] by (simp add: run_start_def)
  then have all: "finished" "fst disarm" "fst post" using report by (auto simp: settle_def Let_def split: if_splits)
  have motion: "keeps (\<lambda>s. rp_motion (ru_report s)) (shut_down c)" "keeps (\<lambda>s. rp_failure (ru_report s)) (shut_down c)"
    by ((intro keeps_rules; simp)+)
  have "accepted_motion c s" "rp_failure (ru_report s) = None"
    using guarded_body_result [of c s] g all(1) by simp_all
  then have "accepted_motion c t" "rp_failure (ru_report t) = None"
    using keepsD [OF motion(1) d] keepsD [OF motion(2) d] all by (simp_all add: accepted_motion_def report settle_def)
  then show ?thesis using shut_down_result [OF d all(2,3)] all by (simp add: report settle_def)
qed

end
