(* ===== verification/ProbeTermination.thy ===== *)
theory ProbeTermination imports ProbeOutcome begin

text \<open>
  A run of the probe ends: every loop is bounded by a deadline on the monotonic clock, so when the
  clock advances, fuel for as many rounds as it takes to advance eight seconds is enough.
\<close>

named_theorems timely_rules

section \<open>Programs that return in time\<close>

text \<open>
  \<open>timely k T b m\<close>: started at a use number of at least \<open>k\<close>, \<open>m\<close> makes at most \<open>b\<close> uses of the
  outside world, and has enough fuel if those uses are among the first \<open>T\<close>.
\<close>

definition timely :: "nat \<Rightarrow> nat \<Rightarrow> nat \<Rightarrow> 'a prog \<Rightarrow> bool" where
  "timely k T b m \<longleftrightarrow> (\<forall>s. k \<le> ru_calls s \<longrightarrow>
     ru_calls s \<le> ru_calls (snd (m s)) \<and> ru_calls (snd (m s)) \<le> ru_calls s + b
     \<and> (ru_calls s + b \<le> T \<longrightarrow> fst (m s) \<noteq> Inl OutOfFuel))"

lemma timelyI:
  "(\<And>s r t. k \<le> ru_calls s \<Longrightarrow> m s = (r, t) \<Longrightarrow> ru_calls s \<le> ru_calls t \<and> ru_calls t \<le> ru_calls s + b
     \<and> (ru_calls s + b \<le> T \<longrightarrow> r \<noteq> Inl OutOfFuel)) \<Longrightarrow> timely k T b m"
  unfolding timely_def by (metis prod.collapse)

lemma timelyD:
  "timely k T b m \<Longrightarrow> m s = (r, t) \<Longrightarrow> k \<le> ru_calls s \<Longrightarrow> ru_calls s \<le> ru_calls t \<and> ru_calls t \<le> ru_calls s + b
     \<and> (ru_calls s + b \<le> T \<longrightarrow> r \<noteq> Inl OutOfFuel)"
  unfolding timely_def by (drule spec [of _ s]) simp

lemma timely_mono: "timely k T b m \<Longrightarrow> b \<le> b' \<Longrightarrow> timely k T b' m"
  unfolding timely_def by fastforce

lemma timely_later: "timely k T b m \<Longrightarrow> k \<le> k' \<Longrightarrow> timely k' T b m"
  unfolding timely_def by auto

lemma timely_silent [timely_rules]:
  "timely k T 0 (return a)" "timely k T 0 (raising e)" "timely k T 0 (fetch g)" "timely k T 0 (require_that ok msg)"
  "timely k T 0 (lift_result r)" "timely k T 0 (on_node h)" "timely k T 0 (on_report u)" "timely k T 0 (act x)"
  by (auto simp: timely_def return_def raising_def fetch_def require_that_def lift_result_def on_node_def on_report_def act_def change_def
      split: sum.splits)

lemma timely_change [timely_rules]: "(\<And>s. ru_calls (f s) = ru_calls s) \<Longrightarrow> timely k T 0 (change f)"
  by (simp add: timely_def change_def)

lemma timely_ask [timely_rules]: "timely k T 1 (ask f)" "timely k T 1 (clock c)"
  by (auto simp: timely_def ask_def clock_def)

lemma timely_chain [timely_rules]:
  assumes "timely k T b m" "\<And>a. timely k T d (f a)"
  shows "timely k T (b + d) (chain m f)"
proof (rule timelyI)
  fix s r t
  assume k: "k \<le> ru_calls s" and run: "chain m f s = (r, t)"
  obtain x u where m: "m s = (x, u)" by fastforce
  note first = timelyD [OF assms(1) m k]
  show "ru_calls s \<le> ru_calls t \<and> ru_calls t \<le> ru_calls s + (b + d) \<and> (ru_calls s + (b + d) \<le> T \<longrightarrow> r \<noteq> Inl OutOfFuel)"
  proof (cases x)
    case (Inl e)
    then show ?thesis using run first by (auto simp: chain_def m)
  next
    case (Inr a)
    have "f a u = (r, t)" using run Inr by (simp add: chain_def m)
    then show ?thesis using timelyD [OF assms(2), of a u r t] first k by auto
  qed
qed

text \<open>A reading of the clock is one of the readings before the rest of the program.\<close>

lemma timely_clock:
  assumes "\<And>i. k \<le> i \<Longrightarrow> timely (i + 1) T b (f (io_clock (ps_io c) i))"
  shows "timely k T (1 + b) (chain (clock c) f)"
proof (rule timelyI)
  fix s r t
  assume k: "k \<le> ru_calls s" and run: "chain (clock c) f s = (r, t)"
  have "f (io_clock (ps_io c) (ru_calls s)) (s\<lparr>ru_calls := ru_calls s + 1\<rparr>) = (r, t)"
    using run by (simp add: clock_def chain_ask)
  from timelyD [OF assms [OF k] this]
  show "ru_calls s \<le> ru_calls t \<and> ru_calls t \<le> ru_calls s + (1 + b) \<and> (ru_calls s + (1 + b) \<le> T \<longrightarrow> r \<noteq> Inl OutOfFuel)"
    by auto
qed

lemma timely_attempt [timely_rules]:
  assumes "timely k T b m" "\<And>e. timely k T d (h e)"
  shows "timely k T (b + d) (attempt m h)"
proof (rule timelyI)
  fix s r t
  assume k: "k \<le> ru_calls s" and run: "attempt m h s = (r, t)"
  obtain x u where m: "m s = (x, u)" by fastforce
  note first = timelyD [OF assms(1) m k]
  show "ru_calls s \<le> ru_calls t \<and> ru_calls t \<le> ru_calls s + (b + d) \<and> (ru_calls s + (b + d) \<le> T \<longrightarrow> r \<noteq> Inl OutOfFuel)"
  proof (cases "\<exists>e. x = Inl (Raised e)")
    case True
    then obtain e where "h e u = (r, t)" using run by (auto simp: attempt_def m)
    then show ?thesis using timelyD [OF assms(2), of e u r t] first k by auto
  next
    case False
    then have "r = x" "t = u" using run by (auto simp: attempt_def m split: sum.splits halt.splits)
    then show ?thesis using first by auto
  qed
qed

lemma timely_if [timely_rules]: "timely k T b m \<Longrightarrow> timely k T d m' \<Longrightarrow> timely k T (max b d) (if p then m else m')"
  by (cases p) (simp_all add: timely_mono)

lemma timely_case_option [timely_rules]:
  "timely k T b m \<Longrightarrow> (\<And>a. timely k T d (g a)) \<Longrightarrow> timely k T (max b d) (case x of None \<Rightarrow> m | Some a \<Rightarrow> g a)"
  by (cases x) (auto intro: timely_mono [OF _ max.cobounded1] timely_mono [OF _ max.cobounded2])

lemma timely_case_sum [timely_rules]:
  "(\<And>e. timely k T b (g e)) \<Longrightarrow> (\<And>a. timely k T d (h a)) \<Longrightarrow> timely k T (max b d) (case x of Inl e \<Rightarrow> g e | Inr a \<Rightarrow> h a)"
  by (cases x) (auto intro: timely_mono [OF _ max.cobounded1] timely_mono [OF _ max.cobounded2])

lemma timely_case_bool [timely_rules]:
  "timely k T b m \<Longrightarrow> timely k T d m' \<Longrightarrow> timely k T (max b d) (case p of True \<Rightarrow> m | False \<Rightarrow> m')"
  by (cases p) (auto intro: timely_mono [OF _ max.cobounded1] timely_mono [OF _ max.cobounded2])

lemma timely_case_prod [timely_rules]: "(\<And>a b. timely k T d (g a b)) \<Longrightarrow> timely k T d (case x of (a, b) \<Rightarrow> g a b)"
  by (cases x) simp

lemma timely_Let [timely_rules]: "(\<And>x. timely k T d (g x)) \<Longrightarrow> timely k T d (Let v g)"
  by (simp add: Let_def)

text \<open>
  A loop whose rounds use the outside world, and which leaves once the use number has reached \<open>K\<close>,
  ends within \<open>n\<close> rounds if it starts less than \<open>n\<close> uses before \<open>K\<close>.
\<close>

lemma timely_repeating:
  assumes "\<And>b. timely k T d (body b)"
    and progress: "\<And>b s r t. body b s = (Inr (Inl r), t) \<Longrightarrow> ru_calls s < ru_calls t"
    and leaves: "\<And>b s b' t. K \<le> ru_calls s \<Longrightarrow> ru_calls s + d \<le> T \<Longrightarrow> body b s \<noteq> (Inr (Inl b'), t)"
    and enough: "K < k + n" "0 < n"
  shows "timely k T (n * d) (repeating n body b)"
proof -
  have "ru_calls s \<le> ru_calls (snd (repeating n body b s)) \<and> ru_calls (snd (repeating n body b s)) \<le> ru_calls s + n * d
     \<and> (ru_calls s + n * d \<le> T \<longrightarrow> K < ru_calls s + n \<longrightarrow> 0 < n \<longrightarrow> fst (repeating n body b s) \<noteq> Inl OutOfFuel)"
    if "k \<le> ru_calls s" for s
    using that
  proof (induction n arbitrary: b s)
    case 0
    then show ?case by simp
  next
    case (Suc n)
    obtain x u where body: "body b s = (x, u)" by fastforce
    note first = timelyD [OF assms(1) body Suc.prems]
    consider (stop) e where "x = Inl e" | (again) b' where "x = Inr (Inl b')" | (leave) v where "x = Inr (Inr v)"
      by (cases x; auto; metis sum.exhaust)
    then show ?case
    proof cases
      case stop
      then show ?thesis using first by (auto simp: chain_def body)
    next
      case leave
      then show ?thesis using first by (auto simp: chain_def body return_def)
    next
      case again
      have k: "k \<le> ru_calls u" using first Suc.prems by simp
      have more: "ru_calls s < ru_calls u" by (rule progress) (use body again in simp)
      have step: "repeating (Suc n) body b s = repeating n body b' u" using again by (simp add: chain_def body)
      have early: "ru_calls s < K" if "ru_calls s + d \<le> T"
        using leaves [of s b b' u] body again that by (cases "K \<le> ru_calls s") auto
      show ?thesis using Suc.IH [OF k, of b'] first more early unfolding step by (cases n) auto
    qed
  qed
  then show ?thesis using enough unfolding timely_def by (meson le_less_trans add_le_mono1 less_le_trans)
qed

section \<open>A clock that advances\<close>

definition clock_advances :: "probe_setup \<Rightarrow> nat \<Rightarrow> nat \<Rightarrow> bool" where
  "clock_advances c N T \<longleftrightarrow> (\<forall>i k. i + N \<le> k \<longrightarrow> k \<le> T \<longrightarrow>
     isfinite (io_clock (ps_io c) i) \<and> fle (fadd (io_clock (ps_io c) i) (Fin 8)) (io_clock (ps_io c) k)
     \<and> fle (Fin 8) (fsub (io_clock (ps_io c) k) (io_clock (ps_io c) i)))"

lemma deadline_passed:
  assumes "clock_advances c N T" "i + N \<le> k" "k \<le> T" "isfinite x" "fle x (Fin 8)"
  shows "\<not> fless (io_clock (ps_io c) k) (fadd (io_clock (ps_io c) i) x)"
proof -
  have i: "isfinite (io_clock (ps_io c) i)" "fle (fadd (io_clock (ps_io c) i) (Fin 8)) (io_clock (ps_io c) k)"
    using assms(1-3) by (auto simp: clock_advances_def)
  have "fle (fadd (io_clock (ps_io c) i) x) (fadd (io_clock (ps_io c) i) (Fin 8))"
    using i(1) assms(4,5) by (auto simp: isfinite_iff intro!: fl_mono)
  then show ?thesis using i(2) fle_not_fless fle_trans by blast
qed

section \<open>The probe's programs\<close>

lemma timely_publish: "timely k T 1 (publish_velocity c v)"
  unfolding publish_velocity_def by (rule timely_mono, (rule timely_rules)+, simp)

lemma timely_spin: "timely k T 2 (spin_once c)"
proof -
  have silent: "timely k T 0 (run_callback c now e)" for now e
    unfolding run_callback_def by (cases e; simp only: spin_event.case; rule timely_mono; ((rule timely_rules)+)?; simp?)
  have "timely k T (1 + (1 + 0)) (spin_once c)" unfolding spin_once_def by (intro timely_chain timely_ask silent)
  then show ?thesis by (rule timely_mono) simp
qed

lemma timely_idle: "timely k T 3 (idle c)"
  unfolding idle_def by (rule timely_mono, rule timely_chain [OF timely_publish timely_spin], simp)

lemma timely_checks:
  "timely k T 1 (check_graph c)" "timely k T 1 (check_health c ex)" "timely k T 1 (refuse_stop c msg)"
  "timely k T 0 (require_pose msg)" "timely k T 0 reset_runtime_graph_check"
  unfolding check_health_def check_graph_def refuse_stop_def require_pose_def reset_runtime_graph_check_def
  by (rule timely_mono, (rule timely_rules)+, simp)+

lemma timely_note_sport_end: "timely k T 0 note_sport_end"
  unfolding note_sport_end_def by (rule timely_change) (simp split: option.splits)

lemma timely_check_gate: "timely k T 2 (check_gate c ex)"
  unfolding check_gate_def by (rule timely_mono, (rule timely_rules timely_checks)+, simp)

lemma timely_runtime_issue: "timely k T 3 (runtime_issue c ex force)"
  unfolding runtime_issue_def by (rule timely_mono, (rule timely_rules timely_checks timely_check_gate)+, simp)

lemma timely_require_runtime: "timely k T 3 (require_runtime c ex force)"
  unfolding require_runtime_def by (rule timely_mono, (rule timely_rules timely_runtime_issue)+, simp)

lemmas timely_steps = timely_rules timely_publish timely_spin timely_idle timely_checks timely_note_sport_end timely_check_gate
  timely_runtime_issue timely_require_runtime

section \<open>The loops\<close>

lemma chain_clock: "chain (clock c) f s = f (io_clock (ps_io c) (ru_calls s)) (s\<lparr>ru_calls := ru_calls s + 1\<rparr>)"
  by (simp add: clock_def chain_ask)

text \<open>A continued round went through all the programs of its body.\<close>

lemma timely_grows: "timely 0 0 b m \<Longrightarrow> m s = (r, t) \<Longrightarrow> ru_calls s \<le> ru_calls t"
  by (drule (1) timelyD) auto

lemma ask_chain_grows:
  assumes "chain (ask k) f s = (r, t)" "\<And>a. timely 0 0 b (f a)"
  shows "ru_calls s < ru_calls t"
  using timely_grows [OF assms(2), of "k (ru_calls s)" "s\<lparr>ru_calls := ru_calls s + 1\<rparr>" r t] assms(1)
  by (simp add: chain_ask)

definition eventually :: "probe_setup \<Rightarrow> nat \<Rightarrow> nat \<Rightarrow> bool" where
  "eventually c N T \<longleftrightarrow> clock_advances c N T \<and> N < ps_fuel c"

lemma timely_await_reply:
  assumes "eventually c N T"
  shows "timely (i + 1) T (5 * ps_fuel c) (await_reply c (fadd (io_clock (ps_io c) i) (Fin (3 / 2))))"
proof -
  let ?body = "\<lambda>_. chain (ask (io_reply (ps_io c))) (\<lambda>r. if r \<noteq> NotDone then return (Inr r) else
       chain (clock c) (\<lambda>now. if \<not> fless now (fadd (io_clock (ps_io c) i) (Fin (3 / 2)))
         then chain (ask (io_reply (ps_io c))) (\<lambda>r. return (Inr r))
         else chain (idle c) (\<lambda>_. return (Inl ()))))"
  have step: "timely k S 5 (?body b)" for k S b
    by (rule timely_mono, (rule timely_steps)+, simp)
  have loop: "timely (i + 1) T (ps_fuel c * 5) (repeating (ps_fuel c) ?body ())"
  proof (rule timely_repeating [where K = "i + N"])
    show "?body b s \<noteq> (Inr (Inl b'), t)" if "i + N \<le> ru_calls s" "ru_calls s + 5 \<le> T" for b s b' t
      using deadline_passed [of c N T i "ru_calls s + 1" "Fin (3 / 2)"] assms that
      by (auto simp: chain_ask chain_clock return_Inr_iff chain_Inr_iff eventually_def)
    show "ru_calls s < ru_calls t" if "?body b s = (Inr (Inl r), t)" for b s r t
      by (rule ask_chain_grows [OF that, of 4]) (rule timely_mono, (rule timely_steps)+, simp)
  qed (use assms step in \<open>auto simp: eventually_def\<close>)
  show ?thesis unfolding await_reply_def
    by (rule timely_mono, rule timely_chain [OF loop timely_silent(1)]) simp
qed

lemma chainE:
  assumes "chain m f s = (Inr b, t)"
  obtains a u where "m s = (Inr a, u)" "f a u = (Inr b, t)"
  using assms unfolding chain_Inr_iff by blast

lemma clock_chain_grows:
  assumes "chain (clock c) f s = (r, t)" "\<And>a. timely 0 0 b (f a)"
  shows "ru_calls s < ru_calls t"
  using ask_chain_grows [of "io_clock (ps_io c)" f s r t b] assms by (simp add: clock_def)

text \<open>A loop whose round starts with a check of its deadline, directly or after one other use.\<close>

lemma timely_deadline_loop:
  assumes "eventually c N T" "isfinite x" "fle x (Fin 8)"
    and "\<And>b k S. timely k S d (f b)"
    and "\<And>b. body b = chain (clock c) (\<lambda>now. if \<not> fless now (fadd (io_clock (ps_io c) i) x) then return (Inr (leave b)) else f b)"
  shows "timely (i + 1) T (ps_fuel c * (1 + d)) (repeating (ps_fuel c) body b)"
proof (rule timely_repeating [where K = "i + N"])
  have step: "timely k S (1 + max 0 d) (body b)" for k S b
    unfolding assms(5) by (intro timely_chain timely_ask timely_if timely_silent assms(4))
  then show "timely (i + 1) T (1 + d) (body b)" for b by simp
  show "body b s \<noteq> (Inr (Inl b'), t)" if "i + N \<le> ru_calls s" "ru_calls s + (1 + d) \<le> T" for b s b' t
    using deadline_passed [of c N T i "ru_calls s" x] assms(1-3) that
    by (auto simp: assms(5) chain_clock return_Inr_iff eventually_def)
  show "ru_calls s < ru_calls t" if "body b s = (Inr (Inl r), t)" for b s r t
    by (rule clock_chain_grows [OF that [unfolded assms(5)], of "max 0 d"]) (intro timely_if timely_silent assms(4))
qed (use assms(1) in \<open>auto simp: eventually_def\<close>)

lemma timely_live_loop:
  assumes "eventually c N T" "isfinite x" "fle x (Fin 8)"
    and "\<And>b k S. timely k S d (f b)"
    and "\<And>b. body b = chain (ask (io_ok (ps_io c))) (\<lambda>ok. if \<not> ok then return (Inr (leave b)) else
       chain (clock c) (\<lambda>now. if \<not> fless now (fadd (io_clock (ps_io c) i) x) then return (Inr (leave b)) else f b))"
  shows "timely (i + 1) T (ps_fuel c * (2 + d)) (repeating (ps_fuel c) body b)"
proof (rule timely_repeating [where K = "i + N"])
  have rest: "timely k S (max 0 (1 + max 0 d)) (if \<not> ok then return (Inr (leave b)) else
       chain (clock c) (\<lambda>now. if \<not> fless now (fadd (io_clock (ps_io c) i) x) then return (Inr (leave b)) else f b))" for k S ok b
    by (intro timely_chain timely_ask timely_if timely_silent assms(4))
  have step: "timely k S (1 + max 0 (1 + max 0 d)) (body b)" for k S b
    unfolding assms(5) by (intro timely_chain timely_ask rest)
  then show "timely (i + 1) T (2 + d) (body b)" for b by (rule timely_mono) simp
  show "body b s \<noteq> (Inr (Inl b'), t)" if "i + N \<le> ru_calls s" "ru_calls s + (2 + d) \<le> T" for b s b' t
    using deadline_passed [of c N T i "ru_calls s + 1" x] assms(1-3) that
    by (auto simp: assms(5) chain_ask chain_clock return_Inr_iff eventually_def)
  show "ru_calls s < ru_calls t" if "body b s = (Inr (Inl r), t)" for b s r t
    by (rule ask_chain_grows [OF that [unfolded assms(5)] rest])
qed (use assms(1) in \<open>auto simp: eventually_def\<close>)

lemma timely_acquire:
  assumes "eventually c N T"
  shows "timely (i + 1) T (8 * ps_fuel c) (acquire c (fadd (io_clock (ps_io c) i) (Fin 8)))"
proof -
  let ?f = "\<lambda>b. chain (refuse_stop c ''operator interrupt before arm'') (\<lambda>_.
     chain (idle c) (\<lambda>_.
     chain (clock c) (\<lambda>now. if \<not> fle (snd b) now then return (Inl (fst b, snd b)) else
     chain (check_gate c disarmed_before_motion) (\<lambda>issue.
     let stable' = (if issue = [] then fst b + 1 else 0) in
     return (if GRAPH_STABILITY_SAMPLES \<le> stable' then Inr stable' else Inl (stable', fadd now GRAPH_SAMPLE_PERIOD_S))))))
     :: ((int \<times> pyfloat) + int) prog"
  have step: "timely k S 7 (?f b)" for b k S
    by (rule timely_mono, (rule timely_steps)+, simp)
  have "timely (i + 1) T (ps_fuel c * (1 + 7)) (acquire c (fadd (io_clock (ps_io c) i) (Fin 8)))"
    unfolding acquire_def
    by (rule timely_deadline_loop [OF assms, where leave = fst and f = ?f and x = "Fin 8"]) (auto simp: case_prod_unfold intro: step)
  then show ?thesis by (rule timely_mono) simp
qed

lemma fl_eight: "0 \<le> q \<Longrightarrow> q \<le> 8 \<Longrightarrow> isfinite (fl q)" "q \<le> 8 \<Longrightarrow> fle (fl q) (Fin 8)"
  using fl_mono [of q 8] fl_mono [of 0 q] by (cases "fl q"; simp add: fle_def)+

lemma timely_hold_zero:
  assumes "eventually c N T"
  shows "timely (i + 1) T (5 * ps_fuel c) (hold_zero c (fadd (io_clock (ps_io c) i) STOP_ZERO_HOLD_S))"
proof -
  have step: "timely k S 3 (attempt (chain (idle c) (\<lambda>_. return (Inl ()))) (\<lambda>_. return (Inr ())) :: (unit + unit) prog)" for k S
    by (rule timely_mono, (rule timely_steps)+, simp)
  have "timely (i + 1) T (ps_fuel c * (2 + 3)) (hold_zero c (fadd (io_clock (ps_io c) i) STOP_ZERO_HOLD_S))"
    unfolding hold_zero_def
    by (rule timely_live_loop [OF assms, where x = STOP_ZERO_HOLD_S and leave = "\<lambda>_. ()"])
      (auto simp: STOP_ZERO_HOLD_S_def fl_eight intro: step)
  then show ?thesis by (rule timely_mono) simp
qed

lemma timely_observe_loop:
  assumes "eventually c N T"
  shows "timely (i + 1) T (8 * ps_fuel c)
     (repeating (ps_fuel c) (observe_stop c xy (fadd (io_clock (ps_io c) i) PROBE_POST_STOP_OBSERVATION_S)) mx)"
proof -
  let ?f = "\<lambda>mx. chain (idle c) (\<lambda>_.
     chain (runtime_issue c disarmed_after_motion False) (\<lambda>issue. if issue \<noteq> [] then return (Inr (Inl (issue, None))) else
     chain (fetch ru_node) (\<lambda>n.
     if pn_armed n then return (Inr (Inl (''SDK daemon re-armed after explicit stop'', None))) else
     case odom_readings n of None \<Rightarrow> return (Inr (Inl (''post-stop odometry disappeared'', None)))
     | Some (p, v, r) \<Rightarrow>
         chain (lift_result (post_stop_decision (ps_math c) xy p v r)) (\<lambda>d.
         let mx' = mx\<lparr>st_drift := fmax (st_drift mx) (pd_drift d), st_linear := fmax (st_linear mx) (pd_linear d),
                      st_yaw := fmax (st_yaw mx) (pd_yaw_rate d)\<rparr> in
         return (if pd_stationary d then Inl mx' else Inr (Inl (pd_reason d, Some mx')))))))
     :: (stop_metrics + (string \<times> stop_metrics option) + stop_metrics) prog"
  have step: "timely k S 6 (?f mx)" for k S mx
    by (rule timely_mono, (rule timely_steps)+, simp)
  have "timely (i + 1) T (ps_fuel c * (2 + 6))
     (repeating (ps_fuel c) (observe_stop c xy (fadd (io_clock (ps_io c) i) PROBE_POST_STOP_OBSERVATION_S)) mx)"
    by (rule timely_live_loop [OF assms, where x = PROBE_POST_STOP_OBSERVATION_S and leave = Inr and f = ?f])
      (simp add: PROBE_POST_STOP_OBSERVATION_S_def, simp add: PROBE_POST_STOP_OBSERVATION_S_def, rule step, rule observe_stop_def)
  then show ?thesis by (rule timely_mono) simp
qed

lemma timely_zero_preamble:
  assumes "eventually c N T"
  shows "timely k T (8 * ps_fuel c + 1) (zero_preamble c)"
proof -
  let ?f = "\<lambda>_. chain (refuse_stop c ''operator interrupt during zero preamble'') (\<lambda>_.
     chain (require_runtime c disarmed_before_motion False) (\<lambda>_.
     chain (idle c) (\<lambda>_. return (Inl ())))) :: (unit + unit) prog"
  have step: "timely k S 7 (?f u)" for k S and u :: unit
    by (rule timely_mono, (rule timely_steps)+, simp)
  have "timely (i + 1) T (ps_fuel c * (1 + 7)) (repeating (ps_fuel c) (\<lambda>u.
     chain (clock c) (\<lambda>now. if \<not> fless now (fadd (io_clock (ps_io c) i) ZERO_PREAMBLE_S) then return (Inr ()) else ?f u)) ())" for i
    by (rule timely_deadline_loop [OF assms, where x = ZERO_PREAMBLE_S and leave = "\<lambda>_. ()" and f = ?f])
      (simp_all only: step, simp_all add: ZERO_PREAMBLE_S_def fl_eight)
  note loop = this
  show ?thesis unfolding zero_preamble_def
    by (rule timely_mono, rule timely_chain, rule timely_steps, rule timely_clock, rule loop) simp
qed

lemma timely_await_armed:
  assumes "eventually c N T"
  shows "timely k T (8 * ps_fuel c + 4) (await_armed c)"
proof -
  let ?f = "\<lambda>_. chain (refuse_stop c ''operator interrupt while awaiting armed zero'') (\<lambda>_.
       chain (require_runtime c \<lparr>ex_states = [''DISARMED'', ''PREPARING'', ''ARMED''], ex_permit_spent = None, ex_moving = None\<rparr> False) (\<lambda>_.
       chain (idle c) (\<lambda>_.
       fetch (\<lambda>s. if armed_zero (ru_node s) then Inr () else Inl ())))) :: (unit + unit) prog"
  have step: "timely k S 7 (?f u)" for k S and u :: unit
    by (rule timely_mono, (rule timely_steps)+, simp)
  have "timely (i + 1) T (ps_fuel c * (1 + 7)) (repeating (ps_fuel c) (\<lambda>u.
     chain (clock c) (\<lambda>now. if \<not> fless now (fadd (io_clock (ps_io c) i) ARMED_ZERO_TIMEOUT_S) then return (Inr ()) else ?f u)) ())" for i
    by (rule timely_deadline_loop [OF assms, where x = ARMED_ZERO_TIMEOUT_S and leave = "\<lambda>_. ()" and f = ?f])
      (simp_all only: step, simp_all add: ARMED_ZERO_TIMEOUT_S_def)
  note loop = this
  show ?thesis unfolding await_armed_def
    by (rule timely_mono, rule timely_clock, rule timely_chain, rule loop, (rule timely_steps)+) simp
qed

lemma timely_drive_check: "timely k T 5 (drive_check c xy t)"
  unfolding drive_check_def by (rule timely_mono, (rule timely_steps)+, simp)

lemma drive_check_grows:
  assumes "drive_check c xy t s = (Inr d, u)"
  shows "ru_calls s < ru_calls u"
proof -
  let ?rest = "chain (require_runtime c armed_in_motion False) (\<lambda>_.
     chain (fetch ru_node) (\<lambda>n.
     chain (require_that (pn_armed n) ''SDK daemon disarmed during motion'') (\<lambda>_.
     chain (require_pose ''odometry disappeared during motion'') (\<lambda>pose.
     chain (clock c) (\<lambda>now.
     lift_result (motion_decision (ps_profile c) (ps_math c) t now xy (fst pose)))))))"
  have rest: "timely 0 0 4 ?rest" by (rule timely_mono, (rule timely_steps)+, simp)
  obtain v where first: "refuse_stop c ''operator interrupt during motion'' s = (Inr (), v)" and tail: "?rest v = (Inr d, u)"
    using assms unfolding drive_check_def by (rule chainE) simp
  have "ru_calls v = ru_calls s + 1" using first by (auto simp: refuse_stop_def answers)
  then show ?thesis using timely_grows [OF rest tail] by simp
qed

lemma timely_drive:
  assumes "eventually c N T" "fle (PROBE_STOP_DURATION_S (ps_profile c)) (Fin 8)"
  shows "timely (i + 1) T (8 * ps_fuel c) (drive c xy (io_clock (ps_io c) i))"
proof -
  let ?t = "io_clock (ps_io c) i"
  let ?f = "\<lambda>d. if \<not> md_continue d then return (Inr d) else
     chain (publish_velocity c (SPEED_MPS (ps_profile c))) (\<lambda>_. chain (spin_once c) (\<lambda>_. return (Inl ())))"
  have rest: "timely k S 3 (?f d)" for k S d
    by (rule timely_mono, (rule timely_steps)+, simp)
  have step: "timely k S 8 (chain (drive_check c xy ?t) ?f)" for k S
    by (rule timely_mono, rule timely_chain [OF timely_drive_check rest], simp)
  have "timely (i + 1) T (ps_fuel c * 8) (repeating (ps_fuel c) (\<lambda>_. chain (drive_check c xy ?t) ?f) ())"
  proof (rule timely_repeating [where K = "i + N"])
    have grows: "ru_calls s < ru_calls u \<and> ru_calls u \<le> ru_calls t"
      if "drive_check c xy ?t s = (Inr d, u)" "?f d u = (r, t)" for s d u r t
      using drive_check_grows [OF that(1)] timely_grows [OF rest that(2)] by simp
    show "ru_calls s < ru_calls t" if run: "chain (drive_check c xy ?t) ?f s = (Inr (Inl r), t)" for s r t
    proof -
      obtain d u where "drive_check c xy ?t s = (Inr d, u)" "?f d u = (Inr (Inl r), t)" using run by (rule chainE)
      then show ?thesis using grows by fastforce
    qed
    show "chain (drive_check c xy ?t) ?f s \<noteq> (Inr (Inl b'), t)" if K: "i + N \<le> ru_calls s" "ru_calls s + 8 \<le> T" for s b' t
    proof
      assume "chain (drive_check c xy ?t) ?f s = (Inr (Inl b'), t)"
      then obtain d u where d: "drive_check c xy ?t s = (Inr d, u)" and more: "?f d u = (Inr (Inl b'), t)" by (rule chainE)
      have go: "md_continue d" using more by (auto simp: return_Inr_iff split: if_splits)
      have u: "ru_calls s < ru_calls u" "ru_calls u \<le> ru_calls s + 5"
        using drive_check_grows [OF d] timelyD [OF timely_drive_check [of 0 T c xy ?t] d] by auto
      have "\<not> fle (PROBE_STOP_DURATION_S (ps_profile c)) (fsub (io_clock (ps_io c) (ru_calls u - 1)) ?t)"
        using drive_check_result [OF d go, of "Fin 0"] by (auto simp: motion_permitted_def split: option.splits)
      moreover have "fle (Fin 8) (fsub (io_clock (ps_io c) (ru_calls u - 1)) ?t)"
        using assms(1) u K by (auto simp: eventually_def clock_advances_def)
      ultimately show False using assms(2) fle_trans by blast
    qed
  qed (use assms(1) step in \<open>auto simp: eventually_def\<close>)
  then show ?thesis unfolding drive_def by (rule timely_mono) simp
qed

section \<open>The whole run\<close>

lemma timely_call_arm:
  assumes "eventually c N T"
  shows "timely k T (5 * ps_fuel c + 2) (call_arm c arm)"
  unfolding call_arm_def
  by (rule timely_mono, rule timely_chain, rule timely_steps, rule timely_case_sum, rule timely_steps, rule timely_case_bool,
      rule timely_chain, rule timely_steps, rule timely_clock, rule timely_chain, rule timely_await_reply [OF assms],
      (rule timely_steps)+) simp

lemma timely_zero_and_disarm:
  assumes "eventually c N T"
  shows "timely k T (10 * ps_fuel c + 4) (zero_and_disarm c)"
  unfolding zero_and_disarm_def
  by (rule timely_mono, rule timely_chain, rule timely_attempt, rule timely_steps, rule timely_steps, rule timely_chain,
      rule timely_attempt, rule timely_call_arm [OF assms], rule timely_steps, rule timely_clock, rule timely_chain,
      rule timely_hold_zero [OF assms], rule timely_steps) simp

lemma timely_verify_post_stop:
  assumes "eventually c N T"
  shows "timely k T (8 * ps_fuel c + 1) (verify_post_stop c)"
  unfolding verify_post_stop_def
  by (rule timely_mono, rule timely_chain, rule timely_steps, rule timely_case_option, rule timely_steps, rule timely_case_prod,
      rule timely_chain, rule timely_steps, rule timely_clock, rule timely_chain, rule timely_observe_loop [OF assms],
      (rule timely_steps)+) simp

lemma timely_shut_down:
  assumes "eventually c N T"
  shows "timely k T (18 * ps_fuel c + 6) (shut_down c)"
proof -
  have evidence: "timely k T 0 (pair_evidence_step c f)" for k f
    unfolding pair_evidence_step_def by (rule timely_mono, (rule timely_steps)+, simp)
  have verify: "timely k T (18 * ps_fuel c + 5) (stop_and_verify c)" for k
    unfolding stop_and_verify_def
    by (rule timely_mono, rule timely_chain, rule timely_zero_and_disarm [OF assms], rule timely_chain, rule timely_steps,
        rule timely_chain, rule timely_if, rule timely_attempt, rule timely_verify_post_stop [OF assms], rule timely_steps,
        rule timely_steps, rule timely_chain, rule evidence, rule timely_steps) simp
  show ?thesis unfolding shut_down_def
    by (rule timely_mono, rule timely_chain, rule timely_steps, rule timely_chain, rule timely_if, rule timely_steps,
        rule timely_steps, rule timely_if, rule timely_chain, rule timely_steps, rule timely_chain, rule timely_if,
        rule timely_steps, rule timely_steps, rule verify, rule timely_chain, rule evidence, rule timely_steps) simp
qed

lemma timely_bind_command_graph:
  assumes "eventually c N T"
  shows "timely k T (8 * ps_fuel c + 3) (bind_command_graph c)"
  unfolding bind_command_graph_def
  by (rule timely_mono, rule timely_clock, rule timely_chain, rule timely_acquire [OF assms], (rule timely_steps)+) simp

lemma timely_move:
  assumes "eventually c N T" "fle (PROBE_STOP_DURATION_S (ps_profile c)) (Fin 8)"
  shows "timely k T (8 * ps_fuel c + 2) (move c)"
  unfolding move_def
  by (rule timely_mono, rule timely_chain, rule timely_steps, rule timely_chain, rule timely_change, simp, rule timely_clock,
      rule timely_chain, rule timely_change, simp, rule timely_chain, rule timely_drive [OF assms], (rule timely_steps)+) simp

lemma timely_guarded_body:
  assumes "eventually c N T" "fle (PROBE_STOP_DURATION_S (ps_profile c)) (Fin 8)"
  shows "timely k T (37 * ps_fuel c + 13) (guarded_body c)"
proof -
  have create: "timely k T 0 (change (\<lambda>s. s\<lparr>ru_created := True\<rparr>))" "timely k T 0 (change (\<lambda>s. s\<lparr>ru_accepted := True\<rparr>))" for k
    by (rule timely_change, simp)+
  have body: "timely k T (37 * ps_fuel c + 13) (probe_body c)"
    unfolding probe_body_def
    by (rule timely_mono, rule timely_chain, rule timely_steps, rule timely_chain, rule timely_case_option, rule create,
        rule timely_steps, rule timely_chain, rule timely_bind_command_graph [OF assms(1)], rule timely_chain,
        rule timely_zero_preamble [OF assms(1)], rule timely_chain, rule timely_call_arm [OF assms(1)], rule timely_chain,
        rule timely_steps, rule timely_chain, rule timely_steps, rule timely_chain, rule create, rule timely_chain,
        rule timely_await_armed [OF assms(1)], rule timely_move [OF assms]) simp
  show ?thesis unfolding guarded_body_def
    by (rule timely_mono, rule timely_attempt, rule timely_chain, rule body, (rule timely_steps)+) simp
qed

lemma run_ends:
  assumes "clock_advances c N (55 * ps_fuel c + 20)" "N < ps_fuel c" "fle (PROBE_STOP_DURATION_S (ps_profile c)) (Fin 8)"
  shows "fst (run_ros c run_start) \<noteq> Inl OutOfFuel"
proof -
  let ?T = "55 * ps_fuel c + 20"
  have e: "eventually c N ?T" using assms(1,2) by (simp add: eventually_def)
  have close: "timely 0 ?T 1 (close_report c f r)" for f r
    unfolding close_report_def by (rule timely_mono, (rule timely_steps)+, simp)
  have "timely 0 ?T ?T (run_ros c)"
    unfolding run_ros_def
    by (rule timely_mono, rule timely_chain, rule timely_guarded_body [OF e assms(3)], rule timely_chain,
        rule timely_shut_down [OF e], rule close) simp
  then show ?thesis by (simp add: timely_def run_start_def)
qed

end
