(* ===== verification/ProbeReturns.thy ===== *)
theory ProbeReturns imports ProbeOutcome begin

text \<open>
  The shut-down of a run cannot raise: the firmware-state snapshots it compares were bounded when they
  were taken, so the comparison that ends every run always has a value.
\<close>

section \<open>Bounded snapshots\<close>

definition bounded_position :: "pyfloat \<Rightarrow> bool" where
  "bounded_position v \<longleftrightarrow> isfinite v \<and> \<not> fless SPORT_STATE_POSITION_ABS_LIMIT_M (fabs v)"

definition snapshot_bounded :: "sport_snapshot option \<Rightarrow> bool" where
  "snapshot_bounded x \<longleftrightarrow> (case x of None \<Rightarrow> True
     | Some sn \<Rightarrow> bounded_position (fst (sn_position sn)) \<and> bounded_position (snd (sn_position sn)))"

definition snapshots_bounded :: "probe_run \<Rightarrow> bool" where
  "snapshots_bounded s \<longleftrightarrow> snapshot_bounded (pn_sport (ru_node s)) \<and> snapshot_bounded (ru_sport_start s)
     \<and> snapshot_bounded (ru_sport_end s)"

lemma evidence_scalar_bounded:
  "bounded_evidence_scalar v label SPORT_STATE_POSITION_ABS_LIMIT_M = Inr x \<Longrightarrow> bounded_position x"
  by (auto simp: bounded_evidence_scalar_def bounded_position_def split: if_splits sum.splits conversion_error.splits)

lemma evidence_snapshot_bounded:
  "sport_state_evidence_snapshot p v y m g = Inr sn \<Longrightarrow> snapshot_bounded (Some sn)"
  by (auto simp: sport_state_evidence_snapshot_def Let_def snapshot_bounded_def split: if_splits prod.splits
      dest!: evidence_scalar_bounded)

lemma on_state_bounded:
  "snapshot_bounded (pn_sport n) \<Longrightarrow> snapshot_bounded (pn_sport (snd (on_state modes markers now m n)))"
proof -
  have stamp: "pn_sport (snd (state_stamp_check m n)) = pn_sport n"
    by (auto simp: state_stamp_check_def latch_def Let_def)
  have marker: "pn_sport (snd (state_marker_check m r)) = pn_sport (snd r)" for r
    by (auto simp: state_marker_check_def latch_def Let_def split: prod.splits option.splits)
  show "snapshot_bounded (pn_sport n) \<Longrightarrow> snapshot_bounded (pn_sport (snd (on_state modes markers now m n)))"
    using stamp marker
    by (auto simp: on_state_def Let_def case_prod_unfold evidence_snapshot_bounded split: sum.splits probe_exc.splits)
qed

lemma position_delta:
  assumes "bounded_position a" "bounded_position b"
  shows "isfinite (fsub b a) \<and> fle (fabs (fsub b a)) (fmul (Fin 2) SPORT_STATE_POSITION_ABS_LIMIT_M)"
proof -
  obtain p q where p: "a = Fin p" "\<bar>p\<bar> \<le> 1000000" and q: "b = Fin q" "\<bar>q\<bar> \<le> 1000000"
    using assms by (auto simp: bounded_position_def isfinite_iff SPORT_STATE_POSITION_ABS_LIMIT_M_def)
  have "fle (fl (q - p)) (fl 2000000)" "fle (fl (- 2000000)) (fl (q - p))" using p(2) q(2) by (intro fl_mono; linarith)+
  moreover have "fl (- 2000000) = Fin (- 2000000)" using fl_dyadic [of "- 2000000" 0] by simp
  ultimately show ?thesis
    by (cases "fl (q - p)") (auto simp: p(1) q(1) fsub_def SPORT_STATE_POSITION_ABS_LIMIT_M_def fle_def)
qed

lemma pair_evidence_returns:
  assumes "snapshot_bounded start" "snapshot_bounded stop"
  shows "\<exists>pe. sport_state_pair_evidence lm start stop issue = Inr pe"
proof -
  have scalar: "bounded_evidence_scalar (VFloat v) label SPORT_STATE_POSITION_ABS_LIMIT_M = Inr v" if "bounded_position v" for v label
    using that by (simp add: bounded_evidence_scalar_def bounded_position_def)
  show ?thesis using assms position_delta
    by (auto simp: sport_state_pair_evidence_def snapshot_bounded_def Let_def scalar split: option.splits)
qed

section \<open>Every program keeps the snapshots bounded\<close>

lemma snapshots_unchanged [simp]:
  "snapshots_bounded (s\<lparr>ru_calls := k\<rparr>) = snapshots_bounded s" "snapshots_bounded (s\<lparr>ru_acts := a\<rparr>) = snapshots_bounded s"
  "snapshots_bounded (s\<lparr>ru_report := r\<rparr>) = snapshots_bounded s" "snapshots_bounded (s\<lparr>ru_start := x\<rparr>) = snapshots_bounded s"
  "snapshots_bounded (s\<lparr>ru_accepted := p\<rparr>) = snapshots_bounded s" "snapshots_bounded (s\<lparr>ru_created := p\<rparr>) = snapshots_bounded s"
  by (simp_all add: snapshots_bounded_def)

lemma snapshots_node: "pn_sport n = pn_sport (ru_node s) \<Longrightarrow> snapshots_bounded (s\<lparr>ru_node := n\<rparr>) = snapshots_bounded s"
  by (simp add: snapshots_bounded_def)

lemma preserves_state [preserves_rules]:
  "preserves snapshots_bounded (ask f)" "preserves snapshots_bounded (act a)" "preserves snapshots_bounded (on_report g)"
  by (auto intro!: preservesI simp: ask_def act_def on_report_def change_def)

lemma preserves_change [preserves_rules]:
  "(\<And>s. snapshots_bounded s \<Longrightarrow> snapshots_bounded (f s)) \<Longrightarrow> preserves snapshots_bounded (change f)"
  by (rule preservesI) (simp add: change_def)

lemma preserves_on_node [preserves_rules]: "(\<And>n. pn_sport (f n) = pn_sport n) \<Longrightarrow> preserves snapshots_bounded (on_node f)"
  unfolding on_node_def by (rule preserves_change) (simp add: snapshots_node)

lemma preserves_dispatch [preserves_rules]: "preserves snapshots_bounded (run_callback c now e)"
proof (cases e)
  case (StateMessage m)
  have "snapshots_bounded (s\<lparr>ru_node := snd (on_state modes markers now m (ru_node s))\<rparr>)" if "snapshots_bounded s" for s modes markers
    using that on_state_bounded [of "ru_node s" modes markers now m] by (simp add: snapshots_bounded_def)
  then show ?thesis unfolding run_callback_def StateMessage
    by (auto intro!: preservesI simp: chain_fetch case_prod_unfold on_node_def chain_change lift_result_def return_def raising_def
        split: sum.splits)
next
  case (OdomMessage m)
  have "pn_sport (on_odom lm now m n) = pn_sport n" for lm n
    by (auto simp: on_odom_def odom_stamp_check_def latch_def Let_def case_prod_unfold)
  then show ?thesis unfolding run_callback_def OdomMessage by (simp, intro preserves_on_node)
next
  case (DiagnosticsMessage m)
  have "pn_sport (on_diagnostics p now m n) = pn_sport n" for p n
    by (auto simp: on_diagnostics_def Let_def split: list.splits)
  then show ?thesis unfolding run_callback_def DiagnosticsMessage by (simp, intro preserves_on_node)
qed (simp_all add: run_callback_def preserves_rules)

lemma preserves_check_graph [preserves_rules]: "preserves snapshots_bounded (check_graph c)"
proof -
  have node: "pn_sport (snd (graph_issue p bl g n)) = pn_sport n" for p bl g n
    by (auto simp: graph_issue_def Let_def split: prod.splits option.splits)
  have "preserves snapshots_bounded (chain (fetch ru_node) (\<lambda>n. case graph_issue p bl g n of
         (issue, n') \<Rightarrow> chain (on_node (\<lambda>_. n')) (\<lambda>_. return issue)))" for p bl g
    by (rule preservesI) (simp add: chain_fetch case_prod_unfold on_node_def chain_change return_def snapshots_node node)
  note fetched = this
  show ?thesis unfolding check_graph_def
    by (rule within_chain [OF leads_preorder, folded preserves_def], rule preserves_state,
        rule within_case_sum [where R = "\<lambda>s t. snapshots_bounded s \<longrightarrow> snapshots_bounded t", folded preserves_def],
        rule preserves_rules, rule fetched)
qed

lemma preserves_methods [preserves_rules]:
  "preserves snapshots_bounded (clock c)" "preserves snapshots_bounded (publish_velocity c v)" "preserves snapshots_bounded (spin_once c)"
  "preserves snapshots_bounded (check_health c ex)" "preserves snapshots_bounded reset_runtime_graph_check"
  "preserves snapshots_bounded (refuse_stop c msg)" "preserves snapshots_bounded (require_pose msg)"
  unfolding clock_def publish_velocity_def spin_once_def check_health_def reset_runtime_graph_check_def refuse_stop_def require_pose_def
  by ((intro preserves_rules; simp?)+)

lemma preserves_note_sport_end [preserves_rules]: "preserves snapshots_bounded note_sport_end"
  unfolding note_sport_end_def
  by (rule preserves_change) (auto simp: snapshots_bounded_def snapshot_bounded_def split: option.splits)

lemma preserves_loops [preserves_rules]:
  "preserves snapshots_bounded (idle c)" "preserves snapshots_bounded (check_gate c ex)"
  "preserves snapshots_bounded (runtime_issue c ex force)" "preserves snapshots_bounded (require_runtime c ex force)"
  "preserves snapshots_bounded (await_reply c d)" "preserves snapshots_bounded (call_arm c arm)"
  "preserves snapshots_bounded (acquire c d)"
  "preserves snapshots_bounded (observe_stop c xy d mx)" "preserves snapshots_bounded (drive_check c xy t)"
  unfolding require_runtime_def runtime_issue_def check_gate_def call_arm_def await_reply_def idle_def acquire_def observe_stop_def
    drive_check_def check_gate_def
  by ((intro preserves_rules; simp?)+)

lemma preserves_move [preserves_rules]: "preserves snapshots_bounded (move c)"
  unfolding move_def drive_def
  by ((intro preserves_rules; (simp add: snapshots_bounded_def)?)+)

section \<open>Programs that do not raise\<close>

definition raises_nothing :: "'a prog \<Rightarrow> bool" where
  "raises_nothing m \<longleftrightarrow> (\<forall>s. snapshots_bounded s \<longrightarrow> snapshots_bounded (snd (m s)) \<and> (\<forall>e. fst (m s) \<noteq> Inl (Raised e)))"

lemma calmD: "raises_nothing m \<Longrightarrow> m s = (r, t) \<Longrightarrow> snapshots_bounded s \<Longrightarrow> snapshots_bounded t \<and> r \<noteq> Inl (Raised e)"
  unfolding raises_nothing_def by (drule spec [of _ s]) simp

lemma calm_chain: "raises_nothing m \<Longrightarrow> (\<And>a. raises_nothing (f a)) \<Longrightarrow> raises_nothing (chain m f)"
  unfolding raises_nothing_def by (auto simp: chain_def split: prod.splits sum.splits)

lemma calm_attempt: "preserves snapshots_bounded m \<Longrightarrow> (\<And>e. raises_nothing (h e)) \<Longrightarrow> raises_nothing (attempt m h)"
  unfolding raises_nothing_def
  by (auto simp: attempt_def split: prod.splits sum.splits halt.splits dest: preservesD)

lemma calm_basic: "raises_nothing (return a)" "raises_nothing (fetch f)" "raises_nothing (ask g)" "raises_nothing (clock c)" "raises_nothing note_sport_end" "raises_nothing (on_report k)"
  using preserves_note_sport_end preserves_state(3) [of k]
  by (auto simp: raises_nothing_def return_def fetch_def ask_def clock_def note_sport_end_def on_report_def change_def preserves_def within_rel_def)

lemma calm_repeating: "(\<And>b. raises_nothing (body b)) \<Longrightarrow> raises_nothing (repeating n body b)"
proof (induction n arbitrary: b)
  case 0
  then show ?case by (simp add: raises_nothing_def)
next
  case (Suc n)
  have "raises_nothing (case r of Inl b' \<Rightarrow> repeating n body b' | Inr c \<Rightarrow> return c)" for r
    using Suc calm_basic(1) by (cases r) simp_all
  then show ?case unfolding repeating.simps by (rule calm_chain [OF Suc.prems])
qed

lemma calm_if: "raises_nothing m \<Longrightarrow> raises_nothing m' \<Longrightarrow> raises_nothing (if b then m else m')"
  by simp

lemma calm_pair_evidence: "raises_nothing (pair_evidence_step c f)"
  unfolding raises_nothing_def
proof (intro allI impI)
  fix s
  assume s: "snapshots_bounded s"
  obtain pe where pe: "sport_state_pair_evidence (ps_math c) (ru_sport_start s) (ru_sport_end s) (f s) = Inr pe"
    using s pair_evidence_returns unfolding snapshots_bounded_def by blast
  then show "snapshots_bounded (snd (pair_evidence_step c f s)) \<and> (\<forall>e. fst (pair_evidence_step c f s) \<noteq> Inl (Raised e))"
    using s by (simp add: pair_evidence_step_def chain_fetch pe lift_result_def chain_return on_report_def change_def)
qed

lemma calm_shut_down: "raises_nothing (shut_down c)"
  unfolding shut_down_def stop_and_verify_def zero_and_disarm_def hold_zero_def verify_post_stop_def
  by ((intro calm_chain calm_attempt calm_basic calm_repeating calm_if calm_pair_evidence preserves_rules; simp?)+)

lemma calm_guarded_body: "raises_nothing (guarded_body c)"
proof -
  have "raises_nothing (chain (fetch (\<lambda>s. if ru_created s then Some (pn_evidence (ru_node s)) else None)) (\<lambda>ev.
     chain (on_report (\<lambda>r. r\<lparr>rp_failure := Some (message_of e), rp_diagnostic := ev\<rparr>)) (\<lambda>_. return False)))" for e
    by (intro calm_chain calm_basic)
  moreover have "preserves snapshots_bounded (chain (probe_body c) (\<lambda>_. return True))"
    unfolding probe_body_def bind_command_graph_def zero_preamble_def await_armed_def by ((intro preserves_rules; simp?)+)
  ultimately show ?thesis unfolding guarded_body_def by (intro calm_attempt)
qed

lemma run_never_raises: "fst (run_ros c run_start) \<noteq> Inl (Raised e)"
proof -
  have "raises_nothing (run_ros c)" unfolding run_ros_def close_report_def
    by (intro calm_chain calm_guarded_body calm_shut_down calm_basic)
  then show ?thesis by (simp add: raises_nothing_def snapshots_bounded_def snapshot_bounded_def run_start_def node_start_def)
qed

lemma run_code: "run_ros c run_start = (Inr code, t) \<Longrightarrow> code = 0 \<or> code = 1"
  by (auto simp: run_ros_def close_report_def answers split: if_splits)

end
