(* ===== verification/ProbeProperties.thy ===== *)
theory ProbeProperties imports ProbeTermination ProbeReturns begin

text \<open>The properties of the supervised motion probes, for every behaviour of the outside world.\<close>

section \<open>Motion\<close>

text \<open>
  C7. Whatever the world does, everything a run publishes is zero or the profile's speed, and the speed
  only while the guards of the motion loop hold at that very publication: no latched fault, fresh
  state, odometry and diagnostics, the adapter ARMED, the start pose less than the soft distance away
  and the soft duration not reached. Motion comes after the arm request, never after a disarm request,
  and arming is requested at most once.
\<close>

theorem probe_motion_is_guarded:
  "list_all (act_ok c (ru_start (snd (run_ros c run_start)))) (ru_acts (snd (run_ros c run_start)))
   \<and> bracketed (ru_acts (snd (run_ros c run_start)))"
  using run_acts_ok [of c] by (simp add: acts_ok_def)

section \<open>The end of a run\<close>

definition ticking_io :: probe_io where
  "ticking_io = \<lparr>io_clock = (\<lambda>k. Fin (of_nat (10 * k))), io_stop = (\<lambda>_. False), io_ok = (\<lambda>_. True), io_create = (\<lambda>_. None),
     io_publish = (\<lambda>_. None), io_spin = (\<lambda>_. Quiet),
     io_graph = (\<lambda>_. Inr \<lparr>gv_publishers = [], gv_subscriptions = [], gv_canonical = [], gv_sport = [], gv_lease = [],
       gv_odom = [], gv_nodes = [], gv_services = None\<rparr>),
     io_service = (\<lambda>_. Inr True), io_reply = (\<lambda>_. Answered True []), io_write = (\<lambda>_. True)\<rparr>"

definition ticking :: probe_setup where
  "ticking = \<lparr>ps_profile = first_motion, ps_modes = [0], ps_markers = [], ps_baseline = [],
     ps_math = \<lparr>m_hypot = (\<lambda>x y. fmax (fabs x) (fabs y)), m_sin = (\<lambda>x. Fin 0), m_cos = (\<lambda>x. Fin 1),
       m_atan2 = (\<lambda>y x. y), m_sqrt = (\<lambda>x. x), m_sum = foldl fadd (Fin 0)\<rparr>,
     ps_io = ticking_io, ps_fuel = 2\<rparr>"

lemma ticking_advances: "clock_advances ticking 1 (55 * ps_fuel ticking + 20)"
proof -
  have "fl (10 * rat_of_nat i + 8) = Fin (10 * rat_of_nat i + 8)"
    "fl (10 * rat_of_nat k - 10 * rat_of_nat i) = Fin (10 * rat_of_nat k - 10 * rat_of_nat i)"
    "8 \<le> 10 * rat_of_nat k - 10 * rat_of_nat i" if "Suc i \<le> k" "k \<le> 130" for i k
    using that fl_dyadic [of "10 * int i + 8" 0] fl_dyadic [of "10 * int k - 10 * int i" 0]
      of_nat_mono [of "Suc i" k, where 'a = rat] by simp_all
  then show ?thesis
    by (auto simp: clock_advances_def ticking_def ticking_io_def fsub_def)
qed

text \<open>
  C9. A run always returns: on a clock that gains eight seconds every \<open>N\<close> uses of the outside world (each
  loop round uses it at least once), every loop ends within \<open>N + 1\<close> rounds, no exception escapes the
  shut-down, and the process answers 0 or 1.
\<close>

theorem probe_always_returns:
  assumes "clock_advances c N (55 * ps_fuel c + 20)" "N < ps_fuel c"
    and "ps_profile c = first_motion \<or> ps_profile c = second_motion"
  shows "\<exists>code t. run_ros c run_start = (Inr code, t) \<and> (code = 0 \<or> code = 1)"
proof -
  have "fle (PROBE_STOP_DURATION_S (ps_profile c)) (Fin 8)"
    using assms(3) by (auto simp: first_motion_def second_motion_def intro!: fl_eight(2))
  then have "fst (run_ros c run_start) \<noteq> Inl OutOfFuel" using assms by (intro run_ends)
  moreover have "fst (run_ros c run_start) \<noteq> Inl (Raised e)" for e by (rule run_never_raises)
  ultimately obtain code t where r: "run_ros c run_start = (Inr code, t)"
    by (cases "run_ros c run_start"; cases "fst (run_ros c run_start)") (auto, metis halt.exhaust)
  then show ?thesis using run_code by blast
qed

theorem probe_always_returns_witness:
  "\<exists>code t. run_ros ticking run_start = (Inr code, t) \<and> (code = 0 \<or> code = 1)"
  by (rule probe_always_returns [OF ticking_advances]) (simp_all add: ticking_def)

text \<open>
  C8. While ROS is up and the arm service reachable, a run that ends has its last word with the adapter:
  it publishes zero, requests disarm, and publishes nothing but zero after that. No disarm request
  comes before.
\<close>

theorem probe_disarms_last:
  assumes "world_up c" "fst (run_ros c run_start) \<noteq> Inl OutOfFuel"
  shows "\<exists>later k n earlier. ru_acts (snd (run_ros c run_start)) = later @ ArmRequested False # Published k (Fin 0) n # earlier
           \<and> list_all zero_act later \<and> \<not> list_ex (requests False) earlier"
  by (rule run_disarms [OF assms])

theorem probe_disarms_last_witness:
  "\<exists>later k n earlier. ru_acts (snd (run_ros ticking run_start)) = later @ ArmRequested False # Published k (Fin 0) n # earlier
           \<and> list_all zero_act later \<and> \<not> list_ex (requests False) earlier"
proof (rule probe_disarms_last)
  show "world_up ticking"
    using fl_mono [of 0 "5 / 100"] by (simp add: world_up_def ticking_def ticking_io_def first_motion_def)
  have "fle (PROBE_STOP_DURATION_S (ps_profile ticking)) (Fin 8)"
    by (auto simp: ticking_def first_motion_def intro!: fl_eight(2))
  then show "fst (run_ros ticking run_start) \<noteq> Inl OutOfFuel"
    using ticking_advances by (intro run_ends [where N = 1]) (simp_all add: ticking_def)
qed

section \<open>What PASS vouches for\<close>

definition vouched :: "probe_setup \<Rightarrow> probe_run \<Rightarrow> bool" where
  "vouched c t \<longleftrightarrow> accepted_motion c t \<and> fst (rp_disarm (ru_report t)) \<and> stop_verified (rp_post_stop (ru_report t))
     \<and> rp_failure (ru_report t) = None"

definition exit_vouched :: "probe_setup \<Rightarrow> (halt + int) \<times> probe_run \<Rightarrow> bool" where
  "exit_vouched c r \<longleftrightarrow> (case fst r of Inl _ \<Rightarrow> True | Inr code \<Rightarrow> if code = 0 then vouched c (snd r) else code = 1)"

text \<open>
  C10. An exit code of zero is earned: the motion loop ended at a soft limit after the adapter reported
  motion, the measured displacement passed the profile's acceptance test, the adapter acknowledged the
  disarm, and the robot then stood still for at least ten odometry samples within the drift and speed
  limits. Every other run that ends answers one.
\<close>

theorem probe_pass_is_earned: "exit_vouched c (run_ros c run_start)"
proof (cases "run_ros c run_start")
  case (Pair r t)
  then show ?thesis using run_zero [of c t] run_code [of c _ t]
    by (auto simp: exit_vouched_def vouched_def split: sum.splits)
qed

section \<open>The command writer\<close>

lemma normalize_gids_iff: "normalize_gids eps = Inr gs \<longleftrightarrow> eps = map Some gs \<and> list_all usable_gid gs"
proof (induction eps arbitrary: gs)
  case Nil
  then show ?case by auto
next
  case (Cons e eps)
  then show ?case by (cases e; cases gs) auto
qed

lemma distinct_single: "distinct xs \<Longrightarrow> xs = [g] \<longleftrightarrow> set xs = {g}"
proof
  assume d: "distinct xs" and s: "set xs = {g}"
  then obtain x ys where xs: "xs = x # ys" by (cases xs) auto
  then have "x = g" "set ys \<subseteq> {g}" "g \<notin> set ys" using d s by auto
  then show "xs = [g]" using xs by (cases ys) auto
qed simp

lemma single_addition: "distinct gs \<Longrightarrow> filter (\<lambda>g. g \<notin> B) gs = [g] \<longleftrightarrow> set gs - B = {g}"
  by (subst distinct_single) auto

text \<open>
  The check of the request-writer graph accepts exactly when every endpoint has a usable identity, no
  identity occurs twice, the baseline writers are all still there, and one writer was added, which is
  the one bound before if any; it binds that writer.
\<close>

theorem sport_writer_accepted_iff:
  "bind_added_sport_writer baseline endpoints bound = ([], b) \<longleftrightarrow>
     (\<exists>gs g. endpoints = map Some gs \<and> list_all usable_gid gs \<and> distinct gs \<and> set baseline \<subseteq> set gs
        \<and> set gs - set baseline = {g} \<and> (bound = None \<or> bound = Some g) \<and> b = Some g)"
proof -
  have one: "length xs = 1 \<longleftrightarrow> (\<exists>x. xs = [x])" for xs :: "gid list" by (cases xs) auto
  have norm: "normalize_gids endpoints = Inr gs \<longleftrightarrow> endpoints = map Some gs \<and> list_all usable_gid gs" for gs
    by (rule normalize_gids_iff)
  have issue: "normalize_gids endpoints = Inl e \<Longrightarrow> e \<noteq> []" for e
    by (induction endpoints rule: normalize_gids.induct) (auto simp: obind_Inl_iff split: if_splits)
  show ?thesis
  proof (cases "normalize_gids endpoints")
    case (Inl e)
    then show ?thesis using issue [OF Inl] norm by (auto simp: bind_added_sport_writer_def)
  next
    case (Inr gs)
    have gs: "endpoints = map Some gs \<and> list_all usable_gid gs" "\<And>hs. endpoints = map Some hs \<Longrightarrow> hs = gs"
      using norm [of gs] Inr by (auto simp: inj_map_eq_map)
    show ?thesis
    proof (cases "distinct gs \<and> set baseline \<subseteq> set gs")
      case True
      then have single: "filter (\<lambda>g. g \<notin> set baseline) gs = [g] \<longleftrightarrow> set gs - set baseline = {g}" for g
        by (intro single_addition) simp
      have "(\<exists>gs' g. endpoints = map Some gs' \<and> list_all usable_gid gs' \<and> distinct gs' \<and> set baseline \<subseteq> set gs'
          \<and> set gs' - set baseline = {g} \<and> (bound = None \<or> bound = Some g) \<and> b = Some g)
        \<longleftrightarrow> (\<exists>g. set gs - set baseline = {g} \<and> (bound = None \<or> bound = Some g) \<and> b = Some g)"
        using True gs by blast
      moreover have "bind_added_sport_writer baseline endpoints bound = ([], b) \<longleftrightarrow>
          (\<exists>g. filter (\<lambda>g. g \<notin> set baseline) gs = [g] \<and> (bound = None \<or> bound = Some g) \<and> b = Some g)"
      proof (cases "length (filter (\<lambda>g. g \<notin> set baseline) gs) = 1")
        case True
        then obtain g where "filter (\<lambda>g. g \<notin> set baseline) gs = [g]" using one by blast
        then show ?thesis using \<open>distinct gs \<and> set baseline \<subseteq> set gs\<close>
          by (cases bound) (auto simp: bind_added_sport_writer_def Inr Let_def)
      next
        case False
        then have "filter (\<lambda>g. g \<notin> set baseline) gs \<noteq> [g]" for g by (metis one)
        then show ?thesis using False \<open>distinct gs \<and> set baseline \<subseteq> set gs\<close>
          by (simp add: bind_added_sport_writer_def Inr Let_def)
      qed
      ultimately show ?thesis unfolding single by blast
    next
      case False
      then have "fst (bind_added_sport_writer baseline endpoints bound) \<noteq> []"
        by (auto simp: bind_added_sport_writer_def Inr Let_def)
      then have "bind_added_sport_writer baseline endpoints bound \<noteq> ([], b)" by (metis fst_conv)
      moreover have "hs = gs" if "endpoints = map Some hs" for hs using that by (rule gs(2))
      ultimately show ?thesis using False by metis
    qed
  qed
qed

end
