(* ===== verification/PyText.thy ===== *)
theory PyText imports PyVal begin

text \<open>
  How Python prints numbers: \<open>str\<close> of a float (the shortest decimal that reads back), and the
  formats \<open>.17g\<close> and \<open>.3f\<close>, on the exact rational of a double. The model has one zero.
\<close>

section \<open>Decimal digits\<close>

text \<open>The exponent \<open>e\<close> with \<open>10 ^ e \<le> q < 10 ^ (e + 1)\<close>, for a positive \<open>q\<close> in the range of doubles.\<close>

definition flog10 :: "rat \<Rightarrow> int" where
  "flog10 q =
     (let e = flog2 q * 30103 div 100000 in
      if q < pow10 e then e - 1 else if pow10 (e + 1) \<le> q then e + 1 else e)"

text \<open>\<open>n\<close> significant digits, correctly rounded, and the exponent of the first one.\<close>

definition sig_digits :: "nat \<Rightarrow> rat \<Rightarrow> nat \<times> int" where
  "sig_digits n q =
     (let e = flog10 q; m = nat (round_half_even (q / pow10 (e - int n + 1))) in
      if m = 10 ^ n then (10 ^ (n - 1), e + 1) else (m, e))"

definition strip_zeros :: "string \<Rightarrow> string" where
  "strip_zeros s = rev (dropWhile (\<lambda>c. c = CHR ''0'') (rev s))"

definition point_digits :: "string \<Rightarrow> string" where
  "point_digits s = (if s = [] then [] else CHR ''.'' # s)"

definition fixed_form :: "string \<Rightarrow> int \<Rightarrow> string" where
  "fixed_form ds e =
     (if e < 0 then ''0'' @ point_digits (replicate (nat (- e - 1)) (CHR ''0'') @ ds)
      else let n = nat e + 1 in
        take n (ds @ replicate n (CHR ''0'')) @ point_digits (drop n ds))"

definition exponent_form :: "string \<Rightarrow> int \<Rightarrow> string" where
  "exponent_form ds e =
     take 1 ds @ point_digits (drop 1 ds) @ ''e'' @ (if e < 0 then ''-'' else ''+'') @
     (if \<bar>e\<bar> < 10 then ''0'' else []) @ nat_digits (nat \<bar>e\<bar>)"

definition signed_form :: "(rat \<Rightarrow> string) \<Rightarrow> pyfloat \<Rightarrow> string" where
  "signed_form f x = (case x of
       Fin q \<Rightarrow> (if q < 0 then CHR ''-'' # f (- q) else f q)
     | PInf \<Rightarrow> ''inf'' | NInf \<Rightarrow> ''-inf'' | NaN \<Rightarrow> ''nan'')"

section \<open>Formats\<close>

text \<open>\<open>format(x, ".17g")\<close>\<close>

definition g17_text :: "pyfloat \<Rightarrow> string" where
  "g17_text = signed_form (\<lambda>q. if q = 0 then ''0'' else
     (case sig_digits 17 q of (m, e) \<Rightarrow>
        let ds = strip_zeros (nat_digits m) in
        if -4 \<le> e \<and> e < 17 then fixed_form ds e else exponent_form ds e))"

text \<open>\<open>format(x, ".3f")\<close>\<close>

definition f3_text :: "pyfloat \<Rightarrow> string" where
  "f3_text = signed_form (\<lambda>q.
     (let m = nat (round_half_even (q * 1000)); r = nat_digits (m mod 1000) in
      nat_digits (m div 1000) @ ''.'' @ replicate (3 - length r) (CHR ''0'') @ r))"

text \<open>The nearest decimal of \<open>n\<close> digits that reads back as \<open>q\<close>.\<close>

definition reads_back :: "rat \<Rightarrow> nat \<Rightarrow> (nat \<times> int) option" where
  "reads_back q n =
     (let e = flog10 q; s = pow10 (e - int n + 1); lo = \<lfloor>q / s\<rfloor>;
          good = filter (\<lambda>m. fl (of_int m * s) = Fin q) [lo, lo + 1] in
      case good of [] \<Rightarrow> None
      | m # ms \<Rightarrow>
          let best = (case ms of [] \<Rightarrow> m
                      | m' # _ \<Rightarrow> if of_int m' * s - q < q - of_int m * s then m' else m) in
          Some (if best = 10 ^ n then (10 ^ (n - 1), e + 1) else (nat best, e)))"

definition shortest_digits :: "rat \<Rightarrow> nat \<times> int" where
  "shortest_digits q =
     (case List.find (\<lambda>r. r \<noteq> None) (map (reads_back q) [1..<18]) of
        Some (Some r) \<Rightarrow> r | _ \<Rightarrow> sig_digits 17 q)"

text \<open>\<open>str(x)\<close>\<close>

definition float_text :: "pyfloat \<Rightarrow> string" where
  "float_text = signed_form (\<lambda>q. if q = 0 then ''0.0'' else
     (case shortest_digits q of (m, e) \<Rightarrow>
        let ds = strip_zeros (nat_digits m) in
        if -4 \<le> e \<and> e < 16
        then let t = fixed_form ds e in if CHR ''.'' \<in> set t then t else t @ ''.0''
        else exponent_form ds e))"

end
