(* ===== verification/OsModel.thy ===== *)
theory OsModel imports PyVal begin

text \<open>
  The operating system as far as the launch path of the chassis uses it, and programs over it. A
  program is a tree of calls, so it can be run alone or interleaved with others, one call at a
  time. Directory entries name inodes; an open descriptor is its inode. Any call may fail
  (\<open>fs_fault\<close>), and what ROS and the Robonix runtime answer is an argument (\<open>fs_extern\<close>).
\<close>

section \<open>Paths\<close>

text \<open>\<open>pathlib.PurePosixPath\<close>: the root and the components.\<close>

datatype posix_path = Path (path_root: string) (path_parts: "string list")

definition path_of :: "string \<Rightarrow> posix_path" where
  "path_of s =
     Path (if take 1 s \<noteq> ''/'' then [] else if take 2 s = ''//'' \<and> take 3 s \<noteq> ''///'' then ''//'' else ''/'')
          (filter (\<lambda>p. p \<noteq> [] \<and> p \<noteq> ''.'') (split_on (CHR ''/'') s))"

fun join_with :: "string \<Rightarrow> string list \<Rightarrow> string" where
  "join_with sep [] = []"
| "join_with sep [p] = p"
| "join_with sep (p # q # ps) = p @ sep @ join_with sep (q # ps)"

definition path_text :: "posix_path \<Rightarrow> string" where
  "path_text p =
     (if path_root p = [] \<and> path_parts p = [] then ''.''
      else path_root p @ join_with ''/'' (path_parts p))"

definition is_absolute :: "posix_path \<Rightarrow> bool" where
  "is_absolute p \<longleftrightarrow> path_root p \<noteq> []"

definition path_parent :: "posix_path \<Rightarrow> posix_path" where
  "path_parent p = Path (path_root p) (butlast (path_parts p))"

definition path_name :: "posix_path \<Rightarrow> string" where
  "path_name p = (if path_parts p = [] then [] else last (path_parts p))"

text \<open>\<open>with_name\<close> on a path that has a name.\<close>

definition with_name :: "posix_path \<Rightarrow> string \<Rightarrow> posix_path" where
  "with_name p n = Path (path_root p) (butlast (path_parts p) @ [n])"

definition path_join :: "posix_path \<Rightarrow> string list \<Rightarrow> posix_path" where
  "path_join p ns = Path (path_root p) (path_parts p @ ns)"

text \<open>\<open>p.relative_to(base)\<close> succeeds.\<close>

definition is_below :: "posix_path \<Rightarrow> posix_path \<Rightarrow> bool" where
  "is_below p base \<longleftrightarrow>
     path_root p = path_root base \<and> take (length (path_parts base)) (path_parts p) = path_parts base"

section \<open>Files\<close>

datatype file_kind = RegularFile | DirectoryFile | SymlinkFile | SpecialFile

record file_info =
  st_kind :: file_kind
  st_uid :: int
  st_mode :: nat
  st_dev :: int
  st_ino :: nat

record inode =
  in_kind :: file_kind
  in_uid :: int
  in_mode :: nat
  in_dev :: int
  in_content :: string

datatype os_error = FileNotFound | FileExists | ProcessLookup | OtherOSError

section \<open>Calls\<close>

datatype extern_call =
    Spawn "string list" "(string \<times> string) list" string
  | Poll nat
  | TerminateGroup nat
  | KillGroup nat
  | WaitExit nat pyfloat
  | WaitForTopic string string pyfloat
  | CreateSubscription string string string string
  | DeclareTopic string string string

datatype syscall =
    Lstat posix_path
  | OpenNoFollow posix_path bool
  | Fstat nat
  | ReadBytes nat nat
  | ReadFile posix_path
  | Exists posix_path
  | IsSymlink posix_path
  | IsFile posix_path
  | IsExecutable posix_path
  | Resolve posix_path
  | Rename posix_path posix_path
  | Mkdir posix_path nat
  | Fchmod nat nat
  | Geteuid
  | TimeNs
  | Extern extern_call

datatype sysresult =
    RDone
  | RFail os_error
  | RInfo file_info
  | RFd nat
  | RBytes string
  | RBool bool
  | RPath posix_path
  | RInt int
  | RNone
  | RProcess nat
  | RTimeout
  | RException

record world =
  fs_entries :: "posix_path \<rightharpoonup> nat"
  fs_inodes :: "nat \<rightharpoonup> inode"
  fs_next :: nat
  fs_resolve :: "posix_path \<Rightarrow> posix_path"
  fs_executable :: "posix_path \<Rightarrow> bool"
  fs_euid :: int
  fs_clock :: int
  fs_fault :: "syscall \<Rightarrow> os_error option"
  fs_calls :: nat
  fs_extern :: "nat \<Rightarrow> extern_call \<Rightarrow> sysresult"

definition info_of :: "nat \<Rightarrow> inode \<Rightarrow> file_info" where
  "info_of i n = \<lparr>st_kind = in_kind n, st_uid = in_uid n, st_mode = in_mode n, st_dev = in_dev n, st_ino = i\<rparr>"

definition node_at :: "world \<Rightarrow> posix_path \<Rightarrow> (nat \<times> inode) option" where
  "node_at w p = (case fs_entries w p of None \<Rightarrow> None
     | Some i \<Rightarrow> (case fs_inodes w i of None \<Rightarrow> None | Some n \<Rightarrow> Some (i, n)))"

definition add_directory :: "nat \<Rightarrow> posix_path \<Rightarrow> world \<Rightarrow> world" where
  "add_directory mode p w =
     (if p \<in> dom (fs_entries w) then w
      else w\<lparr>fs_entries := (fs_entries w)(p \<mapsto> fs_next w),
             fs_inodes := (fs_inodes w)(fs_next w \<mapsto> \<lparr>in_kind = DirectoryFile, in_uid = fs_euid w,
               in_mode = mode, in_dev = 0, in_content = []\<rparr>),
             fs_next := fs_next w + 1\<rparr>)"

definition ancestors :: "posix_path \<Rightarrow> posix_path list" where
  "ancestors p = map (\<lambda>n. Path (path_root p) (take n (path_parts p))) [1..<length (path_parts p)]"

fun exec :: "syscall \<Rightarrow> world \<Rightarrow> sysresult \<times> world" where
  "exec (Lstat p) w = (case node_at w p of None \<Rightarrow> RFail FileNotFound | Some (i, n) \<Rightarrow> RInfo (info_of i n), w)"
| "exec (OpenNoFollow p directory) w =
     (case node_at w p of None \<Rightarrow> RFail FileNotFound
      | Some (i, n) \<Rightarrow> if in_kind n = SymlinkFile \<or> (directory \<and> in_kind n \<noteq> DirectoryFile)
          then RFail OtherOSError else RFd i, w)"
| "exec (Fstat i) w = (case fs_inodes w i of None \<Rightarrow> RFail OtherOSError | Some n \<Rightarrow> RInfo (info_of i n), w)"
| "exec (ReadBytes i count) w = (case fs_inodes w i of
       Some n \<Rightarrow> if in_kind n = RegularFile then RBytes (take count (in_content n)) else RFail OtherOSError
     | None \<Rightarrow> RFail OtherOSError, w)"
| "exec (ReadFile p) w = (case node_at w (fs_resolve w p) of
       Some (i, n) \<Rightarrow> if in_kind n = RegularFile then RBytes (in_content n) else RFail OtherOSError
     | None \<Rightarrow> RFail FileNotFound, w)"
| "exec (Exists p) w = (RBool (node_at w (fs_resolve w p) \<noteq> None), w)"
| "exec (IsSymlink p) w = (RBool (case node_at w p of Some (i, n) \<Rightarrow> in_kind n = SymlinkFile | None \<Rightarrow> False), w)"
| "exec (IsFile p) w =
     (RBool (case node_at w (fs_resolve w p) of Some (i, n) \<Rightarrow> in_kind n = RegularFile | None \<Rightarrow> False), w)"
| "exec (IsExecutable p) w = (RBool (fs_executable w p), w)"
| "exec (Resolve p) w = (RPath (fs_resolve w p), w)"
| "exec (Rename p q) w = (case fs_entries w p of
       None \<Rightarrow> (RFail FileNotFound, w)
     | Some i \<Rightarrow> (RDone, w\<lparr>fs_entries := (fs_entries w)(p := None, q \<mapsto> i)\<rparr>))"
| "exec (Mkdir p mode) w =
     (if p \<in> dom (fs_entries w) then (RFail FileExists, w)
      else (RDone, add_directory mode p (foldl (\<lambda>w a. add_directory 493 a w) w (ancestors p))))"
| "exec (Fchmod i mode) w = (case fs_inodes w i of
       None \<Rightarrow> (RFail OtherOSError, w)
     | Some n \<Rightarrow> (RDone, w\<lparr>fs_inodes := (fs_inodes w)(i \<mapsto> n\<lparr>in_mode := mode\<rparr>)\<rparr>))"
| "exec Geteuid w = (RInt (fs_euid w), w)"
| "exec TimeNs w = (RInt (fs_clock w), w)"
| "exec (Extern c) w = (fs_extern w (fs_calls w) c, w\<lparr>fs_calls := fs_calls w + 1\<rparr>)"

definition perform :: "syscall \<Rightarrow> world \<Rightarrow> sysresult \<times> world" where
  "perform c w = (case fs_fault w c of Some e \<Rightarrow> (RFail e, w) | None \<Rightarrow> exec c w)"

section \<open>Programs\<close>

datatype 'a io = Return 'a | Call syscall "sysresult \<Rightarrow> 'a io"

primrec io_bind :: "'a io \<Rightarrow> ('a \<Rightarrow> 'b io) \<Rightarrow> 'b io" where
  "io_bind (Return a) f = f a"
| "io_bind (Call c k) f = Call c (\<lambda>r. io_bind (k r) f)"

text \<open>A program run with nothing else going on.\<close>

primrec run_io :: "'a io \<Rightarrow> world \<Rightarrow> 'a \<times> world" where
  "run_io (Return a) w = (a, w)"
| "run_io (Call c k) w = run_io (k (fst (perform c w))) (snd (perform c w))"

lemma run_io_bind [simp]:
  "run_io (io_bind m f) w = (case run_io m w of (a, w') \<Rightarrow> run_io (f a) w')"
  by (induction m arbitrary: w) simp_all

lemma io_bind_assoc: "io_bind (io_bind m f) g = io_bind m (\<lambda>a. io_bind (f a) g)"
  by (induction m) simp_all

lemma io_bind_Return [simp]: "io_bind m Return = m"
  by (induction m) simp_all

text \<open>Programs that may raise.\<close>

type_synonym ('e, 'a) may_raise = "('e + 'a) io"

definition act_bind :: "('e, 'a) may_raise \<Rightarrow> ('a \<Rightarrow> ('e, 'b) may_raise) \<Rightarrow> ('e, 'b) may_raise" where
  "act_bind m f = io_bind m (\<lambda>r. case r of Inl e \<Rightarrow> Return (Inl e) | Inr a \<Rightarrow> f a)"

definition lift_outcome :: "'e + 'a \<Rightarrow> ('e, 'a) may_raise" where
  "lift_outcome r = Return r"

fun act_all :: "('a \<Rightarrow> ('e, 'b) may_raise) \<Rightarrow> 'a list \<Rightarrow> ('e, 'b list) may_raise" where
  "act_all f [] = Return (Inr [])"
| "act_all f (x # xs) = act_bind (f x) (\<lambda>y. act_bind (act_all f xs) (\<lambda>ys. Return (Inr (y # ys))))"

end
