(* ===== verification/ChassisConfig.thy ===== *)
theory ChassisConfig imports PyText OsModel StagedResult "HOL-Library.Sublist" "HOL-Library.AList" begin

text \<open>
  \<open>packages/go2_chassis/go2_chassis/runtime_config.py\<close>: the fixed envelopes of the three motion
  profiles, the readers of single fields and \<open>normalize_config\<close>, which turns the configuration
  delivered by the driver and the environment into a \<open>RuntimeConfig\<close> or raises. A raised
  \<open>ConfigError\<close> carries its message up to the interpolated values; \<open>except ConfigError\<close> does not
  catch the other exceptions. Configuration values are JSON, so a list is \<open>VList\<close>.
\<close>

datatype chassis_exc = ConfigError string | PermitError string | OSErr os_error |
  EscapedOverflow | EscapedValueError | EscapedRuntime

section \<open>Constants\<close>

definition SAFETY_ACK :: string where "SAFETY_ACK = ''I_UNDERSTAND_GO2_CAN_MOVE''"
definition UNKNOWN_MODE :: int where "UNKNOWN_MODE = 255"
definition FIRST_MOTION_PROFILE :: string where "FIRST_MOTION_PROFILE = ''workstation-first-motion-corrected-v1''"
definition FIRST_MOTION_COMMAND_TOPIC :: string where "FIRST_MOTION_COMMAND_TOPIC = ''/go2/commissioning/cmd_vel''"
definition FIRST_MOTION_ODOM_TOPIC :: string where "FIRST_MOTION_ODOM_TOPIC = ''/odom''"
definition FIRST_MOTION_MAX_VX_MPS :: pyfloat where "FIRST_MOTION_MAX_VX_MPS = fl (5 / 100)"
definition FIRST_MOTION_MAX_VY_MPS :: pyfloat where "FIRST_MOTION_MAX_VY_MPS = Fin 0"
definition FIRST_MOTION_MAX_WZ_RPS :: pyfloat where "FIRST_MOTION_MAX_WZ_RPS = Fin 0"
definition FIRST_MOTION_MAX_DURATION_S :: pyfloat where "FIRST_MOTION_MAX_DURATION_S = Fin 2"
definition FIRST_MOTION_MAX_DISTANCE_M :: pyfloat where "FIRST_MOTION_MAX_DISTANCE_M = fl (1 / 10)"
definition FIRST_MOTION_COMMAND_TIMEOUT_S :: pyfloat where "FIRST_MOTION_COMMAND_TIMEOUT_S = fl (2 / 10)"
definition SECOND_MOTION_PROFILE :: string where "SECOND_MOTION_PROFILE = ''workstation-second-motion-corrected-v1''"
definition SECOND_MOTION_COMMAND_TOPIC :: string where "SECOND_MOTION_COMMAND_TOPIC = ''/go2/second_motion/cmd_vel''"
definition SECOND_MOTION_ODOM_TOPIC :: string where "SECOND_MOTION_ODOM_TOPIC = ''/odom''"
definition SECOND_MOTION_MAX_VX_MPS :: pyfloat where "SECOND_MOTION_MAX_VX_MPS = fl (3 / 10)"
definition SECOND_MOTION_MAX_VY_MPS :: pyfloat where "SECOND_MOTION_MAX_VY_MPS = Fin 0"
definition SECOND_MOTION_MAX_WZ_RPS :: pyfloat where "SECOND_MOTION_MAX_WZ_RPS = Fin 0"
definition SECOND_MOTION_MAX_LINEAR_ACCEL_MPS2 :: pyfloat where "SECOND_MOTION_MAX_LINEAR_ACCEL_MPS2 = fl (3 / 10)"
definition SECOND_MOTION_MAX_ANGULAR_ACCEL_RPS2 :: pyfloat where "SECOND_MOTION_MAX_ANGULAR_ACCEL_RPS2 = fl (1 / 10)"
definition SECOND_MOTION_MAX_DURATION_S :: pyfloat where "SECOND_MOTION_MAX_DURATION_S = fl (3 / 2)"
definition SECOND_MOTION_MAX_DISTANCE_M :: pyfloat where "SECOND_MOTION_MAX_DISTANCE_M = fl (3 / 10)"
definition SECOND_MOTION_COMMAND_TIMEOUT_S :: pyfloat where "SECOND_MOTION_COMMAND_TIMEOUT_S = fl (2 / 10)"
definition SECOND_MOTION_CONTROL_RATE_HZ :: pyfloat where "SECOND_MOTION_CONTROL_RATE_HZ = Fin 20"
definition STAGED_NAV2_PROFILE :: string where "STAGED_NAV2_PROFILE = ''workstation-staged-nav2-corrected-v1''"
definition STAGED_NAV2_STAGE :: string where "STAGED_NAV2_STAGE = ''stage1''"
definition STAGED_NAV2_COMMAND_TOPIC :: string where "STAGED_NAV2_COMMAND_TOPIC = ''/go2/staged_nav2/cmd_vel''"
definition STAGED_NAV2_NAV_COMMAND_TOPIC :: string where "STAGED_NAV2_NAV_COMMAND_TOPIC = ''/cmd_vel_guard_input''"
definition STAGED_NAV2_ODOM_TOPIC :: string where "STAGED_NAV2_ODOM_TOPIC = ''/odom''"
definition STAGED_NAV2_MAX_VX_MPS :: pyfloat where "STAGED_NAV2_MAX_VX_MPS = fl (3 / 10)"
definition ROBOTTRACK_MAX_VX_MPS :: pyfloat where "ROBOTTRACK_MAX_VX_MPS = fl (1 / 2)"
definition STAGED_NAV2_MAX_VY_MPS :: pyfloat where "STAGED_NAV2_MAX_VY_MPS = Fin 0"
definition STAGED_NAV2_MAX_WZ_RPS :: pyfloat where "STAGED_NAV2_MAX_WZ_RPS = fl (4 / 10)"
definition STAGED_NAV2_MAX_LINEAR_ACCEL_MPS2 :: pyfloat where "STAGED_NAV2_MAX_LINEAR_ACCEL_MPS2 = fl (3 / 10)"
definition STAGED_NAV2_MAX_ANGULAR_ACCEL_RPS2 :: pyfloat where "STAGED_NAV2_MAX_ANGULAR_ACCEL_RPS2 = fl (8 / 10)"
definition STAGED_NAV2_MAX_DURATION_S :: pyfloat where "STAGED_NAV2_MAX_DURATION_S = Fin 0"
definition STAGED_NAV2_MAX_DISTANCE_M :: pyfloat where "STAGED_NAV2_MAX_DISTANCE_M = Fin 0"
definition STAGED_NAV2_COMMAND_TIMEOUT_S :: pyfloat where "STAGED_NAV2_COMMAND_TIMEOUT_S = fl (2 / 10)"
definition STAGED_NAV2_STATE_TIMEOUT_S :: pyfloat where "STAGED_NAV2_STATE_TIMEOUT_S = Fin 1"
definition STAGED_NAV2_EXTERNAL_ODOM_TIMEOUT_S :: pyfloat where "STAGED_NAV2_EXTERNAL_ODOM_TIMEOUT_S = Fin 1"
definition CLASSIC_MOTION_STATE_MARKERS :: "int list" where "CLASSIC_MOTION_STATE_MARKERS = [100, 2010]"
definition COMMISSIONING_STATE_TIMEOUT_S :: pyfloat where "COMMISSIONING_STATE_TIMEOUT_S = fl (2 / 10)"
definition ODOM_SOURCE_SPORT_STATE :: string where "ODOM_SOURCE_SPORT_STATE = ''sport_state''"
definition ODOM_SOURCE_EXTERNAL_VERIFIED :: string where "ODOM_SOURCE_EXTERNAL_VERIFIED = ''external_verified''"
definition DEFAULT_EXTERNAL_ODOM_TOPIC :: string where
  "DEFAULT_EXTERNAL_ODOM_TOPIC = ''/robonix/time_corrected/raw/utlidar/robot_odom''"
definition external_odom_prefix :: string where "external_odom_prefix = ''/robonix/time_corrected/''"

definition known_keys :: "string list" where
  "known_keys = [''state_topic'', ''state_fallback_topic'', ''twist_in_topic'', ''odom_topic'', ''odom_source'',
     ''external_odom_topic'', ''external_odom_timeout_s'', ''max_external_odom_yaw_jump_rad'', ''publish_odom_tf'',
     ''stationary_pose_hold_enabled'', ''stationary_hold_dwell_s'', ''stationary_hold_sport_max_linear_mps'',
     ''stationary_hold_sport_max_yaw_rps'', ''stationary_hold_external_twist_max_linear_mps'',
     ''stationary_hold_external_twist_max_yaw_rps'', ''stationary_hold_pose_max_linear_rate_mps'',
     ''stationary_hold_pose_max_yaw_rate_rps'', ''imu_topic'', ''status_topic'', ''diagnostics_topic'', ''arm_service'',
     ''odom_frame'', ''base_frame'', ''imu_frame'', ''velocity_frame'', ''network_interface'', ''ipc_socket'',
     ''allow_motion'', ''motion_profile'', ''preserve_classic_walk'', ''operator_present'', ''safety_ack'',
     ''allowed_modes'', ''allowed_state_markers'', ''allow_passive_state_marker_transitions'',
     ''allow_motion_state_marker_transitions'', ''max_linear_x_mps'', ''max_linear_y_mps'', ''max_angular_z_rps'',
     ''max_linear_accel_mps2'', ''max_angular_accel_rps2'', ''command_timeout_s'', ''state_timeout_s'',
     ''max_source_stamp_age_s'', ''max_source_stamp_future_skew_s'', ''zero_preamble_s'', ''control_rate_hz'',
     ''max_position_jump_m'', ''startup_timeout_s'', ''commissioning_max_duration_s'', ''commissioning_max_distance_m'']"

section \<open>Field readers\<close>

definition cfg_require :: "bool \<Rightarrow> string \<Rightarrow> chassis_exc + unit" where
  "cfg_require ok msg = raise_unless ok (ConfigError msg)"

definition cfg_boolean :: "pyval \<Rightarrow> string \<Rightarrow> bool \<Rightarrow> chassis_exc + bool" where
  "cfg_boolean v name default_value =
     (case v of
        VNone \<Rightarrow> Inr default_value
      | VBool b \<Rightarrow> Inr b
      | VStr s \<Rightarrow>
          let normalized = str_lower (str_strip s) in
          if normalized \<in> {''1'', ''true'', ''yes'', ''on''} then Inr True
          else if normalized \<in> {''0'', ''false'', ''no'', ''off''} then Inr False
          else Inl (ConfigError (name @ '' must be an explicit boolean''))
      | _ \<Rightarrow> Inl (ConfigError (name @ '' must be an explicit boolean'')))"

definition cfg_text :: "pyval \<Rightarrow> string \<Rightarrow> string \<Rightarrow> bool \<Rightarrow> chassis_exc + string" where
  "cfg_text v name default_value allow_empty =
     (case (if v = VNone then VStr default_value else v) of
        VStr s \<Rightarrow>
          let result = str_strip s in
          if result = [] \<and> \<not> allow_empty then Inl (ConfigError (name @ '' must not be empty'')) else Inr result
      | _ \<Rightarrow> Inl (ConfigError (name @ '' must be a string'')))"

definition topic_char :: "char \<Rightarrow> bool" where
  "topic_char c \<longleftrightarrow> is_alnum c \<or> c = CHR ''_'' \<or> c = CHR ''/''"

definition TOPIC_RE :: "string \<Rightarrow> bool" where
  "TOPIC_RE s \<longleftrightarrow> (case s of [] \<Rightarrow> False | c # cs \<Rightarrow> c = CHR ''/'' \<and> cs \<noteq> [] \<and> list_all topic_char cs)"

definition FRAME_RE :: "string \<Rightarrow> bool" where
  "FRAME_RE s \<longleftrightarrow> (case s of [] \<Rightarrow> False | c # cs \<Rightarrow> is_alpha c \<and> list_all topic_char cs)"

definition INTERFACE_RE :: "string \<Rightarrow> bool" where
  "INTERFACE_RE s \<longleftrightarrow> s \<noteq> [] \<and> list_all (\<lambda>c. word_dot_dash c \<or> c = CHR '':'') s"

definition cfg_topic :: "pyval \<Rightarrow> string \<Rightarrow> string \<Rightarrow> bool \<Rightarrow> chassis_exc + string" where
  "cfg_topic v name default_value allow_empty =
     obind (cfg_text v name default_value allow_empty) (\<lambda>result.
     obind (cfg_require (\<not> (result \<noteq> [] \<and> (\<not> TOPIC_RE result \<or> sublist ''//'' result)))
       (name @ '' is not a canonical absolute ROS topic'')) (\<lambda>_. Inr result))"

definition cfg_frame :: "pyval \<Rightarrow> string \<Rightarrow> string \<Rightarrow> chassis_exc + string" where
  "cfg_frame v name default_value =
     obind (cfg_text v name default_value False) (\<lambda>result.
     obind (cfg_require (\<not> (\<not> FRAME_RE result \<or> sublist ''//'' result))
       (name @ '' is not a valid frame id'')) (\<lambda>_. Inr result))"

text \<open>\<open>float(value)\<close> of an integer beyond the range of doubles raises \<open>OverflowError\<close>.\<close>

definition cfg_number ::
  "pyval \<Rightarrow> string \<Rightarrow> pyfloat \<Rightarrow> pyfloat \<Rightarrow> pyfloat \<Rightarrow> bool \<Rightarrow> chassis_exc + pyfloat" where
  "cfg_number v name default_value minimum maximum include_minimum =
     obind (case (if v = VNone then VFloat default_value else v) of
         VInt i \<Rightarrow> (case float_of_int i of Some f \<Rightarrow> Inr f | None \<Rightarrow> Inl EscapedOverflow)
       | VFloat f \<Rightarrow> Inr f
       | _ \<Rightarrow> Inl (ConfigError (name @ '' must be a number''))) (\<lambda>result.
     let minimum_ok = (if include_minimum then fle minimum result else fless minimum result) in
     obind (cfg_require (\<not> (\<not> isfinite result \<or> \<not> minimum_ok \<or> fless maximum result))
       (name @ '' must be finite, within bounds'')) (\<lambda>_. Inr result))"

text \<open>A list without its later repetitions.\<close>

definition first_occurrences :: "int list \<Rightarrow> int list" where
  "first_occurrences xs = rev (remdups (rev xs))"

definition cfg_int_item :: "string \<Rightarrow> int \<Rightarrow> int \<Rightarrow> pyval \<Rightarrow> chassis_exc + int" where
  "cfg_int_item msg lo hi v = (case v of
       VInt i \<Rightarrow> if lo \<le> i \<and> i \<le> hi then Inr i else Inl (ConfigError msg)
     | _ \<Rightarrow> Inl (ConfigError msg))"

definition cfg_mode_list :: "pyval \<Rightarrow> string \<Rightarrow> chassis_exc + int list" where
  "cfg_mode_list v name = (case v of
       VList (x # xs) \<Rightarrow> obind (all_ok (cfg_int_item (name @ '' entries must be uint8 integers'') 0 255) (x # xs))
         (\<lambda>modes. Inr (first_occurrences modes))
     | _ \<Rightarrow> Inl (ConfigError (name @ '' must be a non-empty list'')))"

definition cfg_state_marker_list :: "pyval \<Rightarrow> string \<Rightarrow> chassis_exc + int list" where
  "cfg_state_marker_list v name = (case v of
       VList xs \<Rightarrow> obind (all_ok (cfg_int_item (name @ '' entries must be non-zero uint32 integers'') 1 4294967295) xs)
         (\<lambda>markers. Inr (first_occurrences markers))
     | _ \<Rightarrow> Inl (ConfigError (name @ '' must be a list'')))"

definition audited_tokens :: "string \<Rightarrow> string list" where
  "audited_tokens raw = map str_strip (split_on (CHR '','') (replace_char (CHR '';'') (CHR '','') raw))"

definition audited_token :: "string \<Rightarrow> int \<Rightarrow> int \<Rightarrow> string \<Rightarrow> chassis_exc + int" where
  "audited_token name lo hi token =
     obind (cfg_require (token \<noteq> [] \<and> list_all is_digit token) (name @ '' entries must be decimal values'')) (\<lambda>_.
     obind (case int_of_str token of Some i \<Rightarrow> Inr i | None \<Rightarrow> Inl EscapedValueError) (\<lambda>i.
     obind (cfg_require (lo \<le> i \<and> i \<le> hi) (name @ '' entries must be in range'')) (\<lambda>_. Inr i)))"

definition parse_audited_modes :: "(string \<rightharpoonup> string) \<Rightarrow> chassis_exc + int list" where
  "parse_audited_modes env =
     (let raw = str_strip (env_get env ''GO2_ALLOWED_MODES'') in
      obind (cfg_require (raw \<noteq> []) ''motion requires explicit GO2_ALLOWED_MODES from the read-only audit'') (\<lambda>_.
      obind (cfg_require (list_all (\<lambda>t. t \<noteq> []) (audited_tokens raw)) ''GO2_ALLOWED_MODES contains an empty entry'') (\<lambda>_.
      obind (all_ok (audited_token ''GO2_ALLOWED_MODES'' 0 (UNKNOWN_MODE - 1)) (audited_tokens raw)) (\<lambda>modes.
      Inr (first_occurrences modes)))))"

definition parse_allowed_state_markers :: "(string \<rightharpoonup> string) \<Rightarrow> chassis_exc + int list" where
  "parse_allowed_state_markers env =
     (let raw = str_strip (env_get env ''GO2_ALLOWED_STATE_MARKERS'') in
      if raw = [] then Inr []
      else
        obind (cfg_require (list_all (\<lambda>t. t \<noteq> []) (audited_tokens raw))
          ''GO2_ALLOWED_STATE_MARKERS contains an empty entry'') (\<lambda>_.
        obind (all_ok (audited_token ''GO2_ALLOWED_STATE_MARKERS'' 1 4294967295) (audited_tokens raw)) (\<lambda>markers.
        Inr (first_occurrences markers))))"

section \<open>RuntimeConfig\<close>

record chassis_runtime =
  cr_state_topic :: string
  cr_state_fallback_topic :: string
  cr_twist_in_topic :: string
  cr_odom_topic :: string
  cr_odom_source :: string
  cr_external_odom_topic :: string
  cr_external_odom_timeout_s :: pyfloat
  cr_max_external_odom_yaw_jump_rad :: pyfloat
  cr_publish_odom_tf :: bool
  cr_stationary_pose_hold_enabled :: bool
  cr_stationary_hold_dwell_s :: pyfloat
  cr_stationary_hold_sport_max_linear_mps :: pyfloat
  cr_stationary_hold_sport_max_yaw_rps :: pyfloat
  cr_stationary_hold_external_twist_max_linear_mps :: pyfloat
  cr_stationary_hold_external_twist_max_yaw_rps :: pyfloat
  cr_stationary_hold_pose_max_linear_rate_mps :: pyfloat
  cr_stationary_hold_pose_max_yaw_rate_rps :: pyfloat
  cr_imu_topic :: string
  cr_status_topic :: string
  cr_diagnostics_topic :: string
  cr_arm_service :: string
  cr_odom_frame :: string
  cr_base_frame :: string
  cr_imu_frame :: string
  cr_velocity_frame :: string
  cr_network_interface :: string
  cr_ipc_socket :: posix_path
  cr_allow_motion :: bool
  cr_motion_profile :: string
  cr_preserve_classic_walk :: bool
  cr_allowed_modes :: "int list"
  cr_allowed_state_markers :: "int list"
  cr_allow_passive_state_marker_transitions :: bool
  cr_allow_motion_state_marker_transitions :: bool
  cr_max_linear_x_mps :: pyfloat
  cr_max_linear_y_mps :: pyfloat
  cr_max_angular_z_rps :: pyfloat
  cr_max_linear_accel_mps2 :: pyfloat
  cr_max_angular_accel_rps2 :: pyfloat
  cr_command_timeout_s :: pyfloat
  cr_state_timeout_s :: pyfloat
  cr_max_source_stamp_age_s :: pyfloat
  cr_max_source_stamp_future_skew_s :: pyfloat
  cr_zero_preamble_s :: pyfloat
  cr_control_rate_hz :: pyfloat
  cr_max_position_jump_m :: pyfloat
  cr_startup_timeout_s :: pyfloat
  cr_commissioning_max_duration_s :: pyfloat
  cr_commissioning_max_distance_m :: pyfloat

definition starts_sdk_daemon :: "chassis_runtime \<Rightarrow> bool" where
  "starts_sdk_daemon r = cr_allow_motion r"

definition comma_list :: "int list \<Rightarrow> string" where
  "comma_list ns = join_with '','' (map int_text ns)"

definition process_env :: "chassis_runtime \<Rightarrow> (string \<times> string) list" where
  "process_env r =
     [(''RMW_IMPLEMENTATION'', ''rmw_cyclonedds_cpp''),
      (''GO2_ALLOW_MOTION'', if cr_allow_motion r then ''1'' else ''0''),
      (''GO2_MOTION_PROFILE'', cr_motion_profile r),
      (''GO2_NETWORK_INTERFACE'', cr_network_interface r),
      (''GO2_SDK_SOCKET'', path_text (cr_ipc_socket r)),
      (''GO2_ALLOWED_MODES'', comma_list (cr_allowed_modes r)),
      (''GO2_ALLOWED_STATE_MARKERS'', comma_list (cr_allowed_state_markers r))]"

text \<open>\<open>executable.resolve()\<close> is the second argument.\<close>

definition sdk_daemon_env :: "chassis_runtime \<Rightarrow> posix_path \<Rightarrow> (string \<times> string) list" where
  "sdk_daemon_env r resolved =
     process_env r @ [(''LD_LIBRARY_PATH'', path_text (path_join (path_parent (path_parent resolved)) [''lib'']))]"

definition bool_word :: "bool \<Rightarrow> string" where
  "bool_word b = (if b then ''true'' else ''false'')"

definition adapter_parameters :: "chassis_runtime \<Rightarrow> (string \<times> string) list" where
  "adapter_parameters r =
     [(''allow_motion'', bool_word (cr_allow_motion r)),
      (''sport_state_topic'', cr_state_topic r),
      (''state_fallback_topic'', cr_state_fallback_topic r),
      (''cmd_vel_topic'', cr_twist_in_topic r),
      (''odom_topic'', cr_odom_topic r),
      (''odom_source'', cr_odom_source r),
      (''external_odom_topic'', cr_external_odom_topic r),
      (''external_odom_timeout_sec'', float_text (cr_external_odom_timeout_s r)),
      (''max_external_odom_yaw_jump_rad'', float_text (cr_max_external_odom_yaw_jump_rad r)),
      (''publish_odom_tf'', bool_word (cr_publish_odom_tf r)),
      (''imu_topic'', cr_imu_topic r),
      (''status_topic'', cr_status_topic r),
      (''diagnostics_topic'', cr_diagnostics_topic r),
      (''arm_service'', cr_arm_service r),
      (''odom_frame'', cr_odom_frame r),
      (''base_frame'', cr_base_frame r),
      (''imu_frame'', cr_imu_frame r),
      (''state_velocity_frame'', cr_velocity_frame r),
      (''sdk_socket'', path_text (cr_ipc_socket r)),
      (''preserve_classic_walk'', bool_word (cr_preserve_classic_walk r)),
      (''allowed_modes'', ''['' @ comma_list (cr_allowed_modes r) @ '']''),
      (''allow_passive_state_marker_transitions'', bool_word (cr_allow_passive_state_marker_transitions r)),
      (''allow_motion_state_marker_transitions'', bool_word (cr_allow_motion_state_marker_transitions r)),
      (''state_timeout_sec'', float_text (cr_state_timeout_s r)),
      (''max_source_stamp_age_sec'', float_text (cr_max_source_stamp_age_s r)),
      (''max_source_stamp_future_skew_sec'', float_text (cr_max_source_stamp_future_skew_s r)),
      (''command_timeout_sec'', float_text (cr_command_timeout_s r)),
      (''zero_preparation_sec'', float_text (cr_zero_preamble_s r)),
      (''control_rate_hz'', float_text (cr_control_rate_hz r)),
      (''max_vx'', float_text (cr_max_linear_x_mps r)),
      (''max_vy'', float_text (cr_max_linear_y_mps r)),
      (''max_wz'', float_text (cr_max_angular_z_rps r)),
      (''max_linear_acceleration'', float_text (cr_max_linear_accel_mps2 r)),
      (''max_angular_acceleration'', float_text (cr_max_angular_accel_rps2 r)),
      (''max_position_jump_m'', float_text (cr_max_position_jump_m r)),
      (''commissioning_max_duration_sec'', float_text (cr_commissioning_max_duration_s r)),
      (''commissioning_max_distance_m'', float_text (cr_commissioning_max_distance_m r))] @
     (if cr_motion_profile r \<noteq> FIRST_MOTION_PROFILE then [(''motion_profile'', cr_motion_profile r)] else []) @
     (if cr_stationary_pose_hold_enabled r then
        [(''stationary_pose_hold_enabled'', ''true''),
         (''stationary_hold_dwell_sec'', float_text (cr_stationary_hold_dwell_s r)),
         (''stationary_hold_sport_max_linear_mps'', float_text (cr_stationary_hold_sport_max_linear_mps r)),
         (''stationary_hold_sport_max_yaw_rps'', float_text (cr_stationary_hold_sport_max_yaw_rps r)),
         (''stationary_hold_external_twist_max_linear_mps'', float_text (cr_stationary_hold_external_twist_max_linear_mps r)),
         (''stationary_hold_external_twist_max_yaw_rps'', float_text (cr_stationary_hold_external_twist_max_yaw_rps r)),
         (''stationary_hold_pose_max_linear_rate_mps'', float_text (cr_stationary_hold_pose_max_linear_rate_mps r)),
         (''stationary_hold_pose_max_yaw_rate_rps'', float_text (cr_stationary_hold_pose_max_yaw_rate_rps r))]
      else []) @
     (if cr_allowed_state_markers r \<noteq> []
      then [(''allowed_state_markers'', ''['' @ comma_list (cr_allowed_state_markers r) @ '']'')] else [])"

definition adapter_argv :: "chassis_runtime \<Rightarrow> posix_path \<Rightarrow> posix_path \<Rightarrow> string list" where
  "adapter_argv r executable params_file =
     [path_text executable, ''--ros-args'', ''--params-file'', path_text params_file] @
     concat (map (\<lambda>(name, v). [''-p'', name @ '':='' @ (if v = [] then [CHR 0x27, CHR 0x27] else v)])
       (adapter_parameters r))"

text \<open>\<open>int(x)\<close> of a finite float.\<close>

definition truncated :: "pyfloat \<Rightarrow> int" where
  "truncated x = (case x of Fin q \<Rightarrow> if 0 \<le> q then \<lfloor>q\<rfloor> else \<lceil>q\<rceil> | _ \<Rightarrow> 0)"

definition daemon_argv :: "chassis_runtime \<Rightarrow> posix_path \<Rightarrow> chassis_exc + string list" where
  "daemon_argv r executable =
     obind (cfg_require (cr_allow_motion r) ''SDK daemon must not start while motion is disabled'') (\<lambda>_.
     Inr ([path_text executable, ''--socket'', path_text (cr_ipc_socket r), ''--watchdog-ms'', ''300'',
           ''--max-vx'', float_text (cr_max_linear_x_mps r), ''--max-vy'', float_text (cr_max_linear_y_mps r),
           ''--max-wz'', float_text (cr_max_angular_z_rps r),
           ''--max-motion-ms'', int_text (truncated (fmul (cr_commissioning_max_duration_s r) (Fin 1000))),
           ''--allow-motion'', ''--interface'', cr_network_interface r,
           ''--motion-ack'', ''GO2_PHYSICAL_MOTION_APPROVED''] @
          (if cr_motion_profile r \<noteq> FIRST_MOTION_PROFILE then [''--motion-profile'', cr_motion_profile r] else []) @
          (if cr_preserve_classic_walk r then [''--preserve-classic-walk''] else [])))"

section \<open>The motion gate\<close>

record motion_gate =
  mg_motion :: bool
  mg_profile :: string
  mg_preserve :: bool
  mg_interface :: string
  mg_modes :: "int list"

definition motion_profiles :: "string list" where
  "motion_profiles = [FIRST_MOTION_PROFILE, SECOND_MOTION_PROFILE, STAGED_NAV2_PROFILE]"

definition read_gate :: "json_object \<Rightarrow> (string \<rightharpoonup> string) \<Rightarrow> chassis_exc + motion_gate" where
  "read_gate cfg env =
     obind (cfg_boolean (dict_get cfg ''allow_motion'') ''allow_motion'' False) (\<lambda>motion.
     obind (cfg_text (dict_get cfg ''motion_profile'') ''motion_profile'' [] True) (\<lambda>profile.
     obind (cfg_boolean (dict_get cfg ''preserve_classic_walk'') ''preserve_classic_walk'' False) (\<lambda>preserve.
     obind (cfg_boolean (dict_get cfg ''operator_present'') ''operator_present'' False) (\<lambda>operator_present.
     obind (cfg_text (dict_get cfg ''safety_ack'') ''safety_ack'' [] True) (\<lambda>ack.
     obind (cfg_mode_list (get_or cfg ''allowed_modes'' (VList [VInt UNKNOWN_MODE])) ''allowed_modes'') (\<lambda>configured.
     obind (cfg_require (configured = [UNKNOWN_MODE]) ''Driver allowed_modes must remain [255]'') (\<lambda>_.
     obind (cfg_text (dict_get cfg ''network_interface'') ''network_interface'' [] (\<not> motion)) (\<lambda>interface.
     obind (cfg_require (\<not> (interface \<noteq> [] \<and> \<not> INTERFACE_RE interface))
       ''network_interface contains unsupported characters'') (\<lambda>_.
     obind (if motion then
         obind (cfg_require operator_present ''motion requires operator_present=true'') (\<lambda>_.
         obind (cfg_require (ack = SAFETY_ACK) ''motion requires the exact safety_ack phrase'') (\<lambda>_.
         obind (cfg_require (interface \<noteq> []) ''motion requires a dedicated network_interface'') (\<lambda>_.
         obind (cfg_require (profile \<in> set motion_profiles) ''motion requires an independently audited profile'') (\<lambda>_.
         parse_audited_modes env))))
       else Inr [UNKNOWN_MODE]) (\<lambda>modes.
     obind (cfg_require (\<not> (preserve \<and> (\<not> motion \<or> profile \<noteq> STAGED_NAV2_PROFILE)))
       ''preserve_classic_walk requires the staged Nav2 motion profile'') (\<lambda>_.
     Inr \<lparr>mg_motion = motion, mg_profile = profile, mg_preserve = preserve, mg_interface = interface,
          mg_modes = modes\<rparr>)))))))))))"

definition staged_gate :: "motion_gate \<Rightarrow> bool" where
  "staged_gate g \<longleftrightarrow> mg_motion g \<and> mg_profile g = STAGED_NAV2_PROFILE"

definition read_markers ::
  "json_object \<Rightarrow> (string \<rightharpoonup> string) \<Rightarrow> motion_gate \<Rightarrow> chassis_exc + int list \<times> bool \<times> bool" where
  "read_markers cfg env g =
     obind (parse_allowed_state_markers env) (\<lambda>from_env.
     obind (case dict_get cfg ''allowed_state_markers'' of
         VNone \<Rightarrow> Inr from_env
       | v \<Rightarrow>
         obind (cfg_state_marker_list v ''allowed_state_markers'') (\<lambda>configured.
         obind (cfg_require (\<not> (mg_motion g \<and> configured \<noteq> []))
           ''motion state markers must come from the audited runtime permit'') (\<lambda>_.
         obind (cfg_require (\<not> (from_env \<noteq> [] \<and> from_env \<noteq> configured))
           ''allowed_state_markers disagrees with GO2_ALLOWED_STATE_MARKERS'') (\<lambda>_. Inr configured)))) (\<lambda>markers.
     obind (cfg_boolean (dict_get cfg ''allow_passive_state_marker_transitions'')
       ''allow_passive_state_marker_transitions'' False) (\<lambda>passive.
     obind (cfg_boolean (dict_get cfg ''allow_motion_state_marker_transitions'')
       ''allow_motion_state_marker_transitions'' False) (\<lambda>moving.
     Inr (markers, passive, moving)))))"

text \<open>\<open>sha256\<close> is the hexadecimal digest, \<open>root_text\<close> the resolved package root, \<open>uid\<close> \<open>os.getuid()\<close>.\<close>

definition read_socket :: "json_object \<Rightarrow> (string \<Rightarrow> string) \<Rightarrow> string \<Rightarrow> int \<Rightarrow> chassis_exc + posix_path" where
  "read_socket cfg sha256 root_text uid =
     (let socket_default = ''/tmp/robonix-go2-'' @ int_text uid @ ''-'' @ take 12 (sha256 root_text) @ ''/sport.sock'' in
      obind (cfg_text (dict_get cfg ''ipc_socket'') ''ipc_socket'' socket_default False) (\<lambda>t.
      let socket = path_of t in
      obind (cfg_require (\<not> (\<not> is_absolute socket \<or> 108 \<le> length (path_text socket)))
        ''ipc_socket must be an absolute Unix socket path under 108 bytes'') (\<lambda>_. Inr socket)))"


section \<open>Topics, odometry and the stationary hold\<close>

record odometry =
  od_state :: string
  od_fallback :: string
  od_velocity_frame :: string
  od_twist_in :: string
  od_odom :: string
  od_source :: string
  od_external :: string
  od_timeout :: pyfloat
  od_yaw_jump :: pyfloat
  od_tf :: bool

definition read_odometry :: "json_object \<Rightarrow> motion_gate \<Rightarrow> chassis_exc + odometry" where
  "read_odometry cfg g =
     obind (cfg_topic (dict_get cfg ''state_topic'') ''state_topic'' ''/sportmodestate'' False) (\<lambda>state.
     obind (cfg_topic (dict_get cfg ''state_fallback_topic'') ''state_fallback_topic'' ''/lf/sportmodestate'' True) (\<lambda>fallback.
     obind (cfg_text (dict_get cfg ''velocity_frame'') ''velocity_frame'' ''odom'' False) (\<lambda>velocity_frame.
     obind (cfg_require (velocity_frame \<in> {''odom'', ''base_link''}) ''velocity_frame must be odom or base_link'') (\<lambda>_.
     obind (cfg_topic (dict_get cfg ''twist_in_topic'') ''twist_in_topic'' ''/cmd_vel'' False) (\<lambda>twist_in.
     obind (cfg_topic (dict_get cfg ''odom_topic'') ''odom_topic'' ''/odom'' False) (\<lambda>odom.
     obind (cfg_text (dict_get cfg ''odom_source'') ''odom_source'' ODOM_SOURCE_SPORT_STATE False) (\<lambda>source.
     obind (cfg_require (source \<in> {ODOM_SOURCE_SPORT_STATE, ODOM_SOURCE_EXTERNAL_VERIFIED})
       ''odom_source must be sport_state or external_verified'') (\<lambda>_.
     obind (cfg_topic (dict_get cfg ''external_odom_topic'') ''external_odom_topic'' DEFAULT_EXTERNAL_ODOM_TOPIC False) (\<lambda>external.
     let limit = (if staged_gate g then STAGED_NAV2_EXTERNAL_ODOM_TIMEOUT_S else COMMISSIONING_STATE_TIMEOUT_S) in
     obind (cfg_number (dict_get cfg ''external_odom_timeout_s'') ''external_odom_timeout_s'' limit (fl (5 / 100)) limit True) (\<lambda>timeout.
     obind (cfg_number (dict_get cfg ''max_external_odom_yaw_jump_rad'') ''max_external_odom_yaw_jump_rad'' (Fin 1) (fl (1 / 10)) (Fin 1) True) (\<lambda>yaw_jump.
     obind (cfg_boolean (dict_get cfg ''publish_odom_tf'') ''publish_odom_tf'' True) (\<lambda>tf.
     Inr \<lparr>od_state = state, od_fallback = (if fallback = state then [] else fallback),
          od_velocity_frame = velocity_frame, od_twist_in = twist_in, od_odom = odom, od_source = source,
          od_external = external, od_timeout = timeout, od_yaw_jump = yaw_jump, od_tf = tf\<rparr>))))))))))))"

record stationary_hold =
  sh_enabled :: bool
  sh_dwell :: pyfloat
  sh_sport_linear :: pyfloat
  sh_sport_yaw :: pyfloat
  sh_twist_linear :: pyfloat
  sh_twist_yaw :: pyfloat
  sh_pose_linear :: pyfloat
  sh_pose_yaw :: pyfloat

text \<open>A number whose default is its upper bound and which must be positive.\<close>

definition positive_up_to :: "json_object \<Rightarrow> string \<Rightarrow> pyfloat \<Rightarrow> chassis_exc + pyfloat" where
  "positive_up_to cfg name maximum = cfg_number (dict_get cfg name) name maximum (Fin 0) maximum False"

definition read_hold :: "json_object \<Rightarrow> chassis_exc + stationary_hold" where
  "read_hold cfg =
     obind (cfg_boolean (dict_get cfg ''stationary_pose_hold_enabled'') ''stationary_pose_hold_enabled'' False) (\<lambda>enabled.
     obind (cfg_number (dict_get cfg ''stationary_hold_dwell_s'') ''stationary_hold_dwell_s'' (Fin 2) (Fin 1) (Fin 10) True) (\<lambda>dwell.
     obind (positive_up_to cfg ''stationary_hold_sport_max_linear_mps'' (fl (3 / 100))) (\<lambda>sport_linear.
     obind (positive_up_to cfg ''stationary_hold_sport_max_yaw_rps'' (fl (3 / 100))) (\<lambda>sport_yaw.
     obind (positive_up_to cfg ''stationary_hold_external_twist_max_linear_mps'' (fl (3 / 100))) (\<lambda>twist_linear.
     obind (positive_up_to cfg ''stationary_hold_external_twist_max_yaw_rps'' (fl (3 / 100))) (\<lambda>twist_yaw.
     obind (positive_up_to cfg ''stationary_hold_pose_max_linear_rate_mps'' (fl (5 / 1000))) (\<lambda>pose_linear.
     obind (positive_up_to cfg ''stationary_hold_pose_max_yaw_rate_rps'' (fl (1 / 100))) (\<lambda>pose_yaw.
     Inr \<lparr>sh_enabled = enabled, sh_dwell = dwell, sh_sport_linear = sport_linear, sh_sport_yaw = sport_yaw,
          sh_twist_linear = twist_linear, sh_twist_yaw = twist_yaw, sh_pose_linear = pose_linear,
          sh_pose_yaw = pose_yaw\<rparr>))))))))"

definition check_sources ::
  "motion_gate \<Rightarrow> int list \<Rightarrow> bool \<Rightarrow> bool \<Rightarrow> odometry \<Rightarrow> stationary_hold \<Rightarrow> chassis_exc + unit" where
  "check_sources g markers passive moving od hold =
     (let verified = (od_source od = ODOM_SOURCE_EXTERNAL_VERIFIED) in
     obind (cfg_require (verified \<longrightarrow> od_external od \<noteq> od_odom od)
       ''external_odom_topic must differ from canonical odom_topic'') (\<lambda>_.
     obind (cfg_require (verified \<longrightarrow> prefix external_odom_prefix (od_external od))
       ''external_verified odom must use a private topic'') (\<lambda>_.
     obind (cfg_require (verified \<longrightarrow> od_odom od = FIRST_MOTION_ODOM_TOPIC \<and> od_tf od)
       ''external_verified mode requires chassis-owned /odom and odom -> base_link TF'') (\<lambda>_.
     obind (cfg_require (sh_enabled hold \<longrightarrow> \<not> mg_motion g \<and> verified \<and> od_tf od)
       ''stationary_pose_hold_enabled requires allow_motion=false'') (\<lambda>_.
     obind (cfg_require (passive \<longrightarrow> \<not> mg_motion g \<and> verified)
       ''allow_passive_state_marker_transitions requires allow_motion=false and odom_source=external_verified'') (\<lambda>_.
     obind (cfg_require (passive \<longrightarrow> 2 \<le> length markers)
       ''allow_passive_state_marker_transitions requires at least two explicit allowed_state_markers'') (\<lambda>_.
     cfg_require (moving \<longrightarrow> mg_motion g \<and> mg_profile g = STAGED_NAV2_PROFILE \<and> verified \<and> \<not> passive \<and>
         length (mg_modes g) = 1 \<and> set markers = set CLASSIC_MOTION_STATE_MARKERS)
       ''allow_motion_state_marker_transitions requires staged Nav2'')))))))"

section \<open>The motion envelope\<close>

record motion_limits =
  ml_vx :: pyfloat
  ml_vy :: pyfloat
  ml_wz :: pyfloat
  ml_command_timeout :: pyfloat
  ml_duration :: pyfloat
  ml_distance :: pyfloat

definition staged_max_linear_x :: "(string \<rightharpoonup> string) \<Rightarrow> pyfloat" where
  "staged_max_linear_x env =
     (if str_strip (env_get env ''GO2_ROBOTTRACK_MODE'') = ''true'' then ROBOTTRACK_MAX_VX_MPS else STAGED_NAV2_MAX_VX_MPS)"

definition max_linear_x_ceiling :: "(string \<rightharpoonup> string) \<Rightarrow> motion_gate \<Rightarrow> pyfloat" where
  "max_linear_x_ceiling env g =
     (if staged_gate g then staged_max_linear_x env
      else if mg_motion g \<and> mg_profile g = SECOND_MOTION_PROFILE then SECOND_MOTION_MAX_VX_MPS else fl (1 / 4))"

definition read_motion_limits ::
  "json_object \<Rightarrow> (string \<rightharpoonup> string) \<Rightarrow> motion_gate \<Rightarrow> chassis_exc + motion_limits" where
  "read_motion_limits cfg env g =
     obind (cfg_number (dict_get cfg ''max_linear_x_mps'') ''max_linear_x_mps'' (fl (1 / 4)) (Fin 0) (max_linear_x_ceiling env g) False) (\<lambda>vx.
     obind (cfg_number (dict_get cfg ''max_linear_y_mps'') ''max_linear_y_mps'' (Fin 0) (Fin 0) (Fin 0) True) (\<lambda>vy.
     obind (cfg_number (dict_get cfg ''max_angular_z_rps'') ''max_angular_z_rps'' (fl (4 / 10)) (Fin 0) (fl (4 / 10)) True) (\<lambda>wz.
     obind (cfg_number (dict_get cfg ''command_timeout_s'') ''command_timeout_s'' (fl (1 / 4)) (fl (5 / 100)) (fl (1 / 4)) True) (\<lambda>timeout.
     obind (cfg_number (dict_get cfg ''commissioning_max_duration_s'') ''commissioning_max_duration_s'' FIRST_MOTION_MAX_DURATION_S (Fin 0) (Fin 20) True) (\<lambda>duration.
     obind (cfg_number (dict_get cfg ''commissioning_max_distance_m'') ''commissioning_max_distance_m'' FIRST_MOTION_MAX_DISTANCE_M (Fin 0) (fl (1 / 2)) True) (\<lambda>distance.
     Inr \<lparr>ml_vx = vx, ml_vy = vy, ml_wz = wz, ml_command_timeout = timeout, ml_duration = duration,
          ml_distance = distance\<rparr>))))))"

definition read_linear_accel :: "json_object \<Rightarrow> chassis_exc + pyfloat" where
  "read_linear_accel cfg = positive_up_to cfg ''max_linear_accel_mps2'' (fl (3 / 10))"

definition read_angular_accel :: "json_object \<Rightarrow> chassis_exc + pyfloat" where
  "read_angular_accel cfg = positive_up_to cfg ''max_angular_accel_rps2'' (fl (8 / 10))"

definition read_state_timeout :: "json_object \<Rightarrow> pyfloat \<Rightarrow> pyfloat \<Rightarrow> chassis_exc + pyfloat" where
  "read_state_timeout cfg default_value maximum =
     cfg_number (dict_get cfg ''state_timeout_s'') ''state_timeout_s'' default_value (fl (5 / 100)) maximum True"

definition read_source_age :: "json_object \<Rightarrow> chassis_exc + pyfloat" where
  "read_source_age cfg =
     cfg_number (dict_get cfg ''max_source_stamp_age_s'') ''max_source_stamp_age_s'' (fl (2 / 10)) (fl (5 / 100)) (fl (2 / 10)) True"

definition read_future_skew :: "json_object \<Rightarrow> chassis_exc + pyfloat" where
  "read_future_skew cfg =
     cfg_number (dict_get cfg ''max_source_stamp_future_skew_s'') ''max_source_stamp_future_skew_s'' (fl (5 / 100)) (Fin 0) (fl (5 / 100)) True"

definition read_control_rate :: "json_object \<Rightarrow> chassis_exc + pyfloat" where
  "read_control_rate cfg =
     cfg_number (dict_get cfg ''control_rate_hz'') ''control_rate_hz'' (Fin 50) (Fin 10) (Fin 100) True"

text \<open>
  An entry of \<open>required_envelope\<close>: its name and whether the value equals the required one. Reading
  an entry may raise.
\<close>

type_synonym envelope_entry = "chassis_exc + string \<times> bool"

definition text_entry :: "string \<Rightarrow> string \<Rightarrow> string \<Rightarrow> envelope_entry" where
  "text_entry name actual expected = Inr (name, actual = expected)"

definition float_entry :: "string \<Rightarrow> chassis_exc + pyfloat \<Rightarrow> pyfloat \<Rightarrow> envelope_entry" where
  "float_entry name actual expected = obind actual (\<lambda>x. Inr (name, feq x expected))"

definition first_envelope :: "json_object \<Rightarrow> odometry \<Rightarrow> motion_limits \<Rightarrow> envelope_entry list" where
  "first_envelope cfg od ml =
     [text_entry ''twist_in_topic'' (od_twist_in od) FIRST_MOTION_COMMAND_TOPIC,
      text_entry ''odom_topic'' (od_odom od) FIRST_MOTION_ODOM_TOPIC,
      Inr (''publish_odom_tf'', od_tf od),
      float_entry ''max_linear_x_mps'' (Inr (ml_vx ml)) FIRST_MOTION_MAX_VX_MPS,
      float_entry ''max_linear_y_mps'' (Inr (ml_vy ml)) FIRST_MOTION_MAX_VY_MPS,
      float_entry ''max_angular_z_rps'' (Inr (ml_wz ml)) FIRST_MOTION_MAX_WZ_RPS,
      float_entry ''commissioning_max_duration_s'' (Inr (ml_duration ml)) FIRST_MOTION_MAX_DURATION_S,
      float_entry ''commissioning_max_distance_m'' (Inr (ml_distance ml)) FIRST_MOTION_MAX_DISTANCE_M,
      float_entry ''command_timeout_s'' (Inr (ml_command_timeout ml)) FIRST_MOTION_COMMAND_TIMEOUT_S,
      float_entry ''state_timeout_s''
        (read_state_timeout cfg COMMISSIONING_STATE_TIMEOUT_S STAGED_NAV2_STATE_TIMEOUT_S) COMMISSIONING_STATE_TIMEOUT_S,
      float_entry ''max_source_stamp_age_s'' (read_source_age cfg) (fl (2 / 10))]"

definition second_envelope :: "json_object \<Rightarrow> odometry \<Rightarrow> motion_limits \<Rightarrow> envelope_entry list" where
  "second_envelope cfg od ml =
     [text_entry ''twist_in_topic'' (od_twist_in od) SECOND_MOTION_COMMAND_TOPIC,
      text_entry ''odom_topic'' (od_odom od) SECOND_MOTION_ODOM_TOPIC,
      Inr (''publish_odom_tf'', od_tf od),
      text_entry ''odom_source'' (od_source od) ODOM_SOURCE_EXTERNAL_VERIFIED,
      text_entry ''external_odom_topic'' (od_external od) DEFAULT_EXTERNAL_ODOM_TOPIC,
      float_entry ''external_odom_timeout_s'' (Inr (od_timeout od)) COMMISSIONING_STATE_TIMEOUT_S,
      float_entry ''max_linear_x_mps'' (Inr (ml_vx ml)) SECOND_MOTION_MAX_VX_MPS,
      float_entry ''max_linear_y_mps'' (Inr (ml_vy ml)) SECOND_MOTION_MAX_VY_MPS,
      float_entry ''max_angular_z_rps'' (Inr (ml_wz ml)) SECOND_MOTION_MAX_WZ_RPS,
      float_entry ''max_linear_accel_mps2'' (read_linear_accel cfg) SECOND_MOTION_MAX_LINEAR_ACCEL_MPS2,
      float_entry ''max_angular_accel_rps2'' (read_angular_accel cfg) SECOND_MOTION_MAX_ANGULAR_ACCEL_RPS2,
      float_entry ''commissioning_max_duration_s'' (Inr (ml_duration ml)) SECOND_MOTION_MAX_DURATION_S,
      float_entry ''commissioning_max_distance_m'' (Inr (ml_distance ml)) SECOND_MOTION_MAX_DISTANCE_M,
      float_entry ''command_timeout_s'' (Inr (ml_command_timeout ml)) SECOND_MOTION_COMMAND_TIMEOUT_S,
      float_entry ''control_rate_hz'' (read_control_rate cfg) SECOND_MOTION_CONTROL_RATE_HZ,
      float_entry ''state_timeout_s''
        (read_state_timeout cfg COMMISSIONING_STATE_TIMEOUT_S STAGED_NAV2_STATE_TIMEOUT_S) COMMISSIONING_STATE_TIMEOUT_S,
      float_entry ''max_source_stamp_age_s'' (read_source_age cfg) (fl (2 / 10)),
      float_entry ''max_source_stamp_future_skew_s'' (read_future_skew cfg) (fl (5 / 100))]"

definition staged_envelope ::
  "json_object \<Rightarrow> (string \<rightharpoonup> string) \<Rightarrow> odometry \<Rightarrow> motion_limits \<Rightarrow> envelope_entry list" where
  "staged_envelope cfg env od ml =
     [text_entry ''twist_in_topic'' (od_twist_in od) STAGED_NAV2_COMMAND_TOPIC,
      text_entry ''odom_topic'' (od_odom od) STAGED_NAV2_ODOM_TOPIC,
      Inr (''publish_odom_tf'', od_tf od),
      text_entry ''odom_source'' (od_source od) ODOM_SOURCE_EXTERNAL_VERIFIED,
      text_entry ''external_odom_topic'' (od_external od) DEFAULT_EXTERNAL_ODOM_TOPIC,
      float_entry ''external_odom_timeout_s'' (Inr (od_timeout od)) STAGED_NAV2_EXTERNAL_ODOM_TIMEOUT_S,
      float_entry ''max_linear_x_mps'' (Inr (ml_vx ml)) (staged_max_linear_x env),
      float_entry ''max_linear_y_mps'' (Inr (ml_vy ml)) STAGED_NAV2_MAX_VY_MPS,
      float_entry ''max_angular_z_rps'' (Inr (ml_wz ml)) STAGED_NAV2_MAX_WZ_RPS,
      float_entry ''max_linear_accel_mps2'' (read_linear_accel cfg) STAGED_NAV2_MAX_LINEAR_ACCEL_MPS2,
      float_entry ''max_angular_accel_rps2'' (read_angular_accel cfg) STAGED_NAV2_MAX_ANGULAR_ACCEL_RPS2,
      float_entry ''commissioning_max_duration_s'' (Inr (ml_duration ml)) STAGED_NAV2_MAX_DURATION_S,
      float_entry ''commissioning_max_distance_m'' (Inr (ml_distance ml)) STAGED_NAV2_MAX_DISTANCE_M,
      float_entry ''command_timeout_s'' (Inr (ml_command_timeout ml)) STAGED_NAV2_COMMAND_TIMEOUT_S,
      float_entry ''state_timeout_s''
        (read_state_timeout cfg STAGED_NAV2_STATE_TIMEOUT_S STAGED_NAV2_STATE_TIMEOUT_S) STAGED_NAV2_STATE_TIMEOUT_S,
      float_entry ''max_source_stamp_age_s'' (read_source_age cfg) (fl (2 / 10)),
      float_entry ''max_source_stamp_future_skew_s'' (read_future_skew cfg) (fl (5 / 100))]"

definition check_envelope ::
  "json_object \<Rightarrow> (string \<rightharpoonup> string) \<Rightarrow> motion_gate \<Rightarrow> odometry \<Rightarrow> motion_limits \<Rightarrow> chassis_exc + unit" where
  "check_envelope cfg env g od ml =
     (if \<not> mg_motion g then Inr ()
      else obind (all_ok (\<lambda>entry. entry)
          (if mg_profile g = FIRST_MOTION_PROFILE then first_envelope cfg od ml
           else if mg_profile g = SECOND_MOTION_PROFILE then second_envelope cfg od ml
           else staged_envelope cfg env od ml)) (\<lambda>entries.
        cfg_require (list_all snd entries) ''profile requires the exact motion envelope''))"

section \<open>normalize_config\<close>

definition build_runtime ::
  "json_object \<Rightarrow> motion_gate \<Rightarrow> int list \<Rightarrow> bool \<Rightarrow> bool \<Rightarrow> posix_path \<Rightarrow> odometry \<Rightarrow> stationary_hold \<Rightarrow>
   motion_limits \<Rightarrow> chassis_exc + chassis_runtime" where
  "build_runtime cfg g markers passive moving socket od hold ml =
     obind (cfg_topic (dict_get cfg ''imu_topic'') ''imu_topic'' ''/imu/data'' False) (\<lambda>imu.
     obind (cfg_topic (dict_get cfg ''status_topic'') ''status_topic'' ''/go2_chassis/status'' False) (\<lambda>status.
     obind (cfg_topic (dict_get cfg ''diagnostics_topic'') ''diagnostics_topic'' ''/diagnostics'' False) (\<lambda>diagnostics.
     obind (cfg_topic (dict_get cfg ''arm_service'') ''arm_service'' ''/go2_chassis/arm'' False) (\<lambda>arm.
     obind (cfg_frame (dict_get cfg ''odom_frame'') ''odom_frame'' ''odom'') (\<lambda>odom_frame.
     obind (cfg_frame (dict_get cfg ''base_frame'') ''base_frame'' ''base_link'') (\<lambda>base_frame.
     obind (cfg_frame (dict_get cfg ''imu_frame'') ''imu_frame'' ''imu'') (\<lambda>imu_frame.
     obind (read_linear_accel cfg) (\<lambda>linear_accel.
     obind (read_angular_accel cfg) (\<lambda>angular_accel.
     let limit = (if staged_gate g then STAGED_NAV2_STATE_TIMEOUT_S else COMMISSIONING_STATE_TIMEOUT_S) in
     obind (read_state_timeout cfg limit limit) (\<lambda>state_timeout.
     obind (read_source_age cfg) (\<lambda>source_age.
     obind (read_future_skew cfg) (\<lambda>future_skew.
     obind (cfg_number (dict_get cfg ''zero_preamble_s'') ''zero_preamble_s'' (fl (1 / 2)) (fl (1 / 2)) (Fin 5) True) (\<lambda>preamble.
     obind (read_control_rate cfg) (\<lambda>rate.
     obind (cfg_number (dict_get cfg ''max_position_jump_m'') ''max_position_jump_m'' (Fin 1) (fl (1 / 10)) (Fin 2) True) (\<lambda>jump.
     obind (cfg_number (dict_get cfg ''startup_timeout_s'') ''startup_timeout_s'' (Fin 15) (Fin 1) (Fin 60) True) (\<lambda>startup.
     Inr \<lparr>cr_state_topic = od_state od,
       cr_state_fallback_topic = od_fallback od,
       cr_twist_in_topic = od_twist_in od,
       cr_odom_topic = od_odom od,
       cr_odom_source = od_source od,
       cr_external_odom_topic = od_external od,
       cr_external_odom_timeout_s = od_timeout od,
       cr_max_external_odom_yaw_jump_rad = od_yaw_jump od,
       cr_publish_odom_tf = od_tf od,
       cr_stationary_pose_hold_enabled = sh_enabled hold,
       cr_stationary_hold_dwell_s = sh_dwell hold,
       cr_stationary_hold_sport_max_linear_mps = sh_sport_linear hold,
       cr_stationary_hold_sport_max_yaw_rps = sh_sport_yaw hold,
       cr_stationary_hold_external_twist_max_linear_mps = sh_twist_linear hold,
       cr_stationary_hold_external_twist_max_yaw_rps = sh_twist_yaw hold,
       cr_stationary_hold_pose_max_linear_rate_mps = sh_pose_linear hold,
       cr_stationary_hold_pose_max_yaw_rate_rps = sh_pose_yaw hold,
       cr_imu_topic = imu,
       cr_status_topic = status,
       cr_diagnostics_topic = diagnostics,
       cr_arm_service = arm,
       cr_odom_frame = odom_frame,
       cr_base_frame = base_frame,
       cr_imu_frame = imu_frame,
       cr_velocity_frame = od_velocity_frame od,
       cr_network_interface = mg_interface g,
       cr_ipc_socket = socket,
       cr_allow_motion = mg_motion g,
       cr_motion_profile = mg_profile g,
       cr_preserve_classic_walk = mg_preserve g,
       cr_allowed_modes = mg_modes g,
       cr_allowed_state_markers = markers,
       cr_allow_passive_state_marker_transitions = passive,
       cr_allow_motion_state_marker_transitions = moving,
       cr_max_linear_x_mps = ml_vx ml,
       cr_max_linear_y_mps = ml_vy ml,
       cr_max_angular_z_rps = ml_wz ml,
       cr_max_linear_accel_mps2 = linear_accel,
       cr_max_angular_accel_rps2 = angular_accel,
       cr_command_timeout_s = ml_command_timeout ml,
       cr_state_timeout_s = state_timeout,
       cr_max_source_stamp_age_s = source_age,
       cr_max_source_stamp_future_skew_s = future_skew,
       cr_zero_preamble_s = preamble,
       cr_control_rate_hz = rate,
       cr_max_position_jump_m = jump,
       cr_startup_timeout_s = startup,
       cr_commissioning_max_duration_s = ml_duration ml,
       cr_commissioning_max_distance_m = ml_distance ml\<rparr>))))))))))))))))"

definition normalize_object ::
  "(string \<Rightarrow> string) \<Rightarrow> string \<Rightarrow> int \<Rightarrow> json_object \<Rightarrow> (string \<rightharpoonup> string) \<Rightarrow> chassis_exc + chassis_runtime" where
  "normalize_object sha256 root_text uid cfg env =
     obind (cfg_require (set (map fst cfg) \<subseteq> set known_keys) ''unknown config keys'') (\<lambda>_.
     obind (read_gate cfg env) (\<lambda>g.
     obind (read_markers cfg env g) (\<lambda>(markers, passive, moving).
     obind (read_socket cfg sha256 root_text uid) (\<lambda>socket.
     obind (read_odometry cfg g) (\<lambda>od.
     obind (read_hold cfg) (\<lambda>hold.
     obind (check_sources g markers passive moving od hold) (\<lambda>_.
     obind (read_motion_limits cfg env g) (\<lambda>ml.
     obind (check_envelope cfg env g od ml) (\<lambda>_.
     build_runtime cfg g markers passive moving socket od hold ml)))))))))"

definition normalize_config ::
  "(string \<Rightarrow> string) \<Rightarrow> string \<Rightarrow> int \<Rightarrow> pyval \<Rightarrow> (string \<rightharpoonup> string) \<Rightarrow> chassis_exc + chassis_runtime" where
  "normalize_config sha256 root_text uid config env =
     (case config of VNone \<Rightarrow> normalize_object sha256 root_text uid [] env
      | VDict cfg \<Rightarrow> normalize_object sha256 root_text uid cfg env
      | _ \<Rightarrow> Inl (ConfigError ''Driver config must be a mapping''))"

end
