(* ===== verification/PermitFiles.thy ===== *)
theory PermitFiles imports ChassisConfig begin

text \<open>
  What the three permit modules of \<open>packages/go2_chassis/go2_chassis\<close> and
  \<open>prepare_private_directory\<close> do with files: a file is looked at with \<open>lstat\<close>, opened without
  following links, compared with what \<open>lstat\<close> saw, and read. \<open>loads\<close> is decoding and parsing of
  JSON text, \<open>None\<close> for its errors; the objects it returns keep every pair of the text, and
  \<open>sha256\<close> is the hexadecimal digest. Closing a descriptor has no effect in this model.
\<close>

section \<open>Calls that may raise\<close>

type_synonym 'a chassis_io = "(chassis_exc, 'a) may_raise"

definition raise_exc :: "chassis_exc \<Rightarrow> 'a chassis_io" where
  "raise_exc e = Return (Inl e)"

definition returning :: "'a \<Rightarrow> 'a chassis_io" where
  "returning a = Return (Inr a)"

definition permit_require :: "bool \<Rightarrow> string \<Rightarrow> unit chassis_io" where
  "permit_require ok msg = Return (raise_unless ok (PermitError msg))"

definition config_require :: "bool \<Rightarrow> string \<Rightarrow> unit chassis_io" where
  "config_require ok msg = Return (raise_unless ok (ConfigError msg))"

definition os_result :: "syscall \<Rightarrow> (sysresult \<Rightarrow> 'a option) \<Rightarrow> 'a chassis_io" where
  "os_result c get = Call c (\<lambda>r. case get r of
       Some a \<Rightarrow> returning a
     | None \<Rightarrow> raise_exc (OSErr (case r of RFail e \<Rightarrow> e | _ \<Rightarrow> OtherOSError)))"

definition os_lstat :: "posix_path \<Rightarrow> file_info chassis_io" where
  "os_lstat p = os_result (Lstat p) (\<lambda>r. case r of RInfo i \<Rightarrow> Some i | _ \<Rightarrow> None)"

definition os_open :: "posix_path \<Rightarrow> bool \<Rightarrow> nat chassis_io" where
  "os_open p directory = os_result (OpenNoFollow p directory) (\<lambda>r. case r of RFd fd \<Rightarrow> Some fd | _ \<Rightarrow> None)"

definition os_fstat :: "nat \<Rightarrow> file_info chassis_io" where
  "os_fstat fd = os_result (Fstat fd) (\<lambda>r. case r of RInfo i \<Rightarrow> Some i | _ \<Rightarrow> None)"

definition os_read :: "nat \<Rightarrow> nat \<Rightarrow> string chassis_io" where
  "os_read fd count = os_result (ReadBytes fd count) (\<lambda>r. case r of RBytes b \<Rightarrow> Some b | _ \<Rightarrow> None)"

definition os_read_file :: "posix_path \<Rightarrow> string chassis_io" where
  "os_read_file p = os_result (ReadFile p) (\<lambda>r. case r of RBytes b \<Rightarrow> Some b | _ \<Rightarrow> None)"

definition os_fchmod :: "nat \<Rightarrow> nat \<Rightarrow> unit chassis_io" where
  "os_fchmod fd mode = os_result (Fchmod fd mode) (\<lambda>r. case r of RDone \<Rightarrow> Some () | _ \<Rightarrow> None)"

definition os_geteuid :: "int chassis_io" where
  "os_geteuid = os_result Geteuid (\<lambda>r. case r of RInt i \<Rightarrow> Some i | _ \<Rightarrow> None)"

definition os_time_ns :: "int chassis_io" where
  "os_time_ns = os_result TimeNs (\<lambda>r. case r of RInt i \<Rightarrow> Some i | _ \<Rightarrow> None)"

definition os_bool :: "syscall \<Rightarrow> bool chassis_io" where
  "os_bool c = os_result c (\<lambda>r. case r of RBool b \<Rightarrow> Some b | _ \<Rightarrow> None)"

definition os_resolve :: "posix_path \<Rightarrow> posix_path chassis_io" where
  "os_resolve p = os_result (Resolve p) (\<lambda>r. case r of RPath q \<Rightarrow> Some q | _ \<Rightarrow> None)"

section \<open>A private directory\<close>

text \<open>\<open>os.lstat\<close>, creating the directory first when it is absent.\<close>

definition lstat_or_mkdir :: "posix_path \<Rightarrow> file_info chassis_io" where
  "lstat_or_mkdir d = io_bind (os_lstat d) (\<lambda>r.
     case r of
       Inl (OSErr FileNotFound) \<Rightarrow> Call (Mkdir d 448) (\<lambda>r.
         case r of
           RFail FileExists \<Rightarrow> os_lstat d
         | RFail e \<Rightarrow> raise_exc (OSErr e)
         | _ \<Rightarrow> os_lstat d)
     | _ \<Rightarrow> Return r)"

definition prepare_private_directory :: "posix_path \<Rightarrow> unit chassis_io" where
  "prepare_private_directory d =
     act_bind (lstat_or_mkdir d) (\<lambda>path_stat.
     act_bind os_geteuid (\<lambda>uid.
     act_bind (config_require (st_kind path_stat \<noteq> SymlinkFile) ''private directory must not be a symlink'') (\<lambda>_.
     act_bind (config_require (st_kind path_stat = DirectoryFile) ''private directory is not a directory'') (\<lambda>_.
     act_bind (config_require (st_uid path_stat = uid) ''private directory is not owned by the current UID'') (\<lambda>_.
     act_bind (os_open d True) (\<lambda>fd.
     act_bind (os_fstat fd) (\<lambda>opened.
     act_bind (config_require (st_kind opened = DirectoryFile \<and> st_uid opened = uid \<and>
         st_dev opened = st_dev path_stat \<and> st_ino opened = st_ino path_stat)
       ''private directory changed during validation'') (\<lambda>_.
     act_bind (os_fchmod fd 448) (\<lambda>_.
     act_bind (os_fstat fd) (\<lambda>secured.
     act_bind (config_require (st_mode secured = 448) ''private directory mode could not be set to 0700'') (\<lambda>_.
     act_bind (os_lstat d) (\<lambda>final_stat.
     config_require (st_kind final_stat = DirectoryFile \<and> st_uid final_stat = uid \<and>
         st_dev final_stat = st_dev path_stat \<and> st_ino final_stat = st_ino path_stat \<and> st_mode final_stat = 448)
       ''private directory changed after it was secured''))))))))))))"

section \<open>Permit and evidence files\<close>

definition MAX_PERMIT_BYTES :: nat where "MAX_PERMIT_BYTES = 64 * 1024"

text \<open>384 is the mode 0600; group and others write with bits 4 and 1.\<close>

definition owned_regular_file :: "bool \<Rightarrow> posix_path \<Rightarrow> file_info chassis_io" where
  "owned_regular_file private p =
     act_bind (io_bind (os_lstat p) (\<lambda>r. Return (case r of
         Inl (OSErr FileNotFound) \<Rightarrow> Inl (PermitError ''required file does not exist'')
       | _ \<Rightarrow> r))) (\<lambda>info.
     act_bind (permit_require (st_kind info = RegularFile) ''file must be a non-symlink regular file'') (\<lambda>_.
     act_bind os_geteuid (\<lambda>uid.
     act_bind (permit_require (st_uid info = uid) ''file is not owned by the current UID'') (\<lambda>_.
     act_bind (permit_require (private \<longrightarrow> st_mode info = 384) ''permit mode must be exactly 0600'') (\<lambda>_.
     act_bind (permit_require (\<not> private \<longrightarrow> \<not> bit (st_mode info) 4 \<and> \<not> bit (st_mode info) 1)
       ''evidence file is group/world writable'') (\<lambda>_.
     returning info))))))"

text \<open>
  \<open>json.loads\<close> without a hook: the last of several equal keys wins, in the first one's place.
  With the hook of the modules, a repeated key is an error.
\<close>

fun json_last_wins :: "pyval \<Rightarrow> pyval" where
  "json_last_wins (VDict kvs) =
     VDict (foldl (\<lambda>d (k, v). AList.update k v d) [] (map (\<lambda>(k, v). (k, json_last_wins v)) kvs))"
| "json_last_wins (VList vs) = VList (map json_last_wins vs)"
| "json_last_wins v = v"

fun unique_json_object :: "pyval \<Rightarrow> bool" where
  "unique_json_object (VDict kvs) \<longleftrightarrow> distinct (map fst kvs) \<and> list_all unique_json_object (map snd kvs)"
| "unique_json_object (VList vs) \<longleftrightarrow> list_all unique_json_object vs"
| "unique_json_object v \<longleftrightarrow> True"

text \<open>The three readers differ in whether repeated keys are refused and the file must be private.\<close>

definition decode_json :: "(string \<Rightarrow> pyval option) \<Rightarrow> bool \<Rightarrow> string \<Rightarrow> chassis_exc + json_object" where
  "decode_json loads unique raw =
     (case loads raw of
        None \<Rightarrow> Inl (PermitError ''permit is not valid UTF-8 JSON'')
      | Some tree \<Rightarrow>
          if unique \<and> \<not> unique_json_object tree then Inl (PermitError ''duplicate JSON key is forbidden'')
          else (case (if unique then tree else json_last_wins tree) of
              VDict payload \<Rightarrow> Inr payload
            | _ \<Rightarrow> Inl (PermitError ''permit root must be a JSON object'')))"

definition read_json_file ::
  "(string \<Rightarrow> pyval option) \<Rightarrow> bool \<Rightarrow> bool \<Rightarrow> posix_path \<Rightarrow> json_object chassis_io" where
  "read_json_file loads unique private p =
     act_bind (owned_regular_file private p) (\<lambda>expected.
     act_bind (os_open p False) (\<lambda>fd.
     act_bind (os_fstat fd) (\<lambda>opened.
     act_bind os_geteuid (\<lambda>uid.
     act_bind (permit_require (st_dev opened = st_dev expected \<and> st_ino opened = st_ino expected \<and>
         st_uid opened = uid \<and> st_kind opened = RegularFile) ''permit changed while it was being opened'') (\<lambda>_.
     act_bind (os_read fd (MAX_PERMIT_BYTES + 1)) (\<lambda>raw.
     act_bind (permit_require (length raw \<le> MAX_PERMIT_BYTES) ''permit is unreasonably large'') (\<lambda>_.
     lift_outcome (decode_json loads unique raw))))))))"

definition private_parent :: "posix_path \<Rightarrow> unit chassis_io" where
  "private_parent p =
     act_bind (io_bind (os_lstat (path_parent p)) (\<lambda>r. Return (case r of
         Inl (OSErr FileNotFound) \<Rightarrow> Inl (PermitError ''permit parent does not exist'')
       | _ \<Rightarrow> r))) (\<lambda>info.
     act_bind os_geteuid (\<lambda>uid.
     permit_require (st_kind info = DirectoryFile \<and> st_uid info = uid \<and> st_mode info = 448)
       ''permit parent must be an owned non-symlink 0700 directory''))"

definition sha256_file :: "(string \<Rightarrow> string) \<Rightarrow> posix_path \<Rightarrow> string chassis_io" where
  "sha256_file sha256 p =
     act_bind (owned_regular_file False p) (\<lambda>_.
     act_bind (os_read_file p) (\<lambda>bytes. returning (sha256 bytes)))"

section \<open>Claims\<close>

text \<open>\<open>payload.get(name) == list(ns)\<close>\<close>

definition eq_int_list :: "pyval \<Rightarrow> int list \<Rightarrow> bool" where
  "eq_int_list v ns = (case v of VList xs \<Rightarrow> list_all2 eq_int xs ns | _ \<Rightarrow> False)"

text \<open>\<open>isinstance(v, (int, float))\<close>, no bool, and \<open>float(v)\<close>.\<close>

definition number_value :: "pyval \<Rightarrow> string \<Rightarrow> chassis_exc + pyfloat" where
  "number_value v msg = (case v of
       VInt i \<Rightarrow> (case float_of_int i of Some f \<Rightarrow> Inr f | None \<Rightarrow> Inl EscapedOverflow)
     | VFloat f \<Rightarrow> Inr f
     | _ \<Rightarrow> Inl (PermitError msg))"

definition is_number :: "pyval \<Rightarrow> bool" where
  "is_number v \<longleftrightarrow> (case v of VInt i \<Rightarrow> True | VFloat f \<Rightarrow> True | _ \<Rightarrow> False)"

definition exact_number :: "pyval \<Rightarrow> pyfloat \<Rightarrow> string \<Rightarrow> chassis_exc + unit" where
  "exact_number v expected label =
     obind (number_value v (label @ '' does not match the fixed envelope'')) (\<lambda>f.
     raise_unless (isfinite f \<and> feq f expected) (PermitError (label @ '' does not match the fixed envelope'')))"

text \<open>A claim on one file, \<open>{"path": ..., "sha256": ...}\<close>: below the package root and unchanged.\<close>

definition checked_claim :: "json_object \<Rightarrow> string \<Rightarrow> chassis_exc + posix_path \<times> string" where
  "checked_claim evidence name =
     (case dict_get evidence name of
        VDict claim \<Rightarrow>
          obind (raise_unless (has_keys claim [''path'', ''sha256'']) (PermitError (name @ '' evidence claim is malformed''))) (\<lambda>_.
          case dict_get claim ''path'' of
            VStr t \<Rightarrow>
              obind (raise_unless (is_absolute (path_of t)) (PermitError (name @ '' evidence path must be absolute''))) (\<lambda>_.
              case dict_get claim ''sha256'' of
                VStr h \<Rightarrow> obind (raise_unless (SHA256_RE h) (PermitError (name @ '' evidence hash is malformed'')))
                  (\<lambda>_. Inr (path_of t, h))
              | _ \<Rightarrow> Inl (PermitError (name @ '' evidence hash is malformed'')))
          | _ \<Rightarrow> Inl (PermitError (name @ '' evidence path must be absolute'')))
      | _ \<Rightarrow> Inl (PermitError (name @ '' evidence claim is malformed'')))"

definition verify_claim ::
  "(string \<Rightarrow> string) \<Rightarrow> posix_path \<Rightarrow> json_object \<Rightarrow> string \<Rightarrow> posix_path chassis_io" where
  "verify_claim sha256 resolved_root evidence name =
     act_bind (lift_outcome (checked_claim evidence name)) (\<lambda>(p, expected_hash).
     act_bind (os_resolve p) (\<lambda>evidence_path.
     act_bind (permit_require (is_below evidence_path resolved_root) (name @ '' evidence is outside package root'')) (\<lambda>_.
     act_bind (sha256_file sha256 evidence_path) (\<lambda>actual.
     act_bind (permit_require (actual = expected_hash) (name @ '' evidence hash changed'')) (\<lambda>_.
     returning evidence_path)))))"

end
