(* ===== verification/GoalEvidence.thy ===== *)
theory GoalEvidence imports PermitFiles begin

text \<open>
  \<open>validate_short_goal_evidence\<close> of \<open>packages/go2_chassis/go2_chassis/staged_nav2_permit.py\<close>: the
  record of one plan-only path, checked against the goal of a permit. \<open>lm\<close> is the platform's
  \<open>math\<close> library.
\<close>

definition GOAL_EVIDENCE_SCHEMA :: string where
  "GOAL_EVIDENCE_SCHEMA = ''robonix-go2-staged-nav2-short-goal-evidence-v1''"
definition GOAL_EVIDENCE_MAX_PATH_M :: pyfloat where "GOAL_EVIDENCE_MAX_PATH_M = fl (4 / 10)"
definition GOAL_EVIDENCE_MAX_ENDPOINT_ERROR_M :: pyfloat where "GOAL_EVIDENCE_MAX_ENDPOINT_ERROR_M = fl (2 / 100)"
definition GOAL_EVIDENCE_MAX_ENDPOINT_YAW_ERROR_RAD :: pyfloat where
  "GOAL_EVIDENCE_MAX_ENDPOINT_YAW_ERROR_RAD = fl (1 / 10)"
definition GOAL_EVIDENCE_MAX_START_ERROR_M :: pyfloat where "GOAL_EVIDENCE_MAX_START_ERROR_M = fl (5 / 100)"
definition GOAL_EVIDENCE_MAX_GOAL_BEARING_ERROR_RAD :: pyfloat where
  "GOAL_EVIDENCE_MAX_GOAL_BEARING_ERROR_RAD = fl (1 / 2)"

definition GOAL_EVIDENCE_REQUIRED_CHECKS :: "string list" where
  "GOAL_EVIDENCE_REQUIRED_CHECKS = [''map_lifecycle_exact'', ''goal_bearing_within_stage1'', ''plan_only_action'',
     ''path_collision_free'', ''path_endpoint_matches_goal'', ''path_finite'', ''path_frame_map'',
     ''path_known_space'', ''path_length_le_0_40_m'', ''path_nonempty'', ''path_start_matches_localization'']"

definition path_claim_keys :: "string list" where
  "path_claim_keys = [''endpoint_position_error_m'', ''endpoint_yaw_error_rad'', ''end'', ''length_m'',
     ''lethal_occupancy_threshold'', ''map_height'', ''map_resolution_m'', ''map_width'', ''pose_count'',
     ''sample_count'', ''start'']"

record goal_pose =
  gp_x :: pyfloat
  gp_y :: pyfloat
  gp_yaw :: pyfloat

record validated_goal_evidence =
  vg_path :: posix_path
  vg_sha256 :: string
  vg_map_id :: string
  vg_map_generation :: int
  vg_goal_source :: string
  vg_target_id :: string
  vg_goal :: goal_pose
  vg_start :: goal_pose
  vg_path_length_m :: pyfloat
  vg_pose_count :: int

abbreviation claim_require :: "bool \<Rightarrow> string \<Rightarrow> chassis_exc + unit" where
  "claim_require ok msg \<equiv> raise_unless ok (PermitError msg)"

definition claim_object :: "string list \<Rightarrow> pyval \<Rightarrow> string \<Rightarrow> chassis_exc + json_object" where
  "claim_object ks v msg = (case object_with ks v of Some d \<Rightarrow> Inr d | None \<Rightarrow> Inl (PermitError msg))"

definition close_1e9 :: "pyfloat \<Rightarrow> pyfloat \<Rightarrow> bool" where
  "close_1e9 a b \<longleftrightarrow> isclose (Fin 0) (fl (1 / 10 ^ 9)) a b"

definition exact_finite_number :: "pyval \<Rightarrow> pyfloat \<Rightarrow> string \<Rightarrow> chassis_exc + pyfloat" where
  "exact_finite_number v expected label =
     (let msg = ''goal evidence '' @ label @ '' does not match the permit'' in
      obind (number_value v msg) (\<lambda>f.
      obind (claim_require (isfinite f \<and> close_1e9 f expected) msg) (\<lambda>_. Inr f)))"

text \<open>\<open>float(v)\<close> under \<open>except (TypeError, ValueError)\<close>.\<close>

definition caught_float :: "string \<Rightarrow> pyval \<Rightarrow> chassis_exc + pyfloat" where
  "caught_float msg v = (case to_float v of
       Inr f \<Rightarrow> Inr f
     | Inl OverflowError \<Rightarrow> Inl EscapedOverflow
     | Inl _ \<Rightarrow> Inl (PermitError msg))"

definition caught_pose :: "string \<Rightarrow> json_object \<Rightarrow> chassis_exc + goal_pose" where
  "caught_pose msg d =
     obind (caught_float msg (dict_get d ''x'')) (\<lambda>x.
     obind (caught_float msg (dict_get d ''y'')) (\<lambda>y.
     obind (caught_float msg (dict_get d ''yaw'')) (\<lambda>yaw.
     Inr \<lparr>gp_x = x, gp_y = y, gp_yaw = yaw\<rparr>)))"

definition pose_finite :: "goal_pose \<Rightarrow> bool" where
  "pose_finite p \<longleftrightarrow> isfinite (gp_x p) \<and> isfinite (gp_y p) \<and> isfinite (gp_yaw p)"

definition angle_error :: "libm \<Rightarrow> pyfloat \<Rightarrow> pyfloat \<Rightarrow> pyfloat" where
  "angle_error lm a b = fabs (m_atan2 lm (m_sin lm (fsub a b)) (m_cos lm (fsub a b)))"

section \<open>The stages of the check, in source order\<close>

definition check_plan_claim :: "json_object \<Rightarrow> int \<Rightarrow> chassis_exc + unit" where
  "check_plan_claim payload now =
     obind (claim_require (eq_str (dict_get payload ''schema'') GOAL_EVIDENCE_SCHEMA \<and>
         eq_str (dict_get payload ''operation'') ''compute_path_to_pose_only'' \<and>
         eq_str (dict_get payload ''action'') ''/compute_path_to_pose'' \<and>
         eq_str (dict_get payload ''frame_id'') ''map'' \<and>
         eq_int (dict_get payload ''motion_disabled'') 1 \<and>
         eq_str (dict_get payload ''status'') ''pass'')
       ''goal evidence is not the exact successful plan-only claim'') (\<lambda>_.
     obind (claim_require (eq_int (dict_get payload ''action_status'') 4)
       ''goal evidence action_status is not SUCCEEDED(4)'') (\<lambda>_.
     case (as_int (dict_get payload ''started_unix_ns''), as_int (dict_get payload ''finished_unix_ns'')) of
       (Some started, Some finished) \<Rightarrow>
         claim_require (\<not> (started \<le> 0 \<or> finished < started \<or> finished > now))
           ''goal evidence timestamps are invalid or in the future''
     | _ \<Rightarrow> Inl (PermitError ''goal evidence timestamps are invalid or in the future'')))"

definition check_goal_identity ::
  "json_object \<Rightarrow> string \<Rightarrow> int \<Rightarrow> string \<Rightarrow> string \<Rightarrow> goal_pose \<Rightarrow> chassis_exc + unit" where
  "check_goal_identity payload map_id map_generation goal_source target_id pose =
     obind (claim_object [''id'', ''generation'', ''mode''] (dict_get payload ''map'')
       ''goal evidence map lifecycle does not match the permit'') (\<lambda>m.
     obind (claim_require (eq_str (dict_get m ''id'') map_id \<and> eq_int (dict_get m ''generation'') map_generation \<and>
         eq_str (dict_get m ''mode'') ''localization'')
       ''goal evidence map lifecycle does not match the permit'') (\<lambda>_.
     obind (claim_object [''source'', ''target_id'', ''pose''] (dict_get payload ''goal'')
       ''goal evidence identity does not match the permit'') (\<lambda>goal.
     obind (claim_require (eq_str (dict_get goal ''source'') goal_source \<and> eq_str (dict_get goal ''target_id'') target_id)
       ''goal evidence identity does not match the permit'') (\<lambda>_.
     obind (claim_object [''x'', ''y'', ''yaw''] (dict_get goal ''pose'') ''goal evidence pose is malformed'') (\<lambda>p.
     obind (exact_finite_number (dict_get p ''x'') (gp_x pose) ''goal.pose.x'') (\<lambda>_.
     obind (exact_finite_number (dict_get p ''y'') (gp_y pose) ''goal.pose.y'') (\<lambda>_.
     obind (exact_finite_number (dict_get p ''yaw'') (gp_yaw pose) ''goal.pose.yaw'') (\<lambda>_.
     obind (claim_object GOAL_EVIDENCE_REQUIRED_CHECKS (dict_get payload ''checks'')
       ''goal evidence checks must be exact, complete, and all pass'') (\<lambda>checks.
     claim_require (list_all (\<lambda>(k, v). eq_str v ''pass'') checks)
       ''goal evidence checks must be exact, complete, and all pass'')))))))))"

definition claim_positive_int :: "pyval \<Rightarrow> string \<Rightarrow> chassis_exc + int" where
  "claim_positive_int v msg = (case v of VInt i \<Rightarrow> if 0 < i then Inr i else Inl (PermitError msg) | _ \<Rightarrow> Inl (PermitError msg))"

text \<open>The path summary: its counts, the map, and the length, which is returned with the pose count.\<close>

definition check_path_summary :: "json_object \<Rightarrow> json_object \<Rightarrow> chassis_exc + pyfloat \<times> int" where
  "check_path_summary payload path =
     obind (claim_positive_int (dict_get path ''pose_count'') ''goal evidence path pose_count must be positive'') (\<lambda>pose_count.
     obind (claim_positive_int (dict_get path ''sample_count'') ''goal evidence path/map counts are invalid'') (\<lambda>sample_count.
     obind (claim_positive_int (dict_get path ''map_width'') ''goal evidence path/map counts are invalid'') (\<lambda>_.
     obind (claim_positive_int (dict_get path ''map_height'') ''goal evidence path/map counts are invalid'') (\<lambda>_.
     obind (claim_require (\<not> sample_count < pose_count) ''goal evidence path/map counts are invalid'') (\<lambda>_.
     obind (number_value (dict_get path ''map_resolution_m'') ''goal evidence map summary is invalid'') (\<lambda>resolution.
     obind (claim_require (isfinite resolution \<and> fless (Fin 0) resolution \<and>
         eq_int (dict_get path ''lethal_occupancy_threshold'') 65) ''goal evidence map summary is invalid'') (\<lambda>_.
     obind (number_value (dict_get path ''length_m'') ''goal evidence path length must be finite and at most 0.40 m'') (\<lambda>len.
     obind (claim_require (isfinite len \<and> \<not> fless len (Fin 0) \<and> \<not> fless GOAL_EVIDENCE_MAX_PATH_M len)
       ''goal evidence path length must be finite and at most 0.40 m'') (\<lambda>_.
     obind (claim_require (eq_str (dict_get payload ''action_status_name'') ''succeeded'')
       ''goal evidence planner action did not succeed'') (\<lambda>_. Inr (len, pose_count)))))))))))"

text \<open>The start of the path and the live localization it must match.\<close>

definition check_path_start :: "libm \<Rightarrow> json_object \<Rightarrow> json_object \<Rightarrow> chassis_exc + goal_pose \<times> goal_pose" where
  "check_path_start lm payload path =
     (let malformed = ''goal evidence path start or live localization is malformed'';
          not_numeric = ''goal evidence path start or localization is not numeric'' in
      obind (claim_object [''x'', ''y'', ''yaw''] (dict_get path ''start'') malformed) (\<lambda>start.
      obind (claim_object [''pose'', ''source_age_s''] (dict_get payload ''localization'') malformed) (\<lambda>localization.
      obind (claim_object [''x'', ''y'', ''yaw''] (dict_get localization ''pose'') malformed) (\<lambda>pose.
      obind (caught_pose not_numeric start) (\<lambda>s.
      obind (caught_pose not_numeric pose) (\<lambda>l.
      obind (caught_float not_numeric (dict_get localization ''source_age_s'')) (\<lambda>age.
      obind (claim_require (pose_finite s \<and> pose_finite l \<and> isfinite age \<and> fle (fl (- (5 / 100))) age \<and> fle age (fl (1 / 2)))
        ''goal evidence path start or localization is not fresh and finite'') (\<lambda>_.
      obind (claim_require (\<not> fless GOAL_EVIDENCE_MAX_START_ERROR_M
          (m_hypot lm (fsub (gp_x s) (gp_x l)) (fsub (gp_y s) (gp_y l))))
        ''goal evidence path start does not match live localization'') (\<lambda>_. Inr (s, l))))))))))"

definition goal_bearing_error :: "libm \<Rightarrow> goal_pose \<Rightarrow> goal_pose \<Rightarrow> pyfloat" where
  "goal_bearing_error lm goal l =
     (let dx = fsub (gp_x goal) (gp_x l); dy = fsub (gp_y goal) (gp_y l);
          heading = (if fless (fl (1 / 10 ^ 6)) (m_hypot lm dx dy) then m_atan2 lm dy dx else gp_yaw goal) in
      angle_error lm heading (gp_yaw l))"

definition check_geometry :: "libm \<Rightarrow> json_object \<Rightarrow> goal_pose \<Rightarrow> goal_pose \<Rightarrow> chassis_exc + unit" where
  "check_geometry lm payload goal l =
     obind (claim_object [''goal_bearing_error_rad'', ''goal_distance_m''] (dict_get payload ''stage1_geometry'')
       ''goal evidence stage1 geometry is malformed'') (\<lambda>d.
     obind (caught_float ''goal evidence stage1 geometry is not numeric'' (dict_get d ''goal_distance_m'')) (\<lambda>dist.
     obind (caught_float ''goal evidence stage1 geometry is not numeric'' (dict_get d ''goal_bearing_error_rad'')) (\<lambda>bearing.
     claim_require (isfinite dist \<and> isfinite bearing \<and>
         close_1e9 dist (m_hypot lm (fsub (gp_x goal) (gp_x l)) (fsub (gp_y goal) (gp_y l))) \<and>
         close_1e9 bearing (goal_bearing_error lm goal l) \<and>
         \<not> fless GOAL_EVIDENCE_MAX_GOAL_BEARING_ERROR_RAD (goal_bearing_error lm goal l))
       ''goal evidence target is outside the stage1 forward bearing'')))"

definition check_path_end :: "libm \<Rightarrow> json_object \<Rightarrow> goal_pose \<Rightarrow> chassis_exc + unit" where
  "check_path_end lm path goal =
     (let summary = ''goal evidence endpoint error summary is inconsistent'' in
     obind (claim_object [''x'', ''y'', ''yaw''] (dict_get path ''end'') ''goal evidence path endpoint is malformed'') (\<lambda>d.
     obind (caught_pose ''goal evidence path endpoint is not numeric'' d) (\<lambda>e.
     obind (claim_require (pose_finite e) ''goal evidence path endpoint is not finite'') (\<lambda>_.
     let position_error = m_hypot lm (fsub (gp_x e) (gp_x goal)) (fsub (gp_y e) (gp_y goal));
         yaw_error = angle_error lm (gp_yaw e) (gp_yaw goal) in
     obind (claim_require (is_number (dict_get path ''endpoint_position_error_m'') \<and>
         is_number (dict_get path ''endpoint_yaw_error_rad'')) summary) (\<lambda>_.
     obind (number_value (dict_get path ''endpoint_position_error_m'') summary) (\<lambda>recorded_position.
     obind (claim_require (isfinite recorded_position) summary) (\<lambda>_.
     obind (number_value (dict_get path ''endpoint_yaw_error_rad'') summary) (\<lambda>recorded_yaw.
     obind (claim_require (isfinite recorded_yaw \<and> close_1e9 recorded_position position_error \<and>
         close_1e9 recorded_yaw yaw_error) summary) (\<lambda>_.
     claim_require (\<not> fless GOAL_EVIDENCE_MAX_ENDPOINT_ERROR_M position_error \<and>
         \<not> fless GOAL_EVIDENCE_MAX_ENDPOINT_YAW_ERROR_RAD yaw_error)
       ''goal evidence path endpoint does not match the permitted goal'')))))))))"

definition check_goal_evidence ::
  "libm \<Rightarrow> json_object \<Rightarrow> string \<Rightarrow> int \<Rightarrow> string \<Rightarrow> string \<Rightarrow> goal_pose \<Rightarrow> int \<Rightarrow>
   chassis_exc + goal_pose \<times> pyfloat \<times> int" where
  "check_goal_evidence lm payload map_id map_generation goal_source target_id pose now =
     obind (check_plan_claim payload now) (\<lambda>_.
     obind (check_goal_identity payload map_id map_generation goal_source target_id pose) (\<lambda>_.
     obind (claim_object path_claim_keys (dict_get payload ''path'') ''goal evidence path summary keys are not exact'') (\<lambda>path.
     obind (check_path_summary payload path) (\<lambda>(len, pose_count).
     obind (check_path_start lm payload path) (\<lambda>(start, l).
     obind (check_geometry lm payload pose l) (\<lambda>_.
     obind (check_path_end lm path pose) (\<lambda>_. Inr (start, len, pose_count))))))))"

definition read_evidence_json :: "(string \<Rightarrow> pyval option) \<Rightarrow> posix_path \<Rightarrow> json_object chassis_io" where
  "read_evidence_json loads = read_json_file loads True False"

definition validate_short_goal_evidence ::
  "libm \<Rightarrow> (string \<Rightarrow> string) \<Rightarrow> (string \<Rightarrow> pyval option) \<Rightarrow> posix_path \<Rightarrow> string \<Rightarrow> string \<Rightarrow> int \<Rightarrow> string \<Rightarrow>
   string \<Rightarrow> goal_pose \<Rightarrow> int option \<Rightarrow> validated_goal_evidence chassis_io" where
  "validate_short_goal_evidence lm sha256 loads p expected_sha256 map_id map_generation goal_source target_id pose now =
     act_bind (permit_require (is_absolute p) ''goal evidence path must be absolute'') (\<lambda>_.
     act_bind (permit_require (SHA256_RE expected_sha256) ''goal evidence hash is malformed'') (\<lambda>_.
     act_bind (sha256_file sha256 p) (\<lambda>actual.
     act_bind (permit_require (actual = expected_sha256) ''goal evidence hash changed'') (\<lambda>_.
     act_bind (read_evidence_json loads p) (\<lambda>payload.
     act_bind (case now of Some n \<Rightarrow> returning n | None \<Rightarrow> os_time_ns) (\<lambda>now_ns.
     act_bind (lift_outcome (check_goal_evidence lm payload map_id map_generation goal_source target_id pose now_ns))
       (\<lambda>(start, len, pose_count).
     returning \<lparr>vg_path = p, vg_sha256 = actual, vg_map_id = map_id, vg_map_generation = map_generation,
       vg_goal_source = goal_source, vg_target_id = target_id, vg_goal = pose, vg_start = start,
       vg_path_length_m = len, vg_pose_count = pose_count\<rparr>)))))))"

end
