(* ===== verification/StagedPermit.thy ===== *)
theory StagedPermit imports GoalEvidence begin

text \<open>
  \<open>packages/go2_chassis/go2_chassis/staged_nav2_permit.py\<close>: validation of one staged permit, of the
  pair the launcher hands out, and the consumption of a permit by renaming its file.
\<close>

definition STAGED_PERMIT_SCHEMA :: string where "STAGED_PERMIT_SCHEMA = ''robonix-go2-staged-nav2-permit-v1''"
definition STAGED_PERMIT_ENV :: string where "STAGED_PERMIT_ENV = ''GO2_STAGED_NAV2_PERMIT_FILE''"
definition GOAL_PERMIT_ENV :: string where "GOAL_PERMIT_ENV = ''GO2_STAGED_NAV2_GOAL_PERMIT_FILE''"
definition STAGED_NAV2_ACK :: string where "STAGED_NAV2_ACK = ''I_APPROVE_GO2_STAGED_NAV2_MOTION''"
definition GOAL_EVIDENCE_SHA256_ENV :: string where
  "GOAL_EVIDENCE_SHA256_ENV = ''GO2_STAGED_NAV2_GOAL_EVIDENCE_SHA256''"
definition CHASSIS_ROLE :: string where "CHASSIS_ROLE = ''chassis_boot''"
definition GOAL_DISPATCH_ROLE :: string where "GOAL_DISPATCH_ROLE = ''goal_dispatch''"
definition OPERATOR_GOAL_SOURCE :: string where "OPERATOR_GOAL_SOURCE = ''operator_reviewed_short_goal''"

section \<open>Fields\<close>

definition id_field :: "(string \<Rightarrow> bool) \<Rightarrow> json_object \<Rightarrow> string \<Rightarrow> chassis_exc + string" where
  "id_field re payload name = (case dict_get payload name of
       VStr s \<Rightarrow> if re s then Inr s else Inl (PermitError (name @ '' is malformed''))
     | _ \<Rightarrow> Inl (PermitError (name @ '' is malformed'')))"

definition positive_generation :: "pyval \<Rightarrow> chassis_exc + int" where
  "positive_generation v = claim_positive_int v ''map_generation must be a positive integer''"

definition finite_item :: "json_object \<Rightarrow> string \<Rightarrow> chassis_exc + pyfloat" where
  "finite_item d name =
     (let msg = ''goal_pose.'' @ name @ '' must be finite'' in
      obind (number_value (dict_get d name) msg) (\<lambda>f.
      obind (claim_require (isfinite f) msg) (\<lambda>_. Inr f)))"

definition read_goal_pose :: "pyval \<Rightarrow> chassis_exc + goal_pose" where
  "read_goal_pose v =
     obind (claim_object [''x'', ''y'', ''yaw''] v ''goal_pose must contain exactly x, y, and yaw'') (\<lambda>d.
     obind (finite_item d ''x'') (\<lambda>x.
     obind (finite_item d ''y'') (\<lambda>y.
     obind (finite_item d ''yaw'') (\<lambda>yaw.
     obind (claim_require (fle (fneg math_pi) yaw \<and> fle yaw math_pi) ''goal_pose.yaw must be within [-pi, pi]'') (\<lambda>_.
     Inr \<lparr>gp_x = x, gp_y = y, gp_yaw = yaw\<rparr>)))))"

text \<open>Issued before it expires; the clock is compared with the time of issue only.\<close>

definition check_staged_times :: "json_object \<Rightarrow> int \<Rightarrow> chassis_exc + unit" where
  "check_staged_times payload now =
     (case (as_int (dict_get payload ''issued_unix_ns''), as_int (dict_get payload ''expires_unix_ns'')) of
        (Some issued, Some expires) \<Rightarrow>
          obind (claim_require (\<not> (issued \<le> 0 \<or> expires \<le> issued)) ''permit timestamp metadata is malformed'') (\<lambda>_.
          claim_require (\<not> now < issued) ''permit issue time is in the future'')
      | _ \<Rightarrow> Inl (PermitError ''permit timestamp metadata is malformed''))"

definition check_texts :: "json_object \<Rightarrow> (string \<times> string) list \<Rightarrow> chassis_exc + unit" where
  "check_texts payload texts =
     obind (all_ok (\<lambda>(name, expected). claim_require (eq_str (dict_get payload name) expected)
       (''permit '' @ name @ '' does not match this runtime'')) texts) (\<lambda>_. Inr ())"

definition check_allowlists :: "json_object \<Rightarrow> chassis_runtime \<Rightarrow> chassis_exc + unit" where
  "check_allowlists payload r =
     obind (claim_require (eq_int_list (dict_get payload ''allowed_modes'') (cr_allowed_modes r))
       ''permit allowed_modes does not match this runtime'') (\<lambda>_.
     claim_require (eq_int_list (dict_get payload ''allowed_state_markers'') (cr_allowed_state_markers r))
       ''permit allowed_state_markers does not match this runtime'')"

definition check_numbers :: "json_object \<Rightarrow> (string \<times> pyfloat) list \<Rightarrow> chassis_exc + unit" where
  "check_numbers payload numbers =
     obind (all_ok (\<lambda>(name, expected). exact_number (dict_get payload name) expected name) numbers) (\<lambda>_. Inr ())"

definition staged_texts :: "chassis_runtime \<Rightarrow> (string \<times> string) list" where
  "staged_texts r =
     [(''profile'', STAGED_NAV2_PROFILE), (''stage'', STAGED_NAV2_STAGE), (''operator_ack'', STAGED_NAV2_ACK),
      (''guard_ack'', STAGED_NAV2_ACK), (''network_interface'', cr_network_interface r),
      (''state_topic'', cr_state_topic r), (''nav_command_topic'', STAGED_NAV2_NAV_COMMAND_TOPIC),
      (''command_topic'', STAGED_NAV2_COMMAND_TOPIC), (''odom_topic'', STAGED_NAV2_ODOM_TOPIC),
      (''external_odom_topic'', DEFAULT_EXTERNAL_ODOM_TOPIC), (''arm_service'', cr_arm_service r)]"

definition staged_numbers :: "(string \<times> pyfloat) list" where
  "staged_numbers =
     [(''max_linear_x_mps'', STAGED_NAV2_MAX_VX_MPS), (''max_linear_y_mps'', STAGED_NAV2_MAX_VY_MPS),
      (''max_angular_z_rps'', STAGED_NAV2_MAX_WZ_RPS), (''max_linear_accel_mps2'', STAGED_NAV2_MAX_LINEAR_ACCEL_MPS2),
      (''max_angular_accel_rps2'', STAGED_NAV2_MAX_ANGULAR_ACCEL_RPS2), (''max_duration_s'', STAGED_NAV2_MAX_DURATION_S),
      (''max_distance_m'', STAGED_NAV2_MAX_DISTANCE_M), (''command_timeout_s'', STAGED_NAV2_COMMAND_TIMEOUT_S),
      (''state_timeout_s'', STAGED_NAV2_STATE_TIMEOUT_S),
      (''external_odom_timeout_s'', STAGED_NAV2_EXTERNAL_ODOM_TIMEOUT_S)]"

text \<open>The claims a launcher derives from a permit; the dictionary of environment variables.\<close>

definition permit_environment ::
  "string \<Rightarrow> string \<Rightarrow> string \<Rightarrow> int \<Rightarrow> string \<Rightarrow> string \<Rightarrow> goal_pose \<Rightarrow> (string \<times> string) list" where
  "permit_environment session_id pair_id map_id map_generation goal_source target_id pose =
     [(''GO2_STAGED_NAV2_SESSION_ID'', session_id), (''GO2_STAGED_NAV2_PAIR_ID'', pair_id),
      (''GO2_STAGED_NAV2_STAGE'', STAGED_NAV2_STAGE), (''GO2_STAGED_NAV2_GUARD_ACK'', STAGED_NAV2_ACK),
      (''GO2_STAGED_NAV2_MAP_ID'', map_id), (''GO2_STAGED_NAV2_MAP_GENERATION'', int_text map_generation),
      (''GO2_STAGED_NAV2_GOAL_SOURCE'', goal_source), (''GO2_STAGED_NAV2_TARGET_ID'', target_id),
      (''GO2_STAGED_NAV2_EXPECTED_GOAL_X'', g17_text (gp_x pose)),
      (''GO2_STAGED_NAV2_EXPECTED_GOAL_Y'', g17_text (gp_y pose)),
      (''GO2_STAGED_NAV2_EXPECTED_GOAL_YAW'', g17_text (gp_yaw pose))]"

definition check_permit_environment ::
  "(string \<rightharpoonup> string) \<Rightarrow> (string \<times> string) list \<Rightarrow> chassis_exc + unit" where
  "check_permit_environment env texts =
     obind (all_ok (\<lambda>(name, expected). claim_require (str_strip (env_get env name) = expected)
       (name @ '' does not match the one-time permit'')) texts) (\<lambda>_. Inr ())"

section \<open>validate_permit\<close>

text \<open>Everything before the evidence files: the permit's id and its evidence claims.\<close>

definition check_staged_permit ::
  "json_object \<Rightarrow> chassis_runtime \<Rightarrow> (string \<rightharpoonup> string) \<Rightarrow> string \<Rightarrow> int \<Rightarrow> chassis_exc + string \<times> json_object" where
  "check_staged_permit payload r env expected_role now =
     obind (claim_require (eq_str (dict_get payload ''schema'') STAGED_PERMIT_SCHEMA)
       ''unexpected staged-nav2 permit schema'') (\<lambda>_.
     obind (id_field SESSION_RE payload ''permit_id'') (\<lambda>permit_id.
     obind (id_field SESSION_RE payload ''session_id'') (\<lambda>session_id.
     obind (id_field SESSION_RE payload ''pair_id'') (\<lambda>pair_id.
     obind (claim_require (eq_str (dict_get payload ''permit_role'') expected_role)
       ''permit role does not match this consumer'') (\<lambda>_.
     obind (claim_require (dict_get payload ''one_time'' = VBool True) ''permit must explicitly be one_time'') (\<lambda>_.
     obind (check_staged_times payload now) (\<lambda>_.
     obind (positive_generation (dict_get payload ''map_generation'')) (\<lambda>map_generation.
     obind (id_field MAP_ID_RE payload ''map_id'') (\<lambda>map_id.
     obind (claim_require (eq_str (dict_get payload ''goal_source'') OPERATOR_GOAL_SOURCE)
       ''stage1 goal_source must be operator_reviewed_short_goal'') (\<lambda>_.
     obind (id_field TARGET_ID_RE payload ''target_id'') (\<lambda>target_id.
     obind (read_goal_pose (dict_get payload ''goal_pose'')) (\<lambda>pose.
     obind (check_texts payload (staged_texts r)) (\<lambda>_.
     obind (check_allowlists payload r) (\<lambda>_.
     obind (check_permit_environment env
       (permit_environment session_id pair_id map_id map_generation OPERATOR_GOAL_SOURCE target_id pose)) (\<lambda>_.
     obind (check_numbers payload staged_numbers) (\<lambda>_.
     obind (claim_object [''dds_identity'', ''state'', ''time'', ''goal''] (dict_get payload ''evidence'')
       ''permit must bind exactly identity, state, time, and exact goal evidence'') (\<lambda>evidence.
     obind (case dict_get evidence ''goal'' of
         VDict goal \<Rightarrow> claim_require (eq_str (dict_get goal ''sha256'') (str_strip (env_get env GOAL_EVIDENCE_SHA256_ENV)))
           ''GO2_STAGED_NAV2_GOAL_EVIDENCE_SHA256 does not match exact goal evidence''
       | _ \<Rightarrow> Inl (PermitError ''GO2_STAGED_NAV2_GOAL_EVIDENCE_SHA256 does not match exact goal evidence'')) (\<lambda>_.
     Inr (permit_id, evidence)))))))))))))))))))"

definition staged_validate_permit ::
  "(string \<Rightarrow> string) \<Rightarrow> posix_path \<Rightarrow> json_object \<Rightarrow> chassis_runtime \<Rightarrow> (string \<rightharpoonup> string) \<Rightarrow> string \<Rightarrow> int option \<Rightarrow>
   string chassis_io" where
  "staged_validate_permit sha256 package_root payload r env expected_role now =
     act_bind (case now of Some n \<Rightarrow> returning n | None \<Rightarrow> os_time_ns) (\<lambda>now_ns.
     act_bind (lift_outcome (check_staged_permit payload r env expected_role now_ns)) (\<lambda>(permit_id, evidence).
     act_bind (os_resolve package_root) (\<lambda>resolved_root.
     act_bind (act_all (verify_claim sha256 resolved_root evidence) [''dds_identity'', ''goal'', ''state'', ''time'']) (\<lambda>_.
     returning permit_id))))"

section \<open>Consumption\<close>

definition staged_read_private_json :: "(string \<Rightarrow> pyval option) \<Rightarrow> posix_path \<Rightarrow> json_object chassis_io" where
  "staged_read_private_json loads = read_json_file loads True True"

definition consumed_name :: "posix_path \<Rightarrow> string \<Rightarrow> posix_path" where
  "consumed_name p permit_id = with_name p (path_name p @ ''.consumed-'' @ permit_id)"

definition atomic_consume :: "posix_path \<Rightarrow> string \<Rightarrow> posix_path chassis_io" where
  "atomic_consume p permit_id =
     (let consumed_path = consumed_name p permit_id in
      act_bind (os_bool (Exists consumed_path)) (\<lambda>already.
      act_bind (permit_require (\<not> already) ''permit was already consumed'') (\<lambda>_.
      Call (Rename p consumed_path) (\<lambda>r. case r of
          RDone \<Rightarrow> returning consumed_path
        | RFail FileNotFound \<Rightarrow> raise_exc (PermitError ''permit was consumed concurrently'')
        | RFail e \<Rightarrow> raise_exc (OSErr e)
        | _ \<Rightarrow> raise_exc (OSErr OtherOSError)))))"

text \<open>The path in the environment; the permit read from it, its id, and its consumption.\<close>

definition staged_permit_path :: "chassis_runtime \<Rightarrow> (string \<rightharpoonup> string) \<Rightarrow> string \<Rightarrow> chassis_exc + posix_path" where
  "staged_permit_path r env name =
     obind (claim_require (cr_allow_motion r \<and> cr_motion_profile r = STAGED_NAV2_PROFILE)
       ''permit consumption requires the exact staged-nav2 runtime'') (\<lambda>_.
     let t = str_strip (env_get env name) in
     obind (claim_require (t \<noteq> []) (''motion requires '' @ name)) (\<lambda>_.
     obind (claim_require (is_absolute (path_of t)) ''staged-nav2 permit path must be absolute'') (\<lambda>_.
     Inr (path_of t))))"

definition consume_staged_nav2_permit ::
  "(string \<Rightarrow> string) \<Rightarrow> (string \<Rightarrow> pyval option) \<Rightarrow> chassis_runtime \<Rightarrow> (string \<rightharpoonup> string) \<Rightarrow> posix_path \<Rightarrow>
   posix_path chassis_io" where
  "consume_staged_nav2_permit sha256 loads r env package_root =
     act_bind (lift_outcome (staged_permit_path r env STAGED_PERMIT_ENV)) (\<lambda>p.
     act_bind (private_parent p) (\<lambda>_.
     act_bind (staged_read_private_json loads p) (\<lambda>payload.
     act_bind (staged_validate_permit sha256 package_root payload r env CHASSIS_ROLE None) (\<lambda>permit_id.
     atomic_consume p permit_id))))"

record consumed_goal_permit =
  cg_path :: posix_path
  cg_permit_id :: string
  cg_pair_id :: string
  cg_session_id :: string
  cg_map_id :: string
  cg_map_generation :: int
  cg_goal_source :: string
  cg_target_id :: string
  cg_goal :: goal_pose

text \<open>\<open>str(payload[name])\<close> and \<open>int(payload[name])\<close> of fields the validation has found to be text and integer.\<close>

definition text_field :: "json_object \<Rightarrow> string \<Rightarrow> string" where
  "text_field payload name = (case dict_get payload name of VStr s \<Rightarrow> s | _ \<Rightarrow> [])"

definition int_field :: "json_object \<Rightarrow> string \<Rightarrow> int" where
  "int_field payload name = (case dict_get payload name of VInt i \<Rightarrow> i | _ \<Rightarrow> 0)"

definition consume_staged_nav2_goal_permit ::
  "(string \<Rightarrow> string) \<Rightarrow> (string \<Rightarrow> pyval option) \<Rightarrow> chassis_runtime \<Rightarrow> (string \<rightharpoonup> string) \<Rightarrow> posix_path \<Rightarrow>
   consumed_goal_permit chassis_io" where
  "consume_staged_nav2_goal_permit sha256 loads r env package_root =
     act_bind (lift_outcome (staged_permit_path r env GOAL_PERMIT_ENV)) (\<lambda>p.
     act_bind (private_parent p) (\<lambda>_.
     act_bind (staged_read_private_json loads p) (\<lambda>payload.
     act_bind (staged_validate_permit sha256 package_root payload r env GOAL_DISPATCH_ROLE None) (\<lambda>permit_id.
     act_bind (atomic_consume p permit_id) (\<lambda>consumed_path.
     act_bind (lift_outcome (read_goal_pose (dict_get payload ''goal_pose''))) (\<lambda>pose.
     returning \<lparr>cg_path = consumed_path, cg_permit_id = permit_id, cg_pair_id = text_field payload ''pair_id'',
       cg_session_id = text_field payload ''session_id'', cg_map_id = text_field payload ''map_id'',
       cg_map_generation = int_field payload ''map_generation'', cg_goal_source = text_field payload ''goal_source'',
       cg_target_id = text_field payload ''target_id'', cg_goal = pose\<rparr>))))))"

end
