(* ===== verification/PermitBundle.thy ===== *)
theory PermitBundle imports StagedPermit begin

text \<open>
  \<open>validate_staged_nav2_permit_bundle\<close> of \<open>packages/go2_chassis/go2_chassis/staged_nav2_permit.py\<close>: the
  launcher checks the chassis permit and the goal permit as one pair, without consuming either,
  and derives the environment both consumers will be started with.
\<close>

section \<open>Equality of JSON values\<close>

text \<open>\<open>a == b\<close>: numbers by value, a bool being 0 or 1, objects without regard to order.\<close>

fun exact_value :: "pyval \<Rightarrow> pyfloat option" where
  "exact_value (VBool b) = Some (Fin (if b then 1 else 0))"
| "exact_value (VInt i) = Some (Fin (of_int i))"
| "exact_value (VFloat f) = Some f"
| "exact_value _ = None"

fun py_eq :: "pyval \<Rightarrow> pyval \<Rightarrow> bool" where
  "py_eq (VList xs) v \<longleftrightarrow> (case v of VList ys \<Rightarrow> list_all2 py_eq xs ys | _ \<Rightarrow> False)"
| "py_eq (VDict d) v \<longleftrightarrow> (case v of
      VDict e \<Rightarrow> set (map fst d) = set (map fst e) \<and> list_all (\<lambda>(k, x). py_eq x (dict_get e k)) d
    | _ \<Rightarrow> False)"
| "py_eq VNone v \<longleftrightarrow> v = VNone"
| "py_eq (VStr s) v \<longleftrightarrow> v = VStr s"
| "py_eq u v \<longleftrightarrow> (case (exact_value u, exact_value v) of (Some x, Some y) \<Rightarrow> feq x y | _ \<Rightarrow> False)"

section \<open>The pair\<close>

definition common_fields :: "json_object \<Rightarrow> json_object" where
  "common_fields payload = filter (\<lambda>(k, v). k \<noteq> ''permit_id'' \<and> k \<noteq> ''permit_role'') payload"

definition check_pair :: "json_object \<Rightarrow> json_object \<Rightarrow> chassis_exc + unit" where
  "check_pair chassis goal =
     obind (claim_require (eq_str (dict_get chassis ''permit_role'') CHASSIS_ROLE) ''chassis permit has the wrong role'') (\<lambda>_.
     obind (claim_require (eq_str (dict_get goal ''permit_role'') GOAL_DISPATCH_ROLE) ''goal permit has the wrong role'') (\<lambda>_.
     obind (claim_require (\<not> py_eq (dict_get chassis ''permit_id'') (dict_get goal ''permit_id''))
       ''paired permits must have distinct permit IDs'') (\<lambda>_.
     claim_require (py_eq (VDict (common_fields chassis)) (VDict (common_fields goal)))
       ''chassis and goal permits are not one exact matched pair'')))"

definition claimed_goal_hash :: "json_object \<Rightarrow> chassis_exc + json_object \<times> string" where
  "claimed_goal_hash payload =
     (case dict_get payload ''evidence'' of
        VDict evidence \<Rightarrow> (case dict_get evidence ''goal'' of
            VDict claim \<Rightarrow> obind (id_field SHA256_RE claim ''sha256'') (\<lambda>h. Inr (evidence, h))
          | _ \<Rightarrow> Inl (PermitError ''paired permit goal evidence claim is malformed''))
      | _ \<Rightarrow> Inl (PermitError ''paired permit evidence claims are malformed''))"

text \<open>
  The environment derived from the chassis permit. \<open>str\<close> of a field that is no text is never
  compared with anything, the validation of the permit refuses it first.
\<close>

definition derived_environment :: "json_object \<Rightarrow> int \<Rightarrow> goal_pose \<Rightarrow> string \<Rightarrow> (string \<times> string) list" where
  "derived_environment payload map_generation pose goal_hash =
     permit_environment (text_field payload ''session_id'') (text_field payload ''pair_id'')
       (text_field payload ''map_id'') map_generation (text_field payload ''goal_source'')
       (text_field payload ''target_id'') pose @ [(GOAL_EVIDENCE_SHA256_ENV, goal_hash)]"

record validated_permit_bundle =
  pb_chassis_path :: posix_path
  pb_goal_path :: posix_path
  pb_chassis_permit_id :: string
  pb_goal_permit_id :: string
  pb_pair_id :: string
  pb_session_id :: string
  pb_map_id :: string
  pb_map_generation :: int
  pb_goal_source :: string
  pb_target_id :: string
  pb_goal :: goal_pose
  pb_goal_evidence :: validated_goal_evidence
  pb_environment :: "(string \<times> string) list"

definition evidence_names :: "string list" where
  "evidence_names = [''dds_identity'', ''goal'', ''state'', ''time'']"

definition match_launcher_path ::
  "json_object \<Rightarrow> (string \<times> posix_path) list \<Rightarrow> string \<Rightarrow> (string \<times> posix_path) chassis_io" where
  "match_launcher_path evidence expected name =
     (case map_of expected name of
        None \<Rightarrow> raise_exc (PermitError ''launcher must provide exactly all four staged pre-boot evidence paths'')
      | Some candidate \<Rightarrow>
          act_bind (permit_require (is_absolute candidate) (name @ '' expected evidence path must be absolute'')) (\<lambda>_.
          act_bind (os_resolve candidate) (\<lambda>resolved.
          act_bind (permit_require (case dict_get evidence name of
              VDict claim \<Rightarrow> eq_str (dict_get claim ''path'') (path_text resolved) | _ \<Rightarrow> False)
            (name @ '' evidence path does not match the launcher input'')) (\<lambda>_.
          returning (name, resolved)))))"

definition bundle_start :: "chassis_runtime \<Rightarrow> posix_path \<Rightarrow> posix_path \<Rightarrow> unit chassis_io" where
  "bundle_start r chassis_path goal_path =
     act_bind (permit_require (cr_allow_motion r \<and> cr_motion_profile r = STAGED_NAV2_PROFILE)
       ''bundle validation requires the exact staged-nav2 runtime'') (\<lambda>_.
     act_bind (permit_require (is_absolute chassis_path \<and> is_absolute goal_path) ''both staged permit paths must be absolute'') (\<lambda>_.
     act_bind (permit_require (chassis_path \<noteq> goal_path) ''chassis and goal permit paths must be distinct'') (\<lambda>_.
     act_bind (private_parent chassis_path) (\<lambda>_. private_parent goal_path))))"

definition validate_staged_nav2_permit_bundle ::
  "libm \<Rightarrow> (string \<Rightarrow> string) \<Rightarrow> (string \<Rightarrow> pyval option) \<Rightarrow> posix_path \<Rightarrow> posix_path \<Rightarrow> chassis_runtime \<Rightarrow>
   posix_path \<Rightarrow> (string \<times> posix_path) list \<Rightarrow> int option \<Rightarrow> validated_permit_bundle chassis_io" where
  "validate_staged_nav2_permit_bundle lm sha256 loads chassis_path goal_path r package_root expected now =
     act_bind (bundle_start r chassis_path goal_path) (\<lambda>_.
     act_bind (staged_read_private_json loads chassis_path) (\<lambda>chassis.
     act_bind (staged_read_private_json loads goal_path) (\<lambda>goal.
     act_bind (lift_outcome (check_pair chassis goal)) (\<lambda>_.
     act_bind (lift_outcome (read_goal_pose (dict_get chassis ''goal_pose''))) (\<lambda>pose.
     act_bind (lift_outcome (claimed_goal_hash chassis)) (\<lambda>(evidence, goal_hash).
     act_bind (lift_outcome (positive_generation (dict_get chassis ''map_generation''))) (\<lambda>map_generation.
     let environment = derived_environment chassis map_generation pose goal_hash; env = map_of environment in
     act_bind (case now of Some n \<Rightarrow> returning n | None \<Rightarrow> os_time_ns) (\<lambda>now_ns.
     act_bind (staged_validate_permit sha256 package_root chassis r env CHASSIS_ROLE (Some now_ns)) (\<lambda>chassis_id.
     act_bind (staged_validate_permit sha256 package_root goal r env GOAL_DISPATCH_ROLE (Some now_ns)) (\<lambda>goal_id.
     act_bind (permit_require (set (map fst expected) = set evidence_names)
       ''launcher must provide exactly all four staged pre-boot evidence paths'') (\<lambda>_.
     act_bind (act_all (match_launcher_path evidence expected) evidence_names) (\<lambda>resolved.
     act_bind (case map_of resolved ''goal'' of None \<Rightarrow> raise_exc EscapedRuntime | Some p \<Rightarrow> returning p) (\<lambda>goal_file.
     act_bind (validate_short_goal_evidence lm sha256 loads goal_file goal_hash (text_field chassis ''map_id'')
       map_generation (text_field chassis ''goal_source'') (text_field chassis ''target_id'') pose (Some now_ns)) (\<lambda>goal_evidence.
     returning \<lparr>pb_chassis_path = chassis_path, pb_goal_path = goal_path, pb_chassis_permit_id = chassis_id,
       pb_goal_permit_id = goal_id, pb_pair_id = text_field chassis ''pair_id'',
       pb_session_id = text_field chassis ''session_id'', pb_map_id = text_field chassis ''map_id'',
       pb_map_generation = map_generation, pb_goal_source = text_field chassis ''goal_source'',
       pb_target_id = text_field chassis ''target_id'', pb_goal = pose, pb_goal_evidence = goal_evidence,
       pb_environment = environment\<rparr>))))))))))))))"

end
