(* ===== verification/IoLogic.thy ===== *)
theory IoLogic imports OsModel begin

text \<open>
  Reasoning about programs of calls. \<open>obeys\<close> is a Hoare triple over the history of calls and
  answers, for every answer the system could give; \<open>calls_in\<close> bounds the calls a program can make;
  \<open>feed\<close> runs a program on a list of answers. Below, any number of programs share one file system
  and interleave call by call, with other activity in between.
\<close>

type_synonym history = "(syscall \<times> sysresult) list"

named_theorems io_rules \<open>how calls_in and obeys decompose along a program\<close>

section \<open>Which calls a program can make\<close>

primrec calls_in :: "'a io \<Rightarrow> syscall set \<Rightarrow> bool" where
  "calls_in (Return a) C \<longleftrightarrow> True"
| "calls_in (Call c k) C \<longleftrightarrow> c \<in> C \<and> (\<forall>r. calls_in (k r) C)"

lemma calls_in_bind [intro]: "calls_in m C \<Longrightarrow> (\<And>a. calls_in (f a) C) \<Longrightarrow> calls_in (io_bind m f) C"
  by (induction m) auto

lemma calls_in_act_bind [intro]: "calls_in m C \<Longrightarrow> (\<And>a. calls_in (f a) C) \<Longrightarrow> calls_in (act_bind m f) C"
  by (auto simp: act_bind_def split: sum.split intro!: calls_in_bind)

lemma calls_in_lift [simp]: "calls_in (lift_outcome r) C"
  by (simp add: lift_outcome_def)

lemma calls_in_act_all: "(\<And>x. x \<in> set xs \<Longrightarrow> calls_in (f x) C) \<Longrightarrow> calls_in (act_all f xs) C"
  by (induction xs) (auto intro!: calls_in_act_bind)

lemma calls_in_mono: "calls_in m C \<Longrightarrow> C \<subseteq> D \<Longrightarrow> calls_in m D"
  by (induction m) auto

section \<open>Triples over histories\<close>

primrec obeys :: "'a io \<Rightarrow> (history \<Rightarrow> syscall \<Rightarrow> bool) \<Rightarrow> (history \<Rightarrow> 'a \<Rightarrow> bool) \<Rightarrow> history \<Rightarrow> bool" where
  "obeys (Return a) G Q = (\<lambda>h. Q h a)"
| "obeys (Call c k) G Q = (\<lambda>h. G h c \<and> (\<forall>r. obeys (k r) G Q (h @ [(c, r)])))"

abbreviation anything :: "history \<Rightarrow> syscall \<Rightarrow> bool" where
  "anything \<equiv> (\<lambda>h c. True)"

lemma obeys_bind: "obeys (io_bind m f) G Q h \<longleftrightarrow> obeys m G (\<lambda>h a. obeys (f a) G Q h) h"
  by (induction m arbitrary: h) simp_all

lemma obeys_act_bind:
  "obeys (act_bind m f) G Q h \<longleftrightarrow>
   obeys m G (\<lambda>h r. case r of Inl e \<Rightarrow> Q h (Inl e) | Inr a \<Rightarrow> obeys (f a) G Q h) h"
proof -
  have "(\<lambda>h r. obeys (case r of Inl e \<Rightarrow> Return (Inl e) | Inr a \<Rightarrow> f a) G Q h) =
      (\<lambda>h r. case r of Inl e \<Rightarrow> Q h (Inl e) | Inr a \<Rightarrow> obeys (f a) G Q h)"
    by (intro ext) (simp split: sum.split)
  then show ?thesis by (simp add: act_bind_def obeys_bind)
qed

lemma obeys_lift [simp]: "obeys (lift_outcome r) G Q h = Q h r"
  by (simp add: lift_outcome_def)

text \<open>The history only grows, and it grows by the calls the program makes.\<close>

lemma obeys_weaken_aux:
  "obeys m G Q h \<Longrightarrow> set h0 \<subseteq> set h \<Longrightarrow>
   (\<And>h' c. set h0 \<subseteq> set h' \<Longrightarrow> G h' c \<Longrightarrow> G' h' c) \<Longrightarrow>
   (\<And>h' a. set h0 \<subseteq> set h' \<Longrightarrow> Q h' a \<Longrightarrow> Q' h' a) \<Longrightarrow> obeys m G' Q' h"
proof (induction m arbitrary: h)
  case (Return a)
  then show ?case by auto
next
  case (Call c k)
  have "obeys (k r) G' Q' (h @ [(c, r)])" for r
  proof (rule Call.IH [OF rangeI])
    show "obeys (k r) G Q (h @ [(c, r)])" using Call.prems(1) by simp
    show "set h0 \<subseteq> set (h @ [(c, r)])" using Call.prems(2) by auto
    show "G' h' c'" if "set h0 \<subseteq> set h'" "G h' c'" for h' c' using that by (rule Call.prems(3))
    show "Q' h' a" if "set h0 \<subseteq> set h'" "Q h' a" for h' a using that by (rule Call.prems(4))
  qed
  moreover have "G h c" using Call.prems(1) by simp
  then have "G' h c" by (rule Call.prems(3) [OF Call.prems(2)])
  ultimately show ?case by simp
qed

lemma obeys_weaken:
  assumes "obeys m G Q h" "\<And>h' a. set h \<subseteq> set h' \<Longrightarrow> Q h' a \<Longrightarrow> Q' h' a"
  shows "obeys m G Q' h"
  by (rule obeys_weaken_aux [OF assms(1) subset_refl _ assms(2)])

lemma obeys_calls:
  "obeys m G Q h \<Longrightarrow> calls_in m C \<Longrightarrow> set h0 \<subseteq> set h \<Longrightarrow>
   (\<And>h' c. set h0 \<subseteq> set h' \<Longrightarrow> c \<in> C \<Longrightarrow> G' h' c) \<Longrightarrow> obeys m G' Q h"
proof (induction m arbitrary: h)
  case (Return a)
  then show ?case by simp
next
  case (Call c k)
  have "obeys (k r) G' Q (h @ [(c, r)])" for r
    by (rule Call.IH [of "k r"]) (use Call.prems in auto)
  then show ?case using Call.prems by auto
qed

lemma obeys_trivial: "calls_in m C \<Longrightarrow> (\<And>h' c. set h \<subseteq> set h' \<Longrightarrow> c \<in> C \<Longrightarrow> G h' c) \<Longrightarrow> obeys m G (\<lambda>h a. True) h"
proof -
  have "obeys m anything (\<lambda>h a. True) h" for h :: history and m :: "'b io"
    by (induction m arbitrary: h) simp_all
  then show "calls_in m C \<Longrightarrow> (\<And>h' c. set h \<subseteq> set h' \<Longrightarrow> c \<in> C \<Longrightarrow> G h' c) \<Longrightarrow> obeys m G (\<lambda>h a. True) h"
    by (rule obeys_calls) auto
qed

section \<open>Running on a list of answers\<close>

fun feed :: "'a io \<Rightarrow> sysresult list \<Rightarrow> history \<times> 'a io" where
  "feed (Call c k) (r # rs) = (case feed (k r) rs of (t, p) \<Rightarrow> ((c, r) # t, p))"
| "feed p rs = ([], p)"

lemma obeys_feed:
  "obeys p G Q h \<Longrightarrow> feed p rs = (t, p') \<Longrightarrow>
   obeys p' G Q (h @ t) \<and> (\<forall>i < length t. G (h @ take i t) (fst (t ! i)))"
proof (induction p rs arbitrary: h t p' rule: feed.induct)
  case (1 c k r rs)
  obtain u where u: "feed (k r) rs = (u, p')" "t = (c, r) # u"
    using "1.prems"(2) by (auto split: prod.splits)
  have ih: "obeys p' G Q (h @ [(c, r)] @ u)"
    "\<And>i. i < length u \<Longrightarrow> G ((h @ [(c, r)]) @ take i u) (fst (u ! i))"
    using "1.IH" [of "h @ [(c, r)]", OF _ u(1)] "1.prems"(1) by auto
  have "G (h @ take i t) (fst (t ! i))" if "i < length t" for i
    using that ih(2) [of "i - 1"] "1.prems"(1) u(2) by (cases i) auto
  then show ?case using ih(1) u(2) by simp
qed auto

section \<open>Interleaved programs on one file system\<close>

type_synonym 'a system = "world \<times> (nat \<Rightarrow> 'a io) \<times> (nat \<times> syscall \<times> sysresult) list"

text \<open>Either one process makes its next call, or something else changes the world within \<open>env\<close>.\<close>

inductive system_step :: "(world \<Rightarrow> world \<Rightarrow> bool) \<Rightarrow> 'a system \<Rightarrow> 'a system \<Rightarrow> bool" for env where
  process_step: "procs i = Call c k \<Longrightarrow> perform c w = (r, w') \<Longrightarrow>
     system_step env (w, procs, events) (w', procs(i := k r), events @ [(i, c, r)])"
| environment_step: "env w w' \<Longrightarrow> system_step env (w, procs, events) (w', procs, events)"

inductive_cases system_stepE: "system_step env s t"

abbreviation reaches :: "(world \<Rightarrow> world \<Rightarrow> bool) \<Rightarrow> 'a system \<Rightarrow> 'a system \<Rightarrow> bool" where
  "reaches env \<equiv> (system_step env)\<^sup>*\<^sup>*"

definition history_of :: "nat \<Rightarrow> (nat \<times> syscall \<times> sysresult) list \<Rightarrow> history" where
  "history_of i events = map snd (filter (\<lambda>e. fst e = i) events)"

lemma history_of_simps [simp]:
  "history_of i [] = []"
  "history_of i (events @ [(j, e)]) = (if i = j then history_of i events @ [e] else history_of i events)"
  by (auto simp: history_of_def)

text \<open>What each program obeys on its own it still obeys among the others.\<close>

lemma system_obeys:
  assumes "reaches env (w0, procs0, []) (w, procs, events)" and "\<And>i. obeys (procs0 i) (G i) (Q i) []"
  shows "obeys (procs i) (G i) (Q i) (history_of i events) \<and>
    (\<forall>n < length events. G (fst (events ! n)) (history_of (fst (events ! n)) (take n events)) (fst (snd (events ! n))))"
  using assms(1)
proof (induction "(w, procs, events)" arbitrary: w procs events i rule: rtranclp_induct)
  case base
  then show ?case using assms(2) by simp
next
  case (step mid)
  obtain w1 procs1 events1 where mid: "mid = (w1, procs1, events1)" by (cases mid)
  note ih = step.hyps(3) [OF mid]
  from step.hyps(2) show ?case unfolding mid
  proof (cases rule: system_step.cases)
    case (process_step j c k r)
    have j: "G j (history_of j events1) c" "obeys (k r) (G j) (Q j) (history_of j events1 @ [(c, r)])"
      using ih [of j] process_step by auto
    have "G (fst (events ! n)) (history_of (fst (events ! n)) (take n events)) (fst (snd (events ! n)))"
      if "n < length events" for n
    proof (cases "n = length events1")
      case True
      then show ?thesis using j(1) process_step by simp
    next
      case False
      then have "n < length events1" using that process_step by simp
      then show ?thesis using ih [of i] process_step by (auto simp: nth_append)
    qed
    then show ?thesis using ih [of i] j(2) process_step by auto
  next
    case environment_step
    then show ?thesis using ih [of i] by simp
  qed
qed

section \<open>A file that can be moved away once\<close>

text \<open>A call that cannot make the path \<open>p\<close> appear.\<close>

definition never_creates :: "posix_path \<Rightarrow> syscall \<Rightarrow> bool" where
  "never_creates p c \<longleftrightarrow> (\<forall>a b. c = Rename a b \<longrightarrow> b \<noteq> p) \<and>
     (\<forall>d m. c = Mkdir d m \<longrightarrow> d \<noteq> p \<and> p \<notin> set (ancestors d))"

abbreviation entry_gone :: "posix_path \<Rightarrow> world \<Rightarrow> bool" where
  "entry_gone p w \<equiv> fs_entries w p = None"

definition moved_away :: "posix_path \<Rightarrow> syscall \<times> sysresult \<Rightarrow> bool" where
  "moved_away p e \<longleftrightarrow> (\<exists>q. e = (Rename p q, RDone))"

lemma add_directory_gone: "entry_gone p w \<Longrightarrow> p \<noteq> a \<Longrightarrow> entry_gone p (add_directory m a w)"
  by (simp add: add_directory_def)

lemma add_directories_gone: "entry_gone p w \<Longrightarrow> p \<notin> set as \<Longrightarrow> entry_gone p (foldl (\<lambda>w a. add_directory m a w) w as)"
proof (induction as arbitrary: w)
  case (Cons a as)
  then show ?case using add_directory_gone [of w p a m] by simp
qed simp

lemma exec_keeps_gone: "never_creates p c \<Longrightarrow> entry_gone p w \<Longrightarrow> entry_gone p (snd (exec c w))"
proof (cases c)
  case (Mkdir d m)
  assume "never_creates p c" "entry_gone p w"
  then have "entry_gone p (add_directory m d (foldl (\<lambda>w a. add_directory 493 a w) w (ancestors d)))"
    by (intro add_directory_gone add_directories_gone) (auto simp: never_creates_def Mkdir)
  then show ?thesis using \<open>entry_gone p w\<close> by (simp add: Mkdir)
qed (auto simp: never_creates_def split: option.splits)

lemma perform_keeps_gone: "never_creates p c \<Longrightarrow> entry_gone p w \<Longrightarrow> entry_gone p (snd (perform c w))"
  by (simp add: perform_def exec_keeps_gone split: option.split)

lemma perform_moves: "perform (Rename p q) w = (RDone, w') \<Longrightarrow> q \<noteq> p \<Longrightarrow> \<not> entry_gone p w \<and> entry_gone p w'"
  by (auto simp: perform_def split: option.splits)

text \<open>
  If no process can create \<open>p\<close> and nothing else puts it back, \<open>p\<close> is moved away at most once, by
  whichever process.
\<close>

lemma moved_at_most_once:
  assumes "reaches env (w0, procs0, []) (w, procs, events)"
    and "\<And>w w'. env w w' \<Longrightarrow> entry_gone p w \<Longrightarrow> entry_gone p w'"
    and "\<And>i. obeys (procs0 i) (\<lambda>h c. never_creates p c) (Q i) []"
  shows "length (filter (\<lambda>e. moved_away p (snd e)) events) \<le> (if entry_gone p w then 1 else 0)"
  using assms(1)
proof (induction "(w, procs, events)" arbitrary: w procs events rule: rtranclp_induct)
  case base
  then show ?case by simp
next
  case (step mid)
  obtain w1 procs1 events1 where mid: "mid = (w1, procs1, events1)" by (cases mid)
  note ih = step.hyps(3) [OF mid]
  have safe: "never_creates p (fst (snd (events ! n)))" if "n < length events" for n
    using system_obeys [where G = "\<lambda>i h c. never_creates p c" and Q = Q,
        OF rtranclp.rtrancl_into_rtrancl [OF step.hyps(1,2)] assms(3)] that by blast
  from step.hyps(2) show ?case unfolding mid
  proof (cases rule: system_step.cases)
    case (process_step j c k r)
    have c: "never_creates p c" using safe [of "length events1"] process_step by simp
    show ?thesis
    proof (cases "moved_away p (c, r)")
      case True
      then obtain q where "c = Rename p q" "r = RDone" by (auto simp: moved_away_def)
      then have gone: "\<not> entry_gone p w1" "entry_gone p w"
        using perform_moves c process_step by (auto simp: never_creates_def)
      from ih have "length (filter (\<lambda>e. moved_away p (snd e)) events1) \<le> 0" unfolding if_not_P [OF gone(1)] .
      then show ?thesis using gone(2) process_step True by simp
    next
      case False
      then have "length (filter (\<lambda>e. moved_away p (snd e)) events) = length (filter (\<lambda>e. moved_away p (snd e)) events1)"
        using process_step by simp
      moreover have "entry_gone p w1 \<Longrightarrow> entry_gone p w"
        using perform_keeps_gone [OF c] process_step by (metis snd_conv)
      ultimately show ?thesis using ih by (cases "entry_gone p w1") simp_all
    qed
  next
    case environment_step
    then show ?thesis using ih assms(2) by (auto split: if_splits)
  qed
qed

end
