(* ===== verification/IoRun.thy ===== *)
theory IoRun imports PermitFiles IoLogic begin

text \<open>
  Running a program on a world: how a run splits along the program, the calls it makes
  (\<open>trace_io\<close>), and the run as one process of an interleaved system.
\<close>

lemma run_act_bind [simp]:
  "run_io (act_bind m f) w = (case run_io m w of (Inl e, w') \<Rightarrow> (Inl e, w') | (Inr a, w') \<Rightarrow> run_io (f a) w')"
  by (auto simp: act_bind_def split: prod.split sum.split)

lemma run_plain [simp]:
  "run_io (returning a) w = (Inr a, w)" "run_io (raise_exc e) w = (Inl e, w)" "run_io (lift_outcome r) w = (r, w)"
  "run_io (permit_require b m) w = (raise_unless b (PermitError m), w)"
  "run_io (config_require b m) w = (raise_unless b (ConfigError m), w)"
  by (simp_all add: returning_def raise_exc_def lift_outcome_def permit_require_def config_require_def)

primrec trace_io :: "'a io \<Rightarrow> world \<Rightarrow> history" where
  "trace_io (Return a) w = []"
| "trace_io (Call c k) w = (c, fst (perform c w)) # trace_io (k (fst (perform c w))) (snd (perform c w))"

lemma trace_io_bind:
  "trace_io (io_bind m f) w = trace_io m w @ trace_io (f (fst (run_io m w))) (snd (run_io m w))"
  by (induction m arbitrary: w) simp_all

lemma trace_act_bind:
  "trace_io (act_bind m f) w = trace_io m w @
     (case run_io m w of (Inl e, w') \<Rightarrow> [] | (Inr a, w') \<Rightarrow> trace_io (f a) w')"
  by (auto simp: act_bind_def trace_io_bind split: prod.split sum.split)

text \<open>A process that runs alone from start to end.\<close>

lemma run_reaches:
  assumes "procs i = p"
  shows "reaches env (w, procs, events)
    (snd (run_io p w), procs(i := Return (fst (run_io p w))), events @ map (\<lambda>e. (i, e)) (trace_io p w))"
  using assms
proof (induction p arbitrary: w procs events)
  case (Return a)
  then have "procs(i := Return a) = procs" by auto
  then show ?case by simp
next
  case (Call c k)
  obtain r w' where p: "perform c w = (r, w')" by (cases "perform c w")
  have step: "system_step env (w, procs, events) (w', procs(i := k r), events @ [(i, c, r)])"
    by (rule process_step) (use Call.prems p in auto)
  have rest: "reaches env (w', procs(i := k r), events @ [(i, c, r)])
    (snd (run_io (k r) w'), (procs(i := k r))(i := Return (fst (run_io (k r) w'))),
     (events @ [(i, c, r)]) @ map (\<lambda>e. (i, e)) (trace_io (k r) w'))"
    by (rule Call.IH [OF rangeI]) simp
  have "reaches env (w, procs, events)
    (snd (run_io (k r) w'), (procs(i := k r))(i := Return (fst (run_io (k r) w'))),
     (events @ [(i, c, r)]) @ map (\<lambda>e. (i, e)) (trace_io (k r) w'))"
    using step rest by (rule converse_rtranclp_into_rtranclp)
  then show ?case unfolding fun_upd_upd by (simp add: p fun_upd_def)
qed

section \<open>A world in which no call fails by itself\<close>

definition no_faults :: "world \<Rightarrow> bool" where
  "no_faults w \<longleftrightarrow> (\<forall>c. fs_fault w c = None)"

lemma run_os [simp]:
  assumes "no_faults w"
  shows "run_io (os_lstat p) w = (case node_at w p of None \<Rightarrow> Inl (OSErr FileNotFound) | Some (i, n) \<Rightarrow> Inr (info_of i n), w)"
    "run_io (os_open p d) w = (case node_at w p of None \<Rightarrow> Inl (OSErr FileNotFound)
      | Some (i, n) \<Rightarrow> if in_kind n = SymlinkFile \<or> (d \<and> in_kind n \<noteq> DirectoryFile) then Inl (OSErr OtherOSError) else Inr i, w)"
    "run_io (os_fstat fd) w = (case fs_inodes w fd of None \<Rightarrow> Inl (OSErr OtherOSError) | Some n \<Rightarrow> Inr (info_of fd n), w)"
    "run_io (os_read fd count) w = (case fs_inodes w fd of
       Some n \<Rightarrow> if in_kind n = RegularFile then Inr (take count (in_content n)) else Inl (OSErr OtherOSError)
     | None \<Rightarrow> Inl (OSErr OtherOSError), w)"
    "run_io (os_read_file p) w = (case node_at w (fs_resolve w p) of
       Some (i, n) \<Rightarrow> if in_kind n = RegularFile then Inr (in_content n) else Inl (OSErr OtherOSError)
     | None \<Rightarrow> Inl (OSErr FileNotFound), w)"
    "run_io os_geteuid w = (Inr (fs_euid w), w)"
    "run_io os_time_ns w = (Inr (fs_clock w), w)"
    "run_io (os_resolve p) w = (Inr (fs_resolve w p), w)"
    "run_io (os_bool (Exists p)) w = (Inr (node_at w (fs_resolve w p) \<noteq> None), w)"
    "run_io (os_bool (IsFile p)) w =
      (Inr (case node_at w (fs_resolve w p) of Some (i, n) \<Rightarrow> in_kind n = RegularFile | None \<Rightarrow> False), w)"
    "run_io (os_bool (IsExecutable p)) w = (Inr (fs_executable w p), w)"
  using assms
  by (simp_all add: no_faults_def perform_def os_lstat_def os_open_def os_fstat_def os_read_def os_read_file_def
      os_geteuid_def os_time_ns_def os_resolve_def os_bool_def os_result_def split: option.split prod.split)

end
