(* ===== verification/CommissioningPermits.thy ===== *)
theory CommissioningPermits imports StagedPermit begin

text \<open>
  \<open>packages/go2_chassis/go2_chassis/first_motion_permit.py\<close> and \<open>second_motion_permit.py\<close>: the permits of
  the two commissioning motions. Both live at most five minutes and must have 15 seconds left; the
  second binds the result of the first. Only the second refuses repeated JSON keys.
\<close>

definition FIRST_PERMIT_SCHEMA :: string where "FIRST_PERMIT_SCHEMA = ''robonix-go2-first-motion-permit-v1''"
definition FIRST_PERMIT_ENV :: string where "FIRST_PERMIT_ENV = ''GO2_FIRST_MOTION_PERMIT_FILE''"
definition FIRST_PERMIT_ACK :: string where "FIRST_PERMIT_ACK = ''I_APPROVE_GO2_FIRST_10CM_MOTION''"
definition MAX_LIFETIME_NS :: int where "MAX_LIFETIME_NS = 5 * 60 * 1000000000"
definition MIN_REMAINING_NS :: int where "MIN_REMAINING_NS = 15 * 1000000000"
definition SECOND_PERMIT_SCHEMA :: string where "SECOND_PERMIT_SCHEMA = ''robonix-go2-second-motion-permit-v1''"
definition SECOND_PERMIT_ENV :: string where "SECOND_PERMIT_ENV = ''GO2_SECOND_MOTION_PERMIT_FILE''"
definition SECOND_PERMIT_ACK :: string where "SECOND_PERMIT_ACK = ''I_APPROVE_GO2_SECOND_20CM_MOTION''"
definition FIRST_PASS_SCHEMA :: string where "FIRST_PASS_SCHEMA = ''robonix-go2-first-motion-v1''"

definition COMMISSIONING_ID_RE :: "string \<Rightarrow> bool" where
  "COMMISSIONING_ID_RE = head_run is_alnum word_dot_dash 7 127"

section \<open>What both validations share\<close>

definition check_short_lifetime :: "json_object \<Rightarrow> int \<Rightarrow> chassis_exc + unit" where
  "check_short_lifetime payload now =
     (case (as_int (dict_get payload ''issued_unix_ns''), as_int (dict_get payload ''expires_unix_ns'')) of
        (Some issued, Some expires) \<Rightarrow>
          obind (claim_require (\<not> (issued \<le> 0 \<or> expires \<le> issued \<or> expires - issued > MAX_LIFETIME_NS))
            ''permit lifetime is invalid or exceeds five minutes'') (\<lambda>_.
          claim_require (\<not> (now < issued \<or> expires - now < MIN_REMAINING_NS))
            ''permit is not current or has less than 15 seconds left'')
      | _ \<Rightarrow> Inl (PermitError ''permit lifetime is invalid or exceeds five minutes''))"

definition check_permit_head :: "json_object \<Rightarrow> string \<Rightarrow> int \<Rightarrow> chassis_exc + string" where
  "check_permit_head payload schema now =
     obind (claim_require (eq_str (dict_get payload ''schema'') schema) ''unexpected permit schema'') (\<lambda>_.
     obind (id_field COMMISSIONING_ID_RE payload ''permit_id'') (\<lambda>permit_id.
     obind (id_field COMMISSIONING_ID_RE payload ''session_id'') (\<lambda>_.
     obind (claim_require (dict_get payload ''one_time'' = VBool True) ''permit must explicitly be one_time'') (\<lambda>_.
     obind (check_short_lifetime payload now) (\<lambda>_. Inr permit_id)))))"

section \<open>The first motion\<close>

text \<open>\<open>_exact_number\<close> of the first module has no test for finiteness; a value equal to a finite one is finite.\<close>

definition first_exact_number :: "pyval \<Rightarrow> pyfloat \<Rightarrow> string \<Rightarrow> chassis_exc + unit" where
  "first_exact_number v expected label =
     obind (number_value v (label @ '' must be numeric'')) (\<lambda>f.
     claim_require (feq f expected) (label @ '' does not match the fixed envelope''))"

definition first_texts :: "chassis_runtime \<Rightarrow> (string \<times> string) list" where
  "first_texts r =
     [(''profile'', FIRST_MOTION_PROFILE), (''operator_ack'', FIRST_PERMIT_ACK),
      (''network_interface'', cr_network_interface r), (''state_topic'', cr_state_topic r),
      (''command_topic'', FIRST_MOTION_COMMAND_TOPIC), (''odom_topic'', FIRST_MOTION_ODOM_TOPIC),
      (''arm_service'', cr_arm_service r)]"

definition first_numbers :: "(string \<times> pyfloat) list" where
  "first_numbers =
     [(''max_linear_x_mps'', FIRST_MOTION_MAX_VX_MPS), (''max_linear_y_mps'', FIRST_MOTION_MAX_VY_MPS),
      (''max_angular_z_rps'', FIRST_MOTION_MAX_WZ_RPS), (''max_duration_s'', FIRST_MOTION_MAX_DURATION_S),
      (''max_distance_m'', FIRST_MOTION_MAX_DISTANCE_M), (''command_timeout_s'', FIRST_MOTION_COMMAND_TIMEOUT_S)]"

definition check_first_permit :: "json_object \<Rightarrow> chassis_runtime \<Rightarrow> int \<Rightarrow> chassis_exc + string \<times> json_object" where
  "check_first_permit payload r now =
     obind (check_permit_head payload FIRST_PERMIT_SCHEMA now) (\<lambda>permit_id.
     obind (check_texts payload (first_texts r)) (\<lambda>_.
     obind (check_allowlists payload r) (\<lambda>_.
     obind (all_ok (\<lambda>(name, expected). first_exact_number (dict_get payload name) expected name) first_numbers) (\<lambda>_.
     obind (claim_object [''dds_identity'', ''state'', ''time''] (dict_get payload ''evidence'')
       ''permit must bind exactly DDS identity, state, and time evidence'') (\<lambda>evidence.
     Inr (permit_id, evidence))))))"

definition first_validate_permit ::
  "(string \<Rightarrow> string) \<Rightarrow> posix_path \<Rightarrow> json_object \<Rightarrow> chassis_runtime \<Rightarrow> int option \<Rightarrow> string chassis_io" where
  "first_validate_permit sha256 package_root payload r now =
     act_bind (case now of Some n \<Rightarrow> returning n | None \<Rightarrow> os_time_ns) (\<lambda>now_ns.
     act_bind (lift_outcome (check_first_permit payload r now_ns)) (\<lambda>(permit_id, evidence).
     act_bind (os_resolve package_root) (\<lambda>resolved_root.
     act_bind (act_all (verify_claim sha256 resolved_root evidence) [''dds_identity'', ''state'', ''time'']) (\<lambda>_.
     returning permit_id))))"

text \<open>
  The parent of the permit file here is an \<open>lstat\<close> without a handler, so a missing directory is an
  \<open>OSError\<close>; \<open>main\<close> catches both.
\<close>

definition unhandled_private_parent :: "posix_path \<Rightarrow> unit chassis_io" where
  "unhandled_private_parent p =
     act_bind (os_lstat (path_parent p)) (\<lambda>info.
     act_bind os_geteuid (\<lambda>uid.
     permit_require (st_kind info = DirectoryFile \<and> st_uid info = uid \<and> st_mode info = 448)
       ''permit parent must be an owned non-symlink 0700 directory''))"

definition consume_first_motion_permit ::
  "(string \<Rightarrow> string) \<Rightarrow> (string \<Rightarrow> pyval option) \<Rightarrow> chassis_runtime \<Rightarrow> (string \<rightharpoonup> string) \<Rightarrow> posix_path \<Rightarrow>
   posix_path chassis_io" where
  "consume_first_motion_permit sha256 loads r env package_root =
     act_bind (permit_require (cr_allow_motion r) ''permit consumption is only valid for a motion runtime'') (\<lambda>_.
     let t = str_strip (env_get env FIRST_PERMIT_ENV); p = path_of t in
     act_bind (permit_require (t \<noteq> []) ''motion requires GO2_FIRST_MOTION_PERMIT_FILE'') (\<lambda>_.
     act_bind (permit_require (is_absolute p) ''first-motion permit path must be absolute'') (\<lambda>_.
     act_bind (unhandled_private_parent p) (\<lambda>_.
     act_bind (read_json_file loads False True p) (\<lambda>payload.
     act_bind (first_validate_permit sha256 package_root payload r None) (\<lambda>permit_id.
     atomic_consume p permit_id))))))"

section \<open>The second motion\<close>

definition second_texts :: "chassis_runtime \<Rightarrow> (string \<times> string) list" where
  "second_texts r =
     [(''profile'', SECOND_MOTION_PROFILE), (''operator_ack'', SECOND_PERMIT_ACK),
      (''network_interface'', cr_network_interface r), (''state_topic'', cr_state_topic r),
      (''command_topic'', SECOND_MOTION_COMMAND_TOPIC), (''odom_topic'', SECOND_MOTION_ODOM_TOPIC),
      (''external_odom_topic'', DEFAULT_EXTERNAL_ODOM_TOPIC), (''arm_service'', cr_arm_service r)]"

definition second_numbers :: "(string \<times> pyfloat) list" where
  "second_numbers =
     [(''max_linear_x_mps'', SECOND_MOTION_MAX_VX_MPS), (''max_linear_y_mps'', SECOND_MOTION_MAX_VY_MPS),
      (''max_angular_z_rps'', SECOND_MOTION_MAX_WZ_RPS), (''max_linear_accel_mps2'', SECOND_MOTION_MAX_LINEAR_ACCEL_MPS2),
      (''max_angular_accel_rps2'', SECOND_MOTION_MAX_ANGULAR_ACCEL_RPS2),
      (''max_duration_s'', SECOND_MOTION_MAX_DURATION_S), (''max_distance_m'', SECOND_MOTION_MAX_DISTANCE_M),
      (''command_timeout_s'', SECOND_MOTION_COMMAND_TIMEOUT_S), (''control_rate_hz'', SECOND_MOTION_CONTROL_RATE_HZ)]"

text \<open>The facts a receipt of the first motion must state.\<close>

definition check_first_pass :: "json_object \<Rightarrow> chassis_exc + unit" where
  "check_first_pass payload =
     obind (claim_require (eq_str (dict_get payload ''schema'') FIRST_PASS_SCHEMA) ''first-motion evidence schema is invalid'') (\<lambda>_.
     obind (all_ok (\<lambda>(key, expected). claim_require (eq_str (dict_get payload key) expected)
         (''first-motion PASS evidence has invalid '' @ key))
       [(''status'', ''PASS''), (''command_topic'', ''/go2/commissioning/cmd_vel''), (''command_ownership'', ''PASS''),
        (''required_odom_source'', ''external_verified'')]) (\<lambda>_.
     obind (all_ok (\<lambda>key. claim_require (dict_get payload key = VBool True) (''first-motion PASS evidence lacks '' @ key))
       [''commissioning_motion_active_observed'', ''disarm_success'', ''post_stop_success'']) (\<lambda>_.
     obind (exact_number (dict_get payload ''distance_limit_m'') (fl (1 / 10)) ''first distance'') (\<lambda>_.
     obind (exact_number (dict_get payload ''duration_limit_s'') (Fin 2) ''first duration'') (\<lambda>_.
     obind (number_value (dict_get payload ''measured_odom_forward_m'') ''first-motion PASS has insufficient measured motion'') (\<lambda>forward.
     obind (claim_require (isfinite forward \<and> \<not> fless forward (fl (2 / 100)))
       ''first-motion PASS has insufficient measured motion'') (\<lambda>_.
     case dict_get payload ''post_stop'' of
       VDict post_stop \<Rightarrow> claim_require (dict_get post_stop ''daemon_armed'' = VBool False \<and>
           dict_get post_stop ''commissioning_motion_active'' = VBool False \<and>
           eq_str (dict_get post_stop ''guard_state'') ''DISARMED'') ''first-motion PASS lacks measured stopped state''
     | _ \<Rightarrow> Inl (PermitError ''first-motion PASS lacks measured stopped state''))))))))"

definition validate_first_motion_pass ::
  "(string \<Rightarrow> string) \<Rightarrow> (string \<Rightarrow> pyval option) \<Rightarrow> posix_path \<Rightarrow> string chassis_io" where
  "validate_first_motion_pass sha256 loads p =
     act_bind (read_json_file loads True False p) (\<lambda>payload.
     act_bind (lift_outcome (check_first_pass payload)) (\<lambda>_. sha256_file sha256 p))"

definition check_second_permit :: "json_object \<Rightarrow> chassis_runtime \<Rightarrow> int \<Rightarrow> chassis_exc + string \<times> json_object" where
  "check_second_permit payload r now =
     obind (check_permit_head payload SECOND_PERMIT_SCHEMA now) (\<lambda>permit_id.
     obind (check_texts payload (second_texts r)) (\<lambda>_.
     obind (claim_require (cr_motion_profile r = SECOND_MOTION_PROFILE) ''runtime is not the second-motion profile'') (\<lambda>_.
     obind (claim_require (cr_odom_source r = ODOM_SOURCE_EXTERNAL_VERIFIED)
       ''second motion requires external_verified odometry'') (\<lambda>_.
     obind (check_allowlists payload r) (\<lambda>_.
     obind (check_numbers payload second_numbers) (\<lambda>_.
     obind (claim_object [''dds_identity'', ''state'', ''time'', ''first_motion_pass''] (dict_get payload ''evidence'')
       ''permit must bind identity, state, time, and first-motion PASS'') (\<lambda>evidence.
     Inr (permit_id, evidence))))))))"

definition second_validate_permit ::
  "(string \<Rightarrow> string) \<Rightarrow> (string \<Rightarrow> pyval option) \<Rightarrow> posix_path \<Rightarrow> json_object \<Rightarrow> chassis_runtime \<Rightarrow> int option \<Rightarrow>
   string chassis_io" where
  "second_validate_permit sha256 loads package_root payload r now =
     act_bind (case now of Some n \<Rightarrow> returning n | None \<Rightarrow> os_time_ns) (\<lambda>now_ns.
     act_bind (lift_outcome (check_second_permit payload r now_ns)) (\<lambda>(permit_id, evidence).
     act_bind (os_resolve package_root) (\<lambda>resolved_root.
     act_bind (verify_claim sha256 resolved_root evidence ''dds_identity'') (\<lambda>_.
     act_bind (verify_claim sha256 resolved_root evidence ''first_motion_pass'') (\<lambda>pass_path.
     act_bind (verify_claim sha256 resolved_root evidence ''state'') (\<lambda>_.
     act_bind (verify_claim sha256 resolved_root evidence ''time'') (\<lambda>_.
     act_bind (validate_first_motion_pass sha256 loads pass_path) (\<lambda>pass_hash.
     act_bind (permit_require (case dict_get evidence ''first_motion_pass'' of
         VDict claim \<Rightarrow> eq_str (dict_get claim ''sha256'') pass_hash | _ \<Rightarrow> False)
       ''first-motion PASS validation hash mismatch'') (\<lambda>_.
     returning permit_id)))))))))"

definition second_atomic_consume :: "posix_path \<Rightarrow> string \<Rightarrow> posix_path chassis_io" where
  "second_atomic_consume p permit_id =
     act_bind (os_bool (Exists (consumed_name p permit_id))) (\<lambda>already.
     act_bind (if already then returning True else os_bool (IsSymlink (consumed_name p permit_id))) (\<lambda>taken.
     act_bind (permit_require (\<not> taken) ''permit was already consumed'') (\<lambda>_.
     Call (Rename p (consumed_name p permit_id)) (\<lambda>r. case r of
         RDone \<Rightarrow> returning (consumed_name p permit_id)
       | RFail FileNotFound \<Rightarrow> raise_exc (PermitError ''permit was consumed concurrently'')
       | RFail e \<Rightarrow> raise_exc (OSErr e)
       | _ \<Rightarrow> raise_exc (OSErr OtherOSError)))))"

definition consume_second_motion_permit ::
  "(string \<Rightarrow> string) \<Rightarrow> (string \<Rightarrow> pyval option) \<Rightarrow> chassis_runtime \<Rightarrow> (string \<rightharpoonup> string) \<Rightarrow> posix_path \<Rightarrow>
   posix_path chassis_io" where
  "consume_second_motion_permit sha256 loads r env package_root =
     act_bind (permit_require (cr_allow_motion r \<and> cr_motion_profile r = SECOND_MOTION_PROFILE)
       ''permit consumption requires second-motion runtime'') (\<lambda>_.
     let t = str_strip (env_get env SECOND_PERMIT_ENV); p = path_of t in
     act_bind (permit_require (t \<noteq> []) ''second motion requires GO2_SECOND_MOTION_PERMIT_FILE'') (\<lambda>_.
     act_bind (permit_require (is_absolute p) ''second-motion permit path must be absolute'') (\<lambda>_.
     act_bind (unhandled_private_parent p) (\<lambda>_.
     act_bind (read_json_file loads True True p) (\<lambda>payload.
     act_bind (second_validate_permit sha256 loads package_root payload r None) (\<lambda>permit_id.
     second_atomic_consume p permit_id))))))"

end
