(* ===== verification/ChassisMain.thy ===== *)
theory ChassisMain imports CommissioningPermits begin

text \<open>
  \<open>packages/go2_chassis/go2_chassis/main.py\<close>: the driver's \<open>initialize\<close> and \<open>shutdown\<close>. The Robonix
  runtime (spawning, waiting for a topic, declaring topics) answers through \<open>Extern\<close>; the module
  variables are the state. An answer \<open>RException\<close> is an exception that is no \<open>OSError\<close>.
\<close>

datatype init_result = InitErr string | InitDeferred string | InitOk

record chassis_context =
  cx_sha256 :: "string \<Rightarrow> string"
  cx_loads :: "string \<Rightarrow> pyval option"
  cx_uid :: int
  cx_env :: "string \<rightharpoonup> string"
  cx_package_root :: posix_path

record chassis_state =
  cs_odom_endpoint :: bool
  cs_runtime :: "chassis_runtime option"
  cs_processes :: "nat list"

definition chassis_start :: chassis_state where
  "chassis_start = \<lparr>cs_odom_endpoint = False, cs_runtime = None, cs_processes = []\<rparr>"

definition params_file :: "chassis_context \<Rightarrow> posix_path" where
  "params_file cx = path_join (cx_package_root cx) [''config'', ''adapter.yaml'']"

definition adapter_binary :: "chassis_context \<Rightarrow> posix_path" where
  "adapter_binary cx = path_join (cx_package_root cx)
     [''rbnx-build'', ''ros'', ''install'', ''lib'', ''go2_chassis_adapter'', ''go2_chassis_adapter_node'']"

definition daemon_binary :: "chassis_context \<Rightarrow> posix_path" where
  "daemon_binary cx = path_join (cx_package_root cx) [''rbnx-build'', ''sdk'', ''install'', ''bin'', ''go2_sport_daemon'']"

definition workspace_root :: "chassis_context \<Rightarrow> posix_path" where
  "workspace_root cx = path_parent (path_parent (cx_package_root cx))"

section \<open>Processes\<close>

text \<open>\<open>process.poll()\<close>: \<open>None\<close> while it runs, otherwise its code.\<close>

definition ext_poll :: "nat \<Rightarrow> int option chassis_io" where
  "ext_poll pid = os_result (Extern (Poll pid))
     (\<lambda>r. case r of RNone \<Rightarrow> Some None | RInt code \<Rightarrow> Some (Some code) | _ \<Rightarrow> None)"

text \<open>\<open>os.killpg\<close> under \<open>except ProcessLookupError: pass\<close>.\<close>

definition signal_group :: "extern_call \<Rightarrow> unit chassis_io" where
  "signal_group c = Call (Extern c) (\<lambda>r. case r of
       RFail ProcessLookup \<Rightarrow> returning () | RFail e \<Rightarrow> raise_exc (OSErr e) | _ \<Rightarrow> returning ())"

definition terminate_process :: "nat \<Rightarrow> unit chassis_io" where
  "terminate_process pid = act_bind (ext_poll pid) (\<lambda>code.
     if code \<noteq> None then returning () else signal_group (TerminateGroup pid))"

definition reap_process :: "nat \<Rightarrow> unit chassis_io" where
  "reap_process pid = act_bind (ext_poll pid) (\<lambda>code.
     if code \<noteq> None then returning ()
     else Call (Extern (WaitExit pid (Fin 3))) (\<lambda>r. case r of
         RTimeout \<Rightarrow> signal_group (KillGroup pid)
       | RFail e \<Rightarrow> raise_exc (OSErr e)
       | _ \<Rightarrow> returning ()))"

definition stop_processes :: "nat list \<Rightarrow> unit chassis_io" where
  "stop_processes ps =
     act_bind (act_all terminate_process (rev ps)) (\<lambda>_.
     act_bind (act_all reap_process (rev ps)) (\<lambda>_. returning ()))"

definition ext_spawn :: "string list \<Rightarrow> (string \<times> string) list \<Rightarrow> string \<Rightarrow> nat chassis_io" where
  "ext_spawn argv env logfile = Call (Extern (Spawn argv env logfile)) (\<lambda>r. case r of
       RProcess pid \<Rightarrow> returning pid | RFail e \<Rightarrow> raise_exc (OSErr e) | _ \<Rightarrow> raise_exc EscapedRuntime)"

text \<open>The processes started so far are kept also when a later step raises.\<close>

definition spawn_daemon :: "chassis_context \<Rightarrow> chassis_runtime \<Rightarrow> nat list chassis_io" where
  "spawn_daemon cx r =
     (if starts_sdk_daemon r then
        act_bind (lift_outcome (daemon_argv r (daemon_binary cx))) (\<lambda>argv.
        act_bind (os_resolve (daemon_binary cx)) (\<lambda>resolved.
        act_bind (ext_spawn argv (sdk_daemon_env r resolved) ''sdk-daemon.log'') (\<lambda>pid. returning [pid])))
      else returning [])"

definition spawn_runtime :: "chassis_context \<Rightarrow> chassis_runtime \<Rightarrow> (nat list \<times> (chassis_exc + unit)) io" where
  "spawn_runtime cx r =
     io_bind (prepare_private_directory (path_parent (cr_ipc_socket r))) (\<lambda>prepared.
     case prepared of Inl e \<Rightarrow> Return ([], Inl e) | Inr _ \<Rightarrow>
     io_bind (spawn_daemon cx r) (\<lambda>daemon.
     case daemon of Inl e \<Rightarrow> Return ([], Inl e) | Inr ps \<Rightarrow>
     io_bind (ext_spawn (adapter_argv r (adapter_binary cx) (params_file cx)) (process_env r) ''adapter.log'') (\<lambda>adapter.
     case adapter of Inl e \<Rightarrow> Return (ps, Inl e) | Inr pid \<Rightarrow> Return (ps @ [pid], Inr ()))))"

section \<open>initialize\<close>

definition is_executable :: "posix_path \<Rightarrow> bool chassis_io" where
  "is_executable p = act_bind (os_bool (IsFile p)) (\<lambda>file. if file then os_bool (IsExecutable p) else returning False)"

text \<open>\<open>Some e\<close> is an early return of \<open>e\<close>.\<close>

definition check_build :: "chassis_context \<Rightarrow> chassis_runtime \<Rightarrow> init_result option chassis_io" where
  "check_build cx r =
     act_bind (is_executable (adapter_binary cx)) (\<lambda>adapter.
     if \<not> adapter then returning (Some (InitErr ''Go2 adapter is not built'')) else
     act_bind (os_bool (IsFile (params_file cx))) (\<lambda>params.
     if \<not> params then returning (Some (InitErr ''Go2 adapter parameter file is missing'')) else
     if \<not> starts_sdk_daemon r then returning None else
     act_bind (is_executable (daemon_binary cx)) (\<lambda>daemon.
     returning (if daemon then None else Some (InitErr ''Go2 SDK daemon is not built'')))))"

text \<open>\<open>except (OSError, PermitError)\<close> around a consumer.\<close>

definition consume_or_refuse :: "posix_path chassis_io \<Rightarrow> string \<Rightarrow> init_result option chassis_io" where
  "consume_or_refuse consumer msg = io_bind consumer (\<lambda>r. Return (case r of
       Inr p \<Rightarrow> Inr None
     | Inl (OSErr e) \<Rightarrow> Inr (Some (InitErr msg))
     | Inl (PermitError m) \<Rightarrow> Inr (Some (InitErr msg))
     | Inl e \<Rightarrow> Inl e))"

definition RUNTIME_ACK_ENV :: string where "RUNTIME_ACK_ENV = ''GO2_STAGED_NAV2_RUNTIME_ACK''"

definition runtime_acknowledged :: "chassis_context \<Rightarrow> bool" where
  "runtime_acknowledged cx \<longleftrightarrow> cx_env cx RUNTIME_ACK_ENV = Some STAGED_NAV2_ACK"

definition authorize :: "chassis_context \<Rightarrow> chassis_runtime \<Rightarrow> init_result option chassis_io" where
  "authorize cx r =
     (if \<not> starts_sdk_daemon r then returning None
      else if cr_motion_profile r = FIRST_MOTION_PROFILE then
        consume_or_refuse (consume_first_motion_permit (cx_sha256 cx) (cx_loads cx) r (cx_env cx) (workspace_root cx))
          ''first-motion permit rejected''
      else if cr_motion_profile r = SECOND_MOTION_PROFILE then
        consume_or_refuse (consume_second_motion_permit (cx_sha256 cx) (cx_loads cx) r (cx_env cx) (workspace_root cx))
          ''second-motion permit rejected''
      else if cr_motion_profile r = STAGED_NAV2_PROFILE then
        (if runtime_acknowledged cx then returning None
         else consume_or_refuse (consume_staged_nav2_permit (cx_sha256 cx) (cx_loads cx) r (cx_env cx) (workspace_root cx))
           ''staged-nav2 permit rejected'')
      else returning (Some (InitErr ''motion profile has no permit consumer'')))"

fun is_value_error :: "chassis_exc \<Rightarrow> bool" where
  "is_value_error (ConfigError m) \<longleftrightarrow> True"
| "is_value_error (PermitError m) \<longleftrightarrow> True"
| "is_value_error EscapedValueError \<longleftrightarrow> True"
| "is_value_error _ \<longleftrightarrow> False"

fun is_os_error :: "chassis_exc \<Rightarrow> bool" where
  "is_os_error (OSErr e) \<longleftrightarrow> True"
| "is_os_error _ \<longleftrightarrow> False"

type_synonym init_io = "((chassis_exc + init_result) \<times> chassis_state) io"

text \<open>Stop every process, then return \<open>result\<close>.\<close>

definition stop_and_return :: "chassis_state \<Rightarrow> init_result \<Rightarrow> init_io" where
  "stop_and_return s result = io_bind (stop_processes (cs_processes s)) (\<lambda>r. Return (case r of
       Inl e \<Rightarrow> (Inl e, s) | Inr _ \<Rightarrow> (Inr result, s\<lparr>cs_processes := []\<rparr>)))"

text \<open>A call that may raise anything, under \<open>except Exception\<close>.\<close>

definition guarded_call :: "extern_call \<Rightarrow> (sysresult \<Rightarrow> 'a io) \<Rightarrow> 'a io \<Rightarrow> 'a io" where
  "guarded_call c ok failed = Call (Extern c) (\<lambda>r. case r of RException \<Rightarrow> failed | RFail e \<Rightarrow> failed | _ \<Rightarrow> ok r)"

definition declare_contracts :: "chassis_runtime \<Rightarrow> chassis_state \<Rightarrow> init_io" where
  "declare_contracts r s =
     (let odom = ''robonix/primitive/chassis/odom''; bad = InitErr ''failed to declare Go2 chassis contracts'' in
      guarded_call (CreateSubscription odom (cr_odom_topic r) ''nav_msgs/msg/Odometry'' ''best_effort'') (\<lambda>_.
        let s1 = s\<lparr>cs_odom_endpoint := True\<rparr> in
        guarded_call (DeclareTopic ''robonix/primitive/chassis/twist_in'' (cr_twist_in_topic r) ''reliable'') (\<lambda>_.
        guarded_call (DeclareTopic odom (cr_odom_topic r) ''reliable'') (\<lambda>_.
          Return (Inr InitOk, s1\<lparr>cs_runtime := Some r\<rparr>))
          (stop_and_return s1 bad))
          (stop_and_return s1 bad))
        (stop_and_return s bad))"

definition daemon_still_runs :: "chassis_runtime \<Rightarrow> chassis_state \<Rightarrow> init_io" where
  "daemon_still_runs r s =
     (if starts_sdk_daemon r then
        io_bind (ext_poll (hd (cs_processes s))) (\<lambda>code. case code of
            Inl e \<Rightarrow> Return (Inl e, s)
          | Inr None \<Rightarrow> declare_contracts r s
          | Inr (Some _) \<Rightarrow> stop_and_return s (InitErr ''Go2 SDK daemon exited during startup''))
      else declare_contracts r s)"

definition await_odometry :: "chassis_runtime \<Rightarrow> chassis_state \<Rightarrow> init_io" where
  "await_odometry r s =
     guarded_call (WaitForTopic (cr_odom_topic r) ''nav_msgs/msg/Odometry'' (cr_startup_timeout_s r)) (\<lambda>answer.
       if answer = RBool True then daemon_still_runs r s
       else io_bind (if cs_processes s = [] then returning None else ext_poll (last (cs_processes s))) (\<lambda>code. case code of
           Inl e \<Rightarrow> Return (Inl e, s)
         | Inr (Some _) \<Rightarrow> stop_and_return s (InitErr ''Go2 adapter exited during startup'')
         | Inr None \<Rightarrow> stop_and_return s (InitDeferred ''guarded odometry topic is not available'')))
       (stop_and_return s (InitErr ''failed while waiting for guarded odometry''))"

definition start_runtime :: "chassis_context \<Rightarrow> chassis_runtime \<Rightarrow> chassis_state \<Rightarrow> init_io" where
  "start_runtime cx r s =
     io_bind (spawn_runtime cx r) (\<lambda>(ps, result).
     let s1 = s\<lparr>cs_processes := cs_processes s @ ps\<rparr> in
     case result of
       Inl e \<Rightarrow> if is_os_error e \<or> is_value_error e
           then stop_and_return s1 (InitErr ''failed to start guarded Go2 runtime'') else Return (Inl e, s1)
     | Inr _ \<Rightarrow> await_odometry r s1)"

definition normalized :: "chassis_context \<Rightarrow> pyval \<Rightarrow> chassis_runtime chassis_io" where
  "normalized cx config =
     act_bind (os_resolve (cx_package_root cx)) (\<lambda>root_path.
     lift_outcome (normalize_config (cx_sha256 cx) (path_text root_path) (cx_uid cx) config (cx_env cx)))"

definition initialize :: "chassis_context \<Rightarrow> pyval \<Rightarrow> chassis_state \<Rightarrow> init_io" where
  "initialize cx config s =
     io_bind (stop_processes (cs_processes s)) (\<lambda>stopped.
     case stopped of Inl e \<Rightarrow> Return (Inl e, s) | Inr _ \<Rightarrow>
     let s1 = s\<lparr>cs_processes := [], cs_runtime := None\<rparr> in
     io_bind (normalized cx config) (\<lambda>runtime.
     case runtime of
       Inl (ConfigError m) \<Rightarrow> Return (Inr (InitErr ''unsafe Go2 chassis config''), s1)
     | Inl e \<Rightarrow> Return (Inl e, s1)
     | Inr r \<Rightarrow>
     io_bind (check_build cx r) (\<lambda>built.
     case built of Inl e \<Rightarrow> Return (Inl e, s1) | Inr (Some early) \<Rightarrow> Return (Inr early, s1) | Inr None \<Rightarrow>
     io_bind (authorize cx r) (\<lambda>authorized.
     case authorized of Inl e \<Rightarrow> Return (Inl e, s1) | Inr (Some early) \<Rightarrow> Return (Inr early, s1)
     | Inr None \<Rightarrow> start_runtime cx r s1))))"

definition chassis_shutdown :: "chassis_state \<Rightarrow> init_io" where
  "chassis_shutdown s = io_bind (stop_processes (cs_processes s)) (\<lambda>stopped.
     case stopped of Inl e \<Rightarrow> Return (Inl e, s)
     | Inr _ \<Rightarrow> Return (Inr InitOk, s\<lparr>cs_processes := [], cs_runtime := None\<rparr>))"

end
