(* ===== verification/PermitLogic.thy ===== *)
theory PermitLogic imports ChassisMain PermitBundle IoLogic begin

text \<open>
  What a successful consumption of a permit has seen. \<open>yields\<close> is the triple for the value a
  program returns when nothing raises; the predicates below say which calls must then be in the
  history, and what they answered.
\<close>

section \<open>Triples for the returned value\<close>

definition yields ::
  "(history \<Rightarrow> syscall \<Rightarrow> bool) \<Rightarrow> ('e + 'a) io \<Rightarrow> (history \<Rightarrow> 'a \<Rightarrow> bool) \<Rightarrow> history \<Rightarrow> bool" where
  "yields G m P h \<longleftrightarrow> obeys m G (\<lambda>h r. \<forall>a. r = Inr a \<longrightarrow> P h a) h"

lemma yields_act_bind [simp]: "yields G (act_bind m f) P h \<longleftrightarrow> yields G m (\<lambda>h a. yields G (f a) P h) h"
  unfolding yields_def obeys_act_bind
  by (intro arg_cong [where f = "\<lambda>Q. obeys m G Q h"] ext) (simp split: sum.split)

lemma yields_simps [simp]:
  "yields G (Return (Inr a)) P h \<longleftrightarrow> P h a"
  "yields G (Return (Inl e)) P h"
  "yields G (returning a) P' h \<longleftrightarrow> P' h a"
  "yields G (raise_exc e) P'' h"
  "yields G (permit_require b msg) Q h \<longleftrightarrow> (b \<longrightarrow> Q h ())"
  "yields G (config_require b msg) Q h \<longleftrightarrow> (b \<longrightarrow> Q h ())"
  "yields G (lift_outcome r) R h \<longleftrightarrow> (\<forall>a. r = Inr a \<longrightarrow> R h a)"
  by (auto simp: yields_def returning_def raise_exc_def permit_require_def config_require_def lift_outcome_def)

lemma yields_os_result:
  "yields G (os_result c get) P h \<longleftrightarrow> G h c \<and> (\<forall>r a. get r = Some a \<longrightarrow> P (h @ [(c, r)]) a)"
  by (auto simp: yields_def os_result_def returning_def raise_exc_def split: option.splits)

lemma yields_os [simp]:
  "yields G (os_lstat p) P1 h \<longleftrightarrow> G h (Lstat p) \<and> (\<forall>i. P1 (h @ [(Lstat p, RInfo i)]) i)"
  "yields G (os_open p d) P2 h \<longleftrightarrow> G h (OpenNoFollow p d) \<and> (\<forall>fd. P2 (h @ [(OpenNoFollow p d, RFd fd)]) fd)"
  "yields G (os_fstat fd) P1 h \<longleftrightarrow> G h (Fstat fd) \<and> (\<forall>i. P1 (h @ [(Fstat fd, RInfo i)]) i)"
  "yields G (os_read fd n) P3 h \<longleftrightarrow> G h (ReadBytes fd n) \<and> (\<forall>b. P3 (h @ [(ReadBytes fd n, RBytes b)]) b)"
  "yields G (os_read_file p) P3 h \<longleftrightarrow> G h (ReadFile p) \<and> (\<forall>b. P3 (h @ [(ReadFile p, RBytes b)]) b)"
  "yields G os_geteuid P4 h \<longleftrightarrow> G h Geteuid \<and> (\<forall>i. P4 (h @ [(Geteuid, RInt i)]) i)"
  "yields G os_time_ns P4 h \<longleftrightarrow> G h TimeNs \<and> (\<forall>i. P4 (h @ [(TimeNs, RInt i)]) i)"
  "yields G (os_bool c) P5 h \<longleftrightarrow> G h c \<and> (\<forall>b. P5 (h @ [(c, RBool b)]) b)"
  "yields G (os_resolve p) P6 h \<longleftrightarrow> G h (Resolve p) \<and> (\<forall>q. P6 (h @ [(Resolve p, RPath q)]) q)"
  by (auto simp: os_lstat_def os_open_def os_fstat_def os_read_def os_read_file_def os_geteuid_def os_time_ns_def
      os_bool_def os_resolve_def yields_os_result split: sysresult.splits)

lemma yields_weaken:
  assumes "yields G m P h" "\<And>h' a. set h \<subseteq> set h' \<Longrightarrow> P h' a \<Longrightarrow> Q h' a"
  shows "yields G m Q h"
  unfolding yields_def by (rule obeys_weaken [OF assms(1) [unfolded yields_def]]) (auto intro: assms(2))

text \<open>The handler for a missing file changes no returned value.\<close>

lemma yields_handler [simp]:
  "yields G (io_bind m (\<lambda>r. Return (case r of Inl (OSErr FileNotFound) \<Rightarrow> Inl e | _ \<Rightarrow> r))) P h \<longleftrightarrow> yields G m P h"
proof -
  have "(case r of Inl (OSErr FileNotFound) \<Rightarrow> Inl e | _ \<Rightarrow> r) = Inr a \<longleftrightarrow> r = Inr a" for r :: "chassis_exc + 'a" and a
    by (auto split: sum.splits chassis_exc.splits os_error.splits)
  then show ?thesis by (simp add: yields_def obeys_bind)
qed

section \<open>Programs that only look\<close>

definition read_calls :: "syscall set" where
  "read_calls = {c. (\<forall>p q. c \<noteq> Rename p q) \<and> (\<forall>d m. c \<noteq> Mkdir d m) \<and> (\<forall>i m. c \<noteq> Fchmod i m) \<and> (\<forall>e. c \<noteq> Extern e)}"

lemma read_calls_simps [simp]:
  "Lstat p \<in> read_calls" "OpenNoFollow p d \<in> read_calls" "Fstat i \<in> read_calls" "ReadBytes i n \<in> read_calls"
  "ReadFile p \<in> read_calls" "Exists p \<in> read_calls" "IsSymlink p \<in> read_calls" "IsFile p \<in> read_calls"
  "IsExecutable p \<in> read_calls" "Resolve p \<in> read_calls" "Geteuid \<in> read_calls" "TimeNs \<in> read_calls"
  "Rename p q \<notin> read_calls" "Mkdir q n \<notin> read_calls" "Fchmod i n \<notin> read_calls" "Extern e \<notin> read_calls"
  by (simp_all add: read_calls_def)

lemma calls_os_result: "c \<in> C \<Longrightarrow> calls_in (os_result c get) C"
  by (auto simp: os_result_def returning_def raise_exc_def split: option.split)

lemma calls_os [simp]:
  "calls_in (os_lstat p) read_calls" "calls_in (os_open p d) read_calls" "calls_in (os_fstat i) read_calls"
  "calls_in (os_read i n) read_calls" "calls_in (os_read_file p) read_calls" "calls_in os_geteuid read_calls"
  "calls_in os_time_ns read_calls" "calls_in (os_resolve p) read_calls"
  "calls_in (os_bool (Exists p)) read_calls" "calls_in (os_bool (IsSymlink p)) read_calls"
  "calls_in (os_bool (IsFile p)) read_calls" "calls_in (os_bool (IsExecutable p)) read_calls"
  by (simp_all add: os_lstat_def os_open_def os_fstat_def os_read_def os_read_file_def os_geteuid_def os_time_ns_def
      os_resolve_def os_bool_def calls_os_result)

lemma calls_plain [simp]:
  "calls_in (returning a) C" "calls_in (raise_exc e) C" "calls_in (permit_require b m) C" "calls_in (config_require b m) C"
  by (simp_all add: returning_def raise_exc_def permit_require_def config_require_def)

lemma calls_handler [simp]: "calls_in m C \<Longrightarrow> calls_in (io_bind m (\<lambda>r. Return (f r))) C"
  by (rule calls_in_bind) simp_all

named_theorems look_only \<open>programs whose calls only look\<close>

lemma look_owned [look_only]: "calls_in (owned_regular_file private p) read_calls"
  unfolding owned_regular_file_def by (intro calls_in_act_bind) simp_all

lemma look_read_json [look_only]: "calls_in (read_json_file loads u private p) read_calls"
  unfolding read_json_file_def
  by (intro calls_in_act_bind look_owned) simp_all

lemma look_parent [look_only]: "calls_in (private_parent p) read_calls" "calls_in (unhandled_private_parent p) read_calls"
  unfolding private_parent_def unhandled_private_parent_def by (intro calls_in_act_bind; simp)+

lemma look_sha256 [look_only]: "calls_in (sha256_file sha p) read_calls"
  unfolding sha256_file_def by (intro calls_in_act_bind look_owned) simp_all

lemma look_verify [look_only]: "calls_in (verify_claim sha base ev n) read_calls"
  unfolding verify_claim_def
  by (intro calls_in_act_bind; (simp split: prod.split)?) (auto intro!: calls_in_act_bind look_sha256)

lemma look_now [look_only]: "calls_in (case now of Some n \<Rightarrow> returning n | None \<Rightarrow> os_time_ns) read_calls"
  by (cases now) simp_all

lemma look_staged [look_only]: "calls_in (staged_validate_permit sha base payload r env role now) read_calls"
  unfolding staged_validate_permit_def
  by (intro calls_in_act_bind look_now; (simp split: prod.split)?)
     (auto intro!: calls_in_act_bind calls_in_act_all look_verify)

lemma look_first [look_only]: "calls_in (first_validate_permit sha base payload r now) read_calls"
  unfolding first_validate_permit_def
  by (intro calls_in_act_bind look_now; (simp split: prod.split)?)
     (auto intro!: calls_in_act_bind calls_in_act_all look_verify)

lemma look_pass [look_only]: "calls_in (validate_first_motion_pass sha loads p) read_calls"
  unfolding validate_first_motion_pass_def by (intro calls_in_act_bind look_read_json look_sha256) simp_all

lemma look_second [look_only]: "calls_in (second_validate_permit sha loads base payload r now) read_calls"
  unfolding second_validate_permit_def
  by (intro calls_in_act_bind look_now; (simp split: prod.split)?)
     (auto intro!: calls_in_act_bind calls_in_act_all look_verify look_pass)

lemma yields_seq:
  assumes "yields G m P h" "\<And>h' a. set h \<subseteq> set h' \<Longrightarrow> P h' a \<Longrightarrow> yields G (f a) Q h'"
  shows "yields G (act_bind m f) Q h"
  using yields_weaken [OF assms] by simp

lemma yields_look:
  assumes "yields anything m P h" "calls_in m read_calls" "\<And>h c. c \<in> read_calls \<Longrightarrow> G h c"
  shows "yields G m P h"
  using obeys_calls [OF assms(1) [unfolded yields_def] assms(2) subset_refl assms(3)] by (simp add: yields_def)

lemma yields_act_all:
  assumes "\<And>x h. x \<in> set xs \<Longrightarrow> yields anything (f x) (\<lambda>h a. P h x a) h"
    and "\<And>h h' x a. set h \<subseteq> set h' \<Longrightarrow> P h x a \<Longrightarrow> P h' x a"
  shows "yields anything (act_all f xs) (\<lambda>h ys. list_all2 (P h) xs ys) h"
  using assms(1)
proof (induction xs arbitrary: h)
  case Nil
  then show ?case by simp
next
  case (Cons z zs h)
  have rest: "yields anything (act_all f zs) (\<lambda>h' ys. P h' z y \<and> list_all2 (P h') zs ys) h'"
    if "P h' z y" for h' y
  proof (rule yields_weaken [OF Cons.IH])
    show "yields anything (f v) (\<lambda>h a. P h v a) h''" if "v \<in> set zs" for v h''
      using Cons.prems that by simp
    show "P h'' z y \<and> list_all2 (P h'') zs ys" if "set h' \<subseteq> set h''" "list_all2 (P h'') zs ys" for h'' ys
      using that \<open>P h' z y\<close> assms(2) by blast
  qed
  have "yields anything (f z) (\<lambda>h a. P h z a) h" using Cons.prems by simp
  then have "yields anything (f z) (\<lambda>h' y. yields anything (act_all f zs) (\<lambda>h' ys. P h' z y \<and> list_all2 (P h') zs ys) h') h"
    by (rule yields_weaken) (rule rest)
  then show ?case by simp
qed

section \<open>What a file operation has seen\<close>

definition owned_file :: "bool \<Rightarrow> posix_path \<Rightarrow> history \<Rightarrow> file_info \<Rightarrow> bool" where
  "owned_file private p h info \<longleftrightarrow>
     (Lstat p, RInfo info) \<in> set h \<and> st_kind info = RegularFile \<and> (Geteuid, RInt (st_uid info)) \<in> set h \<and>
     (if private then st_mode info = 384 else \<not> bit (st_mode info) 4 \<and> \<not> bit (st_mode info) 1)"

definition file_payload ::
  "(string \<Rightarrow> pyval option) \<Rightarrow> bool \<Rightarrow> bool \<Rightarrow> posix_path \<Rightarrow> history \<Rightarrow> json_object \<Rightarrow> bool" where
  "file_payload loads unique private p h payload \<longleftrightarrow>
     (\<exists>info fd opened raw. owned_file private p h info \<and> (OpenNoFollow p False, RFd fd) \<in> set h \<and>
        (Fstat fd, RInfo opened) \<in> set h \<and> st_dev opened = st_dev info \<and> st_ino opened = st_ino info \<and>
        (ReadBytes fd (MAX_PERMIT_BYTES + 1), RBytes raw) \<in> set h \<and> length raw \<le> MAX_PERMIT_BYTES \<and>
        decode_json loads unique raw = Inr payload)"

definition file_digest :: "(string \<Rightarrow> string) \<Rightarrow> posix_path \<Rightarrow> history \<Rightarrow> string \<Rightarrow> bool" where
  "file_digest sha p h d \<longleftrightarrow>
     (\<exists>info bytes. owned_file False p h info \<and> (ReadFile p, RBytes bytes) \<in> set h \<and> d = sha bytes)"

definition private_directory :: "posix_path \<Rightarrow> history \<Rightarrow> bool" where
  "private_directory d h \<longleftrightarrow>
     (\<exists>info. (Lstat d, RInfo info) \<in> set h \<and> st_kind info = DirectoryFile \<and> st_mode info = 448 \<and>
        (Geteuid, RInt (st_uid info)) \<in> set h)"

definition evidence_verified ::
  "(string \<Rightarrow> string) \<Rightarrow> posix_path \<Rightarrow> json_object \<Rightarrow> string \<Rightarrow> history \<Rightarrow> bool" where
  "evidence_verified sha base ev name h \<longleftrightarrow>
     (\<exists>p d q. checked_claim ev name = Inr (p, d) \<and> (Resolve p, RPath q) \<in> set h \<and> is_below q base \<and>
        file_digest sha q h d)"

named_theorems history_mono \<open>facts about a history that a longer one keeps\<close>

lemma owned_file_mono [history_mono]: "owned_file private p h i \<Longrightarrow> set h \<subseteq> set h' \<Longrightarrow> owned_file private p h' i"
  by (auto simp: owned_file_def)

lemma file_payload_mono [history_mono]:
  assumes "file_payload loads u private p h d" "set h \<subseteq> set h'"
  shows "file_payload loads u private p h' d"
proof -
  obtain info fd opened raw where f: "owned_file private p h info" "(OpenNoFollow p False, RFd fd) \<in> set h"
    "(Fstat fd, RInfo opened) \<in> set h" "st_dev opened = st_dev info" "st_ino opened = st_ino info"
    "(ReadBytes fd (MAX_PERMIT_BYTES + 1), RBytes raw) \<in> set h" "length raw \<le> MAX_PERMIT_BYTES"
    "decode_json loads u raw = Inr d"
    using assms(1) unfolding file_payload_def by blast
  show ?thesis unfolding file_payload_def
    by (intro exI [of _ info] exI [of _ fd] exI [of _ opened] exI [of _ raw] conjI
      owned_file_mono [OF f(1) assms(2)] f(4,5,7,8)) (rule subsetD [OF assms(2)], rule f)+
qed

lemma file_digest_mono [history_mono]: "file_digest sha p h d \<Longrightarrow> set h \<subseteq> set h' \<Longrightarrow> file_digest sha p h' d"
  unfolding file_digest_def using owned_file_mono by blast

lemma private_directory_mono [history_mono]: "private_directory p h \<Longrightarrow> set h \<subseteq> set h' \<Longrightarrow> private_directory p h'"
  unfolding private_directory_def by blast

lemma evidence_verified_mono [history_mono]:
  "evidence_verified sha base ev n h \<Longrightarrow> set h \<subseteq> set h' \<Longrightarrow> evidence_verified sha base ev n h'"
  unfolding evidence_verified_def using file_digest_mono by blast

lemma yields_owned: "yields anything (owned_regular_file private p) (owned_file private p) h"
  by (simp add: owned_regular_file_def owned_file_def)

lemma yields_json: "yields anything (read_json_file loads u private p) (file_payload loads u private p) h"
  unfolding read_json_file_def
proof (rule yields_seq [OF yields_owned])
  fix h' info
  assume o: "owned_file private p h' info"
  have "file_payload loads u private p (h' @ [(OpenNoFollow p False, RFd fd), (Fstat fd, RInfo opened),
      (Geteuid, RInt uid), (ReadBytes fd (MAX_PERMIT_BYTES + 1), RBytes raw)]) d"
    if "st_dev opened = st_dev info" "st_ino opened = st_ino info" "length raw \<le> MAX_PERMIT_BYTES"
      "decode_json loads u raw = Inr d"
    for fd opened uid raw d
    unfolding file_payload_def
    by (intro exI [of _ info] exI [of _ fd] exI [of _ opened] exI [of _ raw] conjI that
        owned_file_mono [OF o]) auto
  note good = this [simplified]
  show "yields anything
          (act_bind (os_open p False) (\<lambda>fd. act_bind (os_fstat fd) (\<lambda>opened. act_bind os_geteuid (\<lambda>uid.
            act_bind (permit_require (st_dev opened = st_dev info \<and> st_ino opened = st_ino info \<and>
               st_uid opened = uid \<and> st_kind opened = RegularFile) ''permit changed while it was being opened'') (\<lambda>_.
            act_bind (os_read fd (MAX_PERMIT_BYTES + 1)) (\<lambda>raw.
            act_bind (permit_require (length raw \<le> MAX_PERMIT_BYTES) ''permit is unreasonably large'') (\<lambda>_.
            lift_outcome (decode_json loads u raw))))))))
          (file_payload loads u private p) h'"
    by (auto intro!: good)
qed

lemma yields_sha256: "yields anything (sha256_file sha p) (file_digest sha p) h"
  unfolding sha256_file_def
proof (rule yields_seq [OF yields_owned])
  fix h' info
  assume "owned_file False p h' info"
  then have "owned_file False p (h' @ [(ReadFile p, RBytes b)]) info" for b by (rule owned_file_mono) auto
  then have "file_digest sha p (h' @ [(ReadFile p, RBytes b)]) (sha b)" for b
    unfolding file_digest_def by (intro exI [of _ info] exI [of _ b]) simp
  then show "yields anything (act_bind (os_read_file p) (\<lambda>bytes. returning (sha bytes))) (file_digest sha p) h'"
    by simp
qed

lemma yields_parent:
  "yields anything (private_parent p) (\<lambda>h _. private_directory (path_parent p) h) h"
  "yields anything (unhandled_private_parent p) (\<lambda>h _. private_directory (path_parent p) h) h"
  by (auto simp: private_parent_def unhandled_private_parent_def private_directory_def)

lemma yields_verify:
  "yields anything (verify_claim sha base ev name) (\<lambda>h q. evidence_verified sha base ev name h) h"
proof -
  have "yields anything (act_bind (sha256_file sha q) (\<lambda>actual. act_bind (permit_require (actual = d) m) (\<lambda>_. returning q)))
      (\<lambda>h q. evidence_verified sha base ev name h) (h @ [(Resolve p, RPath q)])"
    if "checked_claim ev name = Inr (p, d)" "is_below q base" for p d q m
    by (rule yields_seq [OF yields_sha256]) (use that in \<open>auto simp: evidence_verified_def\<close>)
  then show ?thesis by (auto simp: verify_claim_def)
qed

end
