(* ===== verification/PermitSpent.thy ===== *)
theory PermitSpent imports PermitLogic begin

text \<open>
  Consuming a permit: which calls a consumer makes, and what its history holds once it has
  succeeded. A licence of a profile is such a history.
\<close>

section \<open>Validation\<close>

definition claims_verified :: "(string \<Rightarrow> string) \<Rightarrow> posix_path \<Rightarrow> json_object \<Rightarrow> string list \<Rightarrow> history \<Rightarrow> bool" where
  "claims_verified sha base ev names h \<longleftrightarrow>
     (\<exists>resolved. (Resolve base, RPath resolved) \<in> set h \<and> (\<forall>n \<in> set names. evidence_verified sha resolved ev n h))"

lemma claims_verified_mono [history_mono]:
  "claims_verified sha base ev names h \<Longrightarrow> set h \<subseteq> set h' \<Longrightarrow> claims_verified sha base ev names h'"
  unfolding claims_verified_def using evidence_verified_mono by blast

definition staged_checked ::
  "(string \<Rightarrow> string) \<Rightarrow> posix_path \<Rightarrow> json_object \<Rightarrow> chassis_runtime \<Rightarrow> (string \<rightharpoonup> string) \<Rightarrow> string \<Rightarrow> history \<Rightarrow> string \<Rightarrow> bool" where
  "staged_checked sha base payload r env role h permit_id \<longleftrightarrow>
     (\<exists>now ev. (TimeNs, RInt now) \<in> set h \<and> check_staged_permit payload r env role now = Inr (permit_id, ev) \<and>
        claims_verified sha base ev evidence_names h)"

definition first_checked ::
  "(string \<Rightarrow> string) \<Rightarrow> posix_path \<Rightarrow> json_object \<Rightarrow> chassis_runtime \<Rightarrow> history \<Rightarrow> string \<Rightarrow> bool" where
  "first_checked sha base payload r h permit_id \<longleftrightarrow>
     (\<exists>now ev. (TimeNs, RInt now) \<in> set h \<and> check_first_permit payload r now = Inr (permit_id, ev) \<and>
        claims_verified sha base ev [''dds_identity'', ''state'', ''time''] h)"

text \<open>The receipt of the first motion was read and states the facts it must; its digest is the claimed one.\<close>

definition first_pass_verified ::
  "(string \<Rightarrow> string) \<Rightarrow> (string \<Rightarrow> pyval option) \<Rightarrow> json_object \<Rightarrow> history \<Rightarrow> bool" where
  "first_pass_verified sha loads ev h \<longleftrightarrow>
     (\<exists>p receipt d claim. file_payload loads True False p h receipt \<and> check_first_pass receipt = Inr () \<and>
        file_digest sha p h d \<and> dict_get ev ''first_motion_pass'' = VDict claim \<and>
        dict_get claim ''sha256'' = VStr d)"

definition second_checked ::
  "(string \<Rightarrow> string) \<Rightarrow> (string \<Rightarrow> pyval option) \<Rightarrow> posix_path \<Rightarrow> json_object \<Rightarrow> chassis_runtime \<Rightarrow> history \<Rightarrow> string \<Rightarrow> bool" where
  "second_checked sha loads base payload r h permit_id \<longleftrightarrow>
     (\<exists>now ev. (TimeNs, RInt now) \<in> set h \<and> check_second_permit payload r now = Inr (permit_id, ev) \<and>
        claims_verified sha base ev [''dds_identity'', ''first_motion_pass'', ''state'', ''time''] h \<and>
        first_pass_verified sha loads ev h)"

lemma checked_mono [history_mono]:
  "staged_checked sha base payload r env role h permit_id \<Longrightarrow> set h \<subseteq> set h' \<Longrightarrow> staged_checked sha base payload r env role h' permit_id"
  "first_checked sha base payload r h permit_id \<Longrightarrow> set h \<subseteq> set h' \<Longrightarrow> first_checked sha base payload r h' permit_id"
  unfolding staged_checked_def first_checked_def using claims_verified_mono by blast+

lemma first_pass_verified_mono [history_mono]:
  "first_pass_verified sha loads ev h \<Longrightarrow> set h \<subseteq> set h' \<Longrightarrow> first_pass_verified sha loads ev h'"
  unfolding first_pass_verified_def using file_payload_mono file_digest_mono by blast

lemma second_checked_mono [history_mono]:
  "second_checked sha loads base payload r h permit_id \<Longrightarrow> set h \<subseteq> set h' \<Longrightarrow> second_checked sha loads base payload r h' permit_id"
  unfolding second_checked_def using claims_verified_mono first_pass_verified_mono by blast

lemma list_all2_const: "list_all2 (\<lambda>x y. P x) xs ys \<Longrightarrow> \<forall>x \<in> set xs. P x"
  by (induction rule: list_all2_induct) auto

lemma yields_claims:
  "yields anything (act_bind (os_resolve base) (\<lambda>resolved. act_all (verify_claim sha resolved ev) names))
     (\<lambda>h _. claims_verified sha base ev names h) h"
proof -
  have "yields anything (act_all (verify_claim sha q ev) names) (\<lambda>h ys. list_all2 (\<lambda>n y. evidence_verified sha q ev n h) names ys) h'"
    for q h' by (rule yields_act_all) (auto intro: yields_verify evidence_verified_mono)
  then have "yields anything (act_all (verify_claim sha q ev) names) (\<lambda>h ys. claims_verified sha base ev names h)
      (h @ [(Resolve base, RPath q)])" for q
    by (rule yields_weaken) (auto simp: claims_verified_def dest!: list_all2_const intro!: exI [of _ q])
  then show ?thesis by simp
qed

lemma act_bind_assoc: "act_bind (act_bind m f) g = act_bind m (\<lambda>a. act_bind (f a) g)"
  unfolding act_bind_def io_bind_assoc
  by (intro arg_cong [where f = "io_bind m"] ext) (simp split: sum.split)

lemma yields_claims_then:
  assumes "\<And>h'. set h \<subseteq> set h' \<Longrightarrow> claims_verified sha base ev names h' \<Longrightarrow> P h' a"
  shows "yields anything (act_bind (os_resolve base) (\<lambda>resolved.
           act_bind (act_all (verify_claim sha resolved ev) names) (\<lambda>_. returning a))) P h"
  using yields_seq [OF yields_claims, where f = "\<lambda>_. returning a"] assms by (simp only: act_bind_assoc yields_simps)

lemma yields_staged:
  "yields anything (staged_validate_permit sha base payload r env role None) (staged_checked sha base payload r env role) h"
proof -
  have "yields anything (act_bind (os_resolve base) (\<lambda>resolved.
           act_bind (act_all (verify_claim sha resolved ev) [''dds_identity'', ''goal'', ''state'', ''time'']) (\<lambda>_. returning permit_id)))
         (staged_checked sha base payload r env role) (h @ [(TimeNs, RInt now)])"
    if "check_staged_permit payload r env role now = Inr (permit_id, ev)" for now permit_id ev
    by (rule yields_claims_then) (use that in \<open>auto simp: staged_checked_def evidence_names_def\<close>)
  then show ?thesis by (simp add: staged_validate_permit_def)
qed

lemma yields_first:
  "yields anything (first_validate_permit sha base payload r None) (first_checked sha base payload r) h"
proof -
  have "yields anything (act_bind (os_resolve base) (\<lambda>resolved.
           act_bind (act_all (verify_claim sha resolved ev) [''dds_identity'', ''state'', ''time'']) (\<lambda>_. returning permit_id)))
         (first_checked sha base payload r) (h @ [(TimeNs, RInt now)])"
    if "check_first_permit payload r now = Inr (permit_id, ev)" for now permit_id ev
    by (rule yields_claims_then) (use that in \<open>auto simp: first_checked_def\<close>)
  then show ?thesis by (simp add: first_validate_permit_def)
qed

lemma yields_pass:
  "yields anything (validate_first_motion_pass sha loads p)
     (\<lambda>h d. \<exists>receipt. file_payload loads True False p h receipt \<and> check_first_pass receipt = Inr () \<and> file_digest sha p h d) h"
  unfolding validate_first_motion_pass_def
proof (rule yields_seq [OF yields_json])
  fix h' receipt
  assume read: "file_payload loads True False p h' receipt"
  have "yields anything (sha256_file sha p)
      (\<lambda>h d. \<exists>receipt. file_payload loads True False p h receipt \<and> check_first_pass receipt = Inr () \<and> file_digest sha p h d) h'"
    if "check_first_pass receipt = Inr ()"
    by (rule yields_weaken [OF yields_sha256]) (use that read file_payload_mono in blast)
  then show "yields anything (act_bind (lift_outcome (check_first_pass receipt)) (\<lambda>_. sha256_file sha p))
      (\<lambda>h d. \<exists>receipt. file_payload loads True False p h receipt \<and> check_first_pass receipt = Inr () \<and> file_digest sha p h d) h'"
    by simp
qed

lemma yields_second_claims:
  assumes "set h0 \<subseteq> set h"
    and "\<And>h'. set h0 \<subseteq> set h' \<Longrightarrow>
      \<forall>n \<in> {''dds_identity'', ''first_motion_pass'', ''state'', ''time''}. evidence_verified sha base ev n h' \<Longrightarrow>
      first_pass_verified sha loads ev h' \<Longrightarrow> P h' permit_id"
  shows "yields anything (act_bind (verify_claim sha base ev ''dds_identity'') (\<lambda>_.
     act_bind (verify_claim sha base ev ''first_motion_pass'') (\<lambda>pass_path.
     act_bind (verify_claim sha base ev ''state'') (\<lambda>_.
     act_bind (verify_claim sha base ev ''time'') (\<lambda>_.
     act_bind (validate_first_motion_pass sha loads pass_path) (\<lambda>pass_hash.
     act_bind (permit_require (case dict_get ev ''first_motion_pass'' of
         VDict claim \<Rightarrow> eq_str (dict_get claim ''sha256'') pass_hash | _ \<Rightarrow> False)
       ''first-motion PASS validation hash mismatch'') (\<lambda>_.
     returning permit_id))))))) P h"
  apply (rule yields_seq [OF yields_verify])
  apply (rule yields_seq [OF yields_verify])
  apply (rule yields_seq [OF yields_verify])
  apply (rule yields_seq [OF yields_verify])
  apply (rule yields_seq [OF yields_pass])
  subgoal premises seen for h1 a h2 q h3 b h4 c h5 d
  proof -
    have sub: "set h1 \<subseteq> set h5" "set h2 \<subseteq> set h5" "set h3 \<subseteq> set h5" "set h4 \<subseteq> set h5" "set h0 \<subseteq> set h5"
      using seen(1,3,5,7,9) assms(1) by blast+
    have ev: "\<forall>n \<in> {''dds_identity'', ''first_motion_pass'', ''state'', ''time''}. evidence_verified sha base ev n h5"
      using evidence_verified_mono [OF seen(2) sub(1)] evidence_verified_mono [OF seen(4) sub(2)]
        evidence_verified_mono [OF seen(6) sub(3)] evidence_verified_mono [OF seen(8) sub(4)] by simp
    have "first_pass_verified sha loads ev h5"
      if "dict_get ev ''first_motion_pass'' = VDict claim" "dict_get claim ''sha256'' = VStr d" for claim
      using that seen(10) by (auto simp: first_pass_verified_def)
    then show ?thesis using assms(2) [OF sub(5) ev] by (auto split: pyval.splits)
  qed
  done

lemma yields_second:
  "yields anything (second_validate_permit sha loads base payload r None) (second_checked sha loads base payload r) h"
proof -
  have "yields anything (act_bind (verify_claim sha q ev ''dds_identity'') (\<lambda>_.
     act_bind (verify_claim sha q ev ''first_motion_pass'') (\<lambda>pass_path.
     act_bind (verify_claim sha q ev ''state'') (\<lambda>_.
     act_bind (verify_claim sha q ev ''time'') (\<lambda>_.
     act_bind (validate_first_motion_pass sha loads pass_path) (\<lambda>pass_hash.
     act_bind (permit_require (case dict_get ev ''first_motion_pass'' of
         VDict claim \<Rightarrow> eq_str (dict_get claim ''sha256'') pass_hash | _ \<Rightarrow> False)
       ''first-motion PASS validation hash mismatch'') (\<lambda>_.
     returning permit_id)))))))
     (second_checked sha loads base payload r) (h @ [(TimeNs, RInt now), (Resolve base, RPath q)])"
    if "check_second_permit payload r now = Inr (permit_id, ev)" for now permit_id ev q
    by (rule yields_second_claims [OF subset_refl])
      (use that in \<open>auto simp: second_checked_def claims_verified_def intro!: exI [of _ now] exI [of _ ev] exI [of _ q]\<close>)
  then show ?thesis by (simp add: second_validate_permit_def)
qed

section \<open>Consumption\<close>

definition permit_spent :: "posix_path \<Rightarrow> string \<Rightarrow> history \<Rightarrow> bool" where
  "permit_spent p permit_id h \<longleftrightarrow>
     (Exists (consumed_name p permit_id), RBool False) \<in> set h \<and> (Rename p (consumed_name p permit_id), RDone) \<in> set h"

lemma permit_spent_mono [history_mono]: "permit_spent p i h \<Longrightarrow> set h \<subseteq> set h' \<Longrightarrow> permit_spent p i h'"
  by (auto simp: permit_spent_def)

lemma yields_rename:
  "yields G (Call (Rename p q) (\<lambda>r. case r of RDone \<Rightarrow> returning v
       | RFail FileNotFound \<Rightarrow> raise_exc e1 | RFail e \<Rightarrow> raise_exc (OSErr e) | _ \<Rightarrow> raise_exc e2)) P h \<longleftrightarrow>
   G h (Rename p q) \<and> P (h @ [(Rename p q, RDone)]) v"
proof -
  have "yields G (Call c k) P h \<longleftrightarrow> G h c \<and> (\<forall>r. yields G (k r) P (h @ [(c, r)]))"
    for c and k :: "sysresult \<Rightarrow> 'a chassis_io" by (simp add: yields_def)
  moreover have "(\<forall>r. yields G (case r of RDone \<Rightarrow> returning v
       | RFail FileNotFound \<Rightarrow> raise_exc e1 | RFail e \<Rightarrow> raise_exc (OSErr e) | _ \<Rightarrow> raise_exc e2) P (h @ [(Rename p q, r)])) \<longleftrightarrow>
      P (h @ [(Rename p q, RDone)]) v"
    by (auto split: sysresult.splits os_error.splits)
  ultimately show ?thesis by simp
qed

lemma yields_consume:
  "yields anything (atomic_consume p i) (\<lambda>h q. permit_spent p i h \<and> q = consumed_name p i) h"
  "yields anything (second_atomic_consume p i) (\<lambda>h q. permit_spent p i h \<and> q = consumed_name p i) h"
  by (auto simp: atomic_consume_def second_atomic_consume_def Let_def yields_rename permit_spent_def)

text \<open>A permit file of the profile was private, was read and accepted, and was renamed.\<close>

definition staged_licence ::
  "(string \<Rightarrow> string) \<Rightarrow> (string \<Rightarrow> pyval option) \<Rightarrow> chassis_runtime \<Rightarrow> (string \<rightharpoonup> string) \<Rightarrow> posix_path \<Rightarrow> history \<Rightarrow> bool" where
  "staged_licence sha loads r env base h \<longleftrightarrow>
     (\<exists>p payload permit_id. staged_permit_path r env STAGED_PERMIT_ENV = Inr p \<and> private_directory (path_parent p) h \<and>
        file_payload loads True True p h payload \<and> staged_checked sha base payload r env CHASSIS_ROLE h permit_id \<and>
        permit_spent p permit_id h)"

definition first_licence ::
  "(string \<Rightarrow> string) \<Rightarrow> (string \<Rightarrow> pyval option) \<Rightarrow> chassis_runtime \<Rightarrow> (string \<rightharpoonup> string) \<Rightarrow> posix_path \<Rightarrow> history \<Rightarrow> bool" where
  "first_licence sha loads r env base h \<longleftrightarrow>
     (\<exists>p payload permit_id. p = path_of (str_strip (env_get env FIRST_PERMIT_ENV)) \<and> is_absolute p \<and>
        private_directory (path_parent p) h \<and> file_payload loads False True p h payload \<and>
        first_checked sha base payload r h permit_id \<and> permit_spent p permit_id h)"

definition second_licence ::
  "(string \<Rightarrow> string) \<Rightarrow> (string \<Rightarrow> pyval option) \<Rightarrow> chassis_runtime \<Rightarrow> (string \<rightharpoonup> string) \<Rightarrow> posix_path \<Rightarrow> history \<Rightarrow> bool" where
  "second_licence sha loads r env base h \<longleftrightarrow>
     (\<exists>p payload permit_id. p = path_of (str_strip (env_get env SECOND_PERMIT_ENV)) \<and> is_absolute p \<and>
        private_directory (path_parent p) h \<and> file_payload loads True True p h payload \<and>
        second_checked sha loads base payload r h permit_id \<and> permit_spent p permit_id h)"

text \<open>The common tail of the consumers.\<close>

lemma yields_tail:
  assumes "\<And>h. yields anything parent (\<lambda>h _. private_directory (path_parent p) h) h"
    and "\<And>payload h. yields anything (check payload) (K payload) h"
    and "\<And>i h. yields anything (take_it i) (\<lambda>h q. permit_spent p i h \<and> q = consumed_name p i) h"
    and mono: "\<And>payload h h' i. K payload h i \<Longrightarrow> set h \<subseteq> set h' \<Longrightarrow> K payload h' i"
    and goal: "\<And>h payload i. private_directory (path_parent p) h \<Longrightarrow> file_payload loads u True p h payload \<Longrightarrow>
        K payload h i \<Longrightarrow> permit_spent p i h \<Longrightarrow> P h (consumed_name p i)"
  shows "yields anything (act_bind parent (\<lambda>_. act_bind (read_json_file loads u True p) (\<lambda>payload.
     act_bind (check payload) take_it))) P h"
  apply (rule yields_seq [OF assms(1)])
  apply (rule yields_seq [OF yields_json])
  apply (rule yields_seq [OF assms(2)])
  apply (rule yields_weaken [OF assms(3)])
  subgoal premises seen for h1 a h2 payload h3 i h4 q
    using goal [OF private_directory_mono [OF seen(2)] file_payload_mono [OF seen(4)] mono [OF seen(6)], of h4] seen by blast
  done

lemma yields_consume_staged:
  "yields anything (consume_staged_nav2_permit sha loads r env base) (\<lambda>h _. staged_licence sha loads r env base h) h"
proof -
  have "yields anything (act_bind (private_parent p) (\<lambda>_. act_bind (staged_read_private_json loads p) (\<lambda>payload.
      act_bind (staged_validate_permit sha base payload r env CHASSIS_ROLE None) (atomic_consume p))))
      (\<lambda>h _. staged_licence sha loads r env base h) h"
    if "staged_permit_path r env STAGED_PERMIT_ENV = Inr p" for p
    unfolding staged_read_private_json_def
    by (rule yields_tail [where K = "\<lambda>payload. staged_checked sha base payload r env CHASSIS_ROLE",
          OF yields_parent(1) yields_staged yields_consume(1) checked_mono(1)])
      (use that in \<open>auto simp: staged_licence_def\<close>)
  then show ?thesis by (simp add: consume_staged_nav2_permit_def)
qed

lemma yields_consume_first:
  "yields anything (consume_first_motion_permit sha loads r env base) (\<lambda>h _. first_licence sha loads r env base h) h"
proof -
  define p where "p = path_of (str_strip (env_get env FIRST_PERMIT_ENV))"
  have "yields anything (act_bind (unhandled_private_parent p) (\<lambda>_. act_bind (read_json_file loads False True p) (\<lambda>payload.
      act_bind (first_validate_permit sha base payload r None) (atomic_consume p))))
      (\<lambda>h _. first_licence sha loads r env base h) h" if "is_absolute p"
    by (rule yields_tail [where K = "\<lambda>payload. first_checked sha base payload r",
          OF yields_parent(2) yields_first yields_consume(1) checked_mono(2)])
      (use that in \<open>auto simp: first_licence_def p_def\<close>)
  then show ?thesis by (simp add: consume_first_motion_permit_def p_def Let_def)
qed

lemma yields_consume_second:
  "yields anything (consume_second_motion_permit sha loads r env base) (\<lambda>h _. second_licence sha loads r env base h) h"
proof -
  define p where "p = path_of (str_strip (env_get env SECOND_PERMIT_ENV))"
  have "yields anything (act_bind (unhandled_private_parent p) (\<lambda>_. act_bind (read_json_file loads True True p) (\<lambda>payload.
      act_bind (second_validate_permit sha loads base payload r None) (second_atomic_consume p))))
      (\<lambda>h _. second_licence sha loads r env base h) h" if "is_absolute p"
    by (rule yields_tail [where K = "\<lambda>payload. second_checked sha loads base payload r",
          OF yields_parent(2) yields_second yields_consume(2) second_checked_mono])
      (use that in \<open>auto simp: second_licence_def p_def\<close>)
  then show ?thesis by (simp add: consume_second_motion_permit_def p_def Let_def)
qed

end
