(* ===== verification/ChassisLaunch.thy ===== *)
theory ChassisLaunch imports PermitSpent begin

text \<open>
  \<open>initialize\<close> as a program: which processes it can start, and what must have happened before.
\<close>

section \<open>Calls\<close>

definition quiet_calls :: "syscall set" where
  "quiet_calls = {c. \<forall>argv env f. c \<noteq> Extern (Spawn argv env f)}"

text \<open>Calls that neither start a process nor change a directory entry, except for one permit.\<close>

definition permit_calls :: "posix_path \<Rightarrow> syscall set" where
  "permit_calls p = read_calls \<union> {c. \<exists>i. c = Rename p (consumed_name p i)}"

lemma quiet_calls_simps [simp]:
  "Extern e \<in> quiet_calls \<longleftrightarrow> (\<forall>argv env f. e \<noteq> Spawn argv env f)"
  "Rename p q \<in> quiet_calls" "Mkdir q m \<in> quiet_calls" "Fchmod i n \<in> quiet_calls"
  by (auto simp: quiet_calls_def)

lemma read_quiet: "read_calls \<subseteq> quiet_calls" and permit_quiet: "permit_calls p \<subseteq> quiet_calls"
  and read_permit: "read_calls \<subseteq> permit_calls p"
  by (auto simp: quiet_calls_def read_calls_def permit_calls_def)

lemmas calls_as_quiet = calls_in_mono [OF _ read_quiet]
lemmas calls_as_permit = calls_in_mono [OF _ read_permit]

lemma act_bind_Return [simp]:
  "act_bind (Return (Inl e)) f = Return (Inl e)" "act_bind (Return (Inr a)) f = f a"
  by (simp_all add: act_bind_def)

lemma calls_extern: "Extern e \<in> C \<Longrightarrow> (\<And>r. calls_in (k r) C) \<Longrightarrow> calls_in (Call (Extern e) k) C"
  by simp

lemma calls_consume:
  "calls_in (atomic_consume p i) (permit_calls p)" "calls_in (second_atomic_consume p i) (permit_calls p)"
proof -
  have rename: "calls_in (Call (Rename p (consumed_name p i)) (\<lambda>r. case r of RDone \<Rightarrow> returning v
       | RFail FileNotFound \<Rightarrow> raise_exc e1 | RFail e \<Rightarrow> raise_exc (OSErr e) | _ \<Rightarrow> raise_exc e2)) (permit_calls p)"
    for v :: posix_path and e1 e2
    by (auto simp: permit_calls_def split: sysresult.split os_error.split)
  note look = calls_as_permit [OF calls_os(9)] calls_as_permit [OF calls_os(10)]
  show "calls_in (atomic_consume p i) (permit_calls p)"
    unfolding atomic_consume_def Let_def by (intro calls_in_act_bind look rename calls_plain)
  show "calls_in (second_atomic_consume p i) (permit_calls p)"
    unfolding second_atomic_consume_def
    by (intro calls_in_act_bind look rename calls_plain) (simp add: look)
qed

definition permit_path :: "chassis_context \<Rightarrow> chassis_runtime \<Rightarrow> posix_path" where
  "permit_path cx r = path_of (str_strip (env_get (cx_env cx)
     (if cr_motion_profile r = FIRST_MOTION_PROFILE then FIRST_PERMIT_ENV
      else if cr_motion_profile r = SECOND_MOTION_PROFILE then SECOND_PERMIT_ENV else STAGED_PERMIT_ENV)))"

lemma calls_consumers:
  "calls_in (consume_first_motion_permit sha loads r env base) (permit_calls (path_of (str_strip (env_get env FIRST_PERMIT_ENV))))"
  "calls_in (consume_second_motion_permit sha loads r env base) (permit_calls (path_of (str_strip (env_get env SECOND_PERMIT_ENV))))"
  "calls_in (consume_staged_nav2_permit sha loads r env base) (permit_calls (path_of (str_strip (env_get env STAGED_PERMIT_ENV))))"
proof -
  note look = calls_as_permit [OF look_parent(1)] calls_as_permit [OF look_parent(2)] calls_as_permit [OF look_read_json]
    calls_as_permit [OF look_first] calls_as_permit [OF look_second] calls_as_permit [OF look_staged]
  show "calls_in (consume_first_motion_permit sha loads r env base) (permit_calls (path_of (str_strip (env_get env FIRST_PERMIT_ENV))))"
    unfolding consume_first_motion_permit_def Let_def by (intro calls_in_act_bind calls_plain look calls_consume)
  show "calls_in (consume_second_motion_permit sha loads r env base) (permit_calls (path_of (str_strip (env_get env SECOND_PERMIT_ENV))))"
    unfolding consume_second_motion_permit_def Let_def by (intro calls_in_act_bind calls_plain look calls_consume)
  have "staged_permit_path r env STAGED_PERMIT_ENV = Inr p \<Longrightarrow> p = path_of (str_strip (env_get env STAGED_PERMIT_ENV))" for p
    by (auto simp: staged_permit_path_def Let_def)
  then have "calls_in (consume_staged_nav2_permit sha loads r env base) (permit_calls (path_of (str_strip (env_get env STAGED_PERMIT_ENV))))"
    if "staged_permit_path r env STAGED_PERMIT_ENV = Inr p" for p
    using that unfolding consume_staged_nav2_permit_def staged_read_private_json_def
    by (simp add: lift_outcome_def) (intro calls_in_act_bind look calls_consume)
  then show "calls_in (consume_staged_nav2_permit sha loads r env base) (permit_calls (path_of (str_strip (env_get env STAGED_PERMIT_ENV))))"
    by (cases "staged_permit_path r env STAGED_PERMIT_ENV")
      (simp_all add: consume_staged_nav2_permit_def lift_outcome_def)
qed

lemma calls_refuse: "calls_in m C \<Longrightarrow> calls_in (consume_or_refuse m msg) C"
  by (simp add: consume_or_refuse_def)

lemma calls_authorize: "calls_in (authorize cx r) (permit_calls (permit_path cx r))"
  by (auto simp: authorize_def permit_path_def SECOND_MOTION_PROFILE_def FIRST_MOTION_PROFILE_def STAGED_NAV2_PROFILE_def
      intro!: calls_refuse calls_consumers)

lemma calls_build: "calls_in (check_build cx r) read_calls"
  unfolding check_build_def is_executable_def by (auto intro!: calls_in_act_bind)

lemma calls_poll: "calls_in (ext_poll pid) quiet_calls"
  unfolding ext_poll_def by (rule calls_os_result) simp

lemma calls_signal: "e = TerminateGroup pid \<or> e = KillGroup pid \<Longrightarrow> calls_in (signal_group e) quiet_calls"
  by (auto simp: signal_group_def split: sysresult.split os_error.split)

lemma calls_stop: "calls_in (stop_processes ps) quiet_calls"
  unfolding stop_processes_def terminate_process_def reap_process_def
  by (intro calls_in_act_bind calls_in_act_all calls_poll)
     (auto intro: calls_signal split: sysresult.split)

lemma calls_normalized: "calls_in (normalized cx config) read_calls"
  unfolding normalized_def by (intro calls_in_act_bind) simp_all

lemma calls_stop_return: "calls_in (stop_and_return s r) quiet_calls"
  unfolding stop_and_return_def by (intro calls_in_bind calls_stop) (simp split: sum.split)

lemma calls_guarded:
  "Extern e \<in> C \<Longrightarrow> (\<And>r. calls_in (ok r) C) \<Longrightarrow> calls_in bad C \<Longrightarrow> calls_in (guarded_call e ok bad) C"
  by (auto simp: guarded_call_def split: sysresult.split)

lemma calls_declare: "calls_in (declare_contracts r s) quiet_calls"
  unfolding declare_contracts_def Let_def by (intro calls_guarded calls_stop_return) simp_all

lemma calls_still_runs: "calls_in (daemon_still_runs r s) quiet_calls"
  unfolding daemon_still_runs_def
  by (auto intro!: calls_in_bind calls_poll calls_declare calls_stop_return split: sum.split option.split)

lemma calls_await: "calls_in (await_odometry r s) quiet_calls"
  unfolding await_odometry_def
  by (intro calls_guarded) (auto intro!: calls_in_bind calls_poll calls_still_runs calls_stop_return split: sum.split option.split)

definition prepare_calls :: "posix_path \<Rightarrow> syscall set" where
  "prepare_calls d = read_calls \<union> {Mkdir d 448} \<union> {c. \<exists>i. c = Fchmod i 448}"

lemma calls_prepare: "calls_in (prepare_private_directory d) (prepare_calls d)"
proof -
  have sub: "read_calls \<subseteq> prepare_calls d" by (auto simp: prepare_calls_def)
  note look = calls_in_mono [OF calls_os(1) sub] calls_in_mono [OF calls_os(2) sub] calls_in_mono [OF calls_os(3) sub]
    calls_in_mono [OF calls_os(6) sub]
  have "calls_in (lstat_or_mkdir d) (prepare_calls d)"
    unfolding lstat_or_mkdir_def
    by (rule calls_in_bind [OF look(1)])
      (simp add: look prepare_calls_def [of d, THEN eqset_imp_iff] split: sum.split chassis_exc.split os_error.split sysresult.split)
  moreover have "calls_in (os_fchmod i 448) (prepare_calls d)" for i
    unfolding os_fchmod_def by (rule calls_os_result) (auto simp: prepare_calls_def)
  ultimately show ?thesis unfolding prepare_private_directory_def by (intro calls_in_act_bind calls_plain look)
qed

lemma prepare_quiet: "prepare_calls d \<subseteq> quiet_calls"
  using read_quiet by (auto simp: prepare_calls_def)

section \<open>What starting a process needs\<close>

definition authorized :: "chassis_context \<Rightarrow> chassis_runtime \<Rightarrow> history \<Rightarrow> bool" where
  "authorized cx r h \<longleftrightarrow>
     (cr_motion_profile r = FIRST_MOTION_PROFILE \<and> first_licence (cx_sha256 cx) (cx_loads cx) r (cx_env cx) (workspace_root cx) h) \<or>
     (cr_motion_profile r = SECOND_MOTION_PROFILE \<and> second_licence (cx_sha256 cx) (cx_loads cx) r (cx_env cx) (workspace_root cx) h) \<or>
     (cr_motion_profile r = STAGED_NAV2_PROFILE \<and>
       (runtime_acknowledged cx \<or> staged_licence (cx_sha256 cx) (cx_loads cx) r (cx_env cx) (workspace_root cx) h))"

definition configured :: "chassis_context \<Rightarrow> pyval \<Rightarrow> chassis_runtime \<Rightarrow> history \<Rightarrow> bool" where
  "configured cx config r h \<longleftrightarrow>
     (\<exists>base. (Resolve (cx_package_root cx), RPath base) \<in> set h \<and>
        normalize_config (cx_sha256 cx) (path_text base) (cx_uid cx) config (cx_env cx) = Inr r)"

text \<open>
  The process is the adapter or the motion daemon of a runtime the delivered configuration
  normalizes to; a runtime that allows motion has been authorized.
\<close>

definition spawn_allowed :: "chassis_context \<Rightarrow> pyval \<Rightarrow> history \<Rightarrow> string list \<Rightarrow> bool" where
  "spawn_allowed cx config h argv \<longleftrightarrow>
     (\<exists>r. configured cx config r h \<and>
        (argv = adapter_argv r (adapter_binary cx) (params_file cx) \<or> daemon_argv r (daemon_binary cx) = Inr argv) \<and>
        (cr_allow_motion r \<longrightarrow> authorized cx r h))"

definition launch_guard :: "chassis_context \<Rightarrow> pyval \<Rightarrow> history \<Rightarrow> syscall \<Rightarrow> bool" where
  "launch_guard cx config h c \<longleftrightarrow> (\<forall>argv env f. c = Extern (Spawn argv env f) \<longrightarrow> spawn_allowed cx config h argv)"

lemma licence_mono [history_mono]:
  "first_licence sha loads r env base h \<Longrightarrow> set h \<subseteq> set h' \<Longrightarrow> first_licence sha loads r env base h'"
  "second_licence sha loads r env base h \<Longrightarrow> set h \<subseteq> set h' \<Longrightarrow> second_licence sha loads r env base h'"
  "staged_licence sha loads r env base h \<Longrightarrow> set h \<subseteq> set h' \<Longrightarrow> staged_licence sha loads r env base h'"
  unfolding first_licence_def second_licence_def staged_licence_def
  by (meson private_directory_mono file_payload_mono checked_mono second_checked_mono permit_spent_mono)+

lemma authorized_mono [history_mono]: "authorized cx r h \<Longrightarrow> set h \<subseteq> set h' \<Longrightarrow> authorized cx r h'"
  unfolding authorized_def by (auto intro: licence_mono)

lemma configured_mono [history_mono]: "configured cx config r h \<Longrightarrow> set h \<subseteq> set h' \<Longrightarrow> configured cx config r h'"
  unfolding configured_def by blast

lemma launch_guard_quiet: "c \<in> quiet_calls \<Longrightarrow> launch_guard cx config h c"
  by (auto simp: launch_guard_def)

lemma obeys_seq:
  assumes "obeys m G P h" "\<And>h' a. set h \<subseteq> set h' \<Longrightarrow> P h' a \<Longrightarrow> obeys (f a) G Q h'"
  shows "obeys (io_bind m f) G Q h"
  unfolding obeys_bind by (rule obeys_weaken [OF assms])

lemma obeys_quiet: "calls_in m quiet_calls \<Longrightarrow> obeys m (launch_guard cx config) (\<lambda>h a. True) h"
  by (erule obeys_trivial) (rule launch_guard_quiet)

lemma yields_authorize:
  "obeys (authorize cx r) (launch_guard cx config) (\<lambda>h a. a = Inr None \<longrightarrow> cr_allow_motion r \<longrightarrow> authorized cx r h) h"
proof -
  have refuse: "obeys (consume_or_refuse m msg) anything (\<lambda>h a. a = Inr None \<longrightarrow> L h) h"
    if "yields anything m (\<lambda>h _. L h) h" for m msg L
  proof -
    have "obeys m anything (\<lambda>h a. (case a of Inr p \<Rightarrow> Inr None | Inl (OSErr e) \<Rightarrow> Inr (Some (InitErr msg))
        | Inl (PermitError t) \<Rightarrow> Inr (Some (InitErr msg)) | Inl e \<Rightarrow> Inl e) = Inr None \<longrightarrow> L h) h"
      by (rule obeys_weaken [OF that [unfolded yields_def]]) (auto split: sum.splits chassis_exc.splits)
    then show ?thesis by (simp add: consume_or_refuse_def obeys_bind)
  qed
  have "obeys (authorize cx r) anything (\<lambda>h a. a = Inr None \<longrightarrow> cr_allow_motion r \<longrightarrow> authorized cx r h) h"
    using refuse [OF yields_consume_first [of "cx_sha256 cx" "cx_loads cx" r "cx_env cx" "workspace_root cx" h], of "''first-motion permit rejected''"]
      refuse [OF yields_consume_second [of "cx_sha256 cx" "cx_loads cx" r "cx_env cx" "workspace_root cx" h], of "''second-motion permit rejected''"]
      refuse [OF yields_consume_staged [of "cx_sha256 cx" "cx_loads cx" r "cx_env cx" "workspace_root cx" h], of "''staged-nav2 permit rejected''"]
    by (auto simp: authorize_def starts_sdk_daemon_def returning_def authorized_def elim!: obeys_weaken)
  then show ?thesis by (rule obeys_calls [OF _ calls_in_mono [OF calls_authorize permit_quiet] subset_refl launch_guard_quiet])
qed


section \<open>Every process of initialize is licensed\<close>

definition launch_ready :: "chassis_context \<Rightarrow> pyval \<Rightarrow> chassis_runtime \<Rightarrow> history \<Rightarrow> bool" where
  "launch_ready cx config r h \<longleftrightarrow> configured cx config r h \<and> (cr_allow_motion r \<longrightarrow> authorized cx r h)"

lemma launch_ready_mono: "launch_ready cx config r h \<Longrightarrow> set h \<subseteq> set h' \<Longrightarrow> launch_ready cx config r h'"
  unfolding launch_ready_def using configured_mono authorized_mono by blast

lemma obeys_spawn:
  assumes "launch_ready cx config r h"
    and "argv = adapter_argv r (adapter_binary cx) (params_file cx) \<or> daemon_argv r (daemon_binary cx) = Inr argv"
  shows "obeys (ext_spawn argv env f) (launch_guard cx config) (\<lambda>h a. True) h"
  using assms
  by (auto simp: ext_spawn_def launch_guard_def spawn_allowed_def launch_ready_def returning_def raise_exc_def
      split: sysresult.split)

lemma obeys_spawn_daemon:
  assumes "launch_ready cx config r h"
  shows "obeys (spawn_daemon cx r) (launch_guard cx config) (\<lambda>h a. True) h"
proof (cases "daemon_argv r (daemon_binary cx)")
  case (Inl e)
  then show ?thesis by (simp add: spawn_daemon_def lift_outcome_def returning_def)
next
  case (Inr argv)
  have "obeys (ext_spawn argv env f) (launch_guard cx config) (\<lambda>h a. True) h'" if "set h \<subseteq> set h'" for env f h'
    by (rule obeys_spawn [OF launch_ready_mono [OF assms that]]) (simp add: Inr)
  note spawn = this
  have "obeys (act_bind (ext_spawn argv env f) (\<lambda>pid. returning [pid])) (launch_guard cx config) (\<lambda>h a. True) h'"
    if "set h \<subseteq> set h'" for env f h'
    unfolding act_bind_def by (rule obeys_seq [OF spawn [OF that]]) (simp add: returning_def split: sum.split)
  then have "obeys (act_bind (os_resolve (daemon_binary cx)) (\<lambda>resolved.
      act_bind (ext_spawn argv (env resolved) f) (\<lambda>pid. returning [pid]))) (launch_guard cx config) (\<lambda>h a. True) h" for env f
    unfolding act_bind_def [of "os_resolve _"]
    by (intro obeys_seq [OF obeys_quiet [OF calls_as_quiet [OF calls_os(8)]]]) (simp split: sum.split)
  then show ?thesis by (simp add: spawn_daemon_def lift_outcome_def Inr returning_def)
qed

lemma obeys_spawn_runtime:
  assumes "launch_ready cx config r h"
  shows "obeys (spawn_runtime cx r) (launch_guard cx config) (\<lambda>h a. True) h"
  unfolding spawn_runtime_def
proof (rule obeys_seq [OF obeys_quiet [OF calls_in_mono [OF calls_prepare prepare_quiet]]])
  fix h1 and prepared :: "chassis_exc + unit"
  assume h1: "set h \<subseteq> set h1"
  have "obeys (io_bind (spawn_daemon cx r) (\<lambda>daemon. case daemon of Inl e \<Rightarrow> Return ([], Inl e) | Inr ps \<Rightarrow>
      io_bind (ext_spawn (adapter_argv r (adapter_binary cx) (params_file cx)) (process_env r) ''adapter.log'')
        (\<lambda>adapter. case adapter of Inl e \<Rightarrow> Return (ps, Inl e) | Inr pid \<Rightarrow> Return (ps @ [pid], Inr ()))))
      (launch_guard cx config) (\<lambda>h a. True) h1"
  proof (rule obeys_seq [OF obeys_spawn_daemon [OF launch_ready_mono [OF assms h1]]])
    fix h2 and daemon :: "chassis_exc + nat list"
    assume "set h1 \<subseteq> set h2"
    then have ready: "launch_ready cx config r h2" using launch_ready_mono [OF assms] h1 by blast
    have "obeys (io_bind (ext_spawn (adapter_argv r (adapter_binary cx) (params_file cx)) (process_env r) ''adapter.log'')
        (\<lambda>adapter. case adapter of Inl e \<Rightarrow> Return (ps, Inl e) | Inr pid \<Rightarrow> Return (ps @ [pid], Inr ())))
        (launch_guard cx config) (\<lambda>h a. True) h2" for ps
      by (rule obeys_seq [OF obeys_spawn [OF ready]]) (simp_all split: sum.split)
    then show "obeys (case daemon of Inl e \<Rightarrow> Return ([], Inl e) | Inr ps \<Rightarrow>
      io_bind (ext_spawn (adapter_argv r (adapter_binary cx) (params_file cx)) (process_env r) ''adapter.log'')
        (\<lambda>adapter. case adapter of Inl e \<Rightarrow> Return (ps, Inl e) | Inr pid \<Rightarrow> Return (ps @ [pid], Inr ())))
      (launch_guard cx config) (\<lambda>h a. True) h2" by (simp split: sum.split)
  qed
  then show "obeys (case prepared of Inl e \<Rightarrow> Return ([], Inl e) | Inr _ \<Rightarrow>
      io_bind (spawn_daemon cx r) (\<lambda>daemon. case daemon of Inl e \<Rightarrow> Return ([], Inl e) | Inr ps \<Rightarrow>
      io_bind (ext_spawn (adapter_argv r (adapter_binary cx) (params_file cx)) (process_env r) ''adapter.log'')
        (\<lambda>adapter. case adapter of Inl e \<Rightarrow> Return (ps, Inl e) | Inr pid \<Rightarrow> Return (ps @ [pid], Inr ()))))
      (launch_guard cx config) (\<lambda>h a. True) h1" by (simp split: sum.split)
qed

lemma obeys_start:
  assumes "launch_ready cx config r h"
  shows "obeys (start_runtime cx r s) (launch_guard cx config) (\<lambda>h a. True) h"
  unfolding start_runtime_def
  by (rule obeys_seq [OF obeys_spawn_runtime [OF assms]])
    (auto simp: Let_def split: sum.split intro!: obeys_quiet calls_stop_return calls_await)

lemma obeys_normalized:
  "obeys (normalized cx config) (launch_guard cx config) (\<lambda>h a. \<forall>r. a = Inr r \<longrightarrow> configured cx config r h) h"
proof -
  have "yields anything (normalized cx config) (\<lambda>h r. configured cx config r h) h"
    by (auto simp: normalized_def configured_def)
  then show ?thesis unfolding yields_def
    by (rule obeys_calls [OF _ calls_as_quiet [OF calls_normalized] subset_refl launch_guard_quiet])
qed

lemma obeys_initialize: "obeys (initialize cx config s) (launch_guard cx config) (\<lambda>h a. True) h"
proof -
  have authorize: "obeys (io_bind (authorize cx r) (\<lambda>authorized. case authorized of
      Inl e \<Rightarrow> Return (Inl e, s1) | Inr (Some early) \<Rightarrow> Return (Inr early, s1) | Inr None \<Rightarrow> start_runtime cx r s1))
      (launch_guard cx config) (\<lambda>h a. True) h1" if "configured cx config r h1" for r h1 s1
    by (rule obeys_seq [OF yields_authorize])
      (auto split: sum.split option.split intro!: obeys_start simp: launch_ready_def intro: configured_mono [OF that])
  have build: "obeys (io_bind (check_build cx r) (\<lambda>built. case built of Inl e \<Rightarrow> Return (Inl e, s1)
      | Inr (Some early) \<Rightarrow> Return (Inr early, s1)
      | Inr None \<Rightarrow> io_bind (authorize cx r) (\<lambda>authorized. case authorized of
          Inl e \<Rightarrow> Return (Inl e, s1) | Inr (Some early) \<Rightarrow> Return (Inr early, s1) | Inr None \<Rightarrow> start_runtime cx r s1)))
      (launch_guard cx config) (\<lambda>h a. True) h1" if "configured cx config r h1" for r h1 s1
    by (rule obeys_seq [OF obeys_quiet [OF calls_as_quiet [OF calls_build]]])
      (auto split: sum.split option.split intro!: authorize intro: configured_mono [OF that])
  show ?thesis unfolding initialize_def
    by (rule obeys_seq [OF obeys_quiet [OF calls_stop]])
      (auto simp: Let_def split: sum.split chassis_exc.split intro!: obeys_seq [OF obeys_normalized] build)
qed

end
