(* ===== verification/PermitRace.thy ===== *)
theory PermitRace imports ChassisLaunch begin

text \<open>
  Several drivers that share one permit file, interleaved call by call: at most one of them can
  start the motion daemon. The argument is the file system's: the permit's entry can be moved
  away once, and a daemon is started only after its own process has moved it.
\<close>

section \<open>No driver puts the permit back\<close>

definition shares_permit :: "posix_path \<Rightarrow> chassis_context \<Rightarrow> pyval \<Rightarrow> bool" where
  "shares_permit p cx config \<longleftrightarrow>
     (\<forall>base r. normalize_config (cx_sha256 cx) (path_text base) (cx_uid cx) config (cx_env cx) = Inr r \<longrightarrow>
        permit_path cx r = p \<and> path_parent (cr_ipc_socket r) \<noteq> p \<and> p \<notin> set (ancestors (path_parent (cr_ipc_socket r))))"

lemma consumed_name_neq: "path_parts p \<noteq> [] \<Longrightarrow> consumed_name p i \<noteq> p"
proof
  assume "path_parts p \<noteq> []" "consumed_name p i = p"
  then have "last (path_parts (consumed_name p i)) = last (path_parts p)" by simp
  then show False using \<open>path_parts p \<noteq> []\<close> by (simp add: consumed_name_def with_name_def path_name_def)
qed

lemma read_never_creates: "c \<in> read_calls \<Longrightarrow> never_creates p c"
  by (auto simp: read_calls_def never_creates_def)

lemma permit_never_creates: "path_parts p \<noteq> [] \<Longrightarrow> c \<in> permit_calls p \<Longrightarrow> never_creates p c"
  unfolding permit_calls_def
  by (elim UnE) (simp add: read_never_creates, auto simp: never_creates_def dest: consumed_name_neq)

lemma prepare_never_creates: "d \<noteq> p \<Longrightarrow> p \<notin> set (ancestors d) \<Longrightarrow> c \<in> prepare_calls d \<Longrightarrow> never_creates p c"
  using read_never_creates by (auto simp: prepare_calls_def never_creates_def)

text \<open>Calls of the Robonix runtime change no directory entry.\<close>

definition extern_calls :: "syscall set" where
  "extern_calls = read_calls \<union> range Extern"

lemma extern_never_creates: "c \<in> extern_calls \<Longrightarrow> never_creates p c"
  using read_never_creates by (auto simp: extern_calls_def never_creates_def)

lemma extern_in [simp]: "Extern e \<in> extern_calls"
  by (simp add: extern_calls_def)

lemma read_extern: "read_calls \<subseteq> extern_calls"
  by (auto simp: extern_calls_def)

lemma calls_poll_extern: "calls_in (ext_poll pid) extern_calls"
  unfolding ext_poll_def by (rule calls_os_result) simp

lemma calls_signal_extern: "calls_in (signal_group e) extern_calls"
  by (auto simp: signal_group_def split: sysresult.split os_error.split)

lemma calls_stop_extern: "calls_in (stop_processes ps) extern_calls"
  unfolding stop_processes_def terminate_process_def reap_process_def
  by (intro calls_in_act_bind calls_in_act_all calls_poll_extern)
     (auto intro: calls_signal_extern split: sysresult.split)

lemma calls_stop_return_extern: "calls_in (stop_and_return s r) extern_calls"
  unfolding stop_and_return_def by (intro calls_in_bind calls_stop_extern) (simp split: sum.split)

lemma calls_declare_extern: "calls_in (declare_contracts r s) extern_calls"
  unfolding declare_contracts_def Let_def by (intro calls_guarded calls_stop_return_extern) simp_all

lemma calls_still_runs_extern: "calls_in (daemon_still_runs r s) extern_calls"
  unfolding daemon_still_runs_def
  by (auto intro!: calls_in_bind calls_poll_extern calls_declare_extern calls_stop_return_extern split: sum.split option.split)

lemma calls_await_extern: "calls_in (await_odometry r s) extern_calls"
  unfolding await_odometry_def
  by (intro calls_guarded) (auto intro!: calls_in_bind calls_poll_extern calls_still_runs_extern calls_stop_return_extern
      split: sum.split option.split)

lemma calls_spawn_extern: "calls_in (ext_spawn argv env f) extern_calls"
  by (auto simp: ext_spawn_def split: sysresult.split)

lemma calls_spawn_daemon_extern: "calls_in (spawn_daemon cx r) extern_calls"
  unfolding spawn_daemon_def
  by (auto intro!: calls_in_act_bind calls_spawn_extern intro: calls_in_mono [OF calls_os(8) read_extern])

lemma obeys_calls_in: "calls_in m C \<Longrightarrow> (\<And>c. c \<in> C \<Longrightarrow> H c) \<Longrightarrow> obeys m (\<lambda>h c. H c) (\<lambda>h a. True) h"
  by (erule obeys_trivial) auto

lemma initialize_never_creates:
  assumes "shares_permit p cx config" "path_parts p \<noteq> []"
  shows "obeys (initialize cx config s) (\<lambda>h c. never_creates p c) (\<lambda>h a. True) h"
proof -
  let ?ok = "\<lambda>h c. never_creates p c"
  note look = obeys_calls_in [OF calls_normalized read_never_creates]
  have normal: "obeys (normalized cx config) ?ok (\<lambda>h a. \<forall>r. a = Inr r \<longrightarrow>
      permit_path cx r = p \<and> path_parent (cr_ipc_socket r) \<noteq> p \<and> p \<notin> set (ancestors (path_parent (cr_ipc_socket r)))) h" for h
  proof (rule obeys_calls [OF _ calls_normalized subset_refl read_never_creates])
    show "obeys (normalized cx config) anything (\<lambda>h a. \<forall>r. a = Inr r \<longrightarrow> permit_path cx r = p \<and>
        path_parent (cr_ipc_socket r) \<noteq> p \<and> p \<notin> set (ancestors (path_parent (cr_ipc_socket r)))) h"
      using assms(1) unfolding yields_def [symmetric] by (auto simp: normalized_def shares_permit_def)
  qed
  have start: "obeys (start_runtime cx r s1) ?ok (\<lambda>h a. True) h"
    if "path_parent (cr_ipc_socket r) \<noteq> p" "p \<notin> set (ancestors (path_parent (cr_ipc_socket r)))" for r s1 h
  proof -
    have rest: "calls_in (io_bind (spawn_daemon cx r) (\<lambda>daemon. case daemon of Inl e \<Rightarrow> Return ([], Inl e) | Inr ps \<Rightarrow>
        io_bind (ext_spawn (adapter_argv r (adapter_binary cx) (params_file cx)) (process_env r) ''adapter.log'')
        (\<lambda>adapter. case adapter of Inl e \<Rightarrow> Return (ps, Inl e) | Inr pid \<Rightarrow> Return (ps @ [pid], Inr ())))) extern_calls"
      by (auto intro!: calls_in_bind calls_spawn_daemon_extern calls_spawn_extern split: sum.split)
    have "obeys (spawn_runtime cx r) ?ok (\<lambda>h a. True) h" unfolding spawn_runtime_def
      by (rule obeys_seq [OF obeys_calls_in [OF calls_prepare prepare_never_creates [OF that]]])
        (auto split: sum.split intro!: obeys_calls_in [OF rest extern_never_creates])
    then show ?thesis unfolding start_runtime_def
      by (rule obeys_seq)
        (auto simp: Let_def split: sum.split
          intro!: obeys_calls_in [OF calls_stop_return_extern extern_never_creates]
            obeys_calls_in [OF calls_await_extern extern_never_creates])
  qed
  have authorize: "obeys (authorize cx r) ?ok (\<lambda>h a. True) h" if "permit_path cx r = p" for r h
    by (rule obeys_calls_in [OF calls_authorize]) (use that permit_never_creates [OF assms(2)] in blast)
  have build: "obeys (io_bind (check_build cx r) (\<lambda>built. case built of Inl e \<Rightarrow> Return (Inl e, s1)
      | Inr (Some early) \<Rightarrow> Return (Inr early, s1)
      | Inr None \<Rightarrow> io_bind (authorize cx r) (\<lambda>authorized. case authorized of
          Inl e \<Rightarrow> Return (Inl e, s1) | Inr (Some early) \<Rightarrow> Return (Inr early, s1) | Inr None \<Rightarrow> start_runtime cx r s1)))
      ?ok (\<lambda>h a. True) h"
    if "permit_path cx r = p" "path_parent (cr_ipc_socket r) \<noteq> p" "p \<notin> set (ancestors (path_parent (cr_ipc_socket r)))"
    for r s1 h
  proof (rule obeys_seq [OF obeys_calls_in [OF calls_build read_never_creates]])
    fix h' and built :: "chassis_exc + init_result option"
    have "obeys (io_bind (authorize cx r) (\<lambda>authorized. case authorized of
          Inl e \<Rightarrow> Return (Inl e, s1) | Inr (Some early) \<Rightarrow> Return (Inr early, s1) | Inr None \<Rightarrow> start_runtime cx r s1))
        ?ok (\<lambda>h a. True) h'"
      by (rule obeys_seq [OF authorize [OF that(1)]]) (auto split: sum.split option.split intro!: start that(2,3))
    then show "obeys (case built of Inl e \<Rightarrow> Return (Inl e, s1) | Inr (Some early) \<Rightarrow> Return (Inr early, s1)
      | Inr None \<Rightarrow> io_bind (authorize cx r) (\<lambda>authorized. case authorized of
          Inl e \<Rightarrow> Return (Inl e, s1) | Inr (Some early) \<Rightarrow> Return (Inr early, s1) | Inr None \<Rightarrow> start_runtime cx r s1))
      ?ok (\<lambda>h a. True) h'" by (simp split: sum.split option.split)
  qed
  show ?thesis unfolding initialize_def
    by (rule obeys_seq [OF obeys_calls_in [OF calls_stop_extern extern_never_creates]])
      (auto simp: Let_def split: sum.split chassis_exc.split intro!: obeys_seq [OF normal] build)
qed

section \<open>The race\<close>

text \<open>The processes that have started a motion daemon, by its command line.\<close>

definition is_daemon_argv :: "string list \<Rightarrow> bool" where
  "is_daemon_argv argv \<longleftrightarrow> take 1 (drop 1 argv) = [''--socket'']"

fun starts_daemon :: "syscall \<Rightarrow> bool" where
  "starts_daemon (Extern (Spawn argv env f)) \<longleftrightarrow> is_daemon_argv argv"
| "starts_daemon c \<longleftrightarrow> False"

definition daemon_starters :: "(nat \<times> syscall \<times> sysresult) list \<Rightarrow> nat set" where
  "daemon_starters events = {i. \<exists>c r. (i, c, r) \<in> set events \<and> starts_daemon c}"

lemma daemon_argv_is: "daemon_argv r p = Inr argv \<Longrightarrow> cr_allow_motion r \<and> is_daemon_argv argv"
  by (auto simp: daemon_argv_def cfg_require_def is_daemon_argv_def)

lemma adapter_argv_is: "\<not> is_daemon_argv (adapter_argv r p q)"
  by (simp add: adapter_argv_def is_daemon_argv_def)

lemma staged_path_is: "staged_permit_path r env n = Inr p \<Longrightarrow> p = path_of (str_strip (env_get env n))"
  by (auto simp: staged_permit_path_def Let_def)

lemma authorized_moved:
  assumes "authorized cx r h" "\<not> runtime_acknowledged cx" "permit_path cx r = p"
  shows "\<exists>e \<in> set h. moved_away p e"
proof -
  have spent: "permit_spent p i h \<Longrightarrow> \<exists>e \<in> set h. moved_away p e" for i
    by (auto simp: permit_spent_def moved_away_def)
  show ?thesis using assms(1)
    unfolding authorized_def
  proof (elim disjE conjE)
    assume "cr_motion_profile r = FIRST_MOTION_PROFILE" "first_licence (cx_sha256 cx) (cx_loads cx) r (cx_env cx) (workspace_root cx) h"
    then show ?thesis using assms(3) spent by (auto simp: first_licence_def permit_path_def)
  next
    assume "cr_motion_profile r = SECOND_MOTION_PROFILE" "second_licence (cx_sha256 cx) (cx_loads cx) r (cx_env cx) (workspace_root cx) h"
    then show ?thesis using assms(3) spent
      by (auto simp: second_licence_def permit_path_def FIRST_MOTION_PROFILE_def SECOND_MOTION_PROFILE_def)
  next
    assume "cr_motion_profile r = STAGED_NAV2_PROFILE"
    moreover assume "staged_licence (cx_sha256 cx) (cx_loads cx) r (cx_env cx) (workspace_root cx) h"
    ultimately show ?thesis using assms(3) spent staged_path_is
      by (fastforce simp: staged_licence_def permit_path_def FIRST_MOTION_PROFILE_def SECOND_MOTION_PROFILE_def STAGED_NAV2_PROFILE_def)
  next
    assume "runtime_acknowledged cx"
    then show ?thesis using assms(2) by simp
  qed
qed

lemma starter_moved:
  assumes run: "reaches env (w0, procs0, []) (w, procs, events)"
    and procs: "\<And>i. procs0 i = initialize (cx i) (config i) (s i)"
    and shares: "\<And>i. shares_permit p (cx i) (config i)" and no_ack: "\<And>i. \<not> runtime_acknowledged (cx i)"
    and starter: "i \<in> daemon_starters events"
  shows "\<exists>e. (i, e) \<in> set events \<and> moved_away p e"
proof -
  obtain c r where event: "(i, c, r) \<in> set events" "starts_daemon c"
    using starter by (auto simp: daemon_starters_def)
  then obtain n where n: "n < length events" "events ! n = (i, c, r)" by (auto simp: in_set_conv_nth)
  have "obeys (procs0 j) (launch_guard (cx j) (config j)) (\<lambda>h a. True) []" for j
    unfolding procs by (rule obeys_initialize)
  from system_obeys [where G = "\<lambda>j. launch_guard (cx j) (config j)", OF run this]
  have guard: "launch_guard (cx i) (config i) (history_of i (take n events)) c" using n by force
  obtain argv ev f where c: "c = Extern (Spawn argv ev f)" "is_daemon_argv argv"
    using event(2) by (cases c rule: starts_daemon.cases) auto
  let ?h = "history_of i (take n events)"
  obtain rt where rt: "configured (cx i) (config i) rt ?h"
      "argv = adapter_argv rt (adapter_binary (cx i)) (params_file (cx i)) \<or> daemon_argv rt (daemon_binary (cx i)) = Inr argv"
      "cr_allow_motion rt \<longrightarrow> authorized (cx i) rt ?h"
    using guard c by (auto simp: launch_guard_def spawn_allowed_def)
  have daemon: "daemon_argv rt (daemon_binary (cx i)) = Inr argv" using rt(2) c(2) adapter_argv_is by blast
  have "permit_path (cx i) rt = p" using rt(1) shares [of i] by (auto simp: configured_def shares_permit_def)
  moreover have "authorized (cx i) rt ?h" using daemon_argv_is [OF daemon] rt(3) by blast
  ultimately obtain e where e: "e \<in> set ?h" "moved_away p e" using authorized_moved no_ack by blast
  then have "(i, e) \<in> set (take n events)" by (auto simp: history_of_def)
  then show ?thesis using e(2) in_set_takeD by fast
qed

lemma at_most_one_starter:
  assumes run: "reaches env (w0, procs0, []) (w, procs, events)"
    and procs: "\<And>i. procs0 i = initialize (cx i) (config i) (s i)"
    and shares: "\<And>i. shares_permit p (cx i) (config i)" and no_ack: "\<And>i. \<not> runtime_acknowledged (cx i)"
    and named: "path_parts p \<noteq> []"
    and env: "\<And>w w'. env w w' \<Longrightarrow> entry_gone p w \<Longrightarrow> entry_gone p w'"
    and starters: "i \<in> daemon_starters events" "j \<in> daemon_starters events"
  shows "i = j"
proof -
  have "obeys (procs0 k) (\<lambda>h c. never_creates p c) (\<lambda>h a. True) []" for k
    unfolding procs by (rule initialize_never_creates [OF shares named])
  note keeps = this
  have "length (filter (\<lambda>e. moved_away p (snd e)) events) \<le> (if entry_gone p w then 1 else 0)"
  proof (rule moved_at_most_once [OF run])
    show "entry_gone p w'" if "env w w'" "entry_gone p w" for w w' using env that .
  qed (rule keeps)
  then have one: "length (filter (\<lambda>e. moved_away p (snd e)) events) \<le> 1" by (auto split: if_splits)
  obtain e where "(i, e) \<in> set events" "moved_away p e"
    using starter_moved [OF run procs shares no_ack starters(1)] by blast
  moreover obtain e' where "(j, e') \<in> set events" "moved_away p e'"
    using starter_moved [OF run procs shares no_ack starters(2)] by blast
  ultimately have "{(i, e), (j, e')} \<subseteq> set (filter (\<lambda>e. moved_away p (snd e)) events)" by auto
  then show ?thesis using one by (cases "filter (\<lambda>e. moved_away p (snd e)) events") auto
qed

end
