(* ===== verification/ChassisBounds.thy ===== *)
theory ChassisBounds imports ChassisConfig begin

text \<open>What a configuration that \<open>normalize_config\<close> accepts is: bounded in every case, and exact under motion.\<close>

section \<open>Field readers\<close>

lemma cfg_require_simps [simp]: "cfg_require b m = Inr u \<longleftrightarrow> b"
  by (simp add: cfg_require_def)

lemma cfg_number_Inr:
  assumes "cfg_number v n d lo hi incl = Inr x" "lo \<noteq> NaN" "hi \<noteq> NaN"
  shows "isfinite x \<and> fle lo x \<and> fle x hi \<and> (incl \<or> fless lo x)"
  using assms by (auto simp: cfg_number_def Let_def isfinite_not_NaN intro: not_fless fless_fle split: if_splits)

lemma positive_up_to_Inr:
  "positive_up_to cfg n hi = Inr x \<Longrightarrow> hi \<noteq> NaN \<Longrightarrow> isfinite x \<and> fless (Fin 0) x \<and> fle x hi"
  unfolding positive_up_to_def by (drule cfg_number_Inr) auto

lemma first_occurrences_simps [simp]: "set (first_occurrences xs) = set xs" "distinct (first_occurrences xs)"
  by (simp_all add: first_occurrences_def)

lemma audited_token_Inr: "audited_token n lo hi t = Inr i \<Longrightarrow> lo \<le> i \<and> i \<le> hi"
  by (auto simp: audited_token_def)

lemma parse_audited_modes_Inr:
  assumes "parse_audited_modes env = Inr modes"
  shows "modes \<noteq> [] \<and> distinct modes \<and> (\<forall>m \<in> set modes. 0 \<le> m \<and> m < UNKNOWN_MODE)"
proof -
  obtain tokens ms where ms: "all_ok (audited_token ''GO2_ALLOWED_MODES'' 0 (UNKNOWN_MODE - 1)) tokens = Inr ms"
      "modes = first_occurrences ms" "tokens \<noteq> []"
    using assms by (auto simp: parse_audited_modes_def Let_def audited_tokens_def)
  then have "ms \<noteq> []" using all_ok_length [OF ms(1)] by auto
  then have "set modes \<noteq> {}" using ms(2) by simp
  moreover have "0 \<le> m \<and> m < UNKNOWN_MODE" if "m \<in> set modes" for m
    using that ms(2) all_ok_member [OF ms(1), of m] audited_token_Inr by fastforce
  moreover have "distinct modes" using ms(2) by simp
  ultimately show ?thesis by auto
qed

section \<open>The stages of an accepted configuration\<close>

definition stages ::
  "json_object \<Rightarrow> (string \<rightharpoonup> string) \<Rightarrow> motion_gate \<Rightarrow> odometry \<Rightarrow> stationary_hold \<Rightarrow> motion_limits \<Rightarrow> chassis_runtime \<Rightarrow> bool" where
  "stages cfg env g od hold ml r \<longleftrightarrow>
     read_gate cfg env = Inr g \<and> read_odometry cfg g = Inr od \<and> read_motion_limits cfg env g = Inr ml \<and>
     check_envelope cfg env g od ml = Inr () \<and>
     (\<exists>markers passive moving socket. check_sources g markers passive moving od hold = Inr () \<and>
        build_runtime cfg g markers passive moving socket od hold ml = Inr r)"

lemma normalize_stages:
  assumes "normalize_config sha256 root_text uid config env = Inr r"
  shows "\<exists>cfg g od hold ml. stages cfg env g od hold ml r \<and> set (map fst cfg) \<subseteq> set known_keys \<and>
    (config = VDict cfg \<or> config = VNone \<and> cfg = [])"
proof -
  obtain cfg where cfg: "normalize_object sha256 root_text uid cfg env = Inr r" "config = VDict cfg \<or> config = VNone \<and> cfg = []"
    using assms by (auto simp: normalize_config_def split: pyval.splits)
  then show ?thesis by (fastforce simp: normalize_object_def stages_def)
qed

lemma build_runtime_Inr:
  assumes "build_runtime cfg g markers pas mov socket od hold ml = Inr r"
  shows "cr_allow_motion r = mg_motion g" "cr_motion_profile r = mg_profile g" "cr_network_interface r = mg_interface g"
    "cr_allowed_modes r = mg_modes g" "cr_allowed_state_markers r = markers" "cr_twist_in_topic r = od_twist_in od"
    "cr_odom_topic r = od_odom od" "cr_odom_source r = od_source od" "cr_publish_odom_tf r = od_tf od"
    "cr_external_odom_topic r = od_external od" "cr_external_odom_timeout_s r = od_timeout od"
    "cr_max_linear_x_mps r = ml_vx ml" "cr_max_linear_y_mps r = ml_vy ml" "cr_max_angular_z_rps r = ml_wz ml"
    "cr_command_timeout_s r = ml_command_timeout ml" "cr_commissioning_max_duration_s r = ml_duration ml"
    "cr_commissioning_max_distance_m r = ml_distance ml" "cr_stationary_pose_hold_enabled r = sh_enabled hold"
    "cr_preserve_classic_walk r = mg_preserve g"
    "read_linear_accel cfg = Inr (cr_max_linear_accel_mps2 r)" "read_angular_accel cfg = Inr (cr_max_angular_accel_rps2 r)"
    "read_source_age cfg = Inr (cr_max_source_stamp_age_s r)" "read_future_skew cfg = Inr (cr_max_source_stamp_future_skew_s r)"
    "read_control_rate cfg = Inr (cr_control_rate_hz r)"
    "read_state_timeout cfg (if staged_gate g then STAGED_NAV2_STATE_TIMEOUT_S else COMMISSIONING_STATE_TIMEOUT_S)
       (if staged_gate g then STAGED_NAV2_STATE_TIMEOUT_S else COMMISSIONING_STATE_TIMEOUT_S) = Inr (cr_state_timeout_s r)"
    "cfg_number (dict_get cfg ''zero_preamble_s'') ''zero_preamble_s'' (fl (1 / 2)) (fl (1 / 2)) (Fin 5) True = Inr (cr_zero_preamble_s r)"
  using assms by (auto simp: build_runtime_def Let_def)

section \<open>Bounds of every accepted configuration\<close>

lemma fl_le: "p \<le> q \<Longrightarrow> fle x (fl p) \<Longrightarrow> fle x (fl q)"
  using fl_mono fle_trans by blast

definition bounded_runtime :: "chassis_runtime \<Rightarrow> bool" where
  "bounded_runtime r \<longleftrightarrow>
     fless (Fin 0) (cr_max_linear_x_mps r) \<and> fle (cr_max_linear_x_mps r) (fl (1 / 2)) \<and>
     cr_max_linear_y_mps r = Fin 0 \<and>
     fle (Fin 0) (cr_max_angular_z_rps r) \<and> fle (cr_max_angular_z_rps r) (fl (4 / 10)) \<and>
     fless (Fin 0) (cr_max_linear_accel_mps2 r) \<and> fle (cr_max_linear_accel_mps2 r) (fl (3 / 10)) \<and>
     fless (Fin 0) (cr_max_angular_accel_rps2 r) \<and> fle (cr_max_angular_accel_rps2 r) (fl (8 / 10)) \<and>
     fle (fl (5 / 100)) (cr_command_timeout_s r) \<and> fle (cr_command_timeout_s r) (fl (1 / 4)) \<and>
     fle (fl (5 / 100)) (cr_state_timeout_s r) \<and> fle (cr_state_timeout_s r) (Fin 1) \<and>
     fle (fl (5 / 100)) (cr_max_source_stamp_age_s r) \<and> fle (cr_max_source_stamp_age_s r) (fl (2 / 10)) \<and>
     fle (Fin 0) (cr_max_source_stamp_future_skew_s r) \<and> fle (cr_max_source_stamp_future_skew_s r) (fl (5 / 100)) \<and>
     fle (fl (1 / 2)) (cr_zero_preamble_s r) \<and> fle (cr_zero_preamble_s r) (Fin 5) \<and>
     fle (Fin 10) (cr_control_rate_hz r) \<and> fle (cr_control_rate_hz r) (Fin 100)"

lemma timeout_limits [simp]:
  "STAGED_NAV2_STATE_TIMEOUT_S \<noteq> NaN" "COMMISSIONING_STATE_TIMEOUT_S \<noteq> NaN"
  by (simp_all add: STAGED_NAV2_STATE_TIMEOUT_S_def COMMISSIONING_STATE_TIMEOUT_S_def)

lemma ceiling_le: "max_linear_x_ceiling env g \<noteq> NaN \<and> fle (max_linear_x_ceiling env g) (fl (1 / 2))"
  by (auto simp: max_linear_x_ceiling_def staged_max_linear_x_def ROBOTTRACK_MAX_VX_MPS_def STAGED_NAV2_MAX_VX_MPS_def
      SECOND_MOTION_MAX_VX_MPS_def simp del: fl_lit_3_10 fl_half fl_dyadic_1_4 intro: fl_mono)

lemma motion_limits_Inr:
  assumes "read_motion_limits cfg env g = Inr ml"
  shows "fless (Fin 0) (ml_vx ml) \<and> fle (ml_vx ml) (fl (1 / 2)) \<and> ml_vy ml = Fin 0 \<and>
    fle (Fin 0) (ml_wz ml) \<and> fle (ml_wz ml) (fl (4 / 10)) \<and>
    fle (fl (5 / 100)) (ml_command_timeout ml) \<and> fle (ml_command_timeout ml) (fl (1 / 4))"
proof -
  obtain vx vy wz timeout duration distance where stages:
    "cfg_number (dict_get cfg ''max_linear_x_mps'') ''max_linear_x_mps'' (fl (1 / 4)) (Fin 0) (max_linear_x_ceiling env g) False = Inr vx"
    "cfg_number (dict_get cfg ''max_linear_y_mps'') ''max_linear_y_mps'' (Fin 0) (Fin 0) (Fin 0) True = Inr vy"
    "cfg_number (dict_get cfg ''max_angular_z_rps'') ''max_angular_z_rps'' (fl (4 / 10)) (Fin 0) (fl (4 / 10)) True = Inr wz"
    "cfg_number (dict_get cfg ''command_timeout_s'') ''command_timeout_s'' (fl (1 / 4)) (fl (5 / 100)) (fl (1 / 4)) True = Inr timeout"
    "ml = \<lparr>ml_vx = vx, ml_vy = vy, ml_wz = wz, ml_command_timeout = timeout, ml_duration = duration, ml_distance = distance\<rparr>"
    using assms unfolding read_motion_limits_def obind_Inr_iff by blast
  note cfg_number_Inr [OF stages(1)] cfg_number_Inr [OF stages(2)] cfg_number_Inr [OF stages(3)] cfg_number_Inr [OF stages(4)]
  then show ?thesis using ceiling_le [of env g] stages(5) fle_trans
    by (cases vy) (auto simp: fle_def fl_not_NaN)
qed

lemma accepted_bounded:
  assumes "normalize_config sha256 root_text uid config env = Inr r"
  shows "bounded_runtime r"
proof -
  obtain cfg g od hold ml where st: "stages cfg env g od hold ml r" using normalize_stages [OF assms] by blast
  then obtain markers pas mov socket where b: "build_runtime cfg g markers pas mov socket od hold ml = Inr r"
    by (auto simp: stages_def)
  note f = build_runtime_Inr [OF b]
  have limits: "fless (Fin 0) (ml_vx ml) \<and> fle (ml_vx ml) (fl (1 / 2)) \<and> ml_vy ml = Fin 0 \<and>
    fle (Fin 0) (ml_wz ml) \<and> fle (ml_wz ml) (fl (4 / 10)) \<and>
    fle (fl (5 / 100)) (ml_command_timeout ml) \<and> fle (ml_command_timeout ml) (fl (1 / 4))"
    using motion_limits_Inr st unfolding stages_def by blast
  have accel: "fless (Fin 0) (cr_max_linear_accel_mps2 r) \<and> fle (cr_max_linear_accel_mps2 r) (fl (3 / 10))"
    "fless (Fin 0) (cr_max_angular_accel_rps2 r) \<and> fle (cr_max_angular_accel_rps2 r) (fl (8 / 10))"
    using positive_up_to_Inr [OF f(20) [unfolded read_linear_accel_def]] positive_up_to_Inr [OF f(21) [unfolded read_angular_accel_def]]
    by (simp_all only: fl_not_NaN not_False_eq_True simp_thms)
  have rest: "fle (fl (5 / 100)) (cr_max_source_stamp_age_s r) \<and> fle (cr_max_source_stamp_age_s r) (fl (2 / 10))"
    "fle (Fin 0) (cr_max_source_stamp_future_skew_s r) \<and> fle (cr_max_source_stamp_future_skew_s r) (fl (5 / 100))"
    "fle (fl (1 / 2)) (cr_zero_preamble_s r) \<and> fle (cr_zero_preamble_s r) (Fin 5)"
    "fle (Fin 10) (cr_control_rate_hz r) \<and> fle (cr_control_rate_hz r) (Fin 100)"
    using cfg_number_Inr [OF f(22) [unfolded read_source_age_def]] cfg_number_Inr [OF f(23) [unfolded read_future_skew_def]]
      cfg_number_Inr [OF f(26)] cfg_number_Inr [OF f(24) [unfolded read_control_rate_def]]
    by (simp_all only: fl_not_NaN pyfloat.distinct not_False_eq_True simp_thms)
  have "fle (fl (5 / 100)) (cr_state_timeout_s r) \<and>
      fle (cr_state_timeout_s r) (if staged_gate g then STAGED_NAV2_STATE_TIMEOUT_S else COMMISSIONING_STATE_TIMEOUT_S)"
    using cfg_number_Inr [OF f(25) [unfolded read_state_timeout_def]] by (auto split: if_splits)
  moreover have "fle (fl (2 / 10)) (Fin 1)" using fl_mono [of "2 / 10" 1] by simp
  ultimately have timeout: "fle (fl (5 / 100)) (cr_state_timeout_s r) \<and> fle (cr_state_timeout_s r) (Fin 1)"
    unfolding STAGED_NAV2_STATE_TIMEOUT_S_def COMMISSIONING_STATE_TIMEOUT_S_def by (auto split: if_splits intro: fle_trans)
  show ?thesis unfolding bounded_runtime_def using limits accel rest timeout f(12-15) by simp
qed

section \<open>The exact envelope under motion\<close>

definition first_exact :: "chassis_runtime \<Rightarrow> bool" where
  "first_exact r \<longleftrightarrow>
     cr_twist_in_topic r = FIRST_MOTION_COMMAND_TOPIC \<and> cr_odom_topic r = FIRST_MOTION_ODOM_TOPIC \<and> cr_publish_odom_tf r \<and>
     cr_max_linear_x_mps r = FIRST_MOTION_MAX_VX_MPS \<and> cr_max_linear_y_mps r = FIRST_MOTION_MAX_VY_MPS \<and>
     cr_max_angular_z_rps r = FIRST_MOTION_MAX_WZ_RPS \<and>
     cr_commissioning_max_duration_s r = FIRST_MOTION_MAX_DURATION_S \<and>
     cr_commissioning_max_distance_m r = FIRST_MOTION_MAX_DISTANCE_M \<and>
     cr_command_timeout_s r = FIRST_MOTION_COMMAND_TIMEOUT_S \<and> cr_state_timeout_s r = COMMISSIONING_STATE_TIMEOUT_S \<and>
     cr_max_source_stamp_age_s r = fl (2 / 10)"

definition second_exact :: "chassis_runtime \<Rightarrow> bool" where
  "second_exact r \<longleftrightarrow>
     cr_twist_in_topic r = SECOND_MOTION_COMMAND_TOPIC \<and> cr_odom_topic r = SECOND_MOTION_ODOM_TOPIC \<and> cr_publish_odom_tf r \<and>
     cr_odom_source r = ODOM_SOURCE_EXTERNAL_VERIFIED \<and> cr_external_odom_topic r = DEFAULT_EXTERNAL_ODOM_TOPIC \<and>
     cr_external_odom_timeout_s r = COMMISSIONING_STATE_TIMEOUT_S \<and>
     cr_max_linear_x_mps r = SECOND_MOTION_MAX_VX_MPS \<and> cr_max_linear_y_mps r = SECOND_MOTION_MAX_VY_MPS \<and>
     cr_max_angular_z_rps r = SECOND_MOTION_MAX_WZ_RPS \<and>
     cr_max_linear_accel_mps2 r = SECOND_MOTION_MAX_LINEAR_ACCEL_MPS2 \<and>
     cr_max_angular_accel_rps2 r = SECOND_MOTION_MAX_ANGULAR_ACCEL_RPS2 \<and>
     cr_commissioning_max_duration_s r = SECOND_MOTION_MAX_DURATION_S \<and>
     cr_commissioning_max_distance_m r = SECOND_MOTION_MAX_DISTANCE_M \<and>
     cr_command_timeout_s r = SECOND_MOTION_COMMAND_TIMEOUT_S \<and> cr_control_rate_hz r = SECOND_MOTION_CONTROL_RATE_HZ \<and>
     cr_state_timeout_s r = COMMISSIONING_STATE_TIMEOUT_S \<and> cr_max_source_stamp_age_s r = fl (2 / 10) \<and>
     cr_max_source_stamp_future_skew_s r = fl (5 / 100)"

definition staged_exact :: "(string \<rightharpoonup> string) \<Rightarrow> chassis_runtime \<Rightarrow> bool" where
  "staged_exact env r \<longleftrightarrow>
     cr_twist_in_topic r = STAGED_NAV2_COMMAND_TOPIC \<and> cr_odom_topic r = STAGED_NAV2_ODOM_TOPIC \<and> cr_publish_odom_tf r \<and>
     cr_odom_source r = ODOM_SOURCE_EXTERNAL_VERIFIED \<and> cr_external_odom_topic r = DEFAULT_EXTERNAL_ODOM_TOPIC \<and>
     cr_external_odom_timeout_s r = STAGED_NAV2_EXTERNAL_ODOM_TIMEOUT_S \<and>
     cr_max_linear_x_mps r = staged_max_linear_x env \<and> cr_max_linear_y_mps r = STAGED_NAV2_MAX_VY_MPS \<and>
     cr_max_angular_z_rps r = STAGED_NAV2_MAX_WZ_RPS \<and>
     cr_max_linear_accel_mps2 r = STAGED_NAV2_MAX_LINEAR_ACCEL_MPS2 \<and>
     cr_max_angular_accel_rps2 r = STAGED_NAV2_MAX_ANGULAR_ACCEL_RPS2 \<and>
     cr_commissioning_max_duration_s r = STAGED_NAV2_MAX_DURATION_S \<and>
     cr_commissioning_max_distance_m r = STAGED_NAV2_MAX_DISTANCE_M \<and>
     cr_command_timeout_s r = STAGED_NAV2_COMMAND_TIMEOUT_S \<and> cr_state_timeout_s r = STAGED_NAV2_STATE_TIMEOUT_S \<and>
     cr_max_source_stamp_age_s r = fl (2 / 10) \<and> cr_max_source_stamp_future_skew_s r = fl (5 / 100)"

definition motion_envelope :: "(string \<rightharpoonup> string) \<Rightarrow> chassis_runtime \<Rightarrow> bool" where
  "motion_envelope env r \<longleftrightarrow>
     cr_network_interface r \<noteq> [] \<and> cr_allowed_modes r \<noteq> [] \<and> distinct (cr_allowed_modes r) \<and>
     (\<forall>m \<in> set (cr_allowed_modes r). 0 \<le> m \<and> m < UNKNOWN_MODE) \<and> \<not> cr_stationary_pose_hold_enabled r \<and>
     (cr_motion_profile r = FIRST_MOTION_PROFILE \<and> first_exact r \<or>
      cr_motion_profile r = SECOND_MOTION_PROFILE \<and> second_exact r \<or>
      cr_motion_profile r = STAGED_NAV2_PROFILE \<and> staged_exact env r)"

lemma feq_eq: "feq a b \<Longrightarrow> a = b"
  by (cases a; cases b) auto

text \<open>A number does not depend on the bounds it is read under.\<close>

lemma cfg_number_unique: "cfg_number v n d lo hi incl = Inr x \<Longrightarrow> cfg_number v n d lo' hi' incl' = Inr y \<Longrightarrow> x = y"
  by (auto simp: cfg_number_def Let_def)

lemma state_timeout_unique: "read_state_timeout cfg d hi = Inr x \<Longrightarrow> read_state_timeout cfg d hi' = Inr y \<Longrightarrow> x = y"
  unfolding read_state_timeout_def by (rule cfg_number_unique)

lemma read_gate_Inr:
  assumes "read_gate cfg env = Inr g"
  shows "mg_motion g \<longrightarrow> cfg_boolean (dict_get cfg ''operator_present'') ''operator_present'' False = Inr True \<and>
      cfg_text (dict_get cfg ''safety_ack'') ''safety_ack'' [] True = Inr SAFETY_ACK \<and>
      mg_interface g \<noteq> [] \<and> mg_profile g \<in> set motion_profiles \<and> parse_audited_modes env = Inr (mg_modes g)"
    and "\<not> mg_motion g \<longrightarrow> mg_modes g = [UNKNOWN_MODE] \<and> \<not> mg_preserve g"
  using assms by (auto simp: read_gate_def split: if_splits)

lemma entries_hold:
  "check_envelope cfg env g od ml = Inr () \<Longrightarrow> mg_motion g \<Longrightarrow>
   \<forall>e \<in> set (if mg_profile g = FIRST_MOTION_PROFILE then first_envelope cfg od ml
      else if mg_profile g = SECOND_MOTION_PROFILE then second_envelope cfg od ml else staged_envelope cfg env od ml).
     \<exists>n. e = Inr (n, True)"
proof -
  have all_true: "\<forall>e \<in> set es. \<exists>n. e = Inr (n, True)"
    if "all_ok (\<lambda>e. e) es = Inr ys" "list_all snd ys" for es :: "envelope_entry list" and ys
    using that
  proof (induction es arbitrary: ys)
    case (Cons e es)
    then show ?case by fastforce
  qed simp
  show "check_envelope cfg env g od ml = Inr () \<Longrightarrow> mg_motion g \<Longrightarrow> ?thesis"
    unfolding check_envelope_def using all_true by auto
qed

lemma entry_simps [simp]:
  "text_entry n a b = Inr (m, True) \<longleftrightarrow> m = n \<and> a = b"
  "float_entry n x y = Inr (m, True) \<longleftrightarrow> m = n \<and> (\<exists>v. x = Inr v \<and> feq v y)"
  by (auto simp: text_entry_def float_entry_def)

lemma accepted_motion_envelope:
  assumes "normalize_config sha256 root_text uid config env = Inr r" "cr_allow_motion r"
  shows "motion_envelope env r"
proof -
  obtain cfg g od hold ml where st: "stages cfg env g od hold ml r" using normalize_stages [OF assms(1)] by blast
  then obtain markers pas mov socket where b: "build_runtime cfg g markers pas mov socket od hold ml = Inr r"
    and src: "check_sources g markers pas mov od hold = Inr ()" by (auto simp: stages_def)
  note f = build_runtime_Inr [OF b]
  have motion: "mg_motion g" using assms(2) f(1) by simp
  note gate = read_gate_Inr(1) [of cfg env g] st [unfolded stages_def] motion
  have hold: "\<not> sh_enabled hold" using src motion by (auto simp: check_sources_def Let_def)
  note entries = entries_hold [of cfg env g od ml, OF _ motion]
  have profile: "cr_motion_profile r = FIRST_MOTION_PROFILE \<and> first_exact r \<or>
      cr_motion_profile r = SECOND_MOTION_PROFILE \<and> second_exact r \<or>
      cr_motion_profile r = STAGED_NAV2_PROFILE \<and> staged_exact env r"
  proof -
    consider (first) "mg_profile g = FIRST_MOTION_PROFILE" | (second) "mg_profile g = SECOND_MOTION_PROFILE"
      | (staged) "mg_profile g = STAGED_NAV2_PROFILE"
      using gate by (auto simp: motion_profiles_def)
    then show ?thesis
    proof cases
      case first
      then have "\<not> staged_gate g" by (simp add: staged_gate_def FIRST_MOTION_PROFILE_def STAGED_NAV2_PROFILE_def)
      then have "read_state_timeout cfg COMMISSIONING_STATE_TIMEOUT_S COMMISSIONING_STATE_TIMEOUT_S = Inr (cr_state_timeout_s r)"
        using f(25) by simp
      moreover have "\<forall>e \<in> set (first_envelope cfg od ml). \<exists>n. e = Inr (n, True)" using entries st first by (simp add: stages_def)
      ultimately show ?thesis using f(2,6-9,12-17,22) first
        by (auto simp: first_envelope_def first_exact_def dest!: feq_eq dest: state_timeout_unique)
    next
      case second
      then have "\<not> staged_gate g" by (simp add: staged_gate_def SECOND_MOTION_PROFILE_def STAGED_NAV2_PROFILE_def)
      then have "read_state_timeout cfg COMMISSIONING_STATE_TIMEOUT_S COMMISSIONING_STATE_TIMEOUT_S = Inr (cr_state_timeout_s r)"
        using f(25) by simp
      moreover have "\<forall>e \<in> set (second_envelope cfg od ml). \<exists>n. e = Inr (n, True)"
        using entries st second by (simp add: stages_def FIRST_MOTION_PROFILE_def SECOND_MOTION_PROFILE_def)
      ultimately show ?thesis using f(2,6-17,20-24) second
        by (auto simp: second_envelope_def second_exact_def dest!: feq_eq dest: state_timeout_unique)
    next
      case staged
      then have "staged_gate g" using motion by (simp add: staged_gate_def)
      then have "read_state_timeout cfg STAGED_NAV2_STATE_TIMEOUT_S STAGED_NAV2_STATE_TIMEOUT_S = Inr (cr_state_timeout_s r)"
        using f(25) by simp
      moreover have "\<forall>e \<in> set (staged_envelope cfg env od ml). \<exists>n. e = Inr (n, True)"
        using entries st staged by (simp add: stages_def FIRST_MOTION_PROFILE_def SECOND_MOTION_PROFILE_def STAGED_NAV2_PROFILE_def)
      ultimately show ?thesis using f(2,6-17,20-24) staged
        by (auto simp: staged_envelope_def staged_exact_def dest!: feq_eq dest: state_timeout_unique)
    qed
  qed
  show ?thesis unfolding motion_envelope_def
    using gate profile parse_audited_modes_Inr f(3,4,18) hold by auto
qed

end
