(* ===== verification/ChassisDemo.thy ===== *)
theory ChassisDemo imports PermitRace ChassisBounds begin

text \<open>
  A concrete staged start: a driver configuration, an environment, a permit and a file system in
  which \<open>initialize\<close> spends the permit and starts both processes.
\<close>

section \<open>Configuration\<close>

definition demo_fields :: "pyfloat \<Rightarrow> pyfloat \<Rightarrow> json_object" where
  "demo_fields vx timeout =
     [(''allow_motion'', VBool True), (''motion_profile'', VStr STAGED_NAV2_PROFILE), (''operator_present'', VBool True),
      (''safety_ack'', VStr SAFETY_ACK), (''network_interface'', VStr ''eth0''),
      (''odom_source'', VStr ODOM_SOURCE_EXTERNAL_VERIFIED), (''twist_in_topic'', VStr STAGED_NAV2_COMMAND_TOPIC),
      (''max_linear_x_mps'', VFloat vx), (''command_timeout_s'', VFloat timeout),
      (''commissioning_max_duration_s'', VInt 0), (''commissioning_max_distance_m'', VInt 0),
      (''ipc_socket'', VStr ''/run/go2/sport.sock'')]"

definition demo_config :: json_object where
  "demo_config = demo_fields STAGED_NAV2_MAX_VX_MPS STAGED_NAV2_COMMAND_TIMEOUT_S"

definition demo_variables :: "string \<Rightarrow> (string \<times> string) list" where
  "demo_variables file =
     [(''GO2_ALLOWED_MODES'', ''1''), (STAGED_PERMIT_ENV, file),
      (''GO2_STAGED_NAV2_SESSION_ID'', ''session-1''), (''GO2_STAGED_NAV2_PAIR_ID'', ''pair-0001''),
      (''GO2_STAGED_NAV2_STAGE'', STAGED_NAV2_STAGE), (''GO2_STAGED_NAV2_GUARD_ACK'', STAGED_NAV2_ACK),
      (''GO2_STAGED_NAV2_MAP_ID'', ''map-0001''), (''GO2_STAGED_NAV2_MAP_GENERATION'', ''1''),
      (''GO2_STAGED_NAV2_GOAL_SOURCE'', OPERATOR_GOAL_SOURCE), (''GO2_STAGED_NAV2_TARGET_ID'', ''kitchen''),
      (''GO2_STAGED_NAV2_EXPECTED_GOAL_X'', ''0''), (''GO2_STAGED_NAV2_EXPECTED_GOAL_Y'', ''0''),
      (''GO2_STAGED_NAV2_EXPECTED_GOAL_YAW'', ''0''), (GOAL_EVIDENCE_SHA256_ENV, replicate 64 (CHR ''a''))]"

definition demo_env :: "string \<Rightarrow> string \<rightharpoonup> string" where
  "demo_env file = map_of (demo_variables file)"

definition demo_gate :: motion_gate where
  "demo_gate = \<lparr>mg_motion = True, mg_profile = STAGED_NAV2_PROFILE, mg_preserve = False, mg_interface = ''eth0'', mg_modes = [1]\<rparr>"

definition demo_odometry :: odometry where
  "demo_odometry = \<lparr>od_state = ''/sportmodestate'', od_fallback = ''/lf/sportmodestate'', od_velocity_frame = ''odom'',
     od_twist_in = STAGED_NAV2_COMMAND_TOPIC, od_odom = ''/odom'', od_source = ODOM_SOURCE_EXTERNAL_VERIFIED,
     od_external = DEFAULT_EXTERNAL_ODOM_TOPIC, od_timeout = Fin 1, od_yaw_jump = Fin 1, od_tf = True\<rparr>"

definition demo_hold :: stationary_hold where
  "demo_hold = \<lparr>sh_enabled = False, sh_dwell = Fin 2, sh_sport_linear = fl (3 / 100), sh_sport_yaw = fl (3 / 100),
     sh_twist_linear = fl (3 / 100), sh_twist_yaw = fl (3 / 100), sh_pose_linear = fl (5 / 1000), sh_pose_yaw = fl (1 / 100)\<rparr>"

definition demo_motion_limits :: motion_limits where
  "demo_motion_limits = \<lparr>ml_vx = STAGED_NAV2_MAX_VX_MPS, ml_vy = Fin 0, ml_wz = fl (4 / 10),
     ml_command_timeout = STAGED_NAV2_COMMAND_TIMEOUT_S, ml_duration = Fin 0, ml_distance = Fin 0\<rparr>"

lemma demo_read_gate: "read_gate (demo_fields vx t) (demo_env file) = Inr demo_gate"
  by code_simp

lemma demo_read_markers: "read_markers (demo_fields vx t) (demo_env file) demo_gate = Inr ([], False, False)"
  by code_simp

lemma demo_read_socket: "read_socket (demo_fields vx t) sha root_text uid = Inr (Path ''/'' [''run'', ''go2'', ''sport.sock''])"
proof -
  have t: "cfg_text (dict_get (demo_fields vx t) ''ipc_socket'') ''ipc_socket'' d False = Inr ''/run/go2/sport.sock''" for d
  proof -
    have "dict_get (demo_fields vx t) ''ipc_socket'' = VStr ''/run/go2/sport.sock''" by code_simp
    moreover have "str_strip ''/run/go2/sport.sock'' = ''/run/go2/sport.sock''" by code_simp
    ultimately show ?thesis by (simp add: cfg_text_def)
  qed
  have "path_of ''/run/go2/sport.sock'' = Path ''/'' [''run'', ''go2'', ''sport.sock'']" by code_simp
  moreover have "length (path_text (Path ''/'' [''run'', ''go2'', ''sport.sock''])) < 108" by code_simp
  ultimately show ?thesis by (simp add: read_socket_def t is_absolute_def)
qed

lemma demo_cfg_topics:
  "cfg_topic (dict_get (demo_fields vx t) ''state_topic'') ''state_topic'' ''/sportmodestate'' False = Inr ''/sportmodestate''"
  "cfg_topic (dict_get (demo_fields vx t) ''state_fallback_topic'') ''state_fallback_topic'' ''/lf/sportmodestate'' True = Inr ''/lf/sportmodestate''"
  "cfg_text (dict_get (demo_fields vx t) ''velocity_frame'') ''velocity_frame'' ''odom'' False = Inr ''odom''"
  "cfg_topic (dict_get (demo_fields vx t) ''twist_in_topic'') ''twist_in_topic'' ''/cmd_vel'' False = Inr STAGED_NAV2_COMMAND_TOPIC"
  "cfg_topic (dict_get (demo_fields vx t) ''odom_topic'') ''odom_topic'' ''/odom'' False = Inr ''/odom''"
  "cfg_text (dict_get (demo_fields vx t) ''odom_source'') ''odom_source'' ODOM_SOURCE_SPORT_STATE False = Inr ODOM_SOURCE_EXTERNAL_VERIFIED"
  "cfg_topic (dict_get (demo_fields vx t) ''external_odom_topic'') ''external_odom_topic'' DEFAULT_EXTERNAL_ODOM_TOPIC False = Inr DEFAULT_EXTERNAL_ODOM_TOPIC"
  "cfg_boolean (dict_get (demo_fields vx t) ''publish_odom_tf'') ''publish_odom_tf'' True = Inr True"
  "cfg_boolean (dict_get (demo_fields vx t) ''stationary_pose_hold_enabled'') ''stationary_pose_hold_enabled'' False = Inr False"
  by code_simp+

lemma demo_absent:
  "dict_get (demo_fields vx t) ''external_odom_timeout_s'' = VNone"
  "dict_get (demo_fields vx t) ''max_external_odom_yaw_jump_rad'' = VNone"
  "dict_get (demo_fields vx t) ''stationary_hold_dwell_s'' = VNone"
  "dict_get (demo_fields vx t) ''stationary_hold_sport_max_linear_mps'' = VNone"
  "dict_get (demo_fields vx t) ''stationary_hold_sport_max_yaw_rps'' = VNone"
  "dict_get (demo_fields vx t) ''stationary_hold_external_twist_max_linear_mps'' = VNone"
  "dict_get (demo_fields vx t) ''stationary_hold_external_twist_max_yaw_rps'' = VNone"
  "dict_get (demo_fields vx t) ''stationary_hold_pose_max_linear_rate_mps'' = VNone"
  "dict_get (demo_fields vx t) ''stationary_hold_pose_max_yaw_rate_rps'' = VNone"
  "dict_get (demo_fields vx t) ''max_linear_y_mps'' = VNone"
  "dict_get (demo_fields vx t) ''max_angular_z_rps'' = VNone"
  "dict_get (demo_fields vx t) ''max_linear_accel_mps2'' = VNone"
  "dict_get (demo_fields vx t) ''max_angular_accel_rps2'' = VNone"
  "dict_get (demo_fields vx t) ''state_timeout_s'' = VNone"
  "dict_get (demo_fields vx t) ''max_source_stamp_age_s'' = VNone"
  "dict_get (demo_fields vx t) ''max_source_stamp_future_skew_s'' = VNone"
  "dict_get (demo_fields vx t) ''zero_preamble_s'' = VNone"
  "dict_get (demo_fields vx t) ''control_rate_hz'' = VNone"
  "dict_get (demo_fields vx t) ''max_position_jump_m'' = VNone"
  "dict_get (demo_fields vx t) ''startup_timeout_s'' = VNone"
  by code_simp+

lemma demo_present:
  "dict_get (demo_fields vx t) ''max_linear_x_mps'' = VFloat vx"
  "dict_get (demo_fields vx t) ''command_timeout_s'' = VFloat t"
  "dict_get (demo_fields vx t) ''commissioning_max_duration_s'' = VInt 0"
  "dict_get (demo_fields vx t) ''commissioning_max_distance_m'' = VInt 0"
  by code_simp+

text \<open>The remaining literals.\<close>

lemma demo_literals [simp]:
  "fl (3 / 100) = Fin (8646911284551352 / 288230376151711744)"
  "fl (1 / 100) = Fin (5764607523034235 / 576460752303423488)"
  "fl (1 / 200) = Fin (5764607523034235 / 1152921504606846976)"
  using fl_literal [of "3 / 100" 58 8646911284551352] fl_literal [of "1 / 100" 59 5764607523034235]
    fl_literal [of "1 / 200" 60 5764607523034235] by simp_all

lemma demo_read_odometry: "read_odometry (demo_fields vx t) demo_gate = Inr demo_odometry"
  by (simp add: read_odometry_def demo_cfg_topics demo_absent demo_odometry_def staged_gate_def demo_gate_def cfg_number_def
      cfg_require_def STAGED_NAV2_EXTERNAL_ODOM_TIMEOUT_S_def Let_def)

lemma demo_read_hold: "read_hold (demo_fields vx t) = Inr demo_hold"
  by (simp add: read_hold_def demo_cfg_topics demo_absent demo_hold_def positive_up_to_def cfg_number_def cfg_require_def)

lemma demo_check_sources: "check_sources demo_gate [] False False demo_odometry demo_hold = Inr ()"
proof -
  have "prefix external_odom_prefix DEFAULT_EXTERNAL_ODOM_TOPIC" "DEFAULT_EXTERNAL_ODOM_TOPIC \<noteq> ''/odom''"
    by code_simp+
  then show ?thesis
    by (simp add: check_sources_def demo_gate_def demo_odometry_def demo_hold_def FIRST_MOTION_ODOM_TOPIC_def)
qed

lemma demo_staged_vx: "staged_max_linear_x (demo_env file) = STAGED_NAV2_MAX_VX_MPS"
proof -
  have "env_get (demo_env file) ''GO2_ROBOTTRACK_MODE'' = []" by code_simp
  then show ?thesis by (simp add: staged_max_linear_x_def str_strip_def)
qed

lemma demo_read_motion_limits: "read_motion_limits demo_config (demo_env file) demo_gate = Inr demo_motion_limits"
  by (simp add: read_motion_limits_def demo_config_def demo_absent demo_present demo_motion_limits_def max_linear_x_ceiling_def
      demo_staged_vx staged_gate_def demo_gate_def cfg_number_def cfg_require_def STAGED_NAV2_MAX_VX_MPS_def
      STAGED_NAV2_COMMAND_TIMEOUT_S_def float_of_int_small)

lemma demo_readers:
  "read_linear_accel demo_config = Inr (fl (3 / 10))" "read_angular_accel demo_config = Inr (fl (8 / 10))"
  "read_state_timeout demo_config (Fin 1) (Fin 1) = Inr (Fin 1)" "read_source_age demo_config = Inr (fl (2 / 10))"
  "read_future_skew demo_config = Inr (fl (5 / 100))" "read_control_rate demo_config = Inr (Fin 50)"
  by (simp_all add: read_linear_accel_def read_angular_accel_def read_state_timeout_def read_source_age_def read_future_skew_def
      read_control_rate_def positive_up_to_def cfg_number_def cfg_require_def demo_config_def demo_absent)

lemma demo_check_envelope: "check_envelope demo_config (demo_env file) demo_gate demo_odometry demo_motion_limits = Inr ()"
proof -
  have profiles: "STAGED_NAV2_PROFILE \<noteq> FIRST_MOTION_PROFILE" "STAGED_NAV2_PROFILE \<noteq> SECOND_MOTION_PROFILE"
    by code_simp+
  show ?thesis
    by (simp add: check_envelope_def demo_gate_def profiles staged_envelope_def text_entry_def float_entry_def
        demo_readers demo_staged_vx demo_odometry_def demo_motion_limits_def cfg_require_def STAGED_NAV2_ODOM_TOPIC_def
        STAGED_NAV2_EXTERNAL_ODOM_TIMEOUT_S_def STAGED_NAV2_MAX_VY_MPS_def STAGED_NAV2_MAX_WZ_RPS_def
        STAGED_NAV2_MAX_LINEAR_ACCEL_MPS2_def STAGED_NAV2_MAX_ANGULAR_ACCEL_RPS2_def STAGED_NAV2_MAX_DURATION_S_def
        STAGED_NAV2_MAX_DISTANCE_M_def STAGED_NAV2_COMMAND_TIMEOUT_S_def STAGED_NAV2_STATE_TIMEOUT_S_def STAGED_NAV2_MAX_VX_MPS_def)
qed

definition demo_runtime :: chassis_runtime where
  "demo_runtime = \<lparr>cr_state_topic = od_state demo_odometry,
     cr_state_fallback_topic = od_fallback demo_odometry,
     cr_twist_in_topic = od_twist_in demo_odometry,
     cr_odom_topic = od_odom demo_odometry,
     cr_odom_source = od_source demo_odometry,
     cr_external_odom_topic = od_external demo_odometry,
     cr_external_odom_timeout_s = od_timeout demo_odometry,
     cr_max_external_odom_yaw_jump_rad = od_yaw_jump demo_odometry,
     cr_publish_odom_tf = od_tf demo_odometry,
     cr_stationary_pose_hold_enabled = sh_enabled demo_hold,
     cr_stationary_hold_dwell_s = sh_dwell demo_hold,
     cr_stationary_hold_sport_max_linear_mps = sh_sport_linear demo_hold,
     cr_stationary_hold_sport_max_yaw_rps = sh_sport_yaw demo_hold,
     cr_stationary_hold_external_twist_max_linear_mps = sh_twist_linear demo_hold,
     cr_stationary_hold_external_twist_max_yaw_rps = sh_twist_yaw demo_hold,
     cr_stationary_hold_pose_max_linear_rate_mps = sh_pose_linear demo_hold,
     cr_stationary_hold_pose_max_yaw_rate_rps = sh_pose_yaw demo_hold,
     cr_imu_topic = ''/imu/data'',
     cr_status_topic = ''/go2_chassis/status'',
     cr_diagnostics_topic = ''/diagnostics'',
     cr_arm_service = ''/go2_chassis/arm'',
     cr_odom_frame = ''odom'',
     cr_base_frame = ''base_link'',
     cr_imu_frame = ''imu'',
     cr_velocity_frame = od_velocity_frame demo_odometry,
     cr_network_interface = mg_interface demo_gate,
     cr_ipc_socket = Path ''/'' [''run'', ''go2'', ''sport.sock''],
     cr_allow_motion = mg_motion demo_gate,
     cr_motion_profile = mg_profile demo_gate,
     cr_preserve_classic_walk = mg_preserve demo_gate,
     cr_allowed_modes = mg_modes demo_gate,
     cr_allowed_state_markers = [],
     cr_allow_passive_state_marker_transitions = False,
     cr_allow_motion_state_marker_transitions = False,
     cr_max_linear_x_mps = ml_vx demo_motion_limits,
     cr_max_linear_y_mps = ml_vy demo_motion_limits,
     cr_max_angular_z_rps = ml_wz demo_motion_limits,
     cr_max_linear_accel_mps2 = fl (3 / 10),
     cr_max_angular_accel_rps2 = fl (8 / 10),
     cr_command_timeout_s = ml_command_timeout demo_motion_limits,
     cr_state_timeout_s = Fin 1,
     cr_max_source_stamp_age_s = fl (2 / 10),
     cr_max_source_stamp_future_skew_s = fl (5 / 100),
     cr_zero_preamble_s = fl (1 / 2),
     cr_control_rate_hz = Fin 50,
     cr_max_position_jump_m = Fin 1,
     cr_startup_timeout_s = Fin 15,
     cr_commissioning_max_duration_s = ml_duration demo_motion_limits,
     cr_commissioning_max_distance_m = ml_distance demo_motion_limits\<rparr>"

lemma demo_names:
  "cfg_topic (dict_get (demo_fields vx t) ''imu_topic'') ''imu_topic'' ''/imu/data'' False = Inr ''/imu/data''"
  "cfg_topic (dict_get (demo_fields vx t) ''status_topic'') ''status_topic'' ''/go2_chassis/status'' False = Inr ''/go2_chassis/status''"
  "cfg_topic (dict_get (demo_fields vx t) ''diagnostics_topic'') ''diagnostics_topic'' ''/diagnostics'' False = Inr ''/diagnostics''"
  "cfg_topic (dict_get (demo_fields vx t) ''arm_service'') ''arm_service'' ''/go2_chassis/arm'' False = Inr ''/go2_chassis/arm''"
  "cfg_frame (dict_get (demo_fields vx t) ''odom_frame'') ''odom_frame'' ''odom'' = Inr ''odom''"
  "cfg_frame (dict_get (demo_fields vx t) ''base_frame'') ''base_frame'' ''base_link'' = Inr ''base_link''"
  "cfg_frame (dict_get (demo_fields vx t) ''imu_frame'') ''imu_frame'' ''imu'' = Inr ''imu''"
  by code_simp+

lemma demo_build:
  "build_runtime demo_config demo_gate [] False False (Path ''/'' [''run'', ''go2'', ''sport.sock'']) demo_odometry demo_hold demo_motion_limits
     = Inr demo_runtime"
proof -
  have "staged_gate demo_gate" by (simp add: staged_gate_def demo_gate_def)
  moreover have "cfg_number (dict_get demo_config ''zero_preamble_s'') ''zero_preamble_s'' (fl (1 / 2)) (fl (1 / 2)) (Fin 5) True = Inr (fl (1 / 2))"
    "cfg_number (dict_get demo_config ''max_position_jump_m'') ''max_position_jump_m'' (Fin 1) (fl (1 / 10)) (Fin 2) True = Inr (Fin 1)"
    "cfg_number (dict_get demo_config ''startup_timeout_s'') ''startup_timeout_s'' (Fin 15) (Fin 1) (Fin 60) True = Inr (Fin 15)"
    by (simp_all add: demo_config_def demo_absent cfg_number_def cfg_require_def)
  moreover note demo_names [of STAGED_NAV2_MAX_VX_MPS STAGED_NAV2_COMMAND_TIMEOUT_S, folded demo_config_def] demo_readers
  ultimately show ?thesis
    unfolding build_runtime_def demo_runtime_def Let_def STAGED_NAV2_STATE_TIMEOUT_S_def by (simp only: if_True obind.simps)
qed

lemma demo_normalizes: "normalize_config sha root_text uid (VDict demo_config) (demo_env file) = Inr demo_runtime"
proof -
  have "set (map fst (demo_fields vx t)) \<subseteq> set known_keys" for vx t by code_simp
  then show ?thesis
    unfolding normalize_config_def pyval.case normalize_object_def
    using demo_read_gate demo_read_markers demo_read_socket demo_read_odometry demo_read_hold demo_check_sources
      demo_read_motion_limits demo_check_envelope demo_build
    by (simp add: demo_config_def cfg_require_def)
qed

section \<open>The permit\<close>

definition demo_hash :: string where
  "demo_hash = replicate 64 (CHR ''a'')"

definition demo_claim :: "string \<Rightarrow> pyval" where
  "demo_claim name = VDict [(''path'', VStr (''/ws/'' @ name)), (''sha256'', VStr demo_hash)]"

definition demo_evidence :: json_object where
  "demo_evidence = [(''dds_identity'', demo_claim ''dds''), (''state'', demo_claim ''state''), (''time'', demo_claim ''time''),
     (''goal'', demo_claim ''goal'')]"

text \<open>Its last ten fields are the numbers \<open>ns\<close> of the stage.\<close>

definition permit_fields :: "json_object \<Rightarrow> json_object" where
  "permit_fields numbers =
     [(''schema'', VStr STAGED_PERMIT_SCHEMA), (''permit_id'', VStr ''permit-01''), (''session_id'', VStr ''session-1''),
      (''pair_id'', VStr ''pair-0001''), (''permit_role'', VStr CHASSIS_ROLE), (''one_time'', VBool True),
      (''issued_unix_ns'', VInt 1), (''expires_unix_ns'', VInt 2), (''map_generation'', VInt 1), (''map_id'', VStr ''map-0001''),
      (''goal_source'', VStr OPERATOR_GOAL_SOURCE), (''target_id'', VStr ''kitchen''),
      (''goal_pose'', VDict [(''x'', VInt 0), (''y'', VInt 0), (''yaw'', VInt 0)]),
      (''profile'', VStr STAGED_NAV2_PROFILE), (''stage'', VStr STAGED_NAV2_STAGE), (''operator_ack'', VStr STAGED_NAV2_ACK),
      (''guard_ack'', VStr STAGED_NAV2_ACK), (''network_interface'', VStr ''eth0''), (''state_topic'', VStr ''/sportmodestate''),
      (''nav_command_topic'', VStr STAGED_NAV2_NAV_COMMAND_TOPIC), (''command_topic'', VStr STAGED_NAV2_COMMAND_TOPIC),
      (''odom_topic'', VStr STAGED_NAV2_ODOM_TOPIC), (''external_odom_topic'', VStr DEFAULT_EXTERNAL_ODOM_TOPIC),
      (''arm_service'', VStr ''/go2_chassis/arm''), (''allowed_modes'', VList [VInt 1]), (''allowed_state_markers'', VList []),
      (''evidence'', VDict demo_evidence)] @ numbers"

definition demo_numbers :: json_object where
  "demo_numbers = map (\<lambda>(name, x). (name, VFloat x)) staged_numbers"

definition demo_permit :: json_object where
  "demo_permit = permit_fields demo_numbers"

text \<open>Everything but the numbers, whatever they are.\<close>

lemma demo_permit_head:
  "dict_get (permit_fields ns) ''schema'' = VStr STAGED_PERMIT_SCHEMA"
  "id_field SESSION_RE (permit_fields ns) ''permit_id'' = Inr ''permit-01''"
  "id_field SESSION_RE (permit_fields ns) ''session_id'' = Inr ''session-1''"
  "id_field SESSION_RE (permit_fields ns) ''pair_id'' = Inr ''pair-0001''"
  "dict_get (permit_fields ns) ''permit_role'' = VStr CHASSIS_ROLE"
  "dict_get (permit_fields ns) ''one_time'' = VBool True"
  "dict_get (permit_fields ns) ''issued_unix_ns'' = VInt 1" "dict_get (permit_fields ns) ''expires_unix_ns'' = VInt 2"
  "positive_generation (dict_get (permit_fields ns) ''map_generation'') = Inr 1"
  "id_field MAP_ID_RE (permit_fields ns) ''map_id'' = Inr ''map-0001''"
  "dict_get (permit_fields ns) ''goal_source'' = VStr OPERATOR_GOAL_SOURCE"
  "id_field TARGET_ID_RE (permit_fields ns) ''target_id'' = Inr ''kitchen''"
  "dict_get (permit_fields ns) ''goal_pose'' = VDict [(''x'', VInt 0), (''y'', VInt 0), (''yaw'', VInt 0)]"
  "dict_get (permit_fields ns) ''evidence'' = VDict demo_evidence"
  by code_simp+

lemma demo_goal_pose:
  "read_goal_pose (VDict [(''x'', VInt 0), (''y'', VInt 0), (''yaw'', VInt 0)]) = Inr \<lparr>gp_x = Fin 0, gp_y = Fin 0, gp_yaw = Fin 0\<rparr>"
proof -
  have "claim_object [''x'', ''y'', ''yaw''] (VDict [(''x'', VInt 0), (''y'', VInt 0), (''yaw'', VInt 0)]) msg =
      Inr [(''x'', VInt 0), (''y'', VInt 0), (''yaw'', VInt 0)]" for msg
    by (simp add: claim_object_def object_with_def has_keys_def)
  moreover have "float_of_int 0 = Some (Fin 0)" by (simp add: float_of_int_small)
  ultimately show ?thesis
    by (simp add: read_goal_pose_def finite_item_def number_value_def dict_get_def math_pi_def)
qed

text \<open>The texts of the runtime, for any runtime with these four fields.\<close>

lemma demo_check_texts: "check_texts (permit_fields ns) (staged_texts demo_runtime) = Inr ()"
proof -
  have texts: "staged_texts demo_runtime =
     [(''profile'', STAGED_NAV2_PROFILE), (''stage'', STAGED_NAV2_STAGE), (''operator_ack'', STAGED_NAV2_ACK),
      (''guard_ack'', STAGED_NAV2_ACK), (''network_interface'', ''eth0''),
      (''state_topic'', ''/sportmodestate''), (''nav_command_topic'', STAGED_NAV2_NAV_COMMAND_TOPIC),
      (''command_topic'', STAGED_NAV2_COMMAND_TOPIC), (''odom_topic'', STAGED_NAV2_ODOM_TOPIC),
      (''external_odom_topic'', DEFAULT_EXTERNAL_ODOM_TOPIC), (''arm_service'', ''/go2_chassis/arm'')]"
    by (simp add: staged_texts_def demo_runtime_def demo_gate_def demo_odometry_def)
  show ?thesis unfolding texts by code_simp
qed

lemma demo_check_allowlists: "check_allowlists (permit_fields ns) demo_runtime = Inr ()"
proof -
  have "dict_get (permit_fields ns) ''allowed_modes'' = VList [VInt 1]" "dict_get (permit_fields ns) ''allowed_state_markers'' = VList []"
    by code_simp+
  then show ?thesis by (simp add: check_allowlists_def eq_int_list_def demo_runtime_def demo_gate_def)
qed

lemma demo_check_environment:
  "check_permit_environment (demo_env file) (permit_environment ''session-1'' ''pair-0001'' ''map-0001'' 1 OPERATOR_GOAL_SOURCE ''kitchen''
     \<lparr>gp_x = Fin 0, gp_y = Fin 0, gp_yaw = Fin 0\<rparr>) = Inr ()"
  by code_simp

lemma demo_check_numbers: "check_numbers demo_permit staged_numbers = Inr ()"
proof -
  have "dict_get (permit_fields (map (\<lambda>(name, x). (name, VFloat x)) [(''max_linear_x_mps'', a), (''max_linear_y_mps'', b),
      (''max_angular_z_rps'', c), (''max_linear_accel_mps2'', d), (''max_angular_accel_rps2'', e), (''max_duration_s'', f),
      (''max_distance_m'', g), (''command_timeout_s'', h), (''state_timeout_s'', i), (''external_odom_timeout_s'', j)])) n = VFloat x"
    if "(n, x) \<in> {(''max_linear_x_mps'', a), (''max_linear_y_mps'', b),
      (''max_angular_z_rps'', c), (''max_linear_accel_mps2'', d), (''max_angular_accel_rps2'', e), (''max_duration_s'', f),
      (''max_distance_m'', g), (''command_timeout_s'', h), (''state_timeout_s'', i), (''external_odom_timeout_s'', j)}"
    for a b c d e f g h i j n x
    using that by (elim insertE emptyE; simp add: permit_fields_def dict_get_def)
  then have get: "dict_get demo_permit n = VFloat x" if "(n, x) \<in> set staged_numbers" for n x
    using that unfolding demo_permit_def demo_numbers_def staged_numbers_def by simp
  have fin: "isfinite x \<and> feq x x" if "(n, x) \<in> set staged_numbers" for n x
    using that by (auto simp: staged_numbers_def STAGED_NAV2_MAX_VX_MPS_def STAGED_NAV2_MAX_VY_MPS_def STAGED_NAV2_MAX_WZ_RPS_def
        STAGED_NAV2_MAX_LINEAR_ACCEL_MPS2_def STAGED_NAV2_MAX_ANGULAR_ACCEL_RPS2_def STAGED_NAV2_MAX_DURATION_S_def
        STAGED_NAV2_MAX_DISTANCE_M_def STAGED_NAV2_COMMAND_TIMEOUT_S_def STAGED_NAV2_STATE_TIMEOUT_S_def
        STAGED_NAV2_EXTERNAL_ODOM_TIMEOUT_S_def)
  have "all_ok (\<lambda>(name, expected). exact_number (dict_get demo_permit name) expected name) ns = Inr (map (\<lambda>_. ()) ns)"
    if "set ns \<subseteq> set staged_numbers" for ns
    using that by (induction ns) (auto simp: exact_number_def number_value_def get fin)
  then show ?thesis by (simp add: check_numbers_def)
qed

lemma demo_check_permit:
  assumes "1 \<le> now"
  shows "check_staged_permit demo_permit demo_runtime (demo_env file) CHASSIS_ROLE now = Inr (''permit-01'', demo_evidence)"
proof -
  have times: "check_staged_times demo_permit now = Inr ()"
    using assms by (simp add: check_staged_times_def demo_permit_def demo_permit_head)
  have evidence: "claim_object [''dds_identity'', ''state'', ''time'', ''goal''] (VDict demo_evidence) msg = Inr demo_evidence" for msg
    by (simp add: claim_object_def object_with_def has_keys_def demo_evidence_def)
  have goal: "dict_get demo_evidence ''goal'' = VDict [(''path'', VStr (''/ws/'' @ ''goal'')), (''sha256'', VStr demo_hash)]"
    by (simp add: dict_get_def demo_evidence_def demo_claim_def)
  have hash: "str_strip (env_get (demo_env file) GOAL_EVIDENCE_SHA256_ENV) = demo_hash" by code_simp
  have sha: "dict_get [(''path'', v), (''sha256'', VStr demo_hash)] ''sha256'' = VStr demo_hash" for v
    by (simp add: dict_get_def)
  show ?thesis
    using demo_check_environment demo_check_numbers times
    unfolding check_staged_permit_def
    by (simp add: demo_permit_def demo_permit_head demo_goal_pose demo_check_texts demo_check_allowlists evidence goal hash sha)
qed

end
