(* ===== verification/ChassisRun.thy ===== *)
theory ChassisRun imports IoRun ChassisDemo begin

text \<open>
  The staged start of \<open>ChassisDemo\<close> on a file system: \<open>initialize\<close> spends the permit and starts
  both processes. A second start with the permit's old name fails, with its new name succeeds.
\<close>

section \<open>The file system\<close>

definition demo_context :: "string \<Rightarrow> chassis_context" where
  "demo_context file = \<lparr>cx_sha256 = \<lambda>_. demo_hash, cx_loads = \<lambda>_. Some (VDict demo_permit), cx_uid = 0, cx_env = demo_env file,
     cx_package_root = Path ''/'' [''ws'', ''packages'', ''go2_chassis'']\<rparr>"

definition demo_permit_file :: posix_path where
  "demo_permit_file = Path ''/'' [''run'', ''permit'']"

definition demo_spent_file :: posix_path where
  "demo_spent_file = Path ''/'' [''run'', ''permit.consumed-permit-01'']"

definition demo_spent_twice :: posix_path where
  "demo_spent_twice = Path ''/'' [''run'', ''permit.consumed-permit-01.consumed-permit-01'']"

definition demo_adapter :: posix_path where
  "demo_adapter = Path ''/'' [''ws'', ''packages'', ''go2_chassis'', ''rbnx-build'', ''ros'', ''install'', ''lib'',
     ''go2_chassis_adapter'', ''go2_chassis_adapter_node'']"

definition demo_daemon :: posix_path where
  "demo_daemon = Path ''/'' [''ws'', ''packages'', ''go2_chassis'', ''rbnx-build'', ''sdk'', ''install'', ''bin'', ''go2_sport_daemon'']"

definition demo_params :: posix_path where
  "demo_params = Path ''/'' [''ws'', ''packages'', ''go2_chassis'', ''config'', ''adapter.yaml'']"

definition demo_entries :: "(posix_path \<times> nat) list" where
  "demo_entries = [(Path ''/'' [''run''], 1), (Path ''/'' [''run'', ''go2''], 2), (Path ''/'' [''ws'', ''dds''], 3),
     (Path ''/'' [''ws'', ''goal''], 4), (Path ''/'' [''ws'', ''state''], 5), (Path ''/'' [''ws'', ''time''], 6),
     (demo_adapter, 7), (demo_daemon, 8), (demo_params, 9)]"

definition demo_inode :: "nat \<Rightarrow> inode" where
  "demo_inode i = \<lparr>in_kind = if i = 1 \<or> i = 2 then DirectoryFile else RegularFile, in_uid = 0,
     in_mode = if i = 1 \<or> i = 2 then 448 else if i = 10 then 384 else 420, in_dev = 0, in_content = []\<rparr>"

text \<open>
  The permit's entry is inode 10; every process keeps running, every declaration succeeds. The odometry
  topic is there up to call 100.
\<close>

fun demo_extern :: "nat \<Rightarrow> extern_call \<Rightarrow> sysresult" where
  "demo_extern n (Spawn argv env f) = RProcess n"
| "demo_extern n (WaitForTopic t ty s) = RBool (n < 100)"
| "demo_extern n (Poll pid) = RNone"
| "demo_extern n _ = RDone"

definition demo_world :: "posix_path \<Rightarrow> nat \<Rightarrow> world" where
  "demo_world permit n = \<lparr>fs_entries = (map_of demo_entries)(permit \<mapsto> 10), fs_inodes = \<lambda>i. Some (demo_inode i), fs_next = 11,
     fs_resolve = id, fs_executable = \<lambda>p. True, fs_euid = 0, fs_clock = 1, fs_fault = \<lambda>c. None, fs_calls = n,
     fs_extern = demo_extern\<rparr>"

lemma demo_no_faults [simp]: "no_faults (demo_world p n)"
  by (simp add: no_faults_def demo_world_def)

lemma demo_perform: "perform c (demo_world p n) = exec c (demo_world p n)"
  by (simp add: perform_def demo_world_def)

lemma demo_fields_of_world [simp]:
  "fs_inodes (demo_world p n) i = Some (demo_inode i)" "fs_resolve (demo_world p n) q = q"
  "fs_executable (demo_world p n) q" "fs_euid (demo_world p n) = 0" "fs_clock (demo_world p n) = 1"
  "fs_calls (demo_world p n) = n" "fs_extern (demo_world p n) = demo_extern"
  by (simp_all add: demo_world_def)

lemma demo_node: "node_at (demo_world p n) q =
   (if q = p then Some (10, demo_inode 10) else map_option (\<lambda>i. (i, demo_inode i)) (map_of demo_entries q))"
  by (simp add: node_at_def demo_world_def split: option.split)

lemma demo_lookup:
  "map_of demo_entries (Path ''/'' [''run'']) = Some 1" "map_of demo_entries (Path ''/'' [''run'', ''go2'']) = Some 2"
  "map_of demo_entries (Path ''/'' [''ws'', ''dds'']) = Some 3" "map_of demo_entries (Path ''/'' [''ws'', ''goal'']) = Some 4"
  "map_of demo_entries (Path ''/'' [''ws'', ''state'']) = Some 5" "map_of demo_entries (Path ''/'' [''ws'', ''time'']) = Some 6"
  "map_of demo_entries demo_adapter = Some 7" "map_of demo_entries demo_daemon = Some 8" "map_of demo_entries demo_params = Some 9"
  "map_of demo_entries demo_permit_file = None" "map_of demo_entries demo_spent_file = None"
  "map_of demo_entries demo_spent_twice = None"
  by code_simp+

lemma demo_binaries [simp]:
  "adapter_binary (demo_context file) = demo_adapter" "daemon_binary (demo_context file) = demo_daemon"
  "params_file (demo_context file) = demo_params" "workspace_root (demo_context file) = Path ''/'' [''ws'']"
  by (simp_all add: demo_adapter_def demo_daemon_def demo_params_def adapter_binary_def daemon_binary_def params_file_def
      demo_context_def workspace_root_def path_parent_def path_join_def)

definition is_permit_name :: "posix_path \<Rightarrow> bool" where
  "is_permit_name p \<longleftrightarrow> p \<in> {demo_permit_file, demo_spent_file, demo_spent_twice}"

lemma permit_not_other:
  assumes "is_permit_name p"
  shows "Path ''/'' [''run''] \<noteq> p" "Path ''/'' [''run'', ''go2''] \<noteq> p" "Path ''/'' [''ws'', q] \<noteq> p"
    "demo_adapter \<noteq> p" "demo_daemon \<noteq> p" "demo_params \<noteq> p"
  using assms by (auto simp: is_permit_name_def demo_permit_file_def demo_spent_file_def demo_spent_twice_def demo_adapter_def demo_daemon_def
      demo_params_def)

lemma demo_inode_fields [simp]:
  "in_kind (demo_inode i) = (if i = 1 \<or> i = 2 then DirectoryFile else RegularFile)"
  "in_uid (demo_inode i) = 0" "in_dev (demo_inode i) = 0" "in_content (demo_inode i) = []"
  "in_mode (demo_inode i) = (if i = 1 \<or> i = 2 then 448 else if i = 10 then 384 else 420)"
  by (simp_all add: demo_inode_def)

section \<open>Files\<close>

lemma demo_evidence_file:
  assumes "is_permit_name p" "map_of demo_entries (Path ''/'' [''ws'', q]) = Some i" "2 < i" "i < 10"
  shows "run_io (sha256_file sha (Path ''/'' [''ws'', q])) (demo_world p n) = (Inr (sha []), demo_world p n)"
proof -
  have "\<not> bit (420 :: nat) 4" "\<not> bit (420 :: nat) 1" by code_simp+
  then show ?thesis using assms permit_not_other(3) [OF assms(1), of q]
    by (simp add: sha256_file_def owned_regular_file_def demo_node info_of_def)
qed

lemma demo_read_permit:
  assumes "is_permit_name p"
  shows "run_io (staged_read_private_json (\<lambda>_. Some (VDict demo_permit)) p) (demo_world p n) = (Inr demo_permit, demo_world p n)"
proof -
  have "unique_json_object (VDict (permit_fields (map (\<lambda>(name, x). (name, VFloat x)) [(''max_linear_x_mps'', a), (''max_linear_y_mps'', b),
      (''max_angular_z_rps'', c), (''max_linear_accel_mps2'', d), (''max_angular_accel_rps2'', e), (''max_duration_s'', f),
      (''max_distance_m'', g), (''command_timeout_s'', h), (''state_timeout_s'', i), (''external_odom_timeout_s'', j)])))"
    for a b c d e f g h i j by code_simp
  then have "unique_json_object (VDict demo_permit)"
    unfolding demo_permit_def demo_numbers_def staged_numbers_def .
  then have "decode_json (\<lambda>_. Some (VDict demo_permit)) True [] = Inr demo_permit" by (simp add: decode_json_def)
  then show ?thesis
    by (simp add: staged_read_private_json_def read_json_file_def owned_regular_file_def demo_node info_of_def)
qed


section \<open>The stages of initialize\<close>

lemma demo_claims [simp]:
  "checked_claim demo_evidence ''dds_identity'' = Inr (Path ''/'' [''ws'', ''dds''], demo_hash)"
  "checked_claim demo_evidence ''goal'' = Inr (Path ''/'' [''ws'', ''goal''], demo_hash)"
  "checked_claim demo_evidence ''state'' = Inr (Path ''/'' [''ws'', ''state''], demo_hash)"
  "checked_claim demo_evidence ''time'' = Inr (Path ''/'' [''ws'', ''time''], demo_hash)"
  by code_simp+

lemma demo_normalized:
  "run_io (normalized (demo_context file) (VDict demo_config)) (demo_world p n) = (Inr demo_runtime, demo_world p n)"
  by (simp add: normalized_def demo_normalizes) (simp add: demo_context_def demo_normalizes)

lemma demo_runtime_fields [simp]:
  "cr_allow_motion demo_runtime" "cr_motion_profile demo_runtime = STAGED_NAV2_PROFILE"
  "cr_ipc_socket demo_runtime = Path ''/'' [''run'', ''go2'', ''sport.sock'']" "starts_sdk_daemon demo_runtime"
  by (simp_all add: demo_runtime_def demo_gate_def starts_sdk_daemon_def)

lemma demo_built:
  assumes "is_permit_name p"
  shows "run_io (check_build (demo_context file) demo_runtime) (demo_world p n) = (Inr None, demo_world p n)"
  using permit_not_other [OF assms] demo_lookup
  by (simp add: check_build_def is_executable_def demo_node)

lemma demo_verifies:
  assumes "is_permit_name p" "sha = (\<lambda>_. demo_hash)"
  shows "run_io (staged_validate_permit sha (Path ''/'' [''ws'']) demo_permit demo_runtime (demo_env file) CHASSIS_ROLE None)
    (demo_world p n) = (Inr ''permit-01'', demo_world p n)"
  using demo_evidence_file [OF assms(1)] demo_lookup assms(2)
  by (simp add: staged_validate_permit_def demo_check_permit verify_claim_def is_below_def)

text \<open>Consumption renames the file to the name the permit's id gives it.\<close>

lemma demo_renamed:
  assumes "is_permit_name p" "consumed_name p ''permit-01'' = q" "map_of demo_entries q = None" "q \<noteq> p"
    "map_of demo_entries p = None"
  shows "run_io (atomic_consume p ''permit-01'') (demo_world p n) = (Inr q, demo_world q n)"
proof -
  have "(map_of demo_entries)(p := None, q \<mapsto> 10) = (map_of demo_entries)(q \<mapsto> 10)"
    using assms(5) by (auto simp: fun_eq_iff)
  then show ?thesis using assms(2-4)
    by (simp add: atomic_consume_def Let_def demo_perform demo_node) (simp add: demo_world_def returning_def)
qed


text \<open>The permit is named, validated and renamed.\<close>

definition demo_names_permit :: "string \<Rightarrow> posix_path \<Rightarrow> posix_path \<Rightarrow> bool" where
  "demo_names_permit file p q \<longleftrightarrow>
     is_permit_name p \<and> is_permit_name q \<and> path_of (str_strip (env_get (demo_env file) STAGED_PERMIT_ENV)) = p \<and>
     str_strip (env_get (demo_env file) STAGED_PERMIT_ENV) \<noteq> [] \<and> consumed_name p ''permit-01'' = q \<and>
     map_of demo_entries p = None \<and> map_of demo_entries q = None \<and> q \<noteq> p"

lemma demo_parent:
  assumes "is_permit_name p"
  shows "run_io (private_parent p) (demo_world p n) = (Inr (), demo_world p n)"
proof -
  have "path_parent p = Path ''/'' [''run'']"
    using assms by (auto simp: is_permit_name_def demo_permit_file_def demo_spent_file_def demo_spent_twice_def path_parent_def)
  then show ?thesis using permit_not_other(1) [OF assms] demo_lookup
    by (simp add: private_parent_def demo_node info_of_def)
qed

lemma demo_authorized:
  assumes "demo_names_permit file p q"
  shows "run_io (authorize (demo_context file) demo_runtime) (demo_world p n) = (Inr None, demo_world q n)"
proof -
  note names = assms [unfolded demo_names_permit_def]
  have profiles: "STAGED_NAV2_PROFILE \<noteq> FIRST_MOTION_PROFILE" "STAGED_NAV2_PROFILE \<noteq> SECOND_MOTION_PROFILE"
    by code_simp+
  have ack: "demo_env file RUNTIME_ACK_ENV = None" by code_simp
  have path: "staged_permit_path demo_runtime (demo_env file) STAGED_PERMIT_ENV = Inr p"
    using names by (auto simp: staged_permit_path_def Let_def is_absolute_def is_permit_name_def demo_permit_file_def demo_spent_file_def demo_spent_twice_def)
  have "run_io (consume_staged_nav2_permit (\<lambda>_. demo_hash) (\<lambda>_. Some (VDict demo_permit)) demo_runtime (demo_env file) (Path ''/'' [''ws'']))
      (demo_world p n) = (Inr q, demo_world q n)"
    using names demo_parent demo_read_permit demo_verifies demo_renamed
    by (simp add: consume_staged_nav2_permit_def path)
  then show ?thesis
    by (simp add: authorize_def profiles runtime_acknowledged_def consume_or_refuse_def)
      (simp add: demo_context_def ack)
qed

text \<open>Once the runtime is authorized both processes start; the first call is number \<open>n\<close>.\<close>

definition demo_running :: "nat \<Rightarrow> chassis_state" where
  "demo_running n = \<lparr>cs_odom_endpoint = True, cs_runtime = Some demo_runtime, cs_processes = [n, Suc n]\<rparr>"

lemma demo_inode_same: "(\<lambda>i. Some (demo_inode i))(2 \<mapsto> (demo_inode 2)\<lparr>in_mode := 448\<rparr>) = (\<lambda>i. Some (demo_inode i))"
  by (auto simp: demo_inode_def fun_eq_iff)

lemma demo_prepared:
  assumes "is_permit_name p"
  shows "run_io (prepare_private_directory (Path ''/'' [''run'', ''go2''])) (demo_world p n) = (Inr (), demo_world p n)"
proof -
  have chmod: "exec (Fchmod 2 448) (demo_world p n) = (RDone, demo_world p n)"
    by (simp add: demo_inode_same) (simp add: demo_world_def demo_inode_same)
  have "run_io (os_fchmod 2 448) (demo_world p n) = (Inr (), demo_world p n)"
    by (simp add: os_fchmod_def os_result_def demo_perform chmod del: exec.simps)
  then show ?thesis using permit_not_other(2) [OF assms] demo_lookup
    by (simp add: prepare_private_directory_def lstat_or_mkdir_def demo_node info_of_def)
qed

lemma demo_daemon_argv: "\<exists>argv. daemon_argv demo_runtime demo_daemon = Inr argv"
  by (simp add: daemon_argv_def cfg_require_def)

lemma demo_next_call: "demo_world p n\<lparr>fs_calls := m\<rparr> = demo_world p m"
  by (simp add: demo_world_def)

lemma demo_spawned:
  assumes "is_permit_name p"
  shows "run_io (spawn_runtime (demo_context file) demo_runtime) (demo_world p n) = (([n, Suc n], Inr ()), demo_world p (Suc (Suc n)))"
proof -
  obtain argv where argv: "daemon_argv demo_runtime demo_daemon = Inr argv" using demo_daemon_argv by blast
  have "path_parent (cr_ipc_socket demo_runtime) = Path ''/'' [''run'', ''go2'']" by (simp add: path_parent_def)
  then show ?thesis using demo_prepared [OF assms]
    by (simp add: spawn_runtime_def spawn_daemon_def ext_spawn_def argv demo_perform demo_next_call)
qed

lemma demo_started:
  assumes "is_permit_name p" "n < 90"
  shows "run_io (start_runtime (demo_context file) demo_runtime chassis_start) (demo_world p n) =
    ((Inr InitOk, demo_running n), demo_world p (n + 7))"
  using demo_spawned [OF assms(1)] assms(2)
  by (simp add: start_runtime_def chassis_start_def await_odometry_def guarded_call_def daemon_still_runs_def ext_poll_def
      os_result_def declare_contracts_def Let_def demo_perform demo_next_call demo_running_def eval_nat_numeral)

lemma demo_initialized:
  assumes "demo_names_permit file p q" "n < 90"
  shows "run_io (initialize (demo_context file) (VDict demo_config) chassis_start) (demo_world p n) =
    ((Inr InitOk, demo_running n), demo_world q (n + 7))"
proof -
  have names: "is_permit_name p" "is_permit_name q" using assms(1) by (simp_all add: demo_names_permit_def)
  show ?thesis
    using demo_normalized demo_built [OF names(1)] demo_authorized [OF assms(1)] demo_started [OF names(2) assms(2)]
    by (simp add: initialize_def chassis_start_def stop_processes_def Let_def)
qed

text \<open>Without the topic the start is deferred, and both processes are told to end and awaited.\<close>

lemma demo_deferred:
  assumes "demo_names_permit file p q"
  shows "\<exists>w. run_io (initialize (demo_context file) (VDict demo_config) chassis_start) (demo_world p 100) =
    ((Inr (InitDeferred ''guarded odometry topic is not available''), chassis_start), w)"
proof -
  have names: "is_permit_name p" "is_permit_name q" using assms by (simp_all add: demo_names_permit_def)
  have "\<exists>w. run_io (start_runtime (demo_context file) demo_runtime chassis_start) (demo_world q 100) =
    ((Inr (InitDeferred ''guarded odometry topic is not available''), chassis_start), w)"
    using demo_spawned [OF names(2), where n = 100]
    by (simp add: start_runtime_def chassis_start_def await_odometry_def guarded_call_def ext_poll_def os_result_def
        stop_and_return_def stop_processes_def terminate_process_def reap_process_def signal_group_def Let_def demo_perform
        demo_next_call eval_nat_numeral)
  then show ?thesis
    using demo_normalized demo_built [OF names(1)] demo_authorized [OF assms]
    by (simp add: initialize_def chassis_start_def stop_processes_def Let_def)
qed

text \<open>The permit's own name, and the name it has after it was spent.\<close>

lemma demo_first_start: "demo_names_permit ''/run/permit'' demo_permit_file demo_spent_file"
  unfolding demo_names_permit_def is_permit_name_def by code_simp

lemma demo_second_start: "demo_names_permit ''/run/permit.consumed-permit-01'' demo_spent_file demo_spent_twice"
  unfolding demo_names_permit_def is_permit_name_def by code_simp

end
