(* ===== verification/ChassisProcesses.thy ===== *)
theory ChassisProcesses imports ChassisLaunch begin

text \<open>
  The processes of the driver: every process \<open>initialize\<close> has started is in \<open>cs_processes\<close> or was
  stopped afterwards, whatever fails on the way.
\<close>

section \<open>Accounting for processes\<close>

definition stopped_in :: "nat \<Rightarrow> history \<Rightarrow> bool" where
  "stopped_in pid h \<longleftrightarrow>
     list_ex (\<lambda>(c, r). c = Extern (TerminateGroup pid) \<or> c = Extern (Poll pid) \<and> (case r of RInt code \<Rightarrow> True | _ \<Rightarrow> False)) h"

fun started :: "syscall \<times> sysresult \<Rightarrow> nat option" where
  "started (Extern (Spawn argv env f), RProcess pid) = Some pid"
| "started _ = None"

text \<open>Every process started in \<open>h\<close> is one of \<open>ps\<close>, or was found ended or was signalled later in \<open>h\<close>.\<close>

fun accounted :: "nat list \<Rightarrow> history \<Rightarrow> bool" where
  "accounted ps [] \<longleftrightarrow> True"
| "accounted ps (e # h) \<longleftrightarrow>
     (case started e of None \<Rightarrow> True | Some pid \<Rightarrow> pid \<in> set ps \<or> stopped_in pid h) \<and> accounted ps h"

lemma stopped_in_append [simp]: "stopped_in pid (g @ h) \<longleftrightarrow> stopped_in pid g \<or> stopped_in pid h"
  by (auto simp: stopped_in_def)

lemma accounted_append:
  "accounted ps g \<Longrightarrow> accounted ps h \<Longrightarrow> accounted ps (g @ h)"
  by (induction g) (auto split: option.splits)

lemma accounted_mono: "accounted ps h \<Longrightarrow> set ps \<subseteq> set qs \<Longrightarrow> accounted qs h"
  by (induction h) (auto split: option.splits)

lemma accounted_none: "accounted [] h \<Longrightarrow> accounted ps h"
  by (erule accounted_mono) simp

lemma accounted_stopped:
  "accounted ps g \<Longrightarrow> accounted qs h \<Longrightarrow> (\<And>p. p \<in> set ps \<Longrightarrow> p \<in> set qs \<or> stopped_in p h) \<Longrightarrow> accounted qs (g @ h)"
  by (induction g) (auto split: option.splits)

lemma started_quiet: "c \<in> quiet_calls \<Longrightarrow> started (c, r) = None"
  by (cases "(c, r)" rule: started.cases) (auto simp: quiet_calls_def)

lemma quiet_accounted: "\<forall>e \<in> set h. fst e \<in> quiet_calls \<Longrightarrow> accounted ps h"
proof (induction h)
  case (Cons e h)
  then show ?case using started_quiet [of "fst e" "snd e"] by simp
qed simp

section \<open>What a program adds to the history\<close>

text \<open>\<open>grows m R\<close>: run from any history, \<open>m\<close> adds calls and returns a value that \<open>R\<close> relates.\<close>

definition grows :: "'a io \<Rightarrow> (history \<Rightarrow> 'a \<Rightarrow> bool) \<Rightarrow> bool" where
  "grows m R \<longleftrightarrow> (\<forall>h. obeys m anything (\<lambda>h' a. \<exists>g. h' = h @ g \<and> R g a) h)"

lemma grows_Return [simp]: "grows (Return a) R \<longleftrightarrow> R [] a"
  by (simp add: grows_def)

lemma obeys_Call: "obeys (Call c k) G Q h \<longleftrightarrow> G h c \<and> (\<forall>r. obeys (k r) G Q (h @ [(c, r)]))"
  by simp

lemma grows_weaken: "grows m R \<Longrightarrow> (\<And>g a. R g a \<Longrightarrow> S g a) \<Longrightarrow> grows m S"
  unfolding grows_def by (blast intro: obeys_weaken)

lemma grows_Call:
  assumes "\<And>r. grows (k r) (\<lambda>g a. R ((c, r) # g) a)"
  shows "grows (Call c k) R"
  unfolding grows_def obeys_Call
proof (intro allI conjI TrueI)
  fix h r
  have "obeys (k r) anything (\<lambda>h' a. \<exists>g. h' = (h @ [(c, r)]) @ g \<and> R ((c, r) # g) a) (h @ [(c, r)])"
    using assms unfolding grows_def by blast
  then show "obeys (k r) anything (\<lambda>h' a. \<exists>g. h' = h @ g \<and> R g a) (h @ [(c, r)])"
    by (rule obeys_weaken) auto
qed

lemma grows_bind:
  assumes "grows m R" "\<And>g a. R g a \<Longrightarrow> grows (f a) (\<lambda>g' b. S (g @ g') b)"
  shows "grows (io_bind m f) S"
  unfolding grows_def
proof (intro allI obeys_seq)
  fix h
  show "obeys m anything (\<lambda>h' a. \<exists>g. h' = h @ g \<and> R g a) h" using assms(1) by (simp add: grows_def)
  fix h' a
  assume "\<exists>g. h' = h @ g \<and> R g a"
  then obtain g where g: "h' = h @ g" "R g a" by blast
  have "obeys (f a) anything (\<lambda>h'' b. \<exists>g'. h'' = h' @ g' \<and> S (g @ g') b) h'"
    using assms(2) [OF g(2)] by (simp add: grows_def)
  then show "obeys (f a) anything (\<lambda>h'' b. \<exists>g. h'' = h @ g \<and> S g b) h'"
    by (rule obeys_weaken) (auto simp: g(1))
qed

lemma grows_act_bind:
  assumes "grows m R" "\<And>g e. R g (Inl e) \<Longrightarrow> S g (Inl e)" "\<And>g a. R g (Inr a) \<Longrightarrow> grows (f a) (\<lambda>g' b. S (g @ g') b)"
  shows "grows (act_bind m f) S"
  unfolding act_bind_def
  by (rule grows_bind [OF assms(1)]) (auto split: sum.split intro: assms(2,3))

lemma grows_calls:
  assumes "calls_in m C"
  shows "grows m (\<lambda>g a. \<forall>e \<in> set g. fst e \<in> C)"
  using assms
proof (induction m)
  case (Call c k)
  have "grows (k r) (\<lambda>g a. \<forall>e \<in> set ((c, r) # g). fst e \<in> C)" for r
    by (rule grows_weaken [OF Call.IH [OF rangeI]]) (use Call.prems in auto)
  then show ?case by (rule grows_Call)
qed simp

lemma grows_feed:
  assumes "grows m R" "feed m answers = (g, Return a)"
  shows "R g a"
proof -
  have "obeys m anything (\<lambda>h' a. \<exists>g. h' = [] @ g \<and> R g a) []"
    using assms(1) unfolding grows_def by (rule spec)
  from obeys_feed [OF this assms(2)] show ?thesis by simp
qed

section \<open>Stopping\<close>

lemma grows_poll:
  "grows (ext_poll pid) (\<lambda>g r. (\<forall>e \<in> set g. fst e \<in> quiet_calls) \<and> (\<forall>code. r = Inr (Some code) \<longrightarrow> stopped_in pid g))"
  unfolding ext_poll_def os_result_def
  by (rule grows_Call) (auto simp: returning_def raise_exc_def stopped_in_def split: sysresult.split)

lemma grows_terminate:
  "grows (terminate_process pid) (\<lambda>g r. (\<forall>e \<in> set g. fst e \<in> quiet_calls) \<and> (r = Inr () \<longrightarrow> stopped_in pid g))"
proof -
  have signal: "grows (signal_group (TerminateGroup pid)) (\<lambda>g r. (\<forall>e \<in> set g. fst e \<in> quiet_calls) \<and> stopped_in pid g)"
    unfolding signal_group_def
    by (rule grows_Call) (auto simp: returning_def raise_exc_def stopped_in_def split: sysresult.split os_error.split)
  show ?thesis unfolding terminate_process_def
    by (rule grows_act_bind [OF grows_poll]) (auto simp: returning_def intro: grows_weaken [OF signal])
qed

lemma grows_act_all:
  assumes "\<And>x. grows (f x) (\<lambda>g r. P g \<and> (\<forall>y. r = Inr y \<longrightarrow> D x g))"
    and "P []" "\<And>g h. P g \<Longrightarrow> P h \<Longrightarrow> P (g @ h)" "\<And>x g h. D x g \<Longrightarrow> D x (g @ h)" "\<And>x g h. D x h \<Longrightarrow> D x (g @ h)"
  shows "grows (act_all f xs) (\<lambda>g r. P g \<and> (\<forall>ys. r = Inr ys \<longrightarrow> (\<forall>x \<in> set xs. D x g)))"
proof (induction xs)
  case Nil
  then show ?case using assms(2) by simp
next
  case (Cons x xs)
  have "grows (act_bind (act_all f xs) (\<lambda>ys. Return (Inr (y # ys))))
      (\<lambda>g' r. P (g @ g') \<and> (\<forall>ys. r = Inr ys \<longrightarrow> (\<forall>z \<in> set (x # xs). D z (g @ g'))))"
    if "P g" "D x g" for g y
    by (rule grows_act_bind [OF Cons.IH]) (use that assms(3-5) in auto)
  then show ?case by (simp only: act_all.simps) (rule grows_act_bind [OF assms(1)], use assms(3-5) in auto)
qed


lemma grows_stop:
  "grows (stop_processes ps) (\<lambda>g r. accounted [] g \<and> (r = Inr () \<longrightarrow> (\<forall>pid \<in> set ps. stopped_in pid g)))"
proof -
  have reap: "grows (reap_process pid) (\<lambda>g r. \<forall>e \<in> set g. fst e \<in> quiet_calls)" for pid
    by (rule grows_calls) (auto simp: reap_process_def intro!: calls_in_act_bind calls_poll calls_signal split: sysresult.split)
  have terminate: "grows (act_all terminate_process (rev ps)) (\<lambda>g r. (\<forall>e \<in> set g. fst e \<in> quiet_calls) \<and>
      (\<forall>ys. r = Inr ys \<longrightarrow> (\<forall>pid \<in> set (rev ps). stopped_in pid g)))"
    by (rule grows_act_all) (auto intro: grows_weaken [OF grows_terminate])
  have reaps: "grows (act_bind (act_all reap_process (rev ps)) (\<lambda>_. returning ())) (\<lambda>g r. \<forall>e \<in> set g. fst e \<in> quiet_calls)"
    by (rule grows_calls) (intro calls_in_act_bind calls_in_act_all calls_plain,
        auto simp: reap_process_def intro!: calls_in_act_bind calls_poll calls_signal split: sysresult.split)
  show ?thesis unfolding stop_processes_def
    by (rule grows_act_bind [OF terminate])
      (auto intro: accounted_append quiet_accounted intro!: grows_weaken [OF reaps])
qed

section \<open>Starting\<close>

text \<open>The state after an operation accounts for what it and its predecessors started.\<close>

definition keeps_account :: "nat list \<Rightarrow> init_io \<Rightarrow> bool" where
  "keeps_account ps m \<longleftrightarrow> grows m (\<lambda>g (result, s). accounted (cs_processes s) g \<and>
     (\<forall>pid \<in> set ps. pid \<in> set (cs_processes s) \<or> stopped_in pid g) \<and>
     (\<forall>r. result = Inr r \<longrightarrow> r \<noteq> InitOk \<longrightarrow> cs_processes s = []))"

named_theorems account_rules \<open>operations whose state accounts for their processes\<close>

lemma account_Return [account_rules]:
  "set ps \<subseteq> set (cs_processes s) \<Longrightarrow> (\<And>r. result = Inr r \<Longrightarrow> r \<noteq> InitOk \<Longrightarrow> cs_processes s = []) \<Longrightarrow>
   keeps_account ps (Return (result, s))"
  by (auto simp: keeps_account_def)

lemma account_after:
  assumes "accounted ps g" "keeps_account ps m"
  shows "grows m (\<lambda>g' (result, s). accounted (cs_processes s) (g @ g') \<and>
     (\<forall>r. result = Inr r \<longrightarrow> r \<noteq> InitOk \<longrightarrow> cs_processes s = []))"
  by (rule grows_weaken [OF assms(2) [unfolded keeps_account_def]]) (auto intro: accounted_stopped [OF assms(1)])

lemma account_bind:
  assumes "grows m (\<lambda>g a. \<forall>e \<in> set g. fst e \<in> quiet_calls)" "\<And>a. keeps_account ps (f a)"
  shows "keeps_account ps (io_bind m f)"
  unfolding keeps_account_def
proof (rule grows_bind [OF assms(1)])
  fix g :: history and a
  assume "\<forall>e \<in> set g. fst e \<in> quiet_calls"
  then have "accounted qs g" for qs by (rule quiet_accounted)
  then show "grows (f a) (\<lambda>g' (result, s). accounted (cs_processes s) (g @ g') \<and>
     (\<forall>pid \<in> set ps. pid \<in> set (cs_processes s) \<or> stopped_in pid (g @ g')) \<and>
     (\<forall>r. result = Inr r \<longrightarrow> r \<noteq> InitOk \<longrightarrow> cs_processes s = []))"
    using assms(2) [of a, unfolded keeps_account_def] by (auto elim!: grows_weaken intro: accounted_append)
qed

lemmas account_quiet = account_bind [OF grows_calls]

lemma account_guarded [account_rules]:
  assumes "Extern e \<in> quiet_calls" "\<And>r. keeps_account ps (ok r)" "keeps_account ps failed"
  shows "keeps_account ps (guarded_call e ok failed)"
proof -
  have "guarded_call e ok failed = io_bind (Call (Extern e) Return)
      (\<lambda>r. case r of RException \<Rightarrow> failed | RFail e \<Rightarrow> failed | _ \<Rightarrow> ok r)"
    by (simp add: guarded_call_def)
  then show ?thesis using assms(2,3)
    by (simp only:) (rule account_quiet, use assms(1) in \<open>auto split: sysresult.split\<close>)
qed

lemma account_stop_return [account_rules]:
  "ps = cs_processes s \<Longrightarrow> keeps_account ps (stop_and_return s r)"
  unfolding keeps_account_def stop_and_return_def
  by (rule grows_bind [OF grows_stop]) (auto split: sum.split intro: accounted_mono)

lemma account_declare [account_rules]: "ps = cs_processes s \<Longrightarrow> keeps_account ps (declare_contracts r s)"
  unfolding declare_contracts_def Let_def by (intro account_rules) auto

lemma account_still_runs [account_rules]: "ps = cs_processes s \<Longrightarrow> keeps_account ps (daemon_still_runs r s)"
  unfolding daemon_still_runs_def
  by (auto intro!: account_quiet [OF calls_poll] account_rules split: sum.split option.split)

lemma account_await [account_rules]: "ps = cs_processes s \<Longrightarrow> keeps_account ps (await_odometry r s)"
  unfolding await_odometry_def
  by (intro account_guarded account_stop_return)
    (auto intro!: account_quiet account_rules calls_poll split: sum.split option.split)

lemma grows_spawn:
  "grows (ext_spawn argv env f) (\<lambda>g r. (case r of Inr pid \<Rightarrow> accounted [pid] g | Inl e \<Rightarrow> accounted [] g))"
  unfolding ext_spawn_def
  by (rule grows_Call) (auto simp: returning_def raise_exc_def split: sysresult.split)

lemma grows_spawn_daemon:
  "grows (spawn_daemon cx r) (\<lambda>g r. (case r of Inr ps \<Rightarrow> accounted ps g | Inl e \<Rightarrow> accounted [] g))"
proof -
  have spawn: "grows (act_bind (ext_spawn argv env f) (\<lambda>pid. returning [pid]))
      (\<lambda>g r. (case r of Inr ps \<Rightarrow> accounted ps g | Inl e \<Rightarrow> accounted [] g))" for argv env f
    by (rule grows_act_bind [OF grows_spawn]) (auto simp: returning_def)
  have "grows (act_bind (os_resolve p) (\<lambda>resolved. act_bind (ext_spawn argv (env resolved) f) (\<lambda>pid. returning [pid])))
      (\<lambda>g r. (case r of Inr ps \<Rightarrow> accounted ps g | Inl e \<Rightarrow> accounted [] g))" for p argv env f
    by (rule grows_act_bind [OF grows_calls [OF calls_as_quiet [OF calls_os(8)]]])
      (auto intro: quiet_accounted intro!: grows_weaken [OF spawn] accounted_append split: sum.splits)
  then show ?thesis
    by (cases "daemon_argv r (daemon_binary cx)") (simp_all add: spawn_daemon_def lift_outcome_def returning_def)
qed

lemma grows_spawn_runtime: "grows (spawn_runtime cx r) (\<lambda>g (ps, result). accounted ps g)"
proof -
  have adapter: "grows (io_bind (ext_spawn argv env f) (\<lambda>adapter. case adapter of
      Inl e \<Rightarrow> Return (ps, Inl e) | Inr pid \<Rightarrow> Return (ps @ [pid], Inr ())))
      (\<lambda>g' (qs, result). accounted qs (g @ g'))" if "accounted ps g" for argv env f ps g
    by (rule grows_bind [OF grows_spawn])
      (auto split: sum.splits intro!: accounted_append intro: accounted_mono [OF that] elim: accounted_mono)
  have daemon: "grows (io_bind (spawn_daemon cx r) (\<lambda>daemon. case daemon of Inl e \<Rightarrow> Return ([], Inl e) | Inr ps \<Rightarrow>
      io_bind (ext_spawn argv env f) (\<lambda>adapter. case adapter of
      Inl e \<Rightarrow> Return (ps, Inl e) | Inr pid \<Rightarrow> Return (ps @ [pid], Inr ()))))
      (\<lambda>g (qs, result). accounted qs g)" for argv env f
    by (rule grows_bind [OF grows_spawn_daemon]) (auto split: sum.splits intro: adapter)
  show ?thesis unfolding spawn_runtime_def
    by (rule grows_bind [OF grows_calls [OF calls_in_mono [OF calls_prepare prepare_quiet]]])
      (auto split: sum.split intro: quiet_accounted intro!: grows_weaken [OF daemon] accounted_append)
qed

lemma account_start:
  assumes "cs_processes s = []"
  shows "keeps_account [] (start_runtime cx r s)"
proof -
  have "keeps_account ps (case result of
       Inl e \<Rightarrow> if is_os_error e \<or> is_value_error e
           then stop_and_return (s\<lparr>cs_processes := ps\<rparr>) (InitErr ''failed to start guarded Go2 runtime'')
           else Return (Inl e, s\<lparr>cs_processes := ps\<rparr>)
     | Inr x \<Rightarrow> await_odometry r (s\<lparr>cs_processes := ps\<rparr>))" for ps and result :: "chassis_exc + unit"
    by (auto split: sum.split intro!: account_rules)
  then have "grows (case result of
       Inl e \<Rightarrow> if is_os_error e \<or> is_value_error e
           then stop_and_return (s\<lparr>cs_processes := ps\<rparr>) (InitErr ''failed to start guarded Go2 runtime'')
           else Return (Inl e, s\<lparr>cs_processes := ps\<rparr>)
     | Inr x \<Rightarrow> await_odometry r (s\<lparr>cs_processes := ps\<rparr>)) (\<lambda>g' (result, s). accounted (cs_processes s) (g @ g') \<and>
     (\<forall>r. result = Inr r \<longrightarrow> r \<noteq> InitOk \<longrightarrow> cs_processes s = []))" if "accounted ps g"
    for ps g and result :: "chassis_exc + unit"
    using account_after [OF that] by blast
  then show ?thesis unfolding keeps_account_def start_runtime_def
    by (intro grows_bind [OF grows_spawn_runtime]) (auto simp: assms Let_def)
qed

section \<open>initialize and shutdown\<close>

lemma account_initialize: "keeps_account (cs_processes s) (initialize cx config s)"
proof -
  have rest: "keeps_account [] (io_bind (normalized cx config) (\<lambda>runtime.
     case runtime of
       Inl (ConfigError m) \<Rightarrow> Return (Inr (InitErr ''unsafe Go2 chassis config''), s1)
     | Inl e \<Rightarrow> Return (Inl e, s1)
     | Inr r \<Rightarrow>
     io_bind (check_build cx r) (\<lambda>built.
     case built of Inl e \<Rightarrow> Return (Inl e, s1) | Inr (Some early) \<Rightarrow> Return (Inr early, s1) | Inr None \<Rightarrow>
     io_bind (authorize cx r) (\<lambda>authorized.
     case authorized of Inl e \<Rightarrow> Return (Inl e, s1) | Inr (Some early) \<Rightarrow> Return (Inr early, s1)
     | Inr None \<Rightarrow> start_runtime cx r s1))))" if "cs_processes s1 = []" for s1
    by (intro account_quiet [OF calls_as_quiet [OF calls_normalized]])
      (auto split: sum.split chassis_exc.split option.split simp: that
        intro!: account_rules account_start account_quiet [OF calls_as_quiet [OF calls_build]]
          account_quiet [OF calls_in_mono [OF calls_authorize permit_quiet]])
  show ?thesis unfolding initialize_def keeps_account_def
    by (rule grows_bind [OF grows_stop])
      (auto split: sum.split simp: Let_def intro!: grows_weaken [OF rest [unfolded keeps_account_def]]
        intro: accounted_append [OF accounted_none] accounted_none)
qed

lemma account_shutdown: "keeps_account (cs_processes s) (chassis_shutdown s)"
  unfolding keeps_account_def chassis_shutdown_def
  by (rule grows_bind [OF grows_stop]) (auto split: sum.split intro: accounted_mono)


section \<open>A sequence of operations\<close>

text \<open>The Robonix runtime calls the handlers one after another, whatever they return.\<close>

datatype driver_op = OpInitialize pyval | OpShutdown

primrec driver_op_io :: "chassis_context \<Rightarrow> driver_op \<Rightarrow> chassis_state \<Rightarrow> init_io" where
  "driver_op_io cx (OpInitialize config) s = initialize cx config s"
| "driver_op_io cx OpShutdown s = chassis_shutdown s"

primrec driver_session :: "chassis_context \<Rightarrow> driver_op list \<Rightarrow> chassis_state \<Rightarrow> chassis_state io" where
  "driver_session cx [] s = Return s"
| "driver_session cx (x # ops) s = io_bind (driver_op_io cx x s) (\<lambda>(result, s'). driver_session cx ops s')"

lemma account_session:
  "accounted (cs_processes s) g0 \<Longrightarrow> grows (driver_session cx ops s) (\<lambda>g s'. accounted (cs_processes s') (g0 @ g))"
proof (induction ops arbitrary: s g0)
  case (Cons x ops)
  have one: "keeps_account (cs_processes s) (driver_op_io cx x s)"
    using account_initialize account_shutdown by (cases x) simp_all
  show ?case unfolding driver_session.simps
  proof (rule grows_bind [OF account_after [OF Cons.prems one]])
    fix g and a :: "(chassis_exc + init_result) \<times> chassis_state"
    assume "case a of (result, s') \<Rightarrow> accounted (cs_processes s') (g0 @ g) \<and>
      (\<forall>r. result = Inr r \<longrightarrow> r \<noteq> InitOk \<longrightarrow> cs_processes s' = [])"
    then obtain result s' where a: "a = (result, s')" "accounted (cs_processes s') (g0 @ g)" by (cases a) auto
    show "grows (case a of (result, s') \<Rightarrow> driver_session cx ops s') (\<lambda>g' s'. accounted (cs_processes s') (g0 @ g @ g'))"
      using Cons.IH [OF a(2)] a(1) by simp
  qed
qed simp

end
