(* ===== verification/ChassisProperties.thy ===== *)
theory ChassisProperties imports ChassisRun ChassisProcesses begin

text \<open>The properties of the chassis driver: its configuration, its permits, its processes.\<close>

section \<open>The demonstration run as a history\<close>

lemma feed_trace: "feed p (map snd (trace_io p w)) = (trace_io p w, Return (fst (run_io p w)))"
proof (induction p arbitrary: w)
  case (Call c k)
  then show ?case by (simp add: Call.IH [OF rangeI])
qed simp

lemma trace_later: "run_io m w = (a, w') \<Longrightarrow> set (trace_io (f a) w') \<subseteq> set (trace_io (io_bind m f) w)"
  by (simp add: trace_io_bind)

lemma trace_first: "set (trace_io m w) \<subseteq> set (trace_io (io_bind m f) w)"
  by (simp add: trace_io_bind)

abbreviation demo_program :: init_io where
  "demo_program \<equiv> initialize (demo_context ''/run/permit'') (VDict demo_config) chassis_start"

abbreviation demo_history :: history where
  "demo_history \<equiv> trace_io demo_program (demo_world demo_permit_file 0)"

lemma demo_run: "run_io demo_program (demo_world demo_permit_file 0) = ((Inr InitOk, demo_running 0), demo_world demo_spent_file 7)"
  using demo_initialized [OF demo_first_start, of 0] by simp

text \<open>The daemon is started in the run of any number of earlier calls.\<close>

lemma demo_daemon_event:
  "\<exists>argv env f. (Extern (Spawn argv env f), RProcess n) \<in> set (trace_io demo_program (demo_world demo_permit_file n)) \<and>
     is_daemon_argv argv"
proof -
  let ?cx = "demo_context ''/run/permit''" and ?w = "demo_world demo_permit_file n" and ?w' = "demo_world demo_spent_file n"
  have p: "is_permit_name demo_permit_file" "is_permit_name demo_spent_file" by (simp_all add: is_permit_name_def)
  obtain argv where argv: "daemon_argv demo_runtime demo_daemon = Inr argv" using demo_daemon_argv by blast
  have "(Extern (Spawn argv (sdk_daemon_env demo_runtime demo_daemon) ''sdk-daemon.log''), RProcess n)
      \<in> set (trace_io (spawn_daemon ?cx demo_runtime) ?w')"
    by (simp add: spawn_daemon_def trace_act_bind argv ext_spawn_def lift_outcome_def demo_perform)
  moreover have "set (trace_io (spawn_daemon ?cx demo_runtime) ?w') \<subseteq> set (trace_io (spawn_runtime ?cx demo_runtime) ?w')"
    using demo_prepared [OF p(2)]
    by (simp add: spawn_runtime_def trace_io_bind path_parent_def) blast
  moreover have "set (trace_io (spawn_runtime ?cx demo_runtime) ?w') \<subseteq> set (trace_io (start_runtime ?cx demo_runtime chassis_start) ?w')"
    unfolding start_runtime_def by (rule trace_first)
  moreover have "set (trace_io (start_runtime ?cx demo_runtime chassis_start) ?w') \<subseteq> set (trace_io demo_program ?w)"
    using demo_normalized demo_built [OF p(1)] demo_authorized [OF demo_first_start]
    by (simp add: initialize_def trace_io_bind chassis_start_def stop_processes_def Let_def le_supI2)
  ultimately show ?thesis using daemon_argv_is [OF argv] by blast
qed

section \<open>Starting processes\<close>



text \<open>
  C12. Any number of drivers may be started with the same permit file, at the same time or one
  after another, their calls interleaved in any order with other activity that does not put the
  file back: at most one of them ever starts a motion daemon.
\<close>

theorem permit_starts_one_daemon:
  assumes "reaches env (w0, \<lambda>i. initialize (cx i) (config i) (s i), []) (w, procs, events)"
    and "\<And>i. shares_permit p (cx i) (config i)" "\<And>i. \<not> runtime_acknowledged (cx i)" "path_parts p \<noteq> []"
    and "\<And>w w'. env w w' \<Longrightarrow> entry_gone p w \<Longrightarrow> entry_gone p w'"
    and "i \<in> daemon_starters events" "j \<in> daemon_starters events"
  shows "i = j"
  by (rule at_most_one_starter [OF assms(1) refl assms(2-7)])

theorem permit_starts_one_daemon_witness:
  "\<exists>w procs events. reaches (=) (demo_world demo_permit_file 0, \<lambda>i. demo_program, []) (w, procs, events) \<and>
     daemon_starters events = {0}"
proof -
  let ?events = "map (\<lambda>e. (0, e)) demo_history"
  have reach: "reaches (=) (demo_world demo_permit_file 0, \<lambda>i. demo_program, [])
      (snd (run_io demo_program (demo_world demo_permit_file 0)),
       (\<lambda>i. demo_program)(0 := Return (fst (run_io demo_program (demo_world demo_permit_file 0)))), [] @ ?events)"
    by (rule run_reaches) simp
  have zero: "0 \<in> daemon_starters ?events"
    using demo_daemon_event [of 0] by (fastforce simp: daemon_starters_def)
  have shares: "shares_permit demo_permit_file (demo_context ''/run/permit'') (VDict demo_config)"
  proof -
    have "permit_path (demo_context ''/run/permit'') demo_runtime = demo_permit_file"
      using demo_first_start
      by (simp add: permit_path_def demo_names_permit_def demo_context_def STAGED_NAV2_PROFILE_def
          FIRST_MOTION_PROFILE_def SECOND_MOTION_PROFILE_def)
    moreover have "ancestors (Path ''/'' [''run'', ''go2'']) = [Path ''/'' [''run'']]" by code_simp
    ultimately show ?thesis
      by (auto simp: shares_permit_def demo_context_def demo_normalizes path_parent_def demo_permit_file_def)
  qed
  have no_ack: "\<not> runtime_acknowledged (demo_context ''/run/permit'')"
  proof -
    have "demo_env ''/run/permit'' RUNTIME_ACK_ENV = None" by code_simp
    then show ?thesis by (simp add: runtime_acknowledged_def demo_context_def)
  qed
  have "i = 0" if "i \<in> daemon_starters ([] @ ?events)" for i
    by (rule permit_starts_one_daemon [OF reach shares no_ack _ _ that])
      (use zero in \<open>auto simp: demo_permit_file_def\<close>)
  then have "daemon_starters ([] @ ?events) = {0}" using zero by auto
  then show ?thesis using reach by blast
qed


section \<open>Accepted configurations\<close>

text \<open>
  C15. A driver configuration that is accepted is bounded in every number that limits motion. With
  motion it has exactly the published envelope of its profile, an interface and audited modes;
  without motion no mode is allowed and the daemon's command line cannot be built.
\<close>

theorem accepted_config_is_safe:
  assumes "normalize_config sha256 root_text uid config env = Inr r"
  shows "bounded_runtime r \<and>
    (if cr_allow_motion r then motion_envelope env r
     else cr_allowed_modes r = [UNKNOWN_MODE] \<and> \<not> cr_preserve_classic_walk r \<and> (\<forall>p. \<exists>e. daemon_argv r p = Inl e))"
proof -
  obtain cfg g od hold ml where st: "stages cfg env g od hold ml r" using normalize_stages [OF assms] by blast
  then obtain markers pas mov socket where b: "build_runtime cfg g markers pas mov socket od hold ml = Inr r"
    and gate: "read_gate cfg env = Inr g" by (auto simp: stages_def)
  have "cr_allowed_modes r = [UNKNOWN_MODE] \<and> \<not> cr_preserve_classic_walk r" if "\<not> cr_allow_motion r"
    using read_gate_Inr(2) [OF gate] build_runtime_Inr [OF b] that by simp
  moreover have "daemon_argv r p = Inl (ConfigError ''SDK daemon must not start while motion is disabled'')" if "\<not> cr_allow_motion r" for p
    using that by (simp add: daemon_argv_def cfg_require_def)
  ultimately show ?thesis using accepted_bounded [OF assms] accepted_motion_envelope [OF assms] by auto
qed

theorem accepted_config_is_safe_witness:
  "bounded_runtime demo_runtime \<and> motion_envelope (demo_env ''/run/permit'') demo_runtime"
  using accepted_config_is_safe [OF demo_normalizes [of "\<lambda>_. demo_hash" "''/ws''" 0 "''/run/permit''"]] by simp

section \<open>How long a permit is good for\<close>

text \<open>The variables a staged permit is compared with.\<close>

definition permit_variables :: "string set" where
  "permit_variables = set (map fst (permit_environment [] [] [] 0 [] [] \<lparr>gp_x = Fin 0, gp_y = Fin 0, gp_yaw = Fin 0\<rparr>)) \<union> {GOAL_EVIDENCE_SHA256_ENV}"

lemma permit_environment_names:
  "map fst (permit_environment a b c d e f pose) = map fst (permit_environment [] [] [] 0 [] [] pose')"
  by (simp add: permit_environment_def)

lemma check_permit_environment_cong:
  assumes "\<And>name. name \<in> set (map fst texts) \<Longrightarrow> env' name = env name"
  shows "check_permit_environment env' texts = check_permit_environment env texts"
proof -
  have "all_ok (\<lambda>(name, expected). claim_require (str_strip (env_get env' name) = expected) (msg name)) texts =
      all_ok (\<lambda>(name, expected). claim_require (str_strip (env_get env name) = expected) (msg name)) texts" for msg
    using assms by (induction texts) (auto simp: env_get_def)
  then show ?thesis by (simp add: check_permit_environment_def)
qed

text \<open>
  C30. What the preflight of a staged permit accepts, its consumer accepts at any later time and in
  any environment that agrees on the twelve variables bound by the permit: in particular the
  expiry time a staged permit carries never ends it.
\<close>

theorem staged_permit_never_expires:
  assumes "check_staged_permit payload r env role now = Inr x" "now \<le> later"
    and "\<And>name. name \<in> permit_variables \<Longrightarrow> env' name = env name"
  shows "check_staged_permit payload r env' role later = Inr x"
proof -
  have "\<exists>u. check_staged_times payload now = Inr u"
    using assms(1) unfolding check_staged_permit_def obind_Inr_iff by blast
  then have times: "check_staged_times payload later = check_staged_times payload now"
    using assms(2) by (auto simp: check_staged_times_def split: option.splits)
  have environment: "check_permit_environment env' (permit_environment a b c d e f pose) =
      check_permit_environment env (permit_environment a b c d e f pose)" for a b c d e f pose
  proof (rule check_permit_environment_cong)
    fix name
    assume "name \<in> set (map fst (permit_environment a b c d e f pose))"
    then have "name \<in> permit_variables"
      unfolding permit_variables_def
      using permit_environment_names [of a b c d e f pose "\<lparr>gp_x = Fin 0, gp_y = Fin 0, gp_yaw = Fin 0\<rparr>"] by simp
    then show "env' name = env name" by (rule assms(3))
  qed
  have "env_get env' GOAL_EVIDENCE_SHA256_ENV = env_get env GOAL_EVIDENCE_SHA256_ENV"
    using assms(3) [of GOAL_EVIDENCE_SHA256_ENV] by (simp add: permit_variables_def env_get_def)
  then show ?thesis using assms(1) unfolding check_staged_permit_def environment times by (simp only:)
qed

theorem staged_permit_never_expires_witness:
  "check_staged_permit demo_permit demo_runtime (demo_env ''/run/elsewhere'') CHASSIS_ROLE (10 ^ 30) = Inr (''permit-01'', demo_evidence)"
proof (rule staged_permit_never_expires [OF demo_check_permit [where now = 1]])
  fix name
  assume "name \<in> permit_variables"
  then have "name \<noteq> STAGED_PERMIT_ENV"
    by (auto simp: permit_variables_def permit_environment_def STAGED_PERMIT_ENV_def GOAL_EVIDENCE_SHA256_ENV_def)
  then show "demo_env ''/run/elsewhere'' name = demo_env ''/run/permit'' name"
    by (simp add: demo_env_def demo_variables_def)
qed simp_all

section \<open>Processes\<close>

text \<open>
  C13. No process is lost: after any sequence of \<open>initialize\<close> and \<open>shutdown\<close>, whatever they return
  or raise and whatever the system answers, each process that was ever started is still in the
  driver's list, or was found ended or was signalled after its start.
\<close>

theorem no_process_is_lost:
  assumes "feed (driver_session cx ops chassis_start) answers = (h, Return s)"
  shows "accounted (cs_processes s) h"
  using grows_feed [OF account_session [of chassis_start "[]"] assms] by (simp add: chassis_start_def)

lemma demo_shutdown:
  "run_io (driver_session (demo_context ''/run/permit'') [OpInitialize (VDict demo_config), OpShutdown] chassis_start)
     (demo_world demo_permit_file 0) = ((demo_running 0)\<lparr>cs_processes := [], cs_runtime := None\<rparr>, demo_world demo_spent_file 15)"
  using demo_run
  by (simp add: chassis_shutdown_def demo_running_def stop_processes_def terminate_process_def reap_process_def ext_poll_def
      os_result_def signal_group_def demo_perform demo_next_call eval_nat_numeral)

theorem no_process_is_lost_witness:
  "\<exists>h. (\<exists>argv env f r. (Extern (Spawn argv env f), r) \<in> set h) \<and> accounted [] h"
proof -
  let ?p = "driver_session (demo_context ''/run/permit'') [OpInitialize (VDict demo_config), OpShutdown] chassis_start"
  let ?h = "trace_io ?p (demo_world demo_permit_file 0)"
  have "accounted (cs_processes (fst (run_io ?p (demo_world demo_permit_file 0)))) ?h"
    by (rule no_process_is_lost [OF feed_trace])
  then have account: "accounted [] ?h" unfolding demo_shutdown by simp
  have "set demo_history \<subseteq> set ?h" using trace_first by simp
  then have "\<exists>argv env f r. (Extern (Spawn argv env f), r) \<in> set ?h" using demo_daemon_event by blast
  with account show ?thesis by (intro exI [of _ ?h] conjI)
qed

text \<open>
  C14. A start that fails leaves nothing running: when \<open>initialize\<close> returns anything but \<open>Ok\<close>, its
  list is empty, every process it started was found ended or was signalled, and so was every
  process of an earlier start.
\<close>

theorem failed_start_leaves_nothing:
  assumes "feed (initialize cx config s) answers = (h, Return (Inr result, s'))" "result \<noteq> InitOk"
  shows "cs_processes s' = [] \<and> accounted [] h \<and> (\<forall>pid \<in> set (cs_processes s). stopped_in pid h)"
  using grows_feed [OF account_initialize [unfolded keeps_account_def] assms(1)] assms(2) by auto

theorem failed_start_leaves_nothing_witness:
  "\<exists>h argv env f. (Extern (Spawn argv env f), RProcess 100) \<in> set h \<and> accounted [] h \<and>
     feed demo_program (map snd h) = (h, Return (Inr (InitDeferred ''guarded odometry topic is not available''), chassis_start))"
proof -
  let ?w = "demo_world demo_permit_file 100" and ?r = "InitDeferred ''guarded odometry topic is not available''"
  have "fst (run_io demo_program ?w) = (Inr ?r, chassis_start)" using demo_deferred [OF demo_first_start] by auto
  then have run: "feed demo_program (map snd (trace_io demo_program ?w)) = (trace_io demo_program ?w, Return (Inr ?r, chassis_start))"
    by (simp add: feed_trace)
  from failed_start_leaves_nothing [OF this] have "accounted [] (trace_io demo_program ?w)" by simp
  then show ?thesis using run demo_daemon_event [of 100] by blast
qed

section \<open>A spent permit\<close>


end
