(* ===== verification/Spec2Isabelle.thy ===== *)
theory Spec2Isabelle imports GuardProperties ClaimProperties EvidenceProperties RunRegistry MapLifecycle CancelPolicy SemanticProperties StampProperties AffineProperties RobotTrackProperties ProbeProperties PermitBundle ChassisProperties begin

text \<open>
  A verification development of the Python that decides whether a Unitree Go2 may move and which time
  stamps its navigation may trust. Every definition is a translation of the code it names; code that
  is not in the repository (ROS, an HTTP provider, a clock, \<open>str\<close> of foreign objects) is an argument.

  Numbers. \<open>PyFloat\<close> models Python floats as the rationals of binary64 with both infinities and
  NaN, each operation rounded to nearest even, comparisons false on NaN. Python integers are \<open>int\<close>.
  \<open>PyVal\<close> holds the values JSON and configuration files deliver. An exception is an \<open>Inl\<close>.
  \<open>Traces\<close> states what a property of a whole run needs from one step (an invariant, safe outputs, a
  latch, an output at most once) as locales, interpreted on every machine below.

  Staged motion guard (\<open>scripts/staged_nav2_motion_guard.py\<close> and \<open>go2_chassis/staged_nav2_result.py\<close>). \<open>GuardClaims\<close> reads the environment
  claims and the permit, \<open>GuardPolicy\<close> is \<open>StagedNav2Guard\<close>: ownership, freshness, arming, the
  zero-command preamble, command limits and slew, the timer, the fault latch. \<open>GuardEvidence\<close> holds
  the path measurement and the stop recorder, \<open>StagedResult\<close> the result contracts. \<open>GuardSafety\<close>,
  \<open>GuardInvariant\<close> and \<open>GuardRuns\<close> prove the step facts; \<open>GuardProperties\<close>,
  \<open>ClaimProperties\<close> and \<open>EvidenceProperties\<close> state the properties of whole runs: published
  commands stay in the envelope, motion needs an armed chassis and fresh inputs, arming is requested at
  most once and with evidence. The daemon and the ROS callbacks feed it through \<open>guard_event\<close>.

  Semantic navigation (\<open>packages/semantic_navigation/semantic_navigation\<close>). \<open>Landmarks\<close> parses and resolves landmark
  documents, \<open>MapLifecycle\<close> tracks the map epoch, \<open>RunRegistry\<close> keeps the runs, \<open>CancelPolicy\<close>
  is the cancellation loop (with as many rounds as the clock needs to pass the deadline, which is
  shown to be enough), \<open>SemanticService\<close> composes them. Its registry lock makes each event atomic.
  \<open>SemanticProperties\<close>: at most one live run, a run is bound to the map epoch it started in,
  cancellation ends and reports truthfully.

  Time stamps (\<open>deploy/time-sync/navigation_stamp_discipline.py\<close>). \<open>StampConfig\<close>: policies and
  validation. \<open>StampStatistics\<close>: quantiles, drifts, envelopes, the affine correction.
  \<open>StampDiscipline\<close>: \<open>NavigationStampDiscipline\<close>; \<open>StampInvariant\<close> and \<open>StampProperties\<close> its
  sessions. The subclass the workstation deploys, \<open>AffineNavigationStampDiscipline\<close>, extends that
  record: \<open>AffineState\<close> (constructor, restart, receipt recovery), \<open>AffineStatistics\<close> (rate
  evidence, locked health), \<open>AffineQualification\<close> (reasons, the provisional model, the single-pass
  evaluation), \<open>AffineLock\<close> (commit gate, rejection, both locks), \<open>AffineDiscipline\<close> (\<open>observe\<close>,
  \<open>poll\<close>, sessions as event lists). \<open>AffineFrames\<close> says what each helper leaves alone and gives the
  locale \<open>sample_closed\<close>, what a property needs to survive \<open>observe\<close>; \<open>AffineInvariant\<close> and
  \<open>AffineSession\<close> interpret it for the invariant, the frozen model and the last kept source;
  \<open>AffineEquivalence\<close> relates the single-pass evaluation to the live routines; \<open>AffineProperties\<close>
  has the properties and \<open>AffineDemo\<close> the concrete session (qualify, lock, outage, recovery) of the
  witnesses. The relay node writes \<open>_last_clock_base_ns\<close> from outside the class while it has no
  sample; that write is not an event of a session.

  RobotTrack (\<open>packages/go2_robottrack/go2_robottrack\<close>). \<open>RobotTrackPlan\<close>: responses, clipping and
  the plan store; \<open>RobotTrackConfig\<close>: the runtime configuration; \<open>RobotTrackDistance\<close>: the
  fixed-distance controller; \<open>RobotTrackNode\<close>: the follow runtime, the command mux and the control
  path of the node. \<open>RobotTrackProperties\<close>: published twists are bounded and motion is justified by
  a fresh plan and measurement.

  Motion probes (\<open>scripts/first_motion_probe.py\<close>, \<open>second_motion_probe.py\<close>). \<open>ProbePolicy\<close>: operator
  gates, writer binding, motion and post-stop decisions; \<open>ProbeNode\<close>: callbacks and health checks;
  \<open>ProbeRun\<close>: the supervised run. The world outside answers a run by the number of each use of a
  clock, a callback or a service (\<open>probe_io\<close>); each loop has \<open>ps_fuel\<close> rounds. \<open>ProbeLogic\<close> is the
  program logic, \<open>ProbeInvariant\<close> and \<open>ProbeOutcome\<close> what a run has published and reported,
  \<open>ProbeTermination\<close> and \<open>ProbeReturns\<close> that no loop uses up its fuel once the clock advances
  (\<open>clock_advances c N (55 * fuel + 20)\<close>). \<open>ProbeProperties\<close>: what is published is guarded, disarm comes
  last, a run returns, exit code zero is earned. Not modelled there: printing, installing the signal
  handlers, and how the evidence file is encoded and rounded.

  Chassis driver (\<open>packages/go2_chassis/go2_chassis\<close>). \<open>ChassisConfig\<close>: \<open>normalize_config\<close>, the
  record it builds and the command lines (\<open>PyText\<close> has the text of floats). \<open>PermitFiles\<close>,
  \<open>StagedPermit\<close>, \<open>GoalEvidence\<close>, \<open>PermitBundle\<close>, \<open>CommissioningPermits\<close>: reading, checking and
  consuming the permits; \<open>ChassisMain\<close>: \<open>initialize\<close> and \<open>shutdown\<close>. They are programs over the
  calls of \<open>OsModel\<close> (entries, inodes, rename, faults; ROS and the Robonix runtime answer
  arbitrarily); SHA-256 and JSON decoding are arguments. \<open>IoLogic\<close> has triples over the history of
  calls and the interleaving of several programs on one file system; \<open>PermitLogic\<close>, \<open>PermitSpent\<close> and
  \<open>ChassisLaunch\<close> say what must have been seen before a process starts, \<open>PermitRace\<close> that one permit
  starts one daemon, \<open>ChassisBounds\<close> what an accepted configuration is, \<open>ChassisProcesses\<close> that no
  process is lost. \<open>ChassisDemo\<close> and \<open>ChassisRun\<close> are one concrete start; \<open>ChassisProperties\<close> has the
  properties. Paths are text, so aliases through \<open>..\<close> or links are only what \<open>fs_resolve\<close> says; closing
  a descriptor has no effect; text is ASCII; of several decoding errors the model keeps one message.

  Not modelled: ROS wiring, HTTP, threads and image transport; the C++ daemons and adapters (another
  language); deployment and readiness scripts, which shell out and inspect machines; the sensor,
  camera, description and dashboard providers, which forward data. The manifest lists them.
\<close>

end
